(* ===== verification/Prelude.thy ===== *)
theory Prelude
  imports Main "HOL-Library.Word" "HOL-Library.Char_ord"
begin

text \<open>
  Shared vocabulary of the development: the machine integer types of the C code, the
  enumerations that every service uses, undefined behaviour as a value, byte buffers and
  C strings, and the generic lemmas on them.

  \<^item> \<open>size_t\<close> is 64 bits wide (the LP64 Linux build of the Makefile), \<open>unsigned int\<close>
    and \<open>uint32_t\<close> are 32 bits wide.
  \<^item> A C string is a \<open>string\<close> without its terminating NUL; a pointer that may be NULL is an
    \<open>option\<close>.
  \<^item> A run that reaches undefined behaviour of C yields \<open>Inl\<close> of a \<open>fault\<close>; a defined run
    yields \<open>Inr\<close>.
\<close>

named_theorems os_simps \<open>unfolding the wrappers around the operating system layer\<close>
named_theorems fault_simps \<open>propagation of undefined behaviour\<close>

subsection \<open>Integers\<close>

type_synonym u8 = "8 word"
type_synonym u32 = "32 word"
type_synonym u64 = "64 word"
type_synonym size_t = "64 word"

subsection \<open>Enumerations shared by the services\<close>

text \<open>\<open>ccimp_status_t\<close> of include/ccimp/ccimp_types.h.\<close>

datatype ccimp_status_t = CCIMP_STATUS_OK | CCIMP_STATUS_BUSY | CCIMP_STATUS_ERROR

text \<open>
  The callback statuses and the API statuses of the connector state machine, with the
  enumerators the sources under source/ name.
\<close>

datatype connector_callback_status_t =
    connector_callback_continue
  | connector_callback_busy
  | connector_callback_abort
  | connector_callback_error
  | connector_callback_unrecognized

datatype connector_status_t =
    connector_success
  | connector_init_error
  | connector_invalid_data_size
  | connector_invalid_data_range
  | connector_invalid_data
  | connector_keepalive_error
  | connector_bad_version
  | connector_device_terminated
  | connector_service_busy
  | connector_invalid_response
  | connector_no_resource
  | connector_unavailable
  | connector_idle
  | connector_working
  | connector_pending
  | connector_active
  | connector_abort
  | connector_device_error
  | connector_exceed_timeout
  | connector_invalid_payload_packet
  | connector_open_error

text \<open>\<open>ccapi_thread_status_t\<close> of source/ccapi_definitions.h.\<close>

datatype ccapi_thread_status_t =
    CCAPI_THREAD_NOT_STARTED
  | CCAPI_THREAD_REQUEST_START
  | CCAPI_THREAD_RUNNING
  | CCAPI_THREAD_REQUEST_STOP

datatype ccapi_transport_t = CCAPI_TRANSPORT_TCP | CCAPI_TRANSPORT_UDP | CCAPI_TRANSPORT_SMS

datatype connector_transport_t =
    connector_transport_tcp
  | connector_transport_udp
  | connector_transport_sms
  | connector_transport_all

datatype ccapi_transport_stop_t =
    CCAPI_TRANSPORT_STOP_GRACEFULLY
  | CCAPI_TRANSPORT_STOP_IMMEDIATELY

datatype connector_stop_condition_t =
    connector_wait_sessions_complete
  | connector_stop_immediately

subsection \<open>Undefined behaviour as a value\<close>

datatype fault =
    Null_Dereference
  | Out_Of_Bounds
  | Use_After_Free
  | Wild_Free
  | Division_By_Zero
  | Uninitialised_Read
  | Bad_Variadic_Argument
  | Foreign_Free

type_synonym 'a ub = "fault + 'a"

definition ub_bind :: "'a ub \<Rightarrow> ('a \<Rightarrow> 'b ub) \<Rightarrow> 'b ub" where
  "ub_bind m f = (case m of Inl e \<Rightarrow> Inl e | Inr a \<Rightarrow> f a)"

lemma ub_bind_Inl [simp, fault_simps]: "ub_bind (Inl e) f = Inl e"
  by (simp add: ub_bind_def)

lemma ub_bind_Inr [simp, fault_simps]: "ub_bind (Inr a) f = f a"
  by (simp add: ub_bind_def)

lemma ub_bind_Inr_iff:
  "ub_bind m f = Inr b \<longleftrightarrow> (\<exists>a. m = Inr a \<and> f a = Inr b)"
  by (cases m) simp_all

lemma ub_bind_InrE [elim!]:
  assumes "ub_bind m f = Inr b"
  obtains a where "m = Inr a" and "f a = Inr b"
  using assms by (auto simp: ub_bind_Inr_iff)

lemma ub_bind_assoc: "ub_bind (ub_bind m f) g = ub_bind m (\<lambda>a. ub_bind (f a) g)"
  by (cases m) simp_all

text \<open>
  An operation that may also wait for ever: \<open>None\<close> when it does not return, otherwise a defined
  result or a fault.
\<close>

type_synonym 'a run = "'a ub option"

definition run_bind :: "'a run \<Rightarrow> ('a \<Rightarrow> 'b run) \<Rightarrow> 'b run" where
  "run_bind m f = (case m of None \<Rightarrow> None | Some (Inl e) \<Rightarrow> Some (Inl e) | Some (Inr a) \<Rightarrow> f a)"

lemma run_bind_simps [simp]:
  "run_bind None f = None" "run_bind (Some (Inl e)) f = Some (Inl e)" "run_bind (Some (Inr a)) f = f a"
  by (simp_all add: run_bind_def)

lemma run_bind_Inr_iff:
  "run_bind m f = Some (Inr b) \<longleftrightarrow> (\<exists>a. m = Some (Inr a) \<and> f a = Some (Inr b))"
  by (auto simp: run_bind_def split: option.splits sum.splits)

lemma run_bind_InrE [elim!]:
  assumes "run_bind m f = Some (Inr b)"
  obtains a where "m = Some (Inr a)" and "f a = Some (Inr b)"
  using assms by (auto simp: run_bind_Inr_iff)

text \<open>A field that may not have been written yet.\<close>

definition read_field :: "'a option \<Rightarrow> 'a ub" where
  "read_field x = (case x of None \<Rightarrow> Inl Uninitialised_Read | Some v \<Rightarrow> Inr v)"

subsection \<open>Byte buffers\<close>

text \<open>
  A heap buffer is a list of bytes; a byte that was allocated and never written is
  \<open>None\<close>. \<open>memcpy_at buf off src\<close> is \<open>memcpy(&buf[off], src, n)\<close> with \<open>n\<close> the length of
  \<open>src\<close>: it is undefined unless the written range lies inside the buffer.
\<close>

type_synonym 'b buffer = "'b option list"

definition memcpy_at :: "'b buffer \<Rightarrow> nat \<Rightarrow> 'b list \<Rightarrow> 'b buffer ub" where
  "memcpy_at buf off src =
     (if off + length src \<le> length buf
      then Inr (take off buf @ map Some src @ drop (off + length src) buf)
      else Inl Out_Of_Bounds)"

lemma memcpy_at_defined_iff:
  "(\<exists>b. memcpy_at buf off src = Inr b) \<longleftrightarrow> off + length src \<le> length buf"
  by (simp add: memcpy_at_def)

lemma memcpy_at_length:
  "memcpy_at buf off src = Inr b \<Longrightarrow> length b = length buf"
  by (auto simp: memcpy_at_def split: if_splits)

lemma memcpy_at_appends:
  assumes "memcpy_at buf (length pre) src = Inr b"
    and "take (length pre) buf = map Some pre"
  shows "take (length pre + length src) b = map Some (pre @ src)"
  using assms by (auto simp: memcpy_at_def split: if_splits)

subsection \<open>C strings\<close>

text \<open>Reading the string that starts a buffer: up to the first NUL, which has to be there.\<close>

definition c_string :: "char buffer \<Rightarrow> string ub" where
  "c_string buf =
     (let pre = takeWhile (\<lambda>b. b \<noteq> Some (CHR 0x00)) buf
      in if length pre = length buf then Inl Out_Of_Bounds
         else if None \<in> set pre then Inl Uninitialised_Read
         else Inr (map the pre))"

lemma c_string_defined:
  assumes "CHR 0x00 \<notin> set xs"
  shows "c_string (map Some xs @ Some (CHR 0x00) # rest) = Inr xs"
proof -
  have "takeWhile (\<lambda>b. b \<noteq> Some (CHR 0x00)) (map Some xs @ Some (CHR 0x00) # rest) = map Some xs"
    using assms by (subst takeWhile_append2) auto
  then show ?thesis by (auto simp: c_string_def Let_def comp_def)
qed

text \<open>
  \<open>strncmp_eq a b n\<close> is \<open>strncmp(a, b, n) == 0\<close>: the comparison stops after \<open>n\<close> characters
  or at the first NUL, which is the end of the list here.
\<close>

fun strncmp_eq :: "string \<Rightarrow> string \<Rightarrow> nat \<Rightarrow> bool" where
  "strncmp_eq a b 0 = True"
| "strncmp_eq [] [] (Suc n) = True"
| "strncmp_eq [] (y # ys) (Suc n) = False"
| "strncmp_eq (x # xs) [] (Suc n) = False"
| "strncmp_eq (x # xs) (y # ys) (Suc n) = (x = y \<and> strncmp_eq xs ys n)"

lemma strncmp_eq_take: "strncmp_eq a b n \<longleftrightarrow> take n a = take n b"
  by (induction a b n rule: strncmp_eq.induct) auto

lemma strncmp_eq_longest:
  assumes "max (length a) (length b) \<le> n"
  shows "strncmp_eq a b n \<longleftrightarrow> a = b"
  using assms by (simp add: strncmp_eq_take)

text \<open>
  \<open>isalnum\<close> in the C locale, on the character code.
\<close>

definition isalnum :: "char \<Rightarrow> bool" where
  "isalnum c =
     (let n = (of_char c :: nat)
      in (48 \<le> n \<and> n \<le> 57) \<or> (65 \<le> n \<and> n \<le> 90) \<or> (97 \<le> n \<and> n \<le> 122))"

subsection \<open>Lists\<close>

text \<open>Removing position \<open>i\<close>: what \<open>*p = (*p)->next\<close> does to the list that \<open>p\<close> points into.\<close>

definition unlink_at :: "nat \<Rightarrow> 'a list \<Rightarrow> 'a list" where
  "unlink_at i xs = take i xs @ drop (Suc i) xs"

lemma unlink_at_beyond [simp]: "length xs \<le> i \<Longrightarrow> unlink_at i xs = xs"
  by (simp add: unlink_at_def)

lemma unlink_at_Cons [simp]:
  "unlink_at 0 (x # xs) = xs"
  "unlink_at (Suc i) (x # xs) = x # unlink_at i xs"
  by (simp_all add: unlink_at_def)

lemma length_unlink_at: "i < length xs \<Longrightarrow> length (unlink_at i xs) = length xs - 1"
  by (simp add: unlink_at_def)

lemma set_unlink_at_subset: "set (unlink_at i xs) \<subseteq> set xs"
  by (auto simp: unlink_at_def dest: in_set_takeD in_set_dropD)

subsection \<open>Indices into a ring\<close>

lemma mod_window_inj_aux:
  fixes a b N :: nat
  assumes "a \<le> b" and "b < a + N" and "a mod N = b mod N"
  shows "a = b"
proof -
  have "N dvd b - a" by (rule mod_eq_dvd_iff_nat [OF assms(1), THEN iffD1, OF assms(3) [symmetric]])
  moreover have "b - a < N" using assms by simp
  ultimately have "b - a = 0" using dvd_imp_le by fastforce
  then show ?thesis using assms(1) by simp
qed

lemma mod_window_inj:
  fixes a b N D :: nat
  assumes "D \<le> a" and "a < D + N" and "D \<le> b" and "b < D + N" and "a mod N = b mod N"
  shows "a = b"
proof (cases "a \<le> b")
  case True
  show ?thesis by (rule mod_window_inj_aux [of a b N]) (use assms True in simp_all)
next
  case False
  show ?thesis by (rule mod_window_inj_aux [of b a N, symmetric]) (use assms False in simp_all)
qed

subsection \<open>Words that hold a natural number\<close>

lemma unat_of_nat_small:
  assumes "n < 2 ^ LENGTH('a)" shows "unat (of_nat n :: 'a::len word) = n"
  using assms by (simp add: unsigned_of_nat take_bit_nat_eq_self)

lemma unat_of_nat_u32: "n < 2 ^ 32 \<Longrightarrow> unat (of_nat n :: u32) = n"
  by (rule unat_of_nat_small) simp

lemma unat_of_nat_u64: "n < 2 ^ 64 \<Longrightarrow> unat (of_nat n :: u64) = n"
  by (rule unat_of_nat_small) simp

lemma of_nat_u32_inj:
  assumes "m < 2 ^ 32" and "n < 2 ^ 32"
  shows "(of_nat m :: u32) = of_nat n \<longleftrightarrow> m = n"
  using assms by (metis unat_of_nat_u32)

lemma unat_ucast_32_64 [simp]: "unat (ucast (x :: u32) :: u64) = unat x"
proof -
  have "unat x < 2 ^ 64" using unsigned_less [of x, where 'a = nat] by simp
  then show ?thesis by (simp add: unsigned_ucast_eq take_bit_nat_eq_self)
qed

lemma unat_ucast_64_32: "unat (x :: u64) < 2 ^ 32 \<Longrightarrow> unat (ucast x :: u32) = unat x"
  by (simp add: unsigned_ucast_eq take_bit_nat_eq_self)

lemma unat_minus_le: "b \<le> a \<Longrightarrow> unat (a - b) = unat a - unat (b :: 'a::len word)"
  by (simp add: unat_sub_if' word_le_nat_alt)

lemma unat_plus_small:
  assumes "unat a + unat b < 2 ^ LENGTH('a)" shows "unat (a + b) = unat a + unat (b :: 'a::len word)"
  using assms by (simp add: unat_add_lem)

lemma ucast_of_nat_64_32: "n < 2 ^ 64 \<Longrightarrow> ucast (of_nat n :: u64) = (of_nat n :: u32)"
  by (simp add: unsigned_of_nat take_bit_nat_eq_self)

end
