(* ===== verification/Core.thy ===== *)
theory Core
  imports Prelude "HOL-Library.While_Combinator"
begin

text \<open>
  The part of source/ccapi.c every service is built on: the wrappers around memory and
  locks, the conversions between the enumerations of CCAPI and of the connector state
  machine, the secured call into the state machine and the loops that repeat it while it
  answers \<open>connector_service_busy\<close>.

  The operating system layer (the \<open>ccimp_os_*\<close> functions) and the connector state machine
  (\<open>connector_initiate_action\<close>) are supplied by the integrator: the record \<open>os\<close> and the
  arguments named \<open>initiate\<close> stand for them. They read and change an arbitrary world of
  type \<open>'w\<close>, which every operation threads in the order the code makes its calls.
\<close>

subsection \<open>The operating system layer\<close>

type_synonym ptr = "nat option"

text \<open>The argument of \<open>malloc\<close>: a number of bytes, or the size of a named C type.\<close>

datatype malloc_request = Bytes nat | Sizeof string | Array_Of nat string

record 'w os =
  os_malloc :: "malloc_request \<Rightarrow> 'w \<Rightarrow> (ccimp_status_t \<times> bool) \<times> 'w"
  os_free :: "'w \<Rightarrow> ccimp_status_t \<times> 'w"
  os_lock_create :: "'w \<Rightarrow> (ccimp_status_t \<times> ptr) \<times> 'w"
  os_lock_acquire :: "nat \<Rightarrow> u64 \<Rightarrow> 'w \<Rightarrow> (ccimp_status_t \<times> bool) \<times> 'w"
  os_lock_release :: "ptr \<Rightarrow> 'w \<Rightarrow> ccimp_status_t \<times> 'w"
  os_lock_destroy :: "ptr \<Rightarrow> 'w \<Rightarrow> ccimp_status_t \<times> 'w"
  os_yield :: "'w \<Rightarrow> 'w"
  build_debug :: bool

text \<open>
  \<open>build_debug\<close> is the build option CCIMP_DEBUG_ENABLED. Without it
  source/ccapi_definitions.h defines \<open>ASSERT_MSG(cond)\<close> as nothing at all, so the call inside
  the condition is not made either: \<open>ASSERT_MSG(ccapi_lock_release(lock) == CCIMP_STATUS_OK)\<close>
  releases the lock in a debug build only.
\<close>

text \<open>
  \<open>ccapi_malloc\<close> answers whether the pointer it returns is not NULL; what the block holds is
  modelled where it is used.
\<close>

definition ccapi_malloc :: "'w os \<Rightarrow> malloc_request \<Rightarrow> 'w \<Rightarrow> bool \<times> 'w" where
  "ccapi_malloc os req w =
     (case os_malloc os req w of
        ((status, nonnull), w') \<Rightarrow>
          (case status of
             CCIMP_STATUS_OK \<Rightarrow> (nonnull, w')
           | CCIMP_STATUS_ERROR \<Rightarrow> (False, w')
           | CCIMP_STATUS_BUSY \<Rightarrow> (False, w')))"

text \<open>\<open>nonnull\<close> says whether the pointer to free is not NULL.\<close>

definition ccapi_free :: "'w os \<Rightarrow> bool \<Rightarrow> 'w \<Rightarrow> ccimp_status_t \<times> 'w" where
  "ccapi_free os nonnull w = (if \<not> nonnull then (CCIMP_STATUS_OK, w) else os_free os w)"

definition ccapi_strdup :: "'w os \<Rightarrow> string \<Rightarrow> 'w \<Rightarrow> string option \<times> 'w" where
  "ccapi_strdup os s w =
     (case ccapi_malloc os (Bytes (length s + 1)) w of
        (ok, w') \<Rightarrow> (if ok then Some s else None, w'))"

definition OS_LOCK_ACQUIRE_INFINITE :: u64 where
  "OS_LOCK_ACQUIRE_INFINITE = - 1"

definition ccapi_lock_create :: "'w os \<Rightarrow> 'w \<Rightarrow> ptr \<times> 'w" where
  "ccapi_lock_create os w =
     (case os_lock_create os w of
        ((status, lock), w') \<Rightarrow>
          (case status of
             CCIMP_STATUS_OK \<Rightarrow> (lock, w')
           | CCIMP_STATUS_BUSY \<Rightarrow> (None, w')
           | CCIMP_STATUS_ERROR \<Rightarrow> (None, w')))"

definition ccapi_lock_release :: "'w os \<Rightarrow> ptr \<Rightarrow> 'w \<Rightarrow> ccimp_status_t \<times> 'w" where
  "ccapi_lock_release os lock w = os_lock_release os lock w"

definition ccapi_lock_create_and_release :: "'w os \<Rightarrow> 'w \<Rightarrow> ptr \<times> 'w" where
  "ccapi_lock_create_and_release os w =
     (case ccapi_lock_create os w of
        (lock, w1) \<Rightarrow>
          (if lock = None then (None, w1)
           else
             (case ccapi_lock_release os lock w1 of
                (CCIMP_STATUS_OK, w2) \<Rightarrow> (lock, w2)
              | (CCIMP_STATUS_BUSY, w2) \<Rightarrow> (None, w2)
              | (CCIMP_STATUS_ERROR, w2) \<Rightarrow> (None, w2))))"

definition ccapi_lock_acquire :: "'w os \<Rightarrow> ptr \<Rightarrow> 'w \<Rightarrow> ccimp_status_t \<times> 'w" where
  "ccapi_lock_acquire os lock w =
     (case lock of
        None \<Rightarrow> (CCIMP_STATUS_ERROR, w)
      | Some l \<Rightarrow>
          (case os_lock_acquire os l OS_LOCK_ACQUIRE_INFINITE w of
             ((status, acquired), w') \<Rightarrow>
               (if status = CCIMP_STATUS_OK \<and> \<not> acquired then (CCIMP_STATUS_ERROR, w')
                else (status, w'))))"

definition ccapi_lock_destroy :: "'w os \<Rightarrow> ptr \<Rightarrow> 'w \<Rightarrow> ccimp_status_t \<times> 'w" where
  "ccapi_lock_destroy os lock w = os_lock_destroy os lock w"

definition ASSERT_MSG_lock_release :: "'w os \<Rightarrow> ptr \<Rightarrow> 'w \<Rightarrow> 'w" where
  "ASSERT_MSG_lock_release os lock w =
     (if build_debug os then snd (ccapi_lock_release os lock w) else w)"

lemma ccapi_lock_acquire_NULL [simp]:
  "ccapi_lock_acquire os None w = (CCIMP_STATUS_ERROR, w)"
  by (simp add: ccapi_lock_acquire_def)

lemma ccapi_lock_acquire_OK:
  "ccapi_lock_acquire os lock w = (CCIMP_STATUS_OK, w') \<longleftrightarrow>
     (\<exists>l. lock = Some l \<and>
       os_lock_acquire os l OS_LOCK_ACQUIRE_INFINITE w = ((CCIMP_STATUS_OK, True), w'))"
  by (auto simp: ccapi_lock_acquire_def split: option.splits prod.splits if_splits)

subsection \<open>Conversions\<close>

definition connector_callback_status_from_ccimp_status ::
  "ccimp_status_t \<Rightarrow> connector_callback_status_t" where
  "connector_callback_status_from_ccimp_status ccimp_status =
     (case ccimp_status of
        CCIMP_STATUS_ERROR \<Rightarrow> connector_callback_error
      | CCIMP_STATUS_OK \<Rightarrow> connector_callback_continue
      | CCIMP_STATUS_BUSY \<Rightarrow> connector_callback_busy)"

definition ccapi_to_connector_transport :: "ccapi_transport_t \<Rightarrow> connector_transport_t" where
  "ccapi_to_connector_transport ccapi_transport =
     (case ccapi_transport of
        CCAPI_TRANSPORT_TCP \<Rightarrow> connector_transport_tcp
      | CCAPI_TRANSPORT_UDP \<Rightarrow> connector_transport_udp
      | CCAPI_TRANSPORT_SMS \<Rightarrow> connector_transport_sms)"

definition ccapi_to_connector_stop :: "ccapi_transport_stop_t \<Rightarrow> connector_stop_condition_t" where
  "ccapi_to_connector_stop ccapi_stop =
     (case ccapi_stop of
        CCAPI_TRANSPORT_STOP_GRACEFULLY \<Rightarrow> connector_wait_sessions_complete
      | CCAPI_TRANSPORT_STOP_IMMEDIATELY \<Rightarrow> connector_stop_immediately)"

lemma connector_callback_status_from_ccimp_status_simps [simp]:
  "connector_callback_status_from_ccimp_status CCIMP_STATUS_OK = connector_callback_continue"
  "connector_callback_status_from_ccimp_status CCIMP_STATUS_BUSY = connector_callback_busy"
  "connector_callback_status_from_ccimp_status CCIMP_STATUS_ERROR = connector_callback_error"
  by (simp_all add: connector_callback_status_from_ccimp_status_def)

lemma connector_callback_status_inj:
  "connector_callback_status_from_ccimp_status a = connector_callback_status_from_ccimp_status b
     \<longleftrightarrow> a = b"
  by (cases a; cases b) simp_all

subsection \<open>Loops that repeat a call while it is busy\<close>

text \<open>
  \<open>retry_loop body busy yield x\<close> runs \<open>body\<close>, and as long as \<open>busy\<close> holds of what it left
  runs \<open>yield\<close> and \<open>body\<close> again. \<open>None\<close> means that the loop never ends.
\<close>

definition retry_loop :: "('x \<Rightarrow> 'x) \<Rightarrow> ('x \<Rightarrow> bool) \<Rightarrow> ('x \<Rightarrow> 'x) \<Rightarrow> 'x \<Rightarrow> 'x option" where
  "retry_loop body busy yield x = while_option busy (\<lambda>y. body (yield y)) (body x)"

lemma retry_loop_once: "\<not> busy (body x) \<Longrightarrow> retry_loop body busy yield x = Some (body x)"
  by (simp add: retry_loop_def while_option_unfold)

lemma retry_loop_again:
  "busy (body x) \<Longrightarrow> retry_loop body busy yield x = retry_loop body busy yield (yield (body x))"
  by (simp add: retry_loop_def while_option_unfold)

lemma retry_loop_not_busy: "retry_loop body busy yield x = Some y \<Longrightarrow> \<not> busy y"
  unfolding retry_loop_def by (rule while_option_stop)

text \<open>
  The loop ends exactly if some round of it is not busy, and its result satisfies whatever
  every round keeps.
\<close>

lemma retry_loop_terminates_iff:
  "(\<exists>y. retry_loop body busy yield x = Some y) \<longleftrightarrow>
     (\<exists>n. \<not> busy (((\<lambda>y. body (yield y)) ^^ n) (body x)))"
  by (auto simp: retry_loop_def while_option_def)

lemma retry_loop_invariant:
  assumes "retry_loop body busy yield x = Some y"
    and "\<And>s. P s \<Longrightarrow> P (body s)" and "\<And>s. P s \<Longrightarrow> P (yield s)" and "P x"
  shows "P y"
  using assms(1) unfolding retry_loop_def
  by (rule while_option_rule [where P = P, rotated]) (use assms(2-4) in auto)

subsection \<open>Calls into the connector state machine\<close>

text \<open>
  \<open>connector_initiate_action_secure\<close>: the call is made under \<open>initiate_action_lock\<close>, and a
  lock that fails makes the result \<open>connector_abort\<close>; the run thread is woken by releasing
  its lock, \<open>run_lock\<close>.
\<close>

definition connector_initiate_action_secure ::
  "'w os \<Rightarrow> ('r \<Rightarrow> 'w \<Rightarrow> connector_status_t \<times> 'w) \<Rightarrow> ptr \<Rightarrow> ptr \<Rightarrow> 'r \<Rightarrow> 'w
     \<Rightarrow> connector_status_t \<times> 'w" where
  "connector_initiate_action_secure os initiate initiate_action_lock run_lock request w =
     (case ccapi_lock_acquire os initiate_action_lock w of
        (CCIMP_STATUS_BUSY, w1) \<Rightarrow> (connector_abort, w1)
      | (CCIMP_STATUS_ERROR, w1) \<Rightarrow> (connector_abort, w1)
      | (CCIMP_STATUS_OK, w1) \<Rightarrow>
          (case initiate request w1 of
             (ccfsm_status, w2) \<Rightarrow>
               (case ccapi_lock_release os initiate_action_lock w2 of
                  (CCIMP_STATUS_BUSY, w3) \<Rightarrow> (connector_abort, w3)
                | (CCIMP_STATUS_ERROR, w3) \<Rightarrow> (connector_abort, w3)
                | (CCIMP_STATUS_OK, w3) \<Rightarrow>
                    (ccfsm_status, snd (ccapi_lock_release os run_lock w3)))))"

text \<open>
  The loop \<open>for (;;)\<close> around it, which every caller has: repeat while the answer is
  \<open>connector_service_busy\<close>, yielding in between.
\<close>

definition initiate_until_not_busy ::
  "'w os \<Rightarrow> ('r \<Rightarrow> 'w \<Rightarrow> connector_status_t \<times> 'w) \<Rightarrow> ptr \<Rightarrow> ptr \<Rightarrow> 'r \<Rightarrow> 'w
     \<Rightarrow> (connector_status_t \<times> 'w) option" where
  "initiate_until_not_busy os initiate initiate_action_lock run_lock request w =
     retry_loop
       (\<lambda>(s, w). connector_initiate_action_secure os initiate initiate_action_lock run_lock request w)
       (\<lambda>(s, w). s = connector_service_busy)
       (\<lambda>(s, w). (s, os_yield os w))
       (connector_service_busy, w)"

record connector_initiate_stop_request_t =
  stop_transport :: connector_transport_t
  stop_condition :: connector_stop_condition_t

definition ccapi_initiate_transport_stop ::
  "'w os \<Rightarrow> (connector_initiate_stop_request_t \<Rightarrow> 'w \<Rightarrow> connector_status_t \<times> 'w) \<Rightarrow> ptr \<Rightarrow> ptr
     \<Rightarrow> ccapi_transport_t \<Rightarrow> ccapi_transport_stop_t \<Rightarrow> 'w \<Rightarrow> (connector_status_t \<times> 'w) option" where
  "ccapi_initiate_transport_stop os initiate initiate_action_lock run_lock transport behavior w =
     initiate_until_not_busy os initiate initiate_action_lock run_lock
       \<lparr>stop_transport = ccapi_to_connector_transport transport,
        stop_condition = ccapi_to_connector_stop behavior\<rparr> w"

lemma initiate_until_not_busy_not_busy:
  "initiate_until_not_busy os initiate l r req w = Some (s, w') \<Longrightarrow> s \<noteq> connector_service_busy"
  unfolding initiate_until_not_busy_def by (drule retry_loop_not_busy) simp

lemma initiate_not_busy_once:
  assumes "connector_initiate_action_secure os initiate l r req w = (s, w')"
    and "s \<noteq> connector_service_busy"
  shows "initiate_until_not_busy os initiate l r req w = Some (s, w')"
  unfolding initiate_until_not_busy_def by (subst retry_loop_once) (simp_all add: assms)

lemma initiate_without_lock:
  assumes "ccapi_lock_acquire os l w = (st, w1)" and "st \<noteq> CCIMP_STATUS_OK"
  shows "initiate_until_not_busy os initiate l r req w = Some (connector_abort, w1)"
  by (rule initiate_not_busy_once)
     (use assms in \<open>cases st; simp add: connector_initiate_action_secure_def\<close>)+

subsection \<open>An operating system layer for concrete runs\<close>

text \<open>Every request succeeds and nothing is recorded; used where a run is evaluated.\<close>

definition example_os :: "'w os" where
  "example_os =
     \<lparr>os_malloc = (\<lambda>req w. ((CCIMP_STATUS_OK, True), w)), os_free = (\<lambda>w. (CCIMP_STATUS_OK, w)),
      os_lock_create = (\<lambda>w. ((CCIMP_STATUS_OK, Some 1), w)),
      os_lock_acquire = (\<lambda>l t w. ((CCIMP_STATUS_OK, True), w)),
      os_lock_release = (\<lambda>l w. (CCIMP_STATUS_OK, w)), os_lock_destroy = (\<lambda>l w. (CCIMP_STATUS_OK, w)),
      os_yield = (\<lambda>w. w), build_debug = False\<rparr>"

lemma example_os_simps [simp]:
  "ccapi_malloc example_os req w = (True, w)"
  "ccapi_free example_os nonnull w = (CCIMP_STATUS_OK, w)"
  "ccapi_lock_create example_os w = (Some 1, w)"
  "ccapi_lock_acquire example_os (Some l) w = (CCIMP_STATUS_OK, w)"
  "ccapi_lock_release example_os lock w = (CCIMP_STATUS_OK, w)"
  "ccapi_lock_destroy example_os lock w = (CCIMP_STATUS_OK, w)"
  "ASSERT_MSG_lock_release example_os lock w = w"
  "os_yield example_os w = w"
  by (simp_all add: example_os_def ccapi_malloc_def ccapi_free_def ccapi_lock_create_def
      ccapi_lock_acquire_def ccapi_lock_release_def ccapi_lock_destroy_def
      ASSERT_MSG_lock_release_def)

end
