(* ===== verification/Firmware.thy ===== *)
theory Firmware
  imports Core
begin

text \<open>
  The firmware update service, source/ccapi_firmware_update_handler.c: the callbacks of the
  connector state machine fill a ring of chunk buffers, a thread of its own hands the filled
  chunks to the user's data callback.

  State and operations are modelled here; the invariant and the theorems about whole updates
  are in the theory of the byte stream. \<open>CCAPI_CHUNK_POOL_SIZE\<close> is the length of the pool, so the
  results hold for any value of that macro. Two fields are not in the C structure:
  \<open>fw_delivered\<close> records the calls of the data callback in order, and \<open>fw_live_buffers\<close> counts
  the chunk buffers that were allocated and not freed.
\<close>

subsection \<open>Data\<close>

datatype ccapi_fw_request_error_t =
    CCAPI_FW_REQUEST_ERROR_NONE
  | CCAPI_FW_REQUEST_ERROR_DOWNLOAD_DENIED
  | CCAPI_FW_REQUEST_ERROR_DOWNLOAD_INVALID_SIZE
  | CCAPI_FW_REQUEST_ERROR_DOWNLOAD_INVALID_VERSION
  | CCAPI_FW_REQUEST_ERROR_DOWNLOAD_UNAUTHENTICATED
  | CCAPI_FW_REQUEST_ERROR_DOWNLOAD_NOT_ALLOWED
  | CCAPI_FW_REQUEST_ERROR_DOWNLOAD_CONFIGURED_TO_REJECT
  | CCAPI_FW_REQUEST_ERROR_ENCOUNTERED_ERROR

datatype ccapi_fw_data_error_t = CCAPI_FW_DATA_ERROR_NONE | CCAPI_FW_DATA_ERROR_INVALID_DATA

datatype ccapi_fw_cancel_error_t =
    CCAPI_FW_CANCEL_USER_ABORT
  | CCAPI_FW_CANCEL_DEVICE_ERROR
  | CCAPI_FW_CANCEL_INVALID_OFFSET
  | CCAPI_FW_CANCEL_INVALID_DATA
  | CCAPI_FW_CANCEL_HARDWARE_ERROR

text \<open>The enumerators of the connector's firmware statuses that the handler names.\<close>

datatype connector_firmware_status_t =
    connector_firmware_status_success
  | connector_firmware_status_user_abort
  | connector_firmware_status_device_error
  | connector_firmware_status_invalid_offset
  | connector_firmware_status_invalid_data
  | connector_firmware_status_hardware_error
  | connector_firmware_status_download_denied
  | connector_firmware_status_download_invalid_size
  | connector_firmware_status_download_invalid_version
  | connector_firmware_status_download_unauthenticated
  | connector_firmware_status_download_not_allowed
  | connector_firmware_status_download_configured_to_reject
  | connector_firmware_status_encountered_error

datatype connector_firmware_download_status_t =
    connector_firmware_download_success
  | connector_firmware_download_not_complete

record ccapi_firmware_target_version_t =
  version_major :: u8
  version_minor :: u8
  version_revision :: u8
  version_build :: u8

record ccapi_firmware_target_t =
  target_version :: ccapi_firmware_target_version_t
  target_description :: "string option"
  target_filespec :: "string option"
  target_maximum_size :: size_t
  target_chunk_size :: size_t

record ccapi_fw_chunk_info =
  chunk_in_use :: bool
  chunk_offset :: u32
  chunk_data :: "u8 buffer option"
  chunk_bytes :: size_t
  chunk_last :: bool

text \<open>One call of the user's data callback.\<close>

record fw_delivery =
  dlv_target :: u32
  dlv_offset :: u32
  dlv_data :: "u8 buffer option"
  dlv_bytes :: size_t
  dlv_last :: bool

text \<open>
  \<open>service.firmware_update\<close> with the firmware thread: \<open>fw_wakeups\<close> is the count of the
  semaphore \<open>thread.firmware->lock\<close>, \<open>fw_in_callback\<close> holds, while the thread is between the
  call of the data callback and the bookkeeping after it, the slot it points to and the answer.
\<close>

record 'w fw_service =
  fw_supported :: bool
  fw_items :: "ccapi_firmware_target_t list"
  fw_request_cb :: "(u32 \<Rightarrow> string \<Rightarrow> size_t \<Rightarrow> 'w \<Rightarrow> ccapi_fw_request_error_t \<times> 'w) option"
  fw_data_cb ::
    "(u32 \<Rightarrow> u32 \<Rightarrow> u8 buffer option \<Rightarrow> size_t \<Rightarrow> bool \<Rightarrow> 'w \<Rightarrow> ccapi_fw_data_error_t \<times> 'w) option"
  fw_cancel_cb :: "(u32 \<Rightarrow> ccapi_fw_cancel_error_t option \<Rightarrow> 'w \<Rightarrow> 'w) option"
  fw_reset_cb ::
    "(u32 \<Rightarrow> bool \<Rightarrow> ccapi_firmware_target_version_t \<Rightarrow> 'w
        \<Rightarrow> (bool \<times> ccapi_firmware_target_version_t) \<times> 'w) option"
  fw_update_started :: bool
  fw_target :: u32
  fw_total_size :: u32
  fw_pool :: "ccapi_fw_chunk_info list"
  fw_pool_head :: nat
  fw_pool_tail :: nat
  fw_head_offset :: u32
  fw_tail_offset :: u32
  fw_bytes_processed :: u32
  fw_data_error :: ccapi_fw_data_error_t
  fw_thread_status :: ccapi_thread_status_t
  fw_wakeups :: nat
  fw_in_callback :: "(nat \<times> ccapi_fw_data_error_t) option"
  fw_delivered :: "fw_delivery list"
  fw_live_buffers :: nat

record connector_firmware_download_start_t =
  start_target_number :: u32
  start_filename :: string
  start_code_size :: size_t
  start_status :: connector_firmware_status_t

record connector_firmware_download_data_t =
  data_target_number :: u32
  data_image_offset :: u32
  data_image_data :: "u8 list"
  data_image_bytes_used :: size_t
  data_status :: connector_firmware_status_t

record connector_firmware_download_complete_t =
  complete_target_number :: u32
  complete_status :: connector_firmware_download_status_t

record connector_firmware_download_abort_t =
  abort_target_number :: u32
  abort_status :: connector_firmware_status_t

record connector_firmware_info_t =
  info_target_number :: u32
  info_version :: ccapi_firmware_target_version_t
  info_description :: "string option"
  info_filespec :: "string option"

definition CCIMP_MSG_MAX_RECV_PACKET_SIZE :: size_t where
  "CCIMP_MSG_MAX_RECV_PACKET_SIZE = 1500 - 20 - 20"

subsection \<open>Stopping an update\<close>

text \<open>The loop of \<open>free_and_stop_service\<close>: every buffer of the pool is freed.\<close>

fun free_chunks :: "'w os \<Rightarrow> ccapi_fw_chunk_info list \<Rightarrow> 'w \<Rightarrow> ccapi_fw_chunk_info list \<times> nat \<times> 'w"
where
  "free_chunks os [] w = ([], 0, w)"
| "free_chunks os (c # cs) w =
     (if chunk_data c \<noteq> None
      then let (_, w1) = ccapi_free os True w; (cs', n, w2) = free_chunks os cs w1
           in (c\<lparr>chunk_data := None\<rparr> # cs', Suc n, w2)
      else let (cs', n, w2) = free_chunks os cs w in (c # cs', n, w2))"

definition free_and_stop_service :: "'w os \<Rightarrow> 'w fw_service \<Rightarrow> 'w \<Rightarrow> 'w fw_service \<times> 'w" where
  "free_and_stop_service os d w =
     (let (pool, n, w') = free_chunks os (fw_pool d) w
      in (d\<lparr>fw_pool := pool, fw_update_started := False,
            fw_live_buffers := fw_live_buffers d - n\<rparr>, w'))"

subsection \<open>Download start\<close>

text \<open>The answer of the user's request callback as a status of the connector.\<close>

definition fw_request_status :: "ccapi_fw_request_error_t \<Rightarrow> connector_firmware_status_t option" where
  "fw_request_status e =
     (case e of
        CCAPI_FW_REQUEST_ERROR_NONE \<Rightarrow> None
      | CCAPI_FW_REQUEST_ERROR_DOWNLOAD_DENIED \<Rightarrow> Some connector_firmware_status_download_denied
      | CCAPI_FW_REQUEST_ERROR_DOWNLOAD_INVALID_SIZE \<Rightarrow>
          Some connector_firmware_status_download_invalid_size
      | CCAPI_FW_REQUEST_ERROR_DOWNLOAD_INVALID_VERSION \<Rightarrow>
          Some connector_firmware_status_download_invalid_version
      | CCAPI_FW_REQUEST_ERROR_DOWNLOAD_UNAUTHENTICATED \<Rightarrow>
          Some connector_firmware_status_download_unauthenticated
      | CCAPI_FW_REQUEST_ERROR_DOWNLOAD_NOT_ALLOWED \<Rightarrow>
          Some connector_firmware_status_download_not_allowed
      | CCAPI_FW_REQUEST_ERROR_DOWNLOAD_CONFIGURED_TO_REJECT \<Rightarrow>
          Some connector_firmware_status_download_configured_to_reject
      | CCAPI_FW_REQUEST_ERROR_ENCOUNTERED_ERROR \<Rightarrow>
          Some connector_firmware_status_encountered_error)"

text \<open>
  The loop that resets the pool and allocates its buffers. It stops at the first allocation
  that fails: that chunk keeps its old size and \<open>last\<close>, the chunks after it keep everything.
  The answer says whether all were allocated and how many were.
\<close>

fun allocate_chunks ::
  "'w os \<Rightarrow> nat \<Rightarrow> ccapi_fw_chunk_info list \<Rightarrow> 'w \<Rightarrow> bool \<times> ccapi_fw_chunk_info list \<times> nat \<times> 'w"
where
  "allocate_chunks os bytes [] w = (True, [], 0, w)"
| "allocate_chunks os bytes (c # cs) w =
     (case ccapi_malloc os (Bytes bytes) w of
        (False, w1) \<Rightarrow>
          (False, c\<lparr>chunk_in_use := False, chunk_offset := 0, chunk_data := None\<rparr> # cs, 0, w1)
      | (True, w1) \<Rightarrow>
          (let (ok, cs', n, w2) = allocate_chunks os bytes cs w1
           in (ok, \<lparr>chunk_in_use = False, chunk_offset = 0, chunk_data = Some (replicate bytes None),
                    chunk_bytes = 0, chunk_last = False\<rparr> # cs', Suc n, w2)))"

definition set_target_item ::
  "'w fw_service \<Rightarrow> nat \<Rightarrow> ccapi_firmware_target_t \<Rightarrow> 'w fw_service" where
  "set_target_item d i item = d\<lparr>fw_items := (fw_items d)[i := item]\<rparr>"

text \<open>
  \<open>prepare_update\<close> is the part after the request callback agreed: the default chunk size, the
  pool, the fields of \<open>processing\<close>.
\<close>

definition prepare_update ::
  "'w os \<Rightarrow> 'w fw_service \<Rightarrow> connector_firmware_download_start_t \<Rightarrow> ccapi_firmware_target_t \<Rightarrow> 'w
     \<Rightarrow> connector_firmware_status_t \<times> 'w fw_service \<times> 'w" where
  "prepare_update os d start_ptr item w =
     (let item' = (if target_chunk_size item = 0
                   then item\<lparr>target_chunk_size := CCIMP_MSG_MAX_RECV_PACKET_SIZE\<rparr> else item);
          d1 = set_target_item d (unat (start_target_number start_ptr)) item';
          (ok, pool, n, w') = allocate_chunks os (unat (target_chunk_size item')) (fw_pool d) w;
          d2 = d1\<lparr>fw_pool := pool, fw_live_buffers := fw_live_buffers d + n\<rparr>
      in if \<not> ok then (connector_firmware_status_encountered_error, d2, w')
         else (connector_firmware_status_success,
               d2\<lparr>fw_pool_head := 0, fw_pool_tail := 0,
                  fw_target := start_target_number start_ptr,
                  fw_total_size := ucast (start_code_size start_ptr),
                  fw_tail_offset := 0, fw_head_offset := 0, fw_bytes_processed := 0,
                  fw_data_error := CCAPI_FW_DATA_ERROR_NONE, fw_update_started := True\<rparr>, w'))"

definition ccapi_process_firmware_update_request ::
  "'w os \<Rightarrow> connector_firmware_download_start_t \<Rightarrow> 'w fw_service \<Rightarrow> 'w
     \<Rightarrow> connector_callback_status_t \<times> connector_firmware_download_start_t \<times> 'w fw_service \<times> 'w"
where
  "ccapi_process_firmware_update_request os start_ptr d w =
     (if \<not> unat (start_target_number start_ptr) < length (fw_items d)
      then (connector_callback_error, start_ptr, d, w)
      else if fw_update_started d
      then (case free_and_stop_service os d w of
              (d', w') \<Rightarrow>
                (connector_callback_continue,
                 start_ptr\<lparr>start_status := connector_firmware_status_encountered_error\<rparr>, d', w'))
      else
        (let item = fw_items d ! unat (start_target_number start_ptr)
         in if target_maximum_size item \<noteq> 0 \<and> target_maximum_size item < start_code_size start_ptr
            then (connector_callback_continue,
                  start_ptr\<lparr>start_status := connector_firmware_status_download_invalid_size\<rparr>, d, w)
            else
              (let (refused, w1) =
                     (case fw_request_cb d of
                        None \<Rightarrow> (None, w)
                      | Some cb \<Rightarrow>
                          (case cb (start_target_number start_ptr) (start_filename start_ptr)
                                  (start_code_size start_ptr) w of
                             (e, w1) \<Rightarrow> (fw_request_status e, w1)))
               in case refused of
                    Some status \<Rightarrow>
                      (connector_callback_continue, start_ptr\<lparr>start_status := status\<rparr>, d, w1)
                  | None \<Rightarrow>
                      (case prepare_update os d start_ptr item w1 of
                         (status, d', w2) \<Rightarrow>
                           (connector_callback_continue, start_ptr\<lparr>start_status := status\<rparr>,
                            d', w2)))))"

subsection \<open>Download data\<close>

text \<open>
  The chunk a data request completes is queued: its slot is handed to the thread, the thread's
  semaphore is released once, the head moves to the next slot.
\<close>

definition next_slot :: "'w fw_service \<Rightarrow> nat \<Rightarrow> nat" where
  "next_slot d i = (if i + 1 = length (fw_pool d) then 0 else i + 1)"

definition queue_chunk :: "'w fw_service \<Rightarrow> u32 \<Rightarrow> bool \<Rightarrow> 'w fw_service" where
  "queue_chunk d next_head_offset last_chunk =
     (let c = fw_pool d ! fw_pool_head d
      in d\<lparr>fw_pool := (fw_pool d)[fw_pool_head d :=
               c\<lparr>chunk_offset := fw_head_offset d,
                 chunk_bytes := ucast (next_head_offset - fw_head_offset d),
                 chunk_last := last_chunk, chunk_in_use := True\<rparr>],
           fw_head_offset := next_head_offset,
           fw_wakeups := Suc (fw_wakeups d),
           fw_pool_head := next_slot d (fw_pool_head d)\<rparr>)"

text \<open>
  Writing into the chunk at the head: \<open>memcpy\<close> reads \<open>n\<close> bytes of the packet from \<open>from\<close> on, so
  both ends have to lie inside their buffers.
\<close>

definition fill_chunk ::
  "'w fw_service \<Rightarrow> nat \<Rightarrow> u8 list \<Rightarrow> nat \<Rightarrow> nat \<Rightarrow> 'w fw_service ub" where
  "fill_chunk d at source from n =
     (case chunk_data (fw_pool d ! fw_pool_head d) of
        None \<Rightarrow> Inl Null_Dereference
      | Some buf \<Rightarrow>
          (if length source < from + n then Inl Out_Of_Bounds
           else ub_bind (memcpy_at buf at (take n (drop from source)))
                  (\<lambda>buf'. Inr (d\<lparr>fw_pool := (fw_pool d)[fw_pool_head d :=
                                (fw_pool d ! fw_pool_head d)\<lparr>chunk_data := Some buf'\<rparr>]\<rparr>))))"

text \<open>
  \<open>process_chunk\<close> is the branch of the data request whose head chunk is free. The sizes are
  computed the way the code declares them: the target's chunk size, the offsets and the number
  of bytes to copy are truncated to 32 bits, the bytes that remain are a \<open>size_t\<close>.
\<close>

definition fw_bytes_to_copy :: "u32 \<Rightarrow> u32 \<Rightarrow> size_t \<Rightarrow> u32 \<Rightarrow> u32" where
  "fw_bytes_to_copy chunk_size tail_offset bytes_used processed =
     (let room_in_chunk = chunk_size - tail_offset mod chunk_size;
          source_bytes_remaining = bytes_used - ucast processed
      in if ucast room_in_chunk < source_bytes_remaining then room_in_chunk
         else ucast source_bytes_remaining)"

definition process_chunk ::
  "connector_firmware_download_data_t \<Rightarrow> 'w fw_service
     \<Rightarrow> (connector_callback_status_t \<times> 'w fw_service) ub" where
  "process_chunk data_ptr d =
     (if \<not> unat (data_target_number data_ptr) < length (fw_items d) then Inl Out_Of_Bounds
      else
      (let chunk_size = ucast (target_chunk_size (fw_items d ! unat (data_target_number data_ptr))) :: u32;
           tail_offset = fw_tail_offset d
       in if chunk_size = 0 then Inl Division_By_Zero
          else
          (let bytes_to_copy = fw_bytes_to_copy chunk_size tail_offset
                                 (data_image_bytes_used data_ptr) (fw_bytes_processed d);
               next_head_offset = tail_offset + bytes_to_copy;
               last_chunk = (next_head_offset = fw_total_size d)
           in if fw_head_offset d \<le> tail_offset
              then ub_bind (fill_chunk d (unat (tail_offset mod chunk_size))
                              (data_image_data data_ptr) (unat (fw_bytes_processed d))
                              (unat bytes_to_copy))
                (\<lambda>d1.
                  let d2 = (if last_chunk \<or> next_head_offset mod chunk_size = 0
                            then queue_chunk d1 next_head_offset last_chunk else d1);
                      processed = fw_bytes_processed d + bytes_to_copy;
                      all = (ucast processed = data_image_bytes_used data_ptr)
                  in Inr (if all then connector_callback_continue else connector_callback_busy,
                          d2\<lparr>fw_bytes_processed := (if all then 0 else processed),
                             fw_tail_offset := next_head_offset\<rparr>))
              else Inr (connector_callback_continue, d\<lparr>fw_tail_offset := next_head_offset\<rparr>))))"

definition ccapi_process_firmware_update_data ::
  "connector_firmware_download_data_t \<Rightarrow> 'w fw_service
     \<Rightarrow> (connector_callback_status_t \<times> connector_firmware_download_data_t \<times> 'w fw_service) ub"
where
  "ccapi_process_firmware_update_data data_ptr d =
     (if data_target_number data_ptr \<noteq> fw_target d \<or> \<not> fw_update_started d
      then Inr (connector_callback_error, data_ptr, d)
      else if fw_data_error d = CCAPI_FW_DATA_ERROR_INVALID_DATA
      then Inr (connector_callback_continue,
                data_ptr\<lparr>data_status := connector_firmware_status_invalid_data\<rparr>, d)
      else if data_image_offset data_ptr \<noteq> fw_tail_offset d - fw_bytes_processed d
      then Inr (connector_callback_continue,
                data_ptr\<lparr>data_status := connector_firmware_status_invalid_offset\<rparr>, d)
      else if \<not> fw_pool_head d < length (fw_pool d) then Inl Out_Of_Bounds
      else if \<not> chunk_in_use (fw_pool d ! fw_pool_head d)
      then ub_bind (process_chunk data_ptr d)
             (\<lambda>(status, d'). Inr (status,
                data_ptr\<lparr>data_status := connector_firmware_status_success\<rparr>, d'))
      else Inr (connector_callback_busy,
                data_ptr\<lparr>data_status := connector_firmware_status_success\<rparr>, d))"

subsection \<open>Download complete, abort and reset\<close>

definition any_chunk_in_use :: "'w fw_service \<Rightarrow> bool" where
  "any_chunk_in_use d = list_ex chunk_in_use (fw_pool d)"

definition ccapi_process_firmware_update_complete ::
  "'w os \<Rightarrow> connector_firmware_download_complete_t \<Rightarrow> 'w fw_service \<Rightarrow> 'w
     \<Rightarrow> connector_callback_status_t \<times> connector_firmware_download_complete_t \<times> 'w fw_service \<times> 'w"
where
  "ccapi_process_firmware_update_complete os complete_ptr d w =
     (if complete_target_number complete_ptr \<noteq> fw_target d \<or> \<not> fw_update_started d
      then (connector_callback_error, complete_ptr, d, w)
      else if any_chunk_in_use d
      then (connector_callback_busy,
            complete_ptr\<lparr>complete_status := connector_firmware_download_success\<rparr>, d, w)
      else
        (let answer = complete_ptr\<lparr>complete_status :=
               (if fw_head_offset d \<noteq> fw_total_size d then connector_firmware_download_not_complete
                else connector_firmware_download_success)\<rparr>;
             status = (if fw_data_error d = CCAPI_FW_DATA_ERROR_INVALID_DATA
                       then connector_callback_error else connector_callback_continue);
             (d', w') = free_and_stop_service os d w
         in (status, answer, d', w')))"

definition fw_cancel_reason :: "connector_firmware_status_t \<Rightarrow> ccapi_fw_cancel_error_t option" where
  "fw_cancel_reason status =
     (case status of
        connector_firmware_status_user_abort \<Rightarrow> Some CCAPI_FW_CANCEL_USER_ABORT
      | connector_firmware_status_device_error \<Rightarrow> Some CCAPI_FW_CANCEL_DEVICE_ERROR
      | connector_firmware_status_invalid_offset \<Rightarrow> Some CCAPI_FW_CANCEL_INVALID_OFFSET
      | connector_firmware_status_invalid_data \<Rightarrow> Some CCAPI_FW_CANCEL_INVALID_DATA
      | connector_firmware_status_hardware_error \<Rightarrow> Some CCAPI_FW_CANCEL_HARDWARE_ERROR
      | _ \<Rightarrow> None)"

text \<open>
  \<open>from_user_abort status\<close> is the comparison \<open>status >= connector_firmware_status_user_abort\<close>
  on the connector's enumeration, whose order is not part of this repository. The status of a
  reason that no \<open>case\<close> sets (INVALID_ENUM) is \<open>None\<close>.
\<close>

definition ccapi_process_firmware_update_abort ::
  "'w os \<Rightarrow> (connector_firmware_status_t \<Rightarrow> bool) \<Rightarrow> connector_firmware_download_abort_t
     \<Rightarrow> 'w fw_service \<Rightarrow> 'w \<Rightarrow> connector_callback_status_t \<times> 'w fw_service \<times> 'w" where
  "ccapi_process_firmware_update_abort os from_user_abort abort_ptr d w =
     (if abort_target_number abort_ptr \<noteq> fw_target d \<or> \<not> fw_update_started d
      then (connector_callback_error, d, w)
      else if any_chunk_in_use d then (connector_callback_busy, d, w)
      else
        (case fw_cancel_cb d of
           None \<Rightarrow>
             (case free_and_stop_service os d w of (d', w') \<Rightarrow> (connector_callback_continue, d', w'))
         | Some cancel \<Rightarrow>
             (let reason = fw_cancel_reason (abort_status abort_ptr)
              in if reason = None \<and> \<not> from_user_abort (abort_status abort_ptr)
                 then (connector_callback_error, d, w)
                 else
                   (case free_and_stop_service os d
                           (cancel (abort_target_number abort_ptr) reason w) of
                      (d', w') \<Rightarrow>
                        (if reason = None then connector_callback_error
                         else connector_callback_continue, d', w')))))"

definition ccapi_process_firmware_update_reset ::
  "('w \<Rightarrow> ccimp_status_t \<times> 'w) \<Rightarrow> u32 \<Rightarrow> 'w fw_service \<Rightarrow> 'w
     \<Rightarrow> (connector_callback_status_t \<times> 'w fw_service \<times> 'w) ub" where
  "ccapi_process_firmware_update_reset ccimp_hal_reset target_number d w =
     (if target_number \<noteq> fw_target d then Inr (connector_callback_error, d, w)
      else
        ub_bind
          (case fw_reset_cb d of
             None \<Rightarrow> Inr (True, d, w)
           | Some reset \<Rightarrow>
               (if \<not> unat target_number < length (fw_items d) then Inl Out_Of_Bounds
                else
                  (let item = fw_items d ! unat target_number;
                       ((system_reset, version), w') = reset target_number True (target_version item) w
                   in Inr (system_reset,
                           set_target_item d (unat target_number) (item\<lparr>target_version := version\<rparr>),
                           w'))))
          (\<lambda>(system_reset, d', w1).
             if system_reset
             then (case ccimp_hal_reset w1 of
                     (status, w2) \<Rightarrow>
                       Inr (connector_callback_status_from_ccimp_status status, d', w2))
             else Inr (connector_callback_continue, d', w1)))"

subsection \<open>The service handler\<close>

text \<open>
  The request identifiers with the structure the connector passes for each; the handler answers
  the structure as it leaves it.
\<close>

datatype firmware_request =
    connector_request_id_firmware_target_count nat
  | connector_request_id_firmware_info connector_firmware_info_t
  | connector_request_id_firmware_download_start connector_firmware_download_start_t
  | connector_request_id_firmware_download_data connector_firmware_download_data_t
  | connector_request_id_firmware_download_complete connector_firmware_download_complete_t
  | connector_request_id_firmware_download_abort connector_firmware_download_abort_t
  | connector_request_id_firmware_target_reset u32

definition fw_target_info ::
  "connector_firmware_info_t \<Rightarrow> ccapi_firmware_target_t \<Rightarrow> connector_firmware_info_t" where
  "fw_target_info info_ptr item =
     info_ptr\<lparr>info_version := target_version item, info_description := target_description item,
              info_filespec := target_filespec item\<rparr>"

definition ccapi_firmware_service_handler ::
  "'w os \<Rightarrow> ('w \<Rightarrow> ccimp_status_t \<times> 'w) \<Rightarrow> (connector_firmware_status_t \<Rightarrow> bool)
     \<Rightarrow> firmware_request \<Rightarrow> 'w fw_service \<Rightarrow> 'w
     \<Rightarrow> (connector_callback_status_t \<times> firmware_request \<times> 'w fw_service \<times> 'w) ub" where
  "ccapi_firmware_service_handler os ccimp_hal_reset from_user_abort request d w =
     (case request of
        connector_request_id_firmware_target_count count \<Rightarrow>
          Inr (if fw_supported d
               then (connector_callback_continue,
                     connector_request_id_firmware_target_count (length (fw_items d)), d, w)
               else (connector_callback_error, request, d, w))
      | connector_request_id_firmware_info info_ptr \<Rightarrow>
          Inr (if fw_supported d \<and> unat (info_target_number info_ptr) < length (fw_items d)
               then (connector_callback_continue,
                     connector_request_id_firmware_info
                       (fw_target_info info_ptr (fw_items d ! unat (info_target_number info_ptr))),
                     d, w)
               else (connector_callback_error, request, d, w))
      | connector_request_id_firmware_download_start start_ptr \<Rightarrow>
          Inr (case ccapi_process_firmware_update_request os start_ptr d w of
                 (status, start_ptr', d', w') \<Rightarrow>
                   (status, connector_request_id_firmware_download_start start_ptr', d', w'))
      | connector_request_id_firmware_download_data data_ptr \<Rightarrow>
          ub_bind (ccapi_process_firmware_update_data data_ptr d)
            (\<lambda>(status, data_ptr', d').
               Inr (status, connector_request_id_firmware_download_data data_ptr', d', w))
      | connector_request_id_firmware_download_complete complete_ptr \<Rightarrow>
          Inr (case ccapi_process_firmware_update_complete os complete_ptr d w of
                 (status, complete_ptr', d', w') \<Rightarrow>
                   (status, connector_request_id_firmware_download_complete complete_ptr', d', w'))
      | connector_request_id_firmware_download_abort abort_ptr \<Rightarrow>
          Inr (case ccapi_process_firmware_update_abort os from_user_abort abort_ptr d w of
                 (status, d', w') \<Rightarrow> (status, request, d', w'))
      | connector_request_id_firmware_target_reset target_number \<Rightarrow>
          ub_bind (ccapi_process_firmware_update_reset ccimp_hal_reset target_number d w)
            (\<lambda>(status, d', w'). Inr (status, request, d', w')))"

subsection \<open>The firmware thread\<close>

text \<open>
  \<open>ccapi_firmware_thread\<close> runs beside the connector thread. It is modelled in three atomic
  steps: its start; a wake-up, from the semaphore to the call of the data callback; and what
  follows the return of the callback. \<open>None\<close> means that the thread is blocked.
\<close>

definition fw_thread_start :: "bool \<Rightarrow> bool \<Rightarrow> 'w fw_service \<Rightarrow> 'w fw_service ub" where
  "fw_thread_start argument_nonnull lock_nonnull d =
     (if \<not> argument_nonnull then Inl Null_Dereference
      else if fw_data_cb d = None \<or> \<not> lock_nonnull
      then Inr (d\<lparr>fw_thread_status := CCAPI_THREAD_NOT_STARTED\<rparr>)
      else Inr (d\<lparr>fw_thread_status := CCAPI_THREAD_RUNNING\<rparr>))"

definition fw_thread_wake :: "'w fw_service \<Rightarrow> 'w \<Rightarrow> ('w fw_service \<times> 'w) ub option" where
  "fw_thread_wake d w =
     (if fw_in_callback d \<noteq> None \<or> fw_wakeups d = 0
         \<or> fw_thread_status d \<notin> {CCAPI_THREAD_RUNNING, CCAPI_THREAD_REQUEST_STOP}
      then None
      else if fw_thread_status d = CCAPI_THREAD_REQUEST_STOP
      then Some (Inr (d\<lparr>fw_wakeups := fw_wakeups d - 1,
                        fw_thread_status := CCAPI_THREAD_NOT_STARTED\<rparr>, w))
      else if \<not> fw_pool_tail d < length (fw_pool d) then Some (Inl Out_Of_Bounds)
      else
        (let c = fw_pool d ! fw_pool_tail d
         in case fw_data_cb d of
              None \<Rightarrow> Some (Inl Null_Dereference)
            | Some callback \<Rightarrow>
                (case callback (fw_target d) (chunk_offset c) (chunk_data c) (chunk_bytes c)
                        (chunk_last c) w of
                   (error, w') \<Rightarrow>
                     Some (Inr (d\<lparr>fw_wakeups := fw_wakeups d - 1,
                                  fw_in_callback := Some (fw_pool_tail d, error),
                                  fw_delivered := fw_delivered d @
                                    [\<lparr>dlv_target = fw_target d, dlv_offset = chunk_offset c,
                                      dlv_data = chunk_data c, dlv_bytes = chunk_bytes c,
                                      dlv_last = chunk_last c\<rparr>]\<rparr>, w')))))"

definition fw_thread_finish :: "'w fw_service \<Rightarrow> 'w fw_service option" where
  "fw_thread_finish d =
     (case fw_in_callback d of
        None \<Rightarrow> None
      | Some (slot, error) \<Rightarrow>
          Some (d\<lparr>fw_in_callback := None,
                  fw_data_error :=
                    (case error of
                       CCAPI_FW_DATA_ERROR_NONE \<Rightarrow> fw_data_error d
                     | CCAPI_FW_DATA_ERROR_INVALID_DATA \<Rightarrow> CCAPI_FW_DATA_ERROR_INVALID_DATA),
                  fw_pool := (fw_pool d)[slot := (fw_pool d ! slot)\<lparr>chunk_in_use := False\<rparr>],
                  fw_pool_tail := next_slot d (fw_pool_tail d),
                  fw_thread_status :=
                    (if fw_thread_status d = CCAPI_THREAD_RUNNING then CCAPI_THREAD_RUNNING
                     else CCAPI_THREAD_NOT_STARTED)\<rparr>))"

subsection \<open>Basic facts\<close>

lemma free_chunks_length: "free_chunks os cs w = (cs', n, w') \<Longrightarrow> length cs' = length cs"
  by (induction cs arbitrary: cs' n w w') (auto split: prod.splits if_splits)

lemma free_chunks_all_freed:
  "free_chunks os cs w = (cs', n, w') \<Longrightarrow> \<forall>c \<in> set cs'. chunk_data c = None"
  by (induction cs arbitrary: cs' n w w') (auto split: prod.splits if_splits)

lemma free_chunks_count:
  "free_chunks os cs w = (cs', n, w') \<Longrightarrow> n = length (filter (\<lambda>c. chunk_data c \<noteq> None) cs)"
  by (induction cs arbitrary: cs' n w w') (auto split: prod.splits if_splits)

lemma free_chunks_in_use:
  "free_chunks os cs w = (cs', n, w') \<Longrightarrow> map chunk_in_use cs' = map chunk_in_use cs"
  by (induction cs arbitrary: cs' n w w') (auto split: prod.splits if_splits)

lemma allocate_chunks_length:
  "allocate_chunks os b cs w = (ok, cs', n, w') \<Longrightarrow> length cs' = length cs"
  by (induction cs arbitrary: ok cs' n w w') (auto split: prod.splits bool.splits)

lemma allocate_chunks_ok:
  "allocate_chunks os b cs w = (True, cs', n, w') \<Longrightarrow>
     cs' = replicate (length cs) \<lparr>chunk_in_use = False, chunk_offset = 0,
              chunk_data = Some (replicate b None), chunk_bytes = 0, chunk_last = False\<rparr>
     \<and> n = length cs"
  by (induction cs arbitrary: cs' n w w') (auto split: prod.splits bool.splits)

end
