(* ===== verification/FirmwareStream.thy ===== *)
theory FirmwareStream
  imports Firmware
begin

text \<open>
  Whole firmware updates: the connector hands an image to the service packet by packet and
  repeats a packet while the answer is busy, the firmware thread takes the chunks out of the
  pool. The steps of the two interleave freely. The invariant says which chunk of the image
  each slot of the pool holds, and that the calls of the data callback are a prefix of the
  chunks of the image, in order.
\<close>

subsection \<open>The image cut into chunks\<close>

definition fw_slice :: "u8 list \<Rightarrow> nat \<Rightarrow> nat \<Rightarrow> u8 list" where
  "fw_slice img cs m = take cs (drop (m * cs) img)"

text \<open>Offset, size, bytes and the \<open>last\<close> flag of chunk \<open>m\<close>.\<close>

type_synonym fw_view = "nat \<times> nat \<times> u8 buffer \<times> bool"

definition fw_expected :: "u8 list \<Rightarrow> nat \<Rightarrow> nat \<Rightarrow> fw_view" where
  "fw_expected img cs m =
     (m * cs, length (fw_slice img cs m), map Some (fw_slice img cs m),
      length img \<le> (m + 1) * cs)"

definition fw_chunk_count :: "u8 list \<Rightarrow> nat \<Rightarrow> nat" where
  "fw_chunk_count img cs = (length img + cs - 1) div cs"

definition chunk_view :: "ccapi_fw_chunk_info \<Rightarrow> fw_view" where
  "chunk_view c =
     (unat (chunk_offset c), unat (chunk_bytes c),
      (case chunk_data c of None \<Rightarrow> [] | Some buf \<Rightarrow> take (unat (chunk_bytes c)) buf), chunk_last c)"

definition dlv_view :: "fw_delivery \<Rightarrow> fw_view" where
  "dlv_view x =
     (unat (dlv_offset x), unat (dlv_bytes x),
      (case dlv_data x of None \<Rightarrow> [] | Some buf \<Rightarrow> take (unat (dlv_bytes x)) buf), dlv_last x)"

lemma fw_slices_concat:
  "concat (map (fw_slice img cs) [0..<n]) = take (n * cs) img"
proof (induction n)
  case (Suc n)
  then show ?case by (simp add: fw_slice_def take_add [symmetric] add.commute)
qed simp

lemma fw_chunk_count_covers:
  assumes "0 < cs" shows "length img \<le> fw_chunk_count img cs * cs"
proof -
  have "length img + cs - 1 = (length img + cs - 1) div cs * cs + (length img + cs - 1) mod cs"
    by simp
  moreover have "(length img + cs - 1) mod cs < cs" using assms by simp
  ultimately show ?thesis unfolding fw_chunk_count_def by linarith
qed

lemma fw_chunk_count_less:
  assumes "0 < cs" shows "m < fw_chunk_count img cs \<longleftrightarrow> m * cs < length img"
proof -
  have "m < (length img + cs - 1) div cs \<longleftrightarrow> (m + 1) * cs \<le> length img + cs - 1"
    using assms by (metis Suc_eq_plus1 Suc_le_eq less_eq_div_iff_mult_less_eq)
  also have "\<dots> \<longleftrightarrow> m * cs < length img" using assms by (auto simp: algebra_simps)
  finally show ?thesis by (simp add: fw_chunk_count_def)
qed

lemma fw_chunk_count_eqI:
  assumes "0 < cs" and "length img \<le> n * cs" and "\<And>m. m < n \<Longrightarrow> m * cs < length img"
  shows "n = fw_chunk_count img cs"
proof (rule antisym)
  show "n \<le> fw_chunk_count img cs"
    using assms(3) [of "n - 1"] fw_chunk_count_less [OF assms(1), of "n - 1" img]
    by (cases n) auto
  show "fw_chunk_count img cs \<le> n"
    using fw_chunk_count_less [OF assms(1), of n img] assms(2) by (meson leD leI)
qed

subsection \<open>Packets and steps\<close>

definition fw_packet :: "u8 list \<Rightarrow> u32 \<Rightarrow> nat \<Rightarrow> nat \<Rightarrow> connector_firmware_download_data_t" where
  "fw_packet img target pos n =
     \<lparr>data_target_number = target, data_image_offset = of_nat pos,
      data_image_data = take n (drop pos img), data_image_bytes_used = of_nat n,
      data_status = connector_firmware_status_success\<rparr>"

text \<open>
  The third component of a state is the packet the service answered busy for: the connector
  passes it again before any other.
\<close>

type_synonym 'w fw_run = "'w fw_service \<times> 'w \<times> (nat \<times> nat) option"

inductive fw_step :: "u8 list \<Rightarrow> 'w fw_run \<Rightarrow> 'w fw_run \<Rightarrow> bool" for img where
  fw_step_data:
    "\<lbrakk>pend = None \<or> pend = Some (pos, n); 0 < n; pos + n \<le> length img;
      ccapi_process_firmware_update_data (fw_packet img (fw_target d) pos n) d
        = Inr (status, answer, d')\<rbrakk>
     \<Longrightarrow> fw_step img (d, w, pend)
          (d', w, if status = connector_callback_busy then Some (pos, n) else None)"
| fw_step_wake:
    "fw_thread_wake d w = Some (Inr (d', w')) \<Longrightarrow> fw_step img (d, w, pend) (d', w', pend)"
| fw_step_finish:
    "fw_thread_finish d = Some d' \<Longrightarrow> fw_step img (d, w, pend) (d', w, pend)"

text \<open>
  An update starts when the connector's start request is answered with success, on a service
  whose thread runs and has no work left.
\<close>

definition fw_idle :: "'w fw_service \<Rightarrow> bool" where
  "fw_idle d \<longleftrightarrow>
     fw_thread_status d = CCAPI_THREAD_RUNNING \<and> fw_data_cb d \<noteq> None \<and> fw_pool d \<noteq> []
     \<and> fw_wakeups d = 0 \<and> fw_in_callback d = None \<and> fw_delivered d = []"

definition fw_starts ::
  "'w os \<Rightarrow> u8 list \<Rightarrow> nat \<Rightarrow> 'w fw_run \<Rightarrow> bool" where
  "fw_starts os img cs s \<longleftrightarrow>
     (\<exists>start_ptr start_ptr' d0 w0 d w.
        fw_idle d0 \<and> s = (d, w, None)
        \<and> ccapi_process_firmware_update_request os start_ptr d0 w0
            = (connector_callback_continue, start_ptr', d, w)
        \<and> start_status start_ptr' = connector_firmware_status_success
        \<and> start_code_size start_ptr = of_nat (length img) \<and> length img < 2 ^ 32
        \<and> cs = unat (target_chunk_size (fw_items d ! unat (fw_target d))) \<and> cs < 2 ^ 32)"

inductive fw_reachable :: "'w os \<Rightarrow> u8 list \<Rightarrow> nat \<Rightarrow> 'w fw_run \<Rightarrow> bool" for os img cs where
  fw_reach_start: "fw_starts os img cs s \<Longrightarrow> fw_reachable os img cs s"
| fw_reach_step: "fw_reachable os img cs s \<Longrightarrow> fw_step img s t \<Longrightarrow> fw_reachable os img cs t"

inductive_cases fw_stepE: "fw_step img s t"

subsection \<open>The invariant\<close>

text \<open>
  \<open>fw_done\<close> chunks have been delivered and their slots released; \<open>fw_queued\<close> are in the pool,
  the one in the callback included.
\<close>

definition fw_done :: "'w fw_service \<Rightarrow> nat" where
  "fw_done d = length (fw_delivered d) - (if fw_in_callback d = None then 0 else 1)"

definition fw_queued :: "'w fw_service \<Rightarrow> nat" where
  "fw_queued d = fw_wakeups d + (if fw_in_callback d = None then 0 else 1)"

definition fw_static :: "u8 list \<Rightarrow> nat \<Rightarrow> 'w fw_service \<Rightarrow> bool" where
  "fw_static img cs d \<longleftrightarrow>
     fw_update_started d \<and> unat (fw_target d) < length (fw_items d)
     \<and> target_chunk_size (fw_items d ! unat (fw_target d)) = of_nat cs
     \<and> 0 < cs \<and> cs < 2 ^ 32 \<and> length img < 2 ^ 32 \<and> fw_total_size d = of_nat (length img)
     \<and> fw_pool d \<noteq> [] \<and> fw_thread_status d = CCAPI_THREAD_RUNNING \<and> fw_data_cb d \<noteq> None
     \<and> (\<forall>c \<in> set (fw_pool d). \<exists>buf. chunk_data c = Some buf \<and> length buf = cs)"

definition fw_ring :: "u8 list \<Rightarrow> nat \<Rightarrow> 'w fw_service \<Rightarrow> bool" where
  "fw_ring img cs d \<longleftrightarrow>
     fw_queued d \<le> length (fw_pool d)
     \<and> fw_pool_tail d = fw_done d mod length (fw_pool d)
     \<and> fw_pool_head d = (fw_done d + fw_queued d) mod length (fw_pool d)
     \<and> (\<forall>i < length (fw_pool d). chunk_in_use (fw_pool d ! i) \<longleftrightarrow>
          (\<exists>m. fw_done d \<le> m \<and> m < fw_done d + fw_queued d \<and> i = m mod length (fw_pool d)))
     \<and> (\<forall>m. fw_done d \<le> m \<and> m < fw_done d + fw_queued d \<longrightarrow>
          chunk_view (fw_pool d ! (m mod length (fw_pool d))) = fw_expected img cs m)
     \<and> (\<forall>slot e. fw_in_callback d = Some (slot, e) \<longrightarrow>
          slot = fw_pool_tail d \<and> fw_delivered d \<noteq> [])"

definition fw_head :: "u8 list \<Rightarrow> nat \<Rightarrow> 'w fw_service \<Rightarrow> bool" where
  "fw_head img cs d \<longleftrightarrow>
     (let T = unat (fw_tail_offset d); H = unat (fw_head_offset d); M = fw_done d + fw_queued d
      in H = min (M * cs) (length img) \<and> (\<forall>m < M. m * cs < length img)
         \<and> H \<le> T \<and> T \<le> length img \<and> T < H + cs
         \<and> (H < T \<longrightarrow> fw_queued d < length (fw_pool d)
               \<and> (\<exists>buf. chunk_data (fw_pool d ! fw_pool_head d) = Some buf
                   \<and> take (T - H) buf = map Some (take (T - H) (drop H img)))))"

definition fw_log :: "u8 list \<Rightarrow> nat \<Rightarrow> 'w fw_service \<Rightarrow> bool" where
  "fw_log img cs d \<longleftrightarrow>
     map dlv_view (fw_delivered d) = map (fw_expected img cs) [0..<length (fw_delivered d)]
     \<and> (\<forall>x \<in> set (fw_delivered d). dlv_target x = fw_target d)"

definition fw_pending :: "u8 list \<Rightarrow> 'w fw_service \<Rightarrow> (nat \<times> nat) option \<Rightarrow> bool" where
  "fw_pending img d pend \<longleftrightarrow>
     fw_bytes_processed d = 0 \<or> fw_data_error d = CCAPI_FW_DATA_ERROR_INVALID_DATA
     \<or> (\<exists>pos n. pend = Some (pos, n) \<and> unat (fw_tail_offset d) = pos + unat (fw_bytes_processed d)
          \<and> unat (fw_bytes_processed d) < n)"

definition fw_inv :: "u8 list \<Rightarrow> nat \<Rightarrow> 'w fw_run \<Rightarrow> bool" where
  "fw_inv img cs s \<longleftrightarrow>
     (case s of (d, w, pend) \<Rightarrow>
        fw_static img cs d \<and> fw_ring img cs d \<and> fw_head img cs d \<and> fw_log img cs d
        \<and> fw_pending img d pend)"

subsection \<open>The start of an update\<close>

lemma fw_request_success:
  assumes "ccapi_process_firmware_update_request os start_ptr d w
             = (connector_callback_continue, start_ptr', d', w')"
    and "start_status start_ptr' = connector_firmware_status_success"
  obtains w1 where
    "unat (start_target_number start_ptr) < length (fw_items d)"
    "prepare_update os d start_ptr (fw_items d ! unat (start_target_number start_ptr)) w1
       = (connector_firmware_status_success, d', w')"
proof -
  have "\<exists>w1. unat (start_target_number start_ptr) < length (fw_items d) \<and>
      prepare_update os d start_ptr (fw_items d ! unat (start_target_number start_ptr)) w1
       = (connector_firmware_status_success, d', w')"
    using assms
    by (auto simp: ccapi_process_firmware_update_request_def Let_def fw_request_status_def
        split: if_splits option.splits prod.splits ccapi_fw_request_error_t.splits)
  then show thesis using that by blast
qed

lemma prepare_update_success:
  assumes "prepare_update os d start_ptr item w = (connector_firmware_status_success, d', w')"
    and "unat (start_target_number start_ptr) < length (fw_items d)"
  defines "cs \<equiv> unat (target_chunk_size (fw_items d' ! unat (start_target_number start_ptr)))"
  shows "fw_pool d' = replicate (length (fw_pool d)) \<lparr>chunk_in_use = False, chunk_offset = 0,
              chunk_data = Some (replicate cs None), chunk_bytes = 0, chunk_last = False\<rparr>"
    and "cs > 0" and "length (fw_items d') = length (fw_items d)"
    and "fw_pool_head d' = 0" and "fw_pool_tail d' = 0" and "fw_head_offset d' = 0"
    and "fw_tail_offset d' = 0" and "fw_bytes_processed d' = 0" and "fw_update_started d'"
    and "fw_total_size d' = ucast (start_code_size start_ptr)"
    and "fw_target d' = start_target_number start_ptr"
    and "fw_thread_status d' = fw_thread_status d" and "fw_data_cb d' = fw_data_cb d"
    and "fw_wakeups d' = fw_wakeups d" and "fw_in_callback d' = fw_in_callback d"
    and "fw_delivered d' = fw_delivered d"
    and "fw_data_error d' = CCAPI_FW_DATA_ERROR_NONE"
  using assms(1,2) unfolding cs_def
  by (auto simp: prepare_update_def Let_def set_target_item_def CCIMP_MSG_MAX_RECV_PACKET_SIZE_def
      unat_gt_0 dest!: allocate_chunks_ok split: prod.splits if_splits)

lemma fw_inv_start:
  assumes "fw_starts os img cs s" shows "fw_inv img cs s"
proof -
  obtain start_ptr start_ptr' d0 w0 d w where idle: "fw_idle d0" and s: "s = (d, w, None)"
    and req: "ccapi_process_firmware_update_request os start_ptr d0 w0
            = (connector_callback_continue, start_ptr', d, w)"
    and ok: "start_status start_ptr' = connector_firmware_status_success"
    and bytes: "start_code_size start_ptr = of_nat (length img)" "length img < 2 ^ 32"
    and cs: "cs = unat (target_chunk_size (fw_items d ! unat (fw_target d)))" "cs < 2 ^ 32"
    using assms unfolding fw_starts_def by blast
  obtain w1 where t: "unat (start_target_number start_ptr) < length (fw_items d0)"
    and prep: "prepare_update os d0 start_ptr (fw_items d0 ! unat (start_target_number start_ptr)) w1
       = (connector_firmware_status_success, d, w)"
    using fw_request_success [OF req ok] .
  note p = prepare_update_success [OF prep t]
  have cs': "cs = unat (target_chunk_size (fw_items d ! unat (start_target_number start_ptr)))"
    using cs(1) p(11) by simp
  have total: "fw_total_size d = of_nat (length img)"
    using p(10) bytes by (simp add: unsigned_of_nat take_bit_nat_eq_self)
  have q: "fw_done d = 0" "fw_queued d = 0"
    using p(14-16) idle by (simp_all add: fw_done_def fw_queued_def fw_idle_def)
  have tcs: "target_chunk_size (fw_items d ! unat (start_target_number start_ptr)) = of_nat cs"
    unfolding cs' by simp
  have pos: "0 < cs" using p(2) unfolding cs' .
  have pool: "fw_pool d = replicate (length (fw_pool d0)) \<lparr>chunk_in_use = False, chunk_offset = 0,
              chunk_data = Some (replicate cs None), chunk_bytes = 0, chunk_last = False\<rparr>"
    using p(1) unfolding cs' .
  have "fw_static img cs d"
    using p(3,9,11-14) pos pool idle cs(2) bytes(2) t total tcs
    by (simp add: fw_static_def fw_idle_def)
  moreover have "fw_ring img cs d"
    using p(4,5,15) pool idle q by (simp add: fw_ring_def fw_idle_def)
  moreover have "fw_head img cs d"
    using p(6,7) pos idle q by (simp add: fw_head_def fw_idle_def)
  moreover have "fw_log img cs d" "fw_pending img d None"
    using p(8,16) idle by (simp_all add: fw_log_def fw_idle_def fw_pending_def)
  ultimately show ?thesis by (simp add: fw_inv_def s)
qed

subsection \<open>The steps of the thread\<close>

lemma next_slot_mod:
  assumes "fw_pool d \<noteq> []"
  shows "next_slot d (m mod length (fw_pool d)) = Suc m mod length (fw_pool d)"
  using assms by (simp add: next_slot_def mod_Suc)

lemma fw_wake_inv:
  assumes inv: "fw_inv img cs (d, w, pend)" and step: "fw_thread_wake d w = Some (Inr (d', w'))"
  shows "fw_inv img cs (d', w', pend)"
proof -
  have st: "fw_static img cs d" and ring: "fw_ring img cs d" and head: "fw_head img cs d"
    and log: "fw_log img cs d" and pd: "fw_pending img d pend"
    using inv by (simp_all add: fw_inv_def)
  have run: "fw_thread_status d = CCAPI_THREAD_RUNNING" using st by (simp add: fw_static_def)
  let ?c = "fw_pool d ! fw_pool_tail d"
  define x where "x = \<lparr>dlv_target = fw_target d, dlv_offset = chunk_offset ?c,
                 dlv_data = chunk_data ?c, dlv_bytes = chunk_bytes ?c, dlv_last = chunk_last ?c\<rparr>"
  obtain e where cb: "fw_in_callback d = None" and wk: "fw_wakeups d \<noteq> 0"
    and d': "d' = d\<lparr>fw_wakeups := fw_wakeups d - 1, fw_in_callback := Some (fw_pool_tail d, e),
                    fw_delivered := fw_delivered d @ [x]\<rparr>"
    using step run unfolding x_def
    by (cases "fw_in_callback d")
      (auto simp: fw_thread_wake_def Let_def split: if_splits option.splits prod.splits)
  have q: "fw_done d' = fw_done d" "fw_queued d' = fw_queued d" "fw_done d = length (fw_delivered d)"
    using wk cb by (simp_all add: d' fw_done_def fw_queued_def)
  have "fw_queued d > 0" using wk by (simp add: fw_queued_def)
  then have "chunk_view ?c = fw_expected img cs (fw_done d)"
    using ring unfolding fw_ring_def by auto
  then have "dlv_view x = fw_expected img cs (length (fw_delivered d))"
    by (cases "chunk_data ?c") (simp_all add: x_def dlv_view_def chunk_view_def q)
  then have "fw_log img cs d'" using log by (simp add: fw_log_def d' x_def)
  moreover have "fw_static img cs d'" using st by (simp add: fw_static_def d')
  moreover have "fw_ring img cs d'" using ring q unfolding fw_ring_def by (simp add: d')
  moreover have "fw_head img cs d'" using head q unfolding fw_head_def by (simp add: d')
  moreover have "fw_pending img d' pend" using pd by (simp add: fw_pending_def d')
  ultimately show ?thesis by (simp add: fw_inv_def)
qed

lemma fw_finish_inv:
  assumes inv: "fw_inv img cs (d, w, pend)" and step: "fw_thread_finish d = Some d'"
  shows "fw_inv img cs (d', w, pend)"
proof -
  have st: "fw_static img cs d" and ring: "fw_ring img cs d" and head: "fw_head img cs d"
    and log: "fw_log img cs d" and pd: "fw_pending img d pend"
    using inv by (simp_all add: fw_inv_def)
  obtain e where cb: "fw_in_callback d = Some (fw_pool_tail d, e)"
    using step ring by (auto simp: fw_thread_finish_def fw_ring_def split: option.splits)
  let ?N = "length (fw_pool d)" and ?D = "fw_done d" and ?k = "fw_queued d"
  let ?tail = "fw_pool_tail d"
  define err where "err = (case e of CCAPI_FW_DATA_ERROR_NONE \<Rightarrow> fw_data_error d
     | CCAPI_FW_DATA_ERROR_INVALID_DATA \<Rightarrow> CCAPI_FW_DATA_ERROR_INVALID_DATA)"
  have d': "d' = d\<lparr>fw_in_callback := None, fw_data_error := err,
       fw_pool := (fw_pool d)[?tail := (fw_pool d ! ?tail)\<lparr>chunk_in_use := False\<rparr>],
       fw_pool_tail := next_slot d ?tail, fw_thread_status := CCAPI_THREAD_RUNNING\<rparr>"
    using step cb st by (auto simp: fw_thread_finish_def fw_static_def err_def)
  have N: "?N > 0" and tail: "?tail = ?D mod ?N" and ne: "fw_delivered d \<noteq> []"
    using st ring cb by (auto simp: fw_static_def fw_ring_def)
  have k: "?k > 0" "?k \<le> ?N" and q: "fw_done d' = Suc ?D" "fw_queued d' = ?k - 1"
    using ring cb ne by (simp_all add: d' fw_done_def fw_queued_def fw_ring_def)
  have at: "fw_pool d' ! (m mod ?N) =
      (if m mod ?N = ?tail then (fw_pool d ! ?tail)\<lparr>chunk_in_use := False\<rparr>
       else fw_pool d ! (m mod ?N))" for m
    using N tail by (simp add: d')
  have window: "m mod ?N \<noteq> ?tail" if "Suc ?D \<le> m" "m < ?D + ?k" for m
    using mod_window_inj [of ?D m ?N ?D] that k N by (auto simp: tail)
  have view: "chunk_view (fw_pool d' ! (m mod ?N)) = fw_expected img cs m"
    if "Suc ?D \<le> m" "m < ?D + ?k" for m
    using ring that window [OF that] by (simp add: at fw_ring_def)
  have used: "chunk_in_use (fw_pool d' ! i) \<longleftrightarrow>
      (\<exists>m. Suc ?D \<le> m \<and> m < ?D + ?k \<and> i = m mod ?N)" if "i < ?N" for i
  proof (cases "i = ?tail")
    case True
    then show ?thesis using window N tail by (simp add: d') (metis True)
  next
    case False
    have "(\<exists>m\<ge>?D. m < ?D + ?k \<and> i = m mod ?N) \<longleftrightarrow>
        (\<exists>m. Suc ?D \<le> m \<and> m < ?D + ?k \<and> i = m mod ?N)"
      using False tail by (metis Suc_leD Suc_leI le_neq_implies_less)
    then show ?thesis using ring that False by (simp add: d' fw_ring_def)
  qed
  have "fw_ring img cs d'"
    unfolding fw_ring_def q
    using used view k ring N next_slot_mod [of d ?D] tail
    by (auto simp: d' fw_ring_def)
  moreover have "fw_static img cs d'"
    using st N tail by (auto simp: fw_static_def d' set_conv_nth nth_list_update)
  moreover have "fw_head img cs d'"
  proof -
    have "?D + ?k = fw_done d' + fw_queued d'" using q k by simp
    moreover have "fw_queued d' < ?N" using q k by simp
    moreover have "chunk_data (fw_pool d' ! i) = chunk_data (fw_pool d ! i)" if "i < ?N" for i
      using that N tail by (simp add: d' nth_list_update)
    moreover have "fw_pool_head d < ?N" using ring N by (simp add: fw_ring_def)
    ultimately show ?thesis using head unfolding fw_head_def Let_def by (auto simp: d')
  qed
  moreover have "fw_log img cs d'" using log by (simp add: fw_log_def d')
  moreover have "fw_pending img d' pend"
    using pd by (auto simp: fw_pending_def d' err_def split: ccapi_fw_data_error_t.splits)
  ultimately show ?thesis by (simp add: fw_inv_def)
qed

subsection \<open>The step of the connector\<close>

lemma fw_offset_accepted:
  assumes st: "fw_static img cs d" and head: "fw_head img cs d" and pd: "fw_pending img d pend"
    and pend: "pend = None \<or> pend = Some (pos, n)" and n: "0 < n" "pos + n \<le> length img"
    and err: "fw_data_error d \<noteq> CCAPI_FW_DATA_ERROR_INVALID_DATA"
    and off: "of_nat pos = fw_tail_offset d - fw_bytes_processed d"
  shows "unat (fw_tail_offset d) = pos + unat (fw_bytes_processed d) \<and> unat (fw_bytes_processed d) < n"
proof (cases "fw_bytes_processed d = 0")
  case True
  have "unat (of_nat pos :: u32) = pos"
    using st n by (simp add: fw_static_def unat_of_nat_u32)
  then show ?thesis using True off n by (metis add.right_neutral diff_zero unat_0)
next
  case False
  then show ?thesis using pd pend err by (auto simp: fw_pending_def)
qed

lemma process_chunk_eval:
  assumes st: "fw_static img cs d" and T: "unat (fw_tail_offset d) = pos + unat (fw_bytes_processed d)"
    and P: "unat (fw_bytes_processed d) < n" and n: "pos + n \<le> length img"
    and H: "fw_head_offset d \<le> fw_tail_offset d"
  defines "b \<equiv> min (cs - unat (fw_tail_offset d) mod cs) (n - unat (fw_bytes_processed d))"
  defines "to \<equiv> unat (fw_tail_offset d) + b"
  shows "process_chunk (fw_packet img (fw_target d) pos n) d =
    ub_bind (fill_chunk d (unat (fw_tail_offset d) mod cs) (take n (drop pos img))
               (unat (fw_bytes_processed d)) b)
      (\<lambda>d1. Inr (if unat (fw_bytes_processed d) + b = n then connector_callback_continue
                 else connector_callback_busy,
         (if to = length img \<or> to mod cs = 0
          then queue_chunk d1 (of_nat to) (to = length img) else d1)
         \<lparr>fw_bytes_processed := (if unat (fw_bytes_processed d) + b = n then 0
                                 else fw_bytes_processed d + of_nat b),
          fw_tail_offset := of_nat to\<rparr>))"
proof -
  let ?c = "of_nat cs :: u32" and ?t = "fw_tail_offset d" and ?p = "fw_bytes_processed d"
  have L: "length img < 2 ^ 32" "cs < 2 ^ 32" "0 < cs" and tot: "fw_total_size d = of_nat (length img)"
    and tgt: "unat (fw_target d) < length (fw_items d)"
    and cs: "target_chunk_size (fw_items d ! unat (fw_target d)) = of_nat cs"
    using st by (auto simp: fw_static_def)
  have uc: "unat ?c = cs" using L by (simp add: unat_of_nat_u32)
  have c: "ucast (of_nat cs :: size_t) = ?c"
    using L by (intro ucast_of_nat_64_32) simp
  have c0: "?c \<noteq> 0"
  proof
    assume "?c = 0" then show False using uc L(3) by simp
  qed
  have tm: "unat (?t mod ?c) = unat ?t mod cs" by (simp add: unat_mod uc)
  have "unat ?t mod cs < cs" using L by simp
  then have "?t mod ?c \<le> ?c" by (simp add: word_le_nat_alt tm uc)
  then have room: "unat (?c - ?t mod ?c) = cs - unat ?t mod cs" by (simp add: unat_minus_le tm uc)
  have un: "unat (of_nat n :: size_t) = n" using n L by (simp add: unat_of_nat_u64)
  have "(ucast ?p :: size_t) \<le> of_nat n" using P by (simp add: word_le_nat_alt un)
  then have rest: "unat ((of_nat n :: size_t) - ucast ?p) = n - unat ?p"
    by (simp add: unat_minus_le un)
  have b32: "b < 2 ^ 32" using L by (simp add: b_def min_def; arith)
  define btc where "btc = fw_bytes_to_copy ?c ?t (of_nat n) ?p"
  have "unat btc = b"
  proof (cases "cs - unat ?t mod cs < n - unat ?p")
    case True
    then show ?thesis by (simp add: btc_def fw_bytes_to_copy_def Let_def b_def word_less_nat_alt room rest)
  next
    case False
    then have "unat (ucast ((of_nat n :: size_t) - ucast ?p) :: u32) = n - unat ?p"
      using n L by (simp add: unat_ucast_64_32 rest)
    then show ?thesis using False by (simp add: btc_def fw_bytes_to_copy_def Let_def b_def word_less_nat_alt room rest)
  qed
  then have btc: "btc = of_nat b" by (metis of_nat_unat ucast_id)
  have to: "?t + btc = of_nat to" by (simp add: btc to_def)
  have bn: "b \<le> n - unat ?p" by (simp add: b_def)
  have "to \<le> length img" using bn P n T by (simp add: to_def)
  then have uto: "unat (of_nat to :: u32) = to" using L by (simp add: unat_of_nat_u32)
  have last: "(of_nat to :: u32) = fw_total_size d \<longleftrightarrow> to = length img"
    using L \<open>to \<le> length img\<close> by (simp add: tot of_nat_u32_inj)
  have aligned: "(of_nat to :: u32) mod ?c = 0 \<longleftrightarrow> to mod cs = 0"
    by (simp add: unat_eq_zero [symmetric] unat_mod uc uto)
  have "unat (?p + btc) = unat ?p + b"
    using \<open>unat btc = b\<close> bn P n L by (subst unat_plus_small) auto
  then have all: "(ucast (?p + btc) :: size_t) = of_nat n \<longleftrightarrow> unat ?p + b = n"
    by (simp add: word_unat_eq_iff un)
  show ?thesis
    using tgt H c0
    by (simp add: process_chunk_def fw_packet_def cs c uc tm to last aligned all Let_def
        \<open>unat btc = b\<close> flip: btc_def) (simp add: btc to [unfolded btc] last cong: if_cong)
qed

text \<open>What the copy leaves in the buffer at the head of the pool.\<close>

lemma fill_chunk_ok:
  assumes "chunk_data (fw_pool d ! fw_pool_head d) = Some buf"
    and "at + b \<le> length buf" and "from + b \<le> length source"
  shows "fill_chunk d at source from b =
    Inr (d\<lparr>fw_pool := (fw_pool d)[fw_pool_head d := (fw_pool d ! fw_pool_head d)
       \<lparr>chunk_data := Some (take at buf @ map Some (take b (drop from source)) @ drop (at + b) buf)\<rparr>]\<rparr>)"
  using assms by (simp add: fill_chunk_def memcpy_at_def)

lemma fw_partial_grows:
  assumes "take (T - H) buf = map Some (take (T - H) (drop H img))"
    and "H \<le> T" and "T = pos + P" and "P + b \<le> n" and "pos + n \<le> length img" and "T - H \<le> length buf"
  shows "take (T - H + b) (take (T - H) buf @ map Some (take b (drop P (take n (drop pos img)))) @ rest)
           = map Some (take (T - H + b) (drop H img))"
proof -
  have "drop P (take n (drop pos img)) = take (n - P) (drop T img)"
    using assms by (simp add: drop_take add.commute)
  then have "take b (drop P (take n (drop pos img))) = take b (drop T img)"
    using assms by simp
  moreover have "length (take b (drop T img)) = b" using assms by simp
  moreover have "length (take (T - H) buf) = T - H" using assms by simp
  ultimately have "take (T - H + b)
        (take (T - H) buf @ map Some (take b (drop P (take n (drop pos img)))) @ rest)
      = take (T - H) buf @ map Some (take b (drop T img))"
    by (simp add: min_def)
  also have "\<dots> = map Some (take (T - H + b) (drop H img))"
    using assms(1,2) by (simp only: take_add map_append drop_drop) simp
  finally show ?thesis .
qed

text \<open>
  The head slot once \<open>b\<close> more bytes are in it; \<open>fw_filled\<close> is the service with that slot, the
  same for a chunk that stays open and for one that is queued.
\<close>

definition fw_filled :: "'w fw_service \<Rightarrow> u8 buffer \<Rightarrow> 'w fw_service" where
  "fw_filled d buf = d\<lparr>fw_pool := (fw_pool d)[fw_pool_head d :=
     (fw_pool d ! fw_pool_head d)\<lparr>chunk_data := Some buf\<rparr>]\<rparr>"

lemma fw_filled_simps [simp]:
  "length (fw_pool (fw_filled d buf)) = length (fw_pool d)"
  "fw_pool_head (fw_filled d buf) = fw_pool_head d"
  "fw_pool_tail (fw_filled d buf) = fw_pool_tail d"
  "fw_in_callback (fw_filled d buf) = fw_in_callback d"
  "fw_delivered (fw_filled d buf) = fw_delivered d"
  "fw_wakeups (fw_filled d buf) = fw_wakeups d"
  "fw_head_offset (fw_filled d buf) = fw_head_offset d"
  "fw_target (fw_filled d buf) = fw_target d"
  "fw_data_error (fw_filled d buf) = fw_data_error d"
  "fw_done (fw_filled d buf) = fw_done d"
  "fw_queued (fw_filled d buf) = fw_queued d"
  by (simp_all add: fw_filled_def fw_done_def fw_queued_def)

lemma fw_head_slot_free:
  assumes "fw_static img cs d" and "fw_ring img cs d"
    and "\<not> chunk_in_use (fw_pool d ! fw_pool_head d)"
  shows "fw_queued d < length (fw_pool d)" and "fw_pool_head d < length (fw_pool d)"
    and "\<And>m. fw_done d \<le> m \<Longrightarrow> m < fw_done d + fw_queued d \<Longrightarrow>
           m mod length (fw_pool d) \<noteq> fw_pool_head d"
proof -
  let ?N = "length (fw_pool d)" and ?D = "fw_done d" and ?k = "fw_queued d"
  have N: "?N > 0" and head: "fw_pool_head d = (?D + ?k) mod ?N" and k: "?k \<le> ?N"
    using assms(1,2) by (auto simp: fw_static_def fw_ring_def)
  show lt: "fw_pool_head d < ?N" using N by (simp add: head)
  show "m mod ?N \<noteq> fw_pool_head d" if "?D \<le> m" "m < ?D + ?k" for m
    using assms(2,3) that lt by (auto simp: fw_ring_def)
  from this [of ?D] show "?k < ?N"
    using k N by (cases "?k = ?N") (auto simp: head)
qed

lemma fw_filled_static:
  assumes "fw_static img cs d" and "fw_pool_head d < length (fw_pool d)" and "length buf = cs"
  shows "fw_static img cs (fw_filled d buf)"
  using assms by (auto simp: fw_static_def fw_filled_def set_conv_nth nth_list_update)

lemma fw_filled_ring:
  assumes "fw_static img cs d" and "fw_ring img cs d"
    and "\<not> chunk_in_use (fw_pool d ! fw_pool_head d)"
  shows "fw_ring img cs (fw_filled d buf)"
proof -
  note free = fw_head_slot_free [OF assms]
  have "chunk_in_use (fw_pool (fw_filled d buf) ! i) = chunk_in_use (fw_pool d ! i)"
    if "i < length (fw_pool d)" for i
    using that free(2) by (simp add: fw_filled_def nth_list_update)
  moreover have "fw_pool (fw_filled d buf) ! (m mod length (fw_pool d))
      = fw_pool d ! (m mod length (fw_pool d))"
    if "fw_done d \<le> m" "m < fw_done d + fw_queued d" for m
    using free(3) [OF that] by (simp add: fw_filled_def)
  ultimately show ?thesis
    using assms(2) unfolding fw_ring_def by auto
qed

lemma fw_data_effect:
  assumes st: "fw_static img cs d" and ring: "fw_ring img cs d" and head: "fw_head img cs d"
    and free: "\<not> chunk_in_use (fw_pool d ! fw_pool_head d)"
    and T: "unat (fw_tail_offset d) = pos + unat (fw_bytes_processed d)"
    and P: "unat (fw_bytes_processed d) < n" and n: "pos + n \<le> length img"
  defines "b \<equiv> min (cs - unat (fw_tail_offset d) mod cs) (n - unat (fw_bytes_processed d))"
  defines "to \<equiv> unat (fw_tail_offset d) + b"
  obtains buf where "length buf = cs"
    and "unat (fw_head_offset d) = (fw_done d + fw_queued d) * cs"
    and "unat (fw_head_offset d) \<le> unat (fw_tail_offset d)"
    and "unat (fw_head_offset d) < to" and "to \<le> unat (fw_head_offset d) + cs"
    and "to \<le> length img" and "0 < b"
    and "to mod cs = 0 \<longleftrightarrow> to = unat (fw_head_offset d) + cs"
    and "take (to - unat (fw_head_offset d)) buf
           = map Some (take (to - unat (fw_head_offset d)) (drop (unat (fw_head_offset d)) img))"
    and "process_chunk (fw_packet img (fw_target d) pos n) d =
      Inr (if unat (fw_bytes_processed d) + b = n then connector_callback_continue
           else connector_callback_busy,
         (if to = length img \<or> to mod cs = 0
          then queue_chunk (fw_filled d buf) (of_nat to) (to = length img) else fw_filled d buf)
         \<lparr>fw_bytes_processed := (if unat (fw_bytes_processed d) + b = n then 0
                                 else fw_bytes_processed d + of_nat b),
          fw_tail_offset := of_nat to\<rparr>)"
proof -
  let ?H = "unat (fw_head_offset d)" and ?T = "unat (fw_tail_offset d)"
  let ?P = "unat (fw_bytes_processed d)" and ?M = "fw_done d + fw_queued d"
  have cs: "0 < cs" using st by (simp add: fw_static_def)
  have HT: "?H \<le> ?T" and TH: "?T < ?H + cs" and Hmin: "?H = min (?M * cs) (length img)"
    using head by (simp_all add: fw_head_def Let_def)
  have TL: "?T < length img" using T P n by simp
  then have H: "?H = ?M * cs" using HT Hmin by (simp add: min_def split: if_splits)
  have Tm: "?T mod cs = ?T - ?H"
  proof -
    have "?T = ?H + (?T - ?H)" using HT by simp
    then have "?T mod cs = (?T - ?H) mod cs" unfolding H by (metis mod_mult_self3)
    then show ?thesis using TH HT by simp
  qed
  have b0: "0 < b" and bn: "b \<le> n - ?P" and bc: "?T - ?H + b \<le> cs"
    using P TH HT by (auto simp: b_def Tm)
  obtain buf where buf: "chunk_data (fw_pool d ! fw_pool_head d) = Some buf" "length buf = cs"
    using st nth_mem [OF fw_head_slot_free(2) [OF st ring free]]
    unfolding fw_static_def by blast
  have part: "take (?T - ?H) buf = map Some (take (?T - ?H) (drop ?H img))"
  proof (cases "?H < ?T")
    case True
    then show ?thesis using head buf(1) by (auto simp: fw_head_def Let_def)
  qed simp
  define buf' where "buf' = take (?T - ?H) buf @
     map Some (take b (drop ?P (take n (drop pos img)))) @ drop (?T - ?H + b) buf"
  have grown: "take (?T - ?H + b) buf' = map Some (take (?T - ?H + b) (drop ?H img))"
    unfolding buf'_def
    by (rule fw_partial_grows [OF part HT T]) (use bn P n TH HT buf(2) in auto)
  have len: "length buf' = cs" using bn bc P n buf(2) by (simp add: buf'_def)
  have to: "to - ?H = ?T - ?H + b" using HT by (simp add: to_def)
  have fill: "fill_chunk d (?T mod cs) (take n (drop pos img)) ?P b = Inr (fw_filled d buf')"
    unfolding Tm fw_filled_def buf'_def
    by (rule fill_chunk_ok) (use buf bc bn P n in auto)
  have le: "fw_head_offset d \<le> fw_tail_offset d" using HT by (simp add: word_le_nat_alt)
  have aligned: "to mod cs = 0 \<longleftrightarrow> to = ?H + cs"
  proof -
    have "to = ?H + (to - ?H)" using HT by (simp add: to_def)
    then have "to mod cs = (to - ?H) mod cs" unfolding H by (metis mod_mult_self3)
    moreover have "0 < to - ?H" "to - ?H \<le> cs" using b0 bc to by simp_all
    ultimately show ?thesis by (cases "to - ?H = cs") auto
  qed
  show thesis
  proof (rule that [OF len H HT])
    show "?H < to" "to \<le> ?H + cs" "to \<le> length img" "0 < b"
      using b0 bc bn HT T P n by (simp_all add: to_def)
    show "take (to - ?H) buf' = map Some (take (to - ?H) (drop ?H img))"
      using grown by (simp add: to)
    show "process_chunk (fw_packet img (fw_target d) pos n) d =
      Inr (if ?P + b = n then connector_callback_continue else connector_callback_busy,
         (if to = length img \<or> to mod cs = 0
          then queue_chunk (fw_filled d buf') (of_nat to) (to = length img) else fw_filled d buf')
         \<lparr>fw_bytes_processed := (if ?P + b = n then 0 else fw_bytes_processed d + of_nat b),
          fw_tail_offset := of_nat to\<rparr>)"
      using process_chunk_eval [OF st T P n le] fill unfolding b_def to_def by simp
  qed (rule aligned)
qed

text \<open>Queueing the chunk at the head keeps the ring in order.\<close>

lemma queue_chunk_ring:
  assumes st: "fw_static img cs d" and ring: "fw_ring img cs d"
    and free: "\<not> chunk_in_use (fw_pool d ! fw_pool_head d)"
    and view: "chunk_view (fw_pool (queue_chunk d to l) ! fw_pool_head d)
                 = fw_expected img cs (fw_done d + fw_queued d)"
  shows "fw_ring img cs (queue_chunk d to l)"
proof -
  let ?d = "queue_chunk d to l"
  let ?N = "length (fw_pool d)" and ?D = "fw_done d" and ?k = "fw_queued d"
  note slot = fw_head_slot_free [OF st ring free]
  have N: "?N > 0" "fw_pool d \<noteq> []" using st by (auto simp: fw_static_def)
  have head: "fw_pool_head d = (?D + ?k) mod ?N" using ring by (simp add: fw_ring_def)
  have q: "fw_done ?d = ?D" "fw_queued ?d = Suc ?k" "length (fw_pool ?d) = ?N"
    "fw_pool_tail ?d = fw_pool_tail d" "fw_in_callback ?d = fw_in_callback d"
    "fw_delivered ?d = fw_delivered d"
    by (simp_all add: queue_chunk_def Let_def fw_done_def fw_queued_def)
  have h: "fw_pool_head ?d = Suc (?D + ?k) mod ?N"
    using next_slot_mod [OF N(2), of "?D + ?k"] by (simp add: queue_chunk_def Let_def head)
  have other: "fw_pool ?d ! i = fw_pool d ! i" if "i \<noteq> fw_pool_head d" for i
    using that by (simp add: queue_chunk_def Let_def)
  have used: "chunk_in_use (fw_pool ?d ! fw_pool_head d)"
    using slot(2) by (simp add: queue_chunk_def Let_def)
  have "chunk_in_use (fw_pool ?d ! i) \<longleftrightarrow> (\<exists>m. ?D \<le> m \<and> m < ?D + Suc ?k \<and> i = m mod ?N)"
    if "i < ?N" for i
  proof (cases "i = fw_pool_head d")
    case True
    then show ?thesis using used head by (auto intro!: exI [of _ "?D + ?k"])
  next
    case False
    then have "chunk_in_use (fw_pool ?d ! i) \<longleftrightarrow> (\<exists>m. ?D \<le> m \<and> m < ?D + ?k \<and> i = m mod ?N)"
      using ring that other [OF False] by (simp add: fw_ring_def)
    then show ?thesis using False head by (auto simp: less_Suc_eq)
  qed
  moreover have "chunk_view (fw_pool ?d ! (m mod ?N)) = fw_expected img cs m"
    if "?D \<le> m" "m < ?D + Suc ?k" for m
  proof (cases "m = ?D + ?k")
    case True
    then show ?thesis using view head by simp
  next
    case False
    then have m: "m < ?D + ?k" using that by simp
    then show ?thesis using ring that(1) other [OF slot(3) [OF that(1) m]] by (simp add: fw_ring_def)
  qed
  ultimately show ?thesis
    using ring slot(1) h unfolding fw_ring_def q by auto
qed

lemma fw_frame:
  fixes d :: "'w fw_service"
  defines "d' \<equiv> \<lambda>p t. d\<lparr>fw_bytes_processed := p, fw_tail_offset := t\<rparr>"
  shows "fw_static img cs (d' p t) = fw_static img cs d" and "fw_ring img cs (d' p t) = fw_ring img cs d"
    and "fw_log img cs (d' p t) = fw_log img cs d"
    and "fw_done (d' p t) = fw_done d" and "fw_queued (d' p t) = fw_queued d"
  by (simp_all add: d'_def fw_static_def fw_ring_def fw_log_def fw_done_def fw_queued_def)

lemma fw_filled_head_view:
  assumes L: "length img < 2 ^ 32" and H: "unat (fw_head_offset d) = M * cs"
    and to: "M * cs < to" "to \<le> M * cs + cs" "to \<le> length img" "to = length img \<or> to = M * cs + cs"
    and slot: "fw_pool_head d < length (fw_pool d)"
    and buf: "take (to - M * cs) buf = map Some (take (to - M * cs) (drop (M * cs) img))"
  shows "chunk_view (fw_pool (queue_chunk (fw_filled d buf) (of_nat to) (to = length img))
           ! fw_pool_head d) = fw_expected img cs M"
proof -
  have uto: "unat (of_nat to :: u32) = to" using L to by (simp add: unat_of_nat_u32)
  have "fw_head_offset d \<le> of_nat to" using to H by (simp add: word_le_nat_alt uto)
  then have bytes: "unat (of_nat to - fw_head_offset d) = to - M * cs"
    by (simp add: unat_minus_le uto H)
  have slice: "fw_slice img cs M = take (to - M * cs) (drop (M * cs) img)"
    using to by (auto simp: fw_slice_def)
  have len: "length (fw_slice img cs M) = to - M * cs" using to by (auto simp: slice)
  have last: "to = length img \<longleftrightarrow> length img \<le> M * cs + cs" using to by auto
  show ?thesis
    using slot buf by (simp add: queue_chunk_def fw_filled_def Let_def chunk_view_def fw_expected_def
        H bytes len) (simp add: slice last add.commute)
qed

lemma queue_chunk_static:
  assumes "fw_static img cs d" and "fw_pool_head d < length (fw_pool d)"
  shows "fw_static img cs (queue_chunk d to l)"
  using assms by (auto simp: fw_static_def queue_chunk_def Let_def set_conv_nth nth_list_update)

lemma queue_chunk_simps [simp]:
  "fw_done (queue_chunk d to l) = fw_done d"
  "fw_queued (queue_chunk d to l) = Suc (fw_queued d)"
  "length (fw_pool (queue_chunk d to l)) = length (fw_pool d)"
  "fw_head_offset (queue_chunk d to l) = to"
  by (simp_all add: queue_chunk_def Let_def fw_done_def fw_queued_def)

lemma fw_head_queued:
  assumes head: "\<forall>m < fw_done d + fw_queued d. m * cs < length img"
    and H: "unat (fw_head_offset d) = (fw_done d + fw_queued d) * cs"
    and to: "unat to = n" "unat (fw_head_offset d) < n" "n \<le> length img" "0 < cs"
      "n = length img \<or> n = unat (fw_head_offset d) + cs" "n \<le> unat (fw_head_offset d) + cs"
  shows "fw_head img cs (queue_chunk d to l\<lparr>fw_bytes_processed := p, fw_tail_offset := to\<rparr>)"
proof -
  let ?M = "fw_done d + fw_queued d"
  have "n = min (Suc ?M * cs) (length img)" using H to by (auto simp: min_def)
  moreover have "\<forall>m < Suc ?M. m * cs < length img"
    using head H to by (auto simp: less_Suc_eq)
  ultimately show ?thesis
    using to by (simp add: fw_head_def Let_def fw_frame)
qed

lemma fw_head_open:
  assumes "\<forall>m < fw_done d + fw_queued d. m * cs < length img"
    and "unat (fw_head_offset d) = (fw_done d + fw_queued d) * cs" and "unat to = n"
    and "n < unat (fw_head_offset d) + cs" "n \<le> length img" "unat (fw_head_offset d) \<le> n"
    and "fw_queued d < length (fw_pool d)"
    and "chunk_data (fw_pool d ! fw_pool_head d) = Some buf"
    and "take (n - unat (fw_head_offset d)) buf
           = map Some (take (n - unat (fw_head_offset d)) (drop (unat (fw_head_offset d)) img))"
  shows "fw_head img cs (d\<lparr>fw_bytes_processed := p, fw_tail_offset := to\<rparr>)"
  using assms by (simp add: fw_head_def Let_def fw_frame)

lemma fw_data_inv:
  assumes inv: "fw_inv img cs (d, w, pend)"
    and pend: "pend = None \<or> pend = Some (pos, n)" and n: "0 < n" "pos + n \<le> length img"
    and step: "ccapi_process_firmware_update_data (fw_packet img (fw_target d) pos n) d
                 = Inr (status, answer, d')"
  shows "fw_inv img cs (d', w, if status = connector_callback_busy then Some (pos, n) else None)"
proof -
  have st: "fw_static img cs d" and ring: "fw_ring img cs d" and head: "fw_head img cs d"
    and log: "fw_log img cs d" and pd: "fw_pending img d pend"
    using inv by (simp_all add: fw_inv_def)
  let ?m = "fw_packet img (fw_target d) pos n"
  have started: "fw_update_started d" and L: "length img < 2 ^ 32"
    using st by (simp_all add: fw_static_def)
  note step' = step [unfolded ccapi_process_firmware_update_data_def]
  consider (invalid) "fw_data_error d = CCAPI_FW_DATA_ERROR_INVALID_DATA"
    | (offset) "fw_data_error d \<noteq> CCAPI_FW_DATA_ERROR_INVALID_DATA"
        "of_nat pos \<noteq> fw_tail_offset d - fw_bytes_processed d"
    | (full) "fw_data_error d \<noteq> CCAPI_FW_DATA_ERROR_INVALID_DATA"
        "of_nat pos = fw_tail_offset d - fw_bytes_processed d"
        "chunk_in_use (fw_pool d ! fw_pool_head d)"
    | (free) "fw_data_error d \<noteq> CCAPI_FW_DATA_ERROR_INVALID_DATA"
        "of_nat pos = fw_tail_offset d - fw_bytes_processed d"
        "\<not> chunk_in_use (fw_pool d ! fw_pool_head d)"
    by blast
  then show ?thesis
  proof cases
    case invalid
    then have "d' = d" "status = connector_callback_continue"
      using step' started by (simp_all add: fw_packet_def)
    then show ?thesis using inv invalid by (simp add: fw_inv_def fw_pending_def)
  next
    case offset
    then have "d' = d" "status = connector_callback_continue"
      using step' started by (simp_all add: fw_packet_def)
    moreover have "fw_bytes_processed d = 0"
    proof (rule ccontr)
      assume "fw_bytes_processed d \<noteq> 0"
      then have "unat (fw_tail_offset d) = pos + unat (fw_bytes_processed d)"
        using pd pend offset(1) by (auto simp: fw_pending_def)
      then have "fw_tail_offset d = of_nat pos + fw_bytes_processed d"
        by (metis of_nat_add of_nat_unat ucast_id)
      then show False using offset(2) by simp
    qed
    ultimately show ?thesis using inv by (simp add: fw_inv_def fw_pending_def)
  next
    case full
    have "d' = d" "status = connector_callback_busy"
      using step' started full ring st
      by (auto simp: fw_packet_def fw_ring_def fw_static_def split: if_splits)
    then show ?thesis
      using inv fw_offset_accepted [OF st head pd pend n full(1,2)]
      by (simp add: fw_inv_def fw_pending_def)
  next
    case free
    note acc = fw_offset_accepted [OF st head pd pend n free(1,2)]
    let ?P = "unat (fw_bytes_processed d)" and ?T = "unat (fw_tail_offset d)"
    let ?H = "unat (fw_head_offset d)" and ?M = "fw_done d + fw_queued d"
    define b where "b = min (cs - ?T mod cs) (n - ?P)"
    define to where "to = ?T + b"
    define p' where "p' = (if ?P + b = n then 0 else fw_bytes_processed d + of_nat b)"
    obtain buf where buf: "length buf = cs" and H: "?H = ?M * cs" and HT: "?H \<le> ?T"
      and to1: "?H < to" "to \<le> ?H + cs" "to \<le> length img" "0 < b"
      and al: "to mod cs = 0 \<longleftrightarrow> to = ?H + cs"
      and content: "take (to - ?H) buf = map Some (take (to - ?H) (drop ?H img))"
      and proc: "process_chunk ?m d =
        Inr (if ?P + b = n then connector_callback_continue else connector_callback_busy,
         (if to = length img \<or> to mod cs = 0
          then queue_chunk (fw_filled d buf) (of_nat to) (to = length img) else fw_filled d buf)
         \<lparr>fw_bytes_processed := p', fw_tail_offset := of_nat to\<rparr>)"
      using fw_data_effect [OF st ring head free(3) _ _ n(2)] acc
      unfolding b_def to_def p'_def by metis
    have slot: "fw_pool_head d < length (fw_pool d)" "fw_queued d < length (fw_pool d)"
      using fw_head_slot_free [OF st ring free(3)] by blast+
    define d1 where "d1 = (if to = length img \<or> to mod cs = 0
          then queue_chunk (fw_filled d buf) (of_nat to) (to = length img) else fw_filled d buf)"
    have d': "d' = d1\<lparr>fw_bytes_processed := p', fw_tail_offset := of_nat to\<rparr>"
      and status: "status = (if ?P + b = n then connector_callback_continue
                             else connector_callback_busy)"
      using step' started free slot proc unfolding d1_def by (auto simp: fw_packet_def)
    have uto: "unat (of_nat to :: u32) = to" using L to1 by (simp add: unat_of_nat_u32)
    have st1: "fw_static img cs (fw_filled d buf)"
      and ring1: "fw_ring img cs (fw_filled d buf)"
      and free1: "\<not> chunk_in_use (fw_pool (fw_filled d buf) ! fw_pool_head (fw_filled d buf))"
      using fw_filled_static [OF st slot(1) buf] fw_filled_ring [OF st ring free(3)] free(3) slot(1)
      by (simp_all add: fw_filled_def)
    have up: "unat (fw_bytes_processed d + of_nat b) = ?P + b" if "?P + b < n"
    proof -
      have "unat (of_nat b :: u32) = b" using that n L by (simp add: unat_of_nat_u32)
      then show ?thesis using that n L by (subst unat_plus_small) auto
    qed
    have lt: "\<forall>m < ?M. m * cs < length img" and cs: "0 < cs"
      using head st by (simp_all add: fw_head_def Let_def fw_static_def)
    have "b \<le> n - ?P" by (simp add: b_def)
    then have "?P + b \<le> n" using acc by linarith
    then have pd': "fw_pending img d' (if status = connector_callback_busy then Some (pos, n) else None)"
    proof -
      have "to = pos + (?P + b)" using acc by (simp add: to_def)
      then show ?thesis using up uto \<open>?P + b \<le> n\<close> by (auto simp: fw_pending_def d' status p'_def)
    qed
    have "fw_log img cs d1"
      using log unfolding d1_def fw_log_def by (simp add: queue_chunk_def Let_def)
    moreover have "fw_static img cs d1 \<and> fw_ring img cs d1 \<and> fw_head img cs d'"
    proof (cases "to = length img \<or> to mod cs = 0")
      case True
      then have to2: "to = length img \<or> to = ?M * cs + cs" using al H by simp
      have view: "chunk_view (fw_pool (queue_chunk (fw_filled d buf) (of_nat to) (to = length img))
           ! fw_pool_head d) = fw_expected img cs ?M"
        by (rule fw_filled_head_view [OF L H]) (use to1 to2 slot content H in simp_all)
      have "fw_static img cs d1" "fw_ring img cs d1"
        using True st1 ring1 free1 slot view unfolding d1_def
        by (simp_all add: queue_chunk_static queue_chunk_ring)
      moreover have "fw_head img cs d'"
        using True fw_head_queued [of "fw_filled d buf" cs img "of_nat to" to] lt H uto to1 to2 cs
        unfolding d' d1_def by simp
      ultimately show ?thesis by simp
    next
      case False
      have "chunk_data (fw_pool (fw_filled d buf) ! fw_pool_head d) = Some buf"
        using slot by (simp add: fw_filled_def)
      then have "fw_head img cs d'"
        using False fw_head_open [of "fw_filled d buf" cs img "of_nat to" to buf]
          lt H uto to1 al slot content
        unfolding d' d1_def by simp
      then show ?thesis using False st1 ring1 by (simp add: d1_def)
    qed
    ultimately show ?thesis using pd' by (simp add: fw_inv_def d' fw_frame)
  qed
qed

theorem fw_step_inv:
  assumes "fw_step img s t" and "fw_inv img cs s"
  shows "fw_inv img cs t"
  using assms
proof (induction rule: fw_step.induct)
  case (fw_step_data pend pos n d status answer d' w)
  show ?case
    by (rule fw_data_inv [OF fw_step_data(5) fw_step_data(1) fw_step_data(2) fw_step_data(3)
          fw_step_data(4)])
next
  case (fw_step_wake d w d' w' pend)
  show ?case by (rule fw_wake_inv [OF fw_step_wake(2) fw_step_wake(1)])
next
  case (fw_step_finish d d' w pend)
  show ?case by (rule fw_finish_inv [OF fw_step_finish(2) fw_step_finish(1)])
qed

lemma fw_reachable_inv:
  assumes "fw_reachable os img cs s" shows "fw_inv img cs s"
  using assms by (induction) (blast intro: fw_inv_start fw_step_inv)+

subsection \<open>What the invariant gives\<close>

lemma fw_inv_parts:
  assumes "fw_inv img cs (d, w, pend)"
  shows "fw_static img cs d" and "fw_ring img cs d" and "fw_head img cs d" and "fw_log img cs d"
    and "fw_pending img d pend"
  using assms by (simp_all add: fw_inv_def)

lemma fw_delivered_le:
  assumes "fw_inv img cs (d, w, pend)" shows "length (fw_delivered d) \<le> fw_done d + fw_queued d"
  by (simp add: fw_done_def fw_queued_def)

lemma fw_inv_delivered_count:
  assumes inv: "fw_inv img cs (d, w, pend)"
  shows "length (fw_delivered d) \<le> fw_chunk_count img cs"
proof (cases "fw_delivered d")
  case (Cons x xs)
  note parts = fw_inv_parts [OF inv]
  have cs: "0 < cs" using parts(1) by (simp add: fw_static_def)
  have "length xs < fw_done d + fw_queued d" using fw_delivered_le [OF inv] Cons by simp
  then have "length xs * cs < length img" using parts(3) by (simp add: fw_head_def Let_def)
  then show ?thesis using fw_chunk_count_less [OF cs, of "length xs" img] Cons by simp
qed simp

lemma fw_in_use_iff:
  assumes inv: "fw_inv img cs (d, w, pend)"
  shows "any_chunk_in_use d \<longleftrightarrow> 0 < fw_queued d"
proof -
  note parts = fw_inv_parts [OF inv]
  let ?N = "length (fw_pool d)"
  have N: "?N > 0" using parts(1) by (simp add: fw_static_def)
  have iff: "chunk_in_use (fw_pool d ! i) \<longleftrightarrow>
      (\<exists>m. fw_done d \<le> m \<and> m < fw_done d + fw_queued d \<and> i = m mod ?N)" if "i < ?N" for i
    using parts(2) that by (simp add: fw_ring_def)
  have "any_chunk_in_use d \<longleftrightarrow> (\<exists>i < ?N. chunk_in_use (fw_pool d ! i))"
    by (metis any_chunk_in_use_def list_ex_iff in_set_conv_nth)
  also have "\<dots> \<longleftrightarrow> 0 < fw_queued d"
  proof
    assume "0 < fw_queued d"
    then have "chunk_in_use (fw_pool d ! (fw_done d mod ?N))" using N by (auto simp: iff)
    then show "\<exists>i < ?N. chunk_in_use (fw_pool d ! i)" using N by (metis mod_less_divisor)
  qed (use iff in auto)
  finally show ?thesis .
qed

lemma mod_window:
  fixes N :: nat
  assumes "i < N"
  shows "i \<in> (\<lambda>m. m mod N) ` {D ..< D + N}"
proof (cases "D mod N \<le> i")
  case True
  then have "(D + (i - D mod N)) mod N = i" using assms by (metis le_add_diff_inverse mod_add_left_eq mod_less)
  then show ?thesis using assms True by (intro image_eqI [of _ _ "D + (i - D mod N)"]) auto
next
  case False
  have r: "D mod N < N" using assms by simp
  have "(D + (N - D mod N + i)) mod N = (D mod N + (N - D mod N + i)) mod N" by (simp only: mod_add_left_eq)
  also have "D mod N + (N - D mod N + i) = N + i" using r by simp
  finally have "(D + (N - D mod N + i)) mod N = i" using assms by simp
  then show ?thesis using assms False r by (intro image_eqI [of _ _ "D + (N - D mod N + i)"]) auto
qed

text \<open>When the slot at the head is taken, the ring has wrapped around: every slot is.\<close>

lemma fw_head_in_use_full:
  assumes inv: "fw_inv img cs (d, w, pend)"
    and head: "chunk_in_use (fw_pool d ! fw_pool_head d)"
  shows "list_all chunk_in_use (fw_pool d)"
proof -
  note parts = fw_inv_parts [OF inv]
  let ?N = "length (fw_pool d)" and ?D = "fw_done d" and ?Q = "fw_queued d"
  have N: "?N > 0" using parts(1) by (simp add: fw_static_def)
  have Q: "?Q \<le> ?N" and hd_eq: "fw_pool_head d = (?D + ?Q) mod ?N"
    using parts(2) by (simp_all add: fw_ring_def)
  have iff: "chunk_in_use (fw_pool d ! i) \<longleftrightarrow>
      (\<exists>m. ?D \<le> m \<and> m < ?D + ?Q \<and> i = m mod ?N)" if "i < ?N" for i
    using parts(2) that by (simp add: fw_ring_def)
  obtain m where m: "?D \<le> m" "m < ?D + ?Q" "(?D + ?Q) mod ?N = m mod ?N"
    using head N iff [of "fw_pool_head d"] hd_eq by auto
  then have "?N dvd ?D + ?Q - m" by (metis less_imp_le mod_eq_dvd_iff_nat)
  then have "?N \<le> ?D + ?Q - m" using m(2) by (intro dvd_imp_le) auto
  then have full: "?Q = ?N" using m(1) Q by simp
  have "chunk_in_use (fw_pool d ! i)" if i: "i < ?N" for i
  proof -
    have "i \<in> (\<lambda>m. m mod ?N) ` {?D ..< ?D + ?N}"
      by (rule mod_window [OF i])
    then show ?thesis using iff [OF i] full by auto
  qed
  then show ?thesis by (simp add: list_all_length)
qed

lemma fw_complete_state:
  assumes inv: "fw_inv img cs (d, w, pend)" and idle: "\<not> any_chunk_in_use d"
    and total: "fw_head_offset d = fw_total_size d"
  shows "length (fw_delivered d) = fw_chunk_count img cs"
proof -
  note parts = fw_inv_parts [OF inv]
  have cs: "0 < cs" and L: "length img < 2 ^ 32" and tot: "fw_total_size d = of_nat (length img)"
    using parts(1) by (simp_all add: fw_static_def)
  have q: "fw_queued d = 0" using fw_in_use_iff [OF inv] idle by simp
  have len: "length (fw_delivered d) = fw_done d"
    using q by (simp add: fw_done_def fw_queued_def split: if_splits)
  have "unat (fw_head_offset d) = length img"
    using total tot L by (simp add: unat_of_nat_u32)
  then have "length img \<le> fw_done d * cs" "\<And>m. m < fw_done d \<Longrightarrow> m * cs < length img"
    using parts(3) q by (auto simp: fw_head_def Let_def)
  then show ?thesis using fw_chunk_count_eqI [OF cs] len by simp
qed

lemma fw_expected_bytes:
  assumes "0 < cs"
  shows "concat (map (\<lambda>m. fst (snd (snd (fw_expected img cs m)))) [0..<fw_chunk_count img cs])
           = map Some img"
proof -
  have "concat (map (\<lambda>m. fst (snd (snd (fw_expected img cs m)))) [0..<n])
      = map Some (concat (map (fw_slice img cs) [0..<n]))" for n
    by (induction n) (simp_all add: fw_expected_def)
  then show ?thesis using fw_chunk_count_covers [OF assms, of img] by (simp add: fw_slices_concat)
qed

definition fw_delivered_bytes :: "'w fw_service \<Rightarrow> u8 buffer" where
  "fw_delivered_bytes d = concat (map (\<lambda>x. fst (snd (snd (dlv_view x)))) (fw_delivered d))"

lemma fw_delivered_bytes_log:
  assumes "fw_log img cs d"
  shows "fw_delivered_bytes d =
    concat (map (\<lambda>m. fst (snd (snd (fw_expected img cs m)))) [0..<length (fw_delivered d)])"
proof -
  have "map (\<lambda>x. fst (snd (snd (dlv_view x)))) (fw_delivered d)
      = map (\<lambda>v. fst (snd (snd v))) (map dlv_view (fw_delivered d))" by simp
  also have "\<dots> = map (\<lambda>v. fst (snd (snd v)))
      (map (fw_expected img cs) [0..<length (fw_delivered d)])"
    using assms by (simp add: fw_log_def)
  finally show ?thesis unfolding fw_delivered_bytes_def by (simp add: comp_def)
qed

lemma fw_data_defined:
  assumes inv: "fw_inv img cs (d, w, pend)"
    and pend: "pend = None \<or> pend = Some (pos, n)" and n: "0 < n" "pos + n \<le> length img"
  shows "\<exists>r. ccapi_process_firmware_update_data (fw_packet img (fw_target d) pos n) d = Inr r"
proof -
  note parts = fw_inv_parts [OF inv]
  have head: "fw_pool_head d < length (fw_pool d)"
    using parts(1,2) by (simp add: fw_static_def fw_ring_def)
  show ?thesis
  proof (cases "fw_data_error d \<noteq> CCAPI_FW_DATA_ERROR_INVALID_DATA
      \<and> of_nat pos = fw_tail_offset d - fw_bytes_processed d
      \<and> \<not> chunk_in_use (fw_pool d ! fw_pool_head d)")
    case True
    note acc = fw_offset_accepted [OF parts(1,3,5) pend n]
    obtain r where "process_chunk (fw_packet img (fw_target d) pos n) d = Inr r"
      using fw_data_effect [OF parts(1-3) _ _ _ n(2)] True acc by metis
    then show ?thesis using head by (cases r) (simp add: ccapi_process_firmware_update_data_def)
  next
    case False
    then show ?thesis using head
      by (auto simp: ccapi_process_firmware_update_data_def fw_packet_def)
  qed
qed

lemma fw_thread_enabled:
  assumes inv: "fw_inv img cs (d, w, pend)" and "0 < fw_queued d"
  shows "(\<exists>d'. fw_thread_finish d = Some d') \<or> (\<exists>d' w'. fw_thread_wake d w = Some (Inr (d', w')))"
proof (cases "fw_in_callback d")
  case None
  note parts = fw_inv_parts [OF inv]
  have "fw_wakeups d > 0" using assms(2) None by (simp add: fw_queued_def)
  moreover obtain cb where "fw_data_cb d = Some cb"
    using parts(1) by (auto simp: fw_static_def)
  moreover have "fw_pool_tail d < length (fw_pool d)"
    using parts(1,2) by (simp add: fw_static_def fw_ring_def)
  ultimately show ?thesis
    using None parts(1) by (auto simp: fw_thread_wake_def Let_def fw_static_def split: prod.splits)
next
  case (Some p)
  then show ?thesis by (cases p) (simp add: fw_thread_finish_def)
qed

lemma fw_wake_defined:
  assumes inv: "fw_inv img cs (d, w, pend)" shows "fw_thread_wake d w \<noteq> Some (Inl e)"
  using fw_inv_parts(1,2) [OF inv]
  by (auto simp: fw_thread_wake_def Let_def fw_static_def fw_ring_def split: prod.splits)

subsection \<open>A concrete update\<close>

text \<open>
  Three bytes in chunks of two through a pool of two slots: the states of the run are the
  results of the operations themselves.
\<close>

definition ex_target :: ccapi_firmware_target_t where
  "ex_target = \<lparr>target_version = \<lparr>version_major = 1, version_minor = 0, version_revision = 0,
                                  version_build = 0\<rparr>,
                target_description = None, target_filespec = None, target_maximum_size = 16,
                target_chunk_size = 2\<rparr>"

definition ex_chunk :: ccapi_fw_chunk_info where
  "ex_chunk = \<lparr>chunk_in_use = False, chunk_offset = 0, chunk_data = None, chunk_bytes = 0,
               chunk_last = False\<rparr>"

definition ex_fw :: "unit fw_service" where
  "ex_fw = \<lparr>fw_supported = True, fw_items = [ex_target], fw_request_cb = None,
            fw_data_cb = Some (\<lambda>t off buf n last w. (CCAPI_FW_DATA_ERROR_NONE, w)),
            fw_cancel_cb = None, fw_reset_cb = None, fw_update_started = False, fw_target = 0,
            fw_total_size = 0, fw_pool = [ex_chunk, ex_chunk], fw_pool_head = 0, fw_pool_tail = 0,
            fw_head_offset = 0, fw_tail_offset = 0, fw_bytes_processed = 0,
            fw_data_error = CCAPI_FW_DATA_ERROR_NONE, fw_thread_status = CCAPI_THREAD_RUNNING,
            fw_wakeups = 0, fw_in_callback = None, fw_delivered = [], fw_live_buffers = 0\<rparr>"

definition ex_start :: connector_firmware_download_start_t where
  "ex_start = \<lparr>start_target_number = 0, start_filename = ''fw.bin'', start_code_size = 3,
               start_status = connector_firmware_status_success\<rparr>"

definition ex_image :: "u8 list" where "ex_image = [10, 20, 30]"

definition ex_run0 :: "unit fw_run" where
  "ex_run0 = (fst (snd (snd (ccapi_process_firmware_update_request example_os ex_start ex_fw ()))),
              (), None)"

definition ex_data :: "nat \<Rightarrow> nat \<Rightarrow> unit fw_run \<Rightarrow> unit fw_run" where
  "ex_data pos n s =
     (case s of (d, w, p) \<Rightarrow>
        (case ccapi_process_firmware_update_data (fw_packet ex_image (fw_target d) pos n) d of
           Inl e \<Rightarrow> s
         | Inr (status, m, d') \<Rightarrow>
             (d', w, if status = connector_callback_busy then Some (pos, n) else None)))"

definition ex_thread :: "unit fw_run \<Rightarrow> unit fw_run" where
  "ex_thread s =
     (case s of (d, w, p) \<Rightarrow>
        (case fw_thread_wake d w of
           Some (Inr (d', w')) \<Rightarrow> (case fw_thread_finish d' of Some d'' \<Rightarrow> (d'', w', p) | None \<Rightarrow> s)
         | _ \<Rightarrow> s))"

lemma ex_data_step:
  assumes "fw_reachable os ex_image cs s"
    and "snd (snd s) = None \<or> snd (snd s) = Some (pos, n)" and "0 < n" and "pos + n \<le> length ex_image"
  shows "fw_reachable os ex_image cs (ex_data pos n s)"
proof (cases s)
  case (fields d w p)
  then obtain st m d' where r:
    "ccapi_process_firmware_update_data (fw_packet ex_image (fw_target d) pos n) d = Inr (st, m, d')"
    using fw_data_defined [of ex_image cs d w p pos n] fw_reachable_inv [OF assms(1)] assms(2-4)
    by (metis prod_cases3 snd_conv)
  then have "fw_step ex_image s (ex_data pos n s)"
    unfolding fields ex_data_def using fw_step_data [OF _ assms(3,4) r, of p w] assms(2)
    by (simp add: fields)
  then show ?thesis using assms(1) fw_reach_step by blast
qed

lemma ex_thread_step:
  assumes "fw_reachable os ex_image cs s" shows "fw_reachable os ex_image cs (ex_thread s)"
  using assms
  by (cases s) (auto simp: ex_thread_def split: option.splits sum.splits
      intro: fw_reach_step [OF _ fw_step_finish] fw_reach_step [OF _ fw_step_wake])

lemmas ex_defs = ex_fw_def ex_target_def ex_chunk_def ex_start_def ex_image_def

definition ex_run :: "unit fw_run" where
  "ex_run = ex_thread (ex_thread (ex_data 0 3 (ex_data 0 3 ex_run0)))"

lemma ex_start_obs:
  "fst (ccapi_process_firmware_update_request example_os ex_start ex_fw ())
     = connector_callback_continue"
  "start_status (fst (snd (ccapi_process_firmware_update_request example_os ex_start ex_fw ())))
     = connector_firmware_status_success"
  "target_chunk_size (fw_items (fst ex_run0) ! unat (fw_target (fst ex_run0))) = 2"
  by code_simp+

lemma ex_run0_reachable: "fw_reachable example_os ex_image 2 ex_run0"
proof (rule fw_reach_start, unfold fw_starts_def, intro exI conjI)
  let ?r = "ccapi_process_firmware_update_request example_os ex_start ex_fw ()"
  show "fw_idle ex_fw" by (simp add: fw_idle_def ex_fw_def)
  show "ex_run0 = (fst (snd (snd ?r)), (), None)" by (simp add: ex_run0_def)
  show "ccapi_process_firmware_update_request example_os ex_start ex_fw ()
      = (connector_callback_continue, fst (snd ?r), fst (snd (snd ?r)), ())"
    using ex_start_obs(1) by (cases ?r) auto
  show "start_status (fst (snd ?r)) = connector_firmware_status_success" by (rule ex_start_obs)
  show "2 = unat (target_chunk_size (fw_items (fst (snd (snd ?r))) ! unat (fw_target (fst (snd (snd ?r))))))"
    using ex_start_obs(3) by (simp add: ex_run0_def)
qed (simp_all add: ex_start_def ex_image_def)

lemma ex_run_obs:
  "snd (snd ex_run0) = None"
  "snd (snd (ex_data 0 3 ex_run0)) = Some (0, 3)"
  "length (fw_delivered (fst ex_run)) = 2"
  "fst (ccapi_process_firmware_update_complete example_os
      \<lparr>complete_target_number = 0, complete_status = connector_firmware_download_not_complete\<rparr>
      (fst ex_run) ()) = connector_callback_continue"
  "complete_status (fst (snd (ccapi_process_firmware_update_complete example_os
      \<lparr>complete_target_number = 0, complete_status = connector_firmware_download_not_complete\<rparr>
      (fst ex_run) ()))) = connector_firmware_download_success"
  by code_simp+

lemma ex_mid_reachable: "fw_reachable example_os ex_image 2 (ex_data 0 3 ex_run0)"
  by (rule ex_data_step [OF ex_run0_reachable]) (simp_all add: ex_run_obs ex_image_def)

lemma ex_run_reachable: "fw_reachable example_os ex_image 2 ex_run"
  unfolding ex_run_def
  by (intro ex_thread_step ex_data_step [OF ex_mid_reachable])
    (simp_all add: ex_run_obs ex_image_def)

lemma unit_run_fields: "(fst s, (), snd (snd s)) = (s :: unit fw_run)"
  by (cases s) simp

lemma ex_run0_fields: "fw_reachable example_os ex_image 2 (fst ex_run0, (), None)"
  using ex_run0_reachable unit_run_fields [of ex_run0] ex_run_obs(1) by simp

lemma ex_run_fields: "fw_reachable example_os ex_image 2 (fst ex_run, (), snd (snd ex_run))"
  using ex_run_reachable unit_run_fields [of ex_run] by simp

subsection \<open>Properties of an update\<close>

text \<open>
  C1. Refinement to the stream of chunks: in every state an update can reach, whatever the
  packets, the repeats after busy and the interleaving with the thread, the calls of the user's
  data callback so far are the first chunks of the image in order, each with its offset, size,
  bytes and \<open>last\<close> flag and the target of the update; never more of them than the image has.
\<close>

theorem fw_deliveries_are_image_chunks:
  assumes "fw_reachable os img cs (d, w, pend)"
  shows "map dlv_view (fw_delivered d) = map (fw_expected img cs) [0..<length (fw_delivered d)]
    \<and> length (fw_delivered d) \<le> fw_chunk_count img cs
    \<and> list_all (\<lambda>x. dlv_target x = fw_target d) (fw_delivered d)"
proof -
  note inv = fw_reachable_inv [OF assms]
  show ?thesis
    using fw_inv_parts(4) [OF inv] fw_inv_delivered_count [OF inv]
    by (simp add: fw_log_def list_all_iff)
qed

theorem fw_deliveries_are_image_chunks_witness:
  "map dlv_view (fw_delivered (fst ex_run)) = map (fw_expected ex_image 2) [0..<2]"
  using fw_deliveries_are_image_chunks [OF ex_run_fields] by (simp add: ex_run_obs)

text \<open>
  C2. A download-complete request that is answered with continue and success finds that the
  callback received every chunk, and that the bytes it received, put together, are the image.
\<close>

theorem fw_complete_means_whole_image:
  assumes "fw_reachable os img cs (d, w, pend)"
    and "ccapi_process_firmware_update_complete os complete_ptr d w
           = (connector_callback_continue, complete_ptr', d', w')"
    and "complete_status complete_ptr' = connector_firmware_download_success"
  shows "length (fw_delivered d) = fw_chunk_count img cs \<and> fw_delivered_bytes d = map Some img"
proof -
  note inv = fw_reachable_inv [OF assms(1)]
  have "\<not> any_chunk_in_use d" "fw_head_offset d = fw_total_size d"
    using assms(2,3)
    by (auto simp: ccapi_process_firmware_update_complete_def Let_def split: if_splits prod.splits)
  then have len: "length (fw_delivered d) = fw_chunk_count img cs"
    by (rule fw_complete_state [OF inv])
  have "0 < cs" using fw_inv_parts(1) [OF inv] by (simp add: fw_static_def)
  then show ?thesis
    using fw_delivered_bytes_log [OF fw_inv_parts(4) [OF inv]] fw_expected_bytes len by simp
qed

theorem fw_complete_means_whole_image_witness:
  "fw_delivered_bytes (fst ex_run) = map Some [10, 20, 30]"
proof -
  let ?r = "ccapi_process_firmware_update_complete example_os
      \<lparr>complete_target_number = 0, complete_status = connector_firmware_download_not_complete\<rparr>
      (fst ex_run) ()"
  have "?r = (connector_callback_continue, fst (snd ?r), fst (snd (snd ?r)), snd (snd (snd ?r)))"
    using ex_run_obs(4) by (metis prod.collapse)
  from fw_complete_means_whole_image [OF ex_run_fields, of _ "fst (snd ?r)"] this ex_run_obs(5)
  show ?thesis by (simp add: ex_image_def)
qed

text \<open>
  C3. Memory safety: in a reachable state no packet of the image and no wake-up of the thread
  reaches undefined behaviour: no write outside a chunk, no read outside the packet, no NULL
  buffer, no division by zero.
\<close>

theorem fw_no_undefined_behaviour:
  assumes "fw_reachable os img cs (d, w, pend)"
    and "pend = None \<or> pend = Some (pos, n)" and "0 < n" and "pos + n \<le> length img"
  shows "ccapi_process_firmware_update_data (fw_packet img (fw_target d) pos n) d \<noteq> Inl e
    \<and> fw_thread_wake d w \<noteq> Some (Inl e)"
  using fw_data_defined [OF fw_reachable_inv [OF assms(1)] assms(2-4)]
    fw_wake_defined [OF fw_reachable_inv [OF assms(1)]] by auto

theorem fw_no_undefined_behaviour_witness:
  "ccapi_process_firmware_update_data (fw_packet ex_image (fw_target (fst ex_run0)) 0 3)
     (fst ex_run0) \<noteq> Inl Out_Of_Bounds"
  using fw_no_undefined_behaviour [OF ex_run0_fields, of 0 3 Out_Of_Bounds]
  by (simp add: ex_image_def)

text \<open>
  C4. Busy is never final: when a packet of a reachable state is answered busy, either part of it
  was taken and the offset moved on, or nothing changed because every chunk of the pool is in use,
  and then the thread can take its next step, which is the one that frees a chunk.
\<close>

theorem fw_busy_makes_progress:
  assumes "fw_reachable os img cs (d, w, pend)"
    and "pend = None \<or> pend = Some (pos, n)" and "0 < n" and "pos + n \<le> length img"
    and "ccapi_process_firmware_update_data (fw_packet img (fw_target d) pos n) d
           = Inr (connector_callback_busy, answer, d')"
  shows "unat (fw_tail_offset d) < unat (fw_tail_offset d')
    \<or> (d' = d \<and> list_all chunk_in_use (fw_pool d)
        \<and> ((\<exists>d2. fw_thread_finish d = Some d2)
         \<or> (\<exists>d2 w2. fw_thread_wake d w = Some (Inr (d2, w2)))))"
proof -
  note inv = fw_reachable_inv [OF assms(1)]
  note parts = fw_inv_parts [OF inv]
  note n = assms(3,4)
  have L: "length img < 2 ^ 32" and started: "fw_update_started d"
    using parts(1) by (simp_all add: fw_static_def)
  have slot: "fw_pool_head d < length (fw_pool d)"
    using parts(1,2) by (simp add: fw_static_def fw_ring_def)
  note step = assms(5) [unfolded ccapi_process_firmware_update_data_def]
  have err: "fw_data_error d \<noteq> CCAPI_FW_DATA_ERROR_INVALID_DATA"
    and off: "of_nat pos = fw_tail_offset d - fw_bytes_processed d"
    using step started by (auto simp: fw_packet_def split: if_splits)
  show ?thesis
  proof (cases "chunk_in_use (fw_pool d ! fw_pool_head d)")
    case True
    then have "d' = d" using step started slot err off by (simp add: fw_packet_def)
    moreover have "any_chunk_in_use d"
      using True slot by (metis any_chunk_in_use_def list_ex_iff nth_mem)
    then have "0 < fw_queued d" using fw_in_use_iff [OF inv] by simp
    ultimately show ?thesis
      using fw_thread_enabled [OF inv] fw_head_in_use_full [OF inv True] by blast
  next
    case False
    note acc = fw_offset_accepted [OF parts(1,3,5) assms(2) n err off]
    define b where "b = min (cs - unat (fw_tail_offset d) mod cs) (n - unat (fw_bytes_processed d))"
    obtain d1 st where "process_chunk (fw_packet img (fw_target d) pos n) d =
        Inr (st, d1\<lparr>fw_tail_offset := of_nat (unat (fw_tail_offset d) + b)\<rparr>)"
      and "unat (fw_tail_offset d) + b \<le> length img" and "0 < b"
      using fw_data_effect [OF parts(1-3) False _ _ n(2)] acc unfolding b_def by metis
    moreover from this have "d' = d1\<lparr>fw_tail_offset := of_nat (unat (fw_tail_offset d) + b)\<rparr>"
      using step started slot err off False by (simp add: fw_packet_def)
    moreover have "unat (of_nat (unat (fw_tail_offset d) + b) :: u32) = unat (fw_tail_offset d) + b"
      using calculation(2) L by (intro unat_of_nat_u32) simp
    ultimately show ?thesis by (simp del: of_nat_add)
  qed
qed

theorem fw_busy_makes_progress_witness:
  "unat (fw_tail_offset (fst ex_run0)) < unat (fw_tail_offset (fst (ex_data 0 3 ex_run0)))
   \<or> list_all chunk_in_use (fw_pool (fst ex_run0))"
proof -
  let ?r = "ccapi_process_firmware_update_data (fw_packet ex_image (fw_target (fst ex_run0)) 0 3)
              (fst ex_run0)"
  have "\<not> isl ?r" "fst (projr ?r) = connector_callback_busy" by code_simp+
  then obtain a d' where r: "?r = Inr (connector_callback_busy, a, d')"
    by (cases ?r) auto
  have "ex_data 0 3 (fst ex_run0, (), None) = (d', (), Some (0, 3))"
    unfolding ex_data_def by (simp add: r)
  then have "d' = fst (ex_data 0 3 ex_run0)"
    using unit_run_fields [of ex_run0] ex_run_obs(1) by simp
  then show ?thesis
    using fw_busy_makes_progress [OF ex_run0_fields _ _ _ r] by (auto simp: ex_image_def)
qed

end
