(* ===== verification/FirmwareControl.thy ===== *)
theory FirmwareControl
  imports FirmwareStream
begin

text \<open>
  The requests around the data of an update: when a start is accepted and with which status it
  is refused, what complete and abort leave behind, and the two ways in which a start request
  loses chunk buffers or pulls them away from the thread.
\<close>

subsection \<open>Starting\<close>

definition fw_size_ok :: "ccapi_firmware_target_t \<Rightarrow> connector_firmware_download_start_t \<Rightarrow> bool" where
  "fw_size_ok item start_ptr \<longleftrightarrow>
     target_maximum_size item = 0 \<or> start_code_size start_ptr \<le> target_maximum_size item"

text \<open>The user's answer to the request callback, and the world after it.\<close>

definition fw_user_answer ::
  "'w fw_service \<Rightarrow> connector_firmware_download_start_t \<Rightarrow> 'w \<Rightarrow> ccapi_fw_request_error_t \<times> 'w" where
  "fw_user_answer d start_ptr w =
     (case fw_request_cb d of
        None \<Rightarrow> (CCAPI_FW_REQUEST_ERROR_NONE, w)
      | Some cb \<Rightarrow> cb (start_target_number start_ptr) (start_filename start_ptr)
                     (start_code_size start_ptr) w)"

lemma fw_request_status_None [simp]:
  "fw_request_status e = None \<longleftrightarrow> e = CCAPI_FW_REQUEST_ERROR_NONE"
  by (cases e) (simp_all add: fw_request_status_def)

lemma fw_request_status_NONE [simp]: "fw_request_status CCAPI_FW_REQUEST_ERROR_NONE = None"
  by simp

lemma fw_request_unfold:
  assumes "unat (start_target_number start_ptr) < length (fw_items d)" and "\<not> fw_update_started d"
    and "fw_size_ok (fw_items d ! unat (start_target_number start_ptr)) start_ptr"
  shows "ccapi_process_firmware_update_request os start_ptr d w =
    (case fw_user_answer d start_ptr w of
       (e, w1) \<Rightarrow>
         (case fw_request_status e of
            Some status \<Rightarrow> (connector_callback_continue, start_ptr\<lparr>start_status := status\<rparr>, d, w1)
          | None \<Rightarrow>
              (case prepare_update os d start_ptr
                      (fw_items d ! unat (start_target_number start_ptr)) w1 of
                 (status, d', w2) \<Rightarrow>
                   (connector_callback_continue, start_ptr\<lparr>start_status := status\<rparr>, d', w2))))"
  using assms
  by (auto simp: ccapi_process_firmware_update_request_def fw_user_answer_def fw_size_ok_def Let_def
      split: option.split prod.split)

text \<open>
  The start request, branch by branch: an unknown target is an error of the callback; an
  image above the target's maximum (a maximum of 0 meaning none) is refused as an invalid size
  before the user is asked; a refusal by the user's callback is reported as its own status and
  changes nothing in the service; only an agreement allocates the pool.
\<close>

theorem fw_start_refusals:
  fixes d :: "'w fw_service" and start_ptr :: connector_firmware_download_start_t
  defines "item \<equiv> fw_items d ! unat (start_target_number start_ptr)"
  shows "ccapi_process_firmware_update_request os start_ptr d w =
    (if length (fw_items d) \<le> unat (start_target_number start_ptr)
     then (connector_callback_error, start_ptr, d, w)
     else if fw_update_started d
     then (connector_callback_continue,
           start_ptr\<lparr>start_status := connector_firmware_status_encountered_error\<rparr>,
           free_and_stop_service os d w)
     else if \<not> fw_size_ok item start_ptr
     then (connector_callback_continue,
           start_ptr\<lparr>start_status := connector_firmware_status_download_invalid_size\<rparr>, d, w)
     else (case fw_user_answer d start_ptr w of
             (CCAPI_FW_REQUEST_ERROR_NONE, w1) \<Rightarrow>
               (case prepare_update os d start_ptr item w1 of
                  (status, r) \<Rightarrow> (connector_callback_continue, start_ptr\<lparr>start_status := status\<rparr>, r))
           | (e, w1) \<Rightarrow>
               (connector_callback_continue,
                start_ptr\<lparr>start_status := the (fw_request_status e)\<rparr>, d, w1)))"
proof (cases "unat (start_target_number start_ptr) < length (fw_items d) \<and> \<not> fw_update_started d
    \<and> fw_size_ok item start_ptr")
  case True
  then show ?thesis
    unfolding item_def
    by (auto simp: fw_request_unfold fw_request_status_def
        split: prod.split ccapi_fw_request_error_t.split)
next
  case False
  then show ?thesis
    by (auto simp: ccapi_process_firmware_update_request_def item_def fw_size_ok_def Let_def not_le
        split: prod.split)
qed

text \<open>
  An accepted start: every field of the processing state is reset, every slot of the pool
  gets a fresh buffer of the target's chunk size (1460 bytes when the target gives 0), and only
  then the update counts as started.
\<close>

theorem fw_start_prepares_service:
  assumes "ccapi_process_firmware_update_request os start_ptr d w
             = (connector_callback_continue, start_ptr', d', w')"
    and "start_status start_ptr' = connector_firmware_status_success"
  shows "fw_update_started d' \<and> fw_target d' = start_target_number start_ptr
    \<and> fw_total_size d' = ucast (start_code_size start_ptr)
    \<and> fw_head_offset d' = 0 \<and> fw_tail_offset d' = 0 \<and> fw_bytes_processed d' = 0
    \<and> fw_pool_head d' = 0 \<and> fw_pool_tail d' = 0 \<and> fw_data_error d' = CCAPI_FW_DATA_ERROR_NONE
    \<and> fw_pool d' = replicate (length (fw_pool d)) \<lparr>chunk_in_use = False, chunk_offset = 0,
         chunk_data = Some (replicate (unat
           (if target_chunk_size (fw_items d ! unat (start_target_number start_ptr)) = 0 then 1460
            else target_chunk_size (fw_items d ! unat (start_target_number start_ptr)))) None),
         chunk_bytes = 0, chunk_last = False\<rparr>
    \<and> fw_live_buffers d' = fw_live_buffers d + length (fw_pool d)"
proof -
  obtain w1 where t: "unat (start_target_number start_ptr) < length (fw_items d)"
    and prep: "prepare_update os d start_ptr (fw_items d ! unat (start_target_number start_ptr)) w1
       = (connector_firmware_status_success, d', w')"
    using fw_request_success [OF assms] .
  show ?thesis
    using prep t
    by (auto simp: prepare_update_def Let_def set_target_item_def CCIMP_MSG_MAX_RECV_PACKET_SIZE_def
        dest!: allocate_chunks_ok split: prod.splits if_splits)
qed

theorem fw_start_prepares_service_witness:
  "length (fw_pool (fst ex_run0)) = 2 \<and> fw_live_buffers (fst ex_run0) = 2
   \<and> fw_update_started (fst ex_run0)"
proof -
  let ?r = "ccapi_process_firmware_update_request example_os ex_start ex_fw ()"
  have "?r = (connector_callback_continue, fst (snd ?r), fst (snd (snd ?r)), ())"
    using ex_start_obs(1) by (cases ?r) auto
  from fw_start_prepares_service [OF this ex_start_obs(2)]
  show ?thesis by (simp add: ex_run0_def ex_fw_def)
qed

text \<open>
  A start that runs out of memory is refused, the update is not started, and every buffer
  allocated before the one that failed stays allocated: nothing frees them, and the next start
  overwrites their pointers.
\<close>

theorem fw_start_out_of_memory:
  assumes "unat (start_target_number start_ptr) < length (fw_items d)" and "\<not> fw_update_started d"
    and "fw_size_ok (fw_items d ! unat (start_target_number start_ptr)) start_ptr"
    and "fw_user_answer d start_ptr w = (CCAPI_FW_REQUEST_ERROR_NONE, w1)"
    and "allocate_chunks os
           (unat (let n = target_chunk_size (fw_items d ! unat (start_target_number start_ptr))
                  in if n = 0 then CCIMP_MSG_MAX_RECV_PACKET_SIZE else n))
           (fw_pool d) w1 = (False, pool, n, w2)"
    and "ccapi_process_firmware_update_request os start_ptr d w = (status, start_ptr', d', w')"
  shows "status = connector_callback_continue
    \<and> start_status start_ptr' = connector_firmware_status_encountered_error
    \<and> \<not> fw_update_started d' \<and> fw_live_buffers d' = fw_live_buffers d + n"
  using assms
  by (auto simp: fw_request_unfold prepare_update_def Let_def set_target_item_def split: if_splits)

text \<open>A layer whose world counts how many more calls of \<open>malloc\<close> succeed.\<close>

definition tight_os :: "nat os" where
  "tight_os = example_os\<lparr>os_malloc := (\<lambda>req k. if k = 0 then ((CCIMP_STATUS_ERROR, False), 0)
                                                else ((CCIMP_STATUS_OK, True), k - 1))\<rparr>"

definition ex_fw_tight :: "nat fw_service" where
  "ex_fw_tight = \<lparr>fw_supported = True, fw_items = [ex_target], fw_request_cb = None,
            fw_data_cb = Some (\<lambda>t off buf n last w. (CCAPI_FW_DATA_ERROR_NONE, w)),
            fw_cancel_cb = None, fw_reset_cb = None, fw_update_started = False, fw_target = 0,
            fw_total_size = 0, fw_pool = [ex_chunk, ex_chunk], fw_pool_head = 0, fw_pool_tail = 0,
            fw_head_offset = 0, fw_tail_offset = 0, fw_bytes_processed = 0,
            fw_data_error = CCAPI_FW_DATA_ERROR_NONE, fw_thread_status = CCAPI_THREAD_RUNNING,
            fw_wakeups = 0, fw_in_callback = None, fw_delivered = [], fw_live_buffers = 0\<rparr>"

theorem fw_start_out_of_memory_witness:
  "fw_live_buffers (fst (snd (snd
     (ccapi_process_firmware_update_request tight_os ex_start ex_fw_tight 1)))) = 1"
proof -
  let ?r = "ccapi_process_firmware_update_request tight_os ex_start ex_fw_tight 1"
  have r: "?r = (fst ?r, fst (snd ?r), fst (snd (snd ?r)), snd (snd (snd ?r)))" by simp
  let ?a = "allocate_chunks tight_os (unat (let n = target_chunk_size
       (fw_items ex_fw_tight ! unat (start_target_number ex_start))
       in if n = 0 then CCIMP_MSG_MAX_RECV_PACKET_SIZE else n)) (fw_pool ex_fw_tight) 1"
  have "\<not> fst ?a" "fst (snd (snd ?a)) = 1" by code_simp+
  then obtain pool w2 where a: "?a = (False, pool, 1, w2)" by (cases ?a) auto
  have "fw_live_buffers (fst (snd (snd ?r))) = fw_live_buffers ex_fw_tight + 1"
    by (rule fw_start_out_of_memory [OF _ _ _ _ a r, THEN conjunct2, THEN conjunct2, THEN conjunct2])
      (code_simp | simp add: fw_user_answer_def ex_fw_tight_def)+
  then show ?thesis by (simp add: ex_fw_tight_def)
qed

subsection \<open>Ending\<close>

lemma free_chunks_bytes:
  "free_chunks os cs w = (cs', n, w') \<Longrightarrow> map chunk_bytes cs' = map chunk_bytes cs"
  by (induction cs arbitrary: cs' n w w') (auto split: prod.splits if_splits)

lemma free_and_stop_service_effect:
  assumes "free_and_stop_service os d w = (d', w')"
  shows "\<not> fw_update_started d' \<and> list_all (\<lambda>c. chunk_data c = None) (fw_pool d')
    \<and> map chunk_in_use (fw_pool d') = map chunk_in_use (fw_pool d)
    \<and> map chunk_bytes (fw_pool d') = map chunk_bytes (fw_pool d)
    \<and> fw_live_buffers d' = fw_live_buffers d - length (filter (\<lambda>c. chunk_data c \<noteq> None) (fw_pool d))
    \<and> fw_wakeups d' = fw_wakeups d \<and> fw_pool_tail d' = fw_pool_tail d
    \<and> fw_data_cb d' = fw_data_cb d \<and> fw_in_callback d' = fw_in_callback d
    \<and> fw_thread_status d' = fw_thread_status d \<and> fw_delivered d' = fw_delivered d"
proof -
  obtain pool n where f: "free_chunks os (fw_pool d) w = (pool, n, w')"
    and d': "d' = d\<lparr>fw_pool := pool, fw_update_started := False,
                    fw_live_buffers := fw_live_buffers d - n\<rparr>"
    using assms by (auto simp: free_and_stop_service_def split: prod.splits)
  show ?thesis
    using free_chunks_bytes [OF f] free_chunks_all_freed [OF f] free_chunks_count [OF f] free_chunks_in_use [OF f]
    by (simp add: d' list_all_iff)
qed

text \<open>
  Once a reachable update is completed (the request is not answered busy) no chunk buffer is
  left: all pointers of the pool are NULL, one buffer less is allocated for each slot, and the
  service is ready for the next start. While the thread still has a chunk the request is
  answered busy and nothing changes.
\<close>

theorem fw_complete_releases_buffers:
  assumes "fw_reachable os img cs (d, w, pend)"
    and "ccapi_process_firmware_update_complete os complete_ptr d w = (status, complete_ptr', d', w')"
    and "complete_target_number complete_ptr = fw_target d"
  shows "if any_chunk_in_use d then status = connector_callback_busy \<and> d' = d \<and> w' = w
    else status \<noteq> connector_callback_busy \<and> \<not> fw_update_started d'
      \<and> list_all (\<lambda>c. chunk_data c = None) (fw_pool d')
      \<and> fw_live_buffers d' = fw_live_buffers d - length (fw_pool d)"
proof -
  note inv = fw_reachable_inv [OF assms(1)]
  have started: "fw_update_started d" and data: "\<forall>c \<in> set (fw_pool d). chunk_data c \<noteq> None"
    using fw_inv_parts(1) [OF inv] by (auto simp: fw_static_def)
  have all: "length (filter (\<lambda>c. chunk_data c \<noteq> None) (fw_pool d)) = length (fw_pool d)"
    using data by (subst filter_True) simp_all
  note step = assms(2) [unfolded ccapi_process_firmware_update_complete_def Let_def]
  show ?thesis
  proof (cases "any_chunk_in_use d")
    case True
    then show ?thesis using step started assms(3) by simp
  next
    case False
    then have "free_and_stop_service os d w = (d', w')" "status \<noteq> connector_callback_busy"
      using step started assms(3) by (auto split: prod.splits if_splits)
    then show ?thesis using False free_and_stop_service_effect [of os d w d' w'] all by simp
  qed
qed

theorem fw_complete_releases_buffers_witness:
  "list_all (\<lambda>c. chunk_data c = None) (fw_pool (fst (snd (snd
     (ccapi_process_firmware_update_complete example_os
        \<lparr>complete_target_number = 0, complete_status = connector_firmware_download_not_complete\<rparr>
        (fst ex_run) ())))))"
proof -
  let ?r = "ccapi_process_firmware_update_complete example_os
        \<lparr>complete_target_number = 0, complete_status = connector_firmware_download_not_complete\<rparr>
        (fst ex_run) ()"
  have r: "?r = (fst ?r, fst (snd ?r), fst (snd (snd ?r)), snd (snd (snd ?r)))" by (simp only: prod.collapse)
  have "\<not> any_chunk_in_use (fst ex_run)" "fw_target (fst ex_run) = 0" by code_simp+
  then show ?thesis
    using fw_complete_releases_buffers [OF ex_run_fields r] by simp
qed

text \<open>
  Abort, in full: while the thread has a chunk it is busy; without a cancel callback the
  update stops silently; with one, a status that is no reason to cancel is an error that leaves
  the update running, and any other reaches the callback as its reason before the buffers are
  released. The hypothesis on the connector's enumeration is that the statuses from
  \<open>connector_firmware_status_user_abort\<close> on are the ones the code has a reason for.
\<close>

theorem fw_abort_cancels:
  assumes "abort_target_number abort_ptr = fw_target d" and "fw_update_started d"
    and "from_user_abort (abort_status abort_ptr) \<longrightarrow> fw_cancel_reason (abort_status abort_ptr) \<noteq> None"
  shows "ccapi_process_firmware_update_abort os from_user_abort abort_ptr d w =
    (if any_chunk_in_use d then (connector_callback_busy, d, w)
     else case (fw_cancel_cb d, fw_cancel_reason (abort_status abort_ptr)) of
         (None, _) \<Rightarrow> (connector_callback_continue, free_and_stop_service os d w)
       | (Some cancel, None) \<Rightarrow> (connector_callback_error, d, w)
       | (Some cancel, Some reason) \<Rightarrow>
           (connector_callback_continue,
            free_and_stop_service os d (cancel (fw_target d) (Some reason) w)))"
  using assms
  by (auto simp: ccapi_process_firmware_update_abort_def Let_def split: prod.split option.split)

definition ex_from_user_abort :: "connector_firmware_status_t \<Rightarrow> bool" where
  "ex_from_user_abort s = (fw_cancel_reason s \<noteq> None)"

theorem fw_abort_cancels_witness:
  "fst (ccapi_process_firmware_update_abort example_os ex_from_user_abort
      \<lparr>abort_target_number = 0, abort_status = connector_firmware_status_user_abort\<rparr>
      (fst ex_run0) ()) = connector_callback_continue"
proof -
  let ?a = "\<lparr>abort_target_number = 0, abort_status = connector_firmware_status_user_abort\<rparr>"
  have "abort_target_number ?a = fw_target (fst ex_run0)" "fw_update_started (fst ex_run0)"
    "\<not> any_chunk_in_use (fst ex_run0)" by code_simp+
  then show ?thesis
    using fw_abort_cancels [of ?a "fst ex_run0" ex_from_user_abort example_os "()"]
    by (simp add: ex_from_user_abort_def fw_cancel_reason_def split: option.split)
qed

text \<open>
  A start request that arrives while an update runs frees the chunk buffers without waiting
  for the thread, which complete and abort do: the flags of the slots and the count of wake-ups
  stay, so when a chunk is queued the next wake-up calls the user's callback with a NULL data
  pointer and the size of the chunk.
\<close>

theorem fw_restart_hands_null_chunk:
  assumes "fw_reachable os img cs (d, w, pend)" and "fw_in_callback d = None" and "fw_wakeups d \<noteq> 0"
    and "unat (start_target_number start_ptr) < length (fw_items d)"
    and "ccapi_process_firmware_update_request os start_ptr d w = (status, start_ptr', d1, w1)"
    and "fw_thread_wake d1 w1 = Some r"
  shows "\<exists>d2 w2. r = Inr (d2, w2) \<and> dlv_data (last (fw_delivered d2)) = None
    \<and> 0 < dlv_bytes (last (fw_delivered d2))"
proof -
  note parts = fw_inv_parts [OF fw_reachable_inv [OF assms(1)]]
  let ?t = "fw_pool_tail d"
  have t: "?t < length (fw_pool d)" and run: "fw_thread_status d = CCAPI_THREAD_RUNNING"
    and cb: "fw_data_cb d \<noteq> None" and started: "fw_update_started d"
    using parts(1,2) by (simp_all add: fw_static_def fw_ring_def)
  have q: "0 < fw_queued d" using assms(2,3) by (simp add: fw_queued_def)
  then have "chunk_view (fw_pool d ! ?t) = fw_expected img cs (fw_done d)"
    and "fw_done d * cs < length img"
    using parts(2,3) by (auto simp: fw_ring_def fw_head_def Let_def)
  then have bytes: "0 < unat (chunk_bytes (fw_pool d ! ?t))"
    using parts(1) by (simp add: chunk_view_def fw_expected_def fw_slice_def fw_static_def)
  have free: "free_and_stop_service os d w = (d1, w1)"
    using assms(4,5) started
    by (simp add: ccapi_process_firmware_update_request_def split: prod.splits)
  note e = free_and_stop_service_effect [OF free]
  have len: "length (fw_pool d1) = length (fw_pool d)" using e by (metis length_map)
  have "chunk_data (fw_pool d1 ! ?t) = None" using e t len by (simp add: list_all_length)
  moreover have "chunk_bytes (fw_pool d1 ! ?t) = chunk_bytes (fw_pool d ! ?t)"
    using e t len by (metis nth_map)
  moreover obtain f where "fw_data_cb d1 = Some f" using cb e by auto
  moreover have "fw_in_callback d1 = None" "fw_wakeups d1 \<noteq> 0"
    "fw_thread_status d1 = CCAPI_THREAD_RUNNING" "fw_pool_tail d1 = ?t"
    using e assms(2,3) run by simp_all
  ultimately show ?thesis
    using assms(6) t len bytes
    by (auto simp: fw_thread_wake_def Let_def word_less_nat_alt split: prod.splits)
qed

theorem fw_restart_hands_null_chunk_witness:
  "\<exists>d2 w2. fw_thread_wake (fst (snd (snd (ccapi_process_firmware_update_request example_os ex_start
       (fst (ex_data 0 3 ex_run0)) ())))) () = Some (Inr (d2, w2))
     \<and> dlv_data (last (fw_delivered d2)) = None"
proof -
  let ?s = "ex_data 0 3 ex_run0"
  let ?q = "ccapi_process_firmware_update_request example_os ex_start (fst ?s) ()"
  have s: "fw_reachable example_os ex_image 2 (fst ?s, (), snd (snd ?s))"
    using ex_mid_reachable unit_run_fields [of ?s] by simp
  have q: "?q = (fst ?q, fst (snd ?q), fst (snd (snd ?q)), ())"
    by (metis prod.collapse old.unit.exhaust)
  have a: "fw_in_callback (fst ?s) = None" "fw_wakeups (fst ?s) \<noteq> 0"
    "unat (start_target_number ex_start) < length (fw_items (fst ?s))"
    "fw_thread_wake (fst (snd (snd ?q))) () \<noteq> None"
    by code_simp+
  obtain r where r: "fw_thread_wake (fst (snd (snd ?q))) () = Some r" using a(4) by auto
  show ?thesis using fw_restart_hands_null_chunk [OF s a(1-3) q r] r by auto
qed

end
