(* ===== verification/CcimpFs.thy ===== *)
theory CcimpFs
  imports Core
begin

text \<open>
  The file system layer an integrator supplies (include/ccimp/ccimp_filesystem.h): one record
  per parameter structure of the header and the record \<open>ccimp_fs\<close> of the fifteen operations.
  An operation gets its structure, changes the fields the header leaves writable and answers a
  status. Then the file system part of \<open>ccapi_data_t\<close>, and the four operations of
  source/ccapi.c that call this layer under the file system lock until it is no longer busy.

  A pointer the code only passes on (the implementation's context, a directory handle) is a
  \<open>ptr\<close>; file handles and error numbers are \<open>long int\<close>;
  a session error that is INVALID_ENUM is \<open>None\<close>.
\<close>

subsection \<open>Parameter structures\<close>

type_synonym ccimp_fs_file_handle_t = int
type_synonym ccimp_fs_errnum_t = int
type_synonym ccimp_fs_dir_handle_t = ptr
type_synonym ccimp_file_offset_t = "32 word"

definition CCIMP_FILESYSTEM_ERRNUM_NONE :: ccimp_fs_errnum_t where
  "CCIMP_FILESYSTEM_ERRNUM_NONE = 0"

definition CCIMP_FILESYSTEM_FILE_HANDLE_NOT_INITIALIZED :: ccimp_fs_file_handle_t where
  "CCIMP_FILESYSTEM_FILE_HANDLE_NOT_INITIALIZED = -1"

definition CCIMP_FILESYSTEM_DIR_HANDLE_NOT_INITIALIZED :: ccimp_fs_dir_handle_t where
  "CCIMP_FILESYSTEM_DIR_HANDLE_NOT_INITIALIZED = None"

definition CCIMP_FILE_O_RDONLY :: u32 where "CCIMP_FILE_O_RDONLY = 0"
definition CCIMP_FILE_O_WRONLY :: u32 where "CCIMP_FILE_O_WRONLY = 1"
definition CCIMP_FILE_O_RDWR :: u32 where "CCIMP_FILE_O_RDWR = 2"

datatype ccimp_fs_seek_origin_t = CCIMP_SEEK_SET | CCIMP_SEEK_CUR | CCIMP_SEEK_END

datatype ccimp_fs_dir_entry_type_t =
    CCIMP_FS_DIR_ENTRY_UNKNOWN
  | CCIMP_FS_DIR_ENTRY_FILE
  | CCIMP_FS_DIR_ENTRY_DIR

datatype ccimp_fs_hash_alg_t =
    CCIMP_FS_HASH_NONE
  | CCIMP_FS_HASH_SHA3_512
  | CCIMP_FS_HASH_SHA512
  | CCIMP_FS_HASH_MD5
  | CCIMP_FS_HASH_CRC32
  | CCIMP_FS_HASH_BEST

datatype ccimp_fs_error_t =
    CCIMP_FS_ERROR_UNKNOWN
  | CCIMP_FS_ERROR_PATH_NOT_FOUND
  | CCIMP_FS_ERROR_INSUFFICIENT_SPACE
  | CCIMP_FS_ERROR_FORMAT
  | CCIMP_FS_ERROR_INVALID_PARAMETER
  | CCIMP_FS_ERROR_INSUFFICIENT_MEMORY
  | CCIMP_FS_ERROR_PERMISSION_DENIED

datatype ccimp_session_error_status_t =
    CCIMP_FS_SESSION_ERROR_NONE
  | CCIMP_FS_SESSION_ERROR_FATAL
  | CCIMP_FS_SESSION_ERROR_INVALID_OPCODE
  | CCIMP_FS_SESSION_ERROR_FORMAT
  | CCIMP_FS_SESSION_ERROR_SESSION_IN_USE
  | CCIMP_FS_SESSION_ERROR_UNKNOWN_SESSION
  | CCIMP_FS_SESSION_ERROR_COMPRESSION_FAILURE
  | CCIMP_FS_SESSION_ERROR_DECOMPRESSION_FAILURE
  | CCIMP_FS_SESSION_ERROR_MEMORY_FAILED
  | CCIMP_FS_SESSION_ERROR_SENDING
  | CCIMP_FS_SESSION_ERROR_CANCEL
  | CCIMP_FS_SESSION_ERROR_BUSY
  | CCIMP_FS_SESSION_ERROR_ACK
  | CCIMP_FS_SESSION_ERROR_TIMEOUT
  | CCIMP_FS_SESSION_ERROR_NO_SERVICE

record ccimp_fs_file_open_t =
  fopen_imp_context :: ptr
  fopen_errnum :: ccimp_fs_errnum_t
  fopen_path :: string
  fopen_flags :: u32
  fopen_handle :: ccimp_fs_file_handle_t

record ccimp_fs_file_read_t =
  fread_imp_context :: ptr
  fread_errnum :: ccimp_fs_errnum_t
  fread_handle :: ccimp_fs_file_handle_t
  fread_buffer :: "u8 buffer"
  fread_bytes_available :: size_t
  fread_bytes_used :: size_t

record ccimp_fs_file_write_t =
  fwrite_imp_context :: ptr
  fwrite_errnum :: ccimp_fs_errnum_t
  fwrite_handle :: ccimp_fs_file_handle_t
  fwrite_buffer :: "u8 list"
  fwrite_bytes_available :: size_t
  fwrite_bytes_used :: size_t

record ccimp_fs_file_close_t =
  fclose_imp_context :: ptr
  fclose_errnum :: ccimp_fs_errnum_t
  fclose_handle :: ccimp_fs_file_handle_t

record ccimp_fs_file_seek_t =
  fseek_imp_context :: ptr
  fseek_errnum :: ccimp_fs_errnum_t
  fseek_handle :: ccimp_fs_file_handle_t
  fseek_requested_offset :: ccimp_file_offset_t
  fseek_resulting_offset :: ccimp_file_offset_t
  fseek_origin :: ccimp_fs_seek_origin_t

record ccimp_fs_file_truncate_t =
  ftrunc_imp_context :: ptr
  ftrunc_errnum :: ccimp_fs_errnum_t
  ftrunc_handle :: ccimp_fs_file_handle_t
  ftrunc_length_in_bytes :: ccimp_file_offset_t

record ccimp_fs_file_remove_t =
  frem_imp_context :: ptr
  frem_errnum :: ccimp_fs_errnum_t
  frem_path :: string

record ccimp_fs_dir_open_t =
  dopen_imp_context :: ptr
  dopen_errnum :: ccimp_fs_errnum_t
  dopen_path :: string
  dopen_handle :: ccimp_fs_dir_handle_t

record ccimp_fs_dir_read_entry_t =
  dread_imp_context :: ptr
  dread_errnum :: ccimp_fs_errnum_t
  dread_handle :: ccimp_fs_dir_handle_t
  dread_entry_name :: "char buffer"
  dread_bytes_available :: size_t

record ccimp_fs_dir_close_t =
  dclose_imp_context :: ptr
  dclose_errnum :: ccimp_fs_errnum_t
  dclose_handle :: ccimp_fs_dir_handle_t

record ccimp_fs_stat_t =
  fstat_last_modified :: u32
  fstat_type :: ccimp_fs_dir_entry_type_t
  fstat_file_size :: ccimp_file_offset_t

record ccimp_fs_dir_entry_status_t =
  dstat_imp_context :: ptr
  dstat_errnum :: ccimp_fs_errnum_t
  dstat_path :: string
  dstat_status :: ccimp_fs_stat_t

record ccimp_fs_get_hash_alg_t =
  halg_imp_context :: ptr
  halg_errnum :: ccimp_fs_errnum_t
  halg_path :: string
  halg_requested :: ccimp_fs_hash_alg_t
  halg_actual :: ccimp_fs_hash_alg_t

record ccimp_fs_hash_file_t =
  hfile_imp_context :: ptr
  hfile_errnum :: ccimp_fs_errnum_t
  hfile_path :: string
  hfile_hash_algorithm :: ccimp_fs_hash_alg_t
  hfile_hash_value :: "u8 buffer"
  hfile_bytes_requested :: size_t

record ccimp_fs_error_desc_t =
  edesc_imp_context :: ptr
  edesc_errnum :: ccimp_fs_errnum_t
  edesc_error_string :: "char buffer"
  edesc_bytes_available :: size_t
  edesc_bytes_used :: size_t
  edesc_error_status :: ccimp_fs_error_t

record ccimp_fs_session_error_t =
  serr_imp_context :: ptr
  serr_session_error :: "ccimp_session_error_status_t option"

subsection \<open>The operations of the layer\<close>

record 'w ccimp_fs =
  ccimp_fs_file_open :: "ccimp_fs_file_open_t \<Rightarrow> 'w \<Rightarrow> ccimp_status_t \<times> ccimp_fs_file_open_t \<times> 'w"
  ccimp_fs_file_read :: "ccimp_fs_file_read_t \<Rightarrow> 'w \<Rightarrow> ccimp_status_t \<times> ccimp_fs_file_read_t \<times> 'w"
  ccimp_fs_file_write :: "ccimp_fs_file_write_t \<Rightarrow> 'w \<Rightarrow> ccimp_status_t \<times> ccimp_fs_file_write_t \<times> 'w"
  ccimp_fs_file_close :: "ccimp_fs_file_close_t \<Rightarrow> 'w \<Rightarrow> ccimp_status_t \<times> ccimp_fs_file_close_t \<times> 'w"
  ccimp_fs_file_seek :: "ccimp_fs_file_seek_t \<Rightarrow> 'w \<Rightarrow> ccimp_status_t \<times> ccimp_fs_file_seek_t \<times> 'w"
  ccimp_fs_file_truncate ::
    "ccimp_fs_file_truncate_t \<Rightarrow> 'w \<Rightarrow> ccimp_status_t \<times> ccimp_fs_file_truncate_t \<times> 'w"
  ccimp_fs_file_remove :: "ccimp_fs_file_remove_t \<Rightarrow> 'w \<Rightarrow> ccimp_status_t \<times> ccimp_fs_file_remove_t \<times> 'w"
  ccimp_fs_dir_open :: "ccimp_fs_dir_open_t \<Rightarrow> 'w \<Rightarrow> ccimp_status_t \<times> ccimp_fs_dir_open_t \<times> 'w"
  ccimp_fs_dir_read_entry ::
    "ccimp_fs_dir_read_entry_t \<Rightarrow> 'w \<Rightarrow> ccimp_status_t \<times> ccimp_fs_dir_read_entry_t \<times> 'w"
  ccimp_fs_dir_entry_status ::
    "ccimp_fs_dir_entry_status_t \<Rightarrow> 'w \<Rightarrow> ccimp_status_t \<times> ccimp_fs_dir_entry_status_t \<times> 'w"
  ccimp_fs_dir_close :: "ccimp_fs_dir_close_t \<Rightarrow> 'w \<Rightarrow> ccimp_status_t \<times> ccimp_fs_dir_close_t \<times> 'w"
  ccimp_fs_hash_alg ::
    "ccimp_fs_get_hash_alg_t \<Rightarrow> 'w \<Rightarrow> ccimp_status_t \<times> ccimp_fs_get_hash_alg_t \<times> 'w"
  ccimp_fs_hash_file :: "ccimp_fs_hash_file_t \<Rightarrow> 'w \<Rightarrow> ccimp_status_t \<times> ccimp_fs_hash_file_t \<times> 'w"
  ccimp_fs_error_desc :: "ccimp_fs_error_desc_t \<Rightarrow> 'w \<Rightarrow> ccimp_status_t \<times> ccimp_fs_error_desc_t \<times> 'w"
  ccimp_fs_session_error ::
    "ccimp_fs_session_error_t \<Rightarrow> 'w \<Rightarrow> ccimp_status_t \<times> ccimp_fs_session_error_t \<times> 'w"

subsection \<open>The file system part of \<open>ccapi_data_t\<close>\<close>

datatype ccapi_fs_request_t =
    CCAPI_FS_REQUEST_READ
  | CCAPI_FS_REQUEST_WRITE
  | CCAPI_FS_REQUEST_READWRITE
  | CCAPI_FS_REQUEST_REMOVE
  | CCAPI_FS_REQUEST_LIST
  | CCAPI_FS_REQUEST_UNKNOWN

datatype ccapi_fs_changed_t = CCAPI_FS_CHANGED_MODIFIED | CCAPI_FS_CHANGED_REMOVED

datatype ccapi_fs_access_t = CCAPI_FS_ACCESS_DENY | CCAPI_FS_ACCESS_ALLOW

record ccapi_fs_virtual_dir_t =
  virtual_dir :: string
  local_dir :: string
  virtual_dir_length :: nat
  local_dir_length :: nat

text \<open>
  The fields the file system service uses: the status of the connector thread,
  \<open>config.filesystem_supported\<close>, \<open>file_system_lock\<close> and \<open>service.file_system\<close> with the list
  of virtual directories in the order of its \<open>next\<close> pointers. A NULL callback is \<open>None\<close>.
\<close>

record 'w fs_service =
  fs_run_status :: ccapi_thread_status_t
  fs_supported :: bool
  fs_lock :: ptr
  fs_access_cb :: "(string \<Rightarrow> ccapi_fs_request_t \<Rightarrow> 'w \<Rightarrow> ccapi_fs_access_t \<times> 'w) option"
  fs_changed_cb :: "(string \<Rightarrow> ccapi_fs_changed_t \<Rightarrow> 'w \<Rightarrow> 'w) option"
  fs_virtual_dir_list :: "ccapi_fs_virtual_dir_t list"
  fs_imp_context :: ptr

subsection \<open>File operations of source/ccapi.c\<close>

text \<open>
  The loop the four operations share: \<open>call\<close> is repeated on the same structure while it is
  busy, with a yield after every round, the last one included.
\<close>

definition ccimp_fs_retry ::
  "('x \<Rightarrow> 'w \<Rightarrow> ccimp_status_t \<times> 'x \<times> 'w) \<Rightarrow> 'w os \<Rightarrow> 'x \<Rightarrow> 'w \<Rightarrow> (ccimp_status_t \<times> 'x \<times> 'w) option"
where
  "ccimp_fs_retry call os x w =
     map_option (\<lambda>(st, x, w). (st, x, os_yield os w))
       (retry_loop (\<lambda>(st, x, w). call x w) (\<lambda>(st, x, w). st = CCIMP_STATUS_BUSY)
          (\<lambda>(st, x, w). (st, x, os_yield os w)) (CCIMP_STATUS_BUSY, x, w))"

lemma ccimp_fs_retry_once:
  "call x w = (st, x', w') \<Longrightarrow> st \<noteq> CCIMP_STATUS_BUSY \<Longrightarrow>
   ccimp_fs_retry call os x w = Some (st, x', os_yield os w')"
  unfolding ccimp_fs_retry_def by (subst retry_loop_once) simp_all

lemma ccimp_fs_retry_not_busy:
  "ccimp_fs_retry call os x w = Some (st, x', w') \<Longrightarrow> st \<noteq> CCIMP_STATUS_BUSY"
  by (auto simp: ccimp_fs_retry_def dest: retry_loop_not_busy)

text \<open>
  Each operation answers the status, the value of its out parameter, the service data with the
  context the layer left, and the world; \<open>None\<close> means that it does not return.
\<close>

definition ccapi_open_file ::
  "'w os \<Rightarrow> 'w ccimp_fs \<Rightarrow> 'w fs_service \<Rightarrow> string \<Rightarrow> u32 \<Rightarrow> ccimp_fs_file_handle_t \<Rightarrow> 'w
     \<Rightarrow> (ccimp_status_t \<times> ccimp_fs_file_handle_t \<times> 'w fs_service \<times> 'w) option" where
  "ccapi_open_file os fs d local_path flags file_handler w =
     (case ccapi_lock_acquire os (fs_lock d) w of
        (CCIMP_STATUS_BUSY, w1) \<Rightarrow> Some (CCIMP_STATUS_BUSY, file_handler, d, w1)
      | (CCIMP_STATUS_ERROR, w1) \<Rightarrow> Some (CCIMP_STATUS_ERROR, file_handler, d, w1)
      | (CCIMP_STATUS_OK, w1) \<Rightarrow>
          (case ccimp_fs_retry (ccimp_fs_file_open fs) os
                  \<lparr>fopen_imp_context = fs_imp_context d, fopen_errnum = CCIMP_FILESYSTEM_ERRNUM_NONE,
                   fopen_path = local_path, fopen_flags = flags,
                   fopen_handle = CCIMP_FILESYSTEM_FILE_HANDLE_NOT_INITIALIZED\<rparr> w1 of
             None \<Rightarrow> None
           | Some (st, od, w2) \<Rightarrow>
               Some (st, (if st = CCIMP_STATUS_OK then fopen_handle od else file_handler),
                     d\<lparr>fs_imp_context := fopen_imp_context od\<rparr>,
                     ASSERT_MSG_lock_release os (fs_lock d) w2)))"

definition ccapi_read_file ::
  "'w os \<Rightarrow> 'w ccimp_fs \<Rightarrow> 'w fs_service \<Rightarrow> ccimp_fs_file_handle_t \<Rightarrow> u8 buffer \<Rightarrow> size_t \<Rightarrow> 'w
     \<Rightarrow> (ccimp_status_t \<times> u8 buffer \<times> size_t \<times> 'w fs_service \<times> 'w) option" where
  "ccapi_read_file os fs d file_handler data bytes_available w =
     (case ccapi_lock_acquire os (fs_lock d) w of
        (CCIMP_STATUS_BUSY, w1) \<Rightarrow> Some (CCIMP_STATUS_BUSY, data, 0, d, w1)
      | (CCIMP_STATUS_ERROR, w1) \<Rightarrow> Some (CCIMP_STATUS_ERROR, data, 0, d, w1)
      | (CCIMP_STATUS_OK, w1) \<Rightarrow>
          (case ccimp_fs_retry (ccimp_fs_file_read fs) os
                  \<lparr>fread_imp_context = fs_imp_context d, fread_errnum = CCIMP_FILESYSTEM_ERRNUM_NONE,
                   fread_handle = file_handler, fread_buffer = data,
                   fread_bytes_available = bytes_available, fread_bytes_used = 0\<rparr> w1 of
             None \<Rightarrow> None
           | Some (st, rd, w2) \<Rightarrow>
               Some (st, fread_buffer rd, (if st = CCIMP_STATUS_OK then fread_bytes_used rd else 0),
                     d\<lparr>fs_imp_context := fread_imp_context rd\<rparr>,
                     ASSERT_MSG_lock_release os (fs_lock d) w2)))"

definition ccapi_close_file ::
  "'w os \<Rightarrow> 'w ccimp_fs \<Rightarrow> 'w fs_service \<Rightarrow> ccimp_fs_file_handle_t \<Rightarrow> 'w
     \<Rightarrow> (ccimp_status_t \<times> 'w fs_service \<times> 'w) option" where
  "ccapi_close_file os fs d file_handler w =
     (case ccapi_lock_acquire os (fs_lock d) w of
        (CCIMP_STATUS_BUSY, w1) \<Rightarrow> Some (CCIMP_STATUS_BUSY, d, w1)
      | (CCIMP_STATUS_ERROR, w1) \<Rightarrow> Some (CCIMP_STATUS_ERROR, d, w1)
      | (CCIMP_STATUS_OK, w1) \<Rightarrow>
          (case ccimp_fs_retry (ccimp_fs_file_close fs) os
                  \<lparr>fclose_imp_context = fs_imp_context d, fclose_errnum = CCIMP_FILESYSTEM_ERRNUM_NONE,
                   fclose_handle = file_handler\<rparr> w1 of
             None \<Rightarrow> None
           | Some (st, cd, w2) \<Rightarrow>
               Some (st, d\<lparr>fs_imp_context := fclose_imp_context cd\<rparr>,
                     ASSERT_MSG_lock_release os (fs_lock d) w2)))"

text \<open>\<open>{0}\<close> in the source zeroes the status that the layer is asked to fill in.\<close>

definition zero_fs_stat :: ccimp_fs_stat_t where
  "zero_fs_stat =
     \<lparr>fstat_last_modified = 0, fstat_type = CCIMP_FS_DIR_ENTRY_UNKNOWN, fstat_file_size = 0\<rparr>"

definition ccapi_get_dir_entry_status ::
  "'w os \<Rightarrow> 'w ccimp_fs \<Rightarrow> 'w fs_service \<Rightarrow> string \<Rightarrow> ccimp_fs_stat_t \<Rightarrow> 'w
     \<Rightarrow> (ccimp_status_t \<times> ccimp_fs_stat_t \<times> 'w fs_service \<times> 'w) option" where
  "ccapi_get_dir_entry_status os fs d local_path fs_status w =
     (case ccapi_lock_acquire os (fs_lock d) w of
        (CCIMP_STATUS_BUSY, w1) \<Rightarrow> Some (CCIMP_STATUS_BUSY, fs_status, d, w1)
      | (CCIMP_STATUS_ERROR, w1) \<Rightarrow> Some (CCIMP_STATUS_ERROR, fs_status, d, w1)
      | (CCIMP_STATUS_OK, w1) \<Rightarrow>
          (case ccimp_fs_retry (ccimp_fs_dir_entry_status fs) os
                  \<lparr>dstat_imp_context = fs_imp_context d, dstat_errnum = CCIMP_FILESYSTEM_ERRNUM_NONE,
                   dstat_path = local_path, dstat_status = zero_fs_stat\<rparr> w1 of
             None \<Rightarrow> None
           | Some (st, sd, w2) \<Rightarrow>
               Some (st, (if st = CCIMP_STATUS_OK then dstat_status sd else fs_status),
                     d\<lparr>fs_imp_context := dstat_imp_context sd\<rparr>,
                     ASSERT_MSG_lock_release os (fs_lock d) w2)))"

lemma ccapi_get_dir_entry_status_frame:
  "ccapi_get_dir_entry_status os fs d p s w = Some (st, s', d', w') \<Longrightarrow>
     fs_virtual_dir_list d' = fs_virtual_dir_list d \<and> fs_lock d' = fs_lock d
     \<and> fs_run_status d' = fs_run_status d \<and> fs_supported d' = fs_supported d
     \<and> fs_access_cb d' = fs_access_cb d \<and> fs_changed_cb d' = fs_changed_cb d"
  by (auto simp: ccapi_get_dir_entry_status_def
      split: prod.splits ccimp_status_t.splits option.splits)

subsection \<open>A layer for concrete runs\<close>

text \<open>Every path is a directory, every operation succeeds and keeps its structure.\<close>

definition example_fs :: "'w ccimp_fs" where
  "example_fs =
     \<lparr>ccimp_fs_file_open = (\<lambda>x w. (CCIMP_STATUS_OK, x\<lparr>fopen_handle := 3\<rparr>, w)),
      ccimp_fs_file_read = (\<lambda>x w. (CCIMP_STATUS_OK, x, w)),
      ccimp_fs_file_write = (\<lambda>x w. (CCIMP_STATUS_OK, x, w)),
      ccimp_fs_file_close = (\<lambda>x w. (CCIMP_STATUS_OK, x, w)),
      ccimp_fs_file_seek = (\<lambda>x w. (CCIMP_STATUS_OK, x, w)),
      ccimp_fs_file_truncate = (\<lambda>x w. (CCIMP_STATUS_OK, x, w)),
      ccimp_fs_file_remove = (\<lambda>x w. (CCIMP_STATUS_OK, x, w)),
      ccimp_fs_dir_open = (\<lambda>x w. (CCIMP_STATUS_OK, x\<lparr>dopen_handle := Some 7\<rparr>, w)),
      ccimp_fs_dir_read_entry = (\<lambda>x w. (CCIMP_STATUS_OK, x, w)),
      ccimp_fs_dir_entry_status = (\<lambda>x w. (CCIMP_STATUS_OK,
         x\<lparr>dstat_status := \<lparr>fstat_last_modified = 0, fstat_type = CCIMP_FS_DIR_ENTRY_DIR,
                             fstat_file_size = 0\<rparr>\<rparr>, w)),
      ccimp_fs_dir_close = (\<lambda>x w. (CCIMP_STATUS_OK, x, w)),
      ccimp_fs_hash_alg = (\<lambda>x w. (CCIMP_STATUS_OK, x, w)),
      ccimp_fs_hash_file = (\<lambda>x w. (CCIMP_STATUS_OK, x, w)),
      ccimp_fs_error_desc = (\<lambda>x w. (CCIMP_STATUS_OK, x, w)),
      ccimp_fs_session_error = (\<lambda>x w. (CCIMP_STATUS_OK, x, w))\<rparr>"

definition example_fs_service :: "'w fs_service" where
  "example_fs_service =
     \<lparr>fs_run_status = CCAPI_THREAD_RUNNING, fs_supported = True, fs_lock = Some 1,
      fs_access_cb = None, fs_changed_cb = None, fs_virtual_dir_list = [], fs_imp_context = None\<rparr>"

end
