(* ===== verification/Registry.thy ===== *)
theory Registry
  imports Prelude
begin

text \<open>
  The contract that the services with a user-visible registry share (the virtual directories of
  the file system service, the targets of the receive service): entries are found by a key, at
  most one entry has a key. The clients prove in the locale that any sequence of registrations
  behaves like a finite map.
\<close>

subsection \<open>Walking a linked list\<close>

text \<open>
  The loop both services use to find an entry: it follows the \<open>next\<close> pointers and returns the
  address of the pointer to the first entry that matches, or of the NULL at the end. In the list
  of entries this is a position, and \<open>deref\<close> reads the pointer at it.
\<close>

fun find_index :: "('a \<Rightarrow> bool) \<Rightarrow> 'a list \<Rightarrow> nat" where
  "find_index P [] = 0"
| "find_index P (x # xs) = (if P x then 0 else Suc (find_index P xs))"

definition deref :: "nat \<Rightarrow> 'a list \<Rightarrow> 'a option" where
  "deref i xs = (if i < length xs then Some (xs ! i) else None)"

lemma deref_simps [simp]:
  "deref i [] = None" "deref 0 (x # xs) = Some x" "deref (Suc i) (x # xs) = deref i xs"
  by (simp_all add: deref_def)

lemma deref_find_index: "deref (find_index P xs) xs = find P xs"
  by (induction xs) simp_all

lemma find_index_cong: "(\<And>x. x \<in> set xs \<Longrightarrow> P x = Q x) \<Longrightarrow> find_index P xs = find_index Q xs"
  by (induction xs) auto

lemma find_unlink:
  assumes "distinct (map f xs)"
  shows "find (\<lambda>x. f x = k') (unlink_at (find_index (\<lambda>x. f x = k) xs) xs) =
           (if k' = k then None else find (\<lambda>x. f x = k') xs)"
  using assms
proof (induction xs)
  case (Cons x xs)
  show ?case
  proof (cases "f x = k")
    case True
    have "find (\<lambda>x. f x = k) xs = None"
      using Cons.prems True by (auto simp: find_None_iff rev_image_eqI)
    then show ?thesis using True by auto
  next
    case False
    then show ?thesis using Cons by auto
  qed
qed (simp add: unlink_at_def)

lemma distinct_map_unlink: "distinct (map f xs) \<Longrightarrow> distinct (map f (unlink_at i xs))"
proof (induction xs arbitrary: i)
  case (Cons x xs)
  then show ?case
    by (cases i) (auto dest: set_unlink_at_subset [THEN subsetD])
qed (simp add: unlink_at_def)

subsection \<open>The contract\<close>

datatype ('e, 'k) registry_op = Register 'e | Unregister 'k

text \<open>The abstract specification: a finite map.\<close>

fun map_op :: "('e \<Rightarrow> 'k) \<Rightarrow> ('e, 'k) registry_op \<Rightarrow> ('k \<rightharpoonup> 'e) \<Rightarrow> ('k \<rightharpoonup> 'e)" where
  "map_op key (Register e) m = (if m (key e) = None then m(key e \<mapsto> e) else m)"
| "map_op key (Unregister k) m = m(k := None)"

locale keyed_registry =
  fixes lookup :: "'s \<Rightarrow> 'k \<Rightarrow> 'e option" and add :: "'e \<Rightarrow> 's \<Rightarrow> 's" and remove :: "'k \<Rightarrow> 's \<Rightarrow> 's"
    and key :: "'e \<Rightarrow> 'k" and valid :: "'s \<Rightarrow> bool" and entry_ok :: "'e \<Rightarrow> bool"
  assumes lookup_key: "valid s \<Longrightarrow> lookup s k = Some e \<Longrightarrow> key e = k"
    and lookup_add: "valid s \<Longrightarrow> entry_ok e \<Longrightarrow> lookup s (key e) = None \<Longrightarrow>
      lookup (add e s) = (lookup s)(key e \<mapsto> e)"
    and lookup_remove: "valid s \<Longrightarrow> lookup (remove k s) = (lookup s)(k := None)"
    and valid_add: "valid s \<Longrightarrow> entry_ok e \<Longrightarrow> lookup s (key e) = None \<Longrightarrow> valid (add e s)"
    and valid_remove: "valid s \<Longrightarrow> valid (remove k s)"
begin

fun reg_op :: "('e, 'k) registry_op \<Rightarrow> 's \<Rightarrow> 's" where
  "reg_op (Register e) s = (if lookup s (key e) = None then add e s else s)"
| "reg_op (Unregister k) s = remove k s"

fun op_ok :: "('e, 'k) registry_op \<Rightarrow> bool" where
  "op_ok (Register e) = entry_ok e"
| "op_ok (Unregister k) = True"

lemma reg_op_refines:
  assumes "valid s" and "op_ok x"
  shows "valid (reg_op x s) \<and> lookup (reg_op x s) = map_op key x (lookup s)"
  using assms by (cases x) (auto simp: lookup_add lookup_remove valid_add valid_remove)

lemma reg_ops_refine:
  assumes "valid s" and "list_all op_ok xs"
  shows "valid (fold reg_op xs s) \<and> lookup (fold reg_op xs s) = fold (map_op key) xs (lookup s)"
  using assms
proof (induction xs arbitrary: s)
  case (Cons x xs)
  then show ?case using reg_op_refines [of s x] by simp
qed simp

lemma unregister_register:
  assumes "valid s" and "entry_ok e" and "lookup s (key e) = None"
  shows "lookup (remove (key e) (add e s)) = lookup s"
  using assms by (auto simp: lookup_remove valid_add lookup_add fun_upd_idem)

end

end
