(* ===== verification/LinuxOs.thy ===== *)
theory LinuxOs
  imports Core
begin

text \<open>
  The contract the services rely on for locks and memory, as the locale \<open>os_locks\<close>, and the
  layer of tests/ccimp/ccimp_os.c, which satisfies it: locks are counting semaphores created
  with count 0, memory comes from malloc.

  A call that never returns (\<open>sem_wait\<close> on a semaphore nobody posts) or that aborts the process
  (\<open>assert(sem)\<close>) sets \<open>lx_stuck\<close>; the status it answers in the model is a stand-in, and no
  statement is made about a run after \<open>lx_stuck\<close> is set.
\<close>

subsection \<open>The contract\<close>

text \<open>
  \<open>tokens l w\<close> is the count of lock \<open>l\<close>: it can be acquired when the count is positive, a
  release adds one, and nothing else changes a count.
\<close>

locale os_locks =
  fixes os :: "'w os" and tokens :: "nat \<Rightarrow> 'w \<Rightarrow> nat option"
  assumes acquire_token: "tokens l w = Some (Suc n) \<Longrightarrow>
      \<exists>w'. os_lock_acquire os l timeout w = ((CCIMP_STATUS_OK, True), w') \<and> tokens l w' = Some n
        \<and> (\<forall>k. k \<noteq> l \<longrightarrow> tokens k w' = tokens k w)"
    and release_token: "tokens l w = Some n \<Longrightarrow>
      \<exists>w'. os_lock_release os (Some l) w = (CCIMP_STATUS_OK, w') \<and> tokens l w' = Some (Suc n)
        \<and> (\<forall>k. k \<noteq> l \<longrightarrow> tokens k w' = tokens k w)"
    and malloc_keeps: "tokens k (snd (os_malloc os req w)) = tokens k w"
    and free_keeps: "tokens k (snd (os_free os w)) = tokens k w"
    and yield_keeps: "tokens k (os_yield os w) = tokens k w"
begin

lemma lock_acquired:
  assumes "tokens l w = Some (Suc n)"
  obtains w' where "ccapi_lock_acquire os (Some l) w = (CCIMP_STATUS_OK, w')"
    and "tokens l w' = Some n" and "\<And>k. k \<noteq> l \<Longrightarrow> tokens k w' = tokens k w"
  using acquire_token [OF assms, of OS_LOCK_ACQUIRE_INFINITE]
  by (auto simp: ccapi_lock_acquire_def)

lemma lock_released:
  assumes "tokens l w = Some n"
  obtains w' where "ccapi_lock_release os (Some l) w = (CCIMP_STATUS_OK, w')"
    and "tokens l w' = Some (Suc n)" and "\<And>k. k \<noteq> l \<Longrightarrow> tokens k w' = tokens k w"
  using release_token [OF assms] by (auto simp: ccapi_lock_release_def)

lemma malloc_tokens [simp]: "tokens k (snd (ccapi_malloc os req w)) = tokens k w"
  using malloc_keeps [of k req w]
  by (auto simp: ccapi_malloc_def split: prod.splits ccimp_status_t.splits)

lemma free_tokens [simp]: "tokens k (snd (ccapi_free os p w)) = tokens k w"
  using free_keeps [of k w] by (simp add: ccapi_free_def)

lemma strdup_tokens [simp]: "tokens k (snd (ccapi_strdup os s w)) = tokens k w"
proof -
  obtain ok w' where m: "ccapi_malloc os (Bytes (Suc (length s))) w = (ok, w')" by fastforce
  then have "tokens k w' = tokens k w"
    using malloc_tokens [of k "Bytes (Suc (length s))" w] by simp
  then show ?thesis using m by (simp add: ccapi_strdup_def)
qed

text \<open>
  A call into the connector keeps the action lock balanced, whatever the connector answers, and
  posts the lock of the run thread once; the connector itself must not touch the locks.
\<close>

lemma initiate_action_balanced:
  assumes "tokens l w = Some (Suc n)" and "tokens r w = Some m" and "l \<noteq> r"
    and "\<And>k w. tokens k (snd (initiate req w)) = tokens k w"
    and "connector_initiate_action_secure os initiate (Some l) (Some r) req w = (st, w')"
  shows "tokens l w' = Some (Suc n) \<and> tokens r w' = Some (Suc m) \<and> (\<exists>w1. st = fst (initiate req w1))"
proof -
  obtain w1 where 1: "ccapi_lock_acquire os (Some l) w = (CCIMP_STATUS_OK, w1)"
    "tokens l w1 = Some n" "tokens r w1 = Some m"
    using lock_acquired [OF assms(1)] assms(2,3) by metis
  obtain s w2 where 2: "initiate req w1 = (s, w2)" by fastforce
  then have t2: "tokens l w2 = Some n" "tokens r w2 = Some m"
    using assms(4) [of _ w1] 1 by auto
  obtain w3 where 3: "ccapi_lock_release os (Some l) w2 = (CCIMP_STATUS_OK, w3)"
    "tokens l w3 = Some (Suc n)" "tokens r w3 = Some m"
    using lock_released [OF t2(1)] t2(2) assms(3) by metis
  obtain w4 where 4: "ccapi_lock_release os (Some r) w3 = (CCIMP_STATUS_OK, w4)"
    "tokens r w4 = Some (Suc m)" "tokens l w4 = Some (Suc n)"
    using lock_released [OF 3(3)] 3(2) assms(3) by metis
  then have "st = s" "w' = w4"
    using assms(5) 1 2 3 by (simp_all add: connector_initiate_action_secure_def)
  then show ?thesis using 4 2 by (metis fst_conv)
qed

end

subsection \<open>The Linux layer\<close>

text \<open>
  \<open>lx_memory\<close> says how many more calls of malloc succeed, \<open>lx_blocks\<close> counts the blocks that
  are allocated. A world of a larger system extends the record.
\<close>

record linux =
  lx_sems :: "nat \<Rightarrow> nat option"
  lx_next :: nat
  lx_memory :: nat
  lx_blocks :: int
  lx_stuck :: bool

definition ccimp_os_malloc ::
  "malloc_request \<Rightarrow> 'm linux_scheme \<Rightarrow> (ccimp_status_t \<times> bool) \<times> 'm linux_scheme" where
  "ccimp_os_malloc req w =
     (if lx_memory w = 0 then ((CCIMP_STATUS_ERROR, False), w)
      else ((CCIMP_STATUS_OK, True),
            w\<lparr>lx_memory := lx_memory w - 1, lx_blocks := lx_blocks w + 1\<rparr>))"

definition ccimp_os_free :: "'m linux_scheme \<Rightarrow> ccimp_status_t \<times> 'm linux_scheme" where
  "ccimp_os_free w = (CCIMP_STATUS_OK, w\<lparr>lx_blocks := lx_blocks w - 1\<rparr>)"

definition ccimp_os_lock_create ::
  "'m linux_scheme \<Rightarrow> (ccimp_status_t \<times> ptr) \<times> 'm linux_scheme" where
  "ccimp_os_lock_create w =
     (if lx_memory w = 0 then ((CCIMP_STATUS_ERROR, None), w)
      else ((CCIMP_STATUS_OK, Some (lx_next w)),
            w\<lparr>lx_sems := (lx_sems w)(lx_next w \<mapsto> 0), lx_next := Suc (lx_next w),
              lx_memory := lx_memory w - 1, lx_blocks := lx_blocks w + 1\<rparr>))"

definition OS_LOCK_ACQUIRE_NOWAIT :: u64 where "OS_LOCK_ACQUIRE_NOWAIT = 0"

text \<open>
  \<open>sem_trywait\<close>, \<open>sem_wait\<close> and \<open>sem_timedwait\<close>: without a token the first and the last answer
  OK with \<open>acquired\<close> false, the second never returns. A lock that does not exist is undefined.
\<close>

definition ccimp_os_lock_acquire ::
  "nat \<Rightarrow> u64 \<Rightarrow> 'm linux_scheme \<Rightarrow> (ccimp_status_t \<times> bool) \<times> 'm linux_scheme" where
  "ccimp_os_lock_acquire l timeout_ms w =
     (case lx_sems w l of
        None \<Rightarrow> ((CCIMP_STATUS_ERROR, False), w\<lparr>lx_stuck := True\<rparr>)
      | Some 0 \<Rightarrow>
          (if timeout_ms = OS_LOCK_ACQUIRE_INFINITE
           then ((CCIMP_STATUS_ERROR, False), w\<lparr>lx_stuck := True\<rparr>)
           else ((CCIMP_STATUS_OK, False), w))
      | Some (Suc n) \<Rightarrow> ((CCIMP_STATUS_OK, True), w\<lparr>lx_sems := (lx_sems w)(l \<mapsto> n)\<rparr>))"

definition ccimp_os_lock_release :: "ptr \<Rightarrow> 'm linux_scheme \<Rightarrow> ccimp_status_t \<times> 'm linux_scheme" where
  "ccimp_os_lock_release lock w =
     (case lock of
        None \<Rightarrow> (CCIMP_STATUS_ERROR, w\<lparr>lx_stuck := True\<rparr>)
      | Some l \<Rightarrow>
          (case lx_sems w l of
             None \<Rightarrow> (CCIMP_STATUS_ERROR, w\<lparr>lx_stuck := True\<rparr>)
           | Some n \<Rightarrow> (CCIMP_STATUS_OK, w\<lparr>lx_sems := (lx_sems w)(l \<mapsto> Suc n)\<rparr>)))"

definition ccimp_os_lock_destroy :: "ptr \<Rightarrow> 'm linux_scheme \<Rightarrow> ccimp_status_t \<times> 'm linux_scheme" where
  "ccimp_os_lock_destroy lock w =
     (case lock of
        None \<Rightarrow> (CCIMP_STATUS_ERROR, w\<lparr>lx_stuck := True\<rparr>)
      | Some l \<Rightarrow>
          (if lx_sems w l = None then (CCIMP_STATUS_ERROR, w\<lparr>lx_stuck := True\<rparr>)
           else (CCIMP_STATUS_OK,
                 w\<lparr>lx_sems := (lx_sems w)(l := None), lx_blocks := lx_blocks w - 1\<rparr>)))"

definition ccimp_os_yield :: "'m linux_scheme \<Rightarrow> 'm linux_scheme" where
  "ccimp_os_yield w = w"

definition linux_os :: "bool \<Rightarrow> 'm linux_scheme os" where
  "linux_os debug =
     \<lparr>os_malloc = ccimp_os_malloc, os_free = ccimp_os_free, os_lock_create = ccimp_os_lock_create,
      os_lock_acquire = ccimp_os_lock_acquire, os_lock_release = ccimp_os_lock_release,
      os_lock_destroy = ccimp_os_lock_destroy, os_yield = ccimp_os_yield, build_debug = debug\<rparr>"

definition linux_tokens :: "nat \<Rightarrow> 'm linux_scheme \<Rightarrow> nat option" where
  "linux_tokens l w = lx_sems w l"

lemma linux_os_simps [simp]:
  "os_malloc (linux_os debug) = ccimp_os_malloc"
  "os_free (linux_os debug) = ccimp_os_free"
  "os_lock_create (linux_os debug) = ccimp_os_lock_create"
  "os_lock_acquire (linux_os debug) = ccimp_os_lock_acquire"
  "os_lock_release (linux_os debug) = ccimp_os_lock_release"
  "os_lock_destroy (linux_os debug) = ccimp_os_lock_destroy"
  "os_yield (linux_os debug) = ccimp_os_yield"
  "build_debug (linux_os debug) = debug"
  by (simp_all add: linux_os_def)

interpretation lx: os_locks "linux_os debug" linux_tokens for debug
  by unfold_locales
    (auto simp: linux_tokens_def ccimp_os_lock_acquire_def ccimp_os_lock_release_def
      ccimp_os_malloc_def ccimp_os_free_def ccimp_os_yield_def)

text \<open>Acquiring a lock that is not free, on the thread that has to release it, never returns.\<close>

lemma linux_acquire_stuck:
  assumes "linux_tokens l w = Some 0"
  shows "lx_stuck (snd (ccapi_lock_acquire (linux_os debug) (Some l) w))"
  using assms
  by (simp add: ccapi_lock_acquire_def linux_tokens_def ccimp_os_lock_acquire_def)

text \<open>
  \<open>ccapi_lock_create_and_release\<close> makes a lock that is free: the way initiate_action_lock and
  file_system_lock are made.
\<close>

lemma linux_create_and_release:
  assumes "lx_memory w \<noteq> 0"
  shows "ccapi_lock_create_and_release (linux_os debug) w =
    (Some (lx_next w), w\<lparr>lx_sems := (lx_sems w)(lx_next w \<mapsto> 1), lx_next := Suc (lx_next w),
       lx_memory := lx_memory w - 1, lx_blocks := lx_blocks w + 1\<rparr>)"
  using assms
  by (simp add: ccapi_lock_create_and_release_def ccapi_lock_create_def ccapi_lock_release_def
      ccimp_os_lock_create_def ccimp_os_lock_release_def)

subsection \<open>A connector on this layer\<close>

text \<open>A connector that takes every request and does not touch the locks and the memory.\<close>

definition accepts_requests :: "('r \<Rightarrow> 'm linux_scheme \<Rightarrow> connector_status_t \<times> 'm linux_scheme) \<Rightarrow> bool" where
  "accepts_requests initiate \<longleftrightarrow>
     (\<forall>req w. fst (initiate req w) = connector_success
       \<and> linux.truncate (snd (initiate req w)) = linux.truncate w)"

lemma truncate_linux:
  "linux.truncate w' = linux.truncate w \<Longrightarrow>
     lx_sems w' = lx_sems w \<and> lx_memory w' = lx_memory w \<and> lx_blocks w' = lx_blocks w \<and> lx_stuck w' = lx_stuck w"
  by (cases w; cases w') (simp add: linux.truncate_def)

lemma initiate_linux:
  assumes "accepts_requests initiate" and "lx_sems w i = Some (Suc n)" and "lx_sems w r = Some m" and "i \<noteq> r"
  obtains w' where "initiate_until_not_busy (linux_os debug) initiate (Some i) (Some r) req w
      = Some (connector_success, w')"
    and "lx_sems w' = (lx_sems w)(r \<mapsto> Suc m)" and "lx_blocks w' = lx_blocks w" and "lx_stuck w' = lx_stuck w"
proof -
  let ?w1 = "w\<lparr>lx_sems := (lx_sems w)(i \<mapsto> n)\<rparr>"
  obtain w2 where 2: "initiate req ?w1 = (connector_success, w2)"
    using assms(1) by (metis accepts_requests_def prod.collapse)
  then have t: "lx_sems w2 = (lx_sems w)(i \<mapsto> n)" "lx_blocks w2 = lx_blocks w" "lx_stuck w2 = lx_stuck w"
    using assms(1) truncate_linux [of w2 ?w1] by (auto simp: accepts_requests_def dest!: spec [of _ req] spec [of _ ?w1])
  let ?w4 = "w2\<lparr>lx_sems := (lx_sems w)(i \<mapsto> Suc n, r \<mapsto> Suc m)\<rparr>"
  have "connector_initiate_action_secure (linux_os debug) initiate (Some i) (Some r) req w = (connector_success, ?w4)"
    using assms(2-4) 2 t
    by (simp add: connector_initiate_action_secure_def ccapi_lock_acquire_def ccimp_os_lock_acquire_def
        ccapi_lock_release_def ccimp_os_lock_release_def)
  then have "initiate_until_not_busy (linux_os debug) initiate (Some i) (Some r) req w = Some (connector_success, ?w4)"
    by (rule initiate_not_busy_once) simp
  moreover have "(lx_sems w)(i \<mapsto> Suc n, r \<mapsto> Suc m) = (lx_sems w)(r \<mapsto> Suc m)"
    using assms(2) by (auto simp: fun_eq_iff)
  ultimately show thesis using that t(2,3) by auto
qed

end
