(* ===== verification/VirtualDirs.thy ===== *)
theory VirtualDirs
  imports CcimpFs Registry LinuxOs
begin

text \<open>
  Virtual directories of the file system service, source/ccapi_filesystem.c: the user maps a
  name in the cloud's root directory to a local directory. The list is changed under
  \<open>file_system_lock\<close>. An operation answers \<open>None\<close> when it does not return, which the query of the
  local directory may not do.
\<close>

subsection \<open>Operations\<close>

datatype ccapi_fs_error_t =
    CCAPI_FS_ERROR_NONE
  | CCAPI_FS_ERROR_CCAPI_STOPPED
  | CCAPI_FS_ERROR_NO_FS_SUPPORT
  | CCAPI_FS_ERROR_INVALID_PATH
  | CCAPI_FS_ERROR_INSUFFICIENT_MEMORY
  | CCAPI_FS_ERROR_NOT_A_DIR
  | CCAPI_FS_ERROR_NOT_MAPPED
  | CCAPI_FS_ERROR_ALREADY_MAPPED
  | CCAPI_FS_ERROR_LOCK_FAILED

definition CCIMP_FILE_SYSTEM_MAX_PATH_LENGTH :: nat where
  "CCIMP_FILE_SYSTEM_MAX_PATH_LENGTH = 256"

text \<open>
  \<open>virtual_dir_length\<close> is the length to compare, the name may go on after it. The comparison
  covers the longer of the two lengths. The C code holds both in an \<open>unsigned int\<close>, the model in
  a \<open>nat\<close>: they agree for names of less than 4 GiB, and only of those does the model speak.
\<close>

definition get_pointer_to_dir_entry_from_virtual_dir_name ::
  "ccapi_fs_virtual_dir_t list \<Rightarrow> string \<Rightarrow> nat \<Rightarrow> nat" where
  "get_pointer_to_dir_entry_from_virtual_dir_name dirs name len =
     find_index (\<lambda>e. strncmp_eq (virtual_dir e) name (max (virtual_dir_length e) len)) dirs"

definition add_virtual_dir_entry ::
  "'w os \<Rightarrow> 'w fs_service \<Rightarrow> ccapi_fs_virtual_dir_t \<Rightarrow> 'w \<Rightarrow> ccapi_fs_error_t \<times> 'w fs_service \<times> 'w"
where
  "add_virtual_dir_entry os d new_entry w =
     (case ccapi_lock_acquire os (fs_lock d) w of
        (CCIMP_STATUS_ERROR, w1) \<Rightarrow> (CCAPI_FS_ERROR_LOCK_FAILED, d, w1)
      | (CCIMP_STATUS_BUSY, w1) \<Rightarrow> (CCAPI_FS_ERROR_LOCK_FAILED, d, w1)
      | (CCIMP_STATUS_OK, w1) \<Rightarrow>
          (let d' = d\<lparr>fs_virtual_dir_list := new_entry # fs_virtual_dir_list d\<rparr>
           in case ccapi_lock_release os (fs_lock d) w1 of
                (CCIMP_STATUS_OK, w2) \<Rightarrow> (CCAPI_FS_ERROR_NONE, d', w2)
              | (CCIMP_STATUS_ERROR, w2) \<Rightarrow> (CCAPI_FS_ERROR_LOCK_FAILED, d', w2)
              | (CCIMP_STATUS_BUSY, w2) \<Rightarrow> (CCAPI_FS_ERROR_LOCK_FAILED, d', w2)))"

definition create_virtual_dir_entry ::
  "'w os \<Rightarrow> string \<Rightarrow> string \<Rightarrow> 'w \<Rightarrow> ccapi_fs_virtual_dir_t option \<times> 'w" where
  "create_virtual_dir_entry os name local w =
     (case ccapi_malloc os (Sizeof ''ccapi_fs_virtual_dir_t'') w of
        (False, w1) \<Rightarrow> (None, w1)
      | (True, w1) \<Rightarrow>
          (case ccapi_strdup os local w1 of
             (None, w2) \<Rightarrow> (None, snd (ccapi_free os True w2))
           | (Some local', w2) \<Rightarrow>
               (case ccapi_strdup os name w2 of
                  (None, w3) \<Rightarrow> (None, snd (ccapi_free os True (snd (ccapi_free os True w3))))
                | (Some name', w3) \<Rightarrow>
                    (Some \<lparr>virtual_dir = name', local_dir = local',
                           virtual_dir_length = length name, local_dir_length = length local\<rparr>, w3))))"

definition path_is_a_dir ::
  "'w os \<Rightarrow> 'w ccimp_fs \<Rightarrow> 'w fs_service \<Rightarrow> string \<Rightarrow> 'w \<Rightarrow> (bool \<times> 'w fs_service \<times> 'w) option" where
  "path_is_a_dir os fs d local_path w =
     map_option (\<lambda>(st, fs_status, d', w').
          (st = CCIMP_STATUS_OK \<and> fstat_type fs_status = CCIMP_FS_DIR_ENTRY_DIR, d', w'))
       (ccapi_get_dir_entry_status os fs d local_path zero_fs_stat w)"

definition virtual_dir_paths_ok :: "string option \<Rightarrow> string option \<Rightarrow> bool" where
  "virtual_dir_paths_ok name local =
     (case (name, local) of
        (Some v, Some l) \<Rightarrow>
          v \<noteq> [] \<and> l \<noteq> [] \<and> CHR ''/'' \<notin> set v \<and> CHR 0x5C \<notin> set v
          \<and> length v \<le> CCIMP_FILE_SYSTEM_MAX_PATH_LENGTH - 5
      | _ \<Rightarrow> False)"

definition ccxapi_fs_add_virtual_dir ::
  "'w os \<Rightarrow> 'w ccimp_fs \<Rightarrow> 'w fs_service option \<Rightarrow> string option \<Rightarrow> string option \<Rightarrow> 'w
     \<Rightarrow> (ccapi_fs_error_t \<times> 'w fs_service option \<times> 'w) option" where
  "ccxapi_fs_add_virtual_dir os fs ccapi_data name local w =
     (if \<not> virtual_dir_paths_ok name local
      then Some (CCAPI_FS_ERROR_INVALID_PATH, ccapi_data, w)
      else
        (case ccapi_data of
           None \<Rightarrow> Some (CCAPI_FS_ERROR_CCAPI_STOPPED, ccapi_data, w)
         | Some d \<Rightarrow>
             (if fs_run_status d = CCAPI_THREAD_NOT_STARTED
              then Some (CCAPI_FS_ERROR_CCAPI_STOPPED, ccapi_data, w)
              else if \<not> fs_supported d then Some (CCAPI_FS_ERROR_NO_FS_SUPPORT, ccapi_data, w)
              else if deref (get_pointer_to_dir_entry_from_virtual_dir_name (fs_virtual_dir_list d)
                        (the name) (length (the name))) (fs_virtual_dir_list d) \<noteq> None
              then Some (CCAPI_FS_ERROR_ALREADY_MAPPED, ccapi_data, w)
              else
                (case path_is_a_dir os fs d (the local) w of
                   None \<Rightarrow> None
                 | Some (False, d1, w1) \<Rightarrow> Some (CCAPI_FS_ERROR_NOT_A_DIR, Some d1, w1)
                 | Some (True, d1, w1) \<Rightarrow>
                     (case create_virtual_dir_entry os (the name) (the local) w1 of
                        (None, w2) \<Rightarrow> Some (CCAPI_FS_ERROR_INSUFFICIENT_MEMORY, Some d1, w2)
                      | (Some new_dir_entry, w2) \<Rightarrow>
                          (case add_virtual_dir_entry os d1 new_dir_entry w2 of
                             (error, d2, w3) \<Rightarrow> Some (error, Some d2, w3)))))))"

definition ccxapi_fs_remove_virtual_dir ::
  "'w os \<Rightarrow> 'w fs_service option \<Rightarrow> string option \<Rightarrow> 'w
     \<Rightarrow> ccapi_fs_error_t \<times> 'w fs_service option \<times> 'w" where
  "ccxapi_fs_remove_virtual_dir os ccapi_data name w =
     (case ccapi_data of
        None \<Rightarrow> (CCAPI_FS_ERROR_CCAPI_STOPPED, ccapi_data, w)
      | Some d \<Rightarrow>
          (if fs_run_status d = CCAPI_THREAD_NOT_STARTED
           then (CCAPI_FS_ERROR_CCAPI_STOPPED, ccapi_data, w)
           else if \<not> fs_supported d then (CCAPI_FS_ERROR_NO_FS_SUPPORT, ccapi_data, w)
           else if name = None \<or> the name = [] \<or> hd (the name) = CHR ''/''
           then (CCAPI_FS_ERROR_INVALID_PATH, ccapi_data, w)
           else
             (case ccapi_lock_acquire os (fs_lock d) w of
                (CCIMP_STATUS_ERROR, w1) \<Rightarrow> (CCAPI_FS_ERROR_LOCK_FAILED, ccapi_data, w1)
              | (CCIMP_STATUS_BUSY, w1) \<Rightarrow> (CCAPI_FS_ERROR_LOCK_FAILED, ccapi_data, w1)
              | (CCIMP_STATUS_OK, w1) \<Rightarrow>
                  (let p_dir_entry = get_pointer_to_dir_entry_from_virtual_dir_name
                         (fs_virtual_dir_list d) (the name) (length (the name));
                       found = deref p_dir_entry (fs_virtual_dir_list d) \<noteq> None;
                       d' = d\<lparr>fs_virtual_dir_list := unlink_at p_dir_entry (fs_virtual_dir_list d)\<rparr>;
                       (release, w2) = ccapi_lock_release os (fs_lock d) w1
                   in if found
                      then (CCAPI_FS_ERROR_NONE, Some d',
                            snd (ccapi_free os True (snd (ccapi_free os True
                              (snd (ccapi_free os True w2))))))
                      else (if release = CCIMP_STATUS_OK then CCAPI_FS_ERROR_NOT_MAPPED
                            else CCAPI_FS_ERROR_LOCK_FAILED, Some d', w2)))))"

text \<open>\<open>ccapi_data_single_instance\<close> is the instance of the functions without a handle.\<close>

definition ccapi_fs_add_virtual_dir ::
  "'w os \<Rightarrow> 'w ccimp_fs \<Rightarrow> 'w fs_service option \<Rightarrow> string option \<Rightarrow> string option \<Rightarrow> 'w
     \<Rightarrow> (ccapi_fs_error_t \<times> 'w fs_service option \<times> 'w) option" where
  "ccapi_fs_add_virtual_dir os fs ccapi_data_single_instance name local w =
     ccxapi_fs_add_virtual_dir os fs ccapi_data_single_instance name local w"

definition ccapi_fs_remove_virtual_dir ::
  "'w os \<Rightarrow> 'w fs_service option \<Rightarrow> string option \<Rightarrow> 'w
     \<Rightarrow> ccapi_fs_error_t \<times> 'w fs_service option \<times> 'w" where
  "ccapi_fs_remove_virtual_dir os ccapi_data_single_instance name w =
     ccxapi_fs_remove_virtual_dir os ccapi_data_single_instance name w"

subsection \<open>The list as a registry\<close>

definition virtual_dir_ok :: "ccapi_fs_virtual_dir_t \<Rightarrow> bool" where
  "virtual_dir_ok e \<longleftrightarrow>
     virtual_dir e \<noteq> [] \<and> CHR ''/'' \<notin> set (virtual_dir e)
     \<and> virtual_dir_length e = length (virtual_dir e) \<and> local_dir_length e = length (local_dir e)"

definition virtual_dirs_valid :: "ccapi_fs_virtual_dir_t list \<Rightarrow> bool" where
  "virtual_dirs_valid dirs \<longleftrightarrow> list_all virtual_dir_ok dirs \<and> distinct (map virtual_dir dirs)"

definition virtual_dir_lookup ::
  "ccapi_fs_virtual_dir_t list \<Rightarrow> string \<Rightarrow> ccapi_fs_virtual_dir_t option" where
  "virtual_dir_lookup dirs name =
     deref (get_pointer_to_dir_entry_from_virtual_dir_name dirs name (length name)) dirs"

definition virtual_dir_remove ::
  "string \<Rightarrow> ccapi_fs_virtual_dir_t list \<Rightarrow> ccapi_fs_virtual_dir_t list" where
  "virtual_dir_remove name dirs =
     unlink_at (get_pointer_to_dir_entry_from_virtual_dir_name dirs name (length name)) dirs"

lemma get_pointer_exact:
  assumes "list_all virtual_dir_ok dirs"
  shows "get_pointer_to_dir_entry_from_virtual_dir_name dirs name (length name)
           = find_index (\<lambda>e. virtual_dir e = name) dirs"
  unfolding get_pointer_to_dir_entry_from_virtual_dir_name_def
  by (rule find_index_cong)
    (use assms in \<open>auto simp: list_all_iff virtual_dir_ok_def strncmp_eq_longest\<close>)

text \<open>
  A path of the cloud is a name, then nothing or a separator and the rest: the first \<open>len\<close>
  characters select the entry, what follows does not matter.
\<close>

lemma strncmp_eq_component:
  assumes "CHR ''/'' \<notin> set v" and "rest = [] \<or> hd rest = CHR ''/''"
  shows "strncmp_eq v (name @ rest) (max (length v) (length name)) \<longleftrightarrow> v = name"
proof
  assume "strncmp_eq v (name @ rest) (max (length v) (length name))"
  then have eq: "v = take (max (length v) (length name)) (name @ rest)"
    by (simp add: strncmp_eq_take)
  show "v = name"
  proof (cases "length v \<le> length name")
    case True
    then show ?thesis using eq by (simp add: max_def split: if_splits)
  next
    case False
    then have v: "v = name @ take (length v - length name) rest" and "0 < length v - length name"
      using eq by (simp_all add: max_def)
    show ?thesis
    proof (cases rest)
      case (Cons c cs)
      obtain n where "length v - length name = Suc n"
        using \<open>0 < length v - length name\<close> gr0_conv_Suc by blast
      then have "v = name @ c # take n cs" using v Cons by simp
      then have "CHR ''/'' \<in> set v" using assms(2) Cons by (metis hd_append2 in_set_conv_decomp list.sel(1) list.discI)
      then show ?thesis using assms(1) by simp
    qed (use v in simp)
  qed
qed (simp add: strncmp_eq_take)

lemma get_pointer_component:
  assumes "list_all virtual_dir_ok dirs" and "rest = [] \<or> hd rest = CHR ''/''"
  shows "get_pointer_to_dir_entry_from_virtual_dir_name dirs (name @ rest) (length name)
           = find_index (\<lambda>e. virtual_dir e = name) dirs"
  unfolding get_pointer_to_dir_entry_from_virtual_dir_name_def
proof (rule find_index_cong)
  fix e assume "e \<in> set dirs"
  then have "CHR ''/'' \<notin> set (virtual_dir e)" "virtual_dir_length e = length (virtual_dir e)"
    using assms(1) by (simp_all add: list_all_iff virtual_dir_ok_def)
  then show "strncmp_eq (virtual_dir e) (name @ rest) (max (virtual_dir_length e) (length name))
      = (virtual_dir e = name)"
    using strncmp_eq_component [OF _ assms(2), of "virtual_dir e" name] by simp
qed

lemma virtual_dir_lookup_find:
  "list_all virtual_dir_ok dirs \<Longrightarrow> virtual_dir_lookup dirs name = find (\<lambda>e. virtual_dir e = name) dirs"
  by (simp add: virtual_dir_lookup_def get_pointer_exact deref_find_index)

interpretation vd: keyed_registry virtual_dir_lookup Cons virtual_dir_remove virtual_dir
  virtual_dirs_valid virtual_dir_ok
proof
  fix s k e
  assume s: "virtual_dirs_valid s"
  then have ok: "list_all virtual_dir_ok s" and dist: "distinct (map virtual_dir s)"
    by (simp_all add: virtual_dirs_valid_def)
  show "virtual_dir_lookup s k = Some e \<Longrightarrow> virtual_dir e = k"
    using ok by (auto simp: virtual_dir_lookup_find find_Some_iff)
  show "virtual_dir_lookup (virtual_dir_remove k s) = (virtual_dir_lookup s)(k := None)"
    and "virtual_dirs_valid (virtual_dir_remove k s)"
    using ok dist set_unlink_at_subset [of _ s]
    by (auto simp: virtual_dir_remove_def get_pointer_exact virtual_dir_lookup_find fun_eq_iff
        find_unlink virtual_dirs_valid_def distinct_map_unlink list_all_iff subset_iff)
  assume e: "virtual_dir_ok e" and new: "virtual_dir_lookup s (virtual_dir e) = None"
  then show "virtual_dir_lookup (e # s) = (virtual_dir_lookup s)(virtual_dir e \<mapsto> e)"
    and "virtual_dirs_valid (e # s)"
    using ok dist by (auto simp: virtual_dir_lookup_find fun_eq_iff virtual_dirs_valid_def find_None_iff)
qed

subsection \<open>What the operations do to the list\<close>

definition vdir_entry :: "string \<Rightarrow> string \<Rightarrow> ccapi_fs_virtual_dir_t" where
  "vdir_entry name local =
     \<lparr>virtual_dir = name, local_dir = local, virtual_dir_length = length name,
      local_dir_length = length local\<rparr>"

lemma vdir_entry_ok:
  "virtual_dir_paths_ok (Some name) (Some local) \<Longrightarrow> virtual_dir_ok (vdir_entry name local)"
  by (simp add: vdir_entry_def virtual_dir_ok_def virtual_dir_paths_ok_def)

lemma ccapi_strdup_Some: "ccapi_strdup os s w = (Some t, w') \<Longrightarrow> t = s"
  by (auto simp: ccapi_strdup_def split: prod.splits if_splits)

lemma create_virtual_dir_entry_Some:
  "create_virtual_dir_entry os name local w = (Some e, w') \<Longrightarrow> e = vdir_entry name local"
  by (auto simp: create_virtual_dir_entry_def vdir_entry_def dest: ccapi_strdup_Some
      split: prod.splits bool.splits option.splits)

lemma add_virtual_dir_entry_cases:
  assumes "add_virtual_dir_entry os d e w = (error, d', w')"
  shows "(error = CCAPI_FS_ERROR_NONE \<or> error = CCAPI_FS_ERROR_LOCK_FAILED)
    \<and> (d' = d\<lparr>fs_virtual_dir_list := e # fs_virtual_dir_list d\<rparr>
       \<or> (d' = d \<and> error = CCAPI_FS_ERROR_LOCK_FAILED))"
  using assms
  by (auto simp: add_virtual_dir_entry_def Let_def split: prod.splits ccimp_status_t.splits)

lemma path_is_a_dir_frame:
  "path_is_a_dir os fs d p w = Some (b, d', w') \<Longrightarrow>
     fs_virtual_dir_list d' = fs_virtual_dir_list d \<and> fs_lock d' = fs_lock d
     \<and> fs_run_status d' = fs_run_status d \<and> fs_supported d' = fs_supported d"
  by (auto simp: path_is_a_dir_def dest: ccapi_get_dir_entry_status_frame)

lemma add_virtual_dir_cases:
  assumes "ccxapi_fs_add_virtual_dir os fs (Some d) name local w = Some (error, r, w')"
  obtains d' where "r = Some d'"
    and "fs_run_status d' = fs_run_status d" and "fs_supported d' = fs_supported d"
    and "fs_lock d' = fs_lock d"
    and "(fs_virtual_dir_list d' = fs_virtual_dir_list d \<and> error \<noteq> CCAPI_FS_ERROR_NONE)
      \<or> (fs_virtual_dir_list d' = vdir_entry (the name) (the local) # fs_virtual_dir_list d
         \<and> (error = CCAPI_FS_ERROR_NONE \<or> error = CCAPI_FS_ERROR_LOCK_FAILED)
         \<and> virtual_dir_paths_ok name local
         \<and> virtual_dir_lookup (fs_virtual_dir_list d) (the name) = None)"
proof -
  have "\<exists>d'. r = Some d' \<and> fs_run_status d' = fs_run_status d \<and> fs_supported d' = fs_supported d
      \<and> fs_lock d' = fs_lock d
      \<and> ((fs_virtual_dir_list d' = fs_virtual_dir_list d \<and> error \<noteq> CCAPI_FS_ERROR_NONE)
      \<or> (fs_virtual_dir_list d' = vdir_entry (the name) (the local) # fs_virtual_dir_list d
         \<and> (error = CCAPI_FS_ERROR_NONE \<or> error = CCAPI_FS_ERROR_LOCK_FAILED)
         \<and> virtual_dir_paths_ok name local
         \<and> virtual_dir_lookup (fs_virtual_dir_list d) (the name) = None))"
    using assms
    by (auto simp: ccxapi_fs_add_virtual_dir_def virtual_dir_lookup_def
        split: if_splits option.splits prod.splits bool.splits
        dest!: path_is_a_dir_frame create_virtual_dir_entry_Some add_virtual_dir_entry_cases)
  then show thesis using that by blast
qed

lemma remove_virtual_dir_cases:
  assumes "ccxapi_fs_remove_virtual_dir os (Some d) name w = (error, r, w')"
  obtains d' where "r = Some d'"
    and "fs_run_status d' = fs_run_status d" and "fs_supported d' = fs_supported d"
    and "fs_lock d' = fs_lock d"
    and "(fs_virtual_dir_list d' = fs_virtual_dir_list d \<and> error \<noteq> CCAPI_FS_ERROR_NONE)
      \<or> (fs_virtual_dir_list d' = virtual_dir_remove (the name) (fs_virtual_dir_list d)
         \<and> error = CCAPI_FS_ERROR_NONE
         \<and> virtual_dir_lookup (fs_virtual_dir_list d) (the name) \<noteq> None)"
proof -
  have none: "unlink_at p xs = xs" if "deref p xs = None" for p and xs :: "ccapi_fs_virtual_dir_t list"
    using that by (simp add: deref_def split: if_splits)
  have "\<exists>d'. r = Some d' \<and> fs_run_status d' = fs_run_status d \<and> fs_supported d' = fs_supported d
      \<and> fs_lock d' = fs_lock d
      \<and> ((fs_virtual_dir_list d' = fs_virtual_dir_list d \<and> error \<noteq> CCAPI_FS_ERROR_NONE)
      \<or> (fs_virtual_dir_list d' = virtual_dir_remove (the name) (fs_virtual_dir_list d)
         \<and> error = CCAPI_FS_ERROR_NONE
         \<and> virtual_dir_lookup (fs_virtual_dir_list d) (the name) \<noteq> None))"
    using assms
    by (auto simp: ccxapi_fs_remove_virtual_dir_def virtual_dir_lookup_def virtual_dir_remove_def
        Let_def none split: if_splits prod.splits ccimp_status_t.splits)
  then show thesis using that by blast
qed

subsection \<open>A sequence of calls\<close>

datatype vdir_call = Add_dir "string option" "string option" | Remove_dir "string option"

text \<open>
  Runs the calls on a started instance and collects what they are on the abstract map: a call
  that answers CCAPI_FS_ERROR_NONE is a registration or an unregistration, any other is nothing.
\<close>

fun vdir_run ::
  "'w os \<Rightarrow> 'w ccimp_fs \<Rightarrow> vdir_call list \<Rightarrow> 'w fs_service option \<Rightarrow> 'w
     \<Rightarrow> ((ccapi_fs_virtual_dir_t, string) registry_op list \<times> 'w fs_service option \<times> 'w) option"
where
  "vdir_run os fs [] d w = Some ([], d, w)"
| "vdir_run os fs (Add_dir name local # cs) d w =
     (case ccapi_fs_add_virtual_dir os fs d name local w of
        None \<Rightarrow> None
      | Some (error, d1, w1) \<Rightarrow>
          map_option (\<lambda>(ops, r).
              ((if error = CCAPI_FS_ERROR_NONE
                then [Register (vdir_entry (the name) (the local))] else []) @ ops, r))
            (vdir_run os fs cs d1 w1))"
| "vdir_run os fs (Remove_dir name # cs) d w =
     (case ccapi_fs_remove_virtual_dir os d name w of
        (error, d1, w1) \<Rightarrow>
          map_option (\<lambda>(ops, r).
              ((if error = CCAPI_FS_ERROR_NONE then [Unregister (the name)] else []) @ ops, r))
            (vdir_run os fs cs d1 w1))"

lemma add_virtual_dir_never_lock_failed:
  assumes "\<And>l w. fst (ccapi_lock_release os l w) = CCIMP_STATUS_OK"
    and "ccxapi_fs_add_virtual_dir os fs (Some d) name local w = Some (CCAPI_FS_ERROR_LOCK_FAILED, r, w')"
  obtains d' where "r = Some d'" and "fs_virtual_dir_list d' = fs_virtual_dir_list d"
proof -
  have release: "ccapi_lock_release os l w = (st, w') \<Longrightarrow> st = CCIMP_STATUS_OK" for l w st w'
    using assms(1) [of l w] by simp
  have "\<exists>d'. r = Some d' \<and> fs_virtual_dir_list d' = fs_virtual_dir_list d"
    using assms(2)
    by (auto simp: ccxapi_fs_add_virtual_dir_def add_virtual_dir_entry_def Let_def
        split: if_splits option.splits prod.splits bool.splits ccimp_status_t.splits
        dest!: path_is_a_dir_frame dest: release)
  then show thesis using that by blast
qed

lemma add_virtual_dir_refines:
  assumes release: "\<And>l w. fst (ccapi_lock_release os l w) = CCIMP_STATUS_OK"
    and valid: "virtual_dirs_valid (fs_virtual_dir_list d)"
    and add: "ccxapi_fs_add_virtual_dir os fs (Some d) name local w = Some (error, r, w1)"
  obtains d1 where "r = Some d1" and "virtual_dirs_valid (fs_virtual_dir_list d1)"
    and "virtual_dir_lookup (fs_virtual_dir_list d1) = fold (map_op virtual_dir)
           (if error = CCAPI_FS_ERROR_NONE then [Register (vdir_entry (the name) (the local))] else [])
           (virtual_dir_lookup (fs_virtual_dir_list d))"
proof -
  let ?e = "vdir_entry (the name) (the local)"
  obtain d1 where d1: "r = Some d1"
    and alt: "(fs_virtual_dir_list d1 = fs_virtual_dir_list d \<and> error \<noteq> CCAPI_FS_ERROR_NONE)
      \<or> (fs_virtual_dir_list d1 = ?e # fs_virtual_dir_list d
         \<and> (error = CCAPI_FS_ERROR_NONE \<or> error = CCAPI_FS_ERROR_LOCK_FAILED)
         \<and> virtual_dir_paths_ok name local
         \<and> virtual_dir_lookup (fs_virtual_dir_list d) (the name) = None)"
    using add_virtual_dir_cases [OF add] by metis
  have key: "virtual_dir ?e = the name" by (simp add: vdir_entry_def)
  show thesis
  proof (cases "error = CCAPI_FS_ERROR_NONE")
    case True
    then have "virtual_dir_ok ?e"
      using alt by (cases name; cases local) (simp_all add: vdir_entry_ok virtual_dir_paths_ok_def
          virtual_dir_ok_def vdir_entry_def)
    then show thesis
      using that [OF d1] alt True vd.reg_op_refines [OF valid, of "Register ?e"] by (simp add: key)
  next
    case False
    then have "fs_virtual_dir_list d1 = fs_virtual_dir_list d"
      using alt add_virtual_dir_never_lock_failed [OF release, of fs d name local w r w1] add d1
      by auto
    then show thesis using that [OF d1] valid False by simp
  qed
qed

lemma remove_virtual_dir_refines:
  assumes valid: "virtual_dirs_valid (fs_virtual_dir_list d)"
    and remove: "ccxapi_fs_remove_virtual_dir os (Some d) name w = (error, r, w1)"
  obtains d1 where "r = Some d1" and "virtual_dirs_valid (fs_virtual_dir_list d1)"
    and "virtual_dir_lookup (fs_virtual_dir_list d1) = fold (map_op virtual_dir)
           (if error = CCAPI_FS_ERROR_NONE then [Unregister (the name)] else [])
           (virtual_dir_lookup (fs_virtual_dir_list d))"
proof -
  obtain d1 where d1: "r = Some d1"
    and alt: "(fs_virtual_dir_list d1 = fs_virtual_dir_list d \<and> error \<noteq> CCAPI_FS_ERROR_NONE)
      \<or> (fs_virtual_dir_list d1 = virtual_dir_remove (the name) (fs_virtual_dir_list d)
         \<and> error = CCAPI_FS_ERROR_NONE
         \<and> virtual_dir_lookup (fs_virtual_dir_list d) (the name) \<noteq> None)"
    using remove_virtual_dir_cases [OF remove] by metis
  then show thesis
    using that [OF d1] valid vd.reg_op_refines [OF valid, of "Unregister (the name)"] by auto
qed

text \<open>
  C5. The directory list is a finite map: after any sequence of adds and removes, valid or not,
  looking a name up gives what the calls that answered CCAPI_FS_ERROR_NONE, in order, make of
  the map; calls that failed changed nothing. Hypothesis: releasing the lock does not fail, as
  documented for \<open>ccimp_os_lock_release\<close> on a lock that exists.
\<close>

theorem virtual_dirs_are_a_map:
  assumes "\<And>l w. fst (ccapi_lock_release os l w) = CCIMP_STATUS_OK"
    and "virtual_dirs_valid (fs_virtual_dir_list d)"
    and "vdir_run os fs calls (Some d) w = Some (ops, Some d', w')"
  shows "virtual_dirs_valid (fs_virtual_dir_list d')
    \<and> virtual_dir_lookup (fs_virtual_dir_list d')
        = fold (map_op virtual_dir) ops (virtual_dir_lookup (fs_virtual_dir_list d))"
  using assms(2,3)
proof (induction calls arbitrary: d w ops)
  case (Cons c calls)
  show ?case
  proof (cases c)
    case (Add_dir name local)
    then obtain error r w1 ops' where
      1: "ccxapi_fs_add_virtual_dir os fs (Some d) name local w = Some (error, r, w1)"
      and 2: "vdir_run os fs calls r w1 = Some (ops', Some d', w')"
      and 3: "ops = (if error = CCAPI_FS_ERROR_NONE
                     then [Register (vdir_entry (the name) (the local))] else []) @ ops'"
      using Cons.prems(2) by (auto simp: ccapi_fs_add_virtual_dir_def split: option.splits prod.splits)
    obtain d1 where "r = Some d1" "virtual_dirs_valid (fs_virtual_dir_list d1)"
      "virtual_dir_lookup (fs_virtual_dir_list d1) = fold (map_op virtual_dir) (if error = CCAPI_FS_ERROR_NONE
         then [Register (vdir_entry (the name) (the local))] else [])
         (virtual_dir_lookup (fs_virtual_dir_list d))"
      using add_virtual_dir_refines [OF assms(1) Cons.prems(1) 1] .
    then show ?thesis using Cons.IH [of d1 w1 ops'] 2 3 by simp
  next
    case (Remove_dir name)
    then obtain error r w1 ops' where
      1: "ccxapi_fs_remove_virtual_dir os (Some d) name w = (error, r, w1)"
      and 2: "vdir_run os fs calls r w1 = Some (ops', Some d', w')"
      and 3: "ops = (if error = CCAPI_FS_ERROR_NONE then [Unregister (the name)] else []) @ ops'"
      using Cons.prems(2)
      by (auto simp: ccapi_fs_remove_virtual_dir_def split: option.splits prod.splits)
    obtain d1 where "r = Some d1" "virtual_dirs_valid (fs_virtual_dir_list d1)"
      "virtual_dir_lookup (fs_virtual_dir_list d1) = fold (map_op virtual_dir) (if error = CCAPI_FS_ERROR_NONE
         then [Unregister (the name)] else [])
         (virtual_dir_lookup (fs_virtual_dir_list d))"
      using remove_virtual_dir_refines [OF Cons.prems(1) 1] .
    then show ?thesis using Cons.IH [of d1 w1 ops'] 2 3 by simp
  qed
qed simp

text \<open>Adding a directory with the layer of the examples, evaluated once.\<close>

lemma example_path_is_a_dir:
  "path_is_a_dir example_os example_fs example_fs_service p w = Some (True, example_fs_service, w)"
  by (simp add: path_is_a_dir_def ccapi_get_dir_entry_status_def ccimp_fs_retry_once
      example_fs_def example_fs_service_def zero_fs_stat_def)

lemma example_add_virtual_dir:
  "ccxapi_fs_add_virtual_dir example_os example_fs (Some example_fs_service) (Some ''data'')
     (Some ''/tmp'') w
   = Some (CCAPI_FS_ERROR_NONE,
       Some (example_fs_service\<lparr>fs_virtual_dir_list := [vdir_entry ''data'' ''/tmp'']\<rparr>), w)"
  by (simp add: ccxapi_fs_add_virtual_dir_def example_path_is_a_dir)
    (simp add: virtual_dir_paths_ok_def CCIMP_FILE_SYSTEM_MAX_PATH_LENGTH_def
      get_pointer_to_dir_entry_from_virtual_dir_name_def example_fs_service_def
      create_virtual_dir_entry_def ccapi_strdup_def add_virtual_dir_entry_def vdir_entry_def Let_def)

theorem virtual_dirs_are_a_map_witness:
  "virtual_dir_lookup [vdir_entry ''data'' ''/tmp''] ''data'' = Some (vdir_entry ''data'' ''/tmp'')"
proof -
  let ?d = "example_fs_service :: unit fs_service"
  have "vdir_run example_os example_fs [Add_dir (Some ''data'') (Some ''/tmp''), Add_dir None None]
      (Some ?d) () = Some ([Register (vdir_entry ''data'' ''/tmp'')],
        Some (?d\<lparr>fs_virtual_dir_list := [vdir_entry ''data'' ''/tmp'']\<rparr>), ())"
    by (simp add: ccapi_fs_add_virtual_dir_def example_add_virtual_dir)
      (simp add: ccxapi_fs_add_virtual_dir_def virtual_dir_paths_ok_def)
  from virtual_dirs_are_a_map [OF _ _ this]
  show ?thesis
    by (simp add: example_fs_service_def virtual_dirs_valid_def virtual_dir_lookup_def vdir_entry_def)
qed

subsection \<open>The lock in release and debug builds\<close>

text \<open>A status query that answers at once and touches neither locks nor memory.\<close>

definition quiet_status :: "'m linux_scheme ccimp_fs \<Rightarrow> bool" where
  "quiet_status fs \<longleftrightarrow>
     (\<forall>x w. case ccimp_fs_dir_entry_status fs x w of
        (st, x', w') \<Rightarrow> st \<noteq> CCIMP_STATUS_BUSY \<and> lx_sems w' = lx_sems w \<and> lx_memory w' = lx_memory w)"

lemma linux_acquire:
  "lx_sems w l = Some (Suc n) \<Longrightarrow> ccapi_lock_acquire (linux_os debug) (Some l) w =
     (CCIMP_STATUS_OK, w\<lparr>lx_sems := (lx_sems w)(l \<mapsto> n)\<rparr>)"
  by (simp add: ccapi_lock_acquire_def ccimp_os_lock_acquire_def)

lemma linux_acquire_empty:
  "lx_sems w l = Some 0 \<Longrightarrow> ccapi_lock_acquire (linux_os debug) (Some l) w =
     (CCIMP_STATUS_ERROR, w\<lparr>lx_stuck := True\<rparr>)"
  by (simp add: ccapi_lock_acquire_def ccimp_os_lock_acquire_def)

lemma linux_release:
  "lx_sems w l = Some n \<Longrightarrow> ccapi_lock_release (linux_os debug) (Some l) w =
     (CCIMP_STATUS_OK, w\<lparr>lx_sems := (lx_sems w)(l \<mapsto> Suc n)\<rparr>)"
  by (simp add: ccapi_lock_release_def ccimp_os_lock_release_def)

lemma linux_path_is_a_dir:
  assumes "quiet_status fs" and "fs_lock d = Some l" and "lx_sems w l = Some 1"
    and "path_is_a_dir (linux_os debug) fs d p w = Some (b, d', w')"
  shows "lx_sems w' = (lx_sems w)(l \<mapsto> (if debug then 1 else 0)) \<and> lx_memory w' = lx_memory w"
proof -
  define q where "q = \<lparr>dstat_imp_context = fs_imp_context d, dstat_errnum = CCIMP_FILESYSTEM_ERRNUM_NONE,
     dstat_path = p, dstat_status = zero_fs_stat\<rparr>"
  let ?w1 = "w\<lparr>lx_sems := (lx_sems w)(l \<mapsto> 0)\<rparr>"
  obtain st x w2 where s: "ccimp_fs_dir_entry_status fs q ?w1 = (st, x, w2)" by (rule prod_cases3)
  then have st: "st \<noteq> CCIMP_STATUS_BUSY" and w2: "lx_sems w2 = lx_sems ?w1" "lx_memory w2 = lx_memory w"
    using assms(1) [unfolded quiet_status_def, THEN spec [of _ q], THEN spec [of _ ?w1]]
    by (simp_all add: s)
  have acq: "ccapi_lock_acquire (linux_os debug) (fs_lock d) w = (CCIMP_STATUS_OK, ?w1)"
    using linux_acquire [of w l 0 debug] assms(2,3) by simp
  have "w' = ASSERT_MSG_lock_release (linux_os debug) (Some l) w2"
    using assms(4) acq ccimp_fs_retry_once [of "ccimp_fs_dir_entry_status fs", OF s st, of "linux_os debug"]
    by (simp add: path_is_a_dir_def ccapi_get_dir_entry_status_def assms(2) ccimp_os_yield_def
        flip: q_def)
  then show ?thesis
    using w2 linux_release [of w2 l 0 debug] by (auto simp: ASSERT_MSG_lock_release_def)
qed

lemma linux_create_entry:
  assumes "3 \<le> lx_memory w"
  obtains w' where "create_virtual_dir_entry (linux_os debug) name local w
       = (Some (vdir_entry name local), w')"
    and "lx_sems w' = lx_sems w"
proof -
  obtain k where k: "lx_memory w = Suc (Suc (Suc k))"
    using assms by (metis add_2_eq_Suc le_Suc_ex numeral_3_eq_3 plus_nat.simps(2))
  show thesis
    by (rule that [of "w\<lparr>lx_memory := k, lx_blocks := lx_blocks w + 3\<rparr>"])
      (simp_all add: create_virtual_dir_entry_def ccapi_strdup_def ccapi_malloc_def
        ccimp_os_malloc_def k vdir_entry_def)
qed

lemma linux_add_entry:
  assumes "fs_lock d = Some l" and "lx_sems w l = Some n"
    and "add_virtual_dir_entry (linux_os debug) d e w = (error, d', w')"
  shows "if n = 0 then lx_stuck w'
    else error = CCAPI_FS_ERROR_NONE \<and> lx_sems w' l = Some n
      \<and> fs_virtual_dir_list d' = e # fs_virtual_dir_list d"
proof (cases n)
  case 0
  then show ?thesis
    using assms linux_acquire_empty [of w l debug] by (auto simp: add_virtual_dir_entry_def)
next
  case (Suc m)
  then show ?thesis
    using assms linux_acquire [of w l m debug] 
      linux_release [of "w\<lparr>lx_sems := (lx_sems w)(l \<mapsto> m)\<rparr>" l m debug]
    by (auto simp: add_virtual_dir_entry_def Let_def)
qed

text \<open>
  Over the Linux layer, on a running instance whose file system lock is free, adding a valid
  and unmapped directory works in a debug build: the entry is there and the lock is free again.
  In a release build the call never returns: the status query inside it takes the lock and its
  release is the condition of an ASSERT_MSG, which release builds compile away.
\<close>

theorem add_virtual_dir_needs_debug_build:
  assumes "fs_lock d = Some l" and "lx_sems w l = Some 1" and "quiet_status fs"
    and "fs_run_status d = CCAPI_THREAD_RUNNING" and "fs_supported d"
    and "virtual_dir_paths_ok (Some name) (Some local)"
    and "virtual_dir_lookup (fs_virtual_dir_list d) name = None"
    and "path_is_a_dir (linux_os debug) fs d local w = Some (True, d1, w1)" and "3 \<le> lx_memory w"
  shows "\<exists>error d' w'. ccapi_fs_add_virtual_dir (linux_os debug) fs (Some d) (Some name) (Some local) w
           = Some (error, Some d', w')
    \<and> (if debug then error = CCAPI_FS_ERROR_NONE \<and> lx_sems w' l = Some 1
         \<and> fs_virtual_dir_list d' = vdir_entry name local # fs_virtual_dir_list d
       else lx_stuck w')"
proof -
  have w1: "lx_sems w1 l = Some (if debug then 1 else 0)" "3 \<le> lx_memory w1"
    using linux_path_is_a_dir [OF assms(3,1,2,8)] assms(9) by simp_all
  have d1: "fs_lock d1 = Some l" "fs_virtual_dir_list d1 = fs_virtual_dir_list d"
    using path_is_a_dir_frame [OF assms(8)] assms(1) by simp_all
  obtain w2 where c: "create_virtual_dir_entry (linux_os debug) name local w1
       = (Some (vdir_entry name local), w2)" and w2: "lx_sems w2 = lx_sems w1"
    using linux_create_entry [OF w1(2)] .
  obtain error d' w' where a: "add_virtual_dir_entry (linux_os debug) d1 (vdir_entry name local) w2
      = (error, d', w')" by (rule prod_cases3)
  have "ccapi_fs_add_virtual_dir (linux_os debug) fs (Some d) (Some name) (Some local) w
      = Some (error, Some d', w')"
    using assms(4-8) c a
    by (simp add: ccapi_fs_add_virtual_dir_def ccxapi_fs_add_virtual_dir_def virtual_dir_lookup_def)
  then show ?thesis
    using linux_add_entry [OF d1(1) _ a, of "if debug then 1 else 0"] w1(1) w2 d1(2)
    by (auto split: if_splits)
qed

definition example_linux :: linux where
  "example_linux = \<lparr>lx_sems = [1 \<mapsto> 1], lx_next = 2, lx_memory = 3, lx_blocks = 0, lx_stuck = False\<rparr>"

theorem add_virtual_dir_needs_debug_build_witness:
  "\<exists>error d' w'. ccapi_fs_add_virtual_dir (linux_os False) example_fs (Some example_fs_service)
      (Some ''data'') (Some ''/tmp'') example_linux = Some (error, Some d', w') \<and> lx_stuck w'"
proof -
  let ?p = "path_is_a_dir (linux_os False) example_fs example_fs_service ''/tmp'' example_linux"
  have dir: "path_is_a_dir (linux_os False) example_fs example_fs_service ''/tmp'' example_linux
      = Some (True, example_fs_service, example_linux\<lparr>lx_sems := [1 \<mapsto> 0]\<rparr>)"
    by (simp add: path_is_a_dir_def ccapi_get_dir_entry_status_def linux_acquire ccimp_fs_retry_once
        example_fs_def example_fs_service_def example_linux_def zero_fs_stat_def
        ASSERT_MSG_lock_release_def ccimp_os_yield_def)
  have "quiet_status (example_fs :: linux ccimp_fs)" by (simp add: quiet_status_def example_fs_def)
  from add_virtual_dir_needs_debug_build [OF _ _ this _ _ _ _ dir, of 1 "''data''"]
  show ?thesis
    by (simp add: example_fs_service_def example_linux_def virtual_dir_paths_ok_def
        CCIMP_FILE_SYSTEM_MAX_PATH_LENGTH_def virtual_dir_lookup_def)
qed

end
