(* ===== verification/FileService.thy ===== *)
theory FileService
  imports VirtualDirs
begin

text \<open>
  The file system service of the cloud, source/ccapi_filesystem_handler.c: the requests of the
  connector are translated to the file system layer, under \<open>file_system_lock\<close>. Paths of the
  cloud go through the virtual directories, the user's callbacks allow the access and hear of
  changes.

  The service keeps three kinds of heap objects whose addresses it gives to the connector: file
  handles, error handles and root directory listings. Each kind is a map from addresses to
  contents; a fresh address is never used again, so a dangling pointer is an address that is not
  in its map. The entry a listing points to is known by its name, which is unique in the list: an
  entry that is removed and mapped again under the same name is not told from the old one.
\<close>

subsection \<open>Requests and state\<close>

datatype connector_file_system_seek_origin_t =
    connector_file_system_seek_set
  | connector_file_system_seek_cur
  | connector_file_system_seek_end

datatype connector_file_system_file_type_t =
    connector_file_system_file_type_none
  | connector_file_system_file_type_is_dir
  | connector_file_system_file_type_is_reg

datatype connector_file_system_hash_algorithm_t =
    connector_file_system_hash_none
  | connector_file_system_hash_best
  | connector_file_system_hash_crc32
  | connector_file_system_hash_md5
  | connector_file_system_hash_sha512
  | connector_file_system_hash_sha3_512

datatype connector_file_system_error_t =
    connector_file_system_unspec_error
  | connector_file_system_path_not_found
  | connector_file_system_insufficient_storage_space
  | connector_file_system_request_format_error
  | connector_file_system_invalid_parameter
  | connector_file_system_out_of_memory
  | connector_file_system_permission_denied

datatype connector_session_error_t =
    connector_session_error_none
  | connector_session_error_fatal
  | connector_session_error_invalid_opcode
  | connector_session_error_format
  | connector_session_error_session_in_use
  | connector_session_error_unknown_session
  | connector_session_error_compression_failure
  | connector_session_error_decompression_failure
  | connector_session_error_memory
  | connector_session_error_send
  | connector_session_error_cancel
  | connector_session_error_busy
  | connector_session_error_ack
  | connector_session_error_timeout
  | connector_session_error_no_service
  | connector_session_error_count

record connector_file_system_stat_buf =
  statbuf_last_modified :: u32
  statbuf_flags :: connector_file_system_file_type_t
  statbuf_file_size :: ccimp_file_offset_t

record connector_file_system_open_t =
  open_path :: string
  open_oflag :: u32
  open_handle :: ptr
  open_errnum :: ptr

record connector_file_system_read_t =
  read_handle :: ptr
  read_buffer :: "u8 buffer"
  read_bytes_available :: size_t
  read_bytes_used :: size_t
  read_errnum :: ptr

record connector_file_system_write_t =
  write_handle :: ptr
  write_buffer :: "u8 list"
  write_bytes_available :: size_t
  write_bytes_used :: size_t
  write_errnum :: ptr

record connector_file_system_lseek_t =
  lseek_handle :: ptr
  lseek_requested_offset :: ccimp_file_offset_t
  lseek_resulting_offset :: ccimp_file_offset_t
  lseek_origin :: connector_file_system_seek_origin_t
  lseek_errnum :: ptr

record connector_file_system_close_t =
  close_handle :: ptr
  close_errnum :: ptr

record connector_file_system_truncate_t =
  truncate_handle :: ptr
  truncate_length_in_bytes :: ccimp_file_offset_t
  truncate_errnum :: ptr

record connector_file_system_remove_t =
  remove_path :: string
  remove_errnum :: ptr

record connector_file_system_opendir_t =
  opendir_user_context :: ptr
  opendir_path :: string
  opendir_handle :: ptr
  opendir_errnum :: ptr

record connector_file_system_readdir_t =
  readdir_user_context :: ptr
  readdir_handle :: ptr
  readdir_entry_name :: "char buffer"
  readdir_bytes_available :: size_t
  readdir_errnum :: ptr

record connector_file_system_stat_dir_entry_t =
  entry_user_context :: ptr
  entry_path :: string
  entry_statbuf :: connector_file_system_stat_buf
  entry_errnum :: ptr

record connector_file_system_closedir_t =
  closedir_user_context :: ptr
  closedir_handle :: ptr
  closedir_errnum :: ptr

record connector_file_system_stat_t =
  stat_user_context :: ptr
  stat_path :: string
  stat_statbuf :: connector_file_system_stat_buf
  stat_hash_requested :: connector_file_system_hash_algorithm_t
  stat_hash_actual :: connector_file_system_hash_algorithm_t
  stat_errnum :: ptr

record connector_file_system_hash_t =
  hash_path :: string
  hash_algorithm :: connector_file_system_hash_algorithm_t
  hash_value :: "u8 buffer"
  hash_bytes_requested :: size_t
  hash_errnum :: ptr

record connector_file_system_get_error_t =
  get_error_errnum :: ptr
  get_error_status :: connector_file_system_error_t
  get_error_buffer :: "char buffer"
  get_error_bytes_available :: size_t
  get_error_bytes_used :: size_t

text \<open>\<open>ccapi_fs_file_handle_t\<close> and \<open>ccapi_fs_error_handle_t\<close>, whose flag and union are a sum.\<close>

record ccapi_fs_file_handle_t =
  handle_ccimp_handle :: ccimp_fs_file_handle_t
  handle_file_path :: string
  handle_request :: ccapi_fs_request_t

datatype ccapi_fs_internal_error_t =
    CCAPI_FS_INTERNAL_ERROR_ACCESS_DENIED
  | CCAPI_FS_INTERNAL_ERROR_INVALID_PATH

datatype ccapi_fs_error_handle_t =
    Internal_Error ccapi_fs_internal_error_t
  | Ccimp_Error ccimp_fs_errnum_t

record 'w fs_state = "'w fs_service" +
  fs_files :: "nat \<rightharpoonup> ccapi_fs_file_handle_t"
  fs_errors :: "nat \<rightharpoonup> ccapi_fs_error_handle_t"
  fs_listings :: "nat \<rightharpoonup> string option"
  fs_fresh :: nat

text \<open>Reading an object through a pointer.\<close>

definition load :: "(nat \<rightharpoonup> 'a) \<Rightarrow> ptr \<Rightarrow> 'a ub" where
  "load heap p =
     (case p of
        None \<Rightarrow> Inl Null_Dereference
      | Some a \<Rightarrow> (case heap a of None \<Rightarrow> Inl Use_After_Free | Some x \<Rightarrow> Inr x))"

subsection \<open>Conversions\<close>

definition ccimp_seek_origin_from_ccfsm_seek_origin ::
  "connector_file_system_seek_origin_t \<Rightarrow> ccimp_fs_seek_origin_t" where
  "ccimp_seek_origin_from_ccfsm_seek_origin ccfsm_origin =
     (case ccfsm_origin of
        connector_file_system_seek_cur \<Rightarrow> CCIMP_SEEK_CUR
      | connector_file_system_seek_end \<Rightarrow> CCIMP_SEEK_END
      | connector_file_system_seek_set \<Rightarrow> CCIMP_SEEK_SET)"

definition ccfsm_file_system_file_type_from_ccimp_fs_dir_entry_type ::
  "ccimp_fs_dir_entry_type_t \<Rightarrow> connector_file_system_file_type_t" where
  "ccfsm_file_system_file_type_from_ccimp_fs_dir_entry_type ccimp_entry_type =
     (case ccimp_entry_type of
        CCIMP_FS_DIR_ENTRY_UNKNOWN \<Rightarrow> connector_file_system_file_type_none
      | CCIMP_FS_DIR_ENTRY_FILE \<Rightarrow> connector_file_system_file_type_is_reg
      | CCIMP_FS_DIR_ENTRY_DIR \<Rightarrow> connector_file_system_file_type_is_dir)"

definition ccfsm_file_system_hash_algorithm_from_ccimp_fs_hash_alg ::
  "ccimp_fs_hash_alg_t \<Rightarrow> connector_file_system_hash_algorithm_t" where
  "ccfsm_file_system_hash_algorithm_from_ccimp_fs_hash_alg ccimp_hash_alg =
     (case ccimp_hash_alg of
        CCIMP_FS_HASH_NONE \<Rightarrow> connector_file_system_hash_none
      | CCIMP_FS_HASH_BEST \<Rightarrow> connector_file_system_hash_best
      | CCIMP_FS_HASH_CRC32 \<Rightarrow> connector_file_system_hash_crc32
      | CCIMP_FS_HASH_MD5 \<Rightarrow> connector_file_system_hash_md5
      | CCIMP_FS_HASH_SHA512 \<Rightarrow> connector_file_system_hash_sha512
      | CCIMP_FS_HASH_SHA3_512 \<Rightarrow> connector_file_system_hash_sha3_512)"

definition ccimp_fs_hash_alg_from_ccfsm_file_system_hash_algorithm ::
  "connector_file_system_hash_algorithm_t \<Rightarrow> ccimp_fs_hash_alg_t" where
  "ccimp_fs_hash_alg_from_ccfsm_file_system_hash_algorithm ccimp_hash_alg =
     (case ccimp_hash_alg of
        connector_file_system_hash_none \<Rightarrow> CCIMP_FS_HASH_NONE
      | connector_file_system_hash_best \<Rightarrow> CCIMP_FS_HASH_BEST
      | connector_file_system_hash_crc32 \<Rightarrow> CCIMP_FS_HASH_CRC32
      | connector_file_system_hash_md5 \<Rightarrow> CCIMP_FS_HASH_MD5
      | connector_file_system_hash_sha512 \<Rightarrow> CCIMP_FS_HASH_SHA512
      | connector_file_system_hash_sha3_512 \<Rightarrow> CCIMP_FS_HASH_SHA3_512)"

definition ccfsm_file_system_error_status_from_ccimp_fs_error ::
  "ccimp_fs_error_t \<Rightarrow> connector_file_system_error_t" where
  "ccfsm_file_system_error_status_from_ccimp_fs_error ccimp_fs_error =
     (case ccimp_fs_error of
        CCIMP_FS_ERROR_UNKNOWN \<Rightarrow> connector_file_system_unspec_error
      | CCIMP_FS_ERROR_PATH_NOT_FOUND \<Rightarrow> connector_file_system_path_not_found
      | CCIMP_FS_ERROR_INSUFFICIENT_SPACE \<Rightarrow> connector_file_system_insufficient_storage_space
      | CCIMP_FS_ERROR_FORMAT \<Rightarrow> connector_file_system_request_format_error
      | CCIMP_FS_ERROR_INVALID_PARAMETER \<Rightarrow> connector_file_system_invalid_parameter
      | CCIMP_FS_ERROR_INSUFFICIENT_MEMORY \<Rightarrow> connector_file_system_out_of_memory
      | CCIMP_FS_ERROR_PERMISSION_DENIED \<Rightarrow> connector_file_system_permission_denied)"

definition ccimp_session_error_from_ccfsm_session_error ::
  "connector_session_error_t \<Rightarrow> ccimp_session_error_status_t option" where
  "ccimp_session_error_from_ccfsm_session_error ccfsm_session_error =
     (case ccfsm_session_error of
        connector_session_error_none \<Rightarrow> Some CCIMP_FS_SESSION_ERROR_NONE
      | connector_session_error_fatal \<Rightarrow> Some CCIMP_FS_SESSION_ERROR_FATAL
      | connector_session_error_invalid_opcode \<Rightarrow> Some CCIMP_FS_SESSION_ERROR_INVALID_OPCODE
      | connector_session_error_format \<Rightarrow> Some CCIMP_FS_SESSION_ERROR_FORMAT
      | connector_session_error_session_in_use \<Rightarrow> Some CCIMP_FS_SESSION_ERROR_SESSION_IN_USE
      | connector_session_error_unknown_session \<Rightarrow> Some CCIMP_FS_SESSION_ERROR_UNKNOWN_SESSION
      | connector_session_error_compression_failure \<Rightarrow>
          Some CCIMP_FS_SESSION_ERROR_COMPRESSION_FAILURE
      | connector_session_error_decompression_failure \<Rightarrow>
          Some CCIMP_FS_SESSION_ERROR_DECOMPRESSION_FAILURE
      | connector_session_error_memory \<Rightarrow> Some CCIMP_FS_SESSION_ERROR_MEMORY_FAILED
      | connector_session_error_send \<Rightarrow> Some CCIMP_FS_SESSION_ERROR_SENDING
      | connector_session_error_cancel \<Rightarrow> Some CCIMP_FS_SESSION_ERROR_CANCEL
      | connector_session_error_busy \<Rightarrow> Some CCIMP_FS_SESSION_ERROR_BUSY
      | connector_session_error_ack \<Rightarrow> Some CCIMP_FS_SESSION_ERROR_ACK
      | connector_session_error_timeout \<Rightarrow> Some CCIMP_FS_SESSION_ERROR_TIMEOUT
      | connector_session_error_no_service \<Rightarrow> Some CCIMP_FS_SESSION_ERROR_NO_SERVICE
      | connector_session_error_count \<Rightarrow> None)"

subsection \<open>Paths\<close>

text \<open>
  The name of the virtual directory is what stands between the leading separator and the next
  one. The path is read from its second character on, so an empty path is read past its end.
\<close>

definition get_path_without_virtual_dir :: "string \<Rightarrow> string ub" where
  "get_path_without_virtual_dir full_path =
     (if full_path = [] then Inl Out_Of_Bounds
      else Inr (dropWhile (\<lambda>c. c \<noteq> CHR ''/'') (tl full_path)))"

text \<open>The new path is put together in a buffer that holds exactly it and the final NUL.\<close>

definition translate_path :: "ccapi_fs_virtual_dir_t \<Rightarrow> string \<Rightarrow> string ub" where
  "translate_path dir_entry path_without_virtual_dir =
     (let n = length path_without_virtual_dir
      in ub_bind (memcpy_at (replicate (local_dir_length dir_entry + n + 1) None) 0 (local_dir dir_entry))
        (\<lambda>b1. ub_bind (memcpy_at b1 (local_dir_length dir_entry) path_without_virtual_dir)
        (\<lambda>b2. ub_bind (memcpy_at b2 (local_dir_length dir_entry + n) [CHR 0x00]) c_string)))"

text \<open>
  The answer is the local path, NULL when there is none, and whether it has to be freed: without
  virtual directories the path of the cloud is used as it is.
\<close>

definition get_local_path_from_cloud_path ::
  "'w os \<Rightarrow> 'w fs_state \<Rightarrow> string \<Rightarrow> 'w \<Rightarrow> (string option \<times> bool \<times> 'w) ub" where
  "get_local_path_from_cloud_path os d full_path w =
     (if fs_virtual_dir_list d = [] then Inr (Some full_path, False, w)
      else
        ub_bind (get_path_without_virtual_dir full_path)
          (\<lambda>path_without_virtual_dir.
            let len = length full_path - 1 - length path_without_virtual_dir
            in case deref (get_pointer_to_dir_entry_from_virtual_dir_name (fs_virtual_dir_list d)
                         (tl full_path) len) (fs_virtual_dir_list d) of
                 None \<Rightarrow> Inr (None, False, w)
               | Some dir_entry \<Rightarrow>
                   (case ccapi_malloc os (Bytes (local_dir_length dir_entry
                            + length path_without_virtual_dir + 1)) w of
                      (False, w1) \<Rightarrow> Inr (None, False, w1)
                    | (True, w1) \<Rightarrow>
                        ub_bind (translate_path dir_entry path_without_virtual_dir)
                          (\<lambda>translated_path. Inr (Some translated_path, True, w1)))))"

definition free_local_path :: "'w os \<Rightarrow> bool \<Rightarrow> 'w \<Rightarrow> 'w" where
  "free_local_path os must_free_local_path w =
     (if must_free_local_path then snd (ccapi_free os True w) else w)"

subsection \<open>Errors\<close>

text \<open>
  An error handle is allocated and its address given to the connector; when that fails, the
  connector's pointer stays what it was.
\<close>

definition new_error_handle ::
  "'w os \<Rightarrow> ccapi_fs_error_handle_t \<Rightarrow> ptr \<Rightarrow> 'w fs_state \<Rightarrow> 'w \<Rightarrow> ptr \<times> 'w fs_state \<times> 'w" where
  "new_error_handle os e errnum d w =
     (case ccapi_malloc os (Sizeof ''ccapi_fs_error_handle_t'') w of
        (False, w1) \<Rightarrow> (errnum, d, w1)
      | (True, w1) \<Rightarrow>
          (Some (fs_fresh d),
           d\<lparr>fs_errors := (fs_errors d)(fs_fresh d \<mapsto> e), fs_fresh := Suc (fs_fresh d)\<rparr>, w1))"

definition ccapi_fs_set_internal_error ::
  "'w os \<Rightarrow> ccapi_fs_internal_error_t \<Rightarrow> ptr \<Rightarrow> 'w fs_state \<Rightarrow> 'w \<Rightarrow> ptr \<times> 'w fs_state \<times> 'w" where
  "ccapi_fs_set_internal_error os internal_error errnum d w =
     new_error_handle os (Internal_Error internal_error) errnum d w"

definition ccapi_fs_set_ccimp_error ::
  "'w os \<Rightarrow> ccimp_fs_errnum_t \<Rightarrow> ptr \<Rightarrow> 'w fs_state \<Rightarrow> 'w \<Rightarrow> ptr \<times> 'w fs_state \<times> 'w" where
  "ccapi_fs_set_ccimp_error os ccimp_errnum errnum d w =
     new_error_handle os (Ccimp_Error ccimp_errnum) errnum d w"

text \<open>What every call of the layer does with its status: an error gets a handle.\<close>

definition report_status ::
  "'w os \<Rightarrow> ccimp_status_t \<Rightarrow> ccimp_fs_errnum_t \<Rightarrow> ptr \<Rightarrow> 'w fs_state \<Rightarrow> 'w \<Rightarrow> ptr \<times> 'w fs_state \<times> 'w"
where
  "report_status os status ccimp_errnum errnum d w =
     (case status of
        CCIMP_STATUS_OK \<Rightarrow> (errnum, d, w)
      | CCIMP_STATUS_BUSY \<Rightarrow> (errnum, d, w)
      | CCIMP_STATUS_ERROR \<Rightarrow> ccapi_fs_set_ccimp_error os ccimp_errnum errnum d w)"

definition ask_access :: "'w fs_state \<Rightarrow> string \<Rightarrow> ccapi_fs_request_t \<Rightarrow> 'w \<Rightarrow> ccapi_fs_access_t \<times> 'w" where
  "ask_access d path request w =
     (case fs_access_cb d of
        None \<Rightarrow> (CCAPI_FS_ACCESS_ALLOW, w)
      | Some access \<Rightarrow> access path request w)"

definition tell_changed :: "'w fs_state \<Rightarrow> string \<Rightarrow> ccapi_fs_changed_t \<Rightarrow> 'w \<Rightarrow> 'w" where
  "tell_changed d path change w =
     (case fs_changed_cb d of None \<Rightarrow> w | Some changed \<Rightarrow> changed path change w)"

subsection \<open>Files\<close>

definition request_of_flags :: "u32 \<Rightarrow> ccapi_fs_request_t" where
  "request_of_flags flags =
     (if and flags CCIMP_FILE_O_WRONLY \<noteq> 0 then CCAPI_FS_REQUEST_WRITE
      else if and flags CCIMP_FILE_O_RDWR \<noteq> 0 then CCAPI_FS_REQUEST_READWRITE
      else CCAPI_FS_REQUEST_READ)"

text \<open>
  After a successful open the handle is wrapped. When the memory for it is missing the function
  leaves with the status of the layer, OK, and the connector's handle unset.
\<close>

definition wrap_file_handle ::
  "'w os \<Rightarrow> ccimp_fs_file_open_t \<Rightarrow> ccapi_fs_request_t \<Rightarrow> connector_file_system_open_t \<Rightarrow> 'w fs_state \<Rightarrow> 'w
     \<Rightarrow> connector_file_system_open_t \<times> 'w fs_state \<times> 'w" where
  "wrap_file_handle os open_data request ccfsm d w =
     (case ccapi_malloc os (Sizeof ''ccapi_fs_file_handle_t'') w of
        (False, w1) \<Rightarrow> (ccfsm, d, w1)
      | (True, w1) \<Rightarrow>
          (case ccapi_strdup os (fopen_path open_data) w1 of
             (None, w2) \<Rightarrow> (ccfsm, d, w2)
           | (Some file_path, w2) \<Rightarrow>
               (ccfsm\<lparr>open_handle := Some (fs_fresh d)\<rparr>,
                d\<lparr>fs_files := (fs_files d)(fs_fresh d \<mapsto>
                     \<lparr>handle_ccimp_handle = fopen_handle open_data, handle_file_path = file_path,
                      handle_request = request\<rparr>),
                  fs_fresh := Suc (fs_fresh d)\<rparr>, w2)))"

definition ccapi_fs_file_open ::
  "'w os \<Rightarrow> 'w ccimp_fs \<Rightarrow> ptr \<Rightarrow> connector_file_system_open_t \<Rightarrow> 'w fs_state \<Rightarrow> 'w
     \<Rightarrow> (ccimp_status_t \<times> connector_file_system_open_t \<times> 'w fs_state \<times> 'w) ub" where
  "ccapi_fs_file_open os fs not_initialized ccfsm d w =
     ub_bind (get_local_path_from_cloud_path os d (open_path ccfsm) w)
       (\<lambda>(local_path, must_free, w1).
         case local_path of
           None \<Rightarrow>
             (case ccapi_fs_set_internal_error os CCAPI_FS_INTERNAL_ERROR_INVALID_PATH
                     (open_errnum ccfsm) d w1 of
                (e, d1, w2) \<Rightarrow>
                  Inr (CCIMP_STATUS_ERROR, ccfsm\<lparr>open_errnum := e\<rparr>, d1, free_local_path os must_free w2))
         | Some path \<Rightarrow>
             (let request = request_of_flags (open_oflag ccfsm);
                  (access, w2) = ask_access d path request w1
              in case access of
                   CCAPI_FS_ACCESS_ALLOW \<Rightarrow>
                     (let (status, open_data, w3) = ccimp_fs_file_open fs
                            \<lparr>fopen_imp_context = fs_imp_context d,
                             fopen_errnum = CCIMP_FILESYSTEM_ERRNUM_NONE, fopen_path = path,
                             fopen_flags = open_oflag ccfsm,
                             fopen_handle = CCIMP_FILESYSTEM_FILE_HANDLE_NOT_INITIALIZED\<rparr> w2;
                          (e, d1, w4) = report_status os status (fopen_errnum open_data)
                            (open_errnum ccfsm) d w3;
                          d2 = d1\<lparr>fs_imp_context := fopen_imp_context open_data\<rparr>;
                          ccfsm1 = ccfsm\<lparr>open_errnum := e\<rparr>
                      in if status = CCIMP_STATUS_OK
                         then (case wrap_file_handle os open_data request ccfsm1 d2 w4 of
                                 (ccfsm2, d3, w5) \<Rightarrow>
                                   Inr (status, ccfsm2, d3, free_local_path os must_free w5))
                         else Inr (status, ccfsm1\<lparr>open_handle := not_initialized\<rparr>, d2,
                                   free_local_path os must_free w4))
                 | CCAPI_FS_ACCESS_DENY \<Rightarrow>
                     (case ccapi_fs_set_internal_error os CCAPI_FS_INTERNAL_ERROR_ACCESS_DENIED
                             (open_errnum ccfsm) d w2 of
                        (e, d1, w3) \<Rightarrow>
                          Inr (CCIMP_STATUS_ERROR,
                               ccfsm\<lparr>open_errnum := e, open_handle := not_initialized\<rparr>, d1,
                               free_local_path os must_free w3))))"

definition ccapi_fs_file_read ::
  "'w os \<Rightarrow> 'w ccimp_fs \<Rightarrow> connector_file_system_read_t \<Rightarrow> 'w fs_state \<Rightarrow> 'w
     \<Rightarrow> (ccimp_status_t \<times> connector_file_system_read_t \<times> 'w fs_state \<times> 'w) ub" where
  "ccapi_fs_file_read os fs ccfsm d w =
     ub_bind (load (fs_files d) (read_handle ccfsm))
       (\<lambda>h. let (status, read_data, w1) = ccimp_fs_file_read fs
                   \<lparr>fread_imp_context = fs_imp_context d, fread_errnum = CCIMP_FILESYSTEM_ERRNUM_NONE,
                    fread_handle = handle_ccimp_handle h, fread_buffer = read_buffer ccfsm,
                    fread_bytes_available = read_bytes_available ccfsm, fread_bytes_used = 0\<rparr> w;
                 (e, d1, w2) = report_status os status (fread_errnum read_data) (read_errnum ccfsm) d w1
             in Inr (status, ccfsm\<lparr>read_errnum := e, read_buffer := fread_buffer read_data,
                                   read_bytes_used := fread_bytes_used read_data\<rparr>,
                     d1\<lparr>fs_imp_context := fread_imp_context read_data\<rparr>, w2))"

definition ccapi_fs_file_write ::
  "'w os \<Rightarrow> 'w ccimp_fs \<Rightarrow> connector_file_system_write_t \<Rightarrow> 'w fs_state \<Rightarrow> 'w
     \<Rightarrow> (ccimp_status_t \<times> connector_file_system_write_t \<times> 'w fs_state \<times> 'w) ub" where
  "ccapi_fs_file_write os fs ccfsm d w =
     ub_bind (load (fs_files d) (write_handle ccfsm))
       (\<lambda>h. let (status, write_data, w1) = ccimp_fs_file_write fs
                   \<lparr>fwrite_imp_context = fs_imp_context d, fwrite_errnum = CCIMP_FILESYSTEM_ERRNUM_NONE,
                    fwrite_handle = handle_ccimp_handle h, fwrite_buffer = write_buffer ccfsm,
                    fwrite_bytes_available = write_bytes_available ccfsm, fwrite_bytes_used = 0\<rparr> w;
                 (e, d1, w2) = report_status os status (fwrite_errnum write_data) (write_errnum ccfsm) d w1
             in Inr (status, ccfsm\<lparr>write_errnum := e, write_bytes_used := fwrite_bytes_used write_data\<rparr>,
                     d1\<lparr>fs_imp_context := fwrite_imp_context write_data\<rparr>, w2))"

definition ccapi_fs_file_seek ::
  "'w os \<Rightarrow> 'w ccimp_fs \<Rightarrow> connector_file_system_lseek_t \<Rightarrow> 'w fs_state \<Rightarrow> 'w
     \<Rightarrow> (ccimp_status_t \<times> connector_file_system_lseek_t \<times> 'w fs_state \<times> 'w) ub" where
  "ccapi_fs_file_seek os fs ccfsm d w =
     ub_bind (load (fs_files d) (lseek_handle ccfsm))
       (\<lambda>h. let (status, seek_data, w1) = ccimp_fs_file_seek fs
                   \<lparr>fseek_imp_context = fs_imp_context d, fseek_errnum = CCIMP_FILESYSTEM_ERRNUM_NONE,
                    fseek_handle = handle_ccimp_handle h,
                    fseek_requested_offset = lseek_requested_offset ccfsm, fseek_resulting_offset = 0,
                    fseek_origin = ccimp_seek_origin_from_ccfsm_seek_origin (lseek_origin ccfsm)\<rparr> w;
                 (e, d1, w2) = report_status os status (fseek_errnum seek_data) (lseek_errnum ccfsm) d w1
             in Inr (status, ccfsm\<lparr>lseek_errnum := e,
                                   lseek_resulting_offset := fseek_resulting_offset seek_data\<rparr>,
                     d1\<lparr>fs_imp_context := fseek_imp_context seek_data\<rparr>, w2))"

text \<open>
  Closing tells the user that a file opened for writing was modified, whatever the layer
  answered, and releases the handle unless the layer is busy.
\<close>

definition ccapi_fs_file_close ::
  "'w os \<Rightarrow> 'w ccimp_fs \<Rightarrow> connector_file_system_close_t \<Rightarrow> 'w fs_state \<Rightarrow> 'w
     \<Rightarrow> (ccimp_status_t \<times> connector_file_system_close_t \<times> 'w fs_state \<times> 'w) ub" where
  "ccapi_fs_file_close os fs ccfsm d w =
     ub_bind (load (fs_files d) (close_handle ccfsm))
       (\<lambda>h. let (status, close_data, w1) = ccimp_fs_file_close fs
                   \<lparr>fclose_imp_context = fs_imp_context d, fclose_errnum = CCIMP_FILESYSTEM_ERRNUM_NONE,
                    fclose_handle = handle_ccimp_handle h\<rparr> w;
                 w2 = (if handle_request h \<in> {CCAPI_FS_REQUEST_READWRITE, CCAPI_FS_REQUEST_WRITE}
                       then tell_changed d (handle_file_path h) CCAPI_FS_CHANGED_MODIFIED w1 else w1);
                 (e, d1, w3) = report_status os status (fclose_errnum close_data) (close_errnum ccfsm) d w2;
                 d2 = (if status = CCIMP_STATUS_BUSY then d1
                       else d1\<lparr>fs_files := (fs_files d1)(the (close_handle ccfsm) := None)\<rparr>);
                 w4 = (if status = CCIMP_STATUS_BUSY then w3
                       else snd (ccapi_free os True (snd (ccapi_free os True w3))))
             in Inr (status, ccfsm\<lparr>close_errnum := e\<rparr>,
                     d2\<lparr>fs_imp_context := fclose_imp_context close_data\<rparr>, w4))"

definition ccapi_fs_file_truncate ::
  "'w os \<Rightarrow> 'w ccimp_fs \<Rightarrow> connector_file_system_truncate_t \<Rightarrow> 'w fs_state \<Rightarrow> 'w
     \<Rightarrow> (ccimp_status_t \<times> connector_file_system_truncate_t \<times> 'w fs_state \<times> 'w) ub" where
  "ccapi_fs_file_truncate os fs ccfsm d w =
     ub_bind (load (fs_files d) (truncate_handle ccfsm))
       (\<lambda>h. let (status, truncate_data, w1) = ccimp_fs_file_truncate fs
                   \<lparr>ftrunc_imp_context = fs_imp_context d, ftrunc_errnum = CCIMP_FILESYSTEM_ERRNUM_NONE,
                    ftrunc_handle = handle_ccimp_handle h,
                    ftrunc_length_in_bytes = truncate_length_in_bytes ccfsm\<rparr> w;
                 (e, d1, w2) = report_status os status (ftrunc_errnum truncate_data)
                                 (truncate_errnum ccfsm) d w1
             in Inr (status, ccfsm\<lparr>truncate_errnum := e\<rparr>,
                     d1\<lparr>fs_imp_context := ftrunc_imp_context truncate_data\<rparr>, w2))"

definition ccapi_fs_file_remove ::
  "'w os \<Rightarrow> 'w ccimp_fs \<Rightarrow> connector_file_system_remove_t \<Rightarrow> 'w fs_state \<Rightarrow> 'w
     \<Rightarrow> (ccimp_status_t \<times> connector_file_system_remove_t \<times> 'w fs_state \<times> 'w) ub" where
  "ccapi_fs_file_remove os fs ccfsm d w =
     ub_bind (get_local_path_from_cloud_path os d (remove_path ccfsm) w)
       (\<lambda>(local_path, must_free, w1).
         case local_path of
           None \<Rightarrow>
             (case ccapi_fs_set_internal_error os CCAPI_FS_INTERNAL_ERROR_INVALID_PATH
                     (remove_errnum ccfsm) d w1 of
                (e, d1, w2) \<Rightarrow>
                  Inr (CCIMP_STATUS_ERROR, ccfsm\<lparr>remove_errnum := e\<rparr>, d1, free_local_path os must_free w2))
         | Some path \<Rightarrow>
             (let (access, w2) = ask_access d path CCAPI_FS_REQUEST_REMOVE w1
              in case access of
                   CCAPI_FS_ACCESS_ALLOW \<Rightarrow>
                     (let (status, remove_data, w3) = ccimp_fs_file_remove fs
                            \<lparr>frem_imp_context = fs_imp_context d,
                             frem_errnum = CCIMP_FILESYSTEM_ERRNUM_NONE, frem_path = path\<rparr> w2;
                          w4 = (if status = CCIMP_STATUS_OK
                                then tell_changed d path CCAPI_FS_CHANGED_REMOVED w3 else w3);
                          (e, d1, w5) = report_status os status (frem_errnum remove_data)
                            (remove_errnum ccfsm) d w4
                      in Inr (status, ccfsm\<lparr>remove_errnum := e\<rparr>,
                              d1\<lparr>fs_imp_context := frem_imp_context remove_data\<rparr>,
                              free_local_path os must_free w5))
                 | CCAPI_FS_ACCESS_DENY \<Rightarrow>
                     (case ccapi_fs_set_internal_error os CCAPI_FS_INTERNAL_ERROR_ACCESS_DENIED
                             (remove_errnum ccfsm) d w2 of
                        (e, d1, w3) \<Rightarrow>
                          Inr (CCIMP_STATUS_ERROR, ccfsm\<lparr>remove_errnum := e\<rparr>, d1,
                               free_local_path os must_free w3))))"

subsection \<open>Directories\<close>

definition ccapi_fs_dir_open ::
  "'w os \<Rightarrow> 'w ccimp_fs \<Rightarrow> connector_file_system_opendir_t \<Rightarrow> 'w fs_state \<Rightarrow> 'w
     \<Rightarrow> (ccimp_status_t \<times> connector_file_system_opendir_t \<times> 'w fs_state \<times> 'w) ub" where
  "ccapi_fs_dir_open os fs ccfsm d w =
     (if opendir_user_context ccfsm \<noteq> None
      then Inr (CCIMP_STATUS_OK, ccfsm\<lparr>opendir_handle := opendir_user_context ccfsm\<rparr>, d, w)
      else
        ub_bind (get_local_path_from_cloud_path os d (opendir_path ccfsm) w)
          (\<lambda>(local_path, must_free, w1).
            case local_path of
              None \<Rightarrow>
                (case ccapi_fs_set_internal_error os CCAPI_FS_INTERNAL_ERROR_INVALID_PATH
                        (opendir_errnum ccfsm) d w1 of
                   (e, d1, w2) \<Rightarrow>
                     Inr (CCIMP_STATUS_ERROR, ccfsm\<lparr>opendir_errnum := e\<rparr>, d1,
                          free_local_path os must_free w2))
            | Some path \<Rightarrow>
                (let (access, w2) = ask_access d path CCAPI_FS_REQUEST_LIST w1
                 in case access of
                      CCAPI_FS_ACCESS_ALLOW \<Rightarrow>
                        (let (status, open_data, w3) = ccimp_fs_dir_open fs
                               \<lparr>dopen_imp_context = fs_imp_context d,
                                dopen_errnum = CCIMP_FILESYSTEM_ERRNUM_NONE, dopen_path = path,
                                dopen_handle = CCIMP_FILESYSTEM_DIR_HANDLE_NOT_INITIALIZED\<rparr> w2;
                             (e, d1, w4) = report_status os status (dopen_errnum open_data)
                               (opendir_errnum ccfsm) d w3
                         in Inr (status, ccfsm\<lparr>opendir_errnum := e,
                                               opendir_handle := dopen_handle open_data\<rparr>,
                                 d1\<lparr>fs_imp_context := dopen_imp_context open_data\<rparr>,
                                 free_local_path os must_free w4))
                    | CCAPI_FS_ACCESS_DENY \<Rightarrow>
                        (case ccapi_fs_set_internal_error os CCAPI_FS_INTERNAL_ERROR_ACCESS_DENIED
                                (opendir_errnum ccfsm) d w2 of
                           (e, d1, w3) \<Rightarrow>
                             Inr (CCIMP_STATUS_ERROR, ccfsm\<lparr>opendir_errnum := e\<rparr>, d1,
                                  free_local_path os must_free w3)))))"

text \<open>The entry after a virtual directory in the list, which \<open>dir_entry->next\<close> points to.\<close>

fun next_virtual_dir :: "string \<Rightarrow> ccapi_fs_virtual_dir_t list \<Rightarrow> string option" where
  "next_virtual_dir name [] = None"
| "next_virtual_dir name (e # es) =
     (if virtual_dir e = name then (case es of [] \<Rightarrow> None | e' # _ \<Rightarrow> Some (virtual_dir e'))
      else next_virtual_dir name es)"

text \<open>
  Reading the root directory: the name of the entry the listing stands at, with its NUL, cut to
  the room there is; an empty name at the end of the list.
\<close>

definition read_root_entry ::
  "connector_file_system_readdir_t \<Rightarrow> 'w fs_state
     \<Rightarrow> (connector_file_system_readdir_t \<times> 'w fs_state) ub" where
  "read_root_entry ccfsm d =
     ub_bind (load (fs_listings d) (readdir_user_context ccfsm))
       (\<lambda>dir_entry.
         case dir_entry of
           Some name \<Rightarrow>
             (if name \<notin> virtual_dir ` set (fs_virtual_dir_list d) then Inl Use_After_Free
              else
                (let bytes = name @ [CHR 0x00];
                     n = min (length bytes) (unat (readdir_bytes_available ccfsm))
                 in ub_bind (memcpy_at (readdir_entry_name ccfsm) 0 (take n bytes))
                      (\<lambda>buf. Inr (ccfsm\<lparr>readdir_entry_name := buf\<rparr>,
                         d\<lparr>fs_listings := (fs_listings d)(the (readdir_user_context ccfsm) \<mapsto>
                              next_virtual_dir name (fs_virtual_dir_list d))\<rparr>))))
         | None \<Rightarrow>
             ub_bind (memcpy_at (readdir_entry_name ccfsm) 0 [CHR 0x00])
               (\<lambda>buf. Inr (ccfsm\<lparr>readdir_entry_name := buf\<rparr>, d)))"

definition ccapi_fs_dir_read_entry ::
  "'w os \<Rightarrow> 'w ccimp_fs \<Rightarrow> connector_file_system_readdir_t \<Rightarrow> 'w fs_state \<Rightarrow> 'w
     \<Rightarrow> (ccimp_status_t \<times> connector_file_system_readdir_t \<times> 'w fs_state \<times> 'w) ub" where
  "ccapi_fs_dir_read_entry os fs ccfsm d w =
     (if readdir_user_context ccfsm \<noteq> None
      then ub_bind (read_root_entry ccfsm d) (\<lambda>(ccfsm', d'). Inr (CCIMP_STATUS_OK, ccfsm', d', w))
      else
        (let (status, read_data, w1) = ccimp_fs_dir_read_entry fs
               \<lparr>dread_imp_context = fs_imp_context d, dread_errnum = CCIMP_FILESYSTEM_ERRNUM_NONE,
                dread_handle = readdir_handle ccfsm, dread_entry_name = readdir_entry_name ccfsm,
                dread_bytes_available = readdir_bytes_available ccfsm\<rparr> w;
             (e, d1, w2) = report_status os status (dread_errnum read_data) (readdir_errnum ccfsm) d w1
         in Inr (status, ccfsm\<lparr>readdir_errnum := e, readdir_entry_name := dread_entry_name read_data\<rparr>,
                 d1\<lparr>fs_imp_context := dread_imp_context read_data\<rparr>, w2)))"

definition dir_statbuf :: connector_file_system_stat_buf where
  "dir_statbuf = \<lparr>statbuf_last_modified = 0, statbuf_flags = connector_file_system_file_type_is_dir,
                  statbuf_file_size = 0\<rparr>"

definition statbuf_of :: "ccimp_fs_stat_t \<Rightarrow> connector_file_system_stat_buf" where
  "statbuf_of st =
     \<lparr>statbuf_last_modified = fstat_last_modified st,
      statbuf_flags = ccfsm_file_system_file_type_from_ccimp_fs_dir_entry_type (fstat_type st),
      statbuf_file_size = fstat_file_size st\<rparr>"

definition ccapi_fs_dir_entry_status ::
  "'w os \<Rightarrow> 'w ccimp_fs \<Rightarrow> connector_file_system_stat_dir_entry_t \<Rightarrow> 'w fs_state \<Rightarrow> 'w
     \<Rightarrow> (ccimp_status_t \<times> connector_file_system_stat_dir_entry_t \<times> 'w fs_state \<times> 'w) ub" where
  "ccapi_fs_dir_entry_status os fs ccfsm d w =
     (if entry_user_context ccfsm \<noteq> None
      then Inr (CCIMP_STATUS_OK, ccfsm\<lparr>entry_statbuf := dir_statbuf\<rparr>, d, w)
      else
        ub_bind (get_local_path_from_cloud_path os d (entry_path ccfsm) w)
          (\<lambda>(local_path, must_free, w1).
            case local_path of
              None \<Rightarrow>
                (case ccapi_fs_set_internal_error os CCAPI_FS_INTERNAL_ERROR_INVALID_PATH
                        (entry_errnum ccfsm) d w1 of
                   (e, d1, w2) \<Rightarrow>
                     Inr (CCIMP_STATUS_ERROR, ccfsm\<lparr>entry_errnum := e\<rparr>, d1,
                          free_local_path os must_free w2))
            | Some path \<Rightarrow>
                (let (status, status_data, w2) = ccimp_fs_dir_entry_status fs
                       \<lparr>dstat_imp_context = fs_imp_context d,
                        dstat_errnum = CCIMP_FILESYSTEM_ERRNUM_NONE, dstat_path = path,
                        dstat_status = zero_fs_stat\<rparr> w1;
                     (e, d1, w3) = report_status os status (dstat_errnum status_data)
                       (entry_errnum ccfsm) d w2
                 in Inr (status, ccfsm\<lparr>entry_errnum := e,
                                       entry_statbuf := statbuf_of (dstat_status status_data)\<rparr>,
                         d1\<lparr>fs_imp_context := dstat_imp_context status_data\<rparr>,
                         free_local_path os must_free w3))))"

definition ccapi_fs_dir_close ::
  "'w os \<Rightarrow> 'w ccimp_fs \<Rightarrow> connector_file_system_closedir_t \<Rightarrow> 'w fs_state \<Rightarrow> 'w
     \<Rightarrow> (ccimp_status_t \<times> connector_file_system_closedir_t \<times> 'w fs_state \<times> 'w) ub" where
  "ccapi_fs_dir_close os fs ccfsm d w =
     (case closedir_user_context ccfsm of
        Some a \<Rightarrow>
          (if fs_listings d a = None then Inl Wild_Free
           else (case ccapi_free os True w of
                   (status, w1) \<Rightarrow>
                     Inr (status, ccfsm\<lparr>closedir_user_context := None\<rparr>,
                          d\<lparr>fs_listings := (fs_listings d)(a := None)\<rparr>, w1)))
      | None \<Rightarrow>
          (let (status, close_data, w1) = ccimp_fs_dir_close fs
                 \<lparr>dclose_imp_context = fs_imp_context d, dclose_errnum = CCIMP_FILESYSTEM_ERRNUM_NONE,
                  dclose_handle = closedir_handle ccfsm\<rparr> w;
               (e, d1, w2) = report_status os status (dclose_errnum close_data)
                               (closedir_errnum ccfsm) d w1
           in Inr (status, ccfsm\<lparr>closedir_errnum := e\<rparr>,
                   d1\<lparr>fs_imp_context := dclose_imp_context close_data\<rparr>, w2)))"

subsection \<open>Status and hash of a path\<close>

text \<open>
  A stat of the root starts a listing when there are virtual directories. Its handle comes from
  the C library's \<open>malloc\<close>, the parameter \<open>libc_malloc\<close>, not from the operating system layer.
\<close>

definition stat_root ::
  "('w \<Rightarrow> bool \<times> 'w) \<Rightarrow> connector_file_system_stat_t \<Rightarrow> 'w fs_state \<Rightarrow> 'w
     \<Rightarrow> ccimp_status_t \<times> connector_file_system_stat_t \<times> 'w fs_state \<times> 'w" where
  "stat_root libc_malloc ccfsm d w =
     (case libc_malloc w of
        (False, w1) \<Rightarrow> (CCIMP_STATUS_ERROR, ccfsm, d, w1)
      | (True, w1) \<Rightarrow>
          (CCIMP_STATUS_OK,
           ccfsm\<lparr>stat_user_context := Some (fs_fresh d),
                 stat_hash_actual := connector_file_system_hash_none, stat_statbuf := dir_statbuf\<rparr>,
           d\<lparr>fs_listings := (fs_listings d)(fs_fresh d \<mapsto>
                map_option virtual_dir (deref 0 (fs_virtual_dir_list d))),
             fs_fresh := Suc (fs_fresh d)\<rparr>, w1))"

text \<open>
  Any other path: its status, then the hash algorithm. The context the first call leaves is
  dropped: the second call starts from the old one, and an error of the first returns at once.
\<close>

definition stat_path_status ::
  "'w os \<Rightarrow> 'w ccimp_fs \<Rightarrow> string \<Rightarrow> connector_file_system_stat_t \<Rightarrow> 'w fs_state \<Rightarrow> 'w
     \<Rightarrow> ccimp_status_t \<times> connector_file_system_stat_t \<times> 'w fs_state \<times> 'w" where
  "stat_path_status os fs path ccfsm d w =
     (let (status, status_data, w1) = ccimp_fs_dir_entry_status fs
            \<lparr>dstat_imp_context = fs_imp_context d, dstat_errnum = CCIMP_FILESYSTEM_ERRNUM_NONE,
             dstat_path = path, dstat_status = zero_fs_stat\<rparr> w
      in if status = CCIMP_STATUS_ERROR
         then (case ccapi_fs_set_ccimp_error os (dstat_errnum status_data) (stat_errnum ccfsm) d w1 of
                 (e, d1, w2) \<Rightarrow> (status, ccfsm\<lparr>stat_errnum := e\<rparr>, d1, w2))
         else
           (let (hash_status, hash_data, w2) = ccimp_fs_hash_alg fs
                  \<lparr>halg_imp_context = fs_imp_context d, halg_errnum = CCIMP_FILESYSTEM_ERRNUM_NONE,
                   halg_path = path,
                   halg_requested = ccimp_fs_hash_alg_from_ccfsm_file_system_hash_algorithm
                                      (stat_hash_requested ccfsm),
                   halg_actual = CCIMP_FS_HASH_NONE\<rparr> w1;
                (e, d1, w3) = report_status os hash_status (halg_errnum hash_data)
                                (stat_errnum ccfsm) d w2
            in (hash_status,
                ccfsm\<lparr>stat_errnum := e, stat_statbuf := statbuf_of (dstat_status status_data),
                      stat_hash_actual := ccfsm_file_system_hash_algorithm_from_ccimp_fs_hash_alg
                                            (halg_actual hash_data)\<rparr>,
                d1\<lparr>fs_imp_context := halg_imp_context hash_data\<rparr>, w3)))"

definition ccapi_fs_hash_status ::
  "'w os \<Rightarrow> 'w ccimp_fs \<Rightarrow> ('w \<Rightarrow> bool \<times> 'w) \<Rightarrow> connector_file_system_stat_t \<Rightarrow> 'w fs_state \<Rightarrow> 'w
     \<Rightarrow> (ccimp_status_t \<times> connector_file_system_stat_t \<times> 'w fs_state \<times> 'w) ub" where
  "ccapi_fs_hash_status os fs libc_malloc ccfsm d w =
     (if fs_virtual_dir_list d \<noteq> [] \<and> stat_path ccfsm = ''/'' then Inr (stat_root libc_malloc ccfsm d w)
      else
        ub_bind (get_local_path_from_cloud_path os d (stat_path ccfsm) w)
          (\<lambda>(local_path, must_free, w1).
            case local_path of
              None \<Rightarrow>
                (case ccapi_fs_set_internal_error os CCAPI_FS_INTERNAL_ERROR_INVALID_PATH
                        (stat_errnum ccfsm) d w1 of
                   (e, d1, w2) \<Rightarrow>
                     Inr (CCIMP_STATUS_ERROR, ccfsm\<lparr>stat_errnum := e\<rparr>, d1,
                          free_local_path os must_free w2))
            | Some path \<Rightarrow>
                (case stat_path_status os fs path ccfsm d w1 of
                   (status, ccfsm', d', w2) \<Rightarrow>
                     Inr (status, ccfsm', d', free_local_path os must_free w2))))"

definition ccapi_fs_hash_file ::
  "'w os \<Rightarrow> 'w ccimp_fs \<Rightarrow> connector_file_system_hash_t \<Rightarrow> 'w fs_state \<Rightarrow> 'w
     \<Rightarrow> (ccimp_status_t \<times> connector_file_system_hash_t \<times> 'w fs_state \<times> 'w) ub" where
  "ccapi_fs_hash_file os fs ccfsm d w =
     ub_bind (get_local_path_from_cloud_path os d (hash_path ccfsm) w)
       (\<lambda>(local_path, must_free, w1).
         case local_path of
           None \<Rightarrow>
             (case ccapi_fs_set_internal_error os CCAPI_FS_INTERNAL_ERROR_INVALID_PATH
                     (hash_errnum ccfsm) d w1 of
                (e, d1, w2) \<Rightarrow>
                  Inr (CCIMP_STATUS_ERROR, ccfsm\<lparr>hash_errnum := e\<rparr>, d1, free_local_path os must_free w2))
         | Some path \<Rightarrow>
             (let (status, hash_data, w2) = ccimp_fs_hash_file fs
                    \<lparr>hfile_imp_context = fs_imp_context d, hfile_errnum = CCIMP_FILESYSTEM_ERRNUM_NONE,
                     hfile_path = path,
                     hfile_hash_algorithm = ccimp_fs_hash_alg_from_ccfsm_file_system_hash_algorithm
                                              (hash_algorithm ccfsm),
                     hfile_hash_value = hash_value ccfsm,
                     hfile_bytes_requested = hash_bytes_requested ccfsm\<rparr> w1;
                  (e, d1, w3) = report_status os status (hfile_errnum hash_data) (hash_errnum ccfsm) d w2
              in Inr (status, ccfsm\<lparr>hash_errnum := e, hash_value := hfile_hash_value hash_data\<rparr>,
                      d1\<lparr>fs_imp_context := hfile_imp_context hash_data\<rparr>,
                      free_local_path os must_free w3)))"

subsection \<open>Error descriptions and session errors\<close>

definition internal_error_status :: "ccapi_fs_internal_error_t \<Rightarrow> connector_file_system_error_t" where
  "internal_error_status e =
     (case e of
        CCAPI_FS_INTERNAL_ERROR_ACCESS_DENIED \<Rightarrow> connector_file_system_permission_denied
      | CCAPI_FS_INTERNAL_ERROR_INVALID_PATH \<Rightarrow> connector_file_system_path_not_found)"

text \<open>The error handle is freed at the end, also when the layer answered busy.\<close>

definition ccapi_fs_error_desc ::
  "'w os \<Rightarrow> 'w ccimp_fs \<Rightarrow> connector_file_system_get_error_t \<Rightarrow> 'w fs_state \<Rightarrow> 'w
     \<Rightarrow> (ccimp_status_t \<times> connector_file_system_get_error_t \<times> 'w fs_state \<times> 'w) ub" where
  "ccapi_fs_error_desc os fs ccfsm d w =
     ub_bind (load (fs_errors d) (get_error_errnum ccfsm))
       (\<lambda>error_handle.
         let (status, ccfsm', d', w') =
               (case error_handle of
                  Internal_Error e \<Rightarrow>
                    (CCIMP_STATUS_OK, ccfsm\<lparr>get_error_status := internal_error_status e,
                                            get_error_bytes_used := 0\<rparr>, d, w)
                | Ccimp_Error errnum \<Rightarrow>
                    (let (status, desc, w1) = ccimp_fs_error_desc fs
                           \<lparr>edesc_imp_context = fs_imp_context d, edesc_errnum = errnum,
                            edesc_error_string = get_error_buffer ccfsm,
                            edesc_bytes_available = get_error_bytes_available ccfsm,
                            edesc_bytes_used = 0, edesc_error_status = CCIMP_FS_ERROR_UNKNOWN\<rparr> w
                     in (status,
                         ccfsm\<lparr>get_error_buffer := edesc_error_string desc,
                               get_error_bytes_used := edesc_bytes_used desc,
                               get_error_status := ccfsm_file_system_error_status_from_ccimp_fs_error
                                                     (edesc_error_status desc)\<rparr>,
                         d\<lparr>fs_imp_context := edesc_imp_context desc\<rparr>, w1)))
         in Inr (status, ccfsm',
                 d'\<lparr>fs_errors := (fs_errors d')(the (get_error_errnum ccfsm) := None)\<rparr>,
                 snd (ccapi_free os True w')))"

definition ccapi_fs_session_error ::
  "'w ccimp_fs \<Rightarrow> connector_session_error_t \<Rightarrow> 'w fs_state \<Rightarrow> 'w
     \<Rightarrow> ccimp_status_t \<times> 'w fs_state \<times> 'w" where
  "ccapi_fs_session_error fs session_error d w =
     (let (status, session_data, w1) = ccimp_fs_session_error fs
            \<lparr>serr_imp_context = fs_imp_context d,
             serr_session_error = ccimp_session_error_from_ccfsm_session_error session_error\<rparr> w
      in (status, d\<lparr>fs_imp_context := serr_imp_context session_data\<rparr>, w1))"

subsection \<open>The handler\<close>

datatype filesystem_request =
    connector_request_id_file_system_open connector_file_system_open_t
  | connector_request_id_file_system_read connector_file_system_read_t
  | connector_request_id_file_system_write connector_file_system_write_t
  | connector_request_id_file_system_lseek connector_file_system_lseek_t
  | connector_request_id_file_system_close connector_file_system_close_t
  | connector_request_id_file_system_ftruncate connector_file_system_truncate_t
  | connector_request_id_file_system_remove connector_file_system_remove_t
  | connector_request_id_file_system_opendir connector_file_system_opendir_t
  | connector_request_id_file_system_readdir connector_file_system_readdir_t
  | connector_request_id_file_system_stat_dir_entry connector_file_system_stat_dir_entry_t
  | connector_request_id_file_system_closedir connector_file_system_closedir_t
  | connector_request_id_file_system_stat connector_file_system_stat_t
  | connector_request_id_file_system_hash connector_file_system_hash_t
  | connector_request_id_file_system_get_error connector_file_system_get_error_t
  | connector_request_id_file_system_session_error connector_session_error_t

definition answer_with ::
  "('a \<Rightarrow> filesystem_request) \<Rightarrow> (ccimp_status_t \<times> 'a \<times> 'w fs_state \<times> 'w) ub
     \<Rightarrow> (ccimp_status_t \<times> filesystem_request \<times> 'w fs_state \<times> 'w) ub" where
  "answer_with c r = ub_bind r (\<lambda>(status, x, d, w). Inr (status, c x, d, w))"

definition filesystem_dispatch ::
  "'w os \<Rightarrow> 'w ccimp_fs \<Rightarrow> ('w \<Rightarrow> bool \<times> 'w) \<Rightarrow> ptr \<Rightarrow> filesystem_request \<Rightarrow> 'w fs_state \<Rightarrow> 'w
     \<Rightarrow> (ccimp_status_t \<times> filesystem_request \<times> 'w fs_state \<times> 'w) ub" where
  "filesystem_dispatch os fs libc_malloc not_initialized request d w =
     (case request of
        connector_request_id_file_system_open x \<Rightarrow>
          answer_with connector_request_id_file_system_open
            (ccapi_fs_file_open os fs not_initialized x d w)
      | connector_request_id_file_system_read x \<Rightarrow>
          answer_with connector_request_id_file_system_read (ccapi_fs_file_read os fs x d w)
      | connector_request_id_file_system_write x \<Rightarrow>
          answer_with connector_request_id_file_system_write (ccapi_fs_file_write os fs x d w)
      | connector_request_id_file_system_lseek x \<Rightarrow>
          answer_with connector_request_id_file_system_lseek (ccapi_fs_file_seek os fs x d w)
      | connector_request_id_file_system_close x \<Rightarrow>
          answer_with connector_request_id_file_system_close (ccapi_fs_file_close os fs x d w)
      | connector_request_id_file_system_ftruncate x \<Rightarrow>
          answer_with connector_request_id_file_system_ftruncate (ccapi_fs_file_truncate os fs x d w)
      | connector_request_id_file_system_remove x \<Rightarrow>
          answer_with connector_request_id_file_system_remove (ccapi_fs_file_remove os fs x d w)
      | connector_request_id_file_system_opendir x \<Rightarrow>
          answer_with connector_request_id_file_system_opendir (ccapi_fs_dir_open os fs x d w)
      | connector_request_id_file_system_readdir x \<Rightarrow>
          answer_with connector_request_id_file_system_readdir (ccapi_fs_dir_read_entry os fs x d w)
      | connector_request_id_file_system_stat_dir_entry x \<Rightarrow>
          answer_with connector_request_id_file_system_stat_dir_entry
            (ccapi_fs_dir_entry_status os fs x d w)
      | connector_request_id_file_system_closedir x \<Rightarrow>
          answer_with connector_request_id_file_system_closedir (ccapi_fs_dir_close os fs x d w)
      | connector_request_id_file_system_stat x \<Rightarrow>
          answer_with connector_request_id_file_system_stat
            (ccapi_fs_hash_status os fs libc_malloc x d w)
      | connector_request_id_file_system_hash x \<Rightarrow>
          answer_with connector_request_id_file_system_hash (ccapi_fs_hash_file os fs x d w)
      | connector_request_id_file_system_get_error x \<Rightarrow>
          answer_with connector_request_id_file_system_get_error (ccapi_fs_error_desc os fs x d w)
      | connector_request_id_file_system_session_error x \<Rightarrow>
          (case ccapi_fs_session_error fs x d w of
             (status, d', w') \<Rightarrow> Inr (status, request, d', w')))"

definition ccapi_filesystem_handler ::
  "'w os \<Rightarrow> 'w ccimp_fs \<Rightarrow> ('w \<Rightarrow> bool \<times> 'w) \<Rightarrow> ptr \<Rightarrow> filesystem_request \<Rightarrow> 'w fs_state \<Rightarrow> 'w
     \<Rightarrow> (connector_callback_status_t \<times> filesystem_request \<times> 'w fs_state \<times> 'w) ub" where
  "ccapi_filesystem_handler os fs libc_malloc not_initialized request d w =
     (case ccapi_lock_acquire os (fs_lock d) w of
        (CCIMP_STATUS_BUSY, w1) \<Rightarrow>
          Inr (connector_callback_status_from_ccimp_status CCIMP_STATUS_BUSY, request, d, w1)
      | (CCIMP_STATUS_ERROR, w1) \<Rightarrow>
          Inr (connector_callback_status_from_ccimp_status CCIMP_STATUS_ERROR, request, d, w1)
      | (CCIMP_STATUS_OK, w1) \<Rightarrow>
          ub_bind (filesystem_dispatch os fs libc_malloc not_initialized request d w1)
            (\<lambda>(status, request', d', w2).
              let (release, w3) = ccapi_lock_release os (fs_lock d') w2
              in Inr (connector_callback_status_from_ccimp_status
                        (if release = CCIMP_STATUS_OK then status else release), request', d', w3)))"

end
