(* ===== verification/FileServiceProps.thy ===== *)
theory FileServiceProps
  imports FileService
begin

text \<open>
  What the file system service guarantees: how paths are translated, that a denied access does
  not reach the layer, the life of file handles, error handles and listings, the balance of the
  lock; and where the code loses track of them.
\<close>

subsection \<open>Translation of paths\<close>

definition c_strings_ok :: "ccapi_fs_virtual_dir_t list \<Rightarrow> bool" where
  "c_strings_ok dirs = list_all (\<lambda>e. CHR 0x00 \<notin> set (local_dir e)) dirs"

lemma memcpy_at_front: "length src \<le> length buf \<Longrightarrow>
   memcpy_at buf 0 src = Inr (map Some src @ drop (length src) buf)"
  by (simp add: memcpy_at_def)

lemma memcpy_at_after:
  assumes "n = length pre" and "length src \<le> length post"
  shows "memcpy_at (pre @ post) n src = Inr (pre @ map Some src @ drop (length src) post)"
  using assms by (simp add: memcpy_at_def)

lemma translate_path_ok:
  assumes "virtual_dir_ok e" and "CHR 0x00 \<notin> set (local_dir e)" and "CHR 0x00 \<notin> set rest"
  shows "translate_path e rest = Inr (local_dir e @ rest)"
proof -
  let ?l = "length (local_dir e)" and ?n = "length rest"
  have len: "local_dir_length e = ?l" using assms(1) by (simp add: virtual_dir_ok_def)
  have "memcpy_at (replicate (?l + ?n + 1) None) 0 (local_dir e)
      = Inr (map Some (local_dir e) @ replicate (?n + 1) None)"
    by (subst memcpy_at_front) (simp_all add: Suc_diff_le del: replicate_Suc)
  moreover have "memcpy_at (map Some (local_dir e) @ replicate (?n + 1) None) ?l rest
      = Inr (map Some (local_dir e) @ map Some rest @ [None])"
    by (subst memcpy_at_after) (simp_all add: Suc_diff_le del: replicate_Suc, simp)
  moreover have "memcpy_at ((map Some (local_dir e) @ map Some rest) @ [None]) (?l + ?n) [CHR 0x00]
      = Inr ((map Some (local_dir e) @ map Some rest) @ [Some (CHR 0x00)])"
    by (subst memcpy_at_after) simp_all
  moreover have "c_string (map Some (local_dir e @ rest) @ Some (CHR 0x00) # []) = Inr (local_dir e @ rest)"
    using assms(2,3) by (intro c_string_defined) simp
  ultimately show ?thesis by (simp add: translate_path_def len)
qed

lemma path_split:
  assumes "CHR ''/'' \<notin> set name" and "rest = [] \<or> hd rest = CHR ''/''"
  shows "dropWhile (\<lambda>c. c \<noteq> CHR ''/'') (name @ rest) = rest"
proof (cases rest)
  case (Cons c cs)
  then show ?thesis using assms by (subst dropWhile_append2) auto
qed (use assms in \<open>auto simp: dropWhile_eq_Nil_conv\<close>)

lemma get_local_path_mapped:
  assumes valid: "virtual_dirs_valid (fs_virtual_dir_list d)"
    and ne: "fs_virtual_dir_list d \<noteq> []"
    and name: "CHR ''/'' \<notin> set name" and rest: "rest = [] \<or> hd rest = CHR ''/''"
  shows "get_local_path_from_cloud_path os d (c # name @ rest) w =
    (case virtual_dir_lookup (fs_virtual_dir_list d) name of
       None \<Rightarrow> Inr (None, False, w)
     | Some e \<Rightarrow>
         (case ccapi_malloc os (Bytes (local_dir_length e + length rest + 1)) w of
            (False, w1) \<Rightarrow> Inr (None, False, w1)
          | (True, w1) \<Rightarrow> ub_bind (translate_path e rest) (\<lambda>p. Inr (Some p, True, w1))))"
proof -
  have ok: "list_all virtual_dir_ok (fs_virtual_dir_list d)"
    using valid by (simp add: virtual_dirs_valid_def)
  have "deref (get_pointer_to_dir_entry_from_virtual_dir_name (fs_virtual_dir_list d)
          (name @ rest) (length name)) (fs_virtual_dir_list d)
      = virtual_dir_lookup (fs_virtual_dir_list d) name"
    using get_pointer_component [OF ok rest] virtual_dir_lookup_find [OF ok]
    by (simp add: deref_find_index)
  then show ?thesis
    using ne path_split [OF name rest]
    by (simp add: get_local_path_from_cloud_path_def get_path_without_virtual_dir_def)
qed

text \<open>
  C6. The path of the cloud: without virtual directories it is used as it is, and nothing has to be
  freed. When directories are mapped, \<open>/name/rest\<close> becomes the local directory of exactly that
  name followed by \<open>/rest\<close>, built without a write outside its buffer; a path whose first component
  is not mapped has no local path, so no other part of the file system can be named. Hypotheses:
  the list is one the operations of C5 build, and the strings are C strings.
\<close>

theorem cloud_path_translation:
  assumes "virtual_dirs_valid (fs_virtual_dir_list d)" and "c_strings_ok (fs_virtual_dir_list d)"
    and "CHR ''/'' \<notin> set name" and "rest = [] \<or> hd rest = CHR ''/''"
    and "CHR 0x00 \<notin> set rest"
  shows "get_local_path_from_cloud_path os d (CHR ''/'' # name @ rest) w =
    (if fs_virtual_dir_list d = [] then Inr (Some (CHR ''/'' # name @ rest), False, w)
     else
       (case virtual_dir_lookup (fs_virtual_dir_list d) name of
          None \<Rightarrow> Inr (None, False, w)
        | Some e \<Rightarrow>
            (case ccapi_malloc os (Bytes (length (local_dir e @ rest) + 1)) w of
               (ok, w1) \<Rightarrow> Inr (if ok then Some (local_dir e @ rest) else None, ok, w1))))"
proof (cases "fs_virtual_dir_list d = []")
  case True
  then show ?thesis by (simp add: get_local_path_from_cloud_path_def)
next
  case ne: False
  show ?thesis
  proof (cases "virtual_dir_lookup (fs_virtual_dir_list d) name")
    case None
    then show ?thesis using get_local_path_mapped [OF assms(1) ne assms(3,4)] ne by simp
  next
    case (Some e)
    have ok: "list_all virtual_dir_ok (fs_virtual_dir_list d)"
      using assms(1) by (simp add: virtual_dirs_valid_def)
    have "e \<in> set (fs_virtual_dir_list d)"
      using Some virtual_dir_lookup_find [OF ok] by (auto simp: find_Some_iff)
    then have e: "virtual_dir_ok e" "CHR 0x00 \<notin> set (local_dir e)"
      using ok assms(2) by (auto simp: list_all_iff c_strings_ok_def)
    then have "local_dir_length e = length (local_dir e)" by (simp add: virtual_dir_ok_def)
    then show ?thesis
      using get_local_path_mapped [OF assms(1) ne assms(3,4)] ne Some translate_path_ok [OF e assms(5)]
      by (simp split: prod.split bool.split)
  qed
qed

definition example_state :: "'w fs_state" where
  "example_state =
     \<lparr>fs_run_status = CCAPI_THREAD_RUNNING, fs_supported = True, fs_lock = Some 1,
      fs_access_cb = None, fs_changed_cb = None,
      fs_virtual_dir_list = [vdir_entry ''data'' ''/tmp''], fs_imp_context = None,
      fs_files = Map.empty, fs_errors = Map.empty, fs_listings = Map.empty, fs_fresh = 0\<rparr>"

lemma example_state_dirs [simp]:
  "fs_virtual_dir_list example_state = [vdir_entry ''data'' ''/tmp'']"
  "virtual_dirs_valid [vdir_entry ''data'' ''/tmp'']"
  "c_strings_ok [vdir_entry ''data'' ''/tmp'']"
  "virtual_dir_lookup [vdir_entry ''data'' ''/tmp''] ''data'' = Some (vdir_entry ''data'' ''/tmp'')"
  "virtual_dir_lookup [vdir_entry ''data'' ''/tmp''] ''etc'' = None"
  by (simp_all add: example_state_def virtual_dirs_valid_def virtual_dir_ok_def vdir_entry_def
      c_strings_ok_def virtual_dir_lookup_def get_pointer_to_dir_entry_from_virtual_dir_name_def)

theorem cloud_path_translation_witness:
  "get_local_path_from_cloud_path example_os (example_state :: unit fs_state) ''/data/x.txt'' ()
     = Inr (Some ''/tmp/x.txt'', True, ())"
  using cloud_path_translation [of "example_state :: unit fs_state" "''data''" "''/x.txt''" example_os "()"]
  by simp (simp add: vdir_entry_def)

subsection \<open>Denied access\<close>

lemma malloc_unchanged_files:
  "new_error_handle os e p d w = (p', d', w') \<Longrightarrow>
     fs_files d' = fs_files d \<and> fs_listings d' = fs_listings d
     \<and> fs_virtual_dir_list d' = fs_virtual_dir_list d \<and> fs_imp_context d' = fs_imp_context d
     \<and> fs_lock d' = fs_lock d"
  by (auto simp: new_error_handle_def split: prod.splits bool.splits)

text \<open>
  What a denied request leaves behind, when \<open>w\<close> is the world after the callback: the local path is
  freed; without memory for the error handle nothing else changed; otherwise the connector has a
  new error handle, the live objects are unchanged, and a later request for its description, over
  any layer and in any world, is answered OK with permission denied.
\<close>

definition denial_reported ::
  "'w os \<Rightarrow> bool \<Rightarrow> 'w fs_state \<Rightarrow> 'w \<Rightarrow> ptr \<Rightarrow> ptr \<Rightarrow> 'w fs_state \<Rightarrow> 'w \<Rightarrow> bool" where
  "denial_reported os must_free d w errnum errnum' d' w' \<longleftrightarrow>
     (case ccapi_malloc os (Sizeof ''ccapi_fs_error_handle_t'') w of
        (False, w1) \<Rightarrow> errnum' = errnum \<and> d' = d \<and> w' = free_local_path os must_free w1
      | (True, w1) \<Rightarrow>
          errnum' = Some (fs_fresh d) \<and> w' = free_local_path os must_free w1
          \<and> fs_files d' = fs_files d \<and> fs_listings d' = fs_listings d
          \<and> fs_imp_context d' = fs_imp_context d
          \<and> (\<forall>fs q v. get_error_errnum q = errnum' \<longrightarrow>
               (\<exists>q' d2 w2. ccapi_fs_error_desc os fs q d' v = Inr (CCIMP_STATUS_OK, q', d2, w2)
                  \<and> get_error_status q' = connector_file_system_permission_denied)))"

lemma access_denied_reported:
  assumes "ccapi_fs_set_internal_error os CCAPI_FS_INTERNAL_ERROR_ACCESS_DENIED e d w = (e', d', w')"
  shows "denial_reported os b d w e e' d' (free_local_path os b w')"
  using assms
  by (auto simp: denial_reported_def ccapi_fs_set_internal_error_def new_error_handle_def
      ccapi_fs_error_desc_def load_def internal_error_status_def split: prod.splits bool.splits)

text \<open>
  C7. An access the user denies does not reach the file system. When the access callback denies
  the local path of an open, a remove or a list (what it answers for other paths and kinds of
  access does not matter), the request is answered with an error, an open leaves the connector
  with the handle that is not initialized, and the result is the same over every layer, so no
  function of the layer was called. Without memory for the error handle the answer carries none;
  with it, the error is described to the connector as permission denied.
\<close>

theorem denied_access_stops_at_ccapi:
  assumes "get_local_path_from_cloud_path os d p w = Inr (Some path, must_free, w1)"
    and "ask_access d path request w1 = (CCAPI_FS_ACCESS_DENY, w2)"
  shows "(open_path x = p \<and> request_of_flags (open_oflag x) = request \<longrightarrow>
      (\<exists>x' d' w'. (\<forall>fs. ccapi_fs_file_open os fs ni x d w = Inr (CCIMP_STATUS_ERROR, x', d', w'))
        \<and> open_handle x' = ni
        \<and> denial_reported os must_free d w2 (open_errnum x) (open_errnum x') d' w'))
    \<and> (remove_path y = p \<and> request = CCAPI_FS_REQUEST_REMOVE \<longrightarrow>
      (\<exists>y' d' w'. (\<forall>fs. ccapi_fs_file_remove os fs y d w = Inr (CCIMP_STATUS_ERROR, y', d', w'))
        \<and> denial_reported os must_free d w2 (remove_errnum y) (remove_errnum y') d' w'))
    \<and> (opendir_path z = p \<and> opendir_user_context z = None \<and> request = CCAPI_FS_REQUEST_LIST \<longrightarrow>
      (\<exists>z' d' w'. (\<forall>fs. ccapi_fs_dir_open os fs z d w = Inr (CCIMP_STATUS_ERROR, z', d', w'))
        \<and> denial_reported os must_free d w2 (opendir_errnum z) (opendir_errnum z') d' w'))"
proof -
  define deny where
    "deny e = ccapi_fs_set_internal_error os CCAPI_FS_INTERNAL_ERROR_ACCESS_DENIED e d w2" for e
  have reported: "denial_reported os must_free d w2 e (fst (deny e)) (fst (snd (deny e)))
      (free_local_path os must_free (snd (snd (deny e))))" for e
    by (rule access_denied_reported) (simp add: deny_def)
  have o: "ccapi_fs_file_open os fs ni x d w = Inr (CCIMP_STATUS_ERROR,
      x\<lparr>open_errnum := fst (deny (open_errnum x)), open_handle := ni\<rparr>, fst (snd (deny (open_errnum x))),
      free_local_path os must_free (snd (snd (deny (open_errnum x)))))"
    if "open_path x = p" "request_of_flags (open_oflag x) = request" for fs
    using assms that by (simp add: ccapi_fs_file_open_def Let_def deny_def split: prod.split)
  have r: "ccapi_fs_file_remove os fs y d w = Inr (CCIMP_STATUS_ERROR,
      y\<lparr>remove_errnum := fst (deny (remove_errnum y))\<rparr>, fst (snd (deny (remove_errnum y))),
      free_local_path os must_free (snd (snd (deny (remove_errnum y)))))"
    if "remove_path y = p" "request = CCAPI_FS_REQUEST_REMOVE" for fs
    using assms that by (simp add: ccapi_fs_file_remove_def Let_def deny_def split: prod.split)
  have l: "ccapi_fs_dir_open os fs z d w = Inr (CCIMP_STATUS_ERROR,
      z\<lparr>opendir_errnum := fst (deny (opendir_errnum z))\<rparr>, fst (snd (deny (opendir_errnum z))),
      free_local_path os must_free (snd (snd (deny (opendir_errnum z)))))"
    if "opendir_path z = p" "opendir_user_context z = None" "request = CCAPI_FS_REQUEST_LIST" for fs
    using assms that by (simp add: ccapi_fs_dir_open_def Let_def deny_def split: prod.split)
  show ?thesis
    using o r l reported by (intro conjI impI exI) (assumption | simp)+
qed

text \<open>A user who allows everything but removals, and a removal.\<close>

definition denying_state :: "'w fs_state" where
  "denying_state = example_state\<lparr>fs_access_cb := Some (\<lambda>p r w.
     (if r = CCAPI_FS_REQUEST_REMOVE then CCAPI_FS_ACCESS_DENY else CCAPI_FS_ACCESS_ALLOW, w))\<rparr>"

definition example_remove :: connector_file_system_remove_t where
  "example_remove = \<lparr>remove_path = ''/data/x'', remove_errnum = None\<rparr>"

definition example_open :: connector_file_system_open_t where
  "example_open = \<lparr>open_path = ''/data/x'', open_oflag = 0, open_handle = None, open_errnum = None\<rparr>"

definition example_get_error :: connector_file_system_get_error_t where
  "example_get_error = \<lparr>get_error_errnum = Some 0, get_error_status = connector_file_system_unspec_error,
     get_error_buffer = [None, None], get_error_bytes_available = 2, get_error_bytes_used = 0\<rparr>"

theorem denied_access_stops_at_ccapi_witness:
  "\<exists>y' d' w'. ccapi_fs_file_remove example_os example_fs example_remove
       (denying_state :: unit fs_state) () = Inr (CCIMP_STATUS_ERROR, y', d', w')
     \<and> (\<exists>q' d2 w2. ccapi_fs_error_desc example_os example_fs example_get_error d' w'
          = Inr (CCIMP_STATUS_OK, q', d2, w2)
          \<and> get_error_status q' = connector_file_system_permission_denied)"
proof -
  let ?d = "denying_state :: unit fs_state"
  have path: "get_local_path_from_cloud_path example_os ?d ''/data/x'' ()
      = Inr (Some ''/tmp/x'', True, ())"
    by (simp add: denying_state_def get_local_path_from_cloud_path_def
        get_path_without_virtual_dir_def get_pointer_to_dir_entry_from_virtual_dir_name_def
        vdir_entry_def translate_path_def memcpy_at_def c_string_def Let_def eval_nat_numeral)
  have ask: "ask_access ?d ''/tmp/x'' CCAPI_FS_REQUEST_REMOVE () = (CCAPI_FS_ACCESS_DENY, ())"
    by (simp add: ask_access_def denying_state_def)
  obtain y' d' where
    r: "ccapi_fs_file_remove example_os example_fs example_remove ?d ()
          = Inr (CCIMP_STATUS_ERROR, y', d', ())"
    and rep: "denial_reported example_os True ?d () None (remove_errnum y') d' ()"
    using denied_access_stops_at_ccapi [OF path ask, of undefined None example_remove undefined,
        THEN conjunct2, THEN conjunct1]
    by (auto simp: example_remove_def)
  have "fs_fresh ?d = 0" by (simp add: denying_state_def example_state_def)
  then have "\<exists>q' d2 w2. ccapi_fs_error_desc example_os example_fs example_get_error d' ()
      = Inr (CCIMP_STATUS_OK, q', d2, w2) \<and> get_error_status q' = connector_file_system_permission_denied"
    using rep by (auto simp: denial_reported_def example_get_error_def)
  then show ?thesis using r by blast
qed

end
