(* ===== verification/FileServiceFrame.thy ===== *)
theory FileServiceFrame
  imports FileServiceProps
begin

text \<open>
  What every request of the file system service leaves alone: the lock, the list of virtual
  directories and the callbacks, whatever part of the world the parameters leave alone, and the
  well-formedness of the heap objects the connector holds pointers to.
\<close>

subsection \<open>Frames\<close>

text \<open>Addresses are given out once: no live object is at or above the next one, none is two kinds.\<close>

definition fs_heap_ok :: "'w fs_state \<Rightarrow> bool" where
  "fs_heap_ok d \<longleftrightarrow>
     (\<forall>a \<in> dom (fs_files d) \<union> dom (fs_errors d) \<union> dom (fs_listings d). a < fs_fresh d)
     \<and> dom (fs_files d) \<inter> dom (fs_errors d) = {} \<and> dom (fs_files d) \<inter> dom (fs_listings d) = {}
     \<and> dom (fs_errors d) \<inter> dom (fs_listings d) = {}"

definition os_keeps :: "('w \<Rightarrow> 'a) \<Rightarrow> 'w os \<Rightarrow> bool" where
  "os_keeps f os \<longleftrightarrow>
     (\<forall>req w. f (snd (os_malloc os req w)) = f w) \<and> (\<forall>w. f (snd (os_free os w)) = f w)"

definition fs_layer_keeps :: "('w \<Rightarrow> 'a) \<Rightarrow> 'w ccimp_fs \<Rightarrow> bool" where
  "fs_layer_keeps f fs \<longleftrightarrow>
     (\<forall>x w. f (snd (snd (ccimp_fs_file_open fs x w))) = f w)
     \<and> (\<forall>x w. f (snd (snd (ccimp_fs_file_read fs x w))) = f w)
     \<and> (\<forall>x w. f (snd (snd (ccimp_fs_file_write fs x w))) = f w)
     \<and> (\<forall>x w. f (snd (snd (ccimp_fs_file_close fs x w))) = f w)
     \<and> (\<forall>x w. f (snd (snd (ccimp_fs_file_seek fs x w))) = f w)
     \<and> (\<forall>x w. f (snd (snd (ccimp_fs_file_truncate fs x w))) = f w)
     \<and> (\<forall>x w. f (snd (snd (ccimp_fs_file_remove fs x w))) = f w)
     \<and> (\<forall>x w. f (snd (snd (ccimp_fs_dir_open fs x w))) = f w)
     \<and> (\<forall>x w. f (snd (snd (ccimp_fs_dir_read_entry fs x w))) = f w)
     \<and> (\<forall>x w. f (snd (snd (ccimp_fs_dir_entry_status fs x w))) = f w)
     \<and> (\<forall>x w. f (snd (snd (ccimp_fs_dir_close fs x w))) = f w)
     \<and> (\<forall>x w. f (snd (snd (ccimp_fs_hash_alg fs x w))) = f w)
     \<and> (\<forall>x w. f (snd (snd (ccimp_fs_hash_file fs x w))) = f w)
     \<and> (\<forall>x w. f (snd (snd (ccimp_fs_error_desc fs x w))) = f w)
     \<and> (\<forall>x w. f (snd (snd (ccimp_fs_session_error fs x w))) = f w)"

definition user_keeps :: "('w \<Rightarrow> 'a) \<Rightarrow> 'w fs_state \<Rightarrow> bool" where
  "user_keeps f d \<longleftrightarrow>
     (\<forall>cb p r w. fs_access_cb d = Some cb \<longrightarrow> f (snd (cb p r w)) = f w)
     \<and> (\<forall>cb p c w. fs_changed_cb d = Some cb \<longrightarrow> f (cb p c w) = f w)"

definition fs_frame :: "'w fs_state \<Rightarrow> 'w fs_state \<Rightarrow> bool" where
  "fs_frame d d' \<longleftrightarrow>
     fs_lock d' = fs_lock d \<and> fs_virtual_dir_list d' = fs_virtual_dir_list d
     \<and> fs_access_cb d' = fs_access_cb d \<and> fs_changed_cb d' = fs_changed_cb d
     \<and> fs_run_status d' = fs_run_status d \<and> fs_supported d' = fs_supported d
     \<and> (fs_heap_ok d \<longrightarrow> fs_heap_ok d')"

lemma fs_frame_refl [simp]: "fs_frame d d"
  by (simp add: fs_frame_def)

lemma fs_frame_trans: "fs_frame d d1 \<Longrightarrow> fs_frame d1 d2 \<Longrightarrow> fs_frame d d2"
  by (simp add: fs_frame_def)

lemma fs_heap_ok_context [simp]: "fs_heap_ok (d\<lparr>fs_imp_context := c\<rparr>) = fs_heap_ok d"
  by (simp add: fs_heap_ok_def)

lemma fs_frame_context [simp]:
  "fs_frame d (d'\<lparr>fs_imp_context := c\<rparr>) = fs_frame d d'"
  "fs_frame (d\<lparr>fs_imp_context := c\<rparr>) d' = fs_frame d d'"
  by (simp_all add: fs_frame_def)

lemma fs_heap_ok_new:
  assumes "fs_heap_ok d"
  shows "fs_heap_ok (d\<lparr>fs_files := (fs_files d)(fs_fresh d \<mapsto> x), fs_fresh := Suc (fs_fresh d)\<rparr>)"
    and "fs_heap_ok (d\<lparr>fs_errors := (fs_errors d)(fs_fresh d \<mapsto> e), fs_fresh := Suc (fs_fresh d)\<rparr>)"
    and "fs_heap_ok (d\<lparr>fs_listings := (fs_listings d)(fs_fresh d \<mapsto> l), fs_fresh := Suc (fs_fresh d)\<rparr>)"
proof -
  have below: "\<And>a. a \<in> dom (fs_files d) \<union> dom (fs_errors d) \<union> dom (fs_listings d) \<Longrightarrow> a < fs_fresh d"
    and disj: "dom (fs_files d) \<inter> dom (fs_errors d) = {}" "dom (fs_files d) \<inter> dom (fs_listings d) = {}"
      "dom (fs_errors d) \<inter> dom (fs_listings d) = {}"
    using assms unfolding fs_heap_ok_def by blast+
  have new: "fs_fresh d \<notin> dom (fs_files d)" "fs_fresh d \<notin> dom (fs_errors d)"
    "fs_fresh d \<notin> dom (fs_listings d)"
    using below [of "fs_fresh d"] by blast+
  have less: "\<And>a. a \<in> insert (fs_fresh d) (dom (fs_files d) \<union> dom (fs_errors d) \<union> dom (fs_listings d))
      \<Longrightarrow> a < Suc (fs_fresh d)"
    using below less_Suc_eq by blast
  show "fs_heap_ok (d\<lparr>fs_files := (fs_files d)(fs_fresh d \<mapsto> x), fs_fresh := Suc (fs_fresh d)\<rparr>)"
    and "fs_heap_ok (d\<lparr>fs_errors := (fs_errors d)(fs_fresh d \<mapsto> e), fs_fresh := Suc (fs_fresh d)\<rparr>)"
    and "fs_heap_ok (d\<lparr>fs_listings := (fs_listings d)(fs_fresh d \<mapsto> l), fs_fresh := Suc (fs_fresh d)\<rparr>)"
    using less disj new by (simp_all add: fs_heap_ok_def insert_disjoint Ball_def)
qed

lemma fs_heap_ok_delete:
  assumes "fs_heap_ok d"
  shows "fs_heap_ok (d\<lparr>fs_files := (fs_files d)(a := None)\<rparr>)"
    and "fs_heap_ok (d\<lparr>fs_errors := (fs_errors d)(a := None)\<rparr>)"
    and "fs_heap_ok (d\<lparr>fs_listings := (fs_listings d)(a := None)\<rparr>)"
  using assms by (auto simp: fs_heap_ok_def)

lemma fs_heap_ok_listing:
  assumes "fs_heap_ok d" and "fs_listings d a \<noteq> None"
  shows "fs_heap_ok (d\<lparr>fs_listings := (fs_listings d)(a \<mapsto> l)\<rparr>)"
  using assms by (auto simp: fs_heap_ok_def)

lemma fs_frame_delete:
  assumes "fs_frame d d'"
  shows "fs_frame d (d'\<lparr>fs_files := (fs_files d')(a := None)\<rparr>)"
    and "fs_frame d (d'\<lparr>fs_errors := (fs_errors d')(a := None)\<rparr>)"
    and "fs_frame d (d'\<lparr>fs_listings := (fs_listings d')(a := None)\<rparr>)"
  using assms fs_heap_ok_delete [of d'] by (auto simp: fs_frame_def)

lemma new_error_handle_frame:
  "new_error_handle os e p d w = (p', d', w') \<Longrightarrow> fs_frame d d'"
  by (auto simp: new_error_handle_def fs_frame_def fs_heap_ok_new split: prod.splits bool.splits)

lemma set_error_frame:
  "ccapi_fs_set_internal_error os i p d w = (p', d', w') \<Longrightarrow> fs_frame d d'"
  "ccapi_fs_set_ccimp_error os c p d w = (p', d', w') \<Longrightarrow> fs_frame d d'"
  "report_status os st c p d w = (p', d', w') \<Longrightarrow> fs_frame d d'"
  by (auto simp: ccapi_fs_set_internal_error_def ccapi_fs_set_ccimp_error_def report_status_def
      dest: new_error_handle_frame split: ccimp_status_t.splits)

lemma wrap_file_handle_frame:
  "wrap_file_handle os od r x d w = (x', d', w') \<Longrightarrow> fs_frame d d'"
  by (auto simp: wrap_file_handle_def fs_frame_def fs_heap_ok_new
      split: prod.splits bool.splits option.splits)

subsection \<open>What the parameters keep, the wrappers keep\<close>

lemma os_keeps_wrappers:
  assumes "os_keeps f os"
  shows "ccapi_malloc os req w = (ok, w') \<Longrightarrow> f w' = f w"
    and "f (snd (ccapi_free os p w)) = f w"
    and "ccapi_strdup os s w = (r, w') \<Longrightarrow> f w' = f w"
    and "f (free_local_path os b w) = f w"
proof -
  show m: "ccapi_malloc os req w = (ok, w') \<Longrightarrow> f w' = f w" for req w ok w'
    using assms unfolding os_keeps_def ccapi_malloc_def
    by (auto split: prod.splits ccimp_status_t.splits) (metis snd_conv)+
  show "f (snd (ccapi_free os p w)) = f w" for p w
    using assms by (simp add: os_keeps_def ccapi_free_def)
  then show "f (free_local_path os b w) = f w" by (simp add: free_local_path_def)
  show "ccapi_strdup os s w = (r, w') \<Longrightarrow> f w' = f w"
    using m by (auto simp: ccapi_strdup_def split: prod.splits)
qed

lemma new_error_handle_keeps:
  assumes "os_keeps f os"
  shows "new_error_handle os e p d w = (p', d', w') \<Longrightarrow> f w' = f w"
    and "ccapi_fs_set_internal_error os i p d w = (p', d', w') \<Longrightarrow> f w' = f w"
    and "ccapi_fs_set_ccimp_error os c p d w = (p', d', w') \<Longrightarrow> f w' = f w"
    and "report_status os st c p d w = (p', d', w') \<Longrightarrow> f w' = f w"
proof -
  show n: "new_error_handle os e p d w = (p', d', w') \<Longrightarrow> f w' = f w" for e p d w p' d' w'
    by (auto simp: new_error_handle_def split: prod.splits bool.splits
        dest: os_keeps_wrappers(1) [OF assms])
  show "ccapi_fs_set_internal_error os i p d w = (p', d', w') \<Longrightarrow> f w' = f w"
    and c: "ccapi_fs_set_ccimp_error os c p d w = (p', d', w') \<Longrightarrow> f w' = f w"
    by (auto simp: ccapi_fs_set_internal_error_def ccapi_fs_set_ccimp_error_def dest: n)
  then show "report_status os st c p d w = (p', d', w') \<Longrightarrow> f w' = f w"
    by (auto simp: report_status_def split: ccimp_status_t.splits)
qed

lemma wrap_file_handle_keeps:
  assumes "os_keeps f os" shows "wrap_file_handle os od r x d w = (x', d', w') \<Longrightarrow> f w' = f w"
  by (auto simp: wrap_file_handle_def split: prod.splits bool.splits option.splits
      dest!: os_keeps_wrappers(1,3) [OF assms])

lemma local_path_keeps:
  assumes "os_keeps f os"
  shows "get_local_path_from_cloud_path os d p w = Inr (r, b, w') \<Longrightarrow> f w' = f w"
  by (auto simp: get_local_path_from_cloud_path_def Let_def
      split: prod.splits bool.splits option.splits if_splits
      dest!: os_keeps_wrappers(1) [OF assms])

lemma user_keeps_calls:
  assumes "user_keeps f d"
  shows "ask_access d p r w = (a, w') \<Longrightarrow> f w' = f w" and "f (tell_changed d p c w) = f w"
  using assms unfolding user_keeps_def ask_access_def tell_changed_def
  by (auto split: option.splits) (metis snd_conv)

lemma fs_layer_keeps_calls:
  assumes "fs_layer_keeps f fs"
  shows "ccimp_fs_file_open fs x1 w = (st, x1', w') \<Longrightarrow> f w' = f w"
    and "ccimp_fs_file_read fs x2 w = (st, x2', w') \<Longrightarrow> f w' = f w"
    and "ccimp_fs_file_write fs x3 w = (st, x3', w') \<Longrightarrow> f w' = f w"
    and "ccimp_fs_file_close fs x4 w = (st, x4', w') \<Longrightarrow> f w' = f w"
    and "ccimp_fs_file_seek fs x5 w = (st, x5', w') \<Longrightarrow> f w' = f w"
    and "ccimp_fs_file_truncate fs x6 w = (st, x6', w') \<Longrightarrow> f w' = f w"
    and "ccimp_fs_file_remove fs x7 w = (st, x7', w') \<Longrightarrow> f w' = f w"
    and "ccimp_fs_dir_open fs x8 w = (st, x8', w') \<Longrightarrow> f w' = f w"
    and "ccimp_fs_dir_read_entry fs x9 w = (st, x9', w') \<Longrightarrow> f w' = f w"
    and "ccimp_fs_dir_entry_status fs x10 w = (st, x10', w') \<Longrightarrow> f w' = f w"
    and "ccimp_fs_dir_close fs x11 w = (st, x11', w') \<Longrightarrow> f w' = f w"
    and "ccimp_fs_hash_alg fs x12 w = (st, x12', w') \<Longrightarrow> f w' = f w"
    and "ccimp_fs_hash_file fs x13 w = (st, x13', w') \<Longrightarrow> f w' = f w"
    and "ccimp_fs_error_desc fs x14 w = (st, x14', w') \<Longrightarrow> f w' = f w"
    and "ccimp_fs_session_error fs x15 w = (st, x15', w') \<Longrightarrow> f w' = f w"
  using assms unfolding fs_layer_keeps_def by (metis snd_conv)+

subsection \<open>Every request\<close>

definition fs_env_keeps ::
  "('w \<Rightarrow> 'a) \<Rightarrow> 'w os \<Rightarrow> 'w ccimp_fs \<Rightarrow> 'w fs_state \<Rightarrow> bool" where
  "fs_env_keeps f os fs d \<longleftrightarrow> os_keeps f os \<and> fs_layer_keeps f fs \<and> user_keeps f d"

definition fs_effect :: "('w \<Rightarrow> 'a) \<Rightarrow> 'w fs_state \<Rightarrow> 'w \<Rightarrow> 'w fs_state \<Rightarrow> 'w \<Rightarrow> bool" where
  "fs_effect f d w d' w' \<longleftrightarrow> fs_frame d d' \<and> f w' = f w"

lemma report_effect:
  assumes "os_keeps f os"
  shows "report_status os st c p d w = (p', d', w') \<Longrightarrow> fs_frame d d' \<and> f w' = f w"
    and "ccapi_fs_set_internal_error os i p d w = (p', d', w') \<Longrightarrow> fs_frame d d' \<and> f w' = f w"
    and "ccapi_fs_set_ccimp_error os c p d w = (p', d', w') \<Longrightarrow> fs_frame d d' \<and> f w' = f w"
    and "wrap_file_handle os od r x d w = (x', d', w') \<Longrightarrow> fs_frame d d' \<and> f w' = f w"
  using set_error_frame new_error_handle_keeps [OF assms] wrap_file_handle_frame
    wrap_file_handle_keeps [OF assms] by metis+

lemma ccapi_fs_file_read_effect:
  assumes "fs_env_keeps f os fs d" and "ccapi_fs_file_read os fs x d w = Inr (st, x', d', w')"
  shows "fs_effect f d w d' w'"
proof -
  have os: "os_keeps f os" and fs: "fs_layer_keeps f fs"
    using assms(1) by (simp_all add: fs_env_keeps_def)
  show ?thesis
    using assms(2)
    by (auto simp: ccapi_fs_file_read_def Let_def fs_effect_def split: prod.splits
        dest!: fs_layer_keeps_calls [OF fs] report_effect [OF os])
qed

lemma ccapi_fs_file_write_effect:
  assumes "fs_env_keeps f os fs d" and "ccapi_fs_file_write os fs x d w = Inr (st, x', d', w')"
  shows "fs_effect f d w d' w'"
proof -
  have os: "os_keeps f os" and fs: "fs_layer_keeps f fs"
    using assms(1) by (simp_all add: fs_env_keeps_def)
  show ?thesis
    using assms(2)
    by (auto simp: ccapi_fs_file_write_def Let_def fs_effect_def split: prod.splits
        dest!: fs_layer_keeps_calls [OF fs] report_effect [OF os])
qed

lemma ccapi_fs_file_seek_effect:
  assumes "fs_env_keeps f os fs d" and "ccapi_fs_file_seek os fs x d w = Inr (st, x', d', w')"
  shows "fs_effect f d w d' w'"
proof -
  have os: "os_keeps f os" and fs: "fs_layer_keeps f fs"
    using assms(1) by (simp_all add: fs_env_keeps_def)
  show ?thesis
    using assms(2)
    by (auto simp: ccapi_fs_file_seek_def Let_def fs_effect_def split: prod.splits
        dest!: fs_layer_keeps_calls [OF fs] report_effect [OF os])
qed

lemma ccapi_fs_file_truncate_effect:
  assumes "fs_env_keeps f os fs d" and "ccapi_fs_file_truncate os fs x d w = Inr (st, x', d', w')"
  shows "fs_effect f d w d' w'"
proof -
  have os: "os_keeps f os" and fs: "fs_layer_keeps f fs"
    using assms(1) by (simp_all add: fs_env_keeps_def)
  show ?thesis
    using assms(2)
    by (auto simp: ccapi_fs_file_truncate_def Let_def fs_effect_def split: prod.splits
        dest!: fs_layer_keeps_calls [OF fs] report_effect [OF os])
qed

lemma ccapi_fs_file_close_effect:
  assumes "fs_env_keeps f os fs d" and "ccapi_fs_file_close os fs x d w = Inr (st, x', d', w')"
  shows "fs_effect f d w d' w'"
proof -
  have os: "os_keeps f os" and fs: "fs_layer_keeps f fs" and u: "user_keeps f d"
    using assms(1) by (simp_all add: fs_env_keeps_def)
  show ?thesis
    using assms(2) os_keeps_wrappers(2) [OF os] user_keeps_calls(2) [OF u]
    by (auto simp: ccapi_fs_file_close_def Let_def fs_effect_def fs_frame_delete
        split: prod.splits if_splits
        dest!: fs_layer_keeps_calls [OF fs] report_effect [OF os])
qed

lemma ccapi_fs_file_open_effect:
  assumes "fs_env_keeps f os fs d" and "ccapi_fs_file_open os fs ni x d w = Inr (st, x', d', w')"
  shows "fs_effect f d w d' w'"
proof -
  have os: "os_keeps f os" and fs: "fs_layer_keeps f fs" and u: "user_keeps f d"
    using assms(1) by (simp_all add: fs_env_keeps_def)
  show ?thesis
    using assms(2) os_keeps_wrappers(4) [OF os]
    by (auto simp: ccapi_fs_file_open_def Let_def fs_effect_def
        split: prod.splits if_splits option.splits ccapi_fs_access_t.splits
        dest!: local_path_keeps [OF os] user_keeps_calls(1) [OF u] fs_layer_keeps_calls [OF fs]
          report_effect [OF os])
      (blast intro: fs_frame_trans)
qed

lemma ccapi_fs_file_remove_effect:
  assumes "fs_env_keeps f os fs d" and "ccapi_fs_file_remove os fs x d w = Inr (st, x', d', w')"
  shows "fs_effect f d w d' w'"
proof -
  have os: "os_keeps f os" and fs: "fs_layer_keeps f fs" and u: "user_keeps f d"
    using assms(1) by (simp_all add: fs_env_keeps_def)
  show ?thesis
    using assms(2) os_keeps_wrappers(4) [OF os] user_keeps_calls(2) [OF u]
    by (auto simp: ccapi_fs_file_remove_def Let_def fs_effect_def
        split: prod.splits if_splits option.splits ccapi_fs_access_t.splits
        dest!: local_path_keeps [OF os] user_keeps_calls(1) [OF u] fs_layer_keeps_calls [OF fs]
          report_effect [OF os])
qed

lemma ccapi_fs_dir_open_effect:
  assumes "fs_env_keeps f os fs d" and "ccapi_fs_dir_open os fs x d w = Inr (st, x', d', w')"
  shows "fs_effect f d w d' w'"
proof -
  have os: "os_keeps f os" and fs: "fs_layer_keeps f fs" and u: "user_keeps f d"
    using assms(1) by (simp_all add: fs_env_keeps_def)
  show ?thesis
    using assms(2) os_keeps_wrappers(4) [OF os]
    by (auto simp: ccapi_fs_dir_open_def Let_def fs_effect_def
        split: prod.splits if_splits option.splits ccapi_fs_access_t.splits
        dest!: local_path_keeps [OF os] user_keeps_calls(1) [OF u] fs_layer_keeps_calls [OF fs]
          report_effect [OF os])
qed

lemma read_root_entry_frame:
  assumes "read_root_entry x d = Inr (x', d')" shows "fs_frame d d'"
  using assms
  by (auto simp: read_root_entry_def load_def fs_frame_def fs_heap_ok_listing Let_def
      split: option.splits if_splits)

lemma ccapi_fs_dir_read_entry_effect:
  assumes "fs_env_keeps f os fs d" and "ccapi_fs_dir_read_entry os fs x d w = Inr (st, x', d', w')"
  shows "fs_effect f d w d' w'"
proof -
  have os: "os_keeps f os" and fs: "fs_layer_keeps f fs"
    using assms(1) by (simp_all add: fs_env_keeps_def)
  show ?thesis
    using assms(2)
    by (auto simp: ccapi_fs_dir_read_entry_def Let_def fs_effect_def split: prod.splits if_splits
        dest!: fs_layer_keeps_calls [OF fs] report_effect [OF os] read_root_entry_frame)
qed

lemma ccapi_fs_dir_entry_status_effect:
  assumes "fs_env_keeps f os fs d" and "ccapi_fs_dir_entry_status os fs x d w = Inr (st, x', d', w')"
  shows "fs_effect f d w d' w'"
proof -
  have os: "os_keeps f os" and fs: "fs_layer_keeps f fs"
    using assms(1) by (simp_all add: fs_env_keeps_def)
  show ?thesis
    using assms(2) os_keeps_wrappers(4) [OF os]
    by (auto simp: ccapi_fs_dir_entry_status_def Let_def fs_effect_def
        split: prod.splits if_splits option.splits
        dest!: local_path_keeps [OF os] fs_layer_keeps_calls [OF fs] report_effect [OF os])
qed

lemma ccapi_fs_dir_close_effect:
  assumes "fs_env_keeps f os fs d" and "ccapi_fs_dir_close os fs x d w = Inr (st, x', d', w')"
  shows "fs_effect f d w d' w'"
proof -
  have os: "os_keeps f os" and fs: "fs_layer_keeps f fs"
    using assms(1) by (simp_all add: fs_env_keeps_def)
  have free: "ccapi_free os b v = (r, v') \<Longrightarrow> f v' = f v" for b v r v'
    using os_keeps_wrappers(2) [OF os, of b v] by simp
  show ?thesis
    using assms(2)
    by (auto simp: ccapi_fs_dir_close_def Let_def fs_effect_def fs_frame_delete
        split: prod.splits if_splits option.splits
        dest!: fs_layer_keeps_calls [OF fs] report_effect [OF os] free)
qed

lemma ccapi_fs_hash_file_effect:
  assumes "fs_env_keeps f os fs d" and "ccapi_fs_hash_file os fs x d w = Inr (st, x', d', w')"
  shows "fs_effect f d w d' w'"
proof -
  have os: "os_keeps f os" and fs: "fs_layer_keeps f fs"
    using assms(1) by (simp_all add: fs_env_keeps_def)
  show ?thesis
    using assms(2) os_keeps_wrappers(4) [OF os]
    by (auto simp: ccapi_fs_hash_file_def Let_def fs_effect_def
        split: prod.splits if_splits option.splits
        dest!: local_path_keeps [OF os] fs_layer_keeps_calls [OF fs] report_effect [OF os])
qed

definition libc_keeps :: "('w \<Rightarrow> 'a) \<Rightarrow> ('w \<Rightarrow> bool \<times> 'w) \<Rightarrow> bool" where
  "libc_keeps f libc_malloc \<longleftrightarrow> (\<forall>v. f (snd (libc_malloc v)) = f v)"

lemma stat_root_effect:
  assumes "libc_keeps f libc_malloc" and "stat_root libc_malloc x d w = (st, x', d', w')"
  shows "fs_effect f d w d' w'"
  using assms(2) assms(1) [unfolded libc_keeps_def, THEN spec [of _ w]] fs_heap_ok_new(3) [of d]
  by (auto simp: stat_root_def fs_effect_def fs_frame_def split: prod.splits bool.splits)

lemma stat_path_status_effect:
  assumes os: "os_keeps f os" and fs: "fs_layer_keeps f fs"
    and "stat_path_status os fs p x d w = (st, x', d', w')"
  shows "fs_effect f d w d' w'"
  using assms(3)
  by (auto simp: stat_path_status_def Let_def fs_effect_def split: prod.splits if_splits
      dest!: fs_layer_keeps_calls [OF fs] report_effect [OF os])

lemma ccapi_fs_hash_status_effect:
  assumes "fs_env_keeps f os fs d" and libc: "libc_keeps f libc_malloc"
    and "ccapi_fs_hash_status os fs libc_malloc x d w = Inr (st, x', d', w')"
  shows "fs_effect f d w d' w'"
proof -
  have os: "os_keeps f os" and fs: "fs_layer_keeps f fs"
    using assms(1) by (simp_all add: fs_env_keeps_def)
  show ?thesis
  proof (cases "fs_virtual_dir_list d \<noteq> [] \<and> stat_path x = ''/''")
    case True
    then show ?thesis
      using assms(3) stat_root_effect [OF libc] by (simp add: ccapi_fs_hash_status_def)
  next
    case False
    then show ?thesis
      using assms(3) os_keeps_wrappers(4) [OF os]
      by (auto simp: ccapi_fs_hash_status_def fs_effect_def split: prod.splits option.splits
          dest!: local_path_keeps [OF os] report_effect [OF os]
            stat_path_status_effect [OF os fs, unfolded fs_effect_def])
  qed
qed

lemma fs_frame_delete_error:
  "fs_frame d (d\<lparr>fs_imp_context := c, fs_errors := (fs_errors d)(a := None)\<rparr>)"
  using fs_frame_delete(2) [of d "d\<lparr>fs_imp_context := c\<rparr>" a] by simp

lemma ccapi_fs_error_desc_effect:
  assumes "fs_env_keeps f os fs d" and "ccapi_fs_error_desc os fs x d w = Inr (st, x', d', w')"
  shows "fs_effect f d w d' w'"
proof -
  have os: "os_keeps f os" and fs: "fs_layer_keeps f fs"
    using assms(1) by (simp_all add: fs_env_keeps_def)
  show ?thesis
    using assms(2) os_keeps_wrappers(2) [OF os]
    by (auto simp: ccapi_fs_error_desc_def Let_def fs_effect_def fs_frame_delete fs_frame_delete_error
        split: prod.splits ccapi_fs_error_handle_t.splits
        dest!: fs_layer_keeps_calls [OF fs])
qed

lemma ccapi_fs_session_error_effect:
  assumes "fs_env_keeps f os fs d" and "ccapi_fs_session_error fs x d w = (st, d', w')"
  shows "fs_effect f d w d' w'"
proof -
  have fs: "fs_layer_keeps f fs" using assms(1) by (simp add: fs_env_keeps_def)
  show ?thesis
    using assms(2)
    by (auto simp: ccapi_fs_session_error_def Let_def fs_effect_def split: prod.splits
        dest!: fs_layer_keeps_calls [OF fs])
qed

lemmas fs_request_effects =
  ccapi_fs_file_open_effect ccapi_fs_file_read_effect ccapi_fs_file_write_effect
  ccapi_fs_file_seek_effect ccapi_fs_file_close_effect ccapi_fs_file_truncate_effect
  ccapi_fs_file_remove_effect ccapi_fs_dir_open_effect ccapi_fs_dir_read_entry_effect
  ccapi_fs_dir_entry_status_effect ccapi_fs_dir_close_effect ccapi_fs_hash_file_effect
  ccapi_fs_error_desc_effect ccapi_fs_session_error_effect

lemma answer_with_Inr:
  "answer_with c r = Inr (st, req', d', w') \<longleftrightarrow> (\<exists>x'. r = Inr (st, x', d', w') \<and> req' = c x')"
  by (cases r) (auto simp: answer_with_def)

lemma filesystem_dispatch_effect:
  assumes env: "fs_env_keeps f os fs d" and libc: "libc_keeps f libc_malloc"
    and "filesystem_dispatch os fs libc_malloc ni request d w = Inr (st, request', d', w')"
  shows "fs_effect f d w d' w'"
  using assms(3)
  by (cases request)
    (auto simp: filesystem_dispatch_def answer_with_Inr split: prod.splits
      dest: fs_request_effects [OF env] ccapi_fs_hash_status_effect [OF env libc])

subsection \<open>The lock\<close>

context os_locks begin

lemma os_keeps_tokens: "os_keeps (tokens k) os"
  using malloc_keeps free_keeps by (simp add: os_keeps_def)

lemma handler_balanced:
  assumes "fs_lock d = Some l" and "tokens l w = Some (Suc n)"
    and "fs_layer_keeps (tokens l) fs" and "user_keeps (tokens l) d"
    and "libc_keeps (tokens l) libc_malloc"
    and "ccapi_filesystem_handler os fs libc_malloc ni request d w = Inr (st, request', d', w')"
  shows "tokens l w' = Some (Suc n) \<and> fs_frame d d'
    \<and> (\<exists>w1 s w2. filesystem_dispatch os fs libc_malloc ni request d w1 = Inr (s, request', d', w2)
         \<and> st = connector_callback_status_from_ccimp_status s)"
proof -
  obtain w1 where 1: "ccapi_lock_acquire os (Some l) w = (CCIMP_STATUS_OK, w1)" "tokens l w1 = Some n"
    using lock_acquired [OF assms(2)] by metis
  obtain s w2 where 2: "filesystem_dispatch os fs libc_malloc ni request d w1 = Inr (s, request', d', w2)"
    and rest: "(let (release, w3) = ccapi_lock_release os (fs_lock d') w2
        in Inr (connector_callback_status_from_ccimp_status
             (if release = CCIMP_STATUS_OK then s else release), request', d', w3)) = (Inr (st, request', d', w') :: _ ub)"
    using assms(6) 1 assms(1)
    by (auto simp: ccapi_filesystem_handler_def Let_def split: prod.splits)
  have "fs_env_keeps (tokens l) os fs d"
    using assms(3,4) os_keeps_tokens by (simp add: fs_env_keeps_def)
  then have e: "fs_frame d d'" "tokens l w2 = Some n"
    using filesystem_dispatch_effect [OF _ assms(5) 2] 1 by (simp_all add: fs_effect_def)
  then have "fs_lock d' = Some l" using assms(1) by (simp add: fs_frame_def)
  moreover obtain w3 where "ccapi_lock_release os (Some l) w2 = (CCIMP_STATUS_OK, w3)"
    "tokens l w3 = Some (Suc n)"
    using lock_released [OF e(2)] by metis
  ultimately show ?thesis using rest e 2 by auto
qed

end

end
