(* ===== verification/FileServiceMemory.thy ===== *)
theory FileServiceMemory
  imports FileServiceFrame
begin

text \<open>
  The memory of the file system service over the Linux layer, and the objects behind the handles:
  what the blocks that are allocated belong to, and that a live file handle stays what it is until
  it is closed.
\<close>

subsection \<open>Blocks and the objects that own them\<close>

text \<open>
  A file handle owns two blocks, its structure and its path; an error handle and a listing own one
  each. Under glibc the C library's malloc is the one the layer calls.
\<close>

definition fs_owned :: "'w fs_state \<Rightarrow> int" where
  "fs_owned d = 2 * int (card (dom (fs_files d))) + int (card (dom (fs_errors d)))
     + int (card (dom (fs_listings d)))"

definition fs_objects_ok :: "'w fs_state \<Rightarrow> bool" where
  "fs_objects_ok d \<longleftrightarrow>
     fs_heap_ok d \<and> finite (dom (fs_files d)) \<and> finite (dom (fs_errors d))
     \<and> finite (dom (fs_listings d))"

definition linux_libc_malloc :: "'m linux_scheme \<Rightarrow> bool \<times> 'm linux_scheme" where
  "linux_libc_malloc w = ccapi_malloc (linux_os False) (Sizeof ''ccapi_fs_root_dir_t'') w"

definition linux_memory :: "'m linux_scheme \<Rightarrow> int \<times> nat" where
  "linux_memory w = (lx_blocks w, lx_memory w)"

text \<open>What the blocks have changed by, less what the objects account for.\<close>

definition fs_balanced :: "'m linux_scheme fs_state \<Rightarrow> 'm linux_scheme \<Rightarrow> 'm linux_scheme fs_state
     \<Rightarrow> 'm linux_scheme \<Rightarrow> bool" where
  "fs_balanced d w d' w' \<longleftrightarrow>
     fs_objects_ok d' \<and> lx_blocks w' - fs_owned d' = lx_blocks w - fs_owned d"

lemma linux_malloc:
  "ccapi_malloc (linux_os debug) req w =
     (if lx_memory w = 0 then (False, w)
      else (True, w\<lparr>lx_memory := lx_memory w - 1, lx_blocks := lx_blocks w + 1\<rparr>))"
  by (simp add: ccapi_malloc_def ccimp_os_malloc_def)

lemma linux_free:
  "ccapi_free (linux_os debug) True w = (CCIMP_STATUS_OK, w\<lparr>lx_blocks := lx_blocks w - 1\<rparr>)"
  by (simp add: ccapi_free_def ccimp_os_free_def)

lemma fs_fresh_new:
  assumes "fs_heap_ok d"
  shows "fs_files d (fs_fresh d) = None" "fs_errors d (fs_fresh d) = None"
    "fs_listings d (fs_fresh d) = None"
  using assms by (auto simp: fs_heap_ok_def domIff)

lemma card_dom_new:
  assumes "finite (dom m)" and "m a = None"
  shows "card (dom (m(a \<mapsto> x))) = Suc (card (dom m))"
  using assms by (simp add: domIff card_insert_if)

lemma finite_dom_new: "finite (dom (m(a \<mapsto> x))) = finite (dom m)"
  by simp

lemma card_dom_delete:
  assumes "finite (dom m)" and "m a \<noteq> None"
  shows "int (card (dom (m(a := None)))) = int (card (dom m)) - 1"
proof -
  have "0 < card (dom m)" using assms by (auto simp: card_gt_0_iff)
  then show ?thesis using assms by (simp add: domIff card_Diff_singleton_if of_nat_diff)
qed

lemma fs_owned_context [simp]:
  "fs_owned (d\<lparr>fs_imp_context := c\<rparr>) = fs_owned d"
  "fs_objects_ok (d\<lparr>fs_imp_context := c\<rparr>) = fs_objects_ok d"
  by (simp_all add: fs_owned_def fs_objects_ok_def)

lemma fs_new_error_balanced:
  assumes "fs_objects_ok d"
    and "new_error_handle (linux_os debug) e p d w = (p', d', w')"
  shows "fs_balanced d w d' w'"
proof -
  have h: "fs_heap_ok d" using assms(1) by (simp add: fs_objects_ok_def)
  show ?thesis
    using assms fs_heap_ok_new(2) [OF h] fs_fresh_new [OF h]
    by (auto simp: new_error_handle_def linux_malloc fs_balanced_def fs_objects_ok_def fs_owned_def
        card_dom_new finite_dom_new simp del: dom_fun_upd split: if_splits)
qed

lemma fs_balanced_refl: "fs_objects_ok d \<Longrightarrow> linux_memory w' = linux_memory w \<Longrightarrow> fs_balanced d w d w'"
  by (simp add: fs_balanced_def linux_memory_def)

lemma fs_report_balanced:
  assumes "fs_objects_ok d"
  shows "ccapi_fs_set_internal_error (linux_os debug) i p d w = (p', d', w') \<Longrightarrow> fs_balanced d w d' w'"
    and "ccapi_fs_set_ccimp_error (linux_os debug) c p d w = (p', d', w') \<Longrightarrow> fs_balanced d w d' w'"
    and "report_status (linux_os debug) st c p d w = (p', d', w') \<Longrightarrow> fs_balanced d w d' w'"
  using assms
  by (auto simp: ccapi_fs_set_internal_error_def ccapi_fs_set_ccimp_error_def report_status_def
      split: ccimp_status_t.splits intro: fs_new_error_balanced fs_balanced_refl)

lemma fs_balanced_context [simp]:
  "fs_balanced d w (d'\<lparr>fs_imp_context := c\<rparr>) w' = fs_balanced d w d' w'"
  by (simp add: fs_balanced_def)

lemma fs_balanced_start:
  "fs_balanced d v d' w' \<Longrightarrow> linux_memory v = linux_memory w \<Longrightarrow> fs_balanced d w d' w'"
  by (simp add: fs_balanced_def linux_memory_def)

lemma fs_local_path_blocks:
  assumes "get_local_path_from_cloud_path (linux_os debug) d p w = Inr (r, b, w1)"
  shows "lx_blocks w1 = lx_blocks w + of_bool b \<and> lx_memory w \<le> Suc (lx_memory w1)
    \<and> (r = None \<longrightarrow> \<not> b)"
  using assms
  by (auto simp: get_local_path_from_cloud_path_def linux_malloc Let_def
      split: if_splits option.splits)

lemma fs_free_local_path_blocks:
  "lx_blocks (free_local_path (linux_os debug) b w) = lx_blocks w - of_bool b"
  by (simp add: free_local_path_def linux_free)

text \<open>The requests on a path: its block is allocated before and freed after the body.\<close>

lemma fs_balanced_path:
  assumes "lx_blocks w1 = lx_blocks w + of_bool b"
    and "fs_balanced d v d' w'" and "linux_memory v = linux_memory w1"
  shows "fs_balanced d w d' (free_local_path (linux_os debug) b w')"
  using assms by (simp add: fs_balanced_def fs_free_local_path_blocks linux_memory_def)

lemma fs_balanced_no_path:
  assumes "lx_blocks w1 = lx_blocks w"
    and "fs_balanced d v d' w'" and "linux_memory v = linux_memory w1"
  shows "fs_balanced d w d' (free_local_path (linux_os debug) False w')"
  using assms by (simp add: fs_balanced_def fs_free_local_path_blocks linux_memory_def)

lemma fs_wrap_balanced:
  assumes "fs_objects_ok d" and "2 \<le> lx_memory w"
    and "wrap_file_handle (linux_os debug) od q x d w = (x', d', w')"
  shows "fs_balanced d w d' w'"
proof -
  have h: "fs_heap_ok d" using assms(1) by (simp add: fs_objects_ok_def)
  show ?thesis
    using assms fs_heap_ok_new(1) [OF h] fs_fresh_new [OF h]
    by (auto simp: wrap_file_handle_def ccapi_strdup_def linux_malloc fs_balanced_def
        fs_objects_ok_def fs_owned_def card_dom_new finite_dom_new simp del: dom_fun_upd)
qed

lemma fs_delete_balanced:
  assumes "fs_balanced d w d' w'"
  shows "fs_files d' a \<noteq> None \<Longrightarrow> lx_blocks w2 = lx_blocks w' - 2
      \<Longrightarrow> fs_balanced d w (d'\<lparr>fs_files := (fs_files d')(a := None)\<rparr>) w2"
    and "fs_errors d' a \<noteq> None \<Longrightarrow> lx_blocks w2 = lx_blocks w' - 1
      \<Longrightarrow> fs_balanced d w (d'\<lparr>fs_errors := (fs_errors d')(a := None)\<rparr>) w2"
    and "fs_listings d' a \<noteq> None \<Longrightarrow> lx_blocks w2 = lx_blocks w' - 1
      \<Longrightarrow> fs_balanced d w (d'\<lparr>fs_listings := (fs_listings d')(a := None)\<rparr>) w2"
  using assms fs_heap_ok_delete [of d']
  by (simp_all add: fs_balanced_def fs_objects_ok_def fs_owned_def card_dom_delete del: dom_fun_upd)
    (simp_all add: finite_subset [of "dom (_(a := None))"])

subsection \<open>The requests keep the account\<close>

text \<open>
  What the layer and the user may do: anything that leaves the count of the blocks and the memory
  alone; and the state before the request.
\<close>

definition fs_memory_env :: "'m linux_scheme ccimp_fs \<Rightarrow> 'm linux_scheme fs_state \<Rightarrow> bool" where
  "fs_memory_env fs d \<longleftrightarrow>
     fs_layer_keeps linux_memory fs \<and> user_keeps linux_memory d \<and> fs_objects_ok d"

lemma fs_memory_envD:
  assumes "fs_memory_env fs d"
  shows "fs_layer_keeps linux_memory fs" "user_keeps linux_memory d" "fs_objects_ok d"
  using assms by (simp_all add: fs_memory_env_def)

lemma fs_balanced_handle_requests:
  assumes env: "fs_memory_env fs d"
  shows "ccapi_fs_file_read (linux_os debug) fs x1 d w = Inr (st, x1', d', w') \<Longrightarrow> fs_balanced d w d' w'"
    and "ccapi_fs_file_write (linux_os debug) fs x2 d w = Inr (st, x2', d', w') \<Longrightarrow> fs_balanced d w d' w'"
    and "ccapi_fs_file_seek (linux_os debug) fs x3 d w = Inr (st, x3', d', w') \<Longrightarrow> fs_balanced d w d' w'"
    and "ccapi_fs_file_truncate (linux_os debug) fs x4 d w = Inr (st, x4', d', w') \<Longrightarrow> fs_balanced d w d' w'"
proof -
  note [dest!] = fs_report_balanced(3) [OF fs_memory_envD(3) [OF env]]
    fs_layer_keeps_calls [OF fs_memory_envD(1) [OF env]]
  show "ccapi_fs_file_read (linux_os debug) fs x1 d w = Inr (st, x1', d', w') \<Longrightarrow> fs_balanced d w d' w'"
    by (auto simp: ccapi_fs_file_read_def Let_def split: prod.splits) (erule (1) fs_balanced_start)
  show "ccapi_fs_file_write (linux_os debug) fs x2 d w = Inr (st, x2', d', w') \<Longrightarrow> fs_balanced d w d' w'"
    by (auto simp: ccapi_fs_file_write_def Let_def split: prod.splits) (erule (1) fs_balanced_start)
  show "ccapi_fs_file_seek (linux_os debug) fs x3 d w = Inr (st, x3', d', w') \<Longrightarrow> fs_balanced d w d' w'"
    by (auto simp: ccapi_fs_file_seek_def Let_def split: prod.splits) (erule (1) fs_balanced_start)
  show "ccapi_fs_file_truncate (linux_os debug) fs x4 d w = Inr (st, x4', d', w') \<Longrightarrow> fs_balanced d w d' w'"
    by (auto simp: ccapi_fs_file_truncate_def Let_def split: prod.splits) (erule (1) fs_balanced_start)
qed

lemma fs_report_files:
  assumes "report_status os st c p d w = (p', d', w')" and "fs_heap_ok d"
  shows "fs_files d' = fs_files d \<and> fs_listings d' = fs_listings d
    \<and> (\<forall>a. fs_errors d a \<noteq> None \<longrightarrow> fs_errors d' a = fs_errors d a)"
  using assms fs_fresh_new(2) [OF assms(2)]
  by (auto simp: report_status_def ccapi_fs_set_ccimp_error_def new_error_handle_def
      split: ccimp_status_t.splits prod.splits bool.splits)

lemma fs_balanced_close:
  assumes env: "fs_memory_env fs d"
    and step: "ccapi_fs_file_close (linux_os debug) fs x d w = Inr (st, x', d', w')"
  shows "fs_balanced d w d' w'"
proof -
  obtain h where h: "load (fs_files d) (close_handle x) = Inr h"
    using step by (auto simp: ccapi_fs_file_close_def)
  then obtain a where a: "close_handle x = Some a" "fs_files d a = Some h"
    by (auto simp: load_def split: option.splits)
  obtain s od w1 where c: "ccimp_fs_file_close fs
      \<lparr>fclose_imp_context = fs_imp_context d, fclose_errnum = CCIMP_FILESYSTEM_ERRNUM_NONE,
       fclose_handle = handle_ccimp_handle h\<rparr> w = (s, od, w1)" by (rule prod_cases3)
  define w2 where "w2 = (if handle_request h \<in> {CCAPI_FS_REQUEST_READWRITE, CCAPI_FS_REQUEST_WRITE}
      then tell_changed d (handle_file_path h) CCAPI_FS_CHANGED_MODIFIED w1 else w1)"
  have m: "linux_memory w2 = linux_memory w"
    using fs_layer_keeps_calls(4) [OF fs_memory_envD(1) [OF env] c]
      user_keeps_calls(2) [OF fs_memory_envD(2) [OF env]] by (simp add: w2_def)
  obtain e d1 w3 where r: "report_status (linux_os debug) s (fclose_errnum od) (close_errnum x) d w2
      = (e, d1, w3)" by (rule prod_cases3)
  have b: "fs_balanced d w d1 w3"
    using fs_report_balanced(3) [OF fs_memory_envD(3) [OF env] r] m by (rule fs_balanced_start)
  have "fs_files d1 a \<noteq> None"
    using fs_report_files [OF r] a(2) env by (simp add: fs_memory_env_def fs_objects_ok_def)
  then have del: "fs_balanced d w (d1\<lparr>fs_files := (fs_files d1)(a := None)\<rparr>)
      (w3\<lparr>lx_blocks := lx_blocks w3 - 1 - 1\<rparr>)"
    by (intro fs_delete_balanced(1) [OF b]) simp_all
  have eq: "d' = (if s = CCIMP_STATUS_BUSY then d1 else d1\<lparr>fs_files := (fs_files d1)(a := None)\<rparr>)
        \<lparr>fs_imp_context := fclose_imp_context od\<rparr>"
      "w' = (if s = CCIMP_STATUS_BUSY then w3 else w3\<lparr>lx_blocks := lx_blocks w3 - 1 - 1\<rparr>)"
    using step by (auto simp: ccapi_fs_file_close_def a(1) h [unfolded a(1)] c r [unfolded w2_def]
        linux_free simp del: insert_iff)
  show ?thesis using b del unfolding eq fs_balanced_context by (simp split: if_split)
qed

lemma fs_balanced_path_requests:
  assumes env: "fs_memory_env fs d"
  shows "ccapi_fs_file_remove (linux_os debug) fs x1 d w = Inr (st, x1', d', w') \<Longrightarrow> fs_balanced d w d' w'"
    and "ccapi_fs_dir_open (linux_os debug) fs x2 d w = Inr (st, x2', d', w') \<Longrightarrow> fs_balanced d w d' w'"
    and "ccapi_fs_dir_entry_status (linux_os debug) fs x3 d w = Inr (st, x3', d', w') \<Longrightarrow> fs_balanced d w d' w'"
    and "ccapi_fs_hash_file (linux_os debug) fs x4 d w = Inr (st, x4', d', w') \<Longrightarrow> fs_balanced d w d' w'"
proof -
  note tell = user_keeps_calls(2) [OF fs_memory_envD(2) [OF env]]
  note [dest!] = fs_report_balanced(1,3) [OF fs_memory_envD(3) [OF env]]
    fs_layer_keeps_calls [OF fs_memory_envD(1) [OF env]]
    user_keeps_calls(1) [OF fs_memory_envD(2) [OF env]] fs_local_path_blocks
  note splits = prod.splits if_splits option.splits ccapi_fs_access_t.splits
  note path = fs_balanced_path [where debug = debug] fs_balanced_no_path [where debug = debug]
  show "ccapi_fs_file_remove (linux_os debug) fs x1 d w = Inr (st, x1', d', w') \<Longrightarrow> fs_balanced d w d' w'"
    by (auto simp: ccapi_fs_file_remove_def Let_def tell split: splits)
      (rule path, assumption, assumption, simp add: tell)+
  show "ccapi_fs_dir_open (linux_os debug) fs x2 d w = Inr (st, x2', d', w') \<Longrightarrow> fs_balanced d w d' w'"
    using fs_balanced_refl [OF fs_memory_envD(3) [OF env], of w w]
    by (auto simp: ccapi_fs_dir_open_def Let_def split: splits)
      (rule path, assumption, assumption, simp)+
  show "ccapi_fs_dir_entry_status (linux_os debug) fs x3 d w = Inr (st, x3', d', w') \<Longrightarrow> fs_balanced d w d' w'"
    using fs_balanced_refl [OF fs_memory_envD(3) [OF env], of w w]
    by (auto simp: ccapi_fs_dir_entry_status_def Let_def split: splits)
      (rule path, assumption, assumption, simp)+
  show "ccapi_fs_hash_file (linux_os debug) fs x4 d w = Inr (st, x4', d', w') \<Longrightarrow> fs_balanced d w d' w'"
    by (auto simp: ccapi_fs_hash_file_def Let_def split: splits)
      (rule path, assumption, assumption, simp)+
qed

lemma fs_balanced_stat:
  assumes env: "fs_memory_env fs d"
    and "ccapi_fs_hash_status (linux_os debug) fs linux_libc_malloc x d w = Inr (st, x', d', w')"
  shows "fs_balanced d w d' w'"
proof -
  note ok = fs_memory_envD(3) [OF env]
  have h: "fs_heap_ok d" using ok by (simp add: fs_objects_ok_def)
  have root: "stat_root linux_libc_malloc y d v = (s, y', d2, v') \<Longrightarrow> fs_balanced d v d2 v'" for y v s y' d2 v'
    using ok fs_heap_ok_new(3) [OF h] fs_fresh_new [OF h]
    by (auto simp: stat_root_def linux_libc_malloc_def linux_malloc fs_balanced_def fs_objects_ok_def
        fs_owned_def card_dom_new finite_dom_new simp del: dom_fun_upd split: if_splits)
  note [dest!] = fs_report_balanced [OF ok] fs_layer_keeps_calls [OF fs_memory_envD(1) [OF env]]
  have body: "stat_path_status (linux_os debug) fs p y d v = (s, y', d2, v') \<Longrightarrow> fs_balanced d v d2 v'"
    for p y v s y' d2 v'
    by (auto simp: stat_path_status_def Let_def split: prod.splits if_splits)
      ((erule fs_balanced_start, simp)+)
  note path = fs_balanced_path [where debug = debug] fs_balanced_no_path [where debug = debug]
  show ?thesis
    using assms(2)
    by (auto simp: ccapi_fs_hash_status_def split: prod.splits if_splits option.splits
        dest: root dest!: fs_local_path_blocks body)
      (rule path, assumption, assumption, simp)+
qed

lemma fs_balanced_open:
  assumes env: "fs_memory_env fs d" and mem: "3 \<le> lx_memory w"
    and "ccapi_fs_file_open (linux_os debug) fs ni x d w = Inr (st, x', d', w')"
  shows "fs_balanced d w d' w'"
proof -
  note ok = fs_memory_envD(3) [OF env]
  have wrap: "wrap_file_handle (linux_os debug) od q y (d\<lparr>fs_imp_context := c\<rparr>) v = (y', d2, v')
      \<Longrightarrow> 2 \<le> lx_memory v \<Longrightarrow> fs_balanced d v d2 v'" for od q y c v y' d2 v'
    using fs_wrap_balanced [of "d\<lparr>fs_imp_context := c\<rparr>" v debug od q y y' d2 v'] ok
    by (simp add: fs_balanced_def)
  have report: "report_status (linux_os debug) CCIMP_STATUS_OK c e d v = (e', d2, v')
      \<longleftrightarrow> e' = e \<and> d2 = d \<and> v' = v" for c e v e' d2 v'
    by (auto simp: report_status_def)
  note [dest!] = fs_report_balanced(1,3) [OF ok]
    fs_layer_keeps_calls [OF fs_memory_envD(1) [OF env]]
    user_keeps_calls(1) [OF fs_memory_envD(2) [OF env]] fs_local_path_blocks
  note path = fs_balanced_path [where debug = debug] fs_balanced_no_path [where debug = debug]
  have mem2: "linux_memory v = linux_memory w1 \<Longrightarrow> lx_memory w \<le> Suc (lx_memory w1) \<Longrightarrow> 2 \<le> lx_memory v"
    for v w1 :: "'m linux_scheme" using mem by (simp add: linux_memory_def)
  show ?thesis
    using assms(3)
    by (auto simp: ccapi_fs_file_open_def Let_def report
        split: prod.splits if_splits option.splits ccapi_fs_access_t.splits)
      ((rule path, assumption, (assumption | erule wrap), (erule (1) mem2 | simp)+)+)
qed

lemma read_root_entry_balanced:
  assumes "read_root_entry x d = Inr (x', d')" and "fs_objects_ok d"
  shows "fs_balanced d w d' w"
proof -
  have same: "fs_balanced d w (d\<lparr>fs_listings := (fs_listings d)(a \<mapsto> n)\<rparr>) w"
    if "fs_listings d a = Some l" for a n l
  proof -
    have "dom ((fs_listings d)(a \<mapsto> n)) = dom (fs_listings d)" using that by auto
    then show ?thesis
      using assms(2) fs_heap_ok_listing [of d a n] that
      by (simp add: fs_balanced_def fs_objects_ok_def fs_owned_def del: dom_fun_upd)
  qed
  show ?thesis
    using assms fs_balanced_refl [OF assms(2), of w w]
    by (auto simp: read_root_entry_def load_def Let_def same split: option.splits if_splits)
qed

lemma fs_balanced_directory_requests:
  assumes env: "fs_memory_env fs d"
  shows "ccapi_fs_dir_read_entry (linux_os debug) fs x1 d w = Inr (st, x1', d', w') \<Longrightarrow> fs_balanced d w d' w'"
    and "ccapi_fs_dir_close (linux_os debug) fs x2 d w = Inr (st, x2', d', w') \<Longrightarrow> fs_balanced d w d' w'"
proof -
  note ok = fs_memory_envD(3) [OF env]
  note [dest!] = fs_report_balanced(3) [OF ok] fs_layer_keeps_calls [OF fs_memory_envD(1) [OF env]]
  show "ccapi_fs_dir_read_entry (linux_os debug) fs x1 d w = Inr (st, x1', d', w') \<Longrightarrow> fs_balanced d w d' w'"
    by (auto simp: ccapi_fs_dir_read_entry_def Let_def split: prod.splits if_splits
        dest: read_root_entry_balanced [OF _ ok]) (erule (1) fs_balanced_start)
  have "fs_balanced d w (d\<lparr>fs_listings := (fs_listings d)(a := None)\<rparr>) (w\<lparr>lx_blocks := lx_blocks w - 1\<rparr>)"
    if "fs_listings d a \<noteq> None" for a
    using fs_delete_balanced(3) [OF fs_balanced_refl [OF ok refl] that] by simp
  then show "ccapi_fs_dir_close (linux_os debug) fs x2 d w = Inr (st, x2', d', w') \<Longrightarrow> fs_balanced d w d' w'"
    by (auto simp: ccapi_fs_dir_close_def Let_def linux_free split: prod.splits if_splits option.splits)
      (erule (1) fs_balanced_start)
qed

lemma fs_balanced_error_desc:
  assumes env: "fs_memory_env fs d"
    and "ccapi_fs_error_desc (linux_os debug) fs x d w = Inr (st, x', d', w')"
  shows "fs_balanced d w d' w'"
proof -
  note ok = fs_memory_envD(3) [OF env]
  note calls [dest!] = fs_layer_keeps_calls [OF fs_memory_envD(1) [OF env]]
  have del: "fs_balanced d w (d\<lparr>fs_imp_context := c, fs_errors := (fs_errors d)(a := None)\<rparr>)
      (v\<lparr>lx_blocks := lx_blocks v - 1\<rparr>)"
    if "fs_errors d a = Some e" "linux_memory v = linux_memory w" for a c e v
    using fs_delete_balanced(2) [of d w "d\<lparr>fs_imp_context := c\<rparr>" v a "v\<lparr>lx_blocks := lx_blocks v - 1\<rparr>"]
      fs_balanced_refl [OF ok that(2)] that(1) by simp
  have del0: "fs_balanced d w (d\<lparr>fs_errors := (fs_errors d)(a := None)\<rparr>)
      (w\<lparr>lx_blocks := lx_blocks w - 1\<rparr>)" if "fs_errors d a = Some e" for a e
    using del [OF that refl, of "fs_imp_context d"] by simp
  show ?thesis
    using assms(2)
    by (auto simp: ccapi_fs_error_desc_def Let_def linux_free load_def
        split: prod.splits ccapi_fs_error_handle_t.splits option.splits intro: del del0)
qed

lemma fs_balanced_session_error:
  assumes env: "fs_memory_env fs d" and "ccapi_fs_session_error fs x d w = (st, d', w')"
  shows "fs_balanced d w d' w'"
  using assms(2) fs_balanced_refl [OF fs_memory_envD(3) [OF env]]
  by (auto simp: ccapi_fs_session_error_def Let_def split: prod.splits
      dest!: fs_layer_keeps_calls [OF fs_memory_envD(1) [OF env]])

definition is_open_request :: "filesystem_request \<Rightarrow> bool" where
  "is_open_request request =
     (case request of connector_request_id_file_system_open _ \<Rightarrow> True | _ \<Rightarrow> False)"

lemma fs_dispatch_balanced:
  assumes env: "fs_memory_env fs d" and "is_open_request request \<Longrightarrow> 3 \<le> lx_memory w"
    and "filesystem_dispatch (linux_os debug) fs linux_libc_malloc ni request d w
           = Inr (st, request', d', w')"
  shows "fs_balanced d w d' w'"
  using assms(2,3)
  by (cases request)
    (auto simp: filesystem_dispatch_def answer_with_Inr is_open_request_def split: prod.splits
      dest: fs_balanced_open [OF env] fs_balanced_handle_requests [OF env] fs_balanced_close [OF env]
        fs_balanced_path_requests [OF env] fs_balanced_stat [OF env] fs_balanced_directory_requests [OF env]
        fs_balanced_error_desc [OF env] fs_balanced_session_error [OF env])

lemma linux_lock_memory:
  "ccapi_lock_acquire (linux_os debug) l w = (s, w') \<Longrightarrow> linux_memory w' = linux_memory w"
  "ccapi_lock_release (linux_os debug) l w = (s, w') \<Longrightarrow> linux_memory w' = linux_memory w"
  by (auto simp: ccapi_lock_acquire_def ccapi_lock_release_def ccimp_os_lock_acquire_def
      ccimp_os_lock_release_def linux_memory_def
      split: option.splits nat.splits if_splits prod.splits ccimp_status_t.splits)

lemma fs_balanced_end:
  "fs_balanced d w d' w' \<Longrightarrow> linux_memory w2 = linux_memory w' \<Longrightarrow> fs_balanced d w d' w2"
  by (simp add: fs_balanced_def linux_memory_def)

lemma fs_handler_balanced:
  assumes env: "fs_memory_env fs d" and mem: "is_open_request request \<Longrightarrow> 3 \<le> lx_memory w"
    and "ccapi_filesystem_handler (linux_os debug) fs linux_libc_malloc ni request d w
           = Inr (st, request', d', w')"
  shows "fs_balanced d w d' w'"
proof -
  obtain s w1 where a: "ccapi_lock_acquire (linux_os debug) (fs_lock d) w = (s, w1)" by fastforce
  have m: "linux_memory w1 = linux_memory w" using linux_lock_memory(1) [OF a] .
  show ?thesis
  proof (cases "s = CCIMP_STATUS_OK")
    case True
    then obtain s2 w2 s3 where
      d: "filesystem_dispatch (linux_os debug) fs linux_libc_malloc ni request d w1 = Inr (s2, request', d', w2)"
      and r: "ccapi_lock_release (linux_os debug) (fs_lock d') w2 = (s3, w')"
      using assms(3) a by (auto simp: ccapi_filesystem_handler_def Let_def split: prod.splits)
    have "fs_balanced d w1 d' w2"
      using fs_dispatch_balanced [OF env _ d] mem m by (simp add: linux_memory_def)
    then show ?thesis
      using fs_balanced_start [OF _ m] fs_balanced_end [OF _ linux_lock_memory(2) [OF r]] by blast
  next
    case False
    then have "d' = d" "w' = w1"
      using assms(3) a by (auto simp: ccapi_filesystem_handler_def split: ccimp_status_t.splits)
    then show ?thesis using fs_balanced_refl [OF fs_memory_envD(3) [OF env] m] by simp
  qed
qed

subsection \<open>Live handles\<close>

text \<open>The other requests leave the file handle at an address that was given out as it is.\<close>

definition keeps_file :: "nat \<Rightarrow> 'w fs_state \<Rightarrow> 'w fs_state \<Rightarrow> bool" where
  "keeps_file a d d' \<longleftrightarrow>
     (a < fs_fresh d \<longrightarrow> fs_files d' a = fs_files d a \<and> fs_fresh d \<le> fs_fresh d')"

definition closes_file :: "nat \<Rightarrow> filesystem_request \<Rightarrow> bool" where
  "closes_file a request =
     (case request of
        connector_request_id_file_system_close x \<Rightarrow> close_handle x = Some a
      | _ \<Rightarrow> False)"

lemma keeps_file_simps [simp]:
  "keeps_file a d d" "keeps_file a d (d'\<lparr>fs_imp_context := c\<rparr>) = keeps_file a d d'"
  "keeps_file a (d\<lparr>fs_imp_context := c\<rparr>) d' = keeps_file a d d'"
  "keeps_file a d (d'\<lparr>fs_errors := es\<rparr>) = keeps_file a d d'"
  "keeps_file a d (d'\<lparr>fs_listings := ls\<rparr>) = keeps_file a d d'"
  by (simp_all add: keeps_file_def)

lemma keeps_file_trans: "keeps_file a d d1 \<Longrightarrow> keeps_file a d1 d2 \<Longrightarrow> keeps_file a d d2"
  by (auto simp: keeps_file_def)

lemma report_keeps_file:
  shows "report_status os st c p d w = (p', d', w') \<Longrightarrow> keeps_file a d d'"
    and "ccapi_fs_set_internal_error os i p d w = (p', d', w') \<Longrightarrow> keeps_file a d d'"
    and "ccapi_fs_set_ccimp_error os c p d w = (p', d', w') \<Longrightarrow> keeps_file a d d'"
    and "wrap_file_handle os od r x d w = (x', d', w') \<Longrightarrow> keeps_file a d d'"
  by (auto simp: report_status_def ccapi_fs_set_internal_error_def ccapi_fs_set_ccimp_error_def
      new_error_handle_def wrap_file_handle_def keeps_file_def
      split: ccimp_status_t.splits prod.splits bool.splits option.splits)

lemma file_requests_keep_file:
  shows "ccapi_fs_file_open os fs ni x1 d w = Inr (st, x1', d', w') \<Longrightarrow> keeps_file a d d'"
    and "ccapi_fs_file_read os fs x2 d w = Inr (st, x2', d', w') \<Longrightarrow> keeps_file a d d'"
    and "ccapi_fs_file_write os fs x3 d w = Inr (st, x3', d', w') \<Longrightarrow> keeps_file a d d'"
    and "ccapi_fs_file_seek os fs x4 d w = Inr (st, x4', d', w') \<Longrightarrow> keeps_file a d d'"
    and "ccapi_fs_file_truncate os fs x5 d w = Inr (st, x5', d', w') \<Longrightarrow> keeps_file a d d'"
    and "ccapi_fs_file_remove os fs x6 d w = Inr (st, x6', d', w') \<Longrightarrow> keeps_file a d d'"
proof -
  note [dest!] = report_keeps_file [where a = a]
  note splits = prod.splits if_splits option.splits ccapi_fs_access_t.splits
  show "ccapi_fs_file_open os fs ni x1 d w = Inr (st, x1', d', w') \<Longrightarrow> keeps_file a d d'"
    by (auto simp: ccapi_fs_file_open_def Let_def split: splits) (blast intro: keeps_file_trans)+
  show "ccapi_fs_file_read os fs x2 d w = Inr (st, x2', d', w') \<Longrightarrow> keeps_file a d d'"
    by (auto simp: ccapi_fs_file_read_def Let_def split: splits)
  show "ccapi_fs_file_write os fs x3 d w = Inr (st, x3', d', w') \<Longrightarrow> keeps_file a d d'"
    by (auto simp: ccapi_fs_file_write_def Let_def split: splits)
  show "ccapi_fs_file_seek os fs x4 d w = Inr (st, x4', d', w') \<Longrightarrow> keeps_file a d d'"
    by (auto simp: ccapi_fs_file_seek_def Let_def split: splits)
  show "ccapi_fs_file_truncate os fs x5 d w = Inr (st, x5', d', w') \<Longrightarrow> keeps_file a d d'"
    by (auto simp: ccapi_fs_file_truncate_def Let_def split: splits)
  show "ccapi_fs_file_remove os fs x6 d w = Inr (st, x6', d', w') \<Longrightarrow> keeps_file a d d'"
    by (auto simp: ccapi_fs_file_remove_def Let_def split: splits)
qed

lemma close_keeps_file:
  assumes "ccapi_fs_file_close os fs x d w = Inr (st, x', d', w')"
    and "close_handle x \<noteq> Some a"
  shows "keeps_file a d d'"
proof -
  have del: "keeps_file a d (d1\<lparr>fs_files := (fs_files d1)(b := None)\<rparr>)"
    if "keeps_file a d d1" "close_handle x = Some b" for d1 b
    using that assms(2) by (auto simp: keeps_file_def)
  have "close_handle x \<noteq> None"
    using assms(1) by (auto simp: ccapi_fs_file_close_def load_def split: option.splits)
  then show ?thesis
    using assms(1)
    by (auto simp: ccapi_fs_file_close_def Let_def del split: prod.splits if_splits
        dest!: report_keeps_file [where a = a])
qed

lemma directory_requests_keep_file:
  shows "ccapi_fs_dir_open os fs x1 d w = Inr (st, x1', d', w') \<Longrightarrow> keeps_file a d d'"
    and "ccapi_fs_dir_read_entry os fs x2 d w = Inr (st, x2', d', w') \<Longrightarrow> keeps_file a d d'"
    and "ccapi_fs_dir_entry_status os fs x3 d w = Inr (st, x3', d', w') \<Longrightarrow> keeps_file a d d'"
    and "ccapi_fs_dir_close os fs x4 d w = Inr (st, x4', d', w') \<Longrightarrow> keeps_file a d d'"
    and "ccapi_fs_hash_status os fs libc x5 d w = Inr (st, x5', d', w') \<Longrightarrow> keeps_file a d d'"
    and "ccapi_fs_hash_file os fs x6 d w = Inr (st, x6', d', w') \<Longrightarrow> keeps_file a d d'"
    and "ccapi_fs_error_desc os fs x7 d w = Inr (st, x7', d', w') \<Longrightarrow> keeps_file a d d'"
    and "ccapi_fs_session_error fs x8 d w = (st, d', w') \<Longrightarrow> keeps_file a d d'"
proof -
  note [dest!] = report_keeps_file(1,2,3) [where a = a]
  note splits = prod.splits if_splits option.splits ccapi_fs_access_t.splits
  show "ccapi_fs_dir_open os fs x1 d w = Inr (st, x1', d', w') \<Longrightarrow> keeps_file a d d'"
    by (auto simp: ccapi_fs_dir_open_def Let_def split: splits)
  have "read_root_entry x2 d = Inr (x2', d') \<Longrightarrow> keeps_file a d d'" for x2 x2' d'
    by (auto simp: read_root_entry_def load_def Let_def split: splits)
  then show "ccapi_fs_dir_read_entry os fs x2 d w = Inr (st, x2', d', w') \<Longrightarrow> keeps_file a d d'"
    by (auto simp: ccapi_fs_dir_read_entry_def Let_def split: splits)
  show "ccapi_fs_dir_entry_status os fs x3 d w = Inr (st, x3', d', w') \<Longrightarrow> keeps_file a d d'"
    by (auto simp: ccapi_fs_dir_entry_status_def Let_def split: splits)
  show "ccapi_fs_dir_close os fs x4 d w = Inr (st, x4', d', w') \<Longrightarrow> keeps_file a d d'"
    by (auto simp: ccapi_fs_dir_close_def Let_def split: splits)
  have "stat_root libc x5 d w = (st, x5', d', w') \<Longrightarrow> keeps_file a d d'" for x5 st x5' d' w'
    by (auto simp: stat_root_def keeps_file_def split: prod.splits bool.splits)
  moreover have "stat_path_status os fs p x5 d v = (st, x5', d', w') \<Longrightarrow> keeps_file a d d'" for p x5 v st x5' d' w'
    by (auto simp: stat_path_status_def Let_def split: splits)
  ultimately show "ccapi_fs_hash_status os fs libc x5 d w = Inr (st, x5', d', w') \<Longrightarrow> keeps_file a d d'"
    by (auto simp: ccapi_fs_hash_status_def split: splits)
  show "ccapi_fs_hash_file os fs x6 d w = Inr (st, x6', d', w') \<Longrightarrow> keeps_file a d d'"
    by (auto simp: ccapi_fs_hash_file_def Let_def split: splits)
  show "ccapi_fs_error_desc os fs x7 d w = Inr (st, x7', d', w') \<Longrightarrow> keeps_file a d d'"
    by (auto simp: ccapi_fs_error_desc_def Let_def split: splits ccapi_fs_error_handle_t.splits)
  show "ccapi_fs_session_error fs x8 d w = (st, d', w') \<Longrightarrow> keeps_file a d d'"
    by (auto simp: ccapi_fs_session_error_def Let_def split: splits)
qed

lemma handler_keeps_file:
  assumes "ccapi_filesystem_handler os fs libc ni request d w = Inr (st, request', d', w')"
    and "\<not> closes_file a request"
  shows "keeps_file a d d'"
proof -
  have "filesystem_dispatch os fs libc ni request d v = Inr (s, r, d2, v') \<Longrightarrow> keeps_file a d d2" for v s r d2 v'
    using assms(2)
    by (cases request)
      (auto simp: filesystem_dispatch_def answer_with_Inr closes_file_def split: prod.splits
        dest: file_requests_keep_file close_keeps_file directory_requests_keep_file)
  then show ?thesis
    using assms(1)
    by (auto simp: ccapi_filesystem_handler_def Let_def split: prod.splits ccimp_status_t.splits)
qed

text \<open>Requests of the connector one after the other.\<close>

primrec fs_run ::
  "'w os \<Rightarrow> 'w ccimp_fs \<Rightarrow> ('w \<Rightarrow> bool \<times> 'w) \<Rightarrow> ptr \<Rightarrow> filesystem_request list \<Rightarrow> 'w fs_state \<Rightarrow> 'w
     \<Rightarrow> ('w fs_state \<times> 'w) ub" where
  "fs_run os fs libc ni [] d w = Inr (d, w)"
| "fs_run os fs libc ni (x # xs) d w =
     ub_bind (ccapi_filesystem_handler os fs libc ni x d w)
       (\<lambda>(_, _, d', w'). fs_run os fs libc ni xs d' w')"

lemma fs_run_keeps_file:
  assumes "fs_run os fs libc ni xs d w = Inr (d', w')" and "list_all (\<lambda>x. \<not> closes_file a x) xs"
  shows "keeps_file a d d'"
  using assms
proof (induction xs arbitrary: d w)
  case (Cons x xs)
  then obtain st r d1 w1 where h: "ccapi_filesystem_handler os fs libc ni x d w = Inr (st, r, d1, w1)"
    and "fs_run os fs libc ni xs d1 w1 = Inr (d', w')" by auto
  then show ?case using Cons handler_keeps_file [OF h] by (auto intro: keeps_file_trans)
qed simp

text \<open>A handle that is gone stays gone: a close of it would be a use after free.\<close>

lemma fs_run_dead_file:
  assumes "fs_run os fs libc ni xs d w = Inr (d', w')" and "fs_files d a = None" and "a < fs_fresh d"
  shows "fs_files d' a = None"
  using assms
proof (induction xs arbitrary: d w)
  case (Cons x xs)
  then obtain st r d1 w1 where h: "ccapi_filesystem_handler os fs libc ni x d w = Inr (st, r, d1, w1)"
    and rest: "fs_run os fs libc ni xs d1 w1 = Inr (d', w')" by auto
  have "keeps_file a d d1"
  proof (cases "closes_file a x")
    case True
    then have "filesystem_dispatch os fs libc ni x d v = Inl Use_After_Free" for v
      using Cons.prems(2)
      by (cases x) (auto simp: closes_file_def filesystem_dispatch_def answer_with_def
          ccapi_fs_file_close_def load_def)
    then have "d1 = d"
      using h by (auto simp: ccapi_filesystem_handler_def split: prod.splits ccimp_status_t.splits)
    then show ?thesis by simp
  qed (rule handler_keeps_file [OF h])
  then show ?case using Cons.IH [OF rest] Cons.prems(2,3) by (simp add: keeps_file_def)
qed simp
end
