(* ===== verification/FileServiceClaims.thy ===== *)
theory FileServiceClaims
  imports FileServiceMemory
begin

text \<open>
  The properties of the file system service as a whole: its handler, and the life of the objects
  it hands to the connector.
\<close>

subsection \<open>The handler\<close>

text \<open>
  C8. Whatever the request, the handler leaves the file system lock as free as it found it, over
  the Linux layer, as long as the file system layer, the callbacks and malloc leave that lock
  alone; its answer is the status of the request, translated.
\<close>

theorem filesystem_handler_keeps_lock:
  fixes w :: "'m linux_scheme"
  assumes "fs_lock d = Some l" and "lx_sems w l = Some (Suc n)"
    and "fs_layer_keeps (linux_tokens l) fs" and "user_keeps (linux_tokens l) d"
    and "libc_keeps (linux_tokens l) libc_malloc"
    and "ccapi_filesystem_handler (linux_os debug) fs libc_malloc ni request d w
           = Inr (st, request', d', w')"
  shows "lx_sems w' l = Some (Suc n)
    \<and> (\<exists>w1 s w2. filesystem_dispatch (linux_os debug) fs libc_malloc ni request d w1
           = Inr (s, request', d', w2)
         \<and> st = connector_callback_status_from_ccimp_status s)"
  using lx.handler_balanced [OF assms(1) _ assms(3-6)] assms(2) by (simp add: linux_tokens_def)

definition example_request :: filesystem_request where
  "example_request = connector_request_id_file_system_opendir
     \<lparr>opendir_user_context = Some 5, opendir_path = ''/'', opendir_handle = None,
      opendir_errnum = None\<rparr>"

lemma example_fs_keeps [simp]: "fs_layer_keeps f example_fs"
  by (simp add: fs_layer_keeps_def example_fs_def)

lemma example_user_keeps [simp]: "user_keeps f example_state"
  by (simp add: user_keeps_def example_state_def)

theorem filesystem_handler_keeps_lock_witness:
  "\<exists>st r d' w'. ccapi_filesystem_handler (linux_os False) example_fs (\<lambda>w. (True, w)) None
       example_request example_state example_linux = Inr (st, r, d', w')
     \<and> lx_sems w' 1 = Some 1"
proof -
  obtain st r d' w' where h: "ccapi_filesystem_handler (linux_os False) example_fs (\<lambda>w. (True, w)) None
       example_request example_state example_linux = Inr (st, r, d', w')"
    by (simp add: ccapi_filesystem_handler_def example_state_def linux_acquire linux_release
        example_linux_def filesystem_dispatch_def example_request_def answer_with_def
        ccapi_fs_dir_open_def)
  then show ?thesis
    using filesystem_handler_keeps_lock [OF _ _ _ _ _ h, of 1 0]
    by (simp add: example_state_def example_linux_def libc_keeps_def user_keeps_def)
qed




subsection \<open>File handles\<close>

lemma wrap_file_handle_holds:
  assumes "\<And>req v. fst (ccapi_malloc os req v)"
    and "wrap_file_handle os od q y d v = (y', d', v')"
  shows "open_handle y' = Some (fs_fresh d) \<and> fs_fresh d' = Suc (fs_fresh d)
    \<and> (\<exists>h. fs_files d' (fs_fresh d) = Some h \<and> handle_request h = q
         \<and> handle_ccimp_handle h = fopen_handle od)"
proof -
  have "\<exists>p w'. ccapi_strdup os s v = (Some p, w')" for s v
    using assms(1) [of "Bytes (length s + 1)" v] by (cases "ccapi_malloc os (Bytes (length s + 1)) v")
      (simp add: ccapi_strdup_def)
  from this [of "fopen_path od" "snd (ccapi_malloc os (Sizeof ''ccapi_fs_file_handle_t'') v)"]
  show ?thesis
    using assms(2) assms(1) [of "Sizeof ''ccapi_fs_file_handle_t''" v]
    by (auto simp: wrap_file_handle_def split: prod.splits bool.splits option.splits)
qed

lemma file_open_OK:
  assumes "ccapi_fs_file_open os fs ni x d w = Inr (CCIMP_STATUS_OK, x', d1, w1)"
  obtains path b v v2 v3 od y c d3 where
    "get_local_path_from_cloud_path os d (open_path x) w = Inr (Some path, b, v)"
    and "ccimp_fs_file_open fs
           \<lparr>fopen_imp_context = fs_imp_context d, fopen_errnum = CCIMP_FILESYSTEM_ERRNUM_NONE,
            fopen_path = path, fopen_flags = open_oflag x,
            fopen_handle = CCIMP_FILESYSTEM_FILE_HANDLE_NOT_INITIALIZED\<rparr> v2
         = (CCIMP_STATUS_OK, od, v3)"
    and "wrap_file_handle os od (request_of_flags (open_oflag x)) y (d\<lparr>fs_imp_context := c\<rparr>) v3
           = (x', d1, d3)"
  using assms
  by (auto simp: ccapi_fs_file_open_def Let_def report_status_def
      split: prod.splits option.splits if_splits ccapi_fs_access_t.splits)

text \<open>
  What it means that the connector's handle \<open>a\<close> stands for the layer's handle \<open>h\<close>: every read,
  write and seek through it is one call of the layer's function on \<open>h\<close>, with the buffer, the
  sizes and the offsets of the connector, and its status, its data, its count and its offset are
  what the connector gets. And what it means that it is dead: each of them would read the freed
  structure.
\<close>

definition file_stands_for :: "'w os \<Rightarrow> 'w ccimp_fs \<Rightarrow> nat \<Rightarrow> ccimp_fs_file_handle_t \<Rightarrow> 'w fs_state \<Rightarrow> bool" where
  "file_stands_for os fs a h d \<longleftrightarrow>
     (\<forall>x v. read_handle x = Some a \<longrightarrow>
        (case ccimp_fs_file_read fs
            \<lparr>fread_imp_context = fs_imp_context d, fread_errnum = CCIMP_FILESYSTEM_ERRNUM_NONE,
             fread_handle = h, fread_buffer = read_buffer x,
             fread_bytes_available = read_bytes_available x, fread_bytes_used = 0\<rparr> v of
           (st, r, v1) \<Rightarrow>
             \<exists>e d' v2. ccapi_fs_file_read os fs x d v =
               Inr (st, x\<lparr>read_errnum := e, read_buffer := fread_buffer r,
                         read_bytes_used := fread_bytes_used r\<rparr>, d', v2)
               \<and> (st = CCIMP_STATUS_OK \<longrightarrow> v2 = v1)))
     \<and> (\<forall>x v. write_handle x = Some a \<longrightarrow>
        (case ccimp_fs_file_write fs
            \<lparr>fwrite_imp_context = fs_imp_context d, fwrite_errnum = CCIMP_FILESYSTEM_ERRNUM_NONE,
             fwrite_handle = h, fwrite_buffer = write_buffer x,
             fwrite_bytes_available = write_bytes_available x, fwrite_bytes_used = 0\<rparr> v of
           (st, r, v1) \<Rightarrow>
             \<exists>e d' v2. ccapi_fs_file_write os fs x d v =
               Inr (st, x\<lparr>write_errnum := e, write_bytes_used := fwrite_bytes_used r\<rparr>, d', v2)
               \<and> (st = CCIMP_STATUS_OK \<longrightarrow> v2 = v1)))
     \<and> (\<forall>x v. lseek_handle x = Some a \<longrightarrow>
        (case ccimp_fs_file_seek fs
            \<lparr>fseek_imp_context = fs_imp_context d, fseek_errnum = CCIMP_FILESYSTEM_ERRNUM_NONE,
             fseek_handle = h, fseek_requested_offset = lseek_requested_offset x,
             fseek_resulting_offset = 0,
             fseek_origin = ccimp_seek_origin_from_ccfsm_seek_origin (lseek_origin x)\<rparr> v of
           (st, r, v1) \<Rightarrow>
             \<exists>e d' v2. ccapi_fs_file_seek os fs x d v =
               Inr (st, x\<lparr>lseek_errnum := e, lseek_resulting_offset := fseek_resulting_offset r\<rparr>, d', v2)
               \<and> (st = CCIMP_STATUS_OK \<longrightarrow> v2 = v1)))"

definition file_is_dead :: "'w os \<Rightarrow> 'w ccimp_fs \<Rightarrow> nat \<Rightarrow> 'w fs_state \<Rightarrow> bool" where
  "file_is_dead os fs a d \<longleftrightarrow>
     (\<forall>x v. read_handle x = Some a \<longrightarrow> ccapi_fs_file_read os fs x d v = Inl Use_After_Free)
     \<and> (\<forall>x v. write_handle x = Some a \<longrightarrow> ccapi_fs_file_write os fs x d v = Inl Use_After_Free)
     \<and> (\<forall>x v. lseek_handle x = Some a \<longrightarrow> ccapi_fs_file_seek os fs x d v = Inl Use_After_Free)"

lemma live_file_stands_for:
  assumes "fs_files d a = Some h"
  shows "file_stands_for os fs a (handle_ccimp_handle h) d"
  using assms
  by (auto simp: file_stands_for_def ccapi_fs_file_read_def ccapi_fs_file_write_def
      ccapi_fs_file_seek_def load_def report_status_def Let_def split: prod.split)

lemma freed_file_is_dead: "fs_files d a = None \<Longrightarrow> file_is_dead os fs a d"
  by (auto simp: file_is_dead_def ccapi_fs_file_read_def ccapi_fs_file_write_def
      ccapi_fs_file_seek_def load_def)

lemma file_close_outcome:
  assumes "ccapi_fs_file_close os fs c d w = Inr (st, c', d', w')" and "close_handle c = Some a"
    and "fs_files d a = Some h" and "a < fs_fresh d"
  shows "a < fs_fresh d' \<and> (if st = CCIMP_STATUS_BUSY then fs_files d' a = Some h else fs_files d' a = None)"
proof -
  have "load (fs_files d) (Some a) = Inr h" using assms(3) by (simp add: load_def)
  then show ?thesis
    using assms
    by (auto simp: ccapi_fs_file_close_def Let_def keeps_file_def split: prod.splits if_splits
        dest!: report_keeps_file [where a = a])
qed

text \<open>
  C10. A file from open to close. When open answers OK and malloc succeeds, the connector holds a
  handle at an address no live object has, which stands for the handle the layer gave for the
  translated path and the flags. After any further requests through the handler, except a close
  of this handle, it still does: reads, writes and seeks through it are calls of the layer on that
  handle. A close that is busy leaves it so; after any other close, and any requests that follow,
  whatever files they open, a read, write or seek through it is a use after free.
\<close>

theorem file_handle_lifecycle:
  assumes "fs_heap_ok d" and "\<And>req v. fst (ccapi_malloc os req v)"
    and "ccapi_fs_file_open os fs ni x d w = Inr (CCIMP_STATUS_OK, x', d1, w1)"
    and "fs_run os fs libc ni requests d1 w1 = Inr (d2, w2)"
    and "list_all (\<lambda>r. \<not> closes_file (the (open_handle x')) r) requests"
    and "close_handle c = open_handle x'"
    and "ccapi_fs_file_close os fs c d2 w2 = Inr (st, c', d3, w3)"
    and "fs_run os fs libc ni later d3 w3 = Inr (d4, w4)"
  shows "\<exists>a path b v q v2 od v3. open_handle x' = Some a
      \<and> fs_files d a = None \<and> fs_errors d a = None \<and> fs_listings d a = None
      \<and> get_local_path_from_cloud_path os d (open_path x) w = Inr (Some path, b, v)
      \<and> ccimp_fs_file_open fs q v2 = (CCIMP_STATUS_OK, od, v3)
      \<and> fopen_path q = path \<and> fopen_flags q = open_oflag x
      \<and> file_stands_for os fs a (fopen_handle od) d2
      \<and> (if st = CCIMP_STATUS_BUSY then file_stands_for os fs a (fopen_handle od) d3
         else file_is_dead os fs a d3 \<and> file_is_dead os fs a d4)"
proof -
  obtain path b v v2 v3 od y c0 v4 where
    o: "get_local_path_from_cloud_path os d (open_path x) w = Inr (Some path, b, v)"
    "ccimp_fs_file_open fs
       \<lparr>fopen_imp_context = fs_imp_context d, fopen_errnum = CCIMP_FILESYSTEM_ERRNUM_NONE,
        fopen_path = path, fopen_flags = open_oflag x,
        fopen_handle = CCIMP_FILESYSTEM_FILE_HANDLE_NOT_INITIALIZED\<rparr> v2
     = (CCIMP_STATUS_OK, od, v3)"
    "wrap_file_handle os od (request_of_flags (open_oflag x)) y (d\<lparr>fs_imp_context := c0\<rparr>) v3
       = (x', d1, v4)"
    using file_open_OK [OF assms(3)] .
  define a where "a = fs_fresh d"
  obtain h where a: "open_handle x' = Some a" "a < fs_fresh d1" "fs_files d1 a = Some h"
    and h: "handle_ccimp_handle h = fopen_handle od"
    using wrap_file_handle_holds [OF assms(2) o(3)] by (auto simp: a_def)
  have live: "fs_files d2 a = Some h" "a < fs_fresh d2"
    using fs_run_keeps_file [OF assms(4), of a] assms(5) a by (auto simp: keeps_file_def)
  have close: "a < fs_fresh d3"
    "if st = CCIMP_STATUS_BUSY then fs_files d3 a = Some h else fs_files d3 a = None"
    using file_close_outcome [OF assms(7) _ live] assms(6) a(1) by simp_all
  have "if st = CCIMP_STATUS_BUSY then file_stands_for os fs a (fopen_handle od) d3
        else file_is_dead os fs a d3 \<and> file_is_dead os fs a d4"
    using close live_file_stands_for [of d3 a h os fs] freed_file_is_dead fs_run_dead_file [OF assms(8)] h
    by (auto split: if_splits)
  then show ?thesis
    using a(1) o(1,2) live_file_stands_for [OF live(1), of os fs] fs_fresh_new [OF assms(1)]
    unfolding h a_def by (metis ccimp_fs_file_open_t.select_convs(3,4))
qed

text \<open>Open, a read through the handler, close, and an open of another file.\<close>

definition ex_opened :: "ccimp_status_t \<times> connector_file_system_open_t \<times> unit fs_state \<times> unit" where
  "ex_opened = projr (ccapi_fs_file_open example_os example_fs None example_open example_state ())"

definition ex_read :: connector_file_system_read_t where
  "ex_read = \<lparr>read_handle = Some 0, read_buffer = [None], read_bytes_available = 1,
              read_bytes_used = 0, read_errnum = None\<rparr>"

definition ex_requests :: "filesystem_request list" where
  "ex_requests = [connector_request_id_file_system_read ex_read]"

definition ex_later :: "filesystem_request list" where
  "ex_later = [connector_request_id_file_system_open example_open]"

definition ex_used :: "unit fs_state" where
  "ex_used = fst (projr (fs_run example_os example_fs (\<lambda>w. (True, w)) None ex_requests
     (fst (snd (snd ex_opened))) ()))"

definition ex_closed :: "ccimp_status_t \<times> connector_file_system_close_t \<times> unit fs_state \<times> unit" where
  "ex_closed = projr (ccapi_fs_file_close example_os example_fs
     \<lparr>close_handle = Some 0, close_errnum = None\<rparr> ex_used ())"

definition ex_reopened :: "unit fs_state" where
  "ex_reopened = fst (projr (fs_run example_os example_fs (\<lambda>w. (True, w)) None ex_later
     (fst (snd (snd ex_closed))) ()))"

lemma inr_fields: "\<not> isl r \<Longrightarrow> r = Inr (fst (projr r), fst (snd (projr r)), fst (snd (snd (projr r))), ())"
  by (cases r) (auto simp: prod_eq_iff)

lemma inr_pair: "\<not> isl r \<Longrightarrow> r = Inr (fst (projr r), ())"
  by (cases r) (auto simp: prod_eq_iff)

lemma ex_file_obs:
  "ccapi_fs_file_open example_os example_fs None example_open example_state ()
     = Inr (CCIMP_STATUS_OK, fst (snd ex_opened), fst (snd (snd ex_opened)), ())"
  "open_handle (fst (snd ex_opened)) = Some 0"
  "fs_run example_os example_fs (\<lambda>w. (True, w)) None ex_requests (fst (snd (snd ex_opened))) ()
     = Inr (ex_used, ())"
  "ccapi_fs_file_close example_os example_fs \<lparr>close_handle = Some 0, close_errnum = None\<rparr> ex_used ()
     = Inr (CCIMP_STATUS_OK, fst (snd ex_closed), fst (snd (snd ex_closed)), ())"
  "fs_run example_os example_fs (\<lambda>w. (True, w)) None ex_later (fst (snd (snd ex_closed))) ()
     = Inr (ex_reopened, ())"
proof -
  let ?open = "ccapi_fs_file_open example_os example_fs None example_open example_state ()"
  have "\<not> isl ?open" "fst (projr ?open) = CCIMP_STATUS_OK" by code_simp+
  then show "?open = Inr (CCIMP_STATUS_OK, fst (snd ex_opened), fst (snd (snd ex_opened)), ())"
    using inr_fields [of ?open] by (simp add: ex_opened_def)
  show "open_handle (fst (snd ex_opened)) = Some 0" by code_simp
  let ?run = "fs_run example_os example_fs (\<lambda>w. (True, w)) None ex_requests (fst (snd (snd ex_opened))) ()"
  have "\<not> isl ?run" by code_simp
  then show "?run = Inr (ex_used, ())" unfolding ex_used_def by (rule inr_pair)
  let ?close = "ccapi_fs_file_close example_os example_fs
     \<lparr>close_handle = Some 0, close_errnum = None\<rparr> ex_used ()"
  have "\<not> isl ?close" "fst (projr ?close) = CCIMP_STATUS_OK" by code_simp+
  then show "?close = Inr (CCIMP_STATUS_OK, fst (snd ex_closed), fst (snd (snd ex_closed)), ())"
    using inr_fields [of ?close] by (simp add: ex_closed_def)
  let ?later = "fs_run example_os example_fs (\<lambda>w. (True, w)) None ex_later (fst (snd (snd ex_closed))) ()"
  have "\<not> isl ?later" by code_simp
  then show "?later = Inr (ex_reopened, ())" unfolding ex_reopened_def by (rule inr_pair)
qed

theorem file_handle_lifecycle_witness:
  "(\<exists>h. file_stands_for example_os example_fs 0 h ex_used)
   \<and> ccapi_fs_file_read example_os example_fs ex_read ex_reopened () = Inl Use_After_Free"
proof -
  have "\<exists>a path b v q v2 od v3. open_handle (fst (snd ex_opened)) = Some a
      \<and> fs_files (example_state :: unit fs_state) a = None
      \<and> fs_errors (example_state :: unit fs_state) a = None
      \<and> fs_listings (example_state :: unit fs_state) a = None
      \<and> get_local_path_from_cloud_path example_os example_state (open_path example_open) ()
          = Inr (Some path, b, v)
      \<and> ccimp_fs_file_open (example_fs :: unit ccimp_fs) q v2 = (CCIMP_STATUS_OK, od, v3)
      \<and> fopen_path q = path \<and> fopen_flags q = open_oflag example_open
      \<and> file_stands_for example_os example_fs a (fopen_handle od) ex_used
      \<and> (if CCIMP_STATUS_OK = CCIMP_STATUS_BUSY
         then file_stands_for example_os example_fs a (fopen_handle od) (fst (snd (snd ex_closed)))
         else file_is_dead example_os example_fs a (fst (snd (snd ex_closed)))
           \<and> file_is_dead example_os example_fs a ex_reopened)"
    by (rule file_handle_lifecycle [OF _ _ ex_file_obs(1,3) _ _ ex_file_obs(4,5)])
      (simp_all add: fs_heap_ok_def example_state_def ex_file_obs(2) ex_requests_def closes_file_def)
  then show ?thesis by (auto simp: ex_file_obs(2) file_is_dead_def ex_read_def)
qed

text \<open>
  When the memory for the handle is missing, open still answers OK: the connector's handle
  field is what it was before the request, nothing was recorded, and the file the layer opened
  stays open with no way to close it.
\<close>

theorem file_open_out_of_memory:
  assumes "get_local_path_from_cloud_path os d (open_path x) w = Inr (Some path, b, w1)"
    and "ask_access d path (request_of_flags (open_oflag x)) w1 = (CCAPI_FS_ACCESS_ALLOW, w2)"
    and "ccimp_fs_file_open fs
           \<lparr>fopen_imp_context = fs_imp_context d, fopen_errnum = CCIMP_FILESYSTEM_ERRNUM_NONE,
            fopen_path = path, fopen_flags = open_oflag x,
            fopen_handle = CCIMP_FILESYSTEM_FILE_HANDLE_NOT_INITIALIZED\<rparr> w2
         = (CCIMP_STATUS_OK, od, w3)"
    and "ccapi_malloc os (Sizeof ''ccapi_fs_file_handle_t'') w3 = (False, w4)"
  shows "\<exists>w'. ccapi_fs_file_open os fs ni x d w
    = Inr (CCIMP_STATUS_OK, x, d\<lparr>fs_imp_context := fopen_imp_context od\<rparr>, w')"
proof -
  have "x\<lparr>open_errnum := open_errnum x\<rparr> = x" by simp
  then show ?thesis
    using assms
    by (simp add: ccapi_fs_file_open_def report_status_def wrap_file_handle_def Let_def)
qed

definition starved_os :: "nat os" where
  "starved_os = example_os\<lparr>os_malloc := (\<lambda>req k. if k = 0 then ((CCIMP_STATUS_ERROR, False), 0)
                                                  else ((CCIMP_STATUS_OK, True), k - 1))\<rparr>"

theorem file_open_out_of_memory_witness:
  "\<exists>d' w'. ccapi_fs_file_open starved_os example_fs None example_open
     (example_state\<lparr>fs_virtual_dir_list := []\<rparr>) 0 = Inr (CCIMP_STATUS_OK, example_open, d', w')"
proof -
  let ?d = "example_state\<lparr>fs_virtual_dir_list := []\<rparr> :: nat fs_state"
  have "ccapi_malloc starved_os (Sizeof ''ccapi_fs_file_handle_t'') 0 = (False, 0)"
    by (simp add: ccapi_malloc_def starved_os_def)
  then have "\<exists>w'. ccapi_fs_file_open starved_os example_fs None example_open ?d 0
      = Inr (CCIMP_STATUS_OK, example_open, ?d\<lparr>fs_imp_context := None\<rparr>, w')"
    using file_open_out_of_memory [where d = ?d and x = example_open and w = 0 and ?w1.0 = 0
        and ?w2.0 = 0 and ?w3.0 = 0 and ?w4.0 = 0 and b = False and path = "''/data/x''" and os = starved_os
        and fs = example_fs and ni = None
        and od = "\<lparr>fopen_imp_context = None, fopen_errnum = CCIMP_FILESYSTEM_ERRNUM_NONE,
           fopen_path = ''/data/x'', fopen_flags = 0, fopen_handle = 3\<rparr>"]
    by (simp add: get_local_path_from_cloud_path_def ask_access_def example_state_def
        example_open_def example_fs_def)
  then show ?thesis by blast
qed

text \<open>
  Every close of a file opened for writing calls the user's changed callback before it looks
  at the status, so a layer that is busy \<open>n\<close> times makes the user hear of the modification at
  every attempt, not only of the one that closes the file; the handle survives the busy ones.
\<close>

theorem busy_close_notifies_each_time:
  assumes "load (fs_files d) (close_handle c) = Inr h"
    and "handle_request h \<in> {CCAPI_FS_REQUEST_WRITE, CCAPI_FS_REQUEST_READWRITE}"
    and "fs_changed_cb d = Some changed"
    and "\<And>q v. ccimp_fs_file_close fs q v = (CCIMP_STATUS_BUSY, q, v)"
  shows "((\<lambda>v. snd (snd (snd (projr (ccapi_fs_file_close os fs c d v))))) ^^ n) w
           = ((\<lambda>v. changed (handle_file_path h) CCAPI_FS_CHANGED_MODIFIED v) ^^ n) w
    \<and> ccapi_fs_file_close os fs c d w = Inr (CCIMP_STATUS_BUSY, c, d,
        changed (handle_file_path h) CCAPI_FS_CHANGED_MODIFIED w)"
proof -
  have "c\<lparr>close_errnum := close_errnum c\<rparr> = c" "d\<lparr>fs_imp_context := fs_imp_context d\<rparr> = d" by simp_all
  then have one: "ccapi_fs_file_close os fs c d v = Inr (CCIMP_STATUS_BUSY, c, d,
      changed (handle_file_path h) CCAPI_FS_CHANGED_MODIFIED v)" for v
    using assms by (auto simp: ccapi_fs_file_close_def report_status_def tell_changed_def)
  then show ?thesis by simp
qed

definition busy_fs :: "'w ccimp_fs" where
  "busy_fs = example_fs\<lparr>ccimp_fs_file_close := (\<lambda>q v. (CCIMP_STATUS_BUSY, q, v)),
     ccimp_fs_error_desc := (\<lambda>q v. (CCIMP_STATUS_BUSY, q, v))\<rparr>"

definition counting_state :: "nat fs_state" where
  "counting_state = example_state\<lparr>fs_changed_cb := Some (\<lambda>p c w. Suc w),
     fs_files := [0 \<mapsto> \<lparr>handle_ccimp_handle = 3, handle_file_path = ''/tmp/x'',
                         handle_request = CCAPI_FS_REQUEST_WRITE\<rparr>],
     fs_errors := [1 \<mapsto> Ccimp_Error 2], fs_fresh := 2\<rparr>"

theorem busy_close_notifies_each_time_witness:
  "((\<lambda>v. snd (snd (snd (projr (ccapi_fs_file_close example_os busy_fs
       \<lparr>close_handle = Some 0, close_errnum = None\<rparr> counting_state v))))) ^^ 3) 0 = 3"
proof -
  have "load (fs_files counting_state) (Some 0) = Inr \<lparr>handle_ccimp_handle = 3,
      handle_file_path = ''/tmp/x'', handle_request = CCAPI_FS_REQUEST_WRITE\<rparr>"
    by (simp add: counting_state_def load_def)
  define h where "h = \<lparr>handle_ccimp_handle = 3, handle_file_path = ''/tmp/x'',
                       handle_request = CCAPI_FS_REQUEST_WRITE\<rparr>"
  have "((\<lambda>v. snd (snd (snd (projr (ccapi_fs_file_close example_os busy_fs
       \<lparr>close_handle = Some 0, close_errnum = None\<rparr> counting_state v))))) ^^ 3) 0
     = ((\<lambda>v. (\<lambda>p c w. Suc w) (handle_file_path h) CCAPI_FS_CHANGED_MODIFIED v) ^^ 3) 0"
    by (rule busy_close_notifies_each_time [where c = "\<lparr>close_handle = Some 0, close_errnum = None\<rparr>"
          and fs = busy_fs and changed = "\<lambda>p c w. Suc w" and n = 3 and os = example_os and w = 0
          and d = counting_state and h = h, THEN conjunct1])
      (simp_all add: load_def counting_state_def busy_fs_def h_def)
  then show ?thesis by (simp add: numeral_3_eq_3)
qed

text \<open>
  Describing an error frees its handle even when the layer answers busy: the connector,
  which repeats the request, then reads the freed handle.
\<close>

theorem busy_error_description_frees_handle:
  assumes "load (fs_errors d) (get_error_errnum q) = Inr (Ccimp_Error c)"
    and "ccapi_fs_error_desc os fs q d w = Inr (st, q', d', w')"
  shows "get_error_errnum q' = get_error_errnum q
    \<and> ccapi_fs_error_desc os fs q' d' w'' = Inl Use_After_Free"
proof -
  obtain a where a: "get_error_errnum q = Some a"
    using assms(1) by (auto simp: load_def split: option.splits)
  have "get_error_errnum q' = Some a \<and> fs_errors d' a = None"
    using assms a by (auto simp: ccapi_fs_error_desc_def Let_def split: prod.splits)
  then show ?thesis by (simp add: a ccapi_fs_error_desc_def load_def)
qed

theorem busy_error_description_frees_handle_witness:
  "\<exists>q' d' w'. ccapi_fs_error_desc example_os busy_fs (example_get_error\<lparr>get_error_errnum := Some 1\<rparr>)
       counting_state 0 = Inr (CCIMP_STATUS_BUSY, q', d', w')
     \<and> ccapi_fs_error_desc example_os busy_fs q' d' w' = Inl Use_After_Free"
proof -
  let ?q = "example_get_error\<lparr>get_error_errnum := Some 1\<rparr>"
  have l: "load (fs_errors counting_state) (get_error_errnum ?q) = Inr (Ccimp_Error 2)"
    by (simp add: load_def counting_state_def)
  obtain q' d' w' where r: "ccapi_fs_error_desc example_os busy_fs ?q counting_state 0
      = Inr (CCIMP_STATUS_BUSY, q', d', w')"
    by (simp add: ccapi_fs_error_desc_def l [unfolded load_def] load_def counting_state_def
        busy_fs_def example_get_error_def)
  show ?thesis using busy_error_description_frees_handle [OF l r] r by blast
qed

end
