(* ===== verification/ReceiveTargets.thy ===== *)
theory ReceiveTargets
  imports Registry LinuxOs
begin

text \<open>
  The targets of the receive service, source/ccapi_receive.c: the user registers a data callback
  and a limit for the name of a target. The second client of the registry contract.

  \<open>ccxapi_receive_remove_target\<close> finds the entry before it takes \<open>receive_lock\<close> and keeps the
  address of the pointer to it, a head pointer or the \<open>next\<close> field of an entry. The entries are
  therefore listed with their addresses, and the function is two steps that another thread may
  come between.
\<close>

subsection \<open>State\<close>

datatype ccapi_receive_error_t =
    CCAPI_RECEIVE_ERROR_NONE
  | CCAPI_RECEIVE_ERROR_CCAPI_NOT_RUNNING
  | CCAPI_RECEIVE_ERROR_NO_RECEIVE_SUPPORT
  | CCAPI_RECEIVE_ERROR_INSUFFICIENT_MEMORY
  | CCAPI_RECEIVE_ERROR_INVALID_TARGET
  | CCAPI_RECEIVE_ERROR_TARGET_NOT_ADDED
  | CCAPI_RECEIVE_ERROR_TARGET_ALREADY_ADDED
  | CCAPI_RECEIVE_ERROR_INVALID_DATA_CB
  | CCAPI_RECEIVE_ERROR_LOCK_FAILED
  | CCAPI_RECEIVE_ERROR_USER_REFUSED_TARGET
  | CCAPI_RECEIVE_ERROR_REQUEST_TOO_BIG
  | CCAPI_RECEIVE_ERROR_STATUS_CANCEL
  | CCAPI_RECEIVE_ERROR_STATUS_TIMEOUT
  | CCAPI_RECEIVE_ERROR_STATUS_SESSION_ERROR
  | CCAPI_RECEIVE_ERROR_CUSTOM

text \<open>\<open>ccapi_buffer_info_t\<close>: a pointer to a block, NULL or its contents, and a length.\<close>

record ccapi_buffer_info_t =
  info_buffer :: "u8 buffer option"
  info_length :: size_t

text \<open>
  The callbacks of the user. The data callback gets the request and whether a response is
  wanted; it answers a status and what it left in the response buffer structure.
\<close>

type_synonym 'w ccapi_receive_data_cb_t =
  "string option \<Rightarrow> connector_transport_t \<Rightarrow> ccapi_buffer_info_t \<Rightarrow> ccapi_buffer_info_t option \<Rightarrow> 'w
     \<Rightarrow> ccapi_receive_error_t \<times> ccapi_buffer_info_t \<times> 'w"

type_synonym 'w ccapi_receive_status_cb_t =
  "string option \<Rightarrow> connector_transport_t \<Rightarrow> ccapi_buffer_info_t option \<Rightarrow> ccapi_receive_error_t \<Rightarrow> 'w \<Rightarrow> 'w"

type_synonym 'w ccapi_receive_accept_cb_t = "string \<Rightarrow> connector_transport_t \<Rightarrow> 'w \<Rightarrow> bool \<times> 'w"

record 'w ccapi_receive_target_t =
  rt_target :: string
  rt_data :: "'w ccapi_receive_data_cb_t option"
  rt_status :: "'w ccapi_receive_status_cb_t option"
  rt_max_request_size :: size_t

text \<open>
  The list with the address of each entry; \<open>target_fresh\<close> is an address that was never used.
\<close>

record 'w target_list =
  target_entries :: "(nat \<times> 'w ccapi_receive_target_t) list"
  target_fresh :: nat

text \<open>The fields of \<open>ccapi_data_t\<close> that the functions of the receive service use.\<close>

record 'w receive_service =
  rs_run_status :: ccapi_thread_status_t
  rs_supported :: bool
  rs_lock :: ptr
  rs_accept_cb :: "'w ccapi_receive_accept_cb_t option"
  rs_data_cb :: "'w ccapi_receive_data_cb_t option"
  rs_status_cb :: "'w ccapi_receive_status_cb_t option"
  rs_targets :: "'w target_list"

definition CCAPI_RUNNING :: "'w receive_service option \<Rightarrow> bool" where
  "CCAPI_RUNNING ccapi_data =
     (case ccapi_data of None \<Rightarrow> False | Some d \<Rightarrow> rs_run_status d = CCAPI_THREAD_RUNNING)"

subsection \<open>Pointers into the list\<close>

text \<open>What \<open>ccapi_receive_target_t * *\<close> may point to: the head, or the \<open>next\<close> of an entry.\<close>

datatype target_slot = Target_List | Next_Of nat

text \<open>The loop that follows the \<open>next\<close> pointers.\<close>

fun find_slot :: "('t \<Rightarrow> bool) \<Rightarrow> target_slot \<Rightarrow> (nat \<times> 't) list \<Rightarrow> target_slot" where
  "find_slot P p_target [] = p_target"
| "find_slot P p_target ((a, t) # ts) = (if P t then p_target else find_slot P (Next_Of a) ts)"

text \<open>Reading the pointer: undefined in an entry that was freed.\<close>

fun read_slot :: "target_slot \<Rightarrow> (nat \<times> 't) list \<Rightarrow> (nat \<times> 't) option ub" where
  "read_slot Target_List ts = Inr (case ts of [] \<Rightarrow> None | t # _ \<Rightarrow> Some t)"
| "read_slot (Next_Of a) [] = Inl Use_After_Free"
| "read_slot (Next_Of a) ((b, t) # ts) =
     (if a = b then read_slot Target_List ts else read_slot (Next_Of a) ts)"

text \<open>\<open>*p_target = (*p_target)->next\<close>.\<close>

fun unlink_slot :: "target_slot \<Rightarrow> (nat \<times> 't) list \<Rightarrow> (nat \<times> 't) list" where
  "unlink_slot Target_List ts = tl ts"
| "unlink_slot (Next_Of a) [] = []"
| "unlink_slot (Next_Of a) ((b, t) # ts) = (b, t) # (if a = b then tl ts else unlink_slot (Next_Of a) ts)"

text \<open>
  The entry with this name. The longer \<open>strlen\<close> is kept in an \<open>unsigned int\<close> by the C code and is a
  \<open>nat\<close> here: the two agree for names of less than 4 GiB, and only of those does the model speak.
\<close>

definition get_pointer_to_target_entry :: "'w target_list \<Rightarrow> string \<Rightarrow> target_slot" where
  "get_pointer_to_target_entry l target =
     find_slot (\<lambda>t. strncmp_eq (rt_target t) target (max (length (rt_target t)) (length target)))
       Target_List (target_entries l)"

subsection \<open>Adding a target\<close>

definition link_target :: "'w ccapi_receive_target_t \<Rightarrow> 'w target_list \<Rightarrow> 'w target_list" where
  "link_target new_entry l =
     l\<lparr>target_entries := (target_fresh l, new_entry) # target_entries l,
       target_fresh := Suc (target_fresh l)\<rparr>"

definition add_target_entry ::
  "'w os \<Rightarrow> 'w receive_service \<Rightarrow> 'w ccapi_receive_target_t \<Rightarrow> 'w
     \<Rightarrow> ccapi_receive_error_t \<times> 'w receive_service \<times> 'w" where
  "add_target_entry os d new_entry w =
     (case ccapi_lock_acquire os (rs_lock d) w of
        (CCIMP_STATUS_ERROR, w1) \<Rightarrow> (CCAPI_RECEIVE_ERROR_LOCK_FAILED, d, w1)
      | (CCIMP_STATUS_BUSY, w1) \<Rightarrow> (CCAPI_RECEIVE_ERROR_LOCK_FAILED, d, w1)
      | (CCIMP_STATUS_OK, w1) \<Rightarrow>
          (let d' = d\<lparr>rs_targets := link_target new_entry (rs_targets d)\<rparr>
           in case ccapi_lock_release os (rs_lock d) w1 of
                (CCIMP_STATUS_OK, w2) \<Rightarrow> (CCAPI_RECEIVE_ERROR_NONE, d', w2)
              | (CCIMP_STATUS_ERROR, w2) \<Rightarrow> (CCAPI_RECEIVE_ERROR_LOCK_FAILED, d', w2)
              | (CCIMP_STATUS_BUSY, w2) \<Rightarrow> (CCAPI_RECEIVE_ERROR_LOCK_FAILED, d', w2)))"

definition create_target_entry ::
  "'w os \<Rightarrow> string \<Rightarrow> 'w ccapi_receive_data_cb_t option \<Rightarrow> 'w ccapi_receive_status_cb_t option
     \<Rightarrow> size_t \<Rightarrow> 'w \<Rightarrow> 'w ccapi_receive_target_t option \<times> 'w" where
  "create_target_entry os target data_cb status_cb max_request_size w =
     (case ccapi_malloc os (Sizeof ''ccapi_receive_target_t'') w of
        (False, w1) \<Rightarrow> (None, w1)
      | (True, w1) \<Rightarrow>
          (case ccapi_strdup os target w1 of
             (None, w2) \<Rightarrow> (None, snd (ccapi_free os True w2))
           | (Some target', w2) \<Rightarrow>
               (Some \<lparr>rt_target = target', rt_data = data_cb, rt_status = status_cb,
                      rt_max_request_size = max_request_size\<rparr>, w2)))"

definition ccxapi_receive_add_target ::
  "'w os \<Rightarrow> 'w receive_service option \<Rightarrow> string option \<Rightarrow> 'w ccapi_receive_data_cb_t option
     \<Rightarrow> 'w ccapi_receive_status_cb_t option \<Rightarrow> size_t \<Rightarrow> 'w
     \<Rightarrow> (ccapi_receive_error_t \<times> 'w receive_service option \<times> 'w) ub" where
  "ccxapi_receive_add_target os ccapi_data target data_cb status_cb max_request_size w =
     (if target = None then Inr (CCAPI_RECEIVE_ERROR_INVALID_TARGET, ccapi_data, w)
      else if data_cb = None then Inr (CCAPI_RECEIVE_ERROR_INVALID_DATA_CB, ccapi_data, w)
      else if \<not> CCAPI_RUNNING ccapi_data
      then Inr (CCAPI_RECEIVE_ERROR_CCAPI_NOT_RUNNING, ccapi_data, w)
      else
        (let d = the ccapi_data in
         if \<not> rs_supported d then Inr (CCAPI_RECEIVE_ERROR_NO_RECEIVE_SUPPORT, ccapi_data, w)
         else
           ub_bind (read_slot (get_pointer_to_target_entry (rs_targets d) (the target))
                     (target_entries (rs_targets d)))
             (\<lambda>found.
               if found \<noteq> None
               then Inr (CCAPI_RECEIVE_ERROR_TARGET_ALREADY_ADDED, ccapi_data, w)
               else
                 (case create_target_entry os (the target) data_cb status_cb max_request_size w of
                    (None, w1) \<Rightarrow> Inr (CCAPI_RECEIVE_ERROR_INSUFFICIENT_MEMORY, ccapi_data, w1)
                  | (Some new_target_entry, w1) \<Rightarrow>
                      (case add_target_entry os d new_target_entry w1 of
                         (error, d', w2) \<Rightarrow> Inr (error, Some d', w2))))))"

subsection \<open>Removing a target\<close>

text \<open>Up to the lock: an error, or the address of the pointer to the entry.\<close>

definition remove_target_find ::
  "'w receive_service option \<Rightarrow> string option \<Rightarrow> (ccapi_receive_error_t + target_slot) ub" where
  "remove_target_find ccapi_data target =
     (if \<not> CCAPI_RUNNING ccapi_data then Inr (Inl CCAPI_RECEIVE_ERROR_CCAPI_NOT_RUNNING)
      else
        (let d = the ccapi_data in
         if \<not> rs_supported d then Inr (Inl CCAPI_RECEIVE_ERROR_NO_RECEIVE_SUPPORT)
         else if target = None then Inr (Inl CCAPI_RECEIVE_ERROR_INVALID_TARGET)
         else
           (let p_target = get_pointer_to_target_entry (rs_targets d) (the target)
            in ub_bind (read_slot p_target (target_entries (rs_targets d)))
                 (\<lambda>found. if found = None then Inr (Inl CCAPI_RECEIVE_ERROR_TARGET_NOT_ADDED)
                          else Inr (Inr p_target)))))"

text \<open>From the lock on.\<close>

definition remove_target_unlink ::
  "'w os \<Rightarrow> target_slot \<Rightarrow> 'w receive_service \<Rightarrow> 'w
     \<Rightarrow> (ccapi_receive_error_t \<times> 'w receive_service \<times> 'w) ub" where
  "remove_target_unlink os p_target d w =
     (case ccapi_lock_acquire os (rs_lock d) w of
        (CCIMP_STATUS_ERROR, w1) \<Rightarrow> Inr (CCAPI_RECEIVE_ERROR_LOCK_FAILED, d, w1)
      | (CCIMP_STATUS_BUSY, w1) \<Rightarrow> Inr (CCAPI_RECEIVE_ERROR_LOCK_FAILED, d, w1)
      | (CCIMP_STATUS_OK, w1) \<Rightarrow>
          ub_bind (read_slot p_target (target_entries (rs_targets d)))
            (\<lambda>target_entry.
              if target_entry = None then Inl Null_Dereference
              else
                (let d' = d\<lparr>rs_targets := (rs_targets d)\<lparr>target_entries :=
                              unlink_slot p_target (target_entries (rs_targets d))\<rparr>\<rparr>;
                     w2 = snd (ccapi_free os True (snd (ccapi_free os True w1)))
                 in case ccapi_lock_release os (rs_lock d) w2 of
                      (CCIMP_STATUS_OK, w3) \<Rightarrow> Inr (CCAPI_RECEIVE_ERROR_NONE, d', w3)
                    | (CCIMP_STATUS_ERROR, w3) \<Rightarrow> Inr (CCAPI_RECEIVE_ERROR_LOCK_FAILED, d', w3)
                    | (CCIMP_STATUS_BUSY, w3) \<Rightarrow> Inr (CCAPI_RECEIVE_ERROR_LOCK_FAILED, d', w3))))"

definition ccxapi_receive_remove_target ::
  "'w os \<Rightarrow> 'w receive_service option \<Rightarrow> string option \<Rightarrow> 'w
     \<Rightarrow> (ccapi_receive_error_t \<times> 'w receive_service option \<times> 'w) ub" where
  "ccxapi_receive_remove_target os ccapi_data target w =
     ub_bind (remove_target_find ccapi_data target)
       (\<lambda>found.
         case found of
           Inl error \<Rightarrow> Inr (error, ccapi_data, w)
         | Inr p_target \<Rightarrow>
             ub_bind (remove_target_unlink os p_target (the ccapi_data) w)
               (\<lambda>(error, d', w'). Inr (error, Some d', w')))"

definition ccapi_receive_add_target ::
  "'w os \<Rightarrow> 'w receive_service option \<Rightarrow> string option \<Rightarrow> 'w ccapi_receive_data_cb_t option
     \<Rightarrow> 'w ccapi_receive_status_cb_t option \<Rightarrow> size_t \<Rightarrow> 'w
     \<Rightarrow> (ccapi_receive_error_t \<times> 'w receive_service option \<times> 'w) ub" where
  "ccapi_receive_add_target os ccapi_data_single_instance target data_cb status_cb max_request_size w =
     ccxapi_receive_add_target os ccapi_data_single_instance target data_cb status_cb max_request_size w"

definition ccapi_receive_remove_target ::
  "'w os \<Rightarrow> 'w receive_service option \<Rightarrow> string option \<Rightarrow> 'w
     \<Rightarrow> (ccapi_receive_error_t \<times> 'w receive_service option \<times> 'w) ub" where
  "ccapi_receive_remove_target os ccapi_data_single_instance target w =
     ccxapi_receive_remove_target os ccapi_data_single_instance target w"

subsection \<open>Slots and positions\<close>

lemma find_slot_Next_Of:
  "\<exists>c. find_slot P (Next_Of b) ts = Next_Of c \<and> (c = b \<or> c \<in> fst ` set ts)"
  by (induction P "Next_Of b" ts arbitrary: b rule: find_slot.induct) force+

lemma slot_after_Cons:
  assumes "a \<notin> fst ` set ts"
  shows "read_slot (find_slot P (Next_Of a) ts) ((a, t) # ts) = read_slot (find_slot P Target_List ts) ts
    \<and> unlink_slot (find_slot P (Next_Of a) ts) ((a, t) # ts)
        = (a, t) # unlink_slot (find_slot P Target_List ts) ts"
proof (cases ts)
  case (Cons x ts')
  obtain b u where x: "x = (b, u)" by (cases x)
  obtain c where "find_slot P (Next_Of b) ts' = Next_Of c" "c = b \<or> c \<in> fst ` set ts'"
    using find_slot_Next_Of [of P b ts'] by blast
  then show ?thesis using assms Cons x by auto
qed simp

text \<open>The loop finds the first entry that matches, or the NULL at the end.\<close>

lemma read_find_slot:
  assumes "distinct (map fst ts)"
  shows "read_slot (find_slot P Target_List ts) ts = Inr (find (\<lambda>x. P (snd x)) ts)"
  using assms
proof (induction ts)
  case (Cons x ts)
  then show ?case using slot_after_Cons [of "fst x" ts P "snd x"] by (cases x) auto
qed simp

lemma unlink_find_slot:
  assumes "distinct (map fst ts)"
  shows "unlink_slot (find_slot P Target_List ts) ts = unlink_at (find_index (\<lambda>x. P (snd x)) ts) ts"
  using assms
proof (induction ts)
  case (Cons x ts)
  then show ?case using slot_after_Cons [of "fst x" ts P "snd x"] by (cases x) auto
qed simp

subsection \<open>The list as a registry\<close>

definition target_name :: "nat \<times> 'w ccapi_receive_target_t \<Rightarrow> string" where
  "target_name x = rt_target (snd x)"

definition targets_valid :: "'w target_list \<Rightarrow> bool" where
  "targets_valid l \<longleftrightarrow> distinct (map fst (target_entries l))
     \<and> (\<forall>a \<in> fst ` set (target_entries l). a < target_fresh l)
     \<and> distinct (map target_name (target_entries l))"

definition target_lookup :: "'w target_list \<Rightarrow> string \<Rightarrow> 'w ccapi_receive_target_t option" where
  "target_lookup l name =
     (case read_slot (get_pointer_to_target_entry l name) (target_entries l) of
        Inr (Some (a, t)) \<Rightarrow> Some t
      | _ \<Rightarrow> None)"

definition target_remove :: "string \<Rightarrow> 'w target_list \<Rightarrow> 'w target_list" where
  "target_remove name l =
     l\<lparr>target_entries := unlink_slot (get_pointer_to_target_entry l name) (target_entries l)\<rparr>"

lemma get_target_pointer_exact:
  "get_pointer_to_target_entry l name = find_slot (\<lambda>t. rt_target t = name) Target_List (target_entries l)"
  by (simp add: get_pointer_to_target_entry_def strncmp_eq_longest)

lemma read_pointer:
  "targets_valid l \<Longrightarrow> read_slot (get_pointer_to_target_entry l name) (target_entries l)
     = Inr (find (\<lambda>x. target_name x = name) (target_entries l))"
  by (simp add: get_target_pointer_exact read_find_slot targets_valid_def target_name_def)

lemma target_lookup_find:
  "targets_valid l \<Longrightarrow>
     target_lookup l name = map_option snd (find (\<lambda>x. target_name x = name) (target_entries l))"
  by (simp add: target_lookup_def read_pointer split: option.splits)

lemma target_remove_unlink:
  "targets_valid l \<Longrightarrow> target_remove name l =
     l\<lparr>target_entries := unlink_at (find_index (\<lambda>x. target_name x = name) (target_entries l))
                           (target_entries l)\<rparr>"
  by (simp add: target_remove_def get_target_pointer_exact unlink_find_slot targets_valid_def target_name_def)

interpretation rt: keyed_registry target_lookup link_target target_remove rt_target targets_valid
  "\<lambda>t. True"
proof
  fix s :: "'w target_list" and k e
  assume s: "targets_valid s"
  then have dist: "distinct (map target_name (target_entries s))" by (simp add: targets_valid_def)
  show "target_lookup s k = Some e \<Longrightarrow> rt_target e = k"
    using s by (auto simp: target_lookup_find find_Some_iff target_name_def) (metis snd_conv)
  show valid: "targets_valid (target_remove k s)"
    using s set_unlink_at_subset [of _ "target_entries s"]
    by (auto simp: target_remove_unlink targets_valid_def distinct_map_unlink subset_iff image_iff)
  show "target_lookup (target_remove k s) = (target_lookup s)(k := None)"
    using s valid find_unlink [OF dist]
    by (simp add: target_lookup_find fun_eq_iff) (simp add: target_remove_unlink)
  assume new: "target_lookup s (rt_target e) = None"
  show valid': "targets_valid (link_target e s)"
    using s new by (auto simp: targets_valid_def link_target_def target_lookup_find find_None_iff
        target_name_def) fastforce
  show "target_lookup (link_target e s) = (target_lookup s)(rt_target e \<mapsto> e)"
    using s valid'
    by (simp add: target_lookup_find fun_eq_iff) (simp add: link_target_def target_name_def)
qed

subsection \<open>A sequence of calls\<close>

datatype 'w target_call =
    Add_Target "string option" "'w ccapi_receive_data_cb_t option" "'w ccapi_receive_status_cb_t option" size_t
  | Remove_Target "string option"

definition target_call ::
  "'w os \<Rightarrow> 'w target_call \<Rightarrow> 'w receive_service option \<Rightarrow> 'w
     \<Rightarrow> (ccapi_receive_error_t \<times> 'w receive_service option \<times> 'w) ub" where
  "target_call os c d w =
     (case c of
        Add_Target target data_cb status_cb limit \<Rightarrow>
          ccapi_receive_add_target os d target data_cb status_cb limit w
      | Remove_Target target \<Rightarrow> ccapi_receive_remove_target os d target w)"

text \<open>What a call is on the abstract map: one operation if it answers no error.\<close>

definition target_call_ops ::
  "'w target_call \<Rightarrow> ccapi_receive_error_t \<Rightarrow> ('w ccapi_receive_target_t, string) registry_op list" where
  "target_call_ops c error =
     (if error \<noteq> CCAPI_RECEIVE_ERROR_NONE then []
      else (case c of
              Add_Target target data_cb status_cb limit \<Rightarrow>
                [Register \<lparr>rt_target = the target, rt_data = data_cb, rt_status = status_cb,
                           rt_max_request_size = limit\<rparr>]
            | Remove_Target target \<Rightarrow> [Unregister (the target)]))"

fun target_run ::
  "'w os \<Rightarrow> 'w target_call list \<Rightarrow> 'w receive_service option \<Rightarrow> 'w
     \<Rightarrow> (('w ccapi_receive_target_t, string) registry_op list \<times> 'w receive_service option \<times> 'w) ub"
where
  "target_run os [] d w = Inr ([], d, w)"
| "target_run os (c # cs) d w =
     ub_bind (target_call os c d w)
       (\<lambda>(error, d1, w1). ub_bind (target_run os cs d1 w1)
         (\<lambda>(ops, d2, w2). Inr (target_call_ops c error @ ops, d2, w2)))"

definition releases_ok :: "'w os \<Rightarrow> bool" where
  "releases_ok os \<longleftrightarrow> (\<forall>l w. fst (ccapi_lock_release os l w) = CCIMP_STATUS_OK)"

lemma releases_okD: "releases_ok os \<Longrightarrow> ccapi_lock_release os l w = (st, w') \<Longrightarrow> st = CCIMP_STATUS_OK"
  unfolding releases_ok_def by (metis fst_conv)

lemma create_target_entry_Some:
  "create_target_entry os target cb st limit w = (Some t, w') \<Longrightarrow>
     t = \<lparr>rt_target = target, rt_data = cb, rt_status = st, rt_max_request_size = limit\<rparr>"
  by (auto simp: create_target_entry_def ccapi_strdup_def split: prod.splits bool.splits if_splits
      option.splits)

lemma add_target_entry_cases:
  assumes "releases_ok os" and "add_target_entry os d t w = (error, d', w')"
  shows "error = CCAPI_RECEIVE_ERROR_NONE \<and> d' = d\<lparr>rs_targets := link_target t (rs_targets d)\<rparr>
    \<or> error = CCAPI_RECEIVE_ERROR_LOCK_FAILED \<and> d' = d"
  using assms
  by (auto simp: add_target_entry_def Let_def split: prod.splits ccimp_status_t.splits
      dest: releases_okD)

lemma map_op_register_new:
  "m (key e) = None \<Longrightarrow> map_op key (Register e) m = m(key e \<mapsto> e)"
  by simp

lemma add_target_refines:
  assumes "releases_ok os" and "targets_valid (rs_targets d)"
  shows "\<exists>error d' w'. ccapi_receive_add_target os (Some d) target cb st limit w = Inr (error, Some d', w')
    \<and> targets_valid (rs_targets d')
    \<and> target_lookup (rs_targets d') = fold (map_op rt_target)
        (target_call_ops (Add_Target target cb st limit) error) (target_lookup (rs_targets d))"
proof -
  let ?l = "rs_targets d"
  let ?t = "\<lparr>rt_target = the target, rt_data = cb, rt_status = st, rt_max_request_size = limit\<rparr>"
  have same: "targets_valid ?l \<and> target_lookup ?l = fold (map_op rt_target)
      (target_call_ops (Add_Target target cb st limit) error) (target_lookup ?l)"
    if "error \<noteq> CCAPI_RECEIVE_ERROR_NONE" for error
    using that assms(2) by (simp add: target_call_ops_def)
  show ?thesis
  proof (cases "target = None \<or> cb = None \<or> \<not> CCAPI_RUNNING (Some d) \<or> \<not> rs_supported d
      \<or> target_lookup ?l (the target) \<noteq> None")
    case True
    then show ?thesis
      using assms(2) same by (auto simp: ccapi_receive_add_target_def ccxapi_receive_add_target_def
          read_pointer target_lookup_find)
  next
    case False
    then have free: "target_lookup ?l (rt_target ?t) = None" by simp
    have ans: "ccapi_receive_add_target os (Some d) target cb st limit w =
        (case create_target_entry os (the target) cb st limit w of
           (None, w1) \<Rightarrow> Inr (CCAPI_RECEIVE_ERROR_INSUFFICIENT_MEMORY, Some d, w1)
         | (Some e, w1) \<Rightarrow> (case add_target_entry os d e w1 of
             (error, d', w2) \<Rightarrow> Inr (error, Some d', w2)))"
      using False assms(2)
      by (auto simp: ccapi_receive_add_target_def ccxapi_receive_add_target_def read_pointer
          target_lookup_find)
    obtain r w1 where c: "create_target_entry os (the target) cb st limit w = (r, w1)" by fastforce
    show ?thesis
    proof (cases r)
      case None
      then have "ccapi_receive_add_target os (Some d) target cb st limit w
          = Inr (CCAPI_RECEIVE_ERROR_INSUFFICIENT_MEMORY, Some d, w1)"
        unfolding ans c by simp
      then show ?thesis using same [of CCAPI_RECEIVE_ERROR_INSUFFICIENT_MEMORY] by blast
    next
      case (Some e)
      have e: "e = ?t" by (rule create_target_entry_Some [OF c [unfolded Some]])
      obtain error d' w2 where a: "add_target_entry os d e w1 = (error, d', w2)" by (metis prod_cases3)
      have fin: "ccapi_receive_add_target os (Some d) target cb st limit w = Inr (error, Some d', w2)"
        unfolding ans c by (simp add: Some a)
      show ?thesis
      proof (cases "error = CCAPI_RECEIVE_ERROR_NONE")
        case True
        then have "rs_targets d' = link_target ?t ?l"
          using add_target_entry_cases [OF assms(1) a] e by auto
        moreover have "target_call_ops (Add_Target target cb st limit) error = [Register ?t]"
          using True by (simp add: target_call_ops_def)
        ultimately show ?thesis
          using fin rt.reg_op_refines [OF assms(2), of "Register ?t"] free by auto
      next
        case False
        then have "d' = d" using add_target_entry_cases [OF assms(1) a] by auto
        then show ?thesis using fin same [OF False] by blast
      qed
    qed
  qed
qed

lemma remove_target_refines:
  assumes "releases_ok os" and "targets_valid (rs_targets d)"
  shows "\<exists>error d' w'. ccapi_receive_remove_target os (Some d) target w = Inr (error, Some d', w')
    \<and> targets_valid (rs_targets d')
    \<and> target_lookup (rs_targets d') = fold (map_op rt_target)
        (target_call_ops (Remove_Target target) error) (target_lookup (rs_targets d))"
proof -
  let ?l = "rs_targets d"
  have same: "targets_valid ?l \<and> target_lookup ?l = fold (map_op rt_target)
      (target_call_ops (Remove_Target target) error) (target_lookup ?l)"
    if "error \<noteq> CCAPI_RECEIVE_ERROR_NONE" for error
    using that assms(2) by (simp add: target_call_ops_def)
  show ?thesis
  proof (cases "\<not> CCAPI_RUNNING (Some d) \<or> \<not> rs_supported d \<or> target = None
      \<or> target_lookup ?l (the target) = None")
    case True
    then show ?thesis
      using assms(2) same by (auto simp: ccapi_receive_remove_target_def
          ccxapi_receive_remove_target_def remove_target_find_def read_pointer target_lookup_find Let_def)
  next
    case False
    let ?p = "get_pointer_to_target_entry ?l (the target)"
    obtain x where x: "read_slot ?p (target_entries ?l) = Inr (Some x)"
      using False assms(2) by (auto simp: read_pointer target_lookup_find)
    then have ans: "ccapi_receive_remove_target os (Some d) target w =
        ub_bind (remove_target_unlink os ?p d w) (\<lambda>(error, d', w'). Inr (error, Some d', w'))"
      using False
      by (auto simp: ccapi_receive_remove_target_def ccxapi_receive_remove_target_def
          remove_target_find_def Let_def)
    obtain s w1 where a: "ccapi_lock_acquire os (rs_lock d) w = (s, w1)" by fastforce
    obtain w3 where r: "ccapi_lock_release os (rs_lock d)
        (snd (ccapi_free os True (snd (ccapi_free os True w1)))) = (CCIMP_STATUS_OK, w3)"
      using releases_okD [OF assms(1)] by (metis surj_pair)
    have t: "?l\<lparr>target_entries := unlink_slot ?p (target_entries ?l)\<rparr> = target_remove (the target) ?l"
      by (simp add: target_remove_def)
    show ?thesis
      using ans a r x t same [of CCAPI_RECEIVE_ERROR_LOCK_FAILED]
        rt.valid_remove [OF assms(2), of "the target"] rt.lookup_remove [OF assms(2), of "the target"]
      by (cases s) (simp_all add: remove_target_unlink_def target_call_ops_def)
  qed
qed

text \<open>
  C11. The target list is a finite map: whatever sequence of adds and removes is made, valid or
  not, every call ends without undefined behaviour, and looking a name up gives what the calls
  that answered CCAPI_RECEIVE_ERROR_NONE, in order, make of the map. Hypothesis: releasing the
  lock does not fail.
\<close>

theorem receive_targets_are_a_map:
  assumes "releases_ok os" and "targets_valid (rs_targets d)"
  shows "\<exists>ops d' w'. target_run os calls (Some d) w = Inr (ops, Some d', w')
    \<and> targets_valid (rs_targets d')
    \<and> target_lookup (rs_targets d') = fold (map_op rt_target) ops (target_lookup (rs_targets d))"
  using assms(2)
proof (induction calls arbitrary: d w)
  case (Cons c calls)
  have "\<exists>error d1 w1. target_call os c (Some d) w = Inr (error, Some d1, w1)
      \<and> targets_valid (rs_targets d1)
      \<and> target_lookup (rs_targets d1) = fold (map_op rt_target) (target_call_ops c error)
          (target_lookup (rs_targets d))"
    using add_target_refines [OF assms(1) Cons.prems] remove_target_refines [OF assms(1) Cons.prems]
    by (cases c) (simp_all add: target_call_def)
  then obtain error d1 w1 where 1: "target_call os c (Some d) w = Inr (error, Some d1, w1)"
    "targets_valid (rs_targets d1)" "target_lookup (rs_targets d1) = fold (map_op rt_target)
       (target_call_ops c error) (target_lookup (rs_targets d))" by blast
  from Cons.IH [OF 1(2), of w1] obtain ops d' w' where
    "target_run os calls (Some d1) w1 = Inr (ops, Some d', w')" "targets_valid (rs_targets d')"
    "target_lookup (rs_targets d') = fold (map_op rt_target) ops (target_lookup (rs_targets d1))"
    by blast
  then show ?case using 1 by simp
qed simp

definition example_data_cb :: "'w ccapi_receive_data_cb_t" where
  "example_data_cb = (\<lambda>target transport req resp w.
     (CCAPI_RECEIVE_ERROR_NONE, \<lparr>info_buffer = None, info_length = 0\<rparr>, w))"

definition example_target :: "string \<Rightarrow> unit ccapi_receive_target_t" where
  "example_target name = \<lparr>rt_target = name, rt_data = Some example_data_cb, rt_status = None,
                          rt_max_request_size = 0\<rparr>"

definition example_receive :: "unit receive_service" where
  "example_receive =
     \<lparr>rs_run_status = CCAPI_THREAD_RUNNING, rs_supported = True, rs_lock = Some 2, rs_accept_cb = None,
      rs_data_cb = None, rs_status_cb = None,
      rs_targets = \<lparr>target_entries = [(0, example_target ''a''), (1, example_target ''b'')],
                    target_fresh = 2\<rparr>\<rparr>"

lemma example_receive_valid: "targets_valid (rs_targets example_receive)"
  by (simp add: targets_valid_def example_receive_def example_target_def target_name_def)

lemma example_receive_pointer:
  "get_pointer_to_target_entry (rs_targets example_receive) ''a'' = Target_List"
  "get_pointer_to_target_entry (rs_targets example_receive) ''c'' = Next_Of 1"
  by (simp_all add: get_target_pointer_exact example_receive_def example_target_def)

lemma releases_ok_example [simp]: "releases_ok example_os"
  by (simp add: releases_ok_def)

text \<open>Adding a third target to the example.\<close>

definition example_added :: "unit receive_service" where
  "example_added = example_receive\<lparr>rs_targets := link_target (example_target ''c'')
                                                  (rs_targets example_receive)\<rparr>"

lemma example_receive_fields [simp]:
  "rs_supported example_receive" "CCAPI_RUNNING (Some example_receive)" "rs_lock example_receive = Some 2"
  "target_entries (rs_targets example_receive) = [(0, example_target ''a''), (1, example_target ''b'')]"
  by (simp_all add: example_receive_def CCAPI_RUNNING_def)

lemma example_add_target:
  "ccapi_receive_add_target example_os (Some example_receive) (Some ''c'') (Some example_data_cb) None 0 ()
     = Inr (CCAPI_RECEIVE_ERROR_NONE, Some example_added, ())"
  by (simp add: ccapi_receive_add_target_def ccxapi_receive_add_target_def example_receive_pointer
      create_target_entry_def ccapi_strdup_def add_target_entry_def Let_def example_added_def
      example_target_def)

lemma example_target_c: "map_of (map (\<lambda>x. (target_name x, rt_max_request_size (snd x)))
    (target_entries (rs_targets example_added))) ''c'' = Some 0"
  by (simp add: example_added_def link_target_def target_name_def example_target_def)

theorem receive_targets_are_a_map_witness:
  "map_option rt_max_request_size (target_lookup (rs_targets example_added) ''c'') = Some 0"
proof -
  let ?calls = "[Add_Target (Some ''c'') (Some example_data_cb) None 0]"
  obtain ops d' w' where run: "target_run example_os ?calls (Some example_receive) () = Inr (ops, Some d', w')"
    and look: "target_lookup (rs_targets d') = fold (map_op rt_target) ops
      (target_lookup (rs_targets example_receive))"
    using receive_targets_are_a_map [OF releases_ok_example example_receive_valid, of ?calls "()"]
    by blast
  then have "d' = example_added" "ops = [Register (example_target ''c'')]"
    by (simp_all add: target_call_def example_add_target target_call_ops_def example_target_def)
  moreover have "target_lookup (rs_targets example_receive) ''c'' = None"
    using example_receive_valid by (simp add: target_lookup_find target_name_def example_target_def)
  ultimately show ?thesis using look by (simp add: example_target_def)
qed

subsection \<open>Removal without the lock\<close>

text \<open>
  The position of an entry as a slot: what \<open>remove_target_find\<close> remembers of the entries before
  the one it found.
\<close>

fun slot_after :: "(nat \<times> 't) list \<Rightarrow> target_slot" where
  "slot_after [] = Target_List"
| "slot_after pre = Next_Of (fst (last pre))"

lemma find_slot_append:
  assumes "\<forall>x \<in> set pre. \<not> P (snd x)" and "P t"
  shows "find_slot P s (pre @ (a, t) # post) = (if pre = [] then s else Next_Of (fst (last pre)))"
  using assms(1)
proof (induction pre arbitrary: s)
  case (Cons x pre)
  then show ?case by (cases x) (auto simp: assms(2))
qed (simp add: assms(2))

lemma slot_after_access:
  assumes "distinct (map fst pre)"
  shows "read_slot (slot_after pre) (pre @ post) = Inr (case post of [] \<Rightarrow> None | x # _ \<Rightarrow> Some x)
    \<and> unlink_slot (slot_after pre) (pre @ post) = pre @ tl post"
  using assms
proof (induction pre)
  case (Cons x pre)
  show ?case
  proof (cases pre)
    case (Cons y ys)
    then have "fst x \<noteq> fst (last pre)"
      using Cons.prems by (metis distinct.simps(2) image_eqI last_in_set list.distinct(1) list.map(2) list.set_map)
    then show ?thesis using Cons.IH Cons.prems Cons by (cases x) auto
  qed (cases x; simp)
qed simp

lemma remove_find_slot:
  assumes "targets_valid (rs_targets d)" and "target_entries (rs_targets d) = pre @ (a, t) # post"
    and "remove_target_find (Some d) (Some (rt_target t)) = Inr (Inr p)"
  shows "p = slot_after pre"
proof -
  have "p = find_slot (\<lambda>u. rt_target u = rt_target t) Target_List (pre @ (a, t) # post)"
    using assms by (auto simp: remove_target_find_def Let_def get_target_pointer_exact split: if_splits)
  moreover have "\<forall>x \<in> set pre. rt_target (snd x) \<noteq> rt_target t"
  proof -
    have "target_name (a, t) \<notin> target_name ` set pre"
      using assms(1) by (simp add: targets_valid_def assms(2))
    then show ?thesis by (auto simp: target_name_def image_iff)
  qed
  ultimately show ?thesis
    using find_slot_append [of pre "\<lambda>u. rt_target u = rt_target t" t Target_List a post]
    by (cases pre) auto
qed

lemma remove_unlink_at:
  assumes "distinct (map fst pre)" and "target_entries (rs_targets d) = pre @ post"
    and "remove_target_unlink os (slot_after pre) d w = Inr (CCAPI_RECEIVE_ERROR_NONE, d', w')"
  shows "target_entries (rs_targets d') = pre @ tl post"
  using assms slot_after_access [OF assms(1), of post]
  by (auto simp: remove_target_unlink_def Let_def split: prod.splits ccimp_status_t.splits if_splits)

lemma targets_valid_prefix: "targets_valid l \<Longrightarrow> target_entries l = pre @ post \<Longrightarrow> distinct (map fst pre)"
  by (simp add: targets_valid_def)

lemma add_target_success:
  assumes "releases_ok os" and "targets_valid (rs_targets d)"
    and "ccapi_receive_add_target os (Some d) (Some name) cb st limit w = Inr (CCAPI_RECEIVE_ERROR_NONE, Some d1, w1)"
  shows "target_lookup (rs_targets d) name = None \<and> rs_targets d1 = link_target
    \<lparr>rt_target = name, rt_data = cb, rt_status = st, rt_max_request_size = limit\<rparr> (rs_targets d)"
proof -
  let ?found = "find (\<lambda>x. target_name x = name) (target_entries (rs_targets d))"
  have none: "?found = None"
    using assms(3) assms(2)
    by (cases ?found) (auto simp: ccapi_receive_add_target_def ccxapi_receive_add_target_def
        read_pointer Let_def split: if_splits)
  then obtain e w' where "create_target_entry os name cb st limit w = (Some e, w')"
    "add_target_entry os d e w' = (CCAPI_RECEIVE_ERROR_NONE, d1, w1)"
    using assms(3) assms(2)
    by (auto simp: ccapi_receive_add_target_def ccxapi_receive_add_target_def read_pointer
        Let_def split: if_splits option.splits prod.splits)
  then show ?thesis
    using none assms(2) add_target_entry_cases [OF assms(1), of d e w' CCAPI_RECEIVE_ERROR_NONE d1 w1]
      create_target_entry_Some [of os name cb st limit w e w']
    by (simp add: target_lookup_find)
qed

text \<open>
  A removal finds its entry before it takes \<open>receive_lock\<close>. If another thread adds a target
  in between and the entry was the first of the list, the removal answers success, but it has
  removed the target just added, and the one it was asked to remove is still registered.
\<close>

theorem remove_target_races_with_add:
  assumes "targets_valid (rs_targets d)" and "target_entries (rs_targets d) = (a, t) # post"
    and "remove_target_find (Some d) (Some (rt_target t)) = Inr (Inr p)"
    and "releases_ok os"
    and "ccapi_receive_add_target os (Some d) (Some name) cb st limit w = Inr (CCAPI_RECEIVE_ERROR_NONE, Some d1, w1)"
    and "remove_target_unlink os p d1 w2 = Inr (CCAPI_RECEIVE_ERROR_NONE, d2, w3)"
  shows "target_lookup (rs_targets d1) name \<noteq> None \<and> target_lookup (rs_targets d2) name = None
    \<and> target_lookup (rs_targets d2) (rt_target t) = Some t"
proof -
  let ?t = "\<lparr>rt_target = name, rt_data = cb, rt_status = st, rt_max_request_size = limit\<rparr>"
  have add: "target_lookup (rs_targets d) name = None" "rs_targets d1 = link_target ?t (rs_targets d)"
    using add_target_success [OF assms(4,1,5)] by simp_all
  have p: "p = slot_after []" using remove_find_slot [OF assms(1), of "[]"] assms(2,3) by simp
  have "target_entries (rs_targets d1) = [] @ (target_fresh (rs_targets d), ?t) # target_entries (rs_targets d)"
    by (simp add: add(2) link_target_def)
  then have "target_entries (rs_targets d2) = target_entries (rs_targets d)"
    using remove_unlink_at [of "[]" d1 _ os w2 d2 w3] assms(6) p by simp
  then have "target_lookup (rs_targets d2) = target_lookup (rs_targets d)"
    by (simp add: fun_eq_iff target_lookup_def get_target_pointer_exact)
  moreover have "target_lookup (rs_targets d) (rt_target t) = Some t"
    using assms(1) by (simp add: target_lookup_find assms(2) target_name_def)
  moreover have "target_lookup (rs_targets d1) name = Some ?t"
    using rt.lookup_add [OF assms(1) TrueI, of ?t] add by simp
  ultimately show ?thesis using add(1) by simp
qed

lemma example_remove_find:
  "remove_target_find (Some example_receive) (Some ''a'') = Inr (Inr Target_List)"
  by (simp add: remove_target_find_def example_receive_pointer)

lemma example_remove_unlink:
  "rs_lock d = Some 2 \<Longrightarrow> target_entries (rs_targets d) = x # ts \<Longrightarrow>
     remove_target_unlink example_os Target_List d w = Inr (CCAPI_RECEIVE_ERROR_NONE,
       d\<lparr>rs_targets := (rs_targets d)\<lparr>target_entries := ts\<rparr>\<rparr>, w)"
  by (simp add: remove_target_unlink_def Let_def)

theorem remove_target_races_with_add_witness:
  "\<exists>d2. remove_target_unlink example_os Target_List example_added () = Inr (CCAPI_RECEIVE_ERROR_NONE, d2, ())
     \<and> target_lookup (rs_targets d2) ''c'' = None
     \<and> target_lookup (rs_targets d2) ''a'' = Some (example_target ''a'')"
proof -
  have e: "target_entries (rs_targets example_receive) = (0, example_target ''a'') # [(1, example_target ''b'')]"
    by simp
  have f: "remove_target_find (Some example_receive) (Some (rt_target (example_target ''a'')))
      = Inr (Inr Target_List)" by (simp add: example_target_def example_remove_find)
  have u: "\<exists>d2. remove_target_unlink example_os Target_List example_added ()
      = Inr (CCAPI_RECEIVE_ERROR_NONE, d2, ())"
    by (subst example_remove_unlink) (auto simp: example_added_def link_target_def)
  then obtain d2 where d2: "remove_target_unlink example_os Target_List example_added ()
      = Inr (CCAPI_RECEIVE_ERROR_NONE, d2, ())" by blast
  show ?thesis
    using remove_target_races_with_add [OF example_receive_valid e f releases_ok_example
        example_add_target d2] d2 by (simp add: example_target_def)
qed

text \<open>
  Two removals of one target that both find it before either takes the lock: the second one
  removes whatever came after it in the list, or follows a NULL pointer when it was the last.
\<close>

theorem concurrent_removals_lose_a_target:
  assumes "targets_valid (rs_targets d)" and "target_entries (rs_targets d) = pre @ (a, t) # post"
    and "remove_target_find (Some d) (Some (rt_target t)) = Inr (Inr p)"
    and "remove_target_unlink os p d w = Inr (CCAPI_RECEIVE_ERROR_NONE, d1, w1)"
    and "ccapi_lock_acquire os (rs_lock d1) w2 = (CCIMP_STATUS_OK, w3)"
  shows "case post of
      [] \<Rightarrow> remove_target_unlink os p d1 w2 = Inl Null_Dereference
    | u # rest \<Rightarrow> (\<exists>st d2 w4. remove_target_unlink os p d1 w2 = Inr (st, d2, w4)
                    \<and> target_entries (rs_targets d2) = pre @ rest)"
proof -
  have p: "p = slot_after pre" by (rule remove_find_slot [OF assms(1,2,3)])
  have dist: "distinct (map fst pre)" by (rule targets_valid_prefix [OF assms(1,2)])
  have d1: "target_entries (rs_targets d1) = pre @ post"
    using remove_unlink_at [OF dist assms(2)] assms(4) p by simp
  show ?thesis
    using assms(5) slot_after_access [OF dist, of post]
    by (cases post) (auto simp: remove_target_unlink_def d1 p Let_def split: prod.splits ccimp_status_t.splits)
qed

theorem concurrent_removals_lose_a_target_witness:
  "\<exists>d1 d2. remove_target_unlink example_os Target_List example_receive ()
       = Inr (CCAPI_RECEIVE_ERROR_NONE, d1, ())
     \<and> remove_target_unlink example_os Target_List d1 () = Inr (CCAPI_RECEIVE_ERROR_NONE, d2, ())
     \<and> target_entries (rs_targets d2) = []"
proof -
  let ?d1 = "example_receive\<lparr>rs_targets := (rs_targets example_receive)\<lparr>target_entries :=
               [(1, example_target ''b'')]\<rparr>\<rparr>"
  have e: "target_entries (rs_targets example_receive)
      = [] @ (0, example_target ''a'') # [(1, example_target ''b'')]" by simp
  have f: "remove_target_find (Some example_receive) (Some (rt_target (example_target ''a'')))
      = Inr (Inr Target_List)" by (simp add: example_target_def example_remove_find)
  have u: "remove_target_unlink example_os Target_List example_receive ()
      = Inr (CCAPI_RECEIVE_ERROR_NONE, ?d1, ())"
    by (rule example_remove_unlink) simp_all
  have "ccapi_lock_acquire example_os (rs_lock ?d1) () = (CCIMP_STATUS_OK, ())" by simp
  from concurrent_removals_lose_a_target [OF example_receive_valid e f u this]
  obtain st d2 w4 where r: "remove_target_unlink example_os Target_List ?d1 () = Inr (st, d2, w4)"
    "target_entries (rs_targets d2) = []" by auto
  moreover have "st = CCAPI_RECEIVE_ERROR_NONE"
    using r(1) example_remove_unlink [of ?d1 "(1, example_target ''b'')" "[]"] by simp
  ultimately show ?thesis using u by auto
qed

end
