(* ===== verification/Streams.thy ===== *)
theory Streams
  imports Prelude
begin

text \<open>
  Handing a block out in pieces: the reply to a device request and the data of a send are given
  to the connector in as many pieces as it has room for. The contract is the locale
  \<open>chunked_source\<close>; both services interpret it on their handlers.
\<close>

subsection \<open>Copying out of a block\<close>

text \<open>
  \<open>read_block p off n\<close> reads \<open>n\<close> bytes at \<open>p + off\<close>; nothing is read when \<open>n\<close> is 0, whatever
  the pointer is. \<open>write_block\<close> is the other half of the \<open>memcpy\<close>.
\<close>

definition read_block :: "'b buffer option \<Rightarrow> nat \<Rightarrow> nat \<Rightarrow> 'b buffer ub" where
  "read_block p off n =
     (if n = 0 then Inr []
      else (case p of
              None \<Rightarrow> Inl Null_Dereference
            | Some block \<Rightarrow> if off + n \<le> length block then Inr (take n (drop off block))
                            else Inl Out_Of_Bounds))"

definition write_block :: "'b buffer \<Rightarrow> 'b buffer \<Rightarrow> 'b buffer ub" where
  "write_block buf src =
     (if length src \<le> length buf then Inr (src @ drop (length src) buf) else Inl Out_Of_Bounds)"

lemma read_block_length: "read_block p off n = Inr bs \<Longrightarrow> length bs = n"
  by (auto simp: read_block_def split: if_splits option.splits)

lemma read_block_Some: "off + n \<le> length block \<Longrightarrow> read_block (Some block) off n = Inr (take n (drop off block))"
  by (simp add: read_block_def)

subsection \<open>The contract\<close>

text \<open>Pulling once for every size of the list, or until there is no more.\<close>

fun drain ::
  "(nat \<Rightarrow> 's \<Rightarrow> ('b list \<times> bool \<times> 's) ub) \<Rightarrow> nat list \<Rightarrow> 's \<Rightarrow> ('b list list \<times> bool \<times> 's) ub"
where
  "drain pull [] s = Inr ([], True, s)"
| "drain pull (n # ns) s =
     ub_bind (pull n s)
       (\<lambda>(piece, more, s').
         if more
         then ub_bind (drain pull ns s') (\<lambda>(pieces, more', s''). Inr (piece # pieces, more', s''))
         else Inr ([piece], False, s'))"

text \<open>
  \<open>pull n s\<close> asks for at most \<open>n\<close> bytes and gives the piece and whether there is more;
  \<open>remaining s\<close> is what is still to be handed out.
\<close>

locale chunked_source =
  fixes pull :: "nat \<Rightarrow> 's \<Rightarrow> ('b list \<times> bool \<times> 's) ub" and remaining :: "'s \<Rightarrow> 'b list"
    and ready :: "'s \<Rightarrow> bool"
  assumes pull_piece: "ready s \<Longrightarrow> n < 2 ^ 64 \<Longrightarrow> \<exists>s'.
    pull n s = Inr (take n (remaining s), drop n (remaining s) \<noteq> [], s')
      \<and> ready s' \<and> remaining s' = drop n (remaining s)"
begin

lemma drain_pieces:
  assumes "ready s" and "\<forall>n \<in> set ns. n < 2 ^ 64"
  shows "\<exists>pieces more s'. drain pull ns s = Inr (pieces, more, s') \<and> ready s'
    \<and> concat pieces @ remaining s' = remaining s \<and> (\<not> more \<longrightarrow> remaining s' = [])
    \<and> list_all2 (\<lambda>p n. length p \<le> n) pieces (take (length pieces) ns)"
  using assms
proof (induction ns arbitrary: s)
  case (Cons n ns)
  then obtain s1 where 1: "pull n s = Inr (take n (remaining s), drop n (remaining s) \<noteq> [], s1)"
    "ready s1" "remaining s1 = drop n (remaining s)" using pull_piece [of s n] by auto
  show ?case
  proof (cases "drop n (remaining s) = []")
    case False
    obtain pieces more s' where "drain pull ns s1 = Inr (pieces, more, s')" "ready s'"
      "concat pieces @ remaining s' = remaining s1" "\<not> more \<longrightarrow> remaining s' = []"
      "list_all2 (\<lambda>p n. length p \<le> n) pieces (take (length pieces) ns)"
      using Cons.IH [OF 1(2)] Cons.prems(2) by auto
    then show ?thesis using 1 False by simp
  qed (use 1 in auto)
next
  case Nil
  then show ?case by (intro exI [of _ "[]"] exI [of _ True] exI [of _ s]) simp
qed

text \<open>With room for a byte each time, as many pulls as there are bytes are enough.\<close>

lemma drain_ends:
  assumes "ready s" and "\<forall>n \<in> set ns. 0 < n \<and> n < 2 ^ 64"
    and "length (remaining s) \<le> length ns" and "ns \<noteq> []"
  shows "\<exists>pieces s'. drain pull ns s = Inr (pieces, False, s') \<and> concat pieces = remaining s"
  using assms
proof (induction ns arbitrary: s)
  case (Cons n ns)
  then obtain s1 where 1: "pull n s = Inr (take n (remaining s), drop n (remaining s) \<noteq> [], s1)"
    "ready s1" "remaining s1 = drop n (remaining s)" using pull_piece [of s n] by auto
  show ?case
  proof (cases "drop n (remaining s) = []")
    case True
    then show ?thesis using 1 by simp
  next
    case False
    then have "length (remaining s1) \<le> length ns" "ns \<noteq> []"
      using Cons.prems 1 by auto
    then obtain pieces s' where "drain pull ns s1 = Inr (pieces, False, s')" "concat pieces = remaining s1"
      using Cons.IH [OF 1(2)] Cons.prems(2) by auto
    then show ?thesis using 1 False by simp
  qed
qed simp

end

end
