(* ===== verification/ReceiveService.thy ===== *)
theory ReceiveService
  imports ReceiveTargets Streams
begin

text \<open>
  The receive half of the data service, source/ccapi_data_handler.c: the cloud sends a request
  to a target in packets, the user's data callback runs on the receive thread with the whole
  request, its response goes back in pieces.

  Sessions (\<open>ccapi_svc_receive_t\<close>) are heap objects whose addresses the connector keeps as its
  \<open>user_context\<close>; \<open>ds_sessions\<close> maps the addresses of those that are allocated. The thread is
  two atomic steps: it wakes, takes the queued session and runs the callback; then it stores what
  the callback answered. The handler may run in between.

  Statuses of \<open>receive_lock\<close> are looked at by ASSERT_MSG only, so they change nothing here; the
  halt of a debug build is not modelled.
\<close>

subsection \<open>State\<close>

datatype ccapi_receive_thread_status_t =
    CCAPI_RECEIVE_THREAD_IDLE
  | CCAPI_RECEIVE_THREAD_DATA_CB_READY
  | CCAPI_RECEIVE_THREAD_DATA_CB_QUEUED
  | CCAPI_RECEIVE_THREAD_DATA_CB_PROCESSED
  | CCAPI_RECEIVE_THREAD_FREE

text \<open>
  \<open>response_processing\<close> starts as a copy of \<open>response_buffer_info\<close> and its pointer moves on:
  the block, how far the pointer is in it, and what is left.
\<close>

record response_processing =
  processing_block :: "u8 buffer option"
  processing_offset :: nat
  processing_length :: size_t

record 'w ccapi_svc_receive_t =
  sr_target :: "string option"
  sr_transport :: connector_transport_t
  sr_response_required :: bool
  sr_data_cb :: "'w ccapi_receive_data_cb_t option"
  sr_status_cb :: "'w ccapi_receive_status_cb_t option"
  sr_max_request_size :: size_t
  sr_request_buffer_info :: ccapi_buffer_info_t
  sr_response_buffer_info :: ccapi_buffer_info_t
  sr_response_handled_internally :: bool
  sr_response_processing :: response_processing
  sr_receive_error :: ccapi_receive_error_t
  sr_receive_thread_status :: ccapi_receive_thread_status_t

record 'w data_state = "'w receive_service" +
  ds_sessions :: "nat \<rightharpoonup> 'w ccapi_svc_receive_t"
  ds_fresh :: nat
  ds_svc_receive :: ptr
  ds_thread_lock :: ptr
  ds_thread_status :: ccapi_thread_status_t

definition CCAPI_RECEIVE_NO_LIMIT :: size_t where
  "CCAPI_RECEIVE_NO_LIMIT = - 1"

definition no_buffer :: ccapi_buffer_info_t where
  "no_buffer = \<lparr>info_buffer = None, info_length = 0\<rparr>"

definition get_session :: "'w data_state \<Rightarrow> nat \<Rightarrow> 'w ccapi_svc_receive_t ub" where
  "get_session d a = (case ds_sessions d a of None \<Rightarrow> Inl Use_After_Free | Some s \<Rightarrow> Inr s)"

definition put_session :: "nat \<Rightarrow> 'w ccapi_svc_receive_t \<Rightarrow> 'w data_state \<Rightarrow> 'w data_state" where
  "put_session a s d = d\<lparr>ds_sessions := (ds_sessions d)(a \<mapsto> s)\<rparr>"

text \<open>What the connector passes.\<close>

record connector_data_service_receive_target_t =
  target_user_context :: ptr
  target_transport :: connector_transport_t
  target_target :: "string option"
  target_response_required :: bool

record connector_data_service_receive_data_t =
  data_user_context :: ptr
  data_buffer :: "u8 list"
  data_bytes_used :: size_t
  data_more_data :: bool

record connector_data_service_receive_reply_data_t =
  reply_user_context :: ptr
  reply_buffer :: "u8 buffer"
  reply_bytes_available :: size_t
  reply_bytes_used :: size_t
  reply_more_data :: bool

datatype connector_data_service_status_type_t =
    connector_data_service_status_complete
  | connector_data_service_status_cancel
  | connector_data_service_status_timeout
  | connector_data_service_status_session_error
  | connector_data_service_status_COUNT

record connector_data_service_status_t =
  status_user_context :: ptr
  status_status :: connector_data_service_status_type_t

record connector_data_service_length_t =
  length_user_context :: ptr
  length_total_bytes :: size_t

subsection \<open>The target of a request\<close>

definition new_session ::
  "'w data_state \<Rightarrow> connector_data_service_receive_target_t \<Rightarrow> 'w ccapi_svc_receive_t" where
  "new_session d target_ptr =
     \<lparr>sr_target = None, sr_transport = target_transport target_ptr,
      sr_response_required = target_response_required target_ptr,
      sr_data_cb = rs_data_cb d, sr_status_cb = rs_status_cb d,
      sr_max_request_size = CCAPI_RECEIVE_NO_LIMIT,
      sr_request_buffer_info = no_buffer, sr_response_buffer_info = no_buffer,
      sr_response_handled_internally = False,
      sr_response_processing = \<lparr>processing_block = None, processing_offset = 0, processing_length = 0\<rparr>,
      sr_receive_error = CCAPI_RECEIVE_ERROR_NONE,
      sr_receive_thread_status = CCAPI_RECEIVE_THREAD_IDLE\<rparr>"

text \<open>
  Whether a request to the target is accepted: it is registered, or there is a default data
  callback and the user accepts it.
\<close>

definition accept_target ::
  "'w data_state \<Rightarrow> string \<Rightarrow> 'w ccapi_svc_receive_t \<Rightarrow> 'w
     \<Rightarrow> (connector_callback_status_t \<times> 'w ccapi_svc_receive_t \<times> 'w) ub" where
  "accept_target d target svc w =
     (if \<not> rs_supported d
      then Inr (connector_callback_error, svc\<lparr>sr_receive_error := CCAPI_RECEIVE_ERROR_NO_RECEIVE_SUPPORT\<rparr>, w)
      else
        ub_bind (read_slot (get_pointer_to_target_entry (rs_targets d) target) (target_entries (rs_targets d)))
          (\<lambda>added_target.
            case added_target of
              Some (a, t) \<Rightarrow>
                Inr (connector_callback_continue,
                     svc\<lparr>sr_max_request_size := rt_max_request_size t, sr_data_cb := rt_data t,
                         sr_status_cb := rt_status t\<rparr>, w)
            | None \<Rightarrow>
                (if sr_data_cb svc = None
                 then Inr (connector_callback_error,
                           svc\<lparr>sr_receive_error := CCAPI_RECEIVE_ERROR_INVALID_DATA_CB\<rparr>, w)
                 else
                   (case (case rs_accept_cb d of None \<Rightarrow> (True, w) | Some accept \<Rightarrow> accept target (sr_transport svc) w) of
                      (True, w1) \<Rightarrow> Inr (connector_callback_continue, svc, w1)
                    | (False, w1) \<Rightarrow>
                        Inr (connector_callback_error,
                             svc\<lparr>sr_receive_error := CCAPI_RECEIVE_ERROR_USER_REFUSED_TARGET\<rparr>, w1)))))"

definition ccapi_process_device_request_target ::
  "'w os \<Rightarrow> connector_data_service_receive_target_t \<Rightarrow> 'w data_state \<Rightarrow> 'w
     \<Rightarrow> (connector_callback_status_t \<times> connector_data_service_receive_target_t \<times> 'w data_state \<times> 'w) ub"
where
  "ccapi_process_device_request_target os target_ptr d w =
     (case target_target target_ptr of
        None \<Rightarrow> Inr (connector_callback_error, target_ptr, d, w)
      | Some target \<Rightarrow>
          (if target_user_context target_ptr \<noteq> None then Inr (connector_callback_error, target_ptr, d, w)
           else
             (case ccapi_malloc os (Sizeof ''ccapi_svc_receive_t'') w of
                (False, w1) \<Rightarrow> Inr (connector_callback_error, target_ptr, d, w1)
              | (True, w1) \<Rightarrow>
                  (let a = ds_fresh d;
                       target_ptr' = target_ptr\<lparr>target_user_context := Some a\<rparr>;
                       d1 = d\<lparr>ds_fresh := Suc a\<rparr>;
                       svc = new_session d target_ptr
                   in case ccapi_malloc os (Bytes (length target + 1)) w1 of
                        (False, w2) \<Rightarrow>
                          Inr (connector_callback_error, target_ptr',
                               put_session a (svc\<lparr>sr_receive_error := CCAPI_RECEIVE_ERROR_INSUFFICIENT_MEMORY\<rparr>) d1, w2)
                      | (True, w2) \<Rightarrow>
                          ub_bind (accept_target d1 target (svc\<lparr>sr_target := Some target\<rparr>) w2)
                            (\<lambda>(status, svc', w3).
                              Inr (status, target_ptr', put_session a svc' d1, w3))))))"

subsection \<open>The packets of a request\<close>

text \<open>
  \<open>realloc old_size new_size\<close> is \<open>ccimp_os_realloc\<close>: on success the block has the new size and
  keeps what it held, the rest is not initialised.
\<close>

definition realloc_block :: "u8 buffer option \<Rightarrow> size_t \<Rightarrow> u8 buffer" where
  "realloc_block p new_size =
     (let old = (case p of None \<Rightarrow> [] | Some b \<Rightarrow> b);
          n = unat new_size
      in take n old @ replicate (n - length old) None)"

definition append_packet ::
  "(size_t \<Rightarrow> size_t \<Rightarrow> 'w \<Rightarrow> ccimp_status_t \<times> 'w) \<Rightarrow> connector_data_service_receive_data_t
     \<Rightarrow> 'w ccapi_svc_receive_t \<Rightarrow> 'w \<Rightarrow> (bool \<times> 'w ccapi_svc_receive_t \<times> 'w) ub" where
  "append_packet realloc data_ptr svc w =
     (let info = sr_request_buffer_info svc;
          new_size = info_length info + data_bytes_used data_ptr
      in if sr_max_request_size svc \<noteq> CCAPI_RECEIVE_NO_LIMIT \<and> sr_max_request_size svc < new_size
         then Inr (False, svc\<lparr>sr_receive_error := CCAPI_RECEIVE_ERROR_REQUEST_TOO_BIG,
                              sr_receive_thread_status := CCAPI_RECEIVE_THREAD_FREE\<rparr>, w)
         else
           (let (status, w1) = realloc (info_length info) new_size w
            in if status \<noteq> CCIMP_STATUS_OK
               then Inr (False, svc\<lparr>sr_receive_error := CCAPI_RECEIVE_ERROR_INSUFFICIENT_MEMORY,
                                    sr_receive_thread_status := CCAPI_RECEIVE_THREAD_FREE\<rparr>, w1)
               else if length (data_buffer data_ptr) < unat (data_bytes_used data_ptr)
               then Inl Out_Of_Bounds
               else
                 ub_bind (memcpy_at (realloc_block (info_buffer info) new_size) (unat (info_length info))
                            (take (unat (data_bytes_used data_ptr)) (data_buffer data_ptr)))
                   (\<lambda>block.
                     Inr (True, svc\<lparr>sr_request_buffer_info :=
                                      \<lparr>info_buffer = Some block, info_length = new_size\<rparr>\<rparr>, w1))))"

text \<open>\<open>memcpy(&response_processing, &response_buffer_info, ...)\<close>.\<close>

definition copy_response :: "'w ccapi_svc_receive_t \<Rightarrow> 'w ccapi_svc_receive_t" where
  "copy_response svc =
     svc\<lparr>sr_response_processing :=
           \<lparr>processing_block = info_buffer (sr_response_buffer_info svc), processing_offset = 0,
            processing_length = info_length (sr_response_buffer_info svc)\<rparr>\<rparr>"

text \<open>Handing the session to the thread, if it has none.\<close>

definition queue_request :: "'w os \<Rightarrow> nat \<Rightarrow> 'w ccapi_svc_receive_t \<Rightarrow> 'w data_state \<Rightarrow> 'w \<Rightarrow> 'w data_state \<times> 'w" where
  "queue_request os a svc d w =
     (let w1 = snd (ccapi_lock_acquire os (rs_lock d) w)
      in if ds_svc_receive d = None
         then (put_session a (svc\<lparr>sr_receive_thread_status := CCAPI_RECEIVE_THREAD_DATA_CB_QUEUED\<rparr>)
                 (d\<lparr>ds_svc_receive := Some a\<rparr>),
               snd (ccapi_lock_release os (ds_thread_lock d) (snd (ccapi_lock_release os (rs_lock d) w1))))
         else (d, snd (ccapi_lock_release os (rs_lock d) w1)))"

definition ccapi_process_device_request_data ::
  "'w os \<Rightarrow> (size_t \<Rightarrow> size_t \<Rightarrow> 'w \<Rightarrow> ccimp_status_t \<times> 'w) \<Rightarrow> connector_data_service_receive_data_t
     \<Rightarrow> 'w data_state \<Rightarrow> 'w \<Rightarrow> (connector_callback_status_t \<times> 'w data_state \<times> 'w) ub" where
  "ccapi_process_device_request_data os realloc data_ptr d w =
     (case data_user_context data_ptr of
        None \<Rightarrow> Inr (connector_callback_error, d, w)
      | Some a \<Rightarrow>
          ub_bind (get_session d a)
            (\<lambda>svc.
              if \<not> rs_supported d
              then Inr (connector_callback_error,
                        put_session a (svc\<lparr>sr_receive_error := CCAPI_RECEIVE_ERROR_NO_RECEIVE_SUPPORT\<rparr>) d, w)
              else
                (case sr_receive_thread_status svc of
                   CCAPI_RECEIVE_THREAD_IDLE \<Rightarrow>
                     ub_bind (append_packet realloc data_ptr svc w)
                       (\<lambda>(ok, svc', w1).
                         if \<not> ok then Inr (connector_callback_error, put_session a svc' d, w1)
                         else if \<not> data_more_data data_ptr
                         then Inr (connector_callback_busy,
                                   put_session a (svc'\<lparr>sr_receive_thread_status :=
                                                         CCAPI_RECEIVE_THREAD_DATA_CB_READY\<rparr>) d, w1)
                         else Inr (connector_callback_continue, put_session a svc' d, w1))
                 | CCAPI_RECEIVE_THREAD_DATA_CB_READY \<Rightarrow>
                     (case queue_request os a svc d w of (d', w') \<Rightarrow> Inr (connector_callback_busy, d', w'))
                 | CCAPI_RECEIVE_THREAD_DATA_CB_QUEUED \<Rightarrow> Inr (connector_callback_busy, d, w)
                 | CCAPI_RECEIVE_THREAD_DATA_CB_PROCESSED \<Rightarrow>
                     (let w1 = snd (ccapi_free os (info_buffer (sr_request_buffer_info svc) \<noteq> None) w);
                          svc1 = (if sr_response_required svc then copy_response svc else svc);
                          svc2 = svc1\<lparr>sr_receive_thread_status := CCAPI_RECEIVE_THREAD_FREE\<rparr>
                      in Inr (if sr_receive_error svc = CCAPI_RECEIVE_ERROR_NONE
                              then connector_callback_continue else connector_callback_error,
                              put_session a svc2 d, w1))
                 | CCAPI_RECEIVE_THREAD_FREE \<Rightarrow> Inr (connector_callback_error, d, w))))"

subsection \<open>The response\<close>

text \<open>The value of an enumerator and the text of an error, as \<open>ENUM_TO_CASE_ERR\<close> spells it.\<close>

definition receive_error_value :: "ccapi_receive_error_t \<Rightarrow> nat" where
  "receive_error_value e =
     (case e of
        CCAPI_RECEIVE_ERROR_NONE \<Rightarrow> 0
      | CCAPI_RECEIVE_ERROR_CCAPI_NOT_RUNNING \<Rightarrow> 1
      | CCAPI_RECEIVE_ERROR_NO_RECEIVE_SUPPORT \<Rightarrow> 2
      | CCAPI_RECEIVE_ERROR_INSUFFICIENT_MEMORY \<Rightarrow> 3
      | CCAPI_RECEIVE_ERROR_INVALID_TARGET \<Rightarrow> 4
      | CCAPI_RECEIVE_ERROR_TARGET_NOT_ADDED \<Rightarrow> 5
      | CCAPI_RECEIVE_ERROR_TARGET_ALREADY_ADDED \<Rightarrow> 6
      | CCAPI_RECEIVE_ERROR_INVALID_DATA_CB \<Rightarrow> 7
      | CCAPI_RECEIVE_ERROR_LOCK_FAILED \<Rightarrow> 8
      | CCAPI_RECEIVE_ERROR_USER_REFUSED_TARGET \<Rightarrow> 9
      | CCAPI_RECEIVE_ERROR_REQUEST_TOO_BIG \<Rightarrow> 10
      | CCAPI_RECEIVE_ERROR_STATUS_CANCEL \<Rightarrow> 11
      | CCAPI_RECEIVE_ERROR_STATUS_TIMEOUT \<Rightarrow> 12
      | CCAPI_RECEIVE_ERROR_STATUS_SESSION_ERROR \<Rightarrow> 13
      | CCAPI_RECEIVE_ERROR_CUSTOM \<Rightarrow> 14)"

definition receive_error_str :: "ccapi_receive_error_t \<Rightarrow> string" where
  "receive_error_str e =
     (case e of
        CCAPI_RECEIVE_ERROR_CCAPI_NOT_RUNNING \<Rightarrow> ''CCAPI_RECEIVE_ERROR_CCAPI_NOT_RUNNING''
      | CCAPI_RECEIVE_ERROR_NO_RECEIVE_SUPPORT \<Rightarrow> ''CCAPI_RECEIVE_ERROR_NO_RECEIVE_SUPPORT''
      | CCAPI_RECEIVE_ERROR_INSUFFICIENT_MEMORY \<Rightarrow> ''CCAPI_RECEIVE_ERROR_INSUFFICIENT_MEMORY''
      | CCAPI_RECEIVE_ERROR_INVALID_DATA_CB \<Rightarrow> ''CCAPI_RECEIVE_ERROR_INVALID_DATA_CB''
      | CCAPI_RECEIVE_ERROR_USER_REFUSED_TARGET \<Rightarrow> ''CCAPI_RECEIVE_ERROR_USER_REFUSED_TARGET''
      | CCAPI_RECEIVE_ERROR_REQUEST_TOO_BIG \<Rightarrow> ''CCAPI_RECEIVE_ERROR_REQUEST_TOO_BIG''
      | _ \<Rightarrow> ''Unexpected error'')"

text \<open>\<open>%d\<close> of a number that is not negative.\<close>

fun decimal :: "nat \<Rightarrow> string" where
  "decimal n = (if n < 10 then [char_of (48 + n)] else decimal (n div 10) @ [char_of (48 + n mod 10)])"

declare decimal.simps [simp del]

text \<open>\<open>sizeof ERROR_MESSAGE\<close>, and the format with its three arguments.\<close>

definition ERROR_MESSAGE :: string where
  "ERROR_MESSAGE = ''CCAPI Error %d (%s) while handling target '' @ [CHR 0x27] @ ''%s'' @ [CHR 0x27]"

definition error_message :: "ccapi_receive_error_t \<Rightarrow> string \<Rightarrow> string" where
  "error_message e target =
     ''CCAPI Error '' @ decimal (receive_error_value e) @ '' ('' @ receive_error_str e
       @ '') while handling target '' @ [CHR 0x27] @ target @ [CHR 0x27]"

definition bytes_of_string :: "string \<Rightarrow> u8 list" where
  "bytes_of_string s = map (\<lambda>c. of_nat (of_char c)) s"

text \<open>\<open>sprintf\<close> writes the text and its NUL; the length it returns does not count the NUL.\<close>

definition fill_internal_error ::
  "'w os \<Rightarrow> 'w ccapi_svc_receive_t \<Rightarrow> 'w \<Rightarrow> ('w ccapi_svc_receive_t \<times> 'w) ub" where
  "fill_internal_error os svc w =
     (case sr_target svc of
        None \<Rightarrow> Inl Null_Dereference
      | Some target \<Rightarrow>
          (let e = sr_receive_error svc;
               room = length (receive_error_str e) + (length ERROR_MESSAGE + 1) + length target
           in case ccapi_malloc os (Bytes room) w of
                (False, w1) \<Rightarrow>
                  Inr (svc\<lparr>sr_receive_error := CCAPI_RECEIVE_ERROR_INSUFFICIENT_MEMORY,
                           sr_response_buffer_info := (sr_response_buffer_info svc)\<lparr>info_buffer := None\<rparr>\<rparr>, w1)
              | (True, w1) \<Rightarrow>
                  ub_bind (memcpy_at (replicate room None) 0
                             (bytes_of_string (error_message e target @ [CHR 0x00])))
                    (\<lambda>block.
                      Inr (svc\<lparr>sr_response_buffer_info :=
                                 \<lparr>info_buffer = Some block,
                                  info_length = of_nat (length (error_message e target))\<rparr>\<rparr>, w1))))"

text \<open>An error without a response of the user's gets one, once.\<close>

definition prepare_response ::
  "'w os \<Rightarrow> 'w ccapi_svc_receive_t \<Rightarrow> 'w \<Rightarrow> ('w ccapi_svc_receive_t \<times> 'w) ub" where
  "prepare_response os svc w =
     (if sr_receive_error svc \<noteq> CCAPI_RECEIVE_ERROR_NONE \<and> \<not> sr_response_handled_internally svc
         \<and> info_length (sr_response_buffer_info svc) = 0
      then ub_bind (fill_internal_error os (svc\<lparr>sr_response_handled_internally := True\<rparr>) w)
             (\<lambda>(svc', w'). Inr (copy_response svc', w'))
      else Inr (svc, w))"

definition send_response_piece ::
  "connector_data_service_receive_reply_data_t \<Rightarrow> 'w ccapi_svc_receive_t
     \<Rightarrow> (connector_data_service_receive_reply_data_t \<times> 'w ccapi_svc_receive_t) ub" where
  "send_response_piece reply_ptr svc =
     (let p = sr_response_processing svc;
          bytes_to_send = (if reply_bytes_available reply_ptr < processing_length p
                           then reply_bytes_available reply_ptr else processing_length p)
      in ub_bind (read_block (processing_block p) (processing_offset p) (unat bytes_to_send))
           (\<lambda>piece. ub_bind (write_block (reply_buffer reply_ptr) piece)
             (\<lambda>buffer.
               let p' = p\<lparr>processing_offset := processing_offset p + unat bytes_to_send,
                          processing_length := processing_length p - bytes_to_send\<rparr>
               in Inr (reply_ptr\<lparr>reply_buffer := buffer, reply_bytes_used := bytes_to_send,
                                 reply_more_data := (0 < processing_length p')\<rparr>,
                       svc\<lparr>sr_response_processing := p'\<rparr>))))"

definition ccapi_process_device_request_response ::
  "'w os \<Rightarrow> connector_data_service_receive_reply_data_t \<Rightarrow> 'w data_state \<Rightarrow> 'w
     \<Rightarrow> (connector_callback_status_t \<times> connector_data_service_receive_reply_data_t \<times> 'w data_state \<times> 'w) ub"
where
  "ccapi_process_device_request_response os reply_ptr d w =
     (case reply_user_context reply_ptr of
        None \<Rightarrow> Inr (connector_callback_error, reply_ptr, d, w)
      | Some a \<Rightarrow>
          ub_bind (get_session d a)
            (\<lambda>svc.
              if \<not> sr_response_required svc then Inr (connector_callback_error, reply_ptr, d, w)
              else
                ub_bind (prepare_response os svc w)
                  (\<lambda>(svc1, w1). ub_bind (send_response_piece reply_ptr svc1)
                    (\<lambda>(reply_ptr', svc2).
                      Inr (connector_callback_continue, reply_ptr', put_session a svc2 d, w1)))))"

subsection \<open>The end of a session\<close>

definition status_error :: "connector_data_service_status_type_t \<Rightarrow> ccapi_receive_error_t option" where
  "status_error st =
     (case st of
        connector_data_service_status_complete \<Rightarrow> Some CCAPI_RECEIVE_ERROR_NONE
      | connector_data_service_status_cancel \<Rightarrow> Some CCAPI_RECEIVE_ERROR_STATUS_CANCEL
      | connector_data_service_status_timeout \<Rightarrow> Some CCAPI_RECEIVE_ERROR_STATUS_TIMEOUT
      | connector_data_service_status_session_error \<Rightarrow> Some CCAPI_RECEIVE_ERROR_STATUS_SESSION_ERROR
      | connector_data_service_status_COUNT \<Rightarrow> None)"

text \<open>The status callback is told of the response buffer only if the user has to free it.\<close>

definition tell_status :: "'w data_state \<Rightarrow> 'w ccapi_svc_receive_t \<Rightarrow> 'w \<Rightarrow> 'w" where
  "tell_status d svc w =
     (case (rs_supported d, sr_status_cb svc) of
        (True, Some status_cb) \<Rightarrow>
          status_cb (sr_target svc) (sr_transport svc)
            (if \<not> sr_response_handled_internally svc \<and> sr_response_required svc
                \<and> info_buffer (sr_response_buffer_info svc) \<noteq> None
             then Some (sr_response_buffer_info svc) else None)
            (sr_receive_error svc) w
      | _ \<Rightarrow> w)"

definition ccapi_process_device_request_status ::
  "'w os \<Rightarrow> connector_data_service_status_t \<Rightarrow> 'w data_state \<Rightarrow> 'w
     \<Rightarrow> (connector_callback_status_t \<times> 'w data_state \<times> 'w) ub" where
  "ccapi_process_device_request_status os status_ptr d w =
     (case status_user_context status_ptr of
        None \<Rightarrow> Inr (connector_callback_error, d, w)
      | Some a \<Rightarrow>
          ub_bind (get_session d a)
            (\<lambda>svc.
              case (if sr_receive_error svc = CCAPI_RECEIVE_ERROR_NONE
                    then status_error (status_status status_ptr) else Some (sr_receive_error svc)) of
                None \<Rightarrow> Inr (connector_callback_error, d, w)
              | Some e \<Rightarrow>
                  (let svc' = svc\<lparr>sr_receive_error := e\<rparr>;
                       w1 = tell_status d svc' w;
                       w2 = (if sr_target svc' \<noteq> None then snd (ccapi_free os True w1) else w1);
                       w3 = (if sr_response_handled_internally svc'
                             then snd (ccapi_free os (info_buffer (sr_response_buffer_info svc') \<noteq> None) w2)
                             else w2);
                       w4 = snd (ccapi_free os True w3)
                   in Inr (connector_callback_continue, d\<lparr>ds_sessions := (ds_sessions d)(a := None)\<rparr>, w4))))"

definition ccapi_process_device_request_length ::
  "connector_data_service_length_t \<Rightarrow> 'w data_state
     \<Rightarrow> (connector_callback_status_t \<times> connector_data_service_length_t) ub" where
  "ccapi_process_device_request_length length_ptr d =
     (case length_user_context length_ptr of
        None \<Rightarrow> Inr (connector_callback_error, length_ptr)
      | Some a \<Rightarrow>
          ub_bind (get_session d a)
            (\<lambda>svc. Inr (connector_callback_continue,
                        length_ptr\<lparr>length_total_bytes := processing_length (sr_response_processing svc)\<rparr>)))"

subsection \<open>The receive thread\<close>

datatype receive_thread_phase =
    Thread_Waiting
  | Thread_In_Callback nat ccapi_receive_error_t ccapi_buffer_info_t
  | Thread_Exited

definition receive_thread_start :: "'w data_state \<Rightarrow> 'w data_state" where
  "receive_thread_start d = d\<lparr>ds_thread_status := CCAPI_THREAD_RUNNING\<rparr>"

text \<open>
  From the acquired lock to the return of the callback. A failed assertion ends the thread, as
  does a stop request.
\<close>

definition receive_thread_wake ::
  "'w data_state \<Rightarrow> 'w \<Rightarrow> (receive_thread_phase \<times> 'w data_state \<times> 'w) ub" where
  "receive_thread_wake d w =
     (let exit = Inr (Thread_Exited, d\<lparr>ds_thread_status := CCAPI_THREAD_NOT_STARTED\<rparr>, w)
      in if ds_thread_status d = CCAPI_THREAD_REQUEST_STOP then exit
         else
           (case ds_svc_receive d of
              None \<Rightarrow> exit
            | Some a \<Rightarrow>
                ub_bind (get_session d a)
                  (\<lambda>svc.
                    if sr_receive_thread_status svc \<noteq> CCAPI_RECEIVE_THREAD_DATA_CB_QUEUED then exit
                    else
                      (case sr_data_cb svc of
                         None \<Rightarrow> exit
                       | Some data_cb \<Rightarrow>
                           (case data_cb (sr_target svc) (sr_transport svc) (sr_request_buffer_info svc)
                                   (if sr_response_required svc then Some (sr_response_buffer_info svc) else None) w of
                              (e, response, w1) \<Rightarrow> Inr (Thread_In_Callback a e response, d, w1))))))"

text \<open>From the return of the callback to the next wait, or the end of the loop.\<close>

definition receive_thread_finish ::
  "nat \<Rightarrow> ccapi_receive_error_t \<Rightarrow> ccapi_buffer_info_t \<Rightarrow> 'w data_state
     \<Rightarrow> (receive_thread_phase \<times> 'w data_state) ub" where
  "receive_thread_finish a e response d =
     ub_bind (get_session d a)
       (\<lambda>svc.
         let svc1 = svc\<lparr>sr_receive_error := e,
                        sr_response_buffer_info := (if sr_response_required svc then response
                                                    else sr_response_buffer_info svc)\<rparr>;
             svc2 = (if sr_receive_thread_status svc1 = CCAPI_RECEIVE_THREAD_DATA_CB_QUEUED
                     then svc1\<lparr>sr_receive_thread_status := CCAPI_RECEIVE_THREAD_DATA_CB_PROCESSED\<rparr> else svc1);
             d1 = (put_session a svc2 d)\<lparr>ds_svc_receive := None\<rparr>
         in if ds_thread_status d = CCAPI_THREAD_RUNNING then Inr (Thread_Waiting, d1)
            else Inr (Thread_Exited, d1\<lparr>ds_thread_status := CCAPI_THREAD_NOT_STARTED\<rparr>))"

subsection \<open>States for concrete runs\<close>

definition example_session :: "'w ccapi_svc_receive_t" where
  "example_session =
     \<lparr>sr_target = Some ''t'', sr_transport = connector_transport_tcp, sr_response_required = True,
      sr_data_cb = Some example_data_cb, sr_status_cb = None, sr_max_request_size = CCAPI_RECEIVE_NO_LIMIT,
      sr_request_buffer_info = no_buffer, sr_response_buffer_info = no_buffer,
      sr_response_handled_internally = False,
      sr_response_processing = \<lparr>processing_block = None, processing_offset = 0, processing_length = 0\<rparr>,
      sr_receive_error = CCAPI_RECEIVE_ERROR_NONE, sr_receive_thread_status = CCAPI_RECEIVE_THREAD_IDLE\<rparr>"

definition example_data :: "(nat \<rightharpoonup> 'w ccapi_svc_receive_t) \<Rightarrow> 'w data_state" where
  "example_data sessions =
     \<lparr>rs_run_status = CCAPI_THREAD_RUNNING, rs_supported = True, rs_lock = Some 2, rs_accept_cb = None,
      rs_data_cb = Some example_data_cb, rs_status_cb = None,
      rs_targets = \<lparr>target_entries = [], target_fresh = 0\<rparr>,
      ds_sessions = sessions, ds_fresh = 1, ds_svc_receive = None, ds_thread_lock = Some 3,
      ds_thread_status = CCAPI_THREAD_RUNNING\<rparr>"

end
