(* ===== verification/ReceiveReply.thy ===== *)
theory ReceiveReply
  imports ReceiveService
begin

text \<open>
  What the cloud gets back: the reply of the receive service interprets the contract of
  \<open>chunked_source\<close>, so the pieces it hands out are the response of the user, and the text the
  service makes for an error fits the buffer it allocates.
\<close>

subsection \<open>The reply as a source of pieces\<close>

text \<open>One reply request of the connector, with room for \<open>n\<close> bytes.\<close>

definition reply_request :: "nat \<Rightarrow> nat \<Rightarrow> connector_data_service_receive_reply_data_t" where
  "reply_request a n =
     \<lparr>reply_user_context = Some a, reply_buffer = replicate n None, reply_bytes_available = of_nat n,
      reply_bytes_used = 0, reply_more_data = False\<rparr>"

definition reply_pull ::
  "'w os \<Rightarrow> nat \<Rightarrow> nat \<Rightarrow> 'w data_state \<times> 'w \<Rightarrow> (u8 buffer \<times> bool \<times> 'w data_state \<times> 'w) ub" where
  "reply_pull os a n s =
     ub_bind (ccapi_process_device_request_response os (reply_request a n) (fst s) (snd s))
       (\<lambda>(status, r, d', w'). Inr (take (unat (reply_bytes_used r)) (reply_buffer r), reply_more_data r, d', w'))"

definition response_rest :: "response_processing \<Rightarrow> u8 buffer" where
  "response_rest p =
     (case processing_block p of
        None \<Rightarrow> []
      | Some block \<Rightarrow> take (unat (processing_length p)) (drop (processing_offset p) block))"

definition processing_ok :: "response_processing \<Rightarrow> bool" where
  "processing_ok p \<longleftrightarrow>
     (case processing_block p of
        None \<Rightarrow> processing_length p = 0
      | Some block \<Rightarrow> processing_offset p + unat (processing_length p) \<le> length block)"

definition reply_remaining :: "nat \<Rightarrow> 'w data_state \<times> 'w \<Rightarrow> u8 buffer" where
  "reply_remaining a s = response_rest (sr_response_processing (the (ds_sessions (fst s) a)))"

definition reply_ready :: "nat \<Rightarrow> 'w data_state \<times> 'w \<Rightarrow> bool" where
  "reply_ready a s \<longleftrightarrow>
     (case ds_sessions (fst s) a of
        None \<Rightarrow> False
      | Some svc \<Rightarrow> sr_response_required svc \<and> processing_ok (sr_response_processing svc)
          \<and> (sr_receive_error svc = CCAPI_RECEIVE_ERROR_NONE \<or> sr_response_handled_internally svc
             \<or> info_length (sr_response_buffer_info svc) \<noteq> 0))"

lemma unat_min_word: "unat (if n < l then n else l) = min (unat n) (unat (l :: size_t))"
  by (simp add: word_less_nat_alt)

lemma response_rest_read:
  assumes "processing_ok p" and "k \<le> unat (processing_length p)"
  shows "read_block (processing_block p) (processing_offset p) k = Inr (take k (response_rest p))"
  using assms
  by (auto simp: processing_ok_def response_rest_def read_block_def min_def split: option.splits)

lemma response_rest_length: "processing_ok p \<Longrightarrow> length (response_rest p) = unat (processing_length p)"
  by (auto simp: processing_ok_def response_rest_def split: option.splits)

lemma response_rest_more:
  assumes "processing_ok p" shows "(0 < processing_length p) = (response_rest p \<noteq> [])"
proof -
  have "(0 < processing_length p) = (0 < unat (processing_length p))"
    by (simp add: word_less_nat_alt)
  also have "\<dots> = (0 < length (response_rest p))" by (simp add: response_rest_length [OF assms])
  finally show ?thesis by simp
qed

text \<open>Taking at most \<open>n\<close> bytes: what is read, and what is left.\<close>

definition processing_room :: "nat \<Rightarrow> response_processing \<Rightarrow> size_t" where
  "processing_room n p = (if of_nat n < processing_length p then of_nat n else processing_length p)"

definition processing_advance :: "nat \<Rightarrow> response_processing \<Rightarrow> response_processing" where
  "processing_advance n p =
     p\<lparr>processing_offset := processing_offset p + unat (processing_room n p),
       processing_length := processing_length p - processing_room n p\<rparr>"

lemma processing_room_min:
  "n < 2 ^ 64 \<Longrightarrow> unat (processing_room n p) = min n (unat (processing_length p))"
  using unat_of_nat_u64 [of n] by (simp add: processing_room_def unat_min_word)

lemma processing_advance_ok:
  assumes "processing_ok p" and "n < 2 ^ 64"
  shows "processing_ok (processing_advance n p)"
    and "response_rest (processing_advance n p) = drop n (response_rest p)"
proof -
  have le: "processing_room n p \<le> processing_length p"
    using processing_room_min [OF assms(2), of p] by (simp add: word_le_nat_alt)
  have len: "unat (processing_length p - processing_room n p) = unat (processing_length p) - min n (unat (processing_length p))"
    using unat_minus_le [OF le] processing_room_min [OF assms(2)] by simp
  have none: "processing_length p = 0 \<Longrightarrow> processing_room n p = 0"
    by (simp add: processing_room_def word_less_nat_alt)
  show "processing_ok (processing_advance n p)"
    using assms(1) len none processing_room_min [OF assms(2), of p]
    by (auto simp: processing_ok_def processing_advance_def split: option.splits)
  show "response_rest (processing_advance n p) = drop n (response_rest p)"
    using assms(1) len processing_room_min [OF assms(2), of p]
    by (auto simp: response_rest_def processing_ok_def processing_advance_def drop_take min_def add.commute
        split: option.splits)
qed

lemma processing_read:
  assumes "processing_ok p" and "n < 2 ^ 64"
  shows "read_block (processing_block p) (processing_offset p) (unat (processing_room n p))
      = Inr (take n (response_rest p))"
    and "length (take n (response_rest p)) = unat (processing_room n p)"
proof -
  show len: "length (take n (response_rest p)) = unat (processing_room n p)"
    using response_rest_length [OF assms(1)] processing_room_min [OF assms(2), of p] by (simp add: min.commute)
  have "take (unat (processing_room n p)) (response_rest p) = take n (response_rest p)"
    using len response_rest_length [OF assms(1)] by (simp add: processing_room_min [OF assms(2)] min_def)
  then show "read_block (processing_block p) (processing_offset p) (unat (processing_room n p))
      = Inr (take n (response_rest p))"
    using response_rest_read [OF assms(1), of "unat (processing_room n p)"] processing_room_min [OF assms(2), of p]
    by simp
qed

lemma processing_write:
  assumes "processing_ok p" and "n < 2 ^ 64"
  shows "write_block (replicate n None) (take n (response_rest p))
      = Inr (take n (response_rest p) @ replicate (n - unat (processing_room n p)) None)"
  using processing_read(2) [OF assms] by (simp add: write_block_def)

lemma send_response_piece_reads:
  assumes "processing_ok (sr_response_processing svc)" and "n < 2 ^ 64"
  shows "\<exists>r p'. send_response_piece (reply_request a n) svc = Inr (r, svc\<lparr>sr_response_processing := p'\<rparr>)
    \<and> take (unat (reply_bytes_used r)) (reply_buffer r) = take n (response_rest (sr_response_processing svc))
    \<and> processing_ok p' \<and> response_rest p' = drop n (response_rest (sr_response_processing svc))
    \<and> reply_more_data r = (response_rest p' \<noteq> [])"
proof -
  let ?p = "sr_response_processing svc"
  let ?p' = "processing_advance n ?p"
  define r where "r = (reply_request a n)\<lparr>
      reply_buffer := take n (response_rest ?p) @ replicate (n - unat (processing_room n ?p)) None,
      reply_bytes_used := processing_room n ?p, reply_more_data := (0 < processing_length ?p')\<rparr>"
  have req: "reply_bytes_available (reply_request a n) = of_nat n" "reply_buffer (reply_request a n) = replicate n None"
    by (simp_all add: reply_request_def)
  have "send_response_piece (reply_request a n) svc = Inr (r, svc\<lparr>sr_response_processing := ?p'\<rparr>)"
    unfolding send_response_piece_def Let_def req processing_room_def [symmetric]
      processing_read(1) [OF assms] ub_bind_Inr processing_write [OF assms]
    by (simp add: r_def processing_advance_def)
  moreover have "take (unat (reply_bytes_used r)) (reply_buffer r) = take n (response_rest ?p)"
    unfolding r_def by (simp add: processing_read(2) [OF assms, symmetric] min_def)
  moreover have "reply_more_data r = (response_rest ?p' \<noteq> [])"
    using response_rest_more [OF processing_advance_ok(1) [OF assms]] by (simp add: r_def)
  ultimately show ?thesis using processing_advance_ok [OF assms] by blast
qed

interpretation reply: chunked_source "reply_pull os a" "reply_remaining a" "reply_ready a" for os :: "'w os" and a
proof
  fix s :: "'w data_state \<times> 'w" and n :: nat
  assume ready: "reply_ready a s" and n: "n < 2 ^ 64"
  obtain d w where s: "s = (d, w)" by fastforce
  then obtain svc where svc: "ds_sessions d a = Some svc" "sr_response_required svc"
    "processing_ok (sr_response_processing svc)"
    "sr_receive_error svc = CCAPI_RECEIVE_ERROR_NONE \<or> sr_response_handled_internally svc
       \<or> info_length (sr_response_buffer_info svc) \<noteq> 0"
    using ready by (auto simp: reply_ready_def split: option.splits)
  obtain r p' where piece: "send_response_piece (reply_request a n) svc = Inr (r, svc\<lparr>sr_response_processing := p'\<rparr>)"
    "take (unat (reply_bytes_used r)) (reply_buffer r) = take n (response_rest (sr_response_processing svc))"
    "processing_ok p'" "response_rest p' = drop n (response_rest (sr_response_processing svc))"
    "reply_more_data r = (response_rest p' \<noteq> [])"
    using send_response_piece_reads [OF svc(3) n] by blast
  have prep: "prepare_response os svc w = Inr (svc, w)"
    using svc(4) by (auto simp: prepare_response_def)
  have ctx: "reply_user_context (reply_request a n) = Some a" by (simp add: reply_request_def)
  have "reply_pull os a n s = Inr (take n (reply_remaining a s), drop n (reply_remaining a s) \<noteq> [],
      put_session a (svc\<lparr>sr_response_processing := p'\<rparr>) d, w)"
    by (simp only: reply_pull_def s fst_conv snd_conv ccapi_process_device_request_response_def ctx
          option.case get_session_def svc(1) ub_bind_Inr svc(2) not_True_eq_False if_False prep
          prod.case piece(1) piece(2) piece(5) piece(4) reply_remaining_def option.sel)
  then show "\<exists>s'. reply_pull os a n s = Inr (take n (reply_remaining a s), drop n (reply_remaining a s) \<noteq> [], s')
      \<and> reply_ready a s' \<and> reply_remaining a s' = drop n (reply_remaining a s)"
    using svc piece
    by (intro exI [of _ "(put_session a (svc\<lparr>sr_response_processing := p'\<rparr>) d, w)"])
      (simp add: reply_ready_def reply_remaining_def put_session_def s)
qed

subsection \<open>The response of the user\<close>

text \<open>
  C12. The response reaches the cloud byte for byte: once the callback of a request has answered
  a response, the last packet's request prepares it, and however the connector sizes its reply
  requests, as long as each has room for a byte, at most one per byte is needed, the pieces put
  together are the response, and the reply that brings the last byte says there is no more.
\<close>

theorem reply_pieces_are_the_response:
  assumes "ds_sessions d a = Some svc"
    and "sr_receive_thread_status svc = CCAPI_RECEIVE_THREAD_DATA_CB_PROCESSED"
    and "rs_supported d" and "sr_response_required svc"
    and "sr_response_buffer_info svc = \<lparr>info_buffer = Some block, info_length = n\<rparr>"
    and "unat n \<le> length block" and "n \<noteq> 0 \<or> sr_receive_error svc = CCAPI_RECEIVE_ERROR_NONE"
    and "data_user_context data_ptr = Some a"
    and "\<forall>m \<in> set sizes. 0 < m \<and> m < 2 ^ 64" and "unat n \<le> length sizes" and "sizes \<noteq> []"
  shows "\<exists>status d1 w1 pieces s'.
      ccapi_process_device_request_data os realloc data_ptr d w = Inr (status, d1, w1)
    \<and> drain (reply_pull os a) sizes (d1, w1) = Inr (pieces, False, s')
    \<and> concat pieces = take (unat n) block"
proof -
  let ?svc = "(copy_response svc)\<lparr>sr_receive_thread_status := CCAPI_RECEIVE_THREAD_FREE\<rparr>"
  let ?d1 = "put_session a ?svc d"
  obtain status w1 where data: "ccapi_process_device_request_data os realloc data_ptr d w = Inr (status, ?d1, w1)"
    using assms(1-4,8) by (simp add: ccapi_process_device_request_data_def get_session_def Let_def)
  have ready: "reply_ready a (?d1, w1)"
    using assms(4-7)
    by (auto simp: reply_ready_def put_session_def copy_response_def processing_ok_def)
  have rest: "reply_remaining a (?d1, w1) = take (unat n) block"
    using assms(5) by (simp add: reply_remaining_def put_session_def copy_response_def response_rest_def)
  have "length (reply_remaining a (?d1, w1)) \<le> length sizes" using rest assms(10) by simp
  then obtain pieces s' where "drain (reply_pull os a) sizes (?d1, w1) = Inr (pieces, False, s')"
    "concat pieces = take (unat n) block"
    using reply.drain_ends [OF ready assms(9) _ assms(11), where os = os] rest by metis
  then show ?thesis using data by blast
qed

definition answered_session :: "'w ccapi_svc_receive_t" where
  "answered_session = example_session
     \<lparr>sr_receive_thread_status := CCAPI_RECEIVE_THREAD_DATA_CB_PROCESSED,
      sr_response_buffer_info := \<lparr>info_buffer = Some [Some 1, Some 2, Some 3], info_length = 3\<rparr>\<rparr>"

definition last_packet :: connector_data_service_receive_data_t where
  "last_packet = \<lparr>data_user_context = Some 0, data_buffer = [7], data_bytes_used = 1, data_more_data = False\<rparr>"

theorem reply_pieces_are_the_response_witness:
  "\<exists>status d1 w1 pieces s'.
      ccapi_process_device_request_data example_os (\<lambda>old new w. (CCIMP_STATUS_OK, w)) last_packet
        (example_data [0 \<mapsto> answered_session]) () = Inr (status, d1, w1)
    \<and> drain (reply_pull example_os 0) [2, 2, 1] (d1, w1) = Inr (pieces, False, s')
    \<and> concat pieces = [Some 1, Some 2, Some 3]"
  using reply_pieces_are_the_response [where d = "example_data [0 \<mapsto> answered_session]" and a = 0
      and svc = answered_session and block = "[Some 1, Some 2, Some 3]" and n = 3
      and data_ptr = last_packet and sizes = "[2, 2, 1]" and os = example_os and w = "()"
      and realloc = "\<lambda>old new w. (CCIMP_STATUS_OK, w)"]
  by (simp add: example_data_def answered_session_def example_session_def last_packet_def)

subsection \<open>The text of an error\<close>

text \<open>
  The room: the text of the error, the format with its NUL and the target; the three conversions
  of the format take six characters, the error value at most two.
\<close>

lemma decimal_error_value: "length (decimal (receive_error_value e)) \<le> 2"
  by (cases e) (simp_all add: receive_error_value_def decimal.simps)

lemma error_message_fits:
  "length (error_message e target) + 1
     \<le> length (receive_error_str e) + (length ERROR_MESSAGE + 1) + length target"
  using decimal_error_value [of e] by (simp add: error_message_def ERROR_MESSAGE_def)

text \<open>
  The text for an error never overflows the buffer allocated for it, whatever the error and
  the target: the buffer holds the whole text with its NUL, and the length is the text's without
  the NUL. When there is no memory for it the reply is empty.
\<close>

theorem internal_error_fits:
  assumes "sr_target svc = Some target"
  shows "\<exists>svc' w'. fill_internal_error os svc w = Inr (svc', w')
    \<and> (case info_buffer (sr_response_buffer_info svc') of
         None \<Rightarrow> sr_receive_error svc' = CCAPI_RECEIVE_ERROR_INSUFFICIENT_MEMORY
           \<and> info_length (sr_response_buffer_info svc') = info_length (sr_response_buffer_info svc)
       | Some block \<Rightarrow> take (length (error_message (sr_receive_error svc) target) + 1) block
             = map Some (bytes_of_string (error_message (sr_receive_error svc) target @ [CHR 0x00]))
           \<and> info_length (sr_response_buffer_info svc')
               = of_nat (length (error_message (sr_receive_error svc) target)))"
proof -
  let ?m = "error_message (sr_receive_error svc) target"
  let ?room = "length (receive_error_str (sr_receive_error svc)) + (length ERROR_MESSAGE + 1) + length target"
  let ?bytes = "bytes_of_string (?m @ [CHR 0x00])"
  obtain ok w1 where m: "ccapi_malloc os (Bytes ?room) w = (ok, w1)" by fastforce
  have len: "length ?bytes = length ?m + 1" by (simp add: bytes_of_string_def)
  show ?thesis
  proof (cases ok)
    case True
    have "memcpy_at (replicate ?room None) 0 ?bytes
        = Inr (map Some ?bytes @ drop (length ?bytes) (replicate ?room None))"
      using error_message_fits [of "sr_receive_error svc" target] by (simp only: memcpy_at_def len) simp
    then show ?thesis
      using m True assms len by (simp add: fill_internal_error_def Let_def del: drop_replicate)
  qed (use m assms in \<open>simp add: fill_internal_error_def Let_def\<close>)
qed

theorem internal_error_fits_witness:
  "\<exists>svc' w'. fill_internal_error example_os
       (example_session\<lparr>sr_receive_error := CCAPI_RECEIVE_ERROR_REQUEST_TOO_BIG\<rparr>) () = Inr (svc', w')"
  using internal_error_fits [of "example_session\<lparr>sr_receive_error := CCAPI_RECEIVE_ERROR_REQUEST_TOO_BIG\<rparr>"
      "''t''" example_os "()"]
  by (simp add: example_session_def) blast

text \<open>
  A request whose target name found no memory is refused with a session that has no target;
  the connector then asks for the response, and the service reads the length of the NULL target.
\<close>

theorem refused_target_crashes_response:
  assumes "ccapi_malloc os (Sizeof ''ccapi_svc_receive_t'') w = (True, w1)"
    and "ccapi_malloc os (Bytes (length target + 1)) w1 = (False, w2)"
    and "target_target req = Some target" and "target_user_context req = None"
    and "target_response_required req"
    and "reply_user_context reply = Some (ds_fresh d)"
  shows "\<exists>req' d'. ccapi_process_device_request_target os req d w = Inr (connector_callback_error, req', d', w2)
    \<and> target_user_context req' = Some (ds_fresh d)
    \<and> ccapi_process_device_request_response os reply d' w' = Inl Null_Dereference"
  using assms
  by (simp add: ccapi_process_device_request_target_def new_session_def put_session_def Let_def
      ccapi_process_device_request_response_def get_session_def prepare_response_def no_buffer_def
      fill_internal_error_def)

definition target_request :: connector_data_service_receive_target_t where
  "target_request = \<lparr>target_user_context = None, target_transport = connector_transport_tcp,
     target_target = Some ''t'', target_response_required = True\<rparr>"

theorem refused_target_crashes_response_witness:
  "\<exists>req' d'. ccapi_process_device_request_target (linux_os False) target_request (example_data Map.empty)
       (\<lparr>lx_sems = Map.empty, lx_next = 0, lx_memory = 1, lx_blocks = 0, lx_stuck = False\<rparr> :: linux)
       = Inr (connector_callback_error, req', d',
           \<lparr>lx_sems = Map.empty, lx_next = 0, lx_memory = 0, lx_blocks = 1, lx_stuck = False\<rparr>)
     \<and> ccapi_process_device_request_response (linux_os False) (reply_request 1 10) d'
         \<lparr>lx_sems = Map.empty, lx_next = 0, lx_memory = 0, lx_blocks = 1, lx_stuck = False\<rparr>
       = Inl Null_Dereference"
proof -
  let ?w = "\<lambda>m b. \<lparr>lx_sems = Map.empty, lx_next = 0, lx_memory = m, lx_blocks = b, lx_stuck = False\<rparr> :: linux"
  have 1: "ccapi_malloc (linux_os False) (Sizeof ''ccapi_svc_receive_t'') (?w 1 0) = (True, ?w 0 1)"
    and 2: "ccapi_malloc (linux_os False) (Bytes (length ''t'' + 1)) (?w 0 1) = (False, ?w 0 1)"
    by (simp_all add: ccapi_malloc_def ccimp_os_malloc_def)
  show ?thesis
    using refused_target_crashes_response [OF 1 2, of target_request "reply_request 1 10"
        "example_data Map.empty" "?w 0 1"]
    by (auto simp: target_request_def reply_request_def example_data_def)
qed

end
