(* ===== verification/ReceiveSystem.thy ===== *)
theory ReceiveSystem
  imports ReceiveReply
begin

text \<open>
  The receive service as a system: the connector's requests and the steps of the receive thread
  in any order. The state keeps, beside the service and the world, where the thread is, which
  sessions were accepted, the packets each has taken, and a log of the callbacks.

  \<open>rx_allowed\<close> says what the connector does: it uses the contexts it was given until it reports a
  status, sends packets only to a session it was told to continue and not more than a size_t of
  them, gives buffers of the size it says, and, the one restriction the code does not enforce,
  ends no session whose callback is queued or running. \<open>describes_no_target\<close> is the one allowed
  event that is undefined behaviour, as C13 proves: it is excluded by none of these.
\<close>

subsection \<open>Events\<close>

record 'w rx =
  rx_data :: "'w data_state"
  rx_world :: 'w
  rx_phase :: receive_thread_phase
  rx_open :: "nat set"
  rx_packets :: "nat \<Rightarrow> (u8 list \<times> bool) list"
  rx_calls :: "(ccapi_buffer_info_t \<times> (u8 list \<times> bool) list \<times> size_t) list"

datatype rx_event =
    Rx_Target connector_data_service_receive_target_t
  | Rx_Data connector_data_service_receive_data_t
  | Rx_Reply connector_data_service_receive_reply_data_t
  | Rx_Length connector_data_service_length_t
  | Rx_Status connector_data_service_status_t
  | Rx_Thread_Wake
  | Rx_Thread_Finish

text \<open>A packet is taken when the session was collecting and the answer was not an error.\<close>

definition packet_taken ::
  "connector_data_service_receive_data_t \<Rightarrow> connector_callback_status_t \<Rightarrow> 'w data_state \<Rightarrow> bool" where
  "packet_taken x status d \<longleftrightarrow>
     status \<noteq> connector_callback_error
     \<and> (case data_user_context x of
          None \<Rightarrow> False
        | Some a \<Rightarrow> (case ds_sessions d a of
                        None \<Rightarrow> False
                      | Some svc \<Rightarrow> sr_receive_thread_status svc = CCAPI_RECEIVE_THREAD_IDLE))"

definition the_packet :: "connector_data_service_receive_data_t \<Rightarrow> u8 list \<times> bool" where
  "the_packet x = (take (unat (data_bytes_used x)) (data_buffer x), data_more_data x)"

definition rx_exec ::
  "'w os \<Rightarrow> (size_t \<Rightarrow> size_t \<Rightarrow> 'w \<Rightarrow> ccimp_status_t \<times> 'w) \<Rightarrow> rx_event \<Rightarrow> 'w rx \<Rightarrow> 'w rx ub" where
  "rx_exec os realloc e s =
     (let d = rx_data s; w = rx_world s
      in case e of
           Rx_Target x \<Rightarrow>
             ub_bind (ccapi_process_device_request_target os x d w)
               (\<lambda>(status, x', d', w').
                 Inr (s\<lparr>rx_data := d', rx_world := w',
                        rx_open := (if status = connector_callback_continue
                                    then insert (ds_fresh d) (rx_open s) else rx_open s),
                        rx_packets := (rx_packets s)(ds_fresh d := [])\<rparr>))
         | Rx_Data x \<Rightarrow>
             ub_bind (ccapi_process_device_request_data os realloc x d w)
               (\<lambda>(status, d', w').
                 Inr (s\<lparr>rx_data := d', rx_world := w',
                        rx_packets := (if packet_taken x status d
                                       then (let a = the (data_user_context x)
                                             in (rx_packets s)(a := rx_packets s a @ [the_packet x]))
                                       else rx_packets s)\<rparr>))
         | Rx_Reply x \<Rightarrow>
             ub_bind (ccapi_process_device_request_response os x d w)
               (\<lambda>(status, x', d', w'). Inr (s\<lparr>rx_data := d', rx_world := w'\<rparr>))
         | Rx_Length x \<Rightarrow>
             ub_bind (ccapi_process_device_request_length x d) (\<lambda>r. Inr s)
         | Rx_Status x \<Rightarrow>
             ub_bind (ccapi_process_device_request_status os x d w)
               (\<lambda>(status, d', w').
                 Inr (s\<lparr>rx_data := d', rx_world := w',
                        rx_open := {a \<in> rx_open s. ds_sessions d' a \<noteq> None}\<rparr>))
         | Rx_Thread_Wake \<Rightarrow>
             ub_bind (receive_thread_wake d (snd (ccapi_lock_acquire os (ds_thread_lock d) w)))
               (\<lambda>(phase, d', w').
                 Inr (s\<lparr>rx_data := d', rx_world := w', rx_phase := phase,
                        rx_calls := (case phase of
                            Thread_In_Callback a e r \<Rightarrow>
                              (let svc = the (ds_sessions d a)
                               in (sr_request_buffer_info svc, rx_packets s a, sr_max_request_size svc)
                                    # rx_calls s)
                          | _ \<Rightarrow> rx_calls s)\<rparr>))
         | Rx_Thread_Finish \<Rightarrow>
             (case rx_phase s of
                Thread_In_Callback a e r \<Rightarrow>
                  ub_bind (receive_thread_finish a e r d)
                    (\<lambda>(phase, d'). Inr (s\<lparr>rx_data := d', rx_phase := phase\<rparr>))
              | _ \<Rightarrow> Inr s))"

definition rx_allowed :: "(nat \<Rightarrow> 'w \<Rightarrow> nat option) \<Rightarrow> rx_event \<Rightarrow> 'w rx \<Rightarrow> bool" where
  "rx_allowed tokens e s \<longleftrightarrow>
     (let d = rx_data s
      in case e of
           Rx_Target x \<Rightarrow> True
         | Rx_Data x \<Rightarrow>
             unat (data_bytes_used x) \<le> length (data_buffer x)
             \<and> (case data_user_context x of
                  None \<Rightarrow> True
                | Some a \<Rightarrow> a \<in> rx_open s
                    \<and> unat (info_length (sr_request_buffer_info (the (ds_sessions d a))))
                        + unat (data_bytes_used x) < 2 ^ 64)
         | Rx_Reply x \<Rightarrow>
             unat (reply_bytes_available x) \<le> length (reply_buffer x)
             \<and> (case reply_user_context x of None \<Rightarrow> True | Some a \<Rightarrow> ds_sessions d a \<noteq> None)
         | Rx_Length x \<Rightarrow>
             (case length_user_context x of None \<Rightarrow> True | Some a \<Rightarrow> ds_sessions d a \<noteq> None)
         | Rx_Status x \<Rightarrow>
             (case status_user_context x of
                None \<Rightarrow> True
              | Some a \<Rightarrow> (case ds_sessions d a of
                              None \<Rightarrow> False
                            | Some svc \<Rightarrow> sr_receive_thread_status svc
                                              \<noteq> CCAPI_RECEIVE_THREAD_DATA_CB_QUEUED))
         | Rx_Thread_Wake \<Rightarrow>
             rx_phase s = Thread_Waiting
             \<and> (case ds_thread_lock d of
                  None \<Rightarrow> False
                | Some l \<Rightarrow> (case tokens l (rx_world s) of None \<Rightarrow> False | Some n \<Rightarrow> 0 < n))
         | Rx_Thread_Finish \<Rightarrow> (case rx_phase s of Thread_In_Callback a e r \<Rightarrow> True | _ \<Rightarrow> False))"

text \<open>
  The one request of those that is undefined: the cloud asks for the response of a session that
  failed without a response of the user's, whose target was never copied because there was no
  memory for it; the description of the error takes the length of that target.
\<close>

definition describes_no_target :: "rx_event \<Rightarrow> 'w rx \<Rightarrow> bool" where
  "describes_no_target e s =
     (case e of
        Rx_Reply x \<Rightarrow>
          (case reply_user_context x of
             None \<Rightarrow> False
           | Some a \<Rightarrow>
               (case ds_sessions (rx_data s) a of
                  None \<Rightarrow> False
                | Some svc \<Rightarrow>
                    sr_response_required svc \<and> sr_receive_error svc \<noteq> CCAPI_RECEIVE_ERROR_NONE
                    \<and> \<not> sr_response_handled_internally svc
                    \<and> info_length (sr_response_buffer_info svc) = 0 \<and> sr_target svc = None))
      | _ \<Rightarrow> False)"

inductive rx_reachable ::
  "'w os \<Rightarrow> (size_t \<Rightarrow> size_t \<Rightarrow> 'w \<Rightarrow> ccimp_status_t \<times> 'w) \<Rightarrow> (nat \<Rightarrow> 'w \<Rightarrow> nat option) \<Rightarrow> 'w rx \<Rightarrow> 'w rx \<Rightarrow> bool"
  for os realloc tokens s0 where
  rx_start: "rx_reachable os realloc tokens s0 s0"
| rx_next: "rx_reachable os realloc tokens s0 s \<Longrightarrow> rx_allowed tokens e s
    \<Longrightarrow> rx_exec os realloc e s = Inr s' \<Longrightarrow> rx_reachable os realloc tokens s0 s'"

subsection \<open>What the user's callbacks have to keep\<close>

definition response_ok :: "ccapi_buffer_info_t \<Rightarrow> bool" where
  "response_ok r \<longleftrightarrow>
     (case info_buffer r of None \<Rightarrow> info_length r = 0 | Some b \<Rightarrow> unat (info_length r) \<le> length b)"

definition data_cb_ok :: "(nat \<Rightarrow> 'w \<Rightarrow> nat option) \<Rightarrow> 'w ccapi_receive_data_cb_t \<Rightarrow> bool" where
  "data_cb_ok tokens cb \<longleftrightarrow>
     (\<forall>t tr req resp w e r w'. cb t tr req resp w = (e, r, w') \<longrightarrow>
        (\<forall>k. tokens k w' = tokens k w) \<and> (resp \<noteq> None \<longrightarrow> response_ok r))"

lemma data_cb_okD:
  assumes "data_cb_ok tokens cb" and "cb t tr req resp w = (e, r, w')"
  shows "tokens k w' = tokens k w \<and> (resp \<noteq> None \<longrightarrow> response_ok r)"
  using assms(1)[unfolded data_cb_ok_def, THEN spec, THEN spec, THEN spec, THEN spec, THEN spec,
      THEN spec, THEN spec, THEN spec, THEN mp, OF assms(2)] by simp

definition status_cb_ok :: "(nat \<Rightarrow> 'w \<Rightarrow> nat option) \<Rightarrow> 'w ccapi_receive_status_cb_t \<Rightarrow> bool" where
  "status_cb_ok tokens cb \<longleftrightarrow> (\<forall>t tr r e w k. tokens k (cb t tr r e w) = tokens k w)"

definition accept_cb_ok :: "(nat \<Rightarrow> 'w \<Rightarrow> nat option) \<Rightarrow> 'w ccapi_receive_accept_cb_t \<Rightarrow> bool" where
  "accept_cb_ok tokens cb \<longleftrightarrow> (\<forall>t tr w k. tokens k (snd (cb t tr w)) = tokens k w)"

definition opt_ok :: "('a \<Rightarrow> bool) \<Rightarrow> 'a option \<Rightarrow> bool" where
  "opt_ok P x \<longleftrightarrow> (case x of None \<Rightarrow> True | Some y \<Rightarrow> P y)"

lemma opt_ok_simps [simp]: "opt_ok P None" "opt_ok P (Some y) = P y"
  by (simp_all add: opt_ok_def)

definition realloc_ok ::
  "(nat \<Rightarrow> 'w \<Rightarrow> nat option) \<Rightarrow> (size_t \<Rightarrow> size_t \<Rightarrow> 'w \<Rightarrow> ccimp_status_t \<times> 'w) \<Rightarrow> bool" where
  "realloc_ok tokens realloc \<longleftrightarrow> (\<forall>old new w k. tokens k (snd (realloc old new w)) = tokens k w)"

definition service_cbs_ok :: "(nat \<Rightarrow> 'w \<Rightarrow> nat option) \<Rightarrow> 'w data_state \<Rightarrow> bool" where
  "service_cbs_ok tokens d \<longleftrightarrow>
     opt_ok (accept_cb_ok tokens) (rs_accept_cb d) \<and> opt_ok (data_cb_ok tokens) (rs_data_cb d)
     \<and> opt_ok (status_cb_ok tokens) (rs_status_cb d)
     \<and> (\<forall>t \<in> snd ` set (target_entries (rs_targets d)).
          rt_data t \<noteq> None \<and> opt_ok (data_cb_ok tokens) (rt_data t) \<and> opt_ok (status_cb_ok tokens) (rt_status t))"

subsection \<open>The invariant\<close>

definition packets_complete :: "(u8 list \<times> bool) list \<Rightarrow> bool" where
  "packets_complete ps \<longleftrightarrow> ps \<noteq> [] \<and> \<not> snd (last ps) \<and> (\<forall>p \<in> set (butlast ps). snd p)"

definition holds_packets :: "ccapi_buffer_info_t \<Rightarrow> (u8 list \<times> bool) list \<Rightarrow> bool" where
  "holds_packets info ps \<longleftrightarrow>
     unat (info_length info) = length (concat (map fst ps))
     \<and> (case info_buffer info of None \<Rightarrow> concat (map fst ps) = []
        | Some b \<Rightarrow> b = map Some (concat (map fst ps)))"

definition within_limit :: "ccapi_buffer_info_t \<Rightarrow> size_t \<Rightarrow> bool" where
  "within_limit info limit \<longleftrightarrow> limit = CCAPI_RECEIVE_NO_LIMIT \<or> info_length info \<le> limit"

definition session_ok :: "(nat \<Rightarrow> 'w \<Rightarrow> nat option) \<Rightarrow> 'w ccapi_svc_receive_t \<Rightarrow> bool" where
  "session_ok tokens svc \<longleftrightarrow>
     opt_ok (data_cb_ok tokens) (sr_data_cb svc) \<and> opt_ok (status_cb_ok tokens) (sr_status_cb svc)
     \<and> processing_ok (sr_response_processing svc) \<and> response_ok (sr_response_buffer_info svc)"

definition request_ok :: "'w ccapi_svc_receive_t \<Rightarrow> (u8 list \<times> bool) list \<Rightarrow> bool" where
  "request_ok svc ps \<longleftrightarrow>
     sr_data_cb svc \<noteq> None \<and> holds_packets (sr_request_buffer_info svc) ps
     \<and> (ps \<noteq> [] \<longrightarrow> within_limit (sr_request_buffer_info svc) (sr_max_request_size svc))
     \<and> (case sr_receive_thread_status svc of
          CCAPI_RECEIVE_THREAD_IDLE \<Rightarrow> \<forall>p \<in> set ps. snd p
        | CCAPI_RECEIVE_THREAD_FREE \<Rightarrow> True
        | _ \<Rightarrow> packets_complete ps)"

definition is_queued :: "'w ccapi_svc_receive_t \<Rightarrow> bool" where
  "is_queued svc \<longleftrightarrow> sr_receive_thread_status svc = CCAPI_RECEIVE_THREAD_DATA_CB_QUEUED"

definition call_ok :: "ccapi_buffer_info_t \<times> (u8 list \<times> bool) list \<times> size_t \<Rightarrow> bool" where
  "call_ok c = (case c of (info, ps, limit) \<Rightarrow>
     packets_complete ps \<and> holds_packets info ps \<and> within_limit info limit)"

definition thread_ok :: "'w rx \<Rightarrow> bool" where
  "thread_ok s \<longleftrightarrow>
     (case ds_svc_receive (rx_data s) of
        None \<Rightarrow> rx_phase s = Thread_Waiting
      | Some a \<Rightarrow> a \<in> rx_open s
          \<and> (\<exists>svc. ds_sessions (rx_data s) a = Some svc \<and> is_queued svc
               \<and> (rx_phase s = Thread_Waiting
                  \<or> (\<exists>e r. rx_phase s = Thread_In_Callback a e r
                        \<and> (sr_response_required svc \<longrightarrow> response_ok r)))))"

definition service_ok :: "(nat \<Rightarrow> 'w \<Rightarrow> nat option) \<Rightarrow> nat \<Rightarrow> nat \<Rightarrow> 'w data_state \<Rightarrow> bool" where
  "service_ok tokens rcl thl d \<longleftrightarrow>
     rs_supported d \<and> ds_thread_status d = CCAPI_THREAD_RUNNING \<and> rs_lock d = Some rcl
     \<and> ds_thread_lock d = Some thl \<and> rcl \<noteq> thl \<and> service_cbs_ok tokens d \<and> targets_valid (rs_targets d)"

definition sessions_ok :: "(nat \<Rightarrow> 'w \<Rightarrow> nat option) \<Rightarrow> 'w data_state \<Rightarrow> bool" where
  "sessions_ok tokens d \<longleftrightarrow>
     (\<forall>a svc. ds_sessions d a = Some svc \<longrightarrow>
        a < ds_fresh d \<and> session_ok tokens svc \<and> (is_queued svc \<longrightarrow> ds_svc_receive d = Some a))"

definition requests_ok :: "'w rx \<Rightarrow> bool" where
  "requests_ok s \<longleftrightarrow>
     (\<forall>a \<in> rx_open s. \<exists>svc. ds_sessions (rx_data s) a = Some svc \<and> request_ok svc (rx_packets s a))"

text \<open>The lock of the thread has a token exactly while a session waits for the thread.\<close>

definition locks_ok :: "(nat \<Rightarrow> 'w \<Rightarrow> nat option) \<Rightarrow> nat \<Rightarrow> nat \<Rightarrow> 'w rx \<Rightarrow> bool" where
  "locks_ok tokens rcl thl s \<longleftrightarrow>
     (\<exists>m. tokens rcl (rx_world s) = Some (Suc m))
     \<and> tokens thl (rx_world s)
         = Some (if ds_svc_receive (rx_data s) \<noteq> None \<and> rx_phase s = Thread_Waiting then 1 else 0)"

definition rx_inv :: "(nat \<Rightarrow> 'w \<Rightarrow> nat option) \<Rightarrow> nat \<Rightarrow> nat \<Rightarrow> 'w rx \<Rightarrow> bool" where
  "rx_inv tokens rcl thl s \<longleftrightarrow>
     service_ok tokens rcl thl (rx_data s) \<and> sessions_ok tokens (rx_data s) \<and> requests_ok s
     \<and> thread_ok s \<and> locks_ok tokens rcl thl s \<and> list_all call_ok (rx_calls s)"

subsection \<open>Preservation, one event at a time\<close>

lemmas rx_inv_defs = rx_inv_def service_ok_def service_cbs_ok_def sessions_ok_def requests_ok_def
  thread_ok_def locks_ok_def

lemma put_session_simps [simp]:
  "ds_sessions (put_session a s d) = (ds_sessions d)(a \<mapsto> s)"
  "ds_svc_receive (put_session a s d) = ds_svc_receive d"
  "ds_fresh (put_session a s d) = ds_fresh d"
  "ds_thread_lock (put_session a s d) = ds_thread_lock d"
  "ds_thread_status (put_session a s d) = ds_thread_status d"
  "rs_supported (put_session a s d) = rs_supported d"
  "rs_lock (put_session a s d) = rs_lock d"
  "rs_targets (put_session a s d) = rs_targets d"
  "rs_accept_cb (put_session a s d) = rs_accept_cb d"
  "rs_data_cb (put_session a s d) = rs_data_cb d"
  "rs_status_cb (put_session a s d) = rs_status_cb d"
  by (simp_all add: put_session_def)

text \<open>Changing a session without queueing it or letting it go.\<close>

lemma rx_inv_put:
  assumes inv: "rx_inv tokens rcl thl s" and a: "ds_sessions (rx_data s) a = Some svc"
    and svc': "session_ok tokens svc'" "is_queued svc' = is_queued svc"
      "sr_response_required svc' = sr_response_required svc"
    and req: "a \<in> rx_open s \<Longrightarrow> request_ok svc' (ps a)" and ps: "\<And>b. b \<noteq> a \<Longrightarrow> ps b = rx_packets s b"
    and w: "tokens rcl w' = tokens rcl (rx_world s)" "tokens thl w' = tokens thl (rx_world s)"
  shows "rx_inv tokens rcl thl
    (s\<lparr>rx_data := put_session a svc' (rx_data s), rx_world := w', rx_packets := ps\<rparr>)"
proof -
  let ?s = "s\<lparr>rx_data := put_session a svc' (rx_data s), rx_world := w', rx_packets := ps\<rparr>"
  have "service_ok tokens rcl thl (rx_data ?s)"
    using inv by (simp add: rx_inv_def service_ok_def service_cbs_ok_def)
  moreover have "sessions_ok tokens (rx_data ?s)"
    using inv a svc' by (simp add: rx_inv_def sessions_ok_def)
  moreover have "requests_ok ?s"
    using inv req ps by (auto simp: rx_inv_def requests_ok_def)
  moreover have "thread_ok ?s"
    using inv a svc'(2,3) by (auto simp: rx_inv_def thread_ok_def split: option.splits)
  moreover have "locks_ok tokens rcl thl ?s"
    using inv w by (simp add: rx_inv_def locks_ok_def)
  moreover have "list_all call_ok (rx_calls ?s)" using inv by (simp add: rx_inv_def)
  ultimately show ?thesis unfolding rx_inv_def by blast
qed

lemma rx_same_packets: "s\<lparr>rx_data := d, rx_world := w\<rparr> = s\<lparr>rx_data := d, rx_world := w, rx_packets := rx_packets s\<rparr>"
  by simp

text \<open>A new session.\<close>

lemma accept_target_effect:
  assumes "service_cbs_ok tokens d" and "targets_valid (rs_targets d)" and "session_ok tokens svc"
  shows "\<exists>status svc' w'. accept_target d target svc w = Inr (status, svc', w')
    \<and> session_ok tokens svc' \<and> (\<forall>k. tokens k w' = tokens k w)
    \<and> sr_receive_thread_status svc' = sr_receive_thread_status svc
    \<and> sr_request_buffer_info svc' = sr_request_buffer_info svc
    \<and> (status = connector_callback_continue \<longrightarrow> sr_data_cb svc' \<noteq> None)"
proof (cases "rs_supported d")
  case True
  let ?found = "find (\<lambda>x. target_name x = target) (target_entries (rs_targets d))"
  show ?thesis
  proof (cases ?found)
    case (Some x)
    then have x: "snd x \<in> snd ` set (target_entries (rs_targets d))"
      by (auto simp: find_Some_iff)
    obtain a t where "x = (a, t)" by fastforce
    then have "rt_data t \<noteq> None \<and> opt_ok (data_cb_ok tokens) (rt_data t) \<and> opt_ok (status_cb_ok tokens) (rt_status t)"
      using assms(1) x by (auto simp: service_cbs_ok_def)
    then show ?thesis
      using True Some assms \<open>x = (a, t)\<close>
      by (simp add: accept_target_def read_pointer session_ok_def)
  next
    case None
    show ?thesis
    proof (cases "rs_accept_cb d")
      case (Some accept)
      obtain ok w1 where ok: "accept target (sr_transport svc) w = (ok, w1)" by fastforce
      then have "tokens k w1 = tokens k w" for k
        using assms(1) Some by (auto simp: service_cbs_ok_def accept_cb_ok_def) (metis snd_conv)
      then show ?thesis
        using True None Some ok assms
        by (cases "sr_data_cb svc = None"; cases ok) (simp_all add: accept_target_def read_pointer session_ok_def)
    next
      case acc: None
      then show ?thesis
        using True None assms
        by (cases "sr_data_cb svc = None") (simp_all add: accept_target_def read_pointer session_ok_def)
    qed
  qed
qed (use assms in \<open>simp add: accept_target_def session_ok_def\<close>)

text \<open>Adding a session under the fresh address.\<close>

lemma rx_inv_new:
  assumes inv: "rx_inv tokens rcl thl s"
    and svc: "session_ok tokens svc" "sr_receive_thread_status svc = CCAPI_RECEIVE_THREAD_IDLE"
      "sr_request_buffer_info svc = no_buffer"
    and opened: "b \<Longrightarrow> sr_data_cb svc \<noteq> None"
    and w: "\<forall>k. tokens k w' = tokens k (rx_world s)"
  shows "rx_inv tokens rcl thl
    (s\<lparr>rx_data := put_session (ds_fresh (rx_data s)) svc ((rx_data s)\<lparr>ds_fresh := Suc (ds_fresh (rx_data s))\<rparr>),
       rx_world := w', rx_open := (if b then insert (ds_fresh (rx_data s)) (rx_open s) else rx_open s),
       rx_packets := (rx_packets s)(ds_fresh (rx_data s) := [])\<rparr>)" (is "rx_inv _ _ _ ?s")
proof -
  let ?a = "ds_fresh (rx_data s)"
  have fresh: "ds_sessions (rx_data s) ?a = None"
    using inv by (cases "ds_sessions (rx_data s) ?a") (auto simp: rx_inv_def sessions_ok_def)
  then have not_open: "?a \<notin> rx_open s" using inv by (auto simp: rx_inv_def requests_ok_def)
  have req: "b \<Longrightarrow> request_ok svc []"
    using svc opened by (simp add: request_ok_def holds_packets_def no_buffer_def)
  have "service_ok tokens rcl thl (rx_data ?s)"
    using inv by (simp add: rx_inv_def service_ok_def service_cbs_ok_def)
  moreover have "sessions_ok tokens (rx_data ?s)"
    using inv svc by (auto simp: rx_inv_def sessions_ok_def is_queued_def less_Suc_eq)
  moreover have "requests_ok ?s"
    using inv req not_open by (auto simp: rx_inv_def requests_ok_def)
  moreover have "thread_ok ?s"
    using inv fresh not_open by (auto simp: rx_inv_def thread_ok_def split: option.splits)
  moreover have "locks_ok tokens rcl thl ?s" using inv w by (simp add: rx_inv_def locks_ok_def)
  moreover have "list_all call_ok (rx_calls ?s)" using inv by (simp add: rx_inv_def)
  ultimately show ?thesis unfolding rx_inv_def by blast
qed

lemma rx_inv_world:
  assumes "rx_inv tokens rcl thl s" and "\<And>a. a \<in> rx_open s \<Longrightarrow> ps a = rx_packets s a"
    and "tokens rcl w' = tokens rcl (rx_world s)" and "tokens thl w' = tokens thl (rx_world s)"
  shows "rx_inv tokens rcl thl (s\<lparr>rx_world := w', rx_packets := ps\<rparr>)"
  using assms by (auto simp: rx_inv_def requests_ok_def thread_ok_def locks_ok_def split: option.splits)

text \<open>A packet appended to what is there.\<close>

lemma append_packet_block:
  assumes "holds_packets info ps" and "unat (data_bytes_used x) \<le> length (data_buffer x)"
    and "unat (info_length info) + unat (data_bytes_used x) < 2 ^ 64"
  shows "\<exists>block. memcpy_at (realloc_block (info_buffer info) (info_length info + data_bytes_used x))
        (unat (info_length info)) (take (unat (data_bytes_used x)) (data_buffer x)) = Inr block
    \<and> holds_packets \<lparr>info_buffer = Some block, info_length = info_length info + data_bytes_used x\<rparr>
        (ps @ [the_packet x])"
proof -
  let ?old = "concat (map fst ps)" and ?new = "take (unat (data_bytes_used x)) (data_buffer x)"
  have n: "unat (info_length info + data_bytes_used x) = length ?old + length ?new"
    using assms by (subst unat_plus_small) (simp_all add: holds_packets_def)
  have block: "realloc_block (info_buffer info) (info_length info + data_bytes_used x)
      = map Some ?old @ replicate (length ?new) None"
  proof (cases "info_buffer info")
    case None
    then have "?old = []" using assms(1) by (simp add: holds_packets_def)
    then show ?thesis using n unfolding realloc_block_def None by (simp only: option.case Let_def) simp
  next
    case (Some b)
    then show ?thesis using assms(1) n by (simp add: realloc_block_def holds_packets_def)
  qed
  show ?thesis
    using assms(1) n unfolding block
    by (simp add: memcpy_at_def holds_packets_def the_packet_def)
qed

lemma append_packet_effect:
  assumes svc: "request_ok svc ps" "sr_receive_thread_status svc = CCAPI_RECEIVE_THREAD_IDLE"
      "session_ok tokens svc"
    and x: "unat (data_bytes_used x) \<le> length (data_buffer x)"
      "unat (info_length (sr_request_buffer_info svc)) + unat (data_bytes_used x) < 2 ^ 64"
    and realloc: "realloc_ok tokens realloc"
  shows "\<exists>ok svc' w'. append_packet realloc x svc w = Inr (ok, svc', w')
    \<and> session_ok tokens svc' \<and> sr_data_cb svc' \<noteq> None \<and> (\<forall>k. tokens k w' = tokens k w)
    \<and> sr_response_required svc' = sr_response_required svc
    \<and> sr_receive_thread_status svc' = (if ok then CCAPI_RECEIVE_THREAD_IDLE else CCAPI_RECEIVE_THREAD_FREE)
    \<and> holds_packets (sr_request_buffer_info svc') (if ok then ps @ [the_packet x] else ps)
    \<and> (ok \<or> ps \<noteq> [] \<longrightarrow> within_limit (sr_request_buffer_info svc') (sr_max_request_size svc'))"
proof -
  let ?info = "sr_request_buffer_info svc"
  let ?n = "info_length ?info + data_bytes_used x"
  have holds: "holds_packets ?info ps" and cb: "sr_data_cb svc \<noteq> None"
    and lim: "ps \<noteq> [] \<longrightarrow> within_limit ?info (sr_max_request_size svc)"
    using svc(1) by (simp_all add: request_ok_def)
  show ?thesis
  proof (cases "sr_max_request_size svc \<noteq> CCAPI_RECEIVE_NO_LIMIT \<and> sr_max_request_size svc < ?n")
    case True
    then show ?thesis
      using svc(3) holds cb lim
      by (intro exI [of _ False]) (simp add: append_packet_def Let_def session_ok_def)
  next
    case small: False
    obtain status w1 where r: "realloc (info_length ?info) ?n w = (status, w1)" by fastforce
    then have w1: "\<forall>k. tokens k w1 = tokens k w" using realloc unfolding realloc_ok_def by (metis snd_conv)
    show ?thesis
    proof (cases "status = CCIMP_STATUS_OK")
      case False
      then show ?thesis
        using small r w1 svc(3) holds cb lim
        by (intro exI [of _ False]) (simp add: append_packet_def Let_def session_ok_def)
    next
      case True
      obtain block where "memcpy_at (realloc_block (info_buffer ?info) ?n) (unat (info_length ?info))
          (take (unat (data_bytes_used x)) (data_buffer x)) = Inr block"
        "holds_packets \<lparr>info_buffer = Some block, info_length = ?n\<rparr> (ps @ [the_packet x])"
        using append_packet_block [OF holds x] by blast
      then show ?thesis
        using small r w1 svc(2,3) cb True x(1)
        by (intro exI [of _ True])
          (simp add: append_packet_def Let_def session_ok_def within_limit_def not_less)
    qed
  qed
qed

lemma packets_complete_snoc: "\<forall>p \<in> set ps. snd p \<Longrightarrow> \<not> snd p \<Longrightarrow> packets_complete (ps @ [p])"
  by (simp add: packets_complete_def)

context os_locks
begin

lemma malloc_keeps_tokens: "ccapi_malloc os req w = (ok, w') \<Longrightarrow> tokens k w' = tokens k w"
  using malloc_tokens [of k req w] by simp

lemma rx_target_inv:
  assumes "rx_inv tokens rcl thl s"
  shows "\<exists>s'. rx_exec os realloc (Rx_Target x) s = Inr s' \<and> rx_inv tokens rcl thl s'"
proof -
  let ?d = "rx_data s" and ?w = "rx_world s"
  let ?ps = "(rx_packets s)(ds_fresh ?d := [])"
  have not_open: "ds_fresh ?d \<notin> rx_open s"
    using assms by (fastforce simp: rx_inv_def sessions_ok_def requests_ok_def)
  have refused: "rx_inv tokens rcl thl (s\<lparr>rx_world := w', rx_packets := ?ps\<rparr>)"
    if "\<forall>k. tokens k w' = tokens k ?w" for w'
    by (rule rx_inv_world [OF assms]) (use that not_open in auto)
  show ?thesis
  proof (cases "target_target x = None \<or> target_user_context x \<noteq> None")
    case True
    then have "ccapi_process_device_request_target os x ?d ?w = Inr (connector_callback_error, x, ?d, ?w)"
      by (auto simp: ccapi_process_device_request_target_def split: option.splits)
    then show ?thesis using refused [of ?w] by (simp add: rx_exec_def)
  next
    case False
    then obtain target where t: "target_target x = Some target" "target_user_context x = None" by auto
    obtain ok w1 where m1: "ccapi_malloc os (Sizeof ''ccapi_svc_receive_t'') ?w = (ok, w1)" by fastforce
    obtain ok2 w2 where m2: "ccapi_malloc os (Bytes (length target + 1)) w1 = (ok2, w2)" by fastforce
    have w: "\<forall>k. tokens k w1 = tokens k ?w" "\<forall>k. tokens k w2 = tokens k ?w"
      using malloc_keeps_tokens [OF m1] malloc_keeps_tokens [OF m2] by simp_all
    have new: "session_ok tokens (new_session ?d x)"
      using assms
      by (simp add: new_session_def session_ok_def rx_inv_def service_ok_def service_cbs_ok_def
          processing_ok_def response_ok_def no_buffer_def)
    show ?thesis
    proof (cases ok)
      case False
      then have "ccapi_process_device_request_target os x ?d ?w = Inr (connector_callback_error, x, ?d, w1)"
        using t m1 by (simp add: ccapi_process_device_request_target_def)
      then show ?thesis using refused [of w1] w by (simp add: rx_exec_def)
    next
      case True
      let ?d1 = "?d\<lparr>ds_fresh := Suc (ds_fresh ?d)\<rparr>"
      let ?svc = "if ok2 then (new_session ?d x)\<lparr>sr_target := Some target\<rparr>
                  else (new_session ?d x)\<lparr>sr_receive_error := CCAPI_RECEIVE_ERROR_INSUFFICIENT_MEMORY\<rparr>"
      have svc: "session_ok tokens ?svc" "sr_receive_thread_status ?svc = CCAPI_RECEIVE_THREAD_IDLE"
        "sr_request_buffer_info ?svc = no_buffer"
        using new by (simp_all add: session_ok_def new_session_def)
      have "service_cbs_ok tokens ?d1" "targets_valid (rs_targets ?d1)"
        using assms by (simp_all add: rx_inv_def service_ok_def service_cbs_ok_def)
      from accept_target_effect [OF this svc(1), of target w2]
      obtain status svc' w3 where acc: "accept_target ?d1 target ?svc w2 = Inr (status, svc', w3)"
        "session_ok tokens svc'" "\<forall>k. tokens k w3 = tokens k w2"
        "sr_receive_thread_status svc' = CCAPI_RECEIVE_THREAD_IDLE" "sr_request_buffer_info svc' = no_buffer"
        "status = connector_callback_continue \<longrightarrow> sr_data_cb svc' \<noteq> None"
        using svc(2,3) by auto
      obtain x' where call: "ccapi_process_device_request_target os x ?d ?w =
          (if ok2 then Inr (status, x', put_session (ds_fresh ?d) svc' ?d1, w3)
           else Inr (connector_callback_error, x', put_session (ds_fresh ?d) ?svc ?d1, w2))"
        using t m1 m2 acc(1) True
        by (cases ok2) (simp_all add: ccapi_process_device_request_target_def Let_def)
      show ?thesis
      proof (cases ok2)
        case True
        have "\<forall>k. tokens k w3 = tokens k ?w" using acc(3) w by simp
        from rx_inv_new [OF assms acc(2,4,5) _ this, of "status = connector_callback_continue"] acc(6)
        show ?thesis using call True by (simp add: rx_exec_def Let_def)
      next
        case False
        then show ?thesis
          using rx_inv_new [OF assms svc _ w(2), of False] call by (simp add: rx_exec_def Let_def)
      qed
    qed
  qed
qed

lemma acquire_release_keeps:
  assumes "tokens l w = Some (Suc m)"
  shows "tokens k (snd (ccapi_lock_release os (Some l) (snd (ccapi_lock_acquire os (Some l) w)))) = tokens k w"
proof -
  obtain w1 where 1: "ccapi_lock_acquire os (Some l) w = (CCIMP_STATUS_OK, w1)" "tokens l w1 = Some m"
    "\<And>k. k \<noteq> l \<Longrightarrow> tokens k w1 = tokens k w" using lock_acquired [OF assms] by metis
  obtain w2 where "ccapi_lock_release os (Some l) w1 = (CCIMP_STATUS_OK, w2)" "tokens l w2 = Some (Suc m)"
    "\<And>k. k \<noteq> l \<Longrightarrow> tokens k w2 = tokens k w1" using lock_released [OF 1(2)] by metis
  then show ?thesis using 1 assms by (cases "k = l") simp_all
qed

text \<open>Queueing a session that is ready.\<close>

lemma rx_queue_inv:
  assumes inv: "rx_inv tokens rcl thl s" and a: "a \<in> rx_open s" "ds_sessions (rx_data s) a = Some svc"
    and ready: "sr_receive_thread_status svc = CCAPI_RECEIVE_THREAD_DATA_CB_READY"
    and q: "queue_request os a svc (rx_data s) (rx_world s) = (d', w')"
  shows "rx_inv tokens rcl thl (s\<lparr>rx_data := d', rx_world := w'\<rparr>)"
proof -
  let ?d = "rx_data s" and ?w = "rx_world s"
  have locks: "rs_lock ?d = Some rcl" "ds_thread_lock ?d = Some thl" "rcl \<noteq> thl"
    using inv by (simp_all add: rx_inv_def service_ok_def)
  obtain m where m: "tokens rcl ?w = Some (Suc m)" using inv by (auto simp: rx_inv_def locks_ok_def)
  define w2 where "w2 = snd (ccapi_lock_release os (Some rcl) (snd (ccapi_lock_acquire os (Some rcl) ?w)))"
  have w2: "tokens k w2 = tokens k ?w" for k
    using acquire_release_keeps [OF m] by (simp add: w2_def)
  show ?thesis
  proof (cases "ds_svc_receive ?d")
    case (Some b)
    then have "d' = ?d" "w' = w2" using q locks by (simp_all add: queue_request_def w2_def Let_def)
    then show ?thesis using rx_inv_world [OF inv, of "rx_packets s" w2] w2 by simp
  next
    case None
    let ?svc = "svc\<lparr>sr_receive_thread_status := CCAPI_RECEIVE_THREAD_DATA_CB_QUEUED\<rparr>"
    have d': "d' = put_session a ?svc (?d\<lparr>ds_svc_receive := Some a\<rparr>)"
      and w': "w' = snd (ccapi_lock_release os (Some thl) w2)"
      using q None locks by (simp_all add: queue_request_def w2_def Let_def)
    have phase: "rx_phase s = Thread_Waiting" using inv None by (simp add: rx_inv_def thread_ok_def)
    have thl: "tokens thl ?w = Some 0" using inv None by (simp add: rx_inv_def locks_ok_def)
    obtain w3 where rel: "ccapi_lock_release os (Some thl) w2 = (CCIMP_STATUS_OK, w3)"
      "tokens thl w3 = Some (Suc 0)" "\<And>k. k \<noteq> thl \<Longrightarrow> tokens k w3 = tokens k w2"
      using lock_released [of thl w2 0] w2 thl by metis
    let ?s = "s\<lparr>rx_data := d', rx_world := w'\<rparr>"
    have "service_ok tokens rcl thl (rx_data ?s)"
      using inv by (simp add: rx_inv_def service_ok_def service_cbs_ok_def d')
    moreover have "sessions_ok tokens (rx_data ?s)"
      using inv a(2) None by (auto simp: rx_inv_def sessions_ok_def d' session_ok_def)
    moreover have "requests_ok ?s"
      using inv a ready by (auto simp: rx_inv_def requests_ok_def d' request_ok_def)
    moreover have "thread_ok ?s" using a(1) phase by (simp add: thread_ok_def d' is_queued_def)
    moreover have "locks_ok tokens rcl thl ?s"
      using m w2 rel locks(3) phase by (simp add: locks_ok_def d' w')
    moreover have "list_all call_ok (rx_calls ?s)" using inv by (simp add: rx_inv_def)
    ultimately show ?thesis unfolding rx_inv_def by blast
  qed
qed

lemma rx_data_inv:
  assumes inv: "rx_inv tokens rcl thl s" and allowed: "rx_allowed tokens (Rx_Data x) s"
    and realloc: "realloc_ok tokens realloc"
  shows "\<exists>s'. rx_exec os realloc (Rx_Data x) s = Inr s' \<and> rx_inv tokens rcl thl s'"
proof (cases "data_user_context x")
  case None
  then show ?thesis using inv by (simp add: rx_exec_def ccapi_process_device_request_data_def packet_taken_def)
next
  case (Some a)
  let ?d = "rx_data s" and ?w = "rx_world s"
  have open_a: "a \<in> rx_open s" using allowed Some by (simp add: rx_allowed_def)
  then obtain svc where svc: "ds_sessions ?d a = Some svc" "request_ok svc (rx_packets s a)"
    using inv by (auto simp: rx_inv_def requests_ok_def)
  have ok: "session_ok tokens svc" and sup: "rs_supported ?d"
    using inv svc(1) by (auto simp: rx_inv_def sessions_ok_def service_ok_def)
  have x: "unat (data_bytes_used x) \<le> length (data_buffer x)"
    "unat (info_length (sr_request_buffer_info svc)) + unat (data_bytes_used x) < 2 ^ 64"
    using allowed Some svc(1) by (simp_all add: rx_allowed_def)
  have handler: "ccapi_process_device_request_data os realloc x ?d ?w = Inr (status, d', w') \<Longrightarrow>
      rx_exec os realloc (Rx_Data x) s = Inr (s\<lparr>rx_data := d', rx_world := w',
        rx_packets := (if status \<noteq> connector_callback_error
                          \<and> sr_receive_thread_status svc = CCAPI_RECEIVE_THREAD_IDLE
                       then (rx_packets s)(a := rx_packets s a @ [the_packet x]) else rx_packets s)\<rparr>)"
    for status d' w'
    using Some svc(1) by (simp add: rx_exec_def packet_taken_def Let_def)
  note step = ccapi_process_device_request_data_def Some get_session_def svc(1) sup
  show ?thesis
  proof (cases "sr_receive_thread_status svc")
    case CCAPI_RECEIVE_THREAD_IDLE
    obtain ok' svc' w' where app: "append_packet realloc x svc ?w = Inr (ok', svc', w')"
      "session_ok tokens svc'" "sr_data_cb svc' \<noteq> None" "\<forall>k. tokens k w' = tokens k ?w"
      "sr_response_required svc' = sr_response_required svc"
      "sr_receive_thread_status svc' = (if ok' then CCAPI_RECEIVE_THREAD_IDLE else CCAPI_RECEIVE_THREAD_FREE)"
      "holds_packets (sr_request_buffer_info svc') (if ok' then rx_packets s a @ [the_packet x] else rx_packets s a)"
      "ok' \<or> rx_packets s a \<noteq> [] \<longrightarrow> within_limit (sr_request_buffer_info svc') (sr_max_request_size svc')"
      using append_packet_effect [OF svc(2) CCAPI_RECEIVE_THREAD_IDLE ok x realloc, of ?w]
      by (elim exE conjE) (rule that; assumption)
    let ?svc = "if ok' \<and> \<not> data_more_data x
                then svc'\<lparr>sr_receive_thread_status := CCAPI_RECEIVE_THREAD_DATA_CB_READY\<rparr> else svc'"
    let ?status = "if \<not> ok' then connector_callback_error
                   else if \<not> data_more_data x then connector_callback_busy else connector_callback_continue"
    let ?ps = "if ok' then (rx_packets s)(a := rx_packets s a @ [the_packet x]) else rx_packets s"
    have call: "ccapi_process_device_request_data os realloc x ?d ?w = Inr (?status, put_session a ?svc ?d, w')"
      using app(1) by (simp add: step CCAPI_RECEIVE_THREAD_IDLE)
    have past: "\<forall>p \<in> set (rx_packets s a). snd p"
      using svc(2) CCAPI_RECEIVE_THREAD_IDLE by (simp add: request_ok_def)
    have snd_p: "snd (the_packet x) = data_more_data x" by (simp add: the_packet_def)
    have "request_ok ?svc (?ps a)"
      using app(3,6,7,8) past snd_p packets_complete_snoc [OF past, of "the_packet x"]
      by (auto simp: request_ok_def)
    then have "rx_inv tokens rcl thl (s\<lparr>rx_data := put_session a ?svc ?d, rx_world := w', rx_packets := ?ps\<rparr>)"
      using app(2,4,5,6) CCAPI_RECEIVE_THREAD_IDLE
      by (intro rx_inv_put [OF inv svc(1)]) (auto simp: session_ok_def is_queued_def)
    moreover have "(if ?status \<noteq> connector_callback_error
          \<and> sr_receive_thread_status svc = CCAPI_RECEIVE_THREAD_IDLE
        then (rx_packets s)(a := rx_packets s a @ [the_packet x]) else rx_packets s) = ?ps"
      by (simp add: CCAPI_RECEIVE_THREAD_IDLE)
    ultimately show ?thesis using handler [OF call] by (simp only:) blast
  next
    case CCAPI_RECEIVE_THREAD_DATA_CB_READY
    obtain d' w' where q: "queue_request os a svc ?d ?w = (d', w')" by fastforce
    then have call: "ccapi_process_device_request_data os realloc x ?d ?w
        = Inr (connector_callback_busy, d', w')"
      by (simp add: step CCAPI_RECEIVE_THREAD_DATA_CB_READY)
    show ?thesis
      using handler [OF call] rx_queue_inv [OF inv open_a svc(1) CCAPI_RECEIVE_THREAD_DATA_CB_READY q]
      by (simp add: CCAPI_RECEIVE_THREAD_DATA_CB_READY)
  next
    case CCAPI_RECEIVE_THREAD_DATA_CB_QUEUED
    then have call: "ccapi_process_device_request_data os realloc x ?d ?w
        = Inr (connector_callback_busy, ?d, ?w)" by (simp add: step)
    show ?thesis using handler [OF call] inv CCAPI_RECEIVE_THREAD_DATA_CB_QUEUED by simp
  next
    case CCAPI_RECEIVE_THREAD_DATA_CB_PROCESSED
    let ?svc = "(if sr_response_required svc then copy_response svc else svc)
                  \<lparr>sr_receive_thread_status := CCAPI_RECEIVE_THREAD_FREE\<rparr>"
    let ?w' = "snd (ccapi_free os (info_buffer (sr_request_buffer_info svc) \<noteq> None) ?w)"
    let ?status = "if sr_receive_error svc = CCAPI_RECEIVE_ERROR_NONE then connector_callback_continue
                   else connector_callback_error"
    have call: "ccapi_process_device_request_data os realloc x ?d ?w
        = Inr (?status, put_session a ?svc ?d, ?w')"
      by (simp add: step CCAPI_RECEIVE_THREAD_DATA_CB_PROCESSED Let_def)
    have "session_ok tokens ?svc"
      using ok by (auto simp: session_ok_def copy_response_def processing_ok_def response_ok_def
          split: option.splits)
    moreover have "request_ok ?svc (rx_packets s a)"
      using svc(2) by (simp add: request_ok_def copy_response_def)
    ultimately have "rx_inv tokens rcl thl
        (s\<lparr>rx_data := put_session a ?svc ?d, rx_world := ?w', rx_packets := rx_packets s\<rparr>)"
      using CCAPI_RECEIVE_THREAD_DATA_CB_PROCESSED
      by (intro rx_inv_put [OF inv svc(1)]) (auto simp: is_queued_def copy_response_def)
    then show ?thesis using handler [OF call] CCAPI_RECEIVE_THREAD_DATA_CB_PROCESSED by simp
  next
    case CCAPI_RECEIVE_THREAD_FREE
    then have call: "ccapi_process_device_request_data os realloc x ?d ?w
        = Inr (connector_callback_error, ?d, ?w)" by (simp add: step)
    show ?thesis using handler [OF call] inv by simp
  qed
qed

lemma free_keeps_tokens: "tokens k (snd (ccapi_free os p w)) = tokens k w"
  by simp

lemma prepare_response_effect:
  assumes svc: "session_ok tokens svc"
    and tgt: "sr_receive_error svc \<noteq> CCAPI_RECEIVE_ERROR_NONE \<and> \<not> sr_response_handled_internally svc
      \<and> info_length (sr_response_buffer_info svc) = 0 \<longrightarrow> sr_target svc \<noteq> None"
  shows "\<exists>svc' w'. prepare_response os svc w = Inr (svc', w') \<and> session_ok tokens svc'
    \<and> (\<forall>k. tokens k w' = tokens k w)
    \<and> sr_response_required svc' = sr_response_required svc
    \<and> sr_data_cb svc' = sr_data_cb svc \<and> sr_request_buffer_info svc' = sr_request_buffer_info svc
    \<and> sr_max_request_size svc' = sr_max_request_size svc
    \<and> sr_receive_thread_status svc' = sr_receive_thread_status svc"
proof (cases "sr_receive_error svc \<noteq> CCAPI_RECEIVE_ERROR_NONE \<and> \<not> sr_response_handled_internally svc
    \<and> info_length (sr_response_buffer_info svc) = 0")
  case True
  obtain target where t: "sr_target svc = Some target" using tgt True by auto
  let ?m = "error_message (sr_receive_error svc) target"
  let ?room = "length (receive_error_str (sr_receive_error svc)) + (length ERROR_MESSAGE + 1) + length target"
  let ?bytes = "bytes_of_string (?m @ [CHR 0x00])"
  obtain ok w1 where m: "ccapi_malloc os (Bytes ?room) w = (ok, w1)" by fastforce
  then have w1: "\<forall>k. tokens k w1 = tokens k w" using malloc_keeps_tokens by blast
  show ?thesis
  proof (cases ok)
    case False
    then show ?thesis
      using True t m w1 svc
      by (simp add: prepare_response_def fill_internal_error_def copy_response_def session_ok_def
          processing_ok_def response_ok_def Let_def)
  next
    case ok: True
    have len: "length ?bytes = length ?m + 1" by (simp add: bytes_of_string_def)
    obtain block where b: "memcpy_at (replicate ?room None) 0 ?bytes = Inr block"
      using error_message_fits [of "sr_receive_error svc" target] by (simp only: memcpy_at_def len) simp
    have "length ?m \<le> length block"
      using memcpy_at_length [OF b] error_message_fits [of "sr_receive_error svc" target] by simp
    moreover have "unat (of_nat (length ?m) :: size_t) \<le> length ?m"
      by (simp add: unsigned_of_nat take_bit_nat_less_eq_self)
    ultimately have "unat (of_nat (length ?m) :: size_t) \<le> length block" by (rule order_trans [rotated])
    then show ?thesis
      using True t m w1 b ok svc
      by (simp add: prepare_response_def fill_internal_error_def copy_response_def session_ok_def
          processing_ok_def response_ok_def Let_def)
  qed
qed (use svc in \<open>auto simp: prepare_response_def\<close>)

lemma send_response_piece_ok:
  assumes "processing_ok (sr_response_processing svc)"
    and "unat (reply_bytes_available x) \<le> length (reply_buffer x)"
  shows "\<exists>r p'. send_response_piece x svc = Inr (r, svc\<lparr>sr_response_processing := p'\<rparr>) \<and> processing_ok p'"
proof -
  let ?p = "sr_response_processing svc"
  define b where "b = (if reply_bytes_available x < processing_length ?p then reply_bytes_available x
                       else processing_length ?p)"
  have b: "unat b = min (unat (reply_bytes_available x)) (unat (processing_length ?p))"
    by (simp add: b_def unat_min_word)
  then have le: "b \<le> processing_length ?p" by (simp add: word_le_nat_alt)
  have none: "processing_length ?p = 0 \<Longrightarrow> b = 0" by (simp add: b_def word_less_nat_alt)
  let ?p' = "?p\<lparr>processing_offset := processing_offset ?p + unat b,
                processing_length := processing_length ?p - b\<rparr>"
  have "processing_ok ?p'"
    using assms(1) unat_minus_le [OF le] b none by (auto simp: processing_ok_def split: option.splits)
  moreover have read: "read_block (processing_block ?p) (processing_offset ?p) (unat b)
      = Inr (take (unat b) (response_rest ?p))"
    by (rule response_rest_read [OF assms(1)]) (simp add: b)
  moreover have "length (take (unat b) (response_rest ?p)) \<le> length (reply_buffer x)"
    using assms(2) b by simp
  then have "write_block (reply_buffer x) (take (unat b) (response_rest ?p))
      = Inr (take (unat b) (response_rest ?p) @ drop (length (take (unat b) (response_rest ?p))) (reply_buffer x))"
    by (simp only: write_block_def if_True)
  ultimately show ?thesis
    by (intro exI) (simp add: send_response_piece_def Let_def flip: b_def)
qed

lemma rx_reply_inv:
  assumes inv: "rx_inv tokens rcl thl s" and allowed: "rx_allowed tokens (Rx_Reply x) s"
    and named: "\<not> describes_no_target (Rx_Reply x) s"
  shows "\<exists>s'. rx_exec os realloc (Rx_Reply x) s = Inr s' \<and> rx_inv tokens rcl thl s'"
proof (cases "reply_user_context x")
  case None
  then show ?thesis using inv by (simp add: rx_exec_def ccapi_process_device_request_response_def)
next
  case (Some a)
  let ?d = "rx_data s" and ?w = "rx_world s"
  obtain svc where svc: "ds_sessions ?d a = Some svc"
    using allowed Some by (auto simp: rx_allowed_def split: option.splits)
  then have ok: "session_ok tokens svc" using inv by (auto simp: rx_inv_def sessions_ok_def)
  show ?thesis
  proof (cases "sr_response_required svc")
    case False
    then show ?thesis
      using inv Some svc by (simp add: rx_exec_def ccapi_process_device_request_response_def get_session_def)
  next
    case True
    obtain svc1 w1 where p: "prepare_response os svc ?w = Inr (svc1, w1)" "session_ok tokens svc1"
      "\<forall>k. tokens k w1 = tokens k ?w" "sr_response_required svc1 = sr_response_required svc"
      "sr_data_cb svc1 = sr_data_cb svc" "sr_request_buffer_info svc1 = sr_request_buffer_info svc"
      "sr_max_request_size svc1 = sr_max_request_size svc"
      "sr_receive_thread_status svc1 = sr_receive_thread_status svc"
      proof -
      have "sr_receive_error svc \<noteq> CCAPI_RECEIVE_ERROR_NONE \<and> \<not> sr_response_handled_internally svc
          \<and> info_length (sr_response_buffer_info svc) = 0 \<longrightarrow> sr_target svc \<noteq> None"
        using named Some svc True by (auto simp: describes_no_target_def)
      from prepare_response_effect [OF ok this, of ?w] show thesis
        by (elim exE conjE) (rule that; assumption)
    qed
    have "processing_ok (sr_response_processing svc1)" using p(2) by (simp add: session_ok_def)
    moreover have "unat (reply_bytes_available x) \<le> length (reply_buffer x)"
      using allowed by (simp add: rx_allowed_def)
    ultimately obtain r p' where piece: "send_response_piece x svc1 = Inr (r, svc1\<lparr>sr_response_processing := p'\<rparr>)"
      "processing_ok p'" using send_response_piece_ok by blast
    have "rx_inv tokens rcl thl (s\<lparr>rx_data := put_session a (svc1\<lparr>sr_response_processing := p'\<rparr>) ?d,
        rx_world := w1, rx_packets := rx_packets s\<rparr>)"
    proof (rule rx_inv_put [OF inv svc])
      assume "a \<in> rx_open s"
      then have "request_ok svc (rx_packets s a)"
        using inv svc by (auto simp: rx_inv_def requests_ok_def)
      then show "request_ok (svc1\<lparr>sr_response_processing := p'\<rparr>) (rx_packets s a)"
        using p by (simp add: request_ok_def)
    qed (use p piece(2) in \<open>simp_all add: session_ok_def is_queued_def\<close>)
    then show ?thesis
      using Some svc True p(1) piece(1)
      by (simp add: rx_exec_def ccapi_process_device_request_response_def get_session_def)
  qed
qed

lemma rx_length_inv:
  assumes "rx_inv tokens rcl thl s" and "rx_allowed tokens (Rx_Length x) s"
  shows "\<exists>s'. rx_exec os realloc (Rx_Length x) s = Inr s' \<and> rx_inv tokens rcl thl s'"
  using assms
  by (auto simp: rx_exec_def rx_allowed_def ccapi_process_device_request_length_def get_session_def
      split: option.splits)

lemma tell_status_keeps:
  "session_ok tokens svc \<Longrightarrow> tokens k (tell_status d svc w) = tokens k w"
  by (auto simp: tell_status_def session_ok_def status_cb_ok_def split: bool.splits option.splits)

lemma rx_status_inv:
  assumes inv: "rx_inv tokens rcl thl s" and allowed: "rx_allowed tokens (Rx_Status x) s"
  shows "\<exists>s'. rx_exec os realloc (Rx_Status x) s = Inr s' \<and> rx_inv tokens rcl thl s'"
proof -
  let ?d = "rx_data s" and ?w = "rx_world s"
  have all_open: "{a \<in> rx_open s. ds_sessions ?d a \<noteq> None} = rx_open s"
    using inv by (auto simp: rx_inv_def requests_ok_def)
  show ?thesis
  proof (cases "status_user_context x")
    case None
    then show ?thesis
      using inv all_open by (simp add: rx_exec_def ccapi_process_device_request_status_def)
  next
    case (Some a)
    obtain svc where svc: "ds_sessions ?d a = Some svc" "\<not> is_queued svc"
      using allowed Some by (auto simp: rx_allowed_def is_queued_def split: option.splits)
    then have ok: "session_ok tokens svc" using inv by (auto simp: rx_inv_def sessions_ok_def)
    show ?thesis
    proof (cases "if sr_receive_error svc = CCAPI_RECEIVE_ERROR_NONE
        then status_error (status_status x) else Some (sr_receive_error svc)")
      case None
      then show ?thesis
        using inv all_open Some svc
        by (simp add: rx_exec_def ccapi_process_device_request_status_def get_session_def)
    next
      case (Some e)
      let ?d' = "?d\<lparr>ds_sessions := (ds_sessions ?d)(a := None)\<rparr>"
      have keeps: "tokens k (tell_status ?d (svc\<lparr>sr_receive_error := e\<rparr>) ?w) = tokens k ?w" for k
        by (rule tell_status_keeps) (use ok in \<open>simp add: session_ok_def\<close>)
      obtain w' where call: "ccapi_process_device_request_status os x ?d ?w
          = Inr (connector_callback_continue, ?d', w')" "\<forall>k. tokens k w' = tokens k ?w"
        using \<open>status_user_context x = Some a\<close> svc Some keeps
        by (simp add: ccapi_process_device_request_status_def get_session_def Let_def)
      let ?s = "s\<lparr>rx_data := ?d', rx_world := w', rx_open := {b \<in> rx_open s. ds_sessions ?d' b \<noteq> None}\<rparr>"
      have "service_ok tokens rcl thl (rx_data ?s)"
        using inv by (simp add: rx_inv_def service_ok_def service_cbs_ok_def)
      moreover have "sessions_ok tokens (rx_data ?s)" using inv by (simp add: rx_inv_def sessions_ok_def)
      moreover have "requests_ok ?s" using inv by (auto simp: rx_inv_def requests_ok_def)
      moreover have "thread_ok ?s"
        using inv svc by (auto simp: rx_inv_def thread_ok_def split: option.splits)
      moreover have "locks_ok tokens rcl thl ?s" using inv call(2) by (simp add: rx_inv_def locks_ok_def)
      moreover have "list_all call_ok (rx_calls ?s)" using inv by (simp add: rx_inv_def)
      ultimately have "rx_inv tokens rcl thl ?s" unfolding rx_inv_def by blast
      then show ?thesis using call(1) by (simp add: rx_exec_def)
    qed
  qed
qed

lemma rx_wake_inv:
  assumes inv: "rx_inv tokens rcl thl s" and allowed: "rx_allowed tokens Rx_Thread_Wake s"
  shows "\<exists>s'. rx_exec os realloc Rx_Thread_Wake s = Inr s' \<and> rx_inv tokens rcl thl s'"
proof -
  let ?d = "rx_data s" and ?w = "rx_world s"
  have serv: "ds_thread_lock ?d = Some thl" "rcl \<noteq> thl" "ds_thread_status ?d = CCAPI_THREAD_RUNNING"
    using inv by (simp_all add: rx_inv_def service_ok_def)
  have phase: "rx_phase s = Thread_Waiting" using allowed by (simp add: rx_allowed_def)
  obtain m where m: "tokens rcl ?w = Some (Suc m)" using inv by (auto simp: rx_inv_def locks_ok_def)
  have "ds_svc_receive ?d \<noteq> None"
    using inv allowed serv(1) by (auto simp: rx_inv_def locks_ok_def rx_allowed_def split: if_splits)
  then obtain a svc where a: "ds_svc_receive ?d = Some a" "a \<in> rx_open s" "ds_sessions ?d a = Some svc"
    "is_queued svc" using inv by (auto simp: rx_inv_def thread_ok_def)
  have req: "request_ok svc (rx_packets s a)" and ok: "session_ok tokens svc"
    using inv a(2,3) by (auto simp: rx_inv_def requests_ok_def sessions_ok_def)
  obtain cb where cb: "sr_data_cb svc = Some cb" using req by (auto simp: request_ok_def)
  have "tokens thl ?w = Some (Suc 0)" using inv a(1) phase by (simp add: rx_inv_def locks_ok_def)
  then obtain w1 where w1: "ccapi_lock_acquire os (Some thl) ?w = (CCIMP_STATUS_OK, w1)"
    "tokens thl w1 = Some 0" "tokens rcl w1 = Some (Suc m)"
    using lock_acquired m serv(2) by metis
  obtain e r w2 where call: "cb (sr_target svc) (sr_transport svc) (sr_request_buffer_info svc)
      (if sr_response_required svc then Some (sr_response_buffer_info svc) else None) w1 = (e, r, w2)"
    by (metis prod_cases3)
  have "data_cb_ok tokens cb" using ok cb by (simp add: session_ok_def)
  then have w2: "tokens k w2 = tokens k w1" and resp: "sr_response_required svc \<Longrightarrow> response_ok r" for k
    using data_cb_okD [OF \<open>data_cb_ok tokens cb\<close> call] by simp_all
  let ?c = "(sr_request_buffer_info svc, rx_packets s a, sr_max_request_size svc)"
  let ?s = "s\<lparr>rx_data := ?d, rx_world := w2, rx_phase := Thread_In_Callback a e r, rx_calls := ?c # rx_calls s\<rparr>"
  have exec: "rx_exec os realloc Rx_Thread_Wake s = Inr ?s"
    using a cb call w1(1) serv
    by (simp add: rx_exec_def receive_thread_wake_def get_session_def is_queued_def)
  have "call_ok ?c"
    using req a(4) by (auto simp: call_ok_def request_ok_def is_queued_def packets_complete_def)
  then have "list_all call_ok (rx_calls ?s)" using inv by (simp add: rx_inv_def)
  moreover have "thread_ok ?s" using a resp by (auto simp: thread_ok_def)
  moreover have "requests_ok ?s" using inv by (simp add: rx_inv_def requests_ok_def)
  moreover have "locks_ok tokens rcl thl ?s" using w1 w2 by (simp add: locks_ok_def)
  moreover have "service_ok tokens rcl thl (rx_data ?s)" "sessions_ok tokens (rx_data ?s)"
    using inv by (simp_all add: rx_inv_def)
  ultimately show ?thesis using exec unfolding rx_inv_def by blast
qed

lemma rx_finish_inv:
  assumes inv: "rx_inv tokens rcl thl s" and allowed: "rx_allowed tokens Rx_Thread_Finish s"
  shows "\<exists>s'. rx_exec os realloc Rx_Thread_Finish s = Inr s' \<and> rx_inv tokens rcl thl s'"
proof -
  let ?d = "rx_data s"
  obtain a e r where phase: "rx_phase s = Thread_In_Callback a e r"
    using allowed by (auto simp: rx_allowed_def split: receive_thread_phase.splits)
  then obtain svc where a: "ds_svc_receive ?d = Some a" "a \<in> rx_open s" "ds_sessions ?d a = Some svc"
    "is_queued svc" "sr_response_required svc \<longrightarrow> response_ok r"
    using inv by (auto simp: rx_inv_def thread_ok_def split: option.splits)
  have run: "ds_thread_status ?d = CCAPI_THREAD_RUNNING" using inv by (simp add: rx_inv_def service_ok_def)
  define svc' where "svc' = svc\<lparr>sr_receive_error := e,
      sr_response_buffer_info := (if sr_response_required svc then r else sr_response_buffer_info svc),
      sr_receive_thread_status := CCAPI_RECEIVE_THREAD_DATA_CB_PROCESSED\<rparr>"
  let ?s = "s\<lparr>rx_data := (put_session a svc' ?d)\<lparr>ds_svc_receive := None\<rparr>, rx_phase := Thread_Waiting\<rparr>"
  have exec: "rx_exec os realloc Rx_Thread_Finish s = Inr ?s"
    using phase a run by (simp add: rx_exec_def receive_thread_finish_def get_session_def is_queued_def Let_def
        svc'_def)
  have "service_ok tokens rcl thl (rx_data ?s)"
    using inv by (simp add: rx_inv_def service_ok_def service_cbs_ok_def)
  moreover have "sessions_ok tokens (rx_data ?s)"
  proof -
    have so: "sessions_ok tokens ?d" using inv by (simp add: rx_inv_def)
    then have ok: "session_ok tokens svc" and lt: "a < ds_fresh ?d"
      using a(3) unfolding sessions_ok_def by blast+
    have "session_ok tokens svc'" using ok a(5) by (simp add: session_ok_def svc'_def)
    moreover have "\<not> is_queued svc'" by (simp add: is_queued_def svc'_def)
    moreover have "a' < ds_fresh ?d \<and> session_ok tokens x \<and> \<not> is_queued x"
      if "ds_sessions ?d a' = Some x" "a' \<noteq> a" for a' x
      using so a(1) that unfolding sessions_ok_def by auto
    moreover note lt
    ultimately show ?thesis by (simp add: sessions_ok_def)
  qed
  moreover have "requests_ok ?s"
  proof -
    have "request_ok svc (rx_packets s a)" using inv a(2,3) by (auto simp: rx_inv_def requests_ok_def)
    then have "request_ok svc' (rx_packets s a)" using a(4) by (simp add: request_ok_def is_queued_def svc'_def)
    then show ?thesis using inv by (simp add: rx_inv_def requests_ok_def)
  qed
  moreover have "thread_ok ?s" by (simp add: thread_ok_def)
  moreover have "locks_ok tokens rcl thl ?s" using inv phase a(1) by (simp add: rx_inv_def locks_ok_def)
  moreover have "list_all call_ok (rx_calls ?s)" using inv by (simp add: rx_inv_def)
  ultimately show ?thesis using exec unfolding rx_inv_def by blast
qed

lemma rx_exec_inv:
  assumes "rx_inv tokens rcl thl s" and "rx_allowed tokens e s" and "realloc_ok tokens realloc"
    and "\<not> describes_no_target e s"
  shows "\<exists>s'. rx_exec os realloc e s = Inr s' \<and> rx_inv tokens rcl thl s'"
proof (cases e)
  case (Rx_Target x)
  then show ?thesis using rx_target_inv [OF assms(1)] by simp
next
  case (Rx_Data x)
  then show ?thesis using rx_data_inv [OF assms(1) _ assms(3)] assms(2) by simp
next
  case (Rx_Reply x)
  then show ?thesis using rx_reply_inv [OF assms(1)] assms(2,4) by simp
next
  case (Rx_Length x)
  then show ?thesis using rx_length_inv [OF assms(1)] assms(2) by simp
next
  case (Rx_Status x)
  then show ?thesis using rx_status_inv [OF assms(1)] assms(2) by simp
next
  case Rx_Thread_Wake
  then show ?thesis using rx_wake_inv [OF assms(1)] assms(2) by simp
next
  case Rx_Thread_Finish
  then show ?thesis using rx_finish_inv [OF assms(1)] assms(2) by simp
qed

lemma rx_exec_no_target:
  assumes "describes_no_target e s"
  shows "rx_exec os realloc e s = Inl Null_Dereference"
  using assms
  by (auto simp: describes_no_target_def rx_exec_def ccapi_process_device_request_response_def
      get_session_def prepare_response_def fill_internal_error_def Let_def
      split: rx_event.splits option.splits)

lemma rx_reachable_inv:
  assumes "rx_reachable os realloc tokens s0 s" and "realloc_ok tokens realloc" and "rx_inv tokens rcl thl s0"
  shows "rx_inv tokens rcl thl s"
  using assms(1)
proof (induction rule: rx_reachable.induct)
  case (rx_next s e s')
  have "\<not> describes_no_target e s" using rx_exec_no_target rx_next.hyps(3) by fastforce
  then show ?case using rx_exec_inv [OF rx_next.IH rx_next.hyps(2) assms(2)] rx_next.hyps(3) by auto
qed (rule assms(3))

end

subsection \<open>A run\<close>

text \<open>A request of two packets on the Linux layer, up to the data callback.\<close>

definition rx_idle :: "linux rx" where
  "rx_idle =
     \<lparr>rx_data = example_data Map.empty,
      rx_world = \<lparr>lx_sems = Map.empty(2 \<mapsto> 1, 3 \<mapsto> 0), lx_next = 4, lx_memory = 5, lx_blocks = 0,
                  lx_stuck = False\<rparr>,
      rx_phase = Thread_Waiting, rx_open = {}, rx_packets = (\<lambda>a. []), rx_calls = []\<rparr>"

definition plain_realloc :: "size_t \<Rightarrow> size_t \<Rightarrow> 'w \<Rightarrow> ccimp_status_t \<times> 'w" where
  "plain_realloc old new w = (CCIMP_STATUS_OK, w)"

definition rx_packet :: "u8 list \<Rightarrow> bool \<Rightarrow> rx_event" where
  "rx_packet bs m = Rx_Data \<lparr>data_user_context = Some 1, data_buffer = bs,
     data_bytes_used = of_nat (length bs), data_more_data = m\<rparr>"

definition rx_at ::
  "linux ccapi_svc_receive_t \<Rightarrow> ptr \<Rightarrow> nat \<Rightarrow> (u8 list \<times> bool) list \<Rightarrow> linux rx" where
  "rx_at svc slot thread_tokens packets =
     \<lparr>rx_data = (example_data [1 \<mapsto> svc])\<lparr>ds_fresh := 2, ds_svc_receive := slot\<rparr>,
      rx_world = \<lparr>lx_sems = Map.empty(2 \<mapsto> 1, 3 \<mapsto> thread_tokens), lx_next = 4, lx_memory = 3,
                  lx_blocks = 2, lx_stuck = False\<rparr>,
      rx_phase = Thread_Waiting, rx_open = {1}, rx_packets = (\<lambda>a. [])(1 := packets), rx_calls = []\<rparr>"

definition rx_holding :: "u8 buffer \<Rightarrow> ccapi_receive_thread_status_t \<Rightarrow> linux ccapi_svc_receive_t" where
  "rx_holding block status = example_session\<lparr>sr_receive_thread_status := status,
     sr_request_buffer_info := \<lparr>info_buffer = Some block, info_length = of_nat (length block)\<rparr>\<rparr>"

lemma plain_realloc_ok: "realloc_ok tokens plain_realloc"
  by (simp add: realloc_ok_def plain_realloc_def)

lemma linux_locks: "os_locks (linux_os debug) linux_tokens"
  by (rule lx.os_locks_axioms)

lemma rx_idle_inv: "rx_inv linux_tokens 2 3 rx_idle"
  by (simp add: rx_inv_def service_ok_def sessions_ok_def requests_ok_def thread_ok_def locks_ok_def
      service_cbs_ok_def rx_idle_def example_data_def linux_tokens_def targets_valid_def data_cb_ok_def
      example_data_cb_def response_ok_def)

lemmas rx_eval = rx_exec_def rx_allowed_def rx_at_def rx_holding_def rx_packet_def example_data_def
  example_session_def get_session_def put_session_def Let_def

lemma rx_step1:
  "rx_exec (linux_os False) plain_realloc (Rx_Target target_request) rx_idle
     = Inr (rx_at example_session None 0 [])"
  by (simp add: rx_eval rx_idle_def ccapi_process_device_request_target_def target_request_def
      ccapi_malloc_def ccimp_os_malloc_def accept_target_def get_pointer_to_target_entry_def new_session_def)

lemma rx_step2:
  "rx_exec (linux_os False) plain_realloc (rx_packet [5, 6] True) (rx_at example_session None 0 [])
     = Inr (rx_at (rx_holding [Some 5, Some 6] CCAPI_RECEIVE_THREAD_IDLE) None 0 [([5, 6], True)])"
  by (simp add: rx_eval ccapi_process_device_request_data_def append_packet_def plain_realloc_def
      CCAPI_RECEIVE_NO_LIMIT_def no_buffer_def realloc_block_def memcpy_at_def packet_taken_def
      the_packet_def)

lemma rx_step3:
  "rx_exec (linux_os False) plain_realloc (rx_packet [7] False)
       (rx_at (rx_holding [Some 5, Some 6] CCAPI_RECEIVE_THREAD_IDLE) None 0 [([5, 6], True)])
     = Inr (rx_at (rx_holding [Some 5, Some 6, Some 7] CCAPI_RECEIVE_THREAD_DATA_CB_READY) None 0
              [([5, 6], True), ([7], False)])"
  by (simp add: rx_eval ccapi_process_device_request_data_def append_packet_def plain_realloc_def
      CCAPI_RECEIVE_NO_LIMIT_def realloc_block_def memcpy_at_def packet_taken_def the_packet_def)

definition rx_queued :: "linux rx" where
  "rx_queued = rx_at (rx_holding [Some 5, Some 6, Some 7] CCAPI_RECEIVE_THREAD_DATA_CB_QUEUED) (Some 1) 1
     [([5, 6], True), ([7], False)]"

lemma rx_step4:
  "rx_exec (linux_os False) plain_realloc (rx_packet [7] False)
       (rx_at (rx_holding [Some 5, Some 6, Some 7] CCAPI_RECEIVE_THREAD_DATA_CB_READY) None 0
          [([5, 6], True), ([7], False)]) = Inr rx_queued"
  by (simp add: rx_queued_def rx_eval ccapi_process_device_request_data_def queue_request_def
      ccapi_lock_acquire_def ccapi_lock_release_def ccimp_os_lock_acquire_def ccimp_os_lock_release_def
      packet_taken_def fun_upd_twist)

lemma rx_queued_reachable:
  "rx_reachable (linux_os False) plain_realloc linux_tokens rx_idle rx_queued"
proof -
  let ?r = "rx_reachable (linux_os False) plain_realloc linux_tokens rx_idle"
  have "?r (rx_at example_session None 0 [])"
    by (rule rx_next [OF rx_start _ rx_step1]) (simp add: rx_allowed_def)
  then have "?r (rx_at (rx_holding [Some 5, Some 6] CCAPI_RECEIVE_THREAD_IDLE) None 0 [([5, 6], True)])"
    by (rule rx_next [OF _ _ rx_step2]) (simp add: rx_eval no_buffer_def)
  then have "?r (rx_at (rx_holding [Some 5, Some 6, Some 7] CCAPI_RECEIVE_THREAD_DATA_CB_READY) None 0
      [([5, 6], True), ([7], False)])"
    by (rule rx_next [OF _ _ rx_step3]) (simp add: rx_eval)
  then show ?thesis by (rule rx_next [OF _ _ rx_step4]) (simp add: rx_eval)
qed

lemma rx_queued_obs:
  "rx_allowed linux_tokens Rx_Thread_Wake rx_queued" "ds_svc_receive (rx_data rx_queued) = Some 1"
  "rx_phase rx_queued = Thread_Waiting"
  by (simp_all add: rx_queued_def rx_eval linux_tokens_def)

subsection \<open>Claims\<close>

text \<open>
  C13. However the connector's requests and the thread's steps come, exactly one kind of them
  reaches undefined behaviour, as long as no session is ended while its callback is queued or
  running: asking for the response of a session that failed, has no response of the user's and
  whose target could not be copied reads through the NULL target. Every other event has a result.
  The hypotheses are the contract of the operating system's locks, a user whose callbacks do not
  touch the locks and answer a length their block has, and a start that satisfies the invariant,
  as an idle service does; malloc and realloc may fail at any point.
\<close>

theorem receive_no_undefined_behaviour:
  assumes "os_locks os tokens" and "realloc_ok tokens realloc" and "rx_inv tokens rcl thl s0"
    and "rx_reachable os realloc tokens s0 s" and "rx_allowed tokens e s"
  shows "if describes_no_target e s then rx_exec os realloc e s = Inl Null_Dereference
    else (\<exists>s'. rx_exec os realloc e s = Inr s')"
  using os_locks.rx_exec_inv [OF assms(1) os_locks.rx_reachable_inv [OF assms(1,4,2,3)] assms(5,2)]
    os_locks.rx_exec_no_target [OF assms(1)]
  by (simp split: if_split) blast

text \<open>
  Both outcomes: the wake-up of the thread of the run above, and a reply on a service where the
  copy of the target failed.
\<close>

definition rx_poor :: "linux rx" where
  "rx_poor = rx_idle\<lparr>rx_world := (rx_world rx_idle)\<lparr>lx_memory := 1\<rparr>\<rparr>"

definition rx_poor_reply :: rx_event where
  "rx_poor_reply = Rx_Reply \<lparr>reply_user_context = Some 1, reply_buffer = [None, None],
     reply_bytes_available = 2, reply_bytes_used = 0, reply_more_data = False\<rparr>"

theorem receive_no_undefined_behaviour_witness:
  "(\<exists>s'. rx_exec (linux_os False) plain_realloc Rx_Thread_Wake rx_queued = Inr s')
   \<and> (\<exists>s. rx_reachable (linux_os False) plain_realloc linux_tokens rx_poor s
        \<and> rx_exec (linux_os False) plain_realloc rx_poor_reply s = Inl Null_Dereference)"
proof
  show "\<exists>s'. rx_exec (linux_os False) plain_realloc Rx_Thread_Wake rx_queued = Inr s'"
    using receive_no_undefined_behaviour [OF linux_locks plain_realloc_ok rx_idle_inv
        rx_queued_reachable rx_queued_obs(1)]
    by (simp add: describes_no_target_def)
  have inv: "rx_inv linux_tokens 2 3 rx_poor"
    using rx_idle_inv
    by (simp add: rx_poor_def rx_inv_defs linux_tokens_def split: option.splits)
  obtain s where t: "rx_exec (linux_os False) plain_realloc (Rx_Target target_request) rx_poor = Inr s"
    and svc: "ds_sessions (rx_data s) (Suc 0) = Some (new_session (rx_data rx_idle) target_request
      \<lparr>sr_receive_error := CCAPI_RECEIVE_ERROR_INSUFFICIENT_MEMORY\<rparr>)"
    by (simp add: rx_eval rx_poor_def rx_idle_def ccapi_process_device_request_target_def
        target_request_def ccapi_malloc_def ccimp_os_malloc_def new_session_def)
  have r: "rx_reachable (linux_os False) plain_realloc linux_tokens rx_poor s"
    by (rule rx_next [OF rx_start _ t]) (simp add: rx_allowed_def)
  have "rx_allowed linux_tokens rx_poor_reply s"
    by (simp add: rx_poor_reply_def rx_allowed_def svc)
  moreover have "describes_no_target rx_poor_reply s"
    by (simp add: rx_poor_reply_def describes_no_target_def svc new_session_def target_request_def
        no_buffer_def)
  ultimately show "\<exists>s. rx_reachable (linux_os False) plain_realloc linux_tokens rx_poor s
        \<and> rx_exec (linux_os False) plain_realloc rx_poor_reply s = Inl Null_Dereference"
    using receive_no_undefined_behaviour [OF linux_locks plain_realloc_ok inv r] r by auto
qed

text \<open>
  C14. Every call of a data callback gets the whole request and nothing else: all the packets of
  its session that were taken, in order, put together, the last of them being the one marked as
  such; and when the target has a limit the request is within it.
\<close>

theorem data_callback_gets_whole_request:
  assumes "os_locks os tokens" and "realloc_ok tokens realloc" and "rx_inv tokens rcl thl s0"
    and "rx_reachable os realloc tokens s0 s" and "(info, ps, limit) \<in> set (rx_calls s)"
  shows "unat (info_length info) = length (concat (map fst ps))
    \<and> (\<forall>block. info_buffer info = Some block \<longrightarrow> block = map Some (concat (map fst ps)))
    \<and> ps \<noteq> [] \<and> \<not> snd (last ps) \<and> (\<forall>p \<in> set (butlast ps). snd p)
    \<and> (limit = CCAPI_RECEIVE_NO_LIMIT \<or> info_length info \<le> limit)"
proof -
  have "list_all call_ok (rx_calls s)"
    using os_locks.rx_reachable_inv [OF assms(1,4,2,3)] by (simp add: rx_inv_def)
  then have "call_ok (info, ps, limit)" using assms(5) by (simp add: list_all_iff)
  then show ?thesis
    by (auto simp: call_ok_def packets_complete_def holds_packets_def within_limit_def split: option.splits)
qed

lemma rx_called:
  "\<exists>s. rx_exec (linux_os False) plain_realloc Rx_Thread_Wake rx_queued = Inr s
     \<and> rx_calls s = [(\<lparr>info_buffer = Some [Some 5, Some 6, Some 7], info_length = 3\<rparr>,
          [([5, 6], True), ([7], False)], CCAPI_RECEIVE_NO_LIMIT)]"
  by (simp add: rx_queued_def rx_eval receive_thread_wake_def example_data_cb_def)

theorem data_callback_gets_whole_request_witness:
  "[Some 5, Some 6, Some 7] = map Some (concat (map fst [([5, 6], True), ([7 :: u8], False)]))"
proof -
  let ?c = "(\<lparr>info_buffer = Some [Some 5, Some 6, Some 7], info_length = 3\<rparr>,
    [([5, 6], True), ([7], False)], CCAPI_RECEIVE_NO_LIMIT)"
  obtain s where s: "rx_exec (linux_os False) plain_realloc Rx_Thread_Wake rx_queued = Inr s"
    "?c \<in> set (rx_calls s)" using rx_called by auto
  from data_callback_gets_whole_request [OF linux_locks plain_realloc_ok rx_idle_inv
      rx_next [OF rx_queued_reachable rx_queued_obs(1) s(1)] s(2)]
  show ?thesis by simp
qed

text \<open>
  The thread serves one session at a time and is woken exactly when there is one: in every
  reachable state its lock holds a token if and only if a session is queued and the thread waits,
  never more than one, at most one session is queued, and the thread never leaves its loop.
\<close>

theorem receive_thread_serves_one_session:
  assumes "os_locks os tokens" and "realloc_ok tokens realloc" and "rx_inv tokens rcl thl s0"
    and "rx_reachable os realloc tokens s0 s"
  shows "tokens thl (rx_world s)
      = Some (if ds_svc_receive (rx_data s) \<noteq> None \<and> rx_phase s = Thread_Waiting then 1 else 0)
    \<and> {a. \<exists>svc. ds_sessions (rx_data s) a = Some svc
           \<and> sr_receive_thread_status svc = CCAPI_RECEIVE_THREAD_DATA_CB_QUEUED}
        = set_option (ds_svc_receive (rx_data s))
    \<and> rx_phase s \<noteq> Thread_Exited"
proof -
  have inv: "rx_inv tokens rcl thl s" by (rule os_locks.rx_reachable_inv [OF assms(1,4,2,3)])
  then have one: "ds_svc_receive (rx_data s) = Some a"
    if "ds_sessions (rx_data s) a = Some svc" "is_queued svc" for a svc
    using that by (auto simp: rx_inv_def sessions_ok_def)
  have thread: "thread_ok s" using inv by (simp add: rx_inv_def)
  have "{a. \<exists>svc. ds_sessions (rx_data s) a = Some svc \<and> is_queued svc}
      = set_option (ds_svc_receive (rx_data s))"
    using one thread by (auto simp: thread_ok_def split: option.splits)
  moreover have "rx_phase s \<noteq> Thread_Exited"
    using thread by (auto simp: thread_ok_def split: option.splits)
  moreover have "locks_ok tokens rcl thl s" using inv by (simp add: rx_inv_def)
  ultimately show ?thesis by (simp add: locks_ok_def is_queued_def)
qed

theorem receive_thread_serves_one_session_witness:
  "linux_tokens 3 (rx_world rx_queued) = Some 1"
  using receive_thread_serves_one_session [OF linux_locks plain_realloc_ok rx_idle_inv rx_queued_reachable]
    rx_queued_obs(2,3) by simp

text \<open>
  The restriction is needed. The handler frees a session whose callback is queued or running
  when the cloud cancels it, although the thread checks, after the callback, whether that
  happened: the check itself, or the wake-up, reads the freed session.
\<close>

theorem cancel_while_queued_frees_session:
  assumes "ds_sessions d a = Some svc" and "ds_svc_receive d = Some a"
    and "status_user_context x = Some a" and "status_status x \<noteq> connector_data_service_status_COUNT"
    and "ds_thread_status d \<noteq> CCAPI_THREAD_REQUEST_STOP"
  shows "\<exists>d' w'. ccapi_process_device_request_status os x d w = Inr (connector_callback_continue, d', w')
    \<and> receive_thread_wake d' w'' = Inl Use_After_Free
    \<and> receive_thread_finish a e r d' = Inl Use_After_Free"
  using assms
  by (cases "status_status x"; cases "sr_receive_error svc = CCAPI_RECEIVE_ERROR_NONE")
    (simp_all add: ccapi_process_device_request_status_def get_session_def status_error_def Let_def
      receive_thread_wake_def receive_thread_finish_def)

theorem cancel_while_queued_frees_session_witness:
  "\<exists>d' w'. ccapi_process_device_request_status example_os
       \<lparr>status_user_context = Some 0, status_status = connector_data_service_status_cancel\<rparr>
       ((example_data [0 \<mapsto> example_session\<lparr>sr_receive_thread_status := CCAPI_RECEIVE_THREAD_DATA_CB_QUEUED\<rparr>])
          \<lparr>ds_svc_receive := Some 0\<rparr>) () = Inr (connector_callback_continue, d', w')
     \<and> receive_thread_finish 0 CCAPI_RECEIVE_ERROR_NONE no_buffer d' = Inl Use_After_Free"
  using cancel_while_queued_frees_session [where a = 0 and os = example_os and w = "()"
      and d = "(example_data [0 \<mapsto> example_session\<lparr>sr_receive_thread_status :=
                  CCAPI_RECEIVE_THREAD_DATA_CB_QUEUED\<rparr>])\<lparr>ds_svc_receive := Some 0\<rparr>"
      and x = "\<lparr>status_user_context = Some 0, status_status = connector_data_service_status_cancel\<rparr>"
      and e = CCAPI_RECEIVE_ERROR_NONE and r = no_buffer and w'' = "()"]
  by (simp add: example_data_def) blast

text \<open>
  C15. The limit of a target: a packet that would take the request beyond it is refused, the
  session can take no more and what it collected stays as it was; one that does not is refused
  only for lack of memory.
\<close>

theorem request_limit_is_enforced:
  assumes "ds_sessions d a = Some svc" and "data_user_context x = Some a" and "rs_supported d"
    and "sr_receive_thread_status svc = CCAPI_RECEIVE_THREAD_IDLE"
    and "ccapi_process_device_request_data os realloc x d w = Inr (status, d', w')"
    and "sr_max_request_size svc \<noteq> CCAPI_RECEIVE_NO_LIMIT"
    and "unat (info_length (sr_request_buffer_info svc)) + unat (data_bytes_used x) < 2 ^ 64"
  shows "\<exists>svc'. ds_sessions d' a = Some svc'
    \<and> (if unat (sr_max_request_size svc)
            < unat (info_length (sr_request_buffer_info svc)) + unat (data_bytes_used x)
       then status = connector_callback_error
         \<and> sr_receive_error svc' = CCAPI_RECEIVE_ERROR_REQUEST_TOO_BIG
         \<and> sr_receive_thread_status svc' = CCAPI_RECEIVE_THREAD_FREE
         \<and> sr_request_buffer_info svc' = sr_request_buffer_info svc
       else status = connector_callback_error \<longrightarrow>
         sr_receive_error svc' = CCAPI_RECEIVE_ERROR_INSUFFICIENT_MEMORY)"
proof -
  have n: "unat (info_length (sr_request_buffer_info svc) + data_bytes_used x)
      = unat (info_length (sr_request_buffer_info svc)) + unat (data_bytes_used x)"
    by (rule unat_plus_small) (use assms(7) in simp)
  show ?thesis
    using assms(1-6)
    by (auto simp: ccapi_process_device_request_data_def get_session_def append_packet_def Let_def
        word_less_nat_alt n split: if_splits prod.splits)
qed

definition limited_session :: "'w ccapi_svc_receive_t" where
  "limited_session = example_session\<lparr>sr_max_request_size := 2,
     sr_request_buffer_info := \<lparr>info_buffer = Some [Some 1, Some 2], info_length = 2\<rparr>\<rparr>"

theorem request_limit_is_enforced_witness:
  "\<exists>d' w' svc'. ccapi_process_device_request_data example_os plain_realloc last_packet
       (example_data [0 \<mapsto> limited_session]) () = Inr (connector_callback_error, d', w')
     \<and> ds_sessions d' 0 = Some svc' \<and> sr_receive_error svc' = CCAPI_RECEIVE_ERROR_REQUEST_TOO_BIG"
proof -
  let ?d = "example_data [0 \<mapsto> limited_session] :: unit data_state"
  obtain status d' w' where r: "ccapi_process_device_request_data example_os plain_realloc last_packet ?d ()
      = Inr (status, d', w')"
    by (simp add: ccapi_process_device_request_data_def last_packet_def get_session_def append_packet_def
        example_data_def limited_session_def example_session_def CCAPI_RECEIVE_NO_LIMIT_def Let_def)
  have "ds_sessions ?d 0 = Some limited_session" "rs_supported ?d" "data_user_context last_packet = Some 0"
    by (simp_all add: example_data_def last_packet_def)
  from request_limit_is_enforced [OF this(1,3,2) _ r] r
  show ?thesis
    by (auto simp: limited_session_def example_session_def CCAPI_RECEIVE_NO_LIMIT_def last_packet_def)
qed

end
