(* ===== verification/SendService.thy ===== *)
theory SendService
  imports ReceiveService CcimpFs
begin

text \<open>
  The send half of the data service: the requests of the connector for a send, in
  source/ccapi_data_handler.c, and the public functions of source/ccapi_send.c, which start a
  send, wait for its status and free it.

  The sends in progress (\<open>ccapi_send_t\<close>) are heap objects; the address of a send is the
  \<open>user_context\<close> the connector passes back. A field that the code may read before it is written
  is an \<open>option\<close>, \<open>None\<close> until it is written; the others start with any value.

  The thread that sends waits on the lock of its send while the thread of the connector serves
  requests. The requests that are served before the wait ends are the argument \<open>requests\<close>.
\<close>

subsection \<open>Types\<close>

datatype ccapi_send_error_t =
    CCAPI_SEND_ERROR_NONE
  | CCAPI_SEND_ERROR_CCAPI_NOT_RUNNING
  | CCAPI_SEND_ERROR_TRANSPORT_NOT_STARTED
  | CCAPI_SEND_ERROR_FILESYSTEM_NOT_SUPPORTED
  | CCAPI_SEND_ERROR_INVALID_CLOUD_PATH
  | CCAPI_SEND_ERROR_INVALID_CONTENT_TYPE
  | CCAPI_SEND_ERROR_INVALID_DATA
  | CCAPI_SEND_ERROR_INVALID_LOCAL_PATH
  | CCAPI_SEND_ERROR_NOT_A_FILE
  | CCAPI_SEND_ERROR_ACCESSING_FILE
  | CCAPI_SEND_ERROR_INVALID_HINT_POINTER
  | CCAPI_SEND_ERROR_INSUFFICIENT_MEMORY
  | CCAPI_SEND_ERROR_LOCK_FAILED
  | CCAPI_SEND_ERROR_INITIATE_ACTION_FAILED
  | CCAPI_SEND_ERROR_STATUS_CANCEL
  | CCAPI_SEND_ERROR_STATUS_TIMEOUT
  | CCAPI_SEND_ERROR_STATUS_SESSION_ERROR
  | CCAPI_SEND_ERROR_RESPONSE_BAD_REQUEST
  | CCAPI_SEND_ERROR_RESPONSE_UNAVAILABLE
  | CCAPI_SEND_ERROR_RESPONSE_CLOUD_ERROR

datatype ccapi_send_behavior_t = CCAPI_SEND_BEHAVIOR_APPEND | CCAPI_SEND_BEHAVIOR_OVERWRITE

datatype connector_data_service_send_option_t =
    connector_data_service_send_option_append
  | connector_data_service_send_option_overwrite

datatype connector_data_service_send_response_type_t =
    connector_data_service_send_response_success
  | connector_data_service_send_response_bad_request
  | connector_data_service_send_response_unavailable
  | connector_data_service_send_response_cloud_error
  | connector_data_service_send_response_COUNT

text \<open>
  \<open>ccapi_string_info_t\<close>: the buffer of the user for the hint of the cloud, NULL or its contents,
  and its length. A response error is kept as the enumerator it is the value of.
\<close>

record ccapi_string_info_t =
  info_string :: "char buffer option"
  string_length :: size_t

record ccapi_optional_response =
  optional_known :: bool
  optional_value :: connector_data_service_send_response_type_t

record ccapi_svc_send_t =
  ss_sending_file :: "bool option"
  ss_next_data :: "u8 buffer option"
  ss_next_offset :: nat
  ss_file_handler :: ccimp_fs_file_handle_t
  ss_bytes_remaining :: size_t
  ss_send_lock :: "ptr option"
  ss_request_error :: ccapi_send_error_t
  ss_response_error :: ccapi_send_error_t
  ss_status_error :: ccapi_send_error_t
  ss_hint :: "ccapi_string_info_t option"
  ss_raw_response_error :: "ccapi_optional_response option"

record connector_request_data_service_send_t =
  send_transport :: connector_transport_t
  send_path :: "string option"
  send_content_type :: "string option"
  send_option :: connector_data_service_send_option_t
  send_response_required :: bool
  send_timeout_in_seconds :: u64
  send_header_context :: nat

record ccapi_send_t =
  si_header :: connector_request_data_service_send_t
  si_svc_send :: ccapi_svc_send_t

text \<open>The fields of \<open>ccapi_data_t\<close> a send uses; those of the file operations are \<open>sd_fs\<close>.\<close>

record 'w send_state =
  sd_fs :: "'w fs_service"
  sd_tcp_connected :: bool
  sd_udp_started :: bool
  sd_sms_started :: bool
  sd_initiate_lock :: ptr
  sd_run_lock :: ptr
  sd_sends :: "nat \<rightharpoonup> ccapi_send_t"
  sd_fresh :: nat

definition get_send :: "'w send_state \<Rightarrow> nat \<Rightarrow> ccapi_send_t ub" where
  "get_send d a = (case sd_sends d a of None \<Rightarrow> Inl Use_After_Free | Some s \<Rightarrow> Inr s)"

definition put_send :: "nat \<Rightarrow> ccapi_send_t \<Rightarrow> 'w send_state \<Rightarrow> 'w send_state" where
  "put_send a s d = d\<lparr>sd_sends := (sd_sends d)(a \<mapsto> s)\<rparr>"

definition get_svc_send :: "'w send_state \<Rightarrow> nat \<Rightarrow> ccapi_svc_send_t ub" where
  "get_svc_send d a = ub_bind (get_send d a) (\<lambda>s. Inr (si_svc_send s))"

definition put_svc_send :: "nat \<Rightarrow> ccapi_svc_send_t \<Rightarrow> 'w send_state \<Rightarrow> 'w send_state" where
  "put_svc_send a svc d =
     (case sd_sends d a of None \<Rightarrow> d | Some s \<Rightarrow> put_send a (s\<lparr>si_svc_send := svc\<rparr>) d)"

subsection \<open>The data of a send\<close>

record connector_data_service_send_data_t =
  send_user_context :: ptr
  send_buffer :: "u8 buffer"
  send_bytes_available :: size_t
  send_bytes_used :: size_t
  send_more_data :: bool

text \<open>
  The connector always passes a structure, so the branch for a NULL pointer has no counterpart.
\<close>

text \<open>The bytes of the piece: from the user's data, or from the file.\<close>

definition copy_send_piece ::
  "connector_data_service_send_data_t \<Rightarrow> size_t \<Rightarrow> ccapi_svc_send_t
     \<Rightarrow> (connector_data_service_send_data_t \<times> ccapi_svc_send_t) ub" where
  "copy_send_piece send_ptr n svc =
     ub_bind (read_block (ss_next_data svc) (ss_next_offset svc) (unat n))
       (\<lambda>piece. ub_bind (write_block (send_buffer send_ptr) piece)
         (\<lambda>buffer. Inr (send_ptr\<lparr>send_buffer := buffer\<rparr>,
                        svc\<lparr>ss_next_offset := ss_next_offset svc + unat n\<rparr>)))"

text \<open>
  The number of bytes that were read is looked at by ASSERT_MSG only: \<open>bytes_used\<close> is what was
  asked for.
\<close>

definition finish_send_piece ::
  "connector_data_service_send_data_t \<Rightarrow> size_t \<Rightarrow> ccapi_svc_send_t
     \<Rightarrow> connector_data_service_send_data_t \<times> ccapi_svc_send_t" where
  "finish_send_piece send_ptr n svc =
     (send_ptr\<lparr>send_bytes_used := n, send_more_data := (0 < ss_bytes_remaining svc - n)\<rparr>,
      svc\<lparr>ss_bytes_remaining := ss_bytes_remaining svc - n\<rparr>)"

definition ccapi_process_send_data_request ::
  "'w os \<Rightarrow> 'w ccimp_fs \<Rightarrow> connector_data_service_send_data_t \<Rightarrow> 'w send_state \<Rightarrow> 'w
     \<Rightarrow> (connector_callback_status_t \<times> connector_data_service_send_data_t \<times> 'w send_state \<times> 'w) run"
where
  "ccapi_process_send_data_request os fs send_ptr d w =
     (case send_user_context send_ptr of
        None \<Rightarrow> Some (Inr (connector_callback_error, send_ptr, d, w))
      | Some a \<Rightarrow>
          run_bind (Some (get_svc_send d a)) (\<lambda>svc.
            let n = (if ss_bytes_remaining svc < send_bytes_available send_ptr
                     then ss_bytes_remaining svc else send_bytes_available send_ptr)
            in run_bind (Some (read_field (ss_sending_file svc))) (\<lambda>sending_file.
                 if \<not> sending_file
                 then run_bind (Some (copy_send_piece send_ptr n svc)) (\<lambda>(send_ptr1, svc1).
                        case finish_send_piece send_ptr1 n svc1 of
                          (send_ptr2, svc2) \<Rightarrow>
                            Some (Inr (connector_callback_continue, send_ptr2, put_svc_send a svc2 d, w)))
                 else
                   (case ccapi_read_file os fs (sd_fs d) (ss_file_handler svc) (send_buffer send_ptr) n w of
                      None \<Rightarrow> None
                    | Some (ccimp_status, buffer, bytes_read, fs', w1) \<Rightarrow>
                        (let send_ptr1 = send_ptr\<lparr>send_buffer := buffer\<rparr>;
                             d1 = d\<lparr>sd_fs := fs'\<rparr>
                         in if ccimp_status \<noteq> CCIMP_STATUS_OK
                            then Some (Inr (connector_callback_error, send_ptr1,
                                   put_svc_send a (svc\<lparr>ss_request_error := CCAPI_SEND_ERROR_ACCESSING_FILE\<rparr>) d1,
                                   w1))
                            else (case finish_send_piece send_ptr1 n svc of
                                    (send_ptr2, svc2) \<Rightarrow>
                                      Some (Inr (connector_callback_continue, send_ptr2,
                                                 put_svc_send a svc2 d1, w1))))))))"

subsection \<open>The response and the status\<close>

record connector_data_service_send_response_t =
  resp_user_context :: ptr
  resp_response :: connector_data_service_send_response_type_t
  resp_hint :: "string option"

definition response_error ::
  "connector_data_service_send_response_type_t \<Rightarrow> ccapi_send_error_t option" where
  "response_error response =
     (case response of
        connector_data_service_send_response_success \<Rightarrow> Some CCAPI_SEND_ERROR_NONE
      | connector_data_service_send_response_bad_request \<Rightarrow> Some CCAPI_SEND_ERROR_RESPONSE_BAD_REQUEST
      | connector_data_service_send_response_unavailable \<Rightarrow> Some CCAPI_SEND_ERROR_RESPONSE_UNAVAILABLE
      | connector_data_service_send_response_cloud_error \<Rightarrow> Some CCAPI_SEND_ERROR_RESPONSE_CLOUD_ERROR
      | connector_data_service_send_response_COUNT \<Rightarrow> None)"

text \<open>\<open>strncpy\<close> copies at most \<open>n\<close> characters and fills up with NULs.\<close>

definition strncpy_to :: "char buffer option \<Rightarrow> string \<Rightarrow> nat \<Rightarrow> char buffer ub" where
  "strncpy_to dst src n =
     (case dst of
        None \<Rightarrow> if n = 0 then Inr [] else Inl Null_Dereference
      | Some buf \<Rightarrow> memcpy_at buf 0 (take n (src @ replicate n (CHR 0x00))))"

definition copy_hint :: "ccapi_string_info_t \<Rightarrow> string \<Rightarrow> ccapi_string_info_t ub" where
  "copy_hint hint text =
     (let max_hint_length = unat (string_length hint - 1)
      in ub_bind (strncpy_to (info_string hint) text max_hint_length)
           (\<lambda>buf. ub_bind (memcpy_at buf max_hint_length [CHR 0x00])
             (\<lambda>buf'. Inr (hint\<lparr>info_string := Some buf'\<rparr>))))"

definition ccapi_process_send_data_response ::
  "connector_data_service_send_response_t \<Rightarrow> 'w send_state
     \<Rightarrow> (connector_callback_status_t \<times> 'w send_state) ub" where
  "ccapi_process_send_data_response resp_ptr d =
     (case resp_user_context resp_ptr of
        None \<Rightarrow> Inr (connector_callback_continue, d)
      | Some a \<Rightarrow>
          ub_bind (get_svc_send d a) (\<lambda>svc.
            let svc1 = svc\<lparr>ss_raw_response_error :=
                             Some \<lparr>optional_known = True, optional_value = resp_response resp_ptr\<rparr>\<rparr>
            in case response_error (resp_response resp_ptr) of
                 None \<Rightarrow> Inr (connector_callback_continue, put_svc_send a svc1 d)
               | Some e \<Rightarrow>
                   (let svc2 = svc1\<lparr>ss_response_error := e\<rparr>
                    in case (resp_hint resp_ptr, ss_hint svc2) of
                         (Some text, Some hint) \<Rightarrow>
                           ub_bind (copy_hint hint text) (\<lambda>hint'.
                             Inr (connector_callback_continue, put_svc_send a (svc2\<lparr>ss_hint := Some hint'\<rparr>) d))
                       | _ \<Rightarrow> Inr (connector_callback_continue, put_svc_send a svc2 d))))"

definition send_status_error :: "connector_data_service_status_type_t \<Rightarrow> ccapi_send_error_t option" where
  "send_status_error status =
     (case status of
        connector_data_service_status_complete \<Rightarrow> Some CCAPI_SEND_ERROR_NONE
      | connector_data_service_status_cancel \<Rightarrow> Some CCAPI_SEND_ERROR_STATUS_CANCEL
      | connector_data_service_status_timeout \<Rightarrow> Some CCAPI_SEND_ERROR_STATUS_TIMEOUT
      | connector_data_service_status_session_error \<Rightarrow> Some CCAPI_SEND_ERROR_STATUS_SESSION_ERROR
      | connector_data_service_status_COUNT \<Rightarrow> None)"

definition ccapi_process_send_data_status ::
  "'w os \<Rightarrow> connector_data_service_status_t \<Rightarrow> 'w send_state \<Rightarrow> 'w
     \<Rightarrow> (connector_callback_status_t \<times> 'w send_state \<times> 'w) ub" where
  "ccapi_process_send_data_status os status_ptr d w =
     (case status_user_context status_ptr of
        None \<Rightarrow> Inr (connector_callback_error, d, w)
      | Some a \<Rightarrow>
          ub_bind (get_svc_send d a) (\<lambda>svc.
            case send_status_error (status_status status_ptr) of
              None \<Rightarrow> Inr (connector_callback_error, d, w)
            | Some e \<Rightarrow>
                (let d1 = put_svc_send a (svc\<lparr>ss_status_error := e\<rparr>) d
                 in ub_bind (read_field (ss_send_lock svc)) (\<lambda>send_lock.
                      if send_lock = None then Inr (connector_callback_error, d1, w)
                      else
                        (case ccapi_lock_release os send_lock w of
                           (status, w1) \<Rightarrow>
                             Inr (if status = CCIMP_STATUS_OK then connector_callback_continue
                                  else connector_callback_error, d1, w1))))))"

definition ccapi_process_send_data_length ::
  "connector_data_service_length_t \<Rightarrow> 'w send_state
     \<Rightarrow> (connector_callback_status_t \<times> connector_data_service_length_t) ub" where
  "ccapi_process_send_data_length length_ptr d =
     (case length_user_context length_ptr of
        None \<Rightarrow> Inr (connector_callback_error, length_ptr)
      | Some a \<Rightarrow>
          ub_bind (get_svc_send d a) (\<lambda>svc.
            Inr (connector_callback_continue, length_ptr\<lparr>length_total_bytes := ss_bytes_remaining svc\<rparr>)))"

subsection \<open>The handler of the data service\<close>

datatype data_service_request =
    connector_request_id_data_service_send_data connector_data_service_send_data_t
  | connector_request_id_data_service_send_response connector_data_service_send_response_t
  | connector_request_id_data_service_send_status connector_data_service_status_t
  | connector_request_id_data_service_send_length connector_data_service_length_t
  | connector_request_id_data_service_receive_target connector_data_service_receive_target_t
  | connector_request_id_data_service_receive_data connector_data_service_receive_data_t
  | connector_request_id_data_service_receive_reply_data connector_data_service_receive_reply_data_t
  | connector_request_id_data_service_receive_status connector_data_service_status_t
  | connector_request_id_data_service_receive_reply_length connector_data_service_length_t

text \<open>The two halves keep separate parts of \<open>ccapi_data_t\<close>: \<open>r\<close> receives, \<open>d\<close> sends.\<close>

definition ccapi_data_service_handler ::
  "'w os \<Rightarrow> 'w ccimp_fs \<Rightarrow> (size_t \<Rightarrow> size_t \<Rightarrow> 'w \<Rightarrow> ccimp_status_t \<times> 'w) \<Rightarrow> data_service_request
     \<Rightarrow> 'w data_state \<times> 'w send_state \<Rightarrow> 'w
     \<Rightarrow> (connector_callback_status_t \<times> data_service_request \<times> ('w data_state \<times> 'w send_state) \<times> 'w) run"
where
  "ccapi_data_service_handler os fs realloc request s w =
     (case s of (r, d) \<Rightarrow>
       (case request of
          connector_request_id_data_service_send_data x \<Rightarrow>
            run_bind (ccapi_process_send_data_request os fs x d w) (\<lambda>(status, x', d', w').
              Some (Inr (status, connector_request_id_data_service_send_data x', (r, d'), w')))
        | connector_request_id_data_service_send_response x \<Rightarrow>
            run_bind (Some (ccapi_process_send_data_response x d)) (\<lambda>(status, d').
              Some (Inr (status, request, (r, d'), w)))
        | connector_request_id_data_service_send_status x \<Rightarrow>
            run_bind (Some (ccapi_process_send_data_status os x d w)) (\<lambda>(status, d', w').
              Some (Inr (status, request, (r, d'), w')))
        | connector_request_id_data_service_send_length x \<Rightarrow>
            run_bind (Some (ccapi_process_send_data_length x d)) (\<lambda>(status, x').
              Some (Inr (status, connector_request_id_data_service_send_length x', (r, d), w)))
        | connector_request_id_data_service_receive_target x \<Rightarrow>
            run_bind (Some (ccapi_process_device_request_target os x r w)) (\<lambda>(status, x', r', w').
              Some (Inr (status, connector_request_id_data_service_receive_target x', (r', d), w')))
        | connector_request_id_data_service_receive_data x \<Rightarrow>
            run_bind (Some (ccapi_process_device_request_data os realloc x r w)) (\<lambda>(status, r', w').
              Some (Inr (status, request, (r', d), w')))
        | connector_request_id_data_service_receive_reply_data x \<Rightarrow>
            run_bind (Some (ccapi_process_device_request_response os x r w)) (\<lambda>(status, x', r', w').
              Some (Inr (status, connector_request_id_data_service_receive_reply_data x', (r', d), w')))
        | connector_request_id_data_service_receive_status x \<Rightarrow>
            run_bind (Some (ccapi_process_device_request_status os x r w)) (\<lambda>(status, r', w').
              Some (Inr (status, request, (r', d), w')))
        | connector_request_id_data_service_receive_reply_length x \<Rightarrow>
            run_bind (Some (ccapi_process_device_request_length x r)) (\<lambda>(status, x').
              Some (Inr (status, connector_request_id_data_service_receive_reply_length x', (r, d), w)))))"

text \<open>The requests the connector makes one after the other, with what each was answered.\<close>

primrec serve_requests ::
  "'w os \<Rightarrow> 'w ccimp_fs \<Rightarrow> (size_t \<Rightarrow> size_t \<Rightarrow> 'w \<Rightarrow> ccimp_status_t \<times> 'w) \<Rightarrow> data_service_request list
     \<Rightarrow> 'w data_state \<times> 'w send_state \<Rightarrow> 'w
     \<Rightarrow> ((connector_callback_status_t \<times> data_service_request) list \<times> ('w data_state \<times> 'w send_state) \<times> 'w) run"
where
  "serve_requests os fs realloc [] s w = Some (Inr ([], s, w))"
| "serve_requests os fs realloc (x # xs) s w =
     run_bind (ccapi_data_service_handler os fs realloc x s w) (\<lambda>(status, x', s1, w1).
       run_bind (serve_requests os fs realloc xs s1 w1) (\<lambda>(answers, s2, w2).
         Some (Inr ((status, x') # answers, s2, w2))))"

end
