(* ===== verification/Send.thy ===== *)
theory Send
  imports SendService
begin

text \<open>
  The functions of source/ccapi_send.c: they check their arguments, allocate a send, give it to
  the connector, wait for its status and free it. A NULL \<open>ccapi_data\<close> is \<open>None\<close>.
\<close>

subsection \<open>Surroundings\<close>

text \<open>
  What a public function is called with besides its arguments: the layers of the integrator, the
  connector, and the requests the connector makes while the caller waits.
\<close>

record 'w send_env =
  ce_os :: "'w os"
  ce_fs :: "'w ccimp_fs"
  ce_realloc :: "size_t \<Rightarrow> size_t \<Rightarrow> 'w \<Rightarrow> ccimp_status_t \<times> 'w"
  ce_initiate :: "connector_request_data_service_send_t \<Rightarrow> 'w \<Rightarrow> connector_status_t \<times> 'w"
  ce_requests :: "data_service_request list"

type_synonym 'w send_handle = "('w data_state \<times> 'w send_state) option"

type_synonym 'w send_result =
  "(ccapi_send_error_t \<times> ccapi_string_info_t option \<times> 'w send_handle \<times> 'w) run"

subsection \<open>Arguments\<close>

definition CCAPI_SEND_WAIT_FOREVER :: u64 where "CCAPI_SEND_WAIT_FOREVER = 0"
definition UCHAR_MAX :: nat where "UCHAR_MAX = 255"

definition send_running :: "'w send_state option \<Rightarrow> bool" where
  "send_running ccapi_data =
     (case ccapi_data of None \<Rightarrow> False | Some d \<Rightarrow> fs_run_status (sd_fs d) = CCAPI_THREAD_RUNNING)"

definition transport_started :: "'w send_state \<Rightarrow> ccapi_transport_t \<Rightarrow> bool" where
  "transport_started d transport =
     (case transport of
        CCAPI_TRANSPORT_TCP \<Rightarrow> sd_tcp_connected d
      | CCAPI_TRANSPORT_UDP \<Rightarrow> sd_udp_started d
      | CCAPI_TRANSPORT_SMS \<Rightarrow> sd_sms_started d)"

definition checkargs_send_common ::
  "'w send_state option \<Rightarrow> ccapi_transport_t \<Rightarrow> string option \<Rightarrow> string option \<Rightarrow> ccapi_send_error_t"
where
  "checkargs_send_common ccapi_data transport cloud_path content_type =
     (if \<not> send_running ccapi_data then CCAPI_SEND_ERROR_CCAPI_NOT_RUNNING
      else if \<not> transport_started (the ccapi_data) transport then CCAPI_SEND_ERROR_TRANSPORT_NOT_STARTED
      else if cloud_path = None \<or> cloud_path = Some [] then CCAPI_SEND_ERROR_INVALID_CLOUD_PATH
      else if content_type \<noteq> None \<and> (content_type = Some [] \<or> UCHAR_MAX < length (the content_type))
      then CCAPI_SEND_ERROR_INVALID_CONTENT_TYPE
      else CCAPI_SEND_ERROR_NONE)"

definition checkargs_send_data :: "u8 buffer option \<Rightarrow> size_t \<Rightarrow> ccapi_send_error_t" where
  "checkargs_send_data data bytes =
     (if data = None \<or> bytes = 0 then CCAPI_SEND_ERROR_INVALID_DATA else CCAPI_SEND_ERROR_NONE)"

definition checkargs_send_file :: "string option \<Rightarrow> ccapi_send_error_t" where
  "checkargs_send_file local_path =
     (if local_path = None \<or> local_path = Some [] then CCAPI_SEND_ERROR_INVALID_LOCAL_PATH
      else CCAPI_SEND_ERROR_NONE)"

definition checkargs_send_with_reply :: "u64 \<Rightarrow> ccapi_string_info_t option \<Rightarrow> ccapi_send_error_t" where
  "checkargs_send_with_reply timeout hint =
     (case hint of
        None \<Rightarrow> CCAPI_SEND_ERROR_NONE
      | Some h \<Rightarrow> if info_string h = None \<or> string_length h = 0 then CCAPI_SEND_ERROR_INVALID_HINT_POINTER
                  else CCAPI_SEND_ERROR_NONE)"

subsection \<open>Setting up a send\<close>

text \<open>What \<open>malloc\<close> returns: the optional fields are not written yet.\<close>

definition new_send :: "nat \<Rightarrow> ccapi_send_t" where
  "new_send a =
     \<lparr>si_header = \<lparr>send_transport = connector_transport_tcp, send_path = None, send_content_type = None,
                   send_option = connector_data_service_send_option_append,
                   send_response_required = False, send_timeout_in_seconds = 0, send_header_context = a\<rparr>,
      si_svc_send = \<lparr>ss_sending_file = None, ss_next_data = None, ss_next_offset = 0, ss_file_handler = 0,
                     ss_bytes_remaining = 0, ss_send_lock = None, ss_request_error = CCAPI_SEND_ERROR_NONE,
                     ss_response_error = CCAPI_SEND_ERROR_NONE, ss_status_error = CCAPI_SEND_ERROR_NONE,
                     ss_hint = None, ss_raw_response_error = None\<rparr>\<rparr>"

definition Send_valid_malloc :: "'w os \<Rightarrow> 'w send_state \<Rightarrow> 'w \<Rightarrow> (nat \<times> 'w send_state) option \<times> 'w" where
  "Send_valid_malloc os d w =
     (case ccapi_malloc os (Sizeof ''ccapi_send_t'') w of
        (False, w1) \<Rightarrow> (None, w1)
      | (True, w1) \<Rightarrow>
          (Some (sd_fresh d, put_send (sd_fresh d) (new_send (sd_fresh d)) (d\<lparr>sd_fresh := Suc (sd_fresh d)\<rparr>)),
           w1))"

definition setup_send_common ::
  "'w os \<Rightarrow> nat \<Rightarrow> ccapi_transport_t \<Rightarrow> string option \<Rightarrow> string option \<Rightarrow> ccapi_send_behavior_t
     \<Rightarrow> 'w send_state \<Rightarrow> 'w \<Rightarrow> (ccapi_send_error_t \<times> 'w send_state \<times> 'w) ub" where
  "setup_send_common os a transport cloud_path content_type behavior d w =
     (case os_lock_create os w of
        ((status, lock), w1) \<Rightarrow>
          (if status \<noteq> CCIMP_STATUS_OK then Inr (CCAPI_SEND_ERROR_LOCK_FAILED, d, w1)
           else
             ub_bind (get_send d a) (\<lambda>s.
               Inr (CCAPI_SEND_ERROR_NONE,
                    put_send a
                      (s\<lparr>si_header := (si_header s)\<lparr>send_transport := ccapi_to_connector_transport transport,
                           send_option := (case behavior of
                              CCAPI_SEND_BEHAVIOR_APPEND \<Rightarrow> connector_data_service_send_option_append
                            | CCAPI_SEND_BEHAVIOR_OVERWRITE \<Rightarrow> connector_data_service_send_option_overwrite),
                           send_path := cloud_path, send_content_type := content_type,
                           send_header_context := a\<rparr>,
                         si_svc_send := (si_svc_send s)\<lparr>ss_send_lock := Some lock,
                           ss_request_error := CCAPI_SEND_ERROR_NONE,
                           ss_response_error := CCAPI_SEND_ERROR_NONE,
                           ss_status_error := CCAPI_SEND_ERROR_NONE\<rparr>\<rparr>) d,
                    w1))))"

definition setup_send_file ::
  "'w os \<Rightarrow> 'w ccimp_fs \<Rightarrow> nat \<Rightarrow> string \<Rightarrow> 'w send_state \<Rightarrow> 'w
     \<Rightarrow> (ccapi_send_error_t \<times> 'w send_state \<times> 'w) run" where
  "setup_send_file os fs a local_path d w =
     (case ccapi_get_dir_entry_status os fs (sd_fs d) local_path zero_fs_stat w of
        None \<Rightarrow> None
      | Some (status, fs_status, fs1, w1) \<Rightarrow>
          (let d1 = d\<lparr>sd_fs := fs1\<rparr>
           in if status \<noteq> CCIMP_STATUS_OK then Some (Inr (CCAPI_SEND_ERROR_NOT_A_FILE, d1, w1))
              else if fstat_type fs_status \<noteq> CCIMP_FS_DIR_ENTRY_FILE
              then Some (Inr (CCAPI_SEND_ERROR_NOT_A_FILE, d1, w1))
              else
                run_bind (Some (get_svc_send d1 a)) (\<lambda>svc.
                  let svc1 = svc\<lparr>ss_bytes_remaining := ucast (fstat_file_size fs_status)\<rparr>;
                      d2 = put_svc_send a svc1 d1
                  in case ccapi_open_file os fs (sd_fs d2) local_path CCIMP_FILE_O_RDONLY
                            CCIMP_FILESYSTEM_FILE_HANDLE_NOT_INITIALIZED w1 of
                       None \<Rightarrow> None
                     | Some (status, file_handler, fs2, w2) \<Rightarrow>
                         (let d3 = d2\<lparr>sd_fs := fs2\<rparr>
                          in if status \<noteq> CCIMP_STATUS_OK
                             then Some (Inr (CCAPI_SEND_ERROR_ACCESSING_FILE, d3, w2))
                             else Some (Inr (CCAPI_SEND_ERROR_NONE,
                                    put_svc_send a (svc1\<lparr>ss_file_handler := file_handler,
                                      ss_sending_file := Some True, ss_next_data := None\<rparr>) d3, w2))))))"

definition setup_send_data ::
  "nat \<Rightarrow> u8 buffer option \<Rightarrow> size_t \<Rightarrow> 'w send_state \<Rightarrow> 'w send_state ub" where
  "setup_send_data a data bytes d =
     ub_bind (get_svc_send d a) (\<lambda>svc.
       Inr (put_svc_send a (svc\<lparr>ss_next_data := data, ss_next_offset := 0, ss_bytes_remaining := bytes,
                                ss_sending_file := Some False\<rparr>) d))"

text \<open>The three fields the callers set after that.\<close>

definition set_reply_fields ::
  "nat \<Rightarrow> ccapi_string_info_t option \<Rightarrow> bool \<Rightarrow> u64 \<Rightarrow> 'w send_state \<Rightarrow> 'w send_state ub" where
  "set_reply_fields a hint with_reply timeout d =
     ub_bind (get_send d a) (\<lambda>s.
       Inr (put_send a (s\<lparr>si_svc_send := (si_svc_send s)\<lparr>ss_hint := hint\<rparr>,
                          si_header := (si_header s)\<lparr>send_response_required := with_reply,
                                                     send_timeout_in_seconds := timeout\<rparr>\<rparr>) d))"

subsection \<open>Sending and waiting\<close>

definition ccapi_send_lock_acquire ::
  "'w os \<Rightarrow> ccapi_svc_send_t \<Rightarrow> u64 \<Rightarrow> 'w \<Rightarrow> (ccimp_status_t \<times> 'w) ub" where
  "ccapi_send_lock_acquire os svc timeout_ms w =
     ub_bind (read_field (ss_send_lock svc)) (\<lambda>send_lock.
       case send_lock of
         None \<Rightarrow> Inr (CCIMP_STATUS_ERROR, w)
       | Some l \<Rightarrow>
           (case os_lock_acquire os l timeout_ms w of
              ((status, acquired), w1) \<Rightarrow>
                Inr (if status = CCIMP_STATUS_OK \<and> \<not> acquired then CCIMP_STATUS_ERROR else status, w1)))"

definition perform_send ::
  "'w send_env \<Rightarrow> nat \<Rightarrow> 'w data_state \<times> 'w send_state \<Rightarrow> 'w
     \<Rightarrow> (ccapi_send_error_t \<times> ('w data_state \<times> 'w send_state) \<times> 'w) run" where
  "perform_send env a s w =
     run_bind (Some (get_send (snd s) a)) (\<lambda>send_info.
       case initiate_until_not_busy (ce_os env) (ce_initiate env) (sd_initiate_lock (snd s)) (sd_run_lock (snd s))
              (si_header send_info) w of
         None \<Rightarrow> None
       | Some (ccfsm_status, w1) \<Rightarrow>
           (if ccfsm_status \<noteq> connector_success
            then Some (Inr (CCAPI_SEND_ERROR_INITIATE_ACTION_FAILED, s, w1))
            else
              run_bind (serve_requests (ce_os env) (ce_fs env) (ce_realloc env) (ce_requests env) s w1) (\<lambda>(answers, s2, w2).
                run_bind (Some (get_svc_send (snd s2) a)) (\<lambda>svc.
                  run_bind (Some (ccapi_send_lock_acquire (ce_os env) svc OS_LOCK_ACQUIRE_INFINITE w2)) (\<lambda>(result, w3).
                    Some (Inr (if result \<noteq> CCIMP_STATUS_OK then CCAPI_SEND_ERROR_LOCK_FAILED
                               else CCAPI_SEND_ERROR_NONE, s2, w3)))))))"

definition finish_send ::
  "'w os \<Rightarrow> 'w ccimp_fs \<Rightarrow> nat option \<Rightarrow> 'w send_state \<Rightarrow> 'w \<Rightarrow> ('w send_state \<times> 'w) run" where
  "finish_send os fs send_info d w =
     (case send_info of
        None \<Rightarrow> Some (Inr (d, w))
      | Some a \<Rightarrow>
          run_bind (Some (get_svc_send d a)) (\<lambda>svc.
            run_bind (Some (read_field (ss_send_lock svc))) (\<lambda>send_lock.
              let w1 = (if send_lock \<noteq> None then snd (ccapi_lock_destroy os send_lock w) else w)
              in run_bind (Some (read_field (ss_sending_file svc))) (\<lambda>sending_file.
                   case (if sending_file
                         then map_option snd (ccapi_close_file os fs (sd_fs d) (ss_file_handler svc) w1)
                         else Some (sd_fs d, w1)) of
                     None \<Rightarrow> None
                   | Some (fs1, w2) \<Rightarrow>
                       Some (Inr (d\<lparr>sd_fs := fs1, sd_sends := (sd_sends d)(a := None)\<rparr>,
                                  snd (ccapi_free os True w2)))))))"

text \<open>The error the caller gets: the first of three.\<close>

definition send_outcome :: "bool \<Rightarrow> ccapi_svc_send_t \<Rightarrow> ccapi_send_error_t" where
  "send_outcome with_reply svc =
     (if ss_request_error svc \<noteq> CCAPI_SEND_ERROR_NONE then ss_request_error svc
      else if with_reply \<and> ss_response_error svc \<noteq> CCAPI_SEND_ERROR_NONE then ss_response_error svc
      else ss_status_error svc)"

text \<open>
  The label \<open>done\<close>. The buffer of the hint belongs to the caller: its contents are part of the
  result. \<open>want_code\<close> says whether \<open>error_code_from_server\<close> is not NULL.
\<close>

definition send_done ::
  "'w os \<Rightarrow> 'w ccimp_fs \<Rightarrow> nat option \<Rightarrow> bool \<Rightarrow> ccapi_send_error_t \<Rightarrow> ccapi_string_info_t option
     \<Rightarrow> 'w data_state \<times> 'w send_state \<Rightarrow> 'w
     \<Rightarrow> (ccapi_send_error_t \<times> ccapi_string_info_t option \<times> ('w data_state \<times> 'w send_state) \<times> 'w) run" where
  "send_done os fs send_info want_code error hint s w =
     run_bind (finish_send os fs send_info (snd s) w) (\<lambda>(d', w').
       if want_code \<and> send_info \<noteq> None
       then run_bind (Some (get_svc_send d' (the send_info))) (\<lambda>svc.
              run_bind (Some (read_field (ss_raw_response_error svc))) (\<lambda>code.
                Some (Inr (error, hint, (fst s, d'), w'))))
       else Some (Inr (error, hint, (fst s, d'), w')))"

text \<open>From \<open>setup_send_data\<close> or \<open>setup_send_file\<close> on the two functions are the same.\<close>

definition perform_and_finish ::
  "'w send_env \<Rightarrow> nat \<Rightarrow> bool \<Rightarrow> u64 \<Rightarrow> ccapi_string_info_t option \<Rightarrow> bool
     \<Rightarrow> 'w data_state \<times> 'w send_state \<Rightarrow> 'w
     \<Rightarrow> (ccapi_send_error_t \<times> ccapi_string_info_t option \<times> ('w data_state \<times> 'w send_state) \<times> 'w) run" where
  "perform_and_finish env a with_reply timeout hint want_code s w =
     run_bind (Some (set_reply_fields a hint with_reply timeout (snd s))) (\<lambda>d1.
       run_bind (perform_send env a (fst s, d1) w) (\<lambda>(error, s2, w2).
         run_bind (Some (get_svc_send (snd s2) a)) (\<lambda>svc.
           send_done (ce_os env) (ce_fs env) (Some a) want_code
             (if error \<noteq> CCAPI_SEND_ERROR_NONE then error else send_outcome with_reply svc)
             (ss_hint svc) s2 w2)))"

subsection \<open>The public functions\<close>

definition handle_result ::
  "(ccapi_send_error_t \<times> ccapi_string_info_t option \<times> ('w data_state \<times> 'w send_state) \<times> 'w) run
     \<Rightarrow> 'w send_result" where
  "handle_result result = run_bind result (\<lambda>(error, hint, s, w). Some (Inr (error, hint, Some s, w)))"

definition ccxapi_send_data_common ::
  "'w send_env \<Rightarrow> 'w send_handle \<Rightarrow> ccapi_transport_t \<Rightarrow> string option \<Rightarrow> string option \<Rightarrow> u8 buffer option \<Rightarrow> size_t
     \<Rightarrow> ccapi_send_behavior_t \<Rightarrow> bool \<Rightarrow> u64 \<Rightarrow> ccapi_string_info_t option \<Rightarrow> bool \<Rightarrow> 'w
     \<Rightarrow> 'w send_result"
where
  "ccxapi_send_data_common env ccapi_data transport cloud_path content_type
      data bytes behavior with_reply timeout hint want_code w =
     (let error1 = checkargs_send_common (map_option snd ccapi_data) transport cloud_path content_type;
          error2 = checkargs_send_data data bytes;
          error3 = checkargs_send_with_reply timeout hint;
          refuse = (\<lambda>error w'. Some (Inr (error, hint, ccapi_data, w')))
      in if error1 \<noteq> CCAPI_SEND_ERROR_NONE then refuse error1 w
         else if error2 \<noteq> CCAPI_SEND_ERROR_NONE then refuse error2 w
         else if error3 \<noteq> CCAPI_SEND_ERROR_NONE then refuse error3 w
         else
           (let (r, d) = the ccapi_data
            in case Send_valid_malloc (ce_os env) d w of
                 (None, w1) \<Rightarrow> refuse CCAPI_SEND_ERROR_INSUFFICIENT_MEMORY w1
               | (Some (a, d1), w1) \<Rightarrow>
                   run_bind (Some (setup_send_common (ce_os env) a transport cloud_path content_type behavior d1 w1))
                     (\<lambda>(error, d2, w2).
                       if error \<noteq> CCAPI_SEND_ERROR_NONE
                       then handle_result (send_done (ce_os env) (ce_fs env) (Some a) want_code error hint (r, d2) w2)
                       else
                         run_bind (Some (setup_send_data a data bytes d2)) (\<lambda>d3.
                           handle_result (perform_and_finish env a with_reply timeout
                                     hint want_code (r, d3) w2)))))"

definition ccxapi_send_file_common ::
  "'w send_env \<Rightarrow> 'w send_handle \<Rightarrow> ccapi_transport_t \<Rightarrow> string option \<Rightarrow> string option \<Rightarrow> string option
     \<Rightarrow> ccapi_send_behavior_t \<Rightarrow> bool \<Rightarrow> u64 \<Rightarrow> ccapi_string_info_t option \<Rightarrow> bool \<Rightarrow> 'w
     \<Rightarrow> 'w send_result"
where
  "ccxapi_send_file_common env ccapi_data transport local_path cloud_path
      content_type behavior with_reply timeout hint want_code w =
     (let error1 = checkargs_send_common (map_option snd ccapi_data) transport cloud_path content_type;
          error2 = checkargs_send_file local_path;
          error3 = checkargs_send_with_reply timeout hint;
          refuse = (\<lambda>error w'. Some (Inr (error, hint, ccapi_data, w')))
      in if error1 \<noteq> CCAPI_SEND_ERROR_NONE then refuse error1 w
         else if error2 \<noteq> CCAPI_SEND_ERROR_NONE then refuse error2 w
         else if error3 \<noteq> CCAPI_SEND_ERROR_NONE then refuse error3 w
         else
           (let (r, d) = the ccapi_data
            in case Send_valid_malloc (ce_os env) d w of
                 (None, w1) \<Rightarrow> refuse CCAPI_SEND_ERROR_INSUFFICIENT_MEMORY w1
               | (Some (a, d1), w1) \<Rightarrow>
                   run_bind (Some (setup_send_common (ce_os env) a transport cloud_path content_type behavior d1 w1))
                     (\<lambda>(error, d2, w2).
                       if error \<noteq> CCAPI_SEND_ERROR_NONE
                       then handle_result (send_done (ce_os env) (ce_fs env) (Some a) want_code error hint (r, d2) w2)
                       else
                         run_bind (setup_send_file (ce_os env) (ce_fs env) a (the local_path) d2 w2) (\<lambda>(error, d3, w3).
                           if error \<noteq> CCAPI_SEND_ERROR_NONE
                           then handle_result (send_done (ce_os env) (ce_fs env) (Some a) want_code error hint (r, d3) w3)
                           else
                             handle_result (perform_and_finish env a with_reply timeout
                                       hint want_code (r, d3) w3)))))"

definition ccxapi_send_data ::
  "'w send_env \<Rightarrow> 'w send_handle \<Rightarrow> ccapi_transport_t \<Rightarrow> string option \<Rightarrow> string option \<Rightarrow> u8 buffer option
     \<Rightarrow> size_t \<Rightarrow> ccapi_send_behavior_t \<Rightarrow> 'w \<Rightarrow> 'w send_result" where
  "ccxapi_send_data env ccapi_data transport cloud_path content_type data bytes behavior w =
     ccxapi_send_data_common env ccapi_data transport cloud_path content_type data bytes behavior False CCAPI_SEND_WAIT_FOREVER None False w"

definition ccapi_send_data ::
  "'w send_env \<Rightarrow> 'w send_handle \<Rightarrow> ccapi_transport_t \<Rightarrow> string option \<Rightarrow> string option \<Rightarrow> u8 buffer option
     \<Rightarrow> size_t \<Rightarrow> ccapi_send_behavior_t \<Rightarrow> 'w \<Rightarrow> 'w send_result" where
  "ccapi_send_data env ccapi_data_single_instance transport cloud_path content_type data bytes behavior w =
     ccxapi_send_data_common env ccapi_data_single_instance transport cloud_path content_type data bytes behavior False CCAPI_SEND_WAIT_FOREVER None False w"

definition ccxapi_send_data_with_reply ::
  "'w send_env \<Rightarrow> 'w send_handle \<Rightarrow> ccapi_transport_t \<Rightarrow> string option \<Rightarrow> string option \<Rightarrow> u8 buffer option
     \<Rightarrow> size_t \<Rightarrow> ccapi_send_behavior_t \<Rightarrow> u64 \<Rightarrow> ccapi_string_info_t option \<Rightarrow> bool \<Rightarrow> 'w \<Rightarrow> 'w send_result" where
  "ccxapi_send_data_with_reply env ccapi_data transport cloud_path content_type data bytes behavior timeout hint want_code w =
     ccxapi_send_data_common env ccapi_data transport cloud_path content_type data bytes behavior True timeout hint want_code w"

definition ccapi_send_data_with_reply ::
  "'w send_env \<Rightarrow> 'w send_handle \<Rightarrow> ccapi_transport_t \<Rightarrow> string option \<Rightarrow> string option \<Rightarrow> u8 buffer option
     \<Rightarrow> size_t \<Rightarrow> ccapi_send_behavior_t \<Rightarrow> u64 \<Rightarrow> ccapi_string_info_t option \<Rightarrow> 'w \<Rightarrow> 'w send_result" where
  "ccapi_send_data_with_reply env ccapi_data_single_instance transport cloud_path content_type data bytes behavior timeout hint w =
     ccxapi_send_data_common env ccapi_data_single_instance transport cloud_path content_type data bytes behavior True timeout hint False w"

definition ccapi_send_data_with_reply_and_errorcode ::
  "'w send_env \<Rightarrow> 'w send_handle \<Rightarrow> ccapi_transport_t \<Rightarrow> string option \<Rightarrow> string option \<Rightarrow> u8 buffer option
     \<Rightarrow> size_t \<Rightarrow> ccapi_send_behavior_t \<Rightarrow> u64 \<Rightarrow> ccapi_string_info_t option \<Rightarrow> bool \<Rightarrow> 'w \<Rightarrow> 'w send_result" where
  "ccapi_send_data_with_reply_and_errorcode env ccapi_data_single_instance transport cloud_path content_type data bytes behavior timeout hint want_code w =
     ccxapi_send_data_common env ccapi_data_single_instance transport cloud_path content_type data bytes behavior True timeout hint want_code w"

definition ccxapi_send_file ::
  "'w send_env \<Rightarrow> 'w send_handle \<Rightarrow> ccapi_transport_t \<Rightarrow> string option \<Rightarrow> string option \<Rightarrow> string option
     \<Rightarrow> ccapi_send_behavior_t \<Rightarrow> 'w \<Rightarrow> 'w send_result" where
  "ccxapi_send_file env ccapi_data transport local_path cloud_path content_type behavior w =
     ccxapi_send_file_common env ccapi_data transport local_path cloud_path content_type behavior False CCAPI_SEND_WAIT_FOREVER None False w"

definition ccapi_send_file ::
  "'w send_env \<Rightarrow> 'w send_handle \<Rightarrow> ccapi_transport_t \<Rightarrow> string option \<Rightarrow> string option \<Rightarrow> string option
     \<Rightarrow> ccapi_send_behavior_t \<Rightarrow> 'w \<Rightarrow> 'w send_result" where
  "ccapi_send_file env ccapi_data_single_instance transport local_path cloud_path content_type behavior w =
     ccxapi_send_file_common env ccapi_data_single_instance transport local_path cloud_path content_type behavior False CCAPI_SEND_WAIT_FOREVER None False w"

definition ccxapi_send_file_with_reply ::
  "'w send_env \<Rightarrow> 'w send_handle \<Rightarrow> ccapi_transport_t \<Rightarrow> string option \<Rightarrow> string option \<Rightarrow> string option
     \<Rightarrow> ccapi_send_behavior_t \<Rightarrow> u64 \<Rightarrow> ccapi_string_info_t option \<Rightarrow> bool \<Rightarrow> 'w \<Rightarrow> 'w send_result" where
  "ccxapi_send_file_with_reply env ccapi_data transport local_path cloud_path content_type behavior timeout hint want_code w =
     ccxapi_send_file_common env ccapi_data transport local_path cloud_path content_type behavior True timeout hint want_code w"

definition ccapi_send_file_with_reply ::
  "'w send_env \<Rightarrow> 'w send_handle \<Rightarrow> ccapi_transport_t \<Rightarrow> string option \<Rightarrow> string option \<Rightarrow> string option
     \<Rightarrow> ccapi_send_behavior_t \<Rightarrow> u64 \<Rightarrow> ccapi_string_info_t option \<Rightarrow> 'w \<Rightarrow> 'w send_result" where
  "ccapi_send_file_with_reply env ccapi_data_single_instance transport local_path cloud_path content_type behavior timeout hint w =
     ccxapi_send_file_common env ccapi_data_single_instance transport local_path cloud_path content_type behavior True timeout hint False w"

definition ccapi_send_file_with_reply_and_errorcode ::
  "'w send_env \<Rightarrow> 'w send_handle \<Rightarrow> ccapi_transport_t \<Rightarrow> string option \<Rightarrow> string option \<Rightarrow> string option
     \<Rightarrow> ccapi_send_behavior_t \<Rightarrow> u64 \<Rightarrow> ccapi_string_info_t option \<Rightarrow> bool \<Rightarrow> 'w \<Rightarrow> 'w send_result" where
  "ccapi_send_file_with_reply_and_errorcode env ccapi_data_single_instance transport local_path cloud_path content_type behavior timeout hint want_code w =
     ccxapi_send_file_common env ccapi_data_single_instance transport local_path cloud_path content_type behavior True timeout hint want_code w"

end
