(* ===== verification/SendProps.thy ===== *)
theory SendProps
  imports Send ReceiveReply
begin

text \<open>
  What a caller of the send functions gets: the data reaches the connector piece by piece, the
  second client of \<open>chunked_source\<close>; the error is that of the first of three that went wrong;
  and what happens on the paths that leave a send unfinished.
\<close>

subsection \<open>States for concrete runs\<close>

definition example_send_state :: "'w send_state" where
  "example_send_state =
     \<lparr>sd_fs = example_fs_service, sd_tcp_connected = True, sd_udp_started = False, sd_sms_started = False,
      sd_initiate_lock = Some 1, sd_run_lock = Some 2, sd_sends = Map.empty, sd_fresh = 0\<rparr>"

definition example_env :: "'w os \<Rightarrow> data_service_request list \<Rightarrow> 'w send_env" where
  "example_env os requests =
     \<lparr>ce_os = os, ce_fs = example_fs, ce_realloc = (\<lambda>old new w. (CCIMP_STATUS_OK, w)),
      ce_initiate = (\<lambda>request w. (connector_success, w)), ce_requests = requests\<rparr>"

lemma example_send_accepted:
  "checkargs_send_common (Some example_send_state) CCAPI_TRANSPORT_TCP (Some ''f'') None = CCAPI_SEND_ERROR_NONE"
  by (simp add: checkargs_send_common_def send_running_def transport_started_def example_send_state_def
      example_fs_service_def)

subsection \<open>The data of a send as a source of pieces\<close>

definition send_data_request :: "nat \<Rightarrow> nat \<Rightarrow> connector_data_service_send_data_t" where
  "send_data_request a n =
     \<lparr>send_user_context = Some a, send_buffer = replicate n None, send_bytes_available = of_nat n,
      send_bytes_used = 0, send_more_data = False\<rparr>"

text \<open>A data send always returns; a call that does not is given no piece.\<close>

definition send_pull ::
  "'w os \<Rightarrow> 'w ccimp_fs \<Rightarrow> nat \<Rightarrow> nat \<Rightarrow> 'w send_state \<times> 'w \<Rightarrow> (u8 buffer \<times> bool \<times> 'w send_state \<times> 'w) ub"
where
  "send_pull os fs a n s =
     (case ccapi_process_send_data_request os fs (send_data_request a n) (fst s) (snd s) of
        None \<Rightarrow> Inr ([], False, s)
      | Some result \<Rightarrow>
          ub_bind result (\<lambda>(status, r, d', w').
            Inr (take (unat (send_bytes_used r)) (send_buffer r), send_more_data r, d', w')))"

definition send_processing :: "ccapi_svc_send_t \<Rightarrow> response_processing" where
  "send_processing svc =
     \<lparr>processing_block = ss_next_data svc, processing_offset = ss_next_offset svc,
      processing_length = ss_bytes_remaining svc\<rparr>"

definition advance_send :: "nat \<Rightarrow> ccapi_svc_send_t \<Rightarrow> ccapi_svc_send_t" where
  "advance_send n svc =
     svc\<lparr>ss_next_offset := processing_offset (processing_advance n (send_processing svc)),
         ss_bytes_remaining := processing_length (processing_advance n (send_processing svc))\<rparr>"

definition data_send :: "nat \<Rightarrow> 'w send_state \<Rightarrow> ccapi_send_t \<Rightarrow> bool" where
  "data_send a d s \<longleftrightarrow>
     sd_sends d a = Some s \<and> ss_sending_file (si_svc_send s) = Some False
     \<and> processing_ok (send_processing (si_svc_send s))"

lemma send_processing_advance [simp]:
  "send_processing (advance_send n svc) = processing_advance n (send_processing svc)"
  by (simp add: send_processing_def advance_send_def processing_advance_def)

lemma send_room: "processing_room n (send_processing svc)
    = (if ss_bytes_remaining svc < of_nat n then ss_bytes_remaining svc else of_nat n)"
  by (auto simp: processing_room_def send_processing_def)

lemma send_request_reads:
  assumes s: "data_send a d s" and n: "n < 2 ^ 64"
  shows "\<exists>r. ccapi_process_send_data_request os fs (send_data_request a n) d w
      = Some (Inr (connector_callback_continue, r,
                   put_send a (s\<lparr>si_svc_send := advance_send n (si_svc_send s)\<rparr>) d, w))
    \<and> take (unat (send_bytes_used r)) (send_buffer r) = take n (response_rest (send_processing (si_svc_send s)))
    \<and> send_more_data r = (drop n (response_rest (send_processing (si_svc_send s))) \<noteq> [])"
proof -
  let ?svc = "si_svc_send s"
  let ?p = "send_processing ?svc"
  have ok: "processing_ok ?p" and live: "sd_sends d a = Some s" and data: "ss_sending_file ?svc = Some False"
    using s by (simp_all add: data_send_def)
  define r where "r = (send_data_request a n)\<lparr>
      send_buffer := take n (response_rest ?p) @ replicate (n - unat (processing_room n ?p)) None,
      send_bytes_used := processing_room n ?p,
      send_more_data := (0 < ss_bytes_remaining ?svc - processing_room n ?p)\<rparr>"
  have read: "read_block (ss_next_data ?svc) (ss_next_offset ?svc) (unat (processing_room n ?p))
      = Inr (take n (response_rest ?p))"
    using processing_read(1) [OF ok n] by (simp add: send_processing_def)
  have req: "send_user_context (send_data_request a n) = Some a"
    "send_bytes_available (send_data_request a n) = of_nat n"
    "send_buffer (send_data_request a n) = replicate n None"
    by (simp_all add: send_data_request_def)
  have svc: "get_svc_send d a = Inr ?svc" by (simp add: get_svc_send_def get_send_def live)
  have put: "put_svc_send a x d = put_send a (s\<lparr>si_svc_send := x\<rparr>) d" for x
    by (simp add: put_svc_send_def live)
  have "ccapi_process_send_data_request os fs (send_data_request a n) d w
      = Some (Inr (connector_callback_continue, r,
                   put_send a (s\<lparr>si_svc_send := advance_send n ?svc\<rparr>) d, w))"
    unfolding ccapi_process_send_data_request_def req option.case svc run_bind_simps Let_def
      send_room [symmetric] data read_field_def copy_send_piece_def read ub_bind_Inr
      processing_write [OF ok n] not_False_eq_True if_True put
    by (simp add: finish_send_piece_def r_def advance_send_def processing_advance_def put
        send_processing_def)
  moreover have "take (unat (send_bytes_used r)) (send_buffer r) = take n (response_rest ?p)"
    unfolding r_def by (simp add: processing_read(2) [OF ok n, symmetric] min_def)
  moreover have "send_more_data r = (drop n (response_rest ?p) \<noteq> [])"
    using response_rest_more [OF processing_advance_ok(1) [OF ok n]] processing_advance_ok(2) [OF ok n]
    by (simp add: r_def processing_advance_def send_processing_def)
  ultimately show ?thesis by blast
qed

lemma data_send_advance:
  assumes "data_send a d s" and "n < 2 ^ 64"
  shows "data_send a (put_send a (s\<lparr>si_svc_send := advance_send n (si_svc_send s)\<rparr>) d)
    (s\<lparr>si_svc_send := advance_send n (si_svc_send s)\<rparr>)"
  using assms processing_advance_ok(1) [OF _ assms(2)]
  by (auto simp: data_send_def put_send_def advance_send_def send_processing_advance [unfolded advance_send_def])

definition send_remaining :: "nat \<Rightarrow> 'w send_state \<times> 'w \<Rightarrow> u8 buffer" where
  "send_remaining a s = response_rest (send_processing (si_svc_send (the (sd_sends (fst s) a))))"

definition send_ready :: "nat \<Rightarrow> 'w send_state \<times> 'w \<Rightarrow> bool" where
  "send_ready a s \<longleftrightarrow> (case sd_sends (fst s) a of None \<Rightarrow> False | Some x \<Rightarrow> data_send a (fst s) x)"

interpretation send: chunked_source "send_pull os fs a" "send_remaining a" "send_ready a"
  for os :: "'w os" and fs a
proof
  fix s :: "'w send_state \<times> 'w" and n :: nat
  assume ready: "send_ready a s" and n: "n < 2 ^ 64"
  obtain d w where s: "s = (d, w)" by fastforce
  then obtain x where x: "data_send a d x" "sd_sends d a = Some x"
    using ready by (auto simp: send_ready_def split: option.splits)
  let ?x = "x\<lparr>si_svc_send := advance_send n (si_svc_send x)\<rparr>"
  obtain r where r: "ccapi_process_send_data_request os fs (send_data_request a n) d w
      = Some (Inr (connector_callback_continue, r, put_send a ?x d, w))"
    "take (unat (send_bytes_used r)) (send_buffer r) = take n (response_rest (send_processing (si_svc_send x)))"
    "send_more_data r = (drop n (response_rest (send_processing (si_svc_send x))) \<noteq> [])"
    using send_request_reads [OF x(1) n] by blast
  have live: "sd_sends (put_send a ?x d) a = Some ?x" by (simp add: put_send_def)
  have "processing_ok (send_processing (si_svc_send x))" using x(1) by (simp add: data_send_def)
  then have "send_pull os fs a n s = Inr (take n (send_remaining a s), drop n (send_remaining a s) \<noteq> [], put_send a ?x d, w)
      \<and> send_ready a (put_send a ?x d, w) \<and> send_remaining a (put_send a ?x d, w) = drop n (send_remaining a s)"
    using r live x data_send_advance [OF x(1) n] processing_advance_ok(2) [OF _ n]
    by (simp add: send_pull_def s send_remaining_def send_ready_def)
  then show "\<exists>s'. send_pull os fs a n s = Inr (take n (send_remaining a s), drop n (send_remaining a s) \<noteq> [], s')
      \<and> send_ready a s' \<and> send_remaining a s' = drop n (send_remaining a s)" by blast
qed

text \<open>
  C26. The connector gets the data of the caller byte for byte: after a send of \<open>bytes\<close> bytes of
  \<open>data\<close> is set up, however the connector sizes its requests, as long as each has room for a
  byte, at most one per byte is needed, the pieces put together are the data, and the request
  that takes the last byte is told there is no more.
\<close>

theorem send_pieces_are_the_data:
  assumes "sd_sends d a = Some s" and "unat bytes \<le> length data"
    and "\<forall>m \<in> set sizes. 0 < m \<and> m < 2 ^ 64" and "unat bytes \<le> length sizes" and "sizes \<noteq> []"
  shows "\<exists>d1 d2 pieces s'. setup_send_data a (Some data) bytes d = Inr d1
    \<and> set_reply_fields a hint with_reply timeout d1 = Inr d2
    \<and> drain (send_pull os fs a) sizes (d2, w) = Inr (pieces, False, s')
    \<and> concat pieces = take (unat bytes) data"
proof -
  let ?svc = "(si_svc_send s)\<lparr>ss_next_data := Some data, ss_next_offset := 0, ss_bytes_remaining := bytes,
                              ss_sending_file := Some False\<rparr>"
  let ?d1 = "put_send a (s\<lparr>si_svc_send := ?svc\<rparr>) d"
  let ?s2 = "s\<lparr>si_svc_send := ?svc\<lparr>ss_hint := hint\<rparr>,
              si_header := (si_header s)\<lparr>send_response_required := with_reply, send_timeout_in_seconds := timeout\<rparr>\<rparr>"
  let ?d2 = "put_send a ?s2 ?d1"
  have 1: "setup_send_data a (Some data) bytes d = Inr ?d1"
    by (simp add: setup_send_data_def get_svc_send_def get_send_def put_svc_send_def assms(1))
  have 2: "set_reply_fields a hint with_reply timeout ?d1 = Inr ?d2"
    by (simp add: set_reply_fields_def get_send_def put_send_def)
  have ready: "send_ready a (?d2, w)" and rest: "send_remaining a (?d2, w) = take (unat bytes) data"
    using assms(2)
    by (simp_all add: send_ready_def data_send_def put_send_def processing_ok_def send_processing_def
        send_remaining_def response_rest_def)
  have "length (send_remaining a (?d2, w)) \<le> length sizes" using rest assms(2,4) by simp
  then obtain pieces s' where "drain (send_pull os fs a) sizes (?d2, w) = Inr (pieces, False, s')"
    "concat pieces = take (unat bytes) data"
    using send.drain_ends [OF ready assms(3) _ assms(5), where os = os and fs = fs] rest by metis
  then show ?thesis using 1 2 by blast
qed

theorem send_pieces_are_the_data_witness:
  "\<exists>d1 d2 pieces s'. setup_send_data 0 (Some [Some 1, Some 2, Some 3]) 3
        (put_send 0 (new_send 0) example_send_state) = Inr d1
    \<and> set_reply_fields 0 None False 0 d1 = Inr d2
    \<and> drain (send_pull example_os example_fs 0) [2, 2, 1] (d2, ()) = Inr (pieces, False, s')
    \<and> concat pieces = [Some 1, Some 2, Some 3]"
  using send_pieces_are_the_data [of "put_send 0 (new_send 0) example_send_state" 0 "new_send 0" 3
      "[Some 1, Some 2, Some 3]" "[2, 2, 1]" None False 0 example_os example_fs "()"]
  by (simp add: put_send_def)

subsection \<open>The hint of the cloud\<close>

definition hint_ok :: "ccapi_string_info_t option \<Rightarrow> bool" where
  "hint_ok hint \<longleftrightarrow>
     (case hint of
        None \<Rightarrow> True
      | Some h \<Rightarrow> (case info_string h of
                     None \<Rightarrow> False
                   | Some buf \<Rightarrow> string_length h \<noteq> 0 \<and> unat (string_length h) \<le> length buf))"

text \<open>What the caller finds in its buffer: as much of the hint as fits, and a NUL.\<close>

definition hint_answer ::
  "ccapi_string_info_t option \<Rightarrow> string option \<Rightarrow> ccapi_string_info_t option \<Rightarrow> bool" where
  "hint_answer hint text hint' \<longleftrightarrow>
     (case (hint, text) of
        (Some h, Some t) \<Rightarrow>
          (\<exists>buf'. hint' = Some (h\<lparr>info_string := Some buf'\<rparr>) \<and> length buf' = length (the (info_string h))
             \<and> (CHR 0x00 \<notin> set t \<longrightarrow> c_string buf' = Inr (take (unat (string_length h) - 1) t)))
      | _ \<Rightarrow> hint' = hint)"

lemma unat_minus_1: "x \<noteq> 0 \<Longrightarrow> unat (x - 1) = unat (x :: 'a::len word) - 1"
  by (rule unat_minus_one)

lemma copy_hint_fits:
  assumes "hint_ok (Some h)"
  obtains h' where "copy_hint h t = Inr h'" and "hint_answer (Some h) (Some t) (Some h')"
proof -
  obtain buf where buf: "info_string h = Some buf" "string_length h \<noteq> 0" "unat (string_length h) \<le> length buf"
    using assms by (auto simp: hint_ok_def split: option.splits)
  define m where "m = unat (string_length h - 1)"
  have m: "m = unat (string_length h) - 1" and less: "m < length buf"
    using buf(2,3) unat_eq_zero [of "string_length h"] by (simp_all add: m_def unat_minus_1)
  define filled where "filled = take m (t @ replicate m (CHR 0x00))"
  have len: "length filled = m" by (simp add: filled_def)
  have 1: "memcpy_at buf 0 filled = Inr (map Some filled @ drop m buf)"
    using less len by (simp add: memcpy_at_def)
  have 2: "memcpy_at (map Some filled @ drop m buf) m [CHR 0x00]
      = Inr (map Some filled @ Some (CHR 0x00) # drop (Suc m) buf)"
    using less len by (simp add: memcpy_at_def)
  let ?buf' = "map Some filled @ Some (CHR 0x00) # drop (Suc m) buf"
  have copy: "copy_hint h t = Inr (h\<lparr>info_string := Some ?buf'\<rparr>)"
    unfolding copy_hint_def Let_def strncpy_to_def buf(1) option.case m_def [symmetric]
      filled_def [symmetric] 1 ub_bind_Inr 2 by (rule refl)
  have "c_string ?buf' = Inr (take m t)" if nul: "CHR 0x00 \<notin> set t"
  proof -
    have "filled = take m t @ replicate (m - length t) (CHR 0x00)"
      by (simp add: filled_def min_def)
    then have "\<exists>rest. ?buf' = map Some (take m t) @ Some (CHR 0x00) # rest"
      by (cases "m - length t") auto
    then obtain rest where eq: "?buf' = map Some (take m t) @ Some (CHR 0x00) # rest" by blast
    show ?thesis unfolding eq by (rule c_string_defined) (use nul in \<open>auto dest: in_set_takeD\<close>)
  qed
  moreover have "length ?buf' = length buf" using less len by simp
  ultimately have "hint_answer (Some h) (Some t) (Some (h\<lparr>info_string := Some ?buf'\<rparr>))"
    unfolding hint_answer_def prod.case option.case buf(1) option.sel m [symmetric] by blast
  then show thesis using copy that by blast
qed

subsection \<open>What the connector's requests do to a send\<close>

lemma put_send_put [simp]: "put_send a x (put_send a y d) = put_send a x d"
  by (simp add: put_send_def)

lemma put_send_fields [simp]:
  "sd_sends (put_send a x d) a = Some x" "sd_fs (put_send a x d) = sd_fs d"
  "sd_initiate_lock (put_send a x d) = sd_initiate_lock d" "sd_run_lock (put_send a x d) = sd_run_lock d"
  "get_send (put_send a x d) a = Inr x" "get_svc_send (put_send a x d) a = Inr (si_svc_send x)"
  "put_svc_send a svc (put_send a x d) = put_send a (x\<lparr>si_svc_send := svc\<rparr>) d"
  by (simp_all add: put_send_def get_send_def get_svc_send_def put_svc_send_def)

lemma get_svc_send_fs [simp]: "get_svc_send ((put_send a x d)\<lparr>sd_fs := f\<rparr>) a = Inr (si_svc_send x)"
  by (simp add: put_send_def get_send_def get_svc_send_def)

lemma serve_requests_append:
  "serve_requests os fs realloc (xs @ ys) s w =
     run_bind (serve_requests os fs realloc xs s w) (\<lambda>(as, s1, w1).
       run_bind (serve_requests os fs realloc ys s1 w1) (\<lambda>(bs, s2, w2). Some (Inr (as @ bs, s2, w2))))"
proof (induction xs arbitrary: s w)
  case Nil
  then show ?case
    by (cases "serve_requests os fs realloc ys s w") (auto simp: run_bind_def split: sum.splits)
next
  case (Cons x xs)
  then show ?case by (auto simp: run_bind_def split: option.splits sum.splits)
qed

definition pieces_of :: "nat \<Rightarrow> nat list \<Rightarrow> data_service_request list" where
  "pieces_of a sizes = map (\<lambda>n. connector_request_id_data_service_send_data (send_data_request a n)) sizes"

lemma serve_pieces:
  assumes "data_send a (put_send a s d) s" and "\<forall>n \<in> set sizes. n < 2 ^ 64"
  shows "\<exists>answers offset left. serve_requests os fs realloc (pieces_of a sizes) (r, put_send a s d) w
    = Some (Inr (answers, (r, put_send a (s\<lparr>si_svc_send := (si_svc_send s)
        \<lparr>ss_next_offset := offset, ss_bytes_remaining := left\<rparr>\<rparr>) d), w))"
  using assms
proof (induction sizes arbitrary: s)
  case (Cons n sizes)
  let ?s = "s\<lparr>si_svc_send := advance_send n (si_svc_send s)\<rparr>"
  have n: "n < 2 ^ 64" using Cons.prems(2) by simp
  obtain x where x: "ccapi_process_send_data_request os fs (send_data_request a n) (put_send a s d) w
      = Some (Inr (connector_callback_continue, x, put_send a ?s d, w))"
    using send_request_reads [OF Cons.prems(1) n, of os fs w] by auto
  have "data_send a (put_send a ?s d) ?s" using data_send_advance [OF Cons.prems(1) n] by simp
  then obtain answers offset left where "serve_requests os fs realloc (pieces_of a sizes) (r, put_send a ?s d) w
      = Some (Inr (answers, (r, put_send a (?s\<lparr>si_svc_send := (si_svc_send ?s)
          \<lparr>ss_next_offset := offset, ss_bytes_remaining := left\<rparr>\<rparr>) d), w))"
    using Cons.IH [of ?s] Cons.prems(2) by auto
  then show ?case using x
    by (auto simp: pieces_of_def ccapi_data_service_handler_def advance_send_def)
next
  case (Nil s)
  show ?case
    by (intro exI [of _ "[]"] exI [of _ "ss_next_offset (si_svc_send s)"]
        exI [of _ "ss_bytes_remaining (si_svc_send s)"]) (simp add: pieces_of_def)
qed

text \<open>The response of the cloud, if there is one, and the status that ends the send.\<close>

definition response_of ::
  "nat \<Rightarrow> (connector_data_service_send_response_type_t \<times> string option) option \<Rightarrow> data_service_request list"
where
  "response_of a resp =
     (case resp of
        None \<Rightarrow> []
      | Some (v, text) \<Rightarrow>
          [connector_request_id_data_service_send_response
             \<lparr>resp_user_context = Some a, resp_response = v, resp_hint = text\<rparr>])"

definition status_of :: "nat \<Rightarrow> connector_data_service_status_type_t \<Rightarrow> data_service_request list" where
  "status_of a st =
     [connector_request_id_data_service_send_status \<lparr>status_user_context = Some a, status_status = st\<rparr>]"

definition response_text ::
  "(connector_data_service_send_response_type_t \<times> string option) option \<Rightarrow> string option" where
  "response_text resp =
     (case resp of
        Some (v, text) \<Rightarrow> if v = connector_data_service_send_response_COUNT then None else text
      | None \<Rightarrow> None)"

definition response_or ::
  "ccapi_send_error_t \<Rightarrow> (connector_data_service_send_response_type_t \<times> string option) option \<Rightarrow> ccapi_send_error_t"
where
  "response_or e resp =
     (case resp of None \<Rightarrow> e | Some (v, text) \<Rightarrow> (case response_error v of None \<Rightarrow> e | Some e' \<Rightarrow> e'))"

lemma response_error_COUNT [simp]: "response_error connector_data_service_send_response_COUNT = None"
  by (simp add: response_error_def)

lemma serve_response:
  assumes "hint_ok (ss_hint (si_svc_send s))"
  shows "\<exists>answers raw hint'. serve_requests os fs realloc (response_of a resp) (r, put_send a s d) w
    = Some (Inr (answers, (r, put_send a (s\<lparr>si_svc_send := (si_svc_send s)
        \<lparr>ss_raw_response_error := raw, ss_response_error := response_or (ss_response_error (si_svc_send s)) resp,
         ss_hint := hint'\<rparr>\<rparr>) d), w))
    \<and> hint_answer (ss_hint (si_svc_send s)) (response_text resp) hint'"
proof (cases resp)
  case None
  show ?thesis
    by (intro exI [of _ "[]"] exI [of _ "ss_raw_response_error (si_svc_send s)"]
        exI [of _ "ss_hint (si_svc_send s)"])
      (simp add: None response_of_def response_or_def response_text_def hint_answer_def
        split: option.splits)
next
  case (Some vt)
  obtain v msg where vt: "vt = (v, msg)" by fastforce
  let ?svc = "si_svc_send s"
  let ?x = "\<lparr>resp_user_context = Some a, resp_response = v, resp_hint = msg\<rparr>"
  let ?raw = "Some \<lparr>optional_known = True, optional_value = v\<rparr>"
  have "\<exists>hint'. ccapi_process_send_data_response ?x (put_send a s d)
      = Inr (connector_callback_continue, put_send a (s\<lparr>si_svc_send := ?svc
          \<lparr>ss_raw_response_error := ?raw, ss_response_error := response_or (ss_response_error ?svc) resp,
           ss_hint := hint'\<rparr>\<rparr>) d)
      \<and> hint_answer (ss_hint ?svc) (response_text resp) hint'"
  proof (cases "response_error v")
    case None
    then have "v = connector_data_service_send_response_COUNT" by (cases v) (simp_all add: response_error_def)
    then show ?thesis
      by (intro exI [of _ "ss_hint ?svc"])
        (simp add: ccapi_process_send_data_response_def None Some vt response_or_def response_text_def
          hint_answer_def split: option.splits)
  next
    case e: (Some e)
    then have v: "v \<noteq> connector_data_service_send_response_COUNT" by (auto simp: response_error_def)
    show ?thesis
    proof (cases "msg = None \<or> ss_hint ?svc = None")
      case True
      then show ?thesis
        by (intro exI [of _ "ss_hint ?svc"])
          (auto simp: ccapi_process_send_data_response_def Let_def e Some vt response_or_def
            response_text_def hint_answer_def v split: option.splits)
    next
      case False
      then obtain t h where th: "msg = Some t" "ss_hint ?svc = Some h" by auto
      have "hint_ok (Some h)" using assms th(2) by simp
      then obtain h' where "copy_hint h t = Inr h'" "hint_answer (Some h) (Some t) (Some h')"
        by (rule copy_hint_fits)
      then show ?thesis
        by (intro exI [of _ "Some h'"])
          (simp add: ccapi_process_send_data_response_def Let_def e Some vt response_or_def
            response_text_def v th)
    qed
  qed
  then obtain hint' where h: "ccapi_process_send_data_response ?x (put_send a s d)
      = Inr (connector_callback_continue, put_send a (s\<lparr>si_svc_send := ?svc
          \<lparr>ss_raw_response_error := ?raw, ss_response_error := response_or (ss_response_error ?svc) resp,
           ss_hint := hint'\<rparr>\<rparr>) d)"
    "hint_answer (ss_hint ?svc) (response_text resp) hint'"
    by (elim exE conjE) (rule that; assumption)
  have only: "response_of a resp = [connector_request_id_data_service_send_response ?x]"
    by (simp add: response_of_def Some vt)
  show ?thesis
    by (intro exI [of _ "[(connector_callback_continue, connector_request_id_data_service_send_response ?x)]"]
        exI [of _ ?raw] exI [of _ hint'] conjI h(2))
      (simp add: only ccapi_data_service_handler_def h(1))
qed

lemma serve_status:
  assumes "send_status_error st = Some e" and "ss_send_lock (si_svc_send s) = Some (Some l)"
    and "lx_sems w l = Some n"
  shows "\<exists>answers. serve_requests (linux_os debug) fs realloc (status_of a st) (r, put_send a s d) w
    = Some (Inr (answers, (r, put_send a (s\<lparr>si_svc_send := (si_svc_send s)\<lparr>ss_status_error := e\<rparr>\<rparr>) d),
        w\<lparr>lx_sems := (lx_sems w)(l \<mapsto> Suc n)\<rparr>))"
  using assms
  by (simp add: status_of_def ccapi_data_service_handler_def ccapi_process_send_data_status_def Let_def
      read_field_def ccapi_lock_release_def ccimp_os_lock_release_def)

text \<open>All of it: the fields a caller looks at afterwards.\<close>

lemma serve_send:
  assumes "data_send a (put_send a s d) s" and "\<forall>n \<in> set sizes. n < 2 ^ 64"
    and "hint_ok (ss_hint (si_svc_send s))" and "send_status_error st = Some e"
    and "ss_send_lock (si_svc_send s) = Some (Some l)" and "lx_sems w l = Some n"
  shows "\<exists>answers s'. serve_requests (linux_os debug) fs realloc
      (pieces_of a sizes @ response_of a resp @ status_of a st) (r, put_send a s d) w
    = Some (Inr (answers, (r, put_send a s' d), w\<lparr>lx_sems := (lx_sems w)(l \<mapsto> Suc n)\<rparr>))
    \<and> ss_send_lock (si_svc_send s') = Some (Some l) \<and> ss_sending_file (si_svc_send s') = Some False
    \<and> ss_request_error (si_svc_send s') = ss_request_error (si_svc_send s)
    \<and> ss_response_error (si_svc_send s') = response_or (ss_response_error (si_svc_send s)) resp
    \<and> ss_status_error (si_svc_send s') = e
    \<and> hint_answer (ss_hint (si_svc_send s)) (response_text resp) (ss_hint (si_svc_send s'))"
proof -
  let ?svc = "si_svc_send s"
  obtain a1 off left where 1: "serve_requests (linux_os debug) fs realloc (pieces_of a sizes) (r, put_send a s d) w
    = Some (Inr (a1, (r, put_send a (s\<lparr>si_svc_send := ?svc
        \<lparr>ss_next_offset := off, ss_bytes_remaining := left\<rparr>\<rparr>) d), w))"
    using serve_pieces [OF assms(1,2)] by blast
  define s1 where "s1 = s\<lparr>si_svc_send := ?svc\<lparr>ss_next_offset := off, ss_bytes_remaining := left\<rparr>\<rparr>"
  have h1: "hint_ok (ss_hint (si_svc_send s1))" using assms(3) by (simp add: s1_def)
  obtain a2 raw hint' where 2: "serve_requests (linux_os debug) fs realloc (response_of a resp) (r, put_send a s1 d) w
    = Some (Inr (a2, (r, put_send a (s1\<lparr>si_svc_send := (si_svc_send s1)
        \<lparr>ss_raw_response_error := raw, ss_response_error := response_or (ss_response_error (si_svc_send s1)) resp,
         ss_hint := hint'\<rparr>\<rparr>) d), w))"
    "hint_answer (ss_hint (si_svc_send s1)) (response_text resp) hint'"
    using serve_response [OF h1, where os = "linux_os debug" and fs = fs and realloc = realloc and a = a
        and resp = resp and r = r and d = d and w = w]
    by (elim exE conjE) (rule that; assumption)
  define s2 where "s2 = s1\<lparr>si_svc_send := (si_svc_send s1)
      \<lparr>ss_raw_response_error := raw, ss_response_error := response_or (ss_response_error (si_svc_send s1)) resp,
       ss_hint := hint'\<rparr>\<rparr>"
  have l2: "ss_send_lock (si_svc_send s2) = Some (Some l)" using assms(5) by (simp add: s2_def s1_def)
  obtain a3 where 3: "serve_requests (linux_os debug) fs realloc (status_of a st) (r, put_send a s2 d) w
    = Some (Inr (a3, (r, put_send a (s2\<lparr>si_svc_send := (si_svc_send s2)\<lparr>ss_status_error := e\<rparr>\<rparr>) d),
        w\<lparr>lx_sems := (lx_sems w)(l \<mapsto> Suc n)\<rparr>))"
    using serve_status [OF assms(4) l2 assms(6)] by blast
  have data: "ss_sending_file ?svc = Some False" using assms(1) by (simp add: data_send_def)
  show ?thesis
    unfolding serve_requests_append 1 [folded s1_def] run_bind_simps prod.case 2(1) [folded s2_def] 3
    by (intro exI [of _ "a1 @ a2 @ a3"] exI [of _ "s2\<lparr>si_svc_send := (si_svc_send s2)\<lparr>ss_status_error := e\<rparr>\<rparr>"])
      (use 2(2) data l2 in \<open>simp add: s2_def s1_def\<close>)
qed

subsection \<open>A send on the Linux layer\<close>

definition send_error_of ::
  "bool \<Rightarrow> (connector_data_service_send_response_type_t \<times> string option) option \<Rightarrow> ccapi_send_error_t
     \<Rightarrow> ccapi_send_error_t" where
  "send_error_of with_reply resp e =
     (if with_reply \<and> response_or CCAPI_SEND_ERROR_NONE resp \<noteq> CCAPI_SEND_ERROR_NONE
      then response_or CCAPI_SEND_ERROR_NONE resp else e)"

lemma finish_data_send:
  assumes "ss_send_lock (si_svc_send s) = Some (Some l)" and "ss_sending_file (si_svc_send s) = Some False"
    and "lx_sems w l = Some n"
  shows "finish_send (linux_os debug) fs (Some a) (put_send a s d) w
    = Some (Inr (d\<lparr>sd_sends := (sd_sends d)(a := None)\<rparr>,
        w\<lparr>lx_sems := (lx_sems w)(l := None), lx_blocks := lx_blocks w - 2\<rparr>))"
proof -
  have "(put_send a s d)\<lparr>sd_fs := sd_fs d, sd_sends := (sd_sends (put_send a s d))(a := None)\<rparr>
      = d\<lparr>sd_sends := (sd_sends d)(a := None)\<rparr>"
    by (cases d) (simp add: put_send_def)
  then show ?thesis
    using assms
    by (simp add: finish_send_def read_field_def ccapi_lock_destroy_def ccimp_os_lock_destroy_def
        ccapi_free_def ccimp_os_free_def Let_def)
qed

lemma perform_and_finish_linux:
  assumes "data_send a (put_send a s d) s" and "\<forall>n \<in> set sizes. n < 2 ^ 64" and "hint_ok hint"
    and "send_status_error st = Some e" and "ss_send_lock (si_svc_send s) = Some (Some k)"
    and "ss_request_error (si_svc_send s) = CCAPI_SEND_ERROR_NONE"
    and "ss_response_error (si_svc_send s) = CCAPI_SEND_ERROR_NONE"
    and "ce_os env = linux_os debug" and "accepts_requests (ce_initiate env)"
    and "ce_requests env = pieces_of a sizes @ response_of a resp @ status_of a st"
    and "sd_initiate_lock d = Some i" and "sd_run_lock d = Some r"
    and "lx_sems w i = Some (Suc n)" and "lx_sems w r = Some m" and "lx_sems w k = Some 0"
    and "distinct [i, r, k]"
  shows "\<exists>hint' w'. perform_and_finish env a with_reply timeout hint want_code (rcv, put_send a s d) w
      = Some (if want_code then Inl Use_After_Free
              else Inr (send_error_of with_reply resp e, hint', (rcv, d\<lparr>sd_sends := (sd_sends d)(a := None)\<rparr>), w'))
    \<and> hint_answer hint (response_text resp) hint'
    \<and> lx_sems w' = (lx_sems w)(r \<mapsto> Suc m, k := None) \<and> lx_blocks w' = lx_blocks w - 2 \<and> lx_stuck w' = lx_stuck w"
proof -
  define s1 where "s1 = s\<lparr>si_svc_send := (si_svc_send s)\<lparr>ss_hint := hint\<rparr>,
      si_header := (si_header s)\<lparr>send_response_required := with_reply, send_timeout_in_seconds := timeout\<rparr>\<rparr>"
  have set: "set_reply_fields a hint with_reply timeout (put_send a s d) = Inr (put_send a s1 d)"
    by (simp add: set_reply_fields_def s1_def)
  have svc1: "si_svc_send s1 = (si_svc_send s)\<lparr>ss_hint := hint\<rparr>" by (simp add: s1_def)
  have data: "data_send a (put_send a s1 d) s1"
    using assms(1) by (simp add: data_send_def svc1 send_processing_def)
  have h1: "hint_ok (ss_hint (si_svc_send s1))" and l1: "ss_send_lock (si_svc_send s1) = Some (Some k)"
    using assms(3,5) by (simp_all add: svc1)
  obtain w2 where 2: "initiate_until_not_busy (linux_os debug) (ce_initiate env) (Some i) (Some r) (si_header s1) w
      = Some (connector_success, w2)"
    "lx_sems w2 = (lx_sems w)(r \<mapsto> Suc m)" "lx_blocks w2 = lx_blocks w" "lx_stuck w2 = lx_stuck w"
    using initiate_linux [OF assms(9,13,14), of debug "si_header s1"] assms(16) by auto
  have k2: "lx_sems w2 k = Some 0" using assms(15,16) 2(2) by auto
  obtain answers s3 where 3: "serve_requests (linux_os debug) (ce_fs env) (ce_realloc env) (ce_requests env)
      (rcv, put_send a s1 d) w2
    = Some (Inr (answers, (rcv, put_send a s3 d), w2\<lparr>lx_sems := (lx_sems w2)(k \<mapsto> Suc 0)\<rparr>))"
    "ss_send_lock (si_svc_send s3) = Some (Some k)" "ss_sending_file (si_svc_send s3) = Some False"
    "ss_request_error (si_svc_send s3) = CCAPI_SEND_ERROR_NONE"
    "ss_response_error (si_svc_send s3) = response_or CCAPI_SEND_ERROR_NONE resp"
    "ss_status_error (si_svc_send s3) = e"
    "hint_answer hint (response_text resp) (ss_hint (si_svc_send s3))"
    using serve_send [OF data assms(2) h1 assms(4) l1 k2, of debug "ce_fs env" "ce_realloc env" resp rcv]
    by (elim exE conjE) (rule that; simp add: assms(6,7,10) svc1)
  let ?w4 = "w2\<lparr>lx_sems := (lx_sems w2)(k \<mapsto> 0)\<rparr>"
  have "perform_send env a (rcv, put_send a s1 d) w
      = Some (Inr (CCAPI_SEND_ERROR_NONE, (rcv, put_send a s3 d), ?w4))"
    unfolding perform_send_def snd_conv put_send_fields assms(8,11,12) run_bind_simps 2(1) option.case prod.case
    by (simp add: 3(1,2) ccapi_send_lock_acquire_def read_field_def ccimp_os_lock_acquire_def)
  moreover have "send_outcome with_reply (si_svc_send s3) = send_error_of with_reply resp e"
    by (simp add: send_outcome_def send_error_of_def 3(4-6))
  moreover have "finish_send (linux_os debug) (ce_fs env) (Some a) (put_send a s3 d) ?w4
      = Some (Inr (d\<lparr>sd_sends := (sd_sends d)(a := None)\<rparr>,
          ?w4\<lparr>lx_sems := (lx_sems ?w4)(k := None), lx_blocks := lx_blocks ?w4 - 2\<rparr>))"
    by (rule finish_data_send [OF 3(2,3), where n = 0]) simp
  ultimately have "perform_and_finish env a with_reply timeout hint want_code (rcv, put_send a s d) w
      = Some (if want_code then Inl Use_After_Free
              else Inr (send_error_of with_reply resp e, ss_hint (si_svc_send s3),
                (rcv, d\<lparr>sd_sends := (sd_sends d)(a := None)\<rparr>),
                ?w4\<lparr>lx_sems := (lx_sems ?w4)(k := None), lx_blocks := lx_blocks ?w4 - 2\<rparr>))"
    unfolding perform_and_finish_def snd_conv fst_conv set run_bind_simps
    by (simp add: send_done_def assms(8) get_svc_send_def get_send_def)
  then show ?thesis
    by (intro exI [of _ "ss_hint (si_svc_send s3)"]
        exI [of _ "?w4\<lparr>lx_sems := (lx_sems ?w4)(k := None), lx_blocks := lx_blocks ?w4 - 2\<rparr>"])
      (simp add: 3(7) 2(2-4))
qed

text \<open>
  C27. What a send of data returns on the Linux layer. The caller's arguments are accepted and
  there is memory for the send and its lock. The connector takes the send and then asks for any
  number of pieces, of any sizes, after which it may report the response of the cloud and reports
  one final status, in that order. If the caller passes a place for the cloud's error code the
  call reads the send after it was freed, whatever the connector reported, and nothing after that
  is defined. Without it the call returns: the caller gets the response's error if it asked for a
  reply and the response is an error, otherwise the status's error; its hint buffer holds as much
  of the cloud's hint as fits, terminated; the send and its lock are freed, no call blocks, and of
  the locks only the one that wakes the connector thread is posted.
\<close>

theorem send_data_result:
  assumes "checkargs_send_common (Some d) transport cloud_path content_type = CCAPI_SEND_ERROR_NONE"
    and "bytes \<noteq> 0" and "unat bytes \<le> length block" and "hint_ok hint"
    and "ce_os env = linux_os debug" and "accepts_requests (ce_initiate env)"
    and "ce_requests env = pieces_of (sd_fresh d) sizes @ response_of (sd_fresh d) resp @ status_of (sd_fresh d) st"
    and "\<forall>n \<in> set sizes. n < 2 ^ 64" and "send_status_error st = Some e"
    and "sd_initiate_lock d = Some i" and "sd_run_lock d = Some r" and "i \<noteq> r"
    and "lx_sems w i = Some (Suc n)" and "lx_sems w r = Some m" and "lx_sems w (lx_next w) = None"
    and "2 \<le> lx_memory w"
  shows "let result = ccxapi_send_data_common env (Some (rcv, d)) transport cloud_path content_type (Some block)
               bytes behavior with_reply timeout hint want_code w
     in if want_code then result = Some (Inl Use_After_Free)
        else \<exists>hint' w'. result
              = Some (Inr (send_error_of with_reply resp e, hint',
                  Some (rcv, d\<lparr>sd_fresh := Suc (sd_fresh d), sd_sends := (sd_sends d)(sd_fresh d := None)\<rparr>), w'))
            \<and> hint_answer hint (response_text resp) hint'
            \<and> lx_sems w' = (lx_sems w)(r \<mapsto> Suc m) \<and> lx_blocks w' = lx_blocks w \<and> lx_stuck w' = lx_stuck w"
proof -
  let ?a = "sd_fresh d" and ?k = "lx_next w" and ?d0 = "d\<lparr>sd_fresh := Suc (sd_fresh d)\<rparr>"
  let ?w1 = "w\<lparr>lx_memory := lx_memory w - Suc 0, lx_blocks := lx_blocks w + 1\<rparr>"
  let ?w2 = "?w1\<lparr>lx_sems := (lx_sems w)(?k \<mapsto> 0), lx_next := Suc ?k, lx_memory := lx_memory w - 2,
      lx_blocks := lx_blocks w + 2\<rparr>"
  have args: "checkargs_send_data (Some block) bytes = CCAPI_SEND_ERROR_NONE"
    "checkargs_send_with_reply timeout hint = CCAPI_SEND_ERROR_NONE"
    using assms(2,4) by (auto simp: checkargs_send_data_def checkargs_send_with_reply_def hint_ok_def
        split: option.splits)
  have malloc: "Send_valid_malloc (linux_os debug) d w = (Some (?a, put_send ?a (new_send ?a) ?d0), ?w1)"
    using assms(16) by (simp add: Send_valid_malloc_def ccapi_malloc_def ccimp_os_malloc_def)
  obtain s where s: "setup_send_common (linux_os debug) ?a transport cloud_path content_type behavior
        (put_send ?a (new_send ?a) ?d0) ?w1 = Inr (CCAPI_SEND_ERROR_NONE, put_send ?a s ?d0, ?w2)"
    "ss_send_lock (si_svc_send s) = Some (Some ?k)" "ss_request_error (si_svc_send s) = CCAPI_SEND_ERROR_NONE"
    "ss_response_error (si_svc_send s) = CCAPI_SEND_ERROR_NONE"
    using assms(16) by (auto simp: setup_send_common_def ccimp_os_lock_create_def numeral_2_eq_2)
  define s1 where "s1 = s\<lparr>si_svc_send := (si_svc_send s)\<lparr>ss_next_data := Some block, ss_next_offset := 0,
      ss_bytes_remaining := bytes, ss_sending_file := Some False\<rparr>\<rparr>"
  have set: "setup_send_data ?a (Some block) bytes (put_send ?a s ?d0) = Inr (put_send ?a s1 ?d0)"
    by (simp add: setup_send_data_def s1_def)
  have data: "data_send ?a (put_send ?a s1 ?d0) s1"
    using assms(3) by (simp add: data_send_def s1_def send_processing_def processing_ok_def)
  have fields: "ss_send_lock (si_svc_send s1) = Some (Some ?k)"
    "ss_request_error (si_svc_send s1) = CCAPI_SEND_ERROR_NONE"
    "ss_response_error (si_svc_send s1) = CCAPI_SEND_ERROR_NONE"
    using s(2-4) by (simp_all add: s1_def)
  have locks: "sd_initiate_lock ?d0 = Some i" "sd_run_lock ?d0 = Some r" "lx_sems ?w2 i = Some (Suc n)"
    "lx_sems ?w2 r = Some m" "lx_sems ?w2 ?k = Some 0" "distinct [i, r, ?k]"
    using assms(10-15) by auto
  obtain hint' w' where "perform_and_finish env ?a with_reply timeout hint want_code (rcv, put_send ?a s1 ?d0) ?w2
      = Some (if want_code then Inl Use_After_Free
          else Inr (send_error_of with_reply resp e, hint', (rcv, ?d0\<lparr>sd_sends := (sd_sends ?d0)(?a := None)\<rparr>), w'))"
    "hint_answer hint (response_text resp) hint'"
    "lx_sems w' = (lx_sems ?w2)(r \<mapsto> Suc m, ?k := None)" "lx_blocks w' = lx_blocks ?w2 - 2" "lx_stuck w' = lx_stuck ?w2"
    using perform_and_finish_linux [OF data assms(8,4,9) fields assms(5-7) locks, where rcv = rcv
        and with_reply = with_reply and timeout = timeout and want_code = want_code]
    by (elim exE conjE) (rule that; assumption)
  moreover have "(lx_sems ?w2)(r \<mapsto> Suc m, ?k := None) = (lx_sems w)(r \<mapsto> Suc m)"
    using assms(14,15) by (auto simp: fun_eq_iff)
  moreover have "lx_blocks ?w2 - 2 = lx_blocks w" by simp
  ultimately show ?thesis
    unfolding Let_def
    by (cases want_code; (simp only: if_True if_False simp_thms)?;
        (intro exI [of _ hint'] exI [of _ w'])?;
        simp add: ccxapi_send_data_common_def assms(1,5) args malloc s(1) set handle_result_def)
qed

definition example_linux :: "nat \<Rightarrow> linux" where
  "example_linux memory =
     \<lparr>lx_sems = [1 \<mapsto> 1, 2 \<mapsto> 0], lx_next = 3, lx_memory = memory, lx_blocks = 2, lx_stuck = False\<rparr>"

theorem send_data_result_witness:
  "\<exists>hint' w'. ccxapi_send_data_common
        (example_env (linux_os False) (pieces_of 0 [2, 5]
           @ response_of 0 (Some (connector_data_service_send_response_bad_request, Some ''no stream''))
           @ status_of 0 connector_data_service_status_complete))
        (Some (example_data Map.empty, example_send_state)) CCAPI_TRANSPORT_TCP (Some ''f'') None (Some [Some 1, Some 2, Some 3])
        3 CCAPI_SEND_BEHAVIOR_APPEND True 10
        (Some \<lparr>info_string = Some (replicate 4 None), string_length = 4\<rparr>) False (example_linux 2)
      = Some (Inr (CCAPI_SEND_ERROR_RESPONSE_BAD_REQUEST, hint',
          Some (example_data Map.empty, example_send_state\<lparr>sd_fresh := 1, sd_sends := Map.empty\<rparr>), w'))
    \<and> (\<exists>buf. hint' = Some \<lparr>info_string = Some buf, string_length = 4\<rparr> \<and> c_string buf = Inr ''no '')
    \<and> lx_blocks w' = 2"
proof -
  have "accepts_requests (\<lambda>(request :: connector_request_data_service_send_t) (w :: linux). (connector_success, w))"
    by (simp add: accepts_requests_def)
  then show ?thesis
    using send_data_result [where d = example_send_state and transport = CCAPI_TRANSPORT_TCP
        and cloud_path = "Some ''f''" and content_type = None and bytes = 3
        and block = "[Some 1, Some 2, Some 3]"
        and hint = "Some \<lparr>info_string = Some (replicate 4 None), string_length = 4\<rparr>"
        and env = "example_env (linux_os False) (pieces_of 0 [2, 5]
           @ response_of 0 (Some (connector_data_service_send_response_bad_request, Some ''no stream''))
           @ status_of 0 connector_data_service_status_complete)" and debug = False and sizes = "[2, 5]"
        and resp = "Some (connector_data_service_send_response_bad_request, Some ''no stream'')"
        and st = connector_data_service_status_complete and e = CCAPI_SEND_ERROR_NONE and i = 1 and r = 2
        and n = 0 and w = "example_linux 2" and m = 0 and rcv = "example_data Map.empty" and behavior = CCAPI_SEND_BEHAVIOR_APPEND
        and with_reply = True and timeout = 10 and want_code = False, OF example_send_accepted]
    by (auto simp: Let_def example_send_accepted example_env_def hint_ok_def send_status_error_def
        example_send_state_def example_linux_def send_error_of_def response_or_def response_error_def
        hint_answer_def response_text_def)
qed

text \<open>
  \<open>error_code_from_server\<close> cannot be used: once the send is allocated, a call that asks for
  the code never has a defined result, whatever happens to the send, because the code is read
  from the send after it was freed.
\<close>

theorem error_code_reads_freed_send:
  assumes "checkargs_send_common (Some d) transport cloud_path content_type = CCAPI_SEND_ERROR_NONE"
    and "checkargs_send_data data bytes = CCAPI_SEND_ERROR_NONE"
    and "checkargs_send_with_reply timeout hint = CCAPI_SEND_ERROR_NONE"
    and "ccapi_malloc (ce_os env) (Sizeof ''ccapi_send_t'') w = (True, w1)"
  shows "ccxapi_send_data_with_reply env (Some (r, d)) transport cloud_path content_type data bytes
      behavior timeout hint True w \<noteq> Some (Inr result)"
proof -
  have done_undefined: "send_done (ce_os env) (ce_fs env) (Some a) True error h s w' \<noteq> Some (Inr x)"
    for a error h s w' x
  proof
    assume "send_done (ce_os env) (ce_fs env) (Some a) True error h s w' = Some (Inr x)"
    then obtain d' w'' where f: "finish_send (ce_os env) (ce_fs env) (Some a) (snd s) w' = Some (Inr (d', w''))"
      and g: "get_svc_send d' a \<noteq> Inl Use_After_Free"
      by (auto simp: send_done_def run_bind_Inr_iff)
    have "sd_sends d' a = None"
      using f by (auto simp: finish_send_def Let_def run_bind_Inr_iff split: option.splits if_splits)
    then show False using g by (simp add: get_svc_send_def get_send_def)
  qed
  show ?thesis
    using assms
    by (auto simp: ccxapi_send_data_with_reply_def ccxapi_send_data_common_def Send_valid_malloc_def
        handle_result_def perform_and_finish_def run_bind_Inr_iff done_undefined split: if_splits)
qed

theorem error_code_reads_freed_send_witness:
  "\<not> (\<exists>result. ccxapi_send_data_with_reply (example_env example_os [])
     (Some (example_data Map.empty, example_send_state)) CCAPI_TRANSPORT_TCP (Some ''f'') None (Some [Some 1]) 1
     CCAPI_SEND_BEHAVIOR_APPEND 10 None True () = Some (Inr result))"
  by (clarify, erule notE [OF error_code_reads_freed_send [OF example_send_accepted], rotated -1])
    (simp_all add: checkargs_send_data_def checkargs_send_with_reply_def example_env_def)

text \<open>
  Sending a path that is not a file is not an error that is reported: the send was allocated
  and its field \<open>sending_file\<close> is not written yet, and the clean-up reads it to decide whether to
  close a file. When the lock of the send cannot be created the clean-up reads it as well.
\<close>

theorem early_failure_reads_uninitialised:
  assumes "checkargs_send_common (Some d) transport cloud_path content_type = CCAPI_SEND_ERROR_NONE"
    and "checkargs_send_file (Some path) = CCAPI_SEND_ERROR_NONE"
    and "checkargs_send_with_reply timeout hint = CCAPI_SEND_ERROR_NONE"
    and "ccapi_malloc (ce_os env) (Sizeof ''ccapi_send_t'') w = (True, w1)"
    and "os_lock_create (ce_os env) w1 = ((status, lock), w2)"
    and "status = CCIMP_STATUS_OK \<Longrightarrow> ccapi_get_dir_entry_status (ce_os env) (ce_fs env) (sd_fs d) path zero_fs_stat w2
        = Some (st, fs_status, fs', w3) \<and> (st \<noteq> CCIMP_STATUS_OK \<or> fstat_type fs_status \<noteq> CCIMP_FS_DIR_ENTRY_FILE)"
  shows "ccxapi_send_file_common env (Some (r, d)) transport (Some path) cloud_path content_type behavior
      with_reply timeout hint want_code w = Some (Inl Uninitialised_Read)"
  using assms
  by (auto simp: ccxapi_send_file_common_def Send_valid_malloc_def setup_send_common_def handle_result_def
      setup_send_file_def Let_def send_done_def finish_send_def new_send_def read_field_def)

theorem early_failure_reads_uninitialised_witness:
  "ccxapi_send_file_common (example_env example_os [])
     (Some (example_data Map.empty, example_send_state)) CCAPI_TRANSPORT_TCP (Some ''d'') (Some ''f'') None CCAPI_SEND_BEHAVIOR_APPEND False 0 None False ()
     = Some (Inl Uninitialised_Read)"
proof (rule early_failure_reads_uninitialised [OF example_send_accepted, where w = "()" and ?w1.0 = "()"
      and ?w2.0 = "()" and ?w3.0 = "()" and status = CCIMP_STATUS_OK and lock = "Some 1"])
  show "ccapi_get_dir_entry_status (ce_os (example_env example_os [])) (ce_fs (example_env example_os []))
        (sd_fs example_send_state) ''d'' zero_fs_stat ()
      = Some (CCIMP_STATUS_OK, \<lparr>fstat_last_modified = 0, fstat_type = CCIMP_FS_DIR_ENTRY_DIR, fstat_file_size = 0\<rparr>,
          example_fs_service, ())
      \<and> (CCIMP_STATUS_OK \<noteq> CCIMP_STATUS_OK \<or> fstat_type \<lparr>fstat_last_modified = 0,
            fstat_type = CCIMP_FS_DIR_ENTRY_DIR, fstat_file_size = 0\<rparr> \<noteq> CCIMP_FS_DIR_ENTRY_FILE)"
    by (simp add: example_env_def example_send_state_def example_fs_service_def ccapi_get_dir_entry_status_def
        ccimp_fs_retry_once example_fs_def)
qed (simp_all add: checkargs_send_file_def checkargs_send_with_reply_def example_env_def example_os_def
      ccapi_malloc_def)

end
