(* ===== verification/DatapointsBinary.thy ===== *)
theory DatapointsBinary
  imports SendProps
begin

text \<open>
  Binary data points, source/ccapi_datapoints_binary.c: a block or a file is sent to the path
  \<open>DataPoint/<stream>.bin\<close> with the functions of the send service, and the error of the send is
  translated.
\<close>

datatype ccapi_dp_b_error_t =
    CCAPI_DP_B_ERROR_NONE
  | CCAPI_DP_B_ERROR_CCAPI_NOT_RUNNING
  | CCAPI_DP_B_ERROR_TRANSPORT_NOT_STARTED
  | CCAPI_DP_B_ERROR_FILESYSTEM_NOT_SUPPORTED
  | CCAPI_DP_B_ERROR_INVALID_STREAM_ID
  | CCAPI_DP_B_ERROR_INVALID_DATA
  | CCAPI_DP_B_ERROR_INVALID_LOCAL_PATH
  | CCAPI_DP_B_ERROR_NOT_A_FILE
  | CCAPI_DP_B_ERROR_ACCESSING_FILE
  | CCAPI_DP_B_ERROR_INVALID_HINT_POINTER
  | CCAPI_DP_B_ERROR_INSUFFICIENT_MEMORY
  | CCAPI_DP_B_ERROR_LOCK_FAILED
  | CCAPI_DP_B_ERROR_INITIATE_ACTION_FAILED
  | CCAPI_DP_B_ERROR_STATUS_CANCEL
  | CCAPI_DP_B_ERROR_STATUS_TIMEOUT
  | CCAPI_DP_B_ERROR_STATUS_SESSION_ERROR
  | CCAPI_DP_B_ERROR_RESPONSE_BAD_REQUEST
  | CCAPI_DP_B_ERROR_RESPONSE_UNAVAILABLE
  | CCAPI_DP_B_ERROR_RESPONSE_CLOUD_ERROR

text \<open>The path, or an error; the string that is built is freed by the caller.\<close>

definition add_dp_prefix_sufix ::
  "'w os \<Rightarrow> string option \<Rightarrow> 'w \<Rightarrow> (ccapi_dp_b_error_t \<times> char buffer option \<times> 'w) ub" where
  "add_dp_prefix_sufix os stream_id w =
     (if stream_id = None \<or> stream_id = Some [] then Inr (CCAPI_DP_B_ERROR_INVALID_STREAM_ID, None, w)
      else
        (let dp_prefix = ''DataPoint/'';
             dp_sufix = ''.bin'';
             stream_id_length = length (the stream_id);
             room = length dp_prefix + stream_id_length + length dp_sufix + 1
         in case ccapi_malloc os (Bytes room) w of
              (False, w1) \<Rightarrow> Inr (CCAPI_DP_B_ERROR_INSUFFICIENT_MEMORY, None, w1)
            | (True, w1) \<Rightarrow>
                ub_bind (memcpy_at (replicate room None) 0 dp_prefix) (\<lambda>b1.
                  ub_bind (memcpy_at b1 (length dp_prefix) (the stream_id)) (\<lambda>b2.
                    ub_bind (memcpy_at b2 (length dp_prefix + stream_id_length) (dp_sufix @ [CHR 0x00])) (\<lambda>b3.
                      Inr (CCAPI_DP_B_ERROR_NONE, Some b3, w1))))))"

definition send_data_error_to_dp_binary_error :: "ccapi_send_error_t \<Rightarrow> ccapi_dp_b_error_t" where
  "send_data_error_to_dp_binary_error send_data_error =
     (case send_data_error of
        CCAPI_SEND_ERROR_NONE \<Rightarrow> CCAPI_DP_B_ERROR_NONE
      | CCAPI_SEND_ERROR_CCAPI_NOT_RUNNING \<Rightarrow> CCAPI_DP_B_ERROR_CCAPI_NOT_RUNNING
      | CCAPI_SEND_ERROR_TRANSPORT_NOT_STARTED \<Rightarrow> CCAPI_DP_B_ERROR_TRANSPORT_NOT_STARTED
      | CCAPI_SEND_ERROR_FILESYSTEM_NOT_SUPPORTED \<Rightarrow> CCAPI_DP_B_ERROR_FILESYSTEM_NOT_SUPPORTED
      | CCAPI_SEND_ERROR_INVALID_DATA \<Rightarrow> CCAPI_DP_B_ERROR_INVALID_DATA
      | CCAPI_SEND_ERROR_INVALID_LOCAL_PATH \<Rightarrow> CCAPI_DP_B_ERROR_INVALID_LOCAL_PATH
      | CCAPI_SEND_ERROR_NOT_A_FILE \<Rightarrow> CCAPI_DP_B_ERROR_NOT_A_FILE
      | CCAPI_SEND_ERROR_ACCESSING_FILE \<Rightarrow> CCAPI_DP_B_ERROR_ACCESSING_FILE
      | CCAPI_SEND_ERROR_INVALID_HINT_POINTER \<Rightarrow> CCAPI_DP_B_ERROR_INVALID_HINT_POINTER
      | CCAPI_SEND_ERROR_INSUFFICIENT_MEMORY \<Rightarrow> CCAPI_DP_B_ERROR_INSUFFICIENT_MEMORY
      | CCAPI_SEND_ERROR_LOCK_FAILED \<Rightarrow> CCAPI_DP_B_ERROR_LOCK_FAILED
      | CCAPI_SEND_ERROR_INITIATE_ACTION_FAILED \<Rightarrow> CCAPI_DP_B_ERROR_INITIATE_ACTION_FAILED
      | CCAPI_SEND_ERROR_STATUS_CANCEL \<Rightarrow> CCAPI_DP_B_ERROR_STATUS_CANCEL
      | CCAPI_SEND_ERROR_STATUS_TIMEOUT \<Rightarrow> CCAPI_DP_B_ERROR_STATUS_TIMEOUT
      | CCAPI_SEND_ERROR_STATUS_SESSION_ERROR \<Rightarrow> CCAPI_DP_B_ERROR_STATUS_SESSION_ERROR
      | CCAPI_SEND_ERROR_RESPONSE_BAD_REQUEST \<Rightarrow> CCAPI_DP_B_ERROR_RESPONSE_BAD_REQUEST
      | CCAPI_SEND_ERROR_RESPONSE_UNAVAILABLE \<Rightarrow> CCAPI_DP_B_ERROR_RESPONSE_UNAVAILABLE
      | CCAPI_SEND_ERROR_RESPONSE_CLOUD_ERROR \<Rightarrow> CCAPI_DP_B_ERROR_RESPONSE_CLOUD_ERROR
      | CCAPI_SEND_ERROR_INVALID_CLOUD_PATH \<Rightarrow> CCAPI_DP_B_ERROR_RESPONSE_CLOUD_ERROR
      | CCAPI_SEND_ERROR_INVALID_CONTENT_TYPE \<Rightarrow> CCAPI_DP_B_ERROR_RESPONSE_CLOUD_ERROR)"

text \<open>
  What the four functions share: the path is built, \<open>send\<close> is called with it and the path is
  freed.
\<close>

type_synonym 'w dp_b_result =
  "(ccapi_dp_b_error_t \<times> ccapi_string_info_t option \<times> 'w send_handle \<times> 'w) run"

definition with_dp_path ::
  "'w send_env \<Rightarrow> 'w send_handle \<Rightarrow> string option \<Rightarrow> ccapi_string_info_t option
     \<Rightarrow> (string \<Rightarrow> 'w \<Rightarrow> 'w send_result) \<Rightarrow> 'w \<Rightarrow> 'w dp_b_result" where
  "with_dp_path env ccapi_handle stream_id hint send w =
     run_bind (Some (add_dp_prefix_sufix (ce_os env) stream_id w)) (\<lambda>(dp_b_error, dp_path, w1).
       if dp_b_error \<noteq> CCAPI_DP_B_ERROR_NONE then Some (Inr (dp_b_error, hint, ccapi_handle, w1))
       else
         run_bind (Some (c_string (the dp_path))) (\<lambda>path.
           run_bind (send path w1) (\<lambda>(send_data_error, hint', s, w2).
             Some (Inr (send_data_error_to_dp_binary_error send_data_error, hint', s,
                        snd (ccapi_free (ce_os env) True w2))))))"

definition ccxapi_dp_binary_send_data ::
  "'w send_env \<Rightarrow> 'w send_handle \<Rightarrow> ccapi_transport_t \<Rightarrow> string option \<Rightarrow> u8 buffer option \<Rightarrow> size_t
     \<Rightarrow> 'w \<Rightarrow> 'w dp_b_result" where
  "ccxapi_dp_binary_send_data env ccapi_handle transport stream_id data bytes w =
     with_dp_path env ccapi_handle stream_id None
       (\<lambda>dp_path. ccxapi_send_data env ccapi_handle transport (Some dp_path) None data bytes CCAPI_SEND_BEHAVIOR_OVERWRITE)
       w"

definition ccxapi_dp_binary_send_data_with_reply ::
  "'w send_env \<Rightarrow> 'w send_handle \<Rightarrow> ccapi_transport_t \<Rightarrow> string option \<Rightarrow> u8 buffer option \<Rightarrow> size_t
     \<Rightarrow> u64 \<Rightarrow> ccapi_string_info_t option \<Rightarrow> bool \<Rightarrow> 'w \<Rightarrow> 'w dp_b_result" where
  "ccxapi_dp_binary_send_data_with_reply env ccapi_handle transport stream_id data bytes timeout hint want_code w =
     with_dp_path env ccapi_handle stream_id hint
       (\<lambda>dp_path. ccxapi_send_data_with_reply env ccapi_handle transport (Some dp_path) None data bytes CCAPI_SEND_BEHAVIOR_OVERWRITE timeout hint want_code)
       w"

definition ccxapi_dp_binary_send_file ::
  "'w send_env \<Rightarrow> 'w send_handle \<Rightarrow> ccapi_transport_t \<Rightarrow> string option \<Rightarrow> string option
     \<Rightarrow> 'w \<Rightarrow> 'w dp_b_result" where
  "ccxapi_dp_binary_send_file env ccapi_handle transport local_path stream_id w =
     with_dp_path env ccapi_handle stream_id None
       (\<lambda>dp_path. ccxapi_send_file env ccapi_handle transport local_path (Some dp_path) None CCAPI_SEND_BEHAVIOR_OVERWRITE)
       w"

definition ccxapi_dp_binary_send_file_with_reply ::
  "'w send_env \<Rightarrow> 'w send_handle \<Rightarrow> ccapi_transport_t \<Rightarrow> string option \<Rightarrow> string option
     \<Rightarrow> u64 \<Rightarrow> ccapi_string_info_t option \<Rightarrow> bool \<Rightarrow> 'w \<Rightarrow> 'w dp_b_result" where
  "ccxapi_dp_binary_send_file_with_reply env ccapi_handle transport local_path stream_id timeout hint want_code w =
     with_dp_path env ccapi_handle stream_id hint
       (\<lambda>dp_path. ccxapi_send_file_with_reply env ccapi_handle transport local_path (Some dp_path) None CCAPI_SEND_BEHAVIOR_OVERWRITE timeout hint want_code)
       w"

definition ccapi_dp_binary_send_data ::
  "'w send_env \<Rightarrow> 'w send_handle \<Rightarrow> ccapi_transport_t \<Rightarrow> string option \<Rightarrow> u8 buffer option \<Rightarrow> size_t
     \<Rightarrow> 'w \<Rightarrow> 'w dp_b_result" where
  "ccapi_dp_binary_send_data env ccapi_data_single_instance transport stream_id data bytes w =
     ccxapi_dp_binary_send_data env ccapi_data_single_instance transport stream_id data bytes w"

definition ccapi_dp_binary_send_data_with_reply ::
  "'w send_env \<Rightarrow> 'w send_handle \<Rightarrow> ccapi_transport_t \<Rightarrow> string option \<Rightarrow> u8 buffer option \<Rightarrow> size_t
     \<Rightarrow> u64 \<Rightarrow> ccapi_string_info_t option \<Rightarrow> 'w \<Rightarrow> 'w dp_b_result" where
  "ccapi_dp_binary_send_data_with_reply env ccapi_data_single_instance transport stream_id data bytes timeout hint w =
     ccxapi_dp_binary_send_data_with_reply env ccapi_data_single_instance transport stream_id data bytes timeout hint False w"

definition ccapi_dp_binary_send_data_with_reply_and_errorcode ::
  "'w send_env \<Rightarrow> 'w send_handle \<Rightarrow> ccapi_transport_t \<Rightarrow> string option \<Rightarrow> u8 buffer option \<Rightarrow> size_t
     \<Rightarrow> u64 \<Rightarrow> ccapi_string_info_t option \<Rightarrow> bool \<Rightarrow> 'w \<Rightarrow> 'w dp_b_result" where
  "ccapi_dp_binary_send_data_with_reply_and_errorcode env ccapi_data_single_instance transport stream_id data bytes timeout hint want_code w =
     ccxapi_dp_binary_send_data_with_reply env ccapi_data_single_instance transport stream_id data bytes timeout hint want_code w"

definition ccapi_dp_binary_send_file ::
  "'w send_env \<Rightarrow> 'w send_handle \<Rightarrow> ccapi_transport_t \<Rightarrow> string option \<Rightarrow> string option
     \<Rightarrow> 'w \<Rightarrow> 'w dp_b_result" where
  "ccapi_dp_binary_send_file env ccapi_data_single_instance transport local_path stream_id w =
     ccxapi_dp_binary_send_file env ccapi_data_single_instance transport local_path stream_id w"

definition ccapi_dp_binary_send_file_with_reply ::
  "'w send_env \<Rightarrow> 'w send_handle \<Rightarrow> ccapi_transport_t \<Rightarrow> string option \<Rightarrow> string option
     \<Rightarrow> u64 \<Rightarrow> ccapi_string_info_t option \<Rightarrow> 'w \<Rightarrow> 'w dp_b_result" where
  "ccapi_dp_binary_send_file_with_reply env ccapi_data_single_instance transport local_path stream_id timeout hint w =
     ccxapi_dp_binary_send_file_with_reply env ccapi_data_single_instance transport local_path stream_id timeout hint False w"

definition ccapi_dp_binary_send_file_with_reply_and_errorcode ::
  "'w send_env \<Rightarrow> 'w send_handle \<Rightarrow> ccapi_transport_t \<Rightarrow> string option \<Rightarrow> string option
     \<Rightarrow> u64 \<Rightarrow> ccapi_string_info_t option \<Rightarrow> bool \<Rightarrow> 'w \<Rightarrow> 'w dp_b_result" where
  "ccapi_dp_binary_send_file_with_reply_and_errorcode env ccapi_data_single_instance transport local_path stream_id timeout hint want_code w =
     ccxapi_dp_binary_send_file_with_reply env ccapi_data_single_instance transport local_path stream_id timeout hint want_code w"

subsection \<open>A binary send is a send\<close>

definition dp_binary_path :: "string \<Rightarrow> string" where
  "dp_binary_path stream_id = ''DataPoint/'' @ stream_id @ ''.bin''"

lemma add_dp_prefix_sufix_builds:
  assumes "stream_id \<noteq> []" and "CHR 0x00 \<notin> set stream_id"
    and "ccapi_malloc os (Bytes (length stream_id + 15)) w = (True, w1)"
  obtains b where "add_dp_prefix_sufix os (Some stream_id) w = Inr (CCAPI_DP_B_ERROR_NONE, Some b, w1)"
    and "c_string b = Inr (dp_binary_path stream_id)"
proof -
  let ?n = "length stream_id"
  let ?b1 = "map Some ''DataPoint/'' @ replicate (?n + 5) None"
  let ?b2 = "map Some (''DataPoint/'' @ stream_id) @ replicate 5 None"
  let ?b3 = "map Some (dp_binary_path stream_id) @ [Some (CHR 0x00)]"
  have room: "length ''DataPoint/'' + ?n + length ''.bin'' + 1 = ?n + 15" by simp
  have 1: "memcpy_at (replicate (?n + 15) None) 0 ''DataPoint/'' = Inr ?b1"
    by (simp add: memcpy_at_def)
  have 2: "memcpy_at ?b1 (length ''DataPoint/'') stream_id = Inr ?b2"
    by (simp add: memcpy_at_def)
  have 3: "memcpy_at ?b2 (length ''DataPoint/'' + ?n) (''.bin'' @ [CHR 0x00]) = Inr ?b3"
    by (simp add: memcpy_at_def dp_binary_path_def)
  have "add_dp_prefix_sufix os (Some stream_id) w = Inr (CCAPI_DP_B_ERROR_NONE, Some ?b3, w1)"
    unfolding add_dp_prefix_sufix_def Let_def option.sel room assms(3) prod.case bool.case 1 ub_bind_Inr 2 3
    using assms(1) by simp
  moreover have "c_string ?b3 = Inr (dp_binary_path stream_id)"
    by (rule c_string_defined) (use assms(2) in \<open>simp add: dp_binary_path_def\<close>)
  ultimately show thesis using that by blast
qed

definition as_binary_result :: "'w send_env \<Rightarrow> 'w send_result \<Rightarrow> 'w dp_b_result" where
  "as_binary_result env result =
     run_bind result (\<lambda>(error, hint, s, w).
       Some (Inr (send_data_error_to_dp_binary_error error, hint, s, snd (ccapi_free (ce_os env) True w))))"

text \<open>
  C28. Sending a binary data point is sending to the path \<open>DataPoint/<stream>.bin\<close>: with memory for
  the path, the functions for a block and for a file give what the send to that path gives, with
  the error translated and the path freed. The send never refuses that path, and away from the
  two errors about the path and the content type no two errors are translated alike.
\<close>

theorem binary_send_is_a_send:
  assumes "stream_id \<noteq> []" and "CHR 0x00 \<notin> set stream_id"
    and "ccapi_malloc (ce_os env) (Bytes (length stream_id + 15)) w = (True, w1)"
  shows "ccxapi_dp_binary_send_data_with_reply env h transport (Some stream_id) data bytes timeout hint want_code w
      = as_binary_result env (ccxapi_send_data_with_reply env h transport (Some (dp_binary_path stream_id)) None
          data bytes CCAPI_SEND_BEHAVIOR_OVERWRITE timeout hint want_code w1)
    \<and> ccxapi_dp_binary_send_file_with_reply env h transport local_path (Some stream_id) timeout hint want_code w
      = as_binary_result env (ccxapi_send_file_with_reply env h transport local_path
          (Some (dp_binary_path stream_id)) None CCAPI_SEND_BEHAVIOR_OVERWRITE timeout hint want_code w1)
    \<and> checkargs_send_common (map_option snd h) transport (Some (dp_binary_path stream_id)) None
        \<notin> {CCAPI_SEND_ERROR_INVALID_CLOUD_PATH, CCAPI_SEND_ERROR_INVALID_CONTENT_TYPE}
    \<and> inj_on send_data_error_to_dp_binary_error
        (- {CCAPI_SEND_ERROR_INVALID_CLOUD_PATH, CCAPI_SEND_ERROR_INVALID_CONTENT_TYPE})"
proof -
  obtain b where b: "add_dp_prefix_sufix (ce_os env) (Some stream_id) w = Inr (CCAPI_DP_B_ERROR_NONE, Some b, w1)"
    "c_string b = Inr (dp_binary_path stream_id)"
    using add_dp_prefix_sufix_builds [OF assms] .
  have send: "with_dp_path env h (Some stream_id) hint send w = as_binary_result env (send (dp_binary_path stream_id) w1)"
    for send
    by (simp add: with_dp_path_def b as_binary_result_def)
  have path: "checkargs_send_common (map_option snd h) transport (Some (dp_binary_path stream_id)) None
        \<notin> {CCAPI_SEND_ERROR_INVALID_CLOUD_PATH, CCAPI_SEND_ERROR_INVALID_CONTENT_TYPE}"
    by (simp add: checkargs_send_common_def dp_binary_path_def)
  have "inj_on send_data_error_to_dp_binary_error
      (- {CCAPI_SEND_ERROR_INVALID_CLOUD_PATH, CCAPI_SEND_ERROR_INVALID_CONTENT_TYPE})"
    by (rule inj_onI)
      (simp add: send_data_error_to_dp_binary_error_def split: ccapi_send_error_t.splits)
  then show ?thesis
    using path unfolding ccxapi_dp_binary_send_data_with_reply_def ccxapi_dp_binary_send_file_with_reply_def send
    by (intro conjI) simp_all
qed

theorem binary_send_is_a_send_witness:
  "ccxapi_dp_binary_send_data_with_reply (example_env example_os []) None CCAPI_TRANSPORT_TCP (Some ''t'')
     (Some [Some 1]) 1 0 None False () = Some (Inr (CCAPI_DP_B_ERROR_CCAPI_NOT_RUNNING, None, None, ()))"
  using binary_send_is_a_send [of "''t''" "example_env example_os []" "()" "()" None CCAPI_TRANSPORT_TCP
      "Some [Some 1]" 1 0 None False None]
  by (simp add: example_env_def as_binary_result_def ccxapi_send_data_with_reply_def
      ccxapi_send_data_common_def checkargs_send_common_def send_running_def
      send_data_error_to_dp_binary_error_def)

end
