(* ===== verification/DatapointFormat.thy ===== *)
theory DatapointFormat
  imports Core
begin

text \<open>
  The format of a data stream, source/ccapi_datapoints.c: a stream is declared with the names of
  what each of its points is made of, in the order the caller will pass them. The names are
  checked and turned into a list of arguments.

  A pointer into the copy of the format string is the rest of the string.
\<close>

datatype ccapi_dp_error_t =
    CCAPI_DP_ERROR_NONE
  | CCAPI_DP_ERROR_INVALID_ARGUMENT
  | CCAPI_DP_ERROR_INVALID_STREAM_ID
  | CCAPI_DP_ERROR_INVALID_FORMAT
  | CCAPI_DP_ERROR_INVALID_UNITS
  | CCAPI_DP_ERROR_INVALID_FORWARD_TO
  | CCAPI_DP_ERROR_INSUFFICIENT_MEMORY
  | CCAPI_DP_ERROR_LOCK_FAILED
  | CCAPI_DP_ERROR_CCAPI_NOT_RUNNING
  | CCAPI_DP_ERROR_TRANSPORT_NOT_STARTED
  | CCAPI_DP_ERROR_INITIATE_ACTION_FAILED
  | CCAPI_DP_ERROR_RESPONSE_BAD_REQUEST
  | CCAPI_DP_ERROR_RESPONSE_UNAVAILABLE
  | CCAPI_DP_ERROR_RESPONSE_CLOUD_ERROR
  | CCAPI_DP_ERROR_STATUS_CANCEL
  | CCAPI_DP_ERROR_STATUS_TIMEOUT
  | CCAPI_DP_ERROR_STATUS_INVALID_DATA
  | CCAPI_DP_ERROR_STATUS_SESSION_ERROR

datatype ccapi_dp_argument_t =
    CCAPI_DP_ARG_DATA_INT32
  | CCAPI_DP_ARG_DATA_INT64
  | CCAPI_DP_ARG_DATA_FLOAT
  | CCAPI_DP_ARG_DATA_DOUBLE
  | CCAPI_DP_ARG_DATA_STRING
  | CCAPI_DP_ARG_DATA_JSON
  | CCAPI_DP_ARG_DATA_GEOJSON
  | CCAPI_DP_ARG_TS_EPOCH
  | CCAPI_DP_ARG_TS_EPOCH_MS
  | CCAPI_DP_ARG_TS_ISO8601
  | CCAPI_DP_ARG_LOCATION
  | CCAPI_DP_ARG_QUALITY
  | CCAPI_DP_ARG_INVALID

datatype connector_data_point_type_t =
    connector_data_point_type_integer
  | connector_data_point_type_long
  | connector_data_point_type_float
  | connector_data_point_type_double
  | connector_data_point_type_string
  | connector_data_point_type_binary
  | connector_data_point_type_json
  | connector_data_point_type_geojson

subsection \<open>Names\<close>

text \<open>A NULL pointer is \<open>None\<close>.\<close>

definition valid_special :: string where
  "valid_special = ''_-./[]!+:''"

definition valid_stream_id :: "string option \<Rightarrow> bool" where
  "valid_stream_id stream_id =
     (case stream_id of
        None \<Rightarrow> False
      | Some s \<Rightarrow> s \<noteq> [] \<and> list_all (\<lambda>c. isalnum c \<or> c \<in> set valid_special) s)"

definition valid_format_string :: "string option \<Rightarrow> bool" where
  "valid_format_string format_string =
     (case format_string of
        None \<Rightarrow> False
      | Some s \<Rightarrow> s \<noteq> [] \<and> hd s \<noteq> CHR '' ''
          \<and> list_all (\<lambda>c. isalnum c \<or> c = CHR '' '' \<or> c = CHR ''_'') s)"

definition valid_units :: "string option \<Rightarrow> bool" where
  "valid_units units = (case units of None \<Rightarrow> False | Some s \<Rightarrow> s \<noteq> [])"

subsection \<open>Argument lists\<close>

text \<open>Which of the four kinds an argument is; each may be there once.\<close>

datatype argument_kind = Data_Argument | Timestamp_Argument | Location_Argument | Quality_Argument

definition argument_kind :: "ccapi_dp_argument_t \<Rightarrow> argument_kind option" where
  "argument_kind arg =
     (case arg of
        CCAPI_DP_ARG_DATA_INT32 \<Rightarrow> Some Data_Argument
      | CCAPI_DP_ARG_DATA_INT64 \<Rightarrow> Some Data_Argument
      | CCAPI_DP_ARG_DATA_FLOAT \<Rightarrow> Some Data_Argument
      | CCAPI_DP_ARG_DATA_DOUBLE \<Rightarrow> Some Data_Argument
      | CCAPI_DP_ARG_DATA_STRING \<Rightarrow> Some Data_Argument
      | CCAPI_DP_ARG_DATA_JSON \<Rightarrow> Some Data_Argument
      | CCAPI_DP_ARG_DATA_GEOJSON \<Rightarrow> Some Data_Argument
      | CCAPI_DP_ARG_TS_EPOCH \<Rightarrow> Some Timestamp_Argument
      | CCAPI_DP_ARG_TS_EPOCH_MS \<Rightarrow> Some Timestamp_Argument
      | CCAPI_DP_ARG_TS_ISO8601 \<Rightarrow> Some Timestamp_Argument
      | CCAPI_DP_ARG_LOCATION \<Rightarrow> Some Location_Argument
      | CCAPI_DP_ARG_QUALITY \<Rightarrow> Some Quality_Argument
      | CCAPI_DP_ARG_INVALID \<Rightarrow> None)"

text \<open>The loop, with the kinds that were found.\<close>

fun check_args :: "argument_kind set \<Rightarrow> ccapi_dp_argument_t list \<Rightarrow> bool" where
  "check_args found [] = True"
| "check_args found (arg # args) =
     (case argument_kind arg of
        None \<Rightarrow> False
      | Some k \<Rightarrow> if k \<in> found then False else check_args (insert k found) args)"

definition valid_arg_list :: "ccapi_dp_argument_t list \<Rightarrow> nat \<Rightarrow> bool ub" where
  "valid_arg_list args count =
     (if count < 1 \<or> 4 < count then Inr False
      else if length args < count then Inl Out_Of_Bounds
      else Inr (check_args {} (take count args)))"

text \<open>The elements are copied one by one; \<open>None\<close> when there is no memory.\<close>

definition arg_list_dup ::
  "'w os \<Rightarrow> ccapi_dp_argument_t list \<Rightarrow> nat \<Rightarrow> 'w \<Rightarrow> (ccapi_dp_argument_t list option \<times> 'w) ub" where
  "arg_list_dup os original_arg_list count w =
     (case ccapi_malloc os (Array_Of count ''ccapi_dp_argument_t'') w of
        (False, w1) \<Rightarrow> Inr (None, w1)
      | (True, w1) \<Rightarrow>
          (if length original_arg_list < count then Inl Out_Of_Bounds
           else Inr (Some (take count original_arg_list), w1)))"

subsection \<open>Keywords\<close>

text \<open>
  \<open>get_next_keyword\<close> puts a NUL over the separator: the keyword is what is before it. With no
  separator left the keyword is the rest of the string.
\<close>

definition get_next_keyword :: "string \<Rightarrow> char \<Rightarrow> (string \<times> string) option" where
  "get_next_keyword token_start delim =
     (if token_start = [] then None
      else Some (takeWhile (\<lambda>c. c \<noteq> delim) token_start, drop 1 (dropWhile (\<lambda>c. c \<noteq> delim) token_start)))"

definition key_arg_map :: "(string \<times> ccapi_dp_argument_t) list" where
  "key_arg_map =
     [(''int32'', CCAPI_DP_ARG_DATA_INT32), (''int64'', CCAPI_DP_ARG_DATA_INT64),
      (''float'', CCAPI_DP_ARG_DATA_FLOAT), (''double'', CCAPI_DP_ARG_DATA_DOUBLE),
      (''string'', CCAPI_DP_ARG_DATA_STRING), (''json'', CCAPI_DP_ARG_DATA_JSON),
      (''geojson'', CCAPI_DP_ARG_DATA_GEOJSON), (''ts_epoch'', CCAPI_DP_ARG_TS_EPOCH),
      (''ts_epoch_ms'', CCAPI_DP_ARG_TS_EPOCH_MS), (''ts_iso'', CCAPI_DP_ARG_TS_ISO8601),
      (''loc'', CCAPI_DP_ARG_LOCATION), (''qual'', CCAPI_DP_ARG_QUALITY)]"

definition keyword_arg :: "string \<Rightarrow> ccapi_dp_argument_t" where
  "keyword_arg keyword =
     (case map_of key_arg_map keyword of None \<Rightarrow> CCAPI_DP_ARG_INVALID | Some arg \<Rightarrow> arg)"

text \<open>
  The loop over the keywords, with the array \<open>temp_arg_list\<close> of four elements and how many of
  them are used; \<open>None\<close> is a format with too many keywords.
\<close>

function parse_keywords ::
  "string \<Rightarrow> ccapi_dp_argument_t list \<Rightarrow> nat \<Rightarrow> (ccapi_dp_argument_t list \<times> nat) option ub" where
  "parse_keywords rest args count =
     (case get_next_keyword rest (CHR '' '') of
        None \<Rightarrow> Inr (Some (args, count))
      | Some (keyword, rest') \<Rightarrow>
          (if 3 < count then Inr None
           else if length args \<le> count then Inl Out_Of_Bounds
           else parse_keywords rest' (args[count := keyword_arg keyword]) (Suc count)))"
  by pat_completeness auto

lemma get_next_keyword_shorter:
  "get_next_keyword rest delim = Some (keyword, rest') \<Longrightarrow> length rest' < length rest"
  using length_dropWhile_le [of "\<lambda>c. c \<noteq> delim" rest]
  by (cases rest) (auto simp: get_next_keyword_def split: if_splits)

termination parse_keywords
  by (relation "measure (\<lambda>(rest, args, count). length rest)") (auto dest: get_next_keyword_shorter)

declare parse_keywords.simps [simp del]

text \<open>The result: an error, or the list.\<close>

definition get_arg_list_from_format_string ::
  "'w os \<Rightarrow> string \<Rightarrow> 'w \<Rightarrow> (ccapi_dp_error_t \<times> ccapi_dp_argument_t list option \<times> 'w) ub" where
  "get_arg_list_from_format_string os format_string w =
     (case ccapi_strdup os format_string w of
        (None, w1) \<Rightarrow> Inr (CCAPI_DP_ERROR_INSUFFICIENT_MEMORY, None, w1)
      | (Some format_string_copy, w1) \<Rightarrow>
          ub_bind (parse_keywords format_string_copy (replicate 4 CCAPI_DP_ARG_INVALID) 0)
            (\<lambda>parsed.
              case parsed of
                None \<Rightarrow> Inr (CCAPI_DP_ERROR_INVALID_FORMAT, None, snd (ccapi_free os True w1))
              | Some (temp_arg_list, temp_arg_list_count) \<Rightarrow>
                  ub_bind (valid_arg_list temp_arg_list temp_arg_list_count)
                    (\<lambda>valid.
                      if \<not> valid then Inr (CCAPI_DP_ERROR_INVALID_FORMAT, None, snd (ccapi_free os True w1))
                      else
                        ub_bind (arg_list_dup os temp_arg_list temp_arg_list_count w1)
                          (\<lambda>(arg_list, w2).
                            Inr (if arg_list = None then CCAPI_DP_ERROR_INSUFFICIENT_MEMORY
                                 else CCAPI_DP_ERROR_NONE, arg_list, snd (ccapi_free os True w2))))))"

text \<open>The type of the points; \<open>None\<close> is INVALID_ENUM, when no argument is the data.\<close>

definition data_type :: "ccapi_dp_argument_t \<Rightarrow> connector_data_point_type_t option" where
  "data_type arg =
     (case arg of
        CCAPI_DP_ARG_DATA_INT32 \<Rightarrow> Some connector_data_point_type_integer
      | CCAPI_DP_ARG_DATA_INT64 \<Rightarrow> Some connector_data_point_type_long
      | CCAPI_DP_ARG_DATA_FLOAT \<Rightarrow> Some connector_data_point_type_float
      | CCAPI_DP_ARG_DATA_DOUBLE \<Rightarrow> Some connector_data_point_type_double
      | CCAPI_DP_ARG_DATA_STRING \<Rightarrow> Some connector_data_point_type_string
      | CCAPI_DP_ARG_DATA_JSON \<Rightarrow> Some connector_data_point_type_json
      | CCAPI_DP_ARG_DATA_GEOJSON \<Rightarrow> Some connector_data_point_type_geojson
      | _ \<Rightarrow> None)"

fun get_data_stream_type_from_arg_list :: "ccapi_dp_argument_t list \<Rightarrow> connector_data_point_type_t option" where
  "get_data_stream_type_from_arg_list [] = None"
| "get_data_stream_type_from_arg_list (arg # args) =
     (case data_type arg of Some t \<Rightarrow> Some t | None \<Rightarrow> get_data_stream_type_from_arg_list args)"

end
