(* ===== verification/Datapoints.thy ===== *)
theory Datapoints
  imports DatapointFormat
begin

text \<open>
  Collections of data points, source/ccapi_datapoints.c: the points, the streams they belong to,
  and the operations on a collection.

  A stream of the collection and the stream of the connector it owns are allocated and freed
  together: they are one object of the heap \<open>dc_streams\<close>, at one address, with the \<open>next\<close>
  pointers of both. The points of a stream are reached through it only: they are a list, the
  newest first. Values of type float and double are their bits; \<open>float_of_double\<close> is the
  conversion. A walk along \<open>next\<close> pointers that form a cycle does not return.
\<close>

subsection \<open>Points\<close>

text \<open>
  The unions of a point hold what was stored last: the bits of a number or a pointer to a string.
  NULL is the bits 0, so storing a number over a NULL pointer leaves the number's bits.
\<close>

datatype native_value = Native_Bits u64 | Native_String string

datatype time_value = Time_Fractional u32 u32 | Time_Whole u64 | Time_Iso8601 string

datatype connector_time_source_t =
    connector_time_cloud
  | connector_time_local_epoch_fractional
  | connector_time_local_epoch_whole
  | connector_time_local_iso8601

record ccapi_location_t =
  latitude :: u32
  longitude :: u32
  elevation :: u32

record connector_data_point_t =
  pt_data :: native_value
  pt_time_source :: connector_time_source_t
  pt_time :: time_value
  pt_location :: "ccapi_location_t option"
  pt_quality :: "u32 option"

text \<open>Whether the pointer to free is not NULL; a pointer made of a number's bits is wild.\<close>

definition native_pointer :: "native_value \<Rightarrow> bool ub" where
  "native_pointer v =
     (case v of
        Native_String s \<Rightarrow> Inr True
      | Native_Bits b \<Rightarrow> if b = 0 then Inr False else Inl Wild_Free)"

definition time_pointer :: "time_value \<Rightarrow> bool ub" where
  "time_pointer v =
     (case v of
        Time_Iso8601 s \<Rightarrow> Inr True
      | Time_Fractional s m \<Rightarrow> if s = 0 \<and> m = 0 then Inr False else Inl Wild_Free
      | Time_Whole m \<Rightarrow> if m = 0 then Inr False else Inl Wild_Free)"

definition free_data_point ::
  "'w os \<Rightarrow> connector_data_point_t \<Rightarrow> connector_data_point_type_t option \<Rightarrow> 'w \<Rightarrow> 'w ub" where
  "free_data_point os data_point type w =
     ub_bind (if type = Some connector_data_point_type_string
              then ub_bind (native_pointer (pt_data data_point)) (\<lambda>p. Inr (snd (ccapi_free os p w)))
              else Inr w)
       (\<lambda>w1. ub_bind (if pt_time_source data_point = connector_time_local_iso8601
                     then ub_bind (time_pointer (pt_time data_point)) (\<lambda>p. Inr (snd (ccapi_free os p w1)))
                     else Inr w1)
         (\<lambda>w2. Inr (snd (ccapi_free os True w2))))"

fun free_data_points_in_data_stream ::
  "'w os \<Rightarrow> connector_data_point_type_t option \<Rightarrow> connector_data_point_t list \<Rightarrow> 'w \<Rightarrow> (u32 \<times> 'w) ub" where
  "free_data_points_in_data_stream os type [] w = Inr (0, w)"
| "free_data_points_in_data_stream os type (p # ps) w =
     ub_bind (free_data_point os p type w) (\<lambda>w1.
       ub_bind (free_data_points_in_data_stream os type ps w1) (\<lambda>(dp_count, w2). Inr (dp_count + 1, w2)))"

definition free_ccfsm_data_point :: "'w os \<Rightarrow> connector_data_point_t \<Rightarrow> 'w \<Rightarrow> 'w ub" where
  "free_ccfsm_data_point os ccfsm_datapoint w =
     ub_bind (native_pointer (pt_data ccfsm_datapoint)) (\<lambda>p.
       let w1 = snd (ccapi_free os p w) in
       ub_bind (time_pointer (pt_time ccfsm_datapoint)) (\<lambda>t.
         Inr (snd (ccapi_free os True (snd (ccapi_free os t w1))))))"

subsection \<open>The arguments of a point\<close>

text \<open>
  What a caller passes for the variable arguments. Taking one of another type, or one too many,
  is undefined.
\<close>

datatype ccapi_timestamp_t =
    Timestamp_Epoch u32 u32
  | Timestamp_Epoch_Msec u64
  | Timestamp_Iso8601 "string option"

datatype va_argument =
    VA_Int32 u32
  | VA_Int64 u64
  | VA_Double u64
  | VA_String "string option"
  | VA_Timestamp "ccapi_timestamp_t option"
  | VA_Location "ccapi_location_t option"

definition va_arg :: "(va_argument \<Rightarrow> 'a ub) \<Rightarrow> va_argument list \<Rightarrow> ('a \<times> va_argument list) ub" where
  "va_arg read va =
     (case va of
        [] \<Rightarrow> Inl Bad_Variadic_Argument
      | v # vs \<Rightarrow> ub_bind (read v) (\<lambda>x. Inr (x, vs)))"

definition va_int32 :: "va_argument \<Rightarrow> u32 ub" where
  "va_int32 v = (case v of VA_Int32 x \<Rightarrow> Inr x | _ \<Rightarrow> Inl Bad_Variadic_Argument)"

definition va_int64 :: "va_argument \<Rightarrow> u64 ub" where
  "va_int64 v = (case v of VA_Int64 x \<Rightarrow> Inr x | _ \<Rightarrow> Inl Bad_Variadic_Argument)"

definition va_double :: "va_argument \<Rightarrow> u64 ub" where
  "va_double v = (case v of VA_Double x \<Rightarrow> Inr x | _ \<Rightarrow> Inl Bad_Variadic_Argument)"

definition non_null :: "'a option \<Rightarrow> 'a ub" where
  "non_null p = (case p of None \<Rightarrow> Inl Null_Dereference | Some x \<Rightarrow> Inr x)"

definition va_string :: "va_argument \<Rightarrow> string ub" where
  "va_string v = (case v of VA_String p \<Rightarrow> non_null p | _ \<Rightarrow> Inl Bad_Variadic_Argument)"

definition va_timestamp :: "va_argument \<Rightarrow> ccapi_timestamp_t ub" where
  "va_timestamp v = (case v of VA_Timestamp p \<Rightarrow> non_null p | _ \<Rightarrow> Inl Bad_Variadic_Argument)"

definition va_location :: "va_argument \<Rightarrow> ccapi_location_t ub" where
  "va_location v = (case v of VA_Location p \<Rightarrow> non_null p | _ \<Rightarrow> Inl Bad_Variadic_Argument)"

definition va_epoch :: "va_argument \<Rightarrow> (u32 \<times> u32) ub" where
  "va_epoch v = ub_bind (va_timestamp v)
     (\<lambda>t. case t of Timestamp_Epoch s m \<Rightarrow> Inr (s, m) | _ \<Rightarrow> Inl Bad_Variadic_Argument)"

definition va_epoch_msec :: "va_argument \<Rightarrow> u64 ub" where
  "va_epoch_msec v = ub_bind (va_timestamp v)
     (\<lambda>t. case t of Timestamp_Epoch_Msec m \<Rightarrow> Inr m | _ \<Rightarrow> Inl Bad_Variadic_Argument)"

definition va_iso8601 :: "va_argument \<Rightarrow> string ub" where
  "va_iso8601 v = ub_bind (va_timestamp v)
     (\<lambda>t. case t of Timestamp_Iso8601 p \<Rightarrow> non_null p | _ \<Rightarrow> Inl Bad_Variadic_Argument)"

text \<open>
  One round of the loop: the point so far, \<open>Some\<close> of it with the remaining arguments, or \<open>None\<close>
  when there was no memory for a string and the point was freed.
\<close>

definition store_string ::
  "'w os \<Rightarrow> (string \<Rightarrow> connector_data_point_t) \<Rightarrow> connector_data_point_t \<Rightarrow> string \<Rightarrow> va_argument list \<Rightarrow> 'w
     \<Rightarrow> ((connector_data_point_t \<times> va_argument list) option \<times> 'w) ub" where
  "store_string os store point_without s va w =
     (case ccapi_strdup os s w of
        (Some s', w1) \<Rightarrow> Inr (Some (store s', va), w1)
      | (None, w1) \<Rightarrow> ub_bind (free_ccfsm_data_point os point_without w1) (\<lambda>w2. Inr (None, w2)))"

definition parse_argument ::
  "'w os \<Rightarrow> (u64 \<Rightarrow> u32) \<Rightarrow> ccapi_dp_argument_t \<Rightarrow> connector_data_point_t \<Rightarrow> va_argument list \<Rightarrow> 'w
     \<Rightarrow> ((connector_data_point_t \<times> va_argument list) option \<times> 'w) ub" where
  "parse_argument os float_of_double arg p va w =
     (case arg of
        CCAPI_DP_ARG_DATA_INT32 \<Rightarrow>
          ub_bind (va_arg va_int32 va) (\<lambda>(x, va'). Inr (Some (p\<lparr>pt_data := Native_Bits (ucast x)\<rparr>, va'), w))
      | CCAPI_DP_ARG_DATA_INT64 \<Rightarrow>
          ub_bind (va_arg va_int64 va) (\<lambda>(x, va'). Inr (Some (p\<lparr>pt_data := Native_Bits x\<rparr>, va'), w))
      | CCAPI_DP_ARG_DATA_FLOAT \<Rightarrow>
          ub_bind (va_arg va_double va) (\<lambda>(x, va').
            Inr (Some (p\<lparr>pt_data := Native_Bits (ucast (float_of_double x))\<rparr>, va'), w))
      | CCAPI_DP_ARG_DATA_DOUBLE \<Rightarrow>
          ub_bind (va_arg va_double va) (\<lambda>(x, va'). Inr (Some (p\<lparr>pt_data := Native_Bits x\<rparr>, va'), w))
      | CCAPI_DP_ARG_DATA_STRING \<Rightarrow>
          ub_bind (va_arg va_string va) (\<lambda>(s, va').
            store_string os (\<lambda>s'. p\<lparr>pt_data := Native_String s'\<rparr>) (p\<lparr>pt_data := Native_Bits 0\<rparr>) s va' w)
      | CCAPI_DP_ARG_DATA_JSON \<Rightarrow>
          ub_bind (va_arg va_string va) (\<lambda>(s, va').
            store_string os (\<lambda>s'. p\<lparr>pt_data := Native_String s'\<rparr>) (p\<lparr>pt_data := Native_Bits 0\<rparr>) s va' w)
      | CCAPI_DP_ARG_DATA_GEOJSON \<Rightarrow>
          ub_bind (va_arg va_string va) (\<lambda>(s, va').
            store_string os (\<lambda>s'. p\<lparr>pt_data := Native_String s'\<rparr>) (p\<lparr>pt_data := Native_Bits 0\<rparr>) s va' w)
      | CCAPI_DP_ARG_TS_EPOCH \<Rightarrow>
          ub_bind (va_arg va_epoch va) (\<lambda>((s, m), va').
            Inr (Some (p\<lparr>pt_time_source := connector_time_local_epoch_fractional,
                         pt_time := Time_Fractional s m\<rparr>, va'), w))
      | CCAPI_DP_ARG_TS_EPOCH_MS \<Rightarrow>
          ub_bind (va_arg va_epoch_msec va) (\<lambda>(m, va').
            Inr (Some (p\<lparr>pt_time_source := connector_time_local_epoch_whole, pt_time := Time_Whole m\<rparr>, va'), w))
      | CCAPI_DP_ARG_TS_ISO8601 \<Rightarrow>
          ub_bind (va_arg va_iso8601 va) (\<lambda>(s, va').
            store_string os
              (\<lambda>s'. p\<lparr>pt_time_source := connector_time_local_iso8601, pt_time := Time_Iso8601 s'\<rparr>)
              (p\<lparr>pt_time_source := connector_time_local_iso8601, pt_time := Time_Whole 0\<rparr>) s va' w)
      | CCAPI_DP_ARG_LOCATION \<Rightarrow>
          ub_bind (va_arg va_location va) (\<lambda>(l, va'). Inr (Some (p\<lparr>pt_location := Some l\<rparr>, va'), w))
      | CCAPI_DP_ARG_QUALITY \<Rightarrow>
          ub_bind (va_arg va_int32 va) (\<lambda>(q, va'). Inr (Some (p\<lparr>pt_quality := Some q\<rparr>, va'), w))
      | CCAPI_DP_ARG_INVALID \<Rightarrow> Inr (Some (p, va), w))"

text \<open>The loop; an invalid argument ends it.\<close>

fun parse_arguments ::
  "'w os \<Rightarrow> (u64 \<Rightarrow> u32) \<Rightarrow> ccapi_dp_argument_t list \<Rightarrow> connector_data_point_t \<Rightarrow> va_argument list \<Rightarrow> 'w
     \<Rightarrow> (connector_data_point_t option \<times> 'w) ub" where
  "parse_arguments os float_of_double [] p va w = Inr (Some p, w)"
| "parse_arguments os float_of_double (arg # args) p va w =
     (if arg = CCAPI_DP_ARG_INVALID then Inr (Some p, w)
      else
        ub_bind (parse_argument os float_of_double arg p va w) (\<lambda>(r, w1).
          case r of
            None \<Rightarrow> Inr (None, w1)
          | Some (p', va') \<Rightarrow> parse_arguments os float_of_double args p' va' w1))"

definition empty_data_point :: connector_data_point_t where
  "empty_data_point =
     \<lparr>pt_data = Native_Bits 0, pt_time_source = connector_time_cloud, pt_time = Time_Whole 0,
      pt_location = None, pt_quality = None\<rparr>"

definition parse_argument_list_and_create_data_point ::
  "'w os \<Rightarrow> (u64 \<Rightarrow> u32) \<Rightarrow> ccapi_dp_argument_t list \<Rightarrow> va_argument list \<Rightarrow> 'w
     \<Rightarrow> (ccapi_dp_error_t \<times> connector_data_point_t option \<times> 'w) ub" where
  "parse_argument_list_and_create_data_point os float_of_double args va w =
     (case ccapi_malloc os (Sizeof ''connector_data_point_t'') w of
        (False, w1) \<Rightarrow> Inr (CCAPI_DP_ERROR_INSUFFICIENT_MEMORY, None, w1)
      | (True, w1) \<Rightarrow>
          ub_bind (parse_arguments os float_of_double args empty_data_point va w1) (\<lambda>(r, w2).
            Inr (if r = None then CCAPI_DP_ERROR_INSUFFICIENT_MEMORY else CCAPI_DP_ERROR_NONE, r, w2)))"

subsection \<open>Collections\<close>

record ccapi_dp_data_stream_t =
  st_stream_id :: string
  st_unit :: "string option"
  st_forward_to :: "string option"
  st_type :: "connector_data_point_type_t option"
  st_arguments :: "ccapi_dp_argument_t list"
  st_point :: "connector_data_point_t list"
  st_ccfsm_next :: ptr
  st_next :: ptr

record ccapi_dp_collection_t =
  dc_streams :: "nat \<rightharpoonup> ccapi_dp_data_stream_t"
  dc_fresh :: nat
  dc_list :: ptr
  dc_count :: u32
  dc_lock :: ptr

text \<open>\<open>None\<close> is a NULL handle.\<close>

definition ccapi_dp_create_collection ::
  "'w os \<Rightarrow> bool \<Rightarrow> 'w \<Rightarrow> ccapi_dp_error_t \<times> ccapi_dp_collection_t option \<times> 'w" where
  "ccapi_dp_create_collection os nonnull w =
     (if \<not> nonnull then (CCAPI_DP_ERROR_INVALID_ARGUMENT, None, w)
      else
        (case ccapi_malloc os (Sizeof ''ccapi_dp_collection_t'') w of
           (False, w1) \<Rightarrow> (CCAPI_DP_ERROR_INSUFFICIENT_MEMORY, None, w1)
         | (True, w1) \<Rightarrow>
             (case ccapi_lock_create_and_release os w1 of
                (None, w2) \<Rightarrow> (CCAPI_DP_ERROR_LOCK_FAILED, None, snd (ccapi_free os True w2))
              | (Some l, w2) \<Rightarrow>
                  (CCAPI_DP_ERROR_NONE,
                   Some \<lparr>dc_streams = Map.empty, dc_fresh = 0, dc_list = None, dc_count = 0, dc_lock = Some l\<rparr>,
                   w2))))"

definition free_blocks :: "'w os \<Rightarrow> bool list \<Rightarrow> 'w \<Rightarrow> 'w" where
  "free_blocks os ps w = fold (\<lambda>p w. snd (ccapi_free os p w)) ps w"

text \<open>The pointers of the connector's stream, and the stream itself.\<close>

definition free_ccfsm_stream :: "'w os \<Rightarrow> bool \<Rightarrow> string option \<Rightarrow> string option \<Rightarrow> 'w \<Rightarrow> 'w" where
  "free_ccfsm_stream os stream_id unit forward_to w =
     free_blocks os [stream_id, unit \<noteq> None, forward_to \<noteq> None, True] w"

partial_function (option) free_streams ::
  "'w os \<Rightarrow> ptr \<Rightarrow> (nat \<rightharpoonup> ccapi_dp_data_stream_t) \<Rightarrow> 'w \<Rightarrow> ((nat \<rightharpoonup> ccapi_dp_data_stream_t) \<times> 'w) run"
where
  "free_streams os p h w =
     (case p of
        None \<Rightarrow> Some (Inr (h, w))
      | Some a \<Rightarrow>
          (case h a of
             None \<Rightarrow> Some (Inl Use_After_Free)
           | Some s \<Rightarrow>
               (case free_data_points_in_data_stream os (st_type s) (st_point s) w of
                  Inl e \<Rightarrow> Some (Inl e)
                | Inr (n, w1) \<Rightarrow>
                    free_streams os (st_next s) (h(a := None))
                      (free_blocks os [True, True]
                        (free_ccfsm_stream os True (st_unit s) (st_forward_to s) w1)))))"

definition free_collection ::
  "'w os \<Rightarrow> ccapi_dp_collection_t \<Rightarrow> 'w \<Rightarrow> (ccapi_dp_collection_t \<times> 'w) run" where
  "free_collection os c w =
     run_bind (free_streams os (dc_list c) (dc_streams c) w) (\<lambda>(h, w1).
       Some (Inr (c\<lparr>dc_streams := h\<rparr>, w1)))"

definition ccapi_dp_clear_collection ::
  "'w os \<Rightarrow> ccapi_dp_collection_t option \<Rightarrow> 'w
     \<Rightarrow> (ccapi_dp_error_t \<times> ccapi_dp_collection_t option \<times> 'w) run" where
  "ccapi_dp_clear_collection os dp_collection w =
     (case dp_collection of
        None \<Rightarrow> Some (Inr (CCAPI_DP_ERROR_INVALID_ARGUMENT, None, w))
      | Some c \<Rightarrow>
          (case ccapi_lock_acquire os (dc_lock c) w of
             (status, w1) \<Rightarrow>
               (if status \<noteq> CCIMP_STATUS_OK then Some (Inr (CCAPI_DP_ERROR_LOCK_FAILED, Some c, w1))
                else
                  run_bind (free_collection os c w1) (\<lambda>(c1, w2).
                    case ccapi_lock_release os (dc_lock c1) w2 of
                      (status, w3) \<Rightarrow>
                        Some (Inr (if status = CCIMP_STATUS_OK then CCAPI_DP_ERROR_NONE
                                   else CCAPI_DP_ERROR_LOCK_FAILED, Some c1, w3))))))"

definition ccapi_dp_destroy_collection ::
  "'w os \<Rightarrow> ccapi_dp_collection_t option \<Rightarrow> 'w
     \<Rightarrow> (ccapi_dp_error_t \<times> ccapi_dp_collection_t option \<times> 'w) run" where
  "ccapi_dp_destroy_collection os dp_collection w =
     run_bind (ccapi_dp_clear_collection os dp_collection w) (\<lambda>(error, c, w1).
       if error \<noteq> CCAPI_DP_ERROR_NONE then Some (Inr (error, c, w1))
       else
         (case ccapi_lock_destroy os (dc_lock (the c)) w1 of
            (CCIMP_STATUS_OK, w2) \<Rightarrow> Some (Inr (CCAPI_DP_ERROR_NONE, None, snd (ccapi_free os True w2)))
          | (CCIMP_STATUS_ERROR, w2) \<Rightarrow> Some (Inr (CCAPI_DP_ERROR_LOCK_FAILED, c, w2))
          | (CCIMP_STATUS_BUSY, w2) \<Rightarrow> Some (Inr (CCAPI_DP_ERROR_NONE, c, w2))))"

partial_function (option) find_stream_from ::
  "(nat \<rightharpoonup> ccapi_dp_data_stream_t) \<Rightarrow> ptr \<Rightarrow> string \<Rightarrow> ptr run" where
  "find_stream_from h p stream_id =
     (case p of
        None \<Rightarrow> Some (Inr None)
      | Some a \<Rightarrow>
          (case h a of
             None \<Rightarrow> Some (Inl Use_After_Free)
           | Some s \<Rightarrow>
               (if st_stream_id s = stream_id then Some (Inr (Some a))
                else find_stream_from h (st_next s) stream_id)))"

definition find_stream_id_in_collection :: "ccapi_dp_collection_t \<Rightarrow> string \<Rightarrow> ptr run" where
  "find_stream_id_in_collection c stream_id = find_stream_from (dc_streams c) (dc_list c) stream_id"

subsection \<open>Adding and removing a stream\<close>

text \<open>
  The clean-up of an addition that failed: the argument list, the stream of the collection, and
  the stream of the connector with the strings it has so far.
\<close>

definition add_stream_cleanup ::
  "'w os \<Rightarrow> bool \<Rightarrow> (string option \<times> string option \<times> string option) option \<Rightarrow> 'w \<Rightarrow> 'w" where
  "add_stream_cleanup os ccapi_stream_info ccfsm_stream_info w =
     (let w1 = free_blocks os [True, ccapi_stream_info] w
      in case ccfsm_stream_info of
           None \<Rightarrow> w1
         | Some (stream_id, unit, forward_to) \<Rightarrow> free_ccfsm_stream os (stream_id \<noteq> None) unit forward_to w1)"

definition dup_optional :: "'w os \<Rightarrow> string option \<Rightarrow> 'w \<Rightarrow> (bool \<times> string option \<times> 'w)" where
  "dup_optional os s w =
     (case s of
        None \<Rightarrow> (True, None, w)
      | Some t \<Rightarrow> (case ccapi_strdup os t w of
                    (None, w1) \<Rightarrow> (False, None, w1)
                  | (Some t', w1) \<Rightarrow> (True, Some t', w1)))"

text \<open>The allocations: the new stream, or nothing when there was no memory for all of it.\<close>

definition create_stream ::
  "'w os \<Rightarrow> string \<Rightarrow> string option \<Rightarrow> string option \<Rightarrow> ccapi_dp_argument_t list \<Rightarrow> ptr \<Rightarrow> 'w
     \<Rightarrow> ccapi_dp_data_stream_t option \<times> 'w" where
  "create_stream os stream_id units forward_to args next_stream w =
     (case ccapi_malloc os (Sizeof ''ccapi_dp_data_stream_t'') w of
        (False, w1) \<Rightarrow> (None, add_stream_cleanup os False None w1)
      | (True, w1) \<Rightarrow>
          (case ccapi_malloc os (Sizeof ''connector_data_stream_t'') w1 of
             (False, w2) \<Rightarrow> (None, add_stream_cleanup os True None w2)
           | (True, w2) \<Rightarrow>
               (case ccapi_strdup os stream_id w2 of
                  (None, w3) \<Rightarrow> (None, add_stream_cleanup os True (Some (None, None, None)) w3)
                | (Some id', w3) \<Rightarrow>
                    (case dup_optional os units w3 of
                       (False, _, w4) \<Rightarrow> (None, add_stream_cleanup os True (Some (Some id', None, None)) w4)
                     | (True, unit', w4) \<Rightarrow>
                         (case dup_optional os forward_to w4 of
                            (False, _, w5) \<Rightarrow> (None, add_stream_cleanup os True (Some (Some id', unit', None)) w5)
                          | (True, forward', w5) \<Rightarrow>
                              (Some \<lparr>st_stream_id = id', st_unit = unit', st_forward_to = forward',
                                     st_type = get_data_stream_type_from_arg_list args, st_arguments = args,
                                     st_point = [], st_ccfsm_next = None, st_next = next_stream\<rparr>, w5))))))"

definition release_collection ::
  "'w os \<Rightarrow> ccapi_dp_error_t \<Rightarrow> ccapi_dp_collection_t \<Rightarrow> 'w
     \<Rightarrow> ccapi_dp_error_t \<times> ccapi_dp_collection_t option \<times> 'w" where
  "release_collection os error c w =
     (case ccapi_lock_release os (dc_lock c) w of
        (status, w1) \<Rightarrow> (if status = CCIMP_STATUS_OK then error else CCAPI_DP_ERROR_LOCK_FAILED, Some c, w1))"

definition ccapi_dp_add_data_stream_to_collection_extra ::
  "'w os \<Rightarrow> ccapi_dp_collection_t option \<Rightarrow> string option \<Rightarrow> string option \<Rightarrow> string option \<Rightarrow> string option
     \<Rightarrow> 'w \<Rightarrow> (ccapi_dp_error_t \<times> ccapi_dp_collection_t option \<times> 'w) run" where
  "ccapi_dp_add_data_stream_to_collection_extra os dp_collection stream_id format_string units forward_to w =
     (case dp_collection of
        None \<Rightarrow> Some (Inr (CCAPI_DP_ERROR_INVALID_ARGUMENT, None, w))
      | Some c \<Rightarrow>
          (if \<not> valid_stream_id stream_id then Some (Inr (CCAPI_DP_ERROR_INVALID_STREAM_ID, Some c, w))
           else if \<not> valid_format_string format_string then Some (Inr (CCAPI_DP_ERROR_INVALID_FORMAT, Some c, w))
           else if forward_to \<noteq> None \<and> \<not> valid_stream_id forward_to
           then Some (Inr (CCAPI_DP_ERROR_INVALID_FORWARD_TO, Some c, w))
           else if units \<noteq> None \<and> \<not> valid_units units then Some (Inr (CCAPI_DP_ERROR_INVALID_UNITS, Some c, w))
           else
             run_bind (Some (get_arg_list_from_format_string os (the format_string) w)) (\<lambda>(error, arg_list, w1).
               if error \<noteq> CCAPI_DP_ERROR_NONE then Some (Inr (error, Some c, w1))
               else
                 (case ccapi_lock_acquire os (dc_lock c) w1 of
                    (status, w2) \<Rightarrow>
                      (if status \<noteq> CCIMP_STATUS_OK
                       then Some (Inr (CCAPI_DP_ERROR_LOCK_FAILED, Some c, add_stream_cleanup os False None w2))
                       else
                         run_bind (find_stream_id_in_collection c (the stream_id)) (\<lambda>found.
                           if found \<noteq> None
                           then Some (Inr (release_collection os CCAPI_DP_ERROR_INVALID_STREAM_ID c
                                             (add_stream_cleanup os False None w2)))
                           else
                             (case create_stream os (the stream_id) units forward_to (the arg_list) (dc_list c) w2 of
                                (None, w3) \<Rightarrow>
                                  Some (Inr (release_collection os CCAPI_DP_ERROR_INSUFFICIENT_MEMORY c w3))
                              | (Some s, w3) \<Rightarrow>
                                  Some (Inr (release_collection os CCAPI_DP_ERROR_NONE
                                    (c\<lparr>dc_streams := (dc_streams c)(dc_fresh c \<mapsto> s), dc_list := Some (dc_fresh c),
                                       dc_fresh := Suc (dc_fresh c)\<rparr>) w3)))))))))"

definition ccapi_dp_add_data_stream_to_collection ::
  "'w os \<Rightarrow> ccapi_dp_collection_t option \<Rightarrow> string option \<Rightarrow> string option \<Rightarrow> 'w
     \<Rightarrow> (ccapi_dp_error_t \<times> ccapi_dp_collection_t option \<times> 'w) run" where
  "ccapi_dp_add_data_stream_to_collection os dp_collection stream_id format_string w =
     ccapi_dp_add_data_stream_to_collection_extra os dp_collection stream_id format_string None None w"

text \<open>
  The loop of the removal. It goes on after the stream it frees, and follows the \<open>next\<close> pointer
  of what it just freed.
\<close>

definition free_ccapi_data_stream :: "'w os \<Rightarrow> ccapi_dp_data_stream_t \<Rightarrow> 'w \<Rightarrow> 'w" where
  "free_ccapi_data_stream os s w =
     free_blocks os [True, True, st_unit s \<noteq> None, st_forward_to s \<noteq> None, True, True] w"

partial_function (option) remove_streams ::
  "'w os \<Rightarrow> string \<Rightarrow> ptr \<Rightarrow> ptr \<Rightarrow> bool \<Rightarrow> ccapi_dp_collection_t \<Rightarrow> 'w \<Rightarrow> (bool \<times> ccapi_dp_collection_t \<times> 'w) run"
where
  "remove_streams os stream_id current previous found c w =
     (case current of
        None \<Rightarrow> Some (Inr (found, c, w))
      | Some a \<Rightarrow>
          (case dc_streams c a of
             None \<Rightarrow> Some (Inl Use_After_Free)
           | Some s \<Rightarrow>
               (if st_stream_id s \<noteq> stream_id
                then remove_streams os stream_id (st_next s) (Some a) found c w
                else
                  (case (case previous of
                           None \<Rightarrow> Inr (c\<lparr>dc_list := None\<rparr>)
                         | Some b \<Rightarrow>
                             (case dc_streams c b of
                                None \<Rightarrow> Inl Use_After_Free
                              | Some t \<Rightarrow>
                                  Inr (c\<lparr>dc_streams := (dc_streams c)(b \<mapsto> t\<lparr>st_next := st_next s\<rparr>)\<rparr>))) of
                     Inl e \<Rightarrow> Some (Inl e)
                   | Inr c1 \<Rightarrow>
                       (case free_data_points_in_data_stream os (st_type s) (st_point s) w of
                          Inl e \<Rightarrow> Some (Inl e)
                        | Inr (dp_freed_count, w1) \<Rightarrow>
                            (let c2 = c1\<lparr>dc_count := dc_count c1 - dp_freed_count,
                                         dc_streams := (dc_streams c1)(a := None)\<rparr>
                             in case dc_streams c2 a of
                                  None \<Rightarrow> Some (Inl Use_After_Free)
                                | Some s' \<Rightarrow>
                                    remove_streams os stream_id (st_next s') (Some a) True c2
                                      (free_ccapi_data_stream os s w1)))))))"

definition ccapi_dp_remove_data_stream_from_collection ::
  "'w os \<Rightarrow> ccapi_dp_collection_t option \<Rightarrow> string option \<Rightarrow> 'w
     \<Rightarrow> (ccapi_dp_error_t \<times> ccapi_dp_collection_t option \<times> 'w) run" where
  "ccapi_dp_remove_data_stream_from_collection os dp_collection stream_id w =
     (if dp_collection = None \<or> \<not> valid_stream_id stream_id
      then Some (Inr (CCAPI_DP_ERROR_INVALID_ARGUMENT, dp_collection, w))
      else
        (let c = the dp_collection
         in if dc_list c = None then Some (Inr (CCAPI_DP_ERROR_INVALID_STREAM_ID, Some c, w))
            else
              (case ccapi_lock_acquire os (dc_lock c) w of
                 (status, w1) \<Rightarrow>
                   (if status \<noteq> CCIMP_STATUS_OK then Some (Inr (CCAPI_DP_ERROR_LOCK_FAILED, Some c, w1))
                    else
                      run_bind (remove_streams os (the stream_id) (dc_list c) None False c w1) (\<lambda>(found, c1, w2).
                        case ccapi_lock_release os (dc_lock c1) w2 of
                          (status, w3) \<Rightarrow>
                            Some (Inr (if status \<noteq> CCIMP_STATUS_OK then CCAPI_DP_ERROR_LOCK_FAILED
                                       else if \<not> found then CCAPI_DP_ERROR_INVALID_STREAM_ID
                                       else CCAPI_DP_ERROR_NONE, Some c1, w3)))))))"

subsection \<open>Adding and removing points\<close>

definition ccapi_dp_get_collection_points_count ::
  "ccapi_dp_collection_t option \<Rightarrow> bool \<Rightarrow> ccapi_dp_error_t \<times> u32 option" where
  "ccapi_dp_get_collection_points_count dp_collection nonnull =
     (case dp_collection of
        None \<Rightarrow> (CCAPI_DP_ERROR_INVALID_ARGUMENT, None)
      | Some c \<Rightarrow> if \<not> nonnull then (CCAPI_DP_ERROR_INVALID_ARGUMENT, None)
                  else (CCAPI_DP_ERROR_NONE, Some (dc_count c)))"

definition push_point :: "nat \<Rightarrow> connector_data_point_t \<Rightarrow> ccapi_dp_collection_t \<Rightarrow> ccapi_dp_collection_t" where
  "push_point a p c =
     (case dc_streams c a of
        None \<Rightarrow> c
      | Some s \<Rightarrow> c\<lparr>dc_streams := (dc_streams c)(a \<mapsto> s\<lparr>st_point := p # st_point s\<rparr>), dc_count := dc_count c + 1\<rparr>)"

definition ccapi_dp_add ::
  "'w os \<Rightarrow> (u64 \<Rightarrow> u32) \<Rightarrow> ccapi_dp_collection_t option \<Rightarrow> string option \<Rightarrow> va_argument list \<Rightarrow> 'w
     \<Rightarrow> (ccapi_dp_error_t \<times> ccapi_dp_collection_t option \<times> 'w) run" where
  "ccapi_dp_add os float_of_double dp_collection stream_id va w =
     (case dp_collection of
        None \<Rightarrow> Some (Inr (CCAPI_DP_ERROR_INVALID_ARGUMENT, None, w))
      | Some c \<Rightarrow>
          (case ccapi_lock_acquire os (dc_lock c) w of
             (status, w1) \<Rightarrow>
               (if status \<noteq> CCIMP_STATUS_OK then Some (Inr (CCAPI_DP_ERROR_LOCK_FAILED, Some c, w1))
                else if \<not> valid_stream_id stream_id
                then Some (Inr (release_collection os CCAPI_DP_ERROR_INVALID_STREAM_ID c w1))
                else
                  run_bind (find_stream_id_in_collection c (the stream_id)) (\<lambda>found.
                    case found of
                      None \<Rightarrow> Some (Inr (release_collection os CCAPI_DP_ERROR_INVALID_STREAM_ID c w1))
                    | Some a \<Rightarrow>
                        (case dc_streams c a of
                           None \<Rightarrow> Some (Inl Use_After_Free)
                         | Some s \<Rightarrow>
                             run_bind (Some (parse_argument_list_and_create_data_point os float_of_double
                                              (st_arguments s) va w1)) (\<lambda>(error, point, w2).
                               if error \<noteq> CCAPI_DP_ERROR_NONE
                               then Some (Inr (release_collection os error c w2))
                               else Some (Inr (release_collection os CCAPI_DP_ERROR_NONE
                                                (push_point a (the point) c) w2))))))))"

partial_function (option) remove_head_points ::
  "'w os \<Rightarrow> ptr \<Rightarrow> ccapi_dp_collection_t \<Rightarrow> 'w \<Rightarrow> (ccapi_dp_collection_t \<times> 'w) run" where
  "remove_head_points os current c w =
     (case current of
        None \<Rightarrow> Some (Inr (c, w))
      | Some a \<Rightarrow>
          (case dc_streams c a of
             None \<Rightarrow> Some (Inl Use_After_Free)
           | Some s \<Rightarrow>
               (case st_point s of
                  [] \<Rightarrow> remove_head_points os (st_next s) c w
                | rm_point # points \<Rightarrow>
                    (case free_data_point os rm_point (st_type s) w of
                       Inl e \<Rightarrow> Some (Inl e)
                     | Inr w1 \<Rightarrow>
                         remove_head_points os (st_next s)
                           (c\<lparr>dc_streams := (dc_streams c)(a \<mapsto> s\<lparr>st_point := points\<rparr>),
                              dc_count := dc_count c - 1\<rparr>) w1))))"

definition ccapi_dp_remove_older_data_point_from_streams ::
  "'w os \<Rightarrow> ccapi_dp_collection_t option \<Rightarrow> 'w \<Rightarrow> (ccapi_dp_error_t \<times> ccapi_dp_collection_t option \<times> 'w) run"
where
  "ccapi_dp_remove_older_data_point_from_streams os dp_collection w =
     (case dp_collection of
        None \<Rightarrow> Some (Inr (CCAPI_DP_ERROR_INVALID_ARGUMENT, None, w))
      | Some c \<Rightarrow>
          run_bind (remove_head_points os (dc_list c) c w) (\<lambda>(c1, w1).
            Some (Inr (CCAPI_DP_ERROR_NONE, Some c1, w1))))"

subsection \<open>What a send does to the streams\<close>

text \<open>The stream of the connector points to that of the next stream; the last one is not touched.\<close>

definition chain_to_next :: "nat \<Rightarrow> ccapi_dp_data_stream_t \<Rightarrow> ccapi_dp_collection_t \<Rightarrow> ccapi_dp_collection_t ub" where
  "chain_to_next a s c =
     (case st_next s of
        None \<Rightarrow> Inr c
      | Some b \<Rightarrow>
          (case dc_streams c b of
             None \<Rightarrow> Inl Use_After_Free
           | Some t \<Rightarrow> Inr (c\<lparr>dc_streams := (dc_streams c)(a \<mapsto> s\<lparr>st_ccfsm_next := Some b\<rparr>)\<rparr>)))"

partial_function (option) chain_streams :: "ptr \<Rightarrow> ccapi_dp_collection_t \<Rightarrow> ccapi_dp_collection_t run" where
  "chain_streams current c =
     (case current of
        None \<Rightarrow> Some (Inr c)
      | Some a \<Rightarrow>
          (case dc_streams c a of
             None \<Rightarrow> Some (Inl Use_After_Free)
           | Some s \<Rightarrow>
               (case chain_to_next a s c of
                  Inl e \<Rightarrow> Some (Inl e)
                | Inr c1 \<Rightarrow> chain_streams (st_next s) c1)))"

definition chain_collection_ccfsm_data_streams :: "ccapi_dp_collection_t \<Rightarrow> ccapi_dp_collection_t run" where
  "chain_collection_ccfsm_data_streams c = chain_streams (dc_list c) c"

partial_function (option) free_all_points ::
  "'w os \<Rightarrow> ptr \<Rightarrow> ccapi_dp_collection_t \<Rightarrow> 'w \<Rightarrow> (ccapi_dp_collection_t \<times> 'w) run" where
  "free_all_points os current c w =
     (case current of
        None \<Rightarrow> Some (Inr (c, w))
      | Some a \<Rightarrow>
          (case dc_streams c a of
             None \<Rightarrow> Some (Inl Use_After_Free)
           | Some s \<Rightarrow>
               (case chain_to_next a s c of
                  Inl e \<Rightarrow> Some (Inl e)
                | Inr c1 \<Rightarrow>
                    (case free_data_points_in_data_stream os (st_type s) (st_point s) w of
                       Inl e \<Rightarrow> Some (Inl e)
                     | Inr (n, w1) \<Rightarrow>
                         free_all_points os (st_next s)
                           (c1\<lparr>dc_streams := (dc_streams c1)(a \<mapsto> (the (dc_streams c1 a))\<lparr>st_point := []\<rparr>)\<rparr>)
                           w1))))"

definition free_data_points_from_collection ::
  "'w os \<Rightarrow> ccapi_dp_collection_t \<Rightarrow> 'w \<Rightarrow> (ccapi_dp_collection_t \<times> 'w) run" where
  "free_data_points_from_collection os c w =
     run_bind (free_all_points os (dc_list c) c w) (\<lambda>(c1, w1). Some (Inr (c1\<lparr>dc_count := 0\<rparr>, w1)))"

end
