(* ===== verification/DatapointSend.thy ===== *)
theory DatapointSend
  imports Datapoints Send
begin

text \<open>
  Sending a collection: \<open>send_collection\<close> of source/ccapi_datapoints.c and
  \<open>ccapi_data_points_handler\<close> of source/ccapi.c, which serves the requests of the connector for
  the transaction. The requests that are served while the sender waits are an argument, as for
  the other sends; the streams are read by the connector, which is not part of this repository.
\<close>

subsection \<open>The transaction\<close>

text \<open>\<open>ti_status\<close> is not written before the connector reports the status.\<close>

record ccapi_dp_transaction_info_t =
  ti_lock :: ptr
  ti_hint :: "ccapi_string_info_t option"
  ti_response_error :: ccapi_dp_error_t
  ti_status :: "ccapi_dp_error_t option"

datatype connector_data_point_response_type_t =
    connector_data_point_response_success
  | connector_data_point_response_bad_request
  | connector_data_point_response_unavailable
  | connector_data_point_response_cloud_error

datatype connector_data_point_status_type_t =
    connector_data_point_status_complete
  | connector_data_point_status_cancel
  | connector_data_point_status_timeout
  | connector_data_point_status_invalid_data
  | connector_data_point_status_session_error

datatype data_point_request =
    connector_request_id_data_point_response connector_data_point_response_type_t "string option"
  | connector_request_id_data_point_status connector_data_point_status_type_t
  | connector_request_id_data_point_binary_response
  | connector_request_id_data_point_binary_status

definition dp_response_error :: "connector_data_point_response_type_t \<Rightarrow> ccapi_dp_error_t" where
  "dp_response_error response =
     (case response of
        connector_data_point_response_success \<Rightarrow> CCAPI_DP_ERROR_NONE
      | connector_data_point_response_bad_request \<Rightarrow> CCAPI_DP_ERROR_RESPONSE_BAD_REQUEST
      | connector_data_point_response_unavailable \<Rightarrow> CCAPI_DP_ERROR_RESPONSE_UNAVAILABLE
      | connector_data_point_response_cloud_error \<Rightarrow> CCAPI_DP_ERROR_RESPONSE_CLOUD_ERROR)"

definition dp_status_error :: "connector_data_point_status_type_t \<Rightarrow> ccapi_dp_error_t" where
  "dp_status_error status =
     (case status of
        connector_data_point_status_complete \<Rightarrow> CCAPI_DP_ERROR_NONE
      | connector_data_point_status_cancel \<Rightarrow> CCAPI_DP_ERROR_STATUS_CANCEL
      | connector_data_point_status_timeout \<Rightarrow> CCAPI_DP_ERROR_STATUS_TIMEOUT
      | connector_data_point_status_invalid_data \<Rightarrow> CCAPI_DP_ERROR_STATUS_INVALID_DATA
      | connector_data_point_status_session_error \<Rightarrow> CCAPI_DP_ERROR_STATUS_SESSION_ERROR)"

text \<open>Unlike a send of data, the length of the caller's buffer becomes the length of the hint.\<close>

definition copy_dp_hint :: "ccapi_string_info_t \<Rightarrow> string \<Rightarrow> ccapi_string_info_t ub" where
  "copy_dp_hint hint hint_text =
     (let max_hint_length = unat (string_length hint - 1)
      in ub_bind (strncpy_to (info_string hint) hint_text max_hint_length)
           (\<lambda>buf. ub_bind (memcpy_at buf max_hint_length [CHR 0x00])
             (\<lambda>buf'. Inr \<lparr>info_string = Some buf', string_length = of_nat (length hint_text)\<rparr>)))"

definition ccapi_data_points_handler ::
  "'w os \<Rightarrow> data_point_request \<Rightarrow> ccapi_dp_transaction_info_t \<Rightarrow> 'w
     \<Rightarrow> (connector_callback_status_t \<times> ccapi_dp_transaction_info_t \<times> 'w) ub" where
  "ccapi_data_points_handler os request t w =
     (case request of
        connector_request_id_data_point_response response hint_text \<Rightarrow>
          (let t1 = t\<lparr>ti_response_error := dp_response_error response\<rparr>
           in case (hint_text, ti_hint t1) of
                (Some s, Some hint) \<Rightarrow>
                  ub_bind (copy_dp_hint hint s) (\<lambda>hint'.
                    Inr (connector_callback_continue, t1\<lparr>ti_hint := Some hint'\<rparr>, w))
              | _ \<Rightarrow> Inr (connector_callback_continue, t1, w))
      | connector_request_id_data_point_status status \<Rightarrow>
          (let t1 = t\<lparr>ti_status := Some (dp_status_error status)\<rparr>
           in case ccapi_lock_release os (ti_lock t1) w of
                (lock_status, w1) \<Rightarrow>
                  Inr (connector_callback_status_from_ccimp_status lock_status, t1, w1))
      | connector_request_id_data_point_binary_response \<Rightarrow> Inr (connector_callback_unrecognized, t, w)
      | connector_request_id_data_point_binary_status \<Rightarrow> Inr (connector_callback_unrecognized, t, w))"

primrec serve_data_point_requests ::
  "'w os \<Rightarrow> data_point_request list \<Rightarrow> ccapi_dp_transaction_info_t \<Rightarrow> 'w
     \<Rightarrow> (ccapi_dp_transaction_info_t \<times> 'w) ub" where
  "serve_data_point_requests os [] t w = Inr (t, w)"
| "serve_data_point_requests os (x # xs) t w =
     ub_bind (ccapi_data_points_handler os x t w) (\<lambda>(status, t1, w1). serve_data_point_requests os xs t1 w1)"

subsection \<open>Sending\<close>

record connector_request_data_point_t =
  dpr_response_required :: bool
  dpr_timeout_in_seconds :: u64
  dpr_transport :: connector_transport_t
  dpr_stream :: ptr

record 'w dp_env =
  de_os :: "'w os"
  de_initiate :: "connector_request_data_point_t \<Rightarrow> 'w \<Rightarrow> connector_status_t \<times> 'w"
  de_requests :: "data_point_request list"

text \<open>The label \<open>done\<close>: the transaction and its lock, then the lock of the collection.\<close>

definition send_collection_done ::
  "'w os \<Rightarrow> ccapi_dp_transaction_info_t option \<Rightarrow> bool \<Rightarrow> ccapi_dp_error_t
     \<Rightarrow> ccapi_dp_collection_t \<Rightarrow> 'w \<Rightarrow> ccapi_dp_error_t \<times> ccapi_dp_collection_t option \<times> 'w" where
  "send_collection_done os transaction_info collection_lock_acquired error c w =
     (let w1 = (case transaction_info of
                  None \<Rightarrow> w
                | Some t \<Rightarrow>
                    snd (ccapi_free os True
                      (if ti_lock t \<noteq> None then snd (ccapi_lock_destroy os (ti_lock t) w) else w)))
      in if collection_lock_acquired then release_collection os error c w1 else (error, Some c, w1))"

text \<open>What a status of the connector and of the transaction means for the caller.\<close>

definition transaction_outcome :: "ccapi_dp_transaction_info_t \<Rightarrow> ccapi_dp_error_t ub" where
  "transaction_outcome t =
     (if ti_response_error t \<noteq> CCAPI_DP_ERROR_NONE then Inr (ti_response_error t)
      else read_field (ti_status t))"

text \<open>From the call of the connector on, with the collection locked and chained.\<close>

definition perform_send_collection ::
  "'w dp_env \<Rightarrow> 'w send_state \<Rightarrow> connector_request_data_point_t \<Rightarrow> ccapi_dp_transaction_info_t
     \<Rightarrow> ccapi_dp_collection_t \<Rightarrow> 'w
     \<Rightarrow> (ccapi_dp_error_t \<times> ccapi_dp_transaction_info_t \<times> ccapi_dp_collection_t \<times> 'w) run" where
  "perform_send_collection env d ccfsm_request t c w =
     (let os = de_os env
      in case initiate_until_not_busy os (de_initiate env) (sd_initiate_lock d) (sd_run_lock d) ccfsm_request w of
           None \<Rightarrow> None
         | Some (ccfsm_status, w1) \<Rightarrow>
             (if ccfsm_status \<noteq> connector_success
              then Some (Inr (CCAPI_DP_ERROR_INITIATE_ACTION_FAILED, t, c, w1))
              else
                run_bind (Some (serve_data_point_requests os (de_requests env) t w1)) (\<lambda>(t1, w2).
                  case ccapi_lock_acquire os (ti_lock t1) w2 of
                    (ccimp_status, w3) \<Rightarrow>
                      (if ccimp_status \<noteq> CCIMP_STATUS_OK then Some (Inr (CCAPI_DP_ERROR_LOCK_FAILED, t1, c, w3))
                       else
                         run_bind (Some (transaction_outcome t1)) (\<lambda>error.
                           if error \<noteq> CCAPI_DP_ERROR_NONE then Some (Inr (error, t1, c, w3))
                           else
                             run_bind (free_data_points_from_collection os c w3) (\<lambda>(c1, w4).
                               Some (Inr (CCAPI_DP_ERROR_NONE, t1, c1, w4))))))))"

text \<open>
  The result is the error, the hint of the caller, the collection and the world. \<open>None\<close> is a
  NULL collection or \<open>ccapi_data\<close>.
\<close>

type_synonym 'w dp_send_result =
  "(ccapi_dp_error_t \<times> ccapi_string_info_t option \<times> ccapi_dp_collection_t option \<times> 'w) run"

definition send_collection ::
  "'w dp_env \<Rightarrow> 'w send_state option \<Rightarrow> ccapi_transport_t \<Rightarrow> ccapi_dp_collection_t option \<Rightarrow> bool \<Rightarrow> u64
     \<Rightarrow> ccapi_string_info_t option \<Rightarrow> 'w \<Rightarrow> 'w dp_send_result" where
  "send_collection env ccapi_data transport dp_collection with_reply timeout hint w =
     (let os = de_os env
      in if dp_collection = None \<or> dc_list (the dp_collection) = None
         then Some (Inr (CCAPI_DP_ERROR_INVALID_ARGUMENT, hint, dp_collection, w))
         else if \<not> send_running ccapi_data
         then Some (Inr (CCAPI_DP_ERROR_CCAPI_NOT_RUNNING, hint, dp_collection, w))
         else if \<not> transport_started (the ccapi_data) transport
         then Some (Inr (CCAPI_DP_ERROR_TRANSPORT_NOT_STARTED, hint, dp_collection, w))
         else
           (let c = the dp_collection;
                d = the ccapi_data
            in case ccapi_malloc os (Sizeof ''ccapi_dp_transaction_info_t'') w of
                 (False, w1) \<Rightarrow> Some (Inr (CCAPI_DP_ERROR_INSUFFICIENT_MEMORY, hint, Some c, w1))
               | (True, w1) \<Rightarrow>
                   (case ccapi_lock_create os w1 of
                      (lock, w2) \<Rightarrow>
                        (let t = \<lparr>ti_lock = lock, ti_hint = hint,
                                  ti_response_error = CCAPI_DP_ERROR_INITIATE_ACTION_FAILED, ti_status = None\<rparr>;
                             finish = (\<lambda>t locked error c w.
                               case send_collection_done os (Some t) locked error c w of
                                 (e, c', w') \<Rightarrow> Some (Inr (e, ti_hint t, c', w')))
                         in if lock = None then finish t False CCAPI_DP_ERROR_LOCK_FAILED c w2
                            else
                              (case ccapi_lock_acquire os (dc_lock c) w2 of
                                 (status, w3) \<Rightarrow>
                                   (if status \<noteq> CCIMP_STATUS_OK
                                    then finish t False CCAPI_DP_ERROR_LOCK_FAILED c w3
                                    else
                                      run_bind (chain_collection_ccfsm_data_streams c) (\<lambda>c1.
                                        run_bind (perform_send_collection env d
                                            \<lparr>dpr_response_required = with_reply, dpr_timeout_in_seconds = timeout,
                                             dpr_transport = ccapi_to_connector_transport transport,
                                             dpr_stream = dc_list c1\<rparr> t c1 w3)
                                          (\<lambda>(error, t1, c2, w4). finish t1 True error c2 w4))))))))"

definition ccxapi_dp_send_collection ::
  "'w dp_env \<Rightarrow> 'w send_state option \<Rightarrow> ccapi_transport_t \<Rightarrow> ccapi_dp_collection_t option \<Rightarrow> 'w
     \<Rightarrow> 'w dp_send_result" where
  "ccxapi_dp_send_collection env ccapi_data transport dp_collection w =
     send_collection env ccapi_data transport dp_collection False OS_LOCK_ACQUIRE_INFINITE None w"

definition ccxapi_dp_send_collection_with_reply ::
  "'w dp_env \<Rightarrow> 'w send_state option \<Rightarrow> ccapi_transport_t \<Rightarrow> ccapi_dp_collection_t option \<Rightarrow> u64
     \<Rightarrow> ccapi_string_info_t option \<Rightarrow> 'w \<Rightarrow> 'w dp_send_result" where
  "ccxapi_dp_send_collection_with_reply env ccapi_data transport dp_collection timeout hint w =
     send_collection env ccapi_data transport dp_collection True timeout hint w"

definition ccapi_dp_send_collection ::
  "'w dp_env \<Rightarrow> 'w send_state option \<Rightarrow> ccapi_transport_t \<Rightarrow> ccapi_dp_collection_t option \<Rightarrow> 'w
     \<Rightarrow> 'w dp_send_result" where
  "ccapi_dp_send_collection env ccapi_data_single_instance transport dp_collection w =
     ccxapi_dp_send_collection env ccapi_data_single_instance transport dp_collection w"

definition ccapi_dp_send_collection_with_reply ::
  "'w dp_env \<Rightarrow> 'w send_state option \<Rightarrow> ccapi_transport_t \<Rightarrow> ccapi_dp_collection_t option \<Rightarrow> u64
     \<Rightarrow> ccapi_string_info_t option \<Rightarrow> 'w \<Rightarrow> 'w dp_send_result" where
  "ccapi_dp_send_collection_with_reply env ccapi_data_single_instance transport dp_collection timeout hint w =
     ccxapi_dp_send_collection_with_reply env ccapi_data_single_instance transport dp_collection timeout hint w"

end
