(* ===== verification/DatapointFormatProps.thy ===== *)
theory DatapointFormatProps
  imports DatapointFormat
begin

text \<open>
  What formats are accepted: exactly the printed lists of arguments of different kinds, with at
  most one separator after them.
\<close>

subsection \<open>The printer\<close>

definition arg_key :: "ccapi_dp_argument_t \<Rightarrow> string" where
  "arg_key arg =
     (case arg of
        CCAPI_DP_ARG_DATA_INT32 \<Rightarrow> ''int32''
      | CCAPI_DP_ARG_DATA_INT64 \<Rightarrow> ''int64''
      | CCAPI_DP_ARG_DATA_FLOAT \<Rightarrow> ''float''
      | CCAPI_DP_ARG_DATA_DOUBLE \<Rightarrow> ''double''
      | CCAPI_DP_ARG_DATA_STRING \<Rightarrow> ''string''
      | CCAPI_DP_ARG_DATA_JSON \<Rightarrow> ''json''
      | CCAPI_DP_ARG_DATA_GEOJSON \<Rightarrow> ''geojson''
      | CCAPI_DP_ARG_TS_EPOCH \<Rightarrow> ''ts_epoch''
      | CCAPI_DP_ARG_TS_EPOCH_MS \<Rightarrow> ''ts_epoch_ms''
      | CCAPI_DP_ARG_TS_ISO8601 \<Rightarrow> ''ts_iso''
      | CCAPI_DP_ARG_LOCATION \<Rightarrow> ''loc''
      | CCAPI_DP_ARG_QUALITY \<Rightarrow> ''qual''
      | CCAPI_DP_ARG_INVALID \<Rightarrow> [])"

fun join_keywords :: "string list \<Rightarrow> string" where
  "join_keywords [] = []"
| "join_keywords [k] = k"
| "join_keywords (k # k' # ks) = k @ '' '' @ join_keywords (k' # ks)"

definition print_format :: "ccapi_dp_argument_t list \<Rightarrow> string" where
  "print_format args = join_keywords (map arg_key args)"

lemma keyword_arg_key:
  "keyword_arg k = a \<and> a \<noteq> CCAPI_DP_ARG_INVALID \<longleftrightarrow> k = arg_key a \<and> a \<noteq> CCAPI_DP_ARG_INVALID"
proof
  assume "k = arg_key a \<and> a \<noteq> CCAPI_DP_ARG_INVALID"
  then show "keyword_arg k = a \<and> a \<noteq> CCAPI_DP_ARG_INVALID"
    by (cases a) (simp_all add: arg_key_def keyword_arg_def key_arg_map_def)
next
  assume "keyword_arg k = a \<and> a \<noteq> CCAPI_DP_ARG_INVALID"
  then have "map_of key_arg_map k = Some a" by (auto simp: keyword_arg_def split: option.splits)
  then have "(k, a) \<in> set key_arg_map" by (rule map_of_SomeD)
  then show "k = arg_key a \<and> a \<noteq> CCAPI_DP_ARG_INVALID" by (auto simp: key_arg_map_def arg_key_def)
qed

lemma arg_key_keyword: "keyword_arg k \<noteq> CCAPI_DP_ARG_INVALID \<Longrightarrow> arg_key (keyword_arg k) = k"
  using keyword_arg_key [of k "keyword_arg k"] by simp

lemma keyword_arg_of_key: "a \<noteq> CCAPI_DP_ARG_INVALID \<Longrightarrow> keyword_arg (arg_key a) = a"
  using keyword_arg_key [of "arg_key a" a] by simp

lemma arg_key_plain: "a \<noteq> CCAPI_DP_ARG_INVALID \<Longrightarrow> arg_key a \<noteq> [] \<and> CHR '' '' \<notin> set (arg_key a)"
  by (cases a) (simp_all add: arg_key_def)

subsection \<open>The keywords of a format\<close>

function words_of :: "string \<Rightarrow> string list" where
  "words_of rest =
     (case get_next_keyword rest (CHR '' '') of None \<Rightarrow> [] | Some (k, rest') \<Rightarrow> k # words_of rest')"
  by pat_completeness auto

termination by (relation "measure length") (auto dest: get_next_keyword_shorter)

declare words_of.simps [simp del]

lemma words_of_Nil [simp]: "words_of [] = []"
  by (simp add: words_of.simps get_next_keyword_def)

lemma words_of_not_Nil: "s \<noteq> [] \<Longrightarrow> words_of s \<noteq> []"
  by (subst words_of.simps) (simp add: get_next_keyword_def)

lemma split_plain:
  "c \<notin> set k \<Longrightarrow> takeWhile (\<lambda>x. x \<noteq> c) k = k \<and> dropWhile (\<lambda>x. x \<noteq> c) k = []"
  by (induction k) auto

lemma split_at: "c \<notin> set k \<Longrightarrow>
    takeWhile (\<lambda>x. x \<noteq> c) (k @ c # s) = k \<and> dropWhile (\<lambda>x. x \<noteq> c) (k @ c # s) = c # s"
  by (induction k) auto

lemma words_of_plain: "k \<noteq> [] \<Longrightarrow> CHR '' '' \<notin> set k \<Longrightarrow> words_of k = [k]"
  by (subst words_of.simps) (simp add: get_next_keyword_def split_plain)

lemma words_of_space: "CHR '' '' \<notin> set k \<Longrightarrow> words_of (k @ CHR '' '' # s) = k # words_of s"
  by (subst words_of.simps) (simp add: get_next_keyword_def split_at)

lemma words_of_join:
  assumes "\<forall>k \<in> set ks. k \<noteq> [] \<and> CHR '' '' \<notin> set k"
  shows "words_of (join_keywords ks) = ks" and "ks \<noteq> [] \<Longrightarrow> words_of (join_keywords ks @ '' '') = ks"
  using assms by (induction ks rule: join_keywords.induct) (simp_all add: words_of_plain words_of_space)

lemma join_words_of:
  "s = join_keywords (words_of s) \<or> (words_of s \<noteq> [] \<and> s = join_keywords (words_of s) @ '' '')"
proof (induction s rule: words_of.induct)
  case (1 s)
  show ?case
  proof (cases "s = []")
    case False
    let ?k = "takeWhile (\<lambda>c. c \<noteq> CHR '' '') s" and ?r = "drop 1 (dropWhile (\<lambda>c. c \<noteq> CHR '' '') s)"
    have next_kw: "get_next_keyword s (CHR '' '') = Some (?k, ?r)" using False by (simp add: get_next_keyword_def)
    then have ks: "words_of s = ?k # words_of ?r" by (subst words_of.simps) simp
    have IH: "?r = join_keywords (words_of ?r) \<or> words_of ?r \<noteq> [] \<and> ?r = join_keywords (words_of ?r) @ '' ''"
      using "1.IH" [OF next_kw refl] .
    show ?thesis
    proof (cases "dropWhile (\<lambda>c. c \<noteq> CHR '' '') s")
      case Nil
      then have k: "?k = s" using takeWhile_dropWhile_id [of "\<lambda>c. c \<noteq> CHR '' ''" s] by simp
      have r: "?r = []" unfolding Nil by simp
      have "words_of s = [s]" using ks unfolding k r by simp
      then show ?thesis by simp
    next
      case (Cons c r)
      then have c: "c = CHR '' ''" using hd_dropWhile [of "\<lambda>c. c \<noteq> CHR '' ''" s] by simp
      then have s: "s = ?k @ '' '' @ ?r"
        using Cons takeWhile_dropWhile_id [of "\<lambda>c. c \<noteq> CHR '' ''" s] by simp
      show ?thesis
      proof (cases "words_of ?r")
        case Nil
        then have "?r = []" using words_of_not_Nil by blast
        then show ?thesis using s ks by simp
      next
        case (Cons k' ks')
        then show ?thesis using s ks IH by auto
      qed
    qed
  qed simp
qed

subsection \<open>The parser\<close>

lemma parse_keywords_eq:
  assumes "length args = 4" and "count \<le> 4"
  shows "parse_keywords rest args count =
    (if count + length (words_of rest) \<le> 4
     then Inr (Some (take count args @ map keyword_arg (words_of rest) @ drop (count + length (words_of rest)) args,
                     count + length (words_of rest)))
     else Inr None)"
  using assms
proof (induction rest args count rule: parse_keywords.induct)
  case (1 rest args count)
  show ?case
  proof (cases "get_next_keyword rest (CHR '' '')")
    case None
    then have "words_of rest = []" by (subst words_of.simps) simp
    then show ?thesis using None 1(3) by (subst parse_keywords.simps) simp
  next
    case (Some kr)
    obtain k r where kr: "kr = (k, r)" by fastforce
    then have ks: "words_of rest = k # words_of r" using Some by (subst words_of.simps) simp
    show ?thesis
    proof (cases "count \<le> 3")
      case True
      let ?args = "args[count := keyword_arg k]"
      have "parse_keywords r ?args (Suc count) =
          (if Suc count + length (words_of r) \<le> 4
           then Inr (Some (take (Suc count) ?args @ map keyword_arg (words_of r)
               @ drop (Suc count + length (words_of r)) ?args, Suc count + length (words_of r)))
           else Inr None)"
        using "1.IH" [OF Some kr [symmetric]] True 1(2) by simp
      moreover have "take (Suc count) ?args = take count args @ [keyword_arg k]"
        using True 1(2) by (simp add: take_Suc_conv_app_nth)
      ultimately show ?thesis
        using Some kr ks True 1(2) by (subst parse_keywords.simps) simp
    qed (use Some kr ks in \<open>subst parse_keywords.simps, simp\<close>)
  qed
qed

lemma check_args_iff:
  "check_args found args \<longleftrightarrow>
     CCAPI_DP_ARG_INVALID \<notin> set args \<and> distinct (map argument_kind args)
     \<and> (\<forall>a \<in> set args. argument_kind a \<notin> Some ` found)"
proof (induction found args rule: check_args.induct)
  case (2 found arg args)
  have none: "argument_kind arg = None \<longleftrightarrow> arg = CCAPI_DP_ARG_INVALID"
    by (cases arg) (simp_all add: argument_kind_def)
  show ?case
  proof (cases "argument_kind arg")
    case (Some k)
    then show ?thesis using 2 none by auto (metis image_eqI)+
  qed (use none in auto)
qed simp

definition format_args :: "ccapi_dp_argument_t list \<Rightarrow> bool" where
  "format_args args \<longleftrightarrow>
     args \<noteq> [] \<and> CCAPI_DP_ARG_INVALID \<notin> set args \<and> distinct (map argument_kind args)"

lemma format_args_at_most_four: 
  assumes "format_args args" shows "length args \<le> 4"
proof -
  have "set (map argument_kind args) \<subseteq> {None, Some Data_Argument, Some Timestamp_Argument,
      Some Location_Argument, Some Quality_Argument}"
    by (auto intro: argument_kind.exhaust)
  moreover have "None \<notin> set (map argument_kind args)"
    using assms by (auto simp: format_args_def argument_kind_def split: ccapi_dp_argument_t.splits)
  ultimately have "set (map argument_kind args) \<subseteq> {Some Data_Argument, Some Timestamp_Argument,
      Some Location_Argument, Some Quality_Argument}" by blast
  then have "card (set (map argument_kind args)) \<le> card {Some Data_Argument, Some Timestamp_Argument,
      Some Location_Argument, Some Quality_Argument}"
    by (intro card_mono) auto
  then have "card (set (map argument_kind args)) \<le> 4" by simp
  then show ?thesis using assms distinct_card [of "map argument_kind args"] by (simp add: format_args_def)
qed

lemma printed_iff:
  assumes "format_args args"
  shows "args = map keyword_arg (words_of s) \<longleftrightarrow> s \<in> {print_format args, print_format args @ '' ''}"
proof -
  have a: "\<forall>x \<in> set args. x \<noteq> CCAPI_DP_ARG_INVALID" "args \<noteq> []" using assms by (auto simp: format_args_def)
  then have plain: "\<forall>k \<in> set (map arg_key args). k \<noteq> [] \<and> CHR '' '' \<notin> set k" using arg_key_plain by auto
  have "args = map keyword_arg (words_of s) \<longleftrightarrow> words_of s = map arg_key args"
  proof
    assume "args = map keyword_arg (words_of s)"
    then show "words_of s = map arg_key args"
      using a(1) by (simp add: map_idI [symmetric] arg_key_keyword comp_def)
  next
    assume "words_of s = map arg_key args"
    then show "args = map keyword_arg (words_of s)"
      using a(1) by (simp add: map_idI [symmetric] keyword_arg_of_key comp_def)
  qed
  also have "\<dots> \<longleftrightarrow> s \<in> {print_format args, print_format args @ '' ''}"
    using words_of_join [OF plain] a(2) join_words_of [of s] by (auto simp: print_format_def)
  finally show ?thesis .
qed

lemma print_format_valid:
  assumes "format_args args" shows "valid_format_string (Some (print_format args))"
proof -
  let ?ok = "\<lambda>c. isalnum c \<or> c = CHR '' '' \<or> c = CHR ''_''"
  have key: "list_all ?ok (arg_key a)" for a
    by (cases a) (simp_all add: arg_key_def isalnum_def)
  have "list_all ?ok (join_keywords ks)" if "\<forall>k \<in> set ks. list_all ?ok k" for ks
    using that by (induction ks rule: join_keywords.induct) auto
  then have chars: "list_all ?ok (print_format args)" using key by (simp add: print_format_def)
  obtain a as where a: "args = a # as" using assms by (cases args) (auto simp: format_args_def)
  then have "a \<noteq> CCAPI_DP_ARG_INVALID" using assms by (auto simp: format_args_def)
  then have "print_format args \<noteq> [] \<and> hd (print_format args) \<noteq> CHR '' ''"
    by (cases as; cases a) (simp_all add: a print_format_def arg_key_def)
  then show ?thesis using chars by (simp add: valid_format_string_def)
qed

text \<open>With memory the result depends on the keywords alone.\<close>

lemma get_arg_list_result:
  assumes "\<And>req w. fst (ccapi_malloc os req w) = True" and args_def: "args = map keyword_arg (words_of s)"
  shows "\<exists>w'. get_arg_list_from_format_string os s w =
      Inr (if format_args args then (CCAPI_DP_ERROR_NONE, Some args, w')
           else (CCAPI_DP_ERROR_INVALID_FORMAT, None, w'))"
proof -
  let ?ks = "words_of s"
  obtain w1 where m: "ccapi_malloc os (Bytes (length s + 1)) w = (True, w1)"
    using assms(1) [of "Bytes (length s + 1)" w] by (cases "ccapi_malloc os (Bytes (length s + 1)) w") auto
  obtain w2 where m2: "ccapi_malloc os (Array_Of (length ?ks) ''ccapi_dp_argument_t'') w1 = (True, w2)"
    using assms(1) [of "Array_Of (length ?ks) ''ccapi_dp_argument_t''" w1]
    by (cases "ccapi_malloc os (Array_Of (length ?ks) ''ccapi_dp_argument_t'') w1") auto
  have parse: "parse_keywords s (replicate 4 CCAPI_DP_ARG_INVALID) 0 =
      (if length ?ks \<le> 4
       then Inr (Some (args @ drop (length ?ks) (replicate 4 CCAPI_DP_ARG_INVALID), length ?ks)) else Inr None)"
    by (simp add: parse_keywords_eq args_def)
  show ?thesis
  proof (cases "length ?ks \<le> 4 \<and> ?ks \<noteq> []")
    case True
    then have "valid_arg_list (args @ drop (length ?ks) (replicate 4 CCAPI_DP_ARG_INVALID)) (length ?ks)
        = Inr (format_args args)"
      by (auto simp: valid_arg_list_def check_args_iff format_args_def Suc_le_eq args_def)
    then show ?thesis
      using True m m2 parse
      by (simp add: get_arg_list_from_format_string_def ccapi_strdup_def arg_list_dup_def args_def)
  next
    case False
    then have "\<not> format_args args"
      using format_args_at_most_four [of args] by (auto simp: format_args_def args_def)
    then show ?thesis
      using False m parse
      by (auto simp: get_arg_list_from_format_string_def ccapi_strdup_def valid_arg_list_def)
  qed
qed

text \<open>
  C29. The formats that are accepted are exactly the printed ones. With memory, a format string
  gives a list of arguments if and only if it is the keywords of that list, separated by one
  space and followed by at most one, and the list has at least one argument, no argument twice
  of the same kind (data, time, location, quality), hence at most four; every other string is
  refused as an invalid format, without reading or writing past the array of four.
\<close>

theorem formats_are_printed_argument_lists:
  assumes "\<And>req w. fst (ccapi_malloc os req w) = True"
  shows "((\<exists>w'. get_arg_list_from_format_string os format_string w = Inr (CCAPI_DP_ERROR_NONE, Some args, w'))
        \<longleftrightarrow> format_args args \<and> format_string \<in> {print_format args, print_format args @ '' ''})
    \<and> ((\<nexists>args. format_args args \<and> format_string \<in> {print_format args, print_format args @ '' ''}) \<longrightarrow>
        (\<exists>w'. get_arg_list_from_format_string os format_string w = Inr (CCAPI_DP_ERROR_INVALID_FORMAT, None, w')))
    \<and> (format_args args \<longrightarrow> valid_format_string (Some (print_format args)))"
proof -
  let ?args = "map keyword_arg (words_of format_string)"
  obtain w' where result: "get_arg_list_from_format_string os format_string w =
      Inr (if format_args ?args then (CCAPI_DP_ERROR_NONE, Some ?args, w')
           else (CCAPI_DP_ERROR_INVALID_FORMAT, None, w'))"
    using get_arg_list_result [of os ?args format_string w, OF assms refl] by blast
  have "(\<exists>w'. get_arg_list_from_format_string os format_string w = Inr (CCAPI_DP_ERROR_NONE, Some args, w'))
      \<longleftrightarrow> format_args args \<and> args = ?args"
    unfolding result by auto
  moreover have "\<not> format_args ?args"
    if "\<nexists>args. format_args args \<and> format_string \<in> {print_format args, print_format args @ '' ''}"
    using that printed_iff [of ?args format_string] by blast
  ultimately show ?thesis
    using printed_iff [of args format_string] result print_format_valid [of args] by auto
qed

theorem formats_are_printed_argument_lists_witness:
  "\<exists>w'. get_arg_list_from_format_string example_os ''float ts_iso '' () =
     Inr (CCAPI_DP_ERROR_NONE, Some [CCAPI_DP_ARG_DATA_FLOAT, CCAPI_DP_ARG_TS_ISO8601], w')"
proof -
  have "format_args [CCAPI_DP_ARG_DATA_FLOAT, CCAPI_DP_ARG_TS_ISO8601]"
    and "''float ts_iso '' = print_format [CCAPI_DP_ARG_DATA_FLOAT, CCAPI_DP_ARG_TS_ISO8601] @ '' ''"
    by (simp_all add: format_args_def argument_kind_def print_format_def arg_key_def)
  then show ?thesis
    using formats_are_printed_argument_lists [of example_os "''float ts_iso ''" "()"
        "[CCAPI_DP_ARG_DATA_FLOAT, CCAPI_DP_ARG_TS_ISO8601]"] by simp
qed

end
