(* ===== verification/DatapointProps.thy ===== *)
theory DatapointProps
  imports DatapointSend DatapointFormatProps
begin

text \<open>
  The collections of data points: the invariant of a collection (every point has the type its
  stream was declared with, the streams are a list without repetition, the count is right), what
  keeps it, which operations always return, and which leave pointers to freed memory.
\<close>

subsection \<open>Typed points\<close>

definition data_fits :: "connector_data_point_type_t option \<Rightarrow> native_value \<Rightarrow> bool" where
  "data_fits type v =
     (case type of
        None \<Rightarrow> v = Native_Bits 0
      | Some t \<Rightarrow>
          (if t \<in> {connector_data_point_type_string, connector_data_point_type_json, connector_data_point_type_geojson}
           then case v of Native_String s \<Rightarrow> True | Native_Bits b \<Rightarrow> False
           else case v of Native_String s \<Rightarrow> False | Native_Bits b \<Rightarrow> True))"

definition time_fits :: "ccapi_dp_argument_t set \<Rightarrow> connector_time_source_t \<Rightarrow> time_value \<Rightarrow> bool" where
  "time_fits args source v =
     (case source of
        connector_time_cloud \<Rightarrow>
          {CCAPI_DP_ARG_TS_EPOCH, CCAPI_DP_ARG_TS_EPOCH_MS, CCAPI_DP_ARG_TS_ISO8601} \<inter> args = {} \<and> v = Time_Whole 0
      | connector_time_local_epoch_fractional \<Rightarrow>
          CCAPI_DP_ARG_TS_EPOCH \<in> args \<and> (case v of Time_Fractional s m \<Rightarrow> True | _ \<Rightarrow> False)
      | connector_time_local_epoch_whole \<Rightarrow>
          CCAPI_DP_ARG_TS_EPOCH_MS \<in> args \<and> (case v of Time_Whole m \<Rightarrow> True | _ \<Rightarrow> False)
      | connector_time_local_iso8601 \<Rightarrow>
          CCAPI_DP_ARG_TS_ISO8601 \<in> args \<and> (case v of Time_Iso8601 s \<Rightarrow> True | _ \<Rightarrow> False))"

text \<open>A point of a stream that was declared with \<open>args\<close>.\<close>

definition point_ok :: "ccapi_dp_argument_t list \<Rightarrow> connector_data_point_t \<Rightarrow> bool" where
  "point_ok args p \<longleftrightarrow>
     data_fits (get_data_stream_type_from_arg_list args) (pt_data p)
     \<and> time_fits (set args) (pt_time_source p) (pt_time p)
     \<and> (pt_location p \<noteq> None \<longleftrightarrow> CCAPI_DP_ARG_LOCATION \<in> set args)
     \<and> (pt_quality p \<noteq> None \<longleftrightarrow> CCAPI_DP_ARG_QUALITY \<in> set args)"

lemma data_type_kind: "data_type arg \<noteq> None \<longleftrightarrow> argument_kind arg = Some Data_Argument"
  by (cases arg) (simp_all add: data_type_def argument_kind_def)

lemma stream_type_None:
  "get_data_stream_type_from_arg_list args = None \<longleftrightarrow> Some Data_Argument \<notin> set (map argument_kind args)"
proof (induction args)
  case (Cons arg args)
  then show ?case using data_type_kind [of arg] by (cases "data_type arg") auto
qed simp

lemma stream_type_append:
  "get_data_stream_type_from_arg_list (xs @ ys) =
     (case get_data_stream_type_from_arg_list xs of Some t \<Rightarrow> Some t | None \<Rightarrow> get_data_stream_type_from_arg_list ys)"
  by (induction xs) (auto split: option.splits)

lemma point_ok_empty: "point_ok [] empty_data_point"
  by (simp add: point_ok_def empty_data_point_def data_fits_def time_fits_def)

text \<open>Every round of the loop stores what its argument says.\<close>

lemma parse_data_argument:
  assumes "parse_argument os float_of_double arg p va w = Inr (Some (p', va'), w')"
    and "argument_kind arg = Some Data_Argument"
  shows "p' = p\<lparr>pt_data := pt_data p'\<rparr> \<and> data_fits (data_type arg) (pt_data p')"
  using assms
  by (cases arg)
    (auto simp: parse_argument_def argument_kind_def store_string_def data_type_def data_fits_def
      split: option.splits prod.splits)

lemma parse_timestamp_argument:
  assumes "parse_argument os float_of_double arg p va w = Inr (Some (p', va'), w')"
    and "argument_kind arg = Some Timestamp_Argument"
  shows "p' = p\<lparr>pt_time_source := pt_time_source p', pt_time := pt_time p'\<rparr>
    \<and> pt_time_source p' \<noteq> connector_time_cloud \<and> time_fits {arg} (pt_time_source p') (pt_time p')"
  using assms
  by (cases arg)
    (auto simp: parse_argument_def argument_kind_def store_string_def time_fits_def
      split: option.splits prod.splits)

lemma parse_other_argument:
  assumes "parse_argument os float_of_double arg p va w = Inr (Some (p', va'), w')"
  shows "arg = CCAPI_DP_ARG_LOCATION \<Longrightarrow> \<exists>l. p' = p\<lparr>pt_location := Some l\<rparr>"
    and "arg = CCAPI_DP_ARG_QUALITY \<Longrightarrow> \<exists>q. p' = p\<lparr>pt_quality := Some q\<rparr>"
  using assms by (auto simp: parse_argument_def split: prod.splits)

lemma time_fits_mono:
  "time_fits A source v \<Longrightarrow> source \<noteq> connector_time_cloud \<Longrightarrow> A \<subseteq> B \<Longrightarrow> time_fits B source v"
  by (cases source) (auto simp: time_fits_def)

lemma time_fits_insert:
  assumes "argument_kind arg \<noteq> Some Timestamp_Argument" and "time_fits A source v"
  shows "time_fits (insert arg A) source v"
proof -
  have "arg \<notin> {CCAPI_DP_ARG_TS_EPOCH, CCAPI_DP_ARG_TS_EPOCH_MS, CCAPI_DP_ARG_TS_ISO8601}"
    using assms(1) by (auto simp: argument_kind_def)
  then show ?thesis using assms(2) by (cases source) (auto simp: time_fits_def)
qed

lemma argument_kind_cases:
  assumes "arg \<noteq> CCAPI_DP_ARG_INVALID"
  obtains "argument_kind arg = Some Data_Argument" | "argument_kind arg = Some Timestamp_Argument"
    | "arg = CCAPI_DP_ARG_LOCATION" | "arg = CCAPI_DP_ARG_QUALITY"
  using assms by (cases arg) (simp_all add: argument_kind_def)

lemma kind_is:
  "argument_kind arg = Some Data_Argument \<Longrightarrow> arg \<noteq> CCAPI_DP_ARG_LOCATION \<and> arg \<noteq> CCAPI_DP_ARG_QUALITY"
  "argument_kind arg = Some Timestamp_Argument \<Longrightarrow> arg \<noteq> CCAPI_DP_ARG_LOCATION \<and> arg \<noteq> CCAPI_DP_ARG_QUALITY"
  "argument_kind CCAPI_DP_ARG_LOCATION = Some Location_Argument"
  "argument_kind CCAPI_DP_ARG_QUALITY = Some Quality_Argument"
  by (auto simp: argument_kind_def)

lemma parse_argument_ok:
  assumes parse: "parse_argument os float_of_double arg p va w = Inr (Some (p', va'), w')"
    and pre: "point_ok pre p" and kinds: "distinct (map argument_kind (pre @ [arg]))"
    and valid: "arg \<noteq> CCAPI_DP_ARG_INVALID"
  shows "point_ok (pre @ [arg]) p'"
proof -
  have type: "get_data_stream_type_from_arg_list (pre @ [arg]) =
      (if argument_kind arg = Some Data_Argument then data_type arg else get_data_stream_type_from_arg_list pre)"
    using kinds data_type_kind [of arg] stream_type_None [of pre]
    by (auto simp: stream_type_append split: option.splits)
  show ?thesis
  proof (cases rule: argument_kind_cases [OF valid])
    case 1
    then obtain v where v: "p' = p\<lparr>pt_data := v\<rparr>" "data_fits (data_type arg) v"
      using parse_data_argument [OF parse] that by metis
    then show ?thesis
      using pre 1 type kind_is(1) [OF 1] time_fits_insert [of arg] by (auto simp: point_ok_def)
  next
    case 2
    then obtain source v where v: "p' = p\<lparr>pt_time_source := source, pt_time := v\<rparr>"
      "source \<noteq> connector_time_cloud" "time_fits {arg} source v"
      using parse_timestamp_argument [OF parse] that by metis
    have "time_fits (set (pre @ [arg])) source v" by (rule time_fits_mono [OF v(3,2)]) simp
    then show ?thesis using pre 2 type kind_is(2) [OF 2] v(1) by (auto simp: point_ok_def)
  next
    case 3
    then show ?thesis
      using pre type parse_other_argument(1) [OF parse] time_fits_insert [of arg]
      by (auto simp: point_ok_def kind_is)
  next
    case 4
    then show ?thesis
      using pre type parse_other_argument(2) [OF parse] time_fits_insert [of arg]
      by (auto simp: point_ok_def kind_is)
  qed
qed

lemma parse_arguments_ok:
  assumes "parse_arguments os float_of_double args p va w = Inr (Some p', w')"
    and "point_ok pre p" and "distinct (map argument_kind (pre @ args))" and "CCAPI_DP_ARG_INVALID \<notin> set args"
  shows "point_ok (pre @ args) p'"
  using assms
proof (induction os float_of_double args p va w arbitrary: pre rule: parse_arguments.induct)
  case (2 os float_of_double arg args p va w)
  then obtain p1 va1 w1 where 1: "parse_argument os float_of_double arg p va w = Inr (Some (p1, va1), w1)"
    "parse_arguments os float_of_double args p1 va1 w1 = Inr (Some p', w')"
    by (auto simp: ub_bind_Inr_iff split: option.splits)
  have "point_ok (pre @ [arg]) p1"
    by (rule parse_argument_ok [OF 1(1) 2(3)]) (use 2(4,5) in auto)
  then have "point_ok ((pre @ [arg]) @ args) p'"
    using "2.IH" [OF _ refl refl 1(2), of "pre @ [arg]"] 2(4,5) by auto
  then show ?case by simp
qed simp

subsection \<open>The streams of a collection\<close>

fun path :: "(nat \<rightharpoonup> ccapi_dp_data_stream_t) \<Rightarrow> ptr \<Rightarrow> nat list \<Rightarrow> bool" where
  "path h p [] = (p = None)"
| "path h p (a # as) = (p = Some a \<and> (\<exists>s. h a = Some s \<and> path h (st_next s) as))"

text \<open>What the operations on points leave alone in a stream.\<close>

definition stream_shape ::
  "ccapi_dp_data_stream_t \<Rightarrow> string \<times> connector_data_point_type_t option \<times> ccapi_dp_argument_t list \<times> ptr" where
  "stream_shape s = (st_stream_id s, st_type s, st_arguments s, st_next s)"

definition same_shape :: "(nat \<rightharpoonup> ccapi_dp_data_stream_t) \<Rightarrow> (nat \<rightharpoonup> ccapi_dp_data_stream_t) \<Rightarrow> bool" where
  "same_shape h h' \<longleftrightarrow> (\<forall>a. map_option stream_shape (h' a) = map_option stream_shape (h a))"

definition stream_ok :: "ccapi_dp_data_stream_t \<Rightarrow> bool" where
  "stream_ok s \<longleftrightarrow>
     format_args (st_arguments s) \<and> st_type s = get_data_stream_type_from_arg_list (st_arguments s)
     \<and> (\<forall>p \<in> set (st_point s). point_ok (st_arguments s) p)"

definition points_at :: "ccapi_dp_collection_t \<Rightarrow> nat \<Rightarrow> connector_data_point_t list" where
  "points_at c a = (case dc_streams c a of None \<Rightarrow> [] | Some s \<Rightarrow> st_point s)"

definition dp_rep :: "nat list \<Rightarrow> ccapi_dp_collection_t \<Rightarrow> bool" where
  "dp_rep as c \<longleftrightarrow>
     path (dc_streams c) (dc_list c) as \<and> distinct as \<and> dom (dc_streams c) = set as
     \<and> (\<forall>a \<in> set as. a < dc_fresh c) \<and> (\<forall>s \<in> ran (dc_streams c). stream_ok s)
     \<and> (\<forall>a b s t. dc_streams c a = Some s \<longrightarrow> dc_streams c b = Some t \<longrightarrow> st_stream_id s = st_stream_id t \<longrightarrow> a = b)
     \<and> dc_count c = of_nat (\<Sum>a \<in> set as. length (points_at c a))"

lemma path_shape:
  assumes "same_shape h h'"
  shows "path h' p as = path h p as"
proof (induction as arbitrary: p)
  case (Cons a as)
  have eq: "map_option stream_shape (h' a) = map_option stream_shape (h a)"
    using assms by (simp add: same_shape_def)
  show ?case
  proof (cases "h a")
    case None
    then show ?thesis using eq by simp
  next
    case (Some s)
    then obtain s' where s': "h' a = Some s'" "stream_shape s' = stream_shape s" using eq by auto
    then show ?thesis using Some Cons.IH [of "st_next s"] by (simp add: stream_shape_def)
  qed
qed simp

lemma path_other: "a \<notin> set as \<Longrightarrow> path (h(a := x)) p as = path h p as"
  by (induction as arbitrary: p) auto

lemma same_shape_refl [simp]: "same_shape h h"
  by (simp add: same_shape_def)

lemma same_shape_trans: "same_shape h h' \<Longrightarrow> same_shape h' h'' \<Longrightarrow> same_shape h h''"
  by (simp add: same_shape_def)

lemma same_shape_update:
  "h a = Some s \<Longrightarrow> stream_shape s' = stream_shape s \<Longrightarrow> same_shape h (h(a \<mapsto> s'))"
  by (simp add: same_shape_def)

text \<open>Changing the points of the streams, and the count with them.\<close>

lemma dp_rep_points:
  assumes rep: "dp_rep as c" and shape: "same_shape (dc_streams c) (dc_streams c')"
    and list: "dc_list c' = dc_list c" and fresh: "dc_fresh c' = dc_fresh c"
    and typed: "\<And>a s. dc_streams c' a = Some s \<Longrightarrow> \<forall>p \<in> set (st_point s). point_ok (st_arguments s) p"
    and count: "dc_count c' = of_nat (\<Sum>a \<in> set as. length (points_at c' a))"
  shows "dp_rep as c'"
proof -
  have one: "\<exists>s. dc_streams c a = Some s \<and> stream_shape s' = stream_shape s" if "dc_streams c' a = Some s'" for a s'
  proof -
    have "map_option stream_shape (dc_streams c' a) = map_option stream_shape (dc_streams c a)"
      using shape by (simp add: same_shape_def)
    then show ?thesis using that by (cases "dc_streams c a") auto
  qed
  have domain: "dom (dc_streams c') = dom (dc_streams c)"
  proof -
    have "dc_streams c' a = None \<longleftrightarrow> dc_streams c a = None" for a
      using shape unfolding same_shape_def by (metis map_option_is_None)
    then show ?thesis by (simp add: dom_def)
  qed
  have ok: "stream_ok s'" if s': "s' \<in> ran (dc_streams c')" for s'
  proof -
    obtain a where a: "dc_streams c' a = Some s'" using s' by (auto simp: ran_def)
    then obtain s where s: "dc_streams c a = Some s" "stream_shape s' = stream_shape s" using one by blast
    have "stream_ok s" using rep s(1) by (auto simp: dp_rep_def ran_def)
    then show ?thesis using s(2) typed [OF a] by (simp add: stream_ok_def stream_shape_def)
  qed
  have ids: "a = b" if a: "dc_streams c' a = Some s'" and b: "dc_streams c' b = Some t'"
      and eq: "st_stream_id s' = st_stream_id t'" for a b s' t'
  proof -
    obtain s where s: "dc_streams c a = Some s" "stream_shape s' = stream_shape s" using one [OF a] by blast
    obtain t where t: "dc_streams c b = Some t" "stream_shape t' = stream_shape t" using one [OF b] by blast
    have "st_stream_id s = st_stream_id t" using eq s(2) t(2) by (simp add: stream_shape_def)
    then show ?thesis using s(1) t(1) rep unfolding dp_rep_def by blast
  qed
  show ?thesis
    using rep path_shape [OF shape] list fresh domain ok ids count
    unfolding dp_rep_def by (intro conjI ballI allI impI) auto
qed

text \<open>Changing the points of one stream.\<close>

definition set_points :: "nat \<Rightarrow> connector_data_point_t list \<Rightarrow> u32 \<Rightarrow> ccapi_dp_collection_t \<Rightarrow> ccapi_dp_collection_t" where
  "set_points a ps n c =
     (case dc_streams c a of
        None \<Rightarrow> c
      | Some s \<Rightarrow> c\<lparr>dc_streams := (dc_streams c)(a \<mapsto> s\<lparr>st_point := ps\<rparr>), dc_count := n\<rparr>)"

lemma dp_rep_set_points:
  assumes rep: "dp_rep as c" and s: "dc_streams c a = Some s"
    and typed: "\<forall>p \<in> set ps. point_ok (st_arguments s) p"
    and n: "n + of_nat (length (st_point s)) = dc_count c + of_nat (length ps)"
  shows "dp_rep as (set_points a ps n c)"
proof (rule dp_rep_points [OF rep])
  have a: "a \<in> set as" using rep s by (auto simp: dp_rep_def)
  let ?c = "set_points a ps n c"
  have pts: "points_at ?c b = (if b = a then ps else points_at c b)" for b
    using s by (simp add: points_at_def set_points_def)
  have self: "points_at c a = st_point s" using s by (simp add: points_at_def)
  have "(\<Sum>b \<in> set as. length (points_at ?c b)) = length ps + (\<Sum>b \<in> set as - {a}. length (points_at c b))"
    by (simp add: sum.remove [OF _ a] pts)
  moreover have "(\<Sum>b \<in> set as. length (points_at c b))
      = length (st_point s) + (\<Sum>b \<in> set as - {a}. length (points_at c b))"
    by (simp add: sum.remove [OF _ a] self)
  ultimately have "(\<Sum>b \<in> set as. length (points_at ?c b)) + length (st_point s)
      = (\<Sum>b \<in> set as. length (points_at c b)) + length ps" by simp
  then have "of_nat (\<Sum>b \<in> set as. length (points_at ?c b)) + of_nat (length (st_point s))
      = (of_nat (\<Sum>b \<in> set as. length (points_at c b)) + of_nat (length ps) :: u32)"
    by (metis of_nat_add)
  then show "dc_count ?c = of_nat (\<Sum>b \<in> set as. length (points_at ?c b))"
    using n rep s by (simp add: dp_rep_def set_points_def) (metis add_right_cancel)
  show "\<forall>p \<in> set (st_point t). point_ok (st_arguments t) p" if "dc_streams ?c b = Some t" for b t
  proof (cases "b = a")
    case False
    then have "stream_ok t" using that rep s by (auto simp: set_points_def dp_rep_def ran_def)
    then show ?thesis by (simp add: stream_ok_def)
  qed (use that s typed in \<open>auto simp: set_points_def\<close>)
qed (use s in \<open>auto simp: set_points_def stream_shape_def intro!: same_shape_update\<close>)

lemma push_point_set: "dc_streams c a = Some s \<Longrightarrow> push_point a p c = set_points a (p # st_point s) (dc_count c + 1) c"
  by (simp add: push_point_def set_points_def)

subsection \<open>Freeing typed points\<close>

lemma free_data_point_typed:
  assumes "point_ok args p" and "type = get_data_stream_type_from_arg_list args"
  shows "\<exists>w'. free_data_point os p type w = Inr w'"
  using assms
  by (auto simp: free_data_point_def point_ok_def data_fits_def time_fits_def native_pointer_def time_pointer_def
      split: native_value.splits time_value.splits)

lemma free_data_points_typed:
  assumes "\<forall>p \<in> set ps. point_ok args p" and "type = get_data_stream_type_from_arg_list args"
  shows "\<exists>w'. free_data_points_in_data_stream os type ps w = Inr (of_nat (length ps), w')"
  using assms(1)
proof (induction ps arbitrary: w)
  case (Cons p ps)
  then obtain w1 where "free_data_point os p type w = Inr w1"
    using free_data_point_typed [of args p type os w] assms(2) by auto
  moreover obtain w2 where "free_data_points_in_data_stream os type ps w1 = Inr (of_nat (length ps), w2)"
    using Cons by auto
  ultimately show ?case by (simp add: add.commute)
qed simp

lemma stream_free_typed:
  "stream_ok s \<Longrightarrow> \<exists>w'. free_data_points_in_data_stream os (st_type s) (st_point s) w = Inr (of_nat (length (st_point s)), w')"
  using free_data_points_typed [of "st_point s" "st_arguments s"] by (auto simp: stream_ok_def)

subsection \<open>Walks along the streams\<close>

lemma find_stream_path:
  "path h p as \<Longrightarrow> \<exists>q. find_stream_from h p stream_id = Some (Inr q)
     \<and> (case q of None \<Rightarrow> \<forall>a \<in> set as. st_stream_id (the (h a)) \<noteq> stream_id
        | Some a \<Rightarrow> a \<in> set as \<and> (\<exists>s. h a = Some s \<and> st_stream_id s = stream_id))"
proof (induction as arbitrary: p)
  case Nil
  then show ?case by (subst find_stream_from.simps) simp
next
  case (Cons a as)
  then obtain s where s: "p = Some a" "h a = Some s" "path h (st_next s) as" by auto
  obtain q where q: "find_stream_from h (st_next s) stream_id = Some (Inr q)"
    "case q of None \<Rightarrow> \<forall>a \<in> set as. st_stream_id (the (h a)) \<noteq> stream_id
       | Some a \<Rightarrow> a \<in> set as \<and> (\<exists>s. h a = Some s \<and> st_stream_id s = stream_id)"
    using Cons.IH [OF s(3)] by blast
  show ?case
  proof (cases "st_stream_id s = stream_id")
    case True
    then show ?thesis using s by (subst find_stream_from.simps) auto
  next
    case False
    then show ?thesis
      using s q by (intro exI [of _ q], subst find_stream_from.simps) (auto split: option.splits)
  qed
qed

lemma find_stream_rep:
  assumes "dp_rep as c"
  obtains q where "find_stream_id_in_collection c stream_id = Some (Inr q)"
    and "case q of None \<Rightarrow> \<forall>s \<in> ran (dc_streams c). st_stream_id s \<noteq> stream_id
         | Some a \<Rightarrow> \<exists>s. dc_streams c a = Some s \<and> st_stream_id s = stream_id"
proof -
  have p: "path (dc_streams c) (dc_list c) as" and d: "dom (dc_streams c) = set as"
    using assms by (simp_all add: dp_rep_def)
  obtain q where q: "find_stream_from (dc_streams c) (dc_list c) stream_id = Some (Inr q)"
    "case q of None \<Rightarrow> \<forall>a \<in> set as. st_stream_id (the (dc_streams c a)) \<noteq> stream_id
       | Some a \<Rightarrow> a \<in> set as \<and> (\<exists>s. dc_streams c a = Some s \<and> st_stream_id s = stream_id)"
    using find_stream_path [OF p] by blast
  have "\<forall>s \<in> ran (dc_streams c). st_stream_id s \<noteq> stream_id"
    if none: "\<forall>a \<in> set as. st_stream_id (the (dc_streams c a)) \<noteq> stream_id"
  proof
    fix s assume "s \<in> ran (dc_streams c)"
    then obtain a where "dc_streams c a = Some s" by (auto simp: ran_def)
    then show "st_stream_id s \<noteq> stream_id" using none d by force
  qed
  then show thesis
    using that [of q] q by (auto simp: find_stream_id_in_collection_def split: option.splits)
qed

text \<open>Dropping the newest point of every stream.\<close>

definition drop_head :: "nat \<Rightarrow> ccapi_dp_collection_t \<Rightarrow> ccapi_dp_collection_t" where
  "drop_head a c =
     (case points_at c a of [] \<Rightarrow> c | p # ps \<Rightarrow> set_points a ps (dc_count c - 1) c)"

lemma drop_head_rep:
  assumes "dp_rep as c" shows "dp_rep as (drop_head a c)"
proof (cases "points_at c a")
  case (Cons p ps)
  then obtain s where s: "dc_streams c a = Some s" "st_point s = p # ps"
    by (auto simp: points_at_def split: option.splits)
  then have "stream_ok s" using assms by (auto simp: dp_rep_def ran_def)
  then have "dp_rep as (set_points a ps (dc_count c - 1) c)"
    using s by (intro dp_rep_set_points [OF assms s(1)]) (auto simp: stream_ok_def)
  then show ?thesis by (simp add: drop_head_def Cons)
qed (use assms in \<open>simp add: drop_head_def\<close>)

lemma drop_head_frame:
  "dc_list (drop_head a c) = dc_list c" "dc_lock (drop_head a c) = dc_lock c"
  "same_shape (dc_streams c) (dc_streams (drop_head a c))"
  "b \<noteq> a \<Longrightarrow> points_at (drop_head a c) b = points_at c b"
  "points_at (drop_head a c) a = tl (points_at c a)"
  by (auto simp: drop_head_def set_points_def points_at_def stream_shape_def
      intro!: same_shape_update split: list.splits option.splits)

lemma remove_head_points_path:
  assumes "path (dc_streams c) p as" and "\<forall>s \<in> ran (dc_streams c). stream_ok s" and "distinct as"
  shows "\<exists>w'. remove_head_points os p c w = Some (Inr (fold drop_head as c, w'))"
  using assms
proof (induction as arbitrary: c p w)
  case Nil
  then show ?case by (subst remove_head_points.simps) simp
next
  case (Cons a as)
  then obtain s where s: "p = Some a" "dc_streams c a = Some s" "path (dc_streams c) (st_next s) as"
    and ok: "stream_ok s" by (auto simp: ran_def)
  have "path (dc_streams (drop_head a c)) (st_next s) as"
    using path_shape [OF drop_head_frame(3)] s(3) by blast
  moreover have "\<forall>s \<in> ran (dc_streams (drop_head a c)). stream_ok s"
    using Cons.prems(2) ok s(2)
    by (auto simp: drop_head_def set_points_def points_at_def ran_def stream_ok_def split: list.splits if_splits)
  ultimately have IH: "\<exists>w'. remove_head_points os (st_next s) (drop_head a c) w
      = Some (Inr (fold drop_head as (drop_head a c), w'))" for w
    using Cons.IH Cons.prems(3) by simp
  show ?case
  proof (cases "st_point s")
    case Nil
    then have "drop_head a c = c" using s(2) by (simp add: drop_head_def points_at_def)
    then show ?thesis using IH [of w] Nil s by (subst remove_head_points.simps) simp
  next
    case (Cons rm ps)
    then obtain w1 where "free_data_point os rm (st_type s) w = Inr w1"
      using free_data_point_typed [of "st_arguments s" rm "st_type s" os w] ok by (auto simp: stream_ok_def)
    moreover have "drop_head a c = c\<lparr>dc_streams := (dc_streams c)(a \<mapsto> s\<lparr>st_point := ps\<rparr>), dc_count := dc_count c - 1\<rparr>"
      using s(2) Cons by (simp add: drop_head_def points_at_def set_points_def)
    ultimately show ?thesis using IH [of w1] Cons s by (subst remove_head_points.simps) simp
  qed
qed

lemma fold_drop_head_rep: "dp_rep as c \<Longrightarrow> dp_rep as (fold drop_head xs c)"
  by (induction xs arbitrary: c) (simp_all add: drop_head_rep)

lemma fold_drop_head_points:
  "distinct xs \<Longrightarrow> points_at (fold drop_head xs c) a = (if a \<in> set xs then tl (points_at c a) else points_at c a)"
proof (induction xs arbitrary: c)
  case (Cons x xs)
  then show ?case by (cases "a = x") (simp_all add: drop_head_frame)
qed simp

text \<open>A collection whose streams differ in fewer points only.\<close>

lemma shape_stream_ok:
  assumes shape: "same_shape (dc_streams c) (dc_streams c')" and ok: "\<forall>s \<in> ran (dc_streams c). stream_ok s"
    and fewer: "\<And>b. set (points_at c' b) \<subseteq> set (points_at c b)"
  shows "\<forall>s \<in> ran (dc_streams c'). stream_ok s"
proof
  fix s' assume "s' \<in> ran (dc_streams c')"
  then obtain a where a: "dc_streams c' a = Some s'" by (auto simp: ran_def)
  then have "map_option stream_shape (dc_streams c a) = Some (stream_shape s')"
    using shape unfolding same_shape_def by (metis option.simps(9))
  then obtain s where s: "dc_streams c a = Some s" "stream_shape s = stream_shape s'" by auto
  then have "stream_ok s" using ok by (auto simp: ran_def)
  then show "stream_ok s'" using s a fewer [of a] by (auto simp: stream_ok_def stream_shape_def points_at_def)
qed

text \<open>Chaining the streams of the connector, and giving all points back.\<close>

lemma chain_to_next_ok:
  assumes "path (dc_streams c) (Some a) (a # as)" and "dc_streams c a = Some s"
  obtains c' where "chain_to_next a s c = Inr c'" and "same_shape (dc_streams c) (dc_streams c')"
    and "dc_list c' = dc_list c" and "dc_fresh c' = dc_fresh c" and "dc_count c' = dc_count c"
    and "dc_lock c' = dc_lock c" and "\<And>b. points_at c' b = points_at c b"
proof (cases "st_next s")
  case None
  then show thesis using that [of c] by (simp add: chain_to_next_def)
next
  case (Some b)
  then obtain t where t: "dc_streams c b = Some t" using assms by (cases as) auto
  let ?c = "c\<lparr>dc_streams := (dc_streams c)(a \<mapsto> s\<lparr>st_ccfsm_next := Some b\<rparr>)\<rparr>"
  have "same_shape (dc_streams c) (dc_streams ?c)"
    using assms(2) by (simp add: same_shape_update stream_shape_def)
  then show thesis
    using that [of ?c] Some t assms(2) by (simp add: chain_to_next_def points_at_def)
qed

lemma chain_streams_path:
  assumes "path (dc_streams c) p as"
  shows "\<exists>c'. chain_streams p c = Some (Inr c') \<and> same_shape (dc_streams c) (dc_streams c')
    \<and> dc_list c' = dc_list c \<and> dc_fresh c' = dc_fresh c \<and> dc_count c' = dc_count c
    \<and> dc_lock c' = dc_lock c \<and> (\<forall>b. points_at c' b = points_at c b)"
  using assms
proof (induction as arbitrary: c p)
  case Nil
  then show ?case by (intro exI [of _ c], subst chain_streams.simps) simp
next
  case (Cons a as)
  then obtain s where s: "p = Some a" "dc_streams c a = Some s" "path (dc_streams c) (st_next s) as" by auto
  obtain c1 where c1: "chain_to_next a s c = Inr c1" "same_shape (dc_streams c) (dc_streams c1)"
    "dc_list c1 = dc_list c" "dc_fresh c1 = dc_fresh c" "dc_count c1 = dc_count c"
    "dc_lock c1 = dc_lock c" "\<And>b. points_at c1 b = points_at c b"
    using chain_to_next_ok [OF _ s(2), of as] Cons.prems s(1) by blast
  have "path (dc_streams c1) (st_next s) as" using path_shape [OF c1(2)] s(3) by simp
  then obtain c' where "chain_streams (st_next s) c1 = Some (Inr c')" "same_shape (dc_streams c1) (dc_streams c')"
    "dc_list c' = dc_list c1" "dc_fresh c' = dc_fresh c1" "dc_count c' = dc_count c1"
    "dc_lock c' = dc_lock c1" "\<forall>b. points_at c' b = points_at c1 b"
    using Cons.IH [of c1 "st_next s"] by blast
  then show ?case
    using c1 s same_shape_trans [OF c1(2)]
    by (intro exI [of _ c'], subst chain_streams.simps) simp
qed

lemma free_all_points_path:
  assumes "path (dc_streams c) p as" and "\<forall>s \<in> ran (dc_streams c). stream_ok s" and "distinct as"
  shows "\<exists>c' w'. free_all_points os p c w = Some (Inr (c', w')) \<and> same_shape (dc_streams c) (dc_streams c')
    \<and> dc_list c' = dc_list c \<and> dc_fresh c' = dc_fresh c \<and> dc_lock c' = dc_lock c
    \<and> (\<forall>b. points_at c' b = (if b \<in> set as then [] else points_at c b))"
  using assms
proof (induction as arbitrary: c p w)
  case Nil
  then show ?case by (subst free_all_points.simps) simp
next
  case (Cons a as)
  then obtain s where s: "p = Some a" "dc_streams c a = Some s" "path (dc_streams c) (st_next s) as"
    and ok: "stream_ok s" by (auto simp: ran_def)
  obtain c1 where c1: "chain_to_next a s c = Inr c1" "same_shape (dc_streams c) (dc_streams c1)"
    "dc_list c1 = dc_list c" "dc_fresh c1 = dc_fresh c" "dc_count c1 = dc_count c"
    "dc_lock c1 = dc_lock c" "\<And>b. points_at c1 b = points_at c b"
    using chain_to_next_ok [OF _ s(2), of as] Cons.prems s(1) by blast
  obtain w1 where w1: "free_data_points_in_data_stream os (st_type s) (st_point s) w = Inr (of_nat (length (st_point s)), w1)"
    using stream_free_typed [OF ok, of os w] by blast
  obtain c2 where c2: "c2 = c1\<lparr>dc_streams := (dc_streams c1)(a \<mapsto> (the (dc_streams c1 a))\<lparr>st_point := []\<rparr>)\<rparr>"
    by blast
  obtain s1 where s1: "dc_streams c1 a = Some s1"
    using c1(2) s(2) by (metis map_option_eq_Some option.simps(9) same_shape_def)
  have shape2: "same_shape (dc_streams c) (dc_streams c2)"
    by (rule same_shape_trans [OF c1(2)])
      (use s1 same_shape_update [of "dc_streams c1" a s1] in \<open>simp add: c2 stream_shape_def\<close>)
  have points2: "points_at c2 b = (if b = a then [] else points_at c b)" for b
    using c1(7) [of b] by (simp add: c2 points_at_def)
  have "path (dc_streams c2) (st_next s) as" using path_shape [OF shape2] s(3) by simp
  moreover have ok2: "\<forall>t \<in> ran (dc_streams c2). stream_ok t"
    by (rule shape_stream_ok [OF shape2 Cons.prems(2)]) (use points2 in auto)
  ultimately obtain c' w' where "free_all_points os (st_next s) c2 w1 = Some (Inr (c', w'))"
    "same_shape (dc_streams c2) (dc_streams c')" "dc_list c' = dc_list c2" "dc_fresh c' = dc_fresh c2"
    "dc_lock c' = dc_lock c2" "\<forall>b. points_at c' b = (if b \<in> set as then [] else points_at c2 b)"
    using Cons.IH [OF _ ok2, of "st_next s" w1] Cons.prems(3) by auto
  moreover have "dc_list c2 = dc_list c" "dc_fresh c2 = dc_fresh c" "dc_lock c2 = dc_lock c"
    using c1 by (simp_all add: c2)
  ultimately show ?case
    using c1 s w1 same_shape_trans [OF shape2]
    by (intro exI [of _ c'] exI [of _ w'], subst free_all_points.simps) (simp add: points2 c2 [symmetric])
qed

end
