(* ===== verification/DatapointSteps.thy ===== *)
theory DatapointSteps
  imports DatapointProps
begin

text \<open>
  What every operation on a collection returns, and that it keeps the invariant \<open>dp_rep\<close> of
  the collection.
\<close>

subsection \<open>Adding a stream\<close>

lemma get_arg_list_total:
  obtains error args w' where "get_arg_list_from_format_string os s w = Inr (error, args, w')"
    and "error = CCAPI_DP_ERROR_NONE \<longrightarrow> (\<exists>as. args = Some as \<and> format_args as)"
proof -
  let ?ks = "words_of s" and ?args = "map keyword_arg (words_of s)"
  let ?array = "?args @ drop (length ?ks) (replicate 4 CCAPI_DP_ARG_INVALID)"
  have parse: "parse_keywords s (replicate 4 CCAPI_DP_ARG_INVALID) 0 =
      (if length ?ks \<le> 4 then Inr (Some (?array, length ?ks)) else Inr None)"
    by (simp add: parse_keywords_eq)
  have valid: "valid_arg_list ?array (length ?ks) = Inr (format_args ?args)" if "length ?ks \<le> 4"
    using that by (auto simp: valid_arg_list_def check_args_iff format_args_def Suc_le_eq)
  obtain ok1 w1 where m1: "ccapi_malloc os (Bytes (length s + 1)) w = (ok1, w1)" by fastforce
  obtain ok2 w2 where m2: "ccapi_malloc os (Array_Of (length ?ks) ''ccapi_dp_argument_t'') w1 = (ok2, w2)"
    by fastforce
  show thesis
    using that valid m1 m2
    by (cases "length ?ks \<le> 4"; cases "format_args ?args"; cases ok1; cases ok2)
      (auto simp: get_arg_list_from_format_string_def ccapi_strdup_def arg_list_dup_def parse)
qed

lemma create_stream_Some:
  assumes "create_stream os stream_id units forward_to args next_stream w = (Some s, w')"
  shows "st_stream_id s = stream_id" and "st_type s = get_data_stream_type_from_arg_list args"
    and "st_arguments s = args" and "st_point s = []" and "st_next s = next_stream"
  using assms
  by (auto simp: create_stream_def ccapi_strdup_def split: prod.splits bool.splits option.splits if_splits)

lemma dp_rep_add_stream:
  assumes rep: "dp_rep as c" and s: "st_type s = get_data_stream_type_from_arg_list (st_arguments s)"
    "format_args (st_arguments s)" "st_point s = []" "st_next s = dc_list c"
    and new: "\<forall>t \<in> ran (dc_streams c). st_stream_id t \<noteq> st_stream_id s"
  shows "dp_rep (dc_fresh c # as) (c\<lparr>dc_streams := (dc_streams c)(dc_fresh c \<mapsto> s), dc_list := Some (dc_fresh c),
            dc_fresh := Suc (dc_fresh c)\<rparr>)"
proof -
  let ?c = "c\<lparr>dc_streams := (dc_streams c)(dc_fresh c \<mapsto> s), dc_list := Some (dc_fresh c), dc_fresh := Suc (dc_fresh c)\<rparr>"
  have fresh: "dc_fresh c \<notin> set as" "dc_streams c (dc_fresh c) = None" using rep by (auto simp: dp_rep_def)
  have ok: "stream_ok s" using s by (simp add: stream_ok_def)
  have points: "points_at ?c a = points_at c a" for a
    using fresh(2) s(3) by (simp add: points_at_def)
  have "length (points_at c (dc_fresh c)) = 0" using fresh(2) by (simp add: points_at_def)
  then have "(\<Sum>a \<in> set (dc_fresh c # as). length (points_at ?c a)) = (\<Sum>a \<in> set as. length (points_at c a))"
    using fresh(1) by (simp add: points)
  then have count: "dc_count ?c = of_nat (\<Sum>a \<in> set (dc_fresh c # as). length (points_at ?c a))"
    using rep by (simp only: dp_rep_def) simp
  have old: "t \<in> ran (dc_streams c)" if "dc_streams c x = Some t" for x t using that by (auto simp: ran_def)
  have ids: "a = b" if a: "dc_streams ?c a = Some t" and b: "dc_streams ?c b = Some u"
      and eq: "st_stream_id t = st_stream_id u" for a b t u
  proof (cases "a = dc_fresh c"; cases "b = dc_fresh c")
    assume "a \<noteq> dc_fresh c" and "b \<noteq> dc_fresh c"
    then show "a = b" using a b eq rep unfolding dp_rep_def by simp
  next
    assume "a = dc_fresh c" and "b \<noteq> dc_fresh c"
    then show "a = b" using a b eq new old [of b u] by auto
  next
    assume "a \<noteq> dc_fresh c" and "b = dc_fresh c"
    then show "a = b" using a b eq new old [of a t] by auto
  qed simp
  have path: "path (dc_streams ?c) (dc_list ?c) (dc_fresh c # as)"
    using rep fresh(1) s(4) by (simp add: dp_rep_def path_other)
  have "dom (dc_streams ?c) = set (dc_fresh c # as)" "\<forall>a \<in> set (dc_fresh c # as). a < dc_fresh ?c"
    using rep by (auto simp: dp_rep_def less_Suc_eq)
  moreover have "\<forall>t \<in> ran (dc_streams ?c). stream_ok t"
    using rep ok fresh(2) by (simp add: dp_rep_def)
  moreover have "distinct (dc_fresh c # as)" using rep fresh(1) by (simp add: dp_rep_def)
  ultimately show ?thesis unfolding dp_rep_def using path ids count by blast
qed

text \<open>An operation returns, without undefined behaviour, a collection that is well formed.\<close>

definition dp_ok :: "ccapi_dp_collection_t \<Rightarrow> bool" where
  "dp_ok c = (\<exists>as. dp_rep as c)"

definition dp_returns :: "(ccapi_dp_error_t \<times> ccapi_dp_collection_t option \<times> 'w) run \<Rightarrow> bool" where
  "dp_returns r = (\<exists>error c w. r = Some (Inr (error, Some c, w)) \<and> dp_ok c)"

lemma dp_returnsI: "dp_ok c \<Longrightarrow> dp_returns (Some (Inr (error, Some c, w)))"
  by (simp add: dp_returns_def)

lemma dp_returns_release: "dp_ok c \<Longrightarrow> dp_returns (Some (Inr (release_collection os error c w)))"
  by (auto simp: dp_returns_def release_collection_def split: prod.splits)

lemma dp_returns_keeps: "dp_returns r \<Longrightarrow> r = Some (Inr (error, Some c, w)) \<Longrightarrow> dp_ok c"
  by (auto simp: dp_returns_def)

lemma add_stream_returns:
  assumes "dp_ok c"
  shows "dp_returns (ccapi_dp_add_data_stream_to_collection_extra os (Some c) stream_id format_string units forward_to w)"
proof -
  obtain as where rep: "dp_rep as c" using assms by (auto simp: dp_ok_def)
  obtain error args w1 where args: "get_arg_list_from_format_string os (the format_string) w = Inr (error, args, w1)"
    "error = CCAPI_DP_ERROR_NONE \<longrightarrow> (\<exists>as. args = Some as \<and> format_args as)"
    by (rule get_arg_list_total)
  obtain q where q: "find_stream_id_in_collection c (the stream_id) = Some (Inr q)"
    "case q of None \<Rightarrow> \<forall>s \<in> ran (dc_streams c). st_stream_id s \<noteq> the stream_id
     | Some a \<Rightarrow> \<exists>s. dc_streams c a = Some s \<and> st_stream_id s = the stream_id"
    using find_stream_rep [OF rep] by blast
  have added: "dp_ok (c\<lparr>dc_streams := (dc_streams c)(dc_fresh c \<mapsto> s), dc_list := Some (dc_fresh c),
                       dc_fresh := Suc (dc_fresh c)\<rparr>)"
    if "create_stream os (the stream_id) units forward_to (the args) (dc_list c) w2 = (Some s, w3)"
      and "error = CCAPI_DP_ERROR_NONE" and "q = None" for s w2 w3
    using dp_rep_add_stream [OF rep, of s] create_stream_Some [OF that(1)] args(2) q(2) that(2,3)
    by (auto simp: dp_ok_def)
  obtain status w2 where lock: "ccapi_lock_acquire os (dc_lock c) w1 = (status, w2)" by fastforce
  obtain created w3 where create: "create_stream os (the stream_id) units forward_to (the args) (dc_list c) w2 = (created, w3)"
    by fastforce
  have kept: "dp_returns (Some (Inr (e, Some c, v)))" "dp_returns (Some (Inr (release_collection os e c v)))" for e v
    using assms by (auto intro: dp_returnsI dp_returns_release)
  have grown: "dp_returns (Some (Inr (release_collection os e (c\<lparr>dc_streams := (dc_streams c)(dc_fresh c \<mapsto> s),
        dc_list := Some (dc_fresh c), dc_fresh := Suc (dc_fresh c)\<rparr>) v)))"
    if "created = Some s" and "error = CCAPI_DP_ERROR_NONE" and "q = None" for s e v
    using added [OF _ that(2,3)] create that(1) by (intro dp_returns_release) simp
  have "dp_returns (if q \<noteq> None
          then Some (Inr (release_collection os CCAPI_DP_ERROR_INVALID_STREAM_ID c (add_stream_cleanup os False None w2)))
          else case (created, w3) of
            (None, w3) \<Rightarrow> Some (Inr (release_collection os CCAPI_DP_ERROR_INSUFFICIENT_MEMORY c w3))
          | (Some s, w3) \<Rightarrow> Some (Inr (release_collection os CCAPI_DP_ERROR_NONE
              (c\<lparr>dc_streams := (dc_streams c)(dc_fresh c \<mapsto> s), dc_list := Some (dc_fresh c),
                 dc_fresh := Suc (dc_fresh c)\<rparr>) w3)))"
    if "error = CCAPI_DP_ERROR_NONE"
    using kept grown [OF _ that] by (cases created) auto
  then show ?thesis
    unfolding ccapi_dp_add_data_stream_to_collection_extra_def args(1) option.case run_bind_simps prod.case lock q(1) create
    using kept by (auto split: if_split)
qed

subsection \<open>Adding a point\<close>

lemma dp_ok_push_point:
  assumes "dp_ok c" and s: "dc_streams c a = Some s" and "point_ok (st_arguments s) p"
  shows "dp_ok (push_point a p c)"
proof -
  obtain as where rep: "dp_rep as c" using assms(1) by (auto simp: dp_ok_def)
  then have "stream_ok s" using s by (auto simp: dp_rep_def ran_def)
  then have "dp_rep as (push_point a p c)"
    using assms(3) by (simp only: push_point_set [OF s]) (intro dp_rep_set_points [OF rep s], auto simp: stream_ok_def)
  then show ?thesis by (auto simp: dp_ok_def)
qed

lemma created_point_ok:
  assumes "parse_argument_list_and_create_data_point os float_of_double args va w = Inr (CCAPI_DP_ERROR_NONE, p, w')"
    and "format_args args"
  shows "\<exists>q. p = Some q \<and> point_ok args q"
  using assms parse_arguments_ok [where pre = "[]", OF _ point_ok_empty, of os float_of_double args]
  by (auto simp: parse_argument_list_and_create_data_point_def format_args_def split: prod.splits bool.splits if_splits)

lemma add_keeps:
  assumes ok: "dp_ok c" and run: "ccapi_dp_add os float_of_double (Some c) stream_id va w = Some (Inr (error, c', w'))"
  shows "\<exists>d. c' = Some d \<and> dp_ok d"
proof -
  obtain as where rep: "dp_rep as c" using ok by (auto simp: dp_ok_def)
  have release: "\<exists>d. c' = Some d \<and> dp_ok d"
    if "release_collection os e d w2 = (error, c', w')" and "dp_ok d" for e d w2
    using that by (auto simp: release_collection_def split: prod.splits)
  have pushed: "dp_ok (push_point a (the p) c)"
    if "parse_argument_list_and_create_data_point os float_of_double (st_arguments s) va w2 = Inr (CCAPI_DP_ERROR_NONE, p, w3)"
      and "dc_streams c a = Some s" for a s p w2 w3
  proof -
    have "format_args (st_arguments s)" using rep that(2) by (auto simp: dp_rep_def stream_ok_def ran_def)
    then show ?thesis using created_point_ok [OF that(1)] dp_ok_push_point [OF ok that(2)] by auto
  qed
  show ?thesis
    using run ok
    by (auto simp: ccapi_dp_add_def split: prod.splits if_splits option.splits)
      (blast intro: release pushed)+
qed

lemma add_terminates:
  assumes "dp_ok c"
  shows "ccapi_dp_add os float_of_double (Some c) stream_id va w \<noteq> None"
proof -
  obtain as where rep: "dp_rep as c" using assms by (auto simp: dp_ok_def)
  obtain q where "find_stream_id_in_collection c (the stream_id) = Some (Inr q)"
    using find_stream_rep [OF rep] by blast
  then show ?thesis
    by (auto simp: ccapi_dp_add_def run_bind_def split: prod.splits option.splits sum.splits)
qed

text \<open>The variable arguments are what the stream was declared with.\<close>

definition va_fits :: "ccapi_dp_argument_t \<Rightarrow> va_argument \<Rightarrow> bool" where
  "va_fits arg v =
     (case arg of
        CCAPI_DP_ARG_DATA_INT32 \<Rightarrow> (\<exists>x. v = VA_Int32 x)
      | CCAPI_DP_ARG_DATA_INT64 \<Rightarrow> (\<exists>x. v = VA_Int64 x)
      | CCAPI_DP_ARG_DATA_FLOAT \<Rightarrow> (\<exists>x. v = VA_Double x)
      | CCAPI_DP_ARG_DATA_DOUBLE \<Rightarrow> (\<exists>x. v = VA_Double x)
      | CCAPI_DP_ARG_TS_EPOCH \<Rightarrow> (\<exists>s m. v = VA_Timestamp (Some (Timestamp_Epoch s m)))
      | CCAPI_DP_ARG_TS_EPOCH_MS \<Rightarrow> (\<exists>m. v = VA_Timestamp (Some (Timestamp_Epoch_Msec m)))
      | CCAPI_DP_ARG_TS_ISO8601 \<Rightarrow> (\<exists>s. v = VA_Timestamp (Some (Timestamp_Iso8601 (Some s))))
      | CCAPI_DP_ARG_LOCATION \<Rightarrow> (\<exists>l. v = VA_Location (Some l))
      | CCAPI_DP_ARG_QUALITY \<Rightarrow> (\<exists>q. v = VA_Int32 q)
      | CCAPI_DP_ARG_INVALID \<Rightarrow> False
      | _ \<Rightarrow> (\<exists>s. v = VA_String (Some s)))"

lemma strdup_with_memory:
  assumes "\<And>req w. fst (ccapi_malloc os req w) = True"
  obtains w' where "ccapi_strdup os s w = (Some s, w')"
  using that assms [of "Bytes (length s + 1)" w]
  by (cases "ccapi_malloc os (Bytes (length s + 1)) w") (auto simp: ccapi_strdup_def)

lemma parse_argument_defined:
  assumes "\<And>req w. fst (ccapi_malloc os req w) = True" and "va_fits arg v"
  shows "\<exists>p' w'. parse_argument os float_of_double arg p (v # va) w = Inr (Some (p', va), w')"
proof -
  have store: "\<exists>p' w'. store_string os f q s va w = Inr (Some (p', va), w')" for f q s
    by (rule strdup_with_memory [OF assms(1), of s w]) (simp add: store_string_def)
  show ?thesis
    using assms(2) store
    by (cases arg)
      (auto simp: va_fits_def parse_argument_def va_arg_def va_int32_def va_int64_def va_double_def va_string_def
        va_timestamp_def va_location_def va_epoch_def va_epoch_msec_def va_iso8601_def non_null_def)
qed

lemma parse_arguments_defined:
  assumes memory: "\<And>req w. fst (ccapi_malloc os req w) = True" and "list_all2 va_fits args va"
  shows "\<exists>p' w'. parse_arguments os float_of_double args p va w = Inr (Some p', w')"
  using assms(2)
proof (induction args va arbitrary: p w rule: list_all2_induct)
  case (Cons arg args v va)
  obtain p1 w1 where "parse_argument os float_of_double arg p (v # va) w = Inr (Some (p1, va), w1)"
    using parse_argument_defined [OF memory Cons(1)] by blast
  moreover obtain p2 w2 where "parse_arguments os float_of_double args p1 va w1 = Inr (Some p2, w2)"
    using Cons(3) by blast
  ultimately show ?case by auto
qed simp

text \<open>
  Without memory for a copied string the point is freed with both its unions taken for pointers.
  That is defined while no number was stored in either: a list of arguments frees only strings
  if it copies no string once it has stored a number.
\<close>

definition stores_number :: "ccapi_dp_argument_t \<Rightarrow> bool" where
  "stores_number arg \<longleftrightarrow>
     arg \<in> {CCAPI_DP_ARG_DATA_INT32, CCAPI_DP_ARG_DATA_INT64, CCAPI_DP_ARG_DATA_FLOAT, CCAPI_DP_ARG_DATA_DOUBLE,
             CCAPI_DP_ARG_TS_EPOCH, CCAPI_DP_ARG_TS_EPOCH_MS}"

definition stores_copy :: "ccapi_dp_argument_t \<Rightarrow> bool" where
  "stores_copy arg \<longleftrightarrow>
     arg \<in> {CCAPI_DP_ARG_DATA_STRING, CCAPI_DP_ARG_DATA_JSON, CCAPI_DP_ARG_DATA_GEOJSON, CCAPI_DP_ARG_TS_ISO8601}"

fun frees_only_strings :: "ccapi_dp_argument_t list \<Rightarrow> bool" where
  "frees_only_strings [] = True"
| "frees_only_strings (arg # args) =
     ((stores_number arg \<longrightarrow> \<not> list_ex stores_copy args) \<and> frees_only_strings args)"

definition freeable :: "connector_data_point_t \<Rightarrow> bool" where
  "freeable p \<longleftrightarrow> (\<exists>d. native_pointer (pt_data p) = Inr d) \<and> (\<exists>t. time_pointer (pt_time p) = Inr t)"

lemma freeable_empty: "freeable empty_data_point"
  by (simp add: freeable_def empty_data_point_def native_pointer_def time_pointer_def ex_bool_eq)

lemma store_string_defined:
  assumes "freeable q" and "\<And>s'. freeable (f s')"
  shows "\<exists>r w'. store_string os f q s va w = Inr (r, w') \<and> (\<forall>p' va'. r = Some (p', va') \<longrightarrow> va' = va \<and> freeable p')"
  using assms
  by (auto simp: store_string_def freeable_def free_ccfsm_data_point_def Let_def ex_bool_eq split: prod.splits option.splits)

lemma parse_argument_without_memory:
  assumes "va_fits arg v" and "stores_copy arg \<longrightarrow> freeable p"
  shows "\<exists>r w'. parse_argument os float_of_double arg p (v # va) w = Inr (r, w')
    \<and> (\<forall>p' va'. r = Some (p', va') \<longrightarrow> va' = va \<and> (freeable p \<and> \<not> stores_number arg \<longrightarrow> freeable p'))"
proof (cases "stores_copy arg")
  case True
  then have p: "freeable p" using assms(2) by simp
  have data: "\<exists>r w'. store_string os (\<lambda>s'. p\<lparr>pt_data := Native_String s'\<rparr>) (p\<lparr>pt_data := Native_Bits 0\<rparr>) s va w = Inr (r, w')
      \<and> (\<forall>p' va'. r = Some (p', va') \<longrightarrow> va' = va \<and> freeable p')" for s
    using p by (intro store_string_defined) (simp_all add: freeable_def native_pointer_def ex_bool_eq)
  have time: "\<exists>r w'. store_string os (\<lambda>s'. p\<lparr>pt_time_source := connector_time_local_iso8601, pt_time := Time_Iso8601 s'\<rparr>)
        (p\<lparr>pt_time_source := connector_time_local_iso8601, pt_time := Time_Whole 0\<rparr>) s va w = Inr (r, w')
      \<and> (\<forall>p' va'. r = Some (p', va') \<longrightarrow> va' = va \<and> freeable p')" for s
    using p by (intro store_string_defined) (simp_all add: freeable_def time_pointer_def ex_bool_eq)
  have "(\<exists>s. parse_argument os float_of_double arg p (v # va) w =
        store_string os (\<lambda>s'. p\<lparr>pt_data := Native_String s'\<rparr>) (p\<lparr>pt_data := Native_Bits 0\<rparr>) s va w)
      \<or> (\<exists>s. parse_argument os float_of_double arg p (v # va) w =
        store_string os (\<lambda>s'. p\<lparr>pt_time_source := connector_time_local_iso8601, pt_time := Time_Iso8601 s'\<rparr>)
          (p\<lparr>pt_time_source := connector_time_local_iso8601, pt_time := Time_Whole 0\<rparr>) s va w)"
    using assms(1) True
    by (cases arg) (auto simp: va_fits_def parse_argument_def va_arg_def va_string_def va_timestamp_def va_iso8601_def
        non_null_def stores_copy_def)
  then show ?thesis
  proof (elim disjE exE)
    fix s
    assume "parse_argument os float_of_double arg p (v # va) w =
      store_string os (\<lambda>s'. p\<lparr>pt_data := Native_String s'\<rparr>) (p\<lparr>pt_data := Native_Bits 0\<rparr>) s va w"
    then show ?thesis using data [of s] by metis
  next
    fix s
    assume "parse_argument os float_of_double arg p (v # va) w =
      store_string os (\<lambda>s'. p\<lparr>pt_time_source := connector_time_local_iso8601, pt_time := Time_Iso8601 s'\<rparr>)
        (p\<lparr>pt_time_source := connector_time_local_iso8601, pt_time := Time_Whole 0\<rparr>) s va w"
    then show ?thesis using time [of s] by metis
  qed
next
  case False
  then show ?thesis
    using assms(1)
    by (cases arg)
      (auto simp: va_fits_def parse_argument_def va_arg_def va_int32_def va_int64_def va_double_def
        va_timestamp_def va_location_def va_epoch_def va_epoch_msec_def non_null_def stores_copy_def stores_number_def
        freeable_def)
qed

lemma parse_arguments_without_memory:
  assumes "list_all2 va_fits args va" and "frees_only_strings args" and "list_ex stores_copy args \<longrightarrow> freeable p"
  shows "\<exists>r w'. parse_arguments os float_of_double args p va w = Inr (r, w')"
  using assms
proof (induction args va arbitrary: p w rule: list_all2_induct)
  case (Cons arg args v va)
  obtain r w1 where r: "parse_argument os float_of_double arg p (v # va) w = Inr (r, w1)"
    "\<forall>p' va'. r = Some (p', va') \<longrightarrow> va' = va \<and> (freeable p \<and> \<not> stores_number arg \<longrightarrow> freeable p')"
    using parse_argument_without_memory [of arg v p os float_of_double va w] Cons.hyps(1) Cons.prems(2) by auto
  show ?case
  proof (cases r)
    case None
    then show ?thesis using r(1) by simp
  next
    case (Some x)
    then obtain p' where p': "r = Some (p', va)" "freeable p \<and> \<not> stores_number arg \<longrightarrow> freeable p'"
      using r(2) by (cases x) auto
    have "\<exists>r w'. parse_arguments os float_of_double args p' va w1 = Inr (r, w')"
      using Cons.prems p'(2) by (intro Cons.IH) auto
    then show ?thesis using r(1) p'(1) by simp
  qed
qed simp

text \<open>Otherwise a number can be freed: the value of a point whose time stamp there is no memory for.\<close>

lemma number_is_freed_as_pointer:
  assumes "ccapi_malloc os (Sizeof ''connector_data_point_t'') w = (True, w1)"
    and "ccapi_strdup os s w1 = (None, w2)" and "x \<noteq> (0 :: u64)"
  shows "parse_argument_list_and_create_data_point os float_of_double
      [CCAPI_DP_ARG_DATA_INT64, CCAPI_DP_ARG_TS_ISO8601] [VA_Int64 x, VA_Timestamp (Some (Timestamp_Iso8601 (Some s)))] w
    = Inl Wild_Free"
  using assms
  by (simp add: parse_argument_list_and_create_data_point_def parse_argument_def va_arg_def va_int64_def va_iso8601_def
      va_timestamp_def non_null_def store_string_def free_ccfsm_data_point_def native_pointer_def)

end
