(* ===== verification/DatapointOps.thy ===== *)
theory DatapointOps
  imports DatapointSteps
begin

text \<open>
  The remaining operations on a collection: adding a point with the arguments the stream was
  declared with, removing streams and points, clearing, and sending.
\<close>

lemma add_returns:
  assumes ok: "dp_ok c"
    and fits: "\<And>s. s \<in> ran (dc_streams c) \<Longrightarrow> Some (st_stream_id s) = stream_id \<Longrightarrow>
      list_all2 va_fits (st_arguments s) va
        \<and> ((\<forall>req w. fst (ccapi_malloc os req w) = True) \<or> frees_only_strings (st_arguments s))"
  shows "dp_returns (ccapi_dp_add os float_of_double (Some c) stream_id va w)"
proof -
  obtain as where rep: "dp_rep as c" using ok by (auto simp: dp_ok_def)
  obtain status w1 where lock: "ccapi_lock_acquire os (dc_lock c) w = (status, w1)" by fastforce
  obtain q where q: "find_stream_id_in_collection c (the stream_id) = Some (Inr q)"
    "case q of None \<Rightarrow> \<forall>s \<in> ran (dc_streams c). st_stream_id s \<noteq> the stream_id
     | Some a \<Rightarrow> \<exists>s. dc_streams c a = Some s \<and> st_stream_id s = the stream_id"
    using find_stream_rep [OF rep] by blast
  show ?thesis
  proof (cases "status = CCIMP_STATUS_OK \<and> valid_stream_id stream_id \<and> q \<noteq> None")
    case False
    then show ?thesis
      using lock q(1) by (auto simp: ccapi_dp_add_def intro: dp_returnsI dp_returns_release ok)
  next
    case True
    then obtain a s where a: "q = Some a" "dc_streams c a = Some s" "st_stream_id s = the stream_id" using q(2) by auto
    have "Some (st_stream_id s) = stream_id" using True a(3) by (auto simp: valid_stream_id_def split: option.splits)
    then have va: "list_all2 va_fits (st_arguments s) va"
      "(\<forall>req w. fst (ccapi_malloc os req w) = True) \<or> frees_only_strings (st_arguments s)"
      using fits a(2) by (auto simp: ran_def)
    obtain allocated w2 where m: "ccapi_malloc os (Sizeof ''connector_data_point_t'') w1 = (allocated, w2)" by fastforce
    have "\<exists>p w3. parse_arguments os float_of_double (st_arguments s) empty_data_point va w2 = Inr (p, w3)"
      using va(2) parse_arguments_defined [OF _ va(1)] parse_arguments_without_memory [OF va(1)] freeable_empty by metis
    then obtain error p w3 where made: "parse_argument_list_and_create_data_point os float_of_double (st_arguments s) va w1
        = Inr (error, p, w3)"
      using m by (cases allocated) (auto simp: parse_argument_list_and_create_data_point_def)
    have "format_args (st_arguments s)" using rep a(2) by (auto simp: dp_rep_def stream_ok_def ran_def)
    then have "dp_ok (push_point a (the p) c)" if "error = CCAPI_DP_ERROR_NONE"
      using created_point_ok [OF made [unfolded that]] dp_ok_push_point [OF ok a(2)] by auto
    then show ?thesis using True lock q(1) a made ok by (auto simp: ccapi_dp_add_def dp_returns_release)
  qed
qed

subsection \<open>Removing a stream\<close>

lemma remove_streams_path:
  assumes "path (dc_streams c) p as" and "\<forall>s \<in> ran (dc_streams c). stream_ok s"
    and "\<forall>b. previous = Some b \<longrightarrow> dc_streams c b \<noteq> None"
  shows "remove_streams os stream_id p previous found c w =
    Some (if \<exists>a \<in> set as. st_stream_id (the (dc_streams c a)) = stream_id then Inl Use_After_Free
          else Inr (found, c, w))"
  using assms(1,3)
proof (induction as arbitrary: p previous)
  case Nil
  then show ?case by (subst remove_streams.simps) simp
next
  case (Cons a as)
  then obtain s where s: "p = Some a" "dc_streams c a = Some s" "path (dc_streams c) (st_next s) as" by auto
  show ?case
  proof (cases "st_stream_id s = stream_id")
    case False
    then show ?thesis using s Cons.IH [OF s(3), of "Some a"] by (subst remove_streams.simps) simp
  next
    case True
    have "stream_ok s" using assms(2) s(2) by (auto simp: ran_def)
    then obtain w1 where "free_data_points_in_data_stream os (st_type s) (st_point s) w
        = Inr (of_nat (length (st_point s)), w1)"
      using stream_free_typed [of s os w] by blast
    then show ?thesis
      using True s Cons.prems(2)
      by (subst remove_streams.simps) (cases previous; auto simp: Let_def)
  qed
qed

text \<open>A stream that is there is never removed without reading it after it was freed.\<close>

lemma remove_stream_result:
  assumes rep: "dp_rep as c"
  shows "(\<exists>s \<in> ran (dc_streams c). stream_id = Some (st_stream_id s)) \<and> valid_stream_id stream_id
      \<and> fst (ccapi_lock_acquire os (dc_lock c) w) = CCIMP_STATUS_OK
    \<Longrightarrow> ccapi_dp_remove_data_stream_from_collection os (Some c) stream_id w = Some (Inl Use_After_Free)"
    and "\<not> ((\<exists>s \<in> ran (dc_streams c). stream_id = Some (st_stream_id s)) \<and> valid_stream_id stream_id
      \<and> fst (ccapi_lock_acquire os (dc_lock c) w) = CCIMP_STATUS_OK)
    \<Longrightarrow> \<exists>error w'. ccapi_dp_remove_data_stream_from_collection os (Some c) stream_id w = Some (Inr (error, Some c, w'))
        \<and> error \<noteq> CCAPI_DP_ERROR_NONE"
proof -
  have p: "path (dc_streams c) (dc_list c) as" "dom (dc_streams c) = set as" "\<forall>s \<in> ran (dc_streams c). stream_ok s"
    using rep by (simp_all add: dp_rep_def)
  obtain status w1 where lock: "ccapi_lock_acquire os (dc_lock c) w = (status, w1)" by fastforce
  have there: "(\<exists>a \<in> set as. st_stream_id (the (dc_streams c a)) = the stream_id)
      \<longleftrightarrow> (\<exists>s \<in> ran (dc_streams c). stream_id = Some (st_stream_id s))" if "valid_stream_id stream_id"
  proof -
    have "\<exists>i. stream_id = Some i" using that by (auto simp: valid_stream_id_def split: option.splits)
    then show ?thesis unfolding p(2) [symmetric] by (force simp: ran_def dom_def)
  qed
  have nonempty: "dc_list c \<noteq> None" if "s \<in> ran (dc_streams c)" for s
    using that p(1,2) by (cases as) (auto simp: ran_def)
  note walk = remove_streams_path [OF p(1,3), of None os "the stream_id" False w1]
  show "ccapi_dp_remove_data_stream_from_collection os (Some c) stream_id w = Some (Inl Use_After_Free)"
    if "(\<exists>s \<in> ran (dc_streams c). stream_id = Some (st_stream_id s)) \<and> valid_stream_id stream_id
      \<and> fst (ccapi_lock_acquire os (dc_lock c) w) = CCIMP_STATUS_OK"
    using that walk there lock nonempty
    by (auto simp: ccapi_dp_remove_data_stream_from_collection_def Let_def)
  show "\<exists>error w'. ccapi_dp_remove_data_stream_from_collection os (Some c) stream_id w = Some (Inr (error, Some c, w'))
      \<and> error \<noteq> CCAPI_DP_ERROR_NONE"
    if "\<not> ((\<exists>s \<in> ran (dc_streams c). stream_id = Some (st_stream_id s)) \<and> valid_stream_id stream_id
      \<and> fst (ccapi_lock_acquire os (dc_lock c) w) = CCIMP_STATUS_OK)"
    using that walk there lock
    by (auto simp: ccapi_dp_remove_data_stream_from_collection_def Let_def split: prod.splits)
qed

subsection \<open>Removing points, clearing and sending\<close>

lemma remove_older_result:
  assumes rep: "dp_rep as c"
  shows "\<exists>w'. ccapi_dp_remove_older_data_point_from_streams os (Some c) w
      = Some (Inr (CCAPI_DP_ERROR_NONE, Some (fold drop_head as c), w'))"
proof -
  obtain w' where "remove_head_points os (dc_list c) c w = Some (Inr (fold drop_head as c, w'))"
    using remove_head_points_path [of c "dc_list c" as os w] rep by (auto simp: dp_rep_def)
  then show ?thesis by (simp add: ccapi_dp_remove_older_data_point_from_streams_def)
qed

lemma free_streams_path:
  assumes "path h p as" and "\<forall>s \<in> ran h. stream_ok s" and "distinct as"
  shows "\<exists>w'. free_streams os p h w = Some (Inr (h |` (- set as), w'))"
  using assms
proof (induction as arbitrary: h p w)
  case Nil
  then show ?case by (subst free_streams.simps) (simp add: restrict_map_def)
next
  case (Cons a as)
  then obtain s where s: "p = Some a" "h a = Some s" "path h (st_next s) as" and "stream_ok s" by (auto simp: ran_def)
  then obtain w1 where w1: "free_data_points_in_data_stream os (st_type s) (st_point s) w
      = Inr (of_nat (length (st_point s)), w1)"
    using stream_free_typed [of s os w] by blast
  have P: "path (h(a := None)) (st_next s) as" using path_other s(3) Cons.prems(3) by simp
  have Q: "\<forall>s \<in> ran (h(a := None)). stream_ok s" using Cons.prems(2) by (auto simp: ran_def)
  have IH: "\<exists>w'. free_streams os (st_next s) (h(a := None)) w2 = Some (Inr ((h(a := None)) |` (- set as), w'))" for w2
    by (rule Cons.IH [OF P Q]) (use Cons.prems(3) in simp)
  have "(h(a := None)) |` (- set as) = h |` (- set (a # as))" by (auto simp: restrict_map_def)
  then show ?case
    using s w1 IH [of "free_blocks os [True, True] (free_ccfsm_stream os True (st_unit s) (st_forward_to s) w1)"]
    by (subst free_streams.simps) simp
qed

text \<open>Clearing frees the streams and leaves the list and the count as they were.\<close>

lemma clear_result:
  assumes rep: "dp_rep as c" and "fst (ccapi_lock_acquire os (dc_lock c) w) = CCIMP_STATUS_OK"
  shows "\<exists>error w'. ccapi_dp_clear_collection os (Some c) w
      = Some (Inr (error, Some (c\<lparr>dc_streams := Map.empty\<rparr>), w'))"
proof -
  obtain w1 where lock: "ccapi_lock_acquire os (dc_lock c) w = (CCIMP_STATUS_OK, w1)"
    using assms(2) by (metis prod.collapse)
  have "path (dc_streams c) (dc_list c) as" "\<forall>s \<in> ran (dc_streams c). stream_ok s" "distinct as"
    and dom: "dom (dc_streams c) = set as" using rep by (simp_all add: dp_rep_def)
  then obtain w2 where "free_streams os (dc_list c) (dc_streams c) w1 = Some (Inr (dc_streams c |` (- set as), w2))"
    using free_streams_path [of "dc_streams c" "dc_list c" as os w1] by blast
  moreover have "dc_streams c |` (- set as) = Map.empty" using dom by (auto simp: restrict_map_def fun_eq_iff)
  ultimately show ?thesis
    using lock by (auto simp: ccapi_dp_clear_collection_def free_collection_def split: prod.split)
qed

lemma dp_rep_chain:
  assumes rep: "dp_rep as c"
  shows "\<exists>c'. chain_collection_ccfsm_data_streams c = Some (Inr c') \<and> dp_rep as c' \<and> dc_list c' = dc_list c
    \<and> dc_lock c' = dc_lock c"
proof -
  obtain c' where c': "chain_streams (dc_list c) c = Some (Inr c')" "same_shape (dc_streams c) (dc_streams c')"
    "dc_list c' = dc_list c" "dc_fresh c' = dc_fresh c" "dc_count c' = dc_count c" "dc_lock c' = dc_lock c"
    "\<forall>b. points_at c' b = points_at c b"
    using chain_streams_path [of c "dc_list c" as] rep by (auto simp: dp_rep_def)
  have "\<forall>s \<in> ran (dc_streams c'). stream_ok s"
    using shape_stream_ok [OF c'(2)] c'(7) rep by (simp add: dp_rep_def)
  then have "dp_rep as c'"
    using c' rep by (intro dp_rep_points [OF rep c'(2-4)]) (auto simp: stream_ok_def ran_def dp_rep_def)
  then show ?thesis using c' by (auto simp: chain_collection_ccfsm_data_streams_def)
qed

lemma dp_rep_free_all:
  assumes rep: "dp_rep as c"
  shows "\<exists>c' w'. free_data_points_from_collection os c w = Some (Inr (c', w')) \<and> dp_rep as c' \<and> dc_count c' = 0
    \<and> dc_lock c' = dc_lock c"
proof -
  obtain c' w' where c': "free_all_points os (dc_list c) c w = Some (Inr (c', w'))" "same_shape (dc_streams c) (dc_streams c')"
    "dc_list c' = dc_list c" "dc_fresh c' = dc_fresh c" "dc_lock c' = dc_lock c"
    "\<forall>b. points_at c' b = (if b \<in> set as then [] else points_at c b)"
    using free_all_points_path [of c "dc_list c" as os w] rep by (auto simp: dp_rep_def)
  have "\<forall>s \<in> ran (dc_streams c'). stream_ok s"
    by (rule shape_stream_ok [OF c'(2)]) (use c'(6) rep in \<open>auto simp: dp_rep_def\<close>)
  then have "dp_rep as (c'\<lparr>dc_count := 0\<rparr>)"
    using c' by (intro dp_rep_points [OF rep]) (auto simp: stream_ok_def ran_def points_at_def)
  then show ?thesis using c' by (auto simp: free_data_points_from_collection_def)
qed

lemma perform_send_keeps:
  assumes "dp_ok c" and "perform_send_collection env d request t c w = Some (Inr (error, t', c', w'))"
  shows "dp_ok c'"
proof -
  obtain as where rep: "dp_rep as c" using assms(1) by (auto simp: dp_ok_def)
  have "dp_ok c1" if "free_data_points_from_collection os c w1 = Some (Inr (c1, w2))" for os c1 w1 w2
    using that dp_rep_free_all [OF rep, of os w1] by (auto simp: dp_ok_def)
  then show ?thesis
    using assms
    by (auto simp: perform_send_collection_def Let_def split: option.splits prod.splits if_splits)
qed

lemma send_done_keeps:
  "send_collection_done os t locked error c w = (error', c', w') \<Longrightarrow> c' = Some c"
  by (auto simp: send_collection_done_def release_collection_def Let_def split: if_splits prod.splits)

lemma send_keeps:
  assumes "dp_ok c" and run: "send_collection env d transport (Some c) with_reply timeout hint w = Some (Inr (error, hint', c', w'))"
  shows "\<exists>e. c' = Some e \<and> dp_ok e"
proof -
  obtain as where rep: "dp_rep as c" using assms(1) by (auto simp: dp_ok_def)
  obtain c1 where c1: "chain_collection_ccfsm_data_streams c = Some (Inr c1)" "dp_ok c1"
    using dp_rep_chain [OF rep] by (auto simp: dp_ok_def)
  show ?thesis
    using run assms(1) c1
    by (auto simp: send_collection_def Let_def split: prod.splits bool.splits if_splits
        dest!: send_done_keeps perform_send_keeps [OF c1(2)])
qed

end
