(* ===== verification/DatapointClaims.thy ===== *)
theory DatapointClaims
  imports DatapointOps
begin

text \<open>
  The properties of collections: what holds of every collection a program can get to without
  clearing one, which operations return, and which reach for what was freed.
\<close>

subsection \<open>The collections of a program\<close>

text \<open>
  Everything but clearing and destroying, in any order, by any number of callers that take their
  turns at the lock; the world may change at any time.
\<close>

inductive dp_reachable :: "'w os \<Rightarrow> (u64 \<Rightarrow> u32) \<Rightarrow> ccapi_dp_collection_t \<Rightarrow> 'w \<Rightarrow> bool"
  for os :: "'w os" and float_of_double :: "u64 \<Rightarrow> u32" where
  created: "ccapi_dp_create_collection os nonnull w = (error, Some c, w') \<Longrightarrow> dp_reachable os float_of_double c w'"
| elsewhere: "dp_reachable os float_of_double c w \<Longrightarrow> dp_reachable os float_of_double c w'"
| stream_added: "dp_reachable os float_of_double c w
    \<Longrightarrow> ccapi_dp_add_data_stream_to_collection_extra os (Some c) stream_id format_string units forward_to w
        = Some (Inr (error, Some c', w'))
    \<Longrightarrow> dp_reachable os float_of_double c' w'"
| stream_removed: "dp_reachable os float_of_double c w
    \<Longrightarrow> ccapi_dp_remove_data_stream_from_collection os (Some c) stream_id w = Some (Inr (error, Some c', w'))
    \<Longrightarrow> dp_reachable os float_of_double c' w'"
| point_added: "dp_reachable os float_of_double c w
    \<Longrightarrow> ccapi_dp_add os float_of_double (Some c) stream_id va w = Some (Inr (error, Some c', w'))
    \<Longrightarrow> dp_reachable os float_of_double c' w'"
| points_removed: "dp_reachable os float_of_double c w
    \<Longrightarrow> ccapi_dp_remove_older_data_point_from_streams os (Some c) w = Some (Inr (error, Some c', w'))
    \<Longrightarrow> dp_reachable os float_of_double c' w'"
| sent: "dp_reachable os float_of_double c w \<Longrightarrow> de_os env = os
    \<Longrightarrow> send_collection env d transport (Some c) with_reply timeout hint w = Some (Inr (error, hint', Some c', w'))
    \<Longrightarrow> dp_reachable os float_of_double c' w'"

lemma dp_ok_created:
  assumes "ccapi_dp_create_collection os nonnull w = (error, Some c, w')"
  shows "dp_ok c"
proof -
  have "dc_streams c = Map.empty" "dc_list c = None" "dc_count c = 0"
    using assms by (auto simp: ccapi_dp_create_collection_def split: if_splits prod.splits bool.splits option.splits)
  then have "dp_rep [] c" by (simp add: dp_rep_def)
  then show ?thesis by (auto simp: dp_ok_def)
qed

lemma dp_reachable_ok: "dp_reachable os float_of_double c w \<Longrightarrow> dp_ok c"
proof (induction rule: dp_reachable.induct)
  case (stream_added c w stream_id format_string units forward_to error c' w')
  then show ?case using add_stream_returns dp_returns_keeps by metis
next
  case (stream_removed c w stream_id error c' w')
  then obtain as where rep: "dp_rep as c" by (auto simp: dp_ok_def)
  show ?case using remove_stream_result [OF rep, of stream_id os w] stream_removed by fastforce
next
  case (point_added c w stream_id va error c' w')
  then show ?case using add_keeps [OF _ point_added(2)] by blast
next
  case (points_removed c w error c' w')
  then obtain as where rep: "dp_rep as c" by (auto simp: dp_ok_def)
  have "dp_rep as (fold drop_head as c)" by (rule fold_drop_head_rep [OF rep])
  then show ?case using remove_older_result [OF rep, of os w] points_removed by (auto simp: dp_ok_def)
next
  case (sent c w env d transport with_reply timeout hint error hint' c' w')
  then show ?case using send_keeps [OF _ sent(3)] by blast
qed (auto intro: dp_ok_created)

lemma add_success:
  assumes "ccapi_dp_add os float_of_double (Some c) stream_id va w = Some (Inr (CCAPI_DP_ERROR_NONE, Some c', w'))"
    and "dp_ok c"
  shows "\<exists>a s p. dc_streams c a = Some s \<and> stream_id = Some (st_stream_id s) \<and> point_ok (st_arguments s) p
    \<and> c' = push_point a p c"
proof -
  obtain as where rep: "dp_rep as c" using assms(2) by (auto simp: dp_ok_def)
  obtain q where q: "find_stream_id_in_collection c (the stream_id) = Some (Inr q)"
    "case q of None \<Rightarrow> \<forall>s \<in> ran (dc_streams c). st_stream_id s \<noteq> the stream_id
     | Some a \<Rightarrow> \<exists>s. dc_streams c a = Some s \<and> st_stream_id s = the stream_id"
    using find_stream_rep [OF rep] by blast
  have release: "error = CCAPI_DP_ERROR_NONE \<and> c' = d"
    if "release_collection os error d v = (CCAPI_DP_ERROR_NONE, Some c', w')" for error d v
    using that by (auto simp: release_collection_def split: prod.splits if_splits)
  obtain a s error p v v' where *: "valid_stream_id stream_id" "q = Some a" "dc_streams c a = Some s"
    "parse_argument_list_and_create_data_point os float_of_double (st_arguments s) va v = Inr (error, p, v')"
    "error = CCAPI_DP_ERROR_NONE" "c' = push_point a (the p) c"
    using assms(1) q(1)
    by (auto simp: ccapi_dp_add_def split: prod.splits if_splits option.splits dest!: release)
  have "format_args (st_arguments s)" using rep *(3) by (auto simp: dp_rep_def stream_ok_def ran_def)
  then have "point_ok (st_arguments s) (the p)" using created_point_ok *(4,5) by fastforce
  moreover have "stream_id = Some (st_stream_id s)"
    using q(2) * by (auto simp: valid_stream_id_def split: option.splits)
  ultimately show ?thesis using * by blast
qed

subsection \<open>An example\<close>

definition ex_stream :: ccapi_dp_data_stream_t where
  "ex_stream = \<lparr>st_stream_id = ''s'', st_unit = None, st_forward_to = None,
     st_type = Some connector_data_point_type_integer, st_arguments = [CCAPI_DP_ARG_DATA_INT32], st_point = [],
     st_ccfsm_next = None, st_next = None\<rparr>"

definition ex_collection :: ccapi_dp_collection_t where
  "ex_collection = \<lparr>dc_streams = [0 \<mapsto> ex_stream], dc_fresh = 1, dc_list = Some 0, dc_count = 0, dc_lock = Some 1\<rparr>"

definition ex_point :: connector_data_point_t where
  "ex_point = empty_data_point\<lparr>pt_data := Native_Bits 5\<rparr>"

lemma ex_arguments:
  "get_arg_list_from_format_string example_os ''int32'' () = Inr (CCAPI_DP_ERROR_NONE, Some [CCAPI_DP_ARG_DATA_INT32], ())"
proof -
  have "words_of ''int32'' = [''int32'']" by (rule words_of_plain) simp_all
  then have args: "[CCAPI_DP_ARG_DATA_INT32] = map keyword_arg (words_of ''int32'')"
    by (simp add: keyword_arg_def key_arg_map_def)
  show ?thesis
    using get_arg_list_result [OF _ args, of example_os "()"] by (auto simp: format_args_def argument_kind_def)
qed

lemma ex_created:
  "ccapi_dp_create_collection example_os True () =
     (CCAPI_DP_ERROR_NONE, Some \<lparr>dc_streams = Map.empty, dc_fresh = 0, dc_list = None, dc_count = 0, dc_lock = Some 1\<rparr>, ())"
  by (simp add: ccapi_dp_create_collection_def ccapi_lock_create_and_release_def)

lemma ex_added:
  "ccapi_dp_add_data_stream_to_collection_extra example_os
      (Some \<lparr>dc_streams = Map.empty, dc_fresh = 0, dc_list = None, dc_count = 0, dc_lock = Some 1\<rparr>)
      (Some ''s'') (Some ''int32'') None None () = Some (Inr (CCAPI_DP_ERROR_NONE, Some ex_collection, ()))"
  by (simp add: ccapi_dp_add_data_stream_to_collection_extra_def valid_stream_id_def valid_format_string_def isalnum_def
      ex_arguments find_stream_id_in_collection_def find_stream_from.simps create_stream_def dup_optional_def
      ccapi_strdup_def release_collection_def ex_collection_def ex_stream_def data_type_def)

lemma ex_reachable: "dp_reachable example_os (\<lambda>x. 0) ex_collection ()"
  by (rule stream_added [OF created [OF ex_created] ex_added])

lemma ex_find: "find_stream_id_in_collection ex_collection ''s'' = Some (Inr (Some 0))"
  by (simp add: find_stream_id_in_collection_def find_stream_from.simps ex_collection_def ex_stream_def)

lemma ex_point_added:
  "ccapi_dp_add example_os (\<lambda>x. 0) (Some ex_collection) (Some ''s'') [VA_Int32 5] () =
     Some (Inr (CCAPI_DP_ERROR_NONE, Some (push_point 0 ex_point ex_collection), ()))"
proof -
  have "dc_lock ex_collection = Some 1" "dc_streams ex_collection 0 = Some ex_stream"
    "dc_lock (push_point 0 p ex_collection) = Some 1" for p
    by (simp_all add: ex_collection_def push_point_def)
  then show ?thesis
    by (simp add: ccapi_dp_add_def ex_find valid_stream_id_def isalnum_def parse_argument_list_and_create_data_point_def
        ex_stream_def parse_argument_def va_arg_def va_int32_def release_collection_def ex_point_def)
qed

subsection \<open>The properties\<close>

text \<open>
  C30. Points have the type of their stream. In every collection a program can get to, by any
  calls of the functions that add and remove streams and points and that send, and in whatever
  state of memory and locks, each stream has a format without an argument twice of one kind and
  the type of its data argument; each of its points holds a value of this type, a time, a
  location and a quality exactly as the format says; no two streams have the same name; and the
  count the user can ask for is the number of points, modulo 2 to the 32.
\<close>

theorem collections_stay_typed:
  assumes "dp_reachable os float_of_double c w"
  shows "(\<forall>s \<in> ran (dc_streams c). format_args (st_arguments s)
        \<and> st_type s = get_data_stream_type_from_arg_list (st_arguments s)
        \<and> (\<forall>p \<in> set (st_point s). point_ok (st_arguments s) p))
    \<and> inj_on (\<lambda>a. st_stream_id (the (dc_streams c a))) (dom (dc_streams c))
    \<and> ccapi_dp_get_collection_points_count (Some c) True =
        (CCAPI_DP_ERROR_NONE, Some (of_nat (\<Sum>a \<in> dom (dc_streams c). length (points_at c a))))"
proof -
  obtain as where rep: "dp_rep as c" using dp_reachable_ok [OF assms] by (auto simp: dp_ok_def)
  have "inj_on (\<lambda>a. st_stream_id (the (dc_streams c a))) (dom (dc_streams c))"
  proof (rule inj_onI)
    fix a b assume "a \<in> dom (dc_streams c)" and "b \<in> dom (dc_streams c)"
      and "st_stream_id (the (dc_streams c a)) = st_stream_id (the (dc_streams c b))"
    then show "a = b" using rep unfolding dp_rep_def by (metis domD option.sel)
  qed
  then show ?thesis
    using rep by (simp add: dp_rep_def stream_ok_def ccapi_dp_get_collection_points_count_def)
qed

theorem collections_stay_typed_witness:
  "point_ok [CCAPI_DP_ARG_DATA_INT32] ex_point
    \<and> ccapi_dp_get_collection_points_count (Some (push_point 0 ex_point ex_collection)) True = (CCAPI_DP_ERROR_NONE, Some 1)"
  using collections_stay_typed [OF point_added [OF ex_reachable ex_point_added]]
  by (simp add: push_point_def ex_collection_def ex_stream_def points_at_def data_type_def)

text \<open>
  C31. Operations on a collection return. A collection a program can get to is one that was
  created and then given streams and points, sent, or deprived of points, and never cleared. On
  such a collection adding a stream and removing the newest points end without undefined
  behaviour, whatever the arguments and the state of memory and locks. So does adding a point
  whose variable arguments are of the types its stream was declared with, if every \<open>malloc\<close>
  succeeds or the stream's arguments copy no string after a number was stored. Without memory
  for a string that follows a number the point is freed with the number taken for a pointer
  (\<open>number_is_freed_as_pointer\<close>), and other variable arguments are read with the wrong type: then
  the call is only shown not to walk for ever, and so are removing a stream, clearing and
  destroying. Sending a collection is not one of these operations.
\<close>

theorem collection_operations_return:
  assumes "dp_reachable os float_of_double c w"
  shows "dp_returns (ccapi_dp_add_data_stream_to_collection_extra os (Some c) stream_id format_string units forward_to w)
    \<and> dp_returns (ccapi_dp_remove_older_data_point_from_streams os (Some c) w)
    \<and> ((\<forall>s \<in> ran (dc_streams c). Some (st_stream_id s) = stream_id \<longrightarrow> list_all2 va_fits (st_arguments s) va
          \<and> ((\<forall>req v. fst (ccapi_malloc os req v) = True) \<or> frees_only_strings (st_arguments s)))
        \<longrightarrow> dp_returns (ccapi_dp_add os float_of_double (Some c) stream_id va w))
    \<and> ccapi_dp_add os float_of_double (Some c) stream_id va w \<noteq> None
    \<and> ccapi_dp_remove_data_stream_from_collection os (Some c) stream_id w \<noteq> None
    \<and> ccapi_dp_clear_collection os (Some c) w \<noteq> None \<and> ccapi_dp_destroy_collection os (Some c) w \<noteq> None"
proof -
  have ok: "dp_ok c" by (rule dp_reachable_ok [OF assms])
  then obtain as where rep: "dp_rep as c" by (auto simp: dp_ok_def)
  have older: "dp_returns (ccapi_dp_remove_older_data_point_from_streams os (Some c) w)"
    using remove_older_result [OF rep, of os w] fold_drop_head_rep [OF rep, of as]
    by (auto simp: dp_returns_def dp_ok_def)
  have removed: "ccapi_dp_remove_data_stream_from_collection os (Some c) stream_id w \<noteq> None"
    using remove_stream_result [OF rep, of stream_id os w] by fastforce
  have clear: "ccapi_dp_clear_collection os (Some c) w \<noteq> None"
    using clear_result [OF rep, of os w]
    by (cases "fst (ccapi_lock_acquire os (dc_lock c) w) = CCIMP_STATUS_OK")
      (auto simp: ccapi_dp_clear_collection_def split: prod.splits)
  have destroy: "ccapi_dp_destroy_collection os (Some c) w \<noteq> None"
    using clear by (auto simp: ccapi_dp_destroy_collection_def run_bind_def split: option.splits sum.splits prod.splits ccimp_status_t.splits)
  have point: "dp_returns (ccapi_dp_add os float_of_double (Some c) stream_id va w)"
    if "\<forall>s \<in> ran (dc_streams c). Some (st_stream_id s) = stream_id \<longrightarrow> list_all2 va_fits (st_arguments s) va
      \<and> ((\<forall>req v. fst (ccapi_malloc os req v) = True) \<or> frees_only_strings (st_arguments s))"
    using that by (intro add_returns [OF ok]) auto
  show ?thesis
    by (intro conjI impI) (fact add_stream_returns [OF ok] older point add_terminates [OF ok] removed clear destroy)+
qed

theorem collection_operations_return_witness:
  "dp_returns (ccapi_dp_add example_os (\<lambda>x. 0) (Some ex_collection) (Some ''s'') [VA_Int32 7] ())"
  using collection_operations_return [OF ex_reachable, of "Some ''s''" None None None "[VA_Int32 7]"]
  by (simp add: ex_collection_def ex_stream_def va_fits_def)

text \<open>
  C32. A stream cannot be removed, and a cleared collection cannot be used. Removing a stream
  that is in the collection always reads the stream after it was freed, once the lock is
  acquired; and removing any other returns an error and changes nothing: no call of the function
  succeeds. Clearing a collection with streams frees them but keeps the list and the count, so
  that the next point added follows a pointer to a freed stream.
\<close>

theorem removed_streams_are_read:
  assumes "dp_reachable os float_of_double c w" and "ccapi_lock_acquire os (dc_lock c) w = (CCIMP_STATUS_OK, w1)"
    and "valid_stream_id (Some stream_id)"
  shows "(if \<exists>s \<in> ran (dc_streams c). st_stream_id s = stream_id
      then ccapi_dp_remove_data_stream_from_collection os (Some c) (Some stream_id) w = Some (Inl Use_After_Free)
      else \<exists>error w'. error \<noteq> CCAPI_DP_ERROR_NONE
        \<and> ccapi_dp_remove_data_stream_from_collection os (Some c) (Some stream_id) w = Some (Inr (error, Some c, w')))
    \<and> (\<exists>error c' w'. ccapi_dp_clear_collection os (Some c) w = Some (Inr (error, Some c', w'))
        \<and> dc_list c' = dc_list c \<and> dc_count c' = dc_count c
        \<and> (dc_list c \<noteq> None \<and> fst (ccapi_lock_acquire os (dc_lock c') w') = CCIMP_STATUS_OK
            \<longrightarrow> ccapi_dp_add os float_of_double (Some c') (Some stream_id) va w' = Some (Inl Use_After_Free)))"
proof -
  obtain as where rep: "dp_rep as c" using dp_reachable_ok [OF assms(1)] by (auto simp: dp_ok_def)
  have lock: "fst (ccapi_lock_acquire os (dc_lock c) w) = CCIMP_STATUS_OK" by (simp add: assms(2))
  have removed: "if \<exists>s \<in> ran (dc_streams c). st_stream_id s = stream_id
      then ccapi_dp_remove_data_stream_from_collection os (Some c) (Some stream_id) w = Some (Inl Use_After_Free)
      else \<exists>error w'. error \<noteq> CCAPI_DP_ERROR_NONE
        \<and> ccapi_dp_remove_data_stream_from_collection os (Some c) (Some stream_id) w = Some (Inr (error, Some c, w'))"
    using remove_stream_result [OF rep, of "Some stream_id" os w] lock assms(3) by auto
  let ?c = "c\<lparr>dc_streams := Map.empty\<rparr>"
  obtain error w' where clear: "ccapi_dp_clear_collection os (Some c) w = Some (Inr (error, Some ?c, w'))"
    using clear_result [OF rep, of os w, OF lock] by blast
  have find: "find_stream_id_in_collection ?c stream_id = Some (Inl Use_After_Free)" if "dc_list c \<noteq> None"
    using that by (auto simp: find_stream_id_in_collection_def find_stream_from.simps)
  have "ccapi_dp_add os float_of_double (Some ?c) (Some stream_id) va w' = Some (Inl Use_After_Free)"
    if "dc_list c \<noteq> None" and "fst (ccapi_lock_acquire os (dc_lock ?c) w') = CCIMP_STATUS_OK"
    using that find assms(3) by (auto simp: ccapi_dp_add_def split: prod.splits)
  then show ?thesis using removed clear by (intro conjI exI [of _ error] exI [of _ ?c] exI [of _ w']) auto
qed

theorem removed_streams_are_read_witness:
  "ccapi_dp_remove_data_stream_from_collection example_os (Some ex_collection) (Some ''s'') () = Some (Inl Use_After_Free)"
  using removed_streams_are_read [OF ex_reachable, of "()" "''s''" "[]"]
  by (simp add: valid_stream_id_def isalnum_def ex_collection_def ex_stream_def)

text \<open>
  C33. Removing the older point removes the newest. After a point was added to a stream,
  \<open>ccapi_dp_remove_older_data_point_from_streams\<close> gives that stream back the points it had
  before; every other stream loses the point that was added to it last, and keeps the older ones.
\<close>

theorem remove_older_removes_newest:
  assumes "dp_reachable os float_of_double c w"
    and "ccapi_dp_add os float_of_double (Some c) stream_id va w = Some (Inr (CCAPI_DP_ERROR_NONE, Some c1, w1))"
  shows "\<exists>c2 w2. ccapi_dp_remove_older_data_point_from_streams os (Some c1) w1
        = Some (Inr (CCAPI_DP_ERROR_NONE, Some c2, w2))
    \<and> (\<forall>a s. dc_streams c a = Some s \<longrightarrow>
          points_at c2 a = (if Some (st_stream_id s) = stream_id then points_at c a else tl (points_at c a)))"
proof -
  have ok: "dp_ok c" by (rule dp_reachable_ok [OF assms(1)])
  then obtain as where rep: "dp_rep as c" by (auto simp: dp_ok_def)
  obtain b t p where added: "dc_streams c b = Some t" "stream_id = Some (st_stream_id t)"
    "point_ok (st_arguments t) p" "c1 = push_point b p c"
    using add_success [OF assms(2) ok] by blast
  have "stream_ok t" using rep added(1) by (auto simp: dp_rep_def ran_def)
  then have rep1: "dp_rep as c1"
    using added rep by (simp only: push_point_set [OF added(1)])
      (intro dp_rep_set_points [OF rep added(1)], auto simp: stream_ok_def)
  obtain w2 where older: "ccapi_dp_remove_older_data_point_from_streams os (Some c1) w1
      = Some (Inr (CCAPI_DP_ERROR_NONE, Some (fold drop_head as c1), w2))"
    using remove_older_result [OF rep1, of os w1] by blast
  have "points_at (fold drop_head as c1) a = (if Some (st_stream_id s) = stream_id then points_at c a else tl (points_at c a))"
    if s: "dc_streams c a = Some s" for a s
  proof -
    have "a \<in> set as" and "distinct as" using rep s by (auto simp: dp_rep_def)
    then have "points_at (fold drop_head as c1) a = tl (points_at c1 a)" by (simp add: fold_drop_head_points)
    moreover have "points_at c1 a = (if a = b then p # points_at c b else points_at c a)"
      using added(1,4) by (simp add: push_point_def points_at_def)
    moreover have "a = b \<longleftrightarrow> Some (st_stream_id s) = stream_id"
      using rep s added(1,2) by (auto simp: dp_rep_def)
    ultimately show ?thesis by auto
  qed
  then show ?thesis using older by blast
qed

theorem remove_older_removes_newest_witness:
  "\<exists>c2 w2. ccapi_dp_remove_older_data_point_from_streams example_os (Some (push_point 0 ex_point ex_collection)) ()
      = Some (Inr (CCAPI_DP_ERROR_NONE, Some c2, w2)) \<and> points_at c2 0 = []"
  using remove_older_removes_newest [OF ex_reachable ex_point_added]
  by (fastforce simp: ex_collection_def ex_stream_def points_at_def)

end
