(* ===== verification/DatapointHint.thy ===== *)
theory DatapointHint
  imports DatapointSend SendProps
begin

text \<open>
  The hint the caller of a send with reply gets: its buffer is safe the first time, but the
  length of the buffer is overwritten with that of the hint.
\<close>

lemma of_nat_minus_one:
  assumes "0 < n" and "n < 2 ^ 64"
  shows "unat ((of_nat n :: size_t) - 1) = n - 1"
proof -
  have "unat (of_nat n :: size_t) = n" by (rule unat_of_nat_u64 [OF assms(2)])
  moreover have "(of_nat n :: size_t) \<noteq> 0" using calculation assms(1) by (metis less_irrefl unat_0)
  ultimately show ?thesis by (simp add: unat_minus_1)
qed

lemma copy_dp_hint_length:
  "copy_dp_hint h t =
     ub_bind (copy_hint h t) (\<lambda>h'. Inr \<lparr>info_string = info_string h', string_length = of_nat (length t)\<rparr>)"
  by (simp add: copy_dp_hint_def copy_hint_def Let_def ub_bind_assoc)

lemma copy_hint_defined:
  assumes "info_string h = Some buf"
  shows "(\<exists>h'. copy_hint h t = Inr h') \<longleftrightarrow> unat (string_length h - 1) < length buf"
  using assms
  by (auto simp: copy_hint_def strncpy_to_def memcpy_at_def Let_def)

lemma copy_hint_buffer:
  assumes "info_string h = Some buf" and "copy_hint h t = Inr h'"
  shows "\<exists>buf'. info_string h' = Some buf' \<and> length buf' = length buf"
  using assms
  by (auto simp: copy_hint_def strncpy_to_def memcpy_at_def Let_def ub_bind_Inr_iff split: if_splits)

text \<open>
  A hint structure can be used once. With a buffer of \<open>n\<close> characters and \<open>n\<close> as its length
  the response of the cloud is stored within the buffer, whatever the length of its hint; but the
  length that is left for the next send with the same structure is that of the hint: its response
  is stored within the buffer if and only if the first hint was not empty and not longer than the
  buffer. Otherwise it is written outside.
\<close>

theorem hint_overwrites_its_length:
  assumes "ti_hint t = Some h" and "info_string h = Some buf" and "string_length h = of_nat (length buf)"
    and "0 < length buf" and "length buf < 2 ^ 63" and "length hint_text < 2 ^ 63"
  shows "\<exists>h'. ccapi_data_points_handler os (connector_request_id_data_point_response response (Some hint_text)) t w
        = Inr (connector_callback_continue, t\<lparr>ti_response_error := dp_response_error response, ti_hint := Some h'\<rparr>, w)
    \<and> string_length h' = of_nat (length hint_text)
    \<and> (\<forall>t' response' hint_text'. ti_hint t' = Some h' \<longrightarrow>
        ((\<exists>r. ccapi_data_points_handler os (connector_request_id_data_point_response response' (Some hint_text')) t' w = Inr r)
          \<longleftrightarrow> 0 < length hint_text \<and> length hint_text \<le> length buf))"
proof -
  have len: "unat (string_length h - 1) = length buf - 1"
    using of_nat_minus_one [of "length buf"] assms(3-5) by simp
  then obtain h1 where h1: "copy_hint h hint_text = Inr h1"
    using copy_hint_defined [OF assms(2), of hint_text] assms(4) by auto
  obtain buf' where buf': "info_string h1 = Some buf'" "length buf' = length buf"
    using copy_hint_buffer [OF assms(2) h1] by blast
  let ?h = "\<lparr>info_string = Some buf', string_length = of_nat (length hint_text) :: size_t\<rparr>"
  have first: "copy_dp_hint h hint_text = Inr ?h" by (simp add: copy_dp_hint_length h1 buf')
  have len2: "unat (string_length ?h - 1) < length buf' \<longleftrightarrow> 0 < length hint_text \<and> length hint_text \<le> length buf"
  proof (cases "hint_text = []")
    case True
    have "unat (- 1 :: size_t) = 2 ^ 64 - 1" by (simp add: unsigned_minus_1_eq_mask mask_eq_exp_minus_1)
    then show ?thesis using True assms(5) by (simp add: buf'(2))
  next
    case False
    then have "0 < length hint_text" by simp
    then have "unat ((of_nat (length hint_text) :: size_t) - 1) = length hint_text - 1"
      using of_nat_minus_one assms(6) by simp
    then show ?thesis using \<open>0 < length hint_text\<close> by (cases "length hint_text") (auto simp: buf'(2))
  qed
  have again: "(\<exists>r. copy_dp_hint ?h s = Inr r) \<longleftrightarrow> 0 < length hint_text \<and> length hint_text \<le> length buf" for s
    using copy_hint_defined [of ?h buf' s] len2 by (auto simp: copy_dp_hint_length ub_bind_Inr_iff)
  have second: "(\<exists>r. ccapi_data_points_handler os (connector_request_id_data_point_response response' (Some s)) t' w = Inr r)
      \<longleftrightarrow> (\<exists>r. copy_dp_hint ?h s = Inr r)" if "ti_hint t' = Some ?h" for t' response' s
    using that by (auto simp: ccapi_data_points_handler_def Let_def ub_bind_Inr_iff)
  show ?thesis
    using first second again assms(1)
    by (intro exI [of _ ?h]) (simp add: ccapi_data_points_handler_def Let_def)
qed

definition ex_transaction :: ccapi_dp_transaction_info_t where
  "ex_transaction = \<lparr>ti_lock = Some 1, ti_hint = Some \<lparr>info_string = Some (replicate 4 None), string_length = 4\<rparr>,
     ti_response_error = CCAPI_DP_ERROR_INITIATE_ACTION_FAILED, ti_status = None\<rparr>"

theorem hint_overwrites_its_length_witness:
  "\<exists>h'. ccapi_data_points_handler example_os
       (connector_request_id_data_point_response connector_data_point_response_success (Some ''retry'')) ex_transaction ()
       = Inr (connector_callback_continue,
           ex_transaction\<lparr>ti_response_error := CCAPI_DP_ERROR_NONE, ti_hint := Some h'\<rparr>, ())
    \<and> \<not> (\<exists>r. ccapi_data_points_handler example_os
       (connector_request_id_data_point_response connector_data_point_response_success (Some ''again''))
       (ex_transaction\<lparr>ti_hint := Some h'\<rparr>) () = Inr r)"
  using hint_overwrites_its_length [of ex_transaction "\<lparr>info_string = Some (replicate 4 None), string_length = 4\<rparr>"
      "replicate 4 None" "''retry''" example_os connector_data_point_response_success "()"]
  by (auto simp: ex_transaction_def dp_response_error_def)

end
