(* ===== verification/Transports.thy ===== *)
theory Transports
  imports Core
begin

text \<open>
  Starting and stopping the transports: source/ccapi_transport_tcp.c, source/ccapi_transport_udp.c
  and source/ccapi_transport_sms.c.

  The configuration a transport was started with is copied to a block of its own, \<open>info\<close>, which
  the callbacks of the connector read. The flags \<open>connected\<close> and \<open>started\<close> are set by the
  connector's thread, which runs while a start or a stop waits: \<open>te_others\<close> is what it and the
  other threads do during one \<open>ccimp_os_yield\<close>, \<open>te_condition_wait\<close> what they do until a wait
  for the condition of the TCP transport ends.

  A pointer to a string is NULL, owns its block, or points to the string of the caller.
\<close>

subsection \<open>Configurations\<close>

type_synonym u16 = "16 word"

datatype c_string = Null_String | Own_String string | Callers_String string

definition c_text :: "c_string \<Rightarrow> string option" where
  "c_text p = (case p of Null_String \<Rightarrow> None | Own_String s \<Rightarrow> Some s | Callers_String s \<Rightarrow> Some s)"

text \<open>Freeing a string that may be NULL. Only a block of one's own may be freed.\<close>

definition free_c_string :: "'w os \<Rightarrow> c_string \<Rightarrow> 'w \<Rightarrow> 'w ub" where
  "free_c_string os p w =
     (case p of
        Null_String \<Rightarrow> Inr w
      | Own_String s \<Rightarrow> Inr (snd (ccapi_free os True w))
      | Callers_String s \<Rightarrow> Inl Foreign_Free)"

text \<open>A copy in a block of its own; \<open>False\<close> and NULL when there is no memory.\<close>

definition copy_c_string :: "'w os \<Rightarrow> c_string \<Rightarrow> 'w \<Rightarrow> bool \<times> c_string \<times> 'w" where
  "copy_c_string os p w =
     (case c_text p of
        None \<Rightarrow> (True, Null_String, w)
      | Some s \<Rightarrow> (case ccapi_strdup os s w of
                    (None, w1) \<Rightarrow> (False, Null_String, w1)
                  | (Some s', w1) \<Rightarrow> (True, Own_String s', w1)))"

datatype ccapi_ip_address_t = CCAPI_IPV4 "u8 list" | CCAPI_IPV6 "u8 list"

text \<open>The type of the connection with the member of the union that belongs to it.\<close>

datatype ccapi_connection_t =
    CCAPI_CONNECTION_LAN "u8 list"
  | CCAPI_CONNECTION_WAN u32 c_string
  | CCAPI_CONNECTION_WIFI "u8 list"
  | CCAPI_CONNECTION_WIMAX "u8 list"

datatype ccapi_tcp_close_cause_t =
    CCAPI_TCP_CLOSE_DISCONNECTED
  | CCAPI_TCP_CLOSE_REDIRECTED
  | CCAPI_TCP_CLOSE_NO_KEEPALIVE
  | CCAPI_TCP_CLOSE_DATA_ERROR

datatype ccapi_keepalive_status_t = CCAPI_KEEPALIVE_MISSED | CCAPI_KEEPALIVE_RESTORED

record 'w ccapi_tcp_info_t =
  ka_tx :: u16
  ka_rx :: u16
  ka_wait_count :: u16
  cn_ip :: ccapi_ip_address_t
  cn_max_transactions :: u8
  cn_password :: c_string
  cn_start_timeout :: u8
  cn_connection :: ccapi_connection_t
  tcp_close_cb :: "(ccapi_tcp_close_cause_t option \<Rightarrow> 'w \<Rightarrow> bool \<times> 'w) option"
  tcp_keepalive_cb :: "(ccapi_keepalive_status_t \<Rightarrow> 'w \<Rightarrow> 'w) option"

text \<open>
  The block that was just allocated: the password is NULL, and the phone number for a WAN, but
  the type of the connection, which says whether there is a phone number, is not written.
\<close>

datatype 'w tcp_block = Tcp_Unwritten | Tcp_Info "'w ccapi_tcp_info_t"

datatype ccapi_udp_close_cause_t = CCAPI_UDP_CLOSE_DISCONNECTED | CCAPI_UDP_CLOSE_DATA_ERROR

record 'w ccapi_udp_info_t =
  udp_close_cb :: "(ccapi_udp_close_cause_t \<Rightarrow> 'w \<Rightarrow> bool \<times> 'w) option"
  udp_start_timeout :: u8
  udp_max_sessions :: size_t
  udp_rx_timeout :: size_t

datatype ccapi_sms_close_cause_t = CCAPI_SMS_CLOSE_DISCONNECTED | CCAPI_SMS_CLOSE_DATA_ERROR

record 'w ccapi_sms_info_t =
  sms_close_cb :: "(ccapi_sms_close_cause_t \<Rightarrow> 'w \<Rightarrow> bool \<times> 'w) option"
  sms_start_timeout :: u8
  sms_phone_number :: c_string
  sms_service_id :: c_string
  sms_max_sessions :: size_t
  sms_rx_timeout :: size_t

text \<open>The transports of \<open>ccapi_data_t\<close>, and what starting them uses of it.\<close>

record 'w ccapi_transports =
  tp_run_status :: ccapi_thread_status_t
  tp_run_lock :: ptr
  tp_initiate_lock :: ptr
  tcp_info :: "'w tcp_block option"
  tcp_connected :: bool
  udp_info :: "'w ccapi_udp_info_t option"
  udp_started :: bool
  sms_info :: "'w ccapi_sms_info_t option"
  sms_started :: bool

record 'w tp_env =
  te_os :: "'w os"
  te_start :: "connector_transport_t \<Rightarrow> 'w \<Rightarrow> connector_status_t \<times> 'w"
  te_stop :: "connector_initiate_stop_request_t \<Rightarrow> 'w \<Rightarrow> connector_status_t \<times> 'w"
  te_others :: "'w ccapi_transports \<Rightarrow> 'w \<Rightarrow> 'w ccapi_transports \<times> 'w"
  te_system_time :: "'w \<Rightarrow> u64 \<times> 'w"
  te_condition_wait :: "u32 \<Rightarrow> 'w ccapi_transports \<Rightarrow> 'w \<Rightarrow> (ccimp_status_t \<times> 'w ccapi_transports \<times> 'w) option"

definition tp_running :: "'w ccapi_transports option \<Rightarrow> bool" where
  "tp_running ccapi_data = (case ccapi_data of None \<Rightarrow> False | Some d \<Rightarrow> tp_run_status d = CCAPI_THREAD_RUNNING)"

subsection \<open>Waiting for the connector\<close>

text \<open>One round of a waiting loop.\<close>

definition te_yield :: "'w tp_env \<Rightarrow> 'w ccapi_transports \<times> 'w \<Rightarrow> 'w ccapi_transports \<times> 'w" where
  "te_yield env x = (case x of (d, w) \<Rightarrow> te_others env d (os_yield (te_os env) w))"

text \<open>\<open>do { ccimp_os_yield(); } while (busy)\<close>\<close>

definition yield_while ::
  "'w tp_env \<Rightarrow> ('w ccapi_transports \<Rightarrow> bool) \<Rightarrow> 'w ccapi_transports \<Rightarrow> 'w
     \<Rightarrow> ('w ccapi_transports \<times> 'w) option" where
  "yield_while env busy d w = retry_loop (te_yield env) (\<lambda>(d, w). busy d) (\<lambda>x. x) (d, w)"

text \<open>
  The loop that gives up after the time: the boolean of its state says that the time is over. The
  status of \<open>ccimp_os_get_system_time\<close> is not looked at.
\<close>

definition timed_round ::
  "'w tp_env \<Rightarrow> u64 \<Rightarrow> bool \<times> 'w ccapi_transports \<times> 'w \<Rightarrow> bool \<times> 'w ccapi_transports \<times> 'w" where
  "timed_round env end_time x =
     (case te_yield env (snd x) of
        (d, w) \<Rightarrow> (case te_system_time env w of (now, w1) \<Rightarrow> (end_time < now, d, w1)))"

definition wait_until_started ::
  "'w tp_env \<Rightarrow> ('w ccapi_transports \<Rightarrow> bool) \<Rightarrow> u8 \<Rightarrow> 'w ccapi_transports \<Rightarrow> 'w
     \<Rightarrow> (bool \<times> 'w ccapi_transports \<times> 'w) option" where
  "wait_until_started env started start_timeout d w =
     (if start_timeout = 0
      then map_option (Pair False) (yield_while env (\<lambda>d. \<not> started d) d w)
      else
        (case te_system_time env w of
           (time_start, w1) \<Rightarrow>
             retry_loop (timed_round env (time_start + ucast start_timeout + 1))
               (\<lambda>(over, d, w). \<not> over \<and> \<not> started d) (\<lambda>x. x) (False, d, w1)))"

definition initiate_start ::
  "'w tp_env \<Rightarrow> 'w ccapi_transports \<Rightarrow> connector_transport_t \<Rightarrow> 'w \<Rightarrow> (connector_status_t \<times> 'w) option" where
  "initiate_start env d transport w =
     initiate_until_not_busy (te_os env) (te_start env) (tp_initiate_lock d) (tp_run_lock d) transport w"

definition initiate_stop ::
  "'w tp_env \<Rightarrow> 'w ccapi_transports \<Rightarrow> ccapi_transport_t \<Rightarrow> ccapi_transport_stop_t \<Rightarrow> 'w
     \<Rightarrow> (connector_status_t \<times> 'w) option" where
  "initiate_stop env d transport behavior w =
     ccapi_initiate_transport_stop (te_os env) (te_stop env) (tp_initiate_lock d) (tp_run_lock d) transport behavior w"

subsection \<open>UDP\<close>

datatype ccapi_udp_start_error_t =
    CCAPI_UDP_START_ERROR_NONE
  | CCAPI_UDP_START_ERROR_ALREADY_STARTED
  | CCAPI_UDP_START_ERROR_CCAPI_STOPPED
  | CCAPI_UDP_START_ERROR_NULL_POINTER
  | CCAPI_UDP_START_ERROR_INIT
  | CCAPI_UDP_START_ERROR_MAX_SESSIONS
  | CCAPI_UDP_START_ERROR_INSUFFICIENT_MEMORY
  | CCAPI_UDP_START_ERROR_TIMEOUT

datatype ccapi_udp_stop_error_t =
    CCAPI_UDP_STOP_ERROR_NONE
  | CCAPI_UDP_STOP_ERROR_NOT_STARTED
  | CCAPI_UDP_STOP_ERROR_CCFSM

definition CCAPI_SM_UDP_MAX_SESSIONS_LIMIT :: size_t where "CCAPI_SM_UDP_MAX_SESSIONS_LIMIT = 256"
definition CCAPI_SM_UDP_MAX_SESSIONS_DEFAULT :: size_t where "CCAPI_SM_UDP_MAX_SESSIONS_DEFAULT = 20"

definition copy_ccapi_udp_info_t_structure :: "'w ccapi_udp_info_t \<Rightarrow> 'w ccapi_udp_info_t" where
  "copy_ccapi_udp_info_t_structure source =
     (if udp_max_sessions source = 0 then source\<lparr>udp_max_sessions := CCAPI_SM_UDP_MAX_SESSIONS_DEFAULT\<rparr> else source)"

definition free_transport_udp_info :: "'w os \<Rightarrow> 'w \<Rightarrow> 'w" where
  "free_transport_udp_info os w = snd (ccapi_free os True w)"

text \<open>The label \<open>done\<close>.\<close>

definition udp_start_done ::
  "'w os \<Rightarrow> ccapi_udp_start_error_t \<Rightarrow> 'w ccapi_transports \<Rightarrow> 'w
     \<Rightarrow> ccapi_udp_start_error_t \<times> 'w ccapi_transports option \<times> 'w" where
  "udp_start_done os error d w =
     (if error \<in> {CCAPI_UDP_START_ERROR_INIT, CCAPI_UDP_START_ERROR_MAX_SESSIONS,
                  CCAPI_UDP_START_ERROR_INSUFFICIENT_MEMORY, CCAPI_UDP_START_ERROR_TIMEOUT}
         \<and> udp_info d \<noteq> None
      then (error, Some (d\<lparr>udp_info := None\<rparr>), free_transport_udp_info os w)
      else (error, Some d, w))"

definition ccxapi_start_transport_udp ::
  "'w tp_env \<Rightarrow> 'w ccapi_transports option \<Rightarrow> 'w ccapi_udp_info_t option \<Rightarrow> 'w
     \<Rightarrow> (ccapi_udp_start_error_t \<times> 'w ccapi_transports option \<times> 'w) option" where
  "ccxapi_start_transport_udp env ccapi_data udp_start w =
     (if \<not> tp_running ccapi_data then Some (CCAPI_UDP_START_ERROR_CCAPI_STOPPED, ccapi_data, w)
      else
        (let d = the ccapi_data; os = te_os env
         in if udp_started d then Some (CCAPI_UDP_START_ERROR_ALREADY_STARTED, Some d, w)
            else
              (case udp_start of
                 None \<Rightarrow> Some (CCAPI_UDP_START_ERROR_NULL_POINTER, Some d, w)
               | Some start \<Rightarrow>
                   (if CCAPI_SM_UDP_MAX_SESSIONS_LIMIT < udp_max_sessions start
                    then Some (udp_start_done os CCAPI_UDP_START_ERROR_MAX_SESSIONS d w)
                    else
                      (let w1 = (if udp_info d \<noteq> None then free_transport_udp_info os w else w)
                       in case ccapi_malloc os (Sizeof ''ccapi_udp_info_t'') w1 of
                            (False, w2) \<Rightarrow>
                              Some (udp_start_done os CCAPI_UDP_START_ERROR_INSUFFICIENT_MEMORY (d\<lparr>udp_info := None\<rparr>) w2)
                          | (True, w2) \<Rightarrow>
                              (let d1 = d\<lparr>udp_info := Some (copy_ccapi_udp_info_t_structure start),
                                          udp_started := False\<rparr>
                               in case initiate_start env d1 connector_transport_udp w2 of
                                    None \<Rightarrow> None
                                  | Some (ccfsm_status, w3) \<Rightarrow>
                                      (if ccfsm_status \<noteq> connector_success
                                       then Some (udp_start_done os CCAPI_UDP_START_ERROR_INIT d1 w3)
                                       else
                                         map_option
                                           (\<lambda>(over, d2, w4).
                                             udp_start_done os
                                               (if over then CCAPI_UDP_START_ERROR_TIMEOUT else CCAPI_UDP_START_ERROR_NONE)
                                               d2 w4)
                                           (wait_until_started env udp_started (udp_start_timeout start) d1 w3))))))))"

text \<open>A NULL \<open>udp_stop\<close> is \<open>None\<close>.\<close>

definition ccxapi_stop_transport_udp ::
  "'w tp_env \<Rightarrow> 'w ccapi_transports option \<Rightarrow> ccapi_transport_stop_t option \<Rightarrow> 'w
     \<Rightarrow> (ccapi_udp_stop_error_t \<times> 'w ccapi_transports option \<times> 'w) run" where
  "ccxapi_stop_transport_udp env ccapi_data udp_stop w =
     (if \<not> tp_running ccapi_data \<or> \<not> udp_started (the ccapi_data)
      then Some (Inr (CCAPI_UDP_STOP_ERROR_NOT_STARTED, ccapi_data, w))
      else
        (let d = the ccapi_data
         in case udp_stop of
              None \<Rightarrow> Some (Inl Null_Dereference)
            | Some behavior \<Rightarrow>
                (case initiate_stop env d CCAPI_TRANSPORT_UDP behavior w of
                   None \<Rightarrow> None
                 | Some (connector_status, w1) \<Rightarrow>
                     (if connector_status \<noteq> connector_success
                      then Some (Inr (CCAPI_UDP_STOP_ERROR_CCFSM, Some d, w1))
                      else
                        (case yield_while env udp_started d w1 of
                           None \<Rightarrow> None
                         | Some (d1, w2) \<Rightarrow>
                             Some (Inr (if udp_info d1 = None
                                        then (CCAPI_UDP_STOP_ERROR_NONE, Some d1, w2)
                                        else (CCAPI_UDP_STOP_ERROR_NONE, Some (d1\<lparr>udp_info := None\<rparr>),
                                              free_transport_udp_info (te_os env) w2))))))))"

definition ccapi_start_transport_udp ::
  "'w tp_env \<Rightarrow> 'w ccapi_transports option \<Rightarrow> 'w ccapi_udp_info_t option \<Rightarrow> 'w
     \<Rightarrow> (ccapi_udp_start_error_t \<times> 'w ccapi_transports option \<times> 'w) option" where
  "ccapi_start_transport_udp env ccapi_data_single_instance udp_start w =
     ccxapi_start_transport_udp env ccapi_data_single_instance udp_start w"

definition ccapi_stop_transport_udp ::
  "'w tp_env \<Rightarrow> 'w ccapi_transports option \<Rightarrow> ccapi_transport_stop_t option \<Rightarrow> 'w
     \<Rightarrow> (ccapi_udp_stop_error_t \<times> 'w ccapi_transports option \<times> 'w) run" where
  "ccapi_stop_transport_udp env ccapi_data_single_instance udp_stop w =
     ccxapi_stop_transport_udp env ccapi_data_single_instance udp_stop w"

end
