(* ===== verification/TransportsTcp.thy ===== *)
theory TransportsTcp
  imports Transports
begin

text \<open>Starting and stopping the SMS and the TCP transport.\<close>

subsection \<open>SMS\<close>

datatype ccapi_sms_start_error_t =
    CCAPI_SMS_START_ERROR_NONE
  | CCAPI_SMS_START_ERROR_ALREADY_STARTED
  | CCAPI_SMS_START_ERROR_CCAPI_STOPPED
  | CCAPI_SMS_START_ERROR_NULL_POINTER
  | CCAPI_SMS_START_ERROR_INIT
  | CCAPI_SMS_START_ERROR_MAX_SESSIONS
  | CCAPI_SMS_START_ERROR_INVALID_PHONE
  | CCAPI_SMS_START_ERROR_INVALID_SERVICE_ID
  | CCAPI_SMS_START_ERROR_INSUFFICIENT_MEMORY
  | CCAPI_SMS_START_ERROR_TIMEOUT

datatype ccapi_sms_stop_error_t =
    CCAPI_SMS_STOP_ERROR_NONE
  | CCAPI_SMS_STOP_ERROR_NOT_STARTED
  | CCAPI_SMS_STOP_ERROR_CCFSM

definition CCAPI_SM_SMS_MAX_SESSIONS_LIMIT :: size_t where "CCAPI_SM_SMS_MAX_SESSIONS_LIMIT = 256"
definition CCAPI_SM_SMS_MAX_SESSIONS_DEFAULT :: size_t where "CCAPI_SM_SMS_MAX_SESSIONS_DEFAULT = 20"

definition valid_phone :: "'w ccapi_sms_info_t \<Rightarrow> bool" where
  "valid_phone sms_start =
     (case c_text (sms_phone_number sms_start) of
        None \<Rightarrow> False
      | Some s \<Rightarrow> s \<noteq> [] \<and> list_all (\<lambda>c. c \<in> set '' 0123456789-+#'') s)"

definition valid_service_id :: "'w ccapi_sms_info_t \<Rightarrow> bool" where
  "valid_service_id sms_start = (sms_service_id sms_start \<noteq> Null_String)"

definition free_transport_sms_info :: "'w os \<Rightarrow> 'w ccapi_sms_info_t \<Rightarrow> 'w \<Rightarrow> 'w ub" where
  "free_transport_sms_info os info w =
     ub_bind (free_c_string os (sms_phone_number info) w) (\<lambda>w1.
       ub_bind (free_c_string os (sms_service_id info) w1) (\<lambda>w2. Inr (snd (ccapi_free os True w2))))"

text \<open>Whether there was memory, and the copy so far.\<close>

definition copy_ccapi_sms_info_t_structure ::
  "'w os \<Rightarrow> 'w ccapi_sms_info_t \<Rightarrow> 'w \<Rightarrow> bool \<times> 'w ccapi_sms_info_t \<times> 'w" where
  "copy_ccapi_sms_info_t_structure os source w =
     (let dest = source\<lparr>sms_max_sessions := if sms_max_sessions source = 0 then CCAPI_SM_SMS_MAX_SESSIONS_DEFAULT
                                            else sms_max_sessions source,
                        sms_phone_number := Null_String, sms_service_id := Null_String\<rparr>
      in case copy_c_string os (sms_phone_number source) w of
           (False, p, w1) \<Rightarrow> (False, dest\<lparr>sms_phone_number := p\<rparr>, w1)
         | (True, p, w1) \<Rightarrow>
             (case copy_c_string os (sms_service_id source) w1 of
                (ok, s, w2) \<Rightarrow> (ok, dest\<lparr>sms_phone_number := p, sms_service_id := s\<rparr>, w2)))"

type_synonym 'w sms_start_result = "(ccapi_sms_start_error_t \<times> 'w ccapi_transports option \<times> 'w) run"

definition sms_start_done ::
  "'w os \<Rightarrow> ccapi_sms_start_error_t \<Rightarrow> 'w ccapi_transports \<Rightarrow> 'w \<Rightarrow> 'w sms_start_result" where
  "sms_start_done os error d w =
     (case sms_info d of
        Some info \<Rightarrow>
          (if error \<in> {CCAPI_SMS_START_ERROR_NONE, CCAPI_SMS_START_ERROR_ALREADY_STARTED,
                       CCAPI_SMS_START_ERROR_CCAPI_STOPPED, CCAPI_SMS_START_ERROR_NULL_POINTER}
           then Some (Inr (error, Some d, w))
           else run_bind (Some (free_transport_sms_info os info w)) (\<lambda>w1.
                  Some (Inr (error, Some (d\<lparr>sms_info := None\<rparr>), w1))))
      | None \<Rightarrow> Some (Inr (error, Some d, w)))"

definition ccxapi_start_transport_sms ::
  "'w tp_env \<Rightarrow> 'w ccapi_transports option \<Rightarrow> 'w ccapi_sms_info_t option \<Rightarrow> 'w \<Rightarrow> 'w sms_start_result" where
  "ccxapi_start_transport_sms env ccapi_data sms_start w =
     (if \<not> tp_running ccapi_data then Some (Inr (CCAPI_SMS_START_ERROR_CCAPI_STOPPED, ccapi_data, w))
      else
        (let d = the ccapi_data; os = te_os env
         in if sms_started d then Some (Inr (CCAPI_SMS_START_ERROR_ALREADY_STARTED, Some d, w))
            else
              (case sms_start of
                 None \<Rightarrow> Some (Inr (CCAPI_SMS_START_ERROR_NULL_POINTER, Some d, w))
               | Some start \<Rightarrow>
                   (if CCAPI_SM_SMS_MAX_SESSIONS_LIMIT < sms_max_sessions start
                    then sms_start_done os CCAPI_SMS_START_ERROR_MAX_SESSIONS d w
                    else if \<not> valid_phone start then sms_start_done os CCAPI_SMS_START_ERROR_INVALID_PHONE d w
                    else if \<not> valid_service_id start
                    then sms_start_done os CCAPI_SMS_START_ERROR_INVALID_SERVICE_ID d w
                    else
                      run_bind (Some (case sms_info d of None \<Rightarrow> Inr w | Some info \<Rightarrow> free_transport_sms_info os info w))
                        (\<lambda>w1.
                         case ccapi_malloc os (Sizeof ''ccapi_sms_info_t'') w1 of
                           (False, w2) \<Rightarrow>
                             sms_start_done os CCAPI_SMS_START_ERROR_INSUFFICIENT_MEMORY (d\<lparr>sms_info := None\<rparr>) w2
                         | (True, w2) \<Rightarrow>
                             (case copy_ccapi_sms_info_t_structure os start w2 of
                                (copied, info, w3) \<Rightarrow>
                                  (let d1 = d\<lparr>sms_info := Some info\<rparr>
                                   in if \<not> copied
                                      then sms_start_done os CCAPI_SMS_START_ERROR_INSUFFICIENT_MEMORY d1 w3
                                      else
                                        (let d2 = d1\<lparr>sms_started := False\<rparr>
                                         in case initiate_start env d2 connector_transport_sms w3 of
                                              None \<Rightarrow> None
                                            | Some (ccfsm_status, w4) \<Rightarrow>
                                                (if ccfsm_status \<noteq> connector_success
                                                 then sms_start_done os CCAPI_SMS_START_ERROR_INIT d2 w4
                                                 else
                                                   (case wait_until_started env sms_started (sms_start_timeout start) d2 w4 of
                                                      None \<Rightarrow> None
                                                    | Some (over, d3, w5) \<Rightarrow>
                                                        sms_start_done os
                                                          (if over then CCAPI_SMS_START_ERROR_TIMEOUT
                                                           else CCAPI_SMS_START_ERROR_NONE) d3 w5))))))))))"

definition ccxapi_stop_transport_sms ::
  "'w tp_env \<Rightarrow> 'w ccapi_transports option \<Rightarrow> ccapi_transport_stop_t option \<Rightarrow> 'w
     \<Rightarrow> (ccapi_sms_stop_error_t \<times> 'w ccapi_transports option \<times> 'w) run" where
  "ccxapi_stop_transport_sms env ccapi_data sms_stop w =
     (if \<not> tp_running ccapi_data \<or> \<not> sms_started (the ccapi_data)
      then Some (Inr (CCAPI_SMS_STOP_ERROR_NOT_STARTED, ccapi_data, w))
      else
        (let d = the ccapi_data
         in case sms_stop of
              None \<Rightarrow> Some (Inl Null_Dereference)
            | Some behavior \<Rightarrow>
                (case initiate_stop env d CCAPI_TRANSPORT_SMS behavior w of
                   None \<Rightarrow> None
                 | Some (connector_status, w1) \<Rightarrow>
                     (if connector_status \<noteq> connector_success
                      then Some (Inr (CCAPI_SMS_STOP_ERROR_CCFSM, Some d, w1))
                      else
                        (case yield_while env sms_started d w1 of
                           None \<Rightarrow> None
                         | Some (d1, w2) \<Rightarrow>
                             (case sms_info d1 of
                                None \<Rightarrow> Some (Inr (CCAPI_SMS_STOP_ERROR_NONE, Some d1, w2))
                              | Some info \<Rightarrow>
                                  run_bind (Some (free_transport_sms_info (te_os env) info w2)) (\<lambda>w3.
                                    Some (Inr (CCAPI_SMS_STOP_ERROR_NONE, Some (d1\<lparr>sms_info := None\<rparr>), w3)))))))))"

definition ccapi_start_transport_sms ::
  "'w tp_env \<Rightarrow> 'w ccapi_transports option \<Rightarrow> 'w ccapi_sms_info_t option \<Rightarrow> 'w \<Rightarrow> 'w sms_start_result" where
  "ccapi_start_transport_sms env ccapi_data_single_instance sms_start w =
     ccxapi_start_transport_sms env ccapi_data_single_instance sms_start w"

definition ccapi_stop_transport_sms ::
  "'w tp_env \<Rightarrow> 'w ccapi_transports option \<Rightarrow> ccapi_transport_stop_t option \<Rightarrow> 'w
     \<Rightarrow> (ccapi_sms_stop_error_t \<times> 'w ccapi_transports option \<times> 'w) run" where
  "ccapi_stop_transport_sms env ccapi_data_single_instance sms_stop w =
     ccxapi_stop_transport_sms env ccapi_data_single_instance sms_stop w"

subsection \<open>TCP\<close>

datatype ccapi_tcp_start_error_t =
    CCAPI_TCP_START_ERROR_NONE
  | CCAPI_TCP_START_ERROR_ALREADY_STARTED
  | CCAPI_TCP_START_ERROR_CCAPI_STOPPED
  | CCAPI_TCP_START_ERROR_NULL_POINTER
  | CCAPI_TCP_START_ERROR_INSUFFICIENT_MEMORY
  | CCAPI_TCP_START_ERROR_KEEPALIVES
  | CCAPI_TCP_START_ERROR_IP
  | CCAPI_TCP_START_ERROR_INVALID_MAC
  | CCAPI_TCP_START_ERROR_PHONE
  | CCAPI_TCP_START_ERROR_INIT
  | CCAPI_TCP_START_ERROR_TIMEOUT

datatype ccapi_tcp_stop_error_t =
    CCAPI_TCP_STOP_ERROR_NONE
  | CCAPI_TCP_STOP_ERROR_NOT_STARTED
  | CCAPI_TCP_STOP_ERROR_CCFSM

definition valid_keepalives :: "'w ccapi_tcp_info_t \<Rightarrow> bool" where
  "valid_keepalives tcp_start \<longleftrightarrow>
     (ka_rx tcp_start \<noteq> 0 \<longrightarrow> \<not> (7200 < ka_rx tcp_start \<or> ka_rx tcp_start < 5))
     \<and> (ka_tx tcp_start \<noteq> 0 \<longrightarrow> \<not> (7200 < ka_tx tcp_start \<or> ka_tx tcp_start < 5))
     \<and> (ka_wait_count tcp_start \<noteq> 0 \<longrightarrow> \<not> (64 < ka_wait_count tcp_start \<or> ka_wait_count tcp_start < 2))"

definition valid_connection :: "'w ccapi_tcp_info_t \<Rightarrow> ccapi_tcp_start_error_t" where
  "valid_connection tcp_start =
     (if (case cn_ip tcp_start of
            CCAPI_IPV4 bytes \<Rightarrow> bytes = replicate 4 0
          | CCAPI_IPV6 bytes \<Rightarrow> bytes = replicate 16 0)
      then CCAPI_TCP_START_ERROR_IP
      else
        (case cn_connection tcp_start of
           CCAPI_CONNECTION_LAN mac_address \<Rightarrow>
             if mac_address = replicate 6 0 then CCAPI_TCP_START_ERROR_INVALID_MAC else CCAPI_TCP_START_ERROR_NONE
         | CCAPI_CONNECTION_WIFI mac_address \<Rightarrow>
             if mac_address = replicate 6 0 then CCAPI_TCP_START_ERROR_INVALID_MAC else CCAPI_TCP_START_ERROR_NONE
         | CCAPI_CONNECTION_WIMAX mac_address \<Rightarrow>
             if mac_address = replicate 6 0 then CCAPI_TCP_START_ERROR_INVALID_MAC else CCAPI_TCP_START_ERROR_NONE
         | CCAPI_CONNECTION_WAN link_speed phone_number \<Rightarrow>
             if phone_number = Null_String then CCAPI_TCP_START_ERROR_PHONE else CCAPI_TCP_START_ERROR_NONE))"

text \<open>The phone number of the copy starts as that of the caller.\<close>

definition copy_wan_info ::
  "'w os \<Rightarrow> 'w ccapi_tcp_info_t \<Rightarrow> u32 \<Rightarrow> c_string \<Rightarrow> 'w \<Rightarrow> bool \<times> 'w ccapi_tcp_info_t \<times> 'w" where
  "copy_wan_info os dest link_speed phone_number w =
     (case copy_c_string os phone_number w of
        (ok, p, w1) \<Rightarrow> (ok, dest\<lparr>cn_connection := CCAPI_CONNECTION_WAN link_speed p\<rparr>, w1))"

text \<open>\<open>*dest = *source\<close>: the strings of the copy are those of the caller, until each is copied.\<close>

definition as_callers :: "c_string \<Rightarrow> c_string" where
  "as_callers p = (case c_text p of None \<Rightarrow> Null_String | Some s \<Rightarrow> Callers_String s)"

definition assign_tcp_info :: "'w ccapi_tcp_info_t \<Rightarrow> 'w ccapi_tcp_info_t" where
  "assign_tcp_info source =
     source\<lparr>cn_password := as_callers (cn_password source),
            cn_connection := (case cn_connection source of
                                CCAPI_CONNECTION_WAN link_speed p \<Rightarrow> CCAPI_CONNECTION_WAN link_speed (as_callers p)
                              | c \<Rightarrow> c)\<rparr>"

definition default_keepalives :: "'w ccapi_tcp_info_t \<Rightarrow> 'w ccapi_tcp_info_t" where
  "default_keepalives dest =
     dest\<lparr>ka_rx := if ka_rx dest = 0 then 75 else ka_rx dest,
          ka_tx := if ka_tx dest = 0 then 75 else ka_tx dest,
          ka_wait_count := if ka_wait_count dest = 0 then 5 else ka_wait_count dest\<rparr>"

definition copy_ccapi_tcp_info_t_structure ::
  "'w os \<Rightarrow> 'w ccapi_tcp_info_t \<Rightarrow> 'w \<Rightarrow> bool \<times> 'w ccapi_tcp_info_t \<times> 'w" where
  "copy_ccapi_tcp_info_t_structure os source w =
     (let dest = default_keepalives (assign_tcp_info source)
      in case copy_c_string os (cn_password source) w of
           (False, p, w1) \<Rightarrow> (False, dest\<lparr>cn_password := p\<rparr>, w1)
         | (True, p, w1) \<Rightarrow>
             (let dest1 = dest\<lparr>cn_password := p\<rparr>
              in case cn_connection source of
                   CCAPI_CONNECTION_WAN link_speed phone_number \<Rightarrow> copy_wan_info os dest1 link_speed phone_number w1
                 | _ \<Rightarrow> (True, dest1, w1)))"

text \<open>The type of the connection is read to see whether there is a phone number.\<close>

definition free_transport_tcp_info :: "'w os \<Rightarrow> 'w tcp_block \<Rightarrow> 'w \<Rightarrow> 'w ub" where
  "free_transport_tcp_info os block w =
     (case block of
        Tcp_Unwritten \<Rightarrow> Inl Uninitialised_Read
      | Tcp_Info info \<Rightarrow>
          ub_bind (free_c_string os (cn_password info) w) (\<lambda>w1.
            ub_bind (case cn_connection info of
                       CCAPI_CONNECTION_WAN link_speed phone_number \<Rightarrow> free_c_string os phone_number w1
                     | _ \<Rightarrow> Inr w1)
              (\<lambda>w2. Inr (snd (ccapi_free os True w2)))))"

type_synonym 'w tcp_start_result = "(ccapi_tcp_start_error_t \<times> 'w ccapi_transports option \<times> 'w) run"

definition tcp_start_done ::
  "'w os \<Rightarrow> ccapi_tcp_start_error_t \<Rightarrow> 'w ccapi_transports \<Rightarrow> 'w \<Rightarrow> 'w tcp_start_result" where
  "tcp_start_done os error d w =
     (case tcp_info d of
        Some info \<Rightarrow>
          (if error \<in> {CCAPI_TCP_START_ERROR_NONE, CCAPI_TCP_START_ERROR_ALREADY_STARTED,
                       CCAPI_TCP_START_ERROR_CCAPI_STOPPED, CCAPI_TCP_START_ERROR_NULL_POINTER}
           then Some (Inr (error, Some d, w))
           else run_bind (Some (free_transport_tcp_info os info w)) (\<lambda>w1.
                  Some (Inr (error, Some (d\<lparr>tcp_info := None\<rparr>), w1))))
      | None \<Rightarrow> Some (Inr (error, Some d, w)))"

text \<open>The wait for the condition; one without a timeout is believed to have succeeded.\<close>

definition tcp_wait ::
  "'w tp_env \<Rightarrow> u8 \<Rightarrow> 'w ccapi_transports \<Rightarrow> 'w \<Rightarrow> (ccapi_tcp_start_error_t \<times> 'w ccapi_transports \<times> 'w) option" where
  "tcp_wait env start_timeout d w =
     (if start_timeout = 0
      then map_option (\<lambda>(condition_res, d, w). (CCAPI_TCP_START_ERROR_NONE, d, w)) (te_condition_wait env 0 d w)
      else
        map_option
          (\<lambda>(condition_res, d, w).
            (case condition_res of
               CCIMP_STATUS_BUSY \<Rightarrow> CCAPI_TCP_START_ERROR_TIMEOUT
             | CCIMP_STATUS_ERROR \<Rightarrow> CCAPI_TCP_START_ERROR_INIT
             | CCIMP_STATUS_OK \<Rightarrow> CCAPI_TCP_START_ERROR_NONE, d, w))
          (te_condition_wait env ((ucast start_timeout + 1) * 1000) d w))"

text \<open>From the allocated block on.\<close>

definition start_tcp_with_block ::
  "'w tp_env \<Rightarrow> 'w ccapi_transports \<Rightarrow> 'w ccapi_tcp_info_t \<Rightarrow> 'w \<Rightarrow> 'w tcp_start_result" where
  "start_tcp_with_block env d start w =
     (let os = te_os env
      in if \<not> valid_keepalives start then tcp_start_done os CCAPI_TCP_START_ERROR_KEEPALIVES d w
         else if valid_connection start \<noteq> CCAPI_TCP_START_ERROR_NONE
         then tcp_start_done os (valid_connection start) d w
         else
           (case copy_ccapi_tcp_info_t_structure os start w of
              (copied, info, w1) \<Rightarrow>
                (let d1 = d\<lparr>tcp_info := Some (Tcp_Info info)\<rparr>
                 in if \<not> copied then tcp_start_done os CCAPI_TCP_START_ERROR_INSUFFICIENT_MEMORY d1 w1
                    else
                      (let d2 = d1\<lparr>tcp_connected := False\<rparr>
                       in case initiate_start env d2 connector_transport_tcp w1 of
                            None \<Rightarrow> None
                          | Some (ccfsm_status, w2) \<Rightarrow>
                              (if ccfsm_status \<noteq> connector_success
                               then tcp_start_done os CCAPI_TCP_START_ERROR_INIT d2 w2
                               else
                                 (case tcp_wait env (cn_start_timeout start) d2 w2 of
                                    None \<Rightarrow> None
                                  | Some (error, d3, w3) \<Rightarrow> tcp_start_done os error d3 w3))))))"

definition ccxapi_start_transport_tcp ::
  "'w tp_env \<Rightarrow> 'w ccapi_transports option \<Rightarrow> 'w ccapi_tcp_info_t option \<Rightarrow> 'w \<Rightarrow> 'w tcp_start_result" where
  "ccxapi_start_transport_tcp env ccapi_data tcp_start w =
     (if \<not> tp_running ccapi_data then Some (Inr (CCAPI_TCP_START_ERROR_CCAPI_STOPPED, ccapi_data, w))
      else
        (let d = the ccapi_data; os = te_os env
         in if tcp_connected d then Some (Inr (CCAPI_TCP_START_ERROR_ALREADY_STARTED, Some d, w))
            else
              (case tcp_start of
                 None \<Rightarrow> Some (Inr (CCAPI_TCP_START_ERROR_NULL_POINTER, Some d, w))
               | Some start \<Rightarrow>
                   run_bind (Some (case tcp_info d of None \<Rightarrow> Inr w | Some info \<Rightarrow> free_transport_tcp_info os info w))
                     (\<lambda>w1.
                      case ccapi_malloc os (Sizeof ''ccapi_tcp_info_t'') w1 of
                        (False, w2) \<Rightarrow>
                          tcp_start_done os CCAPI_TCP_START_ERROR_INSUFFICIENT_MEMORY (d\<lparr>tcp_info := None\<rparr>) w2
                      | (True, w2) \<Rightarrow> start_tcp_with_block env (d\<lparr>tcp_info := Some Tcp_Unwritten\<rparr>) start w2))))"

definition ccxapi_stop_transport_tcp ::
  "'w tp_env \<Rightarrow> 'w ccapi_transports option \<Rightarrow> ccapi_transport_stop_t option \<Rightarrow> 'w
     \<Rightarrow> (ccapi_tcp_stop_error_t \<times> 'w ccapi_transports option \<times> 'w) run" where
  "ccxapi_stop_transport_tcp env ccapi_data tcp_stop w =
     (if \<not> tp_running ccapi_data \<or> \<not> tcp_connected (the ccapi_data)
      then Some (Inr (CCAPI_TCP_STOP_ERROR_NOT_STARTED, ccapi_data, w))
      else
        (let d = the ccapi_data
         in case tcp_stop of
              None \<Rightarrow> Some (Inl Null_Dereference)
            | Some behavior \<Rightarrow>
                (case initiate_stop env d CCAPI_TRANSPORT_TCP behavior w of
                   None \<Rightarrow> None
                 | Some (connector_status, w1) \<Rightarrow>
                     (if connector_status \<noteq> connector_success
                      then Some (Inr (CCAPI_TCP_STOP_ERROR_CCFSM, Some d, w1))
                      else
                        (case yield_while env tcp_connected d w1 of
                           None \<Rightarrow> None
                         | Some (d1, w2) \<Rightarrow>
                             (case tcp_info d1 of
                                None \<Rightarrow> Some (Inr (CCAPI_TCP_STOP_ERROR_NONE, Some d1, w2))
                              | Some info \<Rightarrow>
                                  run_bind (Some (free_transport_tcp_info (te_os env) info w2)) (\<lambda>w3.
                                    Some (Inr (CCAPI_TCP_STOP_ERROR_NONE, Some (d1\<lparr>tcp_info := None\<rparr>), w3)))))))))"

definition ccapi_start_transport_tcp ::
  "'w tp_env \<Rightarrow> 'w ccapi_transports option \<Rightarrow> 'w ccapi_tcp_info_t option \<Rightarrow> 'w \<Rightarrow> 'w tcp_start_result" where
  "ccapi_start_transport_tcp env ccapi_data_single_instance tcp_start w =
     ccxapi_start_transport_tcp env ccapi_data_single_instance tcp_start w"

definition ccapi_stop_transport_tcp ::
  "'w tp_env \<Rightarrow> 'w ccapi_transports option \<Rightarrow> ccapi_transport_stop_t option \<Rightarrow> 'w
     \<Rightarrow> (ccapi_tcp_stop_error_t \<times> 'w ccapi_transports option \<times> 'w) run" where
  "ccapi_stop_transport_tcp env ccapi_data_single_instance tcp_stop w =
     ccxapi_stop_transport_tcp env ccapi_data_single_instance tcp_stop w"

end
