(* ===== verification/Connector.thy ===== *)
theory Connector
  imports TransportsTcp
begin

text \<open>
  What source/ccapi.c answers the connector about the device itself: its configuration, the
  operating system, the network and the status of the transports.

  The data of a request is its argument; the answer is the request with the fields the handler
  writes. The network of the integrator (include/ccimp/ccimp_network.h) is the record
  \<open>ccimp_network\<close>, one for each transport.
\<close>

subsection \<open>The network\<close>

record 'w ccimp_network =
  nw_open :: "string \<Rightarrow> nat \<Rightarrow> 'w \<Rightarrow> ccimp_status_t \<times> nat \<times> 'w"
  nw_send :: "nat \<Rightarrow> u8 list \<Rightarrow> 'w \<Rightarrow> ccimp_status_t \<times> size_t \<times> 'w"
  nw_receive :: "nat \<Rightarrow> size_t \<Rightarrow> 'w \<Rightarrow> ccimp_status_t \<times> u8 list \<times> size_t \<times> 'w"
  nw_close :: "nat \<Rightarrow> 'w \<Rightarrow> ccimp_status_t \<times> 'w"

datatype connector_close_status_t =
    connector_close_status_device_terminated
  | connector_close_status_device_stopped
  | connector_close_status_abort
  | connector_close_status_cloud_disconnected
  | connector_close_status_cloud_redirected
  | connector_close_status_device_error
  | connector_close_status_no_keepalive

record connector_network_open_t =
  no_device_cloud :: string
  no_handle :: nat

record connector_network_send_t =
  ns_handle :: nat
  ns_buffer :: "u8 list"
  ns_bytes_used :: size_t

record connector_network_receive_t =
  nr_handle :: nat
  nr_buffer :: "u8 list"
  nr_bytes_available :: size_t
  nr_bytes_used :: size_t

record connector_network_close_t =
  nc_handle :: nat
  nc_status :: connector_close_status_t
  nc_reconnect :: bool

datatype network_request =
    connector_request_id_network_open connector_network_open_t
  | connector_request_id_network_send connector_network_send_t
  | connector_request_id_network_receive connector_network_receive_t
  | connector_request_id_network_close connector_network_close_t

type_synonym 'w network_result =
  "(connector_callback_status_t \<times> network_request \<times> 'w ccapi_transports \<times> 'w) ub"

text \<open>The cause the user is told; \<open>None\<close> is INVALID_ENUM.\<close>

definition tcp_close_cause :: "connector_close_status_t \<Rightarrow> ccapi_tcp_close_cause_t option" where
  "tcp_close_cause close_status =
     (case close_status of
        connector_close_status_cloud_disconnected \<Rightarrow> Some CCAPI_TCP_CLOSE_DISCONNECTED
      | connector_close_status_cloud_redirected \<Rightarrow> Some CCAPI_TCP_CLOSE_REDIRECTED
      | connector_close_status_device_error \<Rightarrow> Some CCAPI_TCP_CLOSE_DATA_ERROR
      | connector_close_status_no_keepalive \<Rightarrow> Some CCAPI_TCP_CLOSE_NO_KEEPALIVE
      | _ \<Rightarrow> None)"

definition tcp_info_of :: "'w ccapi_transports \<Rightarrow> 'w ccapi_tcp_info_t ub" where
  "tcp_info_of d =
     (case tcp_info d of
        None \<Rightarrow> Inl Null_Dereference
      | Some Tcp_Unwritten \<Rightarrow> Inl Uninitialised_Read
      | Some (Tcp_Info info) \<Rightarrow> Inr info)"

definition udp_info_of :: "'w ccapi_transports \<Rightarrow> 'w ccapi_udp_info_t ub" where
  "udp_info_of d = (case udp_info d of None \<Rightarrow> Inl Null_Dereference | Some info \<Rightarrow> Inr info)"

definition sms_info_of :: "'w ccapi_transports \<Rightarrow> 'w ccapi_sms_info_t ub" where
  "sms_info_of d = (case sms_info d of None \<Rightarrow> Inl Null_Dereference | Some info \<Rightarrow> Inr info)"

definition ask_user_if_reconnect ::
  "connector_close_status_t \<Rightarrow> 'w ccapi_transports \<Rightarrow> 'w \<Rightarrow> (bool \<times> 'w) ub" where
  "ask_user_if_reconnect close_status d w =
     ub_bind (tcp_info_of d) (\<lambda>info.
       case tcp_close_cb info of
         None \<Rightarrow> Inr (False, w)
       | Some close_cb \<Rightarrow> Inr (close_cb (tcp_close_cause close_status) w))"

definition ask_user_if_reconnect_udp ::
  "connector_close_status_t \<Rightarrow> 'w ccapi_transports \<Rightarrow> 'w \<Rightarrow> (bool \<times> 'w) ub" where
  "ask_user_if_reconnect_udp close_status d w =
     ub_bind (udp_info_of d) (\<lambda>info.
       case udp_close_cb info of
         None \<Rightarrow> Inr (False, w)
       | Some close_cb \<Rightarrow>
           (case close_status of
              connector_close_status_cloud_disconnected \<Rightarrow> Inr (close_cb CCAPI_UDP_CLOSE_DISCONNECTED w)
            | connector_close_status_device_error \<Rightarrow> Inr (close_cb CCAPI_UDP_CLOSE_DATA_ERROR w)
            | _ \<Rightarrow> Inr (False, w)))"

definition ask_user_if_reconnect_sms ::
  "connector_close_status_t \<Rightarrow> 'w ccapi_transports \<Rightarrow> 'w \<Rightarrow> (bool \<times> 'w) ub" where
  "ask_user_if_reconnect_sms close_status d w =
     ub_bind (sms_info_of d) (\<lambda>info.
       case sms_close_cb info of
         None \<Rightarrow> Inr (False, w)
       | Some close_cb \<Rightarrow>
           (case close_status of
              connector_close_status_cloud_disconnected \<Rightarrow> Inr (close_cb CCAPI_SMS_CLOSE_DISCONNECTED w)
            | connector_close_status_device_error \<Rightarrow> Inr (close_cb CCAPI_SMS_CLOSE_DATA_ERROR w)
            | _ \<Rightarrow> Inr (False, w)))"

text \<open>The broadcast of the condition wakes the thread that waits for the connection.\<close>

definition ccapi_transport_state_set ::
  "('w \<Rightarrow> 'w) \<Rightarrow> bool \<Rightarrow> 'w ccapi_transports \<Rightarrow> 'w \<Rightarrow> 'w ccapi_transports \<times> 'w" where
  "ccapi_transport_state_set broadcast state d w = (d\<lparr>tcp_connected := state\<rparr>, broadcast w)"

text \<open>Sending and receiving are the same for the three transports.\<close>

definition network_send ::
  "'w ccimp_network \<Rightarrow> connector_network_send_t \<Rightarrow> 'w ccapi_transports \<Rightarrow> 'w \<Rightarrow> 'w network_result" where
  "network_send nw r d w =
     (case nw_send nw (ns_handle r) (ns_buffer r) w of
        (status, used, w1) \<Rightarrow>
          Inr (connector_callback_status_from_ccimp_status status,
               connector_request_id_network_send (r\<lparr>ns_bytes_used := used\<rparr>), d, w1))"

definition network_receive ::
  "'w ccimp_network \<Rightarrow> connector_network_receive_t \<Rightarrow> 'w ccapi_transports \<Rightarrow> 'w \<Rightarrow> 'w network_result" where
  "network_receive nw r d w =
     (case nw_receive nw (nr_handle r) (nr_bytes_available r) w of
        (status, bytes, used, w1) \<Rightarrow>
          Inr (connector_callback_status_from_ccimp_status status,
               connector_request_id_network_receive (r\<lparr>nr_buffer := bytes, nr_bytes_used := used\<rparr>), d, w1))"

definition ccapi_network_handler ::
  "'w ccimp_network \<Rightarrow> ('w \<Rightarrow> 'w) \<Rightarrow> network_request \<Rightarrow> 'w ccapi_transports \<Rightarrow> 'w \<Rightarrow> 'w network_result" where
  "ccapi_network_handler nw broadcast request d w =
     (case request of
        connector_request_id_network_open r \<Rightarrow>
          (case nw_open nw (no_device_cloud r) (no_handle r) w of
             (status, handle, w1) \<Rightarrow>
               Inr (connector_callback_status_from_ccimp_status status,
                    connector_request_id_network_open (r\<lparr>no_handle := handle\<rparr>), d, w1))
      | connector_request_id_network_send r \<Rightarrow> network_send nw r d w
      | connector_request_id_network_receive r \<Rightarrow> network_receive nw r d w
      | connector_request_id_network_close r \<Rightarrow>
          (case nw_close nw (nc_handle r) w of
             (status, w1) \<Rightarrow>
               (if status \<noteq> CCIMP_STATUS_OK
                then Inr (connector_callback_status_from_ccimp_status status, request, d, w1)
                else
                  (case ccapi_transport_state_set broadcast False d w1 of
                     (d1, w2) \<Rightarrow>
                       ub_bind (if nc_status r \<in> {connector_close_status_cloud_disconnected,
                                   connector_close_status_cloud_redirected, connector_close_status_device_error,
                                   connector_close_status_no_keepalive}
                                then ask_user_if_reconnect (nc_status r) d1 w2 else Inr (False, w2))
                         (\<lambda>(reconnect, w3).
                           Inr (connector_callback_continue,
                                connector_request_id_network_close (r\<lparr>nc_reconnect := reconnect\<rparr>), d1, w3))))))"

text \<open>For the other transports a close by redirection or missing keepalives leaves \<open>reconnect\<close> alone.\<close>

definition reconnect_unless_stopped ::
  "connector_close_status_t \<Rightarrow> bool \<Rightarrow> (bool \<times> 'w) ub \<Rightarrow> 'w \<Rightarrow> (bool \<times> 'w) ub" where
  "reconnect_unless_stopped close_status reconnect ask w =
     (case close_status of
        connector_close_status_device_stopped \<Rightarrow> Inr (False, w)
      | connector_close_status_device_terminated \<Rightarrow> Inr (False, w)
      | connector_close_status_abort \<Rightarrow> Inr (False, w)
      | connector_close_status_cloud_disconnected \<Rightarrow> ask
      | connector_close_status_device_error \<Rightarrow> ask
      | connector_close_status_cloud_redirected \<Rightarrow> Inr (reconnect, w)
      | connector_close_status_no_keepalive \<Rightarrow> Inr (reconnect, w))"

definition ccapi_network_udp_handler ::
  "'w ccimp_network \<Rightarrow> network_request \<Rightarrow> 'w ccapi_transports \<Rightarrow> 'w \<Rightarrow> 'w network_result" where
  "ccapi_network_udp_handler nw request d w =
     (case request of
        connector_request_id_network_open r \<Rightarrow>
          (case nw_open nw (no_device_cloud r) (no_handle r) w of
             (status, handle, w1) \<Rightarrow>
               Inr (connector_callback_status_from_ccimp_status status,
                    connector_request_id_network_open (r\<lparr>no_handle := handle\<rparr>),
                    if status = CCIMP_STATUS_OK then d\<lparr>udp_started := True\<rparr> else d, w1))
      | connector_request_id_network_send r \<Rightarrow> network_send nw r d w
      | connector_request_id_network_receive r \<Rightarrow> network_receive nw r d w
      | connector_request_id_network_close r \<Rightarrow>
          (case nw_close nw (nc_handle r) w of
             (status, w1) \<Rightarrow>
               (if status \<noteq> CCIMP_STATUS_OK
                then Inr (connector_callback_status_from_ccimp_status status, request, d, w1)
                else
                  (let d1 = d\<lparr>udp_started := False\<rparr>
                   in ub_bind (reconnect_unless_stopped (nc_status r) (nc_reconnect r)
                                 (ask_user_if_reconnect_udp (nc_status r) d1 w1) w1)
                        (\<lambda>(reconnect, w2).
                          Inr (connector_callback_continue,
                               connector_request_id_network_close (r\<lparr>nc_reconnect := reconnect\<rparr>), d1, w2))))))"

definition ccapi_network_sms_handler ::
  "'w ccimp_network \<Rightarrow> network_request \<Rightarrow> 'w ccapi_transports \<Rightarrow> 'w \<Rightarrow> 'w network_result" where
  "ccapi_network_sms_handler nw request d w =
     (case request of
        connector_request_id_network_open r \<Rightarrow>
          (case nw_open nw (no_device_cloud r) (no_handle r) w of
             (status, handle, w1) \<Rightarrow>
               Inr (connector_callback_status_from_ccimp_status status,
                    connector_request_id_network_open (r\<lparr>no_handle := handle\<rparr>),
                    if status = CCIMP_STATUS_OK then d\<lparr>sms_started := True\<rparr> else d, w1))
      | connector_request_id_network_send r \<Rightarrow> network_send nw r d w
      | connector_request_id_network_receive r \<Rightarrow> network_receive nw r d w
      | connector_request_id_network_close r \<Rightarrow>
          (case nw_close nw (nc_handle r) w of
             (status, w1) \<Rightarrow>
               (if status \<noteq> CCIMP_STATUS_OK
                then Inr (connector_callback_status_from_ccimp_status status, request, d, w1)
                else
                  (let d1 = d\<lparr>sms_started := False\<rparr>
                   in ub_bind (reconnect_unless_stopped (nc_status r) (nc_reconnect r)
                                 (ask_user_if_reconnect_sms (nc_status r) d1 w1) w1)
                        (\<lambda>(reconnect, w2).
                          Inr (connector_callback_continue,
                               connector_request_id_network_close (r\<lparr>nc_reconnect := reconnect\<rparr>), d1, w2))))))"

subsection \<open>The status of the transports\<close>

datatype connector_tcp_status_t =
    connector_tcp_communication_started
  | connector_tcp_keepalive_missed
  | connector_tcp_keepalive_restored

datatype status_request =
    connector_request_id_status_tcp connector_tcp_status_t
  | connector_request_id_status_stop_completed connector_transport_t

definition keepalive_event :: "ccapi_keepalive_status_t \<Rightarrow> 'w ccapi_transports \<Rightarrow> 'w \<Rightarrow> 'w ub" where
  "keepalive_event keepalive_status d w =
     ub_bind (tcp_info_of d) (\<lambda>info.
       Inr (case tcp_keepalive_cb info of None \<Rightarrow> w | Some keepalive \<Rightarrow> keepalive keepalive_status w))"

definition ccapi_status_handler ::
  "('w \<Rightarrow> 'w) \<Rightarrow> status_request \<Rightarrow> 'w ccapi_transports \<Rightarrow> 'w
     \<Rightarrow> (connector_callback_status_t \<times> 'w ccapi_transports \<times> 'w) ub" where
  "ccapi_status_handler broadcast request d w =
     ub_bind
       (case request of
          connector_request_id_status_tcp event \<Rightarrow>
            (case event of
               connector_tcp_communication_started \<Rightarrow> Inr (ccapi_transport_state_set broadcast True d w)
             | connector_tcp_keepalive_missed \<Rightarrow>
                 ub_bind (keepalive_event CCAPI_KEEPALIVE_MISSED d w) (\<lambda>w1. Inr (d, w1))
             | connector_tcp_keepalive_restored \<Rightarrow>
                 ub_bind (keepalive_event CCAPI_KEEPALIVE_RESTORED d w) (\<lambda>w1. Inr (d, w1)))
        | connector_request_id_status_stop_completed transport \<Rightarrow>
            (case transport of
               connector_transport_tcp \<Rightarrow> Inr (ccapi_transport_state_set broadcast False d w)
             | connector_transport_udp \<Rightarrow> Inr (d\<lparr>udp_started := False\<rparr>, w)
             | connector_transport_sms \<Rightarrow> Inr (d\<lparr>sms_started := False\<rparr>, w)
             | connector_transport_all \<Rightarrow>
                 (case ccapi_transport_state_set broadcast False d w of
                    (d1, w1) \<Rightarrow> Inr (d1\<lparr>udp_started := False, sms_started := False\<rparr>, w1))))
       (\<lambda>(d1, w1). Inr (connector_callback_continue, d1, w1))"

end
