(* ===== verification/ConnectorConfig.thy ===== *)
theory ConnectorConfig
  imports Connector
begin

text \<open>
  The requests of the connector for the configuration of the device and for the operating system.
\<close>

subsection \<open>The configuration\<close>

text \<open>
  \<open>ccapi_config_t\<close>, and the descriptor of \<open>service.rci.rci_data\<close>. The support of files is written
  late in a start, \<open>sm_key_distribution_supported\<close> by a start with short messages only, and the
  descriptor by one with the remote configuration: \<open>None\<close> is a field that is not written.
\<close>

record ccapi_config_t =
  cf_device_type :: "string option"
  cf_device_cloud_url :: "string option"
  cf_device_id :: "u8 list"
  cf_vendor_id :: u32
  cf_cli_supported :: bool
  cf_sm_supported :: bool
  cf_receive_supported :: bool
  cf_firmware_supported :: bool
  cf_rci_supported :: bool
  cf_filesystem_supported :: "bool option"
  cf_streaming_cli_supported :: bool
  cf_sm_key_distribution_supported :: "bool option"
  cf_rci_descriptor :: "nat option"

datatype config_request =
    connector_request_id_config_device_id
  | connector_request_id_config_device_cloud_url
  | connector_request_id_config_vendor_id
  | connector_request_id_config_device_type
  | connector_request_id_config_firmware_facility
  | connector_request_id_config_file_system
  | connector_request_id_config_remote_configuration
  | connector_request_id_config_data_service
  | connector_request_id_config_streaming_cli
  | connector_request_id_config_sm_key_distribution
  | connector_request_id_config_connection_type
  | connector_request_id_config_mac_addr
  | connector_request_id_config_ip_addr
  | connector_request_id_config_identity_verification
  | connector_request_id_config_password
  | connector_request_id_config_max_transaction
  | connector_request_id_config_rx_keepalive
  | connector_request_id_config_tx_keepalive
  | connector_request_id_config_wait_count
  | connector_request_id_config_link_speed
  | connector_request_id_config_phone_number
  | connector_request_id_config_sm_udp_max_sessions
  | connector_request_id_config_sm_udp_rx_timeout
  | connector_request_id_config_sm_sms_max_sessions
  | connector_request_id_config_sm_sms_rx_timeout
  | connector_request_id_config_get_device_cloud_phone
  | connector_request_id_config_set_device_cloud_phone "string option" size_t
  | connector_request_id_config_device_cloud_service_id
  | connector_request_id_config_rci_descriptor_data
  | connector_request_id_config_error_status
  | connector_request_id_config_set_device_id
  | connector_request_id_config_device_id_method
  | connector_request_id_config_network_tcp
  | connector_request_id_config_network_udp
  | connector_request_id_config_network_sms
  | connector_request_id_config_sm_udp_max_rx_segments
  | connector_request_id_config_sm_sms_max_rx_segments

datatype connector_connection_type_t =
    connector_connection_type_lan
  | connector_connection_type_wan
  | connector_connection_type_wifi
  | connector_connection_type_wimax

datatype connector_identity_verification_t =
    connector_identity_verification_simple
  | connector_identity_verification_password

text \<open>What the handler writes to the data of the request.\<close>

datatype config_answer =
    Config_Data "u8 list"
  | Config_String string
  | Config_Number u64
  | Config_Supported bool
  | Config_Connection connector_connection_type_t
  | Config_Address ccapi_ip_address_t
  | Config_Identity connector_identity_verification_t
  | Config_Wan_Union
  | Config_Descriptor nat
  | Config_Nothing

text \<open>A pointer and its \<open>strlen\<close>.\<close>

definition config_string :: "string option \<Rightarrow> config_answer ub" where
  "config_string s = (case s of None \<Rightarrow> Inl Null_Dereference | Some t \<Rightarrow> Inr (Config_String t))"

text \<open>The bytes of the MAC address, in a connection that has one.\<close>

definition mac_address_of :: "ccapi_connection_t \<Rightarrow> u8 list option" where
  "mac_address_of c =
     (case c of
        CCAPI_CONNECTION_LAN mac \<Rightarrow> Some mac
      | CCAPI_CONNECTION_WIFI mac \<Rightarrow> Some mac
      | CCAPI_CONNECTION_WIMAX mac \<Rightarrow> Some mac
      | CCAPI_CONNECTION_WAN link_speed phone_number \<Rightarrow> None)"

text \<open>
  Where the connection is not a WAN, the link speed is the first four bytes of the MAC address,
  and the phone number a pointer that nobody wrote.
\<close>

definition link_speed_of :: "ccapi_connection_t \<Rightarrow> u32" where
  "link_speed_of c =
     (case c of
        CCAPI_CONNECTION_WAN link_speed phone_number \<Rightarrow> link_speed
      | _ \<Rightarrow> word_rcat (rev (take 4 (the (mac_address_of c)))))"

definition config_of_tcp :: "config_request \<Rightarrow> 'w ccapi_tcp_info_t \<Rightarrow> config_answer ub" where
  "config_of_tcp request info =
     (case request of
        connector_request_id_config_connection_type \<Rightarrow>
          Inr (Config_Connection
            (case cn_connection info of
               CCAPI_CONNECTION_LAN mac \<Rightarrow> connector_connection_type_lan
             | CCAPI_CONNECTION_WAN link_speed phone_number \<Rightarrow> connector_connection_type_wan
             | CCAPI_CONNECTION_WIFI mac \<Rightarrow> connector_connection_type_wifi
             | CCAPI_CONNECTION_WIMAX mac \<Rightarrow> connector_connection_type_wimax))
      | connector_request_id_config_mac_addr \<Rightarrow>
          Inr (case mac_address_of (cn_connection info) of None \<Rightarrow> Config_Wan_Union | Some mac \<Rightarrow> Config_Data mac)
      | connector_request_id_config_ip_addr \<Rightarrow> Inr (Config_Address (cn_ip info))
      | connector_request_id_config_identity_verification \<Rightarrow>
          Inr (Config_Identity (if cn_password info \<noteq> Null_String then connector_identity_verification_password
                                else connector_identity_verification_simple))
      | connector_request_id_config_password \<Rightarrow> config_string (c_text (cn_password info))
      | connector_request_id_config_max_transaction \<Rightarrow> Inr (Config_Number (ucast (cn_max_transactions info)))
      | connector_request_id_config_rx_keepalive \<Rightarrow> Inr (Config_Number (ucast (ka_rx info)))
      | connector_request_id_config_tx_keepalive \<Rightarrow> Inr (Config_Number (ucast (ka_tx info)))
      | connector_request_id_config_wait_count \<Rightarrow> Inr (Config_Number (ucast (ka_wait_count info)))
      | connector_request_id_config_link_speed \<Rightarrow> Inr (Config_Number (ucast (link_speed_of (cn_connection info))))
      | connector_request_id_config_phone_number \<Rightarrow>
          (case cn_connection info of
             CCAPI_CONNECTION_WAN link_speed phone_number \<Rightarrow> config_string (c_text phone_number)
           | _ \<Rightarrow> Inl Uninitialised_Read)
      | _ \<Rightarrow> Inr Config_Nothing)"

text \<open>
  The requests the handler does not expect, and a cloud phone that is NULL or of another length,
  jump over the assignment of \<open>status\<close>, which is returned unwritten.
\<close>

definition set_device_cloud_phone ::
  "'w os \<Rightarrow> string option \<Rightarrow> size_t \<Rightarrow> 'w ccapi_transports \<Rightarrow> 'w
     \<Rightarrow> (connector_callback_status_t \<times> 'w ccapi_transports \<times> 'w) ub" where
  "set_device_cloud_phone os phone len d w =
     (case phone of
        None \<Rightarrow> Inl Uninitialised_Read
      | Some s \<Rightarrow>
          (if len \<noteq> of_nat (length s) then Inl Uninitialised_Read
           else
             ub_bind (sms_info_of d) (\<lambda>info.
               ub_bind (free_c_string os (sms_phone_number info) w) (\<lambda>w1.
                 case ccapi_strdup os s w1 of
                   (None, w2) \<Rightarrow>
                     Inr (connector_callback_error, d\<lparr>sms_info := Some (info\<lparr>sms_phone_number := Null_String\<rparr>)\<rparr>, w2)
                 | (Some s', w2) \<Rightarrow>
                     Inr (connector_callback_continue,
                          d\<lparr>sms_info := Some (info\<lparr>sms_phone_number := Own_String s'\<rparr>)\<rparr>, w2)))))"

definition ccapi_config_handler ::
  "'w os \<Rightarrow> ccapi_config_t \<Rightarrow> config_request \<Rightarrow> 'w ccapi_transports \<Rightarrow> 'w
     \<Rightarrow> (connector_callback_status_t \<times> config_answer \<times> 'w ccapi_transports \<times> 'w) ub" where
  "ccapi_config_handler os config request d w =
     (let continue = (\<lambda>answer. ub_bind answer (\<lambda>a. Inr (connector_callback_continue, a, d, w)));
          supported = (\<lambda>b. Inr (Config_Supported b))
      in case request of
           connector_request_id_config_device_id \<Rightarrow> continue (Inr (Config_Data (cf_device_id config)))
         | connector_request_id_config_device_cloud_url \<Rightarrow> continue (config_string (cf_device_cloud_url config))
         | connector_request_id_config_vendor_id \<Rightarrow> continue (Inr (Config_Number (ucast (cf_vendor_id config))))
         | connector_request_id_config_device_type \<Rightarrow> continue (config_string (cf_device_type config))
         | connector_request_id_config_firmware_facility \<Rightarrow> continue (supported (cf_firmware_supported config))
         | connector_request_id_config_file_system \<Rightarrow> 
             continue (ub_bind (read_field (cf_filesystem_supported config)) supported)
         | connector_request_id_config_remote_configuration \<Rightarrow> continue (supported (cf_rci_supported config))
         | connector_request_id_config_data_service \<Rightarrow> continue (supported True)
         | connector_request_id_config_streaming_cli \<Rightarrow> continue (supported (cf_streaming_cli_supported config))
         | connector_request_id_config_sm_key_distribution \<Rightarrow>
             continue (ub_bind (read_field (cf_sm_key_distribution_supported config)) supported)
         | connector_request_id_config_sm_udp_max_sessions \<Rightarrow>
             continue (ub_bind (udp_info_of d) (\<lambda>info. Inr (Config_Number (udp_max_sessions info))))
         | connector_request_id_config_sm_udp_rx_timeout \<Rightarrow>
             continue (ub_bind (udp_info_of d) (\<lambda>info. Inr (Config_Number (udp_rx_timeout info))))
         | connector_request_id_config_sm_sms_max_sessions \<Rightarrow>
             continue (ub_bind (sms_info_of d) (\<lambda>info. Inr (Config_Number (sms_max_sessions info))))
         | connector_request_id_config_sm_sms_rx_timeout \<Rightarrow>
             continue (ub_bind (sms_info_of d) (\<lambda>info. Inr (Config_Number (sms_rx_timeout info))))
         | connector_request_id_config_get_device_cloud_phone \<Rightarrow>
             continue (ub_bind (sms_info_of d) (\<lambda>info. config_string (c_text (sms_phone_number info))))
         | connector_request_id_config_set_device_cloud_phone phone len \<Rightarrow>
             ub_bind (set_device_cloud_phone os phone len d w) (\<lambda>(status, d1, w1). Inr (status, Config_Nothing, d1, w1))
         | connector_request_id_config_device_cloud_service_id \<Rightarrow>
             continue (ub_bind (sms_info_of d) (\<lambda>info. config_string (c_text (sms_service_id info))))
         | connector_request_id_config_rci_descriptor_data \<Rightarrow>
             continue (ub_bind (read_field (cf_rci_descriptor config)) (\<lambda>p. Inr (Config_Descriptor p)))
         | connector_request_id_config_error_status \<Rightarrow> continue (Inr Config_Nothing)
         | connector_request_id_config_set_device_id \<Rightarrow> Inl Uninitialised_Read
         | connector_request_id_config_device_id_method \<Rightarrow> Inl Uninitialised_Read
         | connector_request_id_config_network_tcp \<Rightarrow> Inl Uninitialised_Read
         | connector_request_id_config_network_udp \<Rightarrow> Inl Uninitialised_Read
         | connector_request_id_config_network_sms \<Rightarrow> Inl Uninitialised_Read
         | connector_request_id_config_sm_udp_max_rx_segments \<Rightarrow> Inl Uninitialised_Read
         | connector_request_id_config_sm_sms_max_rx_segments \<Rightarrow> Inl Uninitialised_Read
         | _ \<Rightarrow> continue (ub_bind (tcp_info_of d) (config_of_tcp request)))"

subsection \<open>The operating system\<close>

text \<open>What the layer supplies beside memory and locks.\<close>

record 'w os_extra =
  ox_realloc :: "nat option \<Rightarrow> size_t \<Rightarrow> size_t \<Rightarrow> 'w \<Rightarrow> ccimp_status_t \<times> nat option \<times> 'w"
  ox_malloc :: "size_t \<Rightarrow> nat option \<Rightarrow> 'w \<Rightarrow> ccimp_status_t \<times> nat option \<times> 'w"
  ox_free :: "nat option \<Rightarrow> 'w \<Rightarrow> ccimp_status_t \<times> 'w"
  ox_yield :: "'w \<Rightarrow> ccimp_status_t \<times> 'w"
  ox_get_system_time :: "'w \<Rightarrow> ccimp_status_t \<times> u64 \<times> 'w"
  ox_hal_reset :: "'w \<Rightarrow> ccimp_status_t \<times> 'w"

datatype os_request =
    connector_request_id_os_malloc size_t "nat option"
  | connector_request_id_os_free "nat option"
  | connector_request_id_os_yield connector_status_t
  | connector_request_id_os_system_up_time u64
  | connector_request_id_os_reboot
  | connector_request_id_os_realloc "nat option" size_t size_t

definition CCIMP_IDLE_SLEEP_TIME_MS :: u64 where "CCIMP_IDLE_SLEEP_TIME_MS = 100"

text \<open>
  An idle connector sleeps on the lock of its thread, which a call into the connector releases,
  for a time at most; the status of the lock is only asserted on. The \<open>ccimp_status\<close> of that
  block is a variable of its own, so the status answered is that of the yield.
\<close>

definition idle_sleep :: "'w os \<Rightarrow> ptr \<Rightarrow> 'w \<Rightarrow> 'w ub" where
  "idle_sleep os run_lock w =
     (case run_lock of
        None \<Rightarrow> Inl Null_Dereference
      | Some l \<Rightarrow> Inr (snd (os_lock_acquire os l CCIMP_IDLE_SLEEP_TIME_MS w)))"

definition ccapi_os_handler ::
  "'w os \<Rightarrow> 'w os_extra \<Rightarrow> ptr \<Rightarrow> os_request \<Rightarrow> 'w \<Rightarrow> (connector_callback_status_t \<times> os_request \<times> 'w) ub" where
  "ccapi_os_handler os ox run_lock request w =
     (case request of
        connector_request_id_os_malloc bytes p \<Rightarrow>
          (case ox_malloc ox bytes p w of
             (status, p', w1) \<Rightarrow>
               Inr (connector_callback_status_from_ccimp_status status, connector_request_id_os_malloc bytes p', w1))
      | connector_request_id_os_free p \<Rightarrow>
          (case ox_free ox p w of
             (status, w1) \<Rightarrow> Inr (connector_callback_status_from_ccimp_status status, request, w1))
      | connector_request_id_os_yield connector_status \<Rightarrow>
          ub_bind (if connector_status = connector_idle then idle_sleep os run_lock w else Inr w) (\<lambda>w1.
            case ox_yield ox w1 of
              (status, w2) \<Rightarrow> Inr (connector_callback_status_from_ccimp_status status, request, w2))
      | connector_request_id_os_system_up_time t \<Rightarrow>
          (case ox_get_system_time ox w of
             (status, now, w1) \<Rightarrow>
               Inr (connector_callback_status_from_ccimp_status status, connector_request_id_os_system_up_time now, w1))
      | connector_request_id_os_reboot \<Rightarrow>
          (case ox_hal_reset ox w of
             (status, w1) \<Rightarrow> Inr (connector_callback_status_from_ccimp_status status, request, w1))
      | connector_request_id_os_realloc p old_size new_size \<Rightarrow>
          (case ox_realloc ox p old_size new_size w of
             (status, p', w1) \<Rightarrow>
               Inr (connector_callback_status_from_ccimp_status status,
                    connector_request_id_os_realloc p' old_size new_size, w1)))"

end
