(* ===== verification/TransportProps.thy ===== *)
theory TransportProps
  imports ConnectorConfig
begin

text \<open>
  The life of a transport: what the connector reads of the configuration it was started with, that
  a start with a time limit returns, and what is left after a start that failed.
\<close>

subsection \<open>The configuration that is stored\<close>

lemma c_text_as_callers [simp]: "c_text (as_callers p) = c_text p"
  by (cases p) (simp_all add: as_callers_def c_text_def)

lemma c_text_Null [simp]: "c_text p = None \<longleftrightarrow> p = Null_String"
  by (cases p) (simp_all add: c_text_def)

lemma copy_c_string_True:
  assumes "copy_c_string os p w = (True, q, w')"
  shows "c_text q = c_text p" and "\<exists>v'. free_c_string os q v = Inr v'"
  using assms
  by (auto simp: copy_c_string_def ccapi_strdup_def c_text_def free_c_string_def
      split: option.splits prod.splits if_splits c_string.splits)

text \<open>Two configurations that differ in who owns the strings.\<close>

definition same_connection :: "ccapi_connection_t \<Rightarrow> ccapi_connection_t \<Rightarrow> bool" where
  "same_connection c c' \<longleftrightarrow> c' = c \<or> (\<exists>speed p p'. c = CCAPI_CONNECTION_WAN speed p
     \<and> c' = CCAPI_CONNECTION_WAN speed p' \<and> c_text p' = c_text p)"

lemma config_of_tcp_same:
  assumes "info' = info\<lparr>cn_password := p, cn_connection := c\<rparr>"
    and "c_text p = c_text (cn_password info)" and "same_connection (cn_connection info) c"
  shows "config_of_tcp request info' = config_of_tcp request info"
proof -
  have "p = Null_String \<longleftrightarrow> cn_password info = Null_String" using assms(2) c_text_Null by metis
  then show ?thesis
    using assms
    by (cases request)
      (auto simp: config_of_tcp_def same_connection_def mac_address_of_def link_speed_of_def split: ccapi_connection_t.splits)
qed

lemma copy_tcp_info:
  assumes "copy_ccapi_tcp_info_t_structure os start w = (True, info, w')"
  shows "config_of_tcp request info = config_of_tcp request (default_keepalives start)"
    and "\<exists>v'. free_transport_tcp_info os (Tcp_Info info) v = Inr v'"
    and "ka_rx info = ka_rx (default_keepalives start)" "ka_tx info = ka_tx (default_keepalives start)"
      "ka_wait_count info = ka_wait_count (default_keepalives start)"
proof -
  let ?dest = "default_keepalives (assign_tcp_info start)"
  obtain p w1 where p: "copy_c_string os (cn_password start) w = (True, p, w1)"
    and rest: "(case cn_connection start of
        CCAPI_CONNECTION_WAN link_speed phone_number \<Rightarrow> copy_wan_info os (?dest\<lparr>cn_password := p\<rparr>) link_speed phone_number w1
      | _ \<Rightarrow> (True, ?dest\<lparr>cn_password := p\<rparr>, w1)) = (True, info, w')"
    using assms by (auto simp: copy_ccapi_tcp_info_t_structure_def Let_def split: prod.splits bool.splits)
  have base: "?dest = (default_keepalives start)\<lparr>cn_password := cn_password ?dest, cn_connection := cn_connection ?dest\<rparr>"
    by (simp add: default_keepalives_def assign_tcp_info_def)
  show "config_of_tcp request info = config_of_tcp request (default_keepalives start)"
  proof (rule config_of_tcp_same)
    show "info = (default_keepalives start)\<lparr>cn_password := cn_password info, cn_connection := cn_connection info\<rparr>"
      using rest
      by (auto simp: default_keepalives_def assign_tcp_info_def copy_wan_info_def split: ccapi_connection_t.splits prod.splits)
    show "c_text (cn_password info) = c_text (cn_password (default_keepalives start))"
      using rest copy_c_string_True(1) [OF p]
      by (auto simp: default_keepalives_def assign_tcp_info_def copy_wan_info_def split: ccapi_connection_t.splits prod.splits)
    show "same_connection (cn_connection (default_keepalives start)) (cn_connection info)"
      using rest
      by (auto simp: default_keepalives_def assign_tcp_info_def copy_wan_info_def same_connection_def
          dest: copy_c_string_True(1) split: ccapi_connection_t.splits prod.splits)
  qed
  obtain v1 where "free_c_string os p v = Inr v1" using copy_c_string_True(2) [OF p] by blast
  then show "\<exists>v'. free_transport_tcp_info os (Tcp_Info info) v = Inr v'"
    using rest
    by (auto simp: free_transport_tcp_info_def default_keepalives_def assign_tcp_info_def copy_wan_info_def
        split: ccapi_connection_t.splits prod.splits dest!: copy_c_string_True(2) [where v = v1])
  show "ka_rx info = ka_rx (default_keepalives start)" "ka_tx info = ka_tx (default_keepalives start)"
      "ka_wait_count info = ka_wait_count (default_keepalives start)"
    using rest
    by (auto simp: default_keepalives_def assign_tcp_info_def copy_wan_info_def split: ccapi_connection_t.splits prod.splits)
qed

lemma default_keepalives_in_range:
  assumes "valid_keepalives start"
  shows "5 \<le> ka_rx (default_keepalives start) \<and> ka_rx (default_keepalives start) \<le> 7200"
    and "5 \<le> ka_tx (default_keepalives start) \<and> ka_tx (default_keepalives start) \<le> 7200"
    and "2 \<le> ka_wait_count (default_keepalives start) \<and> ka_wait_count (default_keepalives start) \<le> 64"
  using assms by (auto simp: valid_keepalives_def default_keepalives_def)

text \<open>The requests that read the configuration of the TCP transport.\<close>

definition tcp_config_requests :: "config_request set" where
  "tcp_config_requests =
     {connector_request_id_config_connection_type, connector_request_id_config_mac_addr,
      connector_request_id_config_ip_addr, connector_request_id_config_identity_verification,
      connector_request_id_config_password, connector_request_id_config_max_transaction,
      connector_request_id_config_rx_keepalive, connector_request_id_config_tx_keepalive,
      connector_request_id_config_wait_count, connector_request_id_config_link_speed,
      connector_request_id_config_phone_number}"

lemma config_handler_tcp:
  "request \<in> tcp_config_requests \<Longrightarrow> ccapi_config_handler os config request d w =
     ub_bind (ub_bind (tcp_info_of d) (config_of_tcp request)) (\<lambda>a. Inr (connector_callback_continue, a, d, w))"
  by (auto simp: tcp_config_requests_def ccapi_config_handler_def Let_def)

subsection \<open>Starting the TCP transport\<close>

lemma tcp_start_done_keeps:
  assumes "tcp_start_done os error d w = Some (Inr (CCAPI_TCP_START_ERROR_NONE, d', w'))"
  shows "error = CCAPI_TCP_START_ERROR_NONE \<and> d' = Some d \<and> w' = w"
  using assms
  by (auto simp: tcp_start_done_def run_bind_def split: option.splits if_splits sum.splits)

lemma tcp_wait_keeps:
  assumes "\<And>ms d w st d' w'. te_condition_wait env ms d w = Some (st, d', w') \<Longrightarrow> tcp_info d' = tcp_info d"
    and "tcp_wait env timeout d w = Some (error, d', w')"
  shows "tcp_info d' = tcp_info d"
  using assms by (auto simp: tcp_wait_def split: if_splits option.splits)

lemma tcp_start_stores:
  assumes "start_tcp_with_block env d start w = Some (Inr (CCAPI_TCP_START_ERROR_NONE, Some d', w'))"
    and waits: "\<And>ms d w st d' w'. te_condition_wait env ms d w = Some (st, d', w') \<Longrightarrow> tcp_info d' = tcp_info d"
  shows "valid_keepalives start \<and> valid_connection start = CCAPI_TCP_START_ERROR_NONE
    \<and> (\<exists>info w1 w2. tcp_info d' = Some (Tcp_Info info)
    \<and> copy_ccapi_tcp_info_t_structure (te_os env) start w1 = (True, info, w2))"
  using assms(1)
  by (auto simp: start_tcp_with_block_def Let_def tcp_wait_keeps [OF waits] split: if_splits prod.splits option.splits
      dest!: tcp_start_done_keeps) blast

subsection \<open>Waiting with a time limit\<close>

text \<open>
  A clock that the layer reads, and that moves on with every yield. The time is a 64 bit number,
  so a single step must not jump over its end.
\<close>

definition clock_runs :: "'w tp_env \<Rightarrow> ('w \<Rightarrow> nat) \<Rightarrow> bool" where
  "clock_runs env clock \<longleftrightarrow>
     (\<forall>w. \<exists>w'. te_system_time env w = (of_nat (clock w), w') \<and> clock w' = clock w)
     \<and> (\<forall>d w d' w'. te_yield env (d, w) = (d', w') \<longrightarrow> clock w < clock w' \<and> clock w' \<le> clock w + 2 ^ 62)"

lemma timed_loop_returns:
  assumes clock: "clock_runs env clock" and "end_time < 2 ^ 62 + 257" and "clock w \<le> end_time + 2 ^ 62"
  shows "\<exists>over d' w'. retry_loop (timed_round env (of_nat end_time)) (\<lambda>(over, d, w). \<not> over \<and> \<not> started d) (\<lambda>x. x)
      (False, d, w) = Some (over, d', w') \<and> (over \<or> started d')"
  using assms(3)
proof (induction "end_time + 2 ^ 63 - clock w" arbitrary: d w rule: less_induct)
  case less
  obtain d1 w1 where y: "te_yield env (d, w) = (d1, w1)" by fastforce
  obtain w2 where t: "te_system_time env w1 = (of_nat (clock w1), w2)" "clock w2 = clock w1"
    using clock unfolding clock_runs_def by blast
  have move: "clock w < clock w1" "clock w1 \<le> clock w + 2 ^ 62" using clock y unfolding clock_runs_def by blast+
  have small: "clock w1 < 2 ^ 64" "end_time < 2 ^ 64" using move(2) less.prems assms(2) by simp_all
  have over: "((of_nat end_time :: u64) < of_nat (clock w1)) \<longleftrightarrow> end_time < clock w1"
    using small by (simp add: word_less_nat_alt unat_of_nat_u64)
  have round: "timed_round env (of_nat end_time) (False, d, w) = (end_time < clock w1, d1, w2)"
    using y t over by (simp add: timed_round_def)
  show ?case
  proof (cases "end_time < clock w1 \<or> started d1")
    case True
    then show ?thesis by (subst retry_loop_once) (auto simp: round)
  next
    case False
    have "\<exists>over d' w'. retry_loop (timed_round env (of_nat end_time)) (\<lambda>(over, d, w). \<not> over \<and> \<not> started d) (\<lambda>x. x)
        (False, d1, w2) = Some (over, d', w') \<and> (over \<or> started d')"
      by (rule less.hyps) (use False t(2) move(1) in auto)
    then show ?thesis by (subst retry_loop_again) (use False in \<open>auto simp: round\<close>)
  qed
qed

lemma wait_returns:
  assumes clock: "clock_runs env clock" and "clock w < 2 ^ 62" and "timeout \<noteq> 0"
  shows "\<exists>over d' w'. wait_until_started env started timeout d w = Some (over, d', w') \<and> (over \<or> started d')"
proof -
  obtain w1 where t: "te_system_time env w = (of_nat (clock w), w1)" "clock w1 = clock w"
    using clock unfolding clock_runs_def by blast
  let ?limit = "clock w + unat timeout + 1"
  have "unat timeout < 2 ^ 8" using unsigned_less [of timeout] by simp
  moreover have "of_nat (clock w) + ucast timeout + 1 = (of_nat ?limit :: u64)"
    by (simp add: unsigned_ucast_eq)
  ultimately show ?thesis
    using timed_loop_returns [OF clock, of ?limit w1 started d] assms(2,3) t
    by (simp add: wait_until_started_def ac_simps)
qed

end
