(* ===== verification/TransportClaims.thy ===== *)
theory TransportClaims
  imports TransportProps
begin

text \<open>The properties of the transports and of what the connector asks about them.\<close>

subsection \<open>An example\<close>

definition ex_tcp :: "unit ccapi_tcp_info_t" where
  "ex_tcp = \<lparr>ka_tx = 0, ka_rx = 60, ka_wait_count = 0, cn_ip = CCAPI_IPV4 [192, 168, 0, 2], cn_max_transactions = 0,
     cn_password = Callers_String ''secret'', cn_start_timeout = 10,
     cn_connection = CCAPI_CONNECTION_WAN 115200 (Callers_String ''555''), tcp_close_cb = None, tcp_keepalive_cb = None\<rparr>"

definition ex_udp :: "'w ccapi_udp_info_t" where
  "ex_udp = \<lparr>udp_close_cb = None, udp_start_timeout = 1, udp_max_sessions = 0, udp_rx_timeout = 0\<rparr>"

definition ex_transports :: "'w ccapi_transports" where
  "ex_transports = \<lparr>tp_run_status = CCAPI_THREAD_RUNNING, tp_run_lock = Some 1, tp_initiate_lock = Some 2,
     tcp_info = None, tcp_connected = False, udp_info = None, udp_started = False, sms_info = None, sms_started = False\<rparr>"

definition ex_config :: ccapi_config_t where
  "ex_config = \<lparr>cf_device_type = Some ''gateway'', cf_device_cloud_url = Some ''cloud'', cf_device_id = replicate 16 7,
     cf_vendor_id = 1, cf_cli_supported = False, cf_sm_supported = False, cf_receive_supported = True, cf_firmware_supported = True, cf_rci_supported = False, cf_filesystem_supported = Some True,
     cf_streaming_cli_supported = False, cf_sm_key_distribution_supported = None, cf_rci_descriptor = None\<rparr>"

text \<open>An environment whose world is the time, in which nobody answers until the wait is over.\<close>

definition ex_tp_env :: "nat tp_env" where
  "ex_tp_env = \<lparr>te_os = example_os, te_start = (\<lambda>t w. (connector_success, w)), te_stop = (\<lambda>r w. (connector_success, w)),
     te_others = (\<lambda>d w. (d, Suc w)), te_system_time = (\<lambda>w. (of_nat w, w)),
     te_condition_wait = (\<lambda>ms d w. Some (CCIMP_STATUS_OK, d\<lparr>tcp_connected := True\<rparr>, w))\<rparr>"

definition ex_tcp_env :: "unit tp_env" where
  "ex_tcp_env = \<lparr>te_os = example_os, te_start = (\<lambda>t w. (connector_success, w)), te_stop = (\<lambda>r w. (connector_success, w)),
     te_others = (\<lambda>d w. (d, w)), te_system_time = (\<lambda>w. (0, w)),
     te_condition_wait = (\<lambda>ms d w. Some (CCIMP_STATUS_OK, d\<lparr>tcp_connected := True\<rparr>, w))\<rparr>"

lemma example_secure:
  "connector_initiate_action_secure example_os initiate (Some l) r req w = initiate req w"
  by (cases "initiate req w") (simp add: connector_initiate_action_secure_def)

lemma ex_initiate:
  "initiate_until_not_busy example_os (\<lambda>t w. (connector_success, w)) (Some l) r req w = Some (connector_success, w)"
  by (rule initiate_not_busy_once) (simp_all add: example_secure)

definition ex_network :: "nat ccimp_network" where
  "ex_network = \<lparr>nw_open = (\<lambda>url h w. (CCIMP_STATUS_OK, 5, w)), nw_send = (\<lambda>h b w. (CCIMP_STATUS_OK, of_nat (length b), w)),
     nw_receive = (\<lambda>h n w. (CCIMP_STATUS_BUSY, [], 0, w)), nw_close = (\<lambda>h w. (CCIMP_STATUS_OK, w))\<rparr>"

definition ex_open :: connector_network_open_t where
  "ex_open = \<lparr>no_device_cloud = ''cloud'', no_handle = 0\<rparr>"

text \<open>The clock reads 1, 2 and 3; the limit is 2.\<close>

lemma ex_timed_round:
  "timed_round ex_tp_env 2 (over, d, w) = ((2 :: u64) < of_nat (Suc w), d, Suc w)"
  by (simp add: timed_round_def te_yield_def ex_tp_env_def)

lemma ex_timed_out:
  "\<exists>d' w'. ccxapi_start_transport_udp ex_tp_env (Some ex_transports) (Some ex_udp) 0 =
     Some (CCAPI_UDP_START_ERROR_TIMEOUT, Some d', w')"
proof -
  let ?d = "ex_transports\<lparr>udp_info := Some (copy_ccapi_udp_info_t_structure ex_udp), udp_started := False\<rparr>"
  have "initiate_start ex_tp_env ?d connector_transport_udp 0 = Some (connector_success, 0)"
    by (simp add: initiate_start_def ex_initiate ex_tp_env_def ex_transports_def)
  moreover have "wait_until_started ex_tp_env udp_started 1 ?d 0 = Some (True, ?d, 3)"
  proof -
    have "retry_loop (timed_round ex_tp_env 2) (\<lambda>(over, d, w). \<not> over \<and> \<not> udp_started d) (\<lambda>x. x) (False, ?d, 0) =
        Some (True, ?d, 3)"
      by (simp add: retry_loop_again retry_loop_once ex_timed_round)
    then show ?thesis by (simp add: wait_until_started_def) (simp add: ex_tp_env_def)
  qed
  ultimately show ?thesis
    by (simp add: ccxapi_start_transport_udp_def tp_running_def Let_def udp_start_done_def
        ex_udp_def ex_tp_env_def ex_transports_def CCAPI_SM_UDP_MAX_SESSIONS_LIMIT_def)
qed

text \<open>After a start that timed out the configuration is gone.\<close>

lemma udp_start_done_timeout:
  assumes "udp_start_done os error d w = (CCAPI_UDP_START_ERROR_TIMEOUT, Some d', w')"
  shows "udp_info d' = None"
  using assms by (auto simp: udp_start_done_def split: if_splits)

lemma timed_out_udp_info:
  assumes "ccxapi_start_transport_udp env (Some d) (Some start) w = Some (CCAPI_UDP_START_ERROR_TIMEOUT, Some d', w')"
  shows "udp_info d' = None"
  using assms
  by (auto simp: ccxapi_start_transport_udp_def Let_def split: if_splits prod.splits option.splits bool.splits
      dest: udp_start_done_timeout)

text \<open>What a request for a member of the union is answered with, on a connection that has a MAC address.\<close>

definition mac_address_only ::
  "(config_request \<Rightarrow> 'a ub) \<Rightarrow> (config_answer \<Rightarrow> 'a ub) \<Rightarrow> u8 list \<Rightarrow> bool" where
  "mac_address_only asked told mac \<longleftrightarrow>
     asked connector_request_id_config_mac_addr = told (Config_Data mac)
     \<and> asked connector_request_id_config_link_speed = told (Config_Number (ucast (word_rcat (rev (take 4 mac)) :: u32)))
     \<and> asked connector_request_id_config_phone_number = Inl Uninitialised_Read"

subsection \<open>The properties\<close>

text \<open>
  C34. The connector is told what the transport was started with. After a start of the TCP
  transport that succeeded each of the eleven requests for its configuration is answered from
  the caller's structure: the type of the connection, the address, the kind of identity
  verification, the password, the number of transactions, the three keepalives with 75, 75 and 5
  for those that are zero, the MAC address of a connection that has one, and the link speed and
  the phone number of a WAN. The handler does not check whether it is asked for what there is: for
  a caller who gave no password a request for it takes the length of NULL; and of the union of MAC
  address and WAN it reads the member it was asked for, so that a request for the phone number of
  a connection that is not a WAN reads a pointer nobody wrote. The keepalives are within their
  limits; and the block can be freed, because its strings are copies of the caller's.
\<close>

theorem config_answers_the_start:
  assumes "ccxapi_start_transport_tcp env (Some d) (Some start) w = Some (Inr (CCAPI_TCP_START_ERROR_NONE, Some d', w'))"
    and "\<And>ms d w st d' w'. te_condition_wait env ms d w = Some (st, d', w') \<Longrightarrow> tcp_info d' = tcp_info d"
  shows "\<exists>info. tcp_info d' = Some (Tcp_Info info)
    \<and> (\<forall>v. let asked = (\<lambda>request. ccapi_config_handler os config request d' v);
              told = (\<lambda>answer. Inr (connector_callback_continue, answer, d', v))
           in (case cn_connection start of
                 CCAPI_CONNECTION_WAN link_speed phone_number \<Rightarrow>
                   asked connector_request_id_config_connection_type = told (Config_Connection connector_connection_type_wan)
                   \<and> asked connector_request_id_config_link_speed = told (Config_Number (ucast link_speed))
                   \<and> (\<exists>s. c_text phone_number = Some s
                        \<and> asked connector_request_id_config_phone_number = told (Config_String s))
                   \<and> asked connector_request_id_config_mac_addr = told Config_Wan_Union
               | CCAPI_CONNECTION_LAN mac \<Rightarrow>
                   asked connector_request_id_config_connection_type = told (Config_Connection connector_connection_type_lan)
                   \<and> mac_address_only asked told mac
               | CCAPI_CONNECTION_WIFI mac \<Rightarrow>
                   asked connector_request_id_config_connection_type = told (Config_Connection connector_connection_type_wifi)
                   \<and> mac_address_only asked told mac
               | CCAPI_CONNECTION_WIMAX mac \<Rightarrow>
                   asked connector_request_id_config_connection_type = told (Config_Connection connector_connection_type_wimax)
                   \<and> mac_address_only asked told mac)
              \<and> asked connector_request_id_config_ip_addr = told (Config_Address (cn_ip start))
              \<and> (case c_text (cn_password start) of
                   None \<Rightarrow>
                     asked connector_request_id_config_identity_verification
                       = told (Config_Identity connector_identity_verification_simple)
                     \<and> asked connector_request_id_config_password = Inl Null_Dereference
                 | Some password \<Rightarrow>
                     asked connector_request_id_config_identity_verification
                       = told (Config_Identity connector_identity_verification_password)
                     \<and> asked connector_request_id_config_password = told (Config_String password))
              \<and> asked connector_request_id_config_max_transaction
                  = told (Config_Number (ucast (cn_max_transactions start)))
              \<and> asked connector_request_id_config_rx_keepalive
                  = told (Config_Number (if ka_rx start = 0 then 75 else ucast (ka_rx start)))
              \<and> asked connector_request_id_config_tx_keepalive
                  = told (Config_Number (if ka_tx start = 0 then 75 else ucast (ka_tx start)))
              \<and> asked connector_request_id_config_wait_count
                  = told (Config_Number (if ka_wait_count start = 0 then 5 else ucast (ka_wait_count start))))
    \<and> ka_rx info \<in> {5..7200} \<and> ka_tx info \<in> {5..7200} \<and> ka_wait_count info \<in> {2..64}
    \<and> (\<forall>v. \<exists>v'. free_transport_tcp_info (te_os env) (Tcp_Info info) v = Inr v')"
proof -
  obtain v where v: "start_tcp_with_block env (d\<lparr>tcp_info := Some Tcp_Unwritten\<rparr>) start v
      = Some (Inr (CCAPI_TCP_START_ERROR_NONE, Some d', w'))"
    using assms(1)
    by (auto simp: ccxapi_start_transport_tcp_def Let_def split: if_splits prod.splits bool.splits dest!: tcp_start_done_keeps)
  obtain info w1 w2 where info: "valid_keepalives start" "valid_connection start = CCAPI_TCP_START_ERROR_NONE"
    "tcp_info d' = Some (Tcp_Info info)"
    "copy_ccapi_tcp_info_t_structure (te_os env) start w1 = (True, info, w2)"
    using tcp_start_stores [OF v] assms(2) by blast
  have asked: "ccapi_config_handler os config request d' v =
      ub_bind (config_of_tcp request (default_keepalives start)) (\<lambda>a. Inr (connector_callback_continue, a, d', v))"
    if "request \<in> tcp_config_requests" for request v
    using that info(3) copy_tcp_info(1) [OF info(4), of request] by (simp add: config_handler_tcp tcp_info_of_def)
  have phone: "\<exists>s. c_text phone_number = Some s" if "cn_connection start = CCAPI_CONNECTION_WAN link_speed phone_number"
    for link_speed phone_number
    using that info(2) c_text_Null [of phone_number] by (cases "c_text phone_number") (auto simp: valid_connection_def split: if_splits)
  have freed: "\<exists>v'. free_transport_tcp_info (te_os env) (Tcp_Info info) v = Inr v'" for v
    using copy_tcp_info(2) [OF info(4)] by blast
  have range: "ka_rx info \<in> {5..7200}" "ka_tx info \<in> {5..7200}" "ka_wait_count info \<in> {2..64}"
    using default_keepalives_in_range [OF info(1)] copy_tcp_info(3-5) [OF info(4)] by auto
  have null: "c_text Null_String = None" by (simp add: c_text_def)
  show ?thesis
    using phone
    by (intro exI [of _ info] conjI allI info(3) range freed)
      (auto simp: Let_def asked null tcp_config_requests_def config_of_tcp_def default_keepalives_def mac_address_only_def
        mac_address_of_def link_speed_of_def config_string_def split: ccapi_connection_t.split option.split)
qed

lemma ex_address: "[192, 168, 0, 2] \<noteq> replicate 4 (0 :: u8)"
  by (simp add: numeral_eq_Suc)

lemma ex_tcp_started:
  "\<exists>d'. ccxapi_start_transport_tcp ex_tcp_env (Some ex_transports) (Some ex_tcp) () =
     Some (Inr (CCAPI_TCP_START_ERROR_NONE, Some d', ()))"
  by (simp add: ccxapi_start_transport_tcp_def tp_running_def ex_transports_def ex_tcp_env_def start_tcp_with_block_def
      ex_tcp_def valid_keepalives_def valid_connection_def copy_ccapi_tcp_info_t_structure_def copy_wan_info_def
      copy_c_string_def c_text_def ccapi_strdup_def initiate_start_def ex_initiate tcp_wait_def tcp_start_done_def
      default_keepalives_def assign_tcp_info_def ex_address)

theorem config_answers_the_start_witness:
  "\<exists>d'. ccxapi_start_transport_tcp ex_tcp_env (Some ex_transports) (Some ex_tcp) () =
       Some (Inr (CCAPI_TCP_START_ERROR_NONE, Some d', ()))
    \<and> ccapi_config_handler example_os ex_config connector_request_id_config_phone_number d' () =
        Inr (connector_callback_continue, Config_String ''555'', d', ())"
proof -
  obtain d' where d': "ccxapi_start_transport_tcp ex_tcp_env (Some ex_transports) (Some ex_tcp) () =
      Some (Inr (CCAPI_TCP_START_ERROR_NONE, Some d', ()))" using ex_tcp_started by blast
  then have "ccapi_config_handler example_os ex_config connector_request_id_config_phone_number d' () =
      Inr (connector_callback_continue, Config_String ''555'', d', ())"
    using config_answers_the_start [OF d', where os = example_os and config = ex_config]
    by (simp add: ex_tcp_env_def ex_tcp_def Let_def c_text_def) metis
  then show ?thesis using d' by blast
qed

text \<open>
  A refused TCP start reads what was never written. A start with keepalives out of their
  limits, or with an address, a MAC address or a phone number that is not valid, reads the type
  of the connection in the block it just allocated; and one that finds no memory for the password
  frees the phone number of the caller.
\<close>

theorem refused_tcp_start_is_undefined:
  assumes "tp_run_status d = CCAPI_THREAD_RUNNING" and "\<not> tcp_connected d" and "tcp_info d = None"
    and "ccapi_malloc (te_os env) (Sizeof ''ccapi_tcp_info_t'') w = (True, w1)"
  shows "(\<not> valid_keepalives start \<or> valid_connection start \<noteq> CCAPI_TCP_START_ERROR_NONE \<longrightarrow>
      ccxapi_start_transport_tcp env (Some d) (Some start) w = Some (Inl Uninitialised_Read))
    \<and> (valid_keepalives start \<and> valid_connection start = CCAPI_TCP_START_ERROR_NONE
        \<and> cn_connection start = CCAPI_CONNECTION_WAN link_speed phone_number
        \<and> c_text (cn_password start) = Some password \<and> fst (ccapi_strdup (te_os env) password w1) = None \<longrightarrow>
      ccxapi_start_transport_tcp env (Some d) (Some start) w = Some (Inl Foreign_Free))"
proof -
  have start: "ccxapi_start_transport_tcp env (Some d) (Some start) w =
      start_tcp_with_block env (d\<lparr>tcp_info := Some Tcp_Unwritten\<rparr>) start w1"
    using assms by (simp add: ccxapi_start_transport_tcp_def tp_running_def)
  have not_ok: "valid_connection start \<notin> {CCAPI_TCP_START_ERROR_ALREADY_STARTED, CCAPI_TCP_START_ERROR_CCAPI_STOPPED,
      CCAPI_TCP_START_ERROR_NULL_POINTER}"
    by (auto simp: valid_connection_def split: ccapi_ip_address_t.splits ccapi_connection_t.splits)
  have "ccxapi_start_transport_tcp env (Some d) (Some start) w = Some (Inl Uninitialised_Read)"
    if "\<not> valid_keepalives start \<or> valid_connection start \<noteq> CCAPI_TCP_START_ERROR_NONE"
    using that not_ok
    by (auto simp: start start_tcp_with_block_def Let_def tcp_start_done_def free_transport_tcp_info_def)
  moreover have "ccxapi_start_transport_tcp env (Some d) (Some start) w = Some (Inl Foreign_Free)"
    if valid: "valid_keepalives start" "valid_connection start = CCAPI_TCP_START_ERROR_NONE"
      and wan: "cn_connection start = CCAPI_CONNECTION_WAN link_speed phone_number"
      and password: "c_text (cn_password start) = Some password"
      and no_memory: "fst (ccapi_strdup (te_os env) password w1) = None"
  proof -
    obtain w2 where "ccapi_strdup (te_os env) password w1 = (None, w2)"
      using no_memory by (cases "ccapi_strdup (te_os env) password w1") auto
    moreover obtain s where "c_text phone_number = Some s"
      using valid(2) wan c_text_Null [of phone_number]
      by (cases "c_text phone_number") (auto simp: valid_connection_def split: if_splits)
    ultimately show ?thesis
      using valid wan password
      by (simp add: start start_tcp_with_block_def copy_ccapi_tcp_info_t_structure_def copy_c_string_def
          default_keepalives_def assign_tcp_info_def as_callers_def tcp_start_done_def free_transport_tcp_info_def free_c_string_def)
  qed
  ultimately show ?thesis by blast
qed

theorem refused_tcp_start_is_undefined_witness:
  "ccxapi_start_transport_tcp ex_tcp_env (Some ex_transports) (Some (ex_tcp\<lparr>ka_rx := 4\<rparr>)) () = Some (Inl Uninitialised_Read)"
  using refused_tcp_start_is_undefined [of ex_transports ex_tcp_env "()" "()" "ex_tcp\<lparr>ka_rx := 4\<rparr>"]
  by (simp add: ex_transports_def ex_tcp_env_def valid_keepalives_def)



text \<open>
  A start that timed out can still connect, and then the connector reads a configuration
  that was freed. When the network of the UDP transport opens after the start gave up, the
  transport counts as started; the request for its number of sessions dereferences NULL, so does
  the close of the network by the cloud, and a second start is refused.
\<close>

theorem timed_out_start_leaves_null:
  assumes "ccxapi_start_transport_udp env (Some d) (Some start) w = Some (CCAPI_UDP_START_ERROR_TIMEOUT, Some d', w')"
    and "nw_open nw (no_device_cloud r) (no_handle r) v = (CCIMP_STATUS_OK, handle, v1)"
    and "nw_close nw handle v2 = (CCIMP_STATUS_OK, v3)"
  shows "\<exists>d''. ccapi_network_udp_handler nw (connector_request_id_network_open r) d' v =
        Inr (connector_callback_continue, connector_request_id_network_open (r\<lparr>no_handle := handle\<rparr>), d'', v1)
    \<and> ccapi_config_handler os config connector_request_id_config_sm_udp_max_sessions d'' v1 = Inl Null_Dereference
    \<and> ccapi_network_udp_handler nw
        (connector_request_id_network_close
          \<lparr>nc_handle = handle, nc_status = connector_close_status_cloud_disconnected, nc_reconnect = False\<rparr>) d'' v2 =
        Inl Null_Dereference
    \<and> (tp_running (Some d'') \<longrightarrow> ccxapi_start_transport_udp env (Some d'') again v4 =
        Some (CCAPI_UDP_START_ERROR_ALREADY_STARTED, Some d'', v4))"
proof -
  have freed: "udp_info d' = None" using timed_out_udp_info [OF assms(1)] .
  let ?d = "d'\<lparr>udp_started := True\<rparr>"
  have "ccapi_network_udp_handler nw (connector_request_id_network_open r) d' v =
      Inr (connector_callback_continue, connector_request_id_network_open (r\<lparr>no_handle := handle\<rparr>), ?d, v1)"
    by (simp add: ccapi_network_udp_handler_def assms(2) connector_callback_status_from_ccimp_status_def)
  moreover have "ccapi_config_handler os config connector_request_id_config_sm_udp_max_sessions ?d v1 = Inl Null_Dereference"
    by (simp add: ccapi_config_handler_def Let_def udp_info_of_def freed)
  moreover have "ccapi_network_udp_handler nw (connector_request_id_network_close
      \<lparr>nc_handle = handle, nc_status = connector_close_status_cloud_disconnected, nc_reconnect = False\<rparr>) ?d v2 =
      Inl Null_Dereference"
    by (simp add: ccapi_network_udp_handler_def assms(3) reconnect_unless_stopped_def ask_user_if_reconnect_udp_def
        udp_info_of_def freed Let_def)
  moreover have "tp_running (Some ?d) \<longrightarrow> ccxapi_start_transport_udp env (Some ?d) again v4 =
      Some (CCAPI_UDP_START_ERROR_ALREADY_STARTED, Some ?d, v4)"
    by (simp add: ccxapi_start_transport_udp_def)
  ultimately show ?thesis by blast
qed

theorem timed_out_start_leaves_null_witness:
  "\<exists>d' w'. ccxapi_start_transport_udp ex_tp_env (Some ex_transports) (Some ex_udp) 0 =
        Some (CCAPI_UDP_START_ERROR_TIMEOUT, Some d', w')
    \<and> ccapi_config_handler example_os ex_config connector_request_id_config_sm_udp_max_sessions
        (d'\<lparr>udp_started := True\<rparr>) (0 :: nat) = Inl Null_Dereference"
proof -
  obtain d' w' where timed_out: "ccxapi_start_transport_udp ex_tp_env (Some ex_transports) (Some ex_udp) 0 =
      Some (CCAPI_UDP_START_ERROR_TIMEOUT, Some d', w')" using ex_timed_out by blast
  have "\<exists>d''. ccapi_network_udp_handler ex_network (connector_request_id_network_open ex_open) d' (0 :: nat) =
        Inr (connector_callback_continue, connector_request_id_network_open (ex_open\<lparr>no_handle := 5\<rparr>), d'', 0)
    \<and> ccapi_config_handler example_os ex_config connector_request_id_config_sm_udp_max_sessions d'' 0 = Inl Null_Dereference"
    using timed_out_start_leaves_null [OF timed_out, of ex_network ex_open 0 5 0 0 0 example_os ex_config]
    by (auto simp: ex_network_def)
  then show ?thesis
    using timed_out by (auto simp: ccapi_network_udp_handler_def ex_network_def)
qed

end
