(* ===== verification/InitData.thy ===== *)
theory InitData
  imports ConnectorConfig Firmware
begin

text \<open>
  The data of the library and what starting and stopping it share (source/ccapi_init.c): the
  blocks it owns and how they are freed, and its threads.

  All services are built in. A callback is the address of a function, \<open>None\<close> for NULL. The block
  of a new \<open>ccapi_data_t\<close> is arbitrary but for the fields that are written; the three that are
  read before they are written are options.
\<close>

subsection \<open>Data\<close>

type_synonym fun_ptr = "nat option"

datatype ccapi_start_error_t =
    CCAPI_START_ERROR_NONE
  | CCAPI_START_ERROR_NULL_PARAMETER
  | CCAPI_START_ERROR_INVALID_VENDORID
  | CCAPI_START_ERROR_INVALID_DEVICEID
  | CCAPI_START_ERROR_INVALID_URL
  | CCAPI_START_ERROR_INVALID_DEVICETYPE
  | CCAPI_START_ERROR_INVALID_CLI_REQUEST_CALLBACK
  | CCAPI_START_ERROR_INVALID_RCI_REQUEST_CALLBACK
  | CCAPI_START_ERROR_INVALID_FIRMWARE_INFO
  | CCAPI_START_ERROR_INVALID_FIRMWARE_DATA_CALLBACK
  | CCAPI_START_ERROR_INVALID_SM_ENCRYPTION_CALLBACK
  | CCAPI_START_ERROR_INSUFFICIENT_MEMORY
  | CCAPI_START_ERROR_THREAD_FAILED
  | CCAPI_START_ERROR_LOCK_FAILED
  | CCAPI_START_ERROR_ALREADY_STARTED

datatype ccapi_stop_error_t = CCAPI_STOP_ERROR_NONE | CCAPI_STOP_ERROR_NOT_STARTED

datatype ccapi_stop_t = CCAPI_STOP_GRACEFULLY | CCAPI_STOP_IMMEDIATELY

datatype ccimp_os_thread_type_t =
    CCIMP_THREAD_FSM
  | CCIMP_THREAD_RCI
  | CCIMP_THREAD_RECEIVE
  | CCIMP_THREAD_CLI
  | CCIMP_THREAD_FIRMWARE

datatype ccapi_rci_thread_status_t =
    CCAPI_RCI_THREAD_IDLE
  | CCAPI_RCI_THREAD_CB_QUEUED
  | CCAPI_RCI_THREAD_CB_PROCESSED

datatype ccapi_callback_type =
    ccapi_callback_type_none
  | ccapi_callback_type_base
  | ccapi_callback_type_lock
  | ccapi_callback_type_element
  | ccapi_callback_type_transform

record ccapi_thread_info_t =
  ti_status :: ccapi_thread_status_t
  ti_lock :: ptr

record ccapi_receive_service_t =
  rsv_accept :: fun_ptr
  rsv_data :: fun_ptr
  rsv_status :: fun_ptr

record ccapi_fw_callbacks =
  fwc_request :: fun_ptr
  fwc_data :: fun_ptr
  fwc_cancel :: fun_ptr
  fwc_reset :: fun_ptr

record ccapi_fw_service_t =
  fws_count :: u8
  fws_item :: "ccapi_firmware_target_t list option"
  fws_callback :: ccapi_fw_callbacks

text \<open>\<open>rci_data\<close>: its descriptor and the version in it.\<close>

record ccapi_rci_data_t =
  rci_desc :: nat
  firmware_target_zero_version :: u32

record ccapi_filesystem_service_t =
  fsv_access :: fun_ptr
  fsv_changed :: fun_ptr

record ccapi_cli_service_t =
  cli_request :: fun_ptr
  cli_finished :: fun_ptr

record ccapi_sm_encryption_t =
  sme_load_data :: fun_ptr
  sme_store_data :: fun_ptr
  sme_encrypt_gcm :: fun_ptr
  sme_decrypt_gcm :: fun_ptr

record ccapi_sm_service_t =
  sms_request_connect :: fun_ptr
  sms_ping_request :: fun_ptr
  sms_unsequenced_response :: fun_ptr
  sms_pending_data :: fun_ptr
  sms_phone_provisioning :: fun_ptr
  sms_encryption :: "ccapi_sm_encryption_t option"

record ccapi_streaming_cli_service_t =
  scs_start_session :: fun_ptr
  scs_poll_session :: fun_ptr
  scs_send_data :: fun_ptr
  scs_receive_data :: fun_ptr
  scs_end_session :: fun_ptr
  scs_sessionless_execute :: fun_ptr
  scs_sessionless_store :: fun_ptr

text \<open>
  A stored target is a target whose description and file specification belong to the library, or,
  between the copy of the array and that of its strings, to the caller.
\<close>

type_synonym stored_target = "ccapi_firmware_target_t \<times> c_string \<times> c_string"

text \<open>
  \<open>ccapi_data_t\<close>. The five threads are a function from their types; a virtual directory is a pair
  of paths; of a receive target only the name matters here; of the chunks of a firmware update
  only the pointers are written.
\<close>

record 'w ccapi_data_t =
  in_connector_handle :: fun_ptr
  in_config :: ccapi_config_t
  in_status_callback :: fun_ptr
  in_threads :: "ccimp_os_thread_type_t \<Rightarrow> ccapi_thread_info_t option"
  in_initiate_action_lock :: ptr
  in_file_system_lock :: ptr
  in_file_system :: ccapi_filesystem_service_t
  in_fs_context :: fun_ptr
  in_virtual_dirs :: "(string \<times> string) list"
  in_fw_count :: u8
  in_fw_item :: "stored_target list option"
  in_fw_callback :: ccapi_fw_callbacks
  in_fw_chunks :: "nat option list"
  in_fw_update_started :: bool
  in_receive :: ccapi_receive_service_t
  in_receive_lock :: ptr
  in_targets :: "string list"
  in_svc_receive :: ptr
  in_rci_thread_status :: ccapi_rci_thread_status_t
  in_rci_callback_type :: ccapi_callback_type
  in_cli :: ccapi_cli_service_t
  in_svc_cli :: ptr
  in_sm :: ccapi_sm_service_t
  in_streaming_cli :: ccapi_streaming_cli_service_t
  in_cond :: "ptr option"
  in_transports :: "'w ccapi_transports"

text \<open>
  What surrounds the library: the transports' environment, with the operating system; the other
  threads, which run between two yields; the creation of a thread; the connector; the condition
  variables of the port; what a new block holds; and the address of the function
  \<open>stub_firmware_request_reject_all\<close>.
\<close>

record 'w init_env =
  ie_tp :: "'w tp_env"
  ie_others :: "'w ccapi_data_t \<Rightarrow> 'w \<Rightarrow> 'w ccapi_data_t \<times> 'w"
  ie_create_thread :: "ccimp_os_thread_type_t \<Rightarrow> 'w \<Rightarrow> ccimp_status_t \<times> 'w"
  ie_connector_init :: "'w \<Rightarrow> fun_ptr \<times> 'w"
  ie_terminate :: "'w \<Rightarrow> connector_status_t \<times> 'w"
  ie_condition_alloc :: "'w \<Rightarrow> ptr \<times> 'w"
  ie_condition_init :: "nat \<Rightarrow> 'w \<Rightarrow> ccimp_status_t \<times> 'w"
  ie_condition_destroy :: "nat \<Rightarrow> 'w \<Rightarrow> 'w"
  ie_condition_free :: "nat \<Rightarrow> 'w \<Rightarrow> 'w"
  ie_new_block :: "'w ccapi_data_t"
  ie_stub_request :: nat

abbreviation ie_os :: "'w init_env \<Rightarrow> 'w os" where
  "ie_os env \<equiv> te_os (ie_tp env)"

definition in_yield :: "'w init_env \<Rightarrow> 'w ccapi_data_t \<times> 'w \<Rightarrow> 'w ccapi_data_t \<times> 'w" where
  "in_yield env x = (case x of (d, w) \<Rightarrow> ie_others env d (os_yield (ie_os env) w))"

definition in_thread_status :: "ccimp_os_thread_type_t \<Rightarrow> 'w ccapi_data_t \<Rightarrow> ccapi_thread_status_t option" where
  "in_thread_status t d = map_option ti_status (in_threads d t)"

definition set_thread ::
  "ccimp_os_thread_type_t \<Rightarrow> ccapi_thread_info_t option \<Rightarrow> 'w ccapi_data_t \<Rightarrow> 'w ccapi_data_t" where
  "set_thread t info d = d\<lparr>in_threads := (in_threads d)(t := info)\<rparr>"

subsection \<open>Freeing what the data owns\<close>

text \<open>\<open>reset_heap_ptr\<close>, of a pointer that is there or not.\<close>

definition reset_heap_ptr :: "'w os \<Rightarrow> bool \<Rightarrow> 'w \<Rightarrow> 'w" where
  "reset_heap_ptr os nonnull w = (if nonnull then snd (ccapi_free os True w) else w)"

definition reset_thread ::
  "'w os \<Rightarrow> ccimp_os_thread_type_t \<Rightarrow> 'w ccapi_data_t \<Rightarrow> 'w \<Rightarrow> 'w ccapi_data_t \<times> 'w" where
  "reset_thread os t d w = (set_thread t None d, reset_heap_ptr os (in_threads d t \<noteq> None) w)"

primrec free_filesystem_dir_entry_list :: "'w os \<Rightarrow> (string \<times> string) list \<Rightarrow> 'w \<Rightarrow> 'w" where
  "free_filesystem_dir_entry_list os [] w = w"
| "free_filesystem_dir_entry_list os (e # es) w =
     free_filesystem_dir_entry_list os es
       (snd (ccapi_free os True (snd (ccapi_free os True (snd (ccapi_free os True w))))))"

primrec free_targets :: "'w os \<Rightarrow> string list \<Rightarrow> 'w \<Rightarrow> 'w" where
  "free_targets os [] w = w"
| "free_targets os (t # ts) w = free_targets os ts (snd (ccapi_free os True (snd (ccapi_free os True w))))"

definition free_receive_target_list :: "'w os \<Rightarrow> ptr \<Rightarrow> string list \<Rightarrow> 'w \<Rightarrow> 'w" where
  "free_receive_target_list os receive_lock targets w =
     snd (ccapi_lock_release os receive_lock (free_targets os targets (snd (ccapi_lock_acquire os receive_lock w))))"

primrec free_stored_targets :: "'w os \<Rightarrow> stored_target list \<Rightarrow> 'w \<Rightarrow> 'w ub" where
  "free_stored_targets os [] w = Inr w"
| "free_stored_targets os (t # ts) w =
     ub_bind (free_c_string os (fst (snd t)) w) (\<lambda>w1.
       ub_bind (free_c_string os (snd (snd t)) w1) (\<lambda>w2. free_stored_targets os ts w2))"

definition destroy_lock :: "'w os \<Rightarrow> ptr \<Rightarrow> 'w \<Rightarrow> 'w" where
  "destroy_lock os lock w = (if lock \<noteq> None then snd (ccapi_lock_destroy os lock w) else w)"

text \<open>The parts of \<open>free_ccapi_data_internal_resources\<close>, in their order.\<close>

definition free_file_system :: "'w os \<Rightarrow> 'w ccapi_data_t \<Rightarrow> 'w \<Rightarrow> 'w ub" where
  "free_file_system os d w =
     (let w1 = destroy_lock os (in_file_system_lock d) w
      in ub_bind (read_field (cf_filesystem_supported (in_config d))) (\<lambda>supported.
           Inr (if supported then free_filesystem_dir_entry_list os (in_virtual_dirs d) w1 else w1)))"

definition free_cli :: "'w os \<Rightarrow> 'w ccapi_data_t \<Rightarrow> 'w \<Rightarrow> 'w ccapi_data_t \<times> 'w" where
  "free_cli os d w = (if cf_cli_supported (in_config d) then reset_thread os CCIMP_THREAD_CLI d w else (d, w))"

definition free_receive :: "'w os \<Rightarrow> 'w ccapi_data_t \<Rightarrow> 'w \<Rightarrow> 'w ccapi_data_t \<times> 'w" where
  "free_receive os d w =
     (if cf_receive_supported (in_config d)
      then
        (let w1 = (if in_targets d \<noteq> [] then free_receive_target_list os (in_receive_lock d) (in_targets d) w else w)
         in reset_thread os CCIMP_THREAD_RECEIVE d (destroy_lock os (in_receive_lock d) w1))
      else (d, w))"

definition free_rci :: "'w os \<Rightarrow> 'w ccapi_data_t \<Rightarrow> 'w \<Rightarrow> 'w ccapi_data_t \<times> 'w" where
  "free_rci os d w = (if cf_rci_supported (in_config d) then reset_thread os CCIMP_THREAD_RCI d w else (d, w))"

definition free_firmware :: "'w os \<Rightarrow> 'w ccapi_data_t \<Rightarrow> 'w \<Rightarrow> ('w ccapi_data_t \<times> 'w) ub" where
  "free_firmware os d w =
     (case in_fw_item d of
        None \<Rightarrow> Inr (d, w)
      | Some targets \<Rightarrow>
          (if in_fw_count d = 0 then Inr (d, w)
           else
             ub_bind (free_stored_targets os targets w) (\<lambda>w1.
               Inr (reset_thread os CCIMP_THREAD_FIRMWARE (d\<lparr>in_fw_count := 0, in_fw_item := None\<rparr>)
                      (snd (ccapi_free os True w1))))))"

definition free_config :: "'w os \<Rightarrow> 'w ccapi_data_t \<Rightarrow> 'w \<Rightarrow> 'w ccapi_data_t \<times> 'w" where
  "free_config os d w =
     (let c = in_config d;
          w1 = reset_heap_ptr os (cf_device_type c \<noteq> None) w;
          w2 = reset_heap_ptr os (cf_device_cloud_url c \<noteq> None) w1
      in reset_thread os CCIMP_THREAD_FSM
           (d\<lparr>in_config := c\<lparr>cf_device_type := None, cf_device_cloud_url := None\<rparr>\<rparr>) w2)"

definition free_condition :: "'w init_env \<Rightarrow> 'w ccapi_data_t \<Rightarrow> 'w \<Rightarrow> ('w ccapi_data_t \<times> 'w) ub" where
  "free_condition env d w =
     ub_bind (read_field (in_cond d)) (\<lambda>cond.
       Inr (case cond of
              None \<Rightarrow> (d, w)
            | Some c \<Rightarrow>
                (d\<lparr>in_cond := Some None\<rparr>, ie_condition_free env c (ie_condition_destroy env c w))))"

definition free_ccapi_data_internal_resources ::
  "'w init_env \<Rightarrow> 'w ccapi_data_t \<Rightarrow> 'w \<Rightarrow> ('w ccapi_data_t \<times> 'w) ub" where
  "free_ccapi_data_internal_resources env d w =
     (let os = ie_os env
      in ub_bind (free_file_system os d w) (\<lambda>w1.
         case free_cli os d w1 of
           (d2, w2) \<Rightarrow>
             (case free_receive os d2 w2 of
                (d3, w3) \<Rightarrow>
                  (case free_rci os d3 w3 of
                     (d4, w4) \<Rightarrow>
                       ub_bind (free_firmware os d4 w4) (\<lambda>(d5, w5).
                         case free_config os d5 w5 of
                           (d6, w6) \<Rightarrow>
                             free_condition env d6 (destroy_lock os (in_initiate_action_lock d6) w6))))))"

subsection \<open>The lock of the log\<close>

text \<open>The globals \<open>logging_lock_users\<close> and \<open>logging_lock\<close>, which a debug build has.\<close>

record logging_state =
  logging_lock_users :: u32
  logging_lock :: ptr

definition free_logging_resources :: "'w os \<Rightarrow> logging_state \<Rightarrow> 'w \<Rightarrow> logging_state \<times> 'w" where
  "free_logging_resources os lg w =
     (if \<not> build_debug os then (lg, w)
      else
        (let lg1 = lg\<lparr>logging_lock_users := logging_lock_users lg - 1\<rparr>
         in if logging_lock_users lg1 = 0
            then (lg1\<lparr>logging_lock := None\<rparr>, destroy_lock os (logging_lock lg) w)
            else (lg1, w)))"

subsection \<open>Threads\<close>

definition check_malloc :: "bool \<Rightarrow> ccapi_start_error_t" where
  "check_malloc nonnull = (if nonnull then CCAPI_START_ERROR_NONE else CCAPI_START_ERROR_INSUFFICIENT_MEMORY)"

text \<open>The block of a thread whose lock cannot be created is not freed.\<close>

definition ccapi_create_and_start_thread ::
  "'w init_env \<Rightarrow> ccimp_os_thread_type_t \<Rightarrow> 'w ccapi_data_t \<Rightarrow> 'w
     \<Rightarrow> (ccapi_start_error_t \<times> 'w ccapi_data_t \<times> 'w) option" where
  "ccapi_create_and_start_thread env t d w =
     (let os = ie_os env
      in case ccapi_malloc os (Sizeof ''ccapi_thread_info_t'') w of
           (False, w1) \<Rightarrow> Some (check_malloc False, d, w1)
         | (True, w1) \<Rightarrow>
             (case ccapi_lock_create os w1 of
                (None, w2) \<Rightarrow> Some (CCAPI_START_ERROR_LOCK_FAILED, d, w2)
              | (Some l, w2) \<Rightarrow>
                  (let d1 = set_thread t (Some \<lparr>ti_status = CCAPI_THREAD_REQUEST_START, ti_lock = Some l\<rparr>) d
                   in case ie_create_thread env t w2 of
                        (status, w3) \<Rightarrow>
                          (if status \<noteq> CCIMP_STATUS_OK then Some (CCAPI_START_ERROR_THREAD_FAILED, d1, w3)
                           else
                             map_option (\<lambda>(d2, w4). (CCAPI_START_ERROR_NONE, d2, w4))
                               (retry_loop (in_yield env)
                                 (\<lambda>(d, w). in_thread_status t d = Some CCAPI_THREAD_REQUEST_START) (\<lambda>x. x) (d1, w3))))))"

text \<open>A thread that runs is told to stop and woken; the block of the thread stays.\<close>

definition request_stop :: "ccimp_os_thread_type_t \<Rightarrow> ccapi_thread_info_t \<Rightarrow> 'w ccapi_data_t \<Rightarrow> 'w ccapi_data_t" where
  "request_stop t info d =
     (if ti_status info = CCAPI_THREAD_RUNNING
      then set_thread t (Some (info\<lparr>ti_status := CCAPI_THREAD_REQUEST_STOP\<rparr>)) d else d)"

definition ccapi_stop_thread ::
  "'w init_env \<Rightarrow> ccimp_os_thread_type_t \<Rightarrow> 'w ccapi_data_t \<Rightarrow> 'w \<Rightarrow> ('w ccapi_data_t \<times> 'w) option" where
  "ccapi_stop_thread env t d w =
     (case in_threads d t of
        None \<Rightarrow> Some (d, w)
      | Some info \<Rightarrow>
          (if ti_lock info = None then Some (request_stop t info d, w)
           else
             map_option (\<lambda>(d1, w1). (d1, snd (ccapi_lock_destroy (ie_os env) (ti_lock info) w1)))
               (retry_loop (in_yield env) (\<lambda>(d, w). in_thread_status t d \<noteq> Some CCAPI_THREAD_NOT_STARTED) (\<lambda>x. x)
                 (request_stop t info d, snd (ccapi_lock_release (ie_os env) (ti_lock info) w)))))"

end
