(* ===== verification/Init.thy ===== *)
theory Init
  imports InitData
begin

text \<open>Starting the library: \<open>ccxapi_start\<close> and \<open>ccapi_start\<close> of source/ccapi_init.c.\<close>

subsection \<open>The argument\<close>

text \<open>
  \<open>ccapi_start_t\<close>. A service that is not asked for is \<open>None\<close>; that of the remote configuration
  is a pointer to a structure with the pointer \<open>rci_data\<close>.
\<close>

record ccapi_start_t =
  sta_vendor_id :: u32
  sta_device_id :: "u8 list"
  sta_device_type :: "string option"
  sta_device_cloud_url :: "string option"
  sta_status :: fun_ptr
  sta_receive :: "ccapi_receive_service_t option"
  sta_firmware :: "ccapi_fw_service_t option"
  sta_rci :: "ccapi_rci_data_t option option"
  sta_file_system :: "ccapi_filesystem_service_t option"
  sta_cli :: "ccapi_cli_service_t option"
  sta_sm :: "ccapi_sm_service_t option"
  sta_streaming_cli :: "ccapi_streaming_cli_service_t option"

definition check_params :: "ccapi_start_t \<Rightarrow> ccapi_start_error_t" where
  "check_params start =
     (if sta_vendor_id start = 0 then CCAPI_START_ERROR_INVALID_VENDORID
      else if sta_device_id start = replicate 16 0 then CCAPI_START_ERROR_INVALID_DEVICEID
      else if sta_device_cloud_url start \<in> {None, Some []} then CCAPI_START_ERROR_INVALID_URL
      else if sta_device_type start \<in> {None, Some []} then CCAPI_START_ERROR_INVALID_DEVICETYPE
      else CCAPI_START_ERROR_NONE)"

subsection \<open>The parts of a start\<close>

type_synonym 'w start_result = "(ccapi_start_error_t \<times> 'w ccapi_data_t \<times> 'w) run"

type_synonym 'w start_step = "'w ccapi_data_t \<Rightarrow> 'w \<Rightarrow> 'w start_result"

text \<open>\<open>goto done\<close> on an error.\<close>

definition start_then :: "'w start_step \<Rightarrow> 'w start_step \<Rightarrow> 'w start_step" where
  "start_then a b d w =
     run_bind (a d w) (\<lambda>(error, d1, w1).
       if error \<noteq> CCAPI_START_ERROR_NONE then Some (Inr (error, d1, w1)) else b d1 w1)"

definition start_ok :: "'w start_step" where
  "start_ok d w = Some (Inr (CCAPI_START_ERROR_NONE, d, w))"

abbreviation start_error :: "ccapi_start_error_t \<Rightarrow> 'w start_step" where
  "start_error error d w \<equiv> Some (Inr (error, d, w))"

definition upd_config :: "(ccapi_config_t \<Rightarrow> ccapi_config_t) \<Rightarrow> 'w ccapi_data_t \<Rightarrow> 'w ccapi_data_t" where
  "upd_config f d = d\<lparr>in_config := f (in_config d)\<rparr>"

text \<open>What is written to a new block at once.\<close>

definition new_ccapi_data :: "'w ccapi_data_t \<Rightarrow> 'w ccapi_data_t" where
  "new_ccapi_data block =
     upd_config (\<lambda>c. c\<lparr>cf_device_type := None, cf_device_cloud_url := None, cf_firmware_supported := False,
         cf_receive_supported := False, cf_cli_supported := False, cf_sm_supported := False, cf_rci_supported := False,
         cf_streaming_cli_supported := False, cf_filesystem_supported := None,
         cf_sm_key_distribution_supported := None, cf_rci_descriptor := None\<rparr>)
       (block\<lparr>in_initiate_action_lock := None, in_virtual_dirs := [], in_file_system_lock := None,
          in_threads := (\<lambda>t. None), in_fw_count := 0, in_fw_item := None, in_cond := None\<rparr>)"

definition start_identity :: "'w os \<Rightarrow> ccapi_start_t \<Rightarrow> 'w start_step" where
  "start_identity os start d w =
     (if check_params start \<noteq> CCAPI_START_ERROR_NONE then start_error (check_params start) d w
      else
        (let d1 = upd_config (\<lambda>c. c\<lparr>cf_vendor_id := sta_vendor_id start, cf_device_id := sta_device_id start\<rparr>) d
         in case ccapi_strdup os (the (sta_device_type start)) w of
              (None, w1) \<Rightarrow> start_error (check_malloc False) d1 w1
            | (Some device_type, w1) \<Rightarrow>
                (let d2 = upd_config (\<lambda>c. c\<lparr>cf_device_type := Some device_type\<rparr>) d1
                 in case ccapi_strdup os (the (sta_device_cloud_url start)) w1 of
                      (None, w2) \<Rightarrow> start_error (check_malloc False) d2 w2
                    | (Some url, w2) \<Rightarrow>
                        start_ok ((upd_config (\<lambda>c. c\<lparr>cf_device_cloud_url := Some url\<rparr>) d2)
                          \<lparr>in_status_callback := sta_status start\<rparr>) w2)))"

definition start_file_system :: "ccapi_start_t \<Rightarrow> 'w start_step" where
  "start_file_system start d w =
     (case sta_file_system start of
        Some fs \<Rightarrow>
          start_ok ((upd_config (\<lambda>c. c\<lparr>cf_filesystem_supported := Some True\<rparr>) d)
            \<lparr>in_file_system := fs, in_fs_context := None, in_virtual_dirs := []\<rparr>) w
      | None \<Rightarrow> start_ok (upd_config (\<lambda>c. c\<lparr>cf_filesystem_supported := Some False\<rparr>) d) w)"

subsection \<open>The firmware service\<close>

definition callers_string :: "string option \<Rightarrow> c_string" where
  "callers_string s = (case s of None \<Rightarrow> Null_String | Some t \<Rightarrow> Callers_String t)"

text \<open>An element of the array after the \<open>memcpy\<close> of the array.\<close>

definition callers_target :: "ccapi_firmware_target_t \<Rightarrow> stored_target" where
  "callers_target t = (t, callers_string (target_description t), callers_string (target_filespec t))"

fun copy_targets ::
  "'w os \<Rightarrow> ccapi_firmware_target_t list \<Rightarrow> 'w \<Rightarrow> (ccapi_start_error_t \<times> stored_target list \<times> 'w) ub" where
  "copy_targets os [] w = Inr (CCAPI_START_ERROR_NONE, [], w)"
| "copy_targets os (t # ts) w =
     (case (target_description t, target_filespec t) of
        (Some description, Some filespec) \<Rightarrow>
          (case ccapi_strdup os description w of
             (None, w1) \<Rightarrow> Inr (check_malloc False, map callers_target (t # ts), w1)
           | (Some description', w1) \<Rightarrow>
               (case ccapi_strdup os filespec w1 of
                  (None, w2) \<Rightarrow>
                    Inr (check_malloc False,
                         (t, Own_String description', Callers_String filespec) # map callers_target ts, w2)
                | (Some filespec', w2) \<Rightarrow>
                    ub_bind (copy_targets os ts w2) (\<lambda>(error, rest, w3).
                      Inr (error, (t, Own_String description', Own_String filespec') # rest, w3))))
      | _ \<Rightarrow> Inl Null_Dereference)"

definition start_firmware_service :: "'w os \<Rightarrow> ccapi_fw_service_t \<Rightarrow> 'w start_step" where
  "start_firmware_service os firmware d w =
     (if fwc_data (fws_callback firmware) = None then start_error CCAPI_START_ERROR_INVALID_FIRMWARE_DATA_CALLBACK d w
      else
        (case fws_item firmware of
           None \<Rightarrow> start_error CCAPI_START_ERROR_INVALID_FIRMWARE_INFO d w
         | Some items \<Rightarrow>
             (if fws_count firmware = 0 then start_error CCAPI_START_ERROR_INVALID_FIRMWARE_INFO d w
              else
                (let count = unat (fws_count firmware); d1 = d\<lparr>in_fw_count := fws_count firmware\<rparr>
                 in case ccapi_malloc os (Array_Of count ''ccapi_firmware_target_t'') w of
                      (False, w1) \<Rightarrow> start_error (check_malloc False) d1 w1
                    | (True, w1) \<Rightarrow>
                        (if length items < count then Some (Inl Out_Of_Bounds)
                         else
                           run_bind (Some (copy_targets os (take count items) w1)) (\<lambda>(error, stored, w2).
                             let d2 = d1\<lparr>in_fw_item := Some stored\<rparr>
                             in if error \<noteq> CCAPI_START_ERROR_NONE then start_error error d2 w2
                                else
                                  start_ok (upd_config (\<lambda>c. c\<lparr>cf_firmware_supported := True\<rparr>)
                                    (d2\<lparr>in_fw_callback := fws_callback firmware,
                                        in_fw_chunks := map (\<lambda>chunk. None) (in_fw_chunks d2),
                                        in_fw_update_started := False\<rparr>)) w2))))))"

text \<open>
  Without a firmware service the remote configuration brings one that rejects every download,
  whose only target has the version of the descriptor.
\<close>

definition stub_target :: "u32 \<Rightarrow> ccapi_firmware_target_t" where
  "stub_target version =
     \<lparr>target_version =
        \<lparr>version_major = ucast (drop_bit 24 (and version 0xFF000000)),
         version_minor = ucast (drop_bit 16 (and version 0x00FF0000)),
         version_revision = ucast (drop_bit 8 (and version 0x0000FF00)),
         version_build = ucast (and version 0x000000FF)\<rparr>,
      target_description = None, target_filespec = None, target_maximum_size = 0, target_chunk_size = 0\<rparr>"

definition start_firmware_stub :: "'w init_env \<Rightarrow> ccapi_rci_data_t option \<Rightarrow> 'w start_step" where
  "start_firmware_stub env rci_data d w =
     (case rci_data of
        None \<Rightarrow> Some (Inl Null_Dereference)
      | Some rci \<Rightarrow>
          (let d1 = d\<lparr>in_fw_count := 1\<rparr>
           in case ccapi_malloc (ie_os env) (Array_Of 1 ''ccapi_firmware_target_t'') w of
                (False, w1) \<Rightarrow> start_error (check_malloc False) d1 w1
              | (True, w1) \<Rightarrow>
                  start_ok (upd_config (\<lambda>c. c\<lparr>cf_firmware_supported := True\<rparr>)
                    (d1\<lparr>in_fw_item := Some [(stub_target (firmware_target_zero_version rci), Null_String, Null_String)],
                        in_fw_callback := \<lparr>fwc_request = Some (ie_stub_request env), fwc_data = None, fwc_cancel = None,
                                           fwc_reset = None\<rparr>,
                        in_fw_chunks := map (\<lambda>chunk. None) (in_fw_chunks d1),
                        in_fw_update_started := False\<rparr>)) w1))"

definition start_firmware :: "'w init_env \<Rightarrow> ccapi_start_t \<Rightarrow> 'w start_step" where
  "start_firmware env start d w =
     (case sta_firmware start of
        Some firmware \<Rightarrow> start_firmware_service (ie_os env) firmware d w
      | None \<Rightarrow>
          (case sta_rci start of
             Some rci_data \<Rightarrow> start_firmware_stub env rci_data d w
           | None \<Rightarrow> start_ok d w))"

subsection \<open>The other services\<close>

definition start_receive :: "'w os \<Rightarrow> ccapi_start_t \<Rightarrow> 'w start_step" where
  "start_receive os start d w =
     (case sta_receive start of
        None \<Rightarrow> start_ok d w
      | Some receive \<Rightarrow>
          (case ccapi_lock_create_and_release os w of
             (None, w1) \<Rightarrow> start_error CCAPI_START_ERROR_LOCK_FAILED (d\<lparr>in_receive_lock := None\<rparr>) w1
           | (Some l, w1) \<Rightarrow>
               start_ok (upd_config (\<lambda>c. c\<lparr>cf_receive_supported := True\<rparr>)
                 (d\<lparr>in_receive_lock := Some l, in_receive := receive, in_targets := [], in_svc_receive := None\<rparr>)) w1))"

definition start_cli :: "ccapi_start_t \<Rightarrow> 'w start_step" where
  "start_cli start d w =
     (case sta_cli start of
        None \<Rightarrow> start_ok d w
      | Some cli \<Rightarrow>
          (if cli_request cli = None then start_error CCAPI_START_ERROR_INVALID_CLI_REQUEST_CALLBACK d w
           else start_ok (upd_config (\<lambda>c. c\<lparr>cf_cli_supported := True\<rparr>) (d\<lparr>in_cli := cli, in_svc_cli := None\<rparr>)) w))"

definition start_sm :: "ccapi_start_t \<Rightarrow> 'w start_step" where
  "start_sm start d w =
     (case sta_sm start of
        None \<Rightarrow> start_ok d w
      | Some sm \<Rightarrow>
          (case sms_encryption sm of
             None \<Rightarrow> start_error CCAPI_START_ERROR_INVALID_SM_ENCRYPTION_CALLBACK d w
           | Some encryption \<Rightarrow>
               (if sme_load_data encryption = None \<or> sme_store_data encryption = None
                   \<or> sme_encrypt_gcm encryption = None \<or> sme_decrypt_gcm encryption = None
                then start_error CCAPI_START_ERROR_INVALID_SM_ENCRYPTION_CALLBACK d w
                else
                  start_ok (upd_config (\<lambda>c. c\<lparr>cf_sm_key_distribution_supported := Some True, cf_sm_supported := True\<rparr>)
                    (d\<lparr>in_sm := sm\<rparr>)) w)))"

definition start_rci :: "ccapi_start_t \<Rightarrow> 'w start_step" where
  "start_rci start d w =
     (case sta_rci start of
        None \<Rightarrow> start_ok d w
      | Some None \<Rightarrow> start_error CCAPI_START_ERROR_INVALID_RCI_REQUEST_CALLBACK d w
      | Some (Some rci) \<Rightarrow>
          start_ok (upd_config (\<lambda>c. c\<lparr>cf_rci_supported := True, cf_rci_descriptor := Some (rci_desc rci)\<rparr>)
            (d\<lparr>in_rci_thread_status := CCAPI_RCI_THREAD_IDLE, in_rci_callback_type := ccapi_callback_type_none\<rparr>)) w)"

definition start_streaming_cli :: "ccapi_start_t \<Rightarrow> 'w start_step" where
  "start_streaming_cli start d w =
     (case sta_streaming_cli start of
        None \<Rightarrow> start_ok d w
      | Some cli \<Rightarrow>
          start_ok (upd_config (\<lambda>c. c\<lparr>cf_streaming_cli_supported := True\<rparr>) (d\<lparr>in_streaming_cli := cli\<rparr>)) w)"

subsection \<open>The connector, the threads and the locks\<close>

definition no_transports :: "'w ccapi_transports \<Rightarrow> 'w ccapi_transports" where
  "no_transports t =
     t\<lparr>tcp_connected := False, tcp_info := None, udp_started := False, udp_info := None,
       sms_started := False, sms_info := None\<rparr>"

definition start_connector :: "'w init_env \<Rightarrow> 'w start_step" where
  "start_connector env d w =
     (case ie_connector_init env w of
        (None, w1) \<Rightarrow> start_error (check_malloc False) (d\<lparr>in_connector_handle := None\<rparr>) w1
      | (Some h, w1) \<Rightarrow>
          (let d1 = d\<lparr>in_connector_handle := Some h\<rparr>
           in case ie_condition_alloc env w1 of
                (None, w2) \<Rightarrow> start_error CCAPI_START_ERROR_INSUFFICIENT_MEMORY (d1\<lparr>in_cond := Some None\<rparr>) w2
              | (Some c, w2) \<Rightarrow>
                  (let d2 = d1\<lparr>in_cond := Some (Some c)\<rparr>
                   in case ie_condition_init env c w2 of
                        (status, w3) \<Rightarrow>
                          (if status \<noteq> CCIMP_STATUS_OK then start_error CCAPI_START_ERROR_INSUFFICIENT_MEMORY d2 w3
                           else start_ok (d2\<lparr>in_transports := no_transports (in_transports d2)\<rparr>) w3))))"

definition start_thread :: "'w init_env \<Rightarrow> bool \<Rightarrow> ccimp_os_thread_type_t \<Rightarrow> 'w start_step" where
  "start_thread env wanted t d w =
     (if wanted then map_option Inr (ccapi_create_and_start_thread env t d w) else start_ok d w)"

text \<open>Which threads are started is read from the configuration as it is when their turn comes.\<close>

definition start_threads :: "'w init_env \<Rightarrow> ccapi_start_t \<Rightarrow> 'w start_step" where
  "start_threads env start =
     start_then (start_thread env True CCIMP_THREAD_FSM)
      (start_then (\<lambda>d. start_thread env (cf_rci_supported (in_config d)) CCIMP_THREAD_RCI d)
       (start_then (\<lambda>d. start_thread env (cf_receive_supported (in_config d)) CCIMP_THREAD_RECEIVE d)
        (start_then (\<lambda>d. start_thread env (cf_cli_supported (in_config d)) CCIMP_THREAD_CLI d)
         (\<lambda>d. start_thread env (cf_firmware_supported (in_config d) \<and> sta_firmware start \<noteq> None)
            CCIMP_THREAD_FIRMWARE d))))"

definition start_locks :: "'w os \<Rightarrow> 'w start_step" where
  "start_locks os d w =
     (case ccapi_lock_create_and_release os w of
        (None, w1) \<Rightarrow> start_error CCAPI_START_ERROR_LOCK_FAILED (d\<lparr>in_initiate_action_lock := None\<rparr>) w1
      | (Some l, w1) \<Rightarrow>
          (let d1 = d\<lparr>in_initiate_action_lock := Some l\<rparr>
           in case ccapi_lock_create_and_release os w1 of
                (None, w2) \<Rightarrow> start_error CCAPI_START_ERROR_LOCK_FAILED (d1\<lparr>in_file_system_lock := None\<rparr>) w2
              | (Some l', w2) \<Rightarrow> start_ok (d1\<lparr>in_file_system_lock := Some l'\<rparr>) w2))"

definition start_services :: "'w init_env \<Rightarrow> ccapi_start_t \<Rightarrow> 'w start_step" where
  "start_services env start =
     start_then (start_firmware env start)
      (start_then (start_receive (ie_os env) start)
       (start_then (start_cli start)
        (start_then (start_sm start)
         (start_then (start_rci start) (start_streaming_cli start)))))"

text \<open>From the new block on.\<close>

definition start_block :: "'w init_env \<Rightarrow> ccapi_start_t option \<Rightarrow> 'w start_step" where
  "start_block env start d w =
     (case start of
        None \<Rightarrow> start_error CCAPI_START_ERROR_NULL_PARAMETER d w
      | Some s \<Rightarrow>
          start_then (start_identity (ie_os env) s)
           (start_then (start_file_system s)
            (start_then (start_services env s)
             (start_then (start_connector env)
              (start_then (start_threads env s) (start_locks (ie_os env)))))) d w)"

subsection \<open>The start\<close>

text \<open>
  What a handle points to. \<open>Freed\<close> is a block that was freed, with what it held then.
\<close>

datatype 'w ccapi_handle = Null_Handle | Live "'w ccapi_data_t" | Freed "'w ccapi_data_t"

type_synonym 'w start_outcome = "(ccapi_start_error_t \<times> 'w ccapi_handle option \<times> logging_state \<times> 'w) run"

text \<open>The lock of the log, for the first instance of a debug build.\<close>

definition start_logging :: "'w os \<Rightarrow> logging_state \<Rightarrow> 'w \<Rightarrow> bool \<times> logging_state \<times> 'w" where
  "start_logging os lg w =
     (if \<not> build_debug os then (True, lg, w)
      else
        (let lg1 = lg\<lparr>logging_lock_users := logging_lock_users lg + 1\<rparr>
         in if logging_lock_users lg \<noteq> 0 then (True, lg1, w)
            else
              (case os_lock_create os w of
                 ((status, lock), w1) \<Rightarrow>
                   (if status \<noteq> CCIMP_STATUS_OK then (False, lg1, w1)
                    else
                      (case ccapi_lock_release os lock w1 of
                         (status, w2) \<Rightarrow>
                           (if status \<noteq> CCIMP_STATUS_OK then (False, lg1, w2)
                            else (True, lg1\<lparr>logging_lock := lock\<rparr>, w2)))))))"

text \<open>An error before the block is allocated.\<close>

definition start_refused ::
  "'w os \<Rightarrow> ccapi_start_error_t \<Rightarrow> 'w ccapi_handle option \<Rightarrow> logging_state \<Rightarrow> 'w \<Rightarrow> 'w start_outcome" where
  "start_refused os error handle lg w =
     (case free_logging_resources os lg w of (lg1, w1) \<Rightarrow> Some (Inr (error, handle, lg1, w1)))"

text \<open>\<open>None\<close> as a handle is a NULL pointer to a handle.\<close>

definition ccxapi_start ::
  "'w init_env \<Rightarrow> 'w ccapi_handle option \<Rightarrow> ccapi_start_t option \<Rightarrow> logging_state \<Rightarrow> 'w \<Rightarrow> 'w start_outcome" where
  "ccxapi_start env handle start lg w =
     (let os = ie_os env
      in case start_logging os lg w of
           (False, lg1, w1) \<Rightarrow> start_refused os CCAPI_START_ERROR_LOCK_FAILED handle lg1 w1
         | (True, lg1, w1) \<Rightarrow>
             (case handle of
                None \<Rightarrow> start_refused os CCAPI_START_ERROR_NULL_PARAMETER handle lg1 w1
              | Some (Live d) \<Rightarrow> start_refused os CCAPI_START_ERROR_ALREADY_STARTED handle lg1 w1
              | Some (Freed d) \<Rightarrow> start_refused os CCAPI_START_ERROR_ALREADY_STARTED handle lg1 w1
              | Some Null_Handle \<Rightarrow>
                  (case ccapi_malloc os (Sizeof ''ccapi_data_t'') w1 of
                     (False, w2) \<Rightarrow> start_refused os (check_malloc False) (Some Null_Handle) lg1 w2
                   | (True, w2) \<Rightarrow>
                       run_bind (start_block env start (new_ccapi_data (ie_new_block env)) w2)
                         (\<lambda>(error, d, w3).
                           if error = CCAPI_START_ERROR_NONE then Some (Inr (error, Some (Live d), lg1, w3))
                           else
                             run_bind (Some (free_ccapi_data_internal_resources env d w3)) (\<lambda>(d1, w4).
                               start_refused os error (Some (Freed d1)) lg1 (snd (ccapi_free os True w4)))))))"

text \<open>The single instance is forgotten after any error.\<close>

definition ccapi_start ::
  "'w init_env \<Rightarrow> 'w ccapi_handle \<Rightarrow> ccapi_start_t option \<Rightarrow> logging_state \<Rightarrow> 'w
     \<Rightarrow> (ccapi_start_error_t \<times> 'w ccapi_handle \<times> logging_state \<times> 'w) run" where
  "ccapi_start env single_instance start lg w =
     run_bind (ccxapi_start env (Some single_instance) start lg w) (\<lambda>(error, handle, lg1, w1).
       Some (Inr (error, if error = CCAPI_START_ERROR_NONE then the handle else Null_Handle, lg1, w1)))"

end
