(* ===== verification/InitStop.thy ===== *)
theory InitStop
  imports Init
begin

text \<open>
  Stopping the library: \<open>ccxapi_stop\<close>, \<open>ccapi_stop\<close> and \<open>ccxapi_asynchronous_stop\<close> of
  source/ccapi_init.c, and the thread of the connector, \<open>ccapi_connector_run_thread\<close> of
  source/ccapi.c.
\<close>

subsection \<open>The transports of the data\<close>

text \<open>
  The transports with the thread of the connector and the lock that \<open>CCAPI_RUNNING\<close> and the calls
  into the connector look at, and the data with what a transport operation left.
\<close>

definition run_lock_of :: "'w ccapi_data_t \<Rightarrow> ptr" where
  "run_lock_of d = (case in_threads d CCIMP_THREAD_FSM of None \<Rightarrow> None | Some info \<Rightarrow> ti_lock info)"

definition transports_of :: "'w ccapi_data_t \<Rightarrow> 'w ccapi_transports" where
  "transports_of d =
     (in_transports d)
       \<lparr>tp_run_status := (case in_threads d CCIMP_THREAD_FSM of
                            None \<Rightarrow> CCAPI_THREAD_NOT_STARTED | Some info \<Rightarrow> ti_status info),
        tp_run_lock := run_lock_of d, tp_initiate_lock := in_initiate_action_lock d\<rparr>"

definition put_transports :: "'w ccapi_transports \<Rightarrow> 'w ccapi_data_t \<Rightarrow> 'w ccapi_data_t" where
  "put_transports t d =
     set_thread CCIMP_THREAD_FSM
       (map_option (\<lambda>info. info\<lparr>ti_status := tp_run_status t\<rparr>) (in_threads d CCIMP_THREAD_FSM))
       (d\<lparr>in_transports := t\<rparr>)"

definition ccapi_stop_to_ccapi_transport_stop :: "ccapi_stop_t \<Rightarrow> ccapi_transport_stop_t" where
  "ccapi_stop_to_ccapi_transport_stop stop_behavior =
     (case stop_behavior of
        CCAPI_STOP_GRACEFULLY \<Rightarrow> CCAPI_TRANSPORT_STOP_GRACEFULLY
      | CCAPI_STOP_IMMEDIATELY \<Rightarrow> CCAPI_TRANSPORT_STOP_IMMEDIATELY)"

text \<open>Freeing the configurations; the pointers stay as they are.\<close>

definition free_tcp_of :: "'w os \<Rightarrow> 'w ccapi_transports \<Rightarrow> 'w \<Rightarrow> 'w ub" where
  "free_tcp_of os t w = (case tcp_info t of None \<Rightarrow> Inr w | Some info \<Rightarrow> free_transport_tcp_info os info w)"

definition free_udp_of :: "'w os \<Rightarrow> 'w ccapi_transports \<Rightarrow> 'w \<Rightarrow> 'w ub" where
  "free_udp_of os t w = Inr (if udp_info t \<noteq> None then free_transport_udp_info os w else w)"

definition free_sms_of :: "'w os \<Rightarrow> 'w ccapi_transports \<Rightarrow> 'w \<Rightarrow> 'w ub" where
  "free_sms_of os t w = (case sms_info t of None \<Rightarrow> Inr w | Some info \<Rightarrow> free_transport_sms_info os info w)"

text \<open>A transport that is started is stopped, whatever comes of it, and its configuration is freed.\<close>

definition stop_transport_if ::
  "bool \<Rightarrow> ('w ccapi_transports \<Rightarrow> 'w \<Rightarrow> ('e \<times> 'w ccapi_transports option \<times> 'w) run)
     \<Rightarrow> ('w ccapi_transports \<Rightarrow> 'w \<Rightarrow> 'w ub) \<Rightarrow> 'w ccapi_data_t \<Rightarrow> 'w \<Rightarrow> ('w ccapi_data_t \<times> 'w) run" where
  "stop_transport_if started stop free d w =
     run_bind
       (if started
        then run_bind (stop (transports_of d) w) (\<lambda>(stop_error, t, w1). Some (Inr (put_transports (the t) d, w1)))
        else Some (Inr (d, w)))
       (\<lambda>(d1, w1). run_bind (Some (free (in_transports d1) w1)) (\<lambda>w2. Some (Inr (d1, w2))))"

definition stop_transports ::
  "'w init_env \<Rightarrow> ccapi_transport_stop_t \<Rightarrow> 'w ccapi_data_t \<Rightarrow> 'w \<Rightarrow> ('w ccapi_data_t \<times> 'w) run" where
  "stop_transports env behavior d w =
     (let os = ie_os env
      in run_bind
           (stop_transport_if (tcp_connected (in_transports d))
              (\<lambda>t. ccxapi_stop_transport_tcp (ie_tp env) (Some t) (Some behavior)) (free_tcp_of os) d w)
           (\<lambda>(d1, w1).
             run_bind
               (stop_transport_if (udp_started (in_transports d1))
                  (\<lambda>t. ccxapi_stop_transport_udp (ie_tp env) (Some t) (Some behavior)) (free_udp_of os) d1 w1)
               (\<lambda>(d2, w2).
                 stop_transport_if (sms_started (in_transports d2))
                   (\<lambda>t. ccxapi_stop_transport_sms (ie_tp env) (Some t) (Some behavior)) (free_sms_of os) d2 w2)))"

subsection \<open>Stopping\<close>

definition stop_thread_if ::
  "'w init_env \<Rightarrow> bool \<Rightarrow> ccimp_os_thread_type_t \<Rightarrow> 'w ccapi_data_t \<Rightarrow> 'w \<Rightarrow> ('w ccapi_data_t \<times> 'w) option" where
  "stop_thread_if env wanted t d w = (if wanted then ccapi_stop_thread env t d w else Some (d, w))"

text \<open>The thread of the firmware service is not there for the one that rejects every download.\<close>

definition stop_service_threads :: "'w init_env \<Rightarrow> 'w ccapi_data_t \<Rightarrow> 'w \<Rightarrow> ('w ccapi_data_t \<times> 'w) option" where
  "stop_service_threads env d w =
     Option.bind (stop_thread_if env (cf_rci_supported (in_config d)) CCIMP_THREAD_RCI d w) (\<lambda>(d1, w1).
      Option.bind (stop_thread_if env (cf_receive_supported (in_config d1)) CCIMP_THREAD_RECEIVE d1 w1) (\<lambda>(d2, w2).
       Option.bind (stop_thread_if env (cf_cli_supported (in_config d2)) CCIMP_THREAD_CLI d2 w2) (\<lambda>(d3, w3).
        stop_thread_if env (cf_firmware_supported (in_config d3) \<and> in_threads d3 CCIMP_THREAD_FIRMWARE \<noteq> None)
          CCIMP_THREAD_FIRMWARE d3 w3)))"

definition release_all ::
  "'w init_env \<Rightarrow> 'w ccapi_data_t \<Rightarrow> logging_state \<Rightarrow> 'w \<Rightarrow> ('w ccapi_handle \<times> logging_state \<times> 'w) ub" where
  "release_all env d lg w =
     ub_bind (free_ccapi_data_internal_resources env d w) (\<lambda>(d1, w1).
       case free_logging_resources (ie_os env) lg (snd (ccapi_free (ie_os env) True w1)) of
         (lg1, w2) \<Rightarrow> Inr (Freed d1, lg1, w2))"

definition ccxapi_asynchronous_stop ::
  "'w init_env \<Rightarrow> 'w ccapi_data_t \<Rightarrow> logging_state \<Rightarrow> 'w \<Rightarrow> ('w ccapi_handle \<times> logging_state \<times> 'w) run" where
  "ccxapi_asynchronous_stop env d lg w =
     (let os = ie_os env; t = in_transports d
      in run_bind (Some (ub_bind (free_tcp_of os t w) (\<lambda>w1. ub_bind (free_udp_of os t w1) (free_sms_of os t)))) (\<lambda>w3.
           case stop_service_threads env d w3 of
             None \<Rightarrow> None
           | Some (d4, w4) \<Rightarrow> Some (release_all env d4 lg w4)))"

text \<open>
  From the call that terminates the connector on. An error of that call is the result, but the
  threads are waited for and stopped all the same: the condition of the assertion there holds.
\<close>

definition terminate_and_stop ::
  "'w init_env \<Rightarrow> 'w ccapi_data_t \<Rightarrow> logging_state \<Rightarrow> 'w
     \<Rightarrow> (ccapi_stop_error_t \<times> 'w ccapi_handle \<times> logging_state \<times> 'w) run" where
  "terminate_and_stop env d lg w =
     (case initiate_until_not_busy (ie_os env) (\<lambda>u. ie_terminate env) (in_initiate_action_lock d) (run_lock_of d) () w of
        None \<Rightarrow> None
      | Some (ccfsm_status, w1) \<Rightarrow>
          (case retry_loop (in_yield env) (\<lambda>(d, w). in_thread_status CCIMP_THREAD_FSM d \<noteq> Some CCAPI_THREAD_NOT_STARTED)
                  (\<lambda>x. x) (d, w1) of
             None \<Rightarrow> None
           | Some (d2, w2) \<Rightarrow>
               (case Option.bind (ccapi_stop_thread env CCIMP_THREAD_FSM d2 w2) (\<lambda>(d3, w3). stop_service_threads env d3 w3) of
                  None \<Rightarrow> None
                | Some (d4, w4) \<Rightarrow>
                    (if ccfsm_status = connector_success
                     then run_bind (Some (release_all env d4 lg w4)) (\<lambda>r. Some (Inr (CCAPI_STOP_ERROR_NONE, r)))
                     else Some (Inr (CCAPI_STOP_ERROR_NOT_STARTED, Live d4, lg, w4))))))"

definition ccxapi_stop ::
  "'w init_env \<Rightarrow> 'w ccapi_handle \<Rightarrow> ccapi_stop_t \<Rightarrow> logging_state \<Rightarrow> 'w
     \<Rightarrow> (ccapi_stop_error_t \<times> 'w ccapi_handle \<times> logging_state \<times> 'w) run" where
  "ccxapi_stop env handle behavior lg w =
     (case handle of
        Null_Handle \<Rightarrow> Some (Inr (CCAPI_STOP_ERROR_NOT_STARTED, handle, lg, w))
      | Freed d \<Rightarrow> Some (Inl Use_After_Free)
      | Live d \<Rightarrow>
          (case in_thread_status CCIMP_THREAD_FSM d of
             None \<Rightarrow> Some (Inl Null_Dereference)
           | Some status \<Rightarrow>
               (if status \<noteq> CCAPI_THREAD_RUNNING then Some (Inr (CCAPI_STOP_ERROR_NOT_STARTED, handle, lg, w))
                else
                  run_bind (stop_transports env (ccapi_stop_to_ccapi_transport_stop behavior) d w) (\<lambda>(d1, w1).
                    terminate_and_stop env d1 lg w1))))"

definition ccapi_stop ::
  "'w init_env \<Rightarrow> 'w ccapi_handle \<Rightarrow> ccapi_stop_t \<Rightarrow> logging_state \<Rightarrow> 'w
     \<Rightarrow> (ccapi_stop_error_t \<times> 'w ccapi_handle \<times> logging_state \<times> 'w) run" where
  "ccapi_stop env single_instance behavior lg w =
     run_bind (ccxapi_stop env single_instance behavior lg w) (\<lambda>(error, handle, lg1, w1).
       Some (Inr (error, if error = CCAPI_STOP_ERROR_NONE then Null_Handle else handle, lg1, w1)))"

subsection \<open>The thread of the connector\<close>

text \<open>
  The loop. The connector runs its callbacks and the other threads run beside it: \<open>connector_run\<close>
  changes the data. The boolean says that the loop was left by its condition, not by a jump.
\<close>

type_synonym 'w connector_run = "'w ccapi_data_t \<Rightarrow> 'w \<Rightarrow> connector_status_t \<times> 'w ccapi_data_t \<times> 'w"

partial_function (option) connector_rounds ::
  "'w init_env \<Rightarrow> 'w connector_run \<Rightarrow> ('w \<Rightarrow> 'w) \<Rightarrow> logging_state \<Rightarrow> 'w ccapi_data_t \<Rightarrow> 'w
     \<Rightarrow> (bool \<times> 'w ccapi_handle \<times> logging_state \<times> 'w) run" where
  "connector_rounds env connector_run status_callback lg d w =
     (if in_thread_status CCIMP_THREAD_FSM d \<noteq> Some CCAPI_THREAD_RUNNING then Some (Inr (True, Live d, lg, w))
      else
        (case connector_run d w of
           (status, d1, w1) \<Rightarrow>
             (if status = connector_init_error then Some (Inr (False, Live d1, lg, w1))
              else if status = connector_device_terminated
              then connector_rounds env connector_run status_callback lg
                     (set_thread CCIMP_THREAD_FSM
                       (map_option (\<lambda>info. info\<lparr>ti_status := CCAPI_THREAD_REQUEST_STOP\<rparr>) (in_threads d1 CCIMP_THREAD_FSM)) d1) w1
              else if status = connector_abort
              then run_bind (ccxapi_asynchronous_stop env d1 lg
                       (if in_status_callback d1 \<noteq> None then status_callback w1 else w1))
                     (\<lambda>r. Some (Inr (False, r)))
              else connector_rounds env connector_run status_callback lg d1 w1)))"

definition ccapi_connector_run_thread ::
  "'w init_env \<Rightarrow> 'w connector_run \<Rightarrow> ('w \<Rightarrow> 'w) \<Rightarrow> logging_state \<Rightarrow> 'w ccapi_data_t \<Rightarrow> 'w
     \<Rightarrow> ('w ccapi_handle \<times> logging_state \<times> 'w) run" where
  "ccapi_connector_run_thread env connector_run status_callback lg d w =
     run_bind
       (connector_rounds env connector_run status_callback lg
          (set_thread CCIMP_THREAD_FSM
            (map_option (\<lambda>info. info\<lparr>ti_status := CCAPI_THREAD_RUNNING\<rparr>) (in_threads d CCIMP_THREAD_FSM)) d) w)
       (\<lambda>(left, handle, lg1, w1).
         Some (Inr (case (left, handle) of
             (True, Live d1) \<Rightarrow>
               (if in_thread_status CCIMP_THREAD_FSM d1 = Some CCAPI_THREAD_REQUEST_STOP
                then (Live (set_thread CCIMP_THREAD_FSM
                        (map_option (\<lambda>info. info\<lparr>ti_status := CCAPI_THREAD_NOT_STARTED\<rparr>) (in_threads d1 CCIMP_THREAD_FSM)) d1),
                      lg1, w1)
                else (handle, lg1, w1))
           | _ \<Rightarrow> (handle, lg1, w1))))"

end
