(* ===== verification/InitProps.thy ===== *)
theory InitProps
  imports InitStop
begin

text \<open>What a start that succeeds leaves: the configuration, the threads and the blocks it owns.\<close>

subsection \<open>Blocks\<close>

definition own_block :: "c_string \<Rightarrow> int" where
  "own_block p = (case p of Own_String s \<Rightarrow> 1 | _ \<Rightarrow> 0)"

definition tcp_blocks :: "'w ccapi_transports \<Rightarrow> int" where
  "tcp_blocks t =
     (case tcp_info t of
        None \<Rightarrow> 0
      | Some Tcp_Unwritten \<Rightarrow> 1
      | Some (Tcp_Info info) \<Rightarrow>
          1 + own_block (cn_password info)
          + (case cn_connection info of CCAPI_CONNECTION_WAN speed p \<Rightarrow> own_block p | _ \<Rightarrow> 0))"

definition udp_blocks :: "'w ccapi_transports \<Rightarrow> int" where
  "udp_blocks t = (if udp_info t = None then 0 else 1)"

definition sms_blocks :: "'w ccapi_transports \<Rightarrow> int" where
  "sms_blocks t =
     (case sms_info t of
        None \<Rightarrow> 0
      | Some info \<Rightarrow> 1 + own_block (sms_phone_number info) + own_block (sms_service_id info))"

definition transport_blocks :: "'w ccapi_transports \<Rightarrow> int" where
  "transport_blocks t = tcp_blocks t + udp_blocks t + sms_blocks t"

definition stored_blocks :: "stored_target list option \<Rightarrow> int" where
  "stored_blocks item =
     (case item of
        None \<Rightarrow> 0
      | Some l \<Rightarrow> 1 + sum_list (map (\<lambda>t. own_block (fst (snd t)) + own_block (snd (snd t))) l))"

definition config_blocks :: "ccapi_config_t \<Rightarrow> int" where
  "config_blocks c =
     (if cf_device_type c = None then 0 else 1) + (if cf_device_cloud_url c = None then 0 else 1)"

definition thread_block :: "(ccimp_os_thread_type_t \<Rightarrow> ccapi_thread_info_t option) \<Rightarrow> ccimp_os_thread_type_t \<Rightarrow> int" where
  "thread_block ts t = (if ts t = None then 0 else 1)"

definition thread_blocks :: "(ccimp_os_thread_type_t \<Rightarrow> ccapi_thread_info_t option) \<Rightarrow> int" where
  "thread_blocks ts =
     thread_block ts CCIMP_THREAD_FSM + thread_block ts CCIMP_THREAD_RCI + thread_block ts CCIMP_THREAD_RECEIVE
     + thread_block ts CCIMP_THREAD_CLI + thread_block ts CCIMP_THREAD_FIRMWARE"

text \<open>
  All blocks of an instance but those of its transports, the instance itself included. Without the
  receive service the list of targets is not written.
\<close>

definition data_blocks :: "'w ccapi_data_t \<Rightarrow> int" where
  "data_blocks d =
     1 + config_blocks (in_config d) + thread_blocks (in_threads d) + stored_blocks (in_fw_item d)
     + 3 * int (length (in_virtual_dirs d))
     + (if cf_receive_supported (in_config d) then 2 * int (length (in_targets d)) else 0)"

definition instance_blocks :: "'w ccapi_data_t \<Rightarrow> int" where
  "instance_blocks d = data_blocks d + transport_blocks (in_transports d)"

text \<open>A memory that is counted: \<open>live\<close> is the number of blocks that are allocated.\<close>

definition counts_memory :: "'w os \<Rightarrow> ('w \<Rightarrow> int) \<Rightarrow> bool" where
  "counts_memory os live \<longleftrightarrow>
     (\<forall>req w ok w'. ccapi_malloc os req w = (ok, w') \<longrightarrow> live w' = live w + (if ok then 1 else 0))
     \<and> (\<forall>w. live (snd (ccapi_free os True w)) = live w - 1)
     \<and> (\<forall>w. live (snd (os_lock_create os w)) = live w)
     \<and> (\<forall>l t w. live (snd (os_lock_acquire os l t w)) = live w)
     \<and> (\<forall>l w. live (snd (os_lock_release os l w)) = live w)
     \<and> (\<forall>l w. live (snd (os_lock_destroy os l w)) = live w)
     \<and> (\<forall>w. live (os_yield os w) = live w)"

text \<open>The other threads change the status of threads and of transports, and own what they allocate.\<close>

definition only_status :: "'w ccapi_data_t \<Rightarrow> 'w ccapi_data_t \<Rightarrow> bool" where
  "only_status d d' \<longleftrightarrow>
     (\<exists>s c u m. d' = d\<lparr>in_threads := (\<lambda>t. map_option (\<lambda>i. i\<lparr>ti_status := s t\<rparr>) (in_threads d t)),
        in_transports := (in_transports d)\<lparr>tcp_connected := c, udp_started := u, sms_started := m\<rparr>\<rparr>)"

definition counts_instance :: "'w init_env \<Rightarrow> ('w \<Rightarrow> int) \<Rightarrow> bool" where
  "counts_instance env live \<longleftrightarrow>
     counts_memory (ie_os env) live
     \<and> (\<forall>d w d' w'. ie_others env d w = (d', w') \<longrightarrow> only_status d d' \<and> live w' = live w)
     \<and> (\<forall>t w. live (snd (ie_create_thread env t w)) = live w)
     \<and> (\<forall>w. live (snd (ie_connector_init env w)) = live w)
     \<and> (\<forall>w. live (snd (ie_terminate env w)) = live w)
     \<and> (\<forall>w. live (snd (ie_condition_alloc env w)) = live w)
     \<and> (\<forall>c w. live (snd (ie_condition_init env c w)) = live w)
     \<and> (\<forall>c w. live (ie_condition_destroy env c w) = live w)
     \<and> (\<forall>c w. live (ie_condition_free env c w) = live w)"

lemma counts_memoryD:
  assumes "counts_memory os live"
  shows "ccapi_malloc os req w = (ok, w') \<Longrightarrow> live w' = live w + (if ok then 1 else 0)"
    and "live (snd (ccapi_free os True w)) = live w - 1"
    and "ccapi_strdup os s w = (p, w') \<Longrightarrow> live w' = live w + (if p = None then 0 else 1)"
    and "ccapi_lock_create os w = (l, w') \<Longrightarrow> live w' = live w"
    and "ccapi_lock_create_and_release os w = (l, w') \<Longrightarrow> live w' = live w"
    and "live (snd (ccapi_lock_acquire os l w)) = live w"
    and "live (snd (ccapi_lock_release os l w)) = live w"
    and "live (snd (ccapi_lock_destroy os l w)) = live w"
    and "live (os_yield os w) = live w"
    and "os_lock_create os w = (r, w') \<Longrightarrow> live w' = live w"
proof -
  have malloc: "\<And>req w ok w'. ccapi_malloc os req w = (ok, w') \<Longrightarrow> live w' = live w + (if ok then 1 else 0)"
    and raw: "\<And>w. live (snd (os_lock_create os w)) = live w" "\<And>l t w. live (snd (os_lock_acquire os l t w)) = live w"
      "\<And>l w. live (snd (os_lock_release os l w)) = live w" "\<And>l w. live (snd (os_lock_destroy os l w)) = live w"
    using assms unfolding counts_memory_def by blast+
  show "ccapi_malloc os req w = (ok, w') \<Longrightarrow> live w' = live w + (if ok then 1 else 0)" by (rule malloc)
  show "live (snd (ccapi_free os True w)) = live w - 1" "live (os_yield os w) = live w"
    using assms unfolding counts_memory_def by blast+
  show "ccapi_strdup os s w = (p, w') \<Longrightarrow> live w' = live w + (if p = None then 0 else 1)"
    using malloc by (auto simp: ccapi_strdup_def split: prod.splits if_splits)
  have created: "live w' = live w" if "os_lock_create os w = (r, w')" for w r w' using raw(1) [of w] that by simp
  then show "os_lock_create os w = (r, w') \<Longrightarrow> live w' = live w" .
  have released: "live w' = live w" if "os_lock_release os l w = (r, w')" for l w r w' using raw(3) [of l w] that by simp
  have create: "live w' = live w" if "ccapi_lock_create os w = (l, w')" for w l w'
    using that created by (auto simp: ccapi_lock_create_def split: prod.splits ccimp_status_t.splits)
  then show "ccapi_lock_create os w = (l, w') \<Longrightarrow> live w' = live w" .
  show "live w' = live w" if "ccapi_lock_create_and_release os w = (l, w')"
  proof -
    obtain l1 w1 where 1: "ccapi_lock_create os w = (l1, w1)" by fastforce
    obtain st w2 where 2: "ccapi_lock_release os l1 w1 = (st, w2)" by fastforce
    have "live w1 = live w" "live w2 = live w1"
      using create [OF 1] released 2 by (simp_all add: ccapi_lock_release_def)
    then show ?thesis
      using that 1 2 by (cases st) (auto simp: ccapi_lock_create_and_release_def split: if_splits)
  qed
  show "live (snd (ccapi_lock_acquire os l w)) = live w"
  proof (cases l)
    case (Some a)
    then show ?thesis
      using raw(2) [of a OS_LOCK_ACQUIRE_INFINITE w]
      by (auto simp: ccapi_lock_acquire_def split: prod.splits)
  qed simp
  show "live (snd (ccapi_lock_release os l w)) = live w" "live (snd (ccapi_lock_destroy os l w)) = live w"
    using raw(3,4) by (simp_all add: ccapi_lock_release_def ccapi_lock_destroy_def)
qed

lemma counts_instanceD:
  assumes "counts_instance env live"
  shows "counts_memory (ie_os env) live"
    and "ie_others env d w = (d', w') \<Longrightarrow> only_status d d' \<and> live w' = live w"
    and "ie_create_thread env t w = (st, w') \<Longrightarrow> live w' = live w"
    and "ie_connector_init env w = (h, w') \<Longrightarrow> live w' = live w"
    and "ie_terminate env w = (s, w') \<Longrightarrow> live w' = live w"
    and "ie_condition_alloc env w = (c, w') \<Longrightarrow> live w' = live w"
    and "ie_condition_init env a w = (st, w') \<Longrightarrow> live w' = live w"
    and "live (ie_condition_free env a (ie_condition_destroy env a w)) = live w"
  using assms unfolding counts_instance_def by (auto simp: prod_eq_iff)

lemma only_status_refl: "only_status d d"
  unfolding only_status_def
  by (rule exI [of _ "\<lambda>t. case in_threads d t of None \<Rightarrow> undefined | Some i \<Rightarrow> ti_status i"],
      rule exI [of _ "tcp_connected (in_transports d)"], rule exI [of _ "udp_started (in_transports d)"],
      rule exI [of _ "sms_started (in_transports d)"])
    (auto simp: fun_eq_iff option.map_ident_strong map_option_case split: option.splits
        intro!: ccapi_data_t.equality ccapi_transports.equality)

lemma only_status_trans: "only_status d1 d2 \<Longrightarrow> only_status d2 d3 \<Longrightarrow> only_status d1 d3"
  unfolding only_status_def by (auto simp: option.map_comp comp_def) blast

lemma only_statusD:
  assumes "only_status d d'"
  shows "in_config d' = in_config d" "in_fw_item d' = in_fw_item d" "in_fw_count d' = in_fw_count d"
    "in_virtual_dirs d' = in_virtual_dirs d" "in_targets d' = in_targets d" "in_cond d' = in_cond d"
    "in_initiate_action_lock d' = in_initiate_action_lock d" "in_file_system_lock d' = in_file_system_lock d"
    "in_threads d' t = None \<longleftrightarrow> in_threads d t = None"
    "tcp_info (in_transports d') = tcp_info (in_transports d)" "udp_info (in_transports d') = udp_info (in_transports d)"
    "sms_info (in_transports d') = sms_info (in_transports d)"
  using assms by (auto simp: only_status_def)

lemma only_status_blocks:
  assumes "only_status d d'"
  shows "data_blocks d' = data_blocks d" and "transport_blocks (in_transports d') = transport_blocks (in_transports d)"
  using only_statusD [OF assms]
  by (simp_all add: data_blocks_def thread_blocks_def thread_block_def transport_blocks_def tcp_blocks_def
      udp_blocks_def sms_blocks_def)

subsection \<open>The parts of a start that succeeds\<close>

lemma start_then_NONE:
  assumes "start_then a b d w = Some (Inr (CCAPI_START_ERROR_NONE, d', w'))"
  obtains d1 w1 where "a d w = Some (Inr (CCAPI_START_ERROR_NONE, d1, w1))"
    and "b d1 w1 = Some (Inr (CCAPI_START_ERROR_NONE, d', w'))"
  using assms unfolding start_then_def by (auto split: if_splits)

lemma start_ok_NONE [simp]:
  "start_ok d w = Some (Inr (CCAPI_START_ERROR_NONE, d', w')) \<longleftrightarrow> d' = d \<and> w' = w"
  by (auto simp: start_ok_def)

lemma check_malloc_False [simp]: "check_malloc False = CCAPI_START_ERROR_INSUFFICIENT_MEMORY"
  by (simp add: check_malloc_def)

lemma start_identity_NONE:
  assumes "counts_memory os live" and "start_identity os start d w = Some (Inr (CCAPI_START_ERROR_NONE, d', w'))"
  shows "d' = (upd_config (\<lambda>c. c\<lparr>cf_vendor_id := sta_vendor_id start, cf_device_id := sta_device_id start,
           cf_device_type := sta_device_type start, cf_device_cloud_url := sta_device_cloud_url start\<rparr>) d)
           \<lparr>in_status_callback := sta_status start\<rparr>"
    and "check_params start = CCAPI_START_ERROR_NONE" and "live w' = live w + 2"
proof -
  have params: "check_params start = CCAPI_START_ERROR_NONE"
    using assms(2) by (auto simp: start_identity_def split: if_splits)
  then obtain t u where tu: "sta_device_type start = Some t" "sta_device_cloud_url start = Some u"
    by (auto simp: check_params_def split: if_splits)
  obtain p w1 where 1: "ccapi_strdup os t w = (p, w1)" by fastforce
  obtain q w2 where 2: "ccapi_strdup os u w1 = (q, w2)" by fastforce
  have some: "p = Some t" "q = Some u" "w' = w2"
    using assms(2) 1 2 params tu
    by (auto simp: start_identity_def Let_def ccapi_strdup_def split: option.splits if_splits prod.splits)
  show "d' = (upd_config (\<lambda>c. c\<lparr>cf_vendor_id := sta_vendor_id start, cf_device_id := sta_device_id start,
           cf_device_type := sta_device_type start, cf_device_cloud_url := sta_device_cloud_url start\<rparr>) d)
           \<lparr>in_status_callback := sta_status start\<rparr>"
    using assms(2) 1 2 some params tu by (auto simp: start_identity_def Let_def upd_config_def)
  show "check_params start = CCAPI_START_ERROR_NONE" by (rule params)
  show "live w' = live w + 2"
    using counts_memoryD(3) [OF assms(1) 1] counts_memoryD(3) [OF assms(1) 2] some by simp
qed

lemma copy_targets_NONE:
  assumes "counts_memory os live"
  shows "copy_targets os ts w = Inr (CCAPI_START_ERROR_NONE, stored, w') \<Longrightarrow>
    length stored = length ts
    \<and> (\<forall>t \<in> set stored. own_block (fst (snd t)) = 1 \<and> own_block (snd (snd t)) = 1)
    \<and> live w' = live w + 2 * int (length ts)"
proof (induction ts arbitrary: w stored)
  case (Cons t ts)
  obtain a b where ab: "target_description t = Some a" "target_filespec t = Some b"
    using Cons.prems by (auto split: option.splits)
  obtain p w1 where 1: "ccapi_strdup os a w = (p, w1)" by fastforce
  obtain q w2 where 2: "ccapi_strdup os b w1 = (q, w2)" by fastforce
  obtain a' b' rest where some: "p = Some a'" "q = Some b'"
    "copy_targets os ts w2 = Inr (CCAPI_START_ERROR_NONE, rest, w')" "stored = (t, Own_String a', Own_String b') # rest"
    using Cons.prems ab 1 2 by (auto split: option.splits)
  show ?case
    using Cons.IH [OF some(3)] counts_memoryD(3) [OF assms 1] counts_memoryD(3) [OF assms 2] some
    by (auto simp: own_block_def)
qed simp

lemma sum_list_two: "(\<forall>t \<in> set l. f t = 1 \<and> g t = 1) \<Longrightarrow> sum_list (map (\<lambda>t. f t + g t) l) = 2 * int (length l)"
  by (induction l) auto

text \<open>The firmware part: either nothing changes, or targets are stored that belong to the library.\<close>

definition firmware_stored :: "'w ccapi_data_t \<Rightarrow> 'w ccapi_data_t \<Rightarrow> int \<Rightarrow> bool" where
  "firmware_stored d d' blocks \<longleftrightarrow>
     in_config d' = (in_config d)\<lparr>cf_firmware_supported := True\<rparr> \<and> in_fw_count d' \<noteq> 0
     \<and> (\<exists>item. in_fw_item d' = Some item \<and> blocks = stored_blocks (Some item)
          \<and> (\<forall>t \<in> set item. fst (snd t) \<notin> range Callers_String \<and> snd (snd t) \<notin> range Callers_String))
     \<and> in_threads d' = in_threads d \<and> in_virtual_dirs d' = in_virtual_dirs d \<and> in_targets d' = in_targets d"

lemma start_firmware_service_NONE:
  assumes "counts_memory os live"
    and "start_firmware_service os f d w = Some (Inr (CCAPI_START_ERROR_NONE, d', w'))"
  shows "firmware_stored d d' (live w' - live w)"
proof -
  obtain items where items: "fws_item f = Some items" "fws_count f \<noteq> 0"
    using assms(2) by (auto simp: start_firmware_service_def split: if_splits option.splits)
  let ?count = "unat (fws_count f)"
  obtain ok w1 where 1: "ccapi_malloc os (Array_Of ?count ''ccapi_firmware_target_t'') w = (ok, w1)" by fastforce
  obtain stored where stored: "ok" "copy_targets os (take ?count items) w1 = Inr (CCAPI_START_ERROR_NONE, stored, w')"
      "d' = upd_config (\<lambda>c. c\<lparr>cf_firmware_supported := True\<rparr>)
        (d\<lparr>in_fw_count := fws_count f, in_fw_item := Some stored, in_fw_callback := fws_callback f,
           in_fw_chunks := map (\<lambda>chunk. None) (in_fw_chunks d), in_fw_update_started := False\<rparr>)"
    using assms(2) items 1 by (auto simp: start_firmware_service_def Let_def split: if_splits bool.splits)
  have live: "length stored = length (take ?count items)"
      "\<forall>t \<in> set stored. own_block (fst (snd t)) = 1 \<and> own_block (snd (snd t)) = 1"
      "live w' = live w1 + 2 * int (length (take ?count items))"
    using copy_targets_NONE [OF assms(1) stored(2)] by blast+
  have "live w' - live w = stored_blocks (Some stored)"
    using live counts_memoryD(1) [OF assms(1) 1] stored(1) sum_list_two [OF live(2)] by (simp add: stored_blocks_def)
  moreover have "\<forall>t \<in> set stored. fst (snd t) \<notin> range Callers_String \<and> snd (snd t) \<notin> range Callers_String"
    using live(2) by (fastforce simp: own_block_def)
  ultimately show ?thesis using stored(3) items(2) by (simp add: firmware_stored_def upd_config_def)
qed

lemma start_firmware_stub_NONE:
  assumes "counts_memory (ie_os env) live"
    and "start_firmware_stub env r d w = Some (Inr (CCAPI_START_ERROR_NONE, d', w'))"
  shows "firmware_stored d d' (live w' - live w)"
proof -
  obtain rci where r: "r = Some rci" using assms(2) by (cases r) (auto simp: start_firmware_stub_def)
  obtain ok w1 where 1: "ccapi_malloc (ie_os env) (Array_Of 1 ''ccapi_firmware_target_t'') w = (ok, w1)" by fastforce
  have "ok" "w' = w1" using assms(2) r 1 by (auto simp: start_firmware_stub_def Let_def split: bool.splits)
  then have "live w' - live w = 1" using counts_memoryD(1) [OF assms(1) 1] by simp
  then show ?thesis
    using assms(2) r 1
    by (auto simp: start_firmware_stub_def Let_def firmware_stored_def upd_config_def stored_blocks_def own_block_def
        split: bool.splits)
qed

lemma start_firmware_NONE:
  assumes "counts_memory (ie_os env) live"
    and "start_firmware env start d w = Some (Inr (CCAPI_START_ERROR_NONE, d', w'))"
  shows "if sta_firmware start = None \<and> sta_rci start = None then d' = d \<and> w' = w
    else firmware_stored d d' (live w' - live w)"
  using assms start_firmware_service_NONE [OF assms(1)] start_firmware_stub_NONE [OF assms(1)]
  by (auto simp: start_firmware_def split: option.splits)

lemma start_receive_NONE:
  assumes "counts_memory os live" and "start_receive os start d w = Some (Inr (CCAPI_START_ERROR_NONE, d', w'))"
  shows "live w' = live w"
    and "in_config d' = (in_config d)\<lparr>cf_receive_supported := cf_receive_supported (in_config d) \<or> sta_receive start \<noteq> None\<rparr>"
    and "in_threads d' = in_threads d" "in_virtual_dirs d' = in_virtual_dirs d" "in_fw_item d' = in_fw_item d"
      "in_fw_count d' = in_fw_count d" "sta_receive start \<noteq> None \<Longrightarrow> in_targets d' = []"
      "sta_receive start = None \<Longrightarrow> in_targets d' = in_targets d"
  using assms counts_memoryD(5) [OF assms(1)]
  by (auto simp: start_receive_def upd_config_def split: option.splits prod.splits)

text \<open>The services that take no memory.\<close>

lemma start_plain_services_NONE:
  assumes "start_then (start_cli start) (start_then (start_sm start) (start_then (start_rci start) (start_streaming_cli start)))
      d w = Some (Inr (CCAPI_START_ERROR_NONE, d', w'))"
  shows "w' = w"
    and "in_config d' = (in_config d)\<lparr>cf_cli_supported := cf_cli_supported (in_config d) \<or> sta_cli start \<noteq> None,
        cf_sm_supported := cf_sm_supported (in_config d) \<or> sta_sm start \<noteq> None,
        cf_sm_key_distribution_supported :=
          (if sta_sm start \<noteq> None then Some True else cf_sm_key_distribution_supported (in_config d)),
        cf_rci_supported := cf_rci_supported (in_config d) \<or> sta_rci start \<noteq> None,
        cf_rci_descriptor := (case sta_rci start of Some (Some rci) \<Rightarrow> Some (rci_desc rci) | _ \<Rightarrow> cf_rci_descriptor (in_config d)),
        cf_streaming_cli_supported := cf_streaming_cli_supported (in_config d) \<or> sta_streaming_cli start \<noteq> None\<rparr>"
    and "in_threads d' = in_threads d" "in_virtual_dirs d' = in_virtual_dirs d" "in_fw_item d' = in_fw_item d"
      "in_fw_count d' = in_fw_count d" "in_targets d' = in_targets d"
  using assms
  by (auto simp: start_cli_def start_sm_def start_rci_def start_streaming_cli_def upd_config_def
      elim!: start_then_NONE split: option.splits if_splits)

lemma start_connector_NONE:
  assumes "counts_instance env live" and "start_connector env d w = Some (Inr (CCAPI_START_ERROR_NONE, d', w'))"
  shows "live w' = live w" and "\<exists>c. in_cond d' = Some (Some c)" and "in_transports d' = no_transports (in_transports d)"
    and "in_config d' = in_config d" "in_threads d' = in_threads d" "in_virtual_dirs d' = in_virtual_dirs d"
      "in_fw_item d' = in_fw_item d" "in_fw_count d' = in_fw_count d" "in_targets d' = in_targets d"
  using assms(2) counts_instanceD(4,6,7) [OF assms(1)]
  by (auto simp: start_connector_def Let_def split: option.splits prod.splits if_splits)

lemma start_locks_NONE:
  assumes "counts_memory os live" and "start_locks os d w = Some (Inr (CCAPI_START_ERROR_NONE, d', w'))"
  shows "live w' = live w" and "\<exists>a b. d' = d\<lparr>in_initiate_action_lock := Some a, in_file_system_lock := Some b\<rparr>"
  using assms(2) counts_memoryD(5) [OF assms(1)]
  by (auto simp: start_locks_def Let_def split: option.splits prod.splits)

end
