(* ===== verification/InitStart.thy ===== *)
theory InitStart
  imports InitProps
begin

text \<open>A start that succeeds: the configuration and the threads of the instance, and what it owns.\<close>

subsection \<open>Threads\<close>

lemma yield_loop_keeps:
  assumes "counts_instance env live" and "retry_loop (in_yield env) busy (\<lambda>x. x) (d, w) = Some (d', w')"
  shows "only_status d d' \<and> live w' = live w"
proof -
  have "(\<lambda>(e, v). only_status d e \<and> live v = live w) (d', w')"
  proof (rule retry_loop_invariant [OF assms(2)])
    show "(\<lambda>(e, v). only_status d e \<and> live v = live w) (in_yield env s)"
      if "(\<lambda>(e, v). only_status d e \<and> live v = live w) s" for s
    proof -
      obtain e v where s: "s = (e, v)" by fastforce
      obtain e' v' where y: "ie_others env e (os_yield (ie_os env) v) = (e', v')" by fastforce
      show ?thesis
        using that counts_instanceD(2) [OF assms(1) y] counts_memoryD(9) [OF counts_instanceD(1) [OF assms(1)], of v]
        by (auto simp: s in_yield_def y intro: only_status_trans)
    qed
  qed (simp_all add: only_status_refl)
  then show ?thesis by simp
qed

lemma create_thread_NONE:
  assumes "counts_instance env live"
    and "ccapi_create_and_start_thread env t d w = Some (CCAPI_START_ERROR_NONE, d', w')"
  shows "(\<exists>i. only_status (set_thread t (Some i) d) d') \<and> live w' = live w + 1"
proof -
  note memory = counts_instanceD(1) [OF assms(1)]
  obtain ok w1 where 1: "ccapi_malloc (ie_os env) (Sizeof ''ccapi_thread_info_t'') w = (ok, w1)" by fastforce
  obtain l w2 where 2: "ccapi_lock_create (ie_os env) w1 = (l, w2)" by fastforce
  obtain st w3 where 3: "ie_create_thread env t w2 = (st, w3)" by fastforce
  obtain a where some: "ok" "l = Some a" "st = CCIMP_STATUS_OK"
    using assms(2) 1 2 3 by (auto simp: ccapi_create_and_start_thread_def Let_def split: bool.splits option.splits if_splits)
  have loop: "retry_loop (in_yield env) (\<lambda>(d, w). in_thread_status t d = Some CCAPI_THREAD_REQUEST_START) (\<lambda>x. x)
      (set_thread t (Some \<lparr>ti_status = CCAPI_THREAD_REQUEST_START, ti_lock = Some a\<rparr>) d, w3) = Some (d', w')"
    using assms(2) 1 2 3 some by (auto simp: ccapi_create_and_start_thread_def Let_def)
  show ?thesis
    using yield_loop_keeps [OF assms(1) loop] counts_memoryD(1) [OF memory 1] counts_memoryD(4) [OF memory 2]
      counts_instanceD(3) [OF assms(1) 3] some
    by auto
qed

lemma start_thread_NONE:
  assumes "counts_instance env live"
    and "start_thread env wanted t d w = Some (Inr (CCAPI_START_ERROR_NONE, d', w'))"
  shows "if wanted then (\<exists>i. only_status (set_thread t (Some i) d) d') \<and> live w' = live w + 1 else d' = d \<and> w' = w"
  using assms(2) create_thread_NONE [OF assms(1)] by (auto simp: start_thread_def split: if_splits)

text \<open>The threads that are there after the start, and what the threads leave alone.\<close>

definition same_but_threads :: "'w ccapi_data_t \<Rightarrow> 'w ccapi_data_t \<Rightarrow> bool" where
  "same_but_threads d d' \<longleftrightarrow>
     in_config d' = in_config d \<and> in_fw_item d' = in_fw_item d \<and> in_fw_count d' = in_fw_count d
     \<and> in_virtual_dirs d' = in_virtual_dirs d \<and> in_targets d' = in_targets d \<and> in_cond d' = in_cond d
     \<and> transport_blocks (in_transports d') = transport_blocks (in_transports d)
     \<and> tcp_info (in_transports d') = tcp_info (in_transports d) \<and> sms_info (in_transports d') = sms_info (in_transports d)"

lemma start_thread_step:
  assumes "counts_instance env live" and "in_threads d t = None"
    and "start_thread env wanted t d w = Some (Inr (CCAPI_START_ERROR_NONE, d', w'))"
  shows "same_but_threads d d'" and "in_threads d' u = None \<longleftrightarrow> (if u = t then \<not> wanted else in_threads d u = None)"
    and "live w' = live w + (if wanted then 1 else 0)"
proof -
  consider "\<not> wanted" "d' = d" "w' = w"
    | i where "wanted" "only_status (set_thread t (Some i) d) d'" "live w' = live w + 1"
    using start_thread_NONE [OF assms(1,3)] by (auto split: if_splits)
  note cases = this
  show "same_but_threads d d'"
    using cases
    by cases (auto simp: same_but_threads_def set_thread_def dest: only_statusD only_status_blocks(2))
  show "in_threads d' u = None \<longleftrightarrow> (if u = t then \<not> wanted else in_threads d u = None)"
  proof (cases wanted)
    case True
    then obtain i where "only_status (set_thread t (Some i) d) d'" using cases by cases auto
    from only_statusD(9) [OF this, of u] show ?thesis using True by (simp add: set_thread_def)
  next
    case False
    then show ?thesis using cases assms(2) by cases auto
  qed
  show "live w' = live w + (if wanted then 1 else 0)" using cases by cases auto
qed

definition thread_wanted :: "ccapi_config_t \<Rightarrow> bool \<Rightarrow> ccimp_os_thread_type_t \<Rightarrow> bool" where
  "thread_wanted c firmware t =
     (case t of
        CCIMP_THREAD_FSM \<Rightarrow> True
      | CCIMP_THREAD_RCI \<Rightarrow> cf_rci_supported c
      | CCIMP_THREAD_RECEIVE \<Rightarrow> cf_receive_supported c
      | CCIMP_THREAD_CLI \<Rightarrow> cf_cli_supported c
      | CCIMP_THREAD_FIRMWARE \<Rightarrow> cf_firmware_supported c \<and> firmware)"

lemma start_threads_NONE:
  assumes counts: "counts_instance env live" and none: "\<And>t. in_threads d t = None"
    and "start_threads env start d w = Some (Inr (CCAPI_START_ERROR_NONE, d', w'))"
  shows "same_but_threads d d'"
    and "in_threads d' t \<noteq> None \<longleftrightarrow> thread_wanted (in_config d) (sta_firmware start \<noteq> None) t"
    and "live w' = live w + thread_blocks (in_threads d')"
proof -
  obtain d1 w1 d2 w2 d3 w3 d4 w4 where
    steps: "start_thread env True CCIMP_THREAD_FSM d w = Some (Inr (CCAPI_START_ERROR_NONE, d1, w1))"
      "start_thread env (cf_rci_supported (in_config d1)) CCIMP_THREAD_RCI d1 w1 = Some (Inr (CCAPI_START_ERROR_NONE, d2, w2))"
      "start_thread env (cf_receive_supported (in_config d2)) CCIMP_THREAD_RECEIVE d2 w2 = Some (Inr (CCAPI_START_ERROR_NONE, d3, w3))"
      "start_thread env (cf_cli_supported (in_config d3)) CCIMP_THREAD_CLI d3 w3 = Some (Inr (CCAPI_START_ERROR_NONE, d4, w4))"
      "start_thread env (cf_firmware_supported (in_config d4) \<and> sta_firmware start \<noteq> None) CCIMP_THREAD_FIRMWARE d4 w4
        = Some (Inr (CCAPI_START_ERROR_NONE, d', w'))"
    using assms(3) unfolding start_threads_def by (auto elim!: start_then_NONE)
  note 1 = start_thread_step [OF counts none steps(1)]
  note 2 = start_thread_step [OF counts _ steps(2), unfolded 1(2), simplified none, simplified]
  note 3 = start_thread_step [OF counts _ steps(3), unfolded 2(2) 1(2), simplified none, simplified]
  note 4 = start_thread_step [OF counts _ steps(4), unfolded 3(2) 2(2) 1(2), simplified none, simplified]
  note 5 = start_thread_step [OF counts _ steps(5), unfolded 4(2) 3(2) 2(2) 1(2), simplified none, simplified]
  have config: "in_config d1 = in_config d" "in_config d2 = in_config d" "in_config d3 = in_config d" "in_config d4 = in_config d"
    using 1(1) 2(1) 3(1) 4(1) by (simp_all add: same_but_threads_def)
  show "same_but_threads d d'" using 1(1) 2(1) 3(1) 4(1) 5(1) by (simp add: same_but_threads_def)
  show threads: "in_threads d' t \<noteq> None \<longleftrightarrow> thread_wanted (in_config d) (sta_firmware start \<noteq> None) t" for t
    using 5(2) [of t] by (cases t) (auto simp: thread_wanted_def config)
  have block: "thread_block (in_threads d') t = (if thread_wanted (in_config d) (sta_firmware start \<noteq> None) t then 1 else 0)" for t
    using threads [of t] by (auto simp: thread_block_def)
  show "live w' = live w + thread_blocks (in_threads d')"
    using 1(3) 2(3) 3(3) 4(3) 5(3) by (simp add: thread_blocks_def block thread_wanted_def config)
qed

subsection \<open>A start that succeeds\<close>

text \<open>The configuration a start asks for.\<close>

definition config_of_start :: "ccapi_start_t \<Rightarrow> ccapi_config_t" where
  "config_of_start start =
     \<lparr>cf_device_type = sta_device_type start, cf_device_cloud_url = sta_device_cloud_url start,
      cf_device_id = sta_device_id start, cf_vendor_id = sta_vendor_id start,
      cf_cli_supported = (sta_cli start \<noteq> None), cf_sm_supported = (sta_sm start \<noteq> None),
      cf_receive_supported = (sta_receive start \<noteq> None),
      cf_firmware_supported = (sta_firmware start \<noteq> None \<or> sta_rci start \<noteq> None),
      cf_rci_supported = (sta_rci start \<noteq> None), cf_filesystem_supported = Some (sta_file_system start \<noteq> None),
      cf_streaming_cli_supported = (sta_streaming_cli start \<noteq> None),
      cf_sm_key_distribution_supported = (if sta_sm start \<noteq> None then Some True else None),
      cf_rci_descriptor = (case sta_rci start of Some (Some rci) \<Rightarrow> Some (rci_desc rci) | _ \<Rightarrow> None)\<rparr>"

text \<open>
  What an instance has to be for its blocks to be freed: what was registered belongs to a service
  that is supported, and the strings of the targets and of the transports are its own.
\<close>

definition no_callers_tcp :: "'w ccapi_transports \<Rightarrow> bool" where
  "no_callers_tcp t =
     (case tcp_info t of
        None \<Rightarrow> True
      | Some Tcp_Unwritten \<Rightarrow> False
      | Some (Tcp_Info info) \<Rightarrow>
          cn_password info \<notin> range Callers_String
          \<and> (case cn_connection info of CCAPI_CONNECTION_WAN speed p \<Rightarrow> p \<notin> range Callers_String | _ \<Rightarrow> True))"

definition no_callers_sms :: "'w ccapi_transports \<Rightarrow> bool" where
  "no_callers_sms t =
     (case sms_info t of
        None \<Rightarrow> True
      | Some info \<Rightarrow> sms_phone_number info \<notin> range Callers_String \<and> sms_service_id info \<notin> range Callers_String)"

definition owned_data :: "'w ccapi_data_t \<Rightarrow> bool" where
  "owned_data d \<longleftrightarrow>
     cf_filesystem_supported (in_config d) \<noteq> None
     \<and> (in_virtual_dirs d \<noteq> [] \<longrightarrow> cf_filesystem_supported (in_config d) = Some True)
     \<and> in_cond d \<noteq> None
     \<and> (in_threads d CCIMP_THREAD_RCI \<noteq> None \<longrightarrow> cf_rci_supported (in_config d))
     \<and> (in_threads d CCIMP_THREAD_RECEIVE \<noteq> None \<longrightarrow> cf_receive_supported (in_config d))
     \<and> (in_threads d CCIMP_THREAD_CLI \<noteq> None \<longrightarrow> cf_cli_supported (in_config d))
     \<and> (in_threads d CCIMP_THREAD_FIRMWARE \<noteq> None \<longrightarrow> in_fw_item d \<noteq> None)
     \<and> (\<forall>item. in_fw_item d = Some item \<longrightarrow> in_fw_count d \<noteq> 0
          \<and> (\<forall>t \<in> set item. fst (snd t) \<notin> range Callers_String \<and> snd (snd t) \<notin> range Callers_String))"

definition owned_instance :: "'w ccapi_data_t \<Rightarrow> bool" where
  "owned_instance d \<longleftrightarrow> owned_data d \<and> no_callers_tcp (in_transports d) \<and> no_callers_sms (in_transports d)"

lemma config_equality:
  "\<lparr>cf_device_type = a, cf_device_cloud_url = b, cf_device_id = c, cf_vendor_id = d, cf_cli_supported = e,
     cf_sm_supported = f, cf_receive_supported = g, cf_firmware_supported = h, cf_rci_supported = i,
     cf_filesystem_supported = j, cf_streaming_cli_supported = k, cf_sm_key_distribution_supported = l,
     cf_rci_descriptor = m\<rparr> = x \<longleftrightarrow>
   a = cf_device_type x \<and> b = cf_device_cloud_url x \<and> c = cf_device_id x \<and> d = cf_vendor_id x \<and> e = cf_cli_supported x
   \<and> f = cf_sm_supported x \<and> g = cf_receive_supported x \<and> h = cf_firmware_supported x \<and> i = cf_rci_supported x
   \<and> j = cf_filesystem_supported x \<and> k = cf_streaming_cli_supported x \<and> l = cf_sm_key_distribution_supported x
   \<and> m = cf_rci_descriptor x"
  by (cases x) auto

lemma new_ccapi_data_simps [simp]:
  "in_virtual_dirs (new_ccapi_data b) = []" "in_threads (new_ccapi_data b) t = None" "in_fw_item (new_ccapi_data b) = None"
  by (simp_all add: new_ccapi_data_def upd_config_def)

lemma start_file_system_NONE:
  assumes "start_file_system start d w = Some (Inr (CCAPI_START_ERROR_NONE, d', w'))" and "in_virtual_dirs d = []"
  shows "w' = w" "in_config d' = (in_config d)\<lparr>cf_filesystem_supported := Some (sta_file_system start \<noteq> None)\<rparr>"
    "in_threads d' = in_threads d" "in_virtual_dirs d' = []" "in_fw_item d' = in_fw_item d" "in_targets d' = in_targets d"
  using assms by (auto simp: start_file_system_def upd_config_def split: option.splits)

text \<open>From the new block to the services.\<close>

lemma start_services_NONE:
  assumes "counts_memory (ie_os env) live"
    and s1: "start_identity (ie_os env) start (new_ccapi_data b) w = Some (Inr (CCAPI_START_ERROR_NONE, d1, w1))"
    and s2: "start_file_system start d1 w1 = Some (Inr (CCAPI_START_ERROR_NONE, d2, w2))"
    and services: "start_services env start d2 w2 = Some (Inr (CCAPI_START_ERROR_NONE, d', w'))"
  shows "in_config d' = config_of_start start"
    and "in_threads d' = (\<lambda>t. None)" "in_virtual_dirs d' = []" "sta_receive start \<noteq> None \<Longrightarrow> in_targets d' = []"
      "\<forall>item. in_fw_item d' = Some item \<longrightarrow> in_fw_count d' \<noteq> 0
        \<and> (\<forall>t \<in> set item. fst (snd t) \<notin> range Callers_String \<and> snd (snd t) \<notin> range Callers_String)"
      "(in_fw_item d' \<noteq> None) \<longleftrightarrow> sta_firmware start \<noteq> None \<or> sta_rci start \<noteq> None"
    and "live w' = live w + 2 + stored_blocks (in_fw_item d')"
    and "check_params start = CCAPI_START_ERROR_NONE"
proof -
  obtain d3 w3 where s3: "start_firmware env start d2 w2 = Some (Inr (CCAPI_START_ERROR_NONE, d3, w3))"
    and r3: "start_then (start_receive (ie_os env) start)
       (start_then (start_cli start) (start_then (start_sm start) (start_then (start_rci start) (start_streaming_cli start))))
       d3 w3 = Some (Inr (CCAPI_START_ERROR_NONE, d', w'))"
    by (rule start_then_NONE [OF services [unfolded start_services_def]])
  obtain d4 w4 where s4: "start_receive (ie_os env) start d3 w3 = Some (Inr (CCAPI_START_ERROR_NONE, d4, w4))"
    and s5: "start_then (start_cli start) (start_then (start_sm start) (start_then (start_rci start) (start_streaming_cli start)))
      d4 w4 = Some (Inr (CCAPI_START_ERROR_NONE, d', w'))"
    by (rule start_then_NONE [OF r3])
  note 1 = start_identity_NONE [OF assms(1) s1]
  have new: "in_virtual_dirs d1 = []" "in_threads d1 = (\<lambda>t. None)" "in_fw_item d1 = None"
    by (simp_all add: 1(1) upd_config_def fun_eq_iff)
  note 2 = start_file_system_NONE [OF s2 new(1)]
  note 3 = start_firmware_NONE [OF assms(1) s3]
  note 4 = start_receive_NONE [OF assms(1) s4]
  note 5 = start_plain_services_NONE [OF s5]
  have c2: "in_config d2 = (in_config (new_ccapi_data b))\<lparr>cf_vendor_id := sta_vendor_id start, cf_device_id := sta_device_id start,
      cf_device_type := sta_device_type start, cf_device_cloud_url := sta_device_cloud_url start,
      cf_filesystem_supported := Some (sta_file_system start \<noteq> None)\<rparr>"
    using 2(2) by (simp add: 1(1) upd_config_def)
  have c3: "in_config d3 = (in_config d2)\<lparr>cf_firmware_supported := (sta_firmware start \<noteq> None \<or> sta_rci start \<noteq> None)\<rparr>"
    using 3 c2 by (auto simp: firmware_stored_def new_ccapi_data_def upd_config_def split: if_splits)
  show "in_config d' = config_of_start start"
    unfolding config_of_start_def eq_commute [of "in_config d'"] config_equality
    by (simp add: 5(2) 4(2) c3 c2 new_ccapi_data_def upd_config_def split: option.splits)
  show "in_threads d' = (\<lambda>t. None)" "in_virtual_dirs d' = []"
    using 3 by (simp_all add: 5 4 2 new firmware_stored_def split: if_splits)
  show "in_targets d' = []" if "sta_receive start \<noteq> None" using 4(7) that by (simp add: 5)
  have fw: "in_fw_item d' = in_fw_item d3" "in_fw_count d' = in_fw_count d3" by (simp_all add: 5 4)
  show "\<forall>item. in_fw_item d' = Some item \<longrightarrow> in_fw_count d' \<noteq> 0
      \<and> (\<forall>t \<in> set item. fst (snd t) \<notin> range Callers_String \<and> snd (snd t) \<notin> range Callers_String)"
    using 3 unfolding fw by (auto simp: 2 new firmware_stored_def split: if_splits)
  show "(in_fw_item d' \<noteq> None) \<longleftrightarrow> sta_firmware start \<noteq> None \<or> sta_rci start \<noteq> None"
    using 3 unfolding fw by (auto simp: 2 new firmware_stored_def split: if_splits)
  have "live w3 = live w2 + stored_blocks (in_fw_item d3)"
    using 3 by (auto simp: 2 new firmware_stored_def stored_blocks_def split: if_splits)
  then show "live w' = live w + 2 + stored_blocks (in_fw_item d')" by (simp add: fw 5 4 2 1)
  show "check_params start = CCAPI_START_ERROR_NONE" by (rule 1(2))
qed

lemma no_transports_simps [simp]:
  "tcp_info (no_transports t) = None" "sms_info (no_transports t) = None" "transport_blocks (no_transports t) = 0"
  by (simp_all add: no_transports_def transport_blocks_def tcp_blocks_def udp_blocks_def sms_blocks_def)

lemma start_block_NONE:
  assumes counts: "counts_instance env live"
    and "start_block env (Some start) (new_ccapi_data b) w = Some (Inr (CCAPI_START_ERROR_NONE, d', w'))"
  shows "in_config d' = config_of_start start"
    and "in_threads d' t \<noteq> None \<longleftrightarrow> thread_wanted (config_of_start start) (sta_firmware start \<noteq> None) t"
    and "owned_instance d'"
    and "live w' = live w + instance_blocks d' - 1"
    and "in_initiate_action_lock d' \<noteq> None \<and> in_file_system_lock d' \<noteq> None"
    and "check_params start = CCAPI_START_ERROR_NONE"
proof -
  note memory = counts_instanceD(1) [OF counts]
  obtain d1 w1 where s1: "start_identity (ie_os env) start (new_ccapi_data b) w = Some (Inr (CCAPI_START_ERROR_NONE, d1, w1))"
    and r1: "start_then (start_file_system start) (start_then (start_services env start) (start_then (start_connector env)
      (start_then (start_threads env start) (start_locks (ie_os env))))) d1 w1 = Some (Inr (CCAPI_START_ERROR_NONE, d', w'))"
    using assms(2) unfolding start_block_def option.case by (rule start_then_NONE)
  obtain d2 w2 where s2: "start_file_system start d1 w1 = Some (Inr (CCAPI_START_ERROR_NONE, d2, w2))"
    and r2: "start_then (start_services env start) (start_then (start_connector env)
      (start_then (start_threads env start) (start_locks (ie_os env)))) d2 w2 = Some (Inr (CCAPI_START_ERROR_NONE, d', w'))"
    by (rule start_then_NONE [OF r1])
  obtain d3 w3 where s3: "start_services env start d2 w2 = Some (Inr (CCAPI_START_ERROR_NONE, d3, w3))"
    and r3: "start_then (start_connector env)
      (start_then (start_threads env start) (start_locks (ie_os env))) d3 w3 = Some (Inr (CCAPI_START_ERROR_NONE, d', w'))"
    by (rule start_then_NONE [OF r2])
  obtain d4 w4 where s4: "start_connector env d3 w3 = Some (Inr (CCAPI_START_ERROR_NONE, d4, w4))"
    and r4: "start_then (start_threads env start) (start_locks (ie_os env)) d4 w4 = Some (Inr (CCAPI_START_ERROR_NONE, d', w'))"
    by (rule start_then_NONE [OF r3])
  obtain d5 w5 where s5: "start_threads env start d4 w4 = Some (Inr (CCAPI_START_ERROR_NONE, d5, w5))"
    and s6: "start_locks (ie_os env) d5 w5 = Some (Inr (CCAPI_START_ERROR_NONE, d', w'))"
    by (rule start_then_NONE [OF r4])
  note 3 = start_services_NONE [OF memory s1 s2 s3]
  note 4 = start_connector_NONE [OF counts s4]
  have none: "in_threads d4 t = None" for t by (simp add: 4(5) 3(2))
  note 5 = start_threads_NONE [OF counts none s5]
  have same: "same_but_threads d4 d5" by (rule 5(1))
  obtain x y where 6: "d' = d5\<lparr>in_initiate_action_lock := Some x, in_file_system_lock := Some y\<rparr>" "live w' = live w5"
    using start_locks_NONE [OF memory s6] by blast
  have targets: "sta_receive start \<noteq> None \<Longrightarrow> in_targets d' = []" and dirs: "in_virtual_dirs d' = []"
    using same 3(3,4) by (simp_all add: 6 same_but_threads_def 4)
  show config: "in_config d' = config_of_start start" using same by (simp add: 6 same_but_threads_def 4 3(1))
  show threads: "in_threads d' t \<noteq> None \<longleftrightarrow> thread_wanted (config_of_start start) (sta_firmware start \<noteq> None) t" for t
    using 5(2) [of t] by (simp add: 6 4 3(1))
  show "in_initiate_action_lock d' \<noteq> None \<and> in_file_system_lock d' \<noteq> None" by (simp add: 6)
  show "check_params start = CCAPI_START_ERROR_NONE" by (rule 3(8))
  have fw: "in_fw_item d' = in_fw_item d3" "in_fw_count d' = in_fw_count d3" using same by (simp_all add: 6 same_but_threads_def 4)
  have transports: "tcp_info (in_transports d') = None" "sms_info (in_transports d') = None"
      "transport_blocks (in_transports d') = 0"
    using same by (simp_all add: 6 same_but_threads_def 4)
  have cond: "in_cond d' \<noteq> None" using same 4(2) by (auto simp: 6 same_but_threads_def)
  show "owned_instance d'"
    using threads [of CCIMP_THREAD_RCI] threads [of CCIMP_THREAD_RECEIVE] threads [of CCIMP_THREAD_CLI]
      threads [of CCIMP_THREAD_FIRMWARE] 3(5,6) cond
    by (simp add: owned_instance_def owned_data_def config dirs fw transports no_callers_tcp_def no_callers_sms_def)
      (simp add: thread_wanted_def config_of_start_def)
  have config_blocks: "config_blocks (config_of_start start) = 2"
    using 3(8) by (auto simp: config_blocks_def config_of_start_def check_params_def split: if_splits)
  have "cf_receive_supported (config_of_start start) \<longleftrightarrow> sta_receive start \<noteq> None" by (simp add: config_of_start_def)
  then have "instance_blocks d' = 3 + thread_blocks (in_threads d') + stored_blocks (in_fw_item d3)"
    using targets
    by (cases "sta_receive start = None")
      (simp_all add: instance_blocks_def data_blocks_def transports dirs fw config config_blocks)
  moreover have "thread_blocks (in_threads d') = thread_blocks (in_threads d5)" by (simp add: 6)
  ultimately show "live w' = live w + instance_blocks d' - 1"
    using 3(7) 4(1) 5(3) 6(2) by simp
qed

end
