(* ===== verification/InitFree.thy ===== *)
theory InitFree
  imports InitStart
begin

text \<open>Stopping an instance: what is freed, and that nothing is freed that is not its own.\<close>

subsection \<open>Freeing\<close>

lemma free_own_string:
  assumes "counts_memory os live" and "p \<notin> range Callers_String"
  shows "\<exists>w'. free_c_string os p w = Inr w' \<and> live w' = live w - own_block p"
  using assms(2) counts_memoryD(2) [OF assms(1)]
  by (cases p) (auto simp: free_c_string_def own_block_def)

lemma free_tcp_of_live:
  assumes "counts_memory os live" and "no_callers_tcp t"
  shows "\<exists>w'. free_tcp_of os t w = Inr w' \<and> live w' = live w - tcp_blocks t"
proof (cases "tcp_info t")
  case (Some block)
  then obtain info where info: "tcp_info t = Some (Tcp_Info info)" "cn_password info \<notin> range Callers_String"
    using assms(2) by (cases block) (auto simp: no_callers_tcp_def)
  obtain w1 where 1: "free_c_string os (cn_password info) w = Inr w1" "live w1 = live w - own_block (cn_password info)"
    using free_own_string [OF assms(1) info(2)] by blast
  show ?thesis
  proof (cases "cn_connection info")
    case (CCAPI_CONNECTION_WAN speed p)
    then have "p \<notin> range Callers_String" using assms(2) info(1) by (simp add: no_callers_tcp_def)
    then obtain w2 where 2: "free_c_string os p w1 = Inr w2" "live w2 = live w1 - own_block p"
      using free_own_string [OF assms(1)] by blast
    then show ?thesis
      using 1 info(1) CCAPI_CONNECTION_WAN counts_memoryD(2) [OF assms(1), of w2]
      by (simp add: free_tcp_of_def free_transport_tcp_info_def tcp_blocks_def)
  qed (use 1 info(1) counts_memoryD(2) [OF assms(1), of w1] in
      \<open>simp_all add: free_tcp_of_def free_transport_tcp_info_def tcp_blocks_def\<close>)
qed (simp add: free_tcp_of_def tcp_blocks_def)

lemma free_udp_of_live:
  assumes "counts_memory os live"
  shows "\<exists>w'. free_udp_of os t w = Inr w' \<and> live w' = live w - udp_blocks t"
  using counts_memoryD(2) [OF assms] by (auto simp: free_udp_of_def udp_blocks_def free_transport_udp_info_def)

lemma free_sms_of_live:
  assumes "counts_memory os live" and "no_callers_sms t"
  shows "\<exists>w'. free_sms_of os t w = Inr w' \<and> live w' = live w - sms_blocks t"
proof (cases "sms_info t")
  case (Some info)
  then have p: "sms_phone_number info \<notin> range Callers_String" "sms_service_id info \<notin> range Callers_String"
    using assms(2) by (auto simp: no_callers_sms_def)
  obtain w1 where 1: "free_c_string os (sms_phone_number info) w = Inr w1" "live w1 = live w - own_block (sms_phone_number info)"
    using free_own_string [OF assms(1) p(1)] by blast
  obtain w2 where 2: "free_c_string os (sms_service_id info) w1 = Inr w2" "live w2 = live w1 - own_block (sms_service_id info)"
    using free_own_string [OF assms(1) p(2)] by blast
  show ?thesis
    using 1 2 Some counts_memoryD(2) [OF assms(1), of w2]
    by (simp add: free_sms_of_def free_transport_sms_info_def sms_blocks_def)
qed (simp add: free_sms_of_def sms_blocks_def)

lemma free_dirs_live:
  assumes "counts_memory os live"
  shows "live (free_filesystem_dir_entry_list os l w) = live w - 3 * int (length l)"
  by (induction l arbitrary: w) (simp_all add: counts_memoryD(2) [OF assms])

lemma free_targets_live:
  assumes "counts_memory os live"
  shows "live (free_targets os l w) = live w - 2 * int (length l)"
  by (induction l arbitrary: w) (simp_all add: counts_memoryD(2) [OF assms])

lemma free_stored_live:
  assumes "counts_memory os live"
  shows "(\<forall>t \<in> set l. fst (snd t) \<notin> range Callers_String \<and> snd (snd t) \<notin> range Callers_String) \<Longrightarrow>
    \<exists>w'. free_stored_targets os l w = Inr w'
      \<and> live w' = live w - sum_list (map (\<lambda>t. own_block (fst (snd t)) + own_block (snd (snd t))) l)"
proof (induction l arbitrary: w)
  case (Cons t l)
  then have p: "fst (snd t) \<notin> range Callers_String" "snd (snd t) \<notin> range Callers_String" by simp_all
  obtain w1 where 1: "free_c_string os (fst (snd t)) w = Inr w1" "live w1 = live w - own_block (fst (snd t))"
    using free_own_string [OF assms p(1)] by blast
  obtain w2 where 2: "free_c_string os (snd (snd t)) w1 = Inr w2" "live w2 = live w1 - own_block (snd (snd t))"
    using free_own_string [OF assms p(2)] by blast
  have "\<forall>t \<in> set l. fst (snd t) \<notin> range Callers_String \<and> snd (snd t) \<notin> range Callers_String" using Cons.prems by simp
  then obtain w3 where "free_stored_targets os l w2 = Inr w3"
    "live w3 = live w2 - sum_list (map (\<lambda>t. own_block (fst (snd t)) + own_block (snd (snd t))) l)"
    using Cons.IH by blast
  then show ?case using 1 2 by simp
qed simp

lemma destroy_lock_live: "counts_memory os live \<Longrightarrow> live (destroy_lock os l w) = live w"
  by (simp add: destroy_lock_def counts_memoryD(8))

lemma reset_thread_live:
  assumes "counts_memory os live" and "reset_thread os t d w = (d', w')"
  shows "live w' = live w - thread_block (in_threads d) t" and "d' = set_thread t None d"
  using assms(2) counts_memoryD(2) [OF assms(1)]
  by (auto simp: reset_thread_def reset_heap_ptr_def thread_block_def split: if_splits)

lemma set_thread_None: "in_threads d t = None \<Longrightarrow> set_thread t None d = d"
  by (simp add: set_thread_def fun_upd_idem)

lemma reset_thread_if:
  assumes "counts_memory os live" and "in_threads d t \<noteq> None \<longrightarrow> wanted"
    and "(if wanted then reset_thread os t d w else (d, w)) = (d', w')"
  shows "live w' = live w - thread_block (in_threads d) t" and "d' = set_thread t None d"
  using assms(2,3) reset_thread_live [OF assms(1)] set_thread_None [of d t]
  by (auto simp: thread_block_def split: if_splits)

lemma thread_block_upd [simp]: "thread_block (ts(t := None)) u = (if u = t then 0 else thread_block ts u)"
  by (simp add: thread_block_def)

lemma set_thread_simps [simp]:
  "in_config (set_thread t i d) = in_config d" "in_fw_item (set_thread t i d) = in_fw_item d"
  "in_fw_count (set_thread t i d) = in_fw_count d" "in_cond (set_thread t i d) = in_cond d"
  "in_targets (set_thread t i d) = in_targets d" "in_virtual_dirs (set_thread t i d) = in_virtual_dirs d"
  "in_receive_lock (set_thread t i d) = in_receive_lock d" "in_transports (set_thread t i d) = in_transports d"
  "in_initiate_action_lock (set_thread t i d) = in_initiate_action_lock d"
  "in_threads (set_thread t i d) = (in_threads d)(t := i)"
  by (simp_all add: set_thread_def)

lemma free_receive_live:
  assumes "counts_memory os live" and "in_threads d CCIMP_THREAD_RECEIVE \<noteq> None \<longrightarrow> cf_receive_supported (in_config d)"
    and "free_receive os d w = (d', w')"
  shows "live w' = live w - (if cf_receive_supported (in_config d) then 2 * int (length (in_targets d)) else 0)
      - thread_block (in_threads d) CCIMP_THREAD_RECEIVE"
    and "d' = set_thread CCIMP_THREAD_RECEIVE None d"
proof -
  let ?w1 = "if in_targets d \<noteq> [] then free_receive_target_list os (in_receive_lock d) (in_targets d) w else w"
  have targets: "live ?w1 = live w - 2 * int (length (in_targets d))"
    by (simp add: free_receive_target_list_def counts_memoryD(6,7) [OF assms(1)] free_targets_live [OF assms(1)])
  have step: "(if cf_receive_supported (in_config d)
      then reset_thread os CCIMP_THREAD_RECEIVE d (destroy_lock os (in_receive_lock d) ?w1) else (d, w)) = (d', w')"
    using assms(3) unfolding free_receive_def Let_def .
  show "d' = set_thread CCIMP_THREAD_RECEIVE None d"
    using step assms(2) reset_thread_live(2) [OF assms(1)] set_thread_None [of d] by (auto split: if_splits)
  show "live w' = live w - (if cf_receive_supported (in_config d) then 2 * int (length (in_targets d)) else 0)
      - thread_block (in_threads d) CCIMP_THREAD_RECEIVE"
  proof (cases "cf_receive_supported (in_config d)")
    case True
    then have "reset_thread os CCIMP_THREAD_RECEIVE d (destroy_lock os (in_receive_lock d) ?w1) = (d', w')" using step by simp
    from reset_thread_live(1) [OF assms(1) this] show ?thesis
      using True targets by (simp add: destroy_lock_live [OF assms(1)])
  next
    case False
    then show ?thesis using step assms(2) by (simp add: thread_block_def)
  qed
qed

lemma free_firmware_live:
  assumes "counts_memory os live"
    and "in_threads d CCIMP_THREAD_FIRMWARE \<noteq> None \<longrightarrow> in_fw_item d \<noteq> None"
    and "\<forall>item. in_fw_item d = Some item \<longrightarrow> in_fw_count d \<noteq> 0
          \<and> (\<forall>t \<in> set item. fst (snd t) \<notin> range Callers_String \<and> snd (snd t) \<notin> range Callers_String)"
  shows "\<exists>d' w'. free_firmware os d w = Inr (d', w')
    \<and> live w' = live w - stored_blocks (in_fw_item d) - thread_block (in_threads d) CCIMP_THREAD_FIRMWARE
    \<and> in_config d' = in_config d \<and> in_cond d' = in_cond d \<and> in_initiate_action_lock d' = in_initiate_action_lock d
    \<and> (\<forall>u. u \<noteq> CCIMP_THREAD_FIRMWARE \<longrightarrow> in_threads d' u = in_threads d u)"
proof (cases "in_fw_item d")
  case None
  then show ?thesis using assms(2) by (simp add: free_firmware_def stored_blocks_def thread_block_def)
next
  case (Some item)
  then obtain w1 where 1: "free_stored_targets os item w = Inr w1"
    "live w1 = live w - sum_list (map (\<lambda>t. own_block (fst (snd t)) + own_block (snd (snd t))) item)"
    using free_stored_live [OF assms(1)] assms(3) by blast
  let ?d = "d\<lparr>in_fw_count := 0, in_fw_item := None\<rparr>"
  obtain d' w' where r: "reset_thread os CCIMP_THREAD_FIRMWARE ?d (snd (ccapi_free os True w1)) = (d', w')" by fastforce
  note reset = reset_thread_live [OF assms(1) r]
  have "live w' = live w - stored_blocks (Some item) - thread_block (in_threads d) CCIMP_THREAD_FIRMWARE"
    using reset(1) 1(2) counts_memoryD(2) [OF assms(1), of w1] by (simp add: stored_blocks_def)
  then show ?thesis
    using Some assms(3) 1(1) r reset(2) by (simp add: free_firmware_def)
qed

lemma free_config_live:
  assumes "counts_memory os live" and "free_config os d w = (d', w')"
  shows "live w' = live w - config_blocks (in_config d) - thread_block (in_threads d) CCIMP_THREAD_FSM"
    and "in_cond d' = in_cond d" "in_initiate_action_lock d' = in_initiate_action_lock d"
proof -
  let ?c = "in_config d"
  let ?d = "d\<lparr>in_config := ?c\<lparr>cf_device_type := None, cf_device_cloud_url := None\<rparr>\<rparr>"
  let ?w1 = "reset_heap_ptr os (cf_device_type ?c \<noteq> None) w"
  let ?w2 = "reset_heap_ptr os (cf_device_cloud_url ?c \<noteq> None) ?w1"
  have r: "reset_thread os CCIMP_THREAD_FSM ?d ?w2 = (d', w')" using assms(2) by (simp add: free_config_def Let_def)
  have "live ?w2 = live w - config_blocks ?c"
    using counts_memoryD(2) [OF assms(1)] by (auto simp: reset_heap_ptr_def config_blocks_def)
  then show "live w' = live w - config_blocks ?c - thread_block (in_threads d) CCIMP_THREAD_FSM"
    using reset_thread_live(1) [OF assms(1) r] by simp
  show "in_cond d' = in_cond d" "in_initiate_action_lock d' = in_initiate_action_lock d"
    using reset_thread_live(2) [OF assms(1) r] by simp_all
qed

lemma free_internal_live:
  assumes counts: "counts_instance env live" and owned: "owned_data d"
  shows "\<exists>d' w'. free_ccapi_data_internal_resources env d w = Inr (d', w') \<and> live w' = live w - (data_blocks d - 1)"
proof -
  note memory = counts_instanceD(1) [OF counts]
  let ?os = "ie_os env"
  have threads: "in_threads d CCIMP_THREAD_RCI \<noteq> None \<longrightarrow> cf_rci_supported (in_config d)"
      "in_threads d CCIMP_THREAD_RECEIVE \<noteq> None \<longrightarrow> cf_receive_supported (in_config d)"
      "in_threads d CCIMP_THREAD_CLI \<noteq> None \<longrightarrow> cf_cli_supported (in_config d)"
      "in_threads d CCIMP_THREAD_FIRMWARE \<noteq> None \<longrightarrow> in_fw_item d \<noteq> None"
      "\<forall>item. in_fw_item d = Some item \<longrightarrow> in_fw_count d \<noteq> 0
        \<and> (\<forall>t \<in> set item. fst (snd t) \<notin> range Callers_String \<and> snd (snd t) \<notin> range Callers_String)"
    using owned unfolding owned_data_def by blast+
  obtain fs where fs: "cf_filesystem_supported (in_config d) = Some fs" "in_virtual_dirs d \<noteq> [] \<longrightarrow> fs"
    using owned by (auto simp: owned_data_def)
  define w1 where "w1 = (if fs then free_filesystem_dir_entry_list ?os (in_virtual_dirs d) (destroy_lock ?os (in_file_system_lock d) w)
      else destroy_lock ?os (in_file_system_lock d) w)"
  have 1: "free_file_system ?os d w = Inr w1" using fs by (simp add: free_file_system_def read_field_def w1_def Let_def)
  have live1: "live w1 = live w - 3 * int (length (in_virtual_dirs d))"
    using fs(2) by (auto simp: w1_def free_dirs_live [OF memory] destroy_lock_live [OF memory])
  obtain d2 w2 where 2: "free_cli ?os d w1 = (d2, w2)" by fastforce
  have l2: "live w2 = live w1 - thread_block (in_threads d) CCIMP_THREAD_CLI" "d2 = set_thread CCIMP_THREAD_CLI None d"
    using reset_thread_if [OF memory _ 2 [unfolded free_cli_def]] threads(3) by auto
  obtain d3 w3 where 3: "free_receive ?os d2 w2 = (d3, w3)" by fastforce
  have l3: "live w3 = live w2 - (if cf_receive_supported (in_config d) then 2 * int (length (in_targets d)) else 0)
      - thread_block (in_threads d) CCIMP_THREAD_RECEIVE" "d3 = set_thread CCIMP_THREAD_RECEIVE None d2"
    using free_receive_live [OF memory _ 3] threads(2) by (simp_all add: l2(2))
  obtain d4 w4 where 4: "free_rci ?os d3 w3 = (d4, w4)" by fastforce
  have l4: "live w4 = live w3 - thread_block (in_threads d) CCIMP_THREAD_RCI" "d4 = set_thread CCIMP_THREAD_RCI None d3"
    using reset_thread_if [OF memory _ 4 [unfolded free_rci_def]] threads(1) by (simp_all add: l3(2) l2(2))
  have d4: "in_threads d4 CCIMP_THREAD_FIRMWARE = in_threads d CCIMP_THREAD_FIRMWARE"
      "in_threads d4 CCIMP_THREAD_FSM = in_threads d CCIMP_THREAD_FSM" "in_fw_item d4 = in_fw_item d"
      "in_fw_count d4 = in_fw_count d" "in_config d4 = in_config d" "in_cond d4 = in_cond d"
    by (simp_all add: l4(2) l3(2) l2(2))
  obtain d5 w5 where 5: "free_firmware ?os d4 w4 = Inr (d5, w5)"
      "live w5 = live w4 - stored_blocks (in_fw_item d) - thread_block (in_threads d) CCIMP_THREAD_FIRMWARE"
      "in_config d5 = in_config d" "in_cond d5 = in_cond d" "in_threads d5 CCIMP_THREAD_FSM = in_threads d CCIMP_THREAD_FSM"
    using free_firmware_live [OF memory, of d4 w4] threads(4,5) by (auto simp: d4 thread_block_def)
  obtain d6 w6 where 6: "free_config ?os d5 w5 = (d6, w6)" by fastforce
  have l6: "live w6 = live w5 - config_blocks (in_config d) - thread_block (in_threads d) CCIMP_THREAD_FSM"
      "in_cond d6 = in_cond d"
    using free_config_live [OF memory 6] 5(3-5) by (simp_all add: thread_block_def)
  obtain cond where cond: "in_cond d = Some cond" using owned by (auto simp: owned_data_def)
  have "\<exists>d' w'. free_condition env d6 (destroy_lock ?os (in_initiate_action_lock d6) w6) = Inr (d', w') \<and> live w' = live w6"
    using counts_instanceD(8) [OF counts] by (auto simp: free_condition_def l6(2) cond read_field_def destroy_lock_live [OF memory]
        split: option.splits)
  then obtain d7 w7 where 7: "free_condition env d6 (destroy_lock ?os (in_initiate_action_lock d6) w6) = Inr (d7, w7)"
    "live w7 = live w6" by blast
  have "free_ccapi_data_internal_resources env d w = Inr (d7, w7)"
    by (simp add: free_ccapi_data_internal_resources_def Let_def 1 2 3 4 5(1) 6 7(1))
  moreover have "live w7 = live w - (data_blocks d - 1)"
    using live1 l2(1) l3(1) l4(1) 5(2) l6(1) 7(2) by (simp add: data_blocks_def thread_blocks_def)
  ultimately show ?thesis by blast
qed

subsection \<open>What stopping leaves alone\<close>

text \<open>The data but for the transports and the status of the threads.\<close>

definition same_data :: "'w ccapi_data_t \<Rightarrow> 'w ccapi_data_t \<Rightarrow> bool" where
  "same_data d d' \<longleftrightarrow>
     in_config d' = in_config d \<and> in_fw_item d' = in_fw_item d \<and> in_fw_count d' = in_fw_count d
     \<and> in_virtual_dirs d' = in_virtual_dirs d \<and> in_targets d' = in_targets d \<and> in_cond d' = in_cond d
     \<and> (\<forall>t. in_threads d' t = None \<longleftrightarrow> in_threads d t = None)"

lemma same_data_refl [simp]: "same_data d d"
  by (simp add: same_data_def)

lemma same_data_trans: "same_data d1 d2 \<Longrightarrow> same_data d2 d3 \<Longrightarrow> same_data d1 d3"
  by (simp add: same_data_def)

lemma only_status_same_data: "only_status d d' \<Longrightarrow> same_data d d'"
  by (simp add: same_data_def only_statusD [of d d'])

lemma same_data_blocks: "same_data d d' \<Longrightarrow> data_blocks d' = data_blocks d"
  by (simp add: same_data_def data_blocks_def thread_blocks_def thread_block_def)

lemma same_data_owned: "same_data d d' \<Longrightarrow> owned_data d \<Longrightarrow> owned_data d'"
  by (simp add: same_data_def owned_data_def)

lemma request_stop_same_data: "in_threads d t = Some info \<Longrightarrow> same_data d (request_stop t info d)"
  by (auto simp: request_stop_def same_data_def)

lemma stop_thread_same:
  assumes counts: "counts_instance env live" and "ccapi_stop_thread env t d w = Some (d', w')"
  shows "same_data d d' \<and> live w' = live w"
proof (cases "in_threads d t")
  case None
  then show ?thesis using assms(2) by (simp add: ccapi_stop_thread_def)
next
  case (Some info)
  note memory = counts_instanceD(1) [OF counts]
  show ?thesis
  proof (cases "ti_lock info")
    case None
    then show ?thesis using assms(2) Some request_stop_same_data [OF Some] by (auto simp: ccapi_stop_thread_def)
  next
    case (Some l)
    obtain d1 w1 where loop: "retry_loop (in_yield env) (\<lambda>(d, w). in_thread_status t d \<noteq> Some CCAPI_THREAD_NOT_STARTED) (\<lambda>x. x)
        (request_stop t info d, snd (ccapi_lock_release (ie_os env) (Some l) w)) = Some (d1, w1)"
      and r: "d' = d1" "w' = snd (ccapi_lock_destroy (ie_os env) (Some l) w1)"
      using assms(2) Some \<open>in_threads d t = Some info\<close> by (auto simp: ccapi_stop_thread_def)
    show ?thesis
      using yield_loop_keeps [OF counts loop] request_stop_same_data [OF \<open>in_threads d t = Some info\<close>]
        counts_memoryD(7,8) [OF memory] r
      by (auto intro: same_data_trans only_status_same_data)
  qed
qed

lemma stop_thread_if_same:
  assumes "counts_instance env live" and "stop_thread_if env wanted t d w = Some (d', w')"
  shows "same_data d d' \<and> live w' = live w"
  using assms(2) stop_thread_same [OF assms(1)] by (auto simp: stop_thread_if_def split: if_splits)

lemma stop_service_threads_same:
  assumes "counts_instance env live" and "stop_service_threads env d w = Some (d', w')"
  shows "same_data d d' \<and> live w' = live w"
  using assms(2) unfolding stop_service_threads_def
  by (auto simp: Option.bind_eq_Some_conv dest!: stop_thread_if_same [OF assms(1)] intro: same_data_trans)

subsection \<open>Stopping the transports\<close>

text \<open>The other threads during the stop of a transport.\<close>

definition same_infos :: "'w ccapi_transports \<Rightarrow> 'w ccapi_transports \<Rightarrow> bool" where
  "same_infos t t' \<longleftrightarrow> tcp_info t' = tcp_info t \<and> udp_info t' = udp_info t \<and> sms_info t' = sms_info t"

definition counts_transports :: "'w tp_env \<Rightarrow> ('w \<Rightarrow> int) \<Rightarrow> bool" where
  "counts_transports env live \<longleftrightarrow>
     counts_memory (te_os env) live
     \<and> (\<forall>d w d' w'. te_others env d w = (d', w') \<longrightarrow> same_infos d d' \<and> live w' = live w)
     \<and> (\<forall>r w. live (snd (te_stop env r w)) = live w)"

lemma initiate_live:
  assumes memory: "counts_memory os live" and init: "\<And>r w. live (snd (initiate r w)) = live w"
    and "initiate_until_not_busy os initiate l rl req w = Some (s, w')"
  shows "live w' = live w"
proof -
  have secure: "live v' = live v" if "connector_initiate_action_secure os initiate l rl req v = (s', v')" for v s' v'
  proof -
    obtain st v1 where 1: "ccapi_lock_acquire os l v = (st, v1)" by fastforce
    obtain cs v2 where 2: "initiate req v1 = (cs, v2)" by fastforce
    obtain st3 v3 where 3: "ccapi_lock_release os l v2 = (st3, v3)" by fastforce
    have "live v1 = live v" "live v2 = live v1" "live v3 = live v2"
      using counts_memoryD(6,7) [OF memory] init 1 2 3 by (metis snd_conv)+
    then show ?thesis
      using that 1 2 3 counts_memoryD(7) [OF memory]
      by (auto simp: connector_initiate_action_secure_def split: ccimp_status_t.splits)
  qed
  have "(\<lambda>(s, v). live v = live w) (s, w')"
  proof (rule retry_loop_invariant [OF assms(3) [unfolded initiate_until_not_busy_def]])
    show "(\<lambda>(s, v). live v = live w) ((\<lambda>(s, v). connector_initiate_action_secure os initiate l rl req v) x)"
      if "(\<lambda>(s, v). live v = live w) x" for x
      using that secure by (cases x; cases "connector_initiate_action_secure os initiate l rl req (snd x)") auto
    show "(\<lambda>(s, v). live v = live w) ((\<lambda>(s, v). (s, os_yield os v)) x)" if "(\<lambda>(s, v). live v = live w) x" for x
      using that counts_memoryD(9) [OF memory] by (cases x) auto
  qed simp
  then show ?thesis by simp
qed

lemma initiate_stop_live:
  assumes "counts_transports env live" and "initiate_stop env d t b w = Some (s, w')"
  shows "live w' = live w"
  using initiate_live [of "te_os env" live "te_stop env"] assms
  by (auto simp: counts_transports_def initiate_stop_def ccapi_initiate_transport_stop_def)

lemma yield_while_same:
  assumes "counts_transports env live" and "yield_while env busy d w = Some (d', w')"
  shows "same_infos d d' \<and> live w' = live w"
proof -
  have step: "same_infos e e' \<and> live v' = live v" if "te_yield env (e, v) = (e', v')" for e v e' v'
    using that assms(1) counts_memoryD(9) [of "te_os env" live v]
    by (auto simp: te_yield_def counts_transports_def)
  have "(\<lambda>(e, v). same_infos d e \<and> live v = live w) (d', w')"
  proof (rule retry_loop_invariant [OF assms(2) [unfolded yield_while_def]])
    show "(\<lambda>(e, v). same_infos d e \<and> live v = live w) (te_yield env x)"
      if "(\<lambda>(e, v). same_infos d e \<and> live v = live w) x" for x
      using that step by (cases x; cases "te_yield env x") (auto simp: same_infos_def)
  qed (auto simp: same_infos_def)
  then show ?thesis by simp
qed

lemma same_infos_blocks:
  assumes "same_infos t t'"
  shows "tcp_blocks t' = tcp_blocks t" "udp_blocks t' = udp_blocks t" "sms_blocks t' = sms_blocks t"
    "no_callers_tcp t' = no_callers_tcp t" "no_callers_sms t' = no_callers_sms t"
  using assms
  by (simp_all add: same_infos_def tcp_blocks_def udp_blocks_def sms_blocks_def no_callers_tcp_def no_callers_sms_def)

lemma transports_of_simps [simp]:
  "tcp_info (transports_of d) = tcp_info (in_transports d)" "udp_info (transports_of d) = udp_info (in_transports d)"
  "sms_info (transports_of d) = sms_info (in_transports d)"
  by (simp_all add: transports_of_def)

lemma put_transports_simps [simp]:
  "in_transports (put_transports t d) = t" "same_data d (put_transports t d)"
  by (auto simp: put_transports_def same_data_def)

lemma stop_tcp_live:
  assumes counts: "counts_transports env live" and owned: "no_callers_tcp t"
    and "ccxapi_stop_transport_tcp env (Some t) (Some b) w = Some r"
  shows "\<exists>e t' w'. r = Inr (e, Some t', w') \<and> live w' - tcp_blocks t' = live w - tcp_blocks t \<and> no_callers_tcp t'
    \<and> udp_info t' = udp_info t \<and> sms_info t' = sms_info t"
proof (cases "tp_running (Some t) \<and> tcp_connected t")
  case False
  then show ?thesis using assms(2,3) by (auto simp: ccxapi_stop_transport_tcp_def)
next
  case True
  obtain s w1 where 1: "initiate_stop env t CCAPI_TRANSPORT_TCP b w = Some (s, w1)"
    using assms(3) True by (auto simp: ccxapi_stop_transport_tcp_def Let_def split: option.splits)
  note live1 = initiate_stop_live [OF counts 1]
  show ?thesis
  proof (cases "s = connector_success")
    case False
    then show ?thesis using assms(2,3) True 1 live1 by (auto simp: ccxapi_stop_transport_tcp_def Let_def)
  next
    case s: True
    obtain t1 w2 where 2: "yield_while env tcp_connected t w1 = Some (t1, w2)"
      using assms(3) True 1 s by (auto simp: ccxapi_stop_transport_tcp_def Let_def split: option.splits)
    note same = yield_while_same [OF counts 2]
    have memory: "counts_memory (te_os env) live" using counts by (simp add: counts_transports_def)
    obtain w3 where 3: "free_tcp_of (te_os env) t1 w2 = Inr w3" "live w3 = live w2 - tcp_blocks t1"
      using free_tcp_of_live [OF memory] owned same_infos_blocks(4) same by blast
    have "t1\<lparr>tcp_info := None\<rparr> = t1" if "tcp_info t1 = None" using that by simp
    then have r: "r = Inr (CCAPI_TCP_STOP_ERROR_NONE, Some (t1\<lparr>tcp_info := None\<rparr>), w3)"
      using assms(3) True 1 s 2 3(1)
      by (cases "tcp_info t1") (auto simp: ccxapi_stop_transport_tcp_def Let_def free_tcp_of_def)
    have "live w3 = live w - tcp_blocks t" using 3(2) same live1 same_infos_blocks by auto
    then show ?thesis
      using same by (simp add: r same_infos_def tcp_blocks_def no_callers_tcp_def)
  qed
qed

lemma stop_udp_live:
  assumes counts: "counts_transports env live"
    and "ccxapi_stop_transport_udp env (Some t) (Some b) w = Some r"
  shows "\<exists>e t' w'. r = Inr (e, Some t', w') \<and> live w' - udp_blocks t' = live w - udp_blocks t
    \<and> tcp_info t' = tcp_info t \<and> sms_info t' = sms_info t"
proof (cases "tp_running (Some t) \<and> udp_started t")
  case False
  then show ?thesis using assms(2) by (auto simp: ccxapi_stop_transport_udp_def)
next
  case True
  obtain s w1 where 1: "initiate_stop env t CCAPI_TRANSPORT_UDP b w = Some (s, w1)"
    using assms(2) True by (auto simp: ccxapi_stop_transport_udp_def Let_def split: option.splits)
  note live1 = initiate_stop_live [OF counts 1]
  show ?thesis
  proof (cases "s = connector_success")
    case False
    then show ?thesis using assms(2) True 1 live1 by (auto simp: ccxapi_stop_transport_udp_def Let_def)
  next
    case s: True
    obtain t1 w2 where 2: "yield_while env udp_started t w1 = Some (t1, w2)"
      using assms(2) True 1 s by (auto simp: ccxapi_stop_transport_udp_def Let_def split: option.splits)
    note same = yield_while_same [OF counts 2]
    have memory: "counts_memory (te_os env) live" using counts by (simp add: counts_transports_def)
    obtain w3 where 3: "free_udp_of (te_os env) t1 w2 = Inr w3" "live w3 = live w2 - udp_blocks t1"
      using free_udp_of_live [OF memory] by blast
    have "t1\<lparr>udp_info := None\<rparr> = t1" if "udp_info t1 = None" using that by simp
    then have r: "r = Inr (CCAPI_UDP_STOP_ERROR_NONE, Some (t1\<lparr>udp_info := None\<rparr>), w3)"
      using assms(2) True 1 s 2 3(1)
      by (cases "udp_info t1") (auto simp: ccxapi_stop_transport_udp_def Let_def free_udp_of_def)
    have "live w3 = live w - udp_blocks t" using 3(2) same live1 same_infos_blocks by auto
    then show ?thesis using same by (simp add: r same_infos_def udp_blocks_def)
  qed
qed

lemma stop_sms_live:
  assumes counts: "counts_transports env live" and owned: "no_callers_sms t"
    and "ccxapi_stop_transport_sms env (Some t) (Some b) w = Some r"
  shows "\<exists>e t' w'. r = Inr (e, Some t', w') \<and> live w' - sms_blocks t' = live w - sms_blocks t \<and> no_callers_sms t'
    \<and> tcp_info t' = tcp_info t \<and> udp_info t' = udp_info t"
proof (cases "tp_running (Some t) \<and> sms_started t")
  case False
  then show ?thesis using assms(2,3) by (auto simp: ccxapi_stop_transport_sms_def)
next
  case True
  obtain s w1 where 1: "initiate_stop env t CCAPI_TRANSPORT_SMS b w = Some (s, w1)"
    using assms(3) True by (auto simp: ccxapi_stop_transport_sms_def Let_def split: option.splits)
  note live1 = initiate_stop_live [OF counts 1]
  show ?thesis
  proof (cases "s = connector_success")
    case False
    then show ?thesis using assms(2,3) True 1 live1 by (auto simp: ccxapi_stop_transport_sms_def Let_def)
  next
    case s: True
    obtain t1 w2 where 2: "yield_while env sms_started t w1 = Some (t1, w2)"
      using assms(3) True 1 s by (auto simp: ccxapi_stop_transport_sms_def Let_def split: option.splits)
    note same = yield_while_same [OF counts 2]
    have memory: "counts_memory (te_os env) live" using counts by (simp add: counts_transports_def)
    obtain w3 where 3: "free_sms_of (te_os env) t1 w2 = Inr w3" "live w3 = live w2 - sms_blocks t1"
      using free_sms_of_live [OF memory] owned same_infos_blocks(5) same by blast
    have "t1\<lparr>sms_info := None\<rparr> = t1" if "sms_info t1 = None" using that by simp
    then have r: "r = Inr (CCAPI_SMS_STOP_ERROR_NONE, Some (t1\<lparr>sms_info := None\<rparr>), w3)"
      using assms(3) True 1 s 2 3(1)
      by (cases "sms_info t1") (auto simp: ccxapi_stop_transport_sms_def Let_def free_sms_of_def)
    have "live w3 = live w - sms_blocks t" using 3(2) same live1 same_infos_blocks by auto
    then show ?thesis
      using same by (simp add: r same_infos_def sms_blocks_def no_callers_sms_def)
  qed
qed

lemma stop_transports_live:
  assumes memory: "counts_memory (ie_os env) live" and counts: "counts_transports (ie_tp env) live"
    and owned: "no_callers_tcp (in_transports d)" "no_callers_sms (in_transports d)"
    and "stop_transports env b d w = Some r"
  shows "\<exists>d' w'. r = Inr (d', w') \<and> same_data d d' \<and> live w' = live w - transport_blocks (in_transports d)"
proof -
  let ?os = "ie_os env"
  obtain r1 where 1: "stop_transport_if (tcp_connected (in_transports d))
      (\<lambda>t. ccxapi_stop_transport_tcp (ie_tp env) (Some t) (Some b)) (free_tcp_of ?os) d w = Some r1"
    using assms(5) by (auto simp: stop_transports_def Let_def run_bind_def split: option.splits)
  have "\<exists>d1 w1. r1 = Inr (d1, w1) \<and> same_data d d1 \<and> live w1 = live w - tcp_blocks (in_transports d)
      \<and> udp_info (in_transports d1) = udp_info (in_transports d) \<and> sms_info (in_transports d1) = sms_info (in_transports d)"
  proof (cases "tcp_connected (in_transports d)")
    case True
    then obtain x where x: "ccxapi_stop_transport_tcp (ie_tp env) (Some (transports_of d)) (Some b) w = Some x"
      using 1 by (auto simp: stop_transport_if_def run_bind_def split: option.splits)
    have "no_callers_tcp (transports_of d)" using owned(1) by (simp add: no_callers_tcp_def)
    from stop_tcp_live [OF counts this x] obtain e t w1 where t: "x = Inr (e, Some t, w1)"
      "live w1 - tcp_blocks t = live w - tcp_blocks (in_transports d)" "no_callers_tcp t"
      "udp_info t = udp_info (in_transports d)" "sms_info t = sms_info (in_transports d)"
      by (auto simp: tcp_blocks_def)
    obtain w2 where "free_tcp_of ?os t w1 = Inr w2" "live w2 = live w1 - tcp_blocks t"
      using free_tcp_of_live [OF memory t(3)] by blast
    then show ?thesis using 1 True x t by (auto simp: stop_transport_if_def)
  next
    case False
    obtain w2 where "free_tcp_of ?os (in_transports d) w = Inr w2" "live w2 = live w - tcp_blocks (in_transports d)"
      using free_tcp_of_live [OF memory owned(1)] by blast
    then show ?thesis using 1 False by (auto simp: stop_transport_if_def)
  qed
  then obtain d1 w1 where d1: "r1 = Inr (d1, w1)" "same_data d d1" "live w1 = live w - tcp_blocks (in_transports d)"
    "udp_info (in_transports d1) = udp_info (in_transports d)" "sms_info (in_transports d1) = sms_info (in_transports d)"
    by blast
  obtain r2 where 2: "stop_transport_if (udp_started (in_transports d1))
      (\<lambda>t. ccxapi_stop_transport_udp (ie_tp env) (Some t) (Some b)) (free_udp_of ?os) d1 w1 = Some r2"
    using assms(5) 1 d1(1) by (auto simp: stop_transports_def Let_def run_bind_def split: option.splits)
  have "\<exists>d2 w2. r2 = Inr (d2, w2) \<and> same_data d1 d2 \<and> live w2 = live w1 - udp_blocks (in_transports d1)
      \<and> sms_info (in_transports d2) = sms_info (in_transports d1)"
  proof (cases "udp_started (in_transports d1)")
    case True
    then obtain x where x: "ccxapi_stop_transport_udp (ie_tp env) (Some (transports_of d1)) (Some b) w1 = Some x"
      using 2 by (auto simp: stop_transport_if_def run_bind_def split: option.splits)
    from stop_udp_live [OF counts x] obtain e t w2 where t: "x = Inr (e, Some t, w2)"
      "live w2 - udp_blocks t = live w1 - udp_blocks (in_transports d1)" "sms_info t = sms_info (in_transports d1)"
      by (auto simp: udp_blocks_def)
    obtain w3 where "free_udp_of ?os t w2 = Inr w3" "live w3 = live w2 - udp_blocks t"
      using free_udp_of_live [OF memory] by blast
    then show ?thesis using 2 True x t by (auto simp: stop_transport_if_def)
  next
    case False
    obtain w3 where "free_udp_of ?os (in_transports d1) w1 = Inr w3" "live w3 = live w1 - udp_blocks (in_transports d1)"
      using free_udp_of_live [OF memory] by blast
    then show ?thesis using 2 False by (auto simp: stop_transport_if_def)
  qed
  then obtain d2 w2 where d2: "r2 = Inr (d2, w2)" "same_data d1 d2" "live w2 = live w1 - udp_blocks (in_transports d1)"
    "sms_info (in_transports d2) = sms_info (in_transports d1)" by blast
  have 3: "stop_transport_if (sms_started (in_transports d2))
      (\<lambda>t. ccxapi_stop_transport_sms (ie_tp env) (Some t) (Some b)) (free_sms_of ?os) d2 w2 = Some r"
    using assms(5) 1 d1(1) 2 d2(1) by (simp add: stop_transports_def Let_def)
  have sms: "no_callers_sms (in_transports d2)" using owned(2) d1(5) d2(4) by (simp add: no_callers_sms_def)
  have "\<exists>d3 w3. r = Inr (d3, w3) \<and> same_data d2 d3 \<and> live w3 = live w2 - sms_blocks (in_transports d2)"
  proof (cases "sms_started (in_transports d2)")
    case True
    then obtain x where x: "ccxapi_stop_transport_sms (ie_tp env) (Some (transports_of d2)) (Some b) w2 = Some x"
      using 3 by (auto simp: stop_transport_if_def run_bind_def split: option.splits)
    have "no_callers_sms (transports_of d2)" using sms by (simp add: no_callers_sms_def)
    from stop_sms_live [OF counts this x] obtain e t w3 where t: "x = Inr (e, Some t, w3)"
      "live w3 - sms_blocks t = live w2 - sms_blocks (in_transports d2)" "no_callers_sms t"
      by (auto simp: sms_blocks_def)
    obtain w4 where "free_sms_of ?os t w3 = Inr w4" "live w4 = live w3 - sms_blocks t"
      using free_sms_of_live [OF memory t(3)] by blast
    then show ?thesis using 3 True x t by (auto simp: stop_transport_if_def)
  next
    case False
    obtain w4 where "free_sms_of ?os (in_transports d2) w2 = Inr w4" "live w4 = live w2 - sms_blocks (in_transports d2)"
      using free_sms_of_live [OF memory sms] by blast
    then show ?thesis using 3 False by (auto simp: stop_transport_if_def)
  qed
  then obtain d3 w3 where d3: "r = Inr (d3, w3)" "same_data d2 d3" "live w3 = live w2 - sms_blocks (in_transports d2)"
    by blast
  have "transport_blocks (in_transports d)
      = tcp_blocks (in_transports d) + udp_blocks (in_transports d1) + sms_blocks (in_transports d2)"
    using d1(4,5) d2(4) by (simp add: transport_blocks_def udp_blocks_def sms_blocks_def)
  then show ?thesis using d1 d2 d3 by (auto intro: same_data_trans)
qed

subsection \<open>The end of a stop\<close>

lemma release_all_live:
  assumes "counts_instance env live" and "owned_data d"
  shows "\<exists>d' lg' w'. release_all env d lg w = Inr (Freed d', lg', w') \<and> live w' = live w - data_blocks d"
proof -
  note memory = counts_instanceD(1) [OF assms(1)]
  obtain d1 w1 where 1: "free_ccapi_data_internal_resources env d w = Inr (d1, w1)" "live w1 = live w - (data_blocks d - 1)"
    using free_internal_live [OF assms] by blast
  obtain lg' w2 where 2: "free_logging_resources (ie_os env) lg (snd (ccapi_free (ie_os env) True w1)) = (lg', w2)" by fastforce
  have "live w2 = live (snd (ccapi_free (ie_os env) True w1))"
    using 2 destroy_lock_live [OF memory] by (auto simp: free_logging_resources_def Let_def split: if_splits)
  then show ?thesis
    using 1 2 counts_memoryD(2) [OF memory, of w1] by (simp add: release_all_def)
qed

lemma terminate_and_stop_live:
  assumes counts: "counts_instance env live" and owned: "owned_data d"
    and "terminate_and_stop env d lg w = Some r"
  shows "\<exists>e h lg' w'. r = Inr (e, h, lg', w')
    \<and> (e = CCAPI_STOP_ERROR_NONE \<longrightarrow> (\<exists>d'. h = Freed d') \<and> live w' = live w - data_blocks d)
    \<and> (e \<noteq> CCAPI_STOP_ERROR_NONE \<longrightarrow> (\<exists>d'. h = Live d') \<and> live w' = live w)"
proof -
  note memory = counts_instanceD(1) [OF counts]
  obtain s w1 where 1: "initiate_until_not_busy (ie_os env) (\<lambda>u. ie_terminate env) (in_initiate_action_lock d) (run_lock_of d) () w
      = Some (s, w1)"
    using assms(3) by (auto simp: terminate_and_stop_def split: option.splits)
  obtain d2 w2 where 2: "retry_loop (in_yield env) (\<lambda>(d, w). in_thread_status CCIMP_THREAD_FSM d \<noteq> Some CCAPI_THREAD_NOT_STARTED)
      (\<lambda>x. x) (d, w1) = Some (d2, w2)"
    using assms(3) 1 by (auto simp: terminate_and_stop_def split: option.splits)
  obtain d3 w3 where 3: "ccapi_stop_thread env CCIMP_THREAD_FSM d2 w2 = Some (d3, w3)"
    using assms(3) 1 2 by (auto simp: terminate_and_stop_def Option.bind_eq_Some_conv split: option.splits)
  obtain d4 w4 where 4: "stop_service_threads env d3 w3 = Some (d4, w4)"
    using assms(3) 1 2 3 by (auto simp: terminate_and_stop_def split: option.splits)
  have "\<And>r v. live (snd (ie_terminate env v)) = live v" using counts by (simp add: counts_instance_def)
  from initiate_live [OF memory this 1] have live1: "live w1 = live w" .
  have same: "same_data d d4 \<and> live w4 = live w"
    using yield_loop_keeps [OF counts 2] stop_thread_same [OF counts 3] stop_service_threads_same [OF counts 4] live1
    by (metis only_status_same_data same_data_trans)
  show ?thesis
  proof (cases "s = connector_success")
    case True
    obtain d5 lg' w5 where "release_all env d4 lg w4 = Inr (Freed d5, lg', w5)" "live w5 = live w4 - data_blocks d4"
      using release_all_live [OF counts] same_data_owned owned same by blast
    then show ?thesis
      using assms(3) 1 2 3 4 True same same_data_blocks [of d d4] by (auto simp: terminate_and_stop_def)
  next
    case False
    then show ?thesis using assms(3) 1 2 3 4 same by (auto simp: terminate_and_stop_def)
  qed
qed

end
