(* ===== verification/InitClaims.thy ===== *)
theory InitClaims
  imports InitFree
begin

text \<open>
  The properties of starting and stopping the library: a start configures the instance and owns
  what it allocated, stopping it frees that; and the starts and stops that go wrong.
\<close>

subsection \<open>An example\<close>

text \<open>
  The world counts the blocks and remembers whether the connector was terminated. A thread that is
  started runs at the next yield, one that is asked to stop stops, and so does the connector after
  it was terminated.
\<close>

type_synonym ex_world = "int \<times> bool"

definition ex_count_os :: "ex_world os" where
  "ex_count_os =
     \<lparr>os_malloc = (\<lambda>req (n, b). ((CCIMP_STATUS_OK, True), (n + 1, b))), os_free = (\<lambda>(n, b). (CCIMP_STATUS_OK, (n - 1, b))),
      os_lock_create = (\<lambda>w. ((CCIMP_STATUS_OK, Some 1), w)),
      os_lock_acquire = (\<lambda>l t w. ((CCIMP_STATUS_OK, True), w)),
      os_lock_release = (\<lambda>l w. (CCIMP_STATUS_OK, w)), os_lock_destroy = (\<lambda>l w. (CCIMP_STATUS_OK, w)),
      os_yield = (\<lambda>w. w), build_debug = False\<rparr>"

definition ex_count_tp :: "ex_world tp_env" where
  "ex_count_tp =
     \<lparr>te_os = ex_count_os, te_start = (\<lambda>t w. (connector_success, w)), te_stop = (\<lambda>r w. (connector_success, w)),
      te_others = (\<lambda>d w. (d, w)), te_system_time = (\<lambda>w. (0, w)),
      te_condition_wait = (\<lambda>ms d w. Some (CCIMP_STATUS_OK, d, w))\<rparr>"

definition ex_next_status :: "bool \<Rightarrow> ccimp_os_thread_type_t \<Rightarrow> ccapi_thread_status_t \<Rightarrow> ccapi_thread_status_t" where
  "ex_next_status terminated t s =
     (case s of
        CCAPI_THREAD_REQUEST_START \<Rightarrow> CCAPI_THREAD_RUNNING
      | CCAPI_THREAD_REQUEST_STOP \<Rightarrow> CCAPI_THREAD_NOT_STARTED
      | CCAPI_THREAD_RUNNING \<Rightarrow> if terminated \<and> t = CCIMP_THREAD_FSM then CCAPI_THREAD_NOT_STARTED else CCAPI_THREAD_RUNNING
      | CCAPI_THREAD_NOT_STARTED \<Rightarrow> CCAPI_THREAD_NOT_STARTED)"

definition ex_init_env :: "ex_world ccapi_data_t \<Rightarrow> ex_world init_env" where
  "ex_init_env block =
     \<lparr>ie_tp = ex_count_tp,
      ie_others = (\<lambda>d w. (d\<lparr>in_threads := (\<lambda>t. map_option (\<lambda>i. i\<lparr>ti_status := ex_next_status (snd w) t (ti_status i)\<rparr>)
        (in_threads d t))\<rparr>, w)),
      ie_create_thread = (\<lambda>t w. (CCIMP_STATUS_OK, w)), ie_connector_init = (\<lambda>w. (Some 1, w)),
      ie_terminate = (\<lambda>w. (connector_success, (fst w, True))), ie_condition_alloc = (\<lambda>w. (Some 2, w)),
      ie_condition_init = (\<lambda>c w. (CCIMP_STATUS_OK, w)), ie_condition_destroy = (\<lambda>c w. w), ie_condition_free = (\<lambda>c w. w),
      ie_new_block = block, ie_stub_request = 3\<rparr>"

definition ex_start_args :: ccapi_start_t where
  "ex_start_args =
     \<lparr>sta_vendor_id = 1, sta_device_id = replicate 16 7,
      sta_device_type = Some ''gateway'', sta_device_cloud_url = Some ''cloud'', sta_status = None,
      sta_receive = None, sta_firmware = None, sta_rci = None,
      sta_file_system = Some \<lparr>fsv_access = None, fsv_changed = None\<rparr>, sta_cli = None, sta_sm = None,
      sta_streaming_cli = None\<rparr>"

definition ex_logging :: logging_state where
  "ex_logging = \<lparr>logging_lock_users = 0, logging_lock = None\<rparr>"

lemma ex_count_memory: "counts_memory ex_count_os fst"
  by (auto simp: counts_memory_def ex_count_os_def ccapi_malloc_def ccapi_free_def)

lemma ex_others_only_status:
  "only_status d (d\<lparr>in_threads := (\<lambda>t. map_option (\<lambda>i. i\<lparr>ti_status := f t (ti_status i)\<rparr>) (in_threads d t))\<rparr>)"
  unfolding only_status_def
  by (rule exI [of _ "\<lambda>t. case in_threads d t of None \<Rightarrow> undefined | Some i \<Rightarrow> f t (ti_status i)"],
      rule exI [of _ "tcp_connected (in_transports d)"], rule exI [of _ "udp_started (in_transports d)"],
      rule exI [of _ "sms_started (in_transports d)"])
    (auto simp: fun_eq_iff map_option_case split: option.splits intro!: ccapi_data_t.equality ccapi_transports.equality)

lemma ex_counts_instance: "counts_instance (ex_init_env block) fst"
  unfolding counts_instance_def
  using ex_count_memory ex_others_only_status by (auto simp: ex_init_env_def ex_count_tp_def)

lemma ex_counts_transports: "counts_transports ex_count_tp fst"
  using ex_count_memory by (auto simp: counts_transports_def ex_count_tp_def same_infos_def)

lemma ex_count_os_simps [simp]:
  "ccapi_malloc ex_count_os req (n, b) = (True, (n + 1, b))"
  "ccapi_strdup ex_count_os s (n, b) = (Some s, (n + 1, b))"
  "ccapi_free ex_count_os True (n, b) = (CCIMP_STATUS_OK, (n - 1, b))"
  "ccapi_lock_create ex_count_os w = (Some 1, w)"
  "ccapi_lock_create_and_release ex_count_os w = (Some 1, w)"
  "ccapi_lock_release ex_count_os l w = (CCIMP_STATUS_OK, w)"
  "os_yield ex_count_os w = w"
  "build_debug ex_count_os = False"
  "te_os ex_count_tp = ex_count_os"
  by (simp_all add: ex_count_os_def ex_count_tp_def ccapi_malloc_def ccapi_free_def ccapi_lock_create_def
      ccapi_lock_create_and_release_def ccapi_lock_release_def ccapi_strdup_def)

lemma ex_init_env_simps [simp]:
  "ie_tp (ex_init_env block) = ex_count_tp"
  "ie_create_thread (ex_init_env block) t w = (CCIMP_STATUS_OK, w)"
  "ie_connector_init (ex_init_env block) w = (Some 1, w)"
  "ie_condition_alloc (ex_init_env block) w = (Some 2, w)"
  "ie_condition_init (ex_init_env block) c w = (CCIMP_STATUS_OK, w)"
  "in_yield (ex_init_env block) (d, w) =
     (d\<lparr>in_threads := (\<lambda>t. map_option (\<lambda>i. i\<lparr>ti_status := ex_next_status (snd w) t (ti_status i)\<rparr>) (in_threads d t))\<rparr>, w)"
  by (simp_all add: ex_init_env_def in_yield_def)

lemma ex_create_thread:
  "\<exists>d'. ccapi_create_and_start_thread (ex_init_env block) CCIMP_THREAD_FSM d (n, False) =
     Some (CCAPI_START_ERROR_NONE, d', (n + 1, False))
   \<and> in_config d' = in_config d \<and> in_thread_status CCIMP_THREAD_FSM d' = Some CCAPI_THREAD_RUNNING"
proof -
  let ?d1 = "set_thread CCIMP_THREAD_FSM (Some \<lparr>ti_status = CCAPI_THREAD_REQUEST_START, ti_lock = Some 1\<rparr>) d"
  obtain d2 where y: "in_yield (ex_init_env block) (?d1, (n + 1, False)) = (d2, (n + 1, False))"
    and d2: "in_config d2 = in_config d" "in_thread_status CCIMP_THREAD_FSM d2 = Some CCAPI_THREAD_RUNNING"
    by (simp add: in_thread_status_def ex_next_status_def)
  have "retry_loop (in_yield (ex_init_env block))
      (\<lambda>(d, w). in_thread_status CCIMP_THREAD_FSM d = Some CCAPI_THREAD_REQUEST_START) (\<lambda>x. x) (?d1, (n + 1, False))
      = Some (d2, (n + 1, False))"
    by (subst retry_loop_once) (simp_all only: y d2 prod.case option.inject ccapi_thread_status_t.distinct not_False_eq_True)
  then show ?thesis
    using d2 by (simp add: ccapi_create_and_start_thread_def Let_def del: ex_init_env_simps(6))
qed

text \<open>The configuration of the example has no service with a thread.\<close>

definition ex_no_threads :: "ex_world ccapi_data_t \<Rightarrow> bool" where
  "ex_no_threads d \<longleftrightarrow>
     \<not> cf_rci_supported (in_config d) \<and> \<not> cf_receive_supported (in_config d) \<and> \<not> cf_cli_supported (in_config d)
     \<and> \<not> cf_firmware_supported (in_config d)"

lemma ex_start_identity:
  "\<exists>d. start_identity ex_count_os ex_start_args (new_ccapi_data block) (1, False) = start_ok d (3, False) \<and> ex_no_threads d"
  by (simp add: start_identity_def check_params_def ex_start_args_def start_ok_def ex_no_threads_def upd_config_def new_ccapi_data_def)

lemma ex_start_services:
  "\<exists>d'. start_then (start_file_system ex_start_args) (start_then (start_services (ex_init_env block) ex_start_args)
      (start_connector (ex_init_env block))) d w = start_ok d' w \<and> (ex_no_threads d \<longrightarrow> ex_no_threads d')"
  by (simp add: start_then_def start_file_system_def start_services_def start_firmware_def start_receive_def start_cli_def
      start_sm_def start_rci_def start_streaming_cli_def start_connector_def ex_start_args_def start_ok_def ex_no_threads_def
      upd_config_def)

lemma ex_start_threads:
  assumes "ex_no_threads d"
  shows "\<exists>d'. start_then (start_threads (ex_init_env block) ex_start_args) (start_locks ex_count_os) d (n, False) =
      start_ok d' (n + 1, False) \<and> in_thread_status CCIMP_THREAD_FSM d' = Some CCAPI_THREAD_RUNNING"
proof -
  obtain d' where "ccapi_create_and_start_thread (ex_init_env block) CCIMP_THREAD_FSM d (n, False) =
      Some (CCAPI_START_ERROR_NONE, d', (n + 1, False))" and d': "in_config d' = in_config d"
      "in_thread_status CCIMP_THREAD_FSM d' = Some CCAPI_THREAD_RUNNING"
    using ex_create_thread by blast
  then show ?thesis
    using assms
    by (simp add: start_then_def start_threads_def start_thread_def start_locks_def start_ok_def ex_no_threads_def
        in_thread_status_def)
qed

lemma start_then_ok: "a d w = start_ok d1 w1 \<Longrightarrow> start_then a b d w = b d1 w1"
  by (simp add: start_then_def start_ok_def)

lemma start_then_assoc: "start_then (start_then a b) c = start_then a (start_then b c)"
  by (auto simp: fun_eq_iff start_then_def run_bind_def split: option.splits sum.splits if_splits)

lemma ex_started:
  "\<exists>d. ccxapi_start (ex_init_env block) (Some Null_Handle) (Some ex_start_args) ex_logging (0, False) =
       Some (Inr (CCAPI_START_ERROR_NONE, Some (Live d), ex_logging, (4, False)))
     \<and> in_thread_status CCIMP_THREAD_FSM d = Some CCAPI_THREAD_RUNNING"
proof -
  obtain d1 where 1: "start_identity ex_count_os ex_start_args (new_ccapi_data block) (1, False) = start_ok d1 (3, False)"
    "ex_no_threads d1" using ex_start_identity by blast
  obtain d2 where 2: "start_then (start_file_system ex_start_args) (start_then (start_services (ex_init_env block) ex_start_args)
      (start_connector (ex_init_env block))) d1 (3, False) = start_ok d2 (3, False)" "ex_no_threads d2"
    using ex_start_services 1(2) by blast
  obtain d3 where 3: "start_then (start_threads (ex_init_env block) ex_start_args) (start_locks ex_count_os) d2 (3, False) =
      start_ok d3 (4, False)" "in_thread_status CCIMP_THREAD_FSM d3 = Some CCAPI_THREAD_RUNNING"
    using ex_start_threads [OF 2(2), of block 3] by auto
  have "start_block (ex_init_env block) (Some ex_start_args) (new_ccapi_data block) (1, False) =
      start_then (start_then (start_file_system ex_start_args) (start_then (start_services (ex_init_env block) ex_start_args)
        (start_connector (ex_init_env block))))
       (start_then (start_threads (ex_init_env block) ex_start_args) (start_locks ex_count_os)) d1 (3, False)"
    by (simp add: start_block_def start_then_ok [where a = "start_identity ex_count_os ex_start_args", OF 1(1)] start_then_assoc)
  also have "\<dots> = start_ok d3 (4, False)"
    by (subst start_then_ok [where a = "start_then (start_file_system ex_start_args) (start_then (start_services (ex_init_env block) ex_start_args)
        (start_connector (ex_init_env block)))", OF 2(1)]) (rule 3(1))
  finally show ?thesis
    using 3(2) by (simp add: ccxapi_start_def start_logging_def start_ok_def Let_def ex_init_env_def)
qed

text \<open>An instance that runs, with a virtual directory and a configuration of the UDP transport.\<close>

definition ex_live :: "ex_world ccapi_data_t \<Rightarrow> ex_world ccapi_data_t" where
  "ex_live block =
     block\<lparr>in_config := config_of_start ex_start_args,
           in_threads := (\<lambda>t. if t = CCIMP_THREAD_FSM then Some \<lparr>ti_status = CCAPI_THREAD_RUNNING, ti_lock = Some 1\<rparr> else None),
           in_initiate_action_lock := Some 1, in_file_system_lock := Some 1, in_virtual_dirs := [(''/cloud'', ''/local'')],
           in_fw_count := 0, in_fw_item := None, in_cond := Some (Some 2),
           in_transports := (no_transports (in_transports block))
             \<lparr>udp_info := Some \<lparr>udp_close_cb = None, udp_start_timeout = 1, udp_max_sessions = 0, udp_rx_timeout = 0\<rparr>\<rparr>\<rparr>"

lemma ex_live_config:
  "cf_rci_supported (config_of_start ex_start_args) = False" "cf_receive_supported (config_of_start ex_start_args) = False"
  "cf_cli_supported (config_of_start ex_start_args) = False" "cf_firmware_supported (config_of_start ex_start_args) = False"
  "cf_filesystem_supported (config_of_start ex_start_args) = Some True" "config_blocks (config_of_start ex_start_args) = 2"
  by (simp_all add: config_of_start_def ex_start_args_def config_blocks_def)

lemma ex_live_owned: "owned_instance (ex_live block)" and ex_live_blocks: "instance_blocks (ex_live block) = 8"
  by (simp_all add: owned_instance_def owned_data_def ex_live_def no_callers_tcp_def no_callers_sms_def ex_live_config
      instance_blocks_def data_blocks_def thread_blocks_def thread_block_def stored_blocks_def transport_blocks_def
      tcp_blocks_def udp_blocks_def sms_blocks_def no_transports_def)

lemma ex_stop_transports:
  "\<exists>d' n. stop_transports (ex_init_env block) b (ex_live block) (8, False) = Some (Inr (d', (n, False)))
    \<and> in_config d' = config_of_start ex_start_args \<and> in_initiate_action_lock d' = Some 1
    \<and> in_threads d' = in_threads (ex_live block) \<and> owned_data d'"
proof -
  obtain d' n where stop: "stop_transports (ex_init_env block) b (ex_live block) (8, False) = Some (Inr (d', (n, False)))"
    "in_config d' = config_of_start ex_start_args" "in_initiate_action_lock d' = Some 1" "in_threads d' = in_threads (ex_live block)"
    by (simp add: stop_transports_def stop_transport_if_def free_tcp_of_def free_udp_of_def free_sms_of_def
        free_transport_udp_info_def ex_live_def no_transports_def Let_def)
  have owned: "owned_data (ex_live block)" "no_callers_tcp (in_transports (ex_live block))"
    "no_callers_sms (in_transports (ex_live block))" using ex_live_owned by (auto simp: owned_instance_def)
  have "counts_transports (ie_tp (ex_init_env block)) fst" using ex_counts_transports by simp
  from stop_transports_live [OF counts_instanceD(1) [OF ex_counts_instance] this owned(2,3) stop(1)]
  have "same_data (ex_live block) d'" by auto
  from same_data_owned [OF this owned(1)] show ?thesis using stop by blast
qed

lemma ex_terminate:
  assumes "in_config d = config_of_start ex_start_args" and "in_initiate_action_lock d = Some 1"
    and "in_threads d = in_threads (ex_live block)" and "owned_data d"
  shows "\<exists>h lg w'. terminate_and_stop (ex_init_env block) d ex_logging (n, False) = Some (Inr (CCAPI_STOP_ERROR_NONE, h, lg, w'))"
proof -
  let ?env = "ex_init_env block"
  have init: "initiate_until_not_busy ex_count_os (\<lambda>u. ie_terminate ?env) (in_initiate_action_lock d) (run_lock_of d) () (n, False)
      = Some (connector_success, (n, True))"
    by (rule initiate_not_busy_once)
      (simp_all add: connector_initiate_action_secure_def assms(2) ex_init_env_def ccapi_lock_acquire_def ex_count_os_def
        ccapi_lock_release_def)
  define d1 where "d1 = d\<lparr>in_threads := (\<lambda>t. map_option (\<lambda>i. i\<lparr>ti_status := ex_next_status True t (ti_status i)\<rparr>) (in_threads d t))\<rparr>"
  have d1: "in_thread_status CCIMP_THREAD_FSM d1 = Some CCAPI_THREAD_NOT_STARTED" "in_config d1 = config_of_start ex_start_args"
    "in_threads d1 CCIMP_THREAD_FSM = Some \<lparr>ti_status = CCAPI_THREAD_NOT_STARTED, ti_lock = Some 1\<rparr>"
    by (simp_all add: d1_def in_thread_status_def assms(1,3) ex_live_def ex_next_status_def)
  have wait: "retry_loop (in_yield ?env) (\<lambda>(d, w). in_thread_status CCIMP_THREAD_FSM d \<noteq> Some CCAPI_THREAD_NOT_STARTED)
      (\<lambda>x. x) (d, (n, True)) = Some (d1, (n, True))"
    by (subst retry_loop_once) (simp_all add: d1_def [symmetric] d1(1))
  define d2 where "d2 = d1\<lparr>in_threads := (\<lambda>t. map_option (\<lambda>i. i\<lparr>ti_status := ex_next_status True t (ti_status i)\<rparr>) (in_threads d1 t))\<rparr>"
  have d2: "in_thread_status CCIMP_THREAD_FSM d2 = Some CCAPI_THREAD_NOT_STARTED" "in_config d2 = config_of_start ex_start_args"
    by (simp_all add: d2_def in_thread_status_def d1 ex_next_status_def)
  have "retry_loop (in_yield ?env) (\<lambda>(d, w). in_thread_status CCIMP_THREAD_FSM d \<noteq> Some CCAPI_THREAD_NOT_STARTED)
      (\<lambda>x. x) (d1, (n, True)) = Some (d2, (n, True))"
    by (subst retry_loop_once) (simp_all add: d2_def [symmetric] d2(1))
  then have stop: "ccapi_stop_thread ?env CCIMP_THREAD_FSM d1 (n, True) = Some (d2, snd (ccapi_lock_destroy ex_count_os (Some 1) (n, True)))"
    by (simp add: ccapi_stop_thread_def d1(3) request_stop_def)
  have services: "stop_service_threads ?env d2 w = Some (d2, w)" for w
    by (simp add: stop_service_threads_def stop_thread_if_def d2(2) ex_live_config)
  have "same_data d d2" by (simp add: same_data_def d2_def d1_def)
  then obtain d' lg' w' where "release_all ?env d2 ex_logging (snd (ccapi_lock_destroy ex_count_os (Some 1) (n, True)))
      = Inr (Freed d', lg', w')"
    using release_all_live [OF ex_counts_instance] same_data_owned assms(4) by blast
  then show ?thesis by (simp add: terminate_and_stop_def init wait stop services)
qed

lemma ex_stopped:
  "\<exists>h lg w'. ccxapi_stop (ex_init_env block) (Live (ex_live block)) CCAPI_STOP_GRACEFULLY ex_logging (8, False) =
     Some (Inr (CCAPI_STOP_ERROR_NONE, h, lg, w'))"
proof -
  have "in_thread_status CCIMP_THREAD_FSM (ex_live block) = Some CCAPI_THREAD_RUNNING"
    by (simp add: in_thread_status_def ex_live_def)
  moreover obtain d' n where "stop_transports (ex_init_env block) (ccapi_stop_to_ccapi_transport_stop CCAPI_STOP_GRACEFULLY)
      (ex_live block) (8, False) = Some (Inr (d', (n, False)))" "in_config d' = config_of_start ex_start_args"
      "in_initiate_action_lock d' = Some 1" "in_threads d' = in_threads (ex_live block)" "owned_data d'"
    using ex_stop_transports by blast
  ultimately show ?thesis using ex_terminate [of d' block n] by (simp add: ccxapi_stop_def)
qed

subsection \<open>The properties\<close>

lemma start_refused_NONE:
  "start_refused os error handle l v = Some (Inr (CCAPI_START_ERROR_NONE, h', l', v')) \<longleftrightarrow>
     error = CCAPI_START_ERROR_NONE \<and> h' = handle \<and> free_logging_resources os l v = (l', v')"
  by (auto simp: start_refused_def split: prod.splits)

lemma started_block:
  assumes "counts_instance env live"
    and "ccxapi_start env (Some Null_Handle) (Some start) lg w = Some (Inr (CCAPI_START_ERROR_NONE, h, lg', w'))"
  shows "\<exists>d w1. h = Some (Live d) \<and> live w1 = live w + 1
    \<and> start_block env (Some start) (new_ccapi_data (ie_new_block env)) w1 = Some (Inr (CCAPI_START_ERROR_NONE, d, w'))"
proof -
  note memory = counts_instanceD(1) [OF assms(1)]
  obtain ok lg1 w1 where 1: "start_logging (ie_os env) lg w = (ok, lg1, w1)" by (cases "start_logging (ie_os env) lg w")
  have live1: "live w1 = live w"
    using 1 counts_memoryD(10) [OF memory] counts_memoryD(7) [OF memory]
    by (auto simp: start_logging_def Let_def split: if_splits prod.splits) (metis snd_conv)+
  obtain ok2 w2 where 2: "ccapi_malloc (ie_os env) (Sizeof ''ccapi_data_t'') w1 = (ok2, w2)" by fastforce
  have ok: "ok" "ok2"
    using assms(2) 1 2 by (auto simp: ccxapi_start_def Let_def start_refused_NONE split: bool.splits)
  have "live w2 = live w + 1" using counts_memoryD(1) [OF memory 2] ok live1 by simp
  moreover have "\<exists>d. h = Some (Live d)
      \<and> start_block env (Some start) (new_ccapi_data (ie_new_block env)) w2 = Some (Inr (CCAPI_START_ERROR_NONE, d, w'))"
    using assms(2) 1 2 ok
    by (auto simp: ccxapi_start_def Let_def run_bind_def start_refused_NONE split: if_splits option.splits sum.splits)
  ultimately show ?thesis by blast
qed

text \<open>
  C36. A start that succeeds configures the instance. The configuration is the one asked for, the
  threads are those of the services asked for, both locks are there, and the connector's eleven
  requests that read it are answered so: the device type, the cloud, the device and the vendor are
  those of the caller; firmware is supported with a firmware service or the remote configuration,
  files, the remote configuration and the streaming command line where the caller asked for them,
  and data always, whatever the caller asked. Whether keys are distributed and what the remote
  configuration describes is written only by a start with short messages and with the remote
  configuration: in another instance these two requests read what was never written.
\<close>

theorem start_configures_instance:
  assumes "counts_instance env live"
    and "ccxapi_start env (Some Null_Handle) (Some start) lg w = Some (Inr (CCAPI_START_ERROR_NONE, h, lg', w'))"
  shows "\<exists>d. h = Some (Live d) \<and> in_config d = config_of_start start
    \<and> (\<forall>t. in_threads d t \<noteq> None \<longleftrightarrow> thread_wanted (config_of_start start) (sta_firmware start \<noteq> None) t)
    \<and> in_initiate_action_lock d \<noteq> None \<and> in_file_system_lock d \<noteq> None
    \<and> (let asked = (\<lambda>request. ccapi_config_handler os (in_config d) request transports v);
           told = (\<lambda>answer. Inr (connector_callback_continue, answer, transports, v))
       in asked connector_request_id_config_device_type = told (Config_String (the (sta_device_type start)))
         \<and> asked connector_request_id_config_device_cloud_url = told (Config_String (the (sta_device_cloud_url start)))
         \<and> asked connector_request_id_config_device_id = told (Config_Data (sta_device_id start))
         \<and> asked connector_request_id_config_vendor_id = told (Config_Number (ucast (sta_vendor_id start)))
         \<and> asked connector_request_id_config_firmware_facility
             = told (Config_Supported (sta_firmware start \<noteq> None \<or> sta_rci start \<noteq> None))
         \<and> asked connector_request_id_config_file_system = told (Config_Supported (sta_file_system start \<noteq> None))
         \<and> asked connector_request_id_config_remote_configuration = told (Config_Supported (sta_rci start \<noteq> None))
         \<and> asked connector_request_id_config_data_service = told (Config_Supported True)
         \<and> asked connector_request_id_config_streaming_cli = told (Config_Supported (sta_streaming_cli start \<noteq> None))
         \<and> asked connector_request_id_config_sm_key_distribution
             = (if sta_sm start \<noteq> None then told (Config_Supported True) else Inl Uninitialised_Read)
         \<and> asked connector_request_id_config_rci_descriptor_data
             = (case sta_rci start of
                  Some (Some rci) \<Rightarrow> told (Config_Descriptor (rci_desc rci))
                | _ \<Rightarrow> Inl Uninitialised_Read))"
proof -
  obtain d w1 where d: "h = Some (Live d)"
    "start_block env (Some start) (new_ccapi_data (ie_new_block env)) w1 = Some (Inr (CCAPI_START_ERROR_NONE, d, w'))"
    using started_block [OF assms] by blast
  note block = start_block_NONE [OF assms(1) d(2)]
  obtain type url where "sta_device_type start = Some type" "sta_device_cloud_url start = Some url"
    using block(6) by (auto simp: check_params_def split: if_splits)
  then show ?thesis
    using d(1) block(1,2,5)
    by (auto simp: ccapi_config_handler_def Let_def config_of_start_def config_string_def read_field_def
        split: option.split)
qed

theorem start_configures_instance_witness:
  "\<forall>block. \<exists>d. ccxapi_start (ex_init_env block) (Some Null_Handle) (Some ex_start_args) ex_logging (0, False) =
       Some (Inr (CCAPI_START_ERROR_NONE, Some (Live d), ex_logging, (4, False)))
     \<and> cf_device_type (in_config d) = Some ''gateway'' \<and> in_threads d CCIMP_THREAD_FSM \<noteq> None
     \<and> in_threads d CCIMP_THREAD_CLI = None" (is "\<forall>block. ?P block")
proof
  fix block
  obtain d where d: "ccxapi_start (ex_init_env block) (Some Null_Handle) (Some ex_start_args) ex_logging (0, False) =
      Some (Inr (CCAPI_START_ERROR_NONE, Some (Live d), ex_logging, (4, False)))" using ex_started by blast
  have "in_config d = config_of_start ex_start_args
    \<and> (\<forall>t. in_threads d t \<noteq> None \<longleftrightarrow> thread_wanted (config_of_start ex_start_args) (sta_firmware ex_start_args \<noteq> None) t)"
    using start_configures_instance [OF ex_counts_instance d, of ex_count_os "in_transports d" "(0, False)"] by auto
  moreover have "cf_device_type (config_of_start ex_start_args) = Some ''gateway''"
    "thread_wanted (config_of_start ex_start_args) (sta_firmware ex_start_args \<noteq> None) CCIMP_THREAD_FSM"
    "\<not> thread_wanted (config_of_start ex_start_args) (sta_firmware ex_start_args \<noteq> None) CCIMP_THREAD_CLI"
    by (simp_all add: config_of_start_def ex_start_args_def thread_wanted_def)
  ultimately show "?P block" using d by auto
qed

text \<open>
  C37. An instance owns what its start allocated. A start that succeeds allocates as many blocks as
  the instance then owns: itself, its strings, its threads and its targets; and none of the
  pointers it will free belongs to the caller.
\<close>

theorem start_owns_its_memory:
  assumes "counts_instance env live"
    and "ccxapi_start env (Some Null_Handle) (Some start) lg w = Some (Inr (CCAPI_START_ERROR_NONE, h, lg', w'))"
  shows "\<exists>d. h = Some (Live d) \<and> owned_instance d \<and> live w' = live w + instance_blocks d"
proof -
  obtain d w1 where d: "h = Some (Live d)" "live w1 = live w + 1"
    "start_block env (Some start) (new_ccapi_data (ie_new_block env)) w1 = Some (Inr (CCAPI_START_ERROR_NONE, d, w'))"
    using started_block [OF assms] by blast
  show ?thesis using d start_block_NONE(3,4) [OF assms(1) d(3)] by simp
qed

theorem start_owns_its_memory_witness:
  "\<forall>block. \<exists>d. ccxapi_start (ex_init_env block) (Some Null_Handle) (Some ex_start_args) ex_logging (0, False) =
       Some (Inr (CCAPI_START_ERROR_NONE, Some (Live d), ex_logging, (4, False)))
     \<and> instance_blocks d = 4" (is "\<forall>block. ?P block")
proof
  fix block
  obtain d where d: "ccxapi_start (ex_init_env block) (Some Null_Handle) (Some ex_start_args) ex_logging (0, False) =
      Some (Inr (CCAPI_START_ERROR_NONE, Some (Live d), ex_logging, (4, False)))" using ex_started by blast
  show "?P block" using start_owns_its_memory [OF ex_counts_instance d] d by auto
qed

text \<open>
  C38. A stop frees exactly what the instance owns. A stop of an instance that owns its memory,
  with any transports started, meets no undefined behaviour; when it succeeds as many blocks
  were freed as the instance owned. The other threads change nothing but their statuses while the
  stop waits for them: the connector does not abort meanwhile.
\<close>

theorem stop_frees_the_instance:
  assumes "counts_instance env live" and "counts_transports (ie_tp env) live"
    and "owned_instance d" and "in_threads d CCIMP_THREAD_FSM \<noteq> None"
    and "ccxapi_stop env (Live d) behavior lg w = Some r"
  shows "\<exists>error h lg' w'. r = Inr (error, h, lg', w')
    \<and> (error = CCAPI_STOP_ERROR_NONE \<longrightarrow> (\<exists>d'. h = Freed d') \<and> live w' = live w - instance_blocks d)
    \<and> (error \<noteq> CCAPI_STOP_ERROR_NONE \<longrightarrow> (\<exists>d'. h = Live d'))"
proof (cases "in_thread_status CCIMP_THREAD_FSM d = Some CCAPI_THREAD_RUNNING")
  case False
  then show ?thesis using assms(4,5) by (auto simp: ccxapi_stop_def in_thread_status_def split: option.splits)
next
  case True
  have owned: "owned_data d" "no_callers_tcp (in_transports d)" "no_callers_sms (in_transports d)"
    using assms(3) by (simp_all add: owned_instance_def)
  obtain x where x: "stop_transports env (ccapi_stop_to_ccapi_transport_stop behavior) d w = Some x"
    using assms(5) True by (auto simp: ccxapi_stop_def run_bind_def split: option.splits)
  obtain d1 w1 where d1: "x = Inr (d1, w1)" "same_data d d1" "live w1 = live w - transport_blocks (in_transports d)"
    using stop_transports_live [OF counts_instanceD(1) [OF assms(1)] assms(2) owned(2,3) x] by blast
  have terminate: "terminate_and_stop env d1 lg w1 = Some r" using assms(5) True x d1(1) by (simp add: ccxapi_stop_def)
  from terminate_and_stop_live [OF assms(1) same_data_owned [OF d1(2) owned(1)] terminate]
  show ?thesis using d1(3) same_data_blocks [OF d1(2)] by (auto simp: instance_blocks_def)
qed

theorem stop_frees_the_instance_witness:
  "\<forall>block. \<exists>d' lg w'. ccxapi_stop (ex_init_env block) (Live (ex_live block)) CCAPI_STOP_GRACEFULLY ex_logging (8, False) =
     Some (Inr (CCAPI_STOP_ERROR_NONE, Freed d', lg, w')) \<and> fst w' = 0" (is "\<forall>block. ?P block")
proof
  fix block
  obtain h lg w' where stop: "ccxapi_stop (ex_init_env block) (Live (ex_live block)) CCAPI_STOP_GRACEFULLY ex_logging (8, False) =
     Some (Inr (CCAPI_STOP_ERROR_NONE, h, lg, w'))" using ex_stopped by blast
  have transports: "counts_transports (ie_tp (ex_init_env block)) fst" using ex_counts_transports by simp
  have running: "in_threads (ex_live block) CCIMP_THREAD_FSM \<noteq> None" by (simp add: ex_live_def)
  show "?P block"
    using stop_frees_the_instance [OF ex_counts_instance transports ex_live_owned running stop] stop
    by (auto simp: ex_live_blocks)
qed

subsection \<open>Starts and stops that go wrong\<close>

text \<open>
  C39. A start that is refused early reads memory it did not write. When the parameters are
  missing or invalid, or the first string cannot be copied, the block is freed by code that
  reads whether there is a file system before any code has written it.
\<close>

theorem refused_start_reads_uninitialised:
  assumes "start_logging (ie_os env) lg w = (True, lg1, w1)"
    and "ccapi_malloc (ie_os env) (Sizeof ''ccapi_data_t'') w1 = (True, w2)"
    and "start = None \<or> check_params (the start) \<noteq> CCAPI_START_ERROR_NONE
      \<or> fst (ccapi_strdup (ie_os env) (the (sta_device_type (the start))) w2) = None"
  shows "ccxapi_start env (Some Null_Handle) start lg w = Some (Inl Uninitialised_Read)"
proof -
  have "\<exists>error d v. start_block env start (new_ccapi_data (ie_new_block env)) w2 = Some (Inr (error, d, v))
      \<and> error \<noteq> CCAPI_START_ERROR_NONE \<and> cf_filesystem_supported (in_config d) = None"
    using assms(3)
    by (cases "ccapi_strdup (ie_os env) (the (sta_device_type (the start))) w2")
      (auto simp: start_block_def start_then_def start_identity_def new_ccapi_data_def upd_config_def check_malloc_def Let_def
        split: option.splits)
  then show ?thesis
    using assms(1,2)
    by (auto simp: ccxapi_start_def Let_def free_ccapi_data_internal_resources_def free_file_system_def read_field_def)
qed

theorem refused_start_reads_uninitialised_witness:
  "\<forall>block. ccxapi_start (ex_init_env block) (Some Null_Handle) (Some (ex_start_args\<lparr>sta_vendor_id := 0\<rparr>)) ex_logging (0, False) =
     Some (Inl Uninitialised_Read)"
  by (rule allI, rule refused_start_reads_uninitialised [where ?lg1.0 = ex_logging and ?w1.0 = "(0, False)" and ?w2.0 = "(1, False)"])
    (simp_all add: start_logging_def check_params_def)

text \<open>
  Starting the single instance twice loses it. A second \<open>ccapi_start\<close> is refused but sets the
  pointer to the instance that runs to NULL, so that a stop finds nothing to stop.
\<close>

theorem second_start_loses_instance:
  "\<exists>error lg' w'. ccapi_start env (Live d) start lg w = Some (Inr (error, Null_Handle, lg', w'))
     \<and> error \<in> {CCAPI_START_ERROR_ALREADY_STARTED, CCAPI_START_ERROR_LOCK_FAILED}
     \<and> ccapi_stop env Null_Handle behavior lg' w' = Some (Inr (CCAPI_STOP_ERROR_NOT_STARTED, Null_Handle, lg', w'))"
  by (auto simp: ccapi_start_def ccxapi_start_def Let_def start_refused_def ccapi_stop_def ccxapi_stop_def
      split: prod.splits bool.splits)

text \<open>
  C40. A connector that aborts leaves the single instance dangling. When the connector's first
  round aborts, its thread frees the instance; a \<open>ccapi_stop\<close> after that reads the freed block.
\<close>

theorem connector_abort_leaves_dangling_instance:
  assumes "in_threads d CCIMP_THREAD_FSM = Some info"
    and "connector_run (set_thread CCIMP_THREAD_FSM (Some (info\<lparr>ti_status := CCAPI_THREAD_RUNNING\<rparr>)) d) w =
      (connector_abort, d1, w1)"
    and "ccxapi_asynchronous_stop env d1 lg (if in_status_callback d1 \<noteq> None then status_callback w1 else w1) =
      Some (Inr (h, lg2, w2))"
  shows "ccapi_connector_run_thread env connector_run status_callback lg d w = Some (Inr (h, lg2, w2))
    \<and> ccapi_stop env h behavior lg2 v = Some (Inl Use_After_Free)"
proof -
  have "\<exists>d2. h = Freed d2"
    using assms(3)
    by (auto simp: ccxapi_asynchronous_stop_def release_all_def Let_def run_bind_def ub_bind_def
        split: option.splits sum.splits prod.splits)
  moreover have "connector_rounds env connector_run status_callback lg
      (set_thread CCIMP_THREAD_FSM (Some (info\<lparr>ti_status := CCAPI_THREAD_RUNNING\<rparr>)) d) w = Some (Inr (False, h, lg2, w2))"
    using assms(2,3) by (subst connector_rounds.simps) (simp add: in_thread_status_def set_thread_def)
  ultimately show ?thesis
    using assms(1) by (auto simp: ccapi_connector_run_thread_def ccapi_stop_def ccxapi_stop_def)
qed

lemma ex_asynchronous_stop:
  "\<exists>h lg w'. ccxapi_asynchronous_stop (ex_init_env block) (ex_live block) ex_logging w = Some (Inr (h, lg, w'))"
proof -
  obtain n b where w: "w = (n, b)" by fastforce
  have services: "stop_service_threads (ex_init_env block) (ex_live block) v = Some (ex_live block, v)" for v
    using ex_live_config by (simp add: stop_service_threads_def stop_thread_if_def ex_live_def)
  have "owned_data (ex_live block)" using ex_live_owned by (auto simp: owned_instance_def)
  from release_all_live [OF ex_counts_instance this] show ?thesis
    by (fastforce simp: ccxapi_asynchronous_stop_def free_tcp_of_def free_udp_of_def free_sms_of_def Let_def services
        ex_live_def [THEN arg_cong [of _ _ in_transports]] no_transports_def)
qed

theorem connector_abort_leaves_dangling_instance_witness:
  "\<forall>block. \<exists>h lg w'. ccapi_connector_run_thread (ex_init_env block) (\<lambda>d w. (connector_abort, ex_live block, w)) (\<lambda>w. w)
       ex_logging (ex_live block) (8, False) = Some (Inr (h, lg, w'))
     \<and> ccapi_stop (ex_init_env block) h CCAPI_STOP_GRACEFULLY lg w' = Some (Inl Use_After_Free)" (is "\<forall>block. ?P block")
proof
  fix block
  obtain h lg w' where stop: "ccxapi_asynchronous_stop (ex_init_env block) (ex_live block) ex_logging
      (if in_status_callback (ex_live block) \<noteq> None then (8, False) else (8, False)) = Some (Inr (h, lg, w'))"
    using ex_asynchronous_stop by blast
  have "in_threads (ex_live block) CCIMP_THREAD_FSM = Some \<lparr>ti_status = CCAPI_THREAD_RUNNING, ti_lock = Some 1\<rparr>"
    by (simp add: ex_live_def)
  from connector_abort_leaves_dangling_instance [where connector_run = "\<lambda>d w. (connector_abort, ex_live block, w)"
      and status_callback = "\<lambda>w. w", OF this refl stop]
  show "?P block" by blast
qed

text \<open>
  A stop waits for a connector that was not told to terminate. Whatever the call that
  terminates the connector answered, the stop waits for the connector's thread: when that
  thread keeps running the stop does not return.
\<close>

theorem refused_termination_hangs:
  assumes "in_thread_status CCIMP_THREAD_FSM d = Some CCAPI_THREAD_RUNNING"
    and "stop_transports env (ccapi_stop_to_ccapi_transport_stop behavior) d w = Some (Inr (d1, w1))"
    and "in_thread_status CCIMP_THREAD_FSM d1 = Some CCAPI_THREAD_RUNNING"
    and "\<And>e v. in_thread_status CCIMP_THREAD_FSM e = Some CCAPI_THREAD_RUNNING \<Longrightarrow>
      in_thread_status CCIMP_THREAD_FSM (fst (ie_others env e v)) = Some CCAPI_THREAD_RUNNING"
  shows "ccxapi_stop env (Live d) behavior lg w = None"
proof -
  have "retry_loop (in_yield env) (\<lambda>(d, w). in_thread_status CCIMP_THREAD_FSM d \<noteq> Some CCAPI_THREAD_NOT_STARTED)
      (\<lambda>x. x) (d1, v) = None" (is "?loop = None") for v
  proof (rule ccontr)
    assume "?loop \<noteq> None"
    then obtain y where y: "?loop = Some y" by blast
    have "(\<lambda>(e, v). in_thread_status CCIMP_THREAD_FSM e = Some CCAPI_THREAD_RUNNING) y"
      by (rule retry_loop_invariant [OF y])
        (use assms(3,4) in \<open>auto simp: in_yield_def split: prod.splits\<close>, metis fst_conv)
    then show False using retry_loop_not_busy [OF y] by auto
  qed
  then show ?thesis using assms(1,2) by (simp add: ccxapi_stop_def terminate_and_stop_def split: option.split prod.split)
qed

theorem refused_termination_hangs_witness:
  "\<forall>block. ccxapi_stop ((ex_init_env block)\<lparr>ie_terminate := (\<lambda>w. (connector_unavailable, w)), ie_others := (\<lambda>d w. (d, w))\<rparr>)
     (Live ((ex_live block)\<lparr>in_transports := no_transports (in_transports block)\<rparr>)) CCAPI_STOP_GRACEFULLY ex_logging (8, False) = None"
  (is "\<forall>block. ccxapi_stop (?env block) (Live (?d block)) _ _ _ = None")
proof
  fix block
  have running: "in_thread_status CCIMP_THREAD_FSM (?d block) = Some CCAPI_THREAD_RUNNING"
    by (simp add: in_thread_status_def ex_live_def)
  have "stop_transports (?env block) b (?d block) (8, False) = Some (Inr (?d block, (8, False)))" for b
    by (simp add: stop_transports_def stop_transport_if_def free_tcp_of_def free_udp_of_def free_sms_of_def no_transports_def)
  from refused_termination_hangs [OF running this running]
  show "ccxapi_stop (?env block) (Live (?d block)) CCAPI_STOP_GRACEFULLY ex_logging (8, False) = None" by simp
qed

end
