(* ===== verification/RciData.thy ===== *)
theory RciData
  imports InitData
begin

text \<open>
  The data of the remote configuration (include/ccapi/ccapi_rci.h, \<open>service.rci\<close> of
  \<open>ccapi_data_t\<close>, and the structure of the connector as source/ccapi_rci_handler.c uses it).

  The description of what the connector is at, \<open>rci_info\<close>, lies in a block that is not cleared:
  an enumeration in it may hold any value before it is written, \<open>None\<close> for one that is not an
  enumerator. \<open>RCI_LIST_MAX_DEPTH\<close> is generated; it is the length of the list of levels.
\<close>

subsection \<open>Descriptions\<close>

datatype ccapi_rci_element_type_t =
    CCAPI_RCI_ELEMENT_TYPE_NOT_SET
  | CCAPI_RCI_ELEMENT_TYPE_STRING
  | CCAPI_RCI_ELEMENT_TYPE_MULTILINE_STRING
  | CCAPI_RCI_ELEMENT_TYPE_PASSWORD
  | CCAPI_RCI_ELEMENT_TYPE_INT32
  | CCAPI_RCI_ELEMENT_TYPE_UINT32
  | CCAPI_RCI_ELEMENT_TYPE_HEX32
  | CCAPI_RCI_ELEMENT_TYPE_0X32
  | CCAPI_RCI_ELEMENT_TYPE_FLOAT
  | CCAPI_RCI_ELEMENT_TYPE_ENUM
  | CCAPI_RCI_ELEMENT_TYPE_ON_OFF
  | CCAPI_RCI_ELEMENT_TYPE_BOOL
  | CCAPI_RCI_ELEMENT_TYPE_IPV4
  | CCAPI_RCI_ELEMENT_TYPE_FQDNV4
  | CCAPI_RCI_ELEMENT_TYPE_FQDNV6
  | CCAPI_RCI_ELEMENT_TYPE_LIST
  | CCAPI_RCI_ELEMENT_TYPE_MAC
  | CCAPI_RCI_ELEMENT_TYPE_DATETIME
  | CCAPI_RCI_ELEMENT_TYPE_REF_ENUM

datatype ccapi_rci_action_t =
    CCAPI_RCI_ACTION_SET
  | CCAPI_RCI_ACTION_QUERY
  | CCAPI_RCI_ACTION_DO_COMMAND
  | CCAPI_RCI_ACTION_REBOOT
  | CCAPI_RCI_ACTION_SET_FACTORY_DEFAULTS

datatype ccapi_rci_group_type_t = CCAPI_RCI_GROUP_SETTING | CCAPI_RCI_GROUP_STATE

datatype ccapi_rci_collection_type_t =
    CCAPI_RCI_COLLECTION_TYPE_FIXED_ARRAY
  | CCAPI_RCI_COLLECTION_TYPE_VARIABLE_ARRAY
  | CCAPI_RCI_COLLECTION_TYPE_FIXED_DICTIONARY
  | CCAPI_RCI_COLLECTION_TYPE_VARIABLE_DICTIONARY

datatype ccapi_rci_query_setting_attribute_source_t =
    CCAPI_RCI_QUERY_SETTING_ATTRIBUTE_SOURCE_CURRENT
  | CCAPI_RCI_QUERY_SETTING_ATTRIBUTE_SOURCE_STORED
  | CCAPI_RCI_QUERY_SETTING_ATTRIBUTE_SOURCE_DEFAULTS

datatype ccapi_rci_query_setting_attribute_compare_to_t =
    CCAPI_RCI_QUERY_SETTING_ATTRIBUTE_COMPARE_TO_NONE
  | CCAPI_RCI_QUERY_SETTING_ATTRIBUTE_COMPARE_TO_CURRENT
  | CCAPI_RCI_QUERY_SETTING_ATTRIBUTE_COMPARE_TO_STORED
  | CCAPI_RCI_QUERY_SETTING_ATTRIBUTE_COMPARE_TO_DEFAULTS

record ccapi_rci_dictionary_t =
  dictionary_entries :: u32
  dictionary_keys :: "string list option"

text \<open>The unions: the member that was written last.\<close>

datatype ccapi_item_t =
    Item_Unwritten
  | Item_Index u32
  | Item_Key "string option"
  | Item_Count u32
  | Item_Dictionary ccapi_rci_dictionary_t

datatype ccapi_response_item_t =
    Response_Unwritten
  | Response_Count u32
  | Response_Dictionary ccapi_rci_dictionary_t

datatype ccapi_element_value_t =
    Value_String "string option"
  | Value_Enum u32
  | Value_Other u64

definition string_value :: "ccapi_element_value_t \<Rightarrow> string option ub" where
  "string_value v = (case v of Value_String s \<Rightarrow> Inr s | _ \<Rightarrow> Inl Uninitialised_Read)"

definition enum_value :: "ccapi_element_value_t \<Rightarrow> u32 ub" where
  "enum_value v = (case v of Value_Enum n \<Rightarrow> Inr n | _ \<Rightarrow> Inl Uninitialised_Read)"

text \<open>A group, or a level of lists.\<close>

record rci_level =
  lv_id :: u32
  lv_collection_type :: "ccapi_rci_collection_type_t option"
  lv_item :: ccapi_item_t
  lv_name :: "string option"

record ccapi_rci_info_t =
  ri_group_type :: "ccapi_rci_group_type_t option"
  ri_group :: rci_level
  ri_depth :: u32
  ri_list :: "rci_level list"
  ri_element_id :: u32
  ri_element_name :: "string option"
  ri_element_type :: "ccapi_rci_element_type_t option"
  ri_source :: "ccapi_rci_query_setting_attribute_source_t option"
  ri_compare_to :: "ccapi_rci_query_setting_attribute_compare_to_t option"
  ri_matches :: bool
  ri_embed_transformed_values :: bool
  ri_target :: "string option"
  ri_request :: "string option"
  ri_response :: bool
  ri_action :: "ccapi_rci_action_t option"
  ri_error_hint :: "string option"
  ri_user_context :: ptr

subsection \<open>The structure of the connector\<close>

datatype connector_remote_action_t =
    connector_remote_action_set
  | connector_remote_action_query
  | connector_remote_action_do_command
  | connector_remote_action_reboot
  | connector_remote_action_set_factory_def

datatype connector_remote_group_type_t = connector_remote_group_setting | connector_remote_group_state

datatype rci_query_setting_attribute_source_t =
    rci_query_setting_attribute_source_current
  | rci_query_setting_attribute_source_stored
  | rci_query_setting_attribute_source_defaults

datatype rci_query_setting_attribute_compare_to_t =
    rci_query_setting_attribute_compare_to_none
  | rci_query_setting_attribute_compare_to_current
  | rci_query_setting_attribute_compare_to_stored
  | rci_query_setting_attribute_compare_to_defaults

datatype connector_element_type_t =
    connector_element_type_string
  | connector_element_type_multiline_string
  | connector_element_type_password
  | connector_element_type_fqdnv4
  | connector_element_type_fqdnv6
  | connector_element_type_datetime
  | connector_element_type_ipv4
  | connector_element_type_mac_addr
  | connector_element_type_int32
  | connector_element_type_uint32
  | connector_element_type_hex32
  | connector_element_type_0x_hex32
  | connector_element_type_float
  | connector_element_type_enum
  | connector_element_type_on_off
  | connector_element_type_boolean
  | connector_element_type_ref_enum
  | connector_element_type_list

text \<open>
  A union the connector wrote, by what a read of each member yields, and a group or a level with
  its collection type as the cast to the type of CCAPI yields it.
\<close>

record connector_remote_item =
  item_index :: u32
  item_key :: "string option"
  item_count :: u32
  item_dictionary :: ccapi_rci_dictionary_t

record connector_remote_level =
  rl_id :: u32
  rl_collection_type :: "ccapi_rci_collection_type_t option"
  rl_item :: connector_remote_item
  rl_name :: "string option"

record connector_remote_config_t =
  rc_user_context :: ptr
  rc_error_id :: u32
  rc_action :: connector_remote_action_t
  rc_group_type :: connector_remote_group_type_t
  rc_group :: connector_remote_level
  rc_depth :: u32
  rc_levels :: "connector_remote_level list"
  rc_element_id :: u32
  rc_element_name :: "string option"
  rc_element_type :: connector_element_type_t
  rc_element_value :: "ccapi_element_value_t option"
  rc_compare_to :: rci_query_setting_attribute_compare_to_t
  rc_source :: rci_query_setting_attribute_source_t
  rc_embed_transformed_values :: bool
  rc_target :: "string option"
  rc_error_hint :: "string option"
  rc_compare_matches :: bool
  rc_response_item :: ccapi_response_item_t
  rc_response_value :: "ccapi_element_value_t option"

datatype connector_request_id_remote_config_t =
    connector_request_id_remote_config_session_start
  | connector_request_id_remote_config_action_start
  | connector_request_id_remote_config_do_command
  | connector_request_id_remote_config_reboot
  | connector_request_id_remote_config_set_factory_def
  | connector_request_id_remote_config_group_instances_lock
  | connector_request_id_remote_config_group_instances_set
  | connector_request_id_remote_config_group_instance_remove
  | connector_request_id_remote_config_group_instances_unlock
  | connector_request_id_remote_config_group_start
  | connector_request_id_remote_config_list_instances_lock
  | connector_request_id_remote_config_list_instances_set
  | connector_request_id_remote_config_list_instance_remove
  | connector_request_id_remote_config_list_instances_unlock
  | connector_request_id_remote_config_list_start
  | connector_request_id_remote_config_element_process
  | connector_request_id_remote_config_list_end
  | connector_request_id_remote_config_group_end
  | connector_request_id_remote_config_action_end
  | connector_request_id_remote_config_session_end
  | connector_request_id_remote_config_session_cancel

text \<open>
  The descriptor of the generated code: for each type of group its groups, trees of collections
  whose leaves are elements with the names of their enumeration.
\<close>

datatype connector_item_t = Item_Element "string list option" | Item_Collection "connector_item_t list"

type_synonym connector_remote_config_data_t = "connector_remote_group_type_t \<Rightarrow> connector_item_t list list"

subsection \<open>Callbacks\<close>

text \<open>
  What a callback may change of \<open>rci_info\<close>: the fields that are not constant to it. A callback
  also changes what the pointers it is given point to.
\<close>

record rci_answer =
  an_matches :: bool
  an_embed_transformed_values :: bool
  an_error_hint :: "string option"
  an_user_context :: ptr

definition answer_of :: "ccapi_rci_info_t \<Rightarrow> rci_answer" where
  "answer_of info =
     \<lparr>an_matches = ri_matches info, an_embed_transformed_values = ri_embed_transformed_values info,
      an_error_hint = ri_error_hint info, an_user_context = ri_user_context info\<rparr>"

definition put_answer :: "rci_answer \<Rightarrow> ccapi_rci_info_t \<Rightarrow> ccapi_rci_info_t" where
  "put_answer a info =
     info\<lparr>ri_matches := an_matches a, ri_embed_transformed_values := an_embed_transformed_values a,
          ri_error_hint := an_error_hint a, ri_user_context := an_user_context a\<rparr>"

text \<open>The string of a base callback is what \<open>do_command.response\<close> points to, if anything.\<close>

type_synonym 'w ccapi_rci_function_base_t =
  "ccapi_rci_info_t \<Rightarrow> 'w \<Rightarrow> u32 \<times> rci_answer \<times> string option \<times> 'w"

type_synonym 'w ccapi_rci_function_lock_t =
  "ccapi_rci_info_t \<Rightarrow> ccapi_response_item_t \<Rightarrow> 'w \<Rightarrow> u32 \<times> rci_answer \<times> ccapi_response_item_t \<times> 'w"

type_synonym 'w ccapi_rci_function_element_t =
  "ccapi_rci_info_t \<Rightarrow> ccapi_element_value_t \<Rightarrow> 'w \<Rightarrow> u32 \<times> rci_answer \<times> ccapi_element_value_t \<times> 'w"

type_synonym 'w ccapi_rci_function_transform_t =
  "ccapi_rci_info_t \<Rightarrow> ccapi_element_value_t \<Rightarrow> 'w
     \<Rightarrow> u32 \<times> rci_answer \<times> ccapi_element_value_t \<times> string option \<times> 'w"

record 'w rci_callbacks =
  cb_start_session :: "'w ccapi_rci_function_base_t option"
  cb_end_session :: "'w ccapi_rci_function_base_t option"
  cb_start_action :: "'w ccapi_rci_function_base_t option"
  cb_end_action :: "'w ccapi_rci_function_base_t option"
  cb_start_group :: "'w ccapi_rci_function_base_t option"
  cb_end_group :: "'w ccapi_rci_function_base_t option"
  cb_lock_group_instances :: "'w ccapi_rci_function_lock_t option"
  cb_set_group_instances :: "'w ccapi_rci_function_base_t option"
  cb_remove_group_instance :: "'w ccapi_rci_function_base_t option"
  cb_unlock_group_instances :: "'w ccapi_rci_function_base_t option"
  cb_start_list :: "'w ccapi_rci_function_base_t option"
  cb_end_list :: "'w ccapi_rci_function_base_t option"
  cb_lock_list_instances :: "'w ccapi_rci_function_lock_t option"
  cb_set_list_instances :: "'w ccapi_rci_function_base_t option"
  cb_remove_list_instance :: "'w ccapi_rci_function_base_t option"
  cb_unlock_list_instances :: "'w ccapi_rci_function_base_t option"
  cb_get_element :: "'w ccapi_rci_function_element_t option"
  cb_set_element :: "'w ccapi_rci_function_element_t option"
  cb_set_and_transform_element :: "'w ccapi_rci_function_transform_t option"
  cb_do_command :: "'w ccapi_rci_function_base_t option"
  cb_set_factory_defaults :: "'w ccapi_rci_function_base_t option"
  cb_reboot :: "'w ccapi_rci_function_base_t option"

subsection \<open>The service\<close>

text \<open>
  The build options of the generated parser, and the service with its thread. The members of the
  union \<open>as\<close> are fields of their own but for the pointer to an item or a value, whose place they
  share: it points into the structure of the connector.
\<close>

record rci_build =
  RCI_PARSER_USES_COLLECTION_NAMES :: bool
  RCI_PARSER_USES_ELEMENT_NAMES :: bool
  RCI_ENUMS_AS_STRINGS :: bool

datatype rci_pointer = Pointer_Unwritten | Response_Item | Response_Value | Element_Value

record 'w rci_service =
  rv_callbacks :: "'w rci_callbacks"
  rv_desc :: connector_remote_config_data_t
  rv_info :: ccapi_rci_info_t
  rv_thread_status :: ccapi_rci_thread_status_t
  rv_type :: ccapi_callback_type
  rv_base :: "'w ccapi_rci_function_base_t option"
  rv_lock :: "'w ccapi_rci_function_lock_t option"
  rv_element :: "'w ccapi_rci_function_element_t option"
  rv_transform :: "'w ccapi_rci_function_transform_t option"
  rv_pointer :: rci_pointer
  rv_error :: u32
  rv_enum_data :: "string list option"
  rv_run_status :: ccapi_thread_status_t
  rv_run_lock :: ptr

definition upd_info :: "(ccapi_rci_info_t \<Rightarrow> ccapi_rci_info_t) \<Rightarrow> 'w rci_service \<Rightarrow> 'w rci_service" where
  "upd_info f d = d\<lparr>rv_info := f (rv_info d)\<rparr>"

lemma upd_info_simps [simp]:
  "rv_info (upd_info f d) = f (rv_info d)" "rv_callbacks (upd_info f d) = rv_callbacks d" "rv_desc (upd_info f d) = rv_desc d"
  "rv_thread_status (upd_info f d) = rv_thread_status d" "rv_type (upd_info f d) = rv_type d"
  "rv_base (upd_info f d) = rv_base d" "rv_lock (upd_info f d) = rv_lock d" "rv_element (upd_info f d) = rv_element d"
  "rv_transform (upd_info f d) = rv_transform d" "rv_pointer (upd_info f d) = rv_pointer d" "rv_error (upd_info f d) = rv_error d"
  "rv_enum_data (upd_info f d) = rv_enum_data d" "rv_run_status (upd_info f d) = rv_run_status d"
  "rv_run_lock (upd_info f d) = rv_run_lock d"
  by (simp_all add: upd_info_def)

end
