(* ===== verification/Rci.thy ===== *)
theory Rci
  imports RciData
begin

text \<open>
  The handler of the remote configuration, source/ccapi_rci_handler.c: a request of the connector
  queues a callback for the thread of the service, is answered busy until the callback has
  returned, and then with what it returned.
\<close>

subsection \<open>Clearing and copying\<close>

definition clear_item :: "rci_level \<Rightarrow> rci_level" where
  "clear_item l =
     (case lv_collection_type l of
        Some CCAPI_RCI_COLLECTION_TYPE_FIXED_ARRAY \<Rightarrow> l\<lparr>lv_item := Item_Index 0\<rparr>
      | Some CCAPI_RCI_COLLECTION_TYPE_VARIABLE_ARRAY \<Rightarrow> l\<lparr>lv_item := Item_Index 0\<rparr>
      | Some CCAPI_RCI_COLLECTION_TYPE_FIXED_DICTIONARY \<Rightarrow> l\<lparr>lv_item := Item_Key None\<rparr>
      | Some CCAPI_RCI_COLLECTION_TYPE_VARIABLE_DICTIONARY \<Rightarrow> l\<lparr>lv_item := Item_Key None\<rparr>
      | None \<Rightarrow> l)"

definition clear_name :: "rci_build \<Rightarrow> rci_level \<Rightarrow> rci_level" where
  "clear_name b l = (if RCI_PARSER_USES_COLLECTION_NAMES b then l\<lparr>lv_name := None\<rparr> else l)"

definition clear_level :: "rci_build \<Rightarrow> rci_level \<Rightarrow> rci_level" where
  "clear_level b l = clear_name b (clear_item (l\<lparr>lv_id := 0\<rparr>))"

definition clear_group_info :: "rci_build \<Rightarrow> ccapi_rci_info_t \<Rightarrow> ccapi_rci_info_t" where
  "clear_group_info b info = info\<lparr>ri_group := clear_level b (ri_group info)\<rparr>"

definition clear_all_list_info :: "rci_build \<Rightarrow> ccapi_rci_info_t \<Rightarrow> ccapi_rci_info_t" where
  "clear_all_list_info b info = info\<lparr>ri_depth := 0, ri_list := map (clear_level b) (ri_list info)\<rparr>"

definition clear_element_info :: "rci_build \<Rightarrow> ccapi_rci_info_t \<Rightarrow> ccapi_rci_info_t" where
  "clear_element_info b info =
     (let info1 = info\<lparr>ri_element_id := 0\<rparr>
      in if RCI_PARSER_USES_ELEMENT_NAMES b then info1\<lparr>ri_element_name := None\<rparr> else info1)"

definition clear_callback :: "rci_build \<Rightarrow> 'w rci_service \<Rightarrow> 'w rci_service" where
  "clear_callback b d =
     (let d1 = d\<lparr>rv_type := ccapi_callback_type_none, rv_error := 0\<rparr>
      in if RCI_ENUMS_AS_STRINGS b then d1\<lparr>rv_enum_data := None\<rparr> else d1)"

definition copy_item :: "connector_remote_level \<Rightarrow> rci_level \<Rightarrow> rci_level" where
  "copy_item r l =
     (case lv_collection_type l of
        Some CCAPI_RCI_COLLECTION_TYPE_FIXED_ARRAY \<Rightarrow> l\<lparr>lv_item := Item_Index (item_index (rl_item r))\<rparr>
      | Some CCAPI_RCI_COLLECTION_TYPE_VARIABLE_ARRAY \<Rightarrow> l\<lparr>lv_item := Item_Index (item_index (rl_item r))\<rparr>
      | Some CCAPI_RCI_COLLECTION_TYPE_FIXED_DICTIONARY \<Rightarrow> l\<lparr>lv_item := Item_Key (item_key (rl_item r))\<rparr>
      | Some CCAPI_RCI_COLLECTION_TYPE_VARIABLE_DICTIONARY \<Rightarrow> l\<lparr>lv_item := Item_Key (item_key (rl_item r))\<rparr>
      | None \<Rightarrow> l)"

definition copy_name :: "rci_build \<Rightarrow> connector_remote_level \<Rightarrow> rci_level \<Rightarrow> rci_level" where
  "copy_name b r l = (if RCI_PARSER_USES_COLLECTION_NAMES b then l\<lparr>lv_name := rl_name r\<rparr> else l)"

definition copy_type :: "connector_remote_level \<Rightarrow> rci_level \<Rightarrow> rci_level" where
  "copy_type r l = l\<lparr>lv_collection_type := rl_collection_type r\<rparr>"

definition connector_to_ccapi_compare_to_attribute ::
  "rci_query_setting_attribute_compare_to_t \<Rightarrow> ccapi_rci_query_setting_attribute_compare_to_t" where
  "connector_to_ccapi_compare_to_attribute compare_to =
     (case compare_to of
        rci_query_setting_attribute_compare_to_none \<Rightarrow> CCAPI_RCI_QUERY_SETTING_ATTRIBUTE_COMPARE_TO_NONE
      | rci_query_setting_attribute_compare_to_current \<Rightarrow> CCAPI_RCI_QUERY_SETTING_ATTRIBUTE_COMPARE_TO_CURRENT
      | rci_query_setting_attribute_compare_to_stored \<Rightarrow> CCAPI_RCI_QUERY_SETTING_ATTRIBUTE_COMPARE_TO_STORED
      | rci_query_setting_attribute_compare_to_defaults \<Rightarrow> CCAPI_RCI_QUERY_SETTING_ATTRIBUTE_COMPARE_TO_DEFAULTS)"

definition connector_to_ccapi_source_attribute ::
  "rci_query_setting_attribute_source_t \<Rightarrow> ccapi_rci_query_setting_attribute_source_t" where
  "connector_to_ccapi_source_attribute src =
     (case src of
        rci_query_setting_attribute_source_current \<Rightarrow> CCAPI_RCI_QUERY_SETTING_ATTRIBUTE_SOURCE_CURRENT
      | rci_query_setting_attribute_source_stored \<Rightarrow> CCAPI_RCI_QUERY_SETTING_ATTRIBUTE_SOURCE_STORED
      | rci_query_setting_attribute_source_defaults \<Rightarrow> CCAPI_RCI_QUERY_SETTING_ATTRIBUTE_SOURCE_DEFAULTS)"

subsection \<open>Levels of lists\<close>

definition level_index :: "connector_remote_config_t \<Rightarrow> nat" where
  "level_index rc = unat (rc_depth rc - 1)"

definition remote_level :: "connector_remote_config_t \<Rightarrow> connector_remote_level ub" where
  "remote_level rc =
     (if level_index rc < length (rc_levels rc) then Inr (rc_levels rc ! level_index rc) else Inl Out_Of_Bounds)"

definition put_level :: "nat \<Rightarrow> (rci_level \<Rightarrow> rci_level) \<Rightarrow> ccapi_rci_info_t \<Rightarrow> ccapi_rci_info_t ub" where
  "put_level i f info =
     (if i < length (ri_list info) then Inr (info\<lparr>ri_list := (ri_list info)[i := f (ri_list info ! i)]\<rparr>)
      else Inl Out_Of_Bounds)"

text \<open>The level of the request, and the depth: \<open>f\<close> says what is copied to the level.\<close>

definition enter_level ::
  "(connector_remote_level \<Rightarrow> rci_level \<Rightarrow> rci_level) \<Rightarrow> connector_remote_config_t \<Rightarrow> ccapi_rci_info_t \<Rightarrow> ccapi_rci_info_t ub"
where
  "enter_level f rc info =
     ub_bind (remote_level rc) (\<lambda>r. put_level (level_index rc) (f r) (info\<lparr>ri_depth := rc_depth rc\<rparr>))"

subsection \<open>Queueing a callback\<close>

definition queue_base :: "'w ccapi_rci_function_base_t \<Rightarrow> 'w rci_service \<Rightarrow> 'w rci_service" where
  "queue_base f d = d\<lparr>rv_type := ccapi_callback_type_base, rv_base := Some f\<rparr>"

text \<open>A callback that is not there is not queued; one that is, after its description is prepared.\<close>

definition with_base ::
  "'w ccapi_rci_function_base_t option \<Rightarrow> (ccapi_rci_info_t \<Rightarrow> ccapi_rci_info_t ub) \<Rightarrow> 'w rci_service \<Rightarrow> 'w rci_service ub"
where
  "with_base cb prepare d =
     (case cb of
        None \<Rightarrow> Inr d
      | Some f \<Rightarrow> ub_bind (prepare (rv_info d)) (\<lambda>info. Inr (queue_base f (d\<lparr>rv_info := info\<rparr>))))"

text \<open>
  A callback that locks instances. The item it is given is set for the collections that vary in
  size only.
\<close>

definition with_lock ::
  "'w ccapi_rci_function_lock_t option \<Rightarrow> (ccapi_rci_info_t \<Rightarrow> ccapi_rci_info_t ub)
     \<Rightarrow> (ccapi_rci_info_t \<Rightarrow> ccapi_rci_collection_type_t option) \<Rightarrow> 'w rci_service \<Rightarrow> 'w rci_service ub" where
  "with_lock cb prepare collection d =
     (case cb of
        None \<Rightarrow> Inr d
      | Some f \<Rightarrow>
          ub_bind (prepare (rv_info d)) (\<lambda>info.
            let d1 = d\<lparr>rv_info := info\<rparr>;
                d2 = (if collection info \<in> {Some CCAPI_RCI_COLLECTION_TYPE_VARIABLE_ARRAY,
                                             Some CCAPI_RCI_COLLECTION_TYPE_VARIABLE_DICTIONARY}
                      then d1\<lparr>rv_pointer := Response_Item\<rparr> else d1)
            in Inr (d2\<lparr>rv_type := ccapi_callback_type_lock, rv_lock := Some f\<rparr>)))"

subsection \<open>Sessions and actions\<close>

definition start_session_info :: "rci_build \<Rightarrow> ccapi_rci_info_t \<Rightarrow> ccapi_rci_info_t" where
  "start_session_info b info =
     (let info1 = info\<lparr>ri_action := Some CCAPI_RCI_ACTION_QUERY, ri_error_hint := None, ri_matches := False,
                       ri_compare_to := Some CCAPI_RCI_QUERY_SETTING_ATTRIBUTE_COMPARE_TO_NONE,
                       ri_source := Some CCAPI_RCI_QUERY_SETTING_ATTRIBUTE_SOURCE_CURRENT,
                       ri_group_type := Some CCAPI_RCI_GROUP_SETTING\<rparr>;
          info2 = clear_element_info b (clear_all_list_info b (clear_group_info b info1))
      in info2\<lparr>ri_target := None, ri_request := None, ri_response := False\<rparr>)"

definition ccapi_action :: "connector_remote_action_t \<Rightarrow> ccapi_rci_action_t" where
  "ccapi_action a =
     (case a of
        connector_remote_action_set \<Rightarrow> CCAPI_RCI_ACTION_SET
      | connector_remote_action_query \<Rightarrow> CCAPI_RCI_ACTION_QUERY
      | connector_remote_action_do_command \<Rightarrow> CCAPI_RCI_ACTION_DO_COMMAND
      | connector_remote_action_reboot \<Rightarrow> CCAPI_RCI_ACTION_REBOOT
      | connector_remote_action_set_factory_def \<Rightarrow> CCAPI_RCI_ACTION_SET_FACTORY_DEFAULTS)"

definition ccapi_group_type :: "connector_remote_group_type_t \<Rightarrow> ccapi_rci_group_type_t" where
  "ccapi_group_type t =
     (case t of
        connector_remote_group_setting \<Rightarrow> CCAPI_RCI_GROUP_SETTING
      | connector_remote_group_state \<Rightarrow> CCAPI_RCI_GROUP_STATE)"

definition start_action_info ::
  "rci_build \<Rightarrow> connector_remote_config_t \<Rightarrow> ccapi_rci_info_t \<Rightarrow> ccapi_rci_info_t" where
  "start_action_info b rc info =
     (let action = ccapi_action (rc_action rc);
          group_type = ccapi_group_type (rc_group_type rc);
          info1 = info\<lparr>ri_action := Some action, ri_group_type := Some group_type\<rparr>;
          info2 = (if action = CCAPI_RCI_ACTION_QUERY \<and> group_type = CCAPI_RCI_GROUP_SETTING
                   then info1\<lparr>ri_compare_to := Some (connector_to_ccapi_compare_to_attribute (rc_compare_to rc)),
                              ri_source := Some (connector_to_ccapi_source_attribute (rc_source rc)),
                              ri_matches := False\<rparr>
                   else if action = CCAPI_RCI_ACTION_SET \<and> group_type = CCAPI_RCI_GROUP_SETTING
                   then info1\<lparr>ri_embed_transformed_values := rc_embed_transformed_values rc\<rparr>
                   else info1)
      in clear_element_info b (clear_all_list_info b (clear_group_info b info2)))"

definition do_command_info :: "connector_remote_config_t \<Rightarrow> ccapi_rci_info_t \<Rightarrow> ccapi_rci_info_t ub" where
  "do_command_info rc info =
     (case rc_element_value rc of
        None \<Rightarrow> Inl Null_Dereference
      | Some v \<Rightarrow>
          ub_bind (string_value v) (\<lambda>request.
            case rc_response_value rc of
              None \<Rightarrow> Inl Null_Dereference
            | Some r \<Rightarrow> Inr (info\<lparr>ri_target := rc_target rc, ri_request := request, ri_response := True\<rparr>)))"

subsection \<open>Groups and lists\<close>

text \<open>Lists and element of a group that is entered.\<close>

definition group_entered :: "rci_build \<Rightarrow> ccapi_rci_info_t \<Rightarrow> ccapi_rci_info_t" where
  "group_entered b info = clear_element_info b (clear_all_list_info b info)"

definition enter_group ::
  "rci_build \<Rightarrow> (connector_remote_level \<Rightarrow> rci_level \<Rightarrow> rci_level) \<Rightarrow> connector_remote_config_t
     \<Rightarrow> ccapi_rci_info_t \<Rightarrow> ccapi_rci_info_t" where
  "enter_group b f rc info =
     (let r = rc_group rc
      in group_entered b (info\<lparr>ri_group := f r ((ri_group info)\<lparr>lv_id := rl_id r\<rparr>)\<rparr>))"

definition copy_type_name :: "rci_build \<Rightarrow> connector_remote_level \<Rightarrow> rci_level \<Rightarrow> rci_level" where
  "copy_type_name b r l = copy_name b r (copy_type r l)"

definition copy_type_item_name :: "rci_build \<Rightarrow> connector_remote_level \<Rightarrow> rci_level \<Rightarrow> rci_level" where
  "copy_type_item_name b r l = copy_name b r (copy_item r (copy_type r l))"

text \<open>An instance that is removed is named by its key, which a dictionary that varies reads twice.\<close>

definition copy_removed :: "rci_build \<Rightarrow> connector_remote_level \<Rightarrow> rci_level \<Rightarrow> rci_level" where
  "copy_removed b r l =
     (let l1 = copy_type_item_name b r l
      in if lv_collection_type l1 = Some CCAPI_RCI_COLLECTION_TYPE_VARIABLE_DICTIONARY
         then l1\<lparr>lv_item := Item_Key (item_key (rl_item r))\<rparr> else l1)"

text \<open>The instances that are set: a number of them, or their keys.\<close>

definition copy_instances :: "connector_remote_level \<Rightarrow> rci_level \<Rightarrow> rci_level" where
  "copy_instances r l =
     (case lv_collection_type l of
        Some CCAPI_RCI_COLLECTION_TYPE_VARIABLE_ARRAY \<Rightarrow> l\<lparr>lv_item := Item_Count (item_count (rl_item r))\<rparr>
      | Some CCAPI_RCI_COLLECTION_TYPE_VARIABLE_DICTIONARY \<Rightarrow> l\<lparr>lv_item := Item_Dictionary (item_dictionary (rl_item r))\<rparr>
      | _ \<Rightarrow> l)"

text \<open>\<open>list_instances_set\<close> keeps the depth and reads the collection type that is there.\<close>

definition set_list_info :: "connector_remote_config_t \<Rightarrow> ccapi_rci_info_t \<Rightarrow> ccapi_rci_info_t ub" where
  "set_list_info rc info =
     ub_bind (remote_level rc) (\<lambda>r. put_level (level_index rc) (copy_instances r) info)"

definition enter_list ::
  "rci_build \<Rightarrow> (connector_remote_level \<Rightarrow> rci_level \<Rightarrow> rci_level) \<Rightarrow> connector_remote_config_t
     \<Rightarrow> ccapi_rci_info_t \<Rightarrow> ccapi_rci_info_t ub" where
  "enter_list b f rc info =
     ub_bind (enter_level f rc info) (\<lambda>info1. Inr (clear_element_info b info1))"

definition level_type :: "connector_remote_config_t \<Rightarrow> ccapi_rci_info_t \<Rightarrow> ccapi_rci_collection_type_t option" where
  "level_type rc info = lv_collection_type (ri_list info ! level_index rc)"

subsection \<open>Elements\<close>

primrec items_of :: "connector_item_t \<Rightarrow> connector_item_t list ub" where
  "items_of (Item_Collection items) = Inr items"
| "items_of (Item_Element names) = Inl Out_Of_Bounds"

definition item_at :: "connector_item_t list \<Rightarrow> u32 \<Rightarrow> connector_item_t ub" where
  "item_at items i = (if unat i < length items then Inr (items ! unat i) else Inl Out_Of_Bounds)"

fun descend :: "connector_remote_level list \<Rightarrow> connector_item_t list \<Rightarrow> connector_item_t list ub" where
  "descend [] items = Inr items"
| "descend (l # ls) items =
     ub_bind (item_at items (rl_id l)) (\<lambda>item. ub_bind (items_of item) (descend ls))"

text \<open>The names of the enumeration of the element; a group that is not there is read all the same.\<close>

definition get_ccfsm_element_enum_element ::
  "connector_remote_config_data_t \<Rightarrow> connector_remote_config_t \<Rightarrow> string list option ub" where
  "get_ccfsm_element_enum_element desc rc =
     (let groups = desc (rc_group_type rc)
      in if length groups \<le> unat (rl_id (rc_group rc)) then Inl Out_Of_Bounds
         else if length (rc_levels rc) < unat (rc_depth rc) then Inl Out_Of_Bounds
         else
           ub_bind (descend (take (unat (rc_depth rc)) (rc_levels rc)) (groups ! unat (rl_id (rc_group rc)))) (\<lambda>items.
             ub_bind (item_at items (rc_element_id rc)) (\<lambda>item.
               case item of Item_Element names \<Rightarrow> Inr names | Item_Collection items' \<Rightarrow> Inl Out_Of_Bounds)))"

definition queue_enum_callback :: "connector_remote_config_t \<Rightarrow> 'w rci_service \<Rightarrow> 'w rci_service ub" where
  "queue_enum_callback rc d =
     ub_bind (get_ccfsm_element_enum_element (rv_desc d) rc) (\<lambda>names. Inr (d\<lparr>rv_enum_data := names\<rparr>))"

definition ccapi_element_type :: "connector_element_type_t \<Rightarrow> ccapi_rci_element_type_t option" where
  "ccapi_element_type t =
     (case t of
        connector_element_type_string \<Rightarrow> Some CCAPI_RCI_ELEMENT_TYPE_STRING
      | connector_element_type_multiline_string \<Rightarrow> Some CCAPI_RCI_ELEMENT_TYPE_MULTILINE_STRING
      | connector_element_type_password \<Rightarrow> Some CCAPI_RCI_ELEMENT_TYPE_PASSWORD
      | connector_element_type_fqdnv4 \<Rightarrow> Some CCAPI_RCI_ELEMENT_TYPE_FQDNV4
      | connector_element_type_fqdnv6 \<Rightarrow> Some CCAPI_RCI_ELEMENT_TYPE_FQDNV6
      | connector_element_type_datetime \<Rightarrow> Some CCAPI_RCI_ELEMENT_TYPE_DATETIME
      | connector_element_type_ipv4 \<Rightarrow> Some CCAPI_RCI_ELEMENT_TYPE_IPV4
      | connector_element_type_mac_addr \<Rightarrow> Some CCAPI_RCI_ELEMENT_TYPE_MAC
      | connector_element_type_int32 \<Rightarrow> Some CCAPI_RCI_ELEMENT_TYPE_INT32
      | connector_element_type_uint32 \<Rightarrow> Some CCAPI_RCI_ELEMENT_TYPE_UINT32
      | connector_element_type_hex32 \<Rightarrow> Some CCAPI_RCI_ELEMENT_TYPE_HEX32
      | connector_element_type_0x_hex32 \<Rightarrow> Some CCAPI_RCI_ELEMENT_TYPE_0X32
      | connector_element_type_float \<Rightarrow> Some CCAPI_RCI_ELEMENT_TYPE_FLOAT
      | connector_element_type_enum \<Rightarrow> Some CCAPI_RCI_ELEMENT_TYPE_ENUM
      | connector_element_type_on_off \<Rightarrow> Some CCAPI_RCI_ELEMENT_TYPE_ON_OFF
      | connector_element_type_boolean \<Rightarrow> Some CCAPI_RCI_ELEMENT_TYPE_BOOL
      | connector_element_type_ref_enum \<Rightarrow> Some CCAPI_RCI_ELEMENT_TYPE_REF_ENUM
      | connector_element_type_list \<Rightarrow> None)"

text \<open>\<open>HAVE_HANDLER\<close> asks for \<open>set_element\<close> also where \<open>set_and_transform_element\<close> is called.\<close>

definition have_element_handler :: "'w rci_service \<Rightarrow> bool" where
  "have_element_handler d \<longleftrightarrow>
     ri_action (rv_info d) = Some CCAPI_RCI_ACTION_QUERY \<and> cb_get_element (rv_callbacks d) \<noteq> None
     \<or> ri_action (rv_info d) = Some CCAPI_RCI_ACTION_SET \<and> cb_set_element (rv_callbacks d) \<noteq> None"

definition queue_element :: "connector_remote_config_t \<Rightarrow> 'w rci_service \<Rightarrow> 'w rci_service ub" where
  "queue_element rc d =
     (if ri_action (rv_info d) = Some CCAPI_RCI_ACTION_QUERY
      then Inr (d\<lparr>rv_pointer := Response_Value, rv_type := ccapi_callback_type_element,
                  rv_element := cb_get_element (rv_callbacks d)\<rparr>)
      else if \<not> ri_embed_transformed_values (rv_info d)
      then Inr (d\<lparr>rv_pointer := Element_Value, rv_type := ccapi_callback_type_element,
                  rv_element := cb_set_element (rv_callbacks d)\<rparr>)
      else if rc_response_value rc = None then Inl Null_Dereference
      else Inr (d\<lparr>rv_pointer := Element_Value, rv_type := ccapi_callback_type_transform,
                  rv_transform := cb_set_and_transform_element (rv_callbacks d)\<rparr>))"

definition element_process :: "rci_build \<Rightarrow> connector_remote_config_t \<Rightarrow> 'w rci_service \<Rightarrow> 'w rci_service ub" where
  "element_process b rc d =
     (if \<not> have_element_handler d then Inr d
      else
        (let info1 = (rv_info d)\<lparr>ri_depth := rc_depth rc, ri_element_id := rc_element_id rc\<rparr>;
             info2 = (if RCI_PARSER_USES_ELEMENT_NAMES b then info1\<lparr>ri_element_name := rc_element_name rc\<rparr> else info1)
         in ub_bind (queue_element rc (d\<lparr>rv_info := info2\<rparr>)) (\<lambda>d1.
              case ccapi_element_type (rc_element_type rc) of
                None \<Rightarrow> Inr d1
              | Some t \<Rightarrow>
                  (let d2 = upd_info (\<lambda>info. info\<lparr>ri_element_type := Some t\<rparr>) d1
                   in if rc_element_type rc = connector_element_type_enum \<and> RCI_ENUMS_AS_STRINGS b
                      then queue_enum_callback rc d2 else Inr d2))))"

subsection \<open>A request to an idle service\<close>

definition not_set_element :: "ccapi_rci_info_t \<Rightarrow> ccapi_rci_info_t ub" where
  "not_set_element info = Inr (info\<lparr>ri_element_type := Some CCAPI_RCI_ELEMENT_TYPE_NOT_SET\<rparr>)"

definition rci_queue ::
  "rci_build \<Rightarrow> connector_request_id_remote_config_t \<Rightarrow> connector_remote_config_t \<Rightarrow> 'w rci_service \<Rightarrow> 'w rci_service ub"
where
  "rci_queue b request_id rc d =
     (let cbs = rv_callbacks d
      in case request_id of
           connector_request_id_remote_config_session_start \<Rightarrow>
             with_base (cb_start_session cbs) (\<lambda>info. Inr (start_session_info b info)) d
         | connector_request_id_remote_config_action_start \<Rightarrow>
             with_base (cb_start_action cbs) (\<lambda>info. Inr (start_action_info b rc info)) d
         | connector_request_id_remote_config_do_command \<Rightarrow> with_base (cb_do_command cbs) (do_command_info rc) d
         | connector_request_id_remote_config_reboot \<Rightarrow> with_base (cb_reboot cbs) Inr d
         | connector_request_id_remote_config_set_factory_def \<Rightarrow> with_base (cb_set_factory_defaults cbs) Inr d
         | connector_request_id_remote_config_group_instances_lock \<Rightarrow>
             with_lock (cb_lock_group_instances cbs) (\<lambda>info. Inr (enter_group b (copy_type_name b) rc info))
               (\<lambda>info. lv_collection_type (ri_group info)) d
         | connector_request_id_remote_config_group_instances_set \<Rightarrow>
             with_base (cb_set_group_instances cbs)
               (\<lambda>info. Inr (info\<lparr>ri_group := copy_instances (rc_group rc) (ri_group info)\<rparr>)) d
         | connector_request_id_remote_config_group_instance_remove \<Rightarrow>
             with_base (cb_remove_group_instance cbs) (\<lambda>info. Inr (enter_group b (copy_removed b) rc info)) d
         | connector_request_id_remote_config_group_instances_unlock \<Rightarrow>
             with_base (cb_unlock_group_instances cbs) (\<lambda>info. Inr (enter_group b (copy_type_name b) rc info)) d
         | connector_request_id_remote_config_group_start \<Rightarrow>
             with_base (cb_start_group cbs) (\<lambda>info. Inr (enter_group b (copy_type_item_name b) rc info)) d
         | connector_request_id_remote_config_list_instances_lock \<Rightarrow>
             with_lock (cb_lock_list_instances cbs) (enter_list b (copy_type_name b) rc) (level_type rc) d
         | connector_request_id_remote_config_list_instances_set \<Rightarrow>
             with_base (cb_set_list_instances cbs) (set_list_info rc) d
         | connector_request_id_remote_config_list_instance_remove \<Rightarrow>
             with_base (cb_remove_list_instance cbs) (enter_list b (copy_removed b) rc) d
         | connector_request_id_remote_config_list_instances_unlock \<Rightarrow>
             with_base (cb_unlock_list_instances cbs) (enter_list b (copy_type_name b) rc) d
         | connector_request_id_remote_config_list_start \<Rightarrow>
             with_base (cb_start_list cbs) (enter_list b (copy_type_item_name b) rc) d
         | connector_request_id_remote_config_element_process \<Rightarrow> element_process b rc d
         | connector_request_id_remote_config_list_end \<Rightarrow>
             with_base (cb_end_list cbs) (\<lambda>info. Inr (info\<lparr>ri_depth := rc_depth rc\<rparr>)) d
         | connector_request_id_remote_config_group_end \<Rightarrow> with_base (cb_end_group cbs) Inr d
         | connector_request_id_remote_config_action_end \<Rightarrow> with_base (cb_end_action cbs) not_set_element d
         | connector_request_id_remote_config_session_end \<Rightarrow> with_base (cb_end_session cbs) not_set_element d
         | connector_request_id_remote_config_session_cancel \<Rightarrow> Inr d)"

subsection \<open>The answer to a request whose callback has returned\<close>

definition rci_processed ::
  "rci_build \<Rightarrow> connector_request_id_remote_config_t \<Rightarrow> connector_remote_config_t \<Rightarrow> ccapi_rci_info_t
     \<Rightarrow> (connector_remote_config_t \<times> ccapi_rci_info_t) ub" where
  "rci_processed b request_id rc info =
     (let compare = rc\<lparr>rc_compare_matches := ri_matches info\<rparr>;
          query = (ri_group_type info = Some CCAPI_RCI_GROUP_SETTING \<and> ri_action info = Some CCAPI_RCI_ACTION_QUERY)
      in case request_id of
           connector_request_id_remote_config_group_start \<Rightarrow> Inr (if query then compare else rc, info)
         | connector_request_id_remote_config_list_start \<Rightarrow> Inr (if query then compare else rc, info)
         | connector_request_id_remote_config_element_process \<Rightarrow>
             Inr (if query then (compare, info\<lparr>ri_matches := False\<rparr>) else (rc, info))
         | connector_request_id_remote_config_list_end \<Rightarrow>
             ub_bind (put_level (unat (ri_depth info - 1)) (clear_level b) info) (\<lambda>info1.
               Inr (rc, clear_element_info b info1))
         | connector_request_id_remote_config_group_end \<Rightarrow>
             Inr (rc, clear_element_info b (clear_all_list_info b (clear_group_info b info)))
         | connector_request_id_remote_config_action_end \<Rightarrow>
             Inr (rc, if ri_action info = Some CCAPI_RCI_ACTION_DO_COMMAND
                      then info\<lparr>ri_target := None, ri_request := None, ri_response := False\<rparr> else info)
         | _ \<Rightarrow> Inr (rc, info))"

subsection \<open>The handler\<close>

definition ccapi_rci_handler ::
  "rci_build \<Rightarrow> 'w os \<Rightarrow> connector_request_id_remote_config_t \<Rightarrow> connector_remote_config_t \<Rightarrow> 'w rci_service \<Rightarrow> 'w
     \<Rightarrow> (connector_callback_status_t \<times> connector_remote_config_t \<times> 'w rci_service \<times> 'w) ub" where
  "ccapi_rci_handler b os request_id rc d w =
     (if request_id = connector_request_id_remote_config_session_cancel
      then Inr (connector_callback_continue, rc, (clear_callback b d)\<lparr>rv_thread_status := CCAPI_RCI_THREAD_IDLE\<rparr>, w)
      else
        (case rv_thread_status d of
           CCAPI_RCI_THREAD_IDLE \<Rightarrow>
             (let d1 = upd_info (\<lambda>info. info\<lparr>ri_user_context := rc_user_context rc, ri_error_hint := rc_error_hint rc\<rparr>)
                         (clear_callback b d)
              in ub_bind (rci_queue b request_id rc d1) (\<lambda>d2.
                   if rv_type d2 = ccapi_callback_type_none
                   then Inr (connector_callback_busy, rc, d2\<lparr>rv_thread_status := CCAPI_RCI_THREAD_CB_PROCESSED\<rparr>, w)
                   else Inr (connector_callback_busy, rc, d2\<lparr>rv_thread_status := CCAPI_RCI_THREAD_CB_QUEUED\<rparr>,
                             snd (ccapi_lock_release os (rv_run_lock d2) w))))
         | CCAPI_RCI_THREAD_CB_QUEUED \<Rightarrow> Inr (connector_callback_busy, rc, d, w)
         | CCAPI_RCI_THREAD_CB_PROCESSED \<Rightarrow>
             ub_bind (rci_processed b request_id rc (rv_info d)) (\<lambda>(rc1, info).
               let rc2 = rc1\<lparr>rc_error_id := rv_error d, rc_user_context := ri_user_context info,
                             rc_error_hint := ri_error_hint info\<rparr>
               in Inr (connector_callback_continue, rc2,
                       (clear_callback b (d\<lparr>rv_info := info\<rparr>))\<lparr>rv_thread_status := CCAPI_RCI_THREAD_IDLE\<rparr>, w))))"

subsection \<open>The thread\<close>

text \<open>
  The thread takes two steps: it wakes and calls the callback; it stores what the callback
  returned and wrote. The handler may run in between, and so may a cancellation.
\<close>

datatype rci_write =
    Write_Response_String "string option"
  | Write_Response_Item ccapi_response_item_t
  | Write_Value rci_pointer ccapi_element_value_t

datatype rci_phase = Rci_Waiting | Rci_In_Callback u32 rci_answer "rci_write list" | Rci_Exited

primrec apply_write :: "rci_write \<Rightarrow> connector_remote_config_t \<Rightarrow> connector_remote_config_t" where
  "apply_write (Write_Response_String s) rc = rc\<lparr>rc_response_value := Some (Value_String s)\<rparr>"
| "apply_write (Write_Response_Item item) rc = rc\<lparr>rc_response_item := item\<rparr>"
| "apply_write (Write_Value p v) rc =
     (if p = Response_Value then rc\<lparr>rc_response_value := Some v\<rparr> else rc\<lparr>rc_element_value := Some v\<rparr>)"

definition pointed_value :: "rci_pointer \<Rightarrow> connector_remote_config_t \<Rightarrow> ccapi_element_value_t option ub" where
  "pointed_value p rc =
     (case p of
        Response_Value \<Rightarrow> Inr (rc_response_value rc)
      | Element_Value \<Rightarrow> Inr (rc_element_value rc)
      | _ \<Rightarrow> Inl Uninitialised_Read)"

definition enum_names :: "rci_build \<Rightarrow> 'w rci_service \<Rightarrow> string list option" where
  "enum_names b d = (if RCI_ENUMS_AS_STRINGS b then rv_enum_data d else None)"

definition enum_to_string :: "string list \<Rightarrow> u32 \<Rightarrow> string ub" where
  "enum_to_string names n = (if unat n < length names then Inr (names ! unat n) else Inl Out_Of_Bounds)"

text \<open>The index of the string, or -1.\<close>

fun string_to_enum_from :: "nat \<Rightarrow> string list \<Rightarrow> string \<Rightarrow> int" where
  "string_to_enum_from i [] s = - 1"
| "string_to_enum_from i (x # xs) s = (if x = s then int i else string_to_enum_from (Suc i) xs s)"

definition string_to_enum :: "string list \<Rightarrow> string option \<Rightarrow> int ub" where
  "string_to_enum names s =
     (case s of
        None \<Rightarrow> if names = [] then Inr (- 1) else Inl Null_Dereference
      | Some t \<Rightarrow> Inr (string_to_enum_from 0 names t))"

text \<open>
  \<open>bad_value\<close> is \<open>connector_protocol_error_bad_value\<close>, an enumerator of the connector. A result
  \<open>None\<close> is a failed assertion, which ends the thread.
\<close>

type_synonym 'w rci_call = "(u32 \<times> rci_answer \<times> rci_write list \<times> 'w) option ub"

definition call_base :: "'w rci_service \<Rightarrow> 'w \<Rightarrow> 'w rci_call" where
  "call_base d w =
     (case rv_base d of
        None \<Rightarrow> Inr None
      | Some f \<Rightarrow>
          (case f (rv_info d) w of
             (e, a, s, w1) \<Rightarrow> Inr (Some (e, a, if ri_response (rv_info d) then [Write_Response_String s] else [], w1))))"

definition call_lock :: "connector_remote_config_t \<Rightarrow> 'w rci_service \<Rightarrow> 'w \<Rightarrow> 'w rci_call" where
  "call_lock rc d w =
     (case rv_lock d of
        None \<Rightarrow> Inr None
      | Some f \<Rightarrow>
          (if rv_pointer d \<noteq> Response_Item then Inl Uninitialised_Read
           else
             (case f (rv_info d) (rc_response_item rc) w of
                (e, a, item, w1) \<Rightarrow> Inr (Some (e, a, [Write_Response_Item item], w1)))))"

definition call_element :: "rci_build \<Rightarrow> u32 \<Rightarrow> connector_remote_config_t \<Rightarrow> 'w rci_service \<Rightarrow> 'w \<Rightarrow> 'w rci_call" where
  "call_element b bad_value rc d w =
     (case rv_element d of
        None \<Rightarrow> Inr None
      | Some f \<Rightarrow>
          ub_bind (pointed_value (rv_pointer d) rc) (\<lambda>pointed.
            case pointed of
              None \<Rightarrow> Inr None
            | Some v \<Rightarrow>
                (case enum_names b d of
                   None \<Rightarrow>
                     (case f (rv_info d) v w of
                        (e, a, v', w1) \<Rightarrow> Inr (Some (e, a, [Write_Value (rv_pointer d) v'], w1)))
                 | Some names \<Rightarrow>
                     (if ri_action (rv_info d) = Some CCAPI_RCI_ACTION_QUERY
                      then
                        (case f (rv_info d) (Value_String None) w of
                           (e, a, v', w1) \<Rightarrow>
                             (if e \<noteq> 0 then Inr (Some (e, a, [], w1))
                              else
                                ub_bind (string_value v') (\<lambda>s. ub_bind (string_to_enum names s) (\<lambda>enum_id.
                                  Inr (Some (if enum_id < 0 then bad_value else 0, a,
                                             [Write_Value (rv_pointer d) (Value_Enum (of_int enum_id))], w1))))))
                      else
                        ub_bind (enum_value v) (\<lambda>n. ub_bind (enum_to_string names n) (\<lambda>s.
                          case f (rv_info d) (Value_String (Some s)) w of
                            (e, a, v', w1) \<Rightarrow> Inr (Some (e, a, [], w1))))))))"

definition call_transform :: "rci_build \<Rightarrow> connector_remote_config_t \<Rightarrow> 'w rci_service \<Rightarrow> 'w \<Rightarrow> 'w rci_call" where
  "call_transform b rc d w =
     (case rv_transform d of
        None \<Rightarrow> Inr None
      | Some f \<Rightarrow>
          ub_bind (pointed_value (rv_pointer d) rc) (\<lambda>pointed.
            case pointed of
              None \<Rightarrow> Inr None
            | Some v \<Rightarrow>
                (case enum_names b d of
                   None \<Rightarrow>
                     (case f (rv_info d) v w of
                        (e, a, v', s, w1) \<Rightarrow>
                          Inr (Some (e, a, [Write_Value (rv_pointer d) v', Write_Response_String s], w1)))
                 | Some names \<Rightarrow>
                     ub_bind (enum_value v) (\<lambda>n. ub_bind (enum_to_string names n) (\<lambda>name.
                       case f (rv_info d) (Value_String (Some name)) w of
                         (e, a, v', s, w1) \<Rightarrow> Inr (Some (e, a, [Write_Response_String s], w1)))))))"

definition rci_call_queued ::
  "rci_build \<Rightarrow> u32 \<Rightarrow> connector_remote_config_t \<Rightarrow> 'w rci_service \<Rightarrow> 'w \<Rightarrow> 'w rci_call" where
  "rci_call_queued b bad_value rc d w =
     (case rv_type d of
        ccapi_callback_type_none \<Rightarrow> Inr None
      | ccapi_callback_type_base \<Rightarrow> call_base d w
      | ccapi_callback_type_lock \<Rightarrow> call_lock rc d w
      | ccapi_callback_type_element \<Rightarrow> call_element b bad_value rc d w
      | ccapi_callback_type_transform \<Rightarrow> call_transform b rc d w)"

definition rci_thread_start :: "'w rci_service \<Rightarrow> 'w rci_service" where
  "rci_thread_start d = d\<lparr>rv_run_status := CCAPI_THREAD_RUNNING\<rparr>"

text \<open>From the acquired lock to the return of the callback.\<close>

definition rci_thread_wake ::
  "rci_build \<Rightarrow> u32 \<Rightarrow> connector_remote_config_t \<Rightarrow> 'w rci_service \<Rightarrow> 'w \<Rightarrow> (rci_phase \<times> 'w rci_service \<times> 'w) ub" where
  "rci_thread_wake b bad_value rc d w =
     (let exit = (Rci_Exited, d\<lparr>rv_run_status := CCAPI_THREAD_NOT_STARTED\<rparr>, w)
      in if rv_run_status d = CCAPI_THREAD_REQUEST_STOP then Inr exit
         else if rv_thread_status d \<noteq> CCAPI_RCI_THREAD_CB_QUEUED then Inr exit
         else
           ub_bind (rci_call_queued b bad_value rc d w) (\<lambda>r.
             case r of
               None \<Rightarrow> Inr exit
             | Some (e, a, writes, w1) \<Rightarrow> Inr (Rci_In_Callback e a writes, d, w1)))"

text \<open>From the return of the callback to the next wait, or the end of the loop.\<close>

definition rci_thread_finish ::
  "u32 \<Rightarrow> rci_answer \<Rightarrow> rci_write list \<Rightarrow> connector_remote_config_t \<Rightarrow> 'w rci_service
     \<Rightarrow> rci_phase \<times> connector_remote_config_t \<times> 'w rci_service" where
  "rci_thread_finish e a writes rc d =
     (let d1 = (upd_info (put_answer a) d)\<lparr>rv_error := e\<rparr>;
          d2 = (if rv_thread_status d1 = CCAPI_RCI_THREAD_CB_QUEUED
                then d1\<lparr>rv_thread_status := CCAPI_RCI_THREAD_CB_PROCESSED\<rparr> else d1)
      in if rv_run_status d = CCAPI_THREAD_RUNNING then (Rci_Waiting, fold apply_write writes rc, d2)
         else (Rci_Exited, fold apply_write writes rc, d2\<lparr>rv_run_status := CCAPI_THREAD_NOT_STARTED\<rparr>))"

end
