(* ===== verification/RciSystem.thy ===== *)
theory RciSystem
  imports Rci LinuxOs
begin

text \<open>
  The remote configuration as a system: the requests of the connector, repeated while they are
  answered busy, and the steps of the thread in any order. It refines an automaton that knows no
  threads: a request asks, its callback returns, its answer carries what the callback returned.

  \<open>rci_allowed\<close> says what the connector does. It repeats a request until it is answered. It gives
  what a request needs (\<open>rci_request_ok\<close>): levels of lists within the arrays of the request and of
  the description, values that are not NULL and a string for a command, an element within its
  description when enumerations are kept as strings, and locks instances of collections that vary
  in size only. And it cancels no session whose callback is queued or running, which the code does
  not enforce. The end of a list is not restricted: \<open>leaves_the_levels\<close> says when the answer to it
  is undefined.
\<close>

subsection \<open>What a request needs\<close>

definition level_ok :: "connector_remote_config_t \<Rightarrow> ccapi_rci_info_t \<Rightarrow> bool" where
  "level_ok rc info \<longleftrightarrow> level_index rc < length (rc_levels rc) \<and> level_index rc < length (ri_list info)"

definition varies :: "ccapi_rci_collection_type_t option \<Rightarrow> bool" where
  "varies t \<longleftrightarrow> t = Some CCAPI_RCI_COLLECTION_TYPE_VARIABLE_ARRAY \<or> t = Some CCAPI_RCI_COLLECTION_TYPE_VARIABLE_DICTIONARY"

text \<open>
  What an enumeration that is kept as a string needs: it is in the description; if it has names,
  a number that is set has one, and a \<open>get_element\<close> that succeeds has stored a string.
\<close>

definition get_answers_strings :: "'w rci_callbacks \<Rightarrow> bool" where
  "get_answers_strings c \<longleftrightarrow>
     (\<forall>f info w e a v w'. cb_get_element c = Some f \<longrightarrow> f info (Value_String None) w = (e, a, v, w') \<longrightarrow>
        e \<noteq> 0 \<or> (\<exists>t. v = Value_String (Some t)))"

definition enum_request_ok :: "rci_build \<Rightarrow> connector_remote_config_t \<Rightarrow> 'w rci_service \<Rightarrow> bool" where
  "enum_request_ok b rc d \<longleftrightarrow>
     (rc_element_type rc = connector_element_type_enum \<and> RCI_ENUMS_AS_STRINGS b \<longrightarrow>
        (case get_ccfsm_element_enum_element (rv_desc d) rc of
           Inl e \<Rightarrow> False
         | Inr None \<Rightarrow> True
         | Inr (Some names) \<Rightarrow>
             (if ri_action (rv_info d) = Some CCAPI_RCI_ACTION_QUERY then get_answers_strings (rv_callbacks d)
              else \<exists>n. rc_element_value rc = Some (Value_Enum n) \<and> unat n < length names)))"

definition rci_request_ok ::
  "rci_build \<Rightarrow> connector_request_id_remote_config_t \<Rightarrow> connector_remote_config_t \<Rightarrow> 'w rci_service \<Rightarrow> bool" where
  "rci_request_ok b request_id rc d \<longleftrightarrow>
     (let info = rv_info d
      in case request_id of
           connector_request_id_remote_config_do_command \<Rightarrow>
             (\<exists>s. rc_element_value rc = Some (Value_String s)) \<and> rc_response_value rc \<noteq> None
         | connector_request_id_remote_config_group_instances_lock \<Rightarrow> varies (rl_collection_type (rc_group rc))
         | connector_request_id_remote_config_list_instances_lock \<Rightarrow>
             level_ok rc info \<and> varies (rl_collection_type (rc_levels rc ! level_index rc))
         | connector_request_id_remote_config_list_instances_set \<Rightarrow> level_ok rc info
         | connector_request_id_remote_config_list_instance_remove \<Rightarrow> level_ok rc info
         | connector_request_id_remote_config_list_instances_unlock \<Rightarrow> level_ok rc info
         | connector_request_id_remote_config_list_start \<Rightarrow> level_ok rc info
         | connector_request_id_remote_config_element_process \<Rightarrow>
             rc_element_value rc \<noteq> None \<and> rc_response_value rc \<noteq> None \<and> enum_request_ok b rc d
         | connector_request_id_remote_config_session_cancel \<Rightarrow> False
         | _ \<Rightarrow> True)"

subsection \<open>The callbacks of the user\<close>

definition base_callbacks :: "'w rci_callbacks \<Rightarrow> 'w ccapi_rci_function_base_t option set" where
  "base_callbacks c =
     {cb_start_session c, cb_end_session c, cb_start_action c, cb_end_action c, cb_start_group c, cb_end_group c,
      cb_set_group_instances c, cb_remove_group_instance c, cb_unlock_group_instances c, cb_start_list c, cb_end_list c,
      cb_set_list_instances c, cb_remove_list_instance c, cb_unlock_list_instances c, cb_do_command c,
      cb_set_factory_defaults c, cb_reboot c}"

text \<open>They leave the lock of the thread alone, and there is one that transforms if there is one that sets.\<close>

definition callbacks_ok :: "(nat \<Rightarrow> 'w \<Rightarrow> nat option) \<Rightarrow> nat \<Rightarrow> 'w rci_callbacks \<Rightarrow> bool" where
  "callbacks_ok tokens thl c \<longleftrightarrow>
     (\<forall>f info w. Some f \<in> base_callbacks c \<longrightarrow> tokens thl (snd (snd (snd (f info w)))) = tokens thl w)
     \<and> (\<forall>f info x w. Some f \<in> {cb_lock_group_instances c, cb_lock_list_instances c} \<longrightarrow>
          tokens thl (snd (snd (snd (f info x w)))) = tokens thl w)
     \<and> (\<forall>f info x w. Some f \<in> {cb_get_element c, cb_set_element c} \<longrightarrow>
          tokens thl (snd (snd (snd (f info x w)))) = tokens thl w)
     \<and> (\<forall>f info x w. cb_set_and_transform_element c = Some f \<longrightarrow>
          tokens thl (snd (snd (snd (snd (f info x w))))) = tokens thl w)
     \<and> (cb_set_element c \<noteq> None \<longrightarrow> cb_set_and_transform_element c \<noteq> None)"

text \<open>The queued callback can be called.\<close>

definition value_there :: "rci_pointer \<Rightarrow> connector_remote_config_t \<Rightarrow> bool" where
  "value_there p rc \<longleftrightarrow>
     p = Response_Value \<and> rc_response_value rc \<noteq> None \<or> p = Element_Value \<and> rc_element_value rc \<noteq> None"

definition enum_ready :: "rci_build \<Rightarrow> connector_remote_config_t \<Rightarrow> 'w rci_service \<Rightarrow> bool" where
  "enum_ready b rc d \<longleftrightarrow>
     (case enum_names b d of
        None \<Rightarrow> True
      | Some names \<Rightarrow>
          (if rv_type d = ccapi_callback_type_element \<and> ri_action (rv_info d) = Some CCAPI_RCI_ACTION_QUERY
           then rv_element d = cb_get_element (rv_callbacks d) \<and> get_answers_strings (rv_callbacks d)
           else \<exists>n. pointed_value (rv_pointer d) rc = Inr (Some (Value_Enum n)) \<and> unat n < length names))"

definition callback_ready :: "rci_build \<Rightarrow> connector_remote_config_t \<Rightarrow> 'w rci_service \<Rightarrow> bool" where
  "callback_ready b rc d \<longleftrightarrow>
     (case rv_type d of
        ccapi_callback_type_none \<Rightarrow> False
      | ccapi_callback_type_base \<Rightarrow> rv_base d \<noteq> None \<and> rv_base d \<in> base_callbacks (rv_callbacks d)
      | ccapi_callback_type_lock \<Rightarrow>
          rv_lock d \<noteq> None \<and> rv_lock d \<in> {cb_lock_group_instances (rv_callbacks d), cb_lock_list_instances (rv_callbacks d)}
          \<and> rv_pointer d = Response_Item
      | ccapi_callback_type_element \<Rightarrow>
          rv_element d \<noteq> None \<and> rv_element d \<in> {cb_get_element (rv_callbacks d), cb_set_element (rv_callbacks d)}
          \<and> value_there (rv_pointer d) rc \<and> enum_ready b rc d
      | ccapi_callback_type_transform \<Rightarrow>
          rv_transform d \<noteq> None \<and> rv_transform d = cb_set_and_transform_element (rv_callbacks d)
          \<and> value_there (rv_pointer d) rc \<and> enum_ready b rc d)"

lemma callback_ready_simps [simp]:
  "callback_ready b rc (d\<lparr>rv_thread_status := st\<rparr>) = callback_ready b rc d"
  "(\<And>info. ri_action (f info) = ri_action info) \<Longrightarrow> callback_ready b rc (upd_info f d) = callback_ready b rc d"
  by (cases "rv_type d"; simp add: callback_ready_def enum_ready_def enum_names_def split: option.split)+

text \<open>What is called keeps the lock, when the call is defined.\<close>

lemma call_element_defined:
  assumes f: "rv_element d = Some f" and v: "pointed_value (rv_pointer d) rc = Inr (Some v)"
    and "rv_type d = ccapi_callback_type_element" and ready: "enum_ready b rc d"
    and keeps: "\<And>info x w. tokens thl (snd (snd (snd (f info x w)))) = tokens thl (w :: 'w)"
  shows "\<exists>e a writes w'. call_element b bad_value rc d w = Inr (Some (e, a, writes, w')) \<and> tokens thl w' = tokens thl w"
proof (cases "enum_names b d")
  case None
  then show ?thesis
    using f v keeps [of "rv_info d" v w] by (cases "f (rv_info d) v w") (simp add: call_element_def)
next
  case (Some names)
  show ?thesis
  proof (cases "ri_action (rv_info d) = Some CCAPI_RCI_ACTION_QUERY")
    case True
    obtain e a v' w' where call: "f (rv_info d) (Value_String None) w = (e, a, v', w')" by (rule prod_cases4)
    have "cb_get_element (rv_callbacks d) = Some f" and strings: "get_answers_strings (rv_callbacks d)"
      using ready Some True assms(3) f by (simp_all add: enum_ready_def)
    then have "e \<noteq> 0 \<or> (\<exists>t. v' = Value_String (Some t))"
      using call unfolding get_answers_strings_def by blast
    moreover have "tokens thl w' = tokens thl w" using keeps [of "rv_info d" "Value_String None" w] call by simp
    ultimately show ?thesis
      using f v Some True call by (auto simp: call_element_def string_value_def string_to_enum_def)
  next
    case False
    then obtain n where n: "v = Value_Enum n" "unat n < length names"
      using ready Some v by (auto simp: enum_ready_def)
    then show ?thesis
      using f v Some False keeps [of "rv_info d" "Value_String (Some (names ! unat n))" w]
      by (cases "f (rv_info d) (Value_String (Some (names ! unat n))) w")
        (simp add: call_element_def enum_value_def enum_to_string_def)
  qed
qed

lemma call_transform_defined:
  assumes f: "rv_transform d = Some f" and v: "pointed_value (rv_pointer d) rc = Inr (Some v)"
    and "rv_type d = ccapi_callback_type_transform" and ready: "enum_ready b rc d"
    and keeps: "\<And>info x w. tokens thl (snd (snd (snd (snd (f info x w))))) = tokens thl (w :: 'w)"
  shows "\<exists>e a writes w'. call_transform b rc d w = Inr (Some (e, a, writes, w')) \<and> tokens thl w' = tokens thl w"
proof (cases "enum_names b d")
  case None
  then show ?thesis
    using f v keeps [of "rv_info d" v w] by (cases "f (rv_info d) v w") (simp add: call_transform_def)
next
  case (Some names)
  then obtain n where n: "v = Value_Enum n" "unat n < length names"
    using ready v assms(3) by (auto simp: enum_ready_def)
  then show ?thesis
    using f v Some keeps [of "rv_info d" "Value_String (Some (names ! unat n))" w]
    by (cases "f (rv_info d) (Value_String (Some (names ! unat n))) w")
      (simp add: call_transform_def enum_value_def enum_to_string_def)
qed

lemma callback_ready_call:
  assumes "callback_ready b rc d" and "callbacks_ok tokens thl (rv_callbacks d)"
  shows "\<exists>e a writes w'. rci_call_queued b bad_value rc d w = Inr (Some (e, a, writes, w')) \<and> tokens thl w' = tokens thl w"
proof (cases "rv_type d")
  case ccapi_callback_type_base
  then obtain f where f: "rv_base d = Some f" "Some f \<in> base_callbacks (rv_callbacks d)"
    using assms(1) by (auto simp: callback_ready_def)
  then have "tokens thl (snd (snd (snd (f (rv_info d) w)))) = tokens thl w" using assms(2) by (simp add: callbacks_ok_def)
  then show ?thesis
    using ccapi_callback_type_base f
    by (cases "f (rv_info d) w") (simp add: rci_call_queued_def call_base_def)
next
  case ccapi_callback_type_lock
  then obtain f where f: "rv_lock d = Some f"
    "Some f \<in> {cb_lock_group_instances (rv_callbacks d), cb_lock_list_instances (rv_callbacks d)}"
    "rv_pointer d = Response_Item"
    using assms(1) by (auto simp: callback_ready_def)
  then have "tokens thl (snd (snd (snd (f (rv_info d) (rc_response_item rc) w)))) = tokens thl w"
    using assms(2) by (auto simp: callbacks_ok_def)
  then show ?thesis
    using ccapi_callback_type_lock f
    by (cases "f (rv_info d) (rc_response_item rc) w") (simp add: rci_call_queued_def call_lock_def)
next
  case ccapi_callback_type_element
  then obtain f v where f: "rv_element d = Some f"
    "Some f \<in> {cb_get_element (rv_callbacks d), cb_set_element (rv_callbacks d)}"
    "pointed_value (rv_pointer d) rc = Inr (Some v)" "enum_ready b rc d"
    using assms(1) by (auto simp: callback_ready_def value_there_def pointed_value_def)
  then have keeps: "\<And>info x w. tokens thl (snd (snd (snd (f info x w)))) = tokens thl w"
    using assms(2) by (auto simp: callbacks_ok_def)
  show ?thesis
    using call_element_defined [where tokens = tokens and thl = thl, OF f(1,3) ccapi_callback_type_element f(4) keeps] ccapi_callback_type_element
    by (simp add: rci_call_queued_def)
next
  case ccapi_callback_type_transform
  then obtain f v where f: "rv_transform d = Some f" "cb_set_and_transform_element (rv_callbacks d) = Some f"
    "pointed_value (rv_pointer d) rc = Inr (Some v)" "enum_ready b rc d"
    using assms(1) by (auto simp: callback_ready_def value_there_def pointed_value_def)
  then have keeps: "\<And>info x w. tokens thl (snd (snd (snd (snd (f info x w))))) = tokens thl w"
    using assms(2) by (auto simp: callbacks_ok_def)
  show ?thesis
    using call_transform_defined [where tokens = tokens and thl = thl, OF f(1,3) ccapi_callback_type_transform f(4) keeps] ccapi_callback_type_transform
    by (simp add: rci_call_queued_def)
qed (use assms(1) in \<open>simp add: callback_ready_def\<close>)

subsection \<open>A request that is queued\<close>

lemma clear_callback_simps [simp]:
  "rv_info (clear_callback b d) = rv_info d" "rv_callbacks (clear_callback b d) = rv_callbacks d"
  "rv_type (clear_callback b d) = ccapi_callback_type_none" "rv_error (clear_callback b d) = 0"
  "rv_run_status (clear_callback b d) = rv_run_status d" "rv_run_lock (clear_callback b d) = rv_run_lock d"
  "rv_thread_status (clear_callback b d) = rv_thread_status d" "enum_names b (clear_callback b d) = None"
  "rv_desc (clear_callback b d) = rv_desc d"
  by (simp_all add: clear_callback_def Let_def enum_names_def)

text \<open>What queueing leaves alone, and that what it queued can be called.\<close>

definition queued_ok :: "rci_build \<Rightarrow> connector_remote_config_t \<Rightarrow> 'w rci_service \<Rightarrow> 'w rci_service \<Rightarrow> bool" where
  "queued_ok b rc d d' \<longleftrightarrow>
     rv_callbacks d' = rv_callbacks d \<and> rv_desc d' = rv_desc d \<and> rv_run_status d' = rv_run_status d \<and> rv_run_lock d' = rv_run_lock d
     \<and> rv_error d' = rv_error d \<and> length (ri_list (rv_info d')) = length (ri_list (rv_info d))
     \<and> (rv_type d' = ccapi_callback_type_none \<or> callback_ready b rc d')"

lemma with_base_ok:
  assumes "rv_type d = ccapi_callback_type_none" and "cb \<in> base_callbacks (rv_callbacks d)"
    and "\<exists>info. prepare (rv_info d) = Inr info \<and> length (ri_list info) = length (ri_list (rv_info d))"
  shows "\<exists>d'. with_base cb prepare d = Inr d' \<and> queued_ok b rc d d'"
  using assms by (cases cb) (auto simp: with_base_def queued_ok_def queue_base_def callback_ready_def)

lemma with_lock_ok:
  assumes "rv_type d = ccapi_callback_type_none"
    and "cb \<in> {cb_lock_group_instances (rv_callbacks d), cb_lock_list_instances (rv_callbacks d)}"
    and "\<exists>info. prepare (rv_info d) = Inr info \<and> length (ri_list info) = length (ri_list (rv_info d)) \<and> varies (collection info)"
  shows "\<exists>d'. with_lock cb prepare collection d = Inr d' \<and> queued_ok b rc d d'"
  using assms by (cases cb) (auto simp: with_lock_def queued_ok_def callback_ready_def varies_def)

lemma list_lengths [simp]:
  "length (ri_list (clear_group_info b info)) = length (ri_list info)"
  "length (ri_list (clear_all_list_info b info)) = length (ri_list info)"
  "length (ri_list (clear_element_info b info)) = length (ri_list info)"
  "length (ri_list (start_session_info b info)) = length (ri_list info)"
  "length (ri_list (start_action_info b rc info)) = length (ri_list info)"
  "length (ri_list (enter_group b f rc info)) = length (ri_list info)"
  by (simp_all add: clear_group_info_def clear_all_list_info_def clear_element_info_def start_session_info_def
      start_action_info_def enter_group_def group_entered_def Let_def)

lemma clear_element_list [simp]:
  "ri_list (clear_element_info b info) = ri_list info" "ri_group (clear_element_info b info) = ri_group info"
  "ri_depth (clear_element_info b info) = ri_depth info"
  by (simp_all add: clear_element_info_def Let_def)

lemma enter_list_ok:
  assumes "level_ok rc info"
  shows "enter_list b f rc info = Inr (clear_element_info b (info\<lparr>ri_depth := rc_depth rc,
      ri_list := (ri_list info)[level_index rc := f (rc_levels rc ! level_index rc) (ri_list info ! level_index rc)]\<rparr>))"
  using assms by (simp add: level_ok_def enter_list_def enter_level_def remote_level_def put_level_def)

lemma enter_group_type: "lv_collection_type (ri_group (enter_group b (copy_type_name b) rc info)) = rl_collection_type (rc_group rc)"
  by (simp add: enter_group_def group_entered_def clear_all_list_info_def copy_type_name_def copy_name_def copy_type_def Let_def)

lemma queue_element_ok:
  assumes "have_element_handler d" and "callbacks_ok tokens thl (rv_callbacks d)"
    and "rc_element_value rc \<noteq> None" and "rc_response_value rc \<noteq> None"
  shows "\<exists>d1. queue_element rc d = Inr d1
    \<and> d1 = d\<lparr>rv_type := rv_type d1, rv_element := rv_element d1, rv_transform := rv_transform d1, rv_pointer := rv_pointer d1\<rparr>
    \<and> (rv_type d1 = ccapi_callback_type_element \<and> rv_element d1 \<noteq> None
         \<and> (if ri_action (rv_info d) = Some CCAPI_RCI_ACTION_QUERY
            then rv_element d1 = cb_get_element (rv_callbacks d) \<and> rv_pointer d1 = Response_Value
            else rv_element d1 = cb_set_element (rv_callbacks d) \<and> rv_pointer d1 = Element_Value)
       \<or> rv_type d1 = ccapi_callback_type_transform \<and> rv_transform d1 \<noteq> None
         \<and> rv_transform d1 = cb_set_and_transform_element (rv_callbacks d) \<and> rv_pointer d1 = Element_Value)"
  using assms
  by (auto simp: queue_element_def have_element_handler_def callbacks_ok_def)

text \<open>An element whose callback is queued is ready with and without the names of an enumeration.\<close>

lemma element_ready:
  assumes "queue_element rc d = Inr d1" and "have_element_handler d" and "callbacks_ok tokens thl (rv_callbacks d)"
    and rc: "rc_element_value rc \<noteq> None" "rc_response_value rc \<noteq> None"
    and names: "RCI_ENUMS_AS_STRINGS b \<Longrightarrow> enum_data \<noteq> None \<Longrightarrow>
      (if ri_action (rv_info d) = Some CCAPI_RCI_ACTION_QUERY then get_answers_strings (rv_callbacks d)
       else \<exists>n. rc_element_value rc = Some (Value_Enum n) \<and> unat n < length (the enum_data))"
  shows "callback_ready b rc (d1\<lparr>rv_enum_data := enum_data\<rparr>)"
proof -
  from queue_element_ok [OF assms(2,3) rc] assms(1)
  have d1: "d1 = d\<lparr>rv_type := rv_type d1, rv_element := rv_element d1, rv_transform := rv_transform d1, rv_pointer := rv_pointer d1\<rparr>"
    and kinds: "rv_type d1 = ccapi_callback_type_element \<and> rv_element d1 \<noteq> None
         \<and> (if ri_action (rv_info d) = Some CCAPI_RCI_ACTION_QUERY
            then rv_element d1 = cb_get_element (rv_callbacks d) \<and> rv_pointer d1 = Response_Value
            else rv_element d1 = cb_set_element (rv_callbacks d) \<and> rv_pointer d1 = Element_Value)
       \<or> rv_type d1 = ccapi_callback_type_transform \<and> rv_transform d1 \<noteq> None
         \<and> rv_transform d1 = cb_set_and_transform_element (rv_callbacks d) \<and> rv_pointer d1 = Element_Value"
    by auto
  have same: "rv_callbacks d1 = rv_callbacks d" "rv_info d1 = rv_info d" by (subst d1, simp)+
  have q: "rv_type d1 = ccapi_callback_type_transform \<Longrightarrow> ri_action (rv_info d) \<noteq> Some CCAPI_RCI_ACTION_QUERY"
    using assms(1) by (auto simp: queue_element_def split: if_splits)
  have "enum_ready b rc (d1\<lparr>rv_enum_data := enum_data\<rparr>)"
    using kinds names q same rc
    by (auto simp: enum_ready_def enum_names_def pointed_value_def split: option.split if_splits)
  then show ?thesis
    using kinds same rc by (auto simp: callback_ready_def value_there_def split: if_splits)
qed

lemma upd_info_enum_data:
  "(upd_info f d)\<lparr>rv_enum_data := x\<rparr> = upd_info f (d\<lparr>rv_enum_data := x\<rparr>)"
  by (cases d) (simp add: upd_info_def)

lemma element_process_ok:
  assumes none: "rv_type d = ccapi_callback_type_none" "rv_enum_data d = None \<or> \<not> RCI_ENUMS_AS_STRINGS b"
    and cbs: "callbacks_ok tokens thl (rv_callbacks d)"
    and ok: "rci_request_ok b connector_request_id_remote_config_element_process rc d"
  shows "\<exists>d'. element_process b rc d = Inr d' \<and> queued_ok b rc d d'"
proof (cases "have_element_handler d")
  case False
  then show ?thesis using none by (simp add: element_process_def queued_ok_def)
next
  case True
  have rc: "rc_element_value rc \<noteq> None" "rc_response_value rc \<noteq> None" and enum: "enum_request_ok b rc d"
    using ok by (simp_all add: rci_request_ok_def)
  define d0 where "d0 = d\<lparr>rv_info := (if RCI_PARSER_USES_ELEMENT_NAMES b
      then (rv_info d)\<lparr>ri_depth := rc_depth rc, ri_element_id := rc_element_id rc, ri_element_name := rc_element_name rc\<rparr>
      else (rv_info d)\<lparr>ri_depth := rc_depth rc, ri_element_id := rc_element_id rc\<rparr>)\<rparr>"
  have d0: "ri_action (rv_info d0) = ri_action (rv_info d)" "rv_callbacks d0 = rv_callbacks d"
    "rv_desc d0 = rv_desc d" "rv_enum_data d0 = rv_enum_data d" "queued_ok b rc d d0"
    using none by (auto simp: d0_def queued_ok_def split: if_splits)
  have handler: "have_element_handler d0" and cbs0: "callbacks_ok tokens thl (rv_callbacks d0)"
    using True cbs d0 by (simp_all add: have_element_handler_def)
  from queue_element_ok [OF handler cbs0 rc] obtain d1 where d1: "queue_element rc d0 = Inr d1"
    and frame: "d1 = d0\<lparr>rv_type := rv_type d1, rv_element := rv_element d1, rv_transform := rv_transform d1, rv_pointer := rv_pointer d1\<rparr>"
    by blast
  have same: "rv_callbacks d1 = rv_callbacks d" "rv_run_status d1 = rv_run_status d" "rv_run_lock d1 = rv_run_lock d"
    "rv_error d1 = rv_error d" "length (ri_list (rv_info d1)) = length (ri_list (rv_info d))"
    "rv_desc d1 = rv_desc d" "rv_enum_data d1 = rv_enum_data d"
    using d0 by (subst frame, simp add: queued_ok_def)+
  have ready: "callback_ready b rc (d1\<lparr>rv_enum_data := x\<rparr>)"
    if "RCI_ENUMS_AS_STRINGS b \<Longrightarrow> x \<noteq> None \<Longrightarrow>
      (if ri_action (rv_info d0) = Some CCAPI_RCI_ACTION_QUERY then get_answers_strings (rv_callbacks d0)
       else \<exists>n. rc_element_value rc = Some (Value_Enum n) \<and> unat n < length (the x))" for x
    using that by (rule element_ready [OF d1 handler cbs0 rc])
  have "callback_ready b rc (d1\<lparr>rv_enum_data := rv_enum_data d1\<rparr>)"
    by (rule ready) (use none(2) same(7) in auto)
  then have plain: "callback_ready b rc d1" by simp
  have body: "element_process b rc d =
      (case ccapi_element_type (rc_element_type rc) of
         None \<Rightarrow> Inr d1
       | Some t \<Rightarrow>
           (let d2 = upd_info (\<lambda>info. info\<lparr>ri_element_type := Some t\<rparr>) d1
            in if rc_element_type rc = connector_element_type_enum \<and> RCI_ENUMS_AS_STRINGS b
               then queue_enum_callback rc d2 else Inr d2))"
    using True d1 unfolding d0_def by (simp add: element_process_def Let_def)
  show ?thesis
  proof (cases "rc_element_type rc = connector_element_type_enum \<and> RCI_ENUMS_AS_STRINGS b")
    case False
    then show ?thesis
      using plain same unfolding body
      by (cases "ccapi_element_type (rc_element_type rc)") (auto simp: queued_ok_def Let_def)
  next
    case True
    then obtain names where names: "get_ccfsm_element_enum_element (rv_desc d) rc = Inr names"
      "\<And>ns. names = Some ns \<Longrightarrow>
        (if ri_action (rv_info d) = Some CCAPI_RCI_ACTION_QUERY then get_answers_strings (rv_callbacks d)
         else \<exists>n. rc_element_value rc = Some (Value_Enum n) \<and> unat n < length ns)"
      using enum by (auto simp: enum_request_ok_def split: sum.splits option.splits)
    have "callback_ready b rc (d1\<lparr>rv_enum_data := names\<rparr>)"
      by (rule ready) (use names(2) d0(1,2) in auto)
    then have "callback_ready b rc (upd_info (\<lambda>info. info\<lparr>ri_element_type := Some t\<rparr>) (d1\<lparr>rv_enum_data := names\<rparr>))" for t
      by (subst callback_ready_simps) auto
    then have "callback_ready b rc ((upd_info (\<lambda>info. info\<lparr>ri_element_type := Some t\<rparr>) d1)\<lparr>rv_enum_data := names\<rparr>)" for t
      by (simp only: upd_info_enum_data)
    then show ?thesis
      using True names(1) same unfolding body
      by (auto simp: queued_ok_def queue_enum_callback_def ccapi_element_type_def)
  qed
qed

lemma rci_queue_ok:
  assumes none: "rv_type d = ccapi_callback_type_none" "rv_enum_data d = None \<or> \<not> RCI_ENUMS_AS_STRINGS b"
    and cbs: "callbacks_ok tokens thl (rv_callbacks d)"
    and ok: "rci_request_ok b request_id rc d"
  shows "\<exists>d'. rci_queue b request_id rc d = Inr d' \<and> queued_ok b rc d d'"
proof (cases request_id)
  case connector_request_id_remote_config_element_process
  then show ?thesis using element_process_ok [OF none cbs] ok by (simp add: rci_queue_def)
next
  case connector_request_id_remote_config_session_cancel
  then show ?thesis using ok by (simp add: rci_request_ok_def)
next
  case connector_request_id_remote_config_group_instances_lock
  then show ?thesis
    using ok by (simp add: rci_queue_def rci_request_ok_def with_lock_ok [OF none(1)] enter_group_type)
next
  case connector_request_id_remote_config_list_instances_lock
  then show ?thesis
    using ok
    by (simp add: rci_queue_def rci_request_ok_def, intro with_lock_ok [OF none(1)])
      (simp_all add: enter_list_ok level_type_def level_ok_def copy_type_name_def copy_name_def copy_type_def)
qed (use ok in \<open>simp_all add: rci_queue_def rci_request_ok_def\<close>,
    (intro with_base_ok [OF none(1)]; auto simp: base_callbacks_def enter_list_ok do_command_info_def string_value_def
      set_list_info_def remote_level_def put_level_def level_ok_def not_set_element_def)+)

subsection \<open>Events\<close>

datatype rci_entry = Rci_Asked bool | Rci_Called u32 | Rci_Answered u32 | Rci_Cancelled

record 'w rci_system =
  rq_service :: "'w rci_service"
  rq_world :: 'w
  rq_phase :: rci_phase
  rq_request :: connector_request_id_remote_config_t
  rq_config :: connector_remote_config_t
  rq_log :: "rci_entry list"

datatype rci_event =
    Rci_Request connector_request_id_remote_config_t connector_remote_config_t
  | Rci_Again
  | Rci_Cancel
  | Rci_Wake
  | Rci_Finish

definition rci_exec :: "rci_build \<Rightarrow> u32 \<Rightarrow> 'w os \<Rightarrow> rci_event \<Rightarrow> 'w rci_system \<Rightarrow> 'w rci_system ub" where
  "rci_exec b bad_value os e s =
     (let d = rq_service s; w = rq_world s
      in case e of
           Rci_Request request_id rc \<Rightarrow>
             ub_bind (ccapi_rci_handler b os request_id rc d w) (\<lambda>(status, rc', d', w').
               Inr (s\<lparr>rq_service := d', rq_world := w', rq_request := request_id, rq_config := rc',
                      rq_log := Rci_Asked (rv_thread_status d' = CCAPI_RCI_THREAD_CB_QUEUED) # rq_log s\<rparr>))
         | Rci_Again \<Rightarrow>
             ub_bind (ccapi_rci_handler b os (rq_request s) (rq_config s) d w) (\<lambda>(status, rc', d', w').
               Inr (s\<lparr>rq_service := d', rq_world := w', rq_config := rc',
                      rq_log := (if status = connector_callback_continue then [Rci_Answered (rc_error_id rc')] else []) @ rq_log s\<rparr>))
         | Rci_Cancel \<Rightarrow>
             ub_bind (ccapi_rci_handler b os connector_request_id_remote_config_session_cancel (rq_config s) d w)
               (\<lambda>(status, rc', d', w'). Inr (s\<lparr>rq_service := d', rq_world := w', rq_log := Rci_Cancelled # rq_log s\<rparr>))
         | Rci_Wake \<Rightarrow>
             ub_bind (rci_thread_wake b bad_value (rq_config s) d (snd (ccapi_lock_acquire os (rv_run_lock d) w)))
               (\<lambda>(phase, d', w'). Inr (s\<lparr>rq_service := d', rq_world := w', rq_phase := phase\<rparr>))
         | Rci_Finish \<Rightarrow>
             (case rq_phase s of
                Rci_In_Callback err a writes \<Rightarrow>
                  (case rci_thread_finish err a writes (rq_config s) d of
                     (phase, rc', d') \<Rightarrow>
                       Inr (s\<lparr>rq_service := d', rq_phase := phase, rq_config := rc', rq_log := Rci_Called err # rq_log s\<rparr>))
              | _ \<Rightarrow> Inr s))"

definition rci_allowed :: "rci_build \<Rightarrow> (nat \<Rightarrow> 'w \<Rightarrow> nat option) \<Rightarrow> rci_event \<Rightarrow> 'w rci_system \<Rightarrow> bool" where
  "rci_allowed b tokens e s \<longleftrightarrow>
     (let d = rq_service s
      in case e of
           Rci_Request request_id rc \<Rightarrow> rv_thread_status d = CCAPI_RCI_THREAD_IDLE \<and> rci_request_ok b request_id rc d
         | Rci_Again \<Rightarrow> rv_thread_status d \<noteq> CCAPI_RCI_THREAD_IDLE
         | Rci_Cancel \<Rightarrow> rv_thread_status d \<noteq> CCAPI_RCI_THREAD_CB_QUEUED
         | Rci_Wake \<Rightarrow>
             rq_phase s = Rci_Waiting
             \<and> (case rv_run_lock d of
                  None \<Rightarrow> False
                | Some l \<Rightarrow> (case tokens l (rq_world s) of None \<Rightarrow> False | Some n \<Rightarrow> 0 < n))
         | Rci_Finish \<Rightarrow> (case rq_phase s of Rci_In_Callback err a writes \<Rightarrow> True | _ \<Rightarrow> False))"

inductive rci_reachable ::
  "rci_build \<Rightarrow> u32 \<Rightarrow> 'w os \<Rightarrow> (nat \<Rightarrow> 'w \<Rightarrow> nat option) \<Rightarrow> 'w rci_system \<Rightarrow> 'w rci_system \<Rightarrow> bool"
  for b bad_value os tokens s0 where
  rci_start: "rci_reachable b bad_value os tokens s0 s0"
| rci_next: "rci_reachable b bad_value os tokens s0 s \<Longrightarrow> rci_allowed b tokens e s
    \<Longrightarrow> rci_exec b bad_value os e s = Inr s' \<Longrightarrow> rci_reachable b bad_value os tokens s0 s'"

subsection \<open>The automaton\<close>

datatype rci_stage = Stage_Idle | Stage_Queued | Stage_Done u32

fun stage_step :: "rci_stage \<Rightarrow> rci_entry \<Rightarrow> rci_stage option" where
  "stage_step Stage_Idle (Rci_Asked queued) = Some (if queued then Stage_Queued else Stage_Done 0)"
| "stage_step Stage_Queued (Rci_Called e) = Some (Stage_Done e)"
| "stage_step (Stage_Done e) (Rci_Answered e') = (if e' = e then Some Stage_Idle else None)"
| "stage_step Stage_Idle Rci_Cancelled = Some Stage_Idle"
| "stage_step (Stage_Done e) Rci_Cancelled = Some Stage_Idle"
| "stage_step _ _ = None"

text \<open>The newest entry comes first.\<close>

primrec rci_stage_of :: "rci_entry list \<Rightarrow> rci_stage option" where
  "rci_stage_of [] = Some Stage_Idle"
| "rci_stage_of (x # log) = Option.bind (rci_stage_of log) (\<lambda>s. stage_step s x)"

definition rci_abs :: "'w rci_service \<Rightarrow> rci_stage" where
  "rci_abs d =
     (case rv_thread_status d of
        CCAPI_RCI_THREAD_IDLE \<Rightarrow> Stage_Idle
      | CCAPI_RCI_THREAD_CB_QUEUED \<Rightarrow> Stage_Queued
      | CCAPI_RCI_THREAD_CB_PROCESSED \<Rightarrow> Stage_Done (rv_error d))"

subsection \<open>The invariant\<close>

definition rci_thread_ok :: "rci_build \<Rightarrow> (nat \<Rightarrow> 'w \<Rightarrow> nat option) \<Rightarrow> nat \<Rightarrow> 'w rci_system \<Rightarrow> bool" where
  "rci_thread_ok b tokens thl s \<longleftrightarrow>
     (let d = rq_service s
      in (case rq_phase s of
            Rci_Waiting \<Rightarrow> True
          | Rci_In_Callback err a writes \<Rightarrow> rv_thread_status d = CCAPI_RCI_THREAD_CB_QUEUED
          | Rci_Exited \<Rightarrow> False)
         \<and> tokens thl (rq_world s) =
             Some (if rv_thread_status d = CCAPI_RCI_THREAD_CB_QUEUED \<and> rq_phase s = Rci_Waiting then 1 else 0)
         \<and> (rv_thread_status d = CCAPI_RCI_THREAD_CB_QUEUED \<longrightarrow> callback_ready b (rq_config s) d))"

definition rci_inv :: "rci_build \<Rightarrow> (nat \<Rightarrow> 'w \<Rightarrow> nat option) \<Rightarrow> nat \<Rightarrow> 'w rci_system \<Rightarrow> bool" where
  "rci_inv b tokens thl s \<longleftrightarrow>
     (let d = rq_service s
      in rv_run_status d = CCAPI_THREAD_RUNNING \<and> rv_run_lock d = Some thl \<and> callbacks_ok tokens thl (rv_callbacks d)
         \<and> rci_thread_ok b tokens thl s
         \<and> (rv_thread_status d \<noteq> CCAPI_RCI_THREAD_IDLE \<longrightarrow> rq_request s \<noteq> connector_request_id_remote_config_session_cancel)
         \<and> rci_stage_of (rq_log s) = Some (rci_abs d))"

lemmas rci_inv_defs = rci_inv_def rci_thread_ok_def rci_abs_def

text \<open>
  The one event of those that is undefined: the answer to the end of a list clears the level
  \<open>depth - 1\<close> of the description, whatever the depth is.
\<close>

definition leaves_the_levels :: "rci_event \<Rightarrow> 'w rci_system \<Rightarrow> bool" where
  "leaves_the_levels e s \<longleftrightarrow>
     (let d = rq_service s
      in e = Rci_Again \<and> rv_thread_status d = CCAPI_RCI_THREAD_CB_PROCESSED
         \<and> rq_request s = connector_request_id_remote_config_list_end
         \<and> length (ri_list (rv_info d)) \<le> unat (ri_depth (rv_info d) - 1))"

lemma enum_request_prepared [simp]:
  "enum_request_ok b rc (upd_info (\<lambda>info. info\<lparr>ri_user_context := x, ri_error_hint := y\<rparr>) (clear_callback b d)) =
     enum_request_ok b rc d"
  by (simp add: enum_request_ok_def split: sum.split option.split)

lemma request_ok_prepared:
  "rci_request_ok b r rc (upd_info (\<lambda>info. info\<lparr>ri_user_context := x, ri_error_hint := y\<rparr>) (clear_callback b d)) =
     rci_request_ok b r rc d"
  by (cases r) (simp_all add: rci_request_ok_def level_ok_def)


lemma processed_ok:
  assumes "request_id = connector_request_id_remote_config_list_end \<longrightarrow> unat (ri_depth info - 1) < length (ri_list info)"
  shows "\<exists>rc1 info1. rci_processed b request_id rc info = Inr (rc1, info1)"
  using assms
  by (cases request_id) (simp_all add: rci_processed_def put_level_def Let_def)

lemma apply_write_there: "value_there p rc \<Longrightarrow> value_there p (fold apply_write writes rc)"
proof (induction writes arbitrary: rc)
  case (Cons x writes)
  have "value_there p (apply_write x rc)" using Cons.prems by (cases x) (auto simp: value_there_def)
  then show ?case using Cons.IH by simp
qed simp

context os_locks
begin

lemma rci_request_inv:
  assumes inv: "rci_inv b tokens thl s" and "rci_allowed b tokens (Rci_Request request_id rc) s"
  shows "\<exists>s'. rci_exec b bad_value os (Rci_Request request_id rc) s = Inr s' \<and> rci_inv b tokens thl s'"
proof -
  let ?d = "rq_service s" and ?w = "rq_world s"
  have idle: "rv_thread_status ?d = CCAPI_RCI_THREAD_IDLE" and ok: "rci_request_ok b request_id rc ?d"
    using assms(2) by (simp_all add: rci_allowed_def Let_def)
  have thread: "rv_run_status ?d = CCAPI_THREAD_RUNNING" "rv_run_lock ?d = Some thl" "callbacks_ok tokens thl (rv_callbacks ?d)"
    "tokens thl ?w = Some 0" "rq_phase s = Rci_Waiting" "rci_stage_of (rq_log s) = Some Stage_Idle"
    using inv idle by (simp_all add: rci_inv_defs Let_def split: rci_phase.splits)
  have cancel: "request_id \<noteq> connector_request_id_remote_config_session_cancel"
    using ok by (auto simp: rci_request_ok_def)
  define d1 where "d1 = upd_info (\<lambda>info. info\<lparr>ri_user_context := rc_user_context rc, ri_error_hint := rc_error_hint rc\<rparr>)
      (clear_callback b ?d)"
  have d1: "rv_type d1 = ccapi_callback_type_none" "rv_enum_data d1 = None \<or> \<not> RCI_ENUMS_AS_STRINGS b" "rv_callbacks d1 = rv_callbacks ?d"
    "rv_error d1 = 0" "rv_run_status d1 = rv_run_status ?d" "rv_run_lock d1 = rv_run_lock ?d"
    by (simp_all add: d1_def enum_names_def clear_callback_def Let_def)
  have ok1: "rci_request_ok b request_id rc d1" using ok by (simp add: d1_def request_ok_prepared)
  obtain d2 where d2: "rci_queue b request_id rc d1 = Inr d2" "queued_ok b rc d1 d2"
    using rci_queue_ok [OF d1(1,2) _ ok1, of tokens thl] d1(3) thread(3) by auto
  have frame: "rv_callbacks d2 = rv_callbacks ?d" "rv_run_status d2 = CCAPI_THREAD_RUNNING" "rv_run_lock d2 = Some thl"
    "rv_error d2 = 0" "rv_type d2 = ccapi_callback_type_none \<or> callback_ready b rc d2"
    using d2(2) d1 thread by (simp_all add: queued_ok_def)
  show ?thesis
  proof (cases "rv_type d2 = ccapi_callback_type_none")
    case True
    then show ?thesis
      using idle cancel thread d2(1) frame
      by (simp add: rci_exec_def ccapi_rci_handler_def d1_def [symmetric] Let_def rci_inv_defs)
  next
    case False
    obtain w' where w': "ccapi_lock_release os (Some thl) ?w = (CCIMP_STATUS_OK, w')" "tokens thl w' = Some (Suc 0)"
      using lock_released [OF thread(4)] by metis
    have "callback_ready b rc (d2\<lparr>rv_thread_status := CCAPI_RCI_THREAD_CB_QUEUED\<rparr>)"
      using frame(5) False by simp
    then show ?thesis
      using False idle cancel thread d2(1) frame w'
      by (simp add: rci_exec_def ccapi_rci_handler_def d1_def [symmetric] Let_def rci_inv_defs)
  qed
qed

lemma rci_again_inv:
  assumes inv: "rci_inv b tokens thl s" and "rci_allowed b tokens Rci_Again s" and "\<not> leaves_the_levels Rci_Again s"
  shows "\<exists>s'. rci_exec b bad_value os Rci_Again s = Inr s' \<and> rci_inv b tokens thl s'"
proof -
  let ?d = "rq_service s"
  have busy: "rv_thread_status ?d \<noteq> CCAPI_RCI_THREAD_IDLE" using assms(2) by (simp add: rci_allowed_def)
  have cancel: "rq_request s \<noteq> connector_request_id_remote_config_session_cancel"
    using inv busy by (simp add: rci_inv_def Let_def)
  show ?thesis
  proof (cases "rv_thread_status ?d")
    case CCAPI_RCI_THREAD_CB_QUEUED
    then show ?thesis using inv cancel by (simp add: rci_exec_def ccapi_rci_handler_def Let_def)
  next
    case CCAPI_RCI_THREAD_CB_PROCESSED
    obtain rc1 info1 where "rci_processed b (rq_request s) (rq_config s) (rv_info ?d) = Inr (rc1, info1)"
      using processed_ok [of "rq_request s" "rv_info ?d" b "rq_config s"] assms(3) CCAPI_RCI_THREAD_CB_PROCESSED
      by (auto simp: leaves_the_levels_def Let_def)
    then show ?thesis
      using inv cancel CCAPI_RCI_THREAD_CB_PROCESSED
      by (simp add: rci_exec_def ccapi_rci_handler_def Let_def rci_inv_defs split: rci_phase.splits)
  qed (use busy in simp)
qed

lemma rci_wake_inv:
  assumes inv: "rci_inv b tokens thl s" and "rci_allowed b tokens Rci_Wake s"
  shows "\<exists>s'. rci_exec b bad_value os Rci_Wake s = Inr s' \<and> rci_inv b tokens thl s'"
proof -
  let ?d = "rq_service s" and ?w = "rq_world s"
  have wait: "rq_phase s = Rci_Waiting" and lock: "rv_run_lock ?d = Some thl" and run: "rv_run_status ?d = CCAPI_THREAD_RUNNING"
    and cbs: "callbacks_ok tokens thl (rv_callbacks ?d)"
    using inv assms(2) by (simp_all add: rci_inv_def rci_allowed_def Let_def)
  have queued: "rv_thread_status ?d = CCAPI_RCI_THREAD_CB_QUEUED" and token: "tokens thl ?w = Some (Suc 0)"
    using inv assms(2) wait lock by (auto simp: rci_inv_defs rci_allowed_def Let_def split: if_splits)
  have ready: "callback_ready b (rq_config s) ?d" using inv queued by (simp add: rci_inv_defs Let_def)
  obtain w1 where w1: "ccapi_lock_acquire os (Some thl) ?w = (CCIMP_STATUS_OK, w1)" "tokens thl w1 = Some 0"
    using lock_acquired [OF token] by metis
  obtain e a writes w2 where call: "rci_call_queued b bad_value (rq_config s) ?d w1 = Inr (Some (e, a, writes, w2))"
    "tokens thl w2 = Some 0"
    using callback_ready_call [OF ready cbs, of bad_value w1] w1(2) by auto
  show ?thesis
    using inv wait lock run queued w1 call ready
    by (simp add: rci_exec_def rci_thread_wake_def Let_def rci_inv_defs)
qed

lemma rci_exec_inv:
  assumes inv: "rci_inv b tokens thl s" and "rci_allowed b tokens e s" and "\<not> leaves_the_levels e s"
  shows "\<exists>s'. rci_exec b bad_value os e s = Inr s' \<and> rci_inv b tokens thl s'"
proof (cases e)
  case Rci_Cancel
  then have "rv_thread_status (rq_service s) \<noteq> CCAPI_RCI_THREAD_CB_QUEUED" using assms(2) by (simp add: rci_allowed_def)
  then show ?thesis
    using inv Rci_Cancel
    by (cases "rv_thread_status (rq_service s)")
      (simp_all add: rci_exec_def ccapi_rci_handler_def Let_def rci_inv_defs split: rci_phase.splits)
next
  case Rci_Finish
  then obtain err a writes where phase: "rq_phase s = Rci_In_Callback err a writes"
    using assms(2) by (auto simp: rci_allowed_def split: rci_phase.splits)
  then have queued: "rv_thread_status (rq_service s) = CCAPI_RCI_THREAD_CB_QUEUED"
    using inv by (simp add: rci_inv_defs Let_def)
  have info: "ri_depth (put_answer a info) = ri_depth info" "ri_list (put_answer a info) = ri_list info" for info
    by (simp_all add: put_answer_def)
  show ?thesis
    using inv Rci_Finish phase queued
    by (simp add: rci_exec_def rci_thread_finish_def Let_def rci_inv_defs info)
qed (use assms rci_request_inv rci_again_inv rci_wake_inv in blast)+

lemma rci_exec_out_of_bounds:
  assumes "leaves_the_levels e s"
  shows "rci_exec b bad_value os e s = Inl Out_Of_Bounds"
  using assms
  by (simp add: leaves_the_levels_def rci_exec_def ccapi_rci_handler_def rci_processed_def put_level_def Let_def)

lemma rci_reachable_inv:
  assumes "rci_reachable b bad_value os tokens s0 s" and "rci_inv b tokens thl s0"
  shows "rci_inv b tokens thl s"
  using assms(1)
proof induction
  case (rci_next s e s')
  have "\<not> leaves_the_levels e s" using rci_exec_out_of_bounds rci_next.hyps(3) by fastforce
  from rci_exec_inv [OF rci_next.IH rci_next.hyps(2) this, of bad_value] show ?case using rci_next.hyps(3) by auto
qed (rule assms(2))

end

end
