(* ===== verification/RciClaims.thy ===== *)
theory RciClaims
  imports RciSystem
begin

text \<open>
  The properties of the remote configuration: every request is one callback and one answer, a
  callback is told where the connector is, an enumeration kept as a string is read back; and
  what ends the thread or leaves the bounds of the description.
\<close>

subsection \<open>A round\<close>

text \<open>A request, its callback if there is one, and the answer.\<close>

definition rci_round ::
  "rci_build \<Rightarrow> u32 \<Rightarrow> 'w os \<Rightarrow> connector_request_id_remote_config_t \<Rightarrow> connector_remote_config_t
     \<Rightarrow> 'w rci_system \<Rightarrow> 'w rci_system ub" where
  "rci_round b bad_value os request_id rc s =
     ub_bind (rci_exec b bad_value os (Rci_Request request_id rc) s) (\<lambda>s1.
       ub_bind (if rv_thread_status (rq_service s1) = CCAPI_RCI_THREAD_CB_QUEUED
                then ub_bind (rci_exec b bad_value os Rci_Wake s1) (rci_exec b bad_value os Rci_Finish) else Inr s1)
         (rci_exec b bad_value os Rci_Again))"

definition rci_prepared :: "rci_build \<Rightarrow> connector_remote_config_t \<Rightarrow> 'w rci_service \<Rightarrow> 'w rci_service" where
  "rci_prepared b rc d =
     upd_info (\<lambda>info. info\<lparr>ri_user_context := rc_user_context rc, ri_error_hint := rc_error_hint rc\<rparr>) (clear_callback b d)"

lemma rci_prepared_simps [simp]:
  "rv_info (rci_prepared b rc d) = (rv_info d)\<lparr>ri_user_context := rc_user_context rc, ri_error_hint := rc_error_hint rc\<rparr>"
  "rv_callbacks (rci_prepared b rc d) = rv_callbacks d" "rv_error (rci_prepared b rc d) = 0"
  "rv_type (rci_prepared b rc d) = ccapi_callback_type_none" "rv_desc (rci_prepared b rc d) = rv_desc d"
  "rv_enum_data (rci_prepared b rc d) = None \<or> \<not> RCI_ENUMS_AS_STRINGS b"
  by (simp_all add: rci_prepared_def clear_callback_def Let_def)

lemma have_element_handler_prepared [simp]:
  "have_element_handler (rci_prepared b rc d) = have_element_handler d"
  by (simp add: have_element_handler_def)

text \<open>
  The end of a list clears the level above the depth the description then has: the depth of the
  request when the user has an \<open>end_list\<close>, the one it had before otherwise.
\<close>

definition list_end_inside ::
  "connector_request_id_remote_config_t \<Rightarrow> connector_remote_config_t \<Rightarrow> 'w rci_service \<Rightarrow> bool" where
  "list_end_inside r rc d \<longleftrightarrow>
     (r = connector_request_id_remote_config_list_end \<longrightarrow>
        unat ((if cb_end_list (rv_callbacks d) = None then ri_depth (rv_info d) else rc_depth rc) - 1)
          < length (ri_list (rv_info d)))"

text \<open>Which requests have a callback of the user's.\<close>

definition base_callback_of ::
  "connector_request_id_remote_config_t \<Rightarrow> 'w rci_callbacks \<Rightarrow> 'w ccapi_rci_function_base_t option" where
  "base_callback_of r c =
     (case r of
        connector_request_id_remote_config_session_start \<Rightarrow> cb_start_session c
      | connector_request_id_remote_config_action_start \<Rightarrow> cb_start_action c
      | connector_request_id_remote_config_do_command \<Rightarrow> cb_do_command c
      | connector_request_id_remote_config_reboot \<Rightarrow> cb_reboot c
      | connector_request_id_remote_config_set_factory_def \<Rightarrow> cb_set_factory_defaults c
      | connector_request_id_remote_config_group_instances_set \<Rightarrow> cb_set_group_instances c
      | connector_request_id_remote_config_group_instance_remove \<Rightarrow> cb_remove_group_instance c
      | connector_request_id_remote_config_group_instances_unlock \<Rightarrow> cb_unlock_group_instances c
      | connector_request_id_remote_config_group_start \<Rightarrow> cb_start_group c
      | connector_request_id_remote_config_list_instances_set \<Rightarrow> cb_set_list_instances c
      | connector_request_id_remote_config_list_instance_remove \<Rightarrow> cb_remove_list_instance c
      | connector_request_id_remote_config_list_instances_unlock \<Rightarrow> cb_unlock_list_instances c
      | connector_request_id_remote_config_list_start \<Rightarrow> cb_start_list c
      | connector_request_id_remote_config_list_end \<Rightarrow> cb_end_list c
      | connector_request_id_remote_config_group_end \<Rightarrow> cb_end_group c
      | connector_request_id_remote_config_action_end \<Rightarrow> cb_end_action c
      | connector_request_id_remote_config_session_end \<Rightarrow> cb_end_session c
      | _ \<Rightarrow> None)"

definition lock_callback_of ::
  "connector_request_id_remote_config_t \<Rightarrow> 'w rci_callbacks \<Rightarrow> 'w ccapi_rci_function_lock_t option" where
  "lock_callback_of r c =
     (case r of
        connector_request_id_remote_config_group_instances_lock \<Rightarrow> cb_lock_group_instances c
      | connector_request_id_remote_config_list_instances_lock \<Rightarrow> cb_lock_list_instances c
      | _ \<Rightarrow> None)"

definition callback_given :: "connector_request_id_remote_config_t \<Rightarrow> 'w rci_service \<Rightarrow> bool" where
  "callback_given r d \<longleftrightarrow>
     base_callback_of r (rv_callbacks d) \<noteq> None \<or> lock_callback_of r (rv_callbacks d) \<noteq> None
     \<or> r = connector_request_id_remote_config_element_process \<and> have_element_handler d"

text \<open>
  What the callback of a request returned: \<open>e\<close> is the answer of the function the user gave for this
  request. A \<open>get_element\<close> that succeeds with a name no number belongs to is answered with
  \<open>bad_value\<close>.
\<close>

definition callback_returned ::
  "u32 \<Rightarrow> connector_request_id_remote_config_t \<Rightarrow> 'w rci_service \<Rightarrow> u32 \<Rightarrow> bool" where
  "callback_returned bad_value r d e \<longleftrightarrow>
     (\<exists>f info w. base_callback_of r (rv_callbacks d) = Some f \<and> fst (f info w) = e)
     \<or> (\<exists>f info x w. lock_callback_of r (rv_callbacks d) = Some f \<and> fst (f info x w) = e)
     \<or> r = connector_request_id_remote_config_element_process
        \<and> (if ri_action (rv_info d) = Some CCAPI_RCI_ACTION_QUERY
           then \<exists>f info x w. cb_get_element (rv_callbacks d) = Some f
             \<and> (fst (f info x w) = e \<or> fst (f info x w) = 0 \<and> e = bad_value)
           else if ri_embed_transformed_values (rv_info d)
           then \<exists>f info x w. cb_set_and_transform_element (rv_callbacks d) = Some f \<and> fst (f info x w) = e
           else \<exists>f info x w. cb_set_element (rv_callbacks d) = Some f \<and> fst (f info x w) = e)"

lemma with_base_type:
  "with_base cb prepare d = Inr d' \<Longrightarrow> rv_type d = ccapi_callback_type_none \<Longrightarrow>
     (case cb of None \<Rightarrow> rv_type d' = ccapi_callback_type_none
      | Some f \<Rightarrow> rv_type d' = ccapi_callback_type_base \<and> rv_base d' = Some f)"
  by (auto simp: with_base_def queue_base_def split: option.splits)

lemma with_lock_type:
  "with_lock cb prepare collection d = Inr d' \<Longrightarrow> rv_type d = ccapi_callback_type_none \<Longrightarrow>
     (case cb of None \<Rightarrow> rv_type d' = ccapi_callback_type_none
      | Some f \<Rightarrow> rv_type d' = ccapi_callback_type_lock \<and> rv_lock d' = Some f)"
  by (auto simp: with_lock_def Let_def split: option.splits if_splits)

lemma queue_element_type:
  assumes "queue_element rc d = Inr d'"
  shows "rv_info d' = rv_info d \<and> rv_callbacks d' = rv_callbacks d
    \<and> (if ri_action (rv_info d) = Some CCAPI_RCI_ACTION_QUERY
       then rv_type d' = ccapi_callback_type_element \<and> rv_element d' = cb_get_element (rv_callbacks d)
       else if ri_embed_transformed_values (rv_info d)
       then rv_type d' = ccapi_callback_type_transform
         \<and> rv_transform d' = cb_set_and_transform_element (rv_callbacks d)
       else rv_type d' = ccapi_callback_type_element \<and> rv_element d' = cb_set_element (rv_callbacks d))"
  using assms by (auto simp: queue_element_def split: if_splits)

text \<open>What an element leaves after it was queued, with or without the names of an enumeration.\<close>

lemma element_process_cases:
  assumes "have_element_handler d" and "element_process b rc d = Inr d'"
  obtains info d1 where
    "info = (if RCI_PARSER_USES_ELEMENT_NAMES b
       then (rv_info d)\<lparr>ri_depth := rc_depth rc, ri_element_id := rc_element_id rc, ri_element_name := rc_element_name rc\<rparr>
       else (rv_info d)\<lparr>ri_depth := rc_depth rc, ri_element_id := rc_element_id rc\<rparr>)"
    and "queue_element rc (d\<lparr>rv_info := info\<rparr>) = Inr d1"
    and "d' = d1 \<or> (\<exists>t. d' = upd_info (\<lambda>info. info\<lparr>ri_element_type := t\<rparr>) d1)
       \<or> (\<exists>t names. d' = (upd_info (\<lambda>info. info\<lparr>ri_element_type := t\<rparr>) d1)\<lparr>rv_enum_data := names\<rparr>)"
proof -
  define info where "info = (if RCI_PARSER_USES_ELEMENT_NAMES b
       then (rv_info d)\<lparr>ri_depth := rc_depth rc, ri_element_id := rc_element_id rc, ri_element_name := rc_element_name rc\<rparr>
       else (rv_info d)\<lparr>ri_depth := rc_depth rc, ri_element_id := rc_element_id rc\<rparr>)"
  have body: "element_process b rc d = ub_bind (queue_element rc (d\<lparr>rv_info := info\<rparr>)) (\<lambda>d1.
      case ccapi_element_type (rc_element_type rc) of
        None \<Rightarrow> Inr d1
      | Some t \<Rightarrow>
          (let d2 = upd_info (\<lambda>info. info\<lparr>ri_element_type := Some t\<rparr>) d1
           in if rc_element_type rc = connector_element_type_enum \<and> RCI_ENUMS_AS_STRINGS b
              then queue_enum_callback rc d2 else Inr d2))"
    using assms(1) unfolding info_def by (simp add: element_process_def Let_def)
  obtain d1 where d1: "queue_element rc (d\<lparr>rv_info := info\<rparr>) = Inr d1"
    using assms(2) unfolding body by (cases "queue_element rc (d\<lparr>rv_info := info\<rparr>)") auto
  have "d' = d1 \<or> (\<exists>t. d' = upd_info (\<lambda>info. info\<lparr>ri_element_type := t\<rparr>) d1)
       \<or> (\<exists>t names. d' = (upd_info (\<lambda>info. info\<lparr>ri_element_type := t\<rparr>) d1)\<lparr>rv_enum_data := names\<rparr>)"
    using assms(2) unfolding body d1
    by (auto simp: queue_enum_callback_def Let_def split: option.splits if_splits)
  then show thesis using that [OF info_def d1] by blast
qed

lemma element_process_queued:
  assumes "have_element_handler d" and "element_process b rc d = Inr d'"
  obtains info d1 where "ri_action info = ri_action (rv_info d)"
    and "ri_embed_transformed_values info = ri_embed_transformed_values (rv_info d)"
    and "queue_element rc (d\<lparr>rv_info := info\<rparr>) = Inr d1"
    and "rv_type d' = rv_type d1" and "rv_element d' = rv_element d1" and "rv_transform d' = rv_transform d1"
    and "ri_action (rv_info d') = ri_action (rv_info d1)"
proof (rule element_process_cases [OF assms])
  fix info d1
  assume "info = (if RCI_PARSER_USES_ELEMENT_NAMES b
       then (rv_info d)\<lparr>ri_depth := rc_depth rc, ri_element_id := rc_element_id rc, ri_element_name := rc_element_name rc\<rparr>
       else (rv_info d)\<lparr>ri_depth := rc_depth rc, ri_element_id := rc_element_id rc\<rparr>)"
    and "queue_element rc (d\<lparr>rv_info := info\<rparr>) = Inr d1"
    and "d' = d1 \<or> (\<exists>t. d' = upd_info (\<lambda>info. info\<lparr>ri_element_type := t\<rparr>) d1)
       \<or> (\<exists>t names. d' = (upd_info (\<lambda>info. info\<lparr>ri_element_type := t\<rparr>) d1)\<lparr>rv_enum_data := names\<rparr>)"
  then show thesis by (intro that [of info d1]) (auto split: if_splits)
qed

lemma rci_queue_given:
  assumes "rci_queue b r rc d = Inr d'" and "rv_type d = ccapi_callback_type_none"
  shows "rv_type d' \<noteq> ccapi_callback_type_none \<longleftrightarrow> callback_given r d"
proof (cases "r = connector_request_id_remote_config_element_process")
  case True
  show ?thesis
  proof (cases "have_element_handler d")
    case handler: True
    have "element_process b rc d = Inr d'" using assms(1) True by (simp add: rci_queue_def)
    then have "rv_type d' \<noteq> ccapi_callback_type_none"
      by (rule element_process_cases [OF handler]) (auto dest!: queue_element_type split: if_splits)
    then show ?thesis using True handler by (simp add: callback_given_def)
  next
    case False
    then show ?thesis
      using True assms
      by (simp add: rci_queue_def element_process_def callback_given_def base_callback_of_def lock_callback_of_def)
  qed
next
  case False
  then show ?thesis
    using assms
    by (cases r)
      (auto simp: rci_queue_def callback_given_def base_callback_of_def lock_callback_of_def Let_def
        split: option.splits dest!: with_base_type with_lock_type)
qed

lemma callback_prepared [simp]:
  "callback_given r (rci_prepared b rc d) = callback_given r d"
  "callback_returned bad_value r (rci_prepared b rc d) e = callback_returned bad_value r d e"
  by (simp_all add: callback_given_def callback_returned_def)

lemma call_base_returned:
  assumes "call_base d w = Inr (Some (e, a, writes, w'))" and "rv_base d = Some f"
  shows "\<exists>info w. fst (f info w) = e"
  using assms by (intro exI [of _ "rv_info d"] exI [of _ w]) (auto simp: call_base_def split: prod.splits)

lemma call_lock_returned:
  assumes "call_lock rc d w = Inr (Some (e, a, writes, w'))" and "rv_lock d = Some f"
  shows "\<exists>info x w. fst (f info x w) = e"
proof -
  obtain e1 a1 item w1 where call: "f (rv_info d) (rc_response_item rc) w = (e1, a1, item, w1)" by (rule prod_cases4)
  then have "e1 = e" using assms by (simp add: call_lock_def split: if_splits)
  then have "fst (f (rv_info d) (rc_response_item rc) w) = e" using call by simp
  then show ?thesis by blast
qed

lemma call_element_returned:
  assumes "call_element b bad_value rc d w = Inr (Some (e, a, writes, w'))" and "rv_element d = Some f"
  shows "\<exists>info x w. fst (f info x w) = e
    \<or> ri_action (rv_info d) = Some CCAPI_RCI_ACTION_QUERY \<and> fst (f info x w) = 0 \<and> e = bad_value"
proof -
  obtain v where v: "pointed_value (rv_pointer d) rc = Inr (Some v)"
    using assms by (cases "pointed_value (rv_pointer d) rc") (auto simp: call_element_def split: option.splits)
  have "\<exists>x. fst (f (rv_info d) x w) = e
    \<or> ri_action (rv_info d) = Some CCAPI_RCI_ACTION_QUERY \<and> fst (f (rv_info d) x w) = 0 \<and> e = bad_value"
  proof (cases "enum_names b d")
    case None
    then show ?thesis
      using assms v by (intro exI [of _ v]) (auto simp: call_element_def split: prod.splits)
  next
    case (Some names)
    show ?thesis
    proof (cases "ri_action (rv_info d) = Some CCAPI_RCI_ACTION_QUERY")
      case True
      obtain e1 a1 v1 w1 where call: "f (rv_info d) (Value_String None) w = (e1, a1, v1, w1)" by (rule prod_cases4)
      have "e1 = e \<or> e1 = 0 \<and> e = bad_value"
        using assms v Some True call
        by (auto simp: call_element_def split: if_splits)
      then have "fst (f (rv_info d) (Value_String None) w) = e
          \<or> fst (f (rv_info d) (Value_String None) w) = 0 \<and> e = bad_value"
        using call by simp
      then show ?thesis using True by blast
    next
      case False
      then obtain n t where "enum_value v = Inr n" "enum_to_string names n = Inr t"
        using assms v Some by (auto simp: call_element_def)
      then show ?thesis
        using assms v Some False
        by (intro exI [of _ "Value_String (Some t)"]) (auto simp: call_element_def split: prod.splits)
    qed
  qed
  then show ?thesis by blast
qed

lemma call_transform_returned:
  assumes "call_transform b rc d w = Inr (Some (e, a, writes, w'))" and "rv_transform d = Some f"
  shows "\<exists>info x w. fst (f info x w) = e"
proof -
  obtain v where v: "pointed_value (rv_pointer d) rc = Inr (Some v)"
    using assms by (cases "pointed_value (rv_pointer d) rc") (auto simp: call_transform_def split: option.splits)
  have "\<exists>x. fst (f (rv_info d) x w) = e"
  proof (cases "enum_names b d")
    case None
    then show ?thesis
      using assms v by (intro exI [of _ v]) (auto simp: call_transform_def split: prod.splits)
  next
    case (Some names)
    then obtain n t where "enum_value v = Inr n" "enum_to_string names n = Inr t"
      using assms v by (auto simp: call_transform_def)
    then show ?thesis
      using assms v Some
      by (intro exI [of _ "Value_String (Some t)"]) (auto simp: call_transform_def split: prod.splits)
  qed
  then show ?thesis by blast
qed

lemma callback_returned_get:
  assumes "cb_get_element (rv_callbacks d) = Some f" and "ri_action (rv_info d) = Some CCAPI_RCI_ACTION_QUERY"
    and "fst (f info x w) = e \<or> fst (f info x w) = 0 \<and> e = bad_value"
  shows "callback_returned bad_value connector_request_id_remote_config_element_process d e"
  unfolding callback_returned_def using assms by (intro disjI2 conjI refl) auto

lemma callback_returned_set:
  assumes "cb_set_element (rv_callbacks d) = Some f" and "ri_action (rv_info d) \<noteq> Some CCAPI_RCI_ACTION_QUERY"
    and "\<not> ri_embed_transformed_values (rv_info d)" and "fst (f info x w) = e"
  shows "callback_returned bad_value connector_request_id_remote_config_element_process d e"
  unfolding callback_returned_def using assms by (intro disjI2 conjI refl) auto

lemma callback_returned_transform:
  assumes "cb_set_and_transform_element (rv_callbacks d) = Some f"
    and "ri_action (rv_info d) \<noteq> Some CCAPI_RCI_ACTION_QUERY"
    and "ri_embed_transformed_values (rv_info d)" and "fst (f info x w) = e"
  shows "callback_returned bad_value connector_request_id_remote_config_element_process d e"
  unfolding callback_returned_def using assms by (intro disjI2 conjI refl) auto

lemma call_status [simp]:
  "call_base (d\<lparr>rv_thread_status := st\<rparr>) v = call_base d v"
  "call_lock cfg (d\<lparr>rv_thread_status := st\<rparr>) v = call_lock cfg d v"
  "call_element b bad_value cfg (d\<lparr>rv_thread_status := st\<rparr>) v = call_element b bad_value cfg d v"
  "call_transform b cfg (d\<lparr>rv_thread_status := st\<rparr>) v = call_transform b cfg d v"
proof -
  have sel: "rv_info (d\<lparr>rv_thread_status := st\<rparr>) = rv_info d" "rv_base (d\<lparr>rv_thread_status := st\<rparr>) = rv_base d"
    "rv_lock (d\<lparr>rv_thread_status := st\<rparr>) = rv_lock d" "rv_element (d\<lparr>rv_thread_status := st\<rparr>) = rv_element d"
    "rv_transform (d\<lparr>rv_thread_status := st\<rparr>) = rv_transform d"
    "rv_pointer (d\<lparr>rv_thread_status := st\<rparr>) = rv_pointer d"
    "enum_names b (d\<lparr>rv_thread_status := st\<rparr>) = enum_names b d"
    by (simp_all add: enum_names_def)
  show "call_base (d\<lparr>rv_thread_status := st\<rparr>) v = call_base d v"
    "call_lock cfg (d\<lparr>rv_thread_status := st\<rparr>) v = call_lock cfg d v"
    "call_element b bad_value cfg (d\<lparr>rv_thread_status := st\<rparr>) v = call_element b bad_value cfg d v"
    "call_transform b cfg (d\<lparr>rv_thread_status := st\<rparr>) v = call_transform b cfg d v"
    unfolding call_base_def call_lock_def call_element_def call_transform_def sel by (rule refl)+
qed

lemma rci_call_queued_status [simp]:
  "rci_call_queued b bad_value cfg (d\<lparr>rv_thread_status := st\<rparr>) v = rci_call_queued b bad_value cfg d v"
  by (cases "rv_type d") (simp_all add: rci_call_queued_def)

lemma rci_called_returned:
  assumes queue: "rci_queue b r rc d = Inr d2" and none: "rv_type d = ccapi_callback_type_none"
    and call: "rci_call_queued b bad_value cfg d2 w = Inr (Some (e, a, writes, w'))"
  shows "callback_returned bad_value r d e"
proof (cases "r = connector_request_id_remote_config_element_process")
  case True
  have typed: "rv_type d2 \<noteq> ccapi_callback_type_none" using call by (auto simp: rci_call_queued_def)
  then have handler: "have_element_handler d"
    using rci_queue_given [OF queue none] True
    by (simp add: callback_given_def base_callback_of_def lock_callback_of_def)
  have "element_process b rc d = Inr d2" using queue True by (simp add: rci_queue_def)
  from element_process_queued [OF handler this] obtain info d1 where
    info: "ri_action info = ri_action (rv_info d)"
      "ri_embed_transformed_values info = ri_embed_transformed_values (rv_info d)"
    and d1: "queue_element rc (d\<lparr>rv_info := info\<rparr>) = Inr d1"
    and same: "rv_type d2 = rv_type d1" "rv_element d2 = rv_element d1" "rv_transform d2 = rv_transform d1"
      "ri_action (rv_info d2) = ri_action (rv_info d1)" .
  note q = queue_element_type [OF d1]
  show ?thesis
  proof (cases "rv_type d2")
    case ccapi_callback_type_element
    then have c: "call_element b bad_value cfg d2 w = Inr (Some (e, a, writes, w'))"
      using call by (simp add: rci_call_queued_def)
    then obtain f where f: "rv_element d2 = Some f" by (auto simp: call_element_def split: option.splits)
    have reg: "if ri_action (rv_info d) = Some CCAPI_RCI_ACTION_QUERY then cb_get_element (rv_callbacks d) = Some f
        else cb_set_element (rv_callbacks d) = Some f \<and> \<not> ri_embed_transformed_values (rv_info d)"
      and action: "ri_action (rv_info d2) = ri_action (rv_info d)"
      using q same info f ccapi_callback_type_element by (auto split: if_splits)
    from call_element_returned [OF c f] obtain info x w where "fst (f info x w) = e
        \<or> ri_action (rv_info d) = Some CCAPI_RCI_ACTION_QUERY \<and> fst (f info x w) = 0 \<and> e = bad_value"
      unfolding action by blast
    then show ?thesis
      using reg callback_returned_get [of d f info x w] callback_returned_set [of d f info x w] True
      by (cases "ri_action (rv_info d) = Some CCAPI_RCI_ACTION_QUERY") auto
  next
    case ccapi_callback_type_transform
    then have c: "call_transform b cfg d2 w = Inr (Some (e, a, writes, w'))"
      using call by (simp add: rci_call_queued_def)
    then obtain f where f: "rv_transform d2 = Some f" by (auto simp: call_transform_def split: option.splits)
    have reg: "cb_set_and_transform_element (rv_callbacks d) = Some f \<and> ri_embed_transformed_values (rv_info d)
        \<and> ri_action (rv_info d) \<noteq> Some CCAPI_RCI_ACTION_QUERY"
      using q same info f ccapi_callback_type_transform by (auto split: if_splits)
    moreover obtain info x w where "fst (f info x w) = e" using call_transform_returned [OF c f] by blast
    ultimately show ?thesis using callback_returned_transform [of d f info x w] True by simp
  qed (use q same typed in \<open>auto split: if_splits\<close>)
next
  case False
  have kinds: "(\<exists>f. base_callback_of r (rv_callbacks d) = Some f \<and> rv_type d2 = ccapi_callback_type_base \<and> rv_base d2 = Some f)
      \<or> (\<exists>f. lock_callback_of r (rv_callbacks d) = Some f \<and> rv_type d2 = ccapi_callback_type_lock \<and> rv_lock d2 = Some f)
      \<or> rv_type d2 = ccapi_callback_type_none"
    using queue none False
    by (cases r)
      (auto simp: rci_queue_def base_callback_of_def lock_callback_of_def Let_def
        split: option.splits dest!: with_base_type with_lock_type)
  then consider (base) f where "base_callback_of r (rv_callbacks d) = Some f"
      "rv_type d2 = ccapi_callback_type_base" "rv_base d2 = Some f"
    | (lock) f where "lock_callback_of r (rv_callbacks d) = Some f"
      "rv_type d2 = ccapi_callback_type_lock" "rv_lock d2 = Some f"
    | (none) "rv_type d2 = ccapi_callback_type_none" by blast
  then show ?thesis
  proof cases
    case base
    then have "call_base d2 w = Inr (Some (e, a, writes, w'))" using call by (simp add: rci_call_queued_def)
    from call_base_returned [OF this base(3)] show ?thesis unfolding callback_returned_def using base(1) by blast
  next
    case lock
    then have "call_lock cfg d2 w = Inr (Some (e, a, writes, w'))" using call by (simp add: rci_call_queued_def)
    from call_lock_returned [OF this lock(3)] show ?thesis unfolding callback_returned_def using lock(1) by blast
  next
    case none
    then show ?thesis using call by (simp add: rci_call_queued_def)
  qed
qed

context os_locks
begin

lemma request_effect:
  assumes inv: "rci_inv b tokens thl s" and idle: "rv_thread_status (rq_service s) = CCAPI_RCI_THREAD_IDLE"
    and ok: "rci_request_ok b r rc (rq_service s)"
  shows "\<exists>s1 d2. rci_exec b bad_value os (Rci_Request r rc) s = Inr s1 \<and> rci_inv b tokens thl s1
    \<and> rci_queue b r rc (rci_prepared b rc (rq_service s)) = Inr d2 \<and> rv_info (rq_service s1) = rv_info d2
    \<and> rv_callbacks (rq_service s1) = rv_callbacks (rq_service s) \<and> rv_desc (rq_service s1) = rv_desc (rq_service s)
    \<and> rq_request s1 = r \<and> rq_phase s1 = Rci_Waiting
    \<and> (rv_type d2 \<noteq> ccapi_callback_type_none \<longrightarrow> rq_service s1 = d2\<lparr>rv_thread_status := CCAPI_RCI_THREAD_CB_QUEUED\<rparr>)
    \<and> rv_thread_status (rq_service s1) =
        (if rv_type d2 = ccapi_callback_type_none then CCAPI_RCI_THREAD_CB_PROCESSED else CCAPI_RCI_THREAD_CB_QUEUED)
    \<and> (rv_type d2 = ccapi_callback_type_none \<longrightarrow> rv_error (rq_service s1) = 0)
    \<and> rq_log s1 = Rci_Asked (rv_type d2 \<noteq> ccapi_callback_type_none) # rq_log s"
proof -
  have allowed: "rci_allowed b tokens (Rci_Request r rc) s" using idle ok by (simp add: rci_allowed_def)
  obtain s1 where s1: "rci_exec b bad_value os (Rci_Request r rc) s = Inr s1" "rci_inv b tokens thl s1"
    using rci_request_inv [OF inv allowed] by blast
  have cbs: "callbacks_ok tokens thl (rv_callbacks (rq_service s))" and wait: "rq_phase s = Rci_Waiting"
    using inv idle by (simp_all add: rci_inv_defs Let_def split: rci_phase.splits)
  have cancel: "r \<noteq> connector_request_id_remote_config_session_cancel" using ok by (auto simp: rci_request_ok_def)
  have ok1: "rci_request_ok b r rc (rci_prepared b rc (rq_service s))"
    using ok by (simp add: rci_prepared_def request_ok_prepared)
  obtain d2 where d2: "rci_queue b r rc (rci_prepared b rc (rq_service s)) = Inr d2"
    "queued_ok b rc (rci_prepared b rc (rq_service s)) d2"
    using rci_queue_ok [OF _ rci_prepared_simps(6) _ ok1, of tokens thl] cbs by auto
  have frame: "rv_callbacks d2 = rv_callbacks (rq_service s)" "rv_error d2 = 0" "rv_desc d2 = rv_desc (rq_service s)"
    using d2(2) by (simp_all add: queued_ok_def)
  show ?thesis
    using s1 d2(1) idle cancel wait frame
    by (cases "rv_type d2 = ccapi_callback_type_none")
      (auto simp: rci_exec_def ccapi_rci_handler_def rci_prepared_def [symmetric] Let_def)
qed

lemma call_effect:
  assumes inv: "rci_inv b tokens thl s" and queued: "rv_thread_status (rq_service s) = CCAPI_RCI_THREAD_CB_QUEUED"
    and wait: "rq_phase s = Rci_Waiting"
  shows "\<exists>s1 a. (\<exists>cfg v writes w'. rci_call_queued b bad_value cfg (rq_service s) v = Inr (Some (rv_error (rq_service s1), a, writes, w')))
    \<and> ub_bind (rci_exec b bad_value os Rci_Wake s) (rci_exec b bad_value os Rci_Finish) = Inr s1
    \<and> rv_desc (rq_service s1) = rv_desc (rq_service s)
    \<and> rci_inv b tokens thl s1 \<and> rv_info (rq_service s1) = put_answer a (rv_info (rq_service s))
    \<and> rv_callbacks (rq_service s1) = rv_callbacks (rq_service s)
    \<and> rv_thread_status (rq_service s1) = CCAPI_RCI_THREAD_CB_PROCESSED
    \<and> rq_request s1 = rq_request s \<and> rq_log s1 = Rci_Called (rv_error (rq_service s1)) # rq_log s"
proof -
  have "rv_run_lock (rq_service s) = Some thl" "tokens thl (rq_world s) = Some 1"
    using inv queued wait by (simp_all add: rci_inv_defs Let_def)
  then have "rci_allowed b tokens Rci_Wake s" using wait by (simp add: rci_allowed_def)
  from rci_wake_inv [OF inv this, of bad_value] obtain s1 where s1: "rci_exec b bad_value os Rci_Wake s = Inr s1"
    "rci_inv b tokens thl s1" by blast
  have same: "rq_request s1 = rq_request s" "rq_log s1 = rq_log s" "rq_config s1 = rq_config s"
    using s1(1) by (auto simp: rci_exec_def Let_def)
  have phase: "rq_phase s1 \<noteq> Rci_Exited" using s1(2) by (auto simp: rci_inv_defs Let_def)
  then obtain e a writes v w' where call: "rq_phase s1 = Rci_In_Callback e a writes" "rq_service s1 = rq_service s"
    "rci_call_queued b bad_value (rq_config s) (rq_service s) v = Inr (Some (e, a, writes, w'))"
    using s1(1) queued
    by (auto simp: rci_exec_def rci_thread_wake_def Let_def split: if_splits option.splits)
  then have "rci_allowed b tokens Rci_Finish s1" by (simp add: rci_allowed_def)
  from rci_exec_inv [OF s1(2) this, of bad_value] obtain s2 where s2: "rci_exec b bad_value os Rci_Finish s1 = Inr s2"
    "rci_inv b tokens thl s2" by (auto simp: leaves_the_levels_def Let_def)
  have run: "rv_run_status (rq_service s) = CCAPI_THREAD_RUNNING" using inv by (simp add: rci_inv_def Let_def)
  have "rv_info (rq_service s2) = put_answer a (rv_info (rq_service s))"
    "rv_callbacks (rq_service s2) = rv_callbacks (rq_service s)" "rv_desc (rq_service s2) = rv_desc (rq_service s)"
    "rv_thread_status (rq_service s2) = CCAPI_RCI_THREAD_CB_PROCESSED" "rv_error (rq_service s2) = e"
    "rq_request s2 = rq_request s" "rq_log s2 = Rci_Called e # rq_log s"
    using s2(1) call(1,2) queued run same by (auto simp: rci_exec_def rci_thread_finish_def Let_def)
  then show ?thesis using s1(1) s2 call(3) by (intro exI [of _ s2] exI [of _ a]) auto
qed

lemma answer_effect:
  assumes inv: "rci_inv b tokens thl s" and "rv_thread_status (rq_service s) = CCAPI_RCI_THREAD_CB_PROCESSED"
    and inside: "rq_request s = connector_request_id_remote_config_list_end \<longrightarrow>
      unat (ri_depth (rv_info (rq_service s)) - 1) < length (ri_list (rv_info (rq_service s)))"
  shows "\<exists>s1 rc1. rci_exec b bad_value os Rci_Again s = Inr s1 \<and> rci_inv b tokens thl s1
    \<and> rci_processed b (rq_request s) (rq_config s) (rv_info (rq_service s)) = Inr (rc1, rv_info (rq_service s1))
    \<and> rv_callbacks (rq_service s1) = rv_callbacks (rq_service s) \<and> rv_desc (rq_service s1) = rv_desc (rq_service s)
    \<and> rv_thread_status (rq_service s1) = CCAPI_RCI_THREAD_IDLE
    \<and> rq_log s1 = Rci_Answered (rv_error (rq_service s)) # rq_log s"
proof -
  have allowed: "rci_allowed b tokens Rci_Again s" using assms(2) by (simp add: rci_allowed_def)
  obtain s1 where s1: "rci_exec b bad_value os Rci_Again s = Inr s1" "rci_inv b tokens thl s1"
    using rci_again_inv [OF inv allowed, of bad_value] inside by (auto simp: leaves_the_levels_def Let_def)
  have "rq_request s \<noteq> connector_request_id_remote_config_session_cancel"
    using inv assms(2) by (simp add: rci_inv_def Let_def)
  then show ?thesis using s1 assms(2) by (auto simp: rci_exec_def ccapi_rci_handler_def Let_def)
qed

text \<open>A round that is over: what it logged, and what became of the description.\<close>

lemma round_effect:
  assumes "rci_inv b tokens thl s" and "rv_thread_status (rq_service s) = CCAPI_RCI_THREAD_IDLE"
    and "rci_request_ok b r rc (rq_service s)" and inside: "list_end_inside r rc (rq_service s)"
  shows "\<exists>s' d2 e a rc1 rc2. rci_round b bad_value os r rc s = Inr s' \<and> rci_inv b tokens thl s'
    \<and> rv_thread_status (rq_service s') = CCAPI_RCI_THREAD_IDLE
    \<and> rv_callbacks (rq_service s') = rv_callbacks (rq_service s) \<and> rv_desc (rq_service s') = rv_desc (rq_service s)
    \<and> rci_queue b r rc (rci_prepared b rc (rq_service s)) = Inr d2
    \<and> rq_log s' = (if callback_given r (rq_service s) then [Rci_Answered e, Rci_Called e, Rci_Asked True]
                   else [Rci_Answered 0, Rci_Asked False]) @ rq_log s
    \<and> (callback_given r (rq_service s) \<longrightarrow> callback_returned bad_value r (rq_service s) e)
    \<and> rci_processed b r rc1 (if rv_type d2 = ccapi_callback_type_none then rv_info d2 else put_answer a (rv_info d2))
        = Inr (rc2, rv_info (rq_service s'))"
proof -
  obtain s1 d2 where 1: "rci_exec b bad_value os (Rci_Request r rc) s = Inr s1" "rci_inv b tokens thl s1"
    "rci_queue b r rc (rci_prepared b rc (rq_service s)) = Inr d2" "rv_info (rq_service s1) = rv_info d2"
    "rv_callbacks (rq_service s1) = rv_callbacks (rq_service s)" "rv_desc (rq_service s1) = rv_desc (rq_service s)"
    "rq_request s1 = r" "rq_phase s1 = Rci_Waiting"
    "rv_type d2 \<noteq> ccapi_callback_type_none \<longrightarrow> rq_service s1 = d2\<lparr>rv_thread_status := CCAPI_RCI_THREAD_CB_QUEUED\<rparr>"
    "rv_thread_status (rq_service s1) =
       (if rv_type d2 = ccapi_callback_type_none then CCAPI_RCI_THREAD_CB_PROCESSED else CCAPI_RCI_THREAD_CB_QUEUED)"
    "rv_type d2 = ccapi_callback_type_none \<longrightarrow> rv_error (rq_service s1) = 0"
    "rq_log s1 = Rci_Asked (rv_type d2 \<noteq> ccapi_callback_type_none) # rq_log s"
    using request_effect [OF assms(1-3), of bad_value] by (elim exE conjE) (rule that)
  have given: "rv_type d2 \<noteq> ccapi_callback_type_none \<longleftrightarrow> callback_given r (rq_service s)"
    using rci_queue_given [OF 1(3)] by simp
  have depth: "unat (ri_depth (rv_info d2) - 1) < length (ri_list (rv_info d2))"
    if "r = connector_request_id_remote_config_list_end"
    using 1(3) inside that
    by (auto simp: rci_queue_def with_base_def queue_base_def list_end_inside_def split: option.splits)
  show ?thesis
  proof (cases "rv_type d2 = ccapi_callback_type_none")
    case True
    with 1(10) have processed: "rv_thread_status (rq_service s1) = CCAPI_RCI_THREAD_CB_PROCESSED" by simp
    from answer_effect [OF 1(2) this, of bad_value] depth 1(4,7) obtain s2 rc1 where
      "rci_exec b bad_value os Rci_Again s1 = Inr s2" "rci_inv b tokens thl s2"
      "rci_processed b (rq_request s1) (rq_config s1) (rv_info (rq_service s1)) = Inr (rc1, rv_info (rq_service s2))"
      "rv_callbacks (rq_service s2) = rv_callbacks (rq_service s1)" "rv_desc (rq_service s2) = rv_desc (rq_service s1)"
      "rv_thread_status (rq_service s2) = CCAPI_RCI_THREAD_IDLE"
      "rq_log s2 = Rci_Answered (rv_error (rq_service s1)) # rq_log s1"
      by auto
    then show ?thesis
      using True 1 processed given
      by (intro exI [of _ s2] exI [of _ d2]) (auto simp: rci_round_def)
  next
    case False
    then have queued: "rv_thread_status (rq_service s1) = CCAPI_RCI_THREAD_CB_QUEUED" using 1(10) by simp
    obtain s2 a cfg v writes w' where
      call: "rci_call_queued b bad_value cfg (rq_service s1) v = Inr (Some (rv_error (rq_service s2), a, writes, w'))"
      and 2: "ub_bind (rci_exec b bad_value os Rci_Wake s1) (rci_exec b bad_value os Rci_Finish) = Inr s2"
      "rv_desc (rq_service s2) = rv_desc (rq_service s1)"
      "rci_inv b tokens thl s2" "rv_info (rq_service s2) = put_answer a (rv_info (rq_service s1))"
      "rv_callbacks (rq_service s2) = rv_callbacks (rq_service s1)"
      "rv_thread_status (rq_service s2) = CCAPI_RCI_THREAD_CB_PROCESSED"
      "rq_request s2 = rq_request s1" "rq_log s2 = Rci_Called (rv_error (rq_service s2)) # rq_log s1"
      using call_effect [OF 1(2) queued 1(8), of bad_value] by (elim exE conjE) (rule that)
    have "rci_call_queued b bad_value cfg d2 v = rci_call_queued b bad_value cfg (rq_service s1) v"
      using 1(9) False by simp
    then have "callback_returned bad_value r (rci_prepared b rc (rq_service s)) (rv_error (rq_service s2))"
      using rci_called_returned [OF 1(3) rci_prepared_simps(4)] call by simp
    moreover have "ri_depth (put_answer a info) = ri_depth info" "ri_list (put_answer a info) = ri_list info" for info
      by (simp_all add: put_answer_def)
    then have "rq_request s2 = connector_request_id_remote_config_list_end \<longrightarrow>
        unat (ri_depth (rv_info (rq_service s2)) - 1) < length (ri_list (rv_info (rq_service s2)))"
      using depth 1(4,7) 2(4,7) by simp
    from answer_effect [OF 2(3,6) this, of bad_value] obtain s3 rc1 where
      "rci_exec b bad_value os Rci_Again s2 = Inr s3" "rci_inv b tokens thl s3"
      "rci_processed b (rq_request s2) (rq_config s2) (rv_info (rq_service s2)) = Inr (rc1, rv_info (rq_service s3))"
      "rv_callbacks (rq_service s3) = rv_callbacks (rq_service s2)" "rv_desc (rq_service s3) = rv_desc (rq_service s2)"
      "rv_thread_status (rq_service s3) = CCAPI_RCI_THREAD_IDLE"
      "rq_log s3 = Rci_Answered (rv_error (rq_service s2)) # rq_log s2"
      by blast
    ultimately show ?thesis
      using False 1 2 queued given
      by (intro exI [of _ s3] exI [of _ d2] exI [of _ "rv_error (rq_service s2)"] exI [of _ a]
          exI [of _ "rq_config s2"] exI [of _ rc1]) (simp add: rci_round_def)
  qed
qed

end

text \<open>A service whose thread has started and waits, before the first request.\<close>

definition rci_started :: "(nat \<Rightarrow> 'w \<Rightarrow> nat option) \<Rightarrow> nat \<Rightarrow> 'w rci_system \<Rightarrow> bool" where
  "rci_started tokens thl s \<longleftrightarrow>
     rv_run_status (rq_service s) = CCAPI_THREAD_RUNNING \<and> rv_run_lock (rq_service s) = Some thl
     \<and> callbacks_ok tokens thl (rv_callbacks (rq_service s)) \<and> rv_thread_status (rq_service s) = CCAPI_RCI_THREAD_IDLE
     \<and> rq_phase s = Rci_Waiting \<and> tokens thl (rq_world s) = Some 0 \<and> rq_log s = []"

lemma rci_started_inv: "rci_started tokens thl s \<Longrightarrow> rci_inv b tokens thl s"
  by (simp add: rci_started_def rci_inv_defs)

subsection \<open>An example\<close>

text \<open>Callbacks that accept everything, on the lock 3 of the Linux port.\<close>

definition accept_base :: "'w ccapi_rci_function_base_t" where
  "accept_base info w = (0, answer_of info, None, w)"

definition accept_value :: "'w ccapi_rci_function_element_t" where
  "accept_value info v w = (0, answer_of info, v, w)"

definition accept_transform :: "'w ccapi_rci_function_transform_t" where
  "accept_transform info v w = (0, answer_of info, v, None, w)"

definition refuse_base :: "'w ccapi_rci_function_base_t" where
  "refuse_base info w = (9, answer_of info, None, w)"

definition example_callbacks :: "'w rci_callbacks" where
  "example_callbacks =
     \<lparr>cb_start_session = Some accept_base, cb_end_session = Some accept_base, cb_start_action = Some accept_base,
      cb_end_action = None, cb_start_group = Some accept_base, cb_end_group = None, cb_lock_group_instances = None,
      cb_set_group_instances = None, cb_remove_group_instance = None, cb_unlock_group_instances = None,
      cb_start_list = Some accept_base, cb_end_list = Some accept_base, cb_lock_list_instances = None,
      cb_set_list_instances = None, cb_remove_list_instance = None, cb_unlock_list_instances = None,
      cb_get_element = Some accept_value, cb_set_element = Some accept_value,
      cb_set_and_transform_element = Some accept_transform, cb_do_command = None, cb_set_factory_defaults = None,
      cb_reboot = Some refuse_base\<rparr>"

definition example_build :: rci_build where
  "example_build =
     \<lparr>RCI_PARSER_USES_COLLECTION_NAMES = True, RCI_PARSER_USES_ELEMENT_NAMES = True, RCI_ENUMS_AS_STRINGS = False\<rparr>"

definition blank_level :: rci_level where
  "blank_level = \<lparr>lv_id = 77, lv_collection_type = None, lv_item = Item_Unwritten, lv_name = None\<rparr>"

definition example_info :: ccapi_rci_info_t where
  "example_info =
     \<lparr>ri_group_type = Some CCAPI_RCI_GROUP_SETTING, ri_group = blank_level, ri_depth = 0, ri_list = [blank_level, blank_level],
      ri_element_id = 0, ri_element_name = None, ri_element_type = None, ri_source = None, ri_compare_to = None,
      ri_matches = False, ri_embed_transformed_values = False, ri_target = None, ri_request = None, ri_response = False,
      ri_action = Some CCAPI_RCI_ACTION_SET, ri_error_hint = None, ri_user_context = None\<rparr>"

definition example_service :: "'w rci_callbacks \<Rightarrow> 'w rci_service" where
  "example_service cbs =
     \<lparr>rv_callbacks = cbs, rv_desc = (\<lambda>_. []), rv_info = example_info, rv_thread_status = CCAPI_RCI_THREAD_IDLE,
      rv_type = ccapi_callback_type_none, rv_base = None, rv_lock = None, rv_element = None, rv_transform = None,
      rv_pointer = Pointer_Unwritten, rv_error = 0, rv_enum_data = None, rv_run_status = CCAPI_THREAD_RUNNING,
      rv_run_lock = Some 3\<rparr>"

definition example_level :: "u32 \<Rightarrow> u32 \<Rightarrow> connector_remote_level" where
  "example_level n index =
     \<lparr>rl_id = n, rl_collection_type = Some CCAPI_RCI_COLLECTION_TYPE_FIXED_ARRAY,
      rl_item = \<lparr>item_index = index, item_key = None, item_count = index,
                 item_dictionary = \<lparr>dictionary_entries = 0, dictionary_keys = None\<rparr>\<rparr>,
      rl_name = Some ''level''\<rparr>"

definition example_config :: "u32 \<Rightarrow> connector_remote_config_t" where
  "example_config depth =
     \<lparr>rc_user_context = None, rc_error_id = 0, rc_action = connector_remote_action_set,
      rc_group_type = connector_remote_group_setting, rc_group = example_level 5 1, rc_depth = depth,
      rc_levels = [example_level 6 2, example_level 7 3], rc_element_id = 8, rc_element_name = Some ''speed'',
      rc_element_type = connector_element_type_uint32, rc_element_value = Some (Value_Other 100),
      rc_compare_to = rci_query_setting_attribute_compare_to_none, rc_source = rci_query_setting_attribute_source_current,
      rc_embed_transformed_values = False, rc_target = None, rc_error_hint = None, rc_compare_matches = False,
      rc_response_item = Response_Unwritten, rc_response_value = Some (Value_Other 0)\<rparr>"

definition example_world :: linux where
  "example_world = \<lparr>lx_sems = [3 \<mapsto> 0], lx_next = 4, lx_memory = 5, lx_blocks = 0, lx_stuck = False\<rparr>"

definition example_rci :: "linux rci_callbacks \<Rightarrow> linux rci_system" where
  "example_rci cbs =
     \<lparr>rq_service = example_service cbs, rq_world = example_world, rq_phase = Rci_Waiting,
      rq_request = connector_request_id_remote_config_session_end, rq_config = example_config 0, rq_log = []\<rparr>"

lemmas example_rci_defs = example_callbacks_def example_build_def blank_level_def example_info_def example_service_def
  example_level_def example_config_def example_world_def example_rci_def

lemma example_started: "rci_started linux_tokens 3 (example_rci example_callbacks)"
  by (auto simp: rci_started_def callbacks_ok_def base_callbacks_def example_rci_defs linux_tokens_def
      accept_base_def accept_value_def accept_transform_def refuse_base_def)

subsection \<open>Requests, callbacks and answers\<close>

text \<open>
  C16. The remote configuration refines the automaton of its requests: whatever the order in which
  the connector repeats requests and the thread runs, what was logged is a word of the automaton
  (a request, the return of its callback if it has one, an answer with what the callback returned)
  and the service is in the stage the word leads to; the thread has not ended, and its lock holds
  a token exactly while it has a callback to take up.
\<close>
theorem rci_refines_request_automaton:
  assumes "os_locks os tokens" and "rci_started tokens thl s0" and "rci_reachable b bad_value os tokens s0 s"
  shows "rci_stage_of (rq_log s) = Some (rci_abs (rq_service s))
    \<and> rv_run_status (rq_service s) = CCAPI_THREAD_RUNNING \<and> rq_phase s \<noteq> Rci_Exited
    \<and> tokens thl (rq_world s) =
        Some (if rv_thread_status (rq_service s) = CCAPI_RCI_THREAD_CB_QUEUED \<and> rq_phase s = Rci_Waiting then 1 else 0)"
proof -
  have "rci_inv b tokens thl s"
    using os_locks.rci_reachable_inv [OF assms(1,3) rci_started_inv [OF assms(2)]] .
  then show ?thesis by (auto simp: rci_inv_def rci_thread_ok_def Let_def)
qed

lemma rci_refines_request_automaton_witness:
  "rci_stage_of (rq_log (example_rci example_callbacks)) = Some (rci_abs (rq_service (example_rci example_callbacks)))"
  using rci_refines_request_automaton [OF lx.os_locks_axioms [of False] example_started rci_start] by blast

text \<open>
  C17. Of the steps the connector and the thread may take, one kind is undefined: the answer to the
  end of a list when the depth of the description, which the callbacks of lists and elements keep,
  is not within its levels. Every other request, repetition, cancellation, wake-up and return of a
  callback has a result in every reachable state, those of enumerations kept as strings included.
  What is asked of the connector is \<open>rci_allowed\<close>: what a request needs is there
  (\<open>rci_request_ok\<close>), and no session is cancelled while its callback is queued or running. What is
  asked of the user (\<open>rci_started\<close>): the callbacks leave the lock of the thread alone, and there is a
  \<open>set_and_transform_element\<close> if there is a \<open>set_element\<close>.
\<close>
theorem rci_no_undefined_behaviour:
  assumes "os_locks os tokens" and "rci_started tokens thl s0" and "rci_reachable b bad_value os tokens s0 s"
    and "rci_allowed b tokens e s"
  shows "if leaves_the_levels e s then rci_exec b bad_value os e s = Inl Out_Of_Bounds
    else (\<exists>s'. rci_exec b bad_value os e s = Inr s')"
proof (cases "leaves_the_levels e s")
  case True
  then show ?thesis by (simp add: os_locks.rci_exec_out_of_bounds [OF assms(1)])
next
  case False
  have "rci_inv b tokens thl s"
    using os_locks.rci_reachable_inv [OF assms(1,3) rci_started_inv [OF assms(2)]] .
  from os_locks.rci_exec_inv [OF assms(1) this assms(4) False, of bad_value] show ?thesis using False by simp blast
qed

lemma rci_no_undefined_behaviour_witness:
  "\<exists>s'. rci_exec example_build 0 (linux_os False) (Rci_Request connector_request_id_remote_config_list_start (example_config 2))
     (example_rci example_callbacks) = Inr s'"
proof -
  have "rci_allowed example_build linux_tokens (Rci_Request connector_request_id_remote_config_list_start (example_config 2))
     (example_rci example_callbacks)"
    by (simp add: rci_allowed_def rci_request_ok_def level_ok_def level_index_def example_rci_defs)
  from rci_no_undefined_behaviour [OF lx.os_locks_axioms [of False] example_started rci_start this, of 0]
  show ?thesis by (simp add: leaves_the_levels_def)
qed

text \<open>
  C18. A request is one round: an idle service answers it busy; when the user gave a callback for
  this request it is called once, by the thread, and when the connector repeats the request it
  gets what this callback returned; when there is none it is not queued and the repeated request is
  answered without an error. Then the service is idle again. The request is one the connector may
  make (\<open>rci_request_ok\<close>) and, if it ends a list, ends one within the levels of the description.
\<close>
theorem rci_request_is_one_round:
  fixes s :: "'w rci_system"
  assumes "os_locks os tokens" and "rci_inv b tokens thl s"
    and "rv_thread_status (rq_service s) = CCAPI_RCI_THREAD_IDLE" and "rci_request_ok b r rc (rq_service s)"
    and "list_end_inside r rc (rq_service s)"
  shows "\<exists>s'. rci_round b bad_value os r rc s = Inr s' \<and> rv_thread_status (rq_service s') = CCAPI_RCI_THREAD_IDLE
    \<and> rci_inv b tokens thl s'
    \<and> (if callback_given r (rq_service s)
       then \<exists>e. callback_returned bad_value r (rq_service s) e
         \<and> rq_log s' = [Rci_Answered e, Rci_Called e, Rci_Asked True] @ rq_log s
       else rq_log s' = [Rci_Answered 0, Rci_Asked False] @ rq_log s)"
proof -
  obtain s' e where "rci_round b bad_value os r rc s = Inr s'" "rci_inv b tokens thl s'"
    "rv_thread_status (rq_service s') = CCAPI_RCI_THREAD_IDLE"
    "rq_log s' = (if callback_given r (rq_service s) then [Rci_Answered e, Rci_Called e, Rci_Asked True]
                  else [Rci_Answered 0, Rci_Asked False]) @ rq_log s"
    "callback_given r (rq_service s) \<longrightarrow> callback_returned bad_value r (rq_service s) e"
    using os_locks.round_effect [OF assms, of bad_value] by (elim exE conjE) (rule that, assumption+)
  then show ?thesis by (intro exI [of _ s']) auto
qed

text \<open>The example refuses to reboot, with error 9, and has no callback for commands.\<close>

lemma rci_request_is_one_round_witness:
  "(\<exists>s'. rci_round example_build 0 (linux_os False) connector_request_id_remote_config_reboot (example_config 0)
       (example_rci example_callbacks) = Inr s'
     \<and> rq_log s' = [Rci_Answered 9, Rci_Called 9, Rci_Asked True])
   \<and> (\<exists>s'. rci_round example_build 0 (linux_os False) connector_request_id_remote_config_set_factory_def (example_config 0)
       (example_rci example_callbacks) = Inr s'
     \<and> rq_log s' = [Rci_Answered 0, Rci_Asked False])"
proof -
  let ?s = "example_rci example_callbacks"
  note round = rci_request_is_one_round [OF lx.os_locks_axioms [of False] rci_started_inv [OF example_started],
      of example_build _ _ 0]
  have "rv_thread_status (rq_service ?s) = CCAPI_RCI_THREAD_IDLE" "rq_log ?s = []"
    "rci_request_ok example_build connector_request_id_remote_config_reboot (example_config 0) (rq_service ?s)"
    "rci_request_ok example_build connector_request_id_remote_config_set_factory_def (example_config 0) (rq_service ?s)"
    "callback_given connector_request_id_remote_config_reboot (rq_service ?s)"
    "\<not> callback_given connector_request_id_remote_config_set_factory_def (rq_service ?s)"
    by (simp_all add: example_rci_defs rci_request_ok_def callback_given_def base_callback_of_def lock_callback_of_def)
  moreover have "list_end_inside connector_request_id_remote_config_reboot (example_config 0) (rq_service ?s)"
    "list_end_inside connector_request_id_remote_config_set_factory_def (example_config 0) (rq_service ?s)"
    by (simp_all add: list_end_inside_def)
  moreover have "e = 9" if "callback_returned 0 connector_request_id_remote_config_reboot (rq_service ?s) e" for e
    using that
    by (auto simp: callback_returned_def base_callback_of_def lock_callback_of_def example_rci_defs refuse_base_def)
  ultimately show ?thesis
    using round [of connector_request_id_remote_config_reboot "example_config 0"]
      round [of connector_request_id_remote_config_set_factory_def "example_config 0"] by auto
qed

subsection \<open>Where an element is\<close>

text \<open>Requests, each answered before the next.\<close>

primrec rci_rounds ::
  "rci_build \<Rightarrow> u32 \<Rightarrow> 'w os \<Rightarrow> (connector_request_id_remote_config_t \<times> connector_remote_config_t) list
     \<Rightarrow> 'w rci_system \<Rightarrow> 'w rci_system ub" where
  "rci_rounds b bad_value os [] s = Inr s"
| "rci_rounds b bad_value os (q # qs) s =
     ub_bind (rci_round b bad_value os (fst q) (snd q) s) (rci_rounds b bad_value os qs)"

text \<open>What a level of the description says of a level of the connector.\<close>

definition position_item :: "connector_remote_level \<Rightarrow> ccapi_item_t" where
  "position_item r =
     (if rl_collection_type r \<in> {Some CCAPI_RCI_COLLECTION_TYPE_FIXED_ARRAY, Some CCAPI_RCI_COLLECTION_TYPE_VARIABLE_ARRAY}
      then Item_Index (item_index (rl_item r)) else Item_Key (item_key (rl_item r)))"

definition describes :: "rci_build \<Rightarrow> u32 \<Rightarrow> connector_remote_level \<Rightarrow> rci_level \<Rightarrow> bool" where
  "describes b n r l \<longleftrightarrow>
     lv_id l = n \<and> lv_collection_type l = rl_collection_type r \<and> lv_item l = position_item r
     \<and> (RCI_PARSER_USES_COLLECTION_NAMES b \<longrightarrow> lv_name l = rl_name r)"

definition entered :: "rci_build \<Rightarrow> connector_remote_config_t \<Rightarrow> nat \<Rightarrow> ccapi_rci_info_t \<Rightarrow> bool" where
  "entered b rc k info \<longleftrightarrow>
     describes b (rl_id (rc_group rc)) (rc_group rc) (ri_group info)
     \<and> (\<forall>i<k. describes b 0 (rc_levels rc ! i) (ri_list info ! i)) \<and> (\<forall>l\<in>set (ri_list info). lv_id l = 0)"

lemma copy_describes:
  "rl_collection_type r \<noteq> None \<Longrightarrow> describes b n r (copy_type_item_name b r l) \<longleftrightarrow> lv_id l = n"
  "lv_id (copy_type_item_name b r l) = lv_id l"
  by (auto simp: describes_def position_item_def copy_type_item_name_def copy_name_def copy_item_def copy_type_def
      split: option.splits ccapi_rci_collection_type_t.splits)

lemma cleared_id: "lv_id (clear_level b l) = 0"
  by (auto simp: clear_level_def clear_name_def clear_item_def split: option.splits ccapi_rci_collection_type_t.splits)

lemma enter_group_entered:
  assumes "rl_collection_type (rc_group rc) \<noteq> None" and "rc_group rg = rc_group rc"
  shows "entered b rc 0 (enter_group b (copy_type_item_name b) rg info)"
  using assms
  by (auto simp: entered_def enter_group_def group_entered_def clear_all_list_info_def Let_def copy_describes cleared_id)

lemma enter_list_entered:
  assumes "entered b rc k info" and "rc_levels r = rc_levels rc" and "rc_depth r = of_nat (Suc k)"
    and "k < length (ri_list info)" and "k < 2 ^ 32 - 1" and "rl_collection_type (rc_levels rc ! k) \<noteq> None"
    and "enter_list b (copy_type_item_name b) r info = Inr info'"
  shows "entered b rc (Suc k) info' \<and> ri_depth info' = of_nat (Suc k)"
proof -
  have "(of_nat (Suc k) :: u32) - 1 = of_nat k" by simp
  moreover have "unat (of_nat k :: u32) = k" using assms(5) by (simp add: unat_of_nat)
  ultimately have index: "level_index r = k" using assms(3) by (simp only: level_index_def)
  have level: "copy_type_item_name b (rc_levels r ! k) = copy_type_item_name b (rc_levels rc ! k)" using assms(2) by simp
  have "level_ok r info" using assms(7) index assms(4)
    by (auto simp: enter_list_def enter_level_def remote_level_def level_ok_def split: if_splits)
  then have info': "info' = clear_element_info b (info\<lparr>ri_depth := rc_depth r,
      ri_list := (ri_list info)[k := copy_type_item_name b (rc_levels rc ! k) (ri_list info ! k)]\<rparr>)"
    using assms(7) by (simp add: enter_list_ok index level)
  have "ri_list info ! k \<in> set (ri_list info)" using assms(4) by simp
  then have "lv_id (ri_list info ! k) = 0" using assms(1) by (auto simp: entered_def)
  then show ?thesis
    using assms(1,3,4,6) unfolding info'
    by (auto simp: entered_def nth_list_update less_Suc_eq copy_describes dest!: set_update_subset_insert [THEN subsetD])
qed

text \<open>What a round of a position leaves: an idle service at the same action.\<close>

definition between ::
  "rci_build \<Rightarrow> (nat \<Rightarrow> 'w \<Rightarrow> nat option) \<Rightarrow> nat \<Rightarrow> 'w rci_system \<Rightarrow> 'w rci_system \<Rightarrow> bool" where
  "between b tokens thl s s' \<longleftrightarrow>
     rci_inv b tokens thl s' \<and> rv_thread_status (rq_service s') = CCAPI_RCI_THREAD_IDLE
     \<and> rv_callbacks (rq_service s') = rv_callbacks (rq_service s) \<and> rv_desc (rq_service s') = rv_desc (rq_service s)
     \<and> ri_action (rv_info (rq_service s')) = ri_action (rv_info (rq_service s))
     \<and> length (ri_list (rv_info (rq_service s'))) = length (ri_list (rv_info (rq_service s)))"

lemma put_answer_simps [simp]:
  "ri_group (put_answer a info) = ri_group info" "ri_list (put_answer a info) = ri_list info"
  "ri_depth (put_answer a info) = ri_depth info" "ri_action (put_answer a info) = ri_action info"
  "entered b rc k (put_answer a info) = entered b rc k info"
  by (simp_all add: put_answer_def entered_def)

lemma element_cleared_simps [simp]:
  "ri_action (clear_element_info b info) = ri_action info" "ri_action (enter_group b f rc info) = ri_action info"
  "ri_depth (enter_group b f rc info) = 0"
  by (simp_all add: clear_element_info_def enter_group_def group_entered_def clear_all_list_info_def Let_def)

context os_locks
begin

text \<open>A request with a base callback that prepares the description by \<open>prepare\<close> and leaves it after.\<close>

lemma base_round:
  assumes inv: "rci_inv b tokens thl s" and idle: "rv_thread_status (rq_service s) = CCAPI_RCI_THREAD_IDLE"
    and ok: "rci_request_ok b r rc (rq_service s)"
    and queue: "rci_queue b r rc (rci_prepared b rc (rq_service s)) =
      with_base (Some f) prepare (rci_prepared b rc (rq_service s))"
    and r: "r \<in> {connector_request_id_remote_config_group_start, connector_request_id_remote_config_list_start}"
  shows "\<exists>s' info a. rci_round b bad_value os r rc s = Inr s' \<and> rci_inv b tokens thl s'
    \<and> rv_thread_status (rq_service s') = CCAPI_RCI_THREAD_IDLE
    \<and> rv_callbacks (rq_service s') = rv_callbacks (rq_service s) \<and> rv_desc (rq_service s') = rv_desc (rq_service s)
    \<and> prepare ((rv_info (rq_service s))\<lparr>ri_user_context := rc_user_context rc, ri_error_hint := rc_error_hint rc\<rparr>) = Inr info
    \<and> rv_info (rq_service s') = put_answer a info"
proof -
  have inside: "list_end_inside r rc (rq_service s)" using r by (auto simp: list_end_inside_def)
  obtain s' d2 e a rc1 rc2 where *: "rci_round b bad_value os r rc s = Inr s'" "rci_inv b tokens thl s'"
    "rv_thread_status (rq_service s') = CCAPI_RCI_THREAD_IDLE"
    "rv_callbacks (rq_service s') = rv_callbacks (rq_service s)" "rv_desc (rq_service s') = rv_desc (rq_service s)"
    "rci_queue b r rc (rci_prepared b rc (rq_service s)) = Inr d2"
    "rci_processed b r rc1 (if rv_type d2 = ccapi_callback_type_none then rv_info d2 else put_answer a (rv_info d2))
      = Inr (rc2, rv_info (rq_service s'))"
    using round_effect [OF inv idle ok inside, of bad_value] by (elim exE conjE) (rule that, assumption+)
  from *(6) obtain info where info: "prepare ((rv_info (rq_service s))\<lparr>ri_user_context := rc_user_context rc,
      ri_error_hint := rc_error_hint rc\<rparr>) = Inr info" "rv_type d2 = ccapi_callback_type_base" "rv_info d2 = info"
    unfolding queue by (auto simp: with_base_def queue_base_def)
  have "rv_info (rq_service s') = put_answer a info"
    using *(7) r info(2,3) by (auto simp: rci_processed_def Let_def split: if_splits)
  with * info(1) show ?thesis by (intro exI [of _ s'] exI [of _ info] exI [of _ a]) simp
qed

lemma group_round:
  assumes "rci_inv b tokens thl s" and "rv_thread_status (rq_service s) = CCAPI_RCI_THREAD_IDLE"
    and "cb_start_group (rv_callbacks (rq_service s)) \<noteq> None"
    and "rl_collection_type (rc_group rc) \<noteq> None" and "rc_group rg = rc_group rc"
  shows "\<exists>s'. rci_round b bad_value os connector_request_id_remote_config_group_start rg s = Inr s'
    \<and> between b tokens thl s s' \<and> entered b rc 0 (rv_info (rq_service s')) \<and> ri_depth (rv_info (rq_service s')) = 0"
proof -
  obtain f where f: "cb_start_group (rv_callbacks (rq_service s)) = Some f" using assms(3) by blast
  have "\<exists>s' info a. rci_round b bad_value os connector_request_id_remote_config_group_start rg s = Inr s'
    \<and> rci_inv b tokens thl s' \<and> rv_thread_status (rq_service s') = CCAPI_RCI_THREAD_IDLE
    \<and> rv_callbacks (rq_service s') = rv_callbacks (rq_service s) \<and> rv_desc (rq_service s') = rv_desc (rq_service s)
    \<and> (Inr (enter_group b (copy_type_item_name b) rg
        ((rv_info (rq_service s))\<lparr>ri_user_context := rc_user_context rg, ri_error_hint := rc_error_hint rg\<rparr>)) :: ccapi_rci_info_t ub) = Inr info
    \<and> rv_info (rq_service s') = put_answer a info"
    by (rule base_round [where f = f and prepare = "\<lambda>info. Inr (enter_group b (copy_type_item_name b) rg info)"])
      (simp_all add: assms f rci_request_ok_def rci_queue_def)
  then show ?thesis
    by (elim exE conjE) (auto simp: between_def enter_group_entered [OF assms(4,5)])
qed

lemma list_round:
  assumes "between b tokens thl s0 s" and "cb_start_list (rv_callbacks (rq_service s0)) \<noteq> None"
    and "rc_levels r = rc_levels rc" and "rc_depth r = of_nat (Suc k)" and "entered b rc k (rv_info (rq_service s))"
    and "k < length (ri_list (rv_info (rq_service s0)))" and "k < length (rc_levels rc)" and "k < 2 ^ 32 - 1"
    and "rl_collection_type (rc_levels rc ! k) \<noteq> None"
  shows "\<exists>s'. rci_round b bad_value os connector_request_id_remote_config_list_start r s = Inr s'
    \<and> between b tokens thl s0 s' \<and> entered b rc (Suc k) (rv_info (rq_service s'))
    \<and> ri_depth (rv_info (rq_service s')) = of_nat (Suc k)"
proof -
  let ?info = "(rv_info (rq_service s))\<lparr>ri_user_context := rc_user_context r, ri_error_hint := rc_error_hint r\<rparr>"
  obtain f where f: "cb_start_list (rv_callbacks (rq_service s0)) = Some f" using assms(2) by blast
  have s: "rci_inv b tokens thl s" "rv_thread_status (rq_service s) = CCAPI_RCI_THREAD_IDLE"
    "rv_callbacks (rq_service s) = rv_callbacks (rq_service s0)" "rv_desc (rq_service s) = rv_desc (rq_service s0)"
    "length (ri_list (rv_info (rq_service s))) = length (ri_list (rv_info (rq_service s0)))"
    using assms(1) by (simp_all add: between_def)
  have "unat (of_nat k :: u32) = k" using assms(8) by (simp add: unat_of_nat)
  moreover have "(of_nat (Suc k) :: u32) - 1 = of_nat k" by simp
  ultimately have index: "level_index r = k" using assms(4) by (simp only: level_index_def)
  have ok: "level_ok r ?info" "rci_request_ok b connector_request_id_remote_config_list_start r (rq_service s)"
    using assms(3,6,7) index s(5) by (simp_all add: level_ok_def rci_request_ok_def)
  have "\<exists>s' info a. rci_round b bad_value os connector_request_id_remote_config_list_start r s = Inr s'
    \<and> rci_inv b tokens thl s' \<and> rv_thread_status (rq_service s') = CCAPI_RCI_THREAD_IDLE
    \<and> rv_callbacks (rq_service s') = rv_callbacks (rq_service s) \<and> rv_desc (rq_service s') = rv_desc (rq_service s)
    \<and> enter_list b (copy_type_item_name b) r ?info = Inr info
    \<and> rv_info (rq_service s') = put_answer a info"
    by (rule base_round [where f = f]) (simp_all add: s f ok(2) rci_queue_def)
  then obtain s' info a where s': "rci_round b bad_value os connector_request_id_remote_config_list_start r s = Inr s'"
    "rci_inv b tokens thl s'" "rv_thread_status (rq_service s') = CCAPI_RCI_THREAD_IDLE"
    "rv_callbacks (rq_service s') = rv_callbacks (rq_service s)" "rv_desc (rq_service s') = rv_desc (rq_service s)"
    "enter_list b (copy_type_item_name b) r ?info = Inr info" "rv_info (rq_service s') = put_answer a info"
    by (elim exE conjE) (rule that, assumption+)
  have "entered b rc k ?info" "k < length (ri_list ?info)" using assms(5,6) s(5) by (simp_all add: entered_def)
  from enter_list_entered [OF this(1) assms(3,4) this(2) assms(8,9) s'(6)]
  have "entered b rc (Suc k) info" "ri_depth info = of_nat (Suc k)" by simp_all
  moreover have "length (ri_list info) = length (ri_list ?info)" "ri_action info = ri_action ?info"
    using s'(6) unfolding enter_list_ok [OF ok(1)] by auto
  ultimately show ?thesis
    using s' s assms(1) by (intro exI [of _ s']) (simp add: between_def)
qed

lemma list_rounds:
  assumes "between b tokens thl s0 s" and "cb_start_list (rv_callbacks (rq_service s0)) \<noteq> None"
    and "entered b rc k (rv_info (rq_service s))"
    and "\<forall>i<length rcs. rc_levels (rcs ! i) = rc_levels rc \<and> rc_depth (rcs ! i) = of_nat (Suc (k + i))"
    and "k + length rcs \<le> length (ri_list (rv_info (rq_service s0)))" and "k + length rcs \<le> length (rc_levels rc)"
    and "k + length rcs < 2 ^ 32" and "\<forall>l\<in>set (rc_levels rc). rl_collection_type l \<noteq> None"
  shows "\<exists>s'. rci_rounds b bad_value os (map (Pair connector_request_id_remote_config_list_start) rcs) s = Inr s'
    \<and> between b tokens thl s0 s' \<and> entered b rc (k + length rcs) (rv_info (rq_service s'))"
  using assms(1,3-7)
proof (induction rcs arbitrary: k s)
  case (Cons r rcs)
  have r: "rc_levels r = rc_levels rc" "rc_depth r = of_nat (Suc k)" using Cons.prems(3) by force+
  have typed: "rl_collection_type (rc_levels rc ! k) \<noteq> None" using assms(8) Cons.prems(5) by simp
  have "k < length (ri_list (rv_info (rq_service s0)))" "k < length (rc_levels rc)" "k < 2 ^ 32 - 1"
    using Cons.prems(4-6) by auto
  from list_round [OF Cons.prems(1) assms(2) r Cons.prems(2) this typed, of bad_value]
  obtain s1 where s1: "rci_round b bad_value os connector_request_id_remote_config_list_start r s = Inr s1"
    "between b tokens thl s0 s1" "entered b rc (Suc k) (rv_info (rq_service s1))"
    by (elim exE conjE) (rule that, assumption+)
  have rest: "\<forall>i<length rcs. rc_levels (rcs ! i) = rc_levels rc \<and> rc_depth (rcs ! i) = of_nat (Suc (Suc k + i))"
  proof (intro allI impI)
    fix i assume "i < length rcs"
    with Cons.prems(3) [rule_format, of "Suc i"]
    show "rc_levels (rcs ! i) = rc_levels rc \<and> rc_depth (rcs ! i) = of_nat (Suc (Suc k + i))" by simp
  qed
  have "\<exists>s'. rci_rounds b bad_value os (map (Pair connector_request_id_remote_config_list_start) rcs) s1 = Inr s'
    \<and> between b tokens thl s0 s' \<and> entered b rc (Suc k + length rcs) (rv_info (rq_service s'))"
    by (rule Cons.IH [OF s1(2,3) rest]) (use Cons.prems(4-6) in simp_all)
  then show ?case using s1(1) by simp
qed simp

end

definition element_placed :: "rci_build \<Rightarrow> connector_remote_config_t \<Rightarrow> ccapi_rci_info_t \<Rightarrow> ccapi_rci_info_t \<Rightarrow> bool" where
  "element_placed b rc info info' \<longleftrightarrow>
     ri_group info' = ri_group info \<and> ri_list info' = ri_list info \<and> ri_depth info' = rc_depth rc
     \<and> ri_element_id info' = rc_element_id rc
     \<and> (RCI_PARSER_USES_ELEMENT_NAMES b \<longrightarrow> ri_element_name info' = rc_element_name rc)"

lemma element_process_info:
  assumes "have_element_handler d" and "element_process b rc d = Inr d'"
  shows "rv_type d' \<noteq> ccapi_callback_type_none \<and> element_placed b rc (rv_info d) (rv_info d')"
proof (rule element_process_cases [OF assms])
  fix info d1
  assume info: "info = (if RCI_PARSER_USES_ELEMENT_NAMES b
       then (rv_info d)\<lparr>ri_depth := rc_depth rc, ri_element_id := rc_element_id rc, ri_element_name := rc_element_name rc\<rparr>
       else (rv_info d)\<lparr>ri_depth := rc_depth rc, ri_element_id := rc_element_id rc\<rparr>)"
    and d1: "queue_element rc (d\<lparr>rv_info := info\<rparr>) = Inr d1"
    and d': "d' = d1 \<or> (\<exists>t. d' = upd_info (\<lambda>info. info\<lparr>ri_element_type := t\<rparr>) d1)
       \<or> (\<exists>t names. d' = (upd_info (\<lambda>info. info\<lparr>ri_element_type := t\<rparr>) d1)\<lparr>rv_enum_data := names\<rparr>)"
  have "element_placed b rc (rv_info d) info" by (simp add: element_placed_def info)
  moreover have "rv_info d1 = info" "rv_type d1 \<noteq> ccapi_callback_type_none"
    using queue_element_type [OF d1] by (auto split: if_splits)
  ultimately show ?thesis using d' by (auto simp: element_placed_def)
qed

text \<open>
  C19. The description of an element says where it is: after a group and the lists around an
  element were entered, in requests that are answered one after the other, the queued callback of
  the element finds in \<open>rci_info\<close> the number, the collection type, the index or key and the name of
  the group, the collection type, the index or key and the name of every list, the depth, and the
  number and name of the element. The numbers of the lists it does not find: they are 0 whatever
  the connector says, for only the other fields of a list are copied.
\<close>
theorem element_callback_gets_its_position:
  assumes "os_locks os tokens" and "rci_inv b tokens thl s"
    and "rv_thread_status (rq_service s) = CCAPI_RCI_THREAD_IDLE"
    and "cb_start_group (rv_callbacks (rq_service s)) \<noteq> None" and "cb_start_list (rv_callbacks (rq_service s)) \<noteq> None"
    and "have_element_handler (rq_service s)"
    and "rci_request_ok b connector_request_id_remote_config_element_process rc (rq_service s)"
    and "rc_group rg = rc_group rc" and "rc_depth rc = of_nat (length rcs)" and "length rcs < 2 ^ 32"
    and "\<forall>i<length rcs. rc_levels (rcs ! i) = rc_levels rc \<and> rc_depth (rcs ! i) = of_nat (Suc i)"
    and "length rcs \<le> length (ri_list (rv_info (rq_service s)))" and "length rcs \<le> length (rc_levels rc)"
    and "\<forall>l\<in>set (rc_group rc # rc_levels rc). rl_collection_type l \<noteq> None"
  shows "\<exists>s1 s2 info. rci_rounds b bad_value os
      ((connector_request_id_remote_config_group_start, rg) # map (Pair connector_request_id_remote_config_list_start) rcs) s = Inr s1
    \<and> rci_exec b bad_value os (Rci_Request connector_request_id_remote_config_element_process rc) s1 = Inr s2
    \<and> rv_thread_status (rq_service s2) = CCAPI_RCI_THREAD_CB_QUEUED \<and> rv_info (rq_service s2) = info
    \<and> describes b (rl_id (rc_group rc)) (rc_group rc) (ri_group info)
    \<and> ri_depth info = rc_depth rc \<and> ri_element_id info = rc_element_id rc
    \<and> (RCI_PARSER_USES_ELEMENT_NAMES b \<longrightarrow> ri_element_name info = rc_element_name rc)
    \<and> (\<forall>i<length rcs. describes b 0 (rc_levels rc ! i) (ri_list info ! i))"
proof -
  have typed: "rl_collection_type (rc_group rc) \<noteq> None" using assms(14) by simp
  obtain s0 where s0: "rci_round b bad_value os connector_request_id_remote_config_group_start rg s = Inr s0"
    "between b tokens thl s s0" "entered b rc 0 (rv_info (rq_service s0))"
    using os_locks.group_round [OF assms(1-4) typed assms(8), of bad_value]
    by (elim exE conjE) (rule that, assumption+)
  have "\<exists>s1. rci_rounds b bad_value os (map (Pair connector_request_id_remote_config_list_start) rcs) s0 = Inr s1
    \<and> between b tokens thl s s1 \<and> entered b rc (0 + length rcs) (rv_info (rq_service s1))"
    by (rule os_locks.list_rounds [OF assms(1) s0(2) assms(5) s0(3)]) (use assms(10-14) in simp_all)
  then obtain s1 where s1: "rci_rounds b bad_value os (map (Pair connector_request_id_remote_config_list_start) rcs) s0 = Inr s1"
    "between b tokens thl s s1" "entered b rc (length rcs) (rv_info (rq_service s1))" by auto
  have at: "rci_inv b tokens thl s1" "rv_thread_status (rq_service s1) = CCAPI_RCI_THREAD_IDLE"
    "have_element_handler (rci_prepared b rc (rq_service s1))"
    "rci_request_ok b connector_request_id_remote_config_element_process rc (rq_service s1)"
    using s1(2) assms(6,7)
    by (simp_all add: between_def have_element_handler_def rci_request_ok_def enum_request_ok_def
        split: sum.splits option.splits)
  obtain s2 d2 where s2: "rci_exec b bad_value os (Rci_Request connector_request_id_remote_config_element_process rc) s1 = Inr s2"
    "rci_queue b connector_request_id_remote_config_element_process rc (rci_prepared b rc (rq_service s1)) = Inr d2"
    "rv_info (rq_service s2) = rv_info d2"
    "rv_thread_status (rq_service s2) =
        (if rv_type d2 = ccapi_callback_type_none then CCAPI_RCI_THREAD_CB_PROCESSED else CCAPI_RCI_THREAD_CB_QUEUED)"
    using os_locks.request_effect [OF assms(1) at(1,2,4), of bad_value] by (elim exE conjE) (rule that, assumption+)
  have "element_process b rc (rci_prepared b rc (rq_service s1)) = Inr d2" using s2(2) by (simp add: rci_queue_def)
  then have d2: "rv_type d2 \<noteq> ccapi_callback_type_none" "element_placed b rc (rv_info (rq_service s1)) (rv_info d2)"
    using element_process_info [OF at(3), of b rc d2] by (simp_all add: element_placed_def)
  have "entered b rc (length rcs) (rv_info d2)" using s1(3) d2(2) by (simp add: element_placed_def entered_def)
  then show ?thesis
    using s0(1) s1(1) s2 d2
    by (intro exI [of _ s1] exI [of _ s2] exI [of _ "rv_info d2"]) (auto simp: entered_def element_placed_def)
qed

text \<open>The element of the example: level 2 of 2.\<close>

lemma element_callback_gets_its_position_witness:
  "\<exists>s1 s2. rci_rounds example_build 0 (linux_os False)
       [(connector_request_id_remote_config_group_start, example_config 0),
        (connector_request_id_remote_config_list_start, example_config 1),
        (connector_request_id_remote_config_list_start, example_config 2)] (example_rci example_callbacks) = Inr s1
     \<and> rci_exec example_build 0 (linux_os False) (Rci_Request connector_request_id_remote_config_element_process (example_config 2)) s1
         = Inr s2
     \<and> lv_item (ri_list (rv_info (rq_service s2)) ! 1) = Item_Index 3 \<and> lv_id (ri_list (rv_info (rq_service s2)) ! 1) = 0"
proof -
  have "\<forall>i<length [example_config 1, example_config 2]. rc_levels ([example_config 1, example_config 2] ! i) = rc_levels (example_config 2)
      \<and> rc_depth ([example_config 1, example_config 2] ! i) = of_nat (Suc i)"
    by (auto simp: less_Suc_eq example_config_def)
  with element_callback_gets_its_position [OF lx.os_locks_axioms [of False] rci_started_inv [OF example_started],
      where b = example_build and rc = "example_config 2" and rg = "example_config 0"
        and rcs = "[example_config 1, example_config 2]" and bad_value = 0]
  show ?thesis
    by (auto simp: example_rci_defs have_element_handler_def rci_request_ok_def enum_request_ok_def describes_def
        position_item_def All_less_Suc)
qed

end
