(* ===== verification/RciErrors.thy ===== *)
theory RciErrors
  imports RciClaims
begin

text \<open>
  What the remote configuration does outside its contract: a session that is cancelled while its
  callback is queued or runs, a set of callbacks with a hole; and the enumerations that are kept
  as strings.
\<close>

subsection \<open>A session that is cancelled\<close>

text \<open>Nothing but a cancellation moves a service whose thread has ended and that has a callback queued.\<close>

definition answered_busy_for_ever ::
  "rci_build \<Rightarrow> u32 \<Rightarrow> 'w os \<Rightarrow> (nat \<Rightarrow> 'w \<Rightarrow> nat option) \<Rightarrow> 'w rci_system \<Rightarrow> bool" where
  "answered_busy_for_ever b bad_value os tokens s \<longleftrightarrow>
     rv_thread_status (rq_service s) = CCAPI_RCI_THREAD_CB_QUEUED \<and> rci_exec b bad_value os Rci_Again s = Inr s
     \<and> \<not> rci_allowed b tokens Rci_Wake s \<and> \<not> rci_allowed b tokens Rci_Finish s"

lemma exited_queued_is_stuck:
  assumes "rq_phase s = Rci_Exited" and "rv_thread_status (rq_service s) = CCAPI_RCI_THREAD_CB_QUEUED"
    and "rq_request s \<noteq> connector_request_id_remote_config_session_cancel"
  shows "answered_busy_for_ever b bad_value os tokens s"
  using assms by (simp add: answered_busy_for_ever_def rci_exec_def ccapi_rci_handler_def rci_allowed_def Let_def)

lemma session_start_queues:
  assumes "rv_thread_status (rq_service s) = CCAPI_RCI_THREAD_IDLE" and "cb_start_session (rv_callbacks (rq_service s)) = Some f"
  shows "\<exists>s'. rci_exec b bad_value os (Rci_Request connector_request_id_remote_config_session_start rc) s = Inr s'
    \<and> rv_thread_status (rq_service s') = CCAPI_RCI_THREAD_CB_QUEUED \<and> rq_phase s' = rq_phase s
    \<and> rq_request s' = connector_request_id_remote_config_session_start
    \<and> rv_run_status (rq_service s') = rv_run_status (rq_service s) \<and> rv_run_lock (rq_service s') = rv_run_lock (rq_service s)
    \<and> rq_world s' = snd (ccapi_lock_release os (rv_run_lock (rq_service s)) (rq_world s))
    \<and> rq_log s' = Rci_Asked True # rq_log s"
  using assms by (simp add: rci_exec_def ccapi_rci_handler_def rci_queue_def with_base_def queue_base_def Let_def)

text \<open>
  C21. A session that is cancelled while its callback is queued ends the remote configuration: the
  cancellation makes the service idle, the thread, which wakes to find no callback queued, ends,
  and the callback of the next session is queued for a thread that is no more, so that its
  requests are answered busy as often as the connector repeats them.
\<close>
theorem cancel_while_queued_ends_rci_thread:
  assumes "os_locks os tokens" and "rci_inv b tokens thl s"
    and "rv_thread_status (rq_service s) = CCAPI_RCI_THREAD_CB_QUEUED" and "rq_phase s = Rci_Waiting"
    and "cb_start_session (rv_callbacks (rq_service s)) \<noteq> None"
  shows "\<exists>s1 s2 s3. rci_exec b bad_value os Rci_Cancel s = Inr s1
    \<and> rci_allowed b tokens Rci_Wake s1 \<and> rci_exec b bad_value os Rci_Wake s1 = Inr s2 \<and> rq_phase s2 = Rci_Exited
    \<and> rv_run_status (rq_service s2) = CCAPI_THREAD_NOT_STARTED
    \<and> rci_exec b bad_value os (Rci_Request connector_request_id_remote_config_session_start rc) s2 = Inr s3
    \<and> answered_busy_for_ever b bad_value os tokens s3"
proof -
  have thread: "rv_run_lock (rq_service s) = Some thl" "tokens thl (rq_world s) = Some 1"
    "rv_run_status (rq_service s) = CCAPI_THREAD_RUNNING"
    using assms(2-4) by (simp_all add: rci_inv_defs Let_def)
  obtain s1 where s1: "rci_exec b bad_value os Rci_Cancel s = Inr s1" "rq_phase s1 = Rci_Waiting"
    "rv_thread_status (rq_service s1) = CCAPI_RCI_THREAD_IDLE" "rv_run_lock (rq_service s1) = Some thl"
    "rv_run_status (rq_service s1) = CCAPI_THREAD_RUNNING" "rq_world s1 = rq_world s"
    "rv_callbacks (rq_service s1) = rv_callbacks (rq_service s)"
    using assms(4) thread by (simp add: rci_exec_def ccapi_rci_handler_def Let_def)
  then have wake: "rci_allowed b tokens Rci_Wake s1" using thread(2) by (simp add: rci_allowed_def)
  obtain s2 where s2: "rci_exec b bad_value os Rci_Wake s1 = Inr s2" "rq_phase s2 = Rci_Exited"
    "rv_run_status (rq_service s2) = CCAPI_THREAD_NOT_STARTED" "rv_thread_status (rq_service s2) = CCAPI_RCI_THREAD_IDLE"
    "rv_callbacks (rq_service s2) = rv_callbacks (rq_service s)"
    using s1 by (simp add: rci_exec_def rci_thread_wake_def Let_def)
  obtain f where "cb_start_session (rv_callbacks (rq_service s2)) = Some f" using assms(5) s2(5) by auto
  from session_start_queues [OF s2(4) this, of b bad_value os rc] obtain s3 where
    s3: "rci_exec b bad_value os (Rci_Request connector_request_id_remote_config_session_start rc) s2 = Inr s3"
    "rv_thread_status (rq_service s3) = CCAPI_RCI_THREAD_CB_QUEUED" "rq_phase s3 = Rci_Exited"
    "rq_request s3 = connector_request_id_remote_config_session_start"
    using s2(2) by auto
  have "answered_busy_for_ever b bad_value os tokens s3" using s3(2-4) by (simp add: exited_queued_is_stuck)
  then show ?thesis using s1(1) wake s2(1-3) s3(1) by blast
qed

lemma example_queued:
  "\<exists>s. rci_exec example_build 0 (linux_os False) (Rci_Request connector_request_id_remote_config_reboot (example_config 0))
       (example_rci example_callbacks) = Inr s
     \<and> rci_inv example_build linux_tokens 3 s \<and> rv_thread_status (rq_service s) = CCAPI_RCI_THREAD_CB_QUEUED
     \<and> rq_phase s = Rci_Waiting \<and> rv_callbacks (rq_service s) = example_callbacks"
proof -
  have ok: "rci_request_ok example_build connector_request_id_remote_config_reboot (example_config 0)
      (rq_service (example_rci example_callbacks))"
    "rv_thread_status (rq_service (example_rci example_callbacks)) = CCAPI_RCI_THREAD_IDLE"
    "rv_callbacks (rq_service (example_rci example_callbacks)) = example_callbacks"
    "cb_reboot (example_callbacks :: linux rci_callbacks) = Some refuse_base"
    by (simp_all add: rci_request_ok_def example_rci_def example_service_def example_callbacks_def)
  from os_locks.request_effect [OF lx.os_locks_axioms [of False] rci_started_inv [OF example_started] ok(2,1),
      where bad_value = 0] ok(3,4)
  show ?thesis by (elim exE conjE) (auto simp: rci_queue_def with_base_def queue_base_def)
qed

lemma cancel_while_queued_ends_rci_thread_witness:
  "\<exists>s s1 s2 s3. rci_exec example_build 0 (linux_os False)
        (Rci_Request connector_request_id_remote_config_reboot (example_config 0)) (example_rci example_callbacks) = Inr s
     \<and> rci_exec example_build 0 (linux_os False) Rci_Cancel s = Inr s1
     \<and> rci_exec example_build 0 (linux_os False) Rci_Wake s1 = Inr s2
     \<and> rci_exec example_build 0 (linux_os False)
         (Rci_Request connector_request_id_remote_config_session_start (example_config 0)) s2 = Inr s3
     \<and> answered_busy_for_ever example_build 0 (linux_os False) linux_tokens s3"
proof -
  obtain s where s: "rci_exec example_build 0 (linux_os False)
        (Rci_Request connector_request_id_remote_config_reboot (example_config 0)) (example_rci example_callbacks) = Inr s"
    "rci_inv example_build linux_tokens 3 s" "rv_thread_status (rq_service s) = CCAPI_RCI_THREAD_CB_QUEUED"
    "rq_phase s = Rci_Waiting" "cb_start_session (rv_callbacks (rq_service s)) \<noteq> None"
    using example_queued by (auto simp: example_callbacks_def)
  from cancel_while_queued_ends_rci_thread [OF lx.os_locks_axioms [of False] s(2-5), where bad_value = 0 and rc = "example_config 0"] s(1)
  show ?thesis by blast
qed

subsection \<open>Sets of callbacks with a hole\<close>

text \<open>
  Without callbacks of lists the end of a list leaves the bounds: the depth of the description
  is kept by the callbacks that start a list and process an element only, so that in a group that
  was entered it is still 0 when the connector ends the list it started, and the level
  \<open>depth - 1\<close> that is then cleared is number 4294967295.
\<close>
theorem list_end_without_list_callbacks_out_of_bounds:
  assumes "os_locks os tokens" and "rci_inv b tokens thl s"
    and "rv_thread_status (rq_service s) = CCAPI_RCI_THREAD_IDLE"
    and "cb_start_group (rv_callbacks (rq_service s)) \<noteq> None" and "cb_start_list (rv_callbacks (rq_service s)) = None"
    and "cb_end_list (rv_callbacks (rq_service s)) = None" and "length (ri_list (rv_info (rq_service s))) < 2 ^ 32"
    and "level_ok rc (rv_info (rq_service s))" and "rl_collection_type (rc_group rc) \<noteq> None"
  shows "\<exists>s'. rci_rounds b bad_value os
      [(connector_request_id_remote_config_group_start, rc), (connector_request_id_remote_config_list_start, rc)] s = Inr s'
    \<and> rci_round b bad_value os connector_request_id_remote_config_list_end rc s' = Inl Out_Of_Bounds"
proof -
  obtain s1 where s1: "rci_round b bad_value os connector_request_id_remote_config_group_start rc s = Inr s1"
    "between b tokens thl s s1" "ri_depth (rv_info (rq_service s1)) = 0"
    using os_locks.group_round [OF assms(1-4,9) refl, of bad_value] by (elim exE conjE) (rule that, assumption+)
  have at: "rci_inv b tokens thl s1" "rv_thread_status (rq_service s1) = CCAPI_RCI_THREAD_IDLE"
    "cb_start_list (rv_callbacks (rq_service s1)) = None" "cb_end_list (rv_callbacks (rq_service s1)) = None"
    "rci_request_ok b connector_request_id_remote_config_list_start rc (rq_service s1)"
    "length (ri_list (rv_info (rq_service s1))) < 2 ^ 32"
    using s1(2) assms(5-8) by (simp_all add: between_def rci_request_ok_def level_ok_def)
  obtain s2 d2 a rc1 rc2 where s2: "rci_round b bad_value os connector_request_id_remote_config_list_start rc s1 = Inr s2"
    "rv_thread_status (rq_service s2) = CCAPI_RCI_THREAD_IDLE"
    "rv_callbacks (rq_service s2) = rv_callbacks (rq_service s1)"
    "rci_queue b connector_request_id_remote_config_list_start rc (rci_prepared b rc (rq_service s1)) = Inr d2"
    "rci_processed b connector_request_id_remote_config_list_start rc1
       (if rv_type d2 = ccapi_callback_type_none then rv_info d2 else put_answer a (rv_info d2)) =
     Inr (rc2, rv_info (rq_service s2))"
    using os_locks.round_effect [OF assms(1) at(1,2,5), of bad_value]
    by (auto simp: list_end_inside_def)
  have "d2 = rci_prepared b rc (rq_service s1)" using s2(4) at(3) by (simp add: rci_queue_def with_base_def)
  then have "rv_info (rq_service s2) =
      (rv_info (rq_service s1))\<lparr>ri_user_context := rc_user_context rc, ri_error_hint := rc_error_hint rc\<rparr>"
    using s2(5) by (auto simp: rci_processed_def Let_def split: if_splits)
  then have info: "ri_depth (rv_info (rq_service s2)) = 0" "length (ri_list (rv_info (rq_service s2))) < 2 ^ 32"
    using s1(3) at(6) by simp_all
  have "unat (- 1 :: u32) = 2 ^ 32 - 1" by (simp add: unsigned_minus_1_eq_mask mask_eq_exp_minus_1)
  then have "rci_round b bad_value os connector_request_id_remote_config_list_end rc s2 = Inl Out_Of_Bounds"
    using s2(2,3) at(4) info
    by (simp add: rci_round_def rci_exec_def ccapi_rci_handler_def rci_queue_def with_base_def rci_processed_def put_level_def Let_def)
  then show ?thesis using s1(1) s2(1) by simp
qed

text \<open>
  \<open>HAVE_HANDLER\<close> asks for \<open>set_element\<close> also where \<open>set_and_transform_element\<close> is called: if
  the user gives the first only and the connector embeds the transformed values, a request that
  sets an element queues no function at all, and the assertion that finds it ends the thread.
\<close>
theorem missing_transform_callback_ends_rci_thread:
  assumes "os_locks os tokens" and "rv_run_lock (rq_service s) = Some thl" and "tokens thl (rq_world s) = Some 0"
    and "rv_run_status (rq_service s) = CCAPI_THREAD_RUNNING" and "rq_phase s = Rci_Waiting"
    and "rv_thread_status (rq_service s) = CCAPI_RCI_THREAD_IDLE"
    and "cb_set_element (rv_callbacks (rq_service s)) \<noteq> None"
    and "cb_set_and_transform_element (rv_callbacks (rq_service s)) = None"
    and "ri_action (rv_info (rq_service s)) = Some CCAPI_RCI_ACTION_SET"
    and "ri_embed_transformed_values (rv_info (rq_service s))"
    and "rci_request_ok b connector_request_id_remote_config_element_process rc (rq_service s)"
  shows "\<exists>s1 s2. rci_exec b bad_value os (Rci_Request connector_request_id_remote_config_element_process rc) s = Inr s1
    \<and> rci_allowed b tokens Rci_Wake s1 \<and> rci_exec b bad_value os Rci_Wake s1 = Inr s2
    \<and> rq_phase s2 = Rci_Exited \<and> answered_busy_for_ever b bad_value os tokens s2"
proof -
  let ?d = "rci_prepared b rc (rq_service s)"
  obtain w1 where w1: "ccapi_lock_release os (Some thl) (rq_world s) = (CCIMP_STATUS_OK, w1)" "tokens thl w1 = Some (Suc 0)"
    using os_locks.lock_released [OF assms(1,3)] by metis
  have "\<exists>d2. element_process b rc ?d = Inr d2 \<and> rv_type d2 = ccapi_callback_type_transform \<and> rv_transform d2 = None
      \<and> rv_run_lock d2 = Some thl \<and> rv_run_status d2 = CCAPI_THREAD_RUNNING"
    using assms(2,4,7-11)
    by (cases "get_ccfsm_element_enum_element (rv_desc (rq_service s)) rc"; cases "ccapi_element_type (rc_element_type rc)")
      (auto simp: element_process_def have_element_handler_def queue_element_def Let_def rci_prepared_def
        rci_request_ok_def enum_request_ok_def queue_enum_callback_def)
  then obtain d2 where d2: "element_process b rc ?d = Inr d2" "rv_type d2 = ccapi_callback_type_transform"
    "rv_transform d2 = None" "rv_run_lock d2 = Some thl" "rv_run_status d2 = CCAPI_THREAD_RUNNING" by blast
  obtain s1 where s1: "rci_exec b bad_value os (Rci_Request connector_request_id_remote_config_element_process rc) s = Inr s1"
    "rq_service s1 = d2\<lparr>rv_thread_status := CCAPI_RCI_THREAD_CB_QUEUED\<rparr>" "rq_world s1 = w1" "rq_phase s1 = Rci_Waiting"
    "rq_request s1 = connector_request_id_remote_config_element_process"
    using assms(5,6) d2 w1(1)
    by (simp add: rci_exec_def ccapi_rci_handler_def rci_queue_def Let_def rci_prepared_def [symmetric])
  obtain s2 where s2: "rci_exec b bad_value os Rci_Wake s1 = Inr s2" "rq_phase s2 = Rci_Exited"
    "rv_thread_status (rq_service s2) = CCAPI_RCI_THREAD_CB_QUEUED"
    "rq_request s2 = connector_request_id_remote_config_element_process"
    using s1 d2 by (simp add: rci_exec_def rci_thread_wake_def rci_call_queued_def call_transform_def Let_def)
  have "rci_allowed b tokens Rci_Wake s1" using s1 d2(4) w1(2) by (simp add: rci_allowed_def)
  moreover have "answered_busy_for_ever b bad_value os tokens s2" using s2 by (simp add: exited_queued_is_stuck)
  ultimately show ?thesis using s1(1) s2(1,2) by blast
qed

lemma list_end_without_list_callbacks_out_of_bounds_witness:
  "\<exists>s'. rci_rounds example_build 0 (linux_os False)
       [(connector_request_id_remote_config_group_start, example_config 1),
        (connector_request_id_remote_config_list_start, example_config 1)]
       (example_rci (example_callbacks\<lparr>cb_start_list := None, cb_end_list := None\<rparr>)) = Inr s'
     \<and> rci_round example_build 0 (linux_os False) connector_request_id_remote_config_list_end (example_config 1) s'
         = Inl Out_Of_Bounds"
proof -
  let ?s = "example_rci (example_callbacks\<lparr>cb_start_list := None, cb_end_list := None\<rparr>)"
  have "rci_started linux_tokens 3 ?s"
    by (auto simp: rci_started_def callbacks_ok_def base_callbacks_def example_rci_defs linux_tokens_def
        accept_base_def accept_value_def accept_transform_def refuse_base_def)
  note started = rci_started_inv [OF this, of example_build]
  show ?thesis
    by (rule list_end_without_list_callbacks_out_of_bounds [OF lx.os_locks_axioms [of False] started])
      (simp_all add: example_rci_defs level_ok_def level_index_def)
qed

subsection \<open>Enumerations kept as strings\<close>

lemma string_to_enum_from_nth:
  "distinct names \<Longrightarrow> n < length names \<Longrightarrow> string_to_enum_from i names (names ! n) = int (i + n)"
proof (induction names arbitrary: i n)
  case (Cons x names)
  show ?case
  proof (cases n)
    case (Suc m)
    then have "x \<noteq> names ! m" using Cons.prems by auto
    then show ?thesis using Suc Cons.IH [of m "Suc i"] Cons.prems by simp
  qed simp
qed simp

text \<open>
  C20. An enumeration is a number to the connector and a name to the user, and the way there leads
  back: setting the number \<open>n\<close> hands its name to \<open>set_element\<close>, whose answer is passed on, and a
  \<open>get_element\<close> that then returns this name makes the connector read \<open>n\<close> again, without error.
\<close>
theorem enum_values_roundtrip:
  assumes "RCI_ENUMS_AS_STRINGS b" and "distinct names" and "n < length names" and "length names < 2 ^ 31"
    and "rv_enum_data d = Some names" and "rv_element d = Some set_element" and "ri_action (rv_info d) = Some CCAPI_RCI_ACTION_SET"
    and "rv_pointer d = Element_Value" and "rc_element_value rc = Some (Value_Enum (of_nat n))"
    and "rv_enum_data d' = Some names" and "rv_element d' = Some get_element"
    and "ri_action (rv_info d') = Some CCAPI_RCI_ACTION_QUERY"
    and "rv_pointer d' = Response_Value" and "rc_response_value rc' = Some v"
    and "set_element (rv_info d) (Value_String (Some (names ! n))) w = (e, a, x, w1)"
    and "get_element (rv_info d') (Value_String None) w1 = (0, a', Value_String (Some (names ! n)), w2)"
  shows "call_element b bad_value rc d w = Inr (Some (e, a, [], w1))
    \<and> call_element b bad_value rc' d' w1 = Inr (Some (0, a', [Write_Value Response_Value (Value_Enum (of_nat n))], w2))
    \<and> rc_response_value (apply_write (Write_Value Response_Value (Value_Enum (of_nat n))) rc') = rc_element_value rc"
proof -
  have n: "unat (of_nat n :: u32) = n" using assms(3,4) by (simp add: unat_of_nat)
  have "enum_to_string names (of_nat n) = Inr (names ! n)" using assms(3) by (simp add: enum_to_string_def n)
  moreover have "string_to_enum names (Some (names ! n)) = Inr (int n)"
    using string_to_enum_from_nth [OF assms(2,3), of 0] by (simp add: string_to_enum_def)
  ultimately show ?thesis
    using assms(1,5-16)
    by (simp add: call_element_def enum_names_def pointed_value_def enum_value_def string_value_def)
qed

lemma enum_values_roundtrip_witness:
  "call_element (example_build\<lparr>RCI_ENUMS_AS_STRINGS := True\<rparr>) 7
     ((example_config 0)\<lparr>rc_element_value := Some (Value_Enum (of_nat 1))\<rparr>)
     ((example_service example_callbacks)\<lparr>rv_enum_data := Some [''off'', ''on''],
        rv_element := Some (\<lambda>info v w. (3, answer_of info, v, w)), rv_pointer := Element_Value\<rparr>) ()
   = Inr (Some (3, answer_of example_info, [], ()))"
  by (rule conjunct1 [OF enum_values_roundtrip [where n = 1 and names = "[''off'', ''on'']" and v = "Value_Other 0"
      and d' = "upd_info (\<lambda>info. info\<lparr>ri_action := Some CCAPI_RCI_ACTION_QUERY\<rparr>)
        ((example_service example_callbacks)\<lparr>rv_enum_data := Some [''off'', ''on''],
           rv_element := Some (\<lambda>info v w. (0, answer_of info, Value_String (Some ''on''), w)), rv_pointer := Response_Value\<rparr>)"
      and rc' = "example_config 0"]]) (simp_all add: example_service_def example_build_def example_config_def example_info_def)

end
