(* ===== verification/Ping.thy ===== *)
theory Ping
  imports LinuxOs
begin

text \<open>
  Pings, source/ccapi_send_ping.c, with the response of the cloud that
  \<open>ccapi_process_ping_response\<close> of source/ccapi_sm_handler.c stores: the caller allocates a ping,
  gives it to the connector and waits for its lock, which the response releases.

  Pings are heap objects whose addresses the connector keeps as its \<open>user_context\<close>. The block of
  a new one is not cleared: \<open>None\<close> is a field that is not written.
\<close>

subsection \<open>State\<close>

datatype ccapi_ping_error_t =
    CCAPI_PING_ERROR_NONE
  | CCAPI_PING_ERROR_CCAPI_NOT_RUNNING
  | CCAPI_PING_ERROR_TRANSPORT_NOT_VALID
  | CCAPI_PING_ERROR_TRANSPORT_NOT_STARTED
  | CCAPI_PING_ERROR_INSUFFICIENT_MEMORY
  | CCAPI_PING_ERROR_LOCK_FAILED
  | CCAPI_PING_ERROR_INITIATE_ACTION_FAILED
  | CCAPI_PING_ERROR_RESPONSE_CANCEL
  | CCAPI_PING_ERROR_RESPONSE_TIMEOUT
  | CCAPI_PING_ERROR_RESPONSE_ERROR

record ccapi_svc_ping_t =
  pi_ping_lock :: "ptr option"
  pi_response_error :: "ccapi_ping_error_t option"

record connector_sm_send_ping_request_t =
  ph_transport :: "connector_transport_t option"
  ph_response_required :: "bool option"
  ph_timeout_in_seconds :: "u64 option"
  ph_user_context :: ptr

record ccapi_ping_t =
  pi_header :: connector_sm_send_ping_request_t
  pi_svc_ping :: ccapi_svc_ping_t

record ping_state =
  pd_run_status :: ccapi_thread_status_t
  pd_udp_started :: bool
  pd_sms_started :: bool
  pd_initiate_lock :: ptr
  pd_run_lock :: ptr
  pd_pings :: "nat \<rightharpoonup> ccapi_ping_t"
  pd_fresh :: nat

definition get_ping :: "ping_state \<Rightarrow> nat \<Rightarrow> ccapi_ping_t ub" where
  "get_ping d a = (case pd_pings d a of None \<Rightarrow> Inl Use_After_Free | Some p \<Rightarrow> Inr p)"

definition put_ping :: "nat \<Rightarrow> ccapi_ping_t \<Rightarrow> ping_state \<Rightarrow> ping_state" where
  "put_ping a p d = d\<lparr>pd_pings := (pd_pings d)(a \<mapsto> p)\<rparr>"

subsection \<open>The response\<close>

datatype connector_sm_ping_status_t =
    connector_sm_ping_status_success
  | connector_sm_ping_status_complete
  | connector_sm_ping_status_cancel
  | connector_sm_ping_status_timeout
  | connector_sm_ping_status_error

record connector_sm_ping_response_t =
  pr_user_context :: ptr
  pr_status :: connector_sm_ping_status_t

definition ping_response_error :: "connector_sm_ping_status_t \<Rightarrow> ccapi_ping_error_t" where
  "ping_response_error st =
     (case st of
        connector_sm_ping_status_success \<Rightarrow> CCAPI_PING_ERROR_NONE
      | connector_sm_ping_status_complete \<Rightarrow> CCAPI_PING_ERROR_NONE
      | connector_sm_ping_status_cancel \<Rightarrow> CCAPI_PING_ERROR_RESPONSE_CANCEL
      | connector_sm_ping_status_timeout \<Rightarrow> CCAPI_PING_ERROR_RESPONSE_TIMEOUT
      | connector_sm_ping_status_error \<Rightarrow> CCAPI_PING_ERROR_RESPONSE_ERROR)"

definition ccapi_process_ping_response ::
  "'w os \<Rightarrow> connector_sm_ping_response_t \<Rightarrow> ping_state \<Rightarrow> 'w \<Rightarrow> (connector_callback_status_t \<times> ping_state \<times> 'w) ub" where
  "ccapi_process_ping_response os response_ptr d w =
     (case pr_user_context response_ptr of
        None \<Rightarrow> Inr (connector_callback_error, d, w)
      | Some a \<Rightarrow>
          ub_bind (get_ping d a) (\<lambda>p.
            let svc = (pi_svc_ping p)\<lparr>pi_response_error := Some (ping_response_error (pr_status response_ptr))\<rparr>;
                d1 = put_ping a (p\<lparr>pi_svc_ping := svc\<rparr>) d
            in ub_bind (read_field (pi_ping_lock svc)) (\<lambda>ping_lock.
                 if ping_lock = None then Inr (connector_callback_error, d1, w)
                 else
                   (case ccapi_lock_release os ping_lock w of
                      (CCIMP_STATUS_OK, w1) \<Rightarrow> Inr (connector_callback_continue, d1, w1)
                    | (CCIMP_STATUS_BUSY, w1) \<Rightarrow> Inr (connector_callback_error, d1, w1)
                    | (CCIMP_STATUS_ERROR, w1) \<Rightarrow> Inr (connector_callback_error, d1, w1)))))"

text \<open>The responses of the connector while the caller waits.\<close>

primrec serve_ping_responses ::
  "'w os \<Rightarrow> connector_sm_ping_response_t list \<Rightarrow> ping_state \<Rightarrow> 'w \<Rightarrow> (ping_state \<times> 'w) ub" where
  "serve_ping_responses os [] d w = Inr (d, w)"
| "serve_ping_responses os (r # rs) d w =
     ub_bind (ccapi_process_ping_response os r d w) (\<lambda>(status, d1, w1). serve_ping_responses os rs d1 w1)"

subsection \<open>The functions\<close>

definition CCAPI_SEND_PING_WAIT_FOREVER :: u64 where "CCAPI_SEND_PING_WAIT_FOREVER = 0"

definition checkargs_send_ping :: "ping_state option \<Rightarrow> ccapi_transport_t \<Rightarrow> ccapi_ping_error_t" where
  "checkargs_send_ping ccapi_data transport =
     (case ccapi_data of
        None \<Rightarrow> CCAPI_PING_ERROR_CCAPI_NOT_RUNNING
      | Some d \<Rightarrow>
          (if pd_run_status d \<noteq> CCAPI_THREAD_RUNNING then CCAPI_PING_ERROR_CCAPI_NOT_RUNNING
           else
             (case (case transport of
                      CCAPI_TRANSPORT_TCP \<Rightarrow> None
                    | CCAPI_TRANSPORT_UDP \<Rightarrow> Some (pd_udp_started d)
                    | CCAPI_TRANSPORT_SMS \<Rightarrow> Some (pd_sms_started d)) of
                None \<Rightarrow> CCAPI_PING_ERROR_TRANSPORT_NOT_VALID
              | Some False \<Rightarrow> CCAPI_PING_ERROR_TRANSPORT_NOT_STARTED
              | Some True \<Rightarrow> CCAPI_PING_ERROR_NONE)))"

definition new_ping :: ccapi_ping_t where
  "new_ping =
     \<lparr>pi_header = \<lparr>ph_transport = None, ph_response_required = None, ph_timeout_in_seconds = None, ph_user_context = None\<rparr>,
      pi_svc_ping = \<lparr>pi_ping_lock = None, pi_response_error = None\<rparr>\<rparr>"

definition Ping_valid_malloc :: "'w os \<Rightarrow> ping_state \<Rightarrow> 'w \<Rightarrow> (nat \<times> ping_state) option \<times> 'w" where
  "Ping_valid_malloc os d w =
     (case ccapi_malloc os (Sizeof ''ccapi_ping_t'') w of
        (False, w1) \<Rightarrow> (None, w1)
      | (True, w1) \<Rightarrow> (Some (pd_fresh d, put_ping (pd_fresh d) new_ping (d\<lparr>pd_fresh := Suc (pd_fresh d)\<rparr>)), w1))"

definition setup_send_ping ::
  "'w os \<Rightarrow> nat \<Rightarrow> ccapi_transport_t \<Rightarrow> ping_state \<Rightarrow> 'w \<Rightarrow> (ccapi_ping_error_t \<times> ping_state \<times> 'w) ub" where
  "setup_send_ping os a transport d w =
     (case os_lock_create os w of
        ((status, lock), w1) \<Rightarrow>
          (if status \<noteq> CCIMP_STATUS_OK then Inr (CCAPI_PING_ERROR_LOCK_FAILED, d, w1)
           else
             ub_bind (get_ping d a) (\<lambda>p.
               Inr (CCAPI_PING_ERROR_NONE,
                    put_ping a
                      (p\<lparr>pi_header := (pi_header p)\<lparr>ph_transport := Some (ccapi_to_connector_transport transport),
                                                  ph_user_context := Some a\<rparr>,
                         pi_svc_ping := \<lparr>pi_ping_lock = Some lock, pi_response_error = Some CCAPI_PING_ERROR_NONE\<rparr>\<rparr>) d,
                    w1))))"

definition ccapi_send_ping_lock_acquire ::
  "'w os \<Rightarrow> ccapi_svc_ping_t \<Rightarrow> u64 \<Rightarrow> 'w \<Rightarrow> (ccimp_status_t \<times> 'w) ub" where
  "ccapi_send_ping_lock_acquire os svc timeout_ms w =
     ub_bind (read_field (pi_ping_lock svc)) (\<lambda>ping_lock.
       case ping_lock of
         None \<Rightarrow> Inr (CCIMP_STATUS_ERROR, w)
       | Some l \<Rightarrow>
           (case os_lock_acquire os l timeout_ms w of
              ((status, acquired), w1) \<Rightarrow>
                Inr (if status = CCIMP_STATUS_OK \<and> \<not> acquired then CCIMP_STATUS_ERROR else status, w1)))"

definition perform_send_ping ::
  "'w os \<Rightarrow> (connector_sm_send_ping_request_t \<Rightarrow> 'w \<Rightarrow> connector_status_t \<times> 'w) \<Rightarrow> connector_sm_ping_response_t list
     \<Rightarrow> nat \<Rightarrow> ping_state \<Rightarrow> 'w \<Rightarrow> (ccapi_ping_error_t \<times> ping_state \<times> 'w) run" where
  "perform_send_ping os initiate responses a d w =
     run_bind (Some (get_ping d a)) (\<lambda>p.
       case initiate_until_not_busy os initiate (pd_initiate_lock d) (pd_run_lock d) (pi_header p) w of
         None \<Rightarrow> None
       | Some (ccfsm_status, w1) \<Rightarrow>
           (if ccfsm_status \<noteq> connector_success then Some (Inr (CCAPI_PING_ERROR_INITIATE_ACTION_FAILED, d, w1))
            else
              run_bind (Some (serve_ping_responses os responses d w1)) (\<lambda>(d2, w2).
                run_bind (Some (get_ping d2 a)) (\<lambda>p2.
                  run_bind (Some (ccapi_send_ping_lock_acquire os (pi_svc_ping p2) OS_LOCK_ACQUIRE_INFINITE w2)) (\<lambda>(result, w3).
                    Some (Inr (if result \<noteq> CCIMP_STATUS_OK then CCAPI_PING_ERROR_LOCK_FAILED
                               else CCAPI_PING_ERROR_NONE, d2, w3)))))))"

definition finish_send_ping :: "'w os \<Rightarrow> nat option \<Rightarrow> ping_state \<Rightarrow> 'w \<Rightarrow> (ping_state \<times> 'w) ub" where
  "finish_send_ping os ping_info d w =
     (case ping_info of
        None \<Rightarrow> Inr (d, w)
      | Some a \<Rightarrow>
          ub_bind (get_ping d a) (\<lambda>p.
            ub_bind (read_field (pi_ping_lock (pi_svc_ping p))) (\<lambda>ping_lock.
              let w1 = (if ping_lock \<noteq> None then snd (ccapi_lock_destroy os ping_lock w) else w)
              in Inr (d\<lparr>pd_pings := (pd_pings d)(a := None)\<rparr>, snd (ccapi_free os True w1)))))"

definition set_ping_header :: "nat \<Rightarrow> bool \<Rightarrow> u64 \<Rightarrow> ping_state \<Rightarrow> ping_state ub" where
  "set_ping_header a with_reply timeout d =
     ub_bind (get_ping d a) (\<lambda>p.
       Inr (put_ping a (p\<lparr>pi_header := (pi_header p)\<lparr>ph_response_required := Some with_reply,
                                                    ph_timeout_in_seconds := Some timeout\<rparr>\<rparr>) d))"

text \<open>The label \<open>done\<close>.\<close>

definition ping_done ::
  "'w os \<Rightarrow> nat option \<Rightarrow> ccapi_ping_error_t \<Rightarrow> ping_state \<Rightarrow> 'w \<Rightarrow> (ccapi_ping_error_t \<times> ping_state option \<times> 'w) run" where
  "ping_done os ping_info error d w =
     run_bind (Some (finish_send_ping os ping_info d w)) (\<lambda>(d1, w1). Some (Inr (error, Some d1, w1)))"

definition ccxapi_send_ping_common ::
  "'w os \<Rightarrow> (connector_sm_send_ping_request_t \<Rightarrow> 'w \<Rightarrow> connector_status_t \<times> 'w) \<Rightarrow> connector_sm_ping_response_t list
     \<Rightarrow> ping_state option \<Rightarrow> ccapi_transport_t \<Rightarrow> bool \<Rightarrow> u64 \<Rightarrow> 'w
     \<Rightarrow> (ccapi_ping_error_t \<times> ping_state option \<times> 'w) run" where
  "ccxapi_send_ping_common os initiate responses ccapi_data transport with_reply timeout w =
     (let error = checkargs_send_ping ccapi_data transport
      in if error \<noteq> CCAPI_PING_ERROR_NONE then Some (Inr (error, ccapi_data, w))
         else
           (case Ping_valid_malloc os (the ccapi_data) w of
              (None, w1) \<Rightarrow> Some (Inr (CCAPI_PING_ERROR_INSUFFICIENT_MEMORY, ccapi_data, w1))
            | (Some (a, d1), w1) \<Rightarrow>
                run_bind (Some (setup_send_ping os a transport d1 w1)) (\<lambda>(error, d2, w2).
                  if error \<noteq> CCAPI_PING_ERROR_NONE then ping_done os (Some a) error d2 w2
                  else
                    run_bind (Some (set_ping_header a with_reply timeout d2)) (\<lambda>d3.
                      run_bind (perform_send_ping os initiate responses a d3 w2) (\<lambda>(error, d4, w4).
                        if error \<noteq> CCAPI_PING_ERROR_NONE then ping_done os (Some a) error d4 w4
                        else
                          run_bind (Some (get_ping d4 a)) (\<lambda>p.
                            run_bind (Some (read_field (pi_response_error (pi_svc_ping p)))) (\<lambda>error.
                              ping_done os (Some a) error d4 w4)))))))"

definition ccxapi_send_ping ::
  "'w os \<Rightarrow> (connector_sm_send_ping_request_t \<Rightarrow> 'w \<Rightarrow> connector_status_t \<times> 'w) \<Rightarrow> connector_sm_ping_response_t list
     \<Rightarrow> ping_state option \<Rightarrow> ccapi_transport_t \<Rightarrow> 'w \<Rightarrow> (ccapi_ping_error_t \<times> ping_state option \<times> 'w) run" where
  "ccxapi_send_ping os initiate responses ccapi_data transport w =
     ccxapi_send_ping_common os initiate responses ccapi_data transport False CCAPI_SEND_PING_WAIT_FOREVER w"

definition ccapi_send_ping ::
  "'w os \<Rightarrow> (connector_sm_send_ping_request_t \<Rightarrow> 'w \<Rightarrow> connector_status_t \<times> 'w) \<Rightarrow> connector_sm_ping_response_t list
     \<Rightarrow> ping_state option \<Rightarrow> ccapi_transport_t \<Rightarrow> 'w \<Rightarrow> (ccapi_ping_error_t \<times> ping_state option \<times> 'w) run" where
  "ccapi_send_ping os initiate responses ccapi_data_single_instance transport w =
     ccxapi_send_ping_common os initiate responses ccapi_data_single_instance transport False CCAPI_SEND_PING_WAIT_FOREVER w"

definition ccxapi_send_ping_with_reply ::
  "'w os \<Rightarrow> (connector_sm_send_ping_request_t \<Rightarrow> 'w \<Rightarrow> connector_status_t \<times> 'w) \<Rightarrow> connector_sm_ping_response_t list
     \<Rightarrow> ping_state option \<Rightarrow> ccapi_transport_t \<Rightarrow> u64 \<Rightarrow> 'w \<Rightarrow> (ccapi_ping_error_t \<times> ping_state option \<times> 'w) run" where
  "ccxapi_send_ping_with_reply os initiate responses ccapi_data transport timeout w =
     ccxapi_send_ping_common os initiate responses ccapi_data transport True timeout w"

definition ccapi_send_ping_with_reply ::
  "'w os \<Rightarrow> (connector_sm_send_ping_request_t \<Rightarrow> 'w \<Rightarrow> connector_status_t \<times> 'w) \<Rightarrow> connector_sm_ping_response_t list
     \<Rightarrow> ping_state option \<Rightarrow> ccapi_transport_t \<Rightarrow> u64 \<Rightarrow> 'w \<Rightarrow> (ccapi_ping_error_t \<times> ping_state option \<times> 'w) run" where
  "ccapi_send_ping_with_reply os initiate responses ccapi_data_single_instance transport timeout w =
     ccxapi_send_ping_common os initiate responses ccapi_data_single_instance transport True timeout w"

text \<open>A field that was written can be read.\<close>

lemma read_written [simp]: "read_field (Some x) = Inr x"
  by (simp add: read_field_def)

end
