(* ===== verification/PingClaims.thy ===== *)
theory PingClaims
  imports Ping
begin

text \<open>
  Pings on the Linux layer: what the caller gets, that nothing is left behind, and what a ping
  whose lock could not be created reads.
\<close>

lemma put_ping_simps [simp]:
  "get_ping (put_ping a p d) a = Inr p" "put_ping a q (put_ping a p d) = put_ping a q d"
  "pd_initiate_lock (put_ping a p d) = pd_initiate_lock d" "pd_run_lock (put_ping a p d) = pd_run_lock d"
  "(put_ping a p d)\<lparr>pd_pings := (pd_pings (put_ping a p d))(a := None)\<rparr> = d\<lparr>pd_pings := (pd_pings d)(a := None)\<rparr>"
  by (simp_all add: get_ping_def put_ping_def)

text \<open>One response: it is stored, and the lock of the ping is released.\<close>

lemma ping_response_effect:
  assumes "pi_ping_lock (pi_svc_ping p) = Some (Some k)" and "lx_sems w k = Some n"
  shows "serve_ping_responses (linux_os debug) [\<lparr>pr_user_context = Some a, pr_status = st\<rparr>] (put_ping a p d) w
    = Inr (put_ping a (p\<lparr>pi_svc_ping := (pi_svc_ping p)\<lparr>pi_response_error := Some (ping_response_error st)\<rparr>\<rparr>) d,
           w\<lparr>lx_sems := (lx_sems w)(k \<mapsto> Suc n)\<rparr>)"
  using assms
  by (simp add: ccapi_process_ping_response_def Let_def ccapi_lock_release_def ccimp_os_lock_release_def)

lemma perform_ping_effect:
  assumes "pi_ping_lock (pi_svc_ping p) = Some (Some k)" and "accepts_requests initiate"
    and "pd_initiate_lock d = Some i" and "pd_run_lock d = Some r" and "lx_sems w i = Some (Suc n)"
    and "lx_sems w r = Some m" and "lx_sems w k = Some 0" and "distinct [i, r, k]"
  shows "\<exists>w'. perform_send_ping (linux_os debug) initiate [\<lparr>pr_user_context = Some a, pr_status = st\<rparr>] a (put_ping a p d) w
      = Some (Inr (CCAPI_PING_ERROR_NONE,
          put_ping a (p\<lparr>pi_svc_ping := (pi_svc_ping p)\<lparr>pi_response_error := Some (ping_response_error st)\<rparr>\<rparr>) d, w'))
    \<and> lx_sems w' = (lx_sems w)(r \<mapsto> Suc m, k \<mapsto> 0) \<and> lx_blocks w' = lx_blocks w \<and> lx_stuck w' = lx_stuck w"
proof -
  have "i \<noteq> r" using assms(8) by simp
  from initiate_linux [OF assms(2,5,6) this, of debug "pi_header p"] obtain w2 where
    2: "initiate_until_not_busy (linux_os debug) initiate (Some i) (Some r) (pi_header p) w = Some (connector_success, w2)"
    "lx_sems w2 = (lx_sems w)(r \<mapsto> Suc m)" "lx_blocks w2 = lx_blocks w" "lx_stuck w2 = lx_stuck w" by blast
  have "lx_sems w2 k = Some 0" using assms(7,8) 2(2) by auto
  then show ?thesis
    using assms(1,3,4) 2
    by (simp add: perform_send_ping_def ping_response_effect [OF assms(1)] ccapi_send_ping_lock_acquire_def
        ccimp_os_lock_acquire_def del: serve_ping_responses.simps)
qed

text \<open>
  C25. A ping on the Linux layer returns what the cloud answered: over a transport that is started
  it is given to the connector, the caller waits for the response and gets its meaning (no error
  for a success, the cancellation, the timeout or the error otherwise), the ping and its lock are
  freed, no call blocks, and of the locks only the one that wakes the connector is posted.
\<close>
theorem ping_returns_the_response:
  assumes "checkargs_send_ping (Some d) transport = CCAPI_PING_ERROR_NONE"
    and "accepts_requests initiate" and "pd_initiate_lock d = Some i" and "pd_run_lock d = Some r" and "i \<noteq> r"
    and "lx_sems w i = Some (Suc n)" and "lx_sems w r = Some m" and "lx_sems w (lx_next w) = None"
    and "2 \<le> lx_memory w"
  shows "\<exists>w'. ccxapi_send_ping_common (linux_os debug) initiate [\<lparr>pr_user_context = Some (pd_fresh d), pr_status = st\<rparr>]
      (Some d) transport with_reply timeout w
    = Some (Inr (ping_response_error st,
        Some (d\<lparr>pd_fresh := Suc (pd_fresh d), pd_pings := (pd_pings d)(pd_fresh d := None)\<rparr>), w'))
    \<and> lx_sems w' = (lx_sems w)(r \<mapsto> Suc m) \<and> lx_blocks w' = lx_blocks w \<and> lx_stuck w' = lx_stuck w"
proof -
  let ?a = "pd_fresh d" and ?k = "lx_next w" and ?d0 = "d\<lparr>pd_fresh := Suc (pd_fresh d)\<rparr>"
  let ?w1 = "w\<lparr>lx_memory := lx_memory w - Suc 0, lx_blocks := lx_blocks w + 1\<rparr>"
  let ?w2 = "?w1\<lparr>lx_sems := (lx_sems w)(?k \<mapsto> 0), lx_next := Suc ?k, lx_memory := lx_memory w - 2,
      lx_blocks := lx_blocks w + 2\<rparr>"
  define p where "p = \<lparr>pi_header = \<lparr>ph_transport = Some (ccapi_to_connector_transport transport), ph_response_required = Some with_reply,
        ph_timeout_in_seconds = Some timeout, ph_user_context = Some ?a\<rparr>,
      pi_svc_ping = \<lparr>pi_ping_lock = Some (Some ?k), pi_response_error = Some CCAPI_PING_ERROR_NONE\<rparr>\<rparr>"
  have malloc: "Ping_valid_malloc (linux_os debug) d w = (Some (?a, put_ping ?a new_ping ?d0), ?w1)"
    using assms(9) by (simp add: Ping_valid_malloc_def ccapi_malloc_def ccimp_os_malloc_def)
  obtain p0 where prep: "setup_send_ping (linux_os debug) ?a transport (put_ping ?a new_ping ?d0) ?w1
      = Inr (CCAPI_PING_ERROR_NONE, put_ping ?a p0 ?d0, ?w2)"
    "set_ping_header ?a with_reply timeout (put_ping ?a p0 ?d0) = Inr (put_ping ?a p ?d0)"
    using assms(9)
    by (auto simp: setup_send_ping_def ccimp_os_lock_create_def set_ping_header_def new_ping_def p_def numeral_2_eq_2)
  have "\<exists>w'. perform_send_ping (linux_os debug) initiate [\<lparr>pr_user_context = Some ?a, pr_status = st\<rparr>] ?a (put_ping ?a p ?d0) ?w2
      = Some (Inr (CCAPI_PING_ERROR_NONE,
          put_ping ?a (p\<lparr>pi_svc_ping := (pi_svc_ping p)\<lparr>pi_response_error := Some (ping_response_error st)\<rparr>\<rparr>) ?d0, w'))
    \<and> lx_sems w' = (lx_sems ?w2)(r \<mapsto> Suc m, ?k \<mapsto> 0) \<and> lx_blocks w' = lx_blocks ?w2 \<and> lx_stuck w' = lx_stuck ?w2"
    by (rule perform_ping_effect) (use assms in \<open>auto simp: p_def\<close>)
  then obtain w3 where 3: "perform_send_ping (linux_os debug) initiate [\<lparr>pr_user_context = Some ?a, pr_status = st\<rparr>] ?a
        (put_ping ?a p ?d0) ?w2
      = Some (Inr (CCAPI_PING_ERROR_NONE,
          put_ping ?a (p\<lparr>pi_svc_ping := (pi_svc_ping p)\<lparr>pi_response_error := Some (ping_response_error st)\<rparr>\<rparr>) ?d0, w3))"
    "lx_sems w3 = (lx_sems ?w2)(r \<mapsto> Suc m, ?k \<mapsto> 0)" "lx_blocks w3 = lx_blocks w + 2" "lx_stuck w3 = lx_stuck w" by auto
  have "(lx_sems ?w2)(r \<mapsto> Suc m, ?k \<mapsto> 0, ?k := None) = (lx_sems w)(r \<mapsto> Suc m)"
    using assms(7,8) by (auto simp: fun_eq_iff)
  moreover have "d\<lparr>pd_fresh := Suc ?a, pd_pings := (pd_pings d)(?a := None)\<rparr> = ?d0\<lparr>pd_pings := (pd_pings ?d0)(?a := None)\<rparr>"
    by simp
  ultimately show ?thesis
    unfolding ccxapi_send_ping_common_def assms(1) Let_def option.sel malloc prep prod.case option.case run_bind_simps 3(1)
    by (simp add: ping_done_def finish_send_ping_def p_def ccapi_lock_destroy_def ccimp_os_lock_destroy_def 3(2-4)
        ccapi_free_def ccimp_os_free_def)
qed

definition example_pings :: ping_state where
  "example_pings =
     \<lparr>pd_run_status = CCAPI_THREAD_RUNNING, pd_udp_started = True, pd_sms_started = False, pd_initiate_lock = Some 1,
      pd_run_lock = Some 2, pd_pings = Map.empty, pd_fresh = 0\<rparr>"

definition ping_world :: "nat \<Rightarrow> linux" where
  "ping_world memory =
     \<lparr>lx_sems = [1 \<mapsto> 1, 2 \<mapsto> 0], lx_next = 3, lx_memory = memory, lx_blocks = 2, lx_stuck = False\<rparr>"

theorem ping_returns_the_response_witness:
  "\<exists>w'. ccxapi_send_ping_common (linux_os False) (\<lambda>request w. (connector_success, w))
      [\<lparr>pr_user_context = Some 0, pr_status = connector_sm_ping_status_timeout\<rparr>] (Some example_pings) CCAPI_TRANSPORT_UDP True 10
      (ping_world 2)
    = Some (Inr (CCAPI_PING_ERROR_RESPONSE_TIMEOUT, Some (example_pings\<lparr>pd_fresh := 1\<rparr>), w')) \<and> lx_blocks w' = 2"
proof -
  have accepts: "accepts_requests (\<lambda>(request :: connector_sm_send_ping_request_t) (w :: linux). (connector_success, w))"
    by (simp add: accepts_requests_def)
  have args: "checkargs_send_ping (Some example_pings) CCAPI_TRANSPORT_UDP = CCAPI_PING_ERROR_NONE"
    by (simp add: checkargs_send_ping_def example_pings_def)
  show ?thesis
    using ping_returns_the_response [OF args accepts, where i = 1 and r = 2 and n = 0 and m = 0 and w = "ping_world 2"
        and debug = False and st = connector_sm_ping_status_timeout and with_reply = True and timeout = 10]
    by (auto simp: example_pings_def ping_world_def ping_response_error_def)
qed

text \<open>
  A ping whose lock cannot be created is freed through code that looks at the lock, which was
  never written: the call has no defined result, whatever the operating system and the connector.
\<close>

lemma ping_without_lock_reads_uninitialised:
  assumes "checkargs_send_ping (Some d) transport = CCAPI_PING_ERROR_NONE"
    and "ccapi_malloc os (Sizeof ''ccapi_ping_t'') w = (True, w1)"
    and "os_lock_create os w1 = ((status, lock), w2)" and "status \<noteq> CCIMP_STATUS_OK"
  shows "ccxapi_send_ping_common os initiate responses (Some d) transport with_reply timeout w
    = Some (Inl Uninitialised_Read)"
  using assms
  by (simp add: ccxapi_send_ping_common_def Ping_valid_malloc_def setup_send_ping_def ping_done_def finish_send_ping_def
      new_ping_def read_field_def)

text \<open>No ping goes over TCP, although the transport is one of those a caller may name.\<close>

lemma ping_over_tcp_refused:
  "ccxapi_send_ping_common os initiate responses (Some d) CCAPI_TRANSPORT_TCP with_reply timeout w
    = Some (Inr (if pd_run_status d = CCAPI_THREAD_RUNNING then CCAPI_PING_ERROR_TRANSPORT_NOT_VALID
                 else CCAPI_PING_ERROR_CCAPI_NOT_RUNNING, Some d, w))"
  by (simp add: ccxapi_send_ping_common_def checkargs_send_ping_def)

end
