(* ===== verification/Cli.thy ===== *)
theory Cli
  imports ReceiveReply
begin

text \<open>
  The command line over short messages, source/ccapi_sm_handler.c: a command arrives in packets,
  the callback of the user runs on the thread of the service with the whole command, its output
  goes back in pieces.

  Sessions (\<open>ccapi_svc_cli_t\<close>) are heap objects whose addresses the connector keeps as its
  \<open>user_context\<close>; \<open>cs_sessions\<close> maps the addresses of those that are allocated. The thread is two
  steps: it wakes, takes the queued session and runs the callback; then it stores what the
  callback wrote. The handler may run in between.
\<close>

subsection \<open>State\<close>

datatype ccapi_cli_error_t =
    CCAPI_CLI_ERROR_NONE
  | CCAPI_CLI_ERROR_NO_CLI_SUPPORT
  | CCAPI_CLI_ERROR_INSUFFICIENT_MEMORY
  | CCAPI_CLI_ERROR_STATUS_CANCEL
  | CCAPI_CLI_ERROR_STATUS_ERROR

datatype ccapi_cli_thread_status_t =
    CCAPI_CLI_THREAD_IDLE
  | CCAPI_CLI_THREAD_REQUEST_CB_READY
  | CCAPI_CLI_THREAD_REQUEST_CB_QUEUED
  | CCAPI_CLI_THREAD_REQUEST_CB_PROCESSED
  | CCAPI_CLI_THREAD_FREE

record ccapi_svc_cli_t =
  sc_transport :: connector_transport_t
  sc_response_required :: bool
  sc_more_data :: bool
  sc_request_string_info :: ccapi_buffer_info_t
  sc_response_string_info :: ccapi_buffer_info_t
  sc_response_handled_internally :: bool
  sc_response_processing :: response_processing
  sc_cli_error :: ccapi_cli_error_t
  sc_cli_thread_status :: ccapi_cli_thread_status_t

text \<open>
  The callbacks of the user. \<open>request\<close> is given the place of the output if there is one, as what
  it holds, and answers what it leaves there.
\<close>

type_synonym 'w ccapi_cli_request_cb_t =
  "connector_transport_t \<Rightarrow> u8 buffer option \<Rightarrow> u8 buffer option option \<Rightarrow> 'w \<Rightarrow> u8 buffer option \<times> 'w"

type_synonym 'w ccapi_cli_finished_cb_t = "u8 buffer option \<Rightarrow> ccapi_cli_error_t \<Rightarrow> 'w \<Rightarrow> 'w"

record 'w cli_state =
  cs_supported :: bool
  cs_request_cb :: "'w ccapi_cli_request_cb_t option"
  cs_finished_cb :: "'w ccapi_cli_finished_cb_t option"
  cs_sessions :: "nat \<rightharpoonup> ccapi_svc_cli_t"
  cs_fresh :: nat
  cs_svc_cli :: ptr
  cs_thread_lock :: ptr
  cs_thread_status :: ccapi_thread_status_t

definition get_cli :: "'w cli_state \<Rightarrow> nat \<Rightarrow> ccapi_svc_cli_t ub" where
  "get_cli d a = (case cs_sessions d a of None \<Rightarrow> Inl Use_After_Free | Some s \<Rightarrow> Inr s)"

definition put_cli :: "nat \<Rightarrow> ccapi_svc_cli_t \<Rightarrow> 'w cli_state \<Rightarrow> 'w cli_state" where
  "put_cli a s d = d\<lparr>cs_sessions := (cs_sessions d)(a \<mapsto> s)\<rparr>"

text \<open>What the connector passes.\<close>

record connector_sm_cli_request_t =
  cq_user_context :: ptr
  cq_transport :: connector_transport_t
  cq_buffer :: "u8 list option"
  cq_bytes_used :: size_t
  cq_response_required :: bool
  cq_more_data :: bool

record connector_sm_cli_response_t =
  cr_user_context :: ptr
  cr_buffer :: "u8 buffer"
  cr_bytes_available :: size_t
  cr_bytes_used :: size_t
  cr_more_data :: bool

datatype connector_sm_cli_status_value =
    connector_sm_cli_status_success
  | connector_sm_cli_status_cancel
  | connector_sm_cli_status_error

record connector_sm_cli_status_t =
  ct_user_context :: ptr
  ct_status :: connector_sm_cli_status_value

record connector_sm_cli_response_length_t =
  cl_user_context :: ptr
  cl_total_bytes :: size_t

subsection \<open>The packets of a command\<close>

definition new_cli :: "connector_sm_cli_request_t \<Rightarrow> ccapi_svc_cli_t" where
  "new_cli cli_request_ptr =
     \<lparr>sc_transport = cq_transport cli_request_ptr, sc_response_required = cq_response_required cli_request_ptr,
      sc_more_data = cq_more_data cli_request_ptr, sc_request_string_info = no_buffer,
      sc_response_string_info = no_buffer, sc_response_handled_internally = False,
      sc_response_processing = \<lparr>processing_block = None, processing_offset = 0, processing_length = 0\<rparr>,
      sc_cli_error = CCAPI_CLI_ERROR_NONE, sc_cli_thread_status = CCAPI_CLI_THREAD_IDLE\<rparr>"

text \<open>The session of a request: a new one, \<open>None\<close> if there is no memory for it, or that of its context.\<close>

definition cli_session_of ::
  "'w os \<Rightarrow> connector_sm_cli_request_t \<Rightarrow> 'w cli_state \<Rightarrow> 'w \<Rightarrow> ((nat \<times> ccapi_svc_cli_t) option \<times> 'w cli_state \<times> 'w) ub" where
  "cli_session_of os cli_request_ptr d w =
     (case cq_user_context cli_request_ptr of
        None \<Rightarrow>
          (case ccapi_malloc os (Sizeof ''ccapi_svc_cli_t'') w of
             (False, w1) \<Rightarrow> Inr (None, d, w1)
           | (True, w1) \<Rightarrow> Inr (Some (cs_fresh d, new_cli cli_request_ptr), d\<lparr>cs_fresh := Suc (cs_fresh d)\<rparr>, w1))
      | Some a \<Rightarrow>
          ub_bind (get_cli d a) (\<lambda>svc. Inr (Some (a, svc\<lparr>sc_more_data := cq_more_data cli_request_ptr\<rparr>), d, w)))"

text \<open>
  \<open>realloc old_size new_size\<close> is \<open>ccimp_os_realloc\<close>; when it fails, the pointer to the old block
  stays where it is.
\<close>

definition append_command ::
  "(size_t \<Rightarrow> size_t \<Rightarrow> 'w \<Rightarrow> ccimp_status_t \<times> 'w) \<Rightarrow> u8 list \<Rightarrow> size_t \<Rightarrow> ccapi_svc_cli_t \<Rightarrow> 'w
     \<Rightarrow> (bool \<times> ccapi_svc_cli_t \<times> 'w) ub" where
  "append_command realloc buffer bytes_used svc w =
     (let info = sc_request_string_info svc;
          new_size = info_length info + bytes_used;
          (status, w1) = realloc (info_length info) new_size w
      in if status \<noteq> CCIMP_STATUS_OK
         then Inr (False, svc\<lparr>sc_cli_error := CCAPI_CLI_ERROR_INSUFFICIENT_MEMORY,
                              sc_cli_thread_status := CCAPI_CLI_THREAD_FREE\<rparr>, w1)
         else if length buffer < unat bytes_used then Inl Out_Of_Bounds
         else
           ub_bind (memcpy_at (realloc_block (info_buffer info) new_size) (unat (info_length info))
                      (take (unat bytes_used) buffer))
             (\<lambda>block. Inr (True, svc\<lparr>sc_request_string_info := \<lparr>info_buffer = Some block, info_length = new_size\<rparr>\<rparr>, w1)))"

text \<open>\<open>strlen\<close> of a block.\<close>

definition c_strlen :: "u8 buffer \<Rightarrow> size_t ub" where
  "c_strlen block =
     (let pre = takeWhile (\<lambda>x. x \<noteq> Some 0) block
      in if length pre = length block then Inl Out_Of_Bounds
         else if None \<in> set pre then Inl Uninitialised_Read
         else Inr (of_nat (length pre)))"

definition copy_output :: "ccapi_svc_cli_t \<Rightarrow> ccapi_svc_cli_t" where
  "copy_output svc =
     svc\<lparr>sc_response_processing :=
           \<lparr>processing_block = info_buffer (sc_response_string_info svc), processing_offset = 0,
            processing_length = info_length (sc_response_string_info svc)\<rparr>\<rparr>"

text \<open>The output of the callback, with its NUL, becomes the response.\<close>

definition take_output :: "ccapi_svc_cli_t \<Rightarrow> ccapi_svc_cli_t ub" where
  "take_output svc =
     (case (sc_response_required svc, info_buffer (sc_response_string_info svc)) of
        (True, Some block) \<Rightarrow>
          ub_bind (c_strlen block) (\<lambda>n.
            let svc1 = svc\<lparr>sc_response_string_info := \<lparr>info_buffer = Some block, info_length = n\<rparr>\<rparr>
            in if n \<noteq> 0
               then Inr (copy_output (svc1\<lparr>sc_response_string_info := \<lparr>info_buffer = Some block, info_length = n + 1\<rparr>\<rparr>))
               else Inr svc1)
      | _ \<Rightarrow> Inr svc)"

text \<open>A request for a session, by what its callback has come to.\<close>

definition cli_request_step ::
  "'w os \<Rightarrow> (size_t \<Rightarrow> size_t \<Rightarrow> 'w \<Rightarrow> ccimp_status_t \<times> 'w) \<Rightarrow> u8 list \<Rightarrow> connector_sm_cli_request_t \<Rightarrow> nat \<Rightarrow> ccapi_svc_cli_t
     \<Rightarrow> 'w cli_state \<Rightarrow> 'w \<Rightarrow> (connector_callback_status_t \<times> 'w cli_state \<times> 'w) ub" where
  "cli_request_step os realloc buffer cli_request_ptr a svc d w =
     (case sc_cli_thread_status svc of
        CCAPI_CLI_THREAD_IDLE \<Rightarrow>
          ub_bind (append_command realloc buffer (cq_bytes_used cli_request_ptr) svc w) (\<lambda>(ok, svc1, w1).
            if \<not> ok then Inr (connector_callback_error, put_cli a svc1 d, w1)
            else if \<not> cq_more_data cli_request_ptr
            then Inr (connector_callback_busy,
                      put_cli a (svc1\<lparr>sc_cli_thread_status := CCAPI_CLI_THREAD_REQUEST_CB_READY\<rparr>) d, w1)
            else Inr (connector_callback_continue, put_cli a svc1 d, w1))
      | CCAPI_CLI_THREAD_REQUEST_CB_READY \<Rightarrow>
          (if cs_svc_cli d = None
           then Inr (connector_callback_busy,
                     put_cli a (svc\<lparr>sc_cli_thread_status := CCAPI_CLI_THREAD_REQUEST_CB_QUEUED\<rparr>) (d\<lparr>cs_svc_cli := Some a\<rparr>),
                     snd (ccapi_lock_release os (cs_thread_lock d) w))
           else Inr (connector_callback_busy, put_cli a svc d, w))
      | CCAPI_CLI_THREAD_REQUEST_CB_QUEUED \<Rightarrow> Inr (connector_callback_busy, put_cli a svc d, w)
      | CCAPI_CLI_THREAD_REQUEST_CB_PROCESSED \<Rightarrow>
          (let w1 = snd (ccapi_free os (info_buffer (sc_request_string_info svc) \<noteq> None) w)
           in ub_bind (take_output svc) (\<lambda>svc1.
                Inr (connector_callback_continue,
                     put_cli a (svc1\<lparr>sc_cli_thread_status := CCAPI_CLI_THREAD_FREE\<rparr>) d, w1)))
      | CCAPI_CLI_THREAD_FREE \<Rightarrow> Inr (connector_callback_error, put_cli a svc d, w))"

definition ccapi_process_cli_request ::
  "'w os \<Rightarrow> (size_t \<Rightarrow> size_t \<Rightarrow> 'w \<Rightarrow> ccimp_status_t \<times> 'w) \<Rightarrow> connector_sm_cli_request_t \<Rightarrow> 'w cli_state \<Rightarrow> 'w
     \<Rightarrow> (connector_callback_status_t \<times> connector_sm_cli_request_t \<times> 'w cli_state \<times> 'w) ub" where
  "ccapi_process_cli_request os realloc cli_request_ptr d w =
     (case cq_buffer cli_request_ptr of
        None \<Rightarrow> Inr (connector_callback_error, cli_request_ptr, d, w)
      | Some buffer \<Rightarrow>
          (if cq_bytes_used cli_request_ptr = 0 then Inr (connector_callback_error, cli_request_ptr, d, w)
           else
             ub_bind (cli_session_of os cli_request_ptr d w) (\<lambda>(session, d1, w1).
               case session of
                 None \<Rightarrow> Inr (connector_callback_error, cli_request_ptr, d1, w1)
               | Some (a, svc) \<Rightarrow>
                   (let ptr = cli_request_ptr\<lparr>cq_user_context := Some a\<rparr>
                    in if \<not> cs_supported d1
                       then Inr (connector_callback_error, ptr,
                                 put_cli a (svc\<lparr>sc_cli_error := CCAPI_CLI_ERROR_NO_CLI_SUPPORT\<rparr>) d1, w1)
                       else
                         ub_bind (cli_request_step os realloc buffer cli_request_ptr a svc d1 w1)
                           (\<lambda>(status, d2, w2). Inr (status, ptr, d2, w2))))))"

subsection \<open>The response\<close>

definition cli_error_value :: "ccapi_cli_error_t \<Rightarrow> nat" where
  "cli_error_value e =
     (case e of
        CCAPI_CLI_ERROR_NONE \<Rightarrow> 0
      | CCAPI_CLI_ERROR_NO_CLI_SUPPORT \<Rightarrow> 1
      | CCAPI_CLI_ERROR_INSUFFICIENT_MEMORY \<Rightarrow> 2
      | CCAPI_CLI_ERROR_STATUS_CANCEL \<Rightarrow> 3
      | CCAPI_CLI_ERROR_STATUS_ERROR \<Rightarrow> 4)"

definition cli_error_str :: "ccapi_cli_error_t \<Rightarrow> string" where
  "cli_error_str e =
     (case e of
        CCAPI_CLI_ERROR_NO_CLI_SUPPORT \<Rightarrow> ''CCAPI_CLI_ERROR_NO_CLI_SUPPORT''
      | CCAPI_CLI_ERROR_INSUFFICIENT_MEMORY \<Rightarrow> ''CCAPI_CLI_ERROR_INSUFFICIENT_MEMORY''
      | _ \<Rightarrow> ''Unexpected error'')"

definition CLI_ERROR_MESSAGE :: string where
  "CLI_ERROR_MESSAGE = ''CCAPI Error %d (%s)''"

definition cli_error_message :: "ccapi_cli_error_t \<Rightarrow> string" where
  "cli_error_message e = ''CCAPI Error '' @ decimal (cli_error_value e) @ '' ('' @ cli_error_str e @ '')''"

text \<open>\<open>sprintf\<close> writes the text and its NUL; the length it returns does not count the NUL.\<close>

definition fill_cli_internal_error :: "'w os \<Rightarrow> ccapi_svc_cli_t \<Rightarrow> 'w \<Rightarrow> (ccapi_svc_cli_t \<times> 'w) ub" where
  "fill_cli_internal_error os svc w =
     (let e = sc_cli_error svc;
          room = length (cli_error_str e) + (length CLI_ERROR_MESSAGE + 1)
      in case ccapi_malloc os (Bytes room) w of
           (False, w1) \<Rightarrow>
             Inr (svc\<lparr>sc_cli_error := CCAPI_CLI_ERROR_INSUFFICIENT_MEMORY,
                      sc_response_string_info := (sc_response_string_info svc)\<lparr>info_buffer := None\<rparr>\<rparr>, w1)
         | (True, w1) \<Rightarrow>
             ub_bind (memcpy_at (replicate room None) 0 (bytes_of_string (cli_error_message e @ [CHR 0x00])))
               (\<lambda>block.
                 Inr (svc\<lparr>sc_response_string_info :=
                            \<lparr>info_buffer = Some block, info_length = of_nat (length (cli_error_message e))\<rparr>\<rparr>, w1)))"

definition prepare_cli_response :: "'w os \<Rightarrow> ccapi_svc_cli_t \<Rightarrow> 'w \<Rightarrow> (ccapi_svc_cli_t \<times> 'w) ub" where
  "prepare_cli_response os svc w =
     (if sc_cli_error svc \<noteq> CCAPI_CLI_ERROR_NONE \<and> \<not> sc_response_handled_internally svc
      then ub_bind (fill_cli_internal_error os (svc\<lparr>sc_response_handled_internally := True\<rparr>) w)
             (\<lambda>(svc1, w1). Inr (copy_output svc1, w1))
      else Inr (svc, w))"

definition send_cli_piece ::
  "connector_sm_cli_response_t \<Rightarrow> ccapi_svc_cli_t \<Rightarrow> (connector_sm_cli_response_t \<times> ccapi_svc_cli_t) ub" where
  "send_cli_piece cli_response_ptr svc =
     (let p = sc_response_processing svc;
          bytes_to_send = (if cr_bytes_available cli_response_ptr < processing_length p
                           then cr_bytes_available cli_response_ptr else processing_length p)
      in ub_bind (read_block (processing_block p) (processing_offset p) (unat bytes_to_send)) (\<lambda>piece.
           ub_bind (write_block (cr_buffer cli_response_ptr) piece) (\<lambda>buffer.
             let p' = p\<lparr>processing_offset := processing_offset p + unat bytes_to_send,
                        processing_length := processing_length p - bytes_to_send\<rparr>
             in Inr (cli_response_ptr\<lparr>cr_buffer := buffer, cr_bytes_used := bytes_to_send,
                                      cr_more_data := (0 < processing_length p')\<rparr>,
                     svc\<lparr>sc_response_processing := p'\<rparr>))))"

definition ccapi_process_cli_response ::
  "'w os \<Rightarrow> connector_sm_cli_response_t \<Rightarrow> 'w cli_state \<Rightarrow> 'w
     \<Rightarrow> (connector_callback_status_t \<times> connector_sm_cli_response_t \<times> 'w cli_state \<times> 'w) ub" where
  "ccapi_process_cli_response os cli_response_ptr d w =
     (case cr_user_context cli_response_ptr of
        None \<Rightarrow> Inr (connector_callback_error, cli_response_ptr, d, w)
      | Some a \<Rightarrow>
          ub_bind (get_cli d a) (\<lambda>svc.
            if \<not> sc_response_required svc then Inr (connector_callback_error, cli_response_ptr, d, w)
            else
              ub_bind (prepare_cli_response os svc w) (\<lambda>(svc1, w1).
                ub_bind (send_cli_piece cli_response_ptr svc1) (\<lambda>(ptr, svc2).
                  Inr (connector_callback_continue, ptr, put_cli a svc2 d, w1)))))"

definition ccapi_process_cli_response_length ::
  "connector_sm_cli_response_length_t \<Rightarrow> 'w cli_state \<Rightarrow> (connector_callback_status_t \<times> connector_sm_cli_response_length_t) ub" where
  "ccapi_process_cli_response_length length_ptr d =
     (case cl_user_context length_ptr of
        None \<Rightarrow> Inr (connector_callback_error, length_ptr)
      | Some a \<Rightarrow>
          ub_bind (get_cli d a) (\<lambda>svc.
            Inr (connector_callback_continue, length_ptr\<lparr>cl_total_bytes := processing_length (sc_response_processing svc)\<rparr>)))"

subsection \<open>The end of a session\<close>

definition cli_status_error :: "connector_sm_cli_status_value \<Rightarrow> ccapi_cli_error_t" where
  "cli_status_error st =
     (case st of
        connector_sm_cli_status_success \<Rightarrow> CCAPI_CLI_ERROR_NONE
      | connector_sm_cli_status_cancel \<Rightarrow> CCAPI_CLI_ERROR_STATUS_CANCEL
      | connector_sm_cli_status_error \<Rightarrow> CCAPI_CLI_ERROR_STATUS_ERROR)"

text \<open>The user is told of the output only if it is the user's to free.\<close>

definition tell_finished :: "'w cli_state \<Rightarrow> ccapi_svc_cli_t \<Rightarrow> 'w \<Rightarrow> 'w" where
  "tell_finished d svc w =
     (case (cs_supported d, cs_finished_cb d) of
        (True, Some finished) \<Rightarrow>
          finished (if \<not> sc_response_handled_internally svc \<and> sc_response_required svc
                    then info_buffer (sc_response_string_info svc) else None)
            (sc_cli_error svc) w
      | _ \<Rightarrow> w)"

definition ccapi_process_cli_status ::
  "'w os \<Rightarrow> connector_sm_cli_status_t \<Rightarrow> 'w cli_state \<Rightarrow> 'w \<Rightarrow> (connector_callback_status_t \<times> 'w cli_state \<times> 'w) ub" where
  "ccapi_process_cli_status os status_ptr d w =
     (case ct_user_context status_ptr of
        None \<Rightarrow> Inr (connector_callback_error, d, w)
      | Some a \<Rightarrow>
          ub_bind (get_cli d a) (\<lambda>svc.
            let svc1 = (if sc_cli_error svc = CCAPI_CLI_ERROR_NONE
                        then svc\<lparr>sc_cli_error := cli_status_error (ct_status status_ptr)\<rparr> else svc);
                w1 = tell_finished d svc1 w;
                w2 = (if sc_response_handled_internally svc1
                      then snd (ccapi_free os (info_buffer (sc_response_string_info svc1) \<noteq> None) w1) else w1);
                w3 = snd (ccapi_free os True w2)
            in Inr (connector_callback_continue, d\<lparr>cs_sessions := (cs_sessions d)(a := None)\<rparr>, w3)))"

subsection \<open>The thread\<close>

datatype cli_thread_phase = Cli_Waiting | Cli_In_Callback nat "u8 buffer option" | Cli_Exited

definition cli_thread_start :: "'w cli_state \<Rightarrow> 'w cli_state" where
  "cli_thread_start d = d\<lparr>cs_thread_status := CCAPI_THREAD_RUNNING\<rparr>"

text \<open>From the acquired lock to the return of the callback.\<close>

definition cli_thread_wake :: "'w cli_state \<Rightarrow> 'w \<Rightarrow> (cli_thread_phase \<times> 'w cli_state \<times> 'w) ub" where
  "cli_thread_wake d w =
     (let exit = Inr (Cli_Exited, d\<lparr>cs_thread_status := CCAPI_THREAD_NOT_STARTED\<rparr>, w)
      in if cs_thread_status d = CCAPI_THREAD_REQUEST_STOP then exit
         else
           (case cs_svc_cli d of
              None \<Rightarrow> exit
            | Some a \<Rightarrow>
                ub_bind (get_cli d a) (\<lambda>svc.
                  if sc_cli_thread_status svc \<noteq> CCAPI_CLI_THREAD_REQUEST_CB_QUEUED then exit
                  else
                    (case cs_request_cb d of
                       None \<Rightarrow> exit
                     | Some request \<Rightarrow>
                         (case request (sc_transport svc) (info_buffer (sc_request_string_info svc))
                                 (if sc_response_required svc then Some (info_buffer (sc_response_string_info svc)) else None) w of
                            (output, w1) \<Rightarrow> Inr (Cli_In_Callback a output, d, w1))))))"

text \<open>From the return of the callback to the next wait, or the end of the loop.\<close>

definition cli_thread_finish ::
  "nat \<Rightarrow> u8 buffer option \<Rightarrow> 'w cli_state \<Rightarrow> (cli_thread_phase \<times> 'w cli_state) ub" where
  "cli_thread_finish a output d =
     ub_bind (get_cli d a) (\<lambda>svc.
       let svc1 = (if sc_response_required svc
                   then svc\<lparr>sc_response_string_info := (sc_response_string_info svc)\<lparr>info_buffer := output\<rparr>\<rparr> else svc);
           svc2 = (if sc_cli_thread_status svc1 = CCAPI_CLI_THREAD_REQUEST_CB_QUEUED
                   then svc1\<lparr>sc_cli_thread_status := CCAPI_CLI_THREAD_REQUEST_CB_PROCESSED\<rparr> else svc1);
           d1 = (put_cli a svc2 d)\<lparr>cs_svc_cli := None\<rparr>
       in if cs_thread_status d = CCAPI_THREAD_RUNNING then Inr (Cli_Waiting, d1)
          else Inr (Cli_Exited, d1\<lparr>cs_thread_status := CCAPI_THREAD_NOT_STARTED\<rparr>))"

end
