(* ===== verification/CliSystem.thy ===== *)
theory CliSystem
  imports Cli
begin

text \<open>
  The command line as a system: the requests of the connector for any number of sessions and the
  steps of the thread, in any order, with the invariant that holds in every reachable state.

  \<open>cli_allowed\<close> says what the connector does: it uses contexts it was given and has not ended,
  its packets are as long as it says, and, the one restriction the code does not enforce, it ends
  no session whose callback is queued or running.
\<close>

subsection \<open>Steps\<close>

record 'w cli_system =
  cy_data :: "'w cli_state"
  cy_world :: 'w
  cy_phase :: cli_thread_phase

datatype cli_event =
    Cli_Request connector_sm_cli_request_t
  | Cli_Reply nat nat
  | Cli_Length nat
  | Cli_Status nat connector_sm_cli_status_value
  | Cli_Wake
  | Cli_Finish

definition cli_reply_request :: "nat \<Rightarrow> nat \<Rightarrow> connector_sm_cli_response_t" where
  "cli_reply_request a n =
     \<lparr>cr_user_context = Some a, cr_buffer = replicate n None, cr_bytes_available = of_nat n, cr_bytes_used = 0,
      cr_more_data = False\<rparr>"

definition cli_exec ::
  "'w os \<Rightarrow> (size_t \<Rightarrow> size_t \<Rightarrow> 'w \<Rightarrow> ccimp_status_t \<times> 'w) \<Rightarrow> cli_event \<Rightarrow> 'w cli_system \<Rightarrow> 'w cli_system ub" where
  "cli_exec os realloc e s =
     (let d = cy_data s; w = cy_world s
      in case e of
           Cli_Request ptr \<Rightarrow>
             ub_bind (ccapi_process_cli_request os realloc ptr d w) (\<lambda>(status, ptr', d', w').
               Inr (s\<lparr>cy_data := d', cy_world := w'\<rparr>))
         | Cli_Reply a n \<Rightarrow>
             ub_bind (ccapi_process_cli_response os (cli_reply_request a n) d w) (\<lambda>(status, ptr', d', w').
               Inr (s\<lparr>cy_data := d', cy_world := w'\<rparr>))
         | Cli_Length a \<Rightarrow>
             ub_bind (ccapi_process_cli_response_length \<lparr>cl_user_context = Some a, cl_total_bytes = 0\<rparr> d) (\<lambda>_. Inr s)
         | Cli_Status a st \<Rightarrow>
             ub_bind (ccapi_process_cli_status os \<lparr>ct_user_context = Some a, ct_status = st\<rparr> d w) (\<lambda>(status, d', w').
               Inr (s\<lparr>cy_data := d', cy_world := w'\<rparr>))
         | Cli_Wake \<Rightarrow>
             ub_bind (cli_thread_wake d (snd (ccapi_lock_acquire os (cs_thread_lock d) w))) (\<lambda>(phase, d', w').
               Inr (s\<lparr>cy_data := d', cy_world := w', cy_phase := phase\<rparr>))
         | Cli_Finish \<Rightarrow>
             (case cy_phase s of
                Cli_In_Callback a output \<Rightarrow>
                  ub_bind (cli_thread_finish a output d) (\<lambda>(phase, d'). Inr (s\<lparr>cy_data := d', cy_phase := phase\<rparr>))
              | _ \<Rightarrow> Inr s))"

definition cli_queued :: "ccapi_svc_cli_t \<Rightarrow> bool" where
  "cli_queued svc \<longleftrightarrow> sc_cli_thread_status svc = CCAPI_CLI_THREAD_REQUEST_CB_QUEUED"

definition cli_allowed :: "(nat \<Rightarrow> 'w \<Rightarrow> nat option) \<Rightarrow> cli_event \<Rightarrow> 'w cli_system \<Rightarrow> bool" where
  "cli_allowed tokens e s \<longleftrightarrow>
     (let d = cy_data s
      in case e of
           Cli_Request ptr \<Rightarrow>
             (case cq_buffer ptr of None \<Rightarrow> True | Some buffer \<Rightarrow> unat (cq_bytes_used ptr) \<le> length buffer)
             \<and> (case cq_user_context ptr of
                  None \<Rightarrow> True
                | Some a \<Rightarrow>
                    (case cs_sessions d a of
                       None \<Rightarrow> False
                     | Some svc \<Rightarrow>
                         unat (info_length (sc_request_string_info svc)) + unat (cq_bytes_used ptr) < 2 ^ 64))
         | Cli_Reply a n \<Rightarrow> cs_sessions d a \<noteq> None \<and> n < 2 ^ 64
         | Cli_Length a \<Rightarrow> cs_sessions d a \<noteq> None
         | Cli_Status a st \<Rightarrow> (case cs_sessions d a of None \<Rightarrow> False | Some svc \<Rightarrow> \<not> cli_queued svc)
         | Cli_Wake \<Rightarrow>
             cy_phase s = Cli_Waiting
             \<and> (case cs_thread_lock d of
                  None \<Rightarrow> False
                | Some l \<Rightarrow> (case tokens l (cy_world s) of None \<Rightarrow> False | Some n \<Rightarrow> 0 < n))
         | Cli_Finish \<Rightarrow> (case cy_phase s of Cli_In_Callback a output \<Rightarrow> True | _ \<Rightarrow> False))"

inductive cli_reachable ::
  "'w os \<Rightarrow> (size_t \<Rightarrow> size_t \<Rightarrow> 'w \<Rightarrow> ccimp_status_t \<times> 'w) \<Rightarrow> (nat \<Rightarrow> 'w \<Rightarrow> nat option) \<Rightarrow> 'w cli_system \<Rightarrow> 'w cli_system \<Rightarrow> bool"
  for os realloc tokens s0 where
  cli_start: "cli_reachable os realloc tokens s0 s0"
| cli_next: "cli_reachable os realloc tokens s0 s \<Longrightarrow> cli_allowed tokens e s \<Longrightarrow> cli_exec os realloc e s = Inr s'
    \<Longrightarrow> cli_reachable os realloc tokens s0 s'"

subsection \<open>The invariant\<close>

text \<open>An output is a string, of a length that is a \<open>size_t\<close>.\<close>

definition output_ok :: "u8 buffer option \<Rightarrow> bool" where
  "output_ok output \<longleftrightarrow>
     (case output of None \<Rightarrow> True | Some block \<Rightarrow> (\<exists>n. c_strlen block = Inr n) \<and> length block < 2 ^ 64)"

definition request_cb_ok :: "(nat \<Rightarrow> 'w \<Rightarrow> nat option) \<Rightarrow> nat \<Rightarrow> 'w ccapi_cli_request_cb_t \<Rightarrow> bool" where
  "request_cb_ok tokens thl f \<longleftrightarrow>
     (\<forall>t command place w. tokens thl (snd (f t command place w)) = tokens thl w
        \<and> (place = Some None \<longrightarrow> output_ok (fst (f t command place w))))"

definition finished_cb_ok :: "(nat \<Rightarrow> 'w \<Rightarrow> nat option) \<Rightarrow> nat \<Rightarrow> 'w ccapi_cli_finished_cb_t \<Rightarrow> bool" where
  "finished_cb_ok tokens thl f \<longleftrightarrow> (\<forall>output e w. tokens thl (f output e w) = tokens thl w)"

definition request_held :: "ccapi_buffer_info_t \<Rightarrow> bool" where
  "request_held info \<longleftrightarrow>
     (case info_buffer info of None \<Rightarrow> info_length info = 0 | Some block \<Rightarrow> length block = unat (info_length info))"

text \<open>A session: its buffers hold what their lengths say, and an error is all it has come to.\<close>

definition cli_session_ok :: "bool \<Rightarrow> ccapi_svc_cli_t \<Rightarrow> bool" where
  "cli_session_ok supported svc \<longleftrightarrow>
     request_held (sc_request_string_info svc) \<and> processing_ok (sc_response_processing svc)
     \<and> (sc_cli_thread_status svc = CCAPI_CLI_THREAD_REQUEST_CB_PROCESSED \<and> sc_response_required svc
        \<longrightarrow> output_ok (info_buffer (sc_response_string_info svc)))
     \<and> (sc_cli_thread_status svc \<noteq> CCAPI_CLI_THREAD_REQUEST_CB_PROCESSED \<and> sc_cli_thread_status svc \<noteq> CCAPI_CLI_THREAD_FREE
        \<and> \<not> sc_response_handled_internally svc \<longrightarrow> sc_response_string_info svc = no_buffer)
     \<and> (sc_response_handled_internally svc \<longrightarrow> sc_cli_error svc \<noteq> CCAPI_CLI_ERROR_NONE)
     \<and> (sc_cli_error svc \<noteq> CCAPI_CLI_ERROR_NONE \<and> \<not> sc_response_handled_internally svc
        \<longrightarrow> info_length (sc_response_string_info svc) = 0)
     \<and> (sc_cli_error svc \<noteq> CCAPI_CLI_ERROR_NONE \<longrightarrow> sc_cli_thread_status svc = CCAPI_CLI_THREAD_FREE \<or> \<not> supported)
     \<and> (\<not> supported \<longrightarrow> sc_cli_thread_status svc = CCAPI_CLI_THREAD_IDLE)"

definition cli_service_ok ::
  "(nat \<Rightarrow> 'w \<Rightarrow> nat option) \<Rightarrow> (size_t \<Rightarrow> size_t \<Rightarrow> 'w \<Rightarrow> ccimp_status_t \<times> 'w) \<Rightarrow> nat \<Rightarrow> 'w cli_state \<Rightarrow> bool" where
  "cli_service_ok tokens realloc thl d \<longleftrightarrow>
     cs_thread_status d = CCAPI_THREAD_RUNNING \<and> cs_thread_lock d = Some thl
     \<and> (\<forall>m n w. tokens thl (snd (realloc m n w)) = tokens thl w)
     \<and> (cs_supported d \<longrightarrow> (case cs_request_cb d of None \<Rightarrow> False | Some f \<Rightarrow> request_cb_ok tokens thl f))
     \<and> (case cs_finished_cb d of None \<Rightarrow> True | Some f \<Rightarrow> finished_cb_ok tokens thl f)"

definition cli_sessions_ok :: "'w cli_state \<Rightarrow> bool" where
  "cli_sessions_ok d \<longleftrightarrow>
     (\<forall>a svc. cs_sessions d a = Some svc \<longrightarrow>
        cli_session_ok (cs_supported d) svc \<and> a < cs_fresh d \<and> (cli_queued svc \<longleftrightarrow> cs_svc_cli d = Some a))
     \<and> (case cs_svc_cli d of None \<Rightarrow> True | Some a \<Rightarrow> cs_sessions d a \<noteq> None \<and> cs_supported d)"

definition cli_phase_ok :: "'w cli_system \<Rightarrow> bool" where
  "cli_phase_ok s \<longleftrightarrow>
     (case cy_phase s of
        Cli_Waiting \<Rightarrow> True
      | Cli_In_Callback a output \<Rightarrow>
          cs_svc_cli (cy_data s) = Some a
          \<and> (sc_response_required (the (cs_sessions (cy_data s) a)) \<longrightarrow> output_ok output)
      | Cli_Exited \<Rightarrow> False)"

definition cli_inv ::
  "(nat \<Rightarrow> 'w \<Rightarrow> nat option) \<Rightarrow> (size_t \<Rightarrow> size_t \<Rightarrow> 'w \<Rightarrow> ccimp_status_t \<times> 'w) \<Rightarrow> nat \<Rightarrow> 'w cli_system \<Rightarrow> bool" where
  "cli_inv tokens realloc thl s \<longleftrightarrow>
     cli_service_ok tokens realloc thl (cy_data s) \<and> cli_sessions_ok (cy_data s) \<and> cli_phase_ok s
     \<and> tokens thl (cy_world s) = Some (if cs_svc_cli (cy_data s) \<noteq> None \<and> cy_phase s = Cli_Waiting then 1 else 0)"

lemma put_cli_simps [simp]:
  "cs_supported (put_cli a svc d) = cs_supported d" "cs_request_cb (put_cli a svc d) = cs_request_cb d"
  "cs_finished_cb (put_cli a svc d) = cs_finished_cb d" "cs_fresh (put_cli a svc d) = cs_fresh d"
  "cs_svc_cli (put_cli a svc d) = cs_svc_cli d" "cs_thread_lock (put_cli a svc d) = cs_thread_lock d"
  "cs_thread_status (put_cli a svc d) = cs_thread_status d"
  "cs_sessions (put_cli a svc d) = (cs_sessions d)(a \<mapsto> svc)" "get_cli (put_cli a svc d) a = Inr svc"
  "cli_service_ok tokens realloc thl (put_cli a svc d) = cli_service_ok tokens realloc thl d"
  by (simp_all add: put_cli_def get_cli_def cli_service_ok_def)

lemma get_cli_Some [simp]: "cs_sessions d a = Some svc \<Longrightarrow> get_cli d a = Inr svc"
  by (simp add: get_cli_def)

text \<open>A session changes, and stays queued or not queued; the world changes, but not the lock.\<close>

lemma cli_inv_put:
  assumes inv: "cli_inv tokens realloc thl s" and at: "cs_sessions (cy_data s) a = Some svc"
    and ok: "cli_session_ok (cs_supported (cy_data s)) svc'" and queued: "cli_queued svc' = cli_queued svc"
    and required: "sc_response_required svc' = sc_response_required svc" and keeps: "tokens thl w' = tokens thl (cy_world s)"
  shows "cli_inv tokens realloc thl (s\<lparr>cy_data := put_cli a svc' (cy_data s), cy_world := w'\<rparr>)"
  using inv at ok queued required keeps
  by (auto simp: cli_inv_def cli_sessions_ok_def cli_phase_ok_def split: option.splits cli_thread_phase.splits)

text \<open>A new session, that is not queued.\<close>

lemma cli_inv_new:
  assumes inv: "cli_inv tokens realloc thl s" and ok: "cli_session_ok (cs_supported (cy_data s)) svc"
    and queued: "\<not> cli_queued svc" and keeps: "tokens thl w' = tokens thl (cy_world s)"
  shows "cli_inv tokens realloc thl
    (s\<lparr>cy_data := put_cli (cs_fresh (cy_data s)) svc ((cy_data s)\<lparr>cs_fresh := Suc (cs_fresh (cy_data s))\<rparr>), cy_world := w'\<rparr>)"
proof -
  let ?d = "cy_data s"
  have fresh: "cs_sessions ?d (cs_fresh ?d) = None"
    using inv by (cases "cs_sessions ?d (cs_fresh ?d)") (auto simp: cli_inv_def cli_sessions_ok_def)
  then have unused: "cs_svc_cli ?d \<noteq> Some (cs_fresh ?d)"
    using inv by (auto simp: cli_inv_def cli_sessions_ok_def split: option.splits)
  show ?thesis
    using inv ok queued keeps fresh unused
    by (auto simp: cli_inv_def cli_sessions_ok_def cli_phase_ok_def cli_service_ok_def less_Suc_eq
        split: option.splits cli_thread_phase.splits)
qed

lemma cli_inv_world:
  assumes "cli_inv tokens realloc thl s" and "tokens thl w' = tokens thl (cy_world s)"
  shows "cli_inv tokens realloc thl (s\<lparr>cy_world := w'\<rparr>)"
  using assms by (auto simp: cli_inv_def cli_phase_ok_def split: cli_thread_phase.splits)

subsection \<open>What the handlers do to a session\<close>

lemma append_command_effect:
  assumes held: "request_held (sc_request_string_info svc)"
    and size: "unat (info_length (sc_request_string_info svc)) + unat n < 2 ^ 64" and "unat n \<le> length buffer"
    and keeps: "\<And>m n w. tokens thl (snd (realloc m n w)) = tokens thl w"
  shows "\<exists>ok svc' w'. append_command realloc buffer n svc w = Inr (ok, svc', w') \<and> tokens thl w' = tokens thl w
    \<and> (\<not> ok \<longrightarrow> svc' = svc\<lparr>sc_cli_error := CCAPI_CLI_ERROR_INSUFFICIENT_MEMORY, sc_cli_thread_status := CCAPI_CLI_THREAD_FREE\<rparr>)
    \<and> (ok \<longrightarrow> (\<exists>info. svc' = svc\<lparr>sc_request_string_info := info\<rparr> \<and> request_held info))"
proof -
  let ?info = "sc_request_string_info svc"
  let ?new = "info_length ?info + n"
  obtain st w1 where r: "realloc (info_length ?info) ?new w = (st, w1)" by fastforce
  then have w1: "tokens thl w1 = tokens thl w" using keeps [of "info_length ?info" ?new w] by simp
  show ?thesis
  proof (cases "st = CCIMP_STATUS_OK")
    case False
    then have "append_command realloc buffer n svc w = Inr (False, svc\<lparr>sc_cli_error := CCAPI_CLI_ERROR_INSUFFICIENT_MEMORY,
        sc_cli_thread_status := CCAPI_CLI_THREAD_FREE\<rparr>, w1)" using r by (simp add: append_command_def)
    then show ?thesis using w1 by blast
  next
    case True
    have new: "unat ?new = unat (info_length ?info) + unat n" using size by (simp add: unat_plus_small)
    have "length (realloc_block (info_buffer ?info) ?new) = unat ?new"
      using held new by (auto simp: realloc_block_def request_held_def split: option.splits)
    moreover then obtain block where block:
      "memcpy_at (realloc_block (info_buffer ?info) ?new) (unat (info_length ?info)) (take (unat n) buffer) = Inr block"
      using new assms(3) memcpy_at_defined_iff [of "realloc_block (info_buffer ?info) ?new" "unat (info_length ?info)"
          "take (unat n) buffer"] by auto
    ultimately have "request_held \<lparr>info_buffer = Some block, info_length = ?new\<rparr>"
      using memcpy_at_length [OF block] by (simp add: request_held_def)
    then show ?thesis using r w1 True block assms(3) by (auto simp: append_command_def)
  qed
qed

lemma c_strlen_bound: "c_strlen block = Inr n \<Longrightarrow> length block < 2 ^ 64 \<Longrightarrow> unat n < length block"
proof -
  assume "c_strlen block = Inr n" and bound: "length block < 2 ^ 64"
  then have pre: "n = of_nat (length (takeWhile (\<lambda>x. x \<noteq> Some 0) block))"
    "length (takeWhile (\<lambda>x. x \<noteq> Some 0) block) \<noteq> length block"
    by (auto simp: c_strlen_def Let_def split: if_splits)
  have "length (takeWhile (\<lambda>x. x \<noteq> Some 0) block) < length block"
    using pre(2) length_takeWhile_le [of "\<lambda>x. x \<noteq> Some 0" block] by simp
  then show "unat n < length block" using bound by (simp add: pre(1) unat_of_nat_u64)
qed

lemma take_output_ok:
  assumes "cli_session_ok supported svc" and "sc_cli_thread_status svc = CCAPI_CLI_THREAD_REQUEST_CB_PROCESSED"
  shows "\<exists>svc'. take_output svc = Inr svc' \<and> cli_session_ok supported (svc'\<lparr>sc_cli_thread_status := CCAPI_CLI_THREAD_FREE\<rparr>)
    \<and> sc_response_required svc' = sc_response_required svc"
proof (cases "sc_response_required svc \<and> info_buffer (sc_response_string_info svc) \<noteq> None")
  case False
  then have "take_output svc = Inr svc" by (auto simp: take_output_def split: bool.splits option.splits)
  then show ?thesis using assms by (auto simp: cli_session_ok_def)
next
  case True
  then obtain block where block: "info_buffer (sc_response_string_info svc) = Some block" "sc_response_required svc" by auto
  then obtain n where n: "c_strlen block = Inr n" "length block < 2 ^ 64"
    using assms by (auto simp: cli_session_ok_def output_ok_def)
  have "unat (n + 1) \<le> length block"
    using c_strlen_bound [OF n] n(2) by (simp add: unat_plus_small)
  then have more: "processing_ok \<lparr>processing_block = Some block, processing_offset = 0, processing_length = n + 1\<rparr>"
    by (simp add: processing_ok_def)
  show ?thesis
    using assms block n(1) more
    by (cases "n = 0") (auto simp: take_output_def Let_def copy_output_def cli_session_ok_def)
qed

lemma cli_error_message_fits:
  "length (cli_error_message e) < length (cli_error_str e) + (length CLI_ERROR_MESSAGE + 1)"
  "length (cli_error_message e) < 2 ^ 64"
  by (cases e; simp add: cli_error_message_def CLI_ERROR_MESSAGE_def cli_error_str_def cli_error_value_def decimal.simps)+

context os_locks
begin

lemma prepare_cli_response_effect:
  assumes "cli_session_ok supported svc"
  shows "\<exists>svc' w'. prepare_cli_response os svc w = Inr (svc', w') \<and> cli_session_ok supported svc'
    \<and> sc_cli_thread_status svc' = sc_cli_thread_status svc \<and> sc_response_required svc' = sc_response_required svc
    \<and> (\<forall>k. tokens k w' = tokens k w)"
proof (cases "sc_cli_error svc \<noteq> CCAPI_CLI_ERROR_NONE \<and> \<not> sc_response_handled_internally svc")
  case False
  then show ?thesis using assms by (auto simp: prepare_cli_response_def)
next
  case True
  let ?e = "sc_cli_error svc"
  obtain ok w1 where m: "ccapi_malloc os (Bytes (length (cli_error_str ?e) + (length CLI_ERROR_MESSAGE + 1))) w = (ok, w1)"
    by fastforce
  then have w1: "tokens k w1 = tokens k w" for k
    using malloc_tokens [of k "Bytes (length (cli_error_str ?e) + (length CLI_ERROR_MESSAGE + 1))" w] by simp
  have free: "sc_cli_thread_status svc = CCAPI_CLI_THREAD_FREE \<or> \<not> supported" using assms True by (simp add: cli_session_ok_def)
  have none: "info_length (sc_response_string_info svc) = 0" using assms True by (simp add: cli_session_ok_def)
  show ?thesis
  proof (cases ok)
    case False
    have "processing_ok \<lparr>processing_block = None, processing_offset = 0, processing_length = 0\<rparr>" by (simp add: processing_ok_def)
    then show ?thesis
      using assms True False m w1 free none
      by (auto simp: prepare_cli_response_def fill_cli_internal_error_def Let_def copy_output_def cli_session_ok_def)
  next
    case ok: True
    let ?room = "length (cli_error_str ?e) + (length CLI_ERROR_MESSAGE + 1)"
    have fits: "length (bytes_of_string (cli_error_message ?e @ [CHR 0x00])) \<le> ?room"
      using cli_error_message_fits(1) [of ?e] by (simp add: bytes_of_string_def)
    then obtain block where block:
      "memcpy_at (replicate ?room None) 0 (bytes_of_string (cli_error_message ?e @ [CHR 0x00])) = Inr block"
      using memcpy_at_defined_iff [of "replicate ?room None" 0 "bytes_of_string (cli_error_message ?e @ [CHR 0x00])"] by auto
    have "length (cli_error_message ?e) \<le> length block"
      using memcpy_at_length [OF block] cli_error_message_fits(1) [of ?e] by simp
    then have "processing_ok \<lparr>processing_block = Some block, processing_offset = 0,
        processing_length = of_nat (length (cli_error_message ?e))\<rparr>"
      using cli_error_message_fits(2) [of ?e] by (simp add: processing_ok_def unat_of_nat_u64)
    then show ?thesis
      using assms True ok m w1 free none block
      by (auto simp: prepare_cli_response_def fill_cli_internal_error_def Let_def copy_output_def cli_session_ok_def)
  qed
qed

end

lemma send_cli_piece_reads:
  assumes "processing_ok (sc_response_processing svc)" and "n < 2 ^ 64"
  shows "\<exists>r p'. send_cli_piece (cli_reply_request a n) svc = Inr (r, svc\<lparr>sc_response_processing := p'\<rparr>)
    \<and> take (unat (cr_bytes_used r)) (cr_buffer r) = take n (response_rest (sc_response_processing svc))
    \<and> processing_ok p' \<and> response_rest p' = drop n (response_rest (sc_response_processing svc))
    \<and> cr_more_data r = (response_rest p' \<noteq> [])"
proof -
  let ?p = "sc_response_processing svc"
  let ?p' = "processing_advance n ?p"
  define r where "r = (cli_reply_request a n)\<lparr>
      cr_buffer := take n (response_rest ?p) @ replicate (n - unat (processing_room n ?p)) None,
      cr_bytes_used := processing_room n ?p, cr_more_data := (0 < processing_length ?p')\<rparr>"
  have req: "cr_bytes_available (cli_reply_request a n) = of_nat n" "cr_buffer (cli_reply_request a n) = replicate n None"
    by (simp_all add: cli_reply_request_def)
  have "send_cli_piece (cli_reply_request a n) svc = Inr (r, svc\<lparr>sc_response_processing := ?p'\<rparr>)"
    unfolding send_cli_piece_def Let_def req processing_room_def [symmetric]
      processing_read(1) [OF assms] ub_bind_Inr processing_write [OF assms]
    by (simp add: r_def processing_advance_def)
  moreover have "take (unat (cr_bytes_used r)) (cr_buffer r) = take n (response_rest ?p)"
    unfolding r_def by (simp add: processing_read(2) [OF assms, symmetric] min_def)
  moreover have "cr_more_data r = (response_rest ?p' \<noteq> [])"
    using response_rest_more [OF processing_advance_ok(1) [OF assms]] by (simp add: r_def)
  ultimately show ?thesis using processing_advance_ok [OF assms] by blast
qed

subsection \<open>Every step keeps the invariant\<close>

lemma more_data_simps [simp]:
  "cli_session_ok supported (svc\<lparr>sc_more_data := rest\<rparr>) = cli_session_ok supported svc"
  "cli_queued (svc\<lparr>sc_more_data := rest\<rparr>) = cli_queued svc"
  by (simp_all add: cli_session_ok_def cli_queued_def)

lemma new_cli_ok: "cli_session_ok supported (new_cli ptr)" "\<not> cli_queued (new_cli ptr)"
  "sc_cli_thread_status (new_cli ptr) = CCAPI_CLI_THREAD_IDLE" "info_length (sc_request_string_info (new_cli ptr)) = 0"
  by (simp_all add: new_cli_def cli_session_ok_def cli_queued_def request_held_def processing_ok_def no_buffer_def)

lemma idle_step_effect:
  assumes idle: "sc_cli_thread_status svc = CCAPI_CLI_THREAD_IDLE" and ok: "cli_session_ok True svc"
    and size: "unat (info_length (sc_request_string_info svc)) + unat (cq_bytes_used ptr) < 2 ^ 64"
    and length: "unat (cq_bytes_used ptr) \<le> length buffer"
    and keeps: "\<And>m n w. tokens thl (snd (realloc m n w)) = tokens thl w"
  shows "\<exists>status svc' w'. cli_request_step os realloc buffer ptr a svc d w = Inr (status, put_cli a svc' d, w')
    \<and> cli_session_ok True svc' \<and> \<not> cli_queued svc' \<and> sc_response_required svc' = sc_response_required svc
    \<and> tokens thl w' = tokens thl w"
proof -
  have held: "request_held (sc_request_string_info svc)" using ok by (simp add: cli_session_ok_def)
  obtain good svc1 w1 where *: "append_command realloc buffer (cq_bytes_used ptr) svc w = Inr (good, svc1, w1)"
    "tokens thl w1 = tokens thl w"
    "\<not> good \<longrightarrow> svc1 = svc\<lparr>sc_cli_error := CCAPI_CLI_ERROR_INSUFFICIENT_MEMORY, sc_cli_thread_status := CCAPI_CLI_THREAD_FREE\<rparr>"
    "good \<longrightarrow> (\<exists>info. svc1 = svc\<lparr>sc_request_string_info := info\<rparr> \<and> request_held info)"
    using append_command_effect [OF held size length, of tokens thl realloc w, OF keeps] by (elim exE conjE) (rule that, assumption+)
  have err: "sc_cli_error svc = CCAPI_CLI_ERROR_NONE" "\<not> sc_response_handled_internally svc"
    using ok idle by (auto simp: cli_session_ok_def)
  show ?thesis
  proof (cases good)
    case False
    then show ?thesis
      using * ok idle err by (auto simp: cli_request_step_def cli_session_ok_def cli_queued_def no_buffer_def)
  next
    case True
    then obtain info where "svc1 = svc\<lparr>sc_request_string_info := info\<rparr>" "request_held info" using *(4) by blast
    then show ?thesis
      using True *(1,2) ok idle err
      by (cases "cq_more_data ptr") (auto simp: cli_request_step_def cli_session_ok_def cli_queued_def)
  qed
qed

context os_locks
begin

lemma cli_queue_inv:
  assumes inv: "cli_inv tokens realloc thl s" and at: "cs_sessions (cy_data s) a = Some svc"
    and ready: "sc_cli_thread_status svc = CCAPI_CLI_THREAD_REQUEST_CB_READY" and none: "cs_svc_cli (cy_data s) = None"
  shows "cli_inv tokens realloc thl
    (s\<lparr>cy_data := put_cli a (svc\<lparr>sc_more_data := rest, sc_cli_thread_status := CCAPI_CLI_THREAD_REQUEST_CB_QUEUED\<rparr>)
         ((cy_data s)\<lparr>cs_svc_cli := Some a\<rparr>),
       cy_world := snd (ccapi_lock_release os (cs_thread_lock (cy_data s)) (cy_world s))\<rparr>)"
proof -
  let ?svc' = "svc\<lparr>sc_more_data := rest, sc_cli_thread_status := CCAPI_CLI_THREAD_REQUEST_CB_QUEUED\<rparr>"
  have token: "tokens thl (cy_world s) = Some 0" and lock: "cs_thread_lock (cy_data s) = Some thl"
    using inv none by (simp_all add: cli_inv_def cli_service_ok_def)
  obtain w' where w': "ccapi_lock_release os (Some thl) (cy_world s) = (CCIMP_STATUS_OK, w')" "tokens thl w' = Some (Suc 0)"
    using lock_released [OF token] by metis
  have phase: "cy_phase s = Cli_Waiting"
    using inv none by (auto simp: cli_inv_def cli_phase_ok_def split: cli_thread_phase.splits)
  have sup: "cs_supported (cy_data s)" and ok: "cli_session_ok True svc"
    using inv at ready by (fastforce simp: cli_inv_def cli_sessions_ok_def cli_session_ok_def)+
  then have "cli_session_ok True ?svc'" "cli_queued ?svc'"
    using ready by (auto simp: cli_session_ok_def cli_queued_def)
  then show ?thesis
    using inv at none sup phase w' lock
    by (auto simp: cli_inv_def cli_sessions_ok_def cli_phase_ok_def cli_service_ok_def)
qed

lemma cli_request_inv:
  assumes inv: "cli_inv tokens realloc thl s" and allowed: "cli_allowed tokens (Cli_Request ptr) s"
  shows "\<exists>s'. cli_exec os realloc (Cli_Request ptr) s = Inr s' \<and> cli_inv tokens realloc thl s'"
proof (cases "cq_buffer ptr = None \<or> cq_bytes_used ptr = 0")
  case True
  then show ?thesis
    using inv by (cases "cq_buffer ptr") (auto simp: cli_exec_def ccapi_process_cli_request_def Let_def)
next
  case False
  then obtain buffer where buffer: "cq_buffer ptr = Some buffer" "cq_bytes_used ptr \<noteq> 0" "unat (cq_bytes_used ptr) \<le> length buffer"
    using allowed by (auto simp: cli_allowed_def)
  let ?d = "cy_data s" and ?w = "cy_world s"
  have keeps: "tokens thl (snd (realloc m n w)) = tokens thl w" for m n w using inv by (simp add: cli_inv_def cli_service_ok_def)
  show ?thesis
  proof (cases "cq_user_context ptr")
    case None
    let ?d1 = "?d\<lparr>cs_fresh := Suc (cs_fresh ?d)\<rparr>"
    obtain ok w1 where m: "ccapi_malloc os (Sizeof ''ccapi_svc_cli_t'') ?w = (ok, w1)" by fastforce
    then have w1: "tokens thl w1 = tokens thl ?w" using malloc_tokens [of thl "Sizeof ''ccapi_svc_cli_t''" ?w] by simp
    show ?thesis
    proof (cases "ok \<and> cs_supported ?d")
      case True
      have size: "unat (info_length (sc_request_string_info (new_cli ptr))) + unat (cq_bytes_used ptr) < 2 ^ 64"
        using unsigned_less [of "cq_bytes_used ptr", where 'a = nat] by (simp add: new_cli_ok)
      from idle_step_effect [where d = ?d1 and a = "cs_fresh ?d" and w = w1 and os = os and realloc = realloc and tokens = tokens and thl = thl,
          OF new_cli_ok(3,1) size buffer(3) keeps] obtain status svc' w' where
        "cli_request_step os realloc buffer ptr (cs_fresh ?d) (new_cli ptr) ?d1 w1 = Inr (status, put_cli (cs_fresh ?d) svc' ?d1, w')"
        "cli_session_ok True svc'" "\<not> cli_queued svc'" "tokens thl w' = tokens thl w1"
        by (elim exE conjE) (rule that, assumption+)
      then show ?thesis
        using cli_inv_new [OF inv, of svc' w'] w1 None m True buffer
        by (simp add: cli_exec_def ccapi_process_cli_request_def cli_session_of_def Let_def)
    next
      case False
      let ?svc = "(new_cli ptr)\<lparr>sc_cli_error := CCAPI_CLI_ERROR_NO_CLI_SUPPORT\<rparr>"
      show ?thesis
      proof (cases ok)
        case True
        then have sup: "\<not> cs_supported ?d" using False by simp
        then have "cli_session_ok (cs_supported ?d) ?svc" "\<not> cli_queued ?svc"
          by (simp_all add: new_cli_def cli_session_ok_def cli_queued_def request_held_def processing_ok_def no_buffer_def)
        then show ?thesis
          using cli_inv_new [OF inv, of ?svc w1] w1 None m True sup buffer
          by (simp add: cli_exec_def ccapi_process_cli_request_def cli_session_of_def Let_def)
      next
        case no: False
        have "s\<lparr>cy_data := ?d, cy_world := w1\<rparr> = s\<lparr>cy_world := w1\<rparr>" by simp
        then show ?thesis
          using cli_inv_world [OF inv w1] None m no buffer
          by (simp add: cli_exec_def ccapi_process_cli_request_def cli_session_of_def Let_def)
      qed
    qed
  next
    case (Some a)
    then obtain svc where svc: "cs_sessions ?d a = Some svc"
      "unat (info_length (sc_request_string_info svc)) + unat (cq_bytes_used ptr) < 2 ^ 64"
      using allowed by (auto simp: cli_allowed_def split: option.splits)
    let ?svc = "svc\<lparr>sc_more_data := cq_more_data ptr\<rparr>"
    have ok: "cli_session_ok (cs_supported ?d) svc" using inv svc by (simp add: cli_inv_def cli_sessions_ok_def)
    show ?thesis
    proof (cases "cs_supported ?d")
      case False
      let ?svc' = "?svc\<lparr>sc_cli_error := CCAPI_CLI_ERROR_NO_CLI_SUPPORT\<rparr>"
      have "cli_session_ok (cs_supported ?d) ?svc'" "cli_queued ?svc' = cli_queued svc"
        using ok False by (auto simp: cli_session_ok_def cli_queued_def no_buffer_def)
      then show ?thesis
        using cli_inv_put [OF inv svc(1), of ?svc' ?w] Some False svc buffer
        by (simp add: cli_exec_def ccapi_process_cli_request_def cli_session_of_def Let_def)
    next
      case sup: True
      have exec: "cli_exec os realloc (Cli_Request ptr) s =
          ub_bind (cli_request_step os realloc buffer ptr a ?svc ?d ?w) (\<lambda>(status, d2, w2). Inr (s\<lparr>cy_data := d2, cy_world := w2\<rparr>))"
        using sup Some svc buffer
        by (cases "cli_request_step os realloc buffer ptr a ?svc ?d ?w")
          (auto simp: cli_exec_def ccapi_process_cli_request_def cli_session_of_def)
      show ?thesis
      proof (cases "sc_cli_thread_status svc")
        case CCAPI_CLI_THREAD_IDLE
        have idle: "sc_cli_thread_status ?svc = CCAPI_CLI_THREAD_IDLE" "cli_session_ok True ?svc"
          "unat (info_length (sc_request_string_info ?svc)) + unat (cq_bytes_used ptr) < 2 ^ 64"
          using CCAPI_CLI_THREAD_IDLE ok sup svc by simp_all
        from idle_step_effect [where d = ?d and a = a and w = ?w and os = os and realloc = realloc and tokens = tokens and thl = thl,
            OF idle buffer(3) keeps] obtain status svc' w' where
          "cli_request_step os realloc buffer ptr a ?svc ?d ?w = Inr (status, put_cli a svc' ?d, w')"
          "cli_session_ok True svc'" "\<not> cli_queued svc'" "sc_response_required svc' = sc_response_required ?svc"
          "tokens thl w' = tokens thl ?w"
          by (elim exE conjE) (rule that, assumption+)
        then show ?thesis
          using cli_inv_put [OF inv svc(1), of svc' w'] sup CCAPI_CLI_THREAD_IDLE exec by (simp add: cli_queued_def)
      next
        case CCAPI_CLI_THREAD_REQUEST_CB_READY
        then show ?thesis
          using cli_queue_inv [OF inv svc(1) CCAPI_CLI_THREAD_REQUEST_CB_READY, of "cq_more_data ptr"]
            cli_inv_put [OF inv svc(1), of ?svc ?w] ok exec
          by (cases "cs_svc_cli ?d = None") (simp_all add: cli_request_step_def)
      next
        case CCAPI_CLI_THREAD_REQUEST_CB_PROCESSED
        then obtain svc' where "take_output ?svc = Inr svc'" "cli_session_ok True (svc'\<lparr>sc_cli_thread_status := CCAPI_CLI_THREAD_FREE\<rparr>)"
          "sc_response_required svc' = sc_response_required svc"
          using take_output_ok [of True ?svc] ok sup by auto
        then show ?thesis
          using cli_inv_put [OF inv svc(1), of "svc'\<lparr>sc_cli_thread_status := CCAPI_CLI_THREAD_FREE\<rparr>"
              "snd (ccapi_free os (info_buffer (sc_request_string_info svc) \<noteq> None) ?w)"] sup CCAPI_CLI_THREAD_REQUEST_CB_PROCESSED exec
          by (simp add: cli_request_step_def Let_def cli_queued_def)
      next
        case CCAPI_CLI_THREAD_REQUEST_CB_QUEUED
        then show ?thesis using cli_inv_put [OF inv svc(1), of ?svc ?w] ok exec by (simp add: cli_request_step_def)
      next
        case CCAPI_CLI_THREAD_FREE
        then show ?thesis using cli_inv_put [OF inv svc(1), of ?svc ?w] ok exec by (simp add: cli_request_step_def)
      qed
    qed
  qed
qed

lemma cli_reply_inv:
  assumes inv: "cli_inv tokens realloc thl s" and allowed: "cli_allowed tokens (Cli_Reply a n) s"
  shows "\<exists>s'. cli_exec os realloc (Cli_Reply a n) s = Inr s' \<and> cli_inv tokens realloc thl s'"
proof -
  let ?d = "cy_data s" and ?w = "cy_world s"
  obtain svc where svc: "cs_sessions ?d a = Some svc" and n: "n < 2 ^ 64" using allowed by (auto simp: cli_allowed_def)
  have ok: "cli_session_ok (cs_supported ?d) svc" using inv svc by (simp add: cli_inv_def cli_sessions_ok_def)
  have same: "s\<lparr>cy_data := ?d, cy_world := ?w\<rparr> = s" by simp
  have ctx: "cr_user_context (cli_reply_request a n) = Some a" by (simp add: cli_reply_request_def)
  show ?thesis
  proof (cases "sc_response_required svc")
    case False
    then show ?thesis using inv svc by (simp add: cli_exec_def ccapi_process_cli_response_def ctx Let_def same)
  next
    case True
    obtain svc1 w1 where prep: "prepare_cli_response os svc ?w = Inr (svc1, w1)" "cli_session_ok (cs_supported ?d) svc1"
      "sc_cli_thread_status svc1 = sc_cli_thread_status svc" "sc_response_required svc1 = sc_response_required svc"
      "tokens thl w1 = tokens thl ?w"
      using prepare_cli_response_effect [OF ok, of ?w] by auto
    have "processing_ok (sc_response_processing svc1)" using prep(2) by (simp add: cli_session_ok_def)
    from send_cli_piece_reads [OF this n, of a] obtain r p' where
      piece: "send_cli_piece (cli_reply_request a n) svc1 = Inr (r, svc1\<lparr>sc_response_processing := p'\<rparr>)" "processing_ok p'"
      by blast
    have "cli_session_ok (cs_supported ?d) (svc1\<lparr>sc_response_processing := p'\<rparr>)"
      "cli_queued (svc1\<lparr>sc_response_processing := p'\<rparr>) = cli_queued svc"
      using prep(2,3) piece(2) by (simp_all add: cli_session_ok_def cli_queued_def)
    then show ?thesis
      using cli_inv_put [OF inv svc, of "svc1\<lparr>sc_response_processing := p'\<rparr>" w1] prep piece svc True
      by (simp add: cli_exec_def ccapi_process_cli_response_def ctx Let_def)
  qed
qed

lemma cli_status_inv:
  assumes inv: "cli_inv tokens realloc thl s" and allowed: "cli_allowed tokens (Cli_Status a st) s"
  shows "\<exists>s'. cli_exec os realloc (Cli_Status a st) s = Inr s' \<and> cli_inv tokens realloc thl s'"
proof -
  let ?d = "cy_data s"
  obtain svc where svc: "cs_sessions ?d a = Some svc" "\<not> cli_queued svc"
    using allowed by (auto simp: cli_allowed_def split: option.splits)
  then have other: "cs_svc_cli ?d \<noteq> Some a" using inv by (auto simp: cli_inv_def cli_sessions_ok_def)
  have told: "tokens thl (tell_finished ?d svc' w) = tokens thl w" for svc' w
    using inv by (auto simp: cli_inv_def cli_service_ok_def tell_finished_def finished_cb_ok_def
        split: bool.splits option.splits)
  have keep: "cli_inv tokens realloc thl (s\<lparr>cy_data := ?d\<lparr>cs_sessions := (cs_sessions ?d)(a := None)\<rparr>, cy_world := w'\<rparr>)"
    if "tokens thl w' = tokens thl (cy_world s)" for w'
    using inv other that
    by (auto simp: cli_inv_def cli_sessions_ok_def cli_phase_ok_def cli_service_ok_def split: option.splits cli_thread_phase.splits)
  show ?thesis
    using svc by (simp add: cli_exec_def ccapi_process_cli_status_def Let_def keep told)
qed

lemma cli_wake_inv:
  assumes inv: "cli_inv tokens realloc thl s" and allowed: "cli_allowed tokens Cli_Wake s"
  shows "\<exists>s'. cli_exec os realloc Cli_Wake s = Inr s' \<and> cli_inv tokens realloc thl s'"
proof -
  let ?d = "cy_data s" and ?w = "cy_world s"
  have lock: "cs_thread_lock ?d = Some thl" "cs_thread_status ?d = CCAPI_THREAD_RUNNING" and wait: "cy_phase s = Cli_Waiting"
    using inv allowed by (simp_all add: cli_inv_def cli_service_ok_def cli_allowed_def Let_def)
  have "cs_svc_cli ?d \<noteq> None" "tokens thl ?w = Some (Suc 0)"
    using inv allowed lock wait by (auto simp: cli_inv_def cli_allowed_def Let_def split: if_splits)
  then obtain a where a: "cs_svc_cli ?d = Some a" and token: "tokens thl ?w = Some (Suc 0)" by blast
  obtain svc where svc: "cs_sessions ?d a = Some svc" "cli_queued svc" "cs_supported ?d" "cli_session_ok True svc"
    using inv a by (auto simp: cli_inv_def cli_sessions_ok_def)
  obtain f where f: "cs_request_cb ?d = Some f" "request_cb_ok tokens thl f"
    using inv svc(3) by (auto simp: cli_inv_def cli_service_ok_def split: option.splits)
  obtain w1 where w1: "ccapi_lock_acquire os (Some thl) ?w = (CCIMP_STATUS_OK, w1)" "tokens thl w1 = Some 0"
    using lock_acquired [OF token] by metis
  let ?place = "if sc_response_required svc then Some (info_buffer (sc_response_string_info svc)) else None"
  obtain outp w2 where call: "f (sc_transport svc) (info_buffer (sc_request_string_info svc)) ?place w1 = (outp, w2)" by fastforce
  have empty: "info_buffer (sc_response_string_info svc) = None"
    using svc(2,4) by (auto simp: cli_session_ok_def cli_queued_def no_buffer_def)
  have "tokens thl (snd (f (sc_transport svc) (info_buffer (sc_request_string_info svc)) ?place w1)) = tokens thl w1
      \<and> (?place = Some None \<longrightarrow> output_ok (fst (f (sc_transport svc) (info_buffer (sc_request_string_info svc)) ?place w1)))"
    using f(2) unfolding request_cb_ok_def by blast
  then have out: "tokens thl w2 = Some 0" "sc_response_required svc \<longrightarrow> output_ok outp"
    using call w1(2) empty by auto
  have "cli_exec os realloc Cli_Wake s = Inr (s\<lparr>cy_data := ?d, cy_world := w2, cy_phase := Cli_In_Callback a outp\<rparr>)"
    using lock w1 a svc f call by (simp add: cli_exec_def cli_thread_wake_def cli_queued_def Let_def)
  then show ?thesis
    using inv a svc(1) out by (auto simp: cli_inv_def cli_phase_ok_def)
qed

lemma cli_finish_inv:
  assumes inv: "cli_inv tokens realloc thl s" and allowed: "cli_allowed tokens Cli_Finish s"
  shows "\<exists>s'. cli_exec os realloc Cli_Finish s = Inr s' \<and> cli_inv tokens realloc thl s'"
proof -
  let ?d = "cy_data s"
  obtain a outp where phase: "cy_phase s = Cli_In_Callback a outp"
    using allowed by (auto simp: cli_allowed_def split: cli_thread_phase.splits)
  have a: "cs_svc_cli ?d = Some a" and out: "sc_response_required (the (cs_sessions ?d a)) \<longrightarrow> output_ok outp"
    using inv phase by (simp_all add: cli_inv_def cli_phase_ok_def)
  obtain svc where svc: "cs_sessions ?d a = Some svc" "cli_queued svc" "cs_supported ?d" "cli_session_ok True svc"
    using inv a by (auto simp: cli_inv_def cli_sessions_ok_def)
  have run: "cs_thread_status ?d = CCAPI_THREAD_RUNNING" using inv by (simp add: cli_inv_def cli_service_ok_def)
  define svc' where "svc' = (if sc_response_required svc
      then svc\<lparr>sc_response_string_info := (sc_response_string_info svc)\<lparr>info_buffer := outp\<rparr>\<rparr> else svc)
        \<lparr>sc_cli_thread_status := CCAPI_CLI_THREAD_REQUEST_CB_PROCESSED\<rparr>"
  have err: "sc_cli_error svc = CCAPI_CLI_ERROR_NONE" "\<not> sc_response_handled_internally svc"
    using svc(2,4) by (auto simp: cli_session_ok_def cli_queued_def)
  have ok: "cli_session_ok True svc'" "\<not> cli_queued svc'"
    using svc out err by (auto simp: svc'_def cli_session_ok_def cli_queued_def)
  have "cli_exec os realloc Cli_Finish s =
      Inr (s\<lparr>cy_data := (put_cli a svc' ?d)\<lparr>cs_svc_cli := None\<rparr>, cy_phase := Cli_Waiting\<rparr>)"
    using phase svc run by (simp add: cli_exec_def cli_thread_finish_def Let_def svc'_def cli_queued_def)
  moreover have "cli_inv tokens realloc thl (s\<lparr>cy_data := (put_cli a svc' ?d)\<lparr>cs_svc_cli := None\<rparr>, cy_phase := Cli_Waiting\<rparr>)"
    using inv a svc ok phase
    by (auto simp: cli_inv_def cli_sessions_ok_def cli_phase_ok_def cli_service_ok_def)
  ultimately show ?thesis by blast
qed

lemma cli_exec_inv:
  assumes inv: "cli_inv tokens realloc thl s" and allowed: "cli_allowed tokens e s"
  shows "\<exists>s'. cli_exec os realloc e s = Inr s' \<and> cli_inv tokens realloc thl s'"
proof (cases e)
  case (Cli_Length a)
  then obtain svc where "cs_sessions (cy_data s) a = Some svc" using allowed by (auto simp: cli_allowed_def)
  then show ?thesis using inv Cli_Length by (simp add: cli_exec_def ccapi_process_cli_response_length_def Let_def)
qed (use cli_request_inv [OF inv] cli_reply_inv [OF inv] cli_status_inv [OF inv] cli_wake_inv [OF inv] cli_finish_inv [OF inv] allowed in simp_all)

lemma cli_reachable_inv:
  assumes "cli_reachable os realloc tokens s0 s" and "cli_inv tokens realloc thl s0"
  shows "cli_inv tokens realloc thl s"
  using assms(1)
proof induction
  case (cli_next s e s')
  then show ?case using cli_exec_inv [OF cli_next.IH cli_next.hyps(2)] by auto
qed (rule assms(2))

end

end
