(* ===== verification/CliClaims.thy ===== *)
theory CliClaims
  imports CliSystem
begin

text \<open>
  The properties of the command line: no step is undefined, a command arrives whole and its
  output goes back whole, and what ends a session whose callback is queued.
\<close>

subsection \<open>A command in packets\<close>

primrec cli_run ::
  "'w os \<Rightarrow> (size_t \<Rightarrow> size_t \<Rightarrow> 'w \<Rightarrow> ccimp_status_t \<times> 'w) \<Rightarrow> cli_event list \<Rightarrow> 'w cli_system \<Rightarrow> 'w cli_system ub" where
  "cli_run os realloc [] s = Inr s"
| "cli_run os realloc (e # es) s = ub_bind (cli_exec os realloc e s) (cli_run os realloc es)"

lemma cli_run_append:
  "cli_run os realloc (es @ fs) s = ub_bind (cli_run os realloc es s) (cli_run os realloc fs)"
  by (induction es arbitrary: s) (simp_all add: ub_bind_def split: sum.split)

definition cli_packet :: "ptr \<Rightarrow> connector_transport_t \<Rightarrow> u8 list \<Rightarrow> bool \<Rightarrow> connector_sm_cli_request_t" where
  "cli_packet context transport bytes rest =
     \<lparr>cq_user_context = context, cq_transport = transport, cq_buffer = Some bytes, cq_bytes_used = of_nat (length bytes),
      cq_response_required = True, cq_more_data = rest\<rparr>"

text \<open>The packets of a command after the first; the last is repeated while it is answered busy.\<close>

fun packet_events :: "nat \<Rightarrow> connector_transport_t \<Rightarrow> u8 list list \<Rightarrow> cli_event list" where
  "packet_events a transport [] = []"
| "packet_events a transport (p # ps) = Cli_Request (cli_packet (Some a) transport p (ps \<noteq> [])) # packet_events a transport ps"

definition command_events :: "nat \<Rightarrow> connector_transport_t \<Rightarrow> u8 list list \<Rightarrow> cli_event list" where
  "command_events a transport ps =
     Cli_Request (cli_packet None transport (hd ps) (tl ps \<noteq> [])) # packet_events a transport (tl ps)"

definition again :: "nat \<Rightarrow> connector_transport_t \<Rightarrow> u8 list list \<Rightarrow> cli_event" where
  "again a transport ps = Cli_Request (cli_packet (Some a) transport (last ps) False)"

definition realloc_fine ::
  "(nat \<Rightarrow> 'w \<Rightarrow> nat option) \<Rightarrow> nat \<Rightarrow> (size_t \<Rightarrow> size_t \<Rightarrow> 'w \<Rightarrow> ccimp_status_t \<times> 'w) \<Rightarrow> bool" where
  "realloc_fine tokens thl realloc \<longleftrightarrow>
     (\<forall>m n w. fst (realloc m n w) = CCIMP_STATUS_OK \<and> tokens thl (snd (realloc m n w)) = tokens thl w)"

text \<open>What a session has collected.\<close>

definition held :: "u8 list \<Rightarrow> ccapi_buffer_info_t" where
  "held xs = (if xs = [] then no_buffer else \<lparr>info_buffer = Some (map Some xs), info_length = of_nat (length xs)\<rparr>)"

lemma append_held:
  assumes "sc_request_string_info svc = held xs" and "bs \<noteq> []" and "length (xs @ bs) < 2 ^ 64"
    and "realloc_fine tokens thl realloc"
  shows "append_command realloc bs (of_nat (length bs)) svc w =
    Inr (True, svc\<lparr>sc_request_string_info := held (xs @ bs)\<rparr>, snd (realloc (of_nat (length xs)) (of_nat (length (xs @ bs))) w))"
proof -
  have lengths: "info_length (held xs) = of_nat (length xs)" "unat (of_nat (length xs) :: u64) = length xs"
    "unat (of_nat (length bs) :: u64) = length bs" "unat (of_nat (length (xs @ bs)) :: u64) = length (xs @ bs)"
    using assms(3) unat_of_nat_u64 [of "length (xs @ bs)"] unat_of_nat_u64 [of "length xs"] unat_of_nat_u64 [of "length bs"]
    by (simp_all add: held_def no_buffer_def del: of_nat_add)
  have "realloc_block (info_buffer (held xs)) (of_nat (length (xs @ bs))) = map Some xs @ replicate (length bs) None"
    using lengths(4) by (simp add: realloc_block_def held_def no_buffer_def del: of_nat_add)
  then have "memcpy_at (realloc_block (info_buffer (held xs)) (of_nat (length (xs @ bs)))) (length xs) bs = Inr (map Some (xs @ bs))"
    by (simp add: memcpy_at_def)
  moreover obtain w1 where "realloc (of_nat (length xs)) (of_nat (length (xs @ bs))) w = (CCIMP_STATUS_OK, w1)"
    using assms(4) unfolding realloc_fine_def by (metis prod.collapse)
  ultimately show ?thesis
    using assms(1,2) lengths by (simp add: append_command_def Let_def held_def)
qed

text \<open>A packet of a session that is collecting, new or not.\<close>

definition collected :: "bool \<Rightarrow> u8 list \<Rightarrow> ccapi_svc_cli_t \<Rightarrow> ccapi_svc_cli_t" where
  "collected rest xs svc =
     svc\<lparr>sc_more_data := rest, sc_request_string_info := held xs,
         sc_cli_thread_status := (if rest then CCAPI_CLI_THREAD_IDLE else CCAPI_CLI_THREAD_REQUEST_CB_READY)\<rparr>"

lemma packet_nonzero:
  assumes "bs \<noteq> []" and "length (xs @ bs) < 2 ^ 64"
  shows "(of_nat (length bs) :: u64) \<noteq> 0"
proof -
  have "unat (of_nat (length bs) :: u64) = length bs" using assms(2) by (intro unat_of_nat_u64) simp
  then show ?thesis using assms(1) by (metis length_0_conv unsigned_0)
qed

lemma packet_step:
  assumes svc: "sc_request_string_info svc = held xs" "sc_cli_thread_status svc = CCAPI_CLI_THREAD_IDLE"
    and bs: "bs \<noteq> []" "length (xs @ bs) < 2 ^ 64" and fine: "realloc_fine tokens thl realloc"
  shows "\<exists>status w'. cli_request_step os realloc bs (cli_packet context transport bs rest) a (svc\<lparr>sc_more_data := rest\<rparr>) d w =
      Inr (status, put_cli a (collected rest (xs @ bs) svc) d, w') \<and> tokens thl w' = tokens thl w"
proof -
  let ?w' = "snd (realloc (of_nat (length xs)) (of_nat (length (xs @ bs))) w)"
  have append: "append_command realloc bs (of_nat (length bs)) (svc\<lparr>sc_more_data := rest\<rparr>) w =
    Inr (True, svc\<lparr>sc_more_data := rest, sc_request_string_info := held (xs @ bs)\<rparr>, ?w')"
    using append_held [of "svc\<lparr>sc_more_data := rest\<rparr>" xs bs tokens thl realloc w] svc(1) bs fine by simp
  have idle: "svc\<lparr>sc_more_data := True, sc_request_string_info := h, sc_cli_thread_status := CCAPI_CLI_THREAD_IDLE\<rparr> =
      svc\<lparr>sc_more_data := True, sc_request_string_info := h\<rparr>" for h
    using svc(2) by (cases svc) simp
  have "tokens thl ?w' = tokens thl w" using fine by (simp add: realloc_fine_def)
  then show ?thesis
    using svc append
    by (intro exI [of _ "if rest then connector_callback_continue else connector_callback_busy"] exI [of _ ?w'], cases rest)
      (auto simp: cli_packet_def cli_request_step_def collected_def idle)
qed

lemma packet_effect:
  assumes svc: "cs_sessions (cy_data s) a = Some svc" "sc_request_string_info svc = held xs"
    "sc_cli_thread_status svc = CCAPI_CLI_THREAD_IDLE"
    and sup: "cs_supported (cy_data s)" and bs: "bs \<noteq> []" "length (xs @ bs) < 2 ^ 64"
    and fine: "realloc_fine tokens thl realloc"
  shows "\<exists>w'. cli_exec os realloc (Cli_Request (cli_packet (Some a) transport bs rest)) s =
      Inr (s\<lparr>cy_data := put_cli a (collected rest (xs @ bs) svc) (cy_data s), cy_world := w'\<rparr>)
    \<and> tokens thl w' = tokens thl (cy_world s)"
proof -
  obtain status w' where step: "cli_request_step os realloc bs (cli_packet (Some a) transport bs rest) a (svc\<lparr>sc_more_data := rest\<rparr>)
      (cy_data s) (cy_world s) = Inr (status, put_cli a (collected rest (xs @ bs) svc) (cy_data s), w')"
    "tokens thl w' = tokens thl (cy_world s)"
    using packet_step [OF svc(2,3) bs fine, of os "Some a" transport rest a "cy_data s" "cy_world s"] by blast
  have "cq_buffer (cli_packet (Some a) transport bs rest) = Some bs" "cq_bytes_used (cli_packet (Some a) transport bs rest) = of_nat (length bs)"
    "cq_user_context (cli_packet (Some a) transport bs rest) = Some a" "cq_more_data (cli_packet (Some a) transport bs rest) = rest"
    by (simp_all add: cli_packet_def)
  then show ?thesis
    using svc(1) sup step packet_nonzero [OF bs]
    by (intro exI [of _ w']) (simp add: cli_exec_def ccapi_process_cli_request_def cli_session_of_def Let_def)
qed

lemma first_packet_effect:
  assumes sup: "cs_supported (cy_data s)" and bs: "bs \<noteq> []" "length bs < 2 ^ 64" and fine: "realloc_fine tokens thl realloc"
    and memory: "ccapi_malloc os (Sizeof ''ccapi_svc_cli_t'') (cy_world s) = (True, w1)"
    and a: "cs_fresh (cy_data s) = a"
  shows "\<exists>w'. cli_exec os realloc (Cli_Request (cli_packet None transport bs rest)) s =
      Inr (s\<lparr>cy_data := put_cli a (collected rest bs (new_cli (cli_packet None transport bs rest))) ((cy_data s)\<lparr>cs_fresh := Suc a\<rparr>),
             cy_world := w'\<rparr>)
    \<and> tokens thl w' = tokens thl w1"
proof -
  let ?ptr = "cli_packet None transport bs rest"
  let ?svc = "new_cli ?ptr" and ?d = "(cy_data s)\<lparr>cs_fresh := Suc a\<rparr>"
  have svc: "sc_request_string_info ?svc = held []" "sc_cli_thread_status ?svc = CCAPI_CLI_THREAD_IDLE"
    by (simp_all add: new_cli_def held_def)
  have "?svc\<lparr>sc_more_data := rest\<rparr> = ?svc" by (simp add: new_cli_def cli_packet_def)
  moreover have "length ([] @ bs) < 2 ^ 64" using bs(2) by simp
  ultimately obtain status w' where step: "cli_request_step os realloc bs ?ptr a ?svc ?d w1 =
      Inr (status, put_cli a (collected rest bs ?svc) ?d, w')" "tokens thl w' = tokens thl w1"
    using packet_step [OF svc bs(1) _ fine, of os None transport rest a ?d w1] by auto
  have "cq_buffer ?ptr = Some bs" "cq_bytes_used ?ptr = of_nat (length bs)" "cq_user_context ?ptr = None"
    by (simp_all add: cli_packet_def)
  then show ?thesis
    using sup step packet_nonzero [of bs "[]"] bs memory a
    by (intro exI [of _ w']) (simp add: cli_exec_def ccapi_process_cli_request_def cli_session_of_def Let_def)
qed

lemma collected_simps [simp]:
  "sc_request_string_info (collected rest xs svc) = held xs" "collected rest ys (collected r xs svc) = collected rest ys svc"
  "sc_cli_thread_status (collected True xs svc) = CCAPI_CLI_THREAD_IDLE"
  by (simp_all add: collected_def)

lemma packets_effect:
  assumes "cs_sessions (cy_data s) a = Some svc" "sc_request_string_info svc = held xs"
    "sc_cli_thread_status svc = CCAPI_CLI_THREAD_IDLE"
    and "cs_supported (cy_data s)" and "\<forall>p\<in>set ps. p \<noteq> []" and "length (xs @ concat ps) < 2 ^ 64" and "ps \<noteq> []"
    and "realloc_fine tokens thl realloc"
  shows "\<exists>w'. cli_run os realloc (packet_events a transport ps) s =
      Inr (s\<lparr>cy_data := put_cli a (collected False (xs @ concat ps) svc) (cy_data s), cy_world := w'\<rparr>)
    \<and> tokens thl w' = tokens thl (cy_world s)"
  using assms(1-7)
proof (induction ps arbitrary: s svc xs)
  case (Cons p ps)
  have p: "p \<noteq> []" "length (xs @ p) < 2 ^ 64" using Cons.prems by auto
  obtain w1 where 1: "cli_exec os realloc (Cli_Request (cli_packet (Some a) transport p (ps \<noteq> []))) s =
      Inr (s\<lparr>cy_data := put_cli a (collected (ps \<noteq> []) (xs @ p) svc) (cy_data s), cy_world := w1\<rparr>)"
    "tokens thl w1 = tokens thl (cy_world s)"
    using packet_effect [OF Cons.prems(1-4) p assms(8), of os transport "ps \<noteq> []"] by blast
  show ?case
  proof (cases "ps = []")
    case True
    then show ?thesis using 1 by (intro exI [of _ w1]) simp
  next
    case False
    let ?s = "s\<lparr>cy_data := put_cli a (collected True (xs @ p) svc) (cy_data s), cy_world := w1\<rparr>"
    have "\<exists>w'. cli_run os realloc (packet_events a transport ps) ?s =
      Inr (?s\<lparr>cy_data := put_cli a (collected False ((xs @ p) @ concat ps) (collected True (xs @ p) svc)) (cy_data ?s), cy_world := w'\<rparr>)
      \<and> tokens thl w' = tokens thl (cy_world ?s)"
      by (rule Cons.IH) (use Cons.prems False in simp_all)
    then show ?thesis using 1 False by (auto simp: put_cli_def)
  qed
qed simp

text \<open>All packets of a command.\<close>

lemma command_effect:
  assumes sup: "cs_supported (cy_data s)" and ps: "ps \<noteq> []" "\<forall>p\<in>set ps. p \<noteq> []" "length (concat ps) < 2 ^ 64"
    and fine: "realloc_fine tokens thl realloc"
    and memory: "ccapi_malloc os (Sizeof ''ccapi_svc_cli_t'') (cy_world s) = (True, w1)" and a: "cs_fresh (cy_data s) = a"
  shows "\<exists>w' svc. cli_run os realloc (command_events a transport ps) s =
      Inr (s\<lparr>cy_data := put_cli a (collected False (concat ps) svc) ((cy_data s)\<lparr>cs_fresh := Suc a\<rparr>), cy_world := w'\<rparr>)
    \<and> tokens thl w' = tokens thl w1 \<and> sc_response_required svc \<and> sc_response_string_info svc = no_buffer
    \<and> sc_transport svc = transport \<and> sc_cli_error svc = CCAPI_CLI_ERROR_NONE"
proof -
  obtain p qs where p: "ps = p # qs" using ps(1) by (cases ps) auto
  let ?svc = "new_cli (cli_packet None transport p (qs \<noteq> []))" and ?d = "(cy_data s)\<lparr>cs_fresh := Suc a\<rparr>"
  have first: "p \<noteq> []" "length p < 2 ^ 64" using ps p by auto
  obtain w2 where 2: "cli_exec os realloc (Cli_Request (cli_packet None transport p (qs \<noteq> []))) s =
      Inr (s\<lparr>cy_data := put_cli a (collected (qs \<noteq> []) p ?svc) ?d, cy_world := w2\<rparr>)" "tokens thl w2 = tokens thl w1"
    using first_packet_effect [OF sup first fine memory a, of transport "qs \<noteq> []"] by blast
  have svc: "sc_response_required ?svc" "sc_response_string_info ?svc = no_buffer" "sc_transport ?svc = transport"
    "sc_cli_error ?svc = CCAPI_CLI_ERROR_NONE"
    by (simp_all add: new_cli_def cli_packet_def)
  show ?thesis
  proof (cases "qs = []")
    case True
    then show ?thesis using 2 svc p by (intro exI [of _ w2] exI [of _ ?svc]) (simp add: command_events_def)
  next
    case False
    let ?s = "s\<lparr>cy_data := put_cli a (collected True p ?svc) ?d, cy_world := w2\<rparr>"
    have "\<exists>w'. cli_run os realloc (packet_events a transport qs) ?s =
      Inr (?s\<lparr>cy_data := put_cli a (collected False (p @ concat qs) (collected True p ?svc)) (cy_data ?s), cy_world := w'\<rparr>)
      \<and> tokens thl w' = tokens thl (cy_world ?s)"
      by (rule packets_effect [OF _ _ _ _ _ _ False fine]) (use ps p sup in simp_all)
    then obtain w3 where 3: "cli_run os realloc (packet_events a transport qs) ?s =
      Inr (?s\<lparr>cy_data := put_cli a (collected False (p @ concat qs) (collected True p ?svc)) (cy_data ?s), cy_world := w3\<rparr>)"
      "tokens thl w3 = tokens thl w2" by auto
    then show ?thesis
      using 2 svc p False by (intro exI [of _ w3] exI [of _ ?svc]) (simp add: command_events_def put_cli_def)
  qed
qed

subsection \<open>The callback and its output\<close>

text \<open>The output of the callback: a text with its NUL.\<close>

definition c_text :: "u8 list \<Rightarrow> u8 buffer" where
  "c_text text = map Some (text @ [0])"

lemma c_strlen_text: "0 \<notin> set text \<Longrightarrow> c_strlen (c_text text) = Inr (of_nat (length text))"
proof -
  assume "0 \<notin> set text"
  then have "takeWhile (\<lambda>x. x \<noteq> Some 0) (map Some text @ Some 0 # []) = map Some text"
    by (subst takeWhile_append2) auto
  then show ?thesis by (auto simp: c_strlen_def c_text_def Let_def)
qed

definition answered :: "u8 list \<Rightarrow> ccapi_svc_cli_t \<Rightarrow> ccapi_svc_cli_t" where
  "answered text svc =
     svc\<lparr>sc_more_data := False,
         sc_response_string_info := \<lparr>info_buffer = Some (c_text text), info_length = of_nat (length text) + 1\<rparr>,
         sc_response_processing := \<lparr>processing_block = Some (c_text text), processing_offset = 0,
                                    processing_length = of_nat (length text) + 1\<rparr>,
         sc_cli_thread_status := CCAPI_CLI_THREAD_FREE\<rparr>"

context os_locks
begin

text \<open>
  The last packet is repeated, which hands the session to the thread; the thread calls the
  callback; repeated again, the packet takes the output.
\<close>

lemma callback_effect:
  assumes a: "cs_sessions (cy_data s) a = Some svc" "sc_cli_thread_status svc = CCAPI_CLI_THREAD_REQUEST_CB_READY"
    "sc_response_required svc" "sc_response_string_info svc = no_buffer"
    and free: "cs_svc_cli (cy_data s) = None" "cy_phase s = Cli_Waiting" "tokens thl (cy_world s) = Some 0"
    and service: "cs_supported (cy_data s)" "cs_thread_lock (cy_data s) = Some thl" "cs_thread_status (cy_data s) = CCAPI_THREAD_RUNNING"
    and f: "cs_request_cb (cy_data s) = Some f"
    "\<And>w. fst (f (sc_transport svc) (info_buffer (sc_request_string_info svc)) (Some None) w) = Some (c_text text)"
    and nul: "0 \<notin> set text" "text \<noteq> []" "length text < 2 ^ 64"
    and bytes: "last ps \<noteq> []" "length (last ps) < 2 ^ 64"
  shows "\<exists>w'. cli_run os realloc [again a transport ps, Cli_Wake, Cli_Finish, again a transport ps] s =
      Inr (s\<lparr>cy_data := put_cli a (answered text svc) (cy_data s), cy_world := w'\<rparr>)"
proof -
  let ?d = "cy_data s" and ?q = "svc\<lparr>sc_more_data := False, sc_cli_thread_status := CCAPI_CLI_THREAD_REQUEST_CB_QUEUED\<rparr>"
  let ?p = "svc\<lparr>sc_more_data := False, sc_response_string_info := \<lparr>info_buffer = Some (c_text text), info_length = 0\<rparr>,
      sc_cli_thread_status := CCAPI_CLI_THREAD_REQUEST_CB_PROCESSED\<rparr>"
  let ?ptr = "cli_packet (Some a) transport (last ps) False"
  have ptr: "cq_buffer ?ptr = Some (last ps)" "cq_bytes_used ?ptr \<noteq> 0" "cq_user_context ?ptr = Some a" "cq_more_data ?ptr = False"
    using packet_nonzero [of "last ps" "[]"] bytes by (simp_all add: cli_packet_def)
  obtain w1 where w1: "ccapi_lock_release os (Some thl) (cy_world s) = (CCIMP_STATUS_OK, w1)" "tokens thl w1 = Some (Suc 0)"
    using lock_released [OF free(3)] by metis
  let ?s1 = "s\<lparr>cy_data := put_cli a ?q (?d\<lparr>cs_svc_cli := Some a\<rparr>), cy_world := w1\<rparr>"
  have 1: "cli_exec os realloc (again a transport ps) s = Inr ?s1"
    using ptr a(1,2) free(1) service(1,2) w1(1)
    by (simp add: cli_exec_def again_def ccapi_process_cli_request_def cli_session_of_def cli_request_step_def Let_def)
  obtain w2 where w2: "ccapi_lock_acquire os (Some thl) w1 = (CCIMP_STATUS_OK, w2)"
    using lock_acquired [OF w1(2)] by metis
  obtain w3 where w3: "f (sc_transport svc) (info_buffer (sc_request_string_info svc)) (Some None) w2 = (Some (c_text text), w3)"
    using f(2) [of w2] by (metis prod.collapse)
  let ?s2 = "?s1\<lparr>cy_data := cy_data ?s1, cy_world := w3, cy_phase := Cli_In_Callback a (Some (c_text text))\<rparr>"
  have 2: "cli_exec os realloc Cli_Wake ?s1 = Inr ?s2"
    using a(3,4) service(2,3) w2 w3 f(1) by (simp add: cli_exec_def cli_thread_wake_def Let_def no_buffer_def)
  let ?s3 = "s\<lparr>cy_data := put_cli a ?p ?d, cy_world := w3\<rparr>"
  have same: "(put_cli a ?p (put_cli a ?q (?d\<lparr>cs_svc_cli := Some a\<rparr>)))\<lparr>cs_svc_cli := None\<rparr> = put_cli a ?p ?d"
    using free(1) by (cases ?d) (simp add: put_cli_def)
  have "?s2\<lparr>cy_data := put_cli a ?p ?d, cy_phase := Cli_Waiting\<rparr> = ?s3" using free(2) by (cases s) simp
  then have 3: "cli_exec os realloc Cli_Finish ?s2 = Inr ?s3"
    using a(3,4) service(3) same by (simp add: cli_exec_def cli_thread_finish_def Let_def no_buffer_def)
  have nonzero: "(of_nat (length text) :: u64) \<noteq> 0" using packet_nonzero [of "text" "[]"] nul by simp
  let ?w4 = "snd (ccapi_free os (info_buffer (sc_request_string_info svc) \<noteq> None) w3)"
  have take: "take_output (?p\<lparr>sc_more_data := False\<rparr>) = Inr (copy_output (?p\<lparr>sc_more_data := False, sc_response_string_info :=
      \<lparr>info_buffer = Some (c_text text), info_length = of_nat (length text) + 1\<rparr>\<rparr>))"
    using a(3) nonzero c_strlen_text [OF nul(1)] by (simp add: take_output_def Let_def)
  have 4: "cli_exec os realloc (again a transport ps) ?s3 = Inr (s\<lparr>cy_data := put_cli a (answered text svc) ?d, cy_world := ?w4\<rparr>)"
    using ptr service(1) take
    by (simp add: cli_exec_def again_def ccapi_process_cli_request_def cli_session_of_def cli_request_step_def Let_def
        answered_def copy_output_def put_cli_def)
  show ?thesis using 1 2 3 4 by (intro exI [of _ ?w4]) simp
qed

end

subsection \<open>The output in pieces\<close>

definition cli_pull ::
  "'w os \<Rightarrow> nat \<Rightarrow> nat \<Rightarrow> 'w cli_state \<times> 'w \<Rightarrow> (u8 buffer \<times> bool \<times> 'w cli_state \<times> 'w) ub" where
  "cli_pull os a n s =
     ub_bind (ccapi_process_cli_response os (cli_reply_request a n) (fst s) (snd s))
       (\<lambda>(status, r, d', w'). Inr (take (unat (cr_bytes_used r)) (cr_buffer r), cr_more_data r, d', w'))"

definition cli_remaining :: "nat \<Rightarrow> 'w cli_state \<times> 'w \<Rightarrow> u8 buffer" where
  "cli_remaining a s = response_rest (sc_response_processing (the (cs_sessions (fst s) a)))"

definition cli_ready :: "nat \<Rightarrow> 'w cli_state \<times> 'w \<Rightarrow> bool" where
  "cli_ready a s \<longleftrightarrow>
     (case cs_sessions (fst s) a of
        None \<Rightarrow> False
      | Some svc \<Rightarrow> sc_response_required svc \<and> processing_ok (sc_response_processing svc)
          \<and> (sc_cli_error svc = CCAPI_CLI_ERROR_NONE \<or> sc_response_handled_internally svc))"

interpretation cli_reply: chunked_source "cli_pull os a" "cli_remaining a" "cli_ready a" for os :: "'w os" and a
proof
  fix s :: "'w cli_state \<times> 'w" and n :: nat
  assume ready: "cli_ready a s" and n: "n < 2 ^ 64"
  obtain d w where s: "s = (d, w)" by fastforce
  then obtain svc where svc: "cs_sessions d a = Some svc" "sc_response_required svc" "processing_ok (sc_response_processing svc)"
    "sc_cli_error svc = CCAPI_CLI_ERROR_NONE \<or> sc_response_handled_internally svc"
    using ready by (auto simp: cli_ready_def split: option.splits)
  obtain r p' where piece: "send_cli_piece (cli_reply_request a n) svc = Inr (r, svc\<lparr>sc_response_processing := p'\<rparr>)"
    "take (unat (cr_bytes_used r)) (cr_buffer r) = take n (response_rest (sc_response_processing svc))"
    "processing_ok p'" "response_rest p' = drop n (response_rest (sc_response_processing svc))"
    "cr_more_data r = (response_rest p' \<noteq> [])"
    using send_cli_piece_reads [OF svc(3) n] by blast
  have prep: "prepare_cli_response os svc w = Inr (svc, w)" using svc(4) by (auto simp: prepare_cli_response_def)
  have ctx: "cr_user_context (cli_reply_request a n) = Some a" by (simp add: cli_reply_request_def)
  have "cli_pull os a n s = Inr (take n (cli_remaining a s), drop n (cli_remaining a s) \<noteq> [],
      put_cli a (svc\<lparr>sc_response_processing := p'\<rparr>) d, w)"
    by (simp only: cli_pull_def s fst_conv snd_conv ccapi_process_cli_response_def ctx option.case get_cli_def svc(1)
        ub_bind_Inr svc(2) not_True_eq_False if_False prep prod.case piece(1,2,4,5) cli_remaining_def option.sel)
  then show "\<exists>s'. cli_pull os a n s = Inr (take n (cli_remaining a s), drop n (cli_remaining a s) \<noteq> [], s')
      \<and> cli_ready a s' \<and> cli_remaining a s' = drop n (cli_remaining a s)"
    using svc piece
    by (intro exI [of _ "(put_cli a (svc\<lparr>sc_response_processing := p'\<rparr>) d, w)"]) (simp add: cli_ready_def cli_remaining_def s)
qed

subsection \<open>From the command to its output\<close>

text \<open>The service has no session queued, and its thread waits for one.\<close>

definition cli_free :: "(nat \<Rightarrow> 'w \<Rightarrow> nat option) \<Rightarrow> nat \<Rightarrow> 'w cli_system \<Rightarrow> bool" where
  "cli_free tokens thl s \<longleftrightarrow>
     cs_supported (cy_data s) \<and> cs_svc_cli (cy_data s) = None \<and> cs_thread_lock (cy_data s) = Some thl
     \<and> cs_thread_status (cy_data s) = CCAPI_THREAD_RUNNING \<and> cy_phase s = Cli_Waiting \<and> tokens thl (cy_world s) = Some 0"

text \<open>
  C22. A command, in any packets, reaches the callback of the user as the bytes the packets hold, and
  the text the callback answers reaches the connector whole, with its NUL, in as many pieces as the
  connector asks for: nothing of either is lost, and the last piece is the one that says so. There
  is memory, the packets and the text are not empty, and the steps come one after the other.
\<close>
theorem cli_command_end_to_end:
  fixes s :: "'w cli_system"
  assumes "os_locks os tokens" and "cli_free tokens thl s" and "realloc_fine tokens thl realloc"
    and "ccapi_malloc os (Sizeof ''ccapi_svc_cli_t'') (cy_world s) = (True, w1)" and "cs_fresh (cy_data s) = a"
    and "ps \<noteq> []" and "\<forall>p\<in>set ps. p \<noteq> []" and "length (concat ps) < 2 ^ 64" and "cs_request_cb (cy_data s) = Some f"
    and "\<forall>w. fst (f transport (Some (map Some (concat ps))) (Some None) w) = Some (c_text out)"
    and "0 \<notin> set out" and "out \<noteq> []" and "Suc (length out) < 2 ^ 64"
    and "\<forall>n\<in>set sizes. 0 < n \<and> n < 2 ^ 64" and "length out < length sizes"
  shows "\<exists>s1 pieces s2.
    cli_run os realloc (command_events a transport ps @ [again a transport ps, Cli_Wake, Cli_Finish, again a transport ps]) s = Inr s1
    \<and> drain (cli_pull os a) sizes (cy_data s1, cy_world s1) = Inr (pieces, False, s2) \<and> concat pieces = c_text out"
proof -
  obtain w2 svc where 1: "cli_run os realloc (command_events a transport ps) s =
      Inr (s\<lparr>cy_data := put_cli a (collected False (concat ps) svc) ((cy_data s)\<lparr>cs_fresh := Suc a\<rparr>), cy_world := w2\<rparr>)"
    "tokens thl w2 = tokens thl w1" "sc_response_required svc" "sc_response_string_info svc = no_buffer" "sc_transport svc = transport"
    "sc_cli_error svc = CCAPI_CLI_ERROR_NONE"
    using command_effect [OF _ assms(6-8,3,4,5), of transport] assms(2) by (auto simp: cli_free_def)
  let ?s1 = "s\<lparr>cy_data := put_cli a (collected False (concat ps) svc) ((cy_data s)\<lparr>cs_fresh := Suc a\<rparr>), cy_world := w2\<rparr>"
  have lock: "tokens thl (cy_world ?s1) = Some 0"
    using os_locks.malloc_tokens [OF assms(1), of thl "Sizeof ''ccapi_svc_cli_t''" "cy_world s"] 1(2) assms(2,4)
    by (simp add: cli_free_def)
  have command: "info_buffer (held (concat ps)) = Some (map Some (concat ps))"
    using assms(6,7) by (auto simp: held_def)
  have bytes: "last ps \<noteq> []" "length (last ps) < 2 ^ 64"
    using assms(6-8) append_butlast_last_id [OF assms(6)] by (auto, metis concat_append concat.simps length_append append_Nil2
        add_lessD1 add.commute)
  obtain w3 where 2: "cli_run os realloc [again a transport ps, Cli_Wake, Cli_Finish, again a transport ps] ?s1 =
      Inr (?s1\<lparr>cy_data := put_cli a (answered out (collected False (concat ps) svc)) (cy_data ?s1), cy_world := w3\<rparr>)"
    using os_locks.callback_effect [OF assms(1), of ?s1 a "collected False (concat ps) svc" thl f out ps realloc transport]
      1 lock assms(2,9-13) command bytes by (auto simp: cli_free_def collected_def)
  let ?s2 = "?s1\<lparr>cy_data := put_cli a (answered out (collected False (concat ps) svc)) (cy_data ?s1), cy_world := w3\<rparr>"
  have size: "unat (of_nat (length out) + 1 :: u64) = Suc (length out)"
    using assms(13) unat_of_nat_u64 [of "Suc (length out)"] by (simp add: add.commute)
  have drained: "cli_ready a (cy_data ?s2, cy_world ?s2)" "cli_remaining a (cy_data ?s2, cy_world ?s2) = c_text out"
    using 1(3,6) size by (simp_all add: cli_ready_def cli_remaining_def answered_def collected_def processing_ok_def
        response_rest_def c_text_def)
  have "length (cli_remaining a (cy_data ?s2, cy_world ?s2)) \<le> length sizes" "sizes \<noteq> []"
    using assms(15) drained(2) by (auto simp: c_text_def)
  with cli_reply.drain_ends [OF drained(1) assms(14), where os = os] obtain pieces s2 where
    3: "drain (cli_pull os a) sizes (cy_data ?s2, cy_world ?s2) = Inr (pieces, False, s2)" "concat pieces = c_text out"
    using drained(2) by metis
  have "cli_run os realloc (command_events a transport ps @ [again a transport ps, Cli_Wake, Cli_Finish, again a transport ps]) s = Inr ?s2"
    using 1(1) 2 by (simp only: cli_run_append ub_bind_Inr)
  then show ?thesis using 3 by (intro exI conjI)
qed

text \<open>A service with a callback that answers "ok", whose thread waits.\<close>

definition cli_example_callback :: "linux ccapi_cli_request_cb_t" where
  "cli_example_callback t command place w = (Some (c_text [111, 107]), w)"

definition cli_example :: "linux cli_system" where
  "cli_example =
     \<lparr>cy_data = \<lparr>cs_supported = True, cs_request_cb = Some cli_example_callback, cs_finished_cb = None, cs_sessions = (\<lambda>a. None),
                 cs_fresh = 0, cs_svc_cli = None, cs_thread_lock = Some 3, cs_thread_status = CCAPI_THREAD_RUNNING\<rparr>,
      cy_world = \<lparr>lx_sems = [3 \<mapsto> 0], lx_next = 4, lx_memory = 5, lx_blocks = 0, lx_stuck = False\<rparr>, cy_phase = Cli_Waiting\<rparr>"

definition cli_example_realloc :: "size_t \<Rightarrow> size_t \<Rightarrow> linux \<Rightarrow> ccimp_status_t \<times> linux" where
  "cli_example_realloc old_size new_size w = (CCIMP_STATUS_OK, w)"

lemmas cli_example_defs = cli_example_def cli_example_callback_def cli_example_realloc_def

lemma cli_command_end_to_end_witness:
  "\<exists>s1 pieces s2.
    cli_run (linux_os False) cli_example_realloc
      (command_events 0 connector_transport_udp [[108], [115]]
       @ [again 0 connector_transport_udp [[108], [115]], Cli_Wake, Cli_Finish, again 0 connector_transport_udp [[108], [115]]])
      cli_example = Inr s1
    \<and> drain (cli_pull (linux_os False) 0) [2, 1, 5] (cy_data s1, cy_world s1) = Inr (pieces, False, s2)
    \<and> concat pieces = [Some 111, Some 107, Some 0]"
proof -
  have "cli_free linux_tokens 3 cli_example" "realloc_fine linux_tokens 3 cli_example_realloc"
    by (simp_all add: cli_free_def realloc_fine_def cli_example_defs linux_tokens_def)
  moreover have "ccapi_malloc (linux_os False) (Sizeof ''ccapi_svc_cli_t'') (cy_world cli_example) =
      (True, (cy_world cli_example)\<lparr>lx_memory := 4, lx_blocks := 1\<rparr>)"
    by (simp add: ccapi_malloc_def ccimp_os_malloc_def cli_example_defs)
  ultimately show ?thesis
    using cli_command_end_to_end [OF lx.os_locks_axioms [of False], of 3 cli_example cli_example_realloc
        "(cy_world cli_example)\<lparr>lx_memory := 4, lx_blocks := 1\<rparr>" 0 "[[108], [115]]" cli_example_callback
        connector_transport_udp "[111, 107]" "[2, 1, 5]"]
    by (simp add: cli_example_defs c_text_def)
qed

subsection \<open>No undefined behaviour\<close>

text \<open>The service as it is started: no session, nothing queued, the thread waiting on its lock.\<close>

definition cli_started ::
  "(nat \<Rightarrow> 'w \<Rightarrow> nat option) \<Rightarrow> (size_t \<Rightarrow> size_t \<Rightarrow> 'w \<Rightarrow> ccimp_status_t \<times> 'w) \<Rightarrow> nat \<Rightarrow> 'w cli_system \<Rightarrow> bool" where
  "cli_started tokens realloc thl s \<longleftrightarrow>
     cli_service_ok tokens realloc thl (cy_data s) \<and> cs_sessions (cy_data s) = (\<lambda>a. None) \<and> cs_svc_cli (cy_data s) = None
     \<and> cy_phase s = Cli_Waiting \<and> tokens thl (cy_world s) = Some 0"

lemma cli_started_inv: "cli_started tokens realloc thl s \<Longrightarrow> cli_inv tokens realloc thl s"
  by (simp add: cli_started_def cli_inv_def cli_sessions_ok_def cli_phase_ok_def)

text \<open>
  C23. No step of the command line that the connector and the thread may take is undefined: whatever
  sessions there are and in whatever order their packets, repetitions, responses, ends, the waking
  of the thread and the return of the callback come, with memory or without, every step has a result.
\<close>
theorem cli_no_undefined_behaviour:
  assumes "os_locks os tokens" and "cli_started tokens realloc thl s0" and "cli_reachable os realloc tokens s0 s"
    and "cli_allowed tokens e s"
  shows "\<exists>s'. cli_exec os realloc e s = Inr s'"
proof -
  have "cli_inv tokens realloc thl s"
    using os_locks.cli_reachable_inv [OF assms(1,3) cli_started_inv [OF assms(2)]] .
  from os_locks.cli_exec_inv [OF assms(1) this assms(4)] show ?thesis by blast
qed

lemma cli_example_started: "cli_started linux_tokens cli_example_realloc 3 cli_example"
  by (simp add: cli_started_def cli_service_ok_def cli_example_defs linux_tokens_def request_cb_ok_def output_ok_def c_text_def
      c_strlen_def)

lemma cli_no_undefined_behaviour_witness:
  "\<exists>s'. cli_exec (linux_os False) cli_example_realloc (Cli_Request (cli_packet None connector_transport_udp [108, 115] False))
     cli_example = Inr s'"
  by (rule cli_no_undefined_behaviour [OF lx.os_locks_axioms [of False] cli_example_started cli_start])
    (simp add: cli_allowed_def cli_packet_def cli_example_defs)

subsection \<open>The end of a session the thread has\<close>

text \<open>
  C24. A session may end while it is queued: the connector is answered continue and the session is
  freed, but the service still points to it, and the thread, when it wakes, reads the freed session;
  if its callback was already running, it is read when the callback returns.
\<close>
theorem cancel_while_cli_queued_frees_session:
  assumes "cs_sessions (cy_data s) a = Some svc" and "cs_svc_cli (cy_data s) = Some a"
    and "cs_thread_status (cy_data s) = CCAPI_THREAD_RUNNING"
    and "(e, cy_phase s) \<in> {(Cli_Wake, Cli_Waiting), (Cli_Finish, Cli_In_Callback a output)}"
  shows "\<exists>s'. cli_exec os realloc (Cli_Status a st) s = Inr s' \<and> cli_exec os realloc e s' = Inl Use_After_Free"
  using assms
  by (auto simp: cli_exec_def ccapi_process_cli_status_def cli_thread_wake_def cli_thread_finish_def get_cli_def Let_def)

lemma cancel_while_cli_queued_frees_session_witness:
  "\<exists>s s'. cli_run (linux_os False) cli_example_realloc
       (command_events 0 connector_transport_udp [[108]] @ [again 0 connector_transport_udp [[108]]]) cli_example = Inr s
     \<and> cli_exec (linux_os False) cli_example_realloc (Cli_Status 0 connector_sm_cli_status_cancel) s = Inr s'
     \<and> cli_exec (linux_os False) cli_example_realloc Cli_Wake s' = Inl Use_After_Free"
proof -
  let ?run = "cli_run (linux_os False) cli_example_realloc
       (command_events 0 connector_transport_udp [[108]] @ [again 0 connector_transport_udp [[108]]]) cli_example"
  obtain s svc where s: "?run = Inr s" "cs_sessions (cy_data s) 0 = Some svc" "cs_svc_cli (cy_data s) = Some 0"
    "cs_thread_status (cy_data s) = CCAPI_THREAD_RUNNING" "cy_phase s = Cli_Waiting"
    by (simp add: cli_example_defs command_events_def again_def cli_packet_def cli_exec_def ccapi_process_cli_request_def
        cli_session_of_def ccapi_malloc_def ccimp_os_malloc_def new_cli_def cli_request_step_def append_command_def
        realloc_block_def memcpy_at_def no_buffer_def Let_def)
  have "(Cli_Wake, cy_phase s) \<in> {(Cli_Wake, Cli_Waiting), (Cli_Finish, Cli_In_Callback 0 None)}" using s(5) by simp
  from cancel_while_cli_queued_frees_session [OF s(2-4) this, of "linux_os False" cli_example_realloc connector_sm_cli_status_cancel]
  show ?thesis using s(1) by blast
qed

text \<open>
  A packet there is no memory for leaves the block of the command with the session, which no later
  request frees: the request is answered error, the end of the session frees the session only.
\<close>

lemma failed_realloc_leaks_command:
  assumes "cs_sessions d a = Some svc" and "sc_cli_thread_status svc = CCAPI_CLI_THREAD_IDLE" and "cs_supported d"
    and "info_buffer (sc_request_string_info svc) = Some block" and "cs_finished_cb d = None"
    and "\<not> sc_response_handled_internally svc" and "bs \<noteq> []" and "length bs < 2 ^ 64"
    and "\<forall>m n. fst (realloc m n w) = CCIMP_STATUS_ERROR"
  shows "\<exists>ptr' d' w' d2. ccapi_process_cli_request os realloc (cli_packet (Some a) transport bs rest) d w
      = Inr (connector_callback_error, ptr', d', w')
    \<and> info_buffer (sc_request_string_info (the (cs_sessions d' a))) = Some block
    \<and> ccapi_process_cli_status os \<lparr>ct_user_context = Some a, ct_status = st\<rparr> d' w'
      = Inr (connector_callback_continue, d2, snd (ccapi_free os True w')) \<and> cs_sessions d2 a = None"
proof -
  let ?svc = "svc\<lparr>sc_more_data := rest, sc_cli_error := CCAPI_CLI_ERROR_INSUFFICIENT_MEMORY,
      sc_cli_thread_status := CCAPI_CLI_THREAD_FREE\<rparr>"
  obtain w1 where r: "realloc (info_length (sc_request_string_info svc))
      (info_length (sc_request_string_info svc) + of_nat (length bs)) w = (CCIMP_STATUS_ERROR, w1)"
    using assms(9) by (metis prod.collapse)
  have "ccapi_process_cli_request os realloc (cli_packet (Some a) transport bs rest) d w
      = Inr (connector_callback_error, cli_packet (Some a) transport bs rest, put_cli a ?svc d, w1)"
    using assms(1-3) r packet_nonzero [of bs "[]"] assms(7,8)
    by (simp add: cli_packet_def ccapi_process_cli_request_def cli_session_of_def cli_request_step_def append_command_def Let_def)
  then show ?thesis
    using assms(3-6) by (simp add: ccapi_process_cli_status_def tell_finished_def Let_def)
qed

end
