(* ===== verification/ShortMessages.thy ===== *)
theory ShortMessages
  imports Cli Ping
begin

text \<open>
  The short message service, source/ccapi_sm_handler.c: the requests of the connector that are for
  the user's callbacks, the encryption the user provides, and the handler that serves these, the
  command line (theory \<open>Cli\<close>) and the responses to pings (theory \<open>Ping\<close>). Then the streaming
  command line, source/ccapi_streaming_cli.c.

  Callbacks are functions. The code gives them the transport of the connector's request where
  their types name the transports of ccapi; no conversion is made, so the model keeps the former.
\<close>

subsection \<open>The callbacks of the user\<close>

datatype connector_sm_transport_t =
    connector_sm_transport_sms
  | connector_sm_transport_satellite
  | connector_sm_transport_udp
  | connector_sm_transport_edp

datatype connector_sm_encryption_data_type_t =
    connector_sm_encryption_data_type_current_key
  | connector_sm_encryption_data_type_previous_key
  | connector_sm_encryption_data_type_id
  | connector_sm_encryption_data_type_tracking

record ccapi_sm_encryption_buffer_input_t =
  bi_length :: size_t
  bi_data :: "u8 list"

record ccapi_sm_encryption_buffer_output_t =
  bo_length :: size_t
  bo_data :: "u8 buffer"

record ccpai_sm_encryption_message_t =
  em_length :: size_t
  em_input :: "u8 list"
  em_output :: "u8 buffer"

record ccapi_sm_encrypt_gcm_t =
  eg_aad :: ccapi_sm_encryption_buffer_input_t
  eg_iv :: ccapi_sm_encryption_buffer_input_t
  eg_key :: ccapi_sm_encryption_buffer_input_t
  eg_tag :: ccapi_sm_encryption_buffer_output_t
  eg_message :: ccpai_sm_encryption_message_t

record ccapi_sm_decrypt_gcm_t =
  dg_aad :: ccapi_sm_encryption_buffer_input_t
  dg_iv :: ccapi_sm_encryption_buffer_input_t
  dg_key :: ccapi_sm_encryption_buffer_input_t
  dg_tag :: ccapi_sm_encryption_buffer_input_t
  dg_message :: ccpai_sm_encryption_message_t

type_synonym 'w ccapi_sm_encryption_load_data_cb_t =
  "connector_sm_transport_t \<Rightarrow> connector_sm_encryption_data_type_t \<Rightarrow> u8 buffer \<Rightarrow> size_t \<Rightarrow> 'w \<Rightarrow> bool \<times> u8 buffer \<times> 'w"

type_synonym 'w ccapi_sm_encryption_store_data_cb_t =
  "connector_sm_transport_t \<Rightarrow> connector_sm_encryption_data_type_t \<Rightarrow> u8 list \<Rightarrow> size_t \<Rightarrow> 'w \<Rightarrow> bool \<times> 'w"

record 'w sm_encryption_callbacks =
  se_load_data :: "'w ccapi_sm_encryption_load_data_cb_t option"
  se_store_data :: "'w ccapi_sm_encryption_store_data_cb_t option"
  se_encrypt_gcm :: "(ccapi_sm_encrypt_gcm_t \<Rightarrow> 'w \<Rightarrow> bool \<times> ccapi_sm_encrypt_gcm_t \<times> 'w) option"
  se_decrypt_gcm :: "(ccapi_sm_decrypt_gcm_t \<Rightarrow> 'w \<Rightarrow> bool \<times> ccapi_sm_decrypt_gcm_t \<times> 'w) option"

record 'w sm_callbacks =
  sb_request_connect :: "(connector_transport_t \<Rightarrow> 'w \<Rightarrow> 'w) option"
  sb_ping_request :: "(connector_transport_t \<Rightarrow> bool \<Rightarrow> 'w \<Rightarrow> 'w) option"
  sb_unsequenced_response :: "(connector_transport_t \<Rightarrow> u32 \<Rightarrow> u8 list \<Rightarrow> size_t \<Rightarrow> bool \<Rightarrow> 'w \<Rightarrow> 'w) option"
  sb_pending_data :: "(connector_transport_t \<Rightarrow> 'w \<Rightarrow> 'w) option"
  sb_phone_provisioning :: "(connector_transport_t \<Rightarrow> string \<Rightarrow> string \<Rightarrow> bool \<Rightarrow> 'w \<Rightarrow> 'w) option"
  sb_encryption :: "'w sm_encryption_callbacks option"

record 'w sm_state =
  sm_supported :: bool
  sm_user_callback :: "'w sm_callbacks"
  sm_cli :: "'w cli_state"
  sm_pings :: ping_state

subsection \<open>The requests of the connector\<close>

record connector_sm_request_connect_t =
  rq_connect_transport :: connector_transport_t
  rq_allow :: bool

record connector_sm_receive_ping_request_t =
  rp_transport :: connector_transport_t
  rp_response_required :: bool

record connector_sm_opaque_response_t =
  or_transport :: connector_transport_t
  or_id :: u32
  or_data :: "u8 list"
  or_bytes_used :: size_t
  or_error :: bool

record connector_sm_receive_config_request_t =
  rf_transport :: connector_transport_t
  rf_phone_number :: string
  rf_service_id :: string
  rf_response_required :: bool

record connector_sm_encryption_load_data_t =
  ld_transport :: connector_sm_transport_t
  ld_type :: connector_sm_encryption_data_type_t
  ld_data :: "u8 buffer"
  ld_bytes_required :: size_t

record connector_sm_encryption_store_data_t =
  sd_transport :: connector_sm_transport_t
  sd_type :: connector_sm_encryption_data_type_t
  sd_data :: "u8 list"
  sd_bytes_used :: size_t

datatype sm_request =
    connector_request_id_sm_cli_request connector_sm_cli_request_t
  | connector_request_id_sm_cli_response connector_sm_cli_response_t
  | connector_request_id_sm_cli_status connector_sm_cli_status_t
  | connector_request_id_sm_cli_response_length connector_sm_cli_response_length_t
  | connector_request_id_sm_ping_request connector_sm_receive_ping_request_t
  | connector_request_id_sm_ping_response connector_sm_ping_response_t
  | connector_request_id_sm_opaque_response connector_sm_opaque_response_t
  | connector_request_id_sm_more_data connector_transport_t
  | connector_request_id_sm_config_request connector_sm_receive_config_request_t
  | connector_request_id_sm_request_connect connector_sm_request_connect_t
  | connector_request_id_sm_encryption_load_data connector_sm_encryption_load_data_t
  | connector_request_id_sm_encryption_store_data connector_sm_encryption_store_data_t
  | connector_request_id_sm_encrypt_gcm ccapi_sm_encrypt_gcm_t
  | connector_request_id_sm_decrypt_gcm ccapi_sm_decrypt_gcm_t

subsection \<open>Messages for the user\<close>

text \<open>A callback is called if the service is supported and the user gave it.\<close>

definition call_user :: "'w sm_state \<Rightarrow> ('w sm_callbacks \<Rightarrow> 'f option) \<Rightarrow> ('f \<Rightarrow> 'w \<Rightarrow> 'w) \<Rightarrow> 'w \<Rightarrow> 'w" where
  "call_user d callback apply_to w =
     (case (sm_supported d, callback (sm_user_callback d)) of (True, Some f) \<Rightarrow> apply_to f w | _ \<Rightarrow> w)"

definition ccapi_process_request_connect ::
  "connector_sm_request_connect_t \<Rightarrow> 'w sm_state \<Rightarrow> 'w
     \<Rightarrow> connector_callback_status_t \<times> connector_sm_request_connect_t \<times> 'w" where
  "ccapi_process_request_connect r d w =
     (connector_callback_continue, r\<lparr>rq_allow := False\<rparr>,
      call_user d sb_request_connect (\<lambda>f. f (rq_connect_transport r)) w)"

definition ccapi_process_ping_request ::
  "connector_sm_receive_ping_request_t \<Rightarrow> 'w sm_state \<Rightarrow> 'w \<Rightarrow> connector_callback_status_t \<times> 'w" where
  "ccapi_process_ping_request r d w =
     (connector_callback_continue,
      call_user d sb_ping_request (\<lambda>f. f (rp_transport r) (rp_response_required r)) w)"

definition ccapi_process_unsequenced_response ::
  "connector_sm_opaque_response_t \<Rightarrow> 'w sm_state \<Rightarrow> 'w \<Rightarrow> connector_callback_status_t \<times> 'w" where
  "ccapi_process_unsequenced_response r d w =
     (connector_callback_continue,
      call_user d sb_unsequenced_response (\<lambda>f. f (or_transport r) (or_id r) (or_data r) (or_bytes_used r) (or_error r)) w)"

definition ccapi_process_pending_data ::
  "connector_transport_t \<Rightarrow> 'w sm_state \<Rightarrow> 'w \<Rightarrow> connector_callback_status_t \<times> 'w" where
  "ccapi_process_pending_data transport d w =
     (connector_callback_continue, call_user d sb_pending_data (\<lambda>f. f transport) w)"

definition ccapi_process_phone_provisioning ::
  "connector_sm_receive_config_request_t \<Rightarrow> 'w sm_state \<Rightarrow> 'w \<Rightarrow> connector_callback_status_t \<times> 'w" where
  "ccapi_process_phone_provisioning r d w =
     (connector_callback_continue,
      call_user d sb_phone_provisioning
        (\<lambda>f. f (rf_transport r) (rf_phone_number r) (rf_service_id r) (rf_response_required r)) w)"

subsection \<open>Encryption\<close>

definition have_encryption :: "'w sm_state \<Rightarrow> bool" where
  "have_encryption d = sm_supported d"

text \<open>\<open>encryption_callback\<close>: the pointer to the callbacks and the callback are followed unchecked.\<close>

definition encryption_callback :: "'w sm_state \<Rightarrow> ('w sm_encryption_callbacks \<Rightarrow> 'f option) \<Rightarrow> 'f ub" where
  "encryption_callback d name =
     (case sb_encryption (sm_user_callback d) of
        None \<Rightarrow> Inl Null_Dereference
      | Some e \<Rightarrow> (case name e of None \<Rightarrow> Inl Null_Dereference | Some f \<Rightarrow> Inr f))"

definition encryption_status :: "bool \<Rightarrow> connector_callback_status_t" where
  "encryption_status ok = (if \<not> ok then connector_callback_error else connector_callback_continue)"

definition ccapi_process_load_data ::
  "connector_sm_encryption_load_data_t \<Rightarrow> 'w sm_state \<Rightarrow> 'w
     \<Rightarrow> (connector_callback_status_t \<times> connector_sm_encryption_load_data_t \<times> 'w) ub" where
  "ccapi_process_load_data r d w =
     (if \<not> have_encryption d then Inr (connector_callback_unrecognized, r, w)
      else
        ub_bind (encryption_callback d se_load_data) (\<lambda>f.
          case f (ld_transport r) (ld_type r) (ld_data r) (ld_bytes_required r) w of
            (ok, data, w1) \<Rightarrow> Inr (encryption_status ok, r\<lparr>ld_data := data\<rparr>, w1)))"

definition ccapi_process_store_data ::
  "connector_sm_encryption_store_data_t \<Rightarrow> 'w sm_state \<Rightarrow> 'w \<Rightarrow> (connector_callback_status_t \<times> 'w) ub" where
  "ccapi_process_store_data r d w =
     (if \<not> have_encryption d then Inr (connector_callback_unrecognized, w)
      else
        ub_bind (encryption_callback d se_store_data) (\<lambda>f.
          case f (sd_transport r) (sd_type r) (sd_data r) (sd_bytes_used r) w of
            (ok, w1) \<Rightarrow> Inr (encryption_status ok, w1)))"

definition ccapi_process_encrypt_gcm ::
  "ccapi_sm_encrypt_gcm_t \<Rightarrow> 'w sm_state \<Rightarrow> 'w \<Rightarrow> (connector_callback_status_t \<times> ccapi_sm_encrypt_gcm_t \<times> 'w) ub" where
  "ccapi_process_encrypt_gcm r d w =
     (if \<not> have_encryption d then Inr (connector_callback_unrecognized, r, w)
      else
        ub_bind (encryption_callback d se_encrypt_gcm) (\<lambda>f.
          case f r w of (ok, r1, w1) \<Rightarrow> Inr (encryption_status ok, r1, w1)))"

definition ccapi_process_decrypt_gcm ::
  "ccapi_sm_decrypt_gcm_t \<Rightarrow> 'w sm_state \<Rightarrow> 'w \<Rightarrow> (connector_callback_status_t \<times> ccapi_sm_decrypt_gcm_t \<times> 'w) ub" where
  "ccapi_process_decrypt_gcm r d w =
     (if \<not> have_encryption d then Inr (connector_callback_unrecognized, r, w)
      else
        ub_bind (encryption_callback d se_decrypt_gcm) (\<lambda>f.
          case f r w of (ok, r1, w1) \<Rightarrow> Inr (encryption_status ok, r1, w1)))"

subsection \<open>The handler\<close>

text \<open>The last assertion of the code jumps to the label that follows it, so it changes no status.\<close>

definition ccapi_sm_service_handler ::
  "'w os \<Rightarrow> (size_t \<Rightarrow> size_t \<Rightarrow> 'w \<Rightarrow> ccimp_status_t \<times> 'w) \<Rightarrow> sm_request \<Rightarrow> 'w sm_state \<Rightarrow> 'w
     \<Rightarrow> (connector_callback_status_t \<times> sm_request \<times> 'w sm_state \<times> 'w) ub" where
  "ccapi_sm_service_handler os realloc request d w =
     (case request of
        connector_request_id_sm_cli_request r \<Rightarrow>
          ub_bind (ccapi_process_cli_request os realloc r (sm_cli d) w) (\<lambda>(status, r1, c, w1).
            Inr (status, connector_request_id_sm_cli_request r1, d\<lparr>sm_cli := c\<rparr>, w1))
      | connector_request_id_sm_cli_response r \<Rightarrow>
          ub_bind (ccapi_process_cli_response os r (sm_cli d) w) (\<lambda>(status, r1, c, w1).
            Inr (status, connector_request_id_sm_cli_response r1, d\<lparr>sm_cli := c\<rparr>, w1))
      | connector_request_id_sm_cli_status r \<Rightarrow>
          ub_bind (ccapi_process_cli_status os r (sm_cli d) w) (\<lambda>(status, c, w1).
            Inr (status, request, d\<lparr>sm_cli := c\<rparr>, w1))
      | connector_request_id_sm_cli_response_length r \<Rightarrow>
          ub_bind (ccapi_process_cli_response_length r (sm_cli d)) (\<lambda>(status, r1).
            Inr (status, connector_request_id_sm_cli_response_length r1, d, w))
      | connector_request_id_sm_ping_request r \<Rightarrow>
          (case ccapi_process_ping_request r d w of (status, w1) \<Rightarrow> Inr (status, request, d, w1))
      | connector_request_id_sm_ping_response r \<Rightarrow>
          ub_bind (ccapi_process_ping_response os r (sm_pings d) w) (\<lambda>(status, p, w1).
            Inr (status, request, d\<lparr>sm_pings := p\<rparr>, w1))
      | connector_request_id_sm_opaque_response r \<Rightarrow>
          (case ccapi_process_unsequenced_response r d w of (status, w1) \<Rightarrow> Inr (status, request, d, w1))
      | connector_request_id_sm_more_data transport \<Rightarrow>
          (case ccapi_process_pending_data transport d w of (status, w1) \<Rightarrow> Inr (status, request, d, w1))
      | connector_request_id_sm_config_request r \<Rightarrow>
          (case ccapi_process_phone_provisioning r d w of (status, w1) \<Rightarrow> Inr (status, request, d, w1))
      | connector_request_id_sm_request_connect r \<Rightarrow>
          (case ccapi_process_request_connect r d w of
             (status, r1, w1) \<Rightarrow> Inr (status, connector_request_id_sm_request_connect r1, d, w1))
      | connector_request_id_sm_encryption_load_data r \<Rightarrow>
          ub_bind (ccapi_process_load_data r d w) (\<lambda>(status, r1, w1).
            Inr (status, connector_request_id_sm_encryption_load_data r1, d, w1))
      | connector_request_id_sm_encryption_store_data r \<Rightarrow>
          ub_bind (ccapi_process_store_data r d w) (\<lambda>(status, w1). Inr (status, request, d, w1))
      | connector_request_id_sm_encrypt_gcm r \<Rightarrow>
          ub_bind (ccapi_process_encrypt_gcm r d w) (\<lambda>(status, r1, w1).
            Inr (status, connector_request_id_sm_encrypt_gcm r1, d, w1))
      | connector_request_id_sm_decrypt_gcm r \<Rightarrow>
          ub_bind (ccapi_process_decrypt_gcm r d w) (\<lambda>(status, r1, w1).
            Inr (status, connector_request_id_sm_decrypt_gcm r1, d, w1)))"

subsection \<open>The streaming command line\<close>

text \<open>
  The structures of the requests are the connector's: a type parameter. What a callback returns is
  the status the handler answers.
\<close>

type_synonym ('q, 'w) streaming_cli_cb = "'q \<Rightarrow> 'w \<Rightarrow> connector_callback_status_t \<times> 'q \<times> 'w"

record ('q, 'w) streaming_cli_callbacks =
  st_start_session :: "('q, 'w) streaming_cli_cb option"
  st_poll_session :: "('q, 'w) streaming_cli_cb option"
  st_send_data :: "('q, 'w) streaming_cli_cb option"
  st_receive_data :: "('q, 'w) streaming_cli_cb option"
  st_end_session :: "('q, 'w) streaming_cli_cb option"
  st_sessionless_execute :: "('q, 'w) streaming_cli_cb option"
  st_sessionless_store :: "('q, 'w) streaming_cli_cb option"

datatype connector_request_id_streaming_cli_service_t =
    connector_request_id_streaming_cli_session_start
  | connector_request_id_streaming_cli_poll
  | connector_request_id_streaming_cli_send
  | connector_request_id_streaming_cli_receive
  | connector_request_id_streaming_cli_session_end
  | connector_request_id_streaming_cli_sessionless_execute
  | connector_request_id_streaming_cli_sessionless_store

definition run_callback_if_available ::
  "('q, 'w) streaming_cli_cb option \<Rightarrow> 'q \<Rightarrow> 'w \<Rightarrow> connector_callback_status_t \<times> 'q \<times> 'w" where
  "run_callback_if_available cb arg w =
     (case cb of Some f \<Rightarrow> f arg w | None \<Rightarrow> (connector_callback_continue, arg, w))"

definition ccapi_streaming_cli_handler ::
  "connector_request_id_streaming_cli_service_t \<Rightarrow> 'q \<Rightarrow> ('q, 'w) streaming_cli_callbacks \<Rightarrow> 'w
     \<Rightarrow> connector_callback_status_t \<times> 'q \<times> 'w" where
  "ccapi_streaming_cli_handler request data callbacks w =
     (case request of
        connector_request_id_streaming_cli_session_start \<Rightarrow> run_callback_if_available (st_start_session callbacks) data w
      | connector_request_id_streaming_cli_poll \<Rightarrow> run_callback_if_available (st_poll_session callbacks) data w
      | connector_request_id_streaming_cli_send \<Rightarrow> run_callback_if_available (st_send_data callbacks) data w
      | connector_request_id_streaming_cli_receive \<Rightarrow> run_callback_if_available (st_receive_data callbacks) data w
      | connector_request_id_streaming_cli_session_end \<Rightarrow> run_callback_if_available (st_end_session callbacks) data w
      | connector_request_id_streaming_cli_sessionless_execute \<Rightarrow>
          run_callback_if_available (st_sessionless_execute callbacks) data w
      | connector_request_id_streaming_cli_sessionless_store \<Rightarrow>
          run_callback_if_available (st_sessionless_store callbacks) data w)"

end
