(* ===== verification/ShortMessageProps.thy ===== *)
theory ShortMessageProps
  imports ShortMessages CliSystem
begin

text \<open>
  The short message service as a whole: what it does when it is not supported, that its requests
  for the command line are the steps of the system of theory \<open>CliSystem\<close>, and that none of its
  requests is undefined.
\<close>

subsection \<open>The service\<close>

text \<open>Without the service no callback runs, a connection is not allowed and there is no encryption.\<close>

lemma sm_without_support:
  assumes "\<not> sm_supported d"
  shows "call_user d callback g w = w"
    and "ccapi_process_request_connect r d w = (connector_callback_continue, r\<lparr>rq_allow := False\<rparr>, w)"
    and "ccapi_process_load_data l d w = Inr (connector_callback_unrecognized, l, w)"
    and "ccapi_process_encrypt_gcm e d w = Inr (connector_callback_unrecognized, e, w)"
    and "ccapi_process_decrypt_gcm c d w = Inr (connector_callback_unrecognized, c, w)"
  using assms
  by (simp_all add: call_user_def ccapi_process_request_connect_def ccapi_process_load_data_def ccapi_process_encrypt_gcm_def
      ccapi_process_decrypt_gcm_def have_encryption_def)

text \<open>What a start checks: a supported service has the four callbacks of its encryption.\<close>

definition encryption_given :: "'w sm_state \<Rightarrow> bool" where
  "encryption_given d \<longleftrightarrow>
     (sm_supported d \<longrightarrow>
        (case sb_encryption (sm_user_callback d) of
           None \<Rightarrow> False
         | Some e \<Rightarrow> se_load_data e \<noteq> None \<and> se_store_data e \<noteq> None \<and> se_encrypt_gcm e \<noteq> None \<and> se_decrypt_gcm e \<noteq> None))"

text \<open>What the connector asks: sessions of the command line it was given, and pings that wait.\<close>

definition sm_request_ok ::
  "(nat \<Rightarrow> 'w \<Rightarrow> nat option) \<Rightarrow> sm_request \<Rightarrow> 'w sm_state \<Rightarrow> 'w \<Rightarrow> cli_thread_phase \<Rightarrow> bool" where
  "sm_request_ok tokens request d w phase \<longleftrightarrow>
     (let s = \<lparr>cy_data = sm_cli d, cy_world = w, cy_phase = phase\<rparr>
      in case request of
           connector_request_id_sm_cli_request r \<Rightarrow> cli_allowed tokens (Cli_Request r) s
         | connector_request_id_sm_cli_response r \<Rightarrow>
             (\<exists>a n. r = cli_reply_request a n \<and> cli_allowed tokens (Cli_Reply a n) s)
         | connector_request_id_sm_cli_status r \<Rightarrow>
             (\<exists>a st. r = \<lparr>ct_user_context = Some a, ct_status = st\<rparr> \<and> cli_allowed tokens (Cli_Status a st) s)
         | connector_request_id_sm_cli_response_length r \<Rightarrow>
             (\<exists>a. r = \<lparr>cl_user_context = Some a, cl_total_bytes = 0\<rparr> \<and> cli_allowed tokens (Cli_Length a) s)
         | connector_request_id_sm_ping_response r \<Rightarrow>
             (\<exists>a p lock. pr_user_context r = Some a \<and> pd_pings (sm_pings d) a = Some p
                \<and> pi_ping_lock (pi_svc_ping p) = Some lock)
         | _ \<Rightarrow> True)"

text \<open>The requests of the command line are the steps of its system.\<close>

lemma cli_request_is_step:
  assumes "cli_exec os realloc (Cli_Request r) \<lparr>cy_data = sm_cli d, cy_world = w, cy_phase = phase\<rparr> = Inr s"
  shows "\<exists>status r'. ccapi_sm_service_handler os realloc (connector_request_id_sm_cli_request r) d w =
    Inr (status, connector_request_id_sm_cli_request r', d\<lparr>sm_cli := cy_data s\<rparr>, cy_world s)"
  using assms by (auto simp: cli_exec_def ccapi_sm_service_handler_def ub_bind_Inr_iff)

lemma cli_response_is_step:
  assumes "cli_exec os realloc (Cli_Reply a n) \<lparr>cy_data = sm_cli d, cy_world = w, cy_phase = phase\<rparr> = Inr s"
  shows "\<exists>status r'. ccapi_sm_service_handler os realloc (connector_request_id_sm_cli_response (cli_reply_request a n)) d w =
    Inr (status, connector_request_id_sm_cli_response r', d\<lparr>sm_cli := cy_data s\<rparr>, cy_world s)"
  using assms by (auto simp: cli_exec_def ccapi_sm_service_handler_def ub_bind_Inr_iff)

lemma cli_status_is_step:
  assumes "cli_exec os realloc (Cli_Status a st) \<lparr>cy_data = sm_cli d, cy_world = w, cy_phase = phase\<rparr> = Inr s"
  shows "\<exists>status. ccapi_sm_service_handler os realloc
      (connector_request_id_sm_cli_status \<lparr>ct_user_context = Some a, ct_status = st\<rparr>) d w =
    Inr (status, connector_request_id_sm_cli_status \<lparr>ct_user_context = Some a, ct_status = st\<rparr>, d\<lparr>sm_cli := cy_data s\<rparr>, cy_world s)"
  using assms by (auto simp: cli_exec_def ccapi_sm_service_handler_def ub_bind_Inr_iff)

lemma encryption_defined:
  assumes "encryption_given d"
  shows "\<exists>st l' w'. ccapi_process_load_data l d w = Inr (st, l', w')"
    and "\<exists>st w'. ccapi_process_store_data r d w = Inr (st, w')"
    and "\<exists>st e' w'. ccapi_process_encrypt_gcm e d w = Inr (st, e', w')"
    and "\<exists>st c' w'. ccapi_process_decrypt_gcm c d w = Inr (st, c', w')"
  using assms
  by (auto simp: encryption_given_def have_encryption_def encryption_callback_def ccapi_process_load_data_def
      ccapi_process_store_data_def ccapi_process_encrypt_gcm_def ccapi_process_decrypt_gcm_def split: option.splits prod.splits)

text \<open>
  No request of the service is undefined: the command line has its invariant, the pings the
  connector answers are waiting, and a start accepted the encryption.
\<close>

lemma sm_request_defined:
  fixes d :: "'w sm_state"
  assumes "os_locks os tokens" and inv: "cli_inv tokens realloc thl \<lparr>cy_data = sm_cli d, cy_world = w, cy_phase = phase\<rparr>"
    and given: "encryption_given d" and ok: "sm_request_ok tokens request d w phase"
  shows "\<exists>status request' d' w'. ccapi_sm_service_handler os realloc request d w = Inr (status, request', d', w')"
proof -
  let ?s = "\<lparr>cy_data = sm_cli d, cy_world = w, cy_phase = phase\<rparr>"
  have step: "\<exists>s'. cli_exec os realloc e ?s = Inr s'" if "cli_allowed tokens e ?s" for e
    using os_locks.cli_exec_inv [OF assms(1) inv that] by blast
  show ?thesis
  proof (cases request)
    case (connector_request_id_sm_cli_request r)
    then have "cli_allowed tokens (Cli_Request r) ?s" using ok by (simp add: sm_request_ok_def)
    then obtain s' where "cli_exec os realloc (Cli_Request r) ?s = Inr s'" using step by blast
    from cli_request_is_step [OF this] show ?thesis using connector_request_id_sm_cli_request by fast
  next
    case (connector_request_id_sm_cli_response r)
    then obtain a n where r: "r = cli_reply_request a n" "cli_allowed tokens (Cli_Reply a n) ?s"
      using ok by (auto simp: sm_request_ok_def)
    from step [OF r(2)] obtain s' where "cli_exec os realloc (Cli_Reply a n) ?s = Inr s'" ..
    from cli_response_is_step [OF this] show ?thesis using r(1) connector_request_id_sm_cli_response by fast
  next
    case (connector_request_id_sm_cli_status r)
    then obtain a st where r: "r = \<lparr>ct_user_context = Some a, ct_status = st\<rparr>" "cli_allowed tokens (Cli_Status a st) ?s"
      using ok by (auto simp: sm_request_ok_def)
    from step [OF r(2)] obtain s' where "cli_exec os realloc (Cli_Status a st) ?s = Inr s'" ..
    from cli_status_is_step [OF this] show ?thesis using r(1) connector_request_id_sm_cli_status by fast
  next
    case (connector_request_id_sm_cli_response_length r)
    then obtain a where "r = \<lparr>cl_user_context = Some a, cl_total_bytes = 0\<rparr>" "cs_sessions (sm_cli d) a \<noteq> None"
      using ok by (auto simp: sm_request_ok_def cli_allowed_def)
    then show ?thesis
      using connector_request_id_sm_cli_response_length
      by (auto simp: ccapi_sm_service_handler_def ccapi_process_cli_response_length_def)
  next
    case (connector_request_id_sm_ping_response r)
    then obtain a p lock where "pr_user_context r = Some a" "pd_pings (sm_pings d) a = Some p"
      "pi_ping_lock (pi_svc_ping p) = Some lock" using ok by (auto simp: sm_request_ok_def)
    then show ?thesis
      using connector_request_id_sm_ping_response
      by (auto simp: ccapi_sm_service_handler_def ccapi_process_ping_response_def get_ping_def Let_def
          split: prod.splits ccimp_status_t.splits)
  next
    case (connector_request_id_sm_encryption_load_data r)
    then show ?thesis using encryption_defined(1) [OF given, of r w] by (auto simp: ccapi_sm_service_handler_def)
  next
    case (connector_request_id_sm_encryption_store_data r)
    then show ?thesis using encryption_defined(2) [OF given, of r w] by (auto simp: ccapi_sm_service_handler_def)
  next
    case (connector_request_id_sm_encrypt_gcm r)
    then show ?thesis using encryption_defined(3) [OF given, of r w] by (auto simp: ccapi_sm_service_handler_def)
  next
    case (connector_request_id_sm_decrypt_gcm r)
    then show ?thesis using encryption_defined(4) [OF given, of r w] by (auto simp: ccapi_sm_service_handler_def)
  qed (simp_all add: ccapi_sm_service_handler_def ccapi_process_ping_request_def ccapi_process_unsequenced_response_def
      ccapi_process_pending_data_def ccapi_process_phone_provisioning_def ccapi_process_request_connect_def)
qed

end
