(* ===== verification/Dispatch.thy ===== *)
theory Dispatch
  imports Firmware FileService SendService DatapointSend ConnectorConfig Rci ShortMessages
begin

text \<open>
  \<open>ccapi_connector_callback\<close> of source/ccapi.c, through which the connector reaches every service:
  the class of a request chooses the handler. A request with its data is a \<open>connector_call\<close>; the
  state is the states of the services side by side, each with the fields of \<open>ccapi_data_t\<close> it uses.
\<close>

subsection \<open>The instance as the connector sees it\<close>

datatype 'q connector_call =
    connector_class_id_config config_request
  | connector_class_id_operating_system os_request
  | connector_class_id_network_tcp network_request
  | connector_class_id_network_udp network_request
  | connector_class_id_network_sms network_request
  | connector_class_id_status status_request
  | connector_class_id_file_system filesystem_request
  | connector_class_id_firmware firmware_request
  | connector_class_id_data_service data_service_request
  | connector_class_id_short_message sm_request
  | connector_class_id_data_point nat data_point_request
  | connector_class_id_remote_config connector_request_id_remote_config_t connector_remote_config_t
  | connector_class_id_streaming_cli connector_request_id_streaming_cli_service_t 'q
  | connector_class_id_other

text \<open>What the connector finds in the data of its request afterwards.\<close>

datatype 'q connector_reply = Config_Answer config_answer | Call_Data "'q connector_call"

text \<open>
  The layers below, the build, and the callbacks of the streaming command line. Transactions of
  data points are found by their \<open>user_context\<close>, an address.
\<close>

record ('q, 'w) connector_layers =
  ly_os :: "'w os"
  ly_os_extra :: "'w os_extra"
  ly_network :: "'w ccimp_network"
  ly_broadcast :: "'w \<Rightarrow> 'w"
  ly_fs :: "'w ccimp_fs"
  ly_libc_malloc :: "'w \<Rightarrow> bool \<times> 'w"
  ly_not_initialized :: ptr
  ly_hal_reset :: "'w \<Rightarrow> ccimp_status_t \<times> 'w"
  ly_from_user_abort :: "connector_firmware_status_t \<Rightarrow> bool"
  ly_realloc :: "size_t \<Rightarrow> size_t \<Rightarrow> 'w \<Rightarrow> ccimp_status_t \<times> 'w"
  ly_rci_build :: rci_build
  ly_streaming_cli :: "('q, 'w) streaming_cli_callbacks"

record 'w ccapi_instance =
  ci_config :: ccapi_config_t
  ci_run_lock :: ptr
  ci_transports :: "'w ccapi_transports"
  ci_file_system :: "'w fs_state"
  ci_firmware :: "'w fw_service"
  ci_receive :: "'w data_state"
  ci_send :: "'w send_state"
  ci_short_message :: "'w sm_state"
  ci_transactions :: "nat \<rightharpoonup> ccapi_dp_transaction_info_t"
  ci_rci :: "'w rci_service"

type_synonym ('q, 'w) connector_result =
  "(connector_callback_status_t \<times> 'q connector_reply \<times> 'w ccapi_instance \<times> 'w) run"

subsection \<open>The dispatcher\<close>

text \<open>\<open>'q\<close> is the type of the streaming command line's data. The last assertion changes no status.\<close>

definition with_transports ::
  "('r \<Rightarrow> 'q connector_call) \<Rightarrow> 'w ccapi_instance \<Rightarrow> (connector_callback_status_t \<times> 'r \<times> 'w ccapi_transports \<times> 'w) ub
     \<Rightarrow> ('q, 'w) connector_result" where
  "with_transports call y result =
     run_bind (Some result) (\<lambda>(status, r, t, w). Some (Inr (status, Call_Data (call r), y\<lparr>ci_transports := t\<rparr>, w)))"

definition ccapi_connector_callback ::
  "('q, 'w) connector_layers \<Rightarrow> 'q connector_call \<Rightarrow> 'w ccapi_instance \<Rightarrow> 'w \<Rightarrow> ('q, 'w) connector_result" where
  "ccapi_connector_callback ly call y w =
     (case call of
        connector_class_id_config r \<Rightarrow>
          run_bind (Some (ccapi_config_handler (ly_os ly) (ci_config y) r (ci_transports y) w)) (\<lambda>(status, answer, t, w1).
            Some (Inr (status, Config_Answer answer, y\<lparr>ci_transports := t\<rparr>, w1)))
      | connector_class_id_operating_system r \<Rightarrow>
          run_bind (Some (ccapi_os_handler (ly_os ly) (ly_os_extra ly) (ci_run_lock y) r w)) (\<lambda>(status, r1, w1).
            Some (Inr (status, Call_Data (connector_class_id_operating_system r1), y, w1)))
      | connector_class_id_network_tcp r \<Rightarrow>
          with_transports connector_class_id_network_tcp y
            (ccapi_network_handler (ly_network ly) (ly_broadcast ly) r (ci_transports y) w)
      | connector_class_id_network_udp r \<Rightarrow>
          with_transports connector_class_id_network_udp y (ccapi_network_udp_handler (ly_network ly) r (ci_transports y) w)
      | connector_class_id_network_sms r \<Rightarrow>
          with_transports connector_class_id_network_sms y (ccapi_network_sms_handler (ly_network ly) r (ci_transports y) w)
      | connector_class_id_status r \<Rightarrow>
          run_bind (Some (ccapi_status_handler (ly_broadcast ly) r (ci_transports y) w)) (\<lambda>(status, t, w1).
            Some (Inr (status, Call_Data call, y\<lparr>ci_transports := t\<rparr>, w1)))
      | connector_class_id_file_system r \<Rightarrow>
          run_bind (Some (ccapi_filesystem_handler (ly_os ly) (ly_fs ly) (ly_libc_malloc ly) (ly_not_initialized ly) r
              (ci_file_system y) w)) (\<lambda>(status, r1, d, w1).
            Some (Inr (status, Call_Data (connector_class_id_file_system r1), y\<lparr>ci_file_system := d\<rparr>, w1)))
      | connector_class_id_firmware r \<Rightarrow>
          run_bind (Some (ccapi_firmware_service_handler (ly_os ly) (ly_hal_reset ly) (ly_from_user_abort ly) r
              (ci_firmware y) w)) (\<lambda>(status, r1, d, w1).
            Some (Inr (status, Call_Data (connector_class_id_firmware r1), y\<lparr>ci_firmware := d\<rparr>, w1)))
      | connector_class_id_data_service r \<Rightarrow>
          run_bind (ccapi_data_service_handler (ly_os ly) (ly_fs ly) (ly_realloc ly) r (ci_receive y, ci_send y) w)
            (\<lambda>(status, r1, (receive, send), w1).
            Some (Inr (status, Call_Data (connector_class_id_data_service r1), y\<lparr>ci_receive := receive, ci_send := send\<rparr>, w1)))
      | connector_class_id_short_message r \<Rightarrow>
          run_bind (Some (ccapi_sm_service_handler (ly_os ly) (ly_realloc ly) r (ci_short_message y) w)) (\<lambda>(status, r1, d, w1).
            Some (Inr (status, Call_Data (connector_class_id_short_message r1), y\<lparr>ci_short_message := d\<rparr>, w1)))
      | connector_class_id_data_point a r \<Rightarrow>
          (case ci_transactions y a of
             None \<Rightarrow> Some (Inl Use_After_Free)
           | Some t \<Rightarrow>
               run_bind (Some (ccapi_data_points_handler (ly_os ly) r t w)) (\<lambda>(status, t1, w1).
                 Some (Inr (status, Call_Data call, y\<lparr>ci_transactions := (ci_transactions y)(a \<mapsto> t1)\<rparr>, w1))))
      | connector_class_id_remote_config r rc \<Rightarrow>
          run_bind (Some (ccapi_rci_handler (ly_rci_build ly) (ly_os ly) r rc (ci_rci y) w)) (\<lambda>(status, rc1, d, w1).
            Some (Inr (status, Call_Data (connector_class_id_remote_config r rc1), y\<lparr>ci_rci := d\<rparr>, w1)))
      | connector_class_id_streaming_cli r data \<Rightarrow>
          (case ccapi_streaming_cli_handler r data (ly_streaming_cli ly) w of (status, data1, w1) \<Rightarrow>
             Some (Inr (status, Call_Data (connector_class_id_streaming_cli r data1), y, w1)))
      | connector_class_id_other \<Rightarrow> Some (Inr (connector_callback_unrecognized, Call_Data call, y, w)))"

subsection \<open>What a request can change\<close>

lemma callback_keeps_configuration:
  assumes "ccapi_connector_callback ly call y w = Some (Inr (status, reply, y', w'))"
  shows "ci_config y' = ci_config y \<and> ci_run_lock y' = ci_run_lock y"
  using assms
  by (cases call) (auto simp: ccapi_connector_callback_def with_transports_def run_bind_Inr_iff split: option.splits prod.splits)

text \<open>A request of one service leaves the states of the others as they are.\<close>

lemma callback_changes_one_service:
  assumes "ccapi_connector_callback ly call y w = Some (Inr (status, reply, y', w'))"
  shows "(\<And>r. call \<noteq> connector_class_id_file_system r) \<Longrightarrow> ci_file_system y' = ci_file_system y"
    and "(\<And>r. call \<noteq> connector_class_id_firmware r) \<Longrightarrow> ci_firmware y' = ci_firmware y"
    and "(\<And>r. call \<noteq> connector_class_id_data_service r) \<Longrightarrow> ci_receive y' = ci_receive y \<and> ci_send y' = ci_send y"
    and "(\<And>r. call \<noteq> connector_class_id_short_message r) \<Longrightarrow> ci_short_message y' = ci_short_message y"
    and "(\<And>a r. call \<noteq> connector_class_id_data_point a r) \<Longrightarrow> ci_transactions y' = ci_transactions y"
    and "(\<And>r rc. call \<noteq> connector_class_id_remote_config r rc) \<Longrightarrow> ci_rci y' = ci_rci y"
  using assms
  by (cases call; auto simp: ccapi_connector_callback_def with_transports_def run_bind_Inr_iff split: option.splits prod.splits)+

end
