(* ===== verification/Logging.thy ===== *)
theory Logging
  imports InitData LinuxOs
begin

text \<open>
  The log of a debug build, source/ccapi_logging.c. The port prints the parts of a line
  (\<open>ccimp_hal_logging_vprintf\<close>); the lock of the log, which a start makes and a stop destroys
  (theories \<open>Init\<close> and \<open>InitData\<close>), keeps the lines of several threads apart. Formats are given with
  their arguments put in. The other theories leave out the calls of the log.
\<close>

datatype debug_t = debug_all | debug_beg | debug_mid | debug_end

type_synonym 'w logging_vprintf = "debug_t \<Rightarrow> string \<Rightarrow> 'w \<Rightarrow> 'w"

definition ccapi_logging_lock_acquire :: "'w os \<Rightarrow> logging_state \<Rightarrow> 'w \<Rightarrow> ccimp_status_t \<times> 'w" where
  "ccapi_logging_lock_acquire os lg w =
     (if logging_lock lg \<noteq> None then ccapi_lock_acquire os (logging_lock lg) w else (CCIMP_STATUS_ERROR, w))"

definition ccapi_logging_lock_release :: "'w os \<Rightarrow> logging_state \<Rightarrow> 'w \<Rightarrow> ccimp_status_t \<times> 'w" where
  "ccapi_logging_lock_release os lg w =
     (if logging_lock lg \<noteq> None then ccapi_lock_release os (logging_lock lg) w else (CCIMP_STATUS_ERROR, w))"

text \<open>The status of the lock is not looked at: without a lock the line is printed all the same.\<close>

definition logging_locked :: "'w os \<Rightarrow> logging_state \<Rightarrow> ('w \<Rightarrow> 'w) \<Rightarrow> 'w \<Rightarrow> 'w" where
  "logging_locked os lg print w =
     snd (ccapi_logging_lock_release os lg (print (snd (ccapi_logging_lock_acquire os lg w))))"

definition connector_debug_vprintf ::
  "'w os \<Rightarrow> 'w logging_vprintf \<Rightarrow> logging_state \<Rightarrow> debug_t \<Rightarrow> string \<Rightarrow> 'w \<Rightarrow> 'w" where
  "connector_debug_vprintf os vprintf lg part line = logging_locked os lg (vprintf part line)"

definition ccapi_logging_line :: "'w os \<Rightarrow> 'w logging_vprintf \<Rightarrow> logging_state \<Rightarrow> string \<Rightarrow> 'w \<Rightarrow> 'w" where
  "ccapi_logging_line os vprintf lg line w =
     (if build_debug os then logging_locked os lg (vprintf debug_all line) w else w)"

text \<open>\<open>%02X\<close>.\<close>

definition hex_digit :: "nat \<Rightarrow> char" where
  "hex_digit n = char_of (if n < 10 then 48 + n else 55 + n)"

definition hex_byte :: "u8 \<Rightarrow> string" where
  "hex_byte x = [hex_digit (unat x div 16), hex_digit (unat x mod 16)]"

primrec print_bytes :: "'w logging_vprintf \<Rightarrow> nat \<Rightarrow> u8 list \<Rightarrow> 'w \<Rightarrow> 'w" where
  "print_bytes vprintf i [] w = w"
| "print_bytes vprintf i (x # xs) w =
     (let w1 = (if i mod 16 = 0 then vprintf debug_mid [CHR 0x0A] w else w)
      in print_bytes vprintf (Suc i) xs (vprintf debug_mid ('' '' @ hex_byte x) w1))"

text \<open>\<open>content\<close> is what is at \<open>buffer\<close>; it must hold \<open>length\<close> bytes.\<close>

definition ccapi_logging_print_buffer ::
  "'w os \<Rightarrow> 'w logging_vprintf \<Rightarrow> logging_state \<Rightarrow> string \<Rightarrow> u8 list \<Rightarrow> size_t \<Rightarrow> 'w \<Rightarrow> 'w ub" where
  "ccapi_logging_print_buffer os vprintf lg label content n w =
     (if \<not> build_debug os then Inr w
      else if length content < unat n then Inl Out_Of_Bounds
      else Inr (logging_locked os lg
             (\<lambda>w1. vprintf debug_end [] (print_bytes vprintf 0 (take (unat n) content) (vprintf debug_beg (label @ '':'') w1))) w))"

subsection \<open>What is printed\<close>

lemma nibbles: "unat (x :: u8) div 16 < 16" "unat x mod 16 < 16"
proof -
  have "unat x < 2 ^ 8" using unsigned_less [of x, where ?'a = nat] by simp
  then show "unat x div 16 < 16" by simp
qed simp

lemma hex_digit_inj: "m < 16 \<Longrightarrow> n < 16 \<Longrightarrow> hex_digit m = hex_digit n \<Longrightarrow> m = n"
proof -
  assume "m < 16" "n < 16" "hex_digit m = hex_digit n"
  then have "(of_char (hex_digit m) :: nat) = of_char (hex_digit n)" by simp
  then show "m = n" using \<open>m < 16\<close> \<open>n < 16\<close> by (auto simp: hex_digit_def of_char_of split: if_splits)
qed

text \<open>The two digits of a byte are the byte.\<close>

lemma hex_byte_inj: "hex_byte x = hex_byte y \<longleftrightarrow> x = y"
proof
  assume "hex_byte x = hex_byte y"
  then have "unat x div 16 = unat y div 16" "unat x mod 16 = unat y mod 16"
    using hex_digit_inj nibbles by (auto simp: hex_byte_def)
  then have "unat x = unat y" by (metis div_mult_mod_eq)
  then show "x = y" by (rule unsigned_word_eqI)
qed simp

text \<open>The parts that are printed for the bytes from number \<open>i\<close> on.\<close>

primrec byte_parts :: "nat \<Rightarrow> u8 list \<Rightarrow> (debug_t \<times> string) list" where
  "byte_parts i [] = []"
| "byte_parts i (x # xs) =
     (if i mod 16 = 0 then [(debug_mid, [CHR 0x0A])] else []) @ (debug_mid, '' '' @ hex_byte x) # byte_parts (Suc i) xs"

lemma print_bytes_parts:
  "print_bytes vprintf i xs w = fold (\<lambda>(part, s). vprintf part s) (byte_parts i xs) w"
  by (induction xs arbitrary: i w) simp_all

lemma byte_parts_inj: "byte_parts i xs = byte_parts i ys \<longleftrightarrow> xs = ys"
proof (induction xs arbitrary: i ys)
  case Nil
  then show ?case by (cases ys) auto
next
  case (Cons x xs)
  then show ?case by (cases ys) (auto simp: hex_byte_inj)
qed

text \<open>
  The dump of a buffer: with the lock of the log free, the lock is taken, the parts are printed
  (from which the bytes can be read back, by the lemma above), and the lock is free again.
\<close>

lemma print_buffer_effect:
  fixes w :: "'m linux_scheme"
  assumes "logging_lock lg = Some l" and "lx_sems w l = Some (Suc k)" and "unat n \<le> length content"
    and "\<And>part s v. lx_sems (vprintf part s v) = lx_sems v"
  shows "\<exists>w1 w2. ccapi_logging_print_buffer (linux_os True) vprintf lg label content n w = Inr w2
    \<and> w2 = w1\<lparr>lx_sems := lx_sems w\<rparr>
    \<and> w1 = fold (\<lambda>(part, s). vprintf part s)
             ((debug_beg, label @ '':'') # byte_parts 0 (take (unat n) content) @ [(debug_end, [])])
             (w\<lparr>lx_sems := (lx_sems w)(l \<mapsto> k)\<rparr>)"
proof -
  let ?w0 = "w\<lparr>lx_sems := (lx_sems w)(l \<mapsto> k)\<rparr>"
  let ?ps = "(debug_beg, label @ '':'') # byte_parts 0 (take (unat n) content) @ [(debug_end, [])]"
  let ?w1 = "fold (\<lambda>(part, s). vprintf part s) ?ps ?w0"
  have keeps: "lx_sems (fold (\<lambda>(part, s). vprintf part s) ps v) = lx_sems v" for ps and v :: "'m linux_scheme"
    by (induction ps arbitrary: v) (auto simp: assms(4))
  have acquired: "snd (ccapi_logging_lock_acquire (linux_os True) lg w) = ?w0"
    using assms(1,2) by (simp add: ccapi_logging_lock_acquire_def ccapi_lock_acquire_def ccimp_os_lock_acquire_def)
  have "lx_sems ?w1 = (lx_sems w)(l \<mapsto> k)" using keeps [of ?ps ?w0] by (simp del: fold_append)
  moreover have "(lx_sems w)(l \<mapsto> k, l \<mapsto> Suc k) = lx_sems w" using assms(2) by auto
  ultimately have released: "snd (ccapi_logging_lock_release (linux_os True) lg ?w1) = ?w1\<lparr>lx_sems := lx_sems w\<rparr>"
    using assms(1)
    by (simp add: ccapi_logging_lock_release_def ccapi_lock_release_def ccimp_os_lock_release_def del: fold_append)
  show ?thesis
    using assms(3) acquired released
    by (intro exI [of _ ?w1] exI [of _ "?w1\<lparr>lx_sems := lx_sems w\<rparr>"])
      (simp add: ccapi_logging_print_buffer_def logging_locked_def print_bytes_parts)
qed

end
