(* ===== verification/Spec2Isabelle.thy ===== *)
theory Spec2Isabelle
  imports FirmwareControl FileServiceClaims ReceiveSystem DatapointsBinary DatapointClaims DatapointHint
    TransportClaims InitClaims RciErrors PingClaims CliClaims ShortMessageProps Dispatch
    Logging
begin

text \<open>
  A model of CCAPI, the C library of this repository that connects a device to a cloud, and the
  theorems that make its services correct.

  \<^bold>\<open>The program.\<close> An application calls the \<open>ccapi_*\<close> functions (include/ccapi). They and
  the callbacks of the connector state machine (the CCFSM, a submodule) share one structure,
  \<open>ccapi_data_t\<close> of source/ccapi_definitions.h. The CCFSM runs on a thread of its own: it is
  started with \<open>connector_initiate_action\<close> and answers through \<open>ccapi_connector_callback\<close> of
  source/ccapi.c, which dispatches every request to the handler of its service. The operating
  system, the file system and the network are the \<open>ccimp_*\<close> functions an integrator supplies.
  The firmware, the receive service, the remote configuration and the command line have a thread
  of their own, which a lock wakes up.

  \<^bold>\<open>How it is modelled.\<close> Every component is a shallow embedding: a record for its state, a
  datatype for each enumeration, a definition for each function, with the order of its calls.
  \<^item> The layers that are not in the repository are arguments: the record \<open>os\<close> (memory, locks,
    yield), the record \<open>ccimp_fs\<close> (files and directories), \<open>initiate\<close> (the CCFSM), the callbacks
    of the user. They act on an arbitrary world \<open>'w\<close>, which each operation threads through its
    calls; nothing is assumed of them but what a theorem states.
  \<^item> A defined run yields \<open>Inr\<close>, a run into undefined behaviour of C \<open>Inl\<close> of a \<open>fault\<close> (NULL
    or freed memory, out of bounds, uninitialised, a wild free, a wrong variadic argument). An
    operation that may wait for ever yields an option, \<open>None\<close> for a run that does not return
    (\<open>run\<close>). Waiting loops are \<open>retry_loop\<close>, over \<open>while_option\<close>; walks along \<open>next\<close> pointers
    are \<open>partial_function (option)\<close>. No loop has fuel, so no bound has to be chosen.
  \<^item> Heap objects the C code passes around by address are cells of finite maps from addresses,
    with a counter for fresh ones; freeing removes the cell.
  \<^item> \<open>ASSERT_MSG\<close> is empty in a release build (source/ccapi_definitions.h), with the calls in
    its argument: \<open>build_debug\<close> of \<open>os\<close> says which build it is, and \<open>ASSERT_MSG_GOTO\<close> jumps in
    both.
  \<^item> Integers have the width of an LP64 build and wrap around. The lengths of names that the two
    registries keep in an \<open>unsigned int\<close> are natural numbers: names are shorter than 4 GiB.

  \<^bold>\<open>Theories, in the order of the imports.\<close>
  \<^item> Prelude: integers, shared enumerations, faults, byte buffers and C strings. Core: the
    wrappers of source/ccapi.c around memory, locks and the CCFSM. LinuxOs: the contract of locks
    and memory as the locale \<open>os_locks\<close>, interpreted on the Linux port (tests/ccimp/ccimp_os.c).
    Registry: the locale of a list of entries found by a key, that refines a finite map. Streams:
    the locale \<open>chunked_source\<close> of a block handed out in pieces.
  \<^item> Firmware, FirmwareStream, FirmwareControl (source/ccapi_firmware_update_handler.c): the
    requests of the CCFSM that fill a ring of chunk buffers and the thread that empties it; the
    interleaving of the two as a step relation with the invariant that says which chunk of the
    image each slot holds; start, complete and abort.
  \<^item> CcimpFs, VirtualDirs (source/ccapi_filesystem.c), FileService, FileServiceProps,
    FileServiceFrame, FileServiceMemory, FileServiceClaims (source/ccapi_filesystem_handler.c and
    the file functions of source/ccapi.c): virtual directories as a registry, every request of the
    service, what each leaves alone, the life of its handles, whose memory it allocates and frees,
    the balance of its lock.
  \<^item> ReceiveTargets (source/ccapi_receive.c), ReceiveService, ReceiveReply, ReceiveSystem (the
    receive half of source/ccapi_data_handler.c): targets as a registry; sessions, packets and
    replies; the requests of the CCFSM and the steps of the receive thread in any order, with
    the invariant of the whole.
  \<^item> SendService, Send, SendProps (the send half of source/ccapi_data_handler.c and
    source/ccapi_send.c), DatapointsBinary (source/ccapi_datapoints_binary.c): the requests for a
    send, the functions that start one and wait for it, and the binary points built on them.
  \<^item> DatapointFormat, Datapoints, DatapointSend (source/ccapi_datapoints.c and its handler in
    source/ccapi.c), DatapointFormatProps, DatapointProps, DatapointSteps, DatapointOps,
    DatapointClaims, DatapointHint: format strings, collections of streams of points, sending
    them; the invariant of a collection, what keeps it and which operations return.
  \<^item> Transports, TransportsTcp (source/ccapi_transport_*.c), Connector, ConnectorConfig (the
    configuration, operating system, network and status requests of source/ccapi.c),
    TransportProps, TransportClaims: starting and stopping the transports, what the connector is
    told about them, and what a start that failed leaves.
  \<^item> InitData, Init, InitStop (source/ccapi_init.c and the connector's thread in source/ccapi.c),
    InitProps, InitStart, InitFree, InitClaims: starting and stopping an instance. The blocks of
    an instance are counted: a start allocates what it then owns, a stop frees just that, its
    transports included. A new block is arbitrary but for what the code writes to it.
  \<^item> RciData, Rci (source/ccapi_rci_handler.c, include/ccapi/ccapi_rci.h), RciSystem, RciClaims,
    RciErrors: the remote configuration. Requests of the connector and the two steps of the thread
    (it calls a callback; it stores what the callback returned) in any order refine an automaton
    without threads; what a callback is told of its place; enumerations kept as strings; what a
    cancellation at the wrong moment, or a callback that is missing, does.
  \<^item> Ping, PingClaims (source/ccapi_send_ping.c): a ping over the connector, its response and the
    end of its block and lock.
  \<^item> Cli, CliSystem, CliClaims, ShortMessages, ShortMessageProps (source/ccapi_sm_handler.c and
    source/ccapi_streaming_cli.c): the sessions of the command line and its thread, with the
    invariant of their interleavings; the short messages for the user, the encryption and the
    handler of them all; the streaming command line.
  \<^item> Dispatch (\<open>ccapi_connector_callback\<close>): the handlers of all services on one state, and that a
    request of a service changes that service only. Logging (source/ccapi_logging.c): lines and
    dumps under the lock of the log; a dump says every byte.

  \<^bold>\<open>What is shown.\<close> For the firmware, receive, data point, remote configuration and command
  line components an invariant holds in every reachable state and gives the contract: the user's
  callback gets the image, or the whole request, in order and once; points have the types their
  stream declares; an answer carries what its callback returned. Registries refine finite maps;
  blocks handed out in pieces are read back whole; formats are the printed argument lists. Error
  paths are theorems as well, those that are wrong in the code included: what is leaked, read
  after it was freed, or never released. Each property has a witness that applies it to a
  concrete run.

  \<^bold>\<open>Not modelled.\<close> The calls of the log in the other files, with the texts that are only
  logged; builds without a service (the conditional compilation of the handlers); the sample
  programs and unit tests.
\<close>

end
